(* ===== verification/Engine_Prelude.thy ===== *)
theory Engine_Prelude
  imports
    Complex_Main
    "HOL-Library.Sublist"
    "HOL-Library.Char_ord"
    "HOL-Library.List_Lexorder"
    "HOL-Library.Product_Lexorder"
begin

text \<open>
  The shared base of the development: the pieces of JavaScript the engine relies on
  (string methods, \<open>parseInt\<close>, decimal printing of numbers), the error values that are
  thrown, and the monad in which an \<open>async\<close> function runs: a function from the state of
  the world to a result (an error or a value) and the next state. An error keeps the
  state reached so far, as an exception does.

  JavaScript strings are HOL strings of 8-bit characters; case conversion covers ASCII,
  which is all that addresses, hashes, keys and error messages use. Numbers that hold
  integers (nonces, chain ids, block numbers) are \<^typ>\<open>int\<close>: the model is exact below
  the 53 bits in which JavaScript numbers are.
\<close>

named_theorems io_simps \<open>equations that run the error-and-state monad\<close>
named_theorems js_simps \<open>facts on the JavaScript string and number functions\<close>

section \<open>Error values\<close>

text \<open>
  A thrown value is an object with optional \<open>message\<close>, \<open>code\<close> and \<open>statusCode\<close>
  properties (an \<open>Error\<close>, an ethers error, or the plain object of
  \<open>createCustomError\<close>), or a bare string.
\<close>

datatype js_error =
    JsObject (err_message: "string option") (err_code: "string option") (err_status: "int option")
  | JsString string

abbreviation js_Error :: "string \<Rightarrow> js_error" where
  "js_Error m \<equiv> JsObject (Some m) None None"

abbreviation js_TypeError :: "js_error" where
  "js_TypeError \<equiv> JsObject (Some ''TypeError'') None None"

abbreviation js_AssertionError :: "js_error" where
  "js_AssertionError \<equiv> JsObject (Some ''AssertionError'') (Some ''ERR_ASSERTION'') None"

section \<open>The monad of asynchronous functions\<close>

type_synonym ('s, 'a) io = "'s \<Rightarrow> (js_error + 'a) \<times> 's"

definition ret :: "'a \<Rightarrow> ('s, 'a) io" where
  "ret a = (\<lambda>s. (Inr a, s))"

definition throw :: "js_error \<Rightarrow> ('s, 'a) io" where
  "throw e = (\<lambda>s. (Inl e, s))"

definition bnd :: "('s, 'a) io \<Rightarrow> ('a \<Rightarrow> ('s, 'b) io) \<Rightarrow> ('s, 'b) io" where
  "bnd m f = (\<lambda>s. case m s of (r, s') \<Rightarrow> (case r of Inl e \<Rightarrow> (Inl e, s') | Inr a \<Rightarrow> f a s'))"

definition try_catch :: "('s, 'a) io \<Rightarrow> (js_error \<Rightarrow> ('s, 'a) io) \<Rightarrow> ('s, 'a) io" where
  "try_catch m h = (\<lambda>s. case m s of (r, s') \<Rightarrow> (case r of Inl e \<Rightarrow> h e s' | Inr a \<Rightarrow> (Inr a, s')))"

text \<open>The result of a call of code outside the engine, which leaves the state alone.\<close>

definition lift_res :: "js_error + 'a \<Rightarrow> ('s, 'a) io" where
  "lift_res r = (\<lambda>s. (r, s))"

text \<open>A command whose error is collected instead of thrown (one entry of a pipeline).\<close>

definition settle :: "('s, 'a) io \<Rightarrow> ('s, js_error + 'a) io" where
  "settle m = (\<lambda>s. case m s of (r, s') \<Rightarrow> (Inr r, s'))"

text \<open>A \<open>for (const x of xs)\<close> loop whose body is asynchronous.\<close>

fun for_each :: "'a list \<Rightarrow> ('a \<Rightarrow> ('s, unit) io) \<Rightarrow> ('s, unit) io" where
  "for_each [] f = ret ()"
| "for_each (x # xs) f = bnd (f x) (\<lambda>_. for_each xs f)"

lemma ret_apply [io_simps, simp]: "ret a s = (Inr a, s)"
  by (simp add: ret_def)

lemma throw_apply [io_simps, simp]: "throw e s = (Inl e, s)"
  by (simp add: throw_def)

lemma lift_res_apply [io_simps, simp]: "lift_res r s = (r, s)"
  by (simp add: lift_res_def)

lemma bnd_apply [io_simps]:
  "bnd m f s = (case fst (m s) of Inl e \<Rightarrow> (Inl e, snd (m s)) | Inr a \<Rightarrow> f a (snd (m s)))"
  by (cases "m s") (simp add: bnd_def split: sum.split)

lemma try_catch_apply [io_simps]:
  "try_catch m h s = (case fst (m s) of Inl e \<Rightarrow> h e (snd (m s)) | Inr a \<Rightarrow> (Inr a, snd (m s)))"
  by (cases "m s") (simp add: try_catch_def split: sum.split)

lemma settle_apply [io_simps]: "settle m s = (Inr (fst (m s)), snd (m s))"
  by (cases "m s") (simp add: settle_def)

lemma bnd_ret_left: "bnd (ret a) f = f a"
  by (simp add: bnd_def fun_eq_iff)

lemma bnd_assoc: "bnd (bnd m f) g = bnd m (\<lambda>a. bnd (f a) g)"
  by (simp add: bnd_apply fun_eq_iff split: sum.split)

lemma for_each_append:
  "for_each (xs @ ys) f = bnd (for_each xs f) (\<lambda>_. for_each ys f)"
proof (induction xs)
  case Nil
  show ?case by (simp only: append_Nil for_each.simps bnd_ret_left)
next
  case (Cons x xs)
  then show ?case by (simp add: bnd_assoc)
qed

text \<open>
  The invariant rule of loops: what every iteration keeps and no iteration throws, the loop
  keeps.
\<close>

lemma for_each_invariant:
  assumes "P s"
    and "\<And>x s. x \<in> set xs \<Longrightarrow> P s \<Longrightarrow> fst (f x s) = Inr () \<and> P (snd (f x s))"
  shows "fst (for_each xs f s) = Inr () \<and> P (snd (for_each xs f s))"
  using assms
proof (induction xs arbitrary: s)
  case Nil
  then show ?case by simp
next
  case (Cons x xs)
  then have "fst (f x s) = Inr ()" "P (snd (f x s))" by auto
  then show ?case using Cons.IH [of "snd (f x s)"] Cons.prems(2) by (simp add: bnd_apply)
qed

section \<open>Strings\<close>

definition lower_char :: "char \<Rightarrow> char" where
  "lower_char c = (if of_char c \<in> {65..90::nat} then char_of (of_char c + 32 :: nat) else c)"

definition toLowerCase :: "string \<Rightarrow> string" where
  "toLowerCase s = map lower_char s"

text \<open>\<open>s.split(c)\<close> for a separator of one character: never the empty list.\<close>

fun js_split :: "char \<Rightarrow> string \<Rightarrow> string list" where
  "js_split c [] = [[]]"
| "js_split c (x # xs) =
     (if x = c then [] # js_split c xs
      else (case js_split c xs of [] \<Rightarrow> [[x]] | y # ys \<Rightarrow> (x # y) # ys))"

text \<open>\<open>arr[i]\<close>: undefined (\<^const>\<open>None\<close>) out of range.\<close>

definition nth_opt :: "'a list \<Rightarrow> nat \<Rightarrow> 'a option" where
  "nth_opt xs i = (if i < length xs then Some (xs ! i) else None)"

fun js_includes :: "string \<Rightarrow> string \<Rightarrow> bool" where
  "js_includes pat [] = (pat = [])"
| "js_includes pat (c # cs) = (prefix pat (c # cs) \<or> js_includes pat cs)"

definition js_startsWith :: "string \<Rightarrow> string \<Rightarrow> bool" where
  "js_startsWith pat s = prefix pat s"

definition js_endsWith :: "string \<Rightarrow> string \<Rightarrow> bool" where
  "js_endsWith pat s = suffix pat s"

text \<open>A string is truthy when it is defined and not empty.\<close>

definition truthy :: "string option \<Rightarrow> bool" where
  "truthy s = (case s of None \<Rightarrow> False | Some t \<Rightarrow> t \<noteq> [])"

lemma truthy_simps [simp]: "truthy None = False" "truthy (Some t) = (t \<noteq> [])"
  by (simp_all add: truthy_def)

lemma length_lower [simp]: "length (toLowerCase s) = length s"
  by (simp add: toLowerCase_def)

lemma toLowerCase_Nil [simp]: "toLowerCase [] = []" "toLowerCase s = [] \<longleftrightarrow> s = []"
  by (simp_all add: toLowerCase_def)

lemma lower_char_idem: "lower_char (lower_char c) = lower_char c"
  by (auto simp: lower_char_def)

lemma toLowerCase_idem [js_simps]: "toLowerCase (toLowerCase s) = toLowerCase s"
  by (simp add: toLowerCase_def lower_char_idem)

lemma js_split_not_Nil [simp]: "js_split c s \<noteq> []"
  by (cases s) (auto split: list.split)

lemma js_split_none [js_simps]: "c \<notin> set s \<Longrightarrow> js_split c s = [s]"
  by (induction s) auto

lemma js_split_append [js_simps]:
  "c \<notin> set s \<Longrightarrow> js_split c (s @ c # t) = s # js_split c t"
  by (induction s) auto

section \<open>Decimal numbers\<close>

definition digit_char :: "nat \<Rightarrow> char" where
  "digit_char d = char_of (48 + d)"

fun show_nat :: "nat \<Rightarrow> string" where
  "show_nat n = (if n < 10 then [digit_char n] else show_nat (n div 10) @ [digit_char (n mod 10)])"

declare show_nat.simps [simp del]

text \<open>\<open>n.toString()\<close> on an integer.\<close>

definition show_int :: "int \<Rightarrow> string" where
  "show_int n = (if n < 0 then CHR ''-'' # show_nat (nat (- n)) else show_nat (nat n))"

definition digit_value :: "nat \<Rightarrow> char \<Rightarrow> nat option" where
  "digit_value base c =
     (let x = (of_char c :: nat);
          v = (if x \<in> {48..57} then Some (x - 48)
               else if x \<in> {97..122} then Some (x - 87)
               else if x \<in> {65..90} then Some (x - 55) else None)
      in case v of None \<Rightarrow> None | Some d \<Rightarrow> if d < base then Some d else None)"

definition digits_value :: "nat \<Rightarrow> string \<Rightarrow> nat" where
  "digits_value base s = foldl (\<lambda>a c. a * base + the (digit_value base c)) 0 s"

definition js_space :: "char \<Rightarrow> bool" where
  "js_space c = ((of_char c :: nat) \<in> {9, 10, 11, 12, 13, 32, 160})"

text \<open>
  \<open>parseInt(s)\<close> without a radix: white space, a sign, an optional \<open>0x\<close> that selects
  base 16, then the longest run of digits; \<^const>\<open>None\<close> is \<open>NaN\<close>.
\<close>

definition parseInt :: "string \<Rightarrow> int option" where
  "parseInt s =
     (let t = dropWhile js_space s;
          neg = (t \<noteq> [] \<and> hd t = CHR ''-'');
          u = (if t \<noteq> [] \<and> (hd t = CHR ''-'' \<or> hd t = CHR ''+'') then tl t else t);
          hex = (prefix ''0x'' u \<or> prefix ''0X'' u);
          base = (if hex then 16 else 10);
          v = (if hex then drop 2 u else u);
          ds = takeWhile (\<lambda>c. digit_value base c \<noteq> None) v
      in if ds = [] then None
         else Some (if neg then - int (digits_value base ds) else int (digits_value base ds)))"

lemma digit_value_digit_char [simp]: "d < 10 \<Longrightarrow> digit_value 10 (digit_char d) = Some d"
  by (simp add: digit_value_def digit_char_def)

lemma show_nat_not_Nil [simp]: "show_nat n \<noteq> []"
  by (subst show_nat.simps) simp

lemma show_nat_digits: "c \<in> set (show_nat n) \<Longrightarrow> \<exists>d < 10. c = digit_char d"
proof (induction n rule: show_nat.induct)
  case (1 n)
  have "\<exists>d < 10. digit_char (n mod 10) = digit_char d"
    by (rule exI [of _ "n mod 10"]) simp
  with 1 show ?case
    by (cases "n < 10") (auto simp: show_nat.simps [of n])
qed

lemma digit_char_neq:
  "d < 10 \<Longrightarrow> digit_char d \<noteq> CHR ''x''" "d < 10 \<Longrightarrow> digit_char d \<noteq> CHR ''X''"
  "d < 10 \<Longrightarrow> digit_char d \<noteq> CHR '':''" "d < 10 \<Longrightarrow> digit_char d \<noteq> CHR ''-''"
  "d < 10 \<Longrightarrow> digit_char d \<noteq> CHR ''+''" "d < 10 \<Longrightarrow> \<not> js_space (digit_char d)"
  "d < 10 \<Longrightarrow> digit_char d \<noteq> CHR ''.''" "d < 10 \<Longrightarrow> digit_char d \<noteq> CHR ''*''"
proof -
  assume d: "d < 10"
  have of_digit: "(of_char (digit_char d) :: nat) = 48 + d"
    using d by (simp add: digit_char_def)
  show "digit_char d \<noteq> CHR ''x''" "digit_char d \<noteq> CHR ''X''" "digit_char d \<noteq> CHR '':''"
    "digit_char d \<noteq> CHR ''-''" "digit_char d \<noteq> CHR ''+''" "\<not> js_space (digit_char d)"
    "digit_char d \<noteq> CHR ''.''" "digit_char d \<noteq> CHR ''*''"
    using of_digit d by (auto simp: js_space_def)
qed

lemma show_nat_notin [js_simps]:
  "CHR '':'' \<notin> set (show_nat n)" "CHR ''-'' \<notin> set (show_nat n)" "CHR ''.'' \<notin> set (show_nat n)"
  "CHR ''*'' \<notin> set (show_nat n)"
  using show_nat_digits digit_char_neq by fastforce+

lemma show_int_notin [js_simps]:
  "CHR '':'' \<notin> set (show_int n)" "CHR ''.'' \<notin> set (show_int n)" "CHR ''*'' \<notin> set (show_int n)"
  by (auto simp: show_int_def js_simps)

lemma show_int_not_Nil [simp]: "show_int n \<noteq> []"
  by (simp add: show_int_def)

lemma digits_value_append:
  "digits_value b (s @ [c]) = digits_value b s * b + the (digit_value b c)"
  by (simp add: digits_value_def)

lemma digits_value_show_nat: "digits_value 10 (show_nat n) = n"
proof (induction n rule: show_nat.induct)
  case (1 n)
  show ?case
  proof (cases "n < 10")
    case True
    then show ?thesis by (simp add: show_nat.simps [of n] digits_value_def)
  next
    case False
    then show ?thesis using 1 by (simp add: show_nat.simps [of n] digits_value_append)
  qed
qed

lemma takeWhile_show_nat: "takeWhile (\<lambda>c. digit_value 10 c \<noteq> None) (show_nat n) = show_nat n"
  using show_nat_digits by (fastforce simp: takeWhile_eq_all_conv simp del: not_None_eq)

lemma show_nat_hd_digit: "\<exists>d < 10. hd (show_nat n) = digit_char d"
  using show_nat_digits [of "hd (show_nat n)" n] by simp

lemma show_nat_not_hex: "\<not> prefix ''0x'' (show_nat n)" "\<not> prefix ''0X'' (show_nat n)"
proof -
  have "CHR ''x'' \<notin> set (show_nat n)" "CHR ''X'' \<notin> set (show_nat n)"
    using show_nat_digits digit_char_neq by fastforce+
  then show "\<not> prefix ''0x'' (show_nat n)" "\<not> prefix ''0X'' (show_nat n)"
    using set_mono_prefix by fastforce+
qed

lemma dropWhile_space_show_nat: "dropWhile js_space (show_nat n) = show_nat n"
  using show_nat_hd_digit [of n] digit_char_neq(6)
  by (cases "show_nat n") auto

lemma parseInt_show_int [simp]: "parseInt (show_int n) = Some n"
proof (cases "n < 0")
  case True
  then have "dropWhile js_space (show_int n) = CHR ''-'' # show_nat (nat (- n))"
    by (simp add: show_int_def js_space_def)
  with True show ?thesis
    by (simp add: parseInt_def Let_def show_nat_not_hex takeWhile_show_nat
        digits_value_show_nat del: not_None_eq)
next
  case False
  obtain d where d: "d < 10" "hd (show_nat (nat n)) = digit_char d"
    using show_nat_hd_digit by blast
  then have "hd (show_nat (nat n)) \<noteq> CHR ''-''" "hd (show_nat (nat n)) \<noteq> CHR ''+''"
    using digit_char_neq by metis+
  with False show ?thesis
    by (simp add: parseInt_def Let_def show_int_def dropWhile_space_show_nat show_nat_not_hex
        takeWhile_show_nat digits_value_show_nat del: not_None_eq)
qed

lemma show_int_inject [simp]: "show_int m = show_int n \<longleftrightarrow> m = n"
  by (metis option.inject parseInt_show_int)

section \<open>Numbers that may be NaN, templates, results of maps\<close>

type_synonym js_num = "int option"

text \<open>How a value prints inside a template string.\<close>

definition show_num :: "js_num \<Rightarrow> string" where
  "show_num n = (case n of None \<Rightarrow> ''NaN'' | Some i \<Rightarrow> show_int i)"

definition show_opt :: "string option \<Rightarrow> string" where
  "show_opt s = (case s of None \<Rightarrow> ''undefined'' | Some t \<Rightarrow> t)"

text \<open>\<open>parseInt\<close> of a value that may be undefined.\<close>

definition parseInt_opt :: "string option \<Rightarrow> js_num" where
  "parseInt_opt s = (case s of None \<Rightarrow> None | Some t \<Rightarrow> parseInt t)"

text \<open>\<open>xs.map(f)\<close> for a function that may throw: the first error is the result.\<close>

fun map_res :: "('a \<Rightarrow> js_error + 'b) \<Rightarrow> 'a list \<Rightarrow> js_error + 'b list" where
  "map_res f [] = Inr []"
| "map_res f (x # xs) = (case f x of Inl e \<Rightarrow> Inl e
     | Inr y \<Rightarrow> (case map_res f xs of Inl e \<Rightarrow> Inl e | Inr ys \<Rightarrow> Inr (y # ys)))"

lemma show_num_simps [simp]: "show_num (Some n) = show_int n" "show_num None = ''NaN''"
  by (simp_all add: show_num_def)

lemma show_opt_simps [simp]: "show_opt (Some s) = s" "show_opt None = ''undefined''"
  by (simp_all add: show_opt_def)

lemma parseInt_opt_simps [simp]: "parseInt_opt (Some s) = parseInt s" "parseInt_opt None = None"
  by (simp_all add: parseInt_opt_def)

lemma map_res_Inr: "(\<And>x. x \<in> set xs \<Longrightarrow> f x = Inr (g x)) \<Longrightarrow> map_res f xs = Inr (map g xs)"
  by (induction xs) auto

end
