(* ===== verification/Redis_Server.thy ===== *)
theory Redis_Server
  imports Engine_Prelude "HOL-Library.AList"
begin

text \<open>
  Redis is a service the engine calls; its code is not part of the repository. It is a
  parameter of the model: a record of commands over a state of any type. What the engine
  relies on is stated in the locale \<open>redis_server\<close>: a \<open>view\<close> of the state as a
  keyspace, and for every command its documented effect on the value stored at a key. The
  last section gives one server that keeps these laws, an association list in memory, so
  that the hypotheses of the properties are known to be satisfiable.
\<close>

section \<open>Values and the commands on one value\<close>

text \<open>
  A sorted set is the list of its (score, member) pairs in Redis order: by score, then by
  member. Collections that become empty are removed from the keyspace.
\<close>

datatype rval =
    RString string
  | RSet "string set"
  | RZSet "(rat \<times> string) list"
  | RList "string list"

definition zset_ok :: "(rat \<times> string) list \<Rightarrow> bool" where
  "zset_ok z \<longleftrightarrow> sorted z \<and> distinct (map snd z)"

fun wf_rval :: "rval \<Rightarrow> bool" where
  "wf_rval (RString s) = True"
| "wf_rval (RSet S) = (finite S \<and> S \<noteq> {})"
| "wf_rval (RZSet z) = (zset_ok z \<and> z \<noteq> [])"
| "wf_rval (RList xs) = (xs \<noteq> [])"

type_synonym 'a command = "rval option \<Rightarrow> (js_error + 'a) \<times> rval option"
type_synonym 'a query = "rval option \<Rightarrow> js_error + 'a"

definition wrongtype :: js_error where
  "wrongtype = js_Error ''WRONGTYPE Operation against a key holding the wrong kind of value''"

definition wrong_arguments :: js_error where
  "wrong_arguments = js_Error ''ERR wrong number of arguments''"

definition not_integer :: js_error where
  "not_integer = js_Error ''ERR value is not an integer or out of range''"

definition norm_set :: "string set \<Rightarrow> rval option" where
  "norm_set S = (if S = {} then None else Some (RSet S))"

definition norm_zset :: "(rat \<times> string) list \<Rightarrow> rval option" where
  "norm_zset z = (if z = [] then None else Some (RZSet z))"

definition norm_list :: "string list \<Rightarrow> rval option" where
  "norm_list xs = (if xs = [] then None else Some (RList xs))"

definition as_zset :: "rval option \<Rightarrow> (rat \<times> string) list option" where
  "as_zset v = (case v of None \<Rightarrow> Some [] | Some (RZSet z) \<Rightarrow> Some z | _ \<Rightarrow> None)"

definition as_set :: "rval option \<Rightarrow> string set option" where
  "as_set v = (case v of None \<Rightarrow> Some {} | Some (RSet S) \<Rightarrow> Some S | _ \<Rightarrow> None)"

definition as_list :: "rval option \<Rightarrow> string list option" where
  "as_list v = (case v of None \<Rightarrow> Some [] | Some (RList xs) \<Rightarrow> Some xs | _ \<Rightarrow> None)"

text \<open>The 64-bit integers in the one spelling that \<open>INCR\<close> accepts.\<close>

definition redis_int :: "string \<Rightarrow> int option" where
  "redis_int s = (case parseInt s of None \<Rightarrow> None
     | Some n \<Rightarrow> if show_int n = s \<and> - (2 ^ 63) \<le> n \<and> n < 2 ^ 63 then Some n else None)"

definition q_get :: "string option query" where
  "q_get v = (case v of None \<Rightarrow> Inr None | Some (RString s) \<Rightarrow> Inr (Some s) | _ \<Rightarrow> Inl wrongtype)"

definition cmd_set :: "string \<Rightarrow> unit command" where
  "cmd_set s v = (Inr (), Some (RString s))"

definition cmd_incr :: "int command" where
  "cmd_incr v = (case v of None \<Rightarrow> (Inr 1, Some (RString (show_int 1)))
     | Some (RString s) \<Rightarrow> (case redis_int s of None \<Rightarrow> (Inl not_integer, v)
         | Some n \<Rightarrow> if n + 1 < 2 ^ 63 then (Inr (n + 1), Some (RString (show_int (n + 1))))
                     else (Inl not_integer, v))
     | _ \<Rightarrow> (Inl wrongtype, v))"

definition cmd_sadd :: "string \<Rightarrow> int command" where
  "cmd_sadd m v = (case as_set v of None \<Rightarrow> (Inl wrongtype, v)
     | Some S \<Rightarrow> (Inr (if m \<in> S then 0 else 1), Some (RSet (insert m S))))"

definition cmd_srem :: "string \<Rightarrow> int command" where
  "cmd_srem m v = (case as_set v of None \<Rightarrow> (Inl wrongtype, v)
     | Some S \<Rightarrow> (Inr (if m \<in> S then 1 else 0), norm_set (S - {m})))"

definition q_sismember :: "string \<Rightarrow> int query" where
  "q_sismember m v = (case as_set v of None \<Rightarrow> Inl wrongtype
     | Some S \<Rightarrow> Inr (if m \<in> S then 1 else 0))"

definition zset_remove :: "string \<Rightarrow> (rat \<times> string) list \<Rightarrow> (rat \<times> string) list" where
  "zset_remove m z = filter (\<lambda>p. snd p \<noteq> m) z"

definition zset_add :: "rat \<Rightarrow> string \<Rightarrow> (rat \<times> string) list \<Rightarrow> (rat \<times> string) list" where
  "zset_add sc m z = insort (sc, m) (zset_remove m z)"

definition cmd_zadd :: "rat \<Rightarrow> string \<Rightarrow> int command" where
  "cmd_zadd sc m v = (case as_zset v of None \<Rightarrow> (Inl wrongtype, v)
     | Some z \<Rightarrow> (Inr (if m \<in> snd ` set z then 0 else 1), Some (RZSet (zset_add sc m z))))"

text \<open>\<open>ZPOPMIN\<close> answers the member and its score, or nothing.\<close>

definition cmd_zpopmin :: "(rat \<Rightarrow> string) \<Rightarrow> string list command" where
  "cmd_zpopmin sc v = (case as_zset v of None \<Rightarrow> (Inl wrongtype, v)
     | Some [] \<Rightarrow> (Inr [], None)
     | Some (p # z) \<Rightarrow> (Inr [snd p, sc (fst p)], norm_zset z))"

text \<open>
  Index ranges: both ends included, negative indices count from the end, out-of-range ones
  are clipped. \<open>range_start\<close> and \<open>range_count\<close> give the first position and the number
  of elements.
\<close>

definition range_start :: "nat \<Rightarrow> int \<Rightarrow> int \<Rightarrow> nat" where
  "range_start n start stop = nat (if start < 0 then max 0 (int n + start) else start)"

definition range_count :: "nat \<Rightarrow> int \<Rightarrow> int \<Rightarrow> nat" where
  "range_count n start stop =
     (let a = int (range_start n start stop);
          b = min (if stop < 0 then int n + stop else stop) (int n - 1)
      in nat (b - a + 1))"

definition redis_range :: "int \<Rightarrow> int \<Rightarrow> 'a list \<Rightarrow> 'a list" where
  "redis_range start stop xs =
     take (range_count (length xs) start stop) (drop (range_start (length xs) start stop) xs)"

definition redis_unrange :: "int \<Rightarrow> int \<Rightarrow> 'a list \<Rightarrow> 'a list" where
  "redis_unrange start stop xs =
     take (range_start (length xs) start stop) xs
     @ drop (range_start (length xs) start stop + range_count (length xs) start stop) xs"

definition q_zrange :: "int \<Rightarrow> int \<Rightarrow> string list query" where
  "q_zrange start stop v = (case as_zset v of None \<Rightarrow> Inl wrongtype
     | Some z \<Rightarrow> Inr (map snd (redis_range start stop z)))"

definition q_zrevrange :: "int \<Rightarrow> int \<Rightarrow> string list query" where
  "q_zrevrange start stop v = (case as_zset v of None \<Rightarrow> Inl wrongtype
     | Some z \<Rightarrow> Inr (map snd (redis_range start stop (rev z))))"

text \<open>With \<open>WITHSCORES\<close>: members and scores in turn; no upper bound for \<^const>\<open>None\<close>.\<close>

definition q_zrangebyscore :: "(rat \<Rightarrow> string) \<Rightarrow> rat \<Rightarrow> rat option \<Rightarrow> string list query" where
  "q_zrangebyscore sc lo hi v = (case as_zset v of None \<Rightarrow> Inl wrongtype
     | Some z \<Rightarrow> Inr (concat (map (\<lambda>p. [snd p, sc (fst p)])
         (filter (\<lambda>p. lo \<le> fst p \<and> (case hi of None \<Rightarrow> True | Some h \<Rightarrow> fst p \<le> h)) z))))"

definition cmd_zremrangebyrank :: "int \<Rightarrow> int \<Rightarrow> int command" where
  "cmd_zremrangebyrank start stop v = (case as_zset v of None \<Rightarrow> (Inl wrongtype, v)
     | Some z \<Rightarrow> (Inr (int (length (redis_range start stop z))),
                  norm_zset (redis_unrange start stop z)))"

definition q_zcard :: "int query" where
  "q_zcard v = (case as_zset v of None \<Rightarrow> Inl wrongtype | Some z \<Rightarrow> Inr (int (length z)))"

definition cmd_lpush :: "string \<Rightarrow> int command" where
  "cmd_lpush x v = (case as_list v of None \<Rightarrow> (Inl wrongtype, v)
     | Some xs \<Rightarrow> (Inr (int (length xs) + 1), Some (RList (x # xs))))"

definition cmd_ltrim :: "int \<Rightarrow> int \<Rightarrow> unit command" where
  "cmd_ltrim start stop v = (case as_list v of None \<Rightarrow> (Inl wrongtype, v)
     | Some xs \<Rightarrow> (Inr (), norm_list (redis_range start stop xs)))"

definition q_lrange :: "int \<Rightarrow> int \<Rightarrow> string list query" where
  "q_lrange start stop v = (case as_list v of None \<Rightarrow> Inl wrongtype
     | Some xs \<Rightarrow> Inr (redis_range start stop xs))"

definition q_exists :: "int query" where
  "q_exists v = Inr (if v = None then 0 else 1)"

text \<open>\<open>MGET\<close> answers nil for a missing key and for a key that holds no string.\<close>

definition mget_val :: "rval option \<Rightarrow> string option" where
  "mget_val v = (case v of Some (RString s) \<Rightarrow> Some s | _ \<Rightarrow> None)"

text \<open>Key patterns with \<open>*\<close> and \<open>?\<close>; the engine uses no other special character.\<close>

fun glob :: "string \<Rightarrow> string \<Rightarrow> bool" where
  "glob [] s = (s = [])"
| "glob (p # ps) [] = (p = CHR ''*'' \<and> glob ps [])"
| "glob (p # ps) (c # cs) =
     (if p = CHR ''*'' then glob ps (c # cs) \<or> glob (p # ps) cs
      else (p = c \<or> p = CHR ''?'') \<and> glob ps cs)"

definition plain_pattern :: "string \<Rightarrow> bool" where
  "plain_pattern p \<longleftrightarrow> set p \<inter> {CHR ''['', CHR '']'', CHR 0x5C} = {}"

section \<open>The interface\<close>

record 'w redis =
  r_get :: "string \<Rightarrow> ('w, string option) io"
  r_set :: "string \<Rightarrow> string \<Rightarrow> ('w, unit) io"
  r_incr :: "string \<Rightarrow> ('w, int) io"
  r_exists :: "string \<Rightarrow> ('w, int) io"
  r_del :: "string list \<Rightarrow> ('w, int) io"
  r_unlink :: "string list \<Rightarrow> ('w, int) io"
  r_mget :: "string list \<Rightarrow> ('w, string option list) io"
  r_keys :: "string \<Rightarrow> ('w, string list) io"
  r_sadd :: "string \<Rightarrow> string \<Rightarrow> ('w, int) io"
  r_srem :: "string \<Rightarrow> string \<Rightarrow> ('w, int) io"
  r_sismember :: "string \<Rightarrow> string \<Rightarrow> ('w, int) io"
  r_smembers :: "string \<Rightarrow> ('w, string list) io"
  r_zadd :: "string \<Rightarrow> rat \<Rightarrow> string \<Rightarrow> ('w, int) io"
  r_zpopmin :: "string \<Rightarrow> ('w, string list) io"
  r_zrange :: "string \<Rightarrow> int \<Rightarrow> int \<Rightarrow> ('w, string list) io"
  r_zrevrange :: "string \<Rightarrow> int \<Rightarrow> int \<Rightarrow> ('w, string list) io"
  r_zrangebyscore :: "string \<Rightarrow> rat \<Rightarrow> rat option \<Rightarrow> ('w, string list) io"
  r_zremrangebyrank :: "string \<Rightarrow> int \<Rightarrow> int \<Rightarrow> ('w, int) io"
  r_zcard :: "string \<Rightarrow> ('w, int) io"
  r_lpush :: "string \<Rightarrow> string \<Rightarrow> ('w, int) io"
  r_ltrim :: "string \<Rightarrow> int \<Rightarrow> int \<Rightarrow> ('w, unit) io"
  r_lrange :: "string \<Rightarrow> int \<Rightarrow> int \<Rightarrow> ('w, string list) io"
  r_score :: "rat \<Rightarrow> string"

type_synonym keyspace = "string \<Rightarrow> rval option"

text \<open>
  A command on one key implements a function on the value at that key: it answers what the
  function answers, stores what it stores, and touches no other key. A query stores nothing.
\<close>

definition implements ::
  "('w \<Rightarrow> keyspace) \<Rightarrow> (string \<Rightarrow> ('w, 'a) io) \<Rightarrow> 'a command \<Rightarrow> bool" where
  "implements view f c \<longleftrightarrow>
     (\<forall>k w. fst (f k w) = fst (c (view w k))
          \<and> view (snd (f k w)) = (view w)(k := snd (c (view w k))))"

definition answers :: "('w \<Rightarrow> keyspace) \<Rightarrow> (string \<Rightarrow> ('w, 'a) io) \<Rightarrow> 'a query \<Rightarrow> bool" where
  "answers view f q \<longleftrightarrow> (\<forall>k w. fst (f k w) = q (view w k) \<and> view (snd (f k w)) = view w)"

definition removed_count :: "keyspace \<Rightarrow> string list \<Rightarrow> int" where
  "removed_count v ks = int (length (filter (\<lambda>k. v k \<noteq> None) (remdups ks)))"

locale redis_server =
  fixes R :: "'w redis" and view :: "'w \<Rightarrow> keyspace"
  assumes view_wf: "view w k = Some v \<Longrightarrow> wf_rval v"
    and view_finite: "finite (dom (view w))"
    and law_get: "answers view (r_get R) q_get"
    and law_set: "implements view (\<lambda>k. r_set R k s) (cmd_set s)"
    and law_incr: "implements view (r_incr R) cmd_incr"
    and law_exists: "answers view (r_exists R) q_exists"
    and law_sadd: "implements view (\<lambda>k. r_sadd R k m) (cmd_sadd m)"
    and law_srem: "implements view (\<lambda>k. r_srem R k m) (cmd_srem m)"
    and law_sismember: "answers view (\<lambda>k. r_sismember R k m) (q_sismember m)"
    and law_zadd: "implements view (\<lambda>k. r_zadd R k sc m) (cmd_zadd sc m)"
    and law_zpopmin: "implements view (r_zpopmin R) (cmd_zpopmin (r_score R))"
    and law_zrange: "answers view (\<lambda>k. r_zrange R k i j) (q_zrange i j)"
    and law_zrevrange: "answers view (\<lambda>k. r_zrevrange R k i j) (q_zrevrange i j)"
    and law_zrangebyscore:
      "answers view (\<lambda>k. r_zrangebyscore R k lo hi) (q_zrangebyscore (r_score R) lo hi)"
    and law_zremrangebyrank:
      "implements view (\<lambda>k. r_zremrangebyrank R k i j) (cmd_zremrangebyrank i j)"
    and law_zcard: "answers view (r_zcard R) q_zcard"
    and law_lpush: "implements view (\<lambda>k. r_lpush R k x) (cmd_lpush x)"
    and law_ltrim: "implements view (\<lambda>k. r_ltrim R k i j) (cmd_ltrim i j)"
    and law_lrange: "answers view (\<lambda>k. r_lrange R k i j) (q_lrange i j)"
    and law_score: "r_score R (of_int n) = show_int n"
    and law_mget: "ks \<noteq> [] \<Longrightarrow> fst (r_mget R ks w) = Inr (map (\<lambda>k. mget_val (view w k)) ks)"
      "ks \<noteq> [] \<Longrightarrow> view (snd (r_mget R ks w)) = view w"
    and law_no_keys: "fst (r_mget R [] w) = Inl wrong_arguments"
      "fst (r_unlink R [] w) = Inl wrong_arguments"
    and law_del: "ks \<noteq> [] \<Longrightarrow> fst (r_del R ks w) = Inr (removed_count (view w) ks)"
      "ks \<noteq> [] \<Longrightarrow> view (snd (r_del R ks w)) = (view w) |` (- set ks)"
    and law_unlink: "ks \<noteq> [] \<Longrightarrow> fst (r_unlink R ks w) = Inr (removed_count (view w) ks)"
      "ks \<noteq> [] \<Longrightarrow> view (snd (r_unlink R ks w)) = (view w) |` (- set ks)"
    and law_keys: "plain_pattern p \<Longrightarrow>
        \<exists>ks. fst (r_keys R p w) = Inr ks \<and> distinct ks \<and> set ks = {k \<in> dom (view w). glob p k}"
      "view (snd (r_keys R p w)) = view w"
    and law_smembers: "as_set (view w k) = Some S \<Longrightarrow>
        \<exists>ms. fst (r_smembers R k w) = Inr ms \<and> distinct ms \<and> set ms = S"
      "as_set (view w k) = None \<Longrightarrow> fst (r_smembers R k w) = Inl wrongtype"
      "view (snd (r_smembers R k w)) = view w"
begin

text \<open>The laws as rewrite rules: how every command answers and what it leaves.\<close>

lemmas redis_laws [simp] =
  law_get [unfolded answers_def, rule_format, THEN conjunct1]
  law_get [unfolded answers_def, rule_format, THEN conjunct2]
  law_set [unfolded implements_def, rule_format, THEN conjunct1]
  law_set [unfolded implements_def, rule_format, THEN conjunct2]
  law_incr [unfolded implements_def, rule_format, THEN conjunct1]
  law_incr [unfolded implements_def, rule_format, THEN conjunct2]
  law_exists [unfolded answers_def, rule_format, THEN conjunct1]
  law_exists [unfolded answers_def, rule_format, THEN conjunct2]
  law_sadd [unfolded implements_def, rule_format, THEN conjunct1]
  law_sadd [unfolded implements_def, rule_format, THEN conjunct2]
  law_srem [unfolded implements_def, rule_format, THEN conjunct1]
  law_srem [unfolded implements_def, rule_format, THEN conjunct2]
  law_sismember [unfolded answers_def, rule_format, THEN conjunct1]
  law_sismember [unfolded answers_def, rule_format, THEN conjunct2]
  law_zadd [unfolded implements_def, rule_format, THEN conjunct1]
  law_zadd [unfolded implements_def, rule_format, THEN conjunct2]
  law_zpopmin [unfolded implements_def, rule_format, THEN conjunct1]
  law_zpopmin [unfolded implements_def, rule_format, THEN conjunct2]
  law_zrange [unfolded answers_def, rule_format, THEN conjunct1]
  law_zrange [unfolded answers_def, rule_format, THEN conjunct2]
  law_zrevrange [unfolded answers_def, rule_format, THEN conjunct1]
  law_zrevrange [unfolded answers_def, rule_format, THEN conjunct2]
  law_zrangebyscore [unfolded answers_def, rule_format, THEN conjunct1]
  law_zrangebyscore [unfolded answers_def, rule_format, THEN conjunct2]
  law_zremrangebyrank [unfolded implements_def, rule_format, THEN conjunct1]
  law_zremrangebyrank [unfolded implements_def, rule_format, THEN conjunct2]
  law_zcard [unfolded answers_def, rule_format, THEN conjunct1]
  law_zcard [unfolded answers_def, rule_format, THEN conjunct2]
  law_lpush [unfolded implements_def, rule_format, THEN conjunct1]
  law_lpush [unfolded implements_def, rule_format, THEN conjunct2]
  law_ltrim [unfolded implements_def, rule_format, THEN conjunct1]
  law_ltrim [unfolded implements_def, rule_format, THEN conjunct2]
  law_lrange [unfolded answers_def, rule_format, THEN conjunct1]
  law_lrange [unfolded answers_def, rule_format, THEN conjunct2]
  law_score law_mget law_no_keys law_del law_unlink law_keys(2) law_smembers(3)

lemma zset_okD: "view w k = Some (RZSet z) \<Longrightarrow> zset_ok z \<and> z \<noteq> []"
  using view_wf by fastforce

end

section \<open>Facts on sorted sets and ranges\<close>

lemma as_simps [simp]:
  "as_zset None = Some []" "as_zset (Some (RZSet z)) = Some z" "as_zset (Some (RString s)) = None"
  "as_set None = Some {}" "as_set (Some (RSet S)) = Some S" "as_set (Some (RZSet z)) = None"
  "as_set (Some (RString s)) = None" "as_list None = Some []" "as_list (Some (RList xs)) = Some xs"
  by (simp_all add: as_zset_def as_set_def as_list_def)

lemma norm_zset_simps [simp]:
  "norm_zset [] = None" "norm_zset (p # z) = Some (RZSet (p # z))" "as_zset (norm_zset z) = Some z"
  by (simp_all add: norm_zset_def)

lemma norm_set_simps [simp]: "norm_set {} = None" "as_set (norm_set S) = Some S"
  by (simp_all add: norm_set_def)

lemma norm_list_simps [simp]: "norm_list [] = None" "as_list (norm_list xs) = Some xs"
  by (simp_all add: norm_list_def)

lemma as_zset_SomeD: "as_zset v = Some z \<Longrightarrow> v = None \<and> z = [] \<or> v = Some (RZSet z)"
  by (auto simp: as_zset_def split: option.splits rval.splits)

lemma as_set_SomeD: "as_set v = Some S \<Longrightarrow> v = None \<and> S = {} \<or> v = Some (RSet S)"
  by (auto simp: as_set_def split: option.splits rval.splits)

lemma as_list_SomeD: "as_list v = Some xs \<Longrightarrow> v = None \<and> xs = [] \<or> v = Some (RList xs)"
  by (auto simp: as_list_def split: option.splits rval.splits)

lemma redis_int_show_int [simp]:
  "- (2 ^ 63) \<le> n \<Longrightarrow> n < 2 ^ 63 \<Longrightarrow> redis_int (show_int n) = Some n"
  by (simp add: redis_int_def)

lemma set_zset_remove [simp]: "set (zset_remove m z) = {p \<in> set z. snd p \<noteq> m}"
  by (simp add: zset_remove_def)

lemma set_zset_add [simp]: "set (zset_add sc m z) = insert (sc, m) {p \<in> set z. snd p \<noteq> m}"
  by (simp add: zset_add_def set_insort_key)

lemma zset_add_not_Nil [simp]: "zset_add sc m z \<noteq> []"
  by (simp add: zset_add_def)

lemma zset_ok_Nil [simp]: "zset_ok []"
  by (simp add: zset_ok_def)

lemma zset_ok_Cons:
  "zset_ok (p # z) \<longleftrightarrow> zset_ok z \<and> (\<forall>q \<in> set z. p \<le> q) \<and> snd p \<notin> snd ` set z"
  by (auto simp: zset_ok_def image_iff)

lemma zset_ok_remove: "zset_ok z \<Longrightarrow> zset_ok (zset_remove m z)"
  by (simp add: zset_ok_def zset_remove_def sorted_wrt_filter distinct_map_filter)

lemma distinct_insort_snd:
  "distinct (map snd z) \<Longrightarrow> snd p \<notin> snd ` set z \<Longrightarrow> distinct (map snd (insort p z))"
  by (induction z) (auto simp: set_insort_key)

lemma zset_ok_add: "zset_ok z \<Longrightarrow> zset_ok (zset_add sc m z)"
  using zset_ok_remove [of z m]
  by (auto simp: zset_ok_def zset_add_def sorted_insort intro!: distinct_insort_snd)

lemma zset_remove_absent: "m \<notin> snd ` set z \<Longrightarrow> zset_remove m z = z"
  by (auto simp: zset_remove_def filter_id_conv)

lemma zset_add_min: "zset_ok z \<Longrightarrow> (\<And>p. p \<in> set z \<Longrightarrow> sc < fst p) \<Longrightarrow> m \<notin> snd ` set z \<Longrightarrow>
   zset_add sc m z = (sc, m) # z"
  by (cases z) (auto simp: zset_add_def zset_remove_absent less_eq_prod_def)

lemma redis_range_all: "redis_range 0 (- 1) xs = xs"
  by (simp add: redis_range_def range_count_def range_start_def)

lemma redis_unrange_sublist: "set (redis_unrange i j z) \<subseteq> set z"
  using set_take_subset [of _ z] set_drop_subset [of _ z] by (auto simp: redis_unrange_def)

lemma take_drop_zset_ok: "zset_ok z \<Longrightarrow> zset_ok (take a z @ drop (a + c) z)"
proof -
  have "z = take a z @ take c (drop a z) @ drop (a + c) z"
    by (metis append_take_drop_id drop_drop add.commute)
  moreover have "zset_ok (xs @ ys @ zs) \<Longrightarrow> zset_ok (xs @ zs)" for xs ys zs
    by (auto simp: zset_ok_def sorted_append)
  ultimately show "zset_ok z \<Longrightarrow> zset_ok (take a z @ drop (a + c) z)" by metis
qed

lemma zset_ok_unrange: "zset_ok z \<Longrightarrow> zset_ok (redis_unrange i j z)"
  by (simp add: redis_unrange_def take_drop_zset_ok)

section \<open>A server in memory\<close>

text \<open>A set given by its elements is finite; with this the store evaluates.\<close>

declare finite_code [code del]

lemma finite_set_code [code]: "finite (set xs) = True"
  by simp

text \<open>
  A store that keeps the laws: an association list of values. A value that is not well
  formed reads as absent, so every list is a state of the server.
\<close>

type_synonym mem = "(string \<times> rval) list"

definition mem_view :: "mem \<Rightarrow> keyspace" where
  "mem_view m k = (case map_of m k of None \<Rightarrow> None | Some v \<Rightarrow> if wf_rval v then Some v else None)"

definition mem_put :: "string \<Rightarrow> rval option \<Rightarrow> mem \<Rightarrow> mem" where
  "mem_put k v m = (case v of None \<Rightarrow> AList.delete k m | Some x \<Rightarrow> AList.update k x m)"

definition mem_cmd :: "'a command \<Rightarrow> string \<Rightarrow> (mem, 'a) io" where
  "mem_cmd c k m = (let p = c (mem_view m k) in (fst p, mem_put k (snd p) m))"

definition mem_query :: "'a query \<Rightarrow> string \<Rightarrow> (mem, 'a) io" where
  "mem_query q k m = (q (mem_view m k), m)"

definition mem_del :: "string list \<Rightarrow> (mem, int) io" where
  "mem_del ks m = (if ks = [] then (Inl wrong_arguments, m)
     else (Inr (removed_count (mem_view m) ks), filter (\<lambda>p. fst p \<notin> set ks) m))"

definition mem_mget :: "string list \<Rightarrow> (mem, string option list) io" where
  "mem_mget ks m = (if ks = [] then Inl wrong_arguments
     else Inr (map (\<lambda>k. mget_val (mem_view m k)) ks), m)"

definition mem_smembers :: "string \<Rightarrow> (mem, string list) io" where
  "mem_smembers k m = (case as_set (mem_view m k) of None \<Rightarrow> Inl wrongtype
     | Some S \<Rightarrow> Inr (sorted_list_of_set S), m)"

definition mem_keys :: "string \<Rightarrow> (mem, string list) io" where
  "mem_keys p m = (Inr (filter (\<lambda>k. glob p k \<and> mem_view m k \<noteq> None) (remdups (map fst m))), m)"

definition mem_score :: "rat \<Rightarrow> string" where
  "mem_score r = show_int \<lfloor>r\<rfloor>"

definition mem_redis :: "mem redis" where
  "mem_redis = \<lparr>
     r_get = mem_query q_get,
     r_set = (\<lambda>k s. mem_cmd (cmd_set s) k),
     r_incr = mem_cmd cmd_incr,
     r_exists = mem_query q_exists,
     r_del = mem_del,
     r_unlink = mem_del,
     r_mget = mem_mget,
     r_keys = mem_keys,
     r_sadd = (\<lambda>k x. mem_cmd (cmd_sadd x) k),
     r_srem = (\<lambda>k x. mem_cmd (cmd_srem x) k),
     r_sismember = (\<lambda>k x. mem_query (q_sismember x) k),
     r_smembers = mem_smembers,
     r_zadd = (\<lambda>k sc x. mem_cmd (cmd_zadd sc x) k),
     r_zpopmin = mem_cmd (cmd_zpopmin mem_score),
     r_zrange = (\<lambda>k i j. mem_query (q_zrange i j) k),
     r_zrevrange = (\<lambda>k i j. mem_query (q_zrevrange i j) k),
     r_zrangebyscore = (\<lambda>k lo hi. mem_query (q_zrangebyscore mem_score lo hi) k),
     r_zremrangebyrank = (\<lambda>k i j. mem_cmd (cmd_zremrangebyrank i j) k),
     r_zcard = mem_query q_zcard,
     r_lpush = (\<lambda>k x. mem_cmd (cmd_lpush x) k),
     r_ltrim = (\<lambda>k i j. mem_cmd (cmd_ltrim i j) k),
     r_lrange = (\<lambda>k i j. mem_query (q_lrange i j) k),
     r_score = mem_score\<rparr>"

text \<open>Every command stores a well-formed value when it reads one.\<close>

definition wf_command :: "'a command \<Rightarrow> bool" where
  "wf_command c \<longleftrightarrow> (\<forall>v. (\<forall>x. v = Some x \<longrightarrow> wf_rval x) \<longrightarrow> (\<forall>x. snd (c v) = Some x \<longrightarrow> wf_rval x))"

lemma wf_command_string [simp]: "wf_command (cmd_set s)" "wf_command cmd_incr"
  by (auto simp: wf_command_def cmd_set_def cmd_incr_def split: option.splits rval.splits if_splits)

lemma wf_command_set [simp]: "wf_command (cmd_sadd m)" "wf_command (cmd_srem m)"
  by (auto simp: wf_command_def cmd_sadd_def cmd_srem_def norm_set_def split: option.splits
      dest!: as_set_SomeD)

lemma wf_command_zset [simp]:
  "wf_command (cmd_zadd sc m)" "wf_command (cmd_zpopmin f)" "wf_command (cmd_zremrangebyrank i j)"
  by (auto simp: wf_command_def cmd_zadd_def cmd_zpopmin_def cmd_zremrangebyrank_def norm_zset_def
      zset_ok_Cons zset_ok_add zset_ok_unrange split: option.splits list.splits
      dest!: as_zset_SomeD)

lemma wf_command_list [simp]: "wf_command (cmd_lpush x)" "wf_command (cmd_ltrim i j)"
  by (auto simp: wf_command_def cmd_lpush_def cmd_ltrim_def norm_list_def split: option.splits
      dest!: as_list_SomeD)

lemma mem_view_wf: "mem_view m k = Some v \<Longrightarrow> wf_rval v"
  by (auto simp: mem_view_def split: option.splits if_splits)

lemma mem_view_put:
  "(\<And>x. v = Some x \<Longrightarrow> wf_rval x) \<Longrightarrow> mem_view (mem_put k v m) = (mem_view m)(k := v)"
  by (auto simp: mem_view_def mem_put_def fun_eq_iff update_conv' delete_conv' split: option.splits)

lemma wf_command_mem: "wf_command c \<Longrightarrow> snd (c (mem_view m k)) = Some x \<Longrightarrow> wf_rval x"
  unfolding wf_command_def using mem_view_wf by blast

lemma mem_cmd_implements: "wf_command c \<Longrightarrow> implements mem_view (mem_cmd c) c"
  by (auto simp: implements_def mem_cmd_def Let_def intro!: mem_view_put intro: wf_command_mem)

lemma mem_query_answers: "answers mem_view (mem_query q) q"
  by (simp add: answers_def mem_query_def)

lemma mem_view_filter: "mem_view (filter (\<lambda>p. fst p \<notin> S) m) = mem_view m |` (- S)"
proof -
  have "map_of (filter (\<lambda>p. fst p \<notin> S) m) = map_of m |` (- S)"
    by (induction m) (auto simp: restrict_map_def fun_eq_iff)
  then show ?thesis by (auto simp: mem_view_def restrict_map_def fun_eq_iff)
qed

lemma dom_mem_view: "dom (mem_view m) \<subseteq> fst ` set m"
  by (auto simp: mem_view_def dom_def split: option.splits if_splits)
    (metis map_of_SomeD fst_conv image_eqI)

lemma mem_score_int: "mem_score (of_int n) = show_int n"
  by (simp add: mem_score_def)

interpretation mem: redis_server mem_redis mem_view
proof unfold_locales
  show "finite (dom (mem_view w))" for w
    by (rule finite_subset [OF dom_mem_view]) simp
  show "\<exists>ks. fst (r_keys mem_redis p w) = Inr ks \<and> distinct ks
      \<and> set ks = {k \<in> dom (mem_view w). glob p k}" for p w
    using dom_mem_view [of w] by (auto simp: mem_redis_def mem_keys_def)
  show "\<exists>ms. fst (r_smembers mem_redis k w) = Inr ms \<and> distinct ms \<and> set ms = S"
    if "as_set (mem_view w k) = Some S" for k w S
  proof -
    from that have "finite S" using mem_view_wf [of w k] by (auto dest!: as_set_SomeD)
    with that show ?thesis by (simp add: mem_redis_def mem_smembers_def)
  qed
qed (simp_all add: mem_redis_def mem_view_wf mem_cmd_implements mem_query_answers mem_score_int
    mem_del_def mem_mget_def mem_view_filter mem_smembers_def mem_keys_def)

end
