(* ===== verification/Wallet_Nonce.thy ===== *)
theory Wallet_Nonce
  imports Redis_Server
begin

text \<open>
  The nonce bookkeeping of a backend wallet: \<open>src/db/wallets/walletNonce.ts\<close>,
  \<open>src/db/wallets/nonceMap.ts\<close> and the address helpers of
  \<open>src/utils/primitiveTypes.ts\<close>. Every function runs over a Redis server \<open>R\<close>; the RPC
  call \<open>eth_getTransactionCount\<close> and the SDK's \<open>getAddress\<close> are parameters.

  A wallet on a chain owns four keys: the last nonce handed out, the sorted set of recycled
  nonces, the set of nonces sent and not yet mined, and the map from nonces to queue ids. The
  second half of the theory gives the abstract nonce pool these keys represent and shows that
  the operations implement it.
\<close>

section \<open>Addresses and keys\<close>

definition maybeBigInt :: "string option \<Rightarrow> (string \<Rightarrow> js_error + int) \<Rightarrow> js_error + int option" where
  "maybeBigInt val bigInt =
     (if truthy val then (case bigInt (the val) of Inl e \<Rightarrow> Inl e | Inr n \<Rightarrow> Inr (Some n))
      else Inr None)"

definition normalizeAddress :: "string option \<Rightarrow> string option" where
  "normalizeAddress val = (if truthy val then Some (toLowerCase (the val)) else None)"

definition getChecksumAddress :: "(string \<Rightarrow> js_error + string) \<Rightarrow> string option \<Rightarrow> js_error + string option" where
  "getChecksumAddress checksumAddress val =
     (if truthy val then (case checksumAddress (the val) of Inl e \<Rightarrow> Inl e | Inr s \<Rightarrow> Inr (Some s))
      else Inr None)"

definition maybeDate :: "int option \<Rightarrow> int option" where
  "maybeDate val = (case val of None \<Rightarrow> None | Some t \<Rightarrow> if t = 0 then None else Some t)"

definition lastUsedNonceKey :: "int \<Rightarrow> string \<Rightarrow> string" where
  "lastUsedNonceKey chainId walletAddress =
     ''nonce:'' @ show_int chainId @ '':'' @ show_opt (normalizeAddress (Some walletAddress))"

definition recycledNoncesKey :: "int \<Rightarrow> string \<Rightarrow> string" where
  "recycledNoncesKey chainId walletAddress =
     ''nonce-recycled:'' @ show_int chainId @ '':'' @ show_opt (normalizeAddress (Some walletAddress))"

definition sentNoncesKey :: "int \<Rightarrow> string \<Rightarrow> string" where
  "sentNoncesKey chainId walletAddress =
     ''nonce-sent:'' @ show_int chainId @ '':'' @ show_opt (normalizeAddress (Some walletAddress))"

definition nonceMapKey :: "int \<Rightarrow> string \<Rightarrow> string" where
  "nonceMapKey chainId walletAddress =
     ''nonce-map:'' @ show_int chainId @ '':'' @ show_opt (normalizeAddress (Some walletAddress))"

text \<open>The answer is (walletAddress, chainId); \<open>parseInt\<close> may give \<open>NaN\<close>.\<close>

definition splitLastUsedNonceKey :: "string \<Rightarrow> string option \<times> js_num" where
  "splitLastUsedNonceKey key =
     (let tokens = js_split (CHR '':'') key
      in (normalizeAddress (nth_opt tokens 2), parseInt_opt (nth_opt tokens 1)))"

definition splitSentNoncesKey :: "string \<Rightarrow> string option \<times> js_num" where
  "splitSentNoncesKey key =
     (let tokens = js_split (CHR '':'') key
      in (normalizeAddress (nth_opt tokens 2), parseInt_opt (nth_opt tokens 1)))"

section \<open>The operations\<close>

text \<open>
  The wallets that have a last used nonce, as (chainId, walletAddress) pairs, filtered by the
  arguments that are given. \<open>getAddress\<close> throws on an invalid address.
\<close>

definition getUsedBackendWallets ::
  "'w redis \<Rightarrow> (string \<Rightarrow> js_error + string) \<Rightarrow> int option \<Rightarrow> string option \<Rightarrow> ('w, (js_num \<times> string) list) io" where
  "getUsedBackendWallets R getAddress chainId walletAddress =
     bnd (r_keys R (''nonce:'' @ (case chainId of None \<Rightarrow> ''*'' | Some c \<Rightarrow> show_int c) @ '':''
            @ (if truthy walletAddress then show_opt (normalizeAddress walletAddress) else ''*'')))
       (\<lambda>keys. lift_res (map_res (\<lambda>key.
          let tokens = js_split (CHR '':'') key
          in case nth_opt tokens 2 of None \<Rightarrow> Inl js_TypeError
             | Some t \<Rightarrow> (case getAddress t of Inl e \<Rightarrow> Inl e
                 | Inr adr \<Rightarrow> Inr (parseInt_opt (nth_opt tokens 1), adr))) keys))"

definition addSentNonce :: "'w redis \<Rightarrow> int \<Rightarrow> string \<Rightarrow> js_num \<Rightarrow> ('w, unit) io" where
  "addSentNonce R chainId walletAddress nonce =
     bnd (r_sadd R (sentNoncesKey chainId walletAddress) (show_num nonce)) (\<lambda>_. ret ())"

definition removeSentNonce :: "'w redis \<Rightarrow> int \<Rightarrow> string \<Rightarrow> js_num \<Rightarrow> ('w, bool) io" where
  "removeSentNonce R chainId walletAddress nonce =
     bnd (r_srem R (sentNoncesKey chainId walletAddress) (show_num nonce))
       (\<lambda>removed. ret (removed = 1))"

definition isSentNonce :: "'w redis \<Rightarrow> int \<Rightarrow> string \<Rightarrow> js_num \<Rightarrow> ('w, bool) io" where
  "isSentNonce R chainId walletAddress nonce =
     bnd (r_sismember R (sentNoncesKey chainId walletAddress) (show_num nonce))
       (\<lambda>x. ret (x \<noteq> 0))"

text \<open>\<open>ZADD\<close> with a score that is a JavaScript number: Redis refuses \<open>NaN\<close>.\<close>

definition zadd_num :: "'w redis \<Rightarrow> string \<Rightarrow> js_num \<Rightarrow> string \<Rightarrow> ('w, unit) io" where
  "zadd_num R key score member =
     (case score of None \<Rightarrow> throw (js_Error ''ERR value is not a valid float'')
      | Some n \<Rightarrow> bnd (r_zadd R key (of_int n) member) (\<lambda>_. ret ()))"

definition updateNonceMap :: "'w redis \<Rightarrow> int \<Rightarrow> string \<Rightarrow> js_num \<Rightarrow> string \<Rightarrow> ('w, unit) io" where
  "updateNonceMap R chainId walletAddress nonce queueId =
     zadd_num R (nonceMapKey chainId walletAddress) nonce queueId"

definition acquireRecycledNonce :: "'w redis \<Rightarrow> int \<Rightarrow> string \<Rightarrow> ('w, js_num option) io" where
  "acquireRecycledNonce R chainId walletAddress =
     bnd (r_zpopmin R (recycledNoncesKey chainId walletAddress))
       (\<lambda>result. case result of [] \<Rightarrow> ret None | m # _ \<Rightarrow> ret (Some (parseInt m)))"

definition syncLatestNonceFromOnchain ::
  "'w redis \<Rightarrow> (int \<Rightarrow> string \<Rightarrow> js_error + int) \<Rightarrow> int \<Rightarrow> string \<Rightarrow> ('w, unit) io" where
  "syncLatestNonceFromOnchain R getTransactionCount chainId walletAddress =
     bnd (lift_res (getTransactionCount chainId walletAddress))
       (\<lambda>transactionCount.
          r_set R (lastUsedNonceKey chainId walletAddress) (show_int (transactionCount - 1)))"

text \<open>
  The answer is (nonce, isRecycledNonce). The source sets a local flag for a recycled nonce
  and then returns the constant \<open>false\<close>.
\<close>

definition acquireNonce ::
  "'w redis \<Rightarrow> (int \<Rightarrow> string \<Rightarrow> js_error + int) \<Rightarrow> string \<Rightarrow> int \<Rightarrow> string \<Rightarrow> ('w, js_num \<times> bool) io" where
  "acquireNonce R getTransactionCount queueId chainId walletAddress =
     bnd (acquireRecycledNonce R chainId walletAddress) (\<lambda>recycled.
     bnd (case recycled of Some nonce \<Rightarrow> ret nonce
          | None \<Rightarrow> bnd (r_incr R (lastUsedNonceKey chainId walletAddress)) (\<lambda>nonce.
              if nonce = 1 then
                bnd (syncLatestNonceFromOnchain R getTransactionCount chainId walletAddress) (\<lambda>_.
                bnd (r_incr R (lastUsedNonceKey chainId walletAddress)) (\<lambda>nonce.
                ret (Some nonce)))
              else ret (Some nonce)))
       (\<lambda>nonce.
     bnd (updateNonceMap R chainId walletAddress nonce queueId) (\<lambda>_.
     ret (nonce, False))))"

definition recycleNonce :: "'w redis \<Rightarrow> int \<Rightarrow> string \<Rightarrow> js_num \<Rightarrow> ('w, unit) io" where
  "recycleNonce R chainId walletAddress nonce =
     (case nonce of None \<Rightarrow> ret ()
      | Some n \<Rightarrow> zadd_num R (recycledNoncesKey chainId walletAddress) nonce (show_int n))"

definition inspectNonce :: "'w redis \<Rightarrow> int \<Rightarrow> string \<Rightarrow> ('w, js_num) io" where
  "inspectNonce R chainId walletAddress =
     bnd (r_get R (lastUsedNonceKey chainId walletAddress))
       (\<lambda>nonce. ret (if truthy nonce then parseInt (the nonce) else Some 0))"

definition deleteAllNonces :: "'w redis \<Rightarrow> ('w, unit) io" where
  "deleteAllNonces R =
     bnd (r_keys R ''nonce:*'') (\<lambda>k1.
     bnd (r_keys R ''nonce-recycled:*'') (\<lambda>k2.
     bnd (r_keys R ''sent-nonce:*'') (\<lambda>k3.
       let keys = k1 @ k2 @ k3
       in if keys \<noteq> [] then bnd (r_del R keys) (\<lambda>_. ret ()) else ret ())))"

text \<open>
  The Lua script runs as one atomic command: \<open>tonumber\<close> of the stored string (the engine
  stores decimal integers; anything else, like a missing key, counts as 0), the maximum with
  the on-chain value, and the write.
\<close>

definition lua_tonumber :: "string option \<Rightarrow> int option" where
  "lua_tonumber s = (case s of None \<Rightarrow> None
     | Some t \<Rightarrow> (case parseInt t of None \<Rightarrow> None
         | Some n \<Rightarrow> if show_int n = t then Some n else None))"

definition sync_script :: "'w redis \<Rightarrow> string \<Rightarrow> int \<Rightarrow> ('w, int) io" where
  "sync_script R key transactionCount =
     bnd (r_get R key) (\<lambda>v.
       let lastUsedNonce = (case lua_tonumber v of None \<Rightarrow> 0 | Some n \<Rightarrow> n);
           nextNonce = max (transactionCount - 1) lastUsedNonce
       in bnd (r_set R key (show_int nextNonce)) (\<lambda>_. ret nextNonce))"

definition syncLatestNonceFromOnchainIfHigher ::
  "'w redis \<Rightarrow> (int \<Rightarrow> string \<Rightarrow> js_error + int) \<Rightarrow> int \<Rightarrow> string \<Rightarrow> ('w, int) io" where
  "syncLatestNonceFromOnchainIfHigher R getTransactionCount chainId walletAddress =
     bnd (lift_res (getTransactionCount chainId walletAddress)) (\<lambda>transactionCount.
       sync_script R (lastUsedNonceKey chainId (show_opt (normalizeAddress (Some walletAddress))))
         transactionCount)"

text \<open>\<open>nonceMap.ts\<close>: Redis answers members and scores in turn.\<close>

fun nonce_pairs :: "string list \<Rightarrow> (js_num \<times> string) list" where
  "nonce_pairs [] = []"
| "nonce_pairs [q] = [(None, q)]"
| "nonce_pairs (q # n # rest) = (parseInt n, q) # nonce_pairs rest"

definition getNonceMap ::
  "'w redis \<Rightarrow> int \<Rightarrow> string \<Rightarrow> int \<Rightarrow> int option \<Rightarrow> ('w, (js_num \<times> string) list) io" where
  "getNonceMap R chainId walletAddress fromNonce toNonce =
     bnd (r_zrangebyscore R (nonceMapKey chainId walletAddress) (of_int fromNonce)
            (map_option of_int toNonce))
       (\<lambda>elementsWithScores. ret (nonce_pairs elementsWithScores))"

fun prune_nonce_maps :: "'w redis \<Rightarrow> int \<Rightarrow> string list \<Rightarrow> int \<Rightarrow> ('w, int) io" where
  "prune_nonce_maps R NONCE_MAP_COUNT [] numDeleted = ret numDeleted"
| "prune_nonce_maps R NONCE_MAP_COUNT (key # keys) numDeleted =
     bnd (settle (r_zremrangebyrank R key 0 (- NONCE_MAP_COUNT))) (\<lambda>result.
       prune_nonce_maps R NONCE_MAP_COUNT keys
         (case result of Inl _ \<Rightarrow> numDeleted | Inr n \<Rightarrow> numDeleted + n))"

definition pruneNonceMaps :: "'w redis \<Rightarrow> int \<Rightarrow> ('w, int) io" where
  "pruneNonceMaps R NONCE_MAP_COUNT =
     bnd (r_keys R ''nonce-map:*'') (\<lambda>keys. prune_nonce_maps R NONCE_MAP_COUNT keys 0)"

section \<open>Facts on the keys\<close>

lemma normalizeAddress_Some [simp]: "a \<noteq> [] \<Longrightarrow> normalizeAddress (Some a) = Some (toLowerCase a)"
  by (simp add: normalizeAddress_def)

lemma normalizeAddress_idem:
  "normalizeAddress (normalizeAddress val) = normalizeAddress val"
  by (cases val) (auto simp: normalizeAddress_def js_simps)

text \<open>The name of a wallet inside its keys: two spellings of an address give the same keys.\<close>

definition key_name :: "string \<Rightarrow> string" where
  "key_name a = show_opt (normalizeAddress (Some a))"

lemmas nonce_key_defs =
  lastUsedNonceKey_def recycledNoncesKey_def sentNoncesKey_def nonceMapKey_def

lemma nonce_keys_distinct [simp]:
  "lastUsedNonceKey c a \<noteq> recycledNoncesKey c' a'" "recycledNoncesKey c' a' \<noteq> lastUsedNonceKey c a"
  "lastUsedNonceKey c a \<noteq> sentNoncesKey c' a'" "sentNoncesKey c' a' \<noteq> lastUsedNonceKey c a"
  "lastUsedNonceKey c a \<noteq> nonceMapKey c' a'" "nonceMapKey c' a' \<noteq> lastUsedNonceKey c a"
  "recycledNoncesKey c a \<noteq> sentNoncesKey c' a'" "sentNoncesKey c' a' \<noteq> recycledNoncesKey c a"
  "recycledNoncesKey c a \<noteq> nonceMapKey c' a'" "nonceMapKey c' a' \<noteq> recycledNoncesKey c a"
  "sentNoncesKey c a \<noteq> nonceMapKey c' a'" "nonceMapKey c' a' \<noteq> sentNoncesKey c a"
  by (simp_all add: nonce_key_defs)

lemma chain_part_inject:
  "show_int c @ '':'' @ s = show_int c' @ '':'' @ s' \<longleftrightarrow> c = c' \<and> s = s'"
proof
  assume eq: "show_int c @ '':'' @ s = show_int c' @ '':'' @ s'"
  have "js_split (CHR '':'') (show_int c @ '':'' @ s) = js_split (CHR '':'') (show_int c' @ '':'' @ s')"
    using eq by simp
  then have "show_int c = show_int c'" by (simp add: js_simps)
  with eq show "c = c' \<and> s = s'" by simp
qed simp

lemma nonce_keys_inject:
  "lastUsedNonceKey c a = lastUsedNonceKey c' a' \<longleftrightarrow> c = c' \<and> key_name a = key_name a'"
  "recycledNoncesKey c a = recycledNoncesKey c' a' \<longleftrightarrow> c = c' \<and> key_name a = key_name a'"
  "sentNoncesKey c a = sentNoncesKey c' a' \<longleftrightarrow> c = c' \<and> key_name a = key_name a'"
  "nonceMapKey c a = nonceMapKey c' a' \<longleftrightarrow> c = c' \<and> key_name a = key_name a'"
  using chain_part_inject [of c "key_name a" c' "key_name a'"]
  by (simp_all add: nonce_key_defs key_name_def)

lemma lastUsedNonceKey_normal [simp]:
  "a \<noteq> [] \<Longrightarrow> lastUsedNonceKey c (toLowerCase a) = lastUsedNonceKey c a"
  by (simp add: lastUsedNonceKey_def js_simps)

section \<open>The abstract nonce pool\<close>

text \<open>
  What the keys of one wallet mean: the last nonce taken from the counter (none when the
  wallet is new), the recycled nonces and the nonces sent and not yet mined.
\<close>

record nonce_pool =
  np_last :: "int option"
  np_recycled :: "int set"
  np_sent :: "int set"

text \<open>
  Taking a nonce: the smallest recycled one, else the successor of the counter. A counter
  that is missing or 0 is first set from the chain, so the answer is then the on-chain
  transaction count \<open>tc\<close>.
\<close>

definition pool_acquire :: "int \<Rightarrow> nonce_pool \<Rightarrow> int \<times> nonce_pool" where
  "pool_acquire tc p =
     (if np_recycled p \<noteq> {}
      then (Min (np_recycled p), p\<lparr>np_recycled := np_recycled p - {Min (np_recycled p)}\<rparr>)
      else case np_last p of
        None \<Rightarrow> (tc, p\<lparr>np_last := Some tc\<rparr>)
      | Some n \<Rightarrow> if n = 0 then (tc, p\<lparr>np_last := Some tc\<rparr>)
                  else (n + 1, p\<lparr>np_last := Some (n + 1)\<rparr>))"

definition pool_sync_if_higher :: "int \<Rightarrow> nonce_pool \<Rightarrow> nonce_pool" where
  "pool_sync_if_higher tc p =
     p\<lparr>np_last := Some (max (tc - 1) (case np_last p of None \<Rightarrow> 0 | Some n \<Rightarrow> n))\<rparr>"

definition enc :: "int \<Rightarrow> rat \<times> string" where
  "enc n = (of_int n, show_int n)"

definition enc_zset :: "int set \<Rightarrow> (rat \<times> string) list" where
  "enc_zset N = map enc (sorted_list_of_set N)"

definition represents :: "keyspace \<Rightarrow> int \<Rightarrow> string \<Rightarrow> nonce_pool \<Rightarrow> bool" where
  "represents v c a p \<longleftrightarrow>
     v (lastUsedNonceKey c a) = map_option (\<lambda>n. RString (show_int n)) (np_last p)
   \<and> (\<forall>n. np_last p = Some n \<longrightarrow> - (2 ^ 63) \<le> n \<and> n < 2 ^ 63)
   \<and> finite (np_recycled p) \<and> as_zset (v (recycledNoncesKey c a)) = Some (enc_zset (np_recycled p))
   \<and> as_set (v (sentNoncesKey c a)) = Some (show_int ` np_sent p)
   \<and> as_zset (v (nonceMapKey c a)) \<noteq> None"

lemma enc_inject [simp]: "enc m = enc n \<longleftrightarrow> m = n"
  by (simp add: enc_def)

lemma enc_le: "enc m \<le> enc n \<longleftrightarrow> m \<le> n"
  by (auto simp: enc_def less_eq_prod_def)

lemma sorted_map_enc: "sorted (map enc xs) \<longleftrightarrow> sorted xs"
  by (simp add: sorted_map enc_le sorted_wrt_map)

lemma zset_ok_map_enc: "sorted xs \<Longrightarrow> distinct xs \<Longrightarrow> zset_ok (map enc xs)"
  by (auto simp: zset_ok_def sorted_map_enc distinct_map inj_on_def o_def enc_def)

lemma zset_ok_unique: "zset_ok x \<Longrightarrow> zset_ok y \<Longrightarrow> set x = set y \<Longrightarrow> x = y"
  by (auto simp: zset_ok_def distinct_map intro: sorted_distinct_set_unique)

lemma zset_ok_enc_zset [simp]: "zset_ok (enc_zset N)"
  by (simp add: enc_zset_def zset_ok_map_enc)

lemma set_enc_zset [simp]: "finite N \<Longrightarrow> set (enc_zset N) = enc ` N"
  by (simp add: enc_zset_def)

lemma enc_zset_add [simp]:
  assumes "finite N"
  shows "zset_add (of_int n) (show_int n) (enc_zset N) = enc_zset (insert n N)"
proof (rule zset_ok_unique)
  show "set (zset_add (of_int n) (show_int n) (enc_zset N)) = set (enc_zset (insert n N))"
    using assms by (auto simp: enc_def)
qed (simp_all add: zset_ok_add)

lemma enc_zset_empty [simp]: "enc_zset {} = []" "finite N \<Longrightarrow> enc_zset N = [] \<longleftrightarrow> N = {}"
  by (auto simp: enc_zset_def)

lemma enc_zset_Min:
  assumes "finite N" "N \<noteq> {}"
  shows "enc_zset N = enc (Min N) # enc_zset (N - {Min N})"
  using assms by (simp add: enc_zset_def sorted_list_of_set_nonempty)

lemma show_int_image_iff [simp]: "show_int n \<in> show_int ` N \<longleftrightarrow> n \<in> N"
  by auto

lemma show_int_image_diff: "show_int ` N - {show_int n} = show_int ` (N - {n})"
  by auto

section \<open>The operations on a Redis server\<close>

lemma representsD:
  assumes "represents v c a p"
  shows "v (lastUsedNonceKey c a) = map_option (\<lambda>n. RString (show_int n)) (np_last p)"
    and "np_last p = Some n \<Longrightarrow> - (2 ^ 63) \<le> n \<and> n < 2 ^ 63"
    and "finite (np_recycled p)"
    and "as_zset (v (recycledNoncesKey c a)) = Some (enc_zset (np_recycled p))"
    and "as_set (v (sentNoncesKey c a)) = Some (show_int ` np_sent p)"
    and "\<exists>z. as_zset (v (nonceMapKey c a)) = Some z"
  using assms unfolding represents_def by auto

text \<open>A keyspace that differs only at keys of no interest represents the same pool.\<close>

lemma represents_cong:
  assumes "represents v c a p"
    and "\<And>k. k \<in> {lastUsedNonceKey c a, recycledNoncesKey c a, sentNoncesKey c a, nonceMapKey c a}
      \<Longrightarrow> v' k = v k"
  shows "represents v' c a p"
  using assms by (simp add: represents_def)

text \<open>The pool after a change of the entry of one queue id in the nonce map.\<close>

definition map_nonce :: "keyspace \<Rightarrow> int \<Rightarrow> string \<Rightarrow> string \<Rightarrow> int option" where
  "map_nonce v c a q = (case as_zset (v (nonceMapKey c a)) of None \<Rightarrow> None
     | Some z \<Rightarrow> (case filter (\<lambda>p. snd p = q) z of [] \<Rightarrow> None | p # _ \<Rightarrow> Some \<lfloor>fst p\<rfloor>))"

lemma zset_add_find:
  "filter (\<lambda>p. snd p = m) (zset_add sc m z) = [(sc, m)]"
proof -
  have none: "filter (\<lambda>p. snd p = m) (zset_remove m z) = []"
    by (simp add: zset_remove_def filter_empty_conv)
  have "filter (\<lambda>p. snd p = m) (insort (sc, m) y) = [(sc, m)]"
    if "filter (\<lambda>p. snd p = m) y = []" for y
    using that by (induction y) (auto split: if_splits)
  with none show ?thesis by (simp add: zset_add_def)
qed

context redis_server
begin

lemma updateNonceMap_run:
  assumes "as_zset (view w (nonceMapKey c a)) = Some z"
  shows "fst (updateNonceMap R c a (Some n) q w) = Inr ()"
    and "view (snd (updateNonceMap R c a (Some n) q w)) =
      (view w)(nonceMapKey c a \<mapsto> RZSet (zset_add (of_int n) q z))"
  using assms by (simp_all add: updateNonceMap_def zadd_num_def io_simps cmd_zadd_def)

lemma acquireRecycledNonce_run:
  assumes "represents (view w) c a p"
  shows "fst (acquireRecycledNonce R c a w) =
      Inr (if np_recycled p = {} then None else Some (Some (Min (np_recycled p))))"
    and "view (snd (acquireRecycledNonce R c a w)) =
      (view w)(recycledNoncesKey c a := norm_zset (enc_zset (np_recycled p - {Min (np_recycled p)})))"
proof -
  note rep = representsD [OF assms]
  show "fst (acquireRecycledNonce R c a w) =
      Inr (if np_recycled p = {} then None else Some (Some (Min (np_recycled p))))"
    using rep(3,4) enc_zset_Min [of "np_recycled p"]
    by (simp add: acquireRecycledNonce_def io_simps cmd_zpopmin_def enc_def)
  show "view (snd (acquireRecycledNonce R c a w)) =
      (view w)(recycledNoncesKey c a := norm_zset (enc_zset (np_recycled p - {Min (np_recycled p)})))"
    using rep(3,4) enc_zset_Min [of "np_recycled p"]
    by (cases "np_recycled p = {}")
      (simp_all add: acquireRecycledNonce_def io_simps cmd_zpopmin_def enc_def)
qed

lemma acquire_counter:
  assumes "np_recycled p = {}"
    and rep: "represents (view w) c a p"
    and "gtc c a = Inr tc" "0 \<le> tc" "tc < 2 ^ 63"
    and "\<And>n. np_last p = Some n \<Longrightarrow> n + 1 < 2 ^ 63"
  shows "fst (acquireNonce R gtc q c a w) = Inr (Some (fst (pool_acquire tc p)), False)"
    and "\<exists>z. as_zset (view w (nonceMapKey c a)) = Some z
      \<and> view (snd (acquireNonce R gtc q c a w)) =
        (view w)(lastUsedNonceKey c a \<mapsto> RString (show_int (fst (pool_acquire tc p))),
                 recycledNoncesKey c a := None,
                 nonceMapKey c a \<mapsto> RZSet (zset_add (of_int (fst (pool_acquire tc p))) q z))"
proof -
  note reps = representsD [OF rep]
  obtain z where z: "as_zset (view w (nonceMapKey c a)) = Some z" using reps(6) by blast
  note run = acquireNonce_def syncLatestNonceFromOnchain_def io_simps cmd_incr_def cmd_set_def
    acquireRecycledNonce_run [OF rep] updateNonceMap_run pool_acquire_def
  show "fst (acquireNonce R gtc q c a w) = Inr (Some (fst (pool_acquire tc p)), False)"
    using reps(1,2) z assms by (cases "np_last p") (simp_all add: run)
  show "\<exists>z. as_zset (view w (nonceMapKey c a)) = Some z
      \<and> view (snd (acquireNonce R gtc q c a w)) =
        (view w)(lastUsedNonceKey c a \<mapsto> RString (show_int (fst (pool_acquire tc p))),
                 recycledNoncesKey c a := None,
                 nonceMapKey c a \<mapsto> RZSet (zset_add (of_int (fst (pool_acquire tc p))) q z))"
    using reps(1,2) z assms by (cases "np_last p") (simp_all add: run fun_upd_twist)
qed

lemma acquire_recycled:
  assumes "np_recycled p \<noteq> {}" and rep: "represents (view w) c a p"
  shows "fst (acquireNonce R gtc q c a w) = Inr (Some (Min (np_recycled p)), False)"
    and "\<exists>z. as_zset (view w (nonceMapKey c a)) = Some z
      \<and> view (snd (acquireNonce R gtc q c a w)) =
        (view w)(recycledNoncesKey c a :=
                   norm_zset (enc_zset (np_recycled p - {Min (np_recycled p)})),
                 nonceMapKey c a \<mapsto> RZSet (zset_add (of_int (Min (np_recycled p))) q z))"
  using assms representsD [OF rep]
  by (auto simp: acquireNonce_def io_simps acquireRecycledNonce_run [OF rep] updateNonceMap_run)

text \<open>Taking a nonce implements the abstract pool, and records the queue id in the nonce map.\<close>

lemma acquire_refines:
  assumes rep: "represents (view w) c a p"
    and tc: "gtc c a = Inr tc" "0 \<le> tc" "tc < 2 ^ 63"
    and room: "\<And>n. np_last p = Some n \<Longrightarrow> n + 1 < 2 ^ 63"
  shows "fst (acquireNonce R gtc q c a w) = Inr (Some (fst (pool_acquire tc p)), False)"
    and "represents (view (snd (acquireNonce R gtc q c a w))) c a (snd (pool_acquire tc p))"
    and "map_nonce (view (snd (acquireNonce R gtc q c a w))) c a q = Some (fst (pool_acquire tc p))"
    and "k \<notin> {lastUsedNonceKey c a, recycledNoncesKey c a, nonceMapKey c a} \<Longrightarrow>
      view (snd (acquireNonce R gtc q c a w)) k = view w k"
proof -
  let ?w' = "snd (acquireNonce R gtc q c a w)"
  note reps = representsD [OF rep]
  note facts = acquire_recycled [OF _ rep] acquire_counter [OF _ rep, of gtc tc q]
  have "fst (acquireNonce R gtc q c a w) = Inr (Some (fst (pool_acquire tc p)), False)
    \<and> represents (view ?w') c a (snd (pool_acquire tc p))
    \<and> map_nonce (view ?w') c a q = Some (fst (pool_acquire tc p))
    \<and> (k \<notin> {lastUsedNonceKey c a, recycledNoncesKey c a, nonceMapKey c a} \<longrightarrow> view ?w' k = view w k)"
  proof (cases "np_recycled p = {}")
    case False
    then show ?thesis
      using facts(1) [of gtc q] facts(2) [of gtc q] reps
      by (auto simp: pool_acquire_def represents_def map_nonce_def zset_add_find)
  next
    case True
    obtain z where z: "view ?w' =
        (view w)(lastUsedNonceKey c a \<mapsto> RString (show_int (fst (pool_acquire tc p))),
                 recycledNoncesKey c a := None,
                 nonceMapKey c a \<mapsto> RZSet (zset_add (of_int (fst (pool_acquire tc p))) q z))"
      using facts(4) [OF True tc] room by blast
    show ?thesis
      using facts(3) [OF True tc] room reps(2) reps tc(2,3) True
      by (auto simp: z pool_acquire_def represents_def map_nonce_def zset_add_find
          split: option.splits)
  qed
  then show "fst (acquireNonce R gtc q c a w) = Inr (Some (fst (pool_acquire tc p)), False)"
    and "represents (view ?w') c a (snd (pool_acquire tc p))"
    and "map_nonce (view ?w') c a q = Some (fst (pool_acquire tc p))"
    and "k \<notin> {lastUsedNonceKey c a, recycledNoncesKey c a, nonceMapKey c a} \<Longrightarrow> view ?w' k = view w k"
    by blast+
qed

lemma recycle_refines:
  assumes rep: "represents (view w) c a p"
  shows "fst (recycleNonce R c a (Some n) w) = Inr ()"
    and "represents (view (snd (recycleNonce R c a (Some n) w))) c a
      (p\<lparr>np_recycled := insert n (np_recycled p)\<rparr>)"
    and "k \<noteq> recycledNoncesKey c a \<Longrightarrow> view (snd (recycleNonce R c a (Some n) w)) k = view w k"
  using representsD [OF rep]
  by (auto simp: recycleNonce_def zadd_num_def io_simps cmd_zadd_def represents_def)

lemma addSent_refines:
  assumes rep: "represents (view w) c a p"
  shows "fst (addSentNonce R c a (Some n) w) = Inr ()"
    and "represents (view (snd (addSentNonce R c a (Some n) w))) c a
      (p\<lparr>np_sent := insert n (np_sent p)\<rparr>)"
    and "k \<noteq> sentNoncesKey c a \<Longrightarrow> view (snd (addSentNonce R c a (Some n) w)) k = view w k"
  using representsD [OF rep]
  by (auto simp: addSentNonce_def io_simps cmd_sadd_def represents_def)

lemma removeSent_refines:
  assumes rep: "represents (view w) c a p"
  shows "fst (removeSentNonce R c a (Some n) w) = Inr (n \<in> np_sent p)"
    and "represents (view (snd (removeSentNonce R c a (Some n) w))) c a
      (p\<lparr>np_sent := np_sent p - {n}\<rparr>)"
    and "k \<noteq> sentNoncesKey c a \<Longrightarrow> view (snd (removeSentNonce R c a (Some n) w)) k = view w k"
  using representsD [OF rep]
  by (auto simp: removeSentNonce_def io_simps cmd_srem_def represents_def show_int_image_diff)

lemma isSent_refines:
  assumes rep: "represents (view w) c a p"
  shows "fst (isSentNonce R c a (Some n) w) = Inr (n \<in> np_sent p)"
    and "view (snd (isSentNonce R c a (Some n) w)) = view w"
  using representsD [OF rep]
  by (auto simp: isSentNonce_def io_simps q_sismember_def)

lemma inspect_refines:
  assumes rep: "represents (view w) c a p"
  shows "fst (inspectNonce R c a w) = Inr (Some (case np_last p of None \<Rightarrow> 0 | Some n \<Rightarrow> n))"
    and "view (snd (inspectNonce R c a w)) = view w"
  using representsD [OF rep]
  by (auto simp: inspectNonce_def io_simps q_get_def split: option.splits)

lemma sync_refines:
  assumes rep: "represents (view w) c a p" and "a \<noteq> []"
    and tc: "gtc c a = Inr tc" "0 \<le> tc" "tc < 2 ^ 63"
  shows "represents (view (snd (syncLatestNonceFromOnchainIfHigher R gtc c a w))) c a
      (pool_sync_if_higher tc p)"
    and "fst (syncLatestNonceFromOnchainIfHigher R gtc c a w) =
      Inr (the (np_last (pool_sync_if_higher tc p)))"
    and "k \<noteq> lastUsedNonceKey c a \<Longrightarrow>
      view (snd (syncLatestNonceFromOnchainIfHigher R gtc c a w)) k = view w k"
  using representsD [OF rep] assms
  by (auto simp: syncLatestNonceFromOnchainIfHigher_def sync_script_def Let_def io_simps
      represents_def pool_sync_if_higher_def q_get_def cmd_set_def lua_tonumber_def
      split: option.splits)

end

section \<open>The life of a nonce\<close>

text \<open>
  The steps in which the workers use one wallet, over the state of the server and the set of
  nonces that are in flight: taken and neither given back nor mined. A step is a call that
  returned normally.
\<close>

inductive wallet_step ::
  "'w redis \<Rightarrow> (int \<Rightarrow> string \<Rightarrow> js_error + int) \<Rightarrow> int \<Rightarrow> string \<Rightarrow> 'w \<times> int set \<Rightarrow> 'w \<times> int set \<Rightarrow> bool"
  for R :: "'w redis" and gtc :: "int \<Rightarrow> string \<Rightarrow> js_error + int" and c :: int and a :: string
where
  step_acquire: "acquireNonce R gtc q c a w = (Inr (Some n, b), w') \<Longrightarrow>
     wallet_step R gtc c a (w, F) (w', insert n F)"
| step_recycle: "n \<in> F \<Longrightarrow> recycleNonce R c a (Some n) w = (Inr (), w') \<Longrightarrow>
     wallet_step R gtc c a (w, F) (w', F - {n})"
| step_sent: "n \<in> F \<Longrightarrow> addSentNonce R c a (Some n) w = (Inr (), w') \<Longrightarrow>
     wallet_step R gtc c a (w, F) (w', F)"
| step_mined: "n \<in> F \<Longrightarrow> removeSentNonce R c a (Some n) w = (Inr b, w') \<Longrightarrow>
     wallet_step R gtc c a (w, F) (w', F - {n})"
| step_sync: "syncLatestNonceFromOnchainIfHigher R gtc c a w = (Inr n, w') \<Longrightarrow>
     wallet_step R gtc c a (w, F) (w', F)"

inductive wallet_reach ::
  "'w redis \<Rightarrow> (int \<Rightarrow> string \<Rightarrow> js_error + int) \<Rightarrow> int \<Rightarrow> string \<Rightarrow> 'w \<times> int set \<Rightarrow> 'w \<times> int set \<Rightarrow> bool"
  for R :: "'w redis" and gtc :: "int \<Rightarrow> string \<Rightarrow> js_error + int" and c :: int and a :: string
    and s :: "'w \<times> int set"
where
  reach_refl: "wallet_reach R gtc c a s s"
| reach_step: "wallet_reach R gtc c a s t \<Longrightarrow> wallet_step R gtc c a t u \<Longrightarrow> wallet_reach R gtc c a s u"

definition pool_inv :: "nonce_pool \<Rightarrow> int set \<Rightarrow> bool" where
  "pool_inv p F \<longleftrightarrow> np_recycled p \<inter> F = {}
     \<and> (\<exists>n \<ge> 1. np_last p = Some n \<and> (\<forall>m \<in> np_recycled p \<union> F. m \<le> n))"

definition wallet_inv :: "('w \<Rightarrow> keyspace) \<Rightarrow> int \<Rightarrow> string \<Rightarrow> 'w \<times> int set \<Rightarrow> bool" where
  "wallet_inv view c a s \<longleftrightarrow> (\<exists>p. represents (view (fst s)) c a p \<and> pool_inv p (snd s))"

lemma wallet_invI: "represents (view w) c a p \<Longrightarrow> pool_inv p F \<Longrightarrow> wallet_inv view c a (w, F)"
  by (auto simp: wallet_inv_def)

text \<open>With a counter of at least 1 the pool answers a nonce that is not in flight.\<close>

lemma pool_acquire_fresh:
  assumes "pool_inv p F" "finite (np_recycled p)"
  shows "fst (pool_acquire tc p) \<notin> F"
    and "pool_inv (snd (pool_acquire tc p)) (insert (fst (pool_acquire tc p)) F)"
proof -
  obtain n where n: "1 \<le> n" "np_last p = Some n" "\<And>m. m \<in> np_recycled p \<union> F \<Longrightarrow> m \<le> n"
    and disj: "np_recycled p \<inter> F = {}"
    using assms(1) by (auto simp: pool_inv_def)
  have min: "np_recycled p \<noteq> {} \<Longrightarrow> Min (np_recycled p) \<in> np_recycled p"
    using assms(2) by simp
  have "n + 1 \<notin> F" using n(3) [of "n + 1"] by auto
  with n disj min show "fst (pool_acquire tc p) \<notin> F"
    by (auto simp: pool_acquire_def)
  show "pool_inv (snd (pool_acquire tc p)) (insert (fst (pool_acquire tc p)) F)"
  proof (cases "np_recycled p = {}")
    case True
    then show ?thesis using n by (force simp: pool_acquire_def pool_inv_def)
  next
    case False
    then show ?thesis using n disj min by (auto simp: pool_acquire_def pool_inv_def)
  qed
qed

lemma pool_inv_simps:
  "pool_inv (p\<lparr>np_sent := S\<rparr>) F = pool_inv p F"
  "pool_inv p F \<Longrightarrow> n \<in> F \<Longrightarrow> pool_inv (p\<lparr>np_recycled := insert n (np_recycled p)\<rparr>) (F - {n})"
  "pool_inv p F \<Longrightarrow> pool_inv p (F - {n})"
  by (auto simp: pool_inv_def)

lemma pool_inv_sync:
  assumes "pool_inv p F"
  shows "pool_inv (pool_sync_if_higher tc p) F"
proof -
  obtain n where n: "1 \<le> n" "np_last p = Some n" "\<And>m. m \<in> np_recycled p \<union> F \<Longrightarrow> m \<le> n"
    and "np_recycled p \<inter> F = {}"
    using assms by (auto simp: pool_inv_def)
  moreover have "m \<le> max (tc - 1) n" if "m \<in> np_recycled p \<union> F" for m
    using n(3) [OF that] by simp
  ultimately show ?thesis by (simp add: pool_inv_def pool_sync_if_higher_def)
qed

context redis_server
begin

text \<open>With a counter that is not 0 the chain is not asked; at the last 64-bit value it fails.\<close>

lemma acquire_no_sync:
  assumes "np_last p = Some n" "n \<noteq> 0" and rep: "represents (view w) c a p"
  shows "acquireNonce R gtc q c a w = acquireNonce R gtc' q c a w"
  using assms representsD [OF rep]
  by (auto simp: acquireNonce_def io_simps acquireRecycledNonce_run [OF rep] cmd_incr_def
      split: sum.splits)

lemma acquire_no_room:
  assumes "np_last p = Some n" "2 ^ 63 \<le> n + 1" "np_recycled p = {}"
    and rep: "represents (view w) c a p"
  shows "\<exists>e. fst (acquireNonce R gtc q c a w) = Inl e"
  using assms representsD [OF rep]
  by (auto simp: acquireNonce_def io_simps acquireRecycledNonce_run [OF rep] cmd_incr_def)

lemma acquire_step_inv:
  assumes inv: "wallet_inv view c a (w, F)"
    and run: "acquireNonce R gtc q c a w = (Inr (Some n, b), w')"
  shows "n \<notin> F" and "wallet_inv view c a (w', insert n F)"
proof -
  obtain p where rep: "represents (view w) c a p" and pinv: "pool_inv p F"
    using inv by (auto simp: wallet_inv_def)
  obtain l where l: "np_last p = Some l" "1 \<le> l" using pinv by (auto simp: pool_inv_def)
  let ?gtc = "\<lambda>_ _. Inr 0 :: js_error + int"
  have run': "acquireNonce R ?gtc q c a w = (Inr (Some n, b), w')"
    using acquire_no_sync [OF l(1) _ rep, of gtc q ?gtc] l(2) run by simp
  have res: "Inr (Some n, b) = Inr (Some (fst (pool_acquire 0 p)), False)
    \<and> represents (view w') c a (snd (pool_acquire 0 p))"
  proof (cases "np_recycled p = {}")
    case True
    then have "l + 1 < 2 ^ 63"
      using acquire_no_room [OF l(1) _ _ rep, of gtc q] run by fastforce
    then show ?thesis
      using acquire_refines(1,2) [OF rep, of ?gtc 0 q] l run' by simp
  next
    case False
    then show ?thesis
      using acquire_recycled [OF False rep, of ?gtc q] run' representsD [OF rep] l
      by (auto simp: pool_acquire_def represents_def)
  qed
  then have n: "n = fst (pool_acquire 0 p)" by simp
  show "n \<notin> F" "wallet_inv view c a (w', insert n F)"
    using pool_acquire_fresh [OF pinv representsD(3) [OF rep], of 0] res
    by (auto simp: n intro: wallet_invI)
qed

lemma wallet_step_inv:
  assumes "wallet_step R gtc c a s t" "wallet_inv view c a s" "a \<noteq> []"
    and gtc: "\<And>tc. gtc c a = Inr tc \<Longrightarrow> 0 \<le> tc \<and> tc < 2 ^ 63"
  shows "wallet_inv view c a t"
  using assms(1,2)
proof (cases rule: wallet_step.cases)
  case (step_acquire q w n b w' F)
  then show ?thesis using acquire_step_inv(2) assms(2) by blast
next
  case (step_recycle n F w w')
  with assms(2) obtain p where p: "represents (view w) c a p" "pool_inv p F"
    by (auto simp: wallet_inv_def)
  show ?thesis using recycle_refines(2) [OF p(1), of n] step_recycle pool_inv_simps(2) [OF p(2)]
    by (auto intro: wallet_invI)
next
  case (step_sent n F w w')
  with assms(2) obtain p where p: "represents (view w) c a p" "pool_inv p F"
    by (auto simp: wallet_inv_def)
  show ?thesis using addSent_refines(2) [OF p(1), of n] step_sent p(2)
    by (auto intro!: wallet_invI simp: pool_inv_simps(1))
next
  case (step_mined n F w b w')
  with assms(2) obtain p where p: "represents (view w) c a p" "pool_inv p F"
    by (auto simp: wallet_inv_def)
  show ?thesis using removeSent_refines(2) [OF p(1), of n] step_mined pool_inv_simps(3) [OF p(2)]
    by (auto intro!: wallet_invI simp: pool_inv_simps(1))
next
  case (step_sync w n w' F)
  with assms(2) obtain p where p: "represents (view w) c a p" "pool_inv p F"
    by (auto simp: wallet_inv_def)
  obtain tc where tc: "gtc c a = Inr tc"
    using step_sync by (cases "gtc c a") (auto simp: syncLatestNonceFromOnchainIfHigher_def bnd_def)
  show ?thesis using sync_refines(1) [OF p(1) assms(3), of gtc tc] tc gtc [OF tc] step_sync
      pool_inv_sync [OF p(2), of tc] by (auto intro: wallet_invI)
qed

lemma wallet_reach_inv:
  assumes "wallet_reach R gtc c a s t" "wallet_inv view c a s" "a \<noteq> []"
    and "\<And>tc. gtc c a = Inr tc \<Longrightarrow> 0 \<le> tc \<and> tc < 2 ^ 63"
  shows "wallet_inv view c a t"
  using assms by (induction rule: wallet_reach.induct) (blast intro: wallet_step_inv)+

end

section \<open>Successive acquisitions\<close>

text \<open>The send worker takes one nonce after the other for the transactions of a queue.\<close>

fun acquire_all ::
  "'w redis \<Rightarrow> (int \<Rightarrow> string \<Rightarrow> js_error + int) \<Rightarrow> string list \<Rightarrow> int \<Rightarrow> string \<Rightarrow> ('w, js_num list) io" where
  "acquire_all R gtc [] c a = ret []"
| "acquire_all R gtc (q # qs) c a =
     bnd (acquireNonce R gtc q c a) (\<lambda>r.
     bnd (acquire_all R gtc qs c a) (\<lambda>ns. ret (fst r # ns)))"

text \<open>What \<open>k\<close> acquisitions answer: the recycled nonces in order, then fresh ones.\<close>

definition next_nonces :: "nat \<Rightarrow> int set \<Rightarrow> int \<Rightarrow> int list" where
  "next_nonces k N n = take k (sorted_list_of_set N @ map (\<lambda>i. n + 1 + int i) [0..<k])"

lemma next_nonces_empty: "next_nonces k {} n = map (\<lambda>i. n + 1 + int i) [0..<k]"
  by (simp add: next_nonces_def)

lemma next_nonces_Suc:
  "finite N \<Longrightarrow> N \<noteq> {} \<Longrightarrow> next_nonces (Suc k) N n = Min N # next_nonces k (N - {Min N}) n"
  "next_nonces (Suc k) {} n = (n + 1) # next_nonces k {} (n + 1)"
proof -
  assume N: "finite N" "N \<noteq> {}"
  then show "next_nonces (Suc k) N n = Min N # next_nonces k (N - {Min N}) n"
    by (cases "length (sorted_list_of_set (N - {Min N})) = 0")
      (simp_all add: next_nonces_def sorted_list_of_set_nonempty)
next
  have "map (\<lambda>i. n + 1 + int i) [0..<Suc k] = (n + 1) # map (\<lambda>i. n + 2 + int i) [0..<k]"
    by (simp add: upt_conv_Cons map_Suc_upt [symmetric] o_def del: upt_Suc)
  then show "next_nonces (Suc k) {} n = (n + 1) # next_nonces k {} (n + 1)"
    by (simp add: next_nonces_empty del: upt_Suc)
qed

lemma next_nonces_distinct:
  assumes "finite N" "\<And>m. m \<in> N \<Longrightarrow> m \<le> n"
  shows "distinct (next_nonces k N n)"
  unfolding next_nonces_def
  by (rule distinct_take) (use assms in \<open>auto simp: distinct_map inj_on_def\<close>, fastforce)

context redis_server
begin

lemma acquire_all_run:
  assumes "represents (view w) c a p" "np_last p = Some n" "1 \<le> n" "n + int (length qs) < 2 ^ 63"
  shows "fst (acquire_all R gtc qs c a w) = Inr (map Some (next_nonces (length qs) (np_recycled p) n))"
  using assms
proof (induction qs arbitrary: w p n)
  case Nil
  then show ?case by (simp add: next_nonces_def)
next
  case (Cons q qs)
  let ?gtc = "\<lambda>_ _. Inr 0 :: js_error + int"
  let ?w' = "snd (acquireNonce R gtc q c a w)" and ?p' = "snd (pool_acquire 0 p)"
  note rep = Cons.prems(1) and fin = representsD(3) [OF Cons.prems(1)]
  have same: "acquireNonce R gtc q c a w = acquireNonce R ?gtc q c a w"
    using acquire_no_sync [OF Cons.prems(2) _ rep] Cons.prems(3) by simp
  have head: "fst (acquireNonce R gtc q c a w) = Inr (Some (fst (pool_acquire 0 p)), False)"
    and rep': "represents (view ?w') c a ?p'"
    using acquire_refines(1,2) [OF rep, of ?gtc 0 q] Cons.prems by (simp_all add: same)
  show ?case
  proof (cases "np_recycled p = {}")
    case True
    then have "?p' = p\<lparr>np_last := Some (n + 1)\<rparr>" "fst (pool_acquire 0 p) = n + 1"
      using Cons.prems by (simp_all add: pool_acquire_def)
    then show ?thesis
      using Cons.IH [OF rep', of "n + 1"] Cons.prems head True
      by (simp add: io_simps next_nonces_Suc(2))
  next
    case False
    then have "?p' = p\<lparr>np_recycled := np_recycled p - {Min (np_recycled p)}\<rparr>"
      "fst (pool_acquire 0 p) = Min (np_recycled p)"
      by (simp_all add: pool_acquire_def)
    then show ?thesis
      using Cons.IH [OF rep', of n] Cons.prems head False
      by (simp add: io_simps next_nonces_Suc(1) [OF fin False])
  qed
qed

end

section \<open>The nonce map\<close>

lemma redis_unrange_head:
  "1 \<le> N \<Longrightarrow> redis_unrange 0 (- N) z = drop (nat (int (length z) - N + 1)) z"
  by (auto simp: redis_unrange_def range_start_def range_count_def min_def)

lemma redis_range_head:
  "1 \<le> N \<Longrightarrow> length (redis_range 0 (- N) z) = nat (int (length z) - N + 1)"
  by (auto simp: redis_range_def range_start_def range_count_def min_def)

definition prune_val :: "int \<Rightarrow> rval option \<Rightarrow> rval option" where
  "prune_val N v = (case as_zset v of None \<Rightarrow> v
     | Some z \<Rightarrow> norm_zset (drop (nat (int (length z) - N + 1)) z))"

definition pruned_count :: "int \<Rightarrow> rval option \<Rightarrow> int" where
  "pruned_count N v = (case as_zset v of None \<Rightarrow> 0
     | Some z \<Rightarrow> max 0 (int (length z) - N + 1))"

text \<open>The pairs of a range query, read back from the flat reply.\<close>

lemma nonce_pairs_enc:
  assumes "\<And>n. sc (of_int n) = show_int n" "\<And>p. p \<in> set z \<Longrightarrow> \<exists>n. fst p = of_int n"
  shows "nonce_pairs (concat (map (\<lambda>p. [snd p, sc (fst p)]) z)) =
    map (\<lambda>p. (Some \<lfloor>fst p\<rfloor>, snd p)) z"
  using assms(2)
proof (induction z)
  case (Cons p z)
  have "\<exists>n. fst p = of_int n" by (rule Cons.prems) simp
  then obtain n where n: "fst p = of_int n" by blast
  have "nonce_pairs (concat (map (\<lambda>p. [snd p, sc (fst p)]) z)) = map (\<lambda>p. (Some \<lfloor>fst p\<rfloor>, snd p)) z"
    by (rule Cons.IH) (simp add: Cons.prems)
  then show ?case by (simp add: n assms(1))
qed simp

context redis_server
begin

lemma prune_nonce_maps_run:
  assumes "1 \<le> N" "distinct keys"
  shows "fst (prune_nonce_maps R N keys d w) =
      Inr (d + sum_list (map (\<lambda>k. pruned_count N (view w k)) keys))
    \<and> view (snd (prune_nonce_maps R N keys d w)) =
      (\<lambda>k. if k \<in> set keys then prune_val N (view w k) else view w k)"
  using assms(2)
proof (induction keys arbitrary: d w)
  case Nil
  show ?case by simp
next
  case (Cons key keys)
  let ?w' = "snd (r_zremrangebyrank R key 0 (- N) w)"
  have view': "view ?w' = (view w)(key := prune_val N (view w key))"
    using assms(1)
    by (auto simp: cmd_zremrangebyrank_def prune_val_def redis_unrange_head split: option.split)
  have answer: "(case fst (r_zremrangebyrank R key 0 (- N) w) of Inl _ \<Rightarrow> d | Inr n \<Rightarrow> d + n) =
      d + pruned_count N (view w key)" for d
    using assms(1) by (auto simp: cmd_zremrangebyrank_def pruned_count_def redis_range_head
        split: option.split)
  have rest: "map (\<lambda>k. pruned_count N (view ?w' k)) keys = map (\<lambda>k. pruned_count N (view w k)) keys"
    using Cons.prems unfolding view' by auto
  have step: "prune_nonce_maps R N (key # keys) d w =
      prune_nonce_maps R N keys (d + pruned_count N (view w key)) ?w'"
    by (simp only: prune_nonce_maps.simps bnd_apply settle_apply fst_conv snd_conv sum.case answer)
  have "distinct keys" using Cons.prems by simp
  note IH = Cons.IH [OF this, of "d + pruned_count N (view w key)" ?w', unfolded rest]
  from IH show ?case
    unfolding step view' using Cons.prems by (auto simp: fun_eq_iff)
qed

lemma pruneNonceMaps_run:
  assumes "1 \<le> N"
  shows "view (snd (pruneNonceMaps R N w)) =
      (\<lambda>k. if glob ''nonce-map:*'' k \<and> view w k \<noteq> None then prune_val N (view w k) else view w k)"
    and "fst (pruneNonceMaps R N w) =
      Inr (\<Sum>k \<in> {k \<in> dom (view w). glob ''nonce-map:*'' k}. pruned_count N (view w k))"
proof -
  obtain ks where ks: "fst (r_keys R ''nonce-map:*'' w) = Inr ks" "distinct ks"
    "set ks = {k \<in> dom (view w). glob ''nonce-map:*'' k}"
    using law_keys(1) [of "''nonce-map:*''" w] by (auto simp: plain_pattern_def)
  note run = prune_nonce_maps_run [OF assms ks(2), of 0 "snd (r_keys R ''nonce-map:*'' w)"]
  show "view (snd (pruneNonceMaps R N w)) =
      (\<lambda>k. if glob ''nonce-map:*'' k \<and> view w k \<noteq> None then prune_val N (view w k) else view w k)"
    using run ks by (auto simp: pruneNonceMaps_def io_simps fun_eq_iff)
  show "fst (pruneNonceMaps R N w) =
      Inr (\<Sum>k \<in> {k \<in> dom (view w). glob ''nonce-map:*'' k}. pruned_count N (view w k))"
    using run ks by (simp add: pruneNonceMaps_def io_simps sum_list_distinct_conv_sum_set)
qed

lemma getNonceMap_run:
  assumes "as_zset (view w (nonceMapKey c a)) = Some z" "\<And>p. p \<in> set z \<Longrightarrow> \<exists>n. fst p = of_int n"
  shows "fst (getNonceMap R c a lo hi w) = Inr (map (\<lambda>p. (Some \<lfloor>fst p\<rfloor>, snd p))
      (filter (\<lambda>p. of_int lo \<le> fst p \<and> (case hi of None \<Rightarrow> True | Some h \<Rightarrow> fst p \<le> of_int h)) z))"
  using assms
  by (cases hi) (auto simp: getNonceMap_def io_simps q_zrangebyscore_def intro!: nonce_pairs_enc)

end

section \<open>Properties\<close>

text \<open>The wallet of the examples: a counter at 5 and nothing recycled or sent.\<close>

lemma counter_at_5:
  "represents (mem_view [(''nonce:1:0xa'', RString ''5'')]) 1 ''0xa''
     \<lparr>np_last = Some 5, np_recycled = {}, np_sent = {}\<rparr>"
proof -
  have "mem_view [(''nonce:1:0xa'', RString ''5'')] (lastUsedNonceKey 1 ''0xa'') = Some (RString ''5'')"
    "mem_view [(''nonce:1:0xa'', RString ''5'')] (recycledNoncesKey 1 ''0xa'') = None"
    "mem_view [(''nonce:1:0xa'', RString ''5'')] (sentNoncesKey 1 ''0xa'') = None"
    "mem_view [(''nonce:1:0xa'', RString ''5'')] (nonceMapKey 1 ''0xa'') = None"
    "show_int 5 = ''5''"
    by code_simp+
  then show ?thesis by (simp add: represents_def)
qed

text \<open>
  C1: \<open>acquireNonce\<close> implements the abstract pool: on any server, for a wallet whose keys
  represent a pool, it answers the smallest recycled nonce or the successor of the counter
  (the on-chain count for a new wallet), leaves keys that represent the pool without that
  nonce, records the queue id under the nonce in the nonce map, and touches no other key.
\<close>

theorem acquireNonce_refines_pool:
  assumes "redis_server R view" and "represents (view w) c a p"
    and "gtc c a = Inr tc" and "0 \<le> tc" and "tc < 2 ^ 63"
    and "\<forall>n. np_last p = Some n \<longrightarrow> n + 1 < 2 ^ 63"
  shows "fst (acquireNonce R gtc q c a w) = Inr (Some (fst (pool_acquire tc p)), False)
    \<and> represents (view (snd (acquireNonce R gtc q c a w))) c a (snd (pool_acquire tc p))
    \<and> map_nonce (view (snd (acquireNonce R gtc q c a w))) c a q = Some (fst (pool_acquire tc p))
    \<and> (\<forall>k. k \<notin> {lastUsedNonceKey c a, recycledNoncesKey c a, nonceMapKey c a} \<longrightarrow>
         view (snd (acquireNonce R gtc q c a w)) k = view w k)"
  using redis_server.acquire_refines(1-3) [OF assms(1,2), of gtc tc q]
    redis_server.acquire_refines(4) [OF assms(1,2), of gtc tc _ q] assms(3-6) by blast

theorem acquireNonce_refines_pool_witness:
  "fst (acquireNonce mem_redis (\<lambda>_ _. Inr 7) ''q'' 1 ''0xA'' []) = Inr (Some 7, False)
   \<and> represents (mem_view (snd (acquireNonce mem_redis (\<lambda>_ _. Inr 7) ''q'' 1 ''0xA'' [])))
       1 ''0xA'' \<lparr>np_last = Some 7, np_recycled = {}, np_sent = {}\<rparr>"
  using acquireNonce_refines_pool [OF mem.redis_server_axioms,
      of "[]" 1 "''0xA''" "\<lparr>np_last = None, np_recycled = {}, np_sent = {}\<rparr>" "\<lambda>_ _. Inr 7" 7 "''q''"]
  by (simp add: represents_def mem_view_def pool_acquire_def)



text \<open>
  successive acquisitions on a wallet with counter \<open>n\<close> of at least 1 answer the
  recycled nonces in increasing order and then \<open>n + 1\<close>, \<open>n + 2\<close>, and so on; all of them are
  distinct when the recycled nonces were handed out before.
\<close>

theorem acquire_all_sequence:
  assumes "redis_server R view" and "represents (view w) c a p"
    and "np_last p = Some n" and "1 \<le> n" and "n + int (length qs) < 2 ^ 63"
    and "\<forall>m \<in> np_recycled p. m \<le> n"
  shows "fst (acquire_all R gtc qs c a w) = Inr (map Some (next_nonces (length qs) (np_recycled p) n))
    \<and> distinct (next_nonces (length qs) (np_recycled p) n)"
  using redis_server.acquire_all_run [OF assms(1-5)] next_nonces_distinct [of "np_recycled p" n]
    representsD(3) [OF assms(2)] assms(6) by blast

theorem acquire_all_sequence_witness:
  "fst (acquire_all mem_redis (\<lambda>_ _. Inr 0) [''q'', ''r''] 1 ''0xa'' [(''nonce:1:0xa'', RString ''5'')])
     = Inr [Some 6, Some 7]"
  using acquire_all_sequence [where view = mem_view, OF mem.redis_server_axioms counter_at_5, of 5 "[''q'', ''r'']"]
  by (simp add: next_nonces_def upt_conv_Cons)

text \<open>
  a nonce that is given back while no smaller one is in the pool is the next one handed
  out, and the pool is then as before.
\<close>

theorem recycle_acquire_roundtrip:
  assumes "redis_server R view" and "represents (view w) c a p"
    and "\<forall>m \<in> np_recycled p. n < m"
  shows "fst (acquireNonce R gtc q c a (snd (recycleNonce R c a (Some n) w))) = Inr (Some n, False)
    \<and> represents (view (snd (acquireNonce R gtc q c a (snd (recycleNonce R c a (Some n) w))))) c a p"
proof -
  let ?w' = "snd (recycleNonce R c a (Some n) w)"
  let ?p' = "p\<lparr>np_recycled := insert n (np_recycled p)\<rparr>"
  note rep' = redis_server.recycle_refines(2) [OF assms(1,2), of n]
  have fin: "finite (np_recycled p)" by (rule representsD(3) [OF assms(2)])
  then have Min: "Min (np_recycled ?p') = n" using assms(3) by (intro Min_eqI) auto
  have "n \<notin> np_recycled p" using assms(3) by blast
  then have rest: "np_recycled ?p' - {n} = np_recycled p" by simp
  have "fst (acquireNonce R gtc q c a ?w') = Inr (Some (Min (np_recycled ?p')), False)"
    by (rule redis_server.acquire_recycled(1) [OF assms(1) _ rep']) simp
  moreover obtain z where "view (snd (acquireNonce R gtc q c a ?w')) =
      (view ?w')(recycledNoncesKey c a := norm_zset (enc_zset (np_recycled ?p' - {Min (np_recycled ?p')})),
        nonceMapKey c a \<mapsto> RZSet (zset_add (of_int (Min (np_recycled ?p'))) q z))"
    using redis_server.acquire_recycled(2) [OF assms(1) _ rep'] by auto
  ultimately show ?thesis
    using representsD [OF rep'] fin rest unfolding Min by (auto simp: represents_def)
qed

theorem recycle_acquire_roundtrip_witness:
  "fst (acquireNonce mem_redis (\<lambda>_ _. Inr 0) ''q'' 1 ''0xa''
      (snd (recycleNonce mem_redis 1 ''0xa'' (Some 3) []))) = Inr (Some 3, False)"
  using recycle_acquire_roundtrip [OF mem.redis_server_axioms,
      of "[]" 1 "''0xa''" "\<lparr>np_last = None, np_recycled = {}, np_sent = {}\<rparr>" 3]
  by (simp add: represents_def mem_view_def)

text \<open>
  \<open>syncLatestNonceFromOnchainIfHigher\<close> sets the counter to the greater of the stored
  value and the on-chain count less one, so it never lowers a counter, keeps the recycled and
  sent nonces, and answers the value it stored.
\<close>

theorem sync_if_higher_max:
  assumes "redis_server R view" and "represents (view w) c a p" and "a \<noteq> []"
    and "gtc c a = Inr tc" and "0 \<le> tc" and "tc < 2 ^ 63"
  shows "\<exists>n. fst (syncLatestNonceFromOnchainIfHigher R gtc c a w) = Inr n
    \<and> represents (view (snd (syncLatestNonceFromOnchainIfHigher R gtc c a w))) c a (p\<lparr>np_last := Some n\<rparr>)
    \<and> tc - 1 \<le> n \<and> (\<forall>m. np_last p = Some m \<longrightarrow> n = max (tc - 1) m)"
  using redis_server.sync_refines(1,2) [OF assms(1,2,3), of gtc tc] assms(4-6)
  by (auto simp: pool_sync_if_higher_def)

theorem sync_if_higher_max_witness:
  "\<exists>n. fst (syncLatestNonceFromOnchainIfHigher mem_redis (\<lambda>_ _. Inr 9) 1 ''0xa'' []) = Inr n \<and> 8 \<le> n"
  using sync_if_higher_max [OF mem.redis_server_axioms,
      of "[]" 1 "''0xa''" "\<lparr>np_last = None, np_recycled = {}, np_sent = {}\<rparr>" "\<lambda>_ _. Inr 9" 9]
  by (auto simp: represents_def mem_view_def)

text \<open>
  the keys of two wallets never meet: the operations on one wallet leave what the keys of
  a wallet with another chain or another address represent.
\<close>

theorem nonce_wallets_isolated:
  assumes "redis_server R view" and "represents (view w) c a p" and "represents (view w) c' a' p'"
    and "c \<noteq> c' \<or> key_name a \<noteq> key_name a'"
    and "gtc c a = Inr tc" and "0 \<le> tc" and "tc < 2 ^ 63"
    and "\<forall>n. np_last p = Some n \<longrightarrow> n + 1 < 2 ^ 63"
  shows "represents (view (snd (acquireNonce R gtc q c a w))) c' a' p'
    \<and> represents (view (snd (recycleNonce R c a (Some n) w))) c' a' p'
    \<and> represents (view (snd (addSentNonce R c a (Some n) w))) c' a' p'
    \<and> represents (view (snd (removeSentNonce R c a (Some n) w))) c' a' p'"
proof -
  have differ: "k \<notin> {lastUsedNonceKey c a, recycledNoncesKey c a, sentNoncesKey c a, nonceMapKey c a}"
    if "k \<in> {lastUsedNonceKey c' a', recycledNoncesKey c' a', sentNoncesKey c' a', nonceMapKey c' a'}" for k
    using that assms(4) by (auto simp: nonce_keys_inject)
  have keep: "represents v' c' a' p'"
    if "\<And>k. k \<notin> {lastUsedNonceKey c a, recycledNoncesKey c a, sentNoncesKey c a, nonceMapKey c a}
      \<Longrightarrow> v' k = view w k" for v'
    by (rule represents_cong [OF assms(3)]) (rule that, rule differ)
  show ?thesis
  proof (intro conjI)
    show "represents (view (snd (acquireNonce R gtc q c a w))) c' a' p'"
      using assms(5-8)
      by (intro keep) (rule redis_server.acquire_refines(4) [OF assms(1,2)], auto)
    show "represents (view (snd (recycleNonce R c a (Some n) w))) c' a' p'"
      by (intro keep) (rule redis_server.recycle_refines(3) [OF assms(1,2)], auto)
    show "represents (view (snd (addSentNonce R c a (Some n) w))) c' a' p'"
      by (intro keep) (rule redis_server.addSent_refines(3) [OF assms(1,2)], auto)
    show "represents (view (snd (removeSentNonce R c a (Some n) w))) c' a' p'"
      by (intro keep) (rule redis_server.removeSent_refines(3) [OF assms(1,2)], auto)
  qed
qed

theorem nonce_wallets_isolated_witness:
  "represents (mem_view (snd (acquireNonce mem_redis (\<lambda>_ _. Inr 7) ''q'' 1 ''0xA'' []))) 2 ''0xA''
     \<lparr>np_last = None, np_recycled = {}, np_sent = {}\<rparr>"
  using nonce_wallets_isolated [OF mem.redis_server_axioms,
      of "[]" 1 "''0xA''" "\<lparr>np_last = None, np_recycled = {}, np_sent = {}\<rparr>" 2 "''0xA''"
         "\<lparr>np_last = None, np_recycled = {}, np_sent = {}\<rparr>" "\<lambda>_ _. Inr 7" 7]
  by (simp add: represents_def mem_view_def)

text \<open>
  reading a last-used-nonce key back gives the chain and the normalized address it was
  made from; the worker that walks all wallets by key recovers exactly the wallets in use.
\<close>

theorem splitLastUsedNonceKey_roundtrip:
  assumes "a \<noteq> []" and "CHR '':'' \<notin> set (toLowerCase a)"
  shows "splitLastUsedNonceKey (lastUsedNonceKey c a) = (Some (toLowerCase a), Some c)
    \<and> splitSentNoncesKey (sentNoncesKey c a) = (Some (toLowerCase a), Some c)"
  using assms js_split_append [of "CHR '':''" "''nonce''"] js_split_append [of "CHR '':''" "''nonce-sent''"]
  by (simp add: splitLastUsedNonceKey_def splitSentNoncesKey_def lastUsedNonceKey_def sentNoncesKey_def
      js_simps nth_opt_def Let_def)

theorem splitLastUsedNonceKey_roundtrip_witness:
  "splitLastUsedNonceKey (lastUsedNonceKey 137 ''0xAb'') = (Some ''0xab'', Some 137)"
proof -
  have "toLowerCase ''0xAb'' = ''0xab''" by code_simp
  then show ?thesis using splitLastUsedNonceKey_roundtrip [of "''0xAb''" 137] by simp
qed

text \<open>
  \<open>pruneNonceMaps\<close> leaves in every nonce map its highest \<open>N - 1\<close> nonces (one fewer
  than the limit \<open>N\<close>), changes no other key, and answers how many entries it removed.
\<close>

theorem pruneNonceMaps_keeps_latest:
  assumes "redis_server R view" and "1 \<le> N" and "as_zset (view w k) = Some z"
    and "glob ''nonce-map:*'' k"
  shows "as_zset (view (snd (pruneNonceMaps R N w)) k) = Some (drop (length z - nat (N - 1)) z)
    \<and> (\<forall>k'. \<not> glob ''nonce-map:*'' k' \<longrightarrow> view (snd (pruneNonceMaps R N w)) k' = view w k')
    \<and> fst (pruneNonceMaps R N w) =
      Inr (\<Sum>k \<in> {k \<in> dom (view w). glob ''nonce-map:*'' k}. pruned_count N (view w k))"
proof -
  have "nat (int (length z) - N + 1) = length z - nat (N - 1)" using assms(2) by linarith
  then show ?thesis
    using redis_server.pruneNonceMaps_run [OF assms(1,2), of w] assms(3,4)
    by (auto simp: prune_val_def)
qed

theorem pruneNonceMaps_keeps_latest_witness:
  "as_zset (mem_view (snd (pruneNonceMaps mem_redis 2
      [(''nonce-map:1:a'', RZSet [(1, ''p''), (2, ''q'')])])) ''nonce-map:1:a'') = Some [(2, ''q'')]"
proof -
  have "as_zset (mem_view [(''nonce-map:1:a'', RZSet [(1, ''p''), (2, ''q'')])] ''nonce-map:1:a'')
      = Some [(1, ''p''), (2, ''q'')]"
    by (simp add: mem_view_def zset_ok_def less_eq_prod_def)
  from pruneNonceMaps_keeps_latest [OF mem.redis_server_axioms, of 2, OF _ this]
  show ?thesis by simp
qed

text \<open>
  C19: on a new wallet whose on-chain count is 0, two successive acquisitions both answer nonce
  0: the counter value 0 is taken for a counter that was never set.
\<close>

theorem acquireNonce_zero_twice:
  assumes "redis_server R view" and "represents (view w) c a p"
    and "np_last p = None" and "np_recycled p = {}" and "gtc c a = Inr 0"
  shows "fst (acquire_all R gtc [q1, q2] c a w) = Inr [Some 0, Some 0]"
proof -
  let ?w = "snd (acquireNonce R gtc q1 c a w)"
  have one: "fst (acquireNonce R gtc q1 c a w) = Inr (Some 0, False)"
      "represents (view ?w) c a (p\<lparr>np_last := Some 0\<rparr>)"
    using redis_server.acquire_refines(1,2) [OF assms(1,2), of gtc 0 q1] assms(3-5)
    by (simp_all add: pool_acquire_def)
  have "fst (acquireNonce R gtc q2 c a ?w) = Inr (Some 0, False)"
    using redis_server.acquire_refines(1) [OF assms(1) one(2), of gtc 0 q2] assms(4,5)
    by (simp add: pool_acquire_def)
  with one(1) show ?thesis by (simp add: io_simps)
qed

theorem acquireNonce_zero_twice_witness:
  "fst (acquire_all mem_redis (\<lambda>_ _. Inr 0) [''p'', ''q''] 1 ''0xa'' []) = Inr [Some 0, Some 0]"
  using acquireNonce_zero_twice [OF mem.redis_server_axioms,
      of "[]" 1 "''0xa''" "\<lparr>np_last = None, np_recycled = {}, np_sent = {}\<rparr>"]
  by (simp add: represents_def mem_view_def)

end
