(* ===== verification/Transaction_Types.thy ===== *)
theory Transaction_Types
  imports Engine_Prelude "HOL-Library.Countable"
begin

text \<open>
  The transactions the engine keeps (\<open>src/utils/transaction/types.ts\<close>). The union type
  \<open>AnyTransaction\<close> is one record: a property that is absent or undefined is \<^const>\<open>None\<close>,
  so that the spread \<open>{...transaction, status: "sent"}\<close> of the source is a record update.
  \<open>wf_transaction\<close> states which properties the type of each status promises.

  The source stores a transaction as the string that \<open>superjson\<close> makes of it. The locale
  \<open>transaction_codec\<close> is what the engine relies on: parsing gives back what was printed, and
  no transaction prints as the empty string.
\<close>

section \<open>The types\<close>

datatype tx_status = Queued | Sent | Mined | Cancelled | Errored

text \<open>The nonce is a number for an EOA transaction and a string for a user operation.\<close>

datatype tx_nonce = NumNonce js_num | StrNonce string

text \<open>The raw input of the caller.\<close>

record inserted_transaction =
  tx_isUserOp :: bool
  tx_chainId :: int
  tx_from :: string
  tx_to :: "string option"
  tx_value :: "int option"
  tx_data :: "string option"
  tx_functionName :: "string option"
  tx_functionArgs :: "string list option"
  tx_gas :: "int option"
  tx_gasPrice :: "int option"
  tx_maxFeePerGas :: "int option"
  tx_maxPriorityFeePerGas :: "int option"
  tx_deployedContractAddress :: "string option"
  tx_deployedContractType :: "string option"
  tx_extension :: "string option"
  tx_signerAddress :: "string option"
  tx_accountAddress :: "string option"
  tx_accountFactoryAddress :: "string option"
  tx_target :: "string option"
  tx_sender :: "string option"

text \<open>What the queue, the send worker and the mine worker add to it.\<close>

record transaction = inserted_transaction +
  tx_status :: tx_status
  tx_resendCount :: int
  tx_queueId :: string
  tx_queuedAt :: int
  tx_manuallyResentAt :: "int option"
  tx_sentAt :: "int option"
  tx_sentAtBlock :: "int option"
  tx_nonce :: "tx_nonce option"
  tx_sentTransactionHashes :: "string list option"
  tx_userOpHash :: "string option"
  tx_transactionHash :: "string option"
  tx_minedAt :: "int option"
  tx_minedAtBlock :: "int option"
  tx_transactionType :: "string option"
  tx_onchainStatus :: "string option"
  tx_gasUsed :: "int option"
  tx_effectiveGasPrice :: "int option"
  tx_cumulativeGasUsed :: "int option"
  tx_errorMessage :: "string option"
  tx_cancelledAt :: "int option"

section \<open>What the types promise\<close>

text \<open>The properties a sent transaction has beyond a queued one.\<close>

definition sent_fields :: "transaction \<Rightarrow> bool" where
  "sent_fields t \<longleftrightarrow> tx_sentAt t \<noteq> None \<and> tx_sentAtBlock t \<noteq> None
     \<and> (if tx_isUserOp t
        then (\<exists>n. tx_nonce t = Some (StrNonce n)) \<and> tx_userOpHash t \<noteq> None
        else (\<exists>n. tx_nonce t = Some (NumNonce n)) \<and> tx_sentTransactionHashes t \<noteq> None)"

definition mined_fields :: "transaction \<Rightarrow> bool" where
  "mined_fields t \<longleftrightarrow> tx_transactionHash t \<noteq> None \<and> tx_minedAt t \<noteq> None
     \<and> tx_minedAtBlock t \<noteq> None \<and> tx_transactionType t \<noteq> None
     \<and> tx_onchainStatus t \<in> {Some ''success'', Some ''reverted''} \<and> tx_gasUsed t \<noteq> None"

definition wf_transaction :: "transaction \<Rightarrow> bool" where
  "wf_transaction t \<longleftrightarrow> (case tx_status t of
       Queued \<Rightarrow> tx_value t \<noteq> None
     | Sent \<Rightarrow> tx_value t \<noteq> None \<and> sent_fields t
     | Mined \<Rightarrow> tx_value t \<noteq> None \<and> sent_fields t \<and> mined_fields t
     | Cancelled \<Rightarrow> tx_value t \<noteq> None \<and> sent_fields t \<and> tx_cancelledAt t \<noteq> None
     | Errored \<Rightarrow> tx_value t \<noteq> None \<and> tx_errorMessage t \<noteq> None)"

text \<open>The number a transaction carries as its nonce, for code that reads it as a number.\<close>

definition nonce_number :: "tx_nonce option \<Rightarrow> js_num" where
  "nonce_number n = (case n of Some (NumNonce k) \<Rightarrow> k | Some (StrNonce s) \<Rightarrow> parseInt s | None \<Rightarrow> None)"

section \<open>The stored form\<close>

record codec =
  stringify :: "transaction \<Rightarrow> string"
  parse :: "string \<Rightarrow> js_error + transaction"

locale transaction_codec =
  fixes J :: codec
  assumes parse_stringify [simp]: "parse J (stringify J t) = Inr t"
    and stringify_not_empty [simp]: "stringify J t \<noteq> []"

text \<open>
  A codec that keeps these laws, for the examples: transactions are countable, and a number
  prints in decimal.
\<close>

instance tx_status :: countable
  by countable_datatype

instance tx_nonce :: countable
  by countable_datatype

definition tx_tuple where
  "tx_tuple t =
     ((tx_isUserOp t, tx_chainId t, tx_from t, tx_to t, tx_value t, tx_data t, tx_functionName t,
       tx_functionArgs t, tx_gas t, tx_gasPrice t),
      (tx_maxFeePerGas t, tx_maxPriorityFeePerGas t, tx_deployedContractAddress t,
       tx_deployedContractType t, tx_extension t, tx_signerAddress t, tx_accountAddress t,
       tx_accountFactoryAddress t, tx_target t, tx_sender t),
      (tx_status t, tx_resendCount t, tx_queueId t, tx_queuedAt t, tx_manuallyResentAt t,
       tx_sentAt t, tx_sentAtBlock t, tx_nonce t, tx_sentTransactionHashes t, tx_userOpHash t),
      (tx_transactionHash t, tx_minedAt t, tx_minedAtBlock t, tx_transactionType t,
       tx_onchainStatus t, tx_gasUsed t, tx_effectiveGasPrice t, tx_cumulativeGasUsed t,
       tx_errorMessage t, tx_cancelledAt t))"

definition mem_stringify :: "transaction \<Rightarrow> string" where
  "mem_stringify t = show_nat (to_nat (tx_tuple t))"

definition mem_codec :: codec where
  "mem_codec = \<lparr>stringify = mem_stringify, parse = (\<lambda>s. Inr (inv mem_stringify s))\<rparr>"

lemma tx_tuple_inject: "tx_tuple s = tx_tuple t \<Longrightarrow> s = (t :: transaction)"
  by (simp add: tx_tuple_def)

lemma show_nat_inject [simp]: "show_nat m = show_nat n \<longleftrightarrow> m = n"
  by (metis digits_value_show_nat)

lemma inj_mem_stringify: "inj mem_stringify"
  by (auto simp: inj_def mem_stringify_def dest: tx_tuple_inject)

interpretation mem_json: transaction_codec mem_codec
  by unfold_locales (simp_all add: mem_codec_def inj_mem_stringify, simp add: mem_stringify_def)

end
