(* ===== verification/Transaction_DB.thy ===== *)
theory Transaction_DB
  imports Redis_Server Transaction_Types
begin

text \<open>
  The store of transactions, \<open>src/db/transactions/db.ts\<close>: the details of a transaction
  under \<open>transaction:<queueId>\<close> and one sorted set of queue ids per final status. The
  operations run over a Redis server \<open>R\<close> and a codec \<open>J\<close>; the time \<open>now\<close> and the batch
  size \<open>B\<close> of the environment are arguments. A pipeline collects the errors of its commands,
  and the source does not look at them.
\<close>

section \<open>The operations\<close>

definition transactionDetailsKey :: "string \<Rightarrow> string" where
  "transactionDetailsKey queueId = ''transaction:'' @ queueId"

definition queuedTransactionsKey :: string where
  "queuedTransactionsKey = ''transaction:queued''"

definition minedTransactionsKey :: string where
  "minedTransactionsKey = ''transaction:mined''"

definition cancelledTransactionsKey :: string where
  "cancelledTransactionsKey = ''transaction:cancelled''"

definition erroredTransactionsKey :: string where
  "erroredTransactionsKey = ''transaction:errored''"

definition toSeconds :: "int \<Rightarrow> rat" where
  "toSeconds timestamp = of_int timestamp / 1000"

text \<open>The sorted set a status adds the queue id to, with the time of the score.\<close>

definition status_entry :: "int \<Rightarrow> transaction \<Rightarrow> (string \<times> int option) option" where
  "status_entry now transaction = (case tx_status transaction of
       Queued \<Rightarrow> Some (queuedTransactionsKey, Some (tx_queuedAt transaction))
     | Mined \<Rightarrow> Some (minedTransactionsKey, tx_minedAt transaction)
     | Cancelled \<Rightarrow> Some (cancelledTransactionsKey, tx_cancelledAt transaction)
     | Errored \<Rightarrow> Some (erroredTransactionsKey, Some now)
     | Sent \<Rightarrow> None)"

definition TransactionDB_set :: "'w redis \<Rightarrow> codec \<Rightarrow> int \<Rightarrow> transaction \<Rightarrow> ('w, unit) io" where
  "TransactionDB_set R J now transaction =
     (let details = settle (r_set R (transactionDetailsKey (tx_queueId transaction))
                              (stringify J transaction))
      in case status_entry now transaction of
           None \<Rightarrow> bnd details (\<lambda>_. ret ())
         | Some (key, None) \<Rightarrow> throw js_TypeError
         | Some (key, Some time) \<Rightarrow>
             bnd details (\<lambda>_.
             bnd (settle (r_zadd R key (toSeconds time) (tx_queueId transaction))) (\<lambda>_.
             ret ())))"

definition TransactionDB_get :: "'w redis \<Rightarrow> codec \<Rightarrow> string \<Rightarrow> ('w, transaction option) io" where
  "TransactionDB_get R J queueId =
     bnd (r_get R (transactionDetailsKey queueId)) (\<lambda>val.
       if truthy val then bnd (lift_res (parse J (the val))) (\<lambda>t. ret (Some t)) else ret None)"

text \<open>\<open>if (val) result.push(superjson.parse(val))\<close> over the values of one batch.\<close>

fun parse_vals :: "codec \<Rightarrow> string option list \<Rightarrow> js_error + transaction list" where
  "parse_vals J [] = Inr []"
| "parse_vals J (val # vals) =
     (if truthy val then (case parse J (the val) of Inl e \<Rightarrow> Inl e
        | Inr t \<Rightarrow> (case parse_vals J vals of Inl e \<Rightarrow> Inl e | Inr ts \<Rightarrow> Inr (t # ts)))
      else parse_vals J vals)"

text \<open>
  The batch loops. With a batch size of 0 the first command has no keys and Redis refuses it,
  so the loop does not come to its second iteration.
\<close>

fun bulkGet_loop ::
  "'w redis \<Rightarrow> codec \<Rightarrow> nat \<Rightarrow> string list \<Rightarrow> ('w, transaction list) io" where
  "bulkGet_loop R J B queueIds =
     (if queueIds = [] then ret []
      else bnd (r_mget R (map transactionDetailsKey (take B queueIds))) (\<lambda>vals.
           bnd (lift_res (parse_vals J vals)) (\<lambda>result.
           if B = 0 then throw wrong_arguments
           else bnd (bulkGet_loop R J B (drop B queueIds)) (\<lambda>more. ret (result @ more)))))"

declare bulkGet_loop.simps [simp del]

definition TransactionDB_bulkGet ::
  "'w redis \<Rightarrow> codec \<Rightarrow> nat \<Rightarrow> string list \<Rightarrow> ('w, transaction list) io" where
  "TransactionDB_bulkGet R J B queueIds =
     (if queueIds = [] then ret [] else bulkGet_loop R J B queueIds)"

fun bulkDelete_loop :: "'w redis \<Rightarrow> nat \<Rightarrow> string list \<Rightarrow> int \<Rightarrow> ('w, int) io" where
  "bulkDelete_loop R B queueIds numDeleted =
     (if queueIds = [] then ret numDeleted
      else bnd (r_unlink R (map transactionDetailsKey (take B queueIds))) (\<lambda>n.
           if B = 0 then throw wrong_arguments
           else bulkDelete_loop R B (drop B queueIds) (numDeleted + n)))"

declare bulkDelete_loop.simps [simp del]

definition TransactionDB_bulkDelete :: "'w redis \<Rightarrow> nat \<Rightarrow> string list \<Rightarrow> ('w, int) io" where
  "TransactionDB_bulkDelete R B queueIds =
     (if queueIds = [] then ret 0 else bulkDelete_loop R B queueIds 0)"

definition TransactionDB_exists :: "'w redis \<Rightarrow> string \<Rightarrow> ('w, bool) io" where
  "TransactionDB_exists R queueId =
     bnd (r_exists R (transactionDetailsKey queueId)) (\<lambda>n. ret (n > 0))"

text \<open>The key of a list; every status but mined, cancelled and errored reads the queued list.\<close>

definition status_key :: "tx_status \<Rightarrow> string" where
  "status_key status =
     (if status = Mined then minedTransactionsKey
      else if status = Cancelled then cancelledTransactionsKey
      else if status = Errored then erroredTransactionsKey
      else queuedTransactionsKey)"

definition getTransactionListByStatus ::
  "'w redis \<Rightarrow> codec \<Rightarrow> nat \<Rightarrow> tx_status \<Rightarrow> int \<Rightarrow> int \<Rightarrow> ('w, transaction list \<times> int) io" where
  "getTransactionListByStatus R J B status page limit =
     (let start = (page - 1) * limit; stop = start + limit - 1; key = status_key status
      in bnd (r_zrevrange R key start stop) (\<lambda>queueIds.
         bnd (TransactionDB_bulkGet R J B queueIds) (\<lambda>transactions.
         bnd (r_zcard R key) (\<lambda>totalCount.
         ret (transactions, totalCount)))))"

definition pruneTransactionDetailsAndLists :: "'w redis \<Rightarrow> nat \<Rightarrow> int \<Rightarrow> ('w, int) io" where
  "pruneTransactionDetailsAndLists R B keep =
     (let stop = - keep - 1
      in bnd (r_zrange R queuedTransactionsKey 0 stop) (\<lambda>queueIds.
         bnd (TransactionDB_bulkDelete R B queueIds) (\<lambda>numPruned.
         bnd (settle (r_zremrangebyrank R queuedTransactionsKey 0 stop)) (\<lambda>_.
         bnd (settle (r_zremrangebyrank R minedTransactionsKey 0 stop)) (\<lambda>_.
         bnd (settle (r_zremrangebyrank R cancelledTransactionsKey 0 stop)) (\<lambda>_.
         bnd (settle (r_zremrangebyrank R erroredTransactionsKey 0 stop)) (\<lambda>_.
         ret numPruned)))))))"

section \<open>Keys\<close>

lemmas status_key_defs = queuedTransactionsKey_def minedTransactionsKey_def
  cancelledTransactionsKey_def erroredTransactionsKey_def

lemma transactionDetailsKey_inject [simp]:
  "transactionDetailsKey p = transactionDetailsKey q \<longleftrightarrow> p = q"
  by (simp add: transactionDetailsKey_def)

text \<open>
  The lists share the name space of the details: the queue ids of these names would overwrite
  a list. A queue id is a UUID or the caller's idempotency key.
\<close>

definition reserved_ids :: "string set" where
  "reserved_ids = {''queued'', ''mined'', ''cancelled'', ''errored''}"

definition list_keys :: "string set" where
  "list_keys = {queuedTransactionsKey, minedTransactionsKey, cancelledTransactionsKey,
     erroredTransactionsKey}"

lemma list_keys_reserved: "list_keys = transactionDetailsKey ` reserved_ids"
  by (auto simp: list_keys_def reserved_ids_def status_key_defs transactionDetailsKey_def)

lemma details_key_not_list: "q \<notin> reserved_ids \<Longrightarrow> transactionDetailsKey q \<notin> list_keys"
  by (auto simp: list_keys_reserved)

lemma status_entry_key:
  "status_entry now t = Some (k, time) \<Longrightarrow> k \<in> list_keys \<and> k = status_key (tx_status t)"
  by (auto simp: status_entry_def list_keys_def status_key_def split: tx_status.splits)

text \<open>A well-formed transaction has the time its list needs.\<close>

lemma status_entry_wf: "wf_transaction t \<Longrightarrow> status_entry now t \<noteq> Some (k, None)"
  by (auto simp: status_entry_def wf_transaction_def mined_fields_def split: tx_status.splits)

text \<open>What the database holds for a queue id.\<close>

definition stored :: "codec \<Rightarrow> keyspace \<Rightarrow> string \<Rightarrow> transaction option" where
  "stored J v q = (case mget_val (v (transactionDetailsKey q)) of None \<Rightarrow> None
     | Some s \<Rightarrow> if s = [] then None else (case parse J s of Inl _ \<Rightarrow> None | Inr t \<Rightarrow> Some t))"

text \<open>The details of these queue ids, where there are any, are transactions.\<close>

definition details_ok :: "codec \<Rightarrow> keyspace \<Rightarrow> string \<Rightarrow> bool" where
  "details_ok J v q \<longleftrightarrow> v (transactionDetailsKey q) = None
     \<or> (\<exists>t. v (transactionDetailsKey q) = Some (RString (stringify J t)))"

lemma redis_unrange_prefix:
  "0 \<le> keep \<Longrightarrow> redis_unrange 0 (- keep - 1) z = drop (length z - nat keep) z"
proof -
  assume keep: "0 \<le> keep"
  then have "range_count (length z) 0 (- keep - 1) = length z - nat keep"
    by (auto simp: range_count_def range_start_def Let_def)
  then show ?thesis by (simp add: redis_unrange_def range_start_def)
qed

lemma redis_range_prefix:
  "0 \<le> keep \<Longrightarrow> redis_range 0 (- keep - 1) z = take (length z - nat keep) z"
proof -
  assume keep: "0 \<le> keep"
  then have "range_count (length z) 0 (- keep - 1) = length z - nat keep"
    by (auto simp: range_count_def range_start_def Let_def)
  then show ?thesis by (simp add: redis_range_def range_start_def)
qed

lemma redis_range_page:
  assumes "0 \<le> a" "1 \<le> limit"
  shows "redis_range a (a + limit - 1) z = take (nat limit) (drop (nat a) z)"
proof -
  have start: "range_start (length z) a (a + limit - 1) = nat a"
    using assms by (simp add: range_start_def)
  have count: "range_count (length z) a (a + limit - 1) =
      (if a + limit \<le> int (length z) then nat limit else nat (int (length z) - a))"
    using assms by (auto simp: range_count_def start Let_def)
  show ?thesis
  proof (cases "a + limit \<le> int (length z)")
    case True
    then show ?thesis by (simp add: redis_range_def start count)
  next
    case False
    then have "length (drop (nat a) z) \<le> nat (int (length z) - a)"
      "length (drop (nat a) z) \<le> nat limit" using assms by auto
    with False show ?thesis by (simp add: redis_range_def start count)
  qed
qed

section \<open>The operations on a server\<close>

locale transaction_db = redis_server R view + transaction_codec J
  for R :: "'w redis" and view :: "'w \<Rightarrow> keyspace" and J :: codec
begin

lemma stored_details:
  "v (transactionDetailsKey q) = Some (RString (stringify J t)) \<Longrightarrow> stored J v q = Some t"
  "v (transactionDetailsKey q) = None \<Longrightarrow> stored J v q = None"
  by (simp_all add: stored_def mget_val_def)

lemma details_ok_cases:
  assumes "details_ok J v q"
  obtains (absent) "v (transactionDetailsKey q) = None" "stored J v q = None"
    | (present) t where "v (transactionDetailsKey q) = Some (RString (stringify J t))"
        "stored J v q = Some t"
  using assms stored_details [of v q] unfolding details_ok_def by auto

text \<open>What \<open>set\<close> leaves at every key but the list of the status.\<close>

lemma set_run:
  assumes "\<And>k. status_entry now t \<noteq> Some (k, None)"
  shows "fst (TransactionDB_set R J now t w) = Inr ()"
    and "view (snd (TransactionDB_set R J now t w)) (transactionDetailsKey (tx_queueId t)) =
      Some (RString (stringify J t))"
    and "k \<noteq> transactionDetailsKey (tx_queueId t) \<Longrightarrow> k \<noteq> status_key (tx_status t) \<Longrightarrow>
      view (snd (TransactionDB_set R J now t w)) k = view w k"
  using assms
  by (auto simp: TransactionDB_set_def Let_def io_simps cmd_set_def cmd_zadd_def as_zset_def
      split: option.splits rval.splits dest: status_entry_key)

lemma set_list:
  assumes "status_entry now t = Some (k, Some time)" "tx_queueId t \<notin> reserved_ids"
    and "as_zset (view w k) = Some z"
  shows "view (snd (TransactionDB_set R J now t w)) k =
    Some (RZSet (zset_add (toSeconds time) (tx_queueId t) z))"
proof -
  have "transactionDetailsKey (tx_queueId t) \<noteq> k"
    using details_key_not_list [OF assms(2)] status_entry_key [OF assms(1)] by metis
  then show ?thesis
    using assms by (simp add: TransactionDB_set_def Let_def io_simps cmd_set_def cmd_zadd_def)
qed

lemma get_run:
  assumes "details_ok J (view w) q"
  shows "fst (TransactionDB_get R J q w) = Inr (stored J (view w) q)"
    and "view (snd (TransactionDB_get R J q w)) = view w"
  using assms
  by (cases rule: details_ok_cases; simp add: TransactionDB_get_def io_simps q_get_def)+

lemma exists_run:
  "fst (TransactionDB_exists R q w) = Inr (view w (transactionDetailsKey q) \<noteq> None)"
  "view (snd (TransactionDB_exists R q w)) = view w"
  by (simp_all add: TransactionDB_exists_def io_simps q_exists_def)

lemma parse_vals_stored:
  assumes "\<And>q. q \<in> set qs \<Longrightarrow> details_ok J v q"
  shows "parse_vals J (map (\<lambda>k. mget_val (v k)) (map transactionDetailsKey qs)) =
    Inr (List.map_filter (stored J v) qs)"
  using assms
proof (induction qs)
  case (Cons q qs)
  then have "details_ok J v q" by simp
  then show ?case using Cons
    by (cases rule: details_ok_cases) (simp_all add: mget_val_def map_filter_simps)
qed (simp add: map_filter_simps)

lemma map_filter_append: "List.map_filter f (xs @ ys) = List.map_filter f xs @ List.map_filter f ys"
  by (simp add: map_filter_def)

lemma bulkGet_loop_run:
  assumes "0 < B" "\<And>q. q \<in> set qs \<Longrightarrow> details_ok J (view w) q"
  shows "fst (bulkGet_loop R J B qs w) = Inr (List.map_filter (stored J (view w)) qs)
    \<and> view (snd (bulkGet_loop R J B qs w)) = view w"
  using assms(2)
proof (induction "length qs" arbitrary: qs w rule: less_induct)
  case less
  show ?case
  proof (cases "qs = []")
    case True
    then show ?thesis by (simp add: bulkGet_loop.simps [of R J B "[]"] map_filter_simps)
  next
    case False
    let ?ks = "map transactionDetailsKey (take B qs)"
    let ?w = "snd (r_mget R ?ks w)"
    have ks: "?ks \<noteq> []" using False assms(1) by simp
    have vw: "view ?w = view w" using ks by simp
    have pv: "parse_vals J (map (\<lambda>k. mget_val (view w k)) ?ks) =
        Inr (List.map_filter (stored J (view w)) (take B qs))"
      by (rule parse_vals_stored) (meson less.prems in_set_takeD)
    have rest: "fst (bulkGet_loop R J B (drop B qs) ?w) =
        Inr (List.map_filter (stored J (view w)) (drop B qs))
      \<and> view (snd (bulkGet_loop R J B (drop B qs) ?w)) = view w"
      using less.hyps [of "drop B qs" ?w] less.prems False assms(1) vw by (auto dest: in_set_dropD)
    have "bulkGet_loop R J B qs w =
        bnd (bulkGet_loop R J B (drop B qs))
          (\<lambda>more. ret (List.map_filter (stored J (view w)) (take B qs) @ more)) ?w"
      using False assms(1) ks pv by (subst bulkGet_loop.simps) (simp add: io_simps)
    then show ?thesis
      using rest by (simp add: io_simps map_filter_append [symmetric])
  qed
qed

lemma bulkDelete_loop_run:
  assumes "0 < B" "distinct qs"
  shows "fst (bulkDelete_loop R B qs d w) =
      Inr (d + int (length (filter (\<lambda>q. view w (transactionDetailsKey q) \<noteq> None) qs)))
    \<and> view (snd (bulkDelete_loop R B qs d w)) = view w |` (- transactionDetailsKey ` set qs)"
  using assms(2)
proof (induction "length qs" arbitrary: qs d w rule: less_induct)
  case less
  show ?case
  proof (cases "qs = []")
    case True
    then show ?thesis
      by (simp add: bulkDelete_loop.simps [of R B "[]"] restrict_map_def fun_eq_iff)
  next
    case False
    let ?ks = "map transactionDetailsKey (take B qs)"
    let ?w = "snd (r_unlink R ?ks w)"
    let ?n = "int (length (filter (\<lambda>q. view w (transactionDetailsKey q) \<noteq> None) (take B qs)))"
    have ks: "?ks \<noteq> []" using False assms(1) by simp
    have dist: "distinct ?ks" using less.prems by (simp add: distinct_map inj_on_def)
    have vw: "view ?w = view w |` (- transactionDetailsKey ` set (take B qs))" using ks by simp
    have n: "removed_count (view w) ?ks = ?n"
      using dist by (simp add: removed_count_def distinct_remdups_id filter_map o_def)
    have disj: "set (take B qs) \<inter> set (drop B qs) = {}"
      by (rule set_take_disj_set_drop_if_distinct [OF less.prems]) simp
    have all: "set qs = set (take B qs) \<union> set (drop B qs)"
      by (metis append_take_drop_id set_append)
    have same: "filter (\<lambda>q. view ?w (transactionDetailsKey q) \<noteq> None) (drop B qs) =
        filter (\<lambda>q. view w (transactionDetailsKey q) \<noteq> None) (drop B qs)"
      using disj unfolding vw by (intro filter_cong) (auto simp: restrict_map_def)
    have step: "bulkDelete_loop R B qs d w = bulkDelete_loop R B (drop B qs) (d + ?n) ?w"
      using False assms(1) ks n by (subst bulkDelete_loop.simps) (simp add: io_simps)
    have "fst (bulkDelete_loop R B (drop B qs) (d + ?n) ?w) =
        Inr (d + ?n + int (length (filter (\<lambda>q. view w (transactionDetailsKey q) \<noteq> None) (drop B qs))))
      \<and> view (snd (bulkDelete_loop R B (drop B qs) (d + ?n) ?w)) =
        view ?w |` (- transactionDetailsKey ` set (drop B qs))"
      using less.hyps [of "drop B qs" "d + ?n" ?w] less.prems False assms(1) same by simp
    moreover have "filter P qs = filter P (take B qs) @ filter P (drop B qs)" for P
      by (metis append_take_drop_id filter_append)
    ultimately show ?thesis
      unfolding step vw by (auto simp: restrict_map_def fun_eq_iff all)
  qed
qed

lemma details_ok_set:
  assumes "\<And>k. status_entry now t \<noteq> Some (k, None)" "q \<notin> reserved_ids" "details_ok J (view w) q"
  shows "details_ok J (view (snd (TransactionDB_set R J now t w))) q"
    and "stored J (view (snd (TransactionDB_set R J now t w))) q =
      (if q = tx_queueId t then Some t else stored J (view w) q)"
proof -
  have "status_key (tx_status t) \<in> list_keys"
    by (simp add: status_key_def list_keys_def)
  then have key: "transactionDetailsKey q \<noteq> status_key (tx_status t)"
    using details_key_not_list [OF assms(2)] by metis
  show "details_ok J (view (snd (TransactionDB_set R J now t w))) q"
    using set_run [OF assms(1), where w = w] key assms(3)
    by (cases "q = tx_queueId t") (auto simp: details_ok_def)
  show "stored J (view (snd (TransactionDB_set R J now t w))) q =
      (if q = tx_queueId t then Some t else stored J (view w) q)"
    using set_run [OF assms(1), where w = w] key
    by (cases "q = tx_queueId t") (auto simp: stored_def mget_val_def)
qed

lemma list_run:
  assumes "1 \<le> page" "1 \<le> limit" "0 < B" "as_zset (view w (status_key st)) = Some z"
    and "\<And>q. q \<in> snd ` set z \<Longrightarrow> details_ok J (view w) q"
  shows "fst (getTransactionListByStatus R J B st page limit w) =
    Inr (List.map_filter (stored J (view w))
          (map snd (take (nat limit) (drop (nat ((page - 1) * limit)) (rev z)))), int (length z))"
proof -
  let ?a = "(page - 1) * limit"
  let ?ids = "map snd (take (nat limit) (drop (nat ?a) (rev z)))"
  let ?w = "snd (r_zrevrange R (status_key st) ?a (?a + limit - 1) w)"
  have ids: "q \<in> set ?ids \<Longrightarrow> q \<in> snd ` set z" for q
    by (force dest: in_set_takeD in_set_dropD)
  have range: "redis_range ?a (?a + limit - 1) (rev z) = take (nat limit) (drop (nat ?a) (rev z))"
    by (rule redis_range_page) (use assms in simp_all)
  have "fst (TransactionDB_bulkGet R J B ?ids ?w) = Inr (List.map_filter (stored J (view w)) ?ids)
    \<and> view (snd (TransactionDB_bulkGet R J B ?ids ?w)) = view w"
    using bulkGet_loop_run [OF assms(3), of ?ids ?w] ids assms(5)
    by (auto simp: TransactionDB_bulkGet_def map_filter_simps)
  then show ?thesis
    using assms(4) range
    by (simp add: getTransactionListByStatus_def Let_def io_simps q_zrevrange_def q_zcard_def)
qed

lemma prune_run:
  assumes "0 \<le> keep" "0 < B" "as_zset (view w queuedTransactionsKey) = Some z"
    and "snd ` set z \<inter> reserved_ids = {}"
  shows "fst (pruneTransactionDetailsAndLists R B keep w) = Inr (int (length (filter
      (\<lambda>q. view w (transactionDetailsKey q) \<noteq> None) (map snd (take (length z - nat keep) z)))))"
    and "k \<notin> list_keys \<Longrightarrow> view (snd (pruneTransactionDetailsAndLists R B keep w)) k =
      (if k \<in> transactionDetailsKey ` snd ` set (take (length z - nat keep) z) then None else view w k)"
    and "k \<in> list_keys \<Longrightarrow> as_zset (view w k) = Some y \<Longrightarrow>
      as_zset (view (snd (pruneTransactionDetailsAndLists R B keep w)) k) =
        Some (drop (length y - nat keep) y)"
proof -
  let ?old = "map snd (take (length z - nat keep) z)"
  let ?w1 = "snd (r_zrange R queuedTransactionsKey 0 (- keep - 1) w)"
  let ?w2 = "snd (TransactionDB_bulkDelete R B ?old ?w1)"
  have "zset_ok z" using assms(3) view_wf [of w queuedTransactionsKey] by (auto dest!: as_zset_SomeD)
  then have dist: "distinct ?old" by (simp add: zset_ok_def distinct_take flip: take_map)
  have del: "fst (TransactionDB_bulkDelete R B ?old ?w1) =
        Inr (int (length (filter (\<lambda>q. view w (transactionDetailsKey q) \<noteq> None) ?old)))"
      "view ?w2 = view w |` (- transactionDetailsKey ` set ?old)"
    using bulkDelete_loop_run [OF assms(2) dist, of 0 ?w1]
    by (auto simp: TransactionDB_bulkDelete_def restrict_map_def fun_eq_iff)
  have old_ids: "set ?old \<inter> reserved_ids = {}"
    using assms(4) by (force dest: in_set_takeD)
  then have keys: "k \<in> list_keys \<Longrightarrow> k \<notin> transactionDetailsKey ` set ?old" for k
    by (auto simp: list_keys_reserved)
  have neq: "queuedTransactionsKey \<noteq> minedTransactionsKey" "queuedTransactionsKey \<noteq> cancelledTransactionsKey"
    "queuedTransactionsKey \<noteq> erroredTransactionsKey" "minedTransactionsKey \<noteq> cancelledTransactionsKey"
    "minedTransactionsKey \<noteq> erroredTransactionsKey" "cancelledTransactionsKey \<noteq> erroredTransactionsKey"
    by (simp_all add: status_key_defs)
  note run = pruneTransactionDetailsAndLists_def Let_def io_simps q_zrange_def assms(3)
    redis_range_prefix [OF assms(1)] del(1)
  let ?cut = "\<lambda>v. snd (cmd_zremrangebyrank 0 (- keep - 1) v)"
  have final: "view (snd (pruneTransactionDetailsAndLists R B keep w)) =
      (\<lambda>k. if k \<in> list_keys then ?cut (view ?w2 k) else view ?w2 k)"
    using neq by (simp add: run fun_eq_iff list_keys_def)
  show "fst (pruneTransactionDetailsAndLists R B keep w) = Inr (int (length (filter
      (\<lambda>q. view w (transactionDetailsKey q) \<noteq> None) ?old)))"
    by (simp add: run)
  show "view (snd (pruneTransactionDetailsAndLists R B keep w)) k =
      (if k \<in> transactionDetailsKey ` snd ` set (take (length z - nat keep) z) then None else view w k)"
    if "k \<notin> list_keys"
    using that unfolding final del(2) by (simp add: restrict_map_def)
  show "as_zset (view (snd (pruneTransactionDetailsAndLists R B keep w)) k) =
        Some (drop (length y - nat keep) y)"
    if k: "k \<in> list_keys" and y: "as_zset (view w k) = Some y"
    using keys [OF k] k y unfolding final del(2)
    by (simp add: restrict_map_def cmd_zremrangebyrank_def redis_unrange_prefix [OF assms(1)])
qed

end

interpretation mem_db: transaction_db mem_redis mem_view mem_codec
  by unfold_locales

section \<open>Properties\<close>

text \<open>A transaction for the examples.\<close>

definition sample_tx :: transaction where
  "sample_tx = \<lparr>tx_isUserOp = False, tx_chainId = 1, tx_from = ''0xa'', tx_to = Some ''0xb'',
     tx_value = Some 0, tx_data = Some ''0x'', tx_functionName = None, tx_functionArgs = None,
     tx_gas = None, tx_gasPrice = None, tx_maxFeePerGas = None, tx_maxPriorityFeePerGas = None,
     tx_deployedContractAddress = None, tx_deployedContractType = None, tx_extension = None,
     tx_signerAddress = None, tx_accountAddress = None, tx_accountFactoryAddress = None,
     tx_target = None, tx_sender = None, tx_status = Queued, tx_resendCount = 0,
     tx_queueId = ''q1'', tx_queuedAt = 5000, tx_manuallyResentAt = None, tx_sentAt = None,
     tx_sentAtBlock = None, tx_nonce = None, tx_sentTransactionHashes = None, tx_userOpHash = None,
     tx_transactionHash = None, tx_minedAt = None, tx_minedAtBlock = None,
     tx_transactionType = None, tx_onchainStatus = None, tx_gasUsed = None,
     tx_effectiveGasPrice = None, tx_cumulativeGasUsed = None, tx_errorMessage = None,
     tx_cancelledAt = None\<rparr>"

text \<open>
  C9: after \<open>TransactionDB.set\<close> of a well-formed transaction, \<open>get\<close> of its queue id
  answers that transaction, and \<open>get\<close> of any other queue id answers what it answered before;
  unless it is sent, its id is in the sorted set of its status.
\<close>

theorem TransactionDB_set_get:
  assumes "transaction_db R view J" and "wf_transaction t" and "tx_queueId t \<notin> reserved_ids"
    and "q \<notin> reserved_ids" and "details_ok J (view w) q"
    and "as_zset (view w (status_key (tx_status t))) = Some z"
  shows "fst (TransactionDB_set R J now t w) = Inr ()
    \<and> fst (TransactionDB_get R J q (snd (TransactionDB_set R J now t w))) =
      (if q = tx_queueId t then Inr (Some t) else fst (TransactionDB_get R J q w))
    \<and> (tx_status t \<noteq> Sent \<longrightarrow> (\<exists>time. view (snd (TransactionDB_set R J now t w)) (status_key (tx_status t)) =
        Some (RZSet (zset_add (toSeconds time) (tx_queueId t) z))))"
proof -
  note entry = status_entry_wf [OF assms(2)]
  have set: "fst (TransactionDB_set R J now t w) = Inr ()"
    by (rule transaction_db.set_run(1) [OF assms(1) entry])
  have get: "fst (TransactionDB_get R J q (snd (TransactionDB_set R J now t w))) =
      (if q = tx_queueId t then Inr (Some t) else fst (TransactionDB_get R J q w))"
    using transaction_db.details_ok_set [OF assms(1) entry assms(4,5)]
      transaction_db.get_run(1) [OF assms(1)] assms(5) by metis
  have lists: "\<exists>time. status_entry now t = Some (status_key (tx_status t), Some time)"
    if "tx_status t \<noteq> Sent"
    using that entry [of now "status_key (tx_status t)"]
    by (cases "tx_status t") (auto simp: status_entry_def status_key_def)
  show ?thesis
    using set get lists transaction_db.set_list [OF assms(1) _ assms(3,6)] by blast
qed

theorem TransactionDB_set_get_witness:
  "fst (TransactionDB_get mem_redis mem_codec ''q1''
      (snd (TransactionDB_set mem_redis mem_codec 0 sample_tx []))) = Inr (Some sample_tx)"
  using TransactionDB_set_get [OF mem_db.transaction_db_axioms, of sample_tx "''q1''" "[]" "[]" 0]
  by (simp add: wf_transaction_def sample_tx_def reserved_ids_def details_ok_def mem_view_def)

text \<open>
  \<open>bulkGet\<close> answers the transactions of the queue ids it finds, in the order of the
  request, whatever positive batch size the environment sets.
\<close>

theorem bulkGet_batch_independent:
  assumes "transaction_db R view J" and "0 < B" and "\<forall>q \<in> set qs. details_ok J (view w) q"
  shows "fst (TransactionDB_bulkGet R J B qs w) = Inr (List.map_filter (stored J (view w)) qs)
    \<and> view (snd (TransactionDB_bulkGet R J B qs w)) = view w"
  using transaction_db.bulkGet_loop_run [OF assms(1,2), of qs w] assms(3)
  by (auto simp: TransactionDB_bulkGet_def map_filter_simps)

theorem bulkGet_batch_independent_witness:
  "fst (TransactionDB_bulkGet mem_redis mem_codec 1 [''q1'', ''q2'']
      [(transactionDetailsKey ''q1'', RString (stringify mem_codec sample_tx))]) = Inr [sample_tx]"
proof -
  let ?m = "[(transactionDetailsKey ''q1'', RString (stringify mem_codec sample_tx))]"
  have v: "mem_view ?m (transactionDetailsKey ''q1'') = Some (RString (stringify mem_codec sample_tx))"
    "mem_view ?m (transactionDetailsKey ''q2'') = None"
    by (simp_all add: mem_view_def)
  then have ok: "\<forall>q \<in> set [''q1'', ''q2'']. details_ok mem_codec (mem_view ?m) q"
    by (auto simp: details_ok_def)
  show ?thesis
    using bulkGet_batch_independent [where view = mem_view, OF mem_db.transaction_db_axioms _ ok, of 1]
      mem_db.stored_details(1) [where v = "mem_view ?m", OF v(1)]
      mem_db.stored_details(2) [where v = "mem_view ?m", OF v(2)]
    by (simp add: map_filter_simps)
qed

text \<open>
  page \<open>p\<close> of a list with \<open>limit\<close> entries per page holds the transactions at the
  positions \<open>(p - 1) * limit\<close> to \<open>p * limit - 1\<close>, newest first, beside the total count.
\<close>

theorem getTransactionListByStatus_page:
  assumes "transaction_db R view J" and "1 \<le> page" and "1 \<le> limit" and "0 < B"
    and "as_zset (view w (status_key st)) = Some z"
    and "\<forall>q \<in> snd ` set z. details_ok J (view w) q"
  shows "fst (getTransactionListByStatus R J B st page limit w) =
    Inr (List.map_filter (stored J (view w))
          (map snd (take (nat limit) (drop (nat ((page - 1) * limit)) (rev z)))), int (length z))"
  using transaction_db.list_run [OF assms(1-5)] assms(6) by blast

theorem getTransactionListByStatus_page_witness:
  "fst (getTransactionListByStatus mem_redis mem_codec 1 Queued 1 10
      [(queuedTransactionsKey, RZSet [(1, ''q1'')])]) = Inr ([], 1)"
proof -
  let ?m = "[(queuedTransactionsKey, RZSet [(1, ''q1'')])]"
  have z: "as_zset (mem_view ?m (status_key Queued)) = Some [(1, ''q1'')]"
    by (simp add: mem_view_def status_key_def zset_ok_def)
  have none: "mem_view ?m (transactionDetailsKey ''q1'') = None"
    by (simp add: mem_view_def transactionDetailsKey_def queuedTransactionsKey_def)
  have ok: "\<forall>q \<in> snd ` set [(1 :: rat, ''q1'')]. details_ok mem_codec (mem_view ?m) q"
    using none by (simp add: details_ok_def)
  show ?thesis
    using getTransactionListByStatus_page [where view = mem_view, OF mem_db.transaction_db_axioms _ _ _ z ok, of 1 10 1]
      mem_db.stored_details(2) [where v = "mem_view ?m", OF none] by (simp add: map_filter_simps)
qed

text \<open>
  pruning keeps the latest \<open>keep\<close> entries of every list, deletes the details of the
  queued entries it drops and of no other transaction, and answers how many details it deleted.
\<close>

theorem prune_keeps_latest:
  assumes "transaction_db R view J" and "0 \<le> keep" and "0 < B"
    and "as_zset (view w queuedTransactionsKey) = Some z" and "snd ` set z \<inter> reserved_ids = {}"
  shows "fst (pruneTransactionDetailsAndLists R B keep w) = Inr (int (length (filter
        (\<lambda>q. view w (transactionDetailsKey q) \<noteq> None) (map snd (take (length z - nat keep) z)))))
    \<and> (\<forall>q. q \<notin> reserved_ids \<longrightarrow>
        view (snd (pruneTransactionDetailsAndLists R B keep w)) (transactionDetailsKey q) =
          (if q \<in> snd ` set (take (length z - nat keep) z) then None
           else view w (transactionDetailsKey q)))
    \<and> (\<forall>st y. as_zset (view w (status_key st)) = Some y \<longrightarrow>
        as_zset (view (snd (pruneTransactionDetailsAndLists R B keep w)) (status_key st)) =
          Some (drop (length y - nat keep) y))"
proof -
  have key: "transactionDetailsKey q \<in> transactionDetailsKey ` S \<longleftrightarrow> q \<in> S" for q S
    by auto
  have lists: "status_key st \<in> list_keys" for st
    by (simp add: status_key_def list_keys_def)
  show ?thesis
    using transaction_db.prune_run(1) [OF assms] transaction_db.prune_run(3) [OF assms lists]
      transaction_db.prune_run(2) [OF assms details_key_not_list]
    by (auto simp: key)
qed

theorem prune_keeps_latest_witness:
  "fst (pruneTransactionDetailsAndLists mem_redis 1 1
      [(queuedTransactionsKey, RZSet [(1, ''q1''), (2, ''q2'')])]) = Inr 0"
proof -
  let ?m = "[(queuedTransactionsKey, RZSet [(1, ''q1''), (2, ''q2'')])]"
  have z: "as_zset (mem_view ?m queuedTransactionsKey) = Some [(1, ''q1''), (2, ''q2'')]"
    by (simp add: mem_view_def zset_ok_def less_eq_prod_def)
  have "mem_view ?m (transactionDetailsKey ''q1'') = None"
    by (simp add: mem_view_def transactionDetailsKey_def queuedTransactionsKey_def)
  then show ?thesis
    using prune_keeps_latest [where view = mem_view, OF mem_db.transaction_db_axioms _ _ z, of 1 1]
    by (simp add: reserved_ids_def)
qed

text \<open>
  a transaction whose queue id is the word \<open>queued\<close> is stored over the list of queued
  transactions: whatever the list held, reading the queued list then fails.
\<close>

theorem reserved_queueId_destroys_list:
  assumes "transaction_db R view J" and "wf_transaction t" and "tx_queueId t = ''queued''"
  shows "fst (getTransactionListByStatus R J B Queued page limit
      (snd (TransactionDB_set R J now t w))) = Inl wrongtype"
proof -
  let ?w = "snd (TransactionDB_set R J now t w)"
  have "view ?w queuedTransactionsKey = Some (RString (stringify J t))"
    using transaction_db.set_run(2) [OF assms(1) status_entry_wf [OF assms(2)], where w = w] assms(3)
    by (simp add: transactionDetailsKey_def queuedTransactionsKey_def)
  moreover have "redis_server R view" using assms(1) by (simp add: transaction_db_def)
  ultimately show ?thesis
    by (simp add: getTransactionListByStatus_def Let_def io_simps status_key_def q_zrevrange_def
        redis_server.redis_laws)
qed

theorem reserved_queueId_destroys_list_witness:
  "fst (getTransactionListByStatus mem_redis mem_codec 10 Queued 1 10
      (snd (TransactionDB_set mem_redis mem_codec 0 (sample_tx\<lparr>tx_queueId := ''queued''\<rparr>) [])))
    = Inl wrongtype"
  using reserved_queueId_destroys_list [OF mem_db.transaction_db_axioms,
      of "sample_tx\<lparr>tx_queueId := ''queued''\<rparr>"]
  by (simp add: wf_transaction_def sample_tx_def)

end
