(* ===== verification/Engine_World.thy ===== *)
theory Engine_World
  imports Wallet_Nonce Transaction_DB
begin

text \<open>
  The world in which the workers and routes run. The state is the Redis store, the in-process
  caches, the clock, and the list of effects on the outside: jobs added to or removed from a
  queue, transactions handed to an RPC node, webhook requests, usage reports and metrics. The
  services and SDK functions the code calls are the fields of the environment record: chain
  RPC calls, wallets, the bundler, the Postgres tables. Each is a function of its arguments
  that may fail; the development makes no further assumption on them.

  BullMQ keeps job data as a string; here a job carries the data itself. Logging is left out.
  The clock does not advance within one run of a handler.
\<close>

section \<open>Data of the outside\<close>

record chain_info =
  ch_id :: int
  ch_rpc :: string

text \<open>A chain of the configuration, whose stored form may lack any of its properties.\<close>

record native_currency =
  nc_name :: string
  nc_symbol :: string
  nc_decimals :: int

record chain_override =
  ov_id :: "int option"
  ov_name :: "string option"
  ov_rpc :: "string option"
  ov_nativeCurrency :: "native_currency option"
  ov_testnet :: "bool option"

datatype wallet_configuration =
    WalletLocal
  | WalletAwsKms string string string
  | WalletGcpKms string string string string string

text \<open>The parsed configuration: the fields the modelled code reads.\<close>

record parsed_config =
  cfg_minEllapsedBlocksBeforeRetry :: int
  cfg_chainOverridesParsed :: "chain_override list"
  cfg_walletConfiguration :: wallet_configuration
  cfg_contractSubscriptionsRequeryDelaySeconds :: string
  cfg_maxBlocksToIndex :: int
  cfg_cursorDelaySeconds :: int
  cfg_ipAllowlist :: "string list"
  cfg_accessControlAllowOrigin :: string
  cfg_authDomain :: string
  cfg_indexerListenerCronSchedule :: "string option"
  cfg_clearCacheCronSchedule :: "string option"
  cfg_minedTxListenerCronSchedule :: "string option"
  cfg_maxRetriesPerTx :: int

record webhook =
  wh_id :: int
  wh_url :: string
  wh_eventType :: string
  wh_secret :: string
  wh_revokedAt :: "int option"
  wh_name :: "string option"
  wh_createdAt :: int

record wallet_details =
  wd_address :: string
  wd_type :: string
  wd_awsKmsKeyId :: "string option"
  wd_gcpKmsKeyId :: "string option"
  wd_gcpKmsKeyVersionId :: "string option"

type_synonym account = string
type_synonym evm_wallet = string
type_synonym signer = string

text \<open>A transaction request, and the transaction with all values resolved.\<close>

record tx_request =
  rq_to :: "string option"
  rq_data :: "string option"
  rq_value :: "int option"
  rq_gas :: "int option"
  rq_gasPrice :: "int option"
  rq_maxFeePerGas :: "int option"
  rq_maxPriorityFeePerGas :: "int option"
  rq_nonce :: "tx_nonce option"

record serializable_tx =
  stx_to :: "string option"
  stx_data :: "string option"
  stx_value :: "int option"
  stx_nonce :: js_num
  stx_gas :: "int option"
  stx_gasPrice :: "int option"
  stx_maxFeePerGas :: "int option"
  stx_maxPriorityFeePerGas :: "int option"

record tx_receipt =
  rc_transactionHash :: string
  rc_blockNumber :: int
  rc_type :: string
  rc_status :: string
  rc_gasUsed :: int
  rc_effectiveGasPrice :: "int option"
  rc_cumulativeGasUsed :: "int option"

record user_op_receipt =
  ur_transactionHash :: string
  ur_success :: bool
  ur_sender :: string
  ur_nonce :: int

record user_operation =
  uo_sender :: string
  uo_nonce :: int
  uo_callData :: string
  uo_callGasLimit :: int
  uo_maxFeePerGas :: int
  uo_maxPriorityFeePerGas :: int
  uo_paymasterAndData :: string
  uo_signature :: string

text \<open>The rows the contract subscriptions store: event logs and transaction receipts.\<close>

record event_log =
  el_chainId :: int
  el_blockNumber :: int
  el_contractAddress :: string
  el_transactionHash :: string
  el_topic0 :: "string option"
  el_topic1 :: "string option"
  el_topic2 :: "string option"
  el_topic3 :: "string option"
  el_data :: string
  el_eventName :: "string option"
  el_decodedLog :: "(string \<times> string \<times> string) list option"
  el_timestamp :: int
  el_transactionIndex :: int
  el_logIndex :: int
  el_createdAt :: int

record receipt_log =
  rl_chainId :: int
  rl_blockNumber :: int
  rl_contractAddress :: string
  rl_contractId :: string
  rl_transactionHash :: string
  rl_blockHash :: string
  rl_timestamp :: int
  rl_data :: string
  rl_functionName :: "string option"
  rl_to :: string
  rl_from :: string
  rl_value :: string
  rl_transactionIndex :: int
  rl_gasUsed :: string
  rl_effectiveGasPrice :: string
  rl_status :: int
  rl_createdAt :: int

section \<open>Effects\<close>

text \<open>
  The event types of \<open>src/schema/webhooks.ts\<close>; the webhook table and the queue use their
  string values.
\<close>

datatype webhooks_event_type =
  QUEUED_TX | SENT_TX | MINED_TX | ERRORED_TX | CANCELLED_TX | ALL_TX | BACKEND_WALLET_BALANCE
  | AUTH | CONTRACT_SUBSCRIPTION

fun event_string :: "webhooks_event_type \<Rightarrow> string" where
  "event_string QUEUED_TX = ''queued_transaction''"
| "event_string SENT_TX = ''sent_transaction''"
| "event_string MINED_TX = ''mined_transaction''"
| "event_string ERRORED_TX = ''errored_transaction''"
| "event_string CANCELLED_TX = ''cancelled_transaction''"
| "event_string ALL_TX = ''all_transactions''"
| "event_string BACKEND_WALLET_BALANCE = ''backend_wallet_balance''"
| "event_string AUTH = ''auth''"
| "event_string CONTRACT_SUBSCRIPTION = ''contract_subscription''"

datatype webhook_data =
    TxEvent webhooks_event_type string
  | SubscriptionEvent webhook "event_log option" "receipt_log option"

datatype job_data =
    SendTransactionData (jd_queueId: string) (jd_resendCount: int)
  | MineTransactionData (jd_queueId: string)
  | WebhookJob webhook_data webhook
  | EventLogsData int "(string \<times> string list) list" int int
  | ReceiptsData int "(string \<times> string list) list" int int

record job_options =
  jo_jobId :: "string option"
  jo_attempts :: "int option"
  jo_delay :: js_num

record usage_event =
  ue_action :: string
  ue_chainId :: int
  ue_walletAddress :: string
  ue_contractAddress :: "string option"
  ue_transactionValue :: "string option"
  ue_transactionHash :: "string option"
  ue_userOpHash :: "string option"
  ue_errorCode :: "string option"
  ue_functionName :: "string option"
  ue_extension :: "string option"
  ue_provider :: "string option"
  ue_msSinceQueue :: "int option"
  ue_msSinceSend :: "int option"

datatype metric =
    TransactionQueuedMetric string string
  | TransactionSentMetric string bool string rat
  | TransactionMinedMetric string rat rat string

datatype effect =
    AddJob (ef_queue: string) (ef_name: string) job_data job_options
  | RemoveJob string string
  | SendRpc account serializable_tx
  | BundleUserOp int user_operation
  | PostWebhook webhook "(string \<times> string) list" string
  | ReportUsage usage_event
  | RecordMetric metric

section \<open>Environment and state\<close>

record 'w env =
  e_redis :: "'w redis"
  e_codec :: codec
  e_batchSize :: nat
  e_analyticsUrl :: string
  e_getConfiguration :: "js_error + parsed_config"
  e_defineChain :: "chain_override option \<Rightarrow> int \<Rightarrow> js_error + chain_info"
  e_checksumAddress :: "string \<Rightarrow> js_error + string"
  e_getAddress :: "string \<Rightarrow> js_error + string"
  e_BigInt :: "string \<Rightarrow> js_error + int"
  e_randomUUID :: string
  e_transactionCount :: "int \<Rightarrow> string \<Rightarrow> js_error + int"
  e_blockNumber :: "chain_info \<Rightarrow> js_error + int"
  e_transactionReceipt :: "chain_info \<Rightarrow> string \<Rightarrow> js_error + tx_receipt"
  e_transactionByHash :: "chain_info \<Rightarrow> string \<Rightarrow> js_error + string"
  e_userOpReceiptRaw :: "chain_info \<Rightarrow> string option \<Rightarrow> js_error + user_op_receipt option"
  e_userOpReceipt :: "chain_info \<Rightarrow> string option \<Rightarrow> js_error + unit"
  e_toSerializable :: "chain_info \<Rightarrow> string option \<Rightarrow> tx_request \<Rightarrow> js_error + serializable_tx"
  e_sendTransaction :: "account \<Rightarrow> serializable_tx \<Rightarrow> js_error + string"
  e_getContractAddress :: "string \<Rightarrow> js_num \<Rightarrow> js_error + string"
  e_chainMetadata :: "chain_info \<Rightarrow> js_error + (string option \<times> string)"
  e_simulate :: "tx_request \<Rightarrow> account \<Rightarrow> (string \<times> string) + unit"
  e_readFactory :: "chain_info \<Rightarrow> string \<Rightarrow> js_error + string"
  e_createUnsignedUserOp ::
    "chain_info \<Rightarrow> string \<Rightarrow> string \<Rightarrow> string \<Rightarrow> string \<times> int \<times> string option \<Rightarrow> js_error + user_operation"
  e_getPaymasterAndData :: "chain_info \<Rightarrow> user_operation \<Rightarrow> js_error + string option"
  e_signUserOp :: "chain_info \<Rightarrow> account \<Rightarrow> user_operation \<Rightarrow> js_error + user_operation"
  e_bundleUserOp :: "chain_info \<Rightarrow> user_operation \<Rightarrow> js_error + string"
  e_walletDetails :: "string \<Rightarrow> js_error + wallet_details option"
  e_awsKmsWallet :: "string option \<Rightarrow> js_error + evm_wallet"
  e_gcpKmsWallet :: "string option \<Rightarrow> string option \<Rightarrow> js_error + evm_wallet"
  e_localWallet :: "int \<Rightarrow> string \<Rightarrow> js_error + evm_wallet"
  e_localAccount :: "string \<Rightarrow> js_error + account"
  e_smartWallet :: "int \<Rightarrow> evm_wallet \<Rightarrow> string \<Rightarrow> js_error + evm_wallet"
  e_getSigner :: "evm_wallet \<Rightarrow> js_error + signer"
  e_connectRpc :: "signer \<Rightarrow> string \<Rightarrow> signer"
  e_fromEthers :: "signer \<Rightarrow> js_error + account"
  e_smartAccount :: "chain_info \<Rightarrow> string \<Rightarrow> account \<Rightarrow> js_error + account"
  e_allWebhooks :: "js_error + webhook list"
  e_ethersErrorCodes :: "string list"
  e_showTransaction :: "transaction \<Rightarrow> string"

record 'w world =
  store :: 'w
  effects :: "effect list"
  clock :: int
  config_cache :: "parsed_config option"
  accounts_cache :: "string \<Rightarrow> account option"
  smart_cache :: "string \<Rightarrow> account option"
  webhook_cache :: "string \<Rightarrow> webhook list option"

definition redis_do :: "('w, 'a) io \<Rightarrow> ('w world, 'a) io" where
  "redis_do m = (\<lambda>s. case m (store s) of (r, w) \<Rightarrow> (r, s\<lparr>store := w\<rparr>))"

definition emit :: "effect \<Rightarrow> ('w world, unit) io" where
  "emit e = (\<lambda>s. (Inr (), s\<lparr>effects := effects s @ [e]\<rparr>))"

definition new_Date :: "('w world, int) io" where
  "new_Date = (\<lambda>s. (Inr (clock s), s))"

lemma redis_do_apply [io_simps]:
  "redis_do m s = (fst (m (store s)), s\<lparr>store := snd (m (store s))\<rparr>)"
  by (cases "m (store s)") (simp add: redis_do_def)

lemma emit_apply [io_simps]: "emit e s = (Inr (), s\<lparr>effects := effects s @ [e]\<rparr>)"
  by (simp add: emit_def)

lemma new_Date_apply [io_simps]: "new_Date s = (Inr (clock s), s)"
  by (simp add: new_Date_def)

text \<open>
  A computation that reads and fills caches but leaves the store, the effects and the clock.
\<close>

definition quiet :: "('w world, 'a) io \<Rightarrow> bool" where
  "quiet m \<longleftrightarrow> (\<forall>s. store (snd (m s)) = store s \<and> effects (snd (m s)) = effects s
     \<and> clock (snd (m s)) = clock s)"

lemma quietD:
  assumes "quiet m"
  shows "store (snd (m s)) = store s" "effects (snd (m s)) = effects s" "clock (snd (m s)) = clock s"
  using assms by (simp_all add: quiet_def)

lemma quiet_basic [intro!, simp]: "quiet (ret a)" "quiet (throw e)" "quiet (lift_res r)" "quiet new_Date"
  unfolding quiet_def by (simp_all add: io_simps)

lemma quiet_bnd [intro!]: "quiet m \<Longrightarrow> (\<And>a. quiet (f a)) \<Longrightarrow> quiet (bnd m f)"
  unfolding quiet_def by (simp add: bnd_apply split: sum.split)

lemma quiet_try [intro!]: "quiet m \<Longrightarrow> (\<And>e. quiet (h e)) \<Longrightarrow> quiet (try_catch m h)"
  unfolding quiet_def by (simp add: try_catch_apply split: sum.split)

end
