(* ===== verification/Engine_Support.thy ===== *)
theory Engine_Support
  imports Engine_World
begin

text \<open>
  What the workers and routes share: the classification of RPC errors
  (\<open>src/utils/error.ts\<close>, \<open>src/utils/ethers.ts\<close>), the payloads of the error middleware, the
  configuration cache, chains, accounts and smart accounts, the block number helper, the
  simulation of a transaction, the BullMQ queues and the webhook queue, usage reports and
  metrics.
\<close>

section \<open>Errors\<close>

definition parseEthersError :: "string list \<Rightarrow> js_error \<Rightarrow> js_error option" where
  "parseEthersError codes err = (case err of
       JsObject _ (Some code) _ \<Rightarrow> if code \<in> set codes then Some err else None
     | _ \<Rightarrow> None)"

definition isEthersErrorCode :: "string list \<Rightarrow> js_error \<Rightarrow> string \<Rightarrow> bool" where
  "isEthersErrorCode codes err code = (case parseEthersError codes err of
       Some (JsObject _ (Some c) _) \<Rightarrow> c = code | _ \<Rightarrow> False)"

definition parseMessage :: "js_error \<Rightarrow> string option" where
  "parseMessage err = (case err of JsObject (Some m) _ _ \<Rightarrow> Some (toLowerCase m) | _ \<Rightarrow> None)"

definition isNonceAlreadyUsedError :: "string list \<Rightarrow> js_error \<Rightarrow> bool" where
  "isNonceAlreadyUsedError codes err =
     (let message = parseMessage err
      in if truthy message then js_includes ''nonce too low'' (the message)
         else isEthersErrorCode codes err ''NONCE_EXPIRED'')"

definition isReplacementGasFeeTooLow :: "string list \<Rightarrow> js_error \<Rightarrow> bool" where
  "isReplacementGasFeeTooLow codes err =
     (let message = parseMessage err
      in if truthy message
         then js_includes ''replacement fee too low'' (the message)
            \<or> js_includes ''replacement transaction underpriced'' (the message)
         else isEthersErrorCode codes err ''REPLACEMENT_UNDERPRICED'')"

definition isInsufficientFundsError :: "string list \<Rightarrow> js_error \<Rightarrow> bool" where
  "isInsufficientFundsError codes err =
     (let message = parseMessage err
      in if truthy message
         then js_includes ''insufficient funds for gas * price + value'' (the message)
            \<or> js_includes ''insufficient funds for intrinsic transaction cost'' (the message)
         else isEthersErrorCode codes err ''INSUFFICIENT_FUNDS'')"

definition createCustomError :: "string \<Rightarrow> int \<Rightarrow> string \<Rightarrow> js_error" where
  "createCustomError message statusCode code = JsObject (Some message) (Some code) (Some statusCode)"

definition customDateTimestampError :: "string \<Rightarrow> js_error" where
  "customDateTimestampError date = createCustomError
     (''Invalid date: '' @ date @ ''. Needs to new Date() / new Date().toISOstring() / new Date().getTime() / Unix Epoch'')
     400 ''INVALID_DATE_TIME''"

definition badAddressError :: "string \<Rightarrow> js_error" where
  "badAddressError adr = createCustomError
     (''Invalid address: '' @ adr @ ''. Needs to be a valid EVM address'') 400 ''INVALID_ADDRESS''"

definition badChainError :: "string \<Rightarrow> js_error" where
  "badChainError chain = createCustomError
     (''Invalid chain: '' @ chain @ ''. If this is a custom chain, add it to chain overrides.'')
     400 ''INVALID_CHAIN''"

text \<open>
  The reply of the error handler: status and the \<open>code\<close> and \<open>message\<close> of its body. A Zod
  error is told apart by the argument \<open>zod\<close>, which carries the message of its first issue when
  it has one. The stack and the reason are left out.
\<close>

record error_reply =
  er_status :: int
  er_code :: string
  er_message :: "string option"

definition errorHandler ::
  "string list \<Rightarrow> string option option \<Rightarrow> js_error \<Rightarrow> error_reply" where
  "errorHandler codes zod err =
     (if parseEthersError codes err \<noteq> None
      then \<lparr>er_status = 400, er_code = ''BAD_REQUEST'', er_message = err_code err\<rparr>
      else case zod of
        Some issue \<Rightarrow> \<lparr>er_status = 400, er_code = ''BAD_REQUEST'',
           er_message = Some (case issue of None \<Rightarrow> ''Invalid Request'' | Some m \<Rightarrow> m)\<rparr>
      | None \<Rightarrow> (case err of
          JsObject m (Some code) (Some statusCode) \<Rightarrow>
            \<lparr>er_status = statusCode, er_code = code,
             er_message = Some (case m of None \<Rightarrow> ''Internal Server Error'' | Some x \<Rightarrow> x)\<rparr>
        | JsObject m _ _ \<Rightarrow>
            \<lparr>er_status = 500, er_code = ''INTERNAL_SERVER_ERROR'',
             er_message = Some (if truthy m then the m else ''Internal Server Error'')\<rparr>
        | JsString _ \<Rightarrow>
            \<lparr>er_status = 500, er_code = ''INTERNAL_SERVER_ERROR'',
             er_message = Some ''Internal Server Error''\<rparr>))"

text \<open>\<open>`${e}`\<close> of an error: an \<open>Error\<close> prints its message, a plain object does not.\<close>

definition show_error :: "js_error \<Rightarrow> string" where
  "show_error err = (case err of
       JsObject (Some m) _ None \<Rightarrow> ''Error: '' @ m
     | JsObject _ _ _ \<Rightarrow> ''[object Object]''
     | JsString s \<Rightarrow> s)"

text \<open>\<open>error.message\<close>.\<close>

definition err_message_of :: "js_error \<Rightarrow> string option" where
  "err_message_of err = (case err of JsObject m _ _ \<Rightarrow> m | JsString _ \<Rightarrow> None)"

section \<open>Time\<close>

definition msSince :: "int \<Rightarrow> ('w world, int) io" where
  "msSince since = bnd new_Date (\<lambda>now. ret (max (now - since) 0))"

section \<open>Configuration and chains\<close>

definition getConfig :: "'w env \<Rightarrow> bool \<Rightarrow> ('w world, parsed_config) io" where
  "getConfig E retrieveFromCache = (\<lambda>s.
     case config_cache s of
       Some c \<Rightarrow> if retrieveFromCache then (Inr c, s)
                 else (case e_getConfiguration E of Inl e \<Rightarrow> (Inl e, s)
                       | Inr c' \<Rightarrow> (Inr c', s\<lparr>config_cache := Some c'\<rparr>))
     | None \<Rightarrow> (case e_getConfiguration E of Inl e \<Rightarrow> (Inl e, s)
                | Inr c' \<Rightarrow> (Inr c', s\<lparr>config_cache := Some c'\<rparr>)))"

definition invalidateConfig :: "('w world, unit) io" where
  "invalidateConfig = (\<lambda>s. (Inr (), s\<lparr>config_cache := None\<rparr>))"

definition find_override :: "int \<Rightarrow> chain_override list \<Rightarrow> chain_override option" where
  "find_override chainId overrides = find (\<lambda>override. Some chainId = ov_id override) overrides"

definition getChain :: "'w env \<Rightarrow> int \<Rightarrow> ('w world, chain_info) io" where
  "getChain E chainId =
     bnd (getConfig E True) (\<lambda>config.
       case find_override chainId (cfg_chainOverridesParsed config) of
         Some override \<Rightarrow> lift_res (e_defineChain E (Some override) chainId)
       | None \<Rightarrow> lift_res (e_defineChain E None chainId))"

text \<open>
  The latest block number; the cache is written without waiting for the answer, and an error
  of that write is dropped.
\<close>

definition latestBlockKey :: "int \<Rightarrow> string" where
  "latestBlockKey chainId = ''latestBlock:'' @ show_int chainId"

definition getBlockNumberish :: "'w env \<Rightarrow> int \<Rightarrow> ('w world, int) io" where
  "getBlockNumberish E chainId =
     bnd (getChain E chainId) (\<lambda>chain.
     try_catch
       (bnd (lift_res (e_blockNumber E chain)) (\<lambda>blockNumber.
        bnd (settle (redis_do (r_set (e_redis E) (latestBlockKey chainId) (show_int blockNumber)))) (\<lambda>_.
        ret blockNumber)))
       (\<lambda>_. bnd (redis_do (r_get (e_redis E) (latestBlockKey chainId))) (\<lambda>cached.
          if truthy cached then lift_res (e_BigInt E (the cached))
          else throw (js_Error ''Error getting latest block number.''))))"

section \<open>Accounts\<close>

definition getAccountCacheKey :: "int \<Rightarrow> string \<Rightarrow> string option \<Rightarrow> string" where
  "getAccountCacheKey chainId adr accountAddress =
     (if truthy accountAddress
      then show_int chainId @ ''-'' @ adr @ ''-'' @ the accountAddress
      else show_int chainId @ ''-'' @ adr)"

definition getWalletDetails :: "'w env \<Rightarrow> string \<Rightarrow> ('w world, wallet_details option) io" where
  "getWalletDetails E adr = lift_res (e_walletDetails E (toLowerCase adr))"

definition cache_account :: "string \<Rightarrow> account \<Rightarrow> ('w world, account) io" where
  "cache_account key acc = (\<lambda>s. (Inr acc, s\<lparr>accounts_cache := (accounts_cache s)(key \<mapsto> acc)\<rparr>))"

text \<open>The wallet of the backend, or at once the account of a local one without smart account.\<close>

definition resolve_wallet ::
  "'w env \<Rightarrow> int \<Rightarrow> string \<Rightarrow> string option \<Rightarrow> wallet_details \<Rightarrow> js_error + (account + evm_wallet)" where
  "resolve_wallet E chainId adr accountAddress d =
     (if wd_type d = ''aws-kms'' then map_sum id Inr (e_awsKmsWallet E (wd_awsKmsKeyId d))
      else if wd_type d = ''gcp-kms''
        then map_sum id Inr (e_gcpKmsWallet E (wd_gcpKmsKeyId d) (wd_gcpKmsKeyVersionId d))
      else if wd_type d = ''local''
        then if \<not> truthy accountAddress then map_sum id Inl (e_localAccount E adr)
             else map_sum id Inr (e_localWallet E chainId adr)
      else Inl (js_Error (''Wallet type not supported: '' @ wd_type d)))"

definition getAccount :: "'w env \<Rightarrow> int \<Rightarrow> string \<Rightarrow> string option \<Rightarrow> ('w world, account) io" where
  "getAccount E chainId adr accountAddress = (\<lambda>s.
     let cacheKey = getAccountCacheKey chainId adr accountAddress
     in case accounts_cache s cacheKey of
       Some cached \<Rightarrow> (Inr cached, s)
     | None \<Rightarrow>
         bnd (getWalletDetails E adr) (\<lambda>walletDetails.
         case walletDetails of
           None \<Rightarrow> throw (createCustomError
             (''No configured wallet found with address '' @ adr) 400 ''BAD_REQUEST'')
         | Some d \<Rightarrow>
             bnd (lift_res (resolve_wallet E chainId adr accountAddress d)) (\<lambda>r.
             case r of
               Inl acc \<Rightarrow> cache_account cacheKey acc
             | Inr wallet \<Rightarrow>
                 bnd (if truthy accountAddress
                      then bnd (lift_res (e_smartWallet E chainId wallet (the accountAddress)))
                             (\<lambda>sw. lift_res (e_getSigner E sw))
                      else lift_res (e_getSigner E wallet)) (\<lambda>signer.
                 bnd (if wd_type d \<noteq> ''local''
                      then bnd (getChain E chainId) (\<lambda>chain. ret (e_connectRpc E signer (ch_rpc chain)))
                      else ret signer) (\<lambda>signer.
                 bnd (lift_res (e_fromEthers E signer)) (\<lambda>acc.
                 cache_account cacheKey acc))))) s)"

definition cache_smart_account :: "string \<Rightarrow> account \<Rightarrow> ('w world, account) io" where
  "cache_smart_account key acc = (\<lambda>s. (Inr acc, s\<lparr>smart_cache := (smart_cache s)(key \<mapsto> acc)\<rparr>))"

definition getSmartWalletV5 ::
  "'w env \<Rightarrow> chain_info \<Rightarrow> string \<Rightarrow> string \<Rightarrow> string option \<Rightarrow> ('w world, account) io" where
  "getSmartWalletV5 E chain accountAddress adr accountFactoryAddress = (\<lambda>s.
     let cacheKey = show_int (ch_id chain) @ ''-'' @ accountAddress @ ''-'' @ adr
     in case smart_cache s cacheKey of
       Some acc \<Rightarrow> (Inr acc, s)
     | None \<Rightarrow>
         bnd (if truthy accountFactoryAddress then ret (the accountFactoryAddress)
              else lift_res (e_readFactory E chain accountAddress)) (\<lambda>factory.
         bnd (getAccount E (ch_id chain) adr None) (\<lambda>acc.
         bnd (lift_res (e_smartAccount E chain factory acc)) (\<lambda>smartAccount.
         cache_smart_account cacheKey smartAccount))) s)"

section \<open>Simulation and error messages\<close>

definition request_of :: "transaction \<Rightarrow> tx_request" where
  "request_of t = \<lparr>rq_to = tx_to t, rq_data = tx_data t, rq_value = tx_value t, rq_gas = tx_gas t,
     rq_gasPrice = tx_gasPrice t, rq_maxFeePerGas = tx_maxFeePerGas t,
     rq_maxPriorityFeePerGas = tx_maxPriorityFeePerGas t, rq_nonce = tx_nonce t\<rparr>"

text \<open>The simulation error, or nothing. \<open>x ?? y\<close> takes \<open>y\<close> only when \<open>x\<close> is undefined.\<close>

definition nullish :: "'a option \<Rightarrow> 'a option \<Rightarrow> 'a option" where
  "nullish x y = (case x of None \<Rightarrow> y | Some _ \<Rightarrow> x)"

definition doSimulateTransaction :: "'w env \<Rightarrow> transaction \<Rightarrow> ('w world, string option) io" where
  "doSimulateTransaction E t =
     bnd (getChain E (tx_chainId t)) (\<lambda>chain.
     if truthy (tx_data t) \<and> (truthy (tx_to t) \<or> truthy (tx_target t))
     then
       let preparedTransaction =
             (request_of t)\<lparr>rq_to := nullish (tx_to t) (tx_target t), rq_nonce := None\<rparr>
       in bnd (if tx_from t \<noteq> [] \<and> truthy (tx_accountAddress t)
               then getSmartWalletV5 E chain (the (tx_accountAddress t)) (tx_from t)
                      (tx_accountFactoryAddress t)
               else getAccount E (tx_chainId t) (tx_from t) None) (\<lambda>acc.
          ret (case e_simulate E preparedTransaction acc of
                 Inr _ \<Rightarrow> None
               | Inl (name, message) \<Rightarrow> Some (name @ '': '' @ message)))
     else throw (js_Error (''Transaction cannot be simulated: '' @ e_showTransaction E t)))"

definition prettifyError :: "'w env \<Rightarrow> transaction \<Rightarrow> js_error \<Rightarrow> ('w world, string option) io" where
  "prettifyError E t err =
     (if \<not> tx_isUserOp t then
        if isInsufficientFundsError (e_ethersErrorCodes E) err then
          bnd (getChain E (tx_chainId t)) (\<lambda>chain.
          bnd (lift_res (e_chainMetadata E chain)) (\<lambda>metadata.
          ret (Some (''Insufficient '' @ show_opt (fst metadata) @ '' on '' @ snd metadata
                 @ '' in '' @ tx_from t @ ''.''))))
        else if isEthersErrorCode (e_ethersErrorCodes E) err ''UNPREDICTABLE_GAS_LIMIT'' then
          bnd (doSimulateTransaction E t) (\<lambda>simulateError.
          ret (if truthy simulateError then simulateError else err_message_of err))
        else ret (err_message_of err)
      else ret (err_message_of err))"

section \<open>Queues\<close>

text \<open>
  The options a job is added with; options left out take the queue's default
  (\<open>defaultJobOptions\<close> of \<open>src/worker/queues/queues.ts\<close>: no retry).
\<close>

definition default_attempts :: int where
  "default_attempts = 0"

definition SendTransactionQueue_attempts :: int where
  "SendTransactionQueue_attempts = 5"

definition SendTransactionQueue_jobId :: "string \<Rightarrow> int \<Rightarrow> string" where
  "SendTransactionQueue_jobId queueId resendCount = queueId @ ''.'' @ show_int resendCount"

definition SendTransactionQueue_add :: "string \<Rightarrow> int \<Rightarrow> ('w world, unit) io" where
  "SendTransactionQueue_add queueId resendCount =
     (let jobId = SendTransactionQueue_jobId queueId resendCount
      in emit (AddJob ''transactions-1-send'' jobId (SendTransactionData queueId resendCount)
           \<lparr>jo_jobId = Some jobId, jo_attempts = None, jo_delay = None\<rparr>))"

definition SendTransactionQueue_remove :: "string \<Rightarrow> int \<Rightarrow> ('w world, unit) io" where
  "SendTransactionQueue_remove queueId resendCount =
     emit (RemoveJob ''transactions-1-send'' (SendTransactionQueue_jobId queueId resendCount))"

definition MineTransactionQueue_jobId :: "string \<Rightarrow> string" where
  "MineTransactionQueue_jobId queueId = ''mine.'' @ queueId"

definition MineTransactionQueue_attempts :: nat where
  "MineTransactionQueue_attempts = 200"

definition MineTransactionQueue_add :: "string \<Rightarrow> ('w world, unit) io" where
  "MineTransactionQueue_add queueId =
     (let jobId = MineTransactionQueue_jobId queueId
      in emit (AddJob ''transactions-2-mine'' jobId (MineTransactionData queueId)
           \<lparr>jo_jobId = Some jobId, jo_attempts = Some (int MineTransactionQueue_attempts),
            jo_delay = None\<rparr>))"

section \<open>Webhooks\<close>

definition getWebhooksByEventType ::
  "'w env \<Rightarrow> webhooks_event_type \<Rightarrow> bool \<Rightarrow> ('w world, webhook list) io" where
  "getWebhooksByEventType E eventType retrieveFromCache = (\<lambda>s.
     let cacheKey = event_string eventType
     in case (if retrieveFromCache then webhook_cache s cacheKey else None) of
       Some ws \<Rightarrow> (Inr ws, s)
     | None \<Rightarrow>
         (case e_allWebhooks E of
            Inl e \<Rightarrow> (Inl e, s)
          | Inr ws \<Rightarrow>
              let filteredWebhooks = filter (\<lambda>w. wh_eventType w = cacheKey) ws
              in (Inr filteredWebhooks,
                  s\<lparr>webhook_cache := (webhook_cache s)(cacheKey \<mapsto> filteredWebhooks)\<rparr>)))"

definition getTransactionWebhookIdempotencyKey ::
  "webhook \<Rightarrow> webhooks_event_type \<Rightarrow> string \<Rightarrow> string" where
  "getTransactionWebhookIdempotencyKey w eventType queueId =
     wh_url w @ ''.'' @ event_string eventType @ ''.'' @ queueId"

definition getContractSubscriptionWebhookIdempotencyKey ::
  "webhook \<Rightarrow> event_log option \<Rightarrow> receipt_log option \<Rightarrow> js_error + string" where
  "getContractSubscriptionWebhookIdempotencyKey w eventLog transactionReceipt =
     (case eventLog of
        Some l \<Rightarrow> Inr (wh_url w @ ''.'' @ el_transactionHash l @ ''.'' @ show_int (el_logIndex l))
      | None \<Rightarrow> (case transactionReceipt of
          Some r \<Rightarrow> Inr (wh_url w @ ''.'' @ rl_transactionHash r)
        | None \<Rightarrow> Inl (JsString ''Must provide \"eventLog\" or \"transactionReceipt\".'')))"

definition webhook_job_name :: "webhooks_event_type \<Rightarrow> webhook \<Rightarrow> string" where
  "webhook_job_name ty w = event_string ty @ '':'' @ show_int (wh_id w)"

definition enqueueContractSubscriptionWebhook ::
  "webhook \<Rightarrow> event_log option \<Rightarrow> receipt_log option \<Rightarrow> ('w world, unit) io" where
  "enqueueContractSubscriptionWebhook w eventLog transactionReceipt =
     (if eventLog = None \<and> transactionReceipt = None
      then throw (JsString ''Must provide \"eventLog\" or \"transactionReceipt\".'')
      else if wh_revokedAt w = None \<and> event_string CONTRACT_SUBSCRIPTION = wh_eventType w
      then bnd (lift_res (getContractSubscriptionWebhookIdempotencyKey w eventLog transactionReceipt))
             (\<lambda>key. emit (AddJob ''send-webhook'' (webhook_job_name CONTRACT_SUBSCRIPTION w)
                (WebhookJob (SubscriptionEvent w eventLog transactionReceipt) w)
                \<lparr>jo_jobId = Some key, jo_attempts = None, jo_delay = None\<rparr>))
      else ret ())"

definition enqueueTransactionWebhookJobs ::
  "'w env \<Rightarrow> webhooks_event_type \<Rightarrow> string \<Rightarrow> ('w world, unit) io" where
  "enqueueTransactionWebhookJobs E ty queueId =
     bnd (getWebhooksByEventType E ALL_TX True) (\<lambda>ws1.
     bnd (getWebhooksByEventType E ty True) (\<lambda>ws2.
     for_each (ws1 @ ws2) (\<lambda>w.
       emit (AddJob ''send-webhook'' (webhook_job_name ty w) (WebhookJob (TxEvent ty queueId) w)
         \<lparr>jo_jobId = Some (getTransactionWebhookIdempotencyKey w ty queueId),
          jo_attempts = None, jo_delay = None\<rparr>))))"

definition enqueueWebhook :: "'w env \<Rightarrow> webhook_data \<Rightarrow> ('w world, unit) io" where
  "enqueueWebhook E data = (case data of
       SubscriptionEvent w eventLog transactionReceipt \<Rightarrow>
         enqueueContractSubscriptionWebhook w eventLog transactionReceipt
     | TxEvent ty queueId \<Rightarrow>
         if ty \<in> {SENT_TX, MINED_TX, ERRORED_TX, CANCELLED_TX}
         then enqueueTransactionWebhookJobs E ty queueId else ret ())"

definition status_event :: "tx_status \<Rightarrow> webhooks_event_type option" where
  "status_event status =
     (if status = Sent then Some SENT_TX
      else if status = Mined then Some MINED_TX
      else if status = Cancelled then Some CANCELLED_TX
      else if status = Errored then Some ERRORED_TX
      else None)"

definition enqueueTransactionWebhook :: "'w env \<Rightarrow> transaction \<Rightarrow> ('w world, unit) io" where
  "enqueueTransactionWebhook E t =
     (case status_event (tx_status t) of
        Some ty \<Rightarrow> enqueueWebhook E (TxEvent ty (tx_queueId t))
      | None \<Rightarrow> ret ())"

section \<open>Usage and metrics\<close>

definition reportUsage ::
  "'w env \<Rightarrow> string \<Rightarrow> transaction \<Rightarrow> string option \<Rightarrow> int option \<Rightarrow> int option \<Rightarrow> string option
   \<Rightarrow> ('w world, unit) io" where
  "reportUsage E action t provider msQueue msSend error =
     (if e_analyticsUrl E = [] then ret ()
      else emit (ReportUsage \<lparr>ue_action = action, ue_chainId = tx_chainId t,
        ue_walletAddress = tx_from t, ue_contractAddress = tx_to t,
        ue_transactionValue = map_option show_int (tx_value t),
        ue_transactionHash = tx_transactionHash t, ue_userOpHash = tx_userOpHash t,
        ue_errorCode = error, ue_functionName = tx_functionName t, ue_extension = tx_extension t,
        ue_provider = provider, ue_msSinceQueue = msQueue, ue_msSinceSend = msSend\<rparr>))"

definition recordMetrics :: "metric \<Rightarrow> ('w world, unit) io" where
  "recordMetrics m = emit (RecordMetric m)"

section \<open>User operations\<close>

definition DUMMY_SIGNATURE :: string where
  "DUMMY_SIGNATURE = ''0xfffffffffffffffffffffffffffffff0000000000000000000000000000000007aaaaaaaaaaaaaaaaaaaaaaaaaaaaaaaaaaaaaaaaaaaaaaaaaaaaaaaaaaaaaaa1c''"

definition quoted :: "string \<Rightarrow> string" where
  "quoted s = CHR 0x27 # s @ [CHR 0x27]"

text \<open>
  The call is \<open>execute(to, value, data)\<close> on the account. A custom gas limit is passed on, and
  a paymaster signature other than \<open>0x\<close> is attached.
\<close>

definition generateSignedUserOperation ::
  "'w env \<Rightarrow> transaction \<Rightarrow> serializable_tx \<Rightarrow> ('w world, user_operation) io" where
  "generateSignedUserOperation E t populated =
     (if tx_from t = [] \<or> \<not> truthy (tx_accountAddress t) \<or> \<not> truthy (tx_signerAddress t)
         \<or> \<not> truthy (tx_target t)
      then throw (js_Error ''Invalid UserOperation parameters'')
      else
        let accountAddress = the (tx_accountAddress t) in
        bnd (getChain E (tx_chainId t)) (\<lambda>chain.
        bnd (if truthy (tx_accountFactoryAddress t) then ret (the (tx_accountFactoryAddress t))
             else try_catch
               (bnd (lift_res (e_readFactory E chain accountAddress)) (\<lambda>f. lift_res (e_getAddress E f)))
               (\<lambda>_. throw (js_Error (''Failed to find factory address for account '' @ quoted accountAddress
                      @ '' on chain '' @ quoted (show_int (tx_chainId t)))))) (\<lambda>factory.
        bnd (lift_res (e_createUnsignedUserOp E chain accountAddress factory (the (tx_signerAddress t))
               (if truthy (stx_to populated) then the (stx_to populated) else [],
                case stx_value populated of None \<Rightarrow> 0 | Some v \<Rightarrow> v, stx_data populated))) (\<lambda>unsignedOp.
        bnd (case tx_gas t of
               None \<Rightarrow> ret unsignedOp
             | Some gas \<Rightarrow>
                 if gas = 0 then ret unsignedOp
                 else
                   let op1 = unsignedOp\<lparr>uo_callGasLimit := gas, uo_paymasterAndData := ''0x'',
                               uo_signature := DUMMY_SIGNATURE\<rparr> in
                   bnd (lift_res (e_getPaymasterAndData E chain op1)) (\<lambda>result.
                   let paymasterAndData = (case result of Some p \<Rightarrow> p | None \<Rightarrow> ''0x'') in
                   ret (if paymasterAndData \<noteq> [] \<and> paymasterAndData \<noteq> ''0x''
                        then op1\<lparr>uo_paymasterAndData := paymasterAndData\<rparr> else op1))) (\<lambda>op2.
        bnd (getAccount E (tx_chainId t) (tx_from t) None) (\<lambda>adminAccount.
        lift_res (e_signUserOp E chain adminAccount op2)))))))"

section \<open>What the helpers leave alone\<close>

lemma quiet_getConfig [intro!, simp]: "quiet (getConfig E b)"
  by (auto simp: quiet_def getConfig_def split: option.splits sum.splits)

lemma quiet_getChain [intro!, simp]: "quiet (getChain E c)"
  by (auto simp: getChain_def split: option.splits)

lemma quiet_cache_account [intro!, simp]:
  "quiet (cache_account k acc)" "quiet (cache_smart_account k acc)"
  by (simp_all add: quiet_def cache_account_def cache_smart_account_def)

lemma quiet_msSince [intro!, simp]: "quiet (msSince t)"
  by (auto simp: msSince_def)

text \<open>Looking in a cache first is quiet when the fallback is.\<close>

lemma quiet_lookup:
  assumes "quiet m"
  shows "quiet (\<lambda>s. case c s of Some acc \<Rightarrow> (Inr acc, s) | None \<Rightarrow> m s)"
  using assms by (auto simp: quiet_def split: option.splits)

lemma quiet_getAccount [intro!, simp]: "quiet (getAccount E c a acc)"
  unfolding getAccount_def Let_def getWalletDetails_def
  by (rule quiet_lookup)
    (auto intro!: quiet_bnd split: option.splits sum.splits)

lemma quiet_getSmartWalletV5 [intro!, simp]: "quiet (getSmartWalletV5 E ch a b f)"
  unfolding getSmartWalletV5_def Let_def
  by (rule quiet_lookup) (auto intro!: quiet_bnd)

lemma quiet_doSimulate [intro!, simp]: "quiet (doSimulateTransaction E t)"
  by (auto simp: doSimulateTransaction_def Let_def)

lemma quiet_prettifyError [intro!, simp]: "quiet (prettifyError E t err)"
  by (auto simp: prettifyError_def)

lemma quiet_signedUserOp [intro!, simp]: "quiet (generateSignedUserOperation E t p)"
  by (auto simp: generateSignedUserOperation_def Let_def split: option.splits)

text \<open>
  A computation that leaves the keys of nonces and transactions: it writes no key but the
  block number cache, and adds no effect.
\<close>

definition keeps_keys :: "('w \<Rightarrow> keyspace) \<Rightarrow> string set \<Rightarrow> ('w world, 'a) io \<Rightarrow> bool" where
  "keeps_keys view K m \<longleftrightarrow> (\<forall>s. clock (snd (m s)) = clock s
     \<and> (\<forall>k \<in> K. view (store (snd (m s))) k = view (store s) k))"

lemma keeps_keysD:
  assumes "keeps_keys view K m"
  shows "k \<in> K \<Longrightarrow> view (store (snd (m s))) k = view (store s) k" "clock (snd (m s)) = clock s"
  using assms by (simp_all add: keeps_keys_def)

lemma quiet_keeps [intro]: "quiet m \<Longrightarrow> keeps_keys view K m"
  by (simp add: quiet_def keeps_keys_def)

lemma keeps_basic [intro!, simp]:
  "keeps_keys view K (ret a)" "keeps_keys view K (throw e)" "keeps_keys view K (lift_res r)"
  "keeps_keys view K new_Date"
  by (auto intro: quiet_keeps)

lemma keeps_bnd: "keeps_keys view K m \<Longrightarrow> (\<And>a. keeps_keys view K (f a)) \<Longrightarrow> keeps_keys view K (bnd m f)"
  unfolding keeps_keys_def by (simp add: bnd_apply split: sum.split)

lemma keeps_try:
  "keeps_keys view K m \<Longrightarrow> (\<And>e. keeps_keys view K (h e)) \<Longrightarrow> keeps_keys view K (try_catch m h)"
  unfolding keeps_keys_def by (simp add: try_catch_apply split: sum.split)

lemma keeps_emit [intro!, simp]: "keeps_keys view K (emit e)"
  by (simp add: keeps_keys_def emit_apply)

lemma keeps_for_each: "(\<And>x. keeps_keys view K (f x)) \<Longrightarrow> keeps_keys view K (for_each xs f)"
  by (induction xs) (auto intro: keeps_bnd)

lemma keeps_getWebhooks [intro!, simp]: "keeps_keys view K (getWebhooksByEventType E ty b)"
  by (auto simp: keeps_keys_def getWebhooksByEventType_def Let_def split: option.splits sum.splits)

lemma keeps_enqueueTransactionWebhook [intro!, simp]:
  "keeps_keys view K (enqueueTransactionWebhook E t)"
  unfolding enqueueTransactionWebhook_def enqueueWebhook_def enqueueTransactionWebhookJobs_def
  by (auto intro!: keeps_bnd keeps_for_each split: option.splits)

lemma keeps_reportUsage [intro!, simp]: "keeps_keys view K (reportUsage E a t p q r e)"
  by (auto simp: reportUsage_def)

lemma keeps_recordMetrics [intro!, simp]: "keeps_keys view K (recordMetrics m)"
  by (simp add: recordMetrics_def)

text \<open>Effects are only ever added.\<close>

definition appends :: "('w world, 'a) io \<Rightarrow> bool" where
  "appends m \<longleftrightarrow> (\<forall>s. \<exists>xs. effects (snd (m s)) = effects s @ xs)"

lemma appendsD: "appends m \<Longrightarrow> set (effects s) \<subseteq> set (effects (snd (m s)))"
  unfolding appends_def by (metis set_append Un_upper1)

lemma quiet_appends [intro]: "quiet m \<Longrightarrow> appends m"
  by (simp add: quiet_def appends_def)

lemma appends_bnd:
  assumes "appends m" "\<And>a. appends (f a)"
  shows "appends (bnd m f)"
  unfolding appends_def
proof
  fix s
  obtain xs where "effects (snd (m s)) = effects s @ xs" using assms(1) by (auto simp: appends_def)
  moreover have "\<exists>ys. effects (snd (f a (snd (m s)))) = effects (snd (m s)) @ ys" for a
    using assms(2) by (auto simp: appends_def)
  ultimately show "\<exists>xs. effects (snd (bnd m f s)) = effects s @ xs"
    by (auto simp: bnd_apply split: sum.split)
qed

lemma appends_basic [intro!, simp]: "appends (emit e)" "appends (redis_do g)"
  "appends (getWebhooksByEventType E ty b)"
  by (auto simp: appends_def emit_apply redis_do_apply getWebhooksByEventType_def Let_def
      split: option.splits sum.splits)

lemma appends_for_each: "(\<And>x. appends (f x)) \<Longrightarrow> appends (for_each xs f)"
  by (induction xs) (auto intro: appends_bnd)

lemma appends_enqueueTransactionWebhook [intro!, simp]: "appends (enqueueTransactionWebhook E t)"
  unfolding enqueueTransactionWebhook_def enqueueWebhook_def enqueueTransactionWebhookJobs_def
  by (auto intro!: appends_bnd appends_for_each split: option.splits)

lemma appends_reports [intro!, simp]: "appends (reportUsage E a t p q r e)" "appends (recordMetrics m)"
  by (auto simp: reportUsage_def recordMetrics_def)

section \<open>An engine over a server\<close>

text \<open>
  The workers rely on the laws of Redis and of the stored form of transactions; the rest of
  the environment is arbitrary.
\<close>

locale engine = transaction_db "e_redis E" view "e_codec E"
  for E :: "'w env" and view :: "'w \<Rightarrow> keyspace"
begin

lemma keeps_getBlockNumberish:
  assumes "latestBlockKey c \<notin> K"
  shows "keeps_keys view K (getBlockNumberish E c)"
proof -
  have set: "keeps_keys view K (settle (redis_do (r_set (e_redis E) (latestBlockKey c) v)))" for v
    using assms by (auto simp: keeps_keys_def io_simps)
  have get: "keeps_keys view K (redis_do (r_get (e_redis E) (latestBlockKey c)))"
    by (auto simp: keeps_keys_def io_simps)
  show ?thesis
    unfolding getBlockNumberish_def by (auto intro!: keeps_bnd keeps_try set get)
qed

end

lemma latestBlockKey_other [simp]:
  "latestBlockKey c \<noteq> lastUsedNonceKey c' a" "latestBlockKey c \<noteq> recycledNoncesKey c' a"
  "latestBlockKey c \<noteq> sentNoncesKey c' a" "latestBlockKey c \<noteq> nonceMapKey c' a"
  "latestBlockKey c \<noteq> transactionDetailsKey q"
  by (simp_all add: latestBlockKey_def nonce_key_defs transactionDetailsKey_def)

lemma latestBlockKey_list [simp]: "latestBlockKey c \<noteq> status_key st"
  by (simp add: latestBlockKey_def status_key_def status_key_defs)

lemma transactionDetailsKey_nonce [simp]:
  "transactionDetailsKey q \<noteq> lastUsedNonceKey c' a" "transactionDetailsKey q \<noteq> recycledNoncesKey c' a"
  "transactionDetailsKey q \<noteq> sentNoncesKey c' a" "transactionDetailsKey q \<noteq> nonceMapKey c' a"
  by (simp_all add: nonce_key_defs transactionDetailsKey_def)

lemma status_key_nonce [simp]:
  "status_key st \<noteq> lastUsedNonceKey c' a" "status_key st \<noteq> recycledNoncesKey c' a"
  "status_key st \<noteq> sentNoncesKey c' a" "status_key st \<noteq> nonceMapKey c' a"
  by (simp_all add: nonce_key_defs status_key_def status_key_defs)

lemmas other_keys_symmetric [simp] =
  latestBlockKey_other [symmetric] latestBlockKey_list [symmetric]
  transactionDetailsKey_nonce [symmetric] status_key_nonce [symmetric]

text \<open>The keys of the nonces of one wallet.\<close>

definition wallet_keys :: "int \<Rightarrow> string \<Rightarrow> string set" where
  "wallet_keys c a = {lastUsedNonceKey c a, recycledNoncesKey c a, sentNoncesKey c a, nonceMapKey c a}"

lemma keeps_represents:
  assumes "keeps_keys view (wallet_keys c a) m" "represents (view (store s)) c a p"
  shows "represents (view (store (snd (m s)))) c a p"
  using keeps_keysD(1) [OF assms(1)]
  by (intro represents_cong [OF assms(2)]) (auto simp: wallet_keys_def)

lemma latestBlockKey_wallet [simp]: "latestBlockKey c' \<notin> wallet_keys c a"
  by (simp add: wallet_keys_def)

text \<open>
  An environment for the examples: the Redis server and the codec in memory, one wallet, and
  an RPC node that accepts every transaction.
\<close>

definition sample_config :: parsed_config where
  "sample_config = \<lparr>cfg_minEllapsedBlocksBeforeRetry = 12, cfg_chainOverridesParsed = [],
     cfg_walletConfiguration = WalletLocal,
     cfg_contractSubscriptionsRequeryDelaySeconds = ''10'', cfg_maxBlocksToIndex = 25,
     cfg_cursorDelaySeconds = 2, cfg_ipAllowlist = [], cfg_accessControlAllowOrigin = [],
     cfg_authDomain = ''thirdweb.com'', cfg_indexerListenerCronSchedule = None,
     cfg_clearCacheCronSchedule = None, cfg_minedTxListenerCronSchedule = None,
     cfg_maxRetriesPerTx = 3\<rparr>"

definition sample_stx :: "tx_request \<Rightarrow> serializable_tx" where
  "sample_stx r = \<lparr>stx_to = rq_to r, stx_data = rq_data r, stx_value = rq_value r,
     stx_nonce = nonce_number (rq_nonce r), stx_gas = Some 21000, stx_gasPrice = Some 10,
     stx_maxFeePerGas = None, stx_maxPriorityFeePerGas = None\<rparr>"

definition sample_receipt :: tx_receipt where
  "sample_receipt = \<lparr>rc_transactionHash = ''0xh'', rc_blockNumber = 100, rc_type = ''legacy'',
     rc_status = ''success'', rc_gasUsed = 21000, rc_effectiveGasPrice = Some 10,
     rc_cumulativeGasUsed = None\<rparr>"

definition sample_user_op :: user_operation where
  "sample_user_op = \<lparr>uo_sender = ''0xa'', uo_nonce = 7, uo_callData = ''0x'', uo_callGasLimit = 0,
     uo_maxFeePerGas = 1, uo_maxPriorityFeePerGas = 1, uo_paymasterAndData = ''0x'',
     uo_signature = ''0x''\<rparr>"

definition mem_env :: "mem env" where
  "mem_env = \<lparr>e_redis = mem_redis, e_codec = mem_codec, e_batchSize = 50000, e_analyticsUrl = [],
     e_getConfiguration = Inr sample_config,
     e_defineChain = (\<lambda>_ c. Inr \<lparr>ch_id = c, ch_rpc = ''http://rpc''\<rparr>),
     e_checksumAddress = Inr, e_getAddress = Inr, e_BigInt = (\<lambda>_. Inr 0), e_randomUUID = ''uuid'',
     e_transactionCount = (\<lambda>_ _. Inr 6), e_blockNumber = (\<lambda>_. Inr 100),
     e_transactionReceipt = (\<lambda>_ _. Inr sample_receipt), e_transactionByHash = (\<lambda>_ h. Inr h),
     e_userOpReceiptRaw = (\<lambda>_ _. Inr None), e_userOpReceipt = (\<lambda>_ _. Inr ()),
     e_toSerializable = (\<lambda>_ _ r. Inr (sample_stx r)), e_sendTransaction = (\<lambda>_ _. Inr ''0xh''),
     e_getContractAddress = (\<lambda>_ _. Inr ''0xc''), e_chainMetadata = (\<lambda>_. Inr (None, ''chain'')),
     e_simulate = (\<lambda>_ _. Inr ()), e_readFactory = (\<lambda>_ _. Inr ''0xf''),
     e_createUnsignedUserOp = (\<lambda>_ _ _ _ _. Inr sample_user_op),
     e_getPaymasterAndData = (\<lambda>_ _. Inr None), e_signUserOp = (\<lambda>_ _ u. Inr u),
     e_bundleUserOp = (\<lambda>_ _. Inr ''0xu''), e_walletDetails = (\<lambda>_. Inr None),
     e_awsKmsWallet = (\<lambda>_. Inr ''w''), e_gcpKmsWallet = (\<lambda>_ _. Inr ''w''),
     e_localWallet = (\<lambda>_ _. Inr ''w''), e_localAccount = Inr, e_smartWallet = (\<lambda>_ w _. Inr w),
     e_getSigner = Inr, e_connectRpc = (\<lambda>s _. s), e_fromEthers = Inr,
     e_smartAccount = (\<lambda>_ _ a. Inr a), e_allWebhooks = Inr [],
     e_ethersErrorCodes = [''NONCE_EXPIRED'', ''REPLACEMENT_UNDERPRICED'', ''INSUFFICIENT_FUNDS'',
       ''UNPREDICTABLE_GAS_LIMIT''],
     e_showTransaction = (\<lambda>_. ''{}'')\<rparr>"

definition mem_world :: "mem \<Rightarrow> mem world" where
  "mem_world m = \<lparr>store = m, effects = [], clock = 9000, config_cache = None,
     accounts_cache = (\<lambda>_. Some ''0xa''), smart_cache = (\<lambda>_. None), webhook_cache = (\<lambda>_. None)\<rparr>"

interpretation mem_engine: engine mem_env mem_view
  by (simp add: engine_def mem_env_def mem_db.transaction_db_axioms)

end
