(* ===== verification/Send_Worker.thy ===== *)
theory Send_Worker
  imports Engine_Support
begin

text \<open>
  The worker that submits transactions, \<open>src/worker/tasks/sendTransactionWorker.ts\<close>: an EOA
  transaction takes a nonce and goes to the RPC node, a user operation goes to the bundler, a
  sent transaction that is not mined in time is sent again with doubled gas. The job log is
  left out. The main properties are on the nonce of an EOA transaction: whatever the RPC node
  answers, the nonce that was taken is recorded as sent, or put back, or found to be used.
\<close>

section \<open>The worker\<close>

abbreviation db_get :: "'w env \<Rightarrow> string \<Rightarrow> ('w world, transaction option) io" where
  "db_get E queueId \<equiv> redis_do (TransactionDB_get (e_redis E) (e_codec E) queueId)"

definition db_set :: "'w env \<Rightarrow> transaction \<Rightarrow> ('w world, unit) io" where
  "db_set E t = bnd new_Date (\<lambda>now. redis_do (TransactionDB_set (e_redis E) (e_codec E) now t))"

definition checksum :: "'w env \<Rightarrow> string option \<Rightarrow> ('w world, string option) io" where
  "checksum E adr = lift_res (getChecksumAddress (e_checksumAddress E) adr)"

text \<open>The transaction with its gas values resolved, or the errored transaction.\<close>

definition getPopulatedOrErroredTransaction ::
  "'w env \<Rightarrow> transaction \<Rightarrow> ('w world, serializable_tx + transaction) io" where
  "getPopulatedOrErroredTransaction E t =
     try_catch
       (let adr = (if tx_isUserOp t then tx_accountAddress t else Some (tx_from t));
            to = nullish (tx_to t) (tx_target t)
        in if \<not> truthy adr then throw (js_Error ''Invalid transaction parameters: from'')
           else if \<not> truthy to then throw (js_Error ''Invalid transaction parameters: to'')
           else
             bnd (checksum E adr) (\<lambda>adr'.
             bnd (getChain E (tx_chainId t)) (\<lambda>chain.
             bnd (checksum E to) (\<lambda>to'.
             bnd (lift_res (e_toSerializable E chain adr'
                    ((request_of t)\<lparr>rq_to := to',
                       rq_nonce := if tx_isUserOp t then None else Some (NumNonce (Some 1))\<rparr>)))
               (\<lambda>populated. ret (Inl populated))))))
       (\<lambda>e. ret (Inr (t\<lparr>tx_status := Errored,
          tx_errorMessage := Some (case err_message_of e of Some m \<Rightarrow> m | None \<Rightarrow> show_error e)\<rparr>)))"

definition resolveDeployedContractAddress ::
  "'w env \<Rightarrow> transaction \<Rightarrow> js_num \<Rightarrow> js_error + string option" where
  "resolveDeployedContractAddress E t nonce =
     (if truthy (tx_deployedContractAddress t) then Inr (tx_deployedContractAddress t)
      else if tx_extension t = Some ''deploy-published'' \<and> tx_functionName t = Some ''deploy''
      then map_sum id Some (e_getContractAddress E (tx_from t) nonce)
      else Inr None)"

definition send_rpc :: "'w env \<Rightarrow> account \<Rightarrow> serializable_tx \<Rightarrow> ('w world, string) io" where
  "send_rpc E acc stx = bnd (emit (SendRpc acc stx)) (\<lambda>_. lift_res (e_sendTransaction E acc stx))"

definition sendUserOp :: "'w env \<Rightarrow> transaction \<Rightarrow> ('w world, transaction) io" where
  "sendUserOp E t =
     (if \<not> tx_isUserOp t then throw js_AssertionError
      else
        bnd (getChain E (tx_chainId t)) (\<lambda>chain.
        bnd (getPopulatedOrErroredTransaction E t) (\<lambda>r.
        case r of
          Inr errored \<Rightarrow> ret errored
        | Inl populated \<Rightarrow>
            bnd (generateSignedUserOperation E t populated) (\<lambda>signedUserOp.
            bnd (emit (BundleUserOp (tx_chainId t) signedUserOp)) (\<lambda>_.
            bnd (lift_res (e_bundleUserOp E chain signedUserOp)) (\<lambda>userOpHash.
            bnd new_Date (\<lambda>now.
            bnd (getBlockNumberish E (tx_chainId t)) (\<lambda>block.
            ret (t\<lparr>tx_isUserOp := True, tx_status := Sent,
                   tx_nonce := Some (StrNonce (show_int (uo_nonce signedUserOp))),
                   tx_userOpHash := Some userOpHash, tx_sentAt := Some now,
                   tx_sentAtBlock := Some block,
                   tx_maxFeePerGas := Some (uo_maxFeePerGas signedUserOp),
                   tx_maxPriorityFeePerGas := Some (uo_maxPriorityFeePerGas signedUserOp)\<rparr>))))))))) "

text \<open>The error path of a submission: correct the counter, or give the nonce back.\<close>

definition release_nonce :: "'w env \<Rightarrow> transaction \<Rightarrow> js_num \<Rightarrow> js_error \<Rightarrow> ('w world, unit) io" where
  "release_nonce E t nonce e =
     (if isNonceAlreadyUsedError (e_ethersErrorCodes E) e
         \<or> isReplacementGasFeeTooLow (e_ethersErrorCodes E) e
      then bnd (redis_do (syncLatestNonceFromOnchainIfHigher (e_redis E) (e_transactionCount E)
                  (tx_chainId t) (tx_from t))) (\<lambda>_. ret ())
      else redis_do (recycleNonce (e_redis E) (tx_chainId t) (tx_from t) nonce))"

definition sendTransaction :: "'w env \<Rightarrow> transaction \<Rightarrow> ('w world, transaction) io" where
  "sendTransaction E t =
     (if tx_isUserOp t then throw js_AssertionError
      else
        bnd (getPopulatedOrErroredTransaction E t) (\<lambda>r.
        case r of
          Inr errored \<Rightarrow> ret errored
        | Inl populated \<Rightarrow>
            bnd (redis_do (acquireNonce (e_redis E) (e_transactionCount E) (tx_queueId t)
                   (tx_chainId t) (tx_from t))) (\<lambda>(nonce, isRecycledNonce).
            bnd (try_catch
                   (bnd (getAccount E (tx_chainId t) (tx_from t) None) (\<lambda>acc.
                    send_rpc E acc (populated\<lparr>stx_nonce := nonce\<rparr>)))
                   (\<lambda>e. bnd (release_nonce E t nonce e) (\<lambda>_. throw e))) (\<lambda>transactionHash.
            bnd (redis_do (addSentNonce (e_redis E) (tx_chainId t) (tx_from t) nonce)) (\<lambda>_.
            bnd new_Date (\<lambda>now.
            bnd (getBlockNumberish E (tx_chainId t)) (\<lambda>block.
            bnd (lift_res (resolveDeployedContractAddress E t nonce)) (\<lambda>deployed.
            ret (t\<lparr>tx_status := Sent, tx_isUserOp := False,
                   tx_nonce := Some (NumNonce nonce),
                   tx_sentTransactionHashes := Some [transactionHash],
                   tx_resendCount := 0, tx_sentAt := Some now, tx_sentAtBlock := Some block,
                   tx_gas := stx_gas populated, tx_gasPrice := stx_gasPrice populated,
                   tx_maxFeePerGas := stx_maxFeePerGas populated,
                   tx_maxPriorityFeePerGas := stx_maxPriorityFeePerGas populated,
                   tx_deployedContractAddress := deployed\<rparr>)))))))))"

definition double_fee :: "int option \<Rightarrow> int option" where
  "double_fee fee = map_option (\<lambda>x. x * 2) fee"

definition resendTransaction :: "'w env \<Rightarrow> transaction \<Rightarrow> int \<Rightarrow> ('w world, transaction option) io" where
  "resendTransaction E t resendCount =
     (if tx_isUserOp t then throw js_AssertionError
      else
        bnd (checksum E (Some (tx_from t))) (\<lambda>adr.
        bnd (getChain E (tx_chainId t)) (\<lambda>chain.
        bnd (lift_res (e_toSerializable E chain adr
               ((request_of t)\<lparr>rq_gasPrice := None, rq_maxFeePerGas := None,
                  rq_maxPriorityFeePerGas := None\<rparr>))) (\<lambda>populated0.
        let populated = populated0\<lparr>stx_gasPrice := double_fee (stx_gasPrice populated0),
              stx_maxFeePerGas := double_fee (stx_maxFeePerGas populated0),
              stx_maxPriorityFeePerGas := double_fee (stx_maxPriorityFeePerGas populated0)\<rparr> in
        bnd (try_catch
               (bnd (getAccount E (tx_chainId t) (tx_from t) None) (\<lambda>acc.
                bnd (send_rpc E acc populated) (\<lambda>hash. ret (Some hash))))
               (\<lambda>e. if isNonceAlreadyUsedError (e_ethersErrorCodes E) e then ret None
                    else if isReplacementGasFeeTooLow (e_ethersErrorCodes E) e then ret None
                    else throw e)) (\<lambda>sent.
        case sent of
          None \<Rightarrow> ret None
        | Some transactionHash \<Rightarrow>
            bnd new_Date (\<lambda>now.
            bnd (getBlockNumberish E (tx_chainId t)) (\<lambda>block.
            case tx_sentTransactionHashes t of
              None \<Rightarrow> throw js_TypeError
            | Some hashes \<Rightarrow>
                ret (Some (t\<lparr>tx_resendCount := resendCount, tx_sentAt := Some now,
                   tx_sentAtBlock := Some block,
                   tx_sentTransactionHashes := Some (hashes @ [transactionHash]),
                   tx_gas := stx_gas populated, tx_gasPrice := stx_gasPrice populated,
                   tx_maxFeePerGas := stx_maxFeePerGas populated,
                   tx_maxPriorityFeePerGas := stx_maxPriorityFeePerGas populated\<rparr>))))))))) "

definition send_reportUsageSuccess :: "'w env \<Rightarrow> transaction \<Rightarrow> ('w world, unit) io" where
  "send_reportUsageSuccess E t =
     bnd (getChain E (tx_chainId t)) (\<lambda>chain.
     bnd (msSince (tx_queuedAt t)) (\<lambda>ms.
     reportUsage E ''send_tx'' t (Some (ch_rpc chain)) (Some ms) None None))"

definition reportUsageError :: "'w env \<Rightarrow> transaction \<Rightarrow> ('w world, unit) io" where
  "reportUsageError E t =
     bnd (msSince (tx_queuedAt t)) (\<lambda>ms.
     reportUsage E ''error_tx'' t None (Some ms) None (tx_errorMessage t))"

definition record_sent :: "'w env \<Rightarrow> transaction \<Rightarrow> bool \<Rightarrow> ('w world, unit) io" where
  "record_sent E t success =
     bnd (lift_res (e_getAddress E (tx_from t))) (\<lambda>adr.
     bnd (msSince (tx_queuedAt t)) (\<lambda>ms.
     recordMetrics (TransactionSentMetric (show_int (tx_chainId t)) success adr (of_int ms / 1000))))"

text \<open>An errored transaction that is retried by hand starts again as a queued one.\<close>

definition requeue :: "int \<Rightarrow> transaction \<Rightarrow> transaction" where
  "requeue now t = t\<lparr>tx_nonce := None, tx_errorMessage := None, tx_gas := None,
     tx_gasPrice := None, tx_maxFeePerGas := None, tx_maxPriorityFeePerGas := None,
     tx_status := Queued, tx_manuallyResentAt := Some now\<rparr>"

definition send_dispatch :: "'w env \<Rightarrow> transaction \<Rightarrow> int \<Rightarrow> ('w world, transaction option option) io" where
  "send_dispatch E t resendCount =
     (if tx_status t = Queued then
        if tx_isUserOp t then bnd (sendUserOp E t) (\<lambda>r. ret (Some (Some r)))
        else bnd (sendTransaction E t) (\<lambda>r. ret (Some (Some r)))
      else if tx_status t = Sent
      then bnd (resendTransaction E t resendCount) (\<lambda>r. ret (Some r))
      else ret None)"

definition send_finish :: "'w env \<Rightarrow> transaction \<Rightarrow> transaction \<Rightarrow> ('w world, unit) io" where
  "send_finish E t result =
     bnd (db_set E result) (\<lambda>_.
     bnd (enqueueTransactionWebhook E result) (\<lambda>_.
     if tx_status result = Sent then
       bnd (MineTransactionQueue_add (tx_queueId result)) (\<lambda>_.
       if tx_status t = Queued
       then bnd (send_reportUsageSuccess E result) (\<lambda>_. record_sent E t True)
       else ret ())
     else if tx_status result = Errored
     then bnd (reportUsageError E result) (\<lambda>_. record_sent E t False)
     else ret ()))"

definition sendTransactionHandler :: "'w env \<Rightarrow> string \<Rightarrow> int \<Rightarrow> ('w world, unit) io" where
  "sendTransactionHandler E queueId resendCount =
     bnd (db_get E queueId) (\<lambda>found.
     case found of
       None \<Rightarrow> ret ()
     | Some t0 \<Rightarrow>
         bnd (if tx_status t0 = Errored \<and> resendCount = 0
              then bnd new_Date (\<lambda>now. ret (requeue now t0)) else ret t0) (\<lambda>t.
         bnd (send_dispatch E t resendCount) (\<lambda>r.
         case r of Some (Some result) \<Rightarrow> send_finish E t result | _ \<Rightarrow> ret ())))"

text \<open>The listener of failed jobs acts after the last attempt.\<close>

definition sendTransactionFailed :: "'w env \<Rightarrow> string \<Rightarrow> nat \<Rightarrow> nat \<Rightarrow> js_error \<Rightarrow> ('w world, unit) io" where
  "sendTransactionFailed E queueId attemptsMade attempts err =
     (if attemptsMade = attempts then
        bnd (db_get E queueId) (\<lambda>found.
        case found of
          None \<Rightarrow> ret ()
        | Some t \<Rightarrow>
            bnd (prettifyError E t err) (\<lambda>message.
            let errored = t\<lparr>tx_status := Errored, tx_errorMessage := message\<rparr> in
            bnd (db_set E errored) (\<lambda>_.
            bnd (enqueueTransactionWebhook E errored) (\<lambda>_.
            reportUsageError E errored))))
      else ret ())"

section \<open>Facts\<close>

lemma quiet_checksum [intro!, simp]: "quiet (checksum E adr)"
  by (simp add: checksum_def)

lemma quiet_populate [intro!, simp]: "quiet (getPopulatedOrErroredTransaction E t)"
  by (auto simp: getPopulatedOrErroredTransaction_def Let_def)

text \<open>Populating never throws: it answers a populated transaction, or the errored one.\<close>

lemma populate_cases:
  obtains (populated) p where "fst (getPopulatedOrErroredTransaction E t s) = Inr (Inl p)"
    | (errored) m where "fst (getPopulatedOrErroredTransaction E t s) =
        Inr (Inr (t\<lparr>tx_status := Errored, tx_errorMessage := Some m\<rparr>))"
proof -
  define m0 where "m0 =
    (let adr = (if tx_isUserOp t then tx_accountAddress t else Some (tx_from t));
         to = nullish (tx_to t) (tx_target t)
     in if \<not> truthy adr then throw (js_Error ''Invalid transaction parameters: from'')
        else if \<not> truthy to then throw (js_Error ''Invalid transaction parameters: to'')
        else
          bnd (checksum E adr) (\<lambda>adr'.
          bnd (getChain E (tx_chainId t)) (\<lambda>chain.
          bnd (checksum E to) (\<lambda>to'.
          bnd (lift_res (e_toSerializable E chain adr'
                 ((request_of t)\<lparr>rq_to := to',
                    rq_nonce := if tx_isUserOp t then None else Some (NumNonce (Some 1))\<rparr>)))
            (\<lambda>populated. ret (Inl populated :: serializable_tx + transaction))))))"
  have inl: "\<exists>p. fst (m0 s) = Inr (Inl p)" if "fst (m0 s) = Inr x" for x
    using that by (auto simp: m0_def Let_def io_simps split: if_splits sum.splits)
  note run = getPopulatedOrErroredTransaction_def [of E t, folded m0_def]
  show ?thesis
  proof (cases "fst (m0 s)")
    case (Inl e)
    show ?thesis by (rule errored) (simp add: run try_catch_apply Inl)
  next
    case (Inr x)
    then obtain p where p: "fst (m0 s) = Inr (Inl p)" using inl by blast
    show ?thesis by (rule populated) (simp add: run try_catch_apply p)
  qed
qed

text \<open>An attempt to submit leaves the store, whatever the account and the node answer.\<close>

definition submit :: "'w env \<Rightarrow> transaction \<Rightarrow> serializable_tx \<Rightarrow> ('w world, string) io" where
  "submit E t stx = bnd (getAccount E (tx_chainId t) (tx_from t) None) (\<lambda>acc. send_rpc E acc stx)"

lemma keeps_submit: "keeps_keys view K (submit E t stx)"
  unfolding submit_def send_rpc_def by (intro keeps_bnd) auto

lemma store_submit: "store (snd (submit E t stx s)) = store s" "clock (snd (submit E t stx s)) = clock s"
proof -
  have "quiet (getAccount E (tx_chainId t) (tx_from t) None)" by simp
  note quietD [OF this, of s]
  then show "store (snd (submit E t stx s)) = store s" "clock (snd (submit E t stx s)) = clock s"
    by (auto simp: submit_def send_rpc_def io_simps split: sum.split)
qed

definition used_nonce_error :: "'w env \<Rightarrow> js_error \<Rightarrow> bool" where
  "used_nonce_error E e \<longleftrightarrow> isNonceAlreadyUsedError (e_ethersErrorCodes E) e
     \<or> isReplacementGasFeeTooLow (e_ethersErrorCodes E) e"

text \<open>The job that looks for the receipt of a sent transaction.\<close>

definition mine_job :: "string \<Rightarrow> effect" where
  "mine_job q = AddJob ''transactions-2-mine'' (''mine.'' @ q) (MineTransactionData q)
     \<lparr>jo_jobId = Some (''mine.'' @ q), jo_attempts = Some 200, jo_delay = None\<rparr>"

text \<open>What a first submission answers when it does not throw.\<close>

lemma bnd_Inr: "fst (bnd m f s) = Inr x \<Longrightarrow> \<exists>a. fst (m s) = Inr a \<and> fst (f a (snd (m s))) = Inr x"
  by (auto simp: bnd_apply split: sum.splits)

lemma sendTransaction_result:
  assumes "fst (sendTransaction E t s) = Inr r"
  shows "tx_status r \<in> {Sent, Errored} \<and> tx_queueId r = tx_queueId t"
proof (cases rule: populate_cases [of E t s])
  case (populated p)
  with assms show ?thesis
    by (auto simp: sendTransaction_def bnd_apply [of "getPopulatedOrErroredTransaction E t"]
        split: if_splits prod.splits dest!: bnd_Inr)
next
  case (errored m)
  with assms show ?thesis
    by (auto simp: sendTransaction_def bnd_apply [of "getPopulatedOrErroredTransaction E t"]
        split: if_splits)
qed

lemma sendUserOp_result:
  assumes "fst (sendUserOp E t s) = Inr r"
  shows "tx_status r \<in> {Sent, Errored} \<and> tx_queueId r = tx_queueId t"
proof -
  obtain chain where "fst (bnd (getPopulatedOrErroredTransaction E t) (\<lambda>r. case r of
          Inr errored \<Rightarrow> ret errored
        | Inl populated \<Rightarrow>
            bnd (generateSignedUserOperation E t populated) (\<lambda>signedUserOp.
            bnd (emit (BundleUserOp (tx_chainId t) signedUserOp)) (\<lambda>_.
            bnd (lift_res (e_bundleUserOp E chain signedUserOp)) (\<lambda>userOpHash.
            bnd new_Date (\<lambda>now.
            bnd (getBlockNumberish E (tx_chainId t)) (\<lambda>block.
            ret (t\<lparr>tx_isUserOp := True, tx_status := Sent,
                   tx_nonce := Some (StrNonce (show_int (uo_nonce signedUserOp))),
                   tx_userOpHash := Some userOpHash, tx_sentAt := Some now,
                   tx_sentAtBlock := Some block,
                   tx_maxFeePerGas := Some (uo_maxFeePerGas signedUserOp),
                   tx_maxPriorityFeePerGas := Some (uo_maxPriorityFeePerGas signedUserOp)\<rparr>)))))))
        (snd (getChain E (tx_chainId t) s))) = Inr r"
    using assms by (auto simp: sendUserOp_def split: if_splits dest!: bnd_Inr [of "getChain E _"])
  then show ?thesis
    by (cases rule: populate_cases [of E t "snd (getChain E (tx_chainId t) s)"])
      (auto simp: bnd_apply [of "getPopulatedOrErroredTransaction E t"] dest!: bnd_Inr)
qed

lemma send_dispatch_queued:
  assumes "tx_status t = Queued" "fst (send_dispatch E t k s) = Inr x"
  shows "\<exists>r. x = Some (Some r) \<and> tx_status r \<in> {Sent, Errored} \<and> tx_queueId r = tx_queueId t"
  using assms sendTransaction_result [of E t s] sendUserOp_result [of E t s]
  by (auto simp: send_dispatch_def split: if_splits dest!: bnd_Inr)

context engine
begin

text \<open>Giving up a nonce: a used one corrects the counter, any other one is recycled.\<close>

lemma release_run:
  assumes rep: "represents (view (store s)) (tx_chainId t) (tx_from t) p" and "tx_from t \<noteq> []"
    and tc: "e_transactionCount E (tx_chainId t) (tx_from t) = Inr tc" "0 \<le> tc" "tc < 2 ^ 63"
  shows "fst (release_nonce E t (Some n) e s) = Inr ()"
    and "represents (view (store (snd (release_nonce E t (Some n) e s)))) (tx_chainId t) (tx_from t)
      (if used_nonce_error E e then pool_sync_if_higher tc p
       else p\<lparr>np_recycled := insert n (np_recycled p)\<rparr>)"
  using recycle_refines(1,2) [OF rep, of n] sync_refines(1,2) [OF rep assms(2), of "e_transactionCount E" tc] tc
  by (auto simp: release_nonce_def used_nonce_error_def io_simps)

lemma send_accounted:
  assumes "\<not> tx_isUserOp t" "tx_from t \<noteq> []"
    and rep: "represents (view (store s)) (tx_chainId t) (tx_from t) p"
    and tc: "e_transactionCount E (tx_chainId t) (tx_from t) = Inr tc" "0 \<le> tc" "tc < 2 ^ 63"
    and room: "\<And>n. np_last p = Some n \<Longrightarrow> n + 1 < 2 ^ 63"
  defines "n \<equiv> fst (pool_acquire tc p)" and "p' \<equiv> snd (pool_acquire tc p)"
    and "r \<equiv> sendTransaction E t s"
  shows "(\<exists>m. fst r = Inr (t\<lparr>tx_status := Errored, tx_errorMessage := Some m\<rparr>)
           \<and> represents (view (store (snd r))) (tx_chainId t) (tx_from t) p)
     \<or> ((\<forall>t'. fst r = Inr t' \<longrightarrow> tx_status t' = Sent \<and> tx_nonce t' = Some (NumNonce (Some n)))
           \<and> represents (view (store (snd r))) (tx_chainId t) (tx_from t)
               (p'\<lparr>np_sent := insert n (np_sent p')\<rparr>))
     \<or> (\<exists>e. fst r = Inl e \<and> represents (view (store (snd r))) (tx_chainId t) (tx_from t)
               (if used_nonce_error E e then pool_sync_if_higher tc p'
                else p'\<lparr>np_recycled := insert n (np_recycled p')\<rparr>))"
proof (cases rule: populate_cases [of E t s])
  case (errored m)
  have "store (snd (getPopulatedOrErroredTransaction E t s)) = store s"
    by (rule quietD(1)) simp
  then have "fst r = Inr (t\<lparr>tx_status := Errored, tx_errorMessage := Some m\<rparr>)
      \<and> store (snd r) = store s"
    using assms(1) errored by (simp add: r_def sendTransaction_def io_simps)
  then show ?thesis using rep by auto
next
  case (populated q)
  let ?c = "tx_chainId t" and ?a = "tx_from t"
  let ?s1 = "snd (getPopulatedOrErroredTransaction E t s)"
  let ?acq = "acquireNonce (e_redis E) (e_transactionCount E) (tx_queueId t) ?c ?a"
  let ?s2 = "?s1\<lparr>store := snd (?acq (store s))\<rparr>"
  let ?stx = "q\<lparr>stx_nonce := Some n\<rparr>"
  let ?s3 = "snd (submit E t ?stx ?s2)"
  have st1: "store ?s1 = store s" by (rule quietD(1)) simp
  have acq: "fst (?acq (store s)) = Inr (Some n, False)"
    "represents (view (snd (?acq (store s)))) ?c ?a p'"
    using acquire_refines(1,2) [OF rep, of "e_transactionCount E" tc "tx_queueId t"] tc room
    by (simp_all add: n_def p'_def)
  have st3: "store ?s3 = snd (?acq (store s))" by (simp add: store_submit)
  have rep3: "represents (view (store ?s3)) ?c ?a p'" using acq(2) by (simp add: st3)
  show ?thesis
  proof (cases "fst (submit E t ?stx ?s2)")
    case (Inl e)
    have "r = (Inl e, snd (release_nonce E t (Some n) e ?s3))"
      unfolding r_def sendTransaction_def submit_def [symmetric]
      using assms(1) populated acq(1) Inl release_run(1) [OF rep3 assms(2) tc, of n e]
      by (simp add: io_simps st1)
    then show ?thesis
      using release_run(2) [OF rep3 assms(2) tc, of n e] by auto
  next
    case (Inr hash)
    let ?s4 = "?s3\<lparr>store := snd (addSentNonce (e_redis E) ?c ?a (Some n) (store ?s3))\<rparr>"
    let ?p4 = "p'\<lparr>np_sent := insert n (np_sent p')\<rparr>"
    have add: "fst (addSentNonce (e_redis E) ?c ?a (Some n) (store ?s3)) = Inr ()"
      "represents (view (store ?s4)) ?c ?a ?p4"
      using addSent_refines(1,2) [OF rep3, of n] by simp_all
    have rep5: "represents (view (store (snd (getBlockNumberish E ?c ?s4)))) ?c ?a ?p4"
      using keeps_represents [OF keeps_getBlockNumberish add(2)] by simp
    have "(\<forall>t'. fst r = Inr t' \<longrightarrow> tx_status t' = Sent \<and> tx_nonce t' = Some (NumNonce (Some n)))
      \<and> store (snd r) = store (snd (getBlockNumberish E ?c ?s4))"
      unfolding r_def sendTransaction_def submit_def [symmetric]
      using assms(1) populated acq(1) Inr add(1)
      by (auto simp: io_simps st1 split: sum.split)
    then show ?thesis using rep5 by auto
  qed
qed

lemma db_get_run:
  assumes "details_ok (e_codec E) (view (store s)) q"
  shows "fst (db_get E q s) = Inr (stored (e_codec E) (view (store s)) q)"
    and "view (store (snd (db_get E q s))) = view (store s)"
    and "effects (snd (db_get E q s)) = effects s" and "clock (snd (db_get E q s)) = clock s"
  using get_run [OF assms] by (simp_all add: redis_do_apply)

lemma db_set_run:
  assumes "\<And>now k. status_entry now t \<noteq> Some (k, None)"
  shows "fst (db_set E t s) = Inr ()"
    and "view (store (snd (db_set E t s))) (transactionDetailsKey (tx_queueId t)) =
      Some (RString (stringify (e_codec E) t))"
    and "k \<noteq> transactionDetailsKey (tx_queueId t) \<Longrightarrow> k \<noteq> status_key (tx_status t) \<Longrightarrow>
      view (store (snd (db_set E t s))) k = view (store s) k"
    and "effects (snd (db_set E t s)) = effects s"
  using set_run [OF assms] by (simp_all add: db_set_def io_simps)

lemma db_set_represents:
  assumes "\<And>now k. status_entry now t \<noteq> Some (k, None)" "represents (view (store s)) c a p"
  shows "represents (view (store (snd (db_set E t s)))) c a p"
  using db_set_run(3) [OF assms(1), where s = s]
  by (intro represents_cong [OF assms(2)]) auto

text \<open>Storing the result, and what follows: later steps keep the stored transaction.\<close>

lemma keeps_after_set:
  "keeps_keys view K (send_reportUsageSuccess E t)" "keeps_keys view K (reportUsageError E t)"
  "keeps_keys view K (record_sent E t b)" "keeps_keys view K (MineTransactionQueue_add q)"
  unfolding send_reportUsageSuccess_def reportUsageError_def record_sent_def
    MineTransactionQueue_add_def Let_def
  by (auto intro!: keeps_bnd)

lemma appends_after_set:
  "appends (send_reportUsageSuccess E t)" "appends (reportUsageError E t)"
  "appends (record_sent E t b)" "appends (MineTransactionQueue_add q)"
  unfolding send_reportUsageSuccess_def reportUsageError_def record_sent_def
    MineTransactionQueue_add_def Let_def
  by (auto intro!: appends_bnd)

lemma send_finish_stores:
  assumes "tx_status result \<in> {Sent, Errored}"
  shows "stored (e_codec E) (view (store (snd (send_finish E t result s)))) (tx_queueId result) = Some result"
proof -
  have entry: "status_entry now result \<noteq> Some (k, None)" for now k
    using assms by (auto simp: status_entry_def)
  let ?K = "{transactionDetailsKey (tx_queueId result)}"
  let ?rest = "bnd (enqueueTransactionWebhook E result) (\<lambda>_.
     if tx_status result = Sent then
       bnd (MineTransactionQueue_add (tx_queueId result)) (\<lambda>_.
       if tx_status t = Queued
       then bnd (send_reportUsageSuccess E result) (\<lambda>_. record_sent E t True)
       else ret ())
     else if tx_status result = Errored
     then bnd (reportUsageError E result) (\<lambda>_. record_sent E t False)
     else ret ())"
  have "keeps_keys view ?K ?rest"
    by (auto intro!: keeps_bnd keeps_after_set)
  note keep = keeps_keysD(1) [OF this, of "transactionDetailsKey (tx_queueId result)"
      "snd (db_set E result s)"]
  have "snd (send_finish E t result s) = snd (?rest (snd (db_set E result s)))"
    using db_set_run(1) [OF entry] by (simp add: send_finish_def bnd_apply [of "db_set E result"])
  then have "view (store (snd (send_finish E t result s))) (transactionDetailsKey (tx_queueId result))
      = Some (RString (stringify (e_codec E) result))"
    using keep db_set_run(2) [OF entry] by simp
  then show ?thesis by (rule stored_details)
qed

lemma send_finish_mines:
  assumes "tx_status result = Sent" "fst (send_finish E t result s) = Inr ()"
  shows "mine_job (tx_queueId result) \<in> set (effects (snd (send_finish E t result s)))"
proof -
  have entry: "status_entry now result \<noteq> Some (k, None)" for now k
    using assms by (auto simp: status_entry_def)
  let ?s1 = "snd (db_set E result s)"
  let ?s2 = "snd (enqueueTransactionWebhook E result ?s1)"
  let ?s3 = "snd (MineTransactionQueue_add (tx_queueId result) ?s2)"
  let ?rest = "if tx_status t = Queued
       then bnd (send_reportUsageSuccess E result) (\<lambda>_. record_sent E t True) else ret ()"
  have mine: "MineTransactionQueue_add (tx_queueId result) ?s2 =
      (Inr (), ?s2\<lparr>effects := effects ?s2 @ [mine_job (tx_queueId result)]\<rparr>)"
    by (simp add: MineTransactionQueue_add_def Let_def emit_apply mine_job_def
        MineTransactionQueue_jobId_def MineTransactionQueue_attempts_def)
  have hook: "\<exists>u. fst (enqueueTransactionWebhook E result ?s1) = Inr u"
    using assms db_set_run(1) [OF entry, of s]
    by (cases "fst (enqueueTransactionWebhook E result ?s1)") (auto simp: send_finish_def bnd_apply)
  have "appends ?rest" by (auto intro!: appends_bnd appends_after_set)
  then have "set (effects ?s3) \<subseteq> set (effects (snd (?rest ?s3)))" by (rule appendsD)
  moreover have "mine_job (tx_queueId result) \<in> set (effects ?s3)" by (simp add: mine)
  moreover have "snd (send_finish E t result s) = snd (?rest ?s3)"
    using hook assms(1) db_set_run(1) [OF entry, of s] mine
    by (auto simp: send_finish_def bnd_apply split: sum.split)
  ultimately show ?thesis by auto
qed

text \<open>A queued transaction never gets lost: if the handler returns, it is sent or errored.\<close>

lemma handler_queued:
  assumes ok: "details_ok (e_codec E) (view (store s)) q"
    and st: "stored (e_codec E) (view (store s)) q = Some t" "tx_queueId t = q" "tx_status t = Queued"
    and run: "fst (sendTransactionHandler E q k s) = Inr ()"
  shows "\<exists>t'. stored (e_codec E) (view (store (snd (sendTransactionHandler E q k s)))) q = Some t'
    \<and> (tx_status t' = Errored
      \<or> tx_status t' = Sent \<and> mine_job q \<in> set (effects (snd (sendTransactionHandler E q k s))))"
proof -
  let ?s1 = "snd (db_get E q s)"
  let ?s2 = "snd (send_dispatch E t k ?s1)"
  have step: "sendTransactionHandler E q k s =
      bnd (send_dispatch E t k) (\<lambda>r. case r of Some (Some result) \<Rightarrow> send_finish E t result | _ \<Rightarrow> ret ()) ?s1"
    using db_get_run(1) [OF ok] st by (simp add: sendTransactionHandler_def bnd_apply)
  then obtain x where x: "fst (send_dispatch E t k ?s1) = Inr x" using run by (auto dest!: bnd_Inr)
  obtain r where r: "x = Some (Some r)" "tx_status r \<in> {Sent, Errored}" "tx_queueId r = q"
    using send_dispatch_queued [OF st(3) x] st(2) by auto
  have final: "sendTransactionHandler E q k s = send_finish E t r ?s2"
    using step x r(1) by (simp add: bnd_apply)
  show ?thesis
    using send_finish_stores [OF r(2), of t ?s2] send_finish_mines [of r t ?s2] r run
    unfolding final by auto
qed

lemma handler_idle:
  assumes ok: "details_ok (e_codec E) (view (store s)) q"
    and idle: "case stored (e_codec E) (view (store s)) q of None \<Rightarrow> True
      | Some t \<Rightarrow> tx_status t \<in> {Mined, Cancelled} \<or> tx_status t = Errored \<and> k \<noteq> 0"
  shows "fst (sendTransactionHandler E q k s) = Inr ()"
    and "view (store (snd (sendTransactionHandler E q k s))) = view (store s)"
    and "effects (snd (sendTransactionHandler E q k s)) = effects s"
  using idle db_get_run [OF ok]
  by (auto simp: sendTransactionHandler_def send_dispatch_def bnd_apply split: option.splits)

lemma failed_marks_errored:
  assumes ok: "details_ok (e_codec E) (view (store s)) q"
    and st: "stored (e_codec E) (view (store s)) q = Some t" "tx_queueId t = q"
    and msg: "fst (prettifyError E t err (snd (db_get E q s))) = Inr m"
  shows "stored (e_codec E) (view (store (snd (sendTransactionFailed E q n n err s)))) q =
    Some (t\<lparr>tx_status := Errored, tx_errorMessage := m\<rparr>)"
proof -
  let ?t = "t\<lparr>tx_status := Errored, tx_errorMessage := m\<rparr>"
  let ?s2 = "snd (prettifyError E t err (snd (db_get E q s)))"
  have entry: "status_entry now ?t \<noteq> Some (k, None)" for now k
    by (simp add: status_entry_def)
  let ?rest = "bnd (enqueueTransactionWebhook E ?t) (\<lambda>_. reportUsageError E ?t)"
  have "snd (sendTransactionFailed E q n n err s) = snd (?rest (snd (db_set E ?t ?s2)))"
    using db_get_run(1) [OF ok] st msg db_set_run(1) [OF entry]
    by (simp add: sendTransactionFailed_def bnd_apply Let_def)
  moreover have keep: "keeps_keys view {transactionDetailsKey q} ?rest"
    by (auto intro!: keeps_bnd keeps_after_set)
  ultimately have "view (store (snd (sendTransactionFailed E q n n err s))) (transactionDetailsKey q) =
      Some (RString (stringify (e_codec E) ?t))"
    using keeps_keysD(1) [OF keep, of "transactionDetailsKey q" "snd (db_set E ?t ?s2)"]
      db_set_run(2) [OF entry] st(2) by simp
  then show ?thesis by (rule stored_details)
qed

end

text \<open>A second submission keeps the nonce and everything but the fees and the hashes.\<close>

lemma resend_result:
  assumes "fst (resendTransaction E t k s) = Inr (Some t')"
  shows "tx_nonce t' = tx_nonce t \<and> tx_status t' = tx_status t \<and> tx_resendCount t' = k
    \<and> (\<exists>hashes h. tx_sentTransactionHashes t = Some hashes
        \<and> tx_sentTransactionHashes t' = Some (hashes @ [h]))
    \<and> (\<exists>chain adr stx. e_toSerializable E chain adr ((request_of t)\<lparr>rq_gasPrice := None,
           rq_maxFeePerGas := None, rq_maxPriorityFeePerGas := None\<rparr>) = Inr stx
        \<and> tx_gasPrice t' = double_fee (stx_gasPrice stx)
        \<and> tx_maxFeePerGas t' = double_fee (stx_maxFeePerGas stx)
        \<and> tx_maxPriorityFeePerGas t' = double_fee (stx_maxPriorityFeePerGas stx))"
  using assms
  by (auto simp: resendTransaction_def Let_def split: if_splits option.splits dest!: bnd_Inr) blast

lemma keeps_resend:
  assumes "engine E view" "latestBlockKey (tx_chainId t) \<notin> K"
  shows "keeps_keys view K (resendTransaction E t k)"
proof -
  have submit: "keeps_keys view K (bnd (getAccount E c a None) (\<lambda>acc.
      bnd (send_rpc E acc stx) (\<lambda>hash. ret (Some hash))))" for c a stx
    unfolding send_rpc_def by (intro keeps_bnd) auto
  show ?thesis
    unfolding resendTransaction_def Let_def
    using engine.keeps_getBlockNumberish [OF assms]
    by (auto intro!: keeps_bnd keeps_try submit split: option.splits)
qed

section \<open>The example world\<close>

text \<open>A wallet with its counter at 5, and one queued transaction.\<close>

definition sample_store :: "transaction \<Rightarrow> mem" where
  "sample_store t = [(''nonce:1:0xa'', RString ''5''), (''transaction:q1'', RString (mem_stringify t))]"

lemma sample_store_view:
  "mem_view (sample_store t) =
     (mem_view [(''nonce:1:0xa'', RString ''5'')])(''transaction:q1'' \<mapsto> RString (mem_stringify t))"
  by (auto simp: sample_store_def mem_view_def fun_eq_iff)

lemma sample_represents:
  "represents (mem_view (sample_store t)) 1 ''0xa'' \<lparr>np_last = Some 5, np_recycled = {}, np_sent = {}\<rparr>"
  by (rule represents_cong [OF counter_at_5])
    (auto simp: sample_store_view nonce_key_defs)

lemma sample_stored:
  "stored mem_codec (mem_view (sample_store t)) ''q1'' = Some t"
  "details_ok mem_codec (mem_view (sample_store t)) ''q1''"
proof -
  have "mem_view (sample_store t) (transactionDetailsKey ''q1'') = Some (RString (stringify mem_codec t))"
    by (simp add: sample_store_view transactionDetailsKey_def mem_codec_def)
  then show "stored mem_codec (mem_view (sample_store t)) ''q1'' = Some t"
    "details_ok mem_codec (mem_view (sample_store t)) ''q1''"
    by (auto simp: details_ok_def mem_db.stored_details)
qed

lemma mem_env_simps [simp]: "e_redis mem_env = mem_redis" "e_codec mem_env = mem_codec"
  by (simp_all add: mem_env_def)

lemma mem_world_store [simp]: "store (mem_world m) = m"
  by (simp add: mem_world_def)

lemma sample_db_get:
  "redis_do (TransactionDB_get mem_redis mem_codec ''q1'') (mem_world (sample_store t)) =
     (Inr (Some t), mem_world (sample_store t))"
proof -
  have "mem_view (sample_store t) (transactionDetailsKey ''q1'') = Some (RString (stringify mem_codec t))"
    by (simp add: sample_store_view transactionDetailsKey_def mem_codec_def)
  then show ?thesis
    by (simp add: redis_do_apply TransactionDB_get_def bnd_apply mem_redis_def mem_query_def q_get_def
        mem_world_def)
qed

lemma for_each_emit: "fst (for_each xs (\<lambda>x. emit (f x)) s) = Inr ()"
  by (induction xs arbitrary: s) (simp_all add: bnd_apply emit_apply)

lemma mem_env_total [simp]:
  "\<exists>x. fst (getChain mem_env c s) = Inr x" "fst (enqueueTransactionWebhook mem_env t s) = Inr ()"
proof -
  show "\<exists>x. fst (getChain mem_env c s) = Inr x"
    by (auto simp: getChain_def getConfig_def mem_env_def bnd_apply split: option.split)
  have hooks: "\<exists>ws. fst (getWebhooksByEventType mem_env ty b s) = Inr ws" for ty b s
    by (auto simp: getWebhooksByEventType_def mem_env_def Let_def split: option.split)
  have jobs: "fst (enqueueTransactionWebhookJobs mem_env ty q s) = Inr ()" for ty q s
  proof -
    obtain ws1 where w1: "fst (getWebhooksByEventType mem_env ALL_TX True s) = Inr ws1"
      using hooks by blast
    obtain ws2 where "fst (getWebhooksByEventType mem_env ty True
        (snd (getWebhooksByEventType mem_env ALL_TX True s))) = Inr ws2"
      using hooks by blast
    with w1 show ?thesis
      by (simp add: enqueueTransactionWebhookJobs_def bnd_apply for_each_emit)
  qed
  show "fst (enqueueTransactionWebhook mem_env t s) = Inr ()"
    using jobs by (auto simp: enqueueTransactionWebhook_def enqueueWebhook_def split: option.split)
qed

lemma mem_send_finish:
  assumes "tx_status r = Sent"
  shows "fst (send_finish mem_env t r s) = Inr ()"
proof -
  have entry: "status_entry now r \<noteq> Some (k, None)" for now k
    using assms by (auto simp: status_entry_def)
  have usage: "fst (send_reportUsageSuccess mem_env r s) = Inr ()" for s
  proof -
    obtain x where "fst (getChain mem_env (tx_chainId r) s) = Inr x" using mem_env_total by blast
    then show ?thesis
      by (simp add: send_reportUsageSuccess_def reportUsage_def msSince_def io_simps)
  qed
  have metric: "fst (record_sent mem_env t b s) = Inr ()" for b s
    by (simp add: record_sent_def recordMetrics_def msSince_def io_simps mem_env_def)
  show ?thesis
    using assms mem_engine.db_set_run(1) [OF entry]
    by (simp add: send_finish_def bnd_apply usage metric MineTransactionQueue_add_def Let_def emit_apply)
qed

lemma sample_send:
  "\<exists>t'. fst (sendTransaction mem_env sample_tx (mem_world (sample_store sample_tx))) = Inr t' \<and> tx_status t' = Sent"
proof -
  have acq: "pool_acquire 6 \<lparr>np_last = Some 5, np_recycled = {}, np_sent = {}\<rparr> =
      (6, \<lparr>np_last = Some 6, np_recycled = {}, np_sent = {}\<rparr>)"
    by (simp add: pool_acquire_def)
  show ?thesis
    using mem.acquire_refines(1) [OF sample_represents [of sample_tx], of "\<lambda>_ _. Inr 6" 6 "''q1''"]
      mem.addSent_refines(1) [OF mem.acquire_refines(2) [OF sample_represents [of sample_tx],
          of "\<lambda>_ _. Inr 6" 6 "''q1''"], of 6]
    by (simp add: sendTransaction_def getPopulatedOrErroredTransaction_def Let_def io_simps
        checksum_def getChecksumAddress_def nullish_def getChain_def getConfig_def mem_env_def
        mem_world_def sample_config_def find_override_def getAccount_def send_rpc_def
        getBlockNumberish_def resolveDeployedContractAddress_def acq sample_tx_def)
qed

section \<open>Properties\<close>



text \<open>
  C4: a queued transaction is not lost: when the send handler returns, the store holds the
  transaction as errored, or as sent with a job in the mine queue that will look for its
  receipt.
\<close>

theorem send_handler_progress:
  assumes "engine E view" and "details_ok (e_codec E) (view (store s)) q"
    and "stored (e_codec E) (view (store s)) q = Some t" and "tx_queueId t = q"
    and "tx_status t = Queued" and "fst (sendTransactionHandler E q k s) = Inr ()"
  shows "\<exists>t'. stored (e_codec E) (view (store (snd (sendTransactionHandler E q k s)))) q = Some t'
    \<and> (tx_status t' = Errored
      \<or> tx_status t' = Sent \<and> mine_job q \<in> set (effects (snd (sendTransactionHandler E q k s))))"
  by (rule engine.handler_queued [OF assms])

theorem send_handler_progress_witness:
  "\<exists>t'. stored mem_codec (mem_view (store (snd (sendTransactionHandler mem_env ''q1'' 0
         (mem_world (sample_store sample_tx)))))) ''q1'' = Some t'
    \<and> (tx_status t' = Errored \<or> tx_status t' = Sent \<and> mine_job ''q1'' \<in>
         set (effects (snd (sendTransactionHandler mem_env ''q1'' 0 (mem_world (sample_store sample_tx))))))"
proof -
  let ?s = "mem_world (sample_store sample_tx)"
  have st: "tx_queueId sample_tx = ''q1''" "tx_status sample_tx = Queued" "\<not> tx_isUserOp sample_tx"
    by (simp_all add: sample_tx_def)
  obtain t' where t': "fst (sendTransaction mem_env sample_tx ?s) = Inr t'" "tx_status t' = Sent"
    using sample_send by blast
  have "fst (sendTransactionHandler mem_env ''q1'' 0 ?s) = Inr ()"
    using t' mem_send_finish [OF t'(2)] st
    by (simp add: sendTransactionHandler_def send_dispatch_def bnd_apply sample_db_get)
  then show ?thesis
    using send_handler_progress [where view = mem_view, OF mem_engine.engine_axioms,
        of ?s "''q1''" sample_tx 0] sample_stored [of sample_tx] st by simp
qed

text \<open>
  a job for a transaction that is mined or cancelled, that is errored and not retried by
  hand, or that is not in the store changes nothing and has no effect.
\<close>

theorem send_handler_idle:
  assumes "engine E view" and "details_ok (e_codec E) (view (store s)) q"
    and "case stored (e_codec E) (view (store s)) q of None \<Rightarrow> True
      | Some t \<Rightarrow> tx_status t \<in> {Mined, Cancelled} \<or> tx_status t = Errored \<and> k \<noteq> 0"
  shows "fst (sendTransactionHandler E q k s) = Inr ()
    \<and> view (store (snd (sendTransactionHandler E q k s))) = view (store s)
    \<and> effects (snd (sendTransactionHandler E q k s)) = effects s"
  using engine.handler_idle [OF assms] by blast

theorem send_handler_idle_witness:
  "fst (sendTransactionHandler mem_env ''q1'' 0 (mem_world (sample_store (sample_tx\<lparr>tx_status := Mined\<rparr>)))) = Inr ()"
  using send_handler_idle [where view = mem_view, OF mem_engine.engine_axioms,
      of "mem_world (sample_store (sample_tx\<lparr>tx_status := Mined\<rparr>))" "''q1''" 0]
    sample_stored [of "sample_tx\<lparr>tx_status := Mined\<rparr>"] by simp



text \<open>
  the listener of failed send jobs does not look at the status: a transaction that is
  mined (or cancelled) by the time its last attempt fails is stored as errored.
\<close>

theorem send_failed_overwrites:
  assumes "engine E view" and "details_ok (e_codec E) (view (store s)) q"
    and "stored (e_codec E) (view (store s)) q = Some t" and "tx_queueId t = q"
    and "tx_status t \<in> {Mined, Cancelled}" and "tx_isUserOp t"
  shows "stored (e_codec E) (view (store (snd (sendTransactionFailed E q n n err s)))) q =
    Some (t\<lparr>tx_status := Errored, tx_errorMessage := err_message_of err\<rparr>)"
  by (rule engine.failed_marks_errored [OF assms(1-4)]) (simp add: prettifyError_def assms(6))

theorem send_failed_overwrites_witness:
  "stored mem_codec (mem_view (store (snd (sendTransactionFailed mem_env ''q1'' 5 5 (js_Error ''timeout'')
      (mem_world (sample_store (sample_tx\<lparr>tx_status := Mined, tx_isUserOp := True\<rparr>))))))) ''q1'' =
    Some (sample_tx\<lparr>tx_status := Errored, tx_isUserOp := True, tx_errorMessage := Some ''timeout''\<rparr>)"
proof -
  let ?t = "sample_tx\<lparr>tx_status := Mined, tx_isUserOp := True\<rparr>"
  have "tx_queueId ?t = ''q1''" by (simp add: sample_tx_def)
  with send_failed_overwrites [where view = mem_view, OF mem_engine.engine_axioms,
      of "mem_world (sample_store ?t)" "''q1''" ?t 5 "js_Error ''timeout''"]
  show ?thesis using sample_stored [of ?t] by (simp add: err_message_of_def)
qed

end
