(* ===== verification/Mine_Worker.thy ===== *)
theory Mine_Worker
  imports Send_Worker
begin

text \<open>
  The worker that waits for a transaction to be mined,
  \<open>src/worker/tasks/mineTransactionWorker.ts\<close>. It looks for a receipt of any hash that was
  sent; a transaction without one after the configured number of blocks is put in the send
  queue again; after the last attempt it is errored and its nonce released.
\<close>

section \<open>The worker\<close>

text \<open>The nonce of an EOA transaction as the nonce functions take it; undefined throws.\<close>

definition nonce_arg :: "transaction \<Rightarrow> js_error + js_num" where
  "nonce_arg t = (case tx_nonce t of None \<Rightarrow> Inl js_TypeError | Some n \<Rightarrow> Inr (nonce_number (Some n)))"

text \<open>The first receipt found among the hashes.\<close>

fun first_receipt :: "(js_error + tx_receipt) list \<Rightarrow> tx_receipt option" where
  "first_receipt [] = None"
| "first_receipt (Inr receipt # results) = Some receipt"
| "first_receipt (Inl e # results) = first_receipt results"

definition reverted_message :: string where
  "reverted_message =
     ''The transaction failed onchain. See: https://portal.thirdweb.com/engine/troubleshooting''"

definition mined_transaction :: "int \<Rightarrow> tx_receipt \<Rightarrow> transaction \<Rightarrow> transaction" where
  "mined_transaction now receipt t =
     t\<lparr>tx_status := Mined, tx_transactionHash := Some (rc_transactionHash receipt),
       tx_minedAt := Some now, tx_minedAtBlock := Some (rc_blockNumber receipt),
       tx_transactionType := Some (rc_type receipt), tx_onchainStatus := Some (rc_status receipt),
       tx_gasUsed := Some (rc_gasUsed receipt),
       tx_effectiveGasPrice := rc_effectiveGasPrice receipt,
       tx_cumulativeGasUsed := rc_cumulativeGasUsed receipt,
       tx_errorMessage := (if rc_status receipt = ''reverted'' then Some reverted_message else None)\<rparr>"

text \<open>Put the transaction in the send queue again when enough blocks have passed.\<close>

definition mine_resend :: "'w env \<Rightarrow> transaction \<Rightarrow> ('w world, unit) io" where
  "mine_resend E t =
     bnd (getConfig E True) (\<lambda>config.
     bnd (getBlockNumberish E (tx_chainId t)) (\<lambda>blockNumber.
     case tx_sentAtBlock t of
       None \<Rightarrow> throw js_TypeError
     | Some sentAtBlock \<Rightarrow>
         if blockNumber - sentAtBlock \<ge> cfg_minEllapsedBlocksBeforeRetry config
         then SendTransactionQueue_add (tx_queueId t) (tx_resendCount t + 1)
         else ret ()))"

definition mineTransaction :: "'w env \<Rightarrow> transaction \<Rightarrow> ('w world, transaction option) io" where
  "mineTransaction E t =
     (if tx_isUserOp t then throw js_AssertionError
      else
        bnd (getChain E (tx_chainId t)) (\<lambda>chain.
        case tx_sentTransactionHashes t of
          None \<Rightarrow> throw js_TypeError
        | Some hashes \<Rightarrow>
            (case first_receipt (map (e_transactionReceipt E chain) hashes) of
               Some receipt \<Rightarrow>
                 bnd (lift_res (nonce_arg t)) (\<lambda>nonce.
                 bnd (redis_do (removeSentNonce (e_redis E) (tx_chainId t) (tx_from t) nonce)) (\<lambda>removed.
                 bnd new_Date (\<lambda>now.
                 ret (Some (mined_transaction now receipt t)))))
             | None \<Rightarrow> bnd (mine_resend E t) (\<lambda>_. ret None))))"

text \<open>\<open>e instanceof Error\<close>: an error object that is not the plain object of a custom error.\<close>

definition is_Error :: "js_error \<Rightarrow> bool" where
  "is_Error e = (case e of JsObject (Some _) _ None \<Rightarrow> True | _ \<Rightarrow> False)"

definition mineUserOp :: "'w env \<Rightarrow> transaction \<Rightarrow> ('w world, transaction option) io" where
  "mineUserOp E t =
     (if \<not> tx_isUserOp t then throw js_AssertionError
      else
        bnd (getChain E (tx_chainId t)) (\<lambda>chain.
        bnd (lift_res (e_userOpReceiptRaw E chain (tx_userOpHash t))) (\<lambda>raw.
        case raw of
          None \<Rightarrow> ret None
        | Some userOpReceiptRaw \<Rightarrow>
            bnd (lift_res (e_transactionByHash E chain (ur_transactionHash userOpReceiptRaw))) (\<lambda>hash.
            bnd (lift_res (e_transactionReceipt E chain hash)) (\<lambda>receipt.
            bnd (if \<not> ur_success userOpReceiptRaw
                 then try_catch
                   (bnd (lift_res (e_userOpReceipt E chain (tx_userOpHash t))) (\<lambda>_. ret None))
                   (\<lambda>e. if is_Error e then ret (err_message_of e) else throw e)
                 else ret None) (\<lambda>errorMessage.
            bnd new_Date (\<lambda>now.
            ret (Some (t\<lparr>tx_status := Mined, tx_transactionHash := Some (rc_transactionHash receipt),
              tx_minedAt := Some now, tx_minedAtBlock := Some (rc_blockNumber receipt),
              tx_transactionType := Some (rc_type receipt),
              tx_onchainStatus := Some (if ur_success userOpReceiptRaw then ''success'' else ''reverted''),
              tx_gasUsed := Some (rc_gasUsed receipt),
              tx_effectiveGasPrice := rc_effectiveGasPrice receipt,
              tx_gas := Some (rc_gasUsed receipt),
              tx_cumulativeGasUsed := rc_cumulativeGasUsed receipt,
              tx_sender := Some (ur_sender userOpReceiptRaw),
              tx_nonce := Some (StrNonce (show_int (ur_nonce userOpReceiptRaw))),
              tx_errorMessage := errorMessage\<rparr>))))))))) "

definition mine_reportUsageSuccess :: "'w env \<Rightarrow> transaction \<Rightarrow> ('w world, unit) io" where
  "mine_reportUsageSuccess E t =
     bnd (getChain E (tx_chainId t)) (\<lambda>chain.
     bnd (msSince (tx_queuedAt t)) (\<lambda>queue.
     case tx_sentAt t of
       None \<Rightarrow> throw js_TypeError
     | Some sentAt \<Rightarrow> bnd (msSince sentAt) (\<lambda>send.
         reportUsage E ''mine_tx'' t (Some (ch_rpc chain)) (Some queue) (Some send) None)))"

definition record_mined :: "'w env \<Rightarrow> transaction \<Rightarrow> ('w world, unit) io" where
  "record_mined E t =
     bnd (msSince (tx_queuedAt t)) (\<lambda>queue.
     case tx_sentAt t of
       None \<Rightarrow> throw js_TypeError
     | Some sentAt \<Rightarrow>
         bnd (msSince sentAt) (\<lambda>send.
         bnd (lift_res (e_getAddress E (tx_from t))) (\<lambda>adr.
         recordMetrics (TransactionMinedMetric (show_int (tx_chainId t)) (of_int queue / 1000)
           (of_int send / 1000) adr))))"

definition mineTransactionHandler :: "'w env \<Rightarrow> string \<Rightarrow> ('w world, unit) io" where
  "mineTransactionHandler E queueId =
     bnd (db_get E queueId) (\<lambda>found.
     case found of
       None \<Rightarrow> ret ()
     | Some t \<Rightarrow>
         if tx_status t \<noteq> Sent then ret ()
         else
           bnd (if tx_isUserOp t then mineUserOp E t else mineTransaction E t) (\<lambda>result.
           case result of
             None \<Rightarrow> throw (js_Error ''NOT_CONFIRMED_YET'')
           | Some r \<Rightarrow>
               if tx_status r = Mined then
                 bnd (db_set E r) (\<lambda>_.
                 bnd (enqueueTransactionWebhook E r) (\<lambda>_.
                 bnd (mine_reportUsageSuccess E r) (\<lambda>_.
                 record_mined E r)))
               else ret ()))"

definition backoffStrategy :: "int \<Rightarrow> int" where
  "backoffStrategy attemptsMade = min (attemptsMade * 2000) 10000"

definition mineTransactionFailed :: "'w env \<Rightarrow> string \<Rightarrow> nat \<Rightarrow> nat \<Rightarrow> ('w world, unit) io" where
  "mineTransactionFailed E queueId attemptsMade attempts =
     (if attemptsMade = attempts then
        bnd (db_get E queueId) (\<lambda>found.
        case found of
          None \<Rightarrow> ret ()
        | Some t \<Rightarrow>
            if tx_status t \<noteq> Sent then ret ()
            else
              let errored = t\<lparr>tx_status := Errored, tx_errorMessage := Some ''Transaction timed out.''\<rparr> in
              bnd (db_set E errored) (\<lambda>_.
              bnd (enqueueTransactionWebhook E errored) (\<lambda>_.
              bnd (reportUsageError E errored) (\<lambda>_.
              if \<not> tx_isUserOp t then
                bnd (lift_res (nonce_arg t)) (\<lambda>nonce.
                bnd (redis_do (recycleNonce (e_redis E) (tx_chainId t) (tx_from t) nonce)) (\<lambda>_.
                bnd (redis_do (removeSentNonce (e_redis E) (tx_chainId t) (tx_from t) nonce)) (\<lambda>_.
                ret ())))
              else ret ()))))
      else ret ())"

section \<open>Facts\<close>

lemma first_receipt_Some:
  "first_receipt results = Some receipt \<longleftrightarrow>
     (\<exists>i < length results. results ! i = Inr receipt \<and> (\<forall>j < i. \<exists>e. results ! j = Inl e))"
proof (induction results rule: first_receipt.induct)
  case (3 e results)
  have "(\<exists>i < length (Inl e # results). (Inl e # results) ! i = Inr receipt
      \<and> (\<forall>j < i. \<exists>e'. (Inl e # results) ! j = Inl e')) \<longleftrightarrow>
    (\<exists>i < length results. results ! i = Inr receipt \<and> (\<forall>j < i. \<exists>e'. results ! j = Inl e'))"
    (is "?l \<longleftrightarrow> ?r")
  proof
    assume ?l
    then obtain i where i: "i < Suc (length results)" "(Inl e # results) ! i = Inr receipt"
      "\<forall>j < i. \<exists>e'. (Inl e # results) ! j = Inl e'" by auto
    then obtain k where k: "i = Suc k" by (cases i) auto
    then have "\<forall>j < k. \<exists>e'. results ! j = Inl e'" using i(3) by force
    with i k show ?r by auto
  next
    assume ?r
    then obtain i where "i < length results" "results ! i = Inr receipt"
      "\<forall>j < i. \<exists>e'. results ! j = Inl e'" by auto
    then show ?l by (intro exI [of _ "Suc i"]) (auto simp: less_Suc_eq_0_disj nth_Cons')
  qed
  with 3 show ?case by simp
qed force+

lemma first_receipt_None:
  "first_receipt results = None \<longleftrightarrow> (\<forall>r \<in> set results. \<exists>e. r = Inl e)"
  by (induction results rule: first_receipt.induct) auto

text \<open>With the configuration in the cache, a chain is a function of its id.\<close>

definition chain_for :: "'w env \<Rightarrow> parsed_config \<Rightarrow> int \<Rightarrow> js_error + chain_info" where
  "chain_for E cfg c = e_defineChain E (find_override c (cfg_chainOverridesParsed cfg)) c"

lemma getChain_cached: "config_cache s = Some cfg \<Longrightarrow> getChain E c s = (chain_for E cfg c, s)"
  by (simp add: getChain_def getConfig_def bnd_apply chain_for_def split: option.split)

lemma getBlockNumberish_cached:
  assumes "config_cache s = Some cfg" "chain_for E cfg c = Inr chain" "e_blockNumber E chain = Inr b"
  shows "getBlockNumberish E c s =
    (Inr b, s\<lparr>store := snd (r_set (e_redis E) (latestBlockKey c) (show_int b) (store s))\<rparr>)"
  using assms by (simp add: getBlockNumberish_def io_simps getChain_cached)

lemma getConfig_cached: "config_cache s = Some cfg \<Longrightarrow> getConfig E True s = (Inr cfg, s)"
  by (simp add: getConfig_def)

lemma keeps_mine_reports:
  "keeps_keys view K (mine_reportUsageSuccess E t)" "keeps_keys view K (record_mined E t)"
  unfolding mine_reportUsageSuccess_def record_mined_def
  by (auto intro!: keeps_bnd split: option.splits)

text \<open>The receipt the worker finds for a transaction.\<close>

definition receipt_for :: "'w env \<Rightarrow> chain_info \<Rightarrow> transaction \<Rightarrow> tx_receipt option" where
  "receipt_for E chain t = (case tx_sentTransactionHashes t of None \<Rightarrow> None
     | Some hashes \<Rightarrow> first_receipt (map (e_transactionReceipt E chain) hashes))"

definition resend_job :: "transaction \<Rightarrow> effect" where
  "resend_job t = AddJob ''transactions-1-send'' (SendTransactionQueue_jobId (tx_queueId t) (tx_resendCount t + 1))
     (SendTransactionData (tx_queueId t) (tx_resendCount t + 1))
     \<lparr>jo_jobId = Some (SendTransactionQueue_jobId (tx_queueId t) (tx_resendCount t + 1)),
      jo_attempts = None, jo_delay = None\<rparr>"

context engine
begin

lemma mineTransaction_found:
  assumes "\<not> tx_isUserOp t" "config_cache s = Some cfg" "chain_for E cfg (tx_chainId t) = Inr chain"
    and "receipt_for E chain t = Some receipt" "tx_nonce t = Some (NumNonce (Some n))"
    and rep: "represents (view (store s)) (tx_chainId t) (tx_from t) p"
  shows "fst (mineTransaction E t s) = Inr (Some (mined_transaction (clock s) receipt t))"
    and "represents (view (store (snd (mineTransaction E t s)))) (tx_chainId t) (tx_from t)
      (p\<lparr>np_sent := np_sent p - {n}\<rparr>)"
proof -
  obtain hs where hs: "tx_sentTransactionHashes t = Some hs"
      "first_receipt (map (e_transactionReceipt E chain) hs) = Some receipt"
    using assms(4) by (auto simp: receipt_for_def split: option.splits)
  note run = mineTransaction_def bnd_apply getChain_cached [OF assms(2)] redis_do_apply
    nonce_arg_def nonce_number_def new_Date_apply
  show "fst (mineTransaction E t s) = Inr (Some (mined_transaction (clock s) receipt t))"
    using assms hs removeSent_refines(1) [OF rep, of n] by (simp add: run)
  show "represents (view (store (snd (mineTransaction E t s)))) (tx_chainId t) (tx_from t)
      (p\<lparr>np_sent := np_sent p - {n}\<rparr>)"
    using assms hs removeSent_refines(1,2) [OF rep, of n] by (simp add: run)
qed

lemma mine_handler_found:
  assumes ok: "details_ok (e_codec E) (view (store s)) q"
    and st: "stored (e_codec E) (view (store s)) q = Some t" "tx_queueId t = q" "tx_status t = Sent"
    and tx: "\<not> tx_isUserOp t" "config_cache s = Some cfg" "chain_for E cfg (tx_chainId t) = Inr chain"
      "receipt_for E chain t = Some receipt" "tx_nonce t = Some (NumNonce (Some n))"
    and rep: "represents (view (store s)) (tx_chainId t) (tx_from t) p"
  shows "stored (e_codec E) (view (store (snd (mineTransactionHandler E q s)))) q =
      Some (mined_transaction (clock s) receipt t)"
    and "represents (view (store (snd (mineTransactionHandler E q s)))) (tx_chainId t) (tx_from t)
      (p\<lparr>np_sent := np_sent p - {n}\<rparr>)"
proof -
  let ?s1 = "snd (db_get E q s)" and ?r = "mined_transaction (clock s) receipt t"
  let ?s2 = "snd (mineTransaction E t ?s1)"
  let ?rest = "bnd (enqueueTransactionWebhook E ?r) (\<lambda>_.
      bnd (mine_reportUsageSuccess E ?r) (\<lambda>_. record_mined E ?r))"
  let ?p = "p\<lparr>np_sent := np_sent p - {n}\<rparr>"
  have s1: "config_cache ?s1 = Some cfg" "view (store ?s1) = view (store s)" "clock ?s1 = clock s"
    using tx(2) db_get_run(2) [OF ok] by (simp_all add: redis_do_apply)
  have mined: "fst (mineTransaction E t ?s1) = Inr (Some ?r)"
    "represents (view (store ?s2)) (tx_chainId t) (tx_from t) ?p"
    using mineTransaction_found [OF tx(1) s1(1) tx(3-5), of p] rep s1 by simp_all
  have r: "tx_status ?r = Mined" "tx_queueId ?r = q" "tx_minedAt ?r \<noteq> None"
    using st(2) by (simp_all add: mined_transaction_def)
  have entry: "status_entry now ?r \<noteq> Some (k, None)" for now k
    using r by (auto simp: status_entry_def)
  have final: "snd (mineTransactionHandler E q s) = snd (?rest (snd (db_set E ?r ?s2)))"
    using db_get_run(1) [OF ok] st tx(1) mined(1) r db_set_run(1) [OF entry]
    by (simp add: mineTransactionHandler_def bnd_apply)
  have keep: "keeps_keys view K ?rest" for K
    by (auto intro!: keeps_bnd keeps_mine_reports)
  have "view (store (snd (mineTransactionHandler E q s))) (transactionDetailsKey q) =
      Some (RString (stringify (e_codec E) ?r))"
    using keeps_keysD(1) [OF keep, of "transactionDetailsKey q" "{transactionDetailsKey q}"]
      db_set_run(2) [OF entry, of ?s2] r(2) unfolding final by simp
  then show "stored (e_codec E) (view (store (snd (mineTransactionHandler E q s)))) q = Some ?r"
    by (rule stored_details)
  have "represents (view (store (snd (db_set E ?r ?s2)))) (tx_chainId t) (tx_from t) ?p"
    by (rule db_set_represents [OF entry mined(2)])
  then show "represents (view (store (snd (mineTransactionHandler E q s)))) (tx_chainId t) (tx_from t) ?p"
    unfolding final by (rule keeps_represents [OF keep])
qed

lemma mine_handler_waiting:
  assumes ok: "details_ok (e_codec E) (view (store s)) q"
    and st: "stored (e_codec E) (view (store s)) q = Some t" "tx_queueId t = q" "tx_status t = Sent"
    and tx: "\<not> tx_isUserOp t" "config_cache s = Some cfg" "chain_for E cfg (tx_chainId t) = Inr chain"
      "tx_sentTransactionHashes t \<noteq> None" "receipt_for E chain t = None"
      "tx_sentAtBlock t = Some b0" "e_blockNumber E chain = Inr b"
  shows "fst (mineTransactionHandler E q s) = Inl (js_Error ''NOT_CONFIRMED_YET'')"
    and "effects (snd (mineTransactionHandler E q s)) =
      effects s @ (if b - b0 \<ge> cfg_minEllapsedBlocksBeforeRetry cfg then [resend_job t] else [])"
    and "k \<noteq> latestBlockKey (tx_chainId t) \<Longrightarrow>
      view (store (snd (mineTransactionHandler E q s))) k = view (store s) k"
proof -
  let ?s1 = "snd (db_get E q s)"
  have s1: "config_cache ?s1 = Some cfg" "view (store ?s1) = view (store s)" "effects ?s1 = effects s"
    using tx(2) db_get_run(2) [OF ok] by (simp_all add: redis_do_apply)
  obtain hs where hs: "tx_sentTransactionHashes t = Some hs"
      "first_receipt (map (e_transactionReceipt E chain) hs) = None"
    using tx(4,5) by (auto simp: receipt_for_def)
  let ?s2 = "?s1\<lparr>store := snd (r_set (e_redis E) (latestBlockKey (tx_chainId t)) (show_int b) (store ?s1))\<rparr>"
  have block: "getBlockNumberish E (tx_chainId t) ?s1 = (Inr b, ?s2)"
    by (rule getBlockNumberish_cached [OF s1(1) tx(3,7)])
  have mine: "mineTransaction E t ?s1 = (Inr None, ?s2\<lparr>effects := effects s
      @ (if b - b0 \<ge> cfg_minEllapsedBlocksBeforeRetry cfg then [resend_job t] else [])\<rparr>)"
    using tx hs block s1(3)
    by (simp add: mineTransaction_def mine_resend_def bnd_apply getChain_cached [OF s1(1)]
        getConfig_cached [OF s1(1)] SendTransactionQueue_add_def Let_def emit_apply resend_job_def)
  have run: "mineTransactionHandler E q s = (Inl (js_Error ''NOT_CONFIRMED_YET''), ?s2\<lparr>effects := effects s
      @ (if b - b0 \<ge> cfg_minEllapsedBlocksBeforeRetry cfg then [resend_job t] else [])\<rparr>)"
    using db_get_run(1) [OF ok] st tx(1) by (simp add: mineTransactionHandler_def bnd_apply mine)
  show "fst (mineTransactionHandler E q s) = Inl (js_Error ''NOT_CONFIRMED_YET'')"
    and "effects (snd (mineTransactionHandler E q s)) =
      effects s @ (if b - b0 \<ge> cfg_minEllapsedBlocksBeforeRetry cfg then [resend_job t] else [])"
    by (simp_all add: run)
  show "view (store (snd (mineTransactionHandler E q s))) k = view (store s) k"
    if "k \<noteq> latestBlockKey (tx_chainId t)"
    using that s1(2) by (simp add: run)
qed

lemma mine_failed_releases:
  assumes ok: "details_ok (e_codec E) (view (store s)) q"
    and st: "stored (e_codec E) (view (store s)) q = Some t" "tx_queueId t = q" "tx_status t = Sent"
    and tx: "\<not> tx_isUserOp t" "tx_nonce t = Some (NumNonce (Some n))"
    and rep: "represents (view (store s)) (tx_chainId t) (tx_from t) p"
    and run: "fst (mineTransactionFailed E q k k s) = Inr ()"
  shows "stored (e_codec E) (view (store (snd (mineTransactionFailed E q k k s)))) q =
      Some (t\<lparr>tx_status := Errored, tx_errorMessage := Some ''Transaction timed out.''\<rparr>)"
    and "represents (view (store (snd (mineTransactionFailed E q k k s)))) (tx_chainId t) (tx_from t)
      (p\<lparr>np_recycled := insert n (np_recycled p), np_sent := np_sent p - {n}\<rparr>)"
proof -
  let ?r = "t\<lparr>tx_status := Errored, tx_errorMessage := Some ''Transaction timed out.''\<rparr>"
  let ?c = "tx_chainId t" and ?a = "tx_from t"
  let ?s2 = "snd (db_set E ?r (snd (db_get E q s)))"
  let ?reports = "bnd (enqueueTransactionWebhook E ?r) (\<lambda>_. reportUsageError E ?r)"
  let ?s3 = "snd (?reports ?s2)"
  let ?s4 = "?s3\<lparr>store := snd (recycleNonce (e_redis E) ?c ?a (Some n) (store ?s3))\<rparr>"
  let ?s5 = "?s4\<lparr>store := snd (removeSentNonce (e_redis E) ?c ?a (Some n) (store ?s4))\<rparr>"
  have entry: "status_entry now ?r \<noteq> Some (k, None)" for now k
    by (auto simp: status_entry_def)
  let ?release = "\<lambda>_. bnd (lift_res (nonce_arg t)) (\<lambda>nonce.
      bnd (redis_do (recycleNonce (e_redis E) ?c ?a nonce)) (\<lambda>_.
      bnd (redis_do (removeSentNonce (e_redis E) ?c ?a nonce)) (\<lambda>_. ret ())))"
  have step: "mineTransactionFailed E q k k s = bnd ?reports ?release ?s2"
    using db_get_run(1) [OF ok] st tx(1) db_set_run(1) [OF entry]
    by (simp add: mineTransactionFailed_def bnd_apply [of "db_get E q"] Let_def
        bnd_apply [of "db_set E ?r"] bnd_assoc)
  have "fst (bnd ?reports ?release ?s2) = Inr ()" using run unfolding step .
  then obtain u where u: "fst (?reports ?s2) = Inr u" using bnd_Inr [of ?reports ?release] by blast
  have keep: "keeps_keys view K ?reports" for K
    by (auto intro!: keeps_bnd keeps_after_set)
  have "represents (view (store (snd (db_get E q s)))) ?c ?a p"
    using rep db_get_run(2) [OF ok] by simp
  then have "represents (view (store ?s2)) ?c ?a p"
    by (rule db_set_represents [OF entry])
  then have rep3: "represents (view (store ?s3)) ?c ?a p" by (rule keeps_represents [OF keep])
  note rec = recycle_refines(1,2) [OF rep3, of n]
  have rem: "fst (removeSentNonce (e_redis E) ?c ?a (Some n) (store ?s4)) = Inr (n \<in> np_sent p)"
    "represents (view (store ?s5)) ?c ?a (p\<lparr>np_recycled := insert n (np_recycled p), np_sent := np_sent p - {n}\<rparr>)"
    using removeSent_refines(1,2) [OF rec(2), of n] by simp_all
  have final: "snd (mineTransactionFailed E q k k s) = ?s5"
    using u rec(1) rem(1) tx(2)
    by (simp add: step bnd_apply [of ?reports]) (simp add: bnd_apply redis_do_apply nonce_arg_def nonce_number_def)
  show "represents (view (store (snd (mineTransactionFailed E q k k s)))) ?c ?a
      (p\<lparr>np_recycled := insert n (np_recycled p), np_sent := np_sent p - {n}\<rparr>)"
    using rem(2) unfolding final by simp
  have "view (store ?s5) (transactionDetailsKey q) = Some (RString (stringify (e_codec E) ?r))"
    using keeps_keysD(1) [OF keep, of "transactionDetailsKey q" "{transactionDetailsKey q}" ?s2]
      db_set_run(2) [OF entry] st(2) recycle_refines(3) [OF rep3, of "transactionDetailsKey q" n]
      removeSent_refines(3) [OF rec(2), of "transactionDetailsKey q" n] by simp
  then show "stored (e_codec E) (view (store (snd (mineTransactionFailed E q k k s)))) q = Some ?r"
    unfolding final by (rule stored_details)
qed

end

section \<open>Properties\<close>

text \<open>A sent transaction for the examples, and a node that knows no receipt.\<close>

definition sent_tx :: transaction where
  "sent_tx = sample_tx\<lparr>tx_status := Sent, tx_nonce := Some (NumNonce (Some 5)),
     tx_sentAt := Some 6000, tx_sentAtBlock := Some 50,
     tx_sentTransactionHashes := Some [''0xh'']\<rparr>"

definition mem_world_cached :: "mem \<Rightarrow> mem world" where
  "mem_world_cached m = (mem_world m)\<lparr>config_cache := Some sample_config\<rparr>"

lemma sent_tx_simps [simp]:
  "tx_status sent_tx = Sent" "tx_queueId sent_tx = ''q1''" "tx_chainId sent_tx = 1"
  "tx_from sent_tx = ''0xa''" "tx_nonce sent_tx = Some (NumNonce (Some 5))" "\<not> tx_isUserOp sent_tx"
  "tx_sentAtBlock sent_tx = Some 50" "tx_sentTransactionHashes sent_tx = Some [''0xh'']"
  "tx_resendCount sent_tx = 0"
  by (simp_all add: sent_tx_def sample_tx_def)

lemma mem_world_cached_simps [simp]:
  "config_cache (mem_world_cached m) = Some sample_config" "store (mem_world_cached m) = m"
  "clock (mem_world_cached m) = 9000" "effects (mem_world_cached m) = []"
  by (simp_all add: mem_world_cached_def mem_world_def)

lemma sample_chain: "chain_for mem_env sample_config 1 = Inr \<lparr>ch_id = 1, ch_rpc = ''http://rpc''\<rparr>"
  by (simp add: chain_for_def mem_env_def sample_config_def find_override_def)



text \<open>
  C17: when no hash has a receipt, the handler throws so that the job is tried again; the
  store keeps the transaction and the nonces, and the transaction is put in the send queue
  with its resend count raised exactly when the configured number of blocks has passed.
\<close>

theorem mine_handler_not_mined:
  assumes "engine E view" and "details_ok (e_codec E) (view (store s)) q"
    and "stored (e_codec E) (view (store s)) q = Some t" and "tx_queueId t = q"
    and "tx_status t = Sent" and "\<not> tx_isUserOp t" and "config_cache s = Some cfg"
    and "chain_for E cfg (tx_chainId t) = Inr chain" and "tx_sentTransactionHashes t \<noteq> None"
    and "receipt_for E chain t = None" and "tx_sentAtBlock t = Some b0" and "e_blockNumber E chain = Inr b"
  shows "fst (mineTransactionHandler E q s) = Inl (js_Error ''NOT_CONFIRMED_YET'')
    \<and> effects (snd (mineTransactionHandler E q s)) =
      effects s @ (if b - b0 \<ge> cfg_minEllapsedBlocksBeforeRetry cfg then [resend_job t] else [])
    \<and> (\<forall>k. k \<noteq> latestBlockKey (tx_chainId t) \<longrightarrow>
         view (store (snd (mineTransactionHandler E q s))) k = view (store s) k)"
  using engine.mine_handler_waiting [OF assms] by blast

theorem mine_handler_not_mined_witness:
  "effects (snd (mineTransactionHandler (mem_env\<lparr>e_transactionReceipt := (\<lambda>_ _. Inl js_TypeError)\<rparr>) ''q1''
      (mem_world_cached (sample_store sent_tx)))) = [resend_job sent_tx]"
proof -
  let ?E = "mem_env\<lparr>e_transactionReceipt := (\<lambda>_ _. Inl js_TypeError)\<rparr>"
  let ?s = "mem_world_cached (sample_store sent_tx)"
  have E: "engine ?E mem_view"
    using mem_engine.engine_axioms by (simp add: engine_def)
  have chain: "chain_for ?E sample_config 1 = Inr \<lparr>ch_id = 1, ch_rpc = ''http://rpc''\<rparr>"
    using sample_chain by (simp add: chain_for_def)
  have rc: "receipt_for ?E \<lparr>ch_id = 1, ch_rpc = ''http://rpc''\<rparr> sent_tx = None"
    by (simp add: receipt_for_def)
  have b: "e_blockNumber ?E \<lparr>ch_id = 1, ch_rpc = ''http://rpc''\<rparr> = Inr 100"
    by (simp add: mem_env_def)
  show ?thesis
    using mine_handler_not_mined [where view = mem_view, OF E, of ?s "''q1''" sent_tx sample_config,
        OF _ _ _ _ _ _ _ _ rc _ b, of 50]
      sample_stored [of sent_tx] chain by (simp add: sample_config_def)
qed

text \<open>
  C10: a transaction that is still sent when its last attempt fails is stored as timed out,
  and its nonce moves from the sent nonces to the recycled ones.
\<close>

theorem mine_timeout_releases_nonce:
  assumes "engine E view" and "details_ok (e_codec E) (view (store s)) q"
    and "stored (e_codec E) (view (store s)) q = Some t" and "tx_queueId t = q"
    and "tx_status t = Sent" and "\<not> tx_isUserOp t" and "tx_nonce t = Some (NumNonce (Some n))"
    and "represents (view (store s)) (tx_chainId t) (tx_from t) p"
    and "fst (mineTransactionFailed E q k k s) = Inr ()"
  shows "stored (e_codec E) (view (store (snd (mineTransactionFailed E q k k s)))) q =
      Some (t\<lparr>tx_status := Errored, tx_errorMessage := Some ''Transaction timed out.''\<rparr>)
    \<and> represents (view (store (snd (mineTransactionFailed E q k k s)))) (tx_chainId t) (tx_from t)
      (p\<lparr>np_recycled := insert n (np_recycled p), np_sent := np_sent p - {n}\<rparr>)"
  using engine.mine_failed_releases [OF assms] by blast

theorem mine_timeout_releases_nonce_witness:
  "represents (mem_view (store (snd (mineTransactionFailed mem_env ''q1'' 200 200
      (mem_world_cached (sample_store sent_tx)))))) 1 ''0xa''
    \<lparr>np_last = Some 5, np_recycled = {5}, np_sent = {}\<rparr>"
proof -
  let ?s = "mem_world_cached (sample_store sent_tx)"
  let ?r = "sent_tx\<lparr>tx_status := Errored, tx_errorMessage := Some ''Transaction timed out.''\<rparr>"
  let ?s2 = "snd (db_set mem_env ?r ?s)"
  let ?s3 = "snd (bnd (enqueueTransactionWebhook mem_env ?r) (\<lambda>_. reportUsageError mem_env ?r) ?s2)"
  have rep: "represents (mem_view (store ?s)) (tx_chainId sent_tx) (tx_from sent_tx)
      \<lparr>np_last = Some 5, np_recycled = {}, np_sent = {}\<rparr>"
    using sample_represents by simp
  have entry: "status_entry now ?r \<noteq> Some (k, None)" for now k
    by (simp add: status_entry_def)
  have get: "TransactionDB_get mem_redis mem_codec ''q1'' (sample_store sent_tx) =
      (Inr (Some sent_tx), sample_store sent_tx)"
    using sample_db_get [of sent_tx] by (simp add: redis_do_apply mem_world_def prod_eq_iff)
  have same: "?s\<lparr>store := sample_store sent_tx\<rparr> = ?s"
    by (simp add: mem_world_cached_def mem_world_def)
  have usage: "fst (reportUsageError mem_env ?r s) = Inr ()" for s
    by (simp add: reportUsageError_def reportUsage_def msSince_def io_simps mem_env_def)
  have keep: "keeps_keys mem_view (wallet_keys 1 ''0xa'')
      (bnd (enqueueTransactionWebhook mem_env ?r) (\<lambda>_. reportUsageError mem_env ?r))"
    by (auto intro!: keeps_bnd mem_engine.keeps_after_set)
  have rep2: "represents (mem_view (store ?s2)) 1 ''0xa'' \<lparr>np_last = Some 5, np_recycled = {}, np_sent = {}\<rparr>"
    using mem_engine.db_set_represents [OF entry rep] by simp
  have rep3: "represents (mem_view (store ?s3)) 1 ''0xa'' \<lparr>np_last = Some 5, np_recycled = {}, np_sent = {}\<rparr>"
    by (rule keeps_represents [OF keep rep2])
  have "fst (mineTransactionFailed mem_env ''q1'' 200 200 ?s) = Inr ()"
    using mem_engine.db_set_run(1) [OF entry] mem.recycle_refines(1,2) [OF rep3, of 5]
      mem.removeSent_refines(1) [OF mem.recycle_refines(2) [OF rep3, of 5], of 5]
    by (simp add: mineTransactionFailed_def Let_def bnd_apply get same usage redis_do_apply
        nonce_arg_def nonce_number_def)
  then show ?thesis
    using mine_timeout_releases_nonce [where view = mem_view, OF mem_engine.engine_axioms,
        of ?s "''q1''" sent_tx 5, OF _ _ _ _ _ _ rep] sample_stored [of sent_tx] by simp
qed

text \<open>
  the backoff between attempts grows to ten seconds and no further, and the 199 delays of
  the 200 attempts of a mine job span more than 30 minutes.
\<close>

theorem mine_backoff_bounds:
  "(\<forall>k \<ge> 1. 2000 \<le> backoffStrategy k \<and> backoffStrategy k \<le> 10000)
   \<and> (\<forall>j k. j \<le> k \<longrightarrow> backoffStrategy j \<le> backoffStrategy k)
   \<and> (\<Sum>k = 1..<int MineTransactionQueue_attempts. backoffStrategy k) > 30 * 60 * 1000"
proof -
  have "(\<Sum>k = 1..<int MineTransactionQueue_attempts. backoffStrategy k) =
      (\<Sum>k \<leftarrow> [1..199]. backoffStrategy k)"
    unfolding MineTransactionQueue_attempts_def
    by (subst sum_list_distinct_conv_sum_set) (auto intro!: arg_cong2 [where f = sum])
  moreover have "(\<Sum>k \<leftarrow> [1..199]. backoffStrategy k) = 1970000" by code_simp
  ultimately show ?thesis by (auto simp: backoffStrategy_def)
qed

theorem mine_backoff_bounds_witness:
  "backoffStrategy 3 \<le> backoffStrategy 5 \<and> backoffStrategy 7 \<le> 10000"
  using mine_backoff_bounds by auto

end
