(* ===== verification/Nonce_Workers.thy ===== *)
theory Nonce_Workers
  imports Mine_Worker
begin

text \<open>
  The periodic workers on nonces: cancelling recycled nonces
  (\<open>src/worker/tasks/cancelRecycledNoncesWorker.ts\<close> with
  \<open>src/utils/transaction/cancelTransaction.ts\<close>), recycling skipped nonces
  (\<open>nonceResyncWorker.ts\<close>), the health check (\<open>nonceHealthCheckWorker.ts\<close>), pruning
  (\<open>pruneTransactionsWorker.ts\<close>), and the admin view of nonces
  (\<open>src/server/routes/admin/nonces.ts\<close>).

  A chain id read from a key is a number; the case of a key without one (which the engine does
  not write) throws.
\<close>

section \<open>Cancelling a nonce\<close>

text \<open>
  The fees of a cancellation. The source doubles \<open>maxFeePerGas\<close> in two identical statements
  and leaves \<open>maxPriorityFeePerGas\<close>.
\<close>

definition cancellation_fees :: "serializable_tx \<Rightarrow> serializable_tx" where
  "cancellation_fees stx =
     (let s1 = stx\<lparr>stx_gasPrice := double_fee (stx_gasPrice stx)\<rparr>;
          s2 = s1\<lparr>stx_maxFeePerGas := double_fee (stx_maxFeePerGas s1)\<rparr>
      in s2\<lparr>stx_maxFeePerGas := double_fee (stx_maxFeePerGas s2)\<rparr>)"

definition sendCancellationTransaction ::
  "'w env \<Rightarrow> int \<Rightarrow> string \<Rightarrow> js_num \<Rightarrow> ('w world, string) io" where
  "sendCancellationTransaction E chainId adr nonce =
     bnd (getChain E chainId) (\<lambda>chain.
     bnd (checksum E (Some adr)) (\<lambda>adr'.
     bnd (lift_res (e_toSerializable E chain adr'
            \<lparr>rq_to = Some adr, rq_data = Some ''0x'', rq_value = Some 0, rq_gas = None,
             rq_gasPrice = None, rq_maxFeePerGas = None, rq_maxPriorityFeePerGas = None,
             rq_nonce = Some (NumNonce nonce)\<rparr>)) (\<lambda>populated.
     bnd (getAccount E chainId adr None) (\<lambda>acc.
     send_rpc E acc (cancellation_fees populated)))))"

definition fromRecycledNoncesKey :: "string \<Rightarrow> js_num \<times> string option" where
  "fromRecycledNoncesKey key =
     (let tokens = js_split (CHR '':'') key
      in (parseInt_opt (nth_opt tokens 1), nth_opt tokens 2))"

text \<open>\<open>MULTI\<close> runs both commands; an error of the first is thrown afterwards.\<close>

definition getAndDeleteRecycledNonces :: "'w redis \<Rightarrow> string \<Rightarrow> ('w, js_num list) io" where
  "getAndDeleteRecycledNonces R key =
     bnd (settle (r_zrange R key 0 (- 1))) (\<lambda>nonces.
     bnd (settle (r_del R [key])) (\<lambda>_.
     case nonces of
       Inl e \<Rightarrow> throw (js_Error (''Error getting members of '' @ key @ '': '' @ show_error e))
     | Inr vs \<Rightarrow> ret (map parseInt vs)))"

definition cancel_nonce :: "'w env \<Rightarrow> int \<Rightarrow> string \<Rightarrow> js_num \<Rightarrow> ('w world, unit) io" where
  "cancel_nonce E chainId adr nonce =
     try_catch
       (bnd (sendCancellationTransaction E chainId adr nonce) (\<lambda>_. ret ()))
       (\<lambda>e. if isNonceAlreadyUsedError (e_ethersErrorCodes E) e then ret ()
            else redis_do (recycleNonce (e_redis E) chainId adr nonce))"

definition cancel_key :: "'w env \<Rightarrow> string \<Rightarrow> ('w world, unit) io" where
  "cancel_key E key =
     (case fromRecycledNoncesKey key of
        (Some chainId, Some walletAddress) \<Rightarrow>
          bnd (redis_do (getAndDeleteRecycledNonces (e_redis E) key)) (\<lambda>recycledNonces.
          for_each recycledNonces (cancel_nonce E chainId walletAddress))
      | _ \<Rightarrow> throw js_TypeError)"

definition cancelRecycledNoncesHandler :: "'w env \<Rightarrow> ('w world, unit) io" where
  "cancelRecycledNoncesHandler E =
     bnd (redis_do (r_keys (e_redis E) ''nonce-recycled:*'')) (\<lambda>keys.
     for_each keys (cancel_key E))"

section \<open>Resyncing nonces\<close>

definition resync_nonce :: "'w env \<Rightarrow> int \<Rightarrow> string \<Rightarrow> int \<Rightarrow> ('w world, unit) io" where
  "resync_nonce E chainId walletAddress n =
     bnd (redis_do (isSentNonce (e_redis E) chainId walletAddress (Some n))) (\<lambda>exists.
     if \<not> exists then redis_do (recycleNonce (e_redis E) chainId walletAddress (Some n))
     else ret ())"

text \<open>
  One wallet. The answer tells whether the worker goes on: for a wallet that needs no resync
  the source returns from the handler.
\<close>

definition resync_wallet :: "'w env \<Rightarrow> int \<Rightarrow> string \<Rightarrow> ('w world, bool) io" where
  "resync_wallet E chainId walletAddress =
     bnd (getChain E chainId) (\<lambda>_.
     bnd (lift_res (e_transactionCount E chainId walletAddress)) (\<lambda>transactionCount.
     bnd (redis_do (inspectNonce (e_redis E) chainId walletAddress)) (\<lambda>lastUsedNonceDb.
     let lastUsedNonceOnchain = transactionCount - 1 in
     case lastUsedNonceDb of
       None \<Rightarrow> ret True
     | Some db \<Rightarrow>
         if lastUsedNonceOnchain \<ge> db then ret False
         else bnd (for_each [lastUsedNonceOnchain + 1..db - 1] (resync_nonce E chainId walletAddress))
                (\<lambda>_. ret True))))"

fun resync_keys :: "'w env \<Rightarrow> string list \<Rightarrow> ('w world, unit) io" where
  "resync_keys E [] = ret ()"
| "resync_keys E (key # keys) =
     (case splitSentNoncesKey key of
        (Some walletAddress, Some chainId) \<Rightarrow>
          bnd (resync_wallet E chainId walletAddress) (\<lambda>continue.
          if continue then resync_keys E keys else ret ())
      | _ \<Rightarrow> throw js_TypeError)"

definition nonceResyncHandler :: "'w env \<Rightarrow> ('w world, unit) io" where
  "nonceResyncHandler E =
     bnd (redis_do (r_keys (e_redis E) ''nonce-sent*'')) (\<lambda>keys. resync_keys E keys)"

section \<open>Health of a wallet\<close>

record nonce_state =
  ns_onchain :: js_num
  ns_largest :: js_num

definition CHECK_PERIODS :: nat where
  "CHECK_PERIODS = 3"

definition nonceHistoryKey :: "'w env \<Rightarrow> string \<Rightarrow> int \<Rightarrow> js_error + string" where
  "nonceHistoryKey E walletAddress chainId = (case e_getAddress E walletAddress of Inl e \<Rightarrow> Inl e
     | Inr adr \<Rightarrow> Inr (''nonce-history:'' @ show_int chainId @ '':'' @ adr))"

text \<open>\<open>JSON.stringify\<close> and \<open>JSON.parse\<close> of a state; NaN becomes null.\<close>

definition json_num :: "js_num \<Rightarrow> string" where
  "json_num n = (case n of None \<Rightarrow> ''null'' | Some i \<Rightarrow> show_int i)"

definition state_stringify :: "nonce_state \<Rightarrow> string" where
  "state_stringify st = ''{\"onchainNonce\":'' @ json_num (ns_onchain st)
     @ '',\"largestSentNonce\":'' @ json_num (ns_largest st) @ ''}''"

definition state_parse :: "string \<Rightarrow> nonce_state" where
  "state_parse s =
     (let fields = js_split (CHR '','') s;
          num = (\<lambda>f. parseInt_opt (nth_opt (js_split (CHR '':'') f) 1))
      in \<lparr>ns_onchain = (case nth_opt fields 0 of None \<Rightarrow> None | Some f \<Rightarrow> num f),
          ns_largest = (case nth_opt fields 1 of None \<Rightarrow> None | Some f \<Rightarrow> num f)\<rparr>)"

definition getLastUsedOnchainNonce :: "'w env \<Rightarrow> int \<Rightarrow> string \<Rightarrow> ('w world, int) io" where
  "getLastUsedOnchainNonce E chainId walletAddress =
     bnd (getChain E chainId) (\<lambda>_.
     bnd (lift_res (e_transactionCount E chainId walletAddress)) (\<lambda>transactionCount.
     ret (transactionCount - 1)))"

definition getCurrentNonceState :: "'w env \<Rightarrow> string \<Rightarrow> int \<Rightarrow> ('w world, nonce_state) io" where
  "getCurrentNonceState E walletAddress chainId =
     bnd (getLastUsedOnchainNonce E chainId walletAddress) (\<lambda>onchain.
     bnd (redis_do (inspectNonce (e_redis E) chainId walletAddress)) (\<lambda>largest.
     ret \<lparr>ns_onchain = Some onchain, ns_largest = largest\<rparr>))"

definition getHistoricalNonceStates ::
  "'w env \<Rightarrow> string \<Rightarrow> int \<Rightarrow> int \<Rightarrow> ('w world, nonce_state list) io" where
  "getHistoricalNonceStates E walletAddress chainId periods =
     bnd (lift_res (nonceHistoryKey E walletAddress chainId)) (\<lambda>key.
     bnd (redis_do (r_lrange (e_redis E) key 0 (periods - 1))) (\<lambda>states.
     ret (map state_parse states)))"

text \<open>Comparisons with NaN are false, and NaN differs from itself.\<close>

definition num_eq :: "js_num \<Rightarrow> js_num \<Rightarrow> bool" where
  "num_eq a b = (case (a, b) of (Some x, Some y) \<Rightarrow> x = y | _ \<Rightarrow> False)"

definition num_gt :: "js_num \<Rightarrow> js_num \<Rightarrow> bool" where
  "num_gt a b = (case (a, b) of (Some x, Some y) \<Rightarrow> x > y | _ \<Rightarrow> False)"

definition stuck_states :: "nonce_state list \<Rightarrow> bool" where
  "stuck_states states =
     (if length states < CHECK_PERIODS then False
      else list_all (\<lambda>i. num_eq (ns_onchain (states ! i)) (ns_onchain (last states))
             \<and> (i = length states - 1 \<or> num_gt (ns_largest (states ! i)) (ns_largest (states ! (i + 1)))))
           [0..<length states])"

definition isQueueStuck :: "'w env \<Rightarrow> string \<Rightarrow> int \<Rightarrow> ('w world, bool) io" where
  "isQueueStuck E walletAddress chainId =
     bnd (getHistoricalNonceStates E walletAddress chainId (int CHECK_PERIODS)) (\<lambda>states.
     ret (stuck_states states))"

definition updateNonceHistory :: "'w env \<Rightarrow> string \<Rightarrow> int \<Rightarrow> ('w world, unit) io" where
  "updateNonceHistory E walletAddress chainId =
     bnd (getCurrentNonceState E walletAddress chainId) (\<lambda>currentState.
     bnd (lift_res (nonceHistoryKey E walletAddress chainId)) (\<lambda>key.
     bnd (settle (redis_do (r_lpush (e_redis E) key (state_stringify currentState)))) (\<lambda>_.
     bnd (settle (redis_do (r_ltrim (e_redis E) key 0 (int CHECK_PERIODS - 1)))) (\<lambda>_.
     ret ()))))"

text \<open>
  The wallets are checked in batches; only the update of the history changes the store, the
  two other reads go to the log.
\<close>

definition nonceHealthCheckHandler :: "'w env \<Rightarrow> ('w world, unit) io" where
  "nonceHealthCheckHandler E =
     bnd (redis_do (getUsedBackendWallets (e_redis E) (e_getAddress E) None None)) (\<lambda>wallets.
     for_each wallets (\<lambda>(chainId, walletAddress).
       case chainId of
         None \<Rightarrow> throw js_TypeError
       | Some c \<Rightarrow>
           bnd (updateNonceHistory E walletAddress c) (\<lambda>_.
           bnd (isQueueStuck E walletAddress c) (\<lambda>_.
           bnd (getCurrentNonceState E walletAddress c) (\<lambda>_. ret ())))))"

section \<open>Pruning\<close>

definition pruneTransactionsHandler :: "'w env \<Rightarrow> int \<Rightarrow> int \<Rightarrow> ('w world, unit) io" where
  "pruneTransactionsHandler E TRANSACTION_HISTORY_COUNT NONCE_MAP_COUNT =
     bnd (redis_do (pruneTransactionDetailsAndLists (e_redis E) (e_batchSize E) TRANSACTION_HISTORY_COUNT)) (\<lambda>_.
     bnd (redis_do (pruneNonceMaps (e_redis E) NONCE_MAP_COUNT)) (\<lambda>_.
     ret ()))"

section \<open>The admin view\<close>

record nonce_details =
  nd_walletAddress :: string
  nd_chainId :: int
  nd_onchainNonce :: int
  nd_lastUsedNonce :: js_num
  nd_sentNonces :: "js_num list"
  nd_recycledNonces :: "js_num list"

text \<open>Descending order; the engine stores integers, so no NaN is compared.\<close>

definition sort_desc :: "js_num list \<Rightarrow> js_num list" where
  "sort_desc ns = (if None \<in> set ns then ns else map Some (rev (sort (map the ns))))"

definition nonce_members :: "js_error + string list \<Rightarrow> js_error + js_num list" where
  "nonce_members result = (case result of Inl _ \<Rightarrow> Inl js_TypeError
     | Inr ms \<Rightarrow> Inr (sort_desc (map parseInt ms)))"

definition nonce_details_of ::
  "'w env \<Rightarrow> js_num \<times> string \<Rightarrow> ('w world, nonce_details) io" where
  "nonce_details_of E wallet =
     (case wallet of
        (None, _) \<Rightarrow> throw js_TypeError
      | (Some chainId, walletAddress) \<Rightarrow>
          bnd (settle (redis_do (r_get (e_redis E) (lastUsedNonceKey chainId walletAddress)))) (\<lambda>lastUsed.
          bnd (settle (redis_do (r_smembers (e_redis E) (sentNoncesKey chainId walletAddress)))) (\<lambda>sent.
          bnd (settle (redis_do (r_smembers (e_redis E) (recycledNoncesKey chainId walletAddress)))) (\<lambda>recycled.
          bnd (getLastUsedOnchainNonce E chainId walletAddress) (\<lambda>onchain.
          bnd (lift_res (nonce_members sent)) (\<lambda>sentNonces.
          bnd (lift_res (nonce_members recycled)) (\<lambda>recycledNonces.
          ret \<lparr>nd_walletAddress = walletAddress, nd_chainId = chainId, nd_onchainNonce = onchain,
               nd_lastUsedNonce = (case lastUsed of Inl _ \<Rightarrow> None | Inr v \<Rightarrow> parseInt_opt v),
               nd_sentNonces = sentNonces, nd_recycledNonces = recycledNonces\<rparr>)))))))"

fun details_list :: "'w env \<Rightarrow> (js_num \<times> string) list \<Rightarrow> ('w world, nonce_details list) io" where
  "details_list E [] = ret []"
| "details_list E (w # ws) =
     bnd (nonce_details_of E w) (\<lambda>d. bnd (details_list E ws) (\<lambda>ds. ret (d # ds)))"

definition getNonceDetails ::
  "'w env \<Rightarrow> string option \<Rightarrow> int option \<Rightarrow> ('w world, nonce_details list) io" where
  "getNonceDetails E walletAddress chainId =
     bnd (redis_do (getUsedBackendWallets (e_redis E) (e_getAddress E) chainId walletAddress)) (\<lambda>wallets.
     details_list E wallets)"

section \<open>Facts\<close>

lemma recycled_key_split:
  assumes "a \<noteq> []" "CHR '':'' \<notin> set a" "toLowerCase a = a"
  shows "fromRecycledNoncesKey (recycledNoncesKey c a) = (Some c, Some a)"
  using assms js_split_append [of "CHR '':''" "''nonce-recycled''"]
  by (simp add: fromRecycledNoncesKey_def recycledNoncesKey_def js_simps nth_opt_def Let_def)

text \<open>What the submission of a cancellation answers, with configuration and account cached.\<close>

definition cancel_attempt ::
  "'w env \<Rightarrow> parsed_config \<Rightarrow> account \<Rightarrow> int \<Rightarrow> string \<Rightarrow> int \<Rightarrow> js_error + string" where
  "cancel_attempt E cfg acc c a n = (case chain_for E cfg c of Inl e \<Rightarrow> Inl e
     | Inr chain \<Rightarrow> (case getChecksumAddress (e_checksumAddress E) (Some a) of Inl e \<Rightarrow> Inl e
     | Inr adr \<Rightarrow> (case e_toSerializable E chain adr
            \<lparr>rq_to = Some a, rq_data = Some ''0x'', rq_value = Some 0, rq_gas = None,
             rq_gasPrice = None, rq_maxFeePerGas = None, rq_maxPriorityFeePerGas = None,
             rq_nonce = Some (NumNonce (Some n))\<rparr> of Inl e \<Rightarrow> Inl e
     | Inr stx \<Rightarrow> e_sendTransaction E acc (cancellation_fees stx))))"

definition cancel_fails :: "'w env \<Rightarrow> parsed_config \<Rightarrow> account \<Rightarrow> int \<Rightarrow> string \<Rightarrow> int \<Rightarrow> bool" where
  "cancel_fails E cfg acc c a n = (case cancel_attempt E cfg acc c a n of
       Inl e \<Rightarrow> \<not> isNonceAlreadyUsedError (e_ethersErrorCodes E) e | Inr _ \<Rightarrow> False)"

definition ready :: "'w env \<Rightarrow> parsed_config \<Rightarrow> account \<Rightarrow> int \<Rightarrow> string \<Rightarrow> 'w world \<Rightarrow> bool" where
  "ready E cfg acc c a s \<longleftrightarrow> config_cache s = Some cfg
     \<and> accounts_cache s (getAccountCacheKey c a None) = Some acc"

lemma cancellation_run:
  assumes "ready E cfg acc c a s"
  shows "fst (sendCancellationTransaction E c a (Some n) s) = cancel_attempt E cfg acc c a n"
    and "store (snd (sendCancellationTransaction E c a (Some n) s)) = store s"
    and "ready E cfg acc c a (snd (sendCancellationTransaction E c a (Some n) s))"
  using assms
  by (auto simp: ready_def sendCancellationTransaction_def bnd_apply getChain_cached checksum_def
      cancel_attempt_def getAccount_def Let_def send_rpc_def emit_apply split: sum.split)

context engine
begin

lemma cancel_nonce_run:
  assumes "ready E cfg acc c a s" and rep: "represents (view (store s)) c a p"
  shows "fst (cancel_nonce E c a (Some n) s) = Inr ()
    \<and> ready E cfg acc c a (snd (cancel_nonce E c a (Some n) s))
    \<and> represents (view (store (snd (cancel_nonce E c a (Some n) s)))) c a
      (if cancel_fails E cfg acc c a n then p\<lparr>np_recycled := insert n (np_recycled p)\<rparr> else p)"
proof -
  let ?s1 = "snd (sendCancellationTransaction E c a (Some n) s)"
  note run = cancellation_run [OF assms(1), of n]
  have rep1: "represents (view (store ?s1)) c a p" using rep run(2) by simp
  note rec = recycle_refines(1,2) [OF rep1, of n]
  show ?thesis
    using run(1,3) rep1 rec
    by (auto simp: cancel_nonce_def try_catch_apply bnd_apply redis_do_apply cancel_fails_def ready_def
        split: sum.split)
qed

lemma cancel_loop:
  assumes "ready E cfg acc c a s" "represents (view (store s)) c a p"
  shows "fst (for_each (map Some ns) (cancel_nonce E c a) s) = Inr ()
    \<and> represents (view (store (snd (for_each (map Some ns) (cancel_nonce E c a) s)))) c a
      (p\<lparr>np_recycled := np_recycled p \<union> {n \<in> set ns. cancel_fails E cfg acc c a n}\<rparr>)"
  using assms
proof (induction ns arbitrary: s p)
  case Nil
  then show ?case by simp
next
  case (Cons n ns)
  let ?s1 = "snd (cancel_nonce E c a (Some n) s)"
  let ?p1 = "if cancel_fails E cfg acc c a n then p\<lparr>np_recycled := insert n (np_recycled p)\<rparr> else p"
  note run = cancel_nonce_run [OF Cons.prems, of n]
  have eq: "?p1\<lparr>np_recycled := np_recycled ?p1 \<union> {m \<in> set ns. cancel_fails E cfg acc c a m}\<rparr> =
      p\<lparr>np_recycled := np_recycled p \<union> {m \<in> set (n # ns). cancel_fails E cfg acc c a m}\<rparr>"
    by (auto intro!: nonce_pool.equality)
  show ?case
    using Cons.IH [of ?s1 ?p1] run unfolding eq by (simp add: bnd_apply)
qed

lemma get_and_delete_run:
  assumes rep: "represents (view w) c a p"
  shows "fst (getAndDeleteRecycledNonces (e_redis E) (recycledNoncesKey c a) w) =
      Inr (map Some (sorted_list_of_set (np_recycled p)))"
    and "represents (view (snd (getAndDeleteRecycledNonces (e_redis E) (recycledNoncesKey c a) w))) c a
      (p\<lparr>np_recycled := {}\<rparr>)"
  using representsD [OF rep]
  by (auto simp: getAndDeleteRecycledNonces_def io_simps q_zrange_def redis_range_all enc_zset_def
      enc_def represents_def restrict_map_def)

lemma cancel_key_run:
  assumes "ready E cfg acc c a s" "represents (view (store s)) c a p"
    and "a \<noteq> []" "CHR '':'' \<notin> set a" "toLowerCase a = a"
  shows "fst (cancel_key E (recycledNoncesKey c a) s) = Inr ()"
    and "represents (view (store (snd (cancel_key E (recycledNoncesKey c a) s)))) c a
      (p\<lparr>np_recycled := {n \<in> np_recycled p. cancel_fails E cfg acc c a n}\<rparr>)"
proof -
  let ?get = "getAndDeleteRecycledNonces (e_redis E) (recycledNoncesKey c a)"
  let ?s1 = "s\<lparr>store := snd (?get (store s))\<rparr>"
  let ?ns = "sorted_list_of_set (np_recycled p)"
  note get = get_and_delete_run [OF assms(2)]
  have "ready E cfg acc c a ?s1" using assms(1) by (simp add: ready_def)
  moreover have "represents (view (store ?s1)) c a (p\<lparr>np_recycled := {}\<rparr>)" using get(2) by simp
  ultimately have loop: "fst (for_each (map Some ?ns) (cancel_nonce E c a) ?s1) = Inr ()
    \<and> represents (view (store (snd (for_each (map Some ?ns) (cancel_nonce E c a) ?s1)))) c a
      (p\<lparr>np_recycled := {n \<in> np_recycled p. cancel_fails E cfg acc c a n}\<rparr>)"
    using cancel_loop [of cfg acc c a ?s1 "p\<lparr>np_recycled := {}\<rparr>" ?ns] representsD(3) [OF assms(2)] by simp
  have run: "cancel_key E (recycledNoncesKey c a) s = for_each (map Some ?ns) (cancel_nonce E c a) ?s1"
    using get(1) recycled_key_split [OF assms(3-5)] by (simp add: cancel_key_def bnd_apply redis_do_apply)
  show "fst (cancel_key E (recycledNoncesKey c a) s) = Inr ()"
    and "represents (view (store (snd (cancel_key E (recycledNoncesKey c a) s)))) c a
      (p\<lparr>np_recycled := {n \<in> np_recycled p. cancel_fails E cfg acc c a n}\<rparr>)"
    using loop by (simp_all add: run)
qed

lemma resync_nonce_run:
  assumes rep: "represents (view (store s)) c a p"
  shows "fst (resync_nonce E c a n s) = Inr ()
    \<and> represents (view (store (snd (resync_nonce E c a n s)))) c a
      (if n \<in> np_sent p then p else p\<lparr>np_recycled := insert n (np_recycled p)\<rparr>)"
proof -
  let ?s1 = "s\<lparr>store := snd (isSentNonce (e_redis E) c a (Some n) (store s))\<rparr>"
  note sent = isSent_refines [OF rep, of n]
  have rep1: "represents (view (store ?s1)) c a p" using rep sent(2) by simp
  show ?thesis
    using sent rep1 recycle_refines(1,2) [OF rep1, of n]
    by (simp add: resync_nonce_def bnd_apply redis_do_apply)
qed

lemma resync_loop:
  assumes "represents (view (store s)) c a p"
  shows "fst (for_each ns (resync_nonce E c a) s) = Inr ()
    \<and> represents (view (store (snd (for_each ns (resync_nonce E c a) s)))) c a
      (p\<lparr>np_recycled := np_recycled p \<union> (set ns - np_sent p)\<rparr>)"
  using assms
proof (induction ns arbitrary: s p)
  case Nil
  then show ?case by simp
next
  case (Cons n ns)
  let ?s1 = "snd (resync_nonce E c a n s)"
  let ?p1 = "if n \<in> np_sent p then p else p\<lparr>np_recycled := insert n (np_recycled p)\<rparr>"
  note run = resync_nonce_run [OF Cons.prems, of n]
  have eq: "?p1\<lparr>np_recycled := np_recycled ?p1 \<union> (set ns - np_sent ?p1)\<rparr> =
      p\<lparr>np_recycled := np_recycled p \<union> (set (n # ns) - np_sent p)\<rparr>"
    by (auto intro!: nonce_pool.equality)
  show ?case
    using Cons.IH [of ?s1 ?p1] run unfolding eq by (simp add: bnd_apply)
qed

lemma resync_wallet_run:
  assumes "config_cache s = Some cfg" "chain_for E cfg c = Inr chain"
    and tc: "e_transactionCount E c a = Inr tc"
    and rep: "represents (view (store s)) c a p" and last: "np_last p = Some db"
  shows "fst (resync_wallet E c a s) = Inr (tc - 1 < db)"
    and "represents (view (store (snd (resync_wallet E c a s)))) c a
      (p\<lparr>np_recycled := np_recycled p \<union> ({tc..<db} - np_sent p)\<rparr>)"
proof -
  let ?s1 = "s\<lparr>store := snd (inspectNonce (e_redis E) c a (store s))\<rparr>"
  note ins = inspect_refines [OF rep]
  have rep1: "represents (view (store ?s1)) c a p" using rep ins(2) by simp
  note run = resync_wallet_def bnd_apply getChain_cached [OF assms(1)] assms(2) tc redis_do_apply
    ins(1) last Let_def
  have range: "set [tc..db - 1] = {tc..<db}" by auto
  show "fst (resync_wallet E c a s) = Inr (tc - 1 < db)"
    using resync_loop [OF rep1, of "[tc..db - 1]"] by (auto simp: run)
  show "represents (view (store (snd (resync_wallet E c a s)))) c a
      (p\<lparr>np_recycled := np_recycled p \<union> ({tc..<db} - np_sent p)\<rparr>)"
    using resync_loop [OF rep1, of "[tc..db - 1]"] rep1 unfolding range by (auto simp: run)
qed

end

section \<open>Properties\<close>

text \<open>
  for a wallet whose counter is ahead of the chain, the resync worker recycles exactly
  the nonces from the on-chain count up to, and not including, the counter that are not
  among the sent nonces; a wallet that is level with the chain is left as it is.
\<close>

theorem resync_recycles_missing:
  assumes "engine E view" and "config_cache s = Some cfg" and "chain_for E cfg c = Inr chain"
    and "e_transactionCount E c a = Inr tc" and "represents (view (store s)) c a p"
    and "np_last p = Some db"
  shows "fst (resync_wallet E c a s) = Inr (tc - 1 < db)
    \<and> represents (view (store (snd (resync_wallet E c a s)))) c a
      (p\<lparr>np_recycled := np_recycled p \<union> ({tc..<db} - np_sent p)\<rparr>)"
  using engine.resync_wallet_run [OF assms] by blast

theorem resync_recycles_missing_witness:
  "represents (mem_view (store (snd (resync_wallet (mem_env\<lparr>e_transactionCount := (\<lambda>_ _. Inr 3)\<rparr>) 1 ''0xa''
      (mem_world_cached (sample_store sample_tx)))))) 1 ''0xa''
    \<lparr>np_last = Some 5, np_recycled = {3..<5}, np_sent = {}\<rparr>"
proof -
  let ?E = "mem_env\<lparr>e_transactionCount := (\<lambda>_ _. Inr 3)\<rparr>"
  let ?s = "mem_world_cached (sample_store sample_tx)"
  have E: "engine ?E mem_view"
    using mem_engine.engine_axioms by (simp add: engine_def)
  have chain: "chain_for ?E sample_config 1 = Inr \<lparr>ch_id = 1, ch_rpc = ''http://rpc''\<rparr>"
    using sample_chain by (simp add: chain_for_def)
  have rep: "represents (mem_view (store ?s)) 1 ''0xa'' \<lparr>np_last = Some 5, np_recycled = {}, np_sent = {}\<rparr>"
    using sample_represents by simp
  from resync_recycles_missing [where view = mem_view, OF E _ chain _ rep, of 3 5]
  show ?thesis by simp
qed

text \<open>
  the resync worker stops at the first wallet that needs no resync: the wallets of the
  remaining keys are not looked at, whatever their nonces.
\<close>

theorem resync_stops_early:
  assumes "engine E view" and "config_cache s = Some cfg" and "chain_for E cfg c = Inr chain"
    and "e_transactionCount E c a = Inr tc" and "represents (view (store s)) c a p"
    and "np_last p = Some db" and "db < tc"
    and "a \<noteq> []" and "CHR '':'' \<notin> set a" and "toLowerCase a = a"
  shows "resync_keys E (sentNoncesKey c a # keys) s = (Inr (), snd (resync_wallet E c a s))"
proof -
  have "splitSentNoncesKey (sentNoncesKey c a) = (Some a, Some c)"
    using assms(8-10) js_split_append [of "CHR '':''" "''nonce-sent''"]
    by (simp add: splitSentNoncesKey_def sentNoncesKey_def js_simps nth_opt_def Let_def)
  then show ?thesis
    using engine.resync_wallet_run(1) [OF assms(1-6)] assms(7) by (simp add: bnd_apply)
qed

theorem resync_stops_early_witness:
  "fst (resync_keys mem_env [sentNoncesKey 1 ''0xa'', ''nonce-sent:9''] (mem_world_cached (sample_store sample_tx)))
     = Inr ()"
proof -
  let ?s = "mem_world_cached (sample_store sample_tx)"
  have rep: "represents (mem_view (store ?s)) 1 ''0xa'' \<lparr>np_last = Some 5, np_recycled = {}, np_sent = {}\<rparr>"
    using sample_represents by simp
  have tc: "e_transactionCount mem_env 1 ''0xa'' = Inr 6" by (simp add: mem_env_def)
  have low: "toLowerCase ''0xa'' = ''0xa''" by code_simp
  from resync_stops_early [where view = mem_view, OF mem_engine.engine_axioms _ sample_chain tc rep,
      of 5 "[''nonce-sent:9'']"] low
  show ?thesis by simp
qed

text \<open>
  cancelling the recycled nonces of a wallet leaves in the pool exactly those whose
  cancellation failed with an error other than a used nonce.
\<close>

theorem cancel_leaves_failed:
  assumes "engine E view" and "ready E cfg acc c a s" and "represents (view (store s)) c a p"
    and "a \<noteq> []" and "CHR '':'' \<notin> set a" and "toLowerCase a = a"
  shows "fst (cancel_key E (recycledNoncesKey c a) s) = Inr ()
    \<and> represents (view (store (snd (cancel_key E (recycledNoncesKey c a) s)))) c a
      (p\<lparr>np_recycled := {n \<in> np_recycled p. cancel_fails E cfg acc c a n}\<rparr>)"
  using engine.cancel_key_run [OF assms] by blast

theorem cancel_leaves_failed_witness:
  "represents (mem_view (store (snd (cancel_key mem_env (recycledNoncesKey 1 ''0xa'')
      (mem_world_cached (snd (recycleNonce mem_redis 1 ''0xa'' (Some 3) []))))))) 1 ''0xa''
    \<lparr>np_last = None, np_recycled = {}, np_sent = {}\<rparr>"
proof -
  let ?s = "mem_world_cached (snd (recycleNonce mem_redis 1 ''0xa'' (Some 3) []))"
  have "represents (mem_view []) 1 ''0xa'' \<lparr>np_last = None, np_recycled = {}, np_sent = {}\<rparr>"
    by (simp add: represents_def mem_view_def)
  from mem.recycle_refines(2) [OF this, of 3]
  have rep: "represents (mem_view (store ?s)) 1 ''0xa'' \<lparr>np_last = None, np_recycled = {3}, np_sent = {}\<rparr>"
    by simp
  have rd: "ready mem_env sample_config ''0xa'' 1 ''0xa'' ?s"
    by (simp add: ready_def mem_world_cached_def mem_world_def)
  have "cancel_attempt mem_env sample_config ''0xa'' 1 ''0xa'' n = Inr ''0xh''" for n
    by (simp add: cancel_attempt_def chain_for_def find_override_def sample_config_def
        getChecksumAddress_def mem_env_def)
  then have "\<not> cancel_fails mem_env sample_config ''0xa'' 1 ''0xa'' n" for n
    by (simp add: cancel_fails_def)
  moreover have "toLowerCase ''0xa'' = ''0xa''" by code_simp
  ultimately show ?thesis
    using cancel_leaves_failed [where view = mem_view, OF mem_engine.engine_axioms rd rep] by simp
qed

text \<open>
  a cancellation pays four times the resolved \<open>maxFeePerGas\<close> and exactly the resolved
  \<open>maxPriorityFeePerGas\<close>, where a legacy transaction pays twice the gas price.
\<close>

theorem cancellation_fees_quadrupled:
  "stx_maxFeePerGas (cancellation_fees stx) = map_option (\<lambda>x. 4 * x) (stx_maxFeePerGas stx)
   \<and> stx_maxPriorityFeePerGas (cancellation_fees stx) = stx_maxPriorityFeePerGas stx
   \<and> stx_gasPrice (cancellation_fees stx) = map_option (\<lambda>x. 2 * x) (stx_gasPrice stx)
   \<and> stx_nonce (cancellation_fees stx) = stx_nonce stx"
  by (cases "stx_maxFeePerGas stx"; cases "stx_gasPrice stx")
    (simp_all add: cancellation_fees_def Let_def double_fee_def)

text \<open>
  a wallet is reported stuck exactly when there are three states in its history, the
  on-chain nonce is the same number in all of them, and the nonce of the engine rose from each
  to the next newer one.
\<close>

theorem stuck_states_iff:
  "stuck_states [s1, s2, s3] \<longleftrightarrow>
     (\<exists>o' a b c. s1 = \<lparr>ns_onchain = Some o', ns_largest = Some a\<rparr>
        \<and> s2 = \<lparr>ns_onchain = Some o', ns_largest = Some b\<rparr>
        \<and> s3 = \<lparr>ns_onchain = Some o', ns_largest = Some c\<rparr> \<and> a > b \<and> b > c)"
proof -
  have three: "[0..<3] = [0, 1, 2 :: nat]" by (simp add: upt_rec)
  have st: "s = \<lparr>ns_onchain = x, ns_largest = y\<rparr> \<longleftrightarrow> ns_onchain s = x \<and> ns_largest s = y" for s x y
    by (cases s) simp
  show ?thesis
    by (auto simp: stuck_states_def CHECK_PERIODS_def three st num_eq_def num_gt_def
        split: option.splits)
qed

text \<open>
  the admin view of a wallet with a recycled nonce always fails: it reads the sorted set
  of recycled nonces with a command for plain sets.
\<close>

theorem nonce_details_fails:
  assumes "engine E view" and "represents (view (store s)) c a p" and "np_recycled p \<noteq> {}"
  shows "\<exists>e. fst (nonce_details_of E (Some c, a) s) = Inl e"
proof -
  let ?s1 = "s\<lparr>store := snd (r_get (e_redis E) (lastUsedNonceKey c a) (store s))\<rparr>"
  let ?s2 = "?s1\<lparr>store := snd (r_smembers (e_redis E) (sentNoncesKey c a) (store ?s1))\<rparr>"
  have R: "redis_server (e_redis E) view"
    using assms(1) by (simp add: engine_def transaction_db_def)
  note laws = redis_server.redis_laws [OF R]
  have "\<exists>z. z \<noteq> [] \<and> view (store s) (recycledNoncesKey c a) = Some (RZSet z)"
    using representsD(3,4) [OF assms(2)] assms(3) by (auto dest!: as_zset_SomeD)
  then have "as_set (view (store ?s2) (recycledNoncesKey c a)) = None"
    by (auto simp: laws)
  then have bad: "fst (r_smembers (e_redis E) (recycledNoncesKey c a) (store ?s2)) = Inl wrongtype"
    by (rule redis_server.law_smembers(2) [OF R])
  show ?thesis
    using bad
    by (auto simp: nonce_details_of_def bnd_apply settle_apply redis_do_apply nonce_members_def
        split: sum.split)
qed

theorem nonce_details_fails_witness:
  "\<exists>e. fst (nonce_details_of mem_env (Some 1, ''0xa'')
      (mem_world_cached (snd (recycleNonce mem_redis 1 ''0xa'' (Some 3) [])))) = Inl e"
proof -
  let ?s = "mem_world_cached (snd (recycleNonce mem_redis 1 ''0xa'' (Some 3) []))"
  have "represents (mem_view []) 1 ''0xa'' \<lparr>np_last = None, np_recycled = {}, np_sent = {}\<rparr>"
    by (simp add: represents_def mem_view_def)
  from mem.recycle_refines(2) [OF this, of 3]
  have rep: "represents (mem_view (store ?s)) 1 ''0xa'' \<lparr>np_last = None, np_recycled = {3}, np_sent = {}\<rparr>"
    by simp
  show ?thesis
    using nonce_details_fails [where view = mem_view, OF mem_engine.engine_axioms rep] by simp
qed

end
