(* ===== verification/Tx_Schema.thy ===== *)
theory Tx_Schema
  imports Transaction_DB
begin

text \<open>
  How a transaction is shown to callers: \<open>toTransactionSchema\<close> of
  \<open>src/server/schemas/transaction/index.ts\<close>, with the dates in ISO format, and the status
  messages and shared state of the websocket connections of
  \<open>src/server/utils/websocket.ts\<close>.
\<close>

section \<open>Dates\<close>

text \<open>The date of a day number (day 0 is 1970-01-01) in the proleptic Gregorian calendar.\<close>

definition civil_of_days :: "int \<Rightarrow> int \<times> int \<times> int" where
  "civil_of_days days =
     (let z = days + 719468;
          era = z div 146097;
          doe = z mod 146097;
          yoe = (doe - doe div 1460 + doe div 36524 - doe div 146096) div 365;
          doy = doe - (365 * yoe + yoe div 4 - yoe div 100);
          mp = (5 * doy + 2) div 153;
          d = doy - (153 * mp + 2) div 5 + 1;
          m = (if mp < 10 then mp + 3 else mp - 9);
          y = yoe + era * 400 + (if m \<le> 2 then 1 else 0)
      in (y, m, d))"

definition pad :: "nat \<Rightarrow> int \<Rightarrow> string" where
  "pad w n = (let s = show_nat (nat n) in replicate (w - length s) (CHR ''0'') @ s)"

definition show_year :: "int \<Rightarrow> string" where
  "show_year y = (if 0 \<le> y \<and> y \<le> 9999 then pad 4 y
     else if y < 0 then ''-'' @ pad 6 (- y) else ''+'' @ pad 6 y)"

definition toISOString :: "int \<Rightarrow> string" where
  "toISOString ms =
     (case civil_of_days (ms div 86400000) of (y, m, d) \<Rightarrow>
      let t = ms mod 86400000
      in show_year y @ ''-'' @ pad 2 m @ ''-'' @ pad 2 d @ ''T''
         @ pad 2 (t div 3600000) @ '':'' @ pad 2 (t div 60000 mod 60) @ '':''
         @ pad 2 (t div 1000 mod 60) @ ''.'' @ pad 3 (t mod 1000) @ ''Z'')"

section \<open>The schema\<close>

text \<open>
  The fields that are always null in the source (\<open>initCode\<close>, \<open>callData\<close> and the like) are
  left out. \<^const>\<open>None\<close> is null. \<open>showArgs\<close> is the SDK's \<open>stringify\<close>.
\<close>

record tx_schema =
  ts_queueId :: string
  ts_status :: tx_status
  ts_chainId :: string
  ts_fromAddress :: string
  ts_toAddress :: "string option"
  ts_data :: "string option"
  ts_value :: string
  ts_nonce :: "tx_nonce option"
  ts_deployedContractAddress :: "string option"
  ts_deployedContractType :: "string option"
  ts_functionName :: "string option"
  ts_functionArgs :: "string option"
  ts_extension :: "string option"
  ts_gasLimit :: "string option"
  ts_gasPrice :: "string option"
  ts_maxFeePerGas :: "string option"
  ts_maxPriorityFeePerGas :: "string option"
  ts_transactionType :: "int option"
  ts_transactionHash :: "string option"
  ts_queuedAt :: string
  ts_sentAt :: "string option"
  ts_minedAt :: "string option"
  ts_cancelledAt :: "string option"
  ts_errorMessage :: "string option"
  ts_sentAtBlockNumber :: "int option"
  ts_blockNumber :: "int option"
  ts_retryCount :: int
  ts_onChainTxStatus :: "int option"
  ts_onchainStatus :: "string option"
  ts_effectiveGasPrice :: "string option"
  ts_cumulativeGasUsed :: "string option"
  ts_signerAddress :: string
  ts_accountAddress :: "string option"
  ts_target :: "string option"
  ts_sender :: "string option"
  ts_userOpHash :: "string option"

definition resolveTransactionType :: "transaction \<Rightarrow> int option" where
  "resolveTransactionType t =
     (if tx_status t = Mined then
        Some (if tx_transactionType t = Some ''eip2930'' then 1
              else if tx_transactionType t = Some ''eip1559'' then 2
              else if tx_transactionType t = Some ''eip4844'' then 3 else 0)
      else None)"

definition resolveOnchainTxStatus :: "transaction \<Rightarrow> int option" where
  "resolveOnchainTxStatus t =
     (if tx_status t = Mined then Some (if tx_onchainStatus t = Some ''success'' then 1 else 0)
      else None)"

definition resolveTransactionHash :: "transaction \<Rightarrow> string option" where
  "resolveTransactionHash t = (case tx_status t of
       Sent \<Rightarrow> if \<not> tx_isUserOp t then
                (case tx_sentTransactionHashes t of None \<Rightarrow> None
                 | Some hs \<Rightarrow> if hs = [] then None else Some (last hs))
              else None
     | Mined \<Rightarrow> tx_transactionHash t
     | _ \<Rightarrow> None)"

text \<open>An amount that is 0 shows as null where the source tests the value itself.\<close>

definition show_nonzero :: "int option \<Rightarrow> string option" where
  "show_nonzero v = (case v of None \<Rightarrow> None | Some n \<Rightarrow> if n = 0 then None else Some (show_int n))"

text \<open>
  \<open>retryCount\<close> is \<open>"retryCount" in transaction ? transaction.resendCount : 0\<close>, and no
  transaction has a property of that name. A transaction without value (which the types
  exclude) throws.
\<close>

definition toTransactionSchema :: "(string list \<Rightarrow> string) \<Rightarrow> transaction \<Rightarrow> js_error + tx_schema" where
  "toTransactionSchema showArgs t = (case tx_value t of None \<Rightarrow> Inl js_TypeError
     | Some v \<Rightarrow> Inr \<lparr>ts_queueId = tx_queueId t, ts_status = tx_status t,
        ts_chainId = show_int (tx_chainId t), ts_fromAddress = tx_from t, ts_toAddress = tx_to t,
        ts_data = tx_data t, ts_value = show_int v, ts_nonce = tx_nonce t,
        ts_deployedContractAddress = tx_deployedContractAddress t,
        ts_deployedContractType = tx_deployedContractType t,
        ts_functionName = tx_functionName t, ts_functionArgs = map_option showArgs (tx_functionArgs t),
        ts_extension = tx_extension t, ts_gasLimit = map_option show_int (tx_gas t),
        ts_gasPrice = map_option show_int (tx_gasPrice t),
        ts_maxFeePerGas = map_option show_int (tx_maxFeePerGas t),
        ts_maxPriorityFeePerGas = map_option show_int (tx_maxPriorityFeePerGas t),
        ts_transactionType = resolveTransactionType t,
        ts_transactionHash = resolveTransactionHash t,
        ts_queuedAt = toISOString (tx_queuedAt t),
        ts_sentAt = map_option toISOString (tx_sentAt t),
        ts_minedAt = map_option toISOString (tx_minedAt t),
        ts_cancelledAt = map_option toISOString (tx_cancelledAt t),
        ts_errorMessage = tx_errorMessage t, ts_sentAtBlockNumber = tx_sentAtBlock t,
        ts_blockNumber = tx_minedAtBlock t, ts_retryCount = 0,
        ts_onChainTxStatus = resolveOnchainTxStatus t, ts_onchainStatus = tx_onchainStatus t,
        ts_effectiveGasPrice = show_nonzero (tx_effectiveGasPrice t),
        ts_cumulativeGasUsed = show_nonzero (tx_cumulativeGasUsed t),
        ts_signerAddress = tx_from t, ts_accountAddress = tx_accountAddress t,
        ts_target = tx_target t, ts_sender = tx_sender t, ts_userOpHash = tx_userOpHash t\<rparr>)"

section \<open>Websocket connections\<close>

text \<open>
  The shared list of subscriptions: a socket (its identity) and the queue id. What the
  functions do to sockets is a list of events.
\<close>

type_synonym subscription = "nat \<times> string"

datatype socket_event =
    SocketSend nat string "string option"
  | SocketClose nat

fun findIndex :: "('a \<Rightarrow> bool) \<Rightarrow> 'a list \<Rightarrow> int" where
  "findIndex p [] = - 1"
| "findIndex p (x # xs) = (if p x then 0 else (let i = findIndex p xs in if i = - 1 then - 1 else i + 1))"

text \<open>\<open>arr.splice(i, 1)\<close>: a negative index counts from the end.\<close>

definition splice1 :: "int \<Rightarrow> 'a list \<Rightarrow> 'a list" where
  "splice1 i xs =
     (let k = (if i < 0 then max 0 (int (length xs) + i) else min i (int (length xs)))
      in take (nat k) xs @ drop (nat k + 1) xs)"

definition findWSConnectionInSharedState :: "nat \<Rightarrow> subscription list \<Rightarrow> int" where
  "findWSConnectionInSharedState socket subs = findIndex (\<lambda>sub. fst sub = socket) subs"

definition removeWSFromSharedState :: "nat \<Rightarrow> subscription list \<Rightarrow> int \<times> subscription list" where
  "removeWSFromSharedState socket subs =
     (let index = findWSConnectionInSharedState socket subs
      in if index = - 1 then (- 1, subs) else (index, splice1 index subs))"

definition ws_onError ::
  "string \<Rightarrow> nat \<Rightarrow> subscription list \<Rightarrow> subscription list \<times> socket_event list" where
  "ws_onError message socket subs =
     (let index = findWSConnectionInSharedState socket subs
      in if index = - 1 then (subs, [])
         else (splice1 index subs,
               [SocketSend (fst (subs ! nat index)) (snd (subs ! nat index)) (Some message),
                SocketClose socket]))"

text \<open>The guard on the index is missing here; the answer is an error when there is none.\<close>

definition ws_onMessage ::
  "nat \<Rightarrow> subscription list \<Rightarrow> (js_error + socket_event list) \<times> subscription list" where
  "ws_onMessage socket subs =
     (let index = findWSConnectionInSharedState socket subs
      in if index < 0 then (Inl js_TypeError, splice1 index subs)
         else (Inr [SocketSend (fst (subs ! nat index)) (snd (subs ! nat index))
                      (Some ''Do not send any message. Closing Socket... Reconnect again.''),
                    SocketClose (fst (subs ! nat index))],
               splice1 index subs))"

definition ws_onClose :: "nat \<Rightarrow> subscription list \<Rightarrow> subscription list" where
  "ws_onClose socket subs =
     (let index = findWSConnectionInSharedState socket subs
      in if index = - 1 then subs else splice1 index subs)"

definition findOrAddWSConnectionInSharedState ::
  "nat \<Rightarrow> string \<Rightarrow> subscription list \<Rightarrow> subscription list" where
  "findOrAddWSConnectionInSharedState socket queueId subs =
     (if findWSConnectionInSharedState socket subs > - 1 then subs else subs @ [(socket, queueId)])"

definition getStatusMessageAndConnectionStatus :: "tx_schema option \<Rightarrow> string \<times> bool" where
  "getStatusMessageAndConnectionStatus data = (case data of
       None \<Rightarrow> (''Transaction not found. Make sure the provided ID is correct.'', True)
     | Some d \<Rightarrow>
         if ts_status d = Mined then (''Transaction mined. Closing connection.'', True)
         else if ts_status d = Errored
         then ((if truthy (ts_errorMessage d) then the (ts_errorMessage d)
                else ''Transaction errored. Closing connection.''), True)
         else if ts_status d = Sent
         then (''Transaction submitted to blockchain. Waiting for transaction to be mined...'', False)
         else (''Request is queued. Waiting for transaction to be picked up by worker.'', False))"

section \<open>Facts\<close>

lemma findIndex_nonneg: "findIndex p xs = - 1 \<or> (0 \<le> findIndex p xs \<and> findIndex p xs < int (length xs))"
  by (induction xs) (auto simp: Let_def)

lemma findIndex_none: "findIndex p xs = - 1 \<longleftrightarrow> (\<forall>x \<in> set xs. \<not> p x)"
proof (induction xs)
  case (Cons x xs)
  have "findIndex p xs + 1 \<noteq> - 1" using findIndex_nonneg [of p xs] by auto
  then show ?case using Cons by (simp add: Let_def)
qed simp

lemma findIndex_some: "findIndex p xs \<noteq> - 1 \<Longrightarrow> p (xs ! nat (findIndex p xs))"
proof (induction xs)
  case (Cons x xs)
  then show ?case
    using findIndex_nonneg [of p xs] by (cases "p x") (auto simp: Let_def nat_add_distrib split: if_splits)
qed simp

lemma splice1_index:
  "0 \<le> i \<Longrightarrow> i < int (length xs) \<Longrightarrow> splice1 i xs = take (nat i) xs @ drop (nat i + 1) xs"
  by (simp add: splice1_def)

lemma distinct_remove_nth:
  assumes "distinct (map fst xs)" "i < length xs"
  shows "take i xs @ drop (i + 1) xs = filter (\<lambda>x. fst x \<noteq> fst (xs ! i)) xs"
proof -
  have xs: "xs = take i xs @ xs ! i # drop (i + 1) xs"
    using assms(2) by (simp add: id_take_nth_drop)
  have "distinct (map fst (take i xs) @ fst (xs ! i) # map fst (drop (i + 1) xs))"
    using assms(1) xs by (metis list.simps(9) map_append)
  then have "fst (xs ! i) \<notin> fst ` set (take i xs)" "fst (xs ! i) \<notin> fst ` set (drop (i + 1) xs)"
    by auto
  then have "filter (\<lambda>x. fst x \<noteq> fst (xs ! i)) (take i xs) = take i xs"
    "filter (\<lambda>x. fst x \<noteq> fst (xs ! i)) (drop (i + 1) xs) = drop (i + 1) xs"
    by (auto simp: filter_id_conv image_iff)
  then show ?thesis by (subst (3) xs) (simp add: filter_append)
qed

lemma splice1_find:
  assumes "distinct (map fst subs)"
  shows "(if findWSConnectionInSharedState socket subs = - 1 then subs
      else splice1 (findWSConnectionInSharedState socket subs) subs) =
    filter (\<lambda>sub. fst sub \<noteq> socket) subs"
proof (cases "findWSConnectionInSharedState socket subs = - 1")
  case True
  then show ?thesis by (simp add: findWSConnectionInSharedState_def findIndex_none filter_id_conv)
next
  case False
  let ?i = "findIndex (\<lambda>sub. fst sub = socket) subs"
  have i: "0 \<le> ?i" "?i < int (length subs)" "fst (subs ! nat ?i) = socket"
    using False findIndex_nonneg [of "\<lambda>sub. fst sub = socket" subs]
      findIndex_some [of "\<lambda>sub. fst sub = socket" subs]
    by (auto simp: findWSConnectionInSharedState_def)
  then show ?thesis
    using False distinct_remove_nth [OF assms, of "nat ?i"] splice1_index [OF i(1,2)]
    by (simp add: findWSConnectionInSharedState_def nat_less_iff)
qed

section \<open>Properties\<close>

text \<open>
  the shared list holds every socket at most once: opening adds a socket that is not
  there, closing and errors take out exactly the entry of the socket.
\<close>

theorem ws_shared_state:
  assumes "distinct (map fst subs)"
  shows "distinct (map fst (findOrAddWSConnectionInSharedState socket q subs))
    \<and> socket \<in> fst ` set (findOrAddWSConnectionInSharedState socket q subs)
    \<and> ws_onClose socket subs = filter (\<lambda>sub. fst sub \<noteq> socket) subs
    \<and> fst (ws_onError m socket subs) = filter (\<lambda>sub. fst sub \<noteq> socket) subs
    \<and> snd (removeWSFromSharedState socket subs) = filter (\<lambda>sub. fst sub \<noteq> socket) subs"
proof -
  have "findWSConnectionInSharedState socket subs > - 1 \<longleftrightarrow> socket \<in> fst ` set subs"
    using findIndex_none [of "\<lambda>sub. fst sub = socket" subs]
      findIndex_nonneg [of "\<lambda>sub. fst sub = socket" subs]
    by (auto simp: findWSConnectionInSharedState_def image_iff)
  then show ?thesis
    using assms splice1_find [OF assms, of socket]
    by (auto simp: findOrAddWSConnectionInSharedState_def ws_onClose_def ws_onError_def
        removeWSFromSharedState_def Let_def split: if_splits)
qed

theorem ws_shared_state_witness:
  "ws_onClose 1 [(1, ''a''), (2, ''b'')] = [(2, ''b'')]"
  using ws_shared_state [of "[(1, ''a''), (2, ''b'')]" 1] by simp

text \<open>
  a message on a socket that is not in the shared list removes the last subscription,
  which belongs to another client, and then fails.
\<close>

theorem ws_onMessage_removes_other:
  assumes "socket \<notin> fst ` set subs" and "subs \<noteq> []"
  shows "ws_onMessage socket subs = (Inl js_TypeError, butlast subs)"
proof -
  have "findWSConnectionInSharedState socket subs = - 1"
    using assms(1) by (auto simp: findWSConnectionInSharedState_def findIndex_none image_iff)
  moreover have "splice1 (- 1) subs = butlast subs"
    using assms(2) by (cases subs rule: rev_cases) (simp_all add: splice1_def Let_def)
  ultimately show ?thesis by (simp add: ws_onMessage_def)
qed

theorem ws_onMessage_removes_other_witness:
  "ws_onMessage 3 [(1, ''a''), (2, ''b'')] = (Inl js_TypeError, [(1, ''a'')])"
  using ws_onMessage_removes_other [of 3 "[(1, ''a''), (2, ''b'')]"] by simp

text \<open>
  the shown transaction has its hash while it is sent or mined, its on-chain status as 1
  or 0 exactly when it is mined, and a retry count that is 0 however often it was sent again.
\<close>

theorem toTransactionSchema_fields:
  assumes "toTransactionSchema f t = Inr d"
  shows "ts_retryCount d = 0
    \<and> (ts_onChainTxStatus d = None \<longleftrightarrow> tx_status t \<noteq> Mined)
    \<and> (tx_status t = Mined \<longrightarrow> ts_transactionHash d = tx_transactionHash t)
    \<and> (tx_status t \<notin> {Sent, Mined} \<longrightarrow> ts_transactionHash d = None)
    \<and> ts_queueId d = tx_queueId t \<and> ts_status d = tx_status t"
  using assms
  by (auto simp: toTransactionSchema_def resolveOnchainTxStatus_def resolveTransactionHash_def
      split: option.splits tx_status.splits)

theorem toTransactionSchema_fields_witness:
  "\<exists>d. toTransactionSchema (\<lambda>_. []) (sample_tx\<lparr>tx_resendCount := 2\<rparr>) = Inr d \<and> ts_retryCount d = 0"
proof -
  obtain d where "toTransactionSchema (\<lambda>_. []) (sample_tx\<lparr>tx_resendCount := 2\<rparr>) = Inr d"
    by (simp add: toTransactionSchema_def sample_tx_def)
  with toTransactionSchema_fields [OF this] show ?thesis by blast
qed

end
