(* ===== verification/Tx_Routes.thy ===== *)
theory Tx_Routes
  imports Nonce_Workers Tx_Schema
begin

text \<open>
  The entry points of the transaction life cycle: \<open>insertTransaction\<close>, \<open>queueTransaction\<close>
  and \<open>queueTx\<close>, the routes that cancel, retry and show transactions, and the schema in which
  transactions are shown. A route is a function of the parsed request; its answer is the body
  of a 200 reply, or the error that the error handler turns into a reply.
\<close>

section \<open>Inserting\<close>

text \<open>\<open>error.replace(/[\r\n]+/g, " --- ")\<close>.\<close>

definition is_newline :: "char \<Rightarrow> bool" where
  "is_newline c \<longleftrightarrow> of_char c = (10 :: nat) \<or> of_char c = (13 :: nat)"

fun replace_newlines :: "bool \<Rightarrow> string \<Rightarrow> string" where
  "replace_newlines inside [] = []"
| "replace_newlines inside (c # cs) =
     (if is_newline c
      then (if inside then replace_newlines True cs else '' --- '' @ replace_newlines True cs)
      else c # replace_newlines False cs)"

definition queued_of :: "inserted_transaction \<Rightarrow> string \<Rightarrow> int \<Rightarrow> transaction" where
  "queued_of inserted queueId now =
     inserted_transaction.extend inserted
       (transaction.fields Queued 0 queueId now None None None None None None
          None None None None None None None None None None)"

definition insertTransaction ::
  "'w env \<Rightarrow> inserted_transaction \<Rightarrow> string option \<Rightarrow> bool \<Rightarrow> ('w world, string) io" where
  "insertTransaction E inserted idempotencyKey shouldSimulate =
     (let queueId = (if truthy idempotencyKey then the idempotencyKey else e_randomUUID E) in
      bnd (if truthy idempotencyKey then redis_do (TransactionDB_exists (e_redis E) queueId)
           else ret False) (\<lambda>known.
      if known then ret queueId
      else
        bnd new_Date (\<lambda>now.
        bnd (checksum E (Some (tx_from inserted))) (\<lambda>adr.
        bnd (checksum E (tx_to inserted)) (\<lambda>to.
        bnd (checksum E (tx_signerAddress inserted)) (\<lambda>signer.
        bnd (checksum E (tx_accountAddress inserted)) (\<lambda>account.
        bnd (checksum E (tx_target inserted)) (\<lambda>target.
        bnd (checksum E (tx_sender inserted)) (\<lambda>sender.
        let queued = (queued_of inserted queueId now)\<lparr>
              tx_from := (case adr of None \<Rightarrow> [] | Some a \<Rightarrow> a), tx_to := to,
              tx_signerAddress := signer, tx_accountAddress := account, tx_target := target,
              tx_sender := sender,
              tx_value := Some (case tx_value inserted of None \<Rightarrow> 0 | Some v \<Rightarrow> v)\<rparr> in
        bnd (if shouldSimulate then doSimulateTransaction E queued else ret None) (\<lambda>error.
        if truthy error
        then throw (createCustomError (''Simulation failed: '' @ replace_newlines False (the error))
               400 ''BAD_REQUEST'')
        else
          bnd (db_set E queued) (\<lambda>_.
          bnd (SendTransactionQueue_add queueId 0) (\<lambda>_.
          bnd (reportUsage E ''queue_tx'' queued None None None None) (\<lambda>_.
          bnd (recordMetrics (TransactionQueuedMetric (show_int (tx_chainId queued)) (tx_from queued))) (\<lambda>_.
          ret queueId))))))))))))))"

record tx_overrides =
  ov_gas :: "string option"
  ov_maxFeePerGas :: "string option"
  ov_maxPriorityFeePerGas :: "string option"
  ov_value :: "string option"

definition override_amount :: "'w env \<Rightarrow> string option \<Rightarrow> ('w world, int option) io" where
  "override_amount E val = lift_res (maybeBigInt val (e_BigInt E))"

definition no_inserted :: "int \<Rightarrow> string \<Rightarrow> inserted_transaction" where
  "no_inserted chainId adr = \<lparr>tx_isUserOp = False, tx_chainId = chainId, tx_from = adr, tx_to = None,
     tx_value = None, tx_data = None, tx_functionName = None, tx_functionArgs = None, tx_gas = None,
     tx_gasPrice = None, tx_maxFeePerGas = None, tx_maxPriorityFeePerGas = None,
     tx_deployedContractAddress = None, tx_deployedContractType = None, tx_extension = None,
     tx_signerAddress = None, tx_accountAddress = None, tx_accountFactoryAddress = None,
     tx_target = None, tx_sender = None\<rparr>"

text \<open>
  \<open>queueTransaction\<close>: \<open>encoded\<close> is the answer of the SDK's \<open>encode\<close> on the prepared
  transaction, whose chain is \<open>chainId\<close>.
\<close>

definition queueTransaction ::
  "'w env \<Rightarrow> js_error + string \<Rightarrow> int \<Rightarrow> string \<Rightarrow> string option \<Rightarrow> string option \<Rightarrow> string option
   \<Rightarrow> tx_overrides \<Rightarrow> string option \<Rightarrow> bool \<Rightarrow> ('w world, string) io" where
  "queueTransaction E encoded chainId fromAddress toAddress accountAddress accountFactoryAddress
     txOverrides idempotencyKey shouldSimulate =
     bnd (case encoded of Inl e \<Rightarrow> throw (createCustomError (show_error e) 400 ''BAD_REQUEST'')
          | Inr d \<Rightarrow> ret d) (\<lambda>data.
     bnd (override_amount E (ov_value txOverrides)) (\<lambda>value'.
     bnd (override_amount E (ov_gas txOverrides)) (\<lambda>gas.
     bnd (override_amount E (ov_maxFeePerGas txOverrides)) (\<lambda>maxFee.
     bnd (override_amount E (ov_maxPriorityFeePerGas txOverrides)) (\<lambda>maxPriority.
     let base = (no_inserted chainId fromAddress)\<lparr>tx_to := toAddress, tx_data := Some data,
           tx_value := value', tx_gas := gas, tx_maxFeePerGas := maxFee,
           tx_maxPriorityFeePerGas := maxPriority\<rparr> in
     insertTransaction E
       (if truthy accountAddress
        then base\<lparr>tx_isUserOp := True, tx_accountAddress := accountAddress,
               tx_signerAddress := Some fromAddress, tx_target := toAddress,
               tx_accountFactoryAddress := accountFactoryAddress\<rparr>
        else base\<lparr>tx_isUserOp := False\<rparr>)
       idempotencyKey shouldSimulate)))))"

text \<open>What \<open>queueTx\<close> reads from a transaction of the v4 SDK.\<close>

record sdk_tx =
  sx_method :: string
  sx_encoded :: "js_error + string"
  sx_value :: string
  sx_args :: "string list"
  sx_isUserOp :: bool
  sx_originalSigner :: "js_error + string"
  sx_signerAddress :: "js_error + string"
  sx_target :: string

definition ZERO_ADDRESS :: string where
  "ZERO_ADDRESS = ''0x0000000000000000000000000000000000000000''"

definition queueTx ::
  "'w env \<Rightarrow> sdk_tx \<Rightarrow> int \<Rightarrow> string \<Rightarrow> string option \<Rightarrow> string option \<Rightarrow> bool \<Rightarrow> string option
   \<Rightarrow> tx_overrides \<Rightarrow> string option \<Rightarrow> ('w world, string) io" where
  "queueTx E tx chainId extension deployedContractAddress deployedContractType simulateTx
     idempotencyKey txOverrides accountFactoryAddress =
     bnd (lift_res (sx_encoded tx)) (\<lambda>encodedData.
     bnd (override_amount E (nullish (ov_value txOverrides) (Some (sx_value tx)))) (\<lambda>value'.
     bnd (override_amount E (ov_gas txOverrides)) (\<lambda>gas.
     bnd (override_amount E (ov_maxFeePerGas txOverrides)) (\<lambda>maxFee.
     bnd (override_amount E (ov_maxPriorityFeePerGas txOverrides)) (\<lambda>maxPriority.
     let base = (no_inserted chainId [])\<lparr>tx_value := value', tx_data := Some encodedData,
           tx_functionName := Some (sx_method tx), tx_functionArgs := Some (sx_args tx),
           tx_extension := Some extension, tx_gas := gas, tx_maxFeePerGas := maxFee,
           tx_maxPriorityFeePerGas := maxPriority,
           tx_deployedContractAddress := deployedContractAddress,
           tx_deployedContractType := deployedContractType\<rparr> in
     if sx_isUserOp tx then
       bnd (lift_res (sx_originalSigner tx)) (\<lambda>signer.
       bnd (lift_res (sx_signerAddress tx)) (\<lambda>account.
       let signerAddress = normalizeAddress (Some signer) in
       insertTransaction E
         (base\<lparr>tx_isUserOp := True,
            tx_from := (case signerAddress of None \<Rightarrow> [] | Some a \<Rightarrow> a),
            tx_signerAddress := signerAddress,
            tx_accountAddress := normalizeAddress (Some account),
            tx_target := normalizeAddress (Some (sx_target tx)),
            tx_accountFactoryAddress := accountFactoryAddress\<rparr>)
         idempotencyKey simulateTx))
     else
       bnd (lift_res (sx_signerAddress tx)) (\<lambda>signer.
       let isPublishedContractDeploy = (sx_target tx = ZERO_ADDRESS \<and> sx_method tx = ''deploy''
             \<and> extension = ''deploy-published'') in
       insertTransaction E
         (base\<lparr>tx_isUserOp := False,
            tx_from := (case normalizeAddress (Some signer) of None \<Rightarrow> [] | Some a \<Rightarrow> a),
            tx_to := normalizeAddress (if isPublishedContractDeploy then None else Some (sx_target tx))\<rparr>)
         idempotencyKey simulateTx))))))"

section \<open>Cancelling and retrying\<close>

definition not_found :: js_error where
  "not_found = createCustomError ''Transaction not found.'' 400 ''TRANSACTION_NOT_FOUND''"

definition route_get :: "'w env \<Rightarrow> string \<Rightarrow> ('w world, transaction) io" where
  "route_get E queueId =
     bnd (db_get E queueId) (\<lambda>found. case found of None \<Rightarrow> throw not_found | Some t \<Rightarrow> ret t)"

definition cancel_reportUsageSuccess :: "'w env \<Rightarrow> transaction \<Rightarrow> ('w world, unit) io" where
  "cancel_reportUsageSuccess E t =
     bnd (getChain E (tx_chainId t)) (\<lambda>chain.
     bnd (msSince (tx_queuedAt t)) (\<lambda>queue.
     case tx_sentAt t of
       None \<Rightarrow> throw js_TypeError
     | Some sentAt \<Rightarrow> bnd (msSince sentAt) (\<lambda>send.
         reportUsage E ''cancel_tx'' t (Some (ch_rpc chain)) (Some queue) (Some send) None)))"

definition cancel_queued :: "'w env \<Rightarrow> string \<Rightarrow> transaction \<Rightarrow> ('w world, transaction) io" where
  "cancel_queued E queueId t =
     bnd (getConfig E True) (\<lambda>config.
     bnd (for_each [0..cfg_maxRetriesPerTx config - 1] (SendTransactionQueue_remove queueId)) (\<lambda>_.
     bnd new_Date (\<lambda>now.
     bnd (getBlockNumberish E (tx_chainId t)) (\<lambda>block.
     ret (t\<lparr>tx_status := Cancelled, tx_cancelledAt := Some now, tx_sentAt := Some now,
            tx_sentAtBlock := Some block, tx_isUserOp := False,
            tx_nonce := Some (NumNonce (Some (- 1))), tx_sentTransactionHashes := Some []\<rparr>)))))"

definition cancel_sent :: "'w env \<Rightarrow> transaction \<Rightarrow> ('w world, transaction) io" where
  "cancel_sent E t =
     bnd (lift_res (nonce_arg t)) (\<lambda>nonce.
     bnd (sendCancellationTransaction E (tx_chainId t) (tx_from t) nonce) (\<lambda>hash.
     bnd new_Date (\<lambda>now.
     ret (t\<lparr>tx_status := Cancelled, tx_cancelledAt := Some now,
            tx_sentTransactionHashes := Some [hash]\<rparr>))))"

definition cancelTransactionRoute ::
  "'w env \<Rightarrow> string \<Rightarrow> ('w world, string \<times> string \<times> string option) io" where
  "cancelTransactionRoute E queueId =
     bnd (route_get E queueId) (\<lambda>t.
     bnd (if \<not> tx_isUserOp t \<and> tx_status t = Queued then bnd (cancel_queued E queueId t) (\<lambda>c. ret (Some c))
          else if \<not> tx_isUserOp t \<and> tx_status t = Sent then bnd (cancel_sent E t) (\<lambda>c. ret (Some c))
          else ret None) (\<lambda>cancelled.
     case cancelled of
       None \<Rightarrow> throw (createCustomError ''Transaction cannot be cancelled.'' 400
                ''TRANSACTION_CANNOT_BE_CANCELLED'')
     | Some c \<Rightarrow>
         bnd (db_set E c) (\<lambda>_.
         bnd (enqueueTransactionWebhook E c) (\<lambda>_.
         bnd (cancel_reportUsageSuccess E c) (\<lambda>_.
         ret (queueId, ''Transaction successfully cancelled.'',
              case tx_sentTransactionHashes c of None \<Rightarrow> None
              | Some hs \<Rightarrow> if hs = [] then None else Some (last hs)))))))"

definition cannot_retry :: "string \<Rightarrow> js_error" where
  "cannot_retry message = createCustomError message 400 ''TRANSACTION_CANNOT_BE_RETRIED''"

definition retryTransactionRoute ::
  "'w env \<Rightarrow> string \<Rightarrow> string option \<Rightarrow> string option \<Rightarrow> ('w world, string) io" where
  "retryTransactionRoute E queueId maxFeePerGas maxPriorityFeePerGas =
     bnd (route_get E queueId) (\<lambda>t.
     if tx_status t \<noteq> Sent then throw (cannot_retry ''Transaction cannot be retried.'')
     else
       bnd (override_amount E maxFeePerGas) (\<lambda>maxFee.
       bnd (override_amount E maxPriorityFeePerGas) (\<lambda>maxPriority.
       let sent = t\<lparr>tx_maxFeePerGas := maxFee, tx_maxPriorityFeePerGas := maxPriority\<rparr> in
       bnd (db_set E sent) (\<lambda>_.
       bnd (SendTransactionQueue_add (tx_queueId sent) (tx_resendCount sent + 1)) (\<lambda>_.
       ret (''Transaction gas values updated for queueId: '' @ queueId))))))"

fun status_string :: "tx_status \<Rightarrow> string" where
  "status_string Queued = ''queued''"
| "status_string Sent = ''sent''"
| "status_string Mined = ''mined''"
| "status_string Cancelled = ''cancelled''"
| "status_string Errored = ''errored''"

text \<open>
  \<open>remove_job\<close> is the answer of BullMQ to the removal of a job: nothing when there is no such
  job, and an error for a job that is running.
\<close>

definition remove_existing ::
  "(string \<Rightarrow> string \<Rightarrow> (js_error + unit) option) \<Rightarrow> string \<Rightarrow> string \<Rightarrow> ('w world, unit) io" where
  "remove_existing remove_job queue jobId = (case remove_job queue jobId of
       None \<Rightarrow> ret ()
     | Some answer \<Rightarrow> bnd (lift_res answer) (\<lambda>_. emit (RemoveJob queue jobId)))"

definition retryFailedRoute ::
  "'w env \<Rightarrow> (string \<Rightarrow> string \<Rightarrow> (js_error + unit) option) \<Rightarrow> string \<Rightarrow> ('w world, string) io" where
  "retryFailedRoute E remove_job queueId =
     bnd (route_get E queueId) (\<lambda>t.
     if tx_status t \<noteq> Errored
     then throw (cannot_retry (''Transaction cannot be retried because status: '' @ status_string (tx_status t)))
     else if tx_isUserOp t
     then throw (cannot_retry ''Transaction cannot be retried because it is a userop'')
     else
       bnd (getChain E (tx_chainId t)) (\<lambda>chain.
       case (case tx_sentTransactionHashes t of None \<Rightarrow> None
             | Some hashes \<Rightarrow> first_receipt (map (e_transactionReceipt E chain) hashes)) of
         Some receipt \<Rightarrow> throw (cannot_retry
            (''Transaction cannot be retried because it has already been mined with hash: ''
             @ rc_transactionHash receipt))
       | None \<Rightarrow>
           bnd (remove_existing remove_job ''transactions-1-send'' (SendTransactionQueue_jobId (tx_queueId t) 0)) (\<lambda>_.
           bnd (remove_existing remove_job ''transactions-2-mine'' (MineTransactionQueue_jobId (tx_queueId t))) (\<lambda>_.
           bnd (SendTransactionQueue_add (tx_queueId t) 0) (\<lambda>_.
           ret (''Transaction queued for retry with queueId: '' @ queueId))))))"

definition syncRetryRoute ::
  "'w env \<Rightarrow> string \<Rightarrow> string option \<Rightarrow> string option \<Rightarrow> ('w world, string) io" where
  "syncRetryRoute E queueId maxFeePerGas maxPriorityFeePerGas =
     bnd (route_get E queueId) (\<lambda>t.
     if tx_status t \<noteq> Sent \<or> tx_isUserOp t then throw (cannot_retry ''Transaction cannot be retried.'')
     else
       bnd (checksum E (Some (tx_from t))) (\<lambda>adr.
       bnd (getChain E (tx_chainId t)) (\<lambda>chain.
       bnd (override_amount E maxFeePerGas) (\<lambda>maxFee.
       bnd (override_amount E maxPriorityFeePerGas) (\<lambda>maxPriority.
       bnd (lift_res (e_toSerializable E chain adr ((request_of t)\<lparr>rq_maxFeePerGas := maxFee,
              rq_maxPriorityFeePerGas := maxPriority\<rparr>))) (\<lambda>populated.
       bnd (getAccount E (tx_chainId t) (tx_from t) None) (\<lambda>acc.
       bnd (send_rpc E acc populated) (\<lambda>transactionHash.
       bnd new_Date (\<lambda>now.
       bnd (getBlockNumberish E (tx_chainId t)) (\<lambda>block.
       case tx_sentTransactionHashes t of
         None \<Rightarrow> throw js_TypeError
       | Some hashes \<Rightarrow>
           let sent = t\<lparr>tx_resendCount := tx_resendCount t + 1, tx_sentAt := Some now,
                 tx_sentAtBlock := Some block,
                 tx_sentTransactionHashes := Some (hashes @ [transactionHash]),
                 tx_gas := stx_gas populated, tx_gasPrice := stx_gasPrice populated,
                 tx_maxFeePerGas := stx_maxFeePerGas populated,
                 tx_maxPriorityFeePerGas := stx_maxPriorityFeePerGas populated\<rparr> in
           bnd (db_set E sent) (\<lambda>_.
           bnd (MineTransactionQueue_add (tx_queueId sent)) (\<lambda>_.
           bnd (enqueueTransactionWebhook E sent) (\<lambda>_.
           ret transactionHash)))))))))))))"

section \<open>Showing\<close>

definition checkTxStatusRoute ::
  "'w env \<Rightarrow> (string list \<Rightarrow> string) \<Rightarrow> string \<Rightarrow> ('w world, tx_schema) io" where
  "checkTxStatusRoute E showArgs queueId =
     bnd (route_get E queueId) (\<lambda>t. lift_res (toTransactionSchema showArgs t))"

text \<open>
  The websocket handler: the socket is in the list of subscriptions before the transaction is
  read; the first message, and whether the connection is closed, follow from what is read.
\<close>

definition checkTxStatusSocket ::
  "'w env \<Rightarrow> (string list \<Rightarrow> string) \<Rightarrow> nat \<Rightarrow> string \<Rightarrow> subscription list
   \<Rightarrow> ('w world, string \<times> bool) io \<times> subscription list" where
  "checkTxStatusSocket E showArgs socket queueId subs =
     (bnd (db_get E queueId) (\<lambda>found.
      bnd (case found of None \<Rightarrow> ret None
           | Some t \<Rightarrow> bnd (lift_res (toTransactionSchema showArgs t)) (\<lambda>d. ret (Some d))) (\<lambda>data.
      ret (getStatusMessageAndConnectionStatus data))),
      findOrAddWSConnectionInSharedState socket queueId subs)"

definition getAllTransactionsRoute ::
  "'w env \<Rightarrow> (string list \<Rightarrow> string) \<Rightarrow> tx_status \<Rightarrow> int \<Rightarrow> int \<Rightarrow> ('w world, tx_schema list \<times> int) io" where
  "getAllTransactionsRoute E showArgs status page limit =
     bnd (redis_do (getTransactionListByStatus (e_redis E) (e_codec E) (e_batchSize E) status page limit))
       (\<lambda>(transactions, totalCount).
     bnd (lift_res (map_res (toTransactionSchema showArgs) transactions)) (\<lambda>shown.
     ret (shown, totalCount)))"

record job_info =
  ji_timestamp :: int
  ji_processedOn :: "int option"
  ji_finishedOn :: "int option"

record job_details =
  jd_queue :: string
  jd_jobId :: string
  jd_timestamp :: string
  jd_processedOn :: "string option"
  jd_finishedOn :: "string option"
  jd_lines :: "string list"

text \<open>\<open>get_job\<close> is the answer of BullMQ to \<open>getJob\<close>; the log lines are read from Redis.\<close>

definition getJobDetails ::
  "'w env \<Rightarrow> (string \<Rightarrow> string \<Rightarrow> job_info option) \<Rightarrow> string \<Rightarrow> string \<Rightarrow> ('w world, job_details option) io" where
  "getJobDetails E get_job queue jobId =
     (case get_job queue jobId of
        None \<Rightarrow> ret None
      | Some job \<Rightarrow>
          bnd (redis_do (r_lrange (e_redis E) (''bull:'' @ queue @ '':'' @ jobId @ '':logs'') 0 (- 1))) (\<lambda>lines.
          case maybeDate (Some (ji_timestamp job)) of
            None \<Rightarrow> throw js_TypeError
          | Some t \<Rightarrow>
              ret (Some \<lparr>jd_queue = queue, jd_jobId = jobId, jd_timestamp = toISOString t,
                jd_processedOn = map_option toISOString (maybeDate (ji_processedOn job)),
                jd_finishedOn = map_option toISOString (maybeDate (ji_finishedOn job)),
                jd_lines = lines\<rparr>)))"

fun send_job_details ::
  "'w env \<Rightarrow> (string \<Rightarrow> string \<Rightarrow> job_info option) \<Rightarrow> string \<Rightarrow> int list \<Rightarrow> ('w world, job_details list) io" where
  "send_job_details E get_job queueId [] = ret []"
| "send_job_details E get_job queueId (resendCount # rest) =
     bnd (getJobDetails E get_job ''transactions-1-send'' (SendTransactionQueue_jobId queueId resendCount)) (\<lambda>d.
     bnd (send_job_details E get_job queueId rest) (\<lambda>ds.
     ret (case d of None \<Rightarrow> ds | Some x \<Rightarrow> x # ds)))"

definition getTransactionDetailsRoute ::
  "'w env \<Rightarrow> (string \<Rightarrow> string \<Rightarrow> job_info option) \<Rightarrow> string \<Rightarrow> ('w world, transaction \<times> job_details list) io" where
  "getTransactionDetailsRoute E get_job queueId =
     bnd (route_get E queueId) (\<lambda>t.
     bnd (getConfig E True) (\<lambda>config.
     bnd (send_job_details E get_job queueId [0..cfg_maxRetriesPerTx config - 1]) (\<lambda>jobs.
     bnd (getJobDetails E get_job ''transactions-2-mine'' (MineTransactionQueue_jobId queueId)) (\<lambda>d.
     ret (t, jobs @ (case d of None \<Rightarrow> [] | Some x \<Rightarrow> [x]))))))"

section \<open>Facts\<close>

definition send_job :: "string \<Rightarrow> effect" where
  "send_job q = AddJob ''transactions-1-send'' (SendTransactionQueue_jobId q 0) (SendTransactionData q 0)
     \<lparr>jo_jobId = Some (SendTransactionQueue_jobId q 0), jo_attempts = None, jo_delay = None\<rparr>"

text \<open>The queued transaction an insertion makes, when all addresses have checksums.\<close>

definition insert_result :: "'w env \<Rightarrow> inserted_transaction \<Rightarrow> string \<Rightarrow> int \<Rightarrow> js_error + transaction" where
  "insert_result E inserted queueId now =
     (let cs = getChecksumAddress (e_checksumAddress E) in
      case cs (Some (tx_from inserted)) of Inl e \<Rightarrow> Inl e | Inr adr \<Rightarrow>
      (case cs (tx_to inserted) of Inl e \<Rightarrow> Inl e | Inr to \<Rightarrow>
      (case cs (tx_signerAddress inserted) of Inl e \<Rightarrow> Inl e | Inr signer \<Rightarrow>
      (case cs (tx_accountAddress inserted) of Inl e \<Rightarrow> Inl e | Inr account \<Rightarrow>
      (case cs (tx_target inserted) of Inl e \<Rightarrow> Inl e | Inr target \<Rightarrow>
      (case cs (tx_sender inserted) of Inl e \<Rightarrow> Inl e | Inr sender \<Rightarrow>
        Inr ((queued_of inserted queueId now)\<lparr>
              tx_from := (case adr of None \<Rightarrow> [] | Some a \<Rightarrow> a), tx_to := to,
              tx_signerAddress := signer, tx_accountAddress := account, tx_target := target,
              tx_sender := sender,
              tx_value := Some (case tx_value inserted of None \<Rightarrow> 0 | Some v \<Rightarrow> v)\<rparr>)))))))"

lemma insert_result_queued:
  assumes "insert_result E inserted q now = Inr t"
  shows "tx_status t = Queued" "tx_queueId t = q" "tx_queuedAt t = now" "tx_value t \<noteq> None"
    "tx_resendCount t = 0"
  using assms
  by (auto simp: insert_result_def queued_of_def Let_def transaction.defs inserted_transaction.defs
      split: sum.splits)

text \<open>Insertion up to the simulation, as one step.\<close>

lemma insert_run:
  assumes "\<not> known" "insert_result E inserted q (clock s) = Inr t"
  shows "(if known then ret q
      else
        bnd new_Date (\<lambda>now.
        bnd (checksum E (Some (tx_from inserted))) (\<lambda>adr.
        bnd (checksum E (tx_to inserted)) (\<lambda>to.
        bnd (checksum E (tx_signerAddress inserted)) (\<lambda>signer.
        bnd (checksum E (tx_accountAddress inserted)) (\<lambda>account.
        bnd (checksum E (tx_target inserted)) (\<lambda>target.
        bnd (checksum E (tx_sender inserted)) (\<lambda>sender.
        f ((queued_of inserted q now)\<lparr>
              tx_from := (case adr of None \<Rightarrow> [] | Some a \<Rightarrow> a), tx_to := to,
              tx_signerAddress := signer, tx_accountAddress := account, tx_target := target,
              tx_sender := sender,
              tx_value := Some (case tx_value inserted of None \<Rightarrow> 0 | Some v \<Rightarrow> v)\<rparr>))))))))) s = f t s"
  using assms
  by (auto simp: insert_result_def bnd_apply checksum_def new_Date_apply Let_def split: sum.splits)


text \<open>What follows the check for a known idempotency key.\<close>

definition insert_tail :: "'w env \<Rightarrow> string \<Rightarrow> bool \<Rightarrow> transaction \<Rightarrow> ('w world, string) io" where
  "insert_tail E q shouldSimulate queued =
     bnd (if shouldSimulate then doSimulateTransaction E queued else ret None) (\<lambda>error.
     if truthy error
     then throw (createCustomError (''Simulation failed: '' @ replace_newlines False (the error))
            400 ''BAD_REQUEST'')
     else
       bnd (db_set E queued) (\<lambda>_.
       bnd (SendTransactionQueue_add q 0) (\<lambda>_.
       bnd (reportUsage E ''queue_tx'' queued None None None None) (\<lambda>_.
       bnd (recordMetrics (TransactionQueuedMetric (show_int (tx_chainId queued)) (tx_from queued))) (\<lambda>_.
       ret q)))))"

definition queue_id :: "'w env \<Rightarrow> string option \<Rightarrow> string" where
  "queue_id E key = (if truthy key then the key else e_randomUUID E)"

context engine
begin

text \<open>The state after looking for the key: nothing but the client of the store changes.\<close>

definition looked :: "string option \<Rightarrow> 'w world \<Rightarrow> 'w world" where
  "looked key s = (if truthy key
     then s\<lparr>store := snd (TransactionDB_exists (e_redis E) (the key) (store s))\<rparr> else s)"

lemma looked_store: "\<exists>w. looked key s = s\<lparr>store := w\<rparr>"
proof (cases "truthy key")
  case False
  then have "looked key s = s\<lparr>store := store s\<rparr>" by (simp add: looked_def)
  then show ?thesis ..
qed (auto simp: looked_def)

lemma looked_keeps: "view (store (looked key s)) = view (store s)" "effects (looked key s) = effects s"
  "clock (looked key s) = clock s"
  by (simp_all add: looked_def exists_run)

lemma insert_known:
  assumes "truthy key" "view (store s) (transactionDetailsKey (the key)) \<noteq> None"
  shows "insertTransaction E inserted key sim s = (Inr (the key), looked key s)"
  using assms by (simp add: insertTransaction_def Let_def bnd_apply redis_do_apply exists_run looked_def)

lemma insert_new:
  assumes "truthy key \<longrightarrow> view (store s) (transactionDetailsKey (the key)) = None"
    and "insert_result E inserted (queue_id E key) (clock s) = Inr t"
  shows "insertTransaction E inserted key sim s = insert_tail E (queue_id E key) sim t (looked key s)"
proof -
  have clock: "insert_result E inserted (queue_id E key) (clock (looked key s)) = Inr t"
    using assms(2) by (simp add: looked_keeps)
  have first: "(if truthy key then redis_do (TransactionDB_exists (e_redis E) (queue_id E key))
      else ret False) s = (Inr False, looked key s)"
    using assms(1) by (simp add: redis_do_apply exists_run looked_def queue_id_def)
  show ?thesis
    using insert_run [OF _ clock, of False "insert_tail E (queue_id E key) sim"]
    unfolding insertTransaction_def Let_def queue_id_def [symmetric] insert_tail_def
    by (simp add: bnd_apply [of _ _ s] first)
qed

lemma insert_tail_stores:
  assumes t: "tx_status t = Queued" "tx_queueId t = q"
    and sim: "sim \<longrightarrow> fst (doSimulateTransaction E t s) = Inr None"
  shows "fst (insert_tail E q sim t s) = Inr q"
    and "stored (e_codec E) (view (store (snd (insert_tail E q sim t s)))) q = Some t"
    and "send_job q \<in> set (effects (snd (insert_tail E q sim t s)))"
proof -
  let ?s1 = "snd ((if sim then doSimulateTransaction E t else ret None) s)"
  let ?rest = "bnd (SendTransactionQueue_add q 0) (\<lambda>_.
       bnd (reportUsage E ''queue_tx'' t None None None None) (\<lambda>_.
       bnd (recordMetrics (TransactionQueuedMetric (show_int (tx_chainId t)) (tx_from t))) (\<lambda>_.
       ret q)))"
  have entry: "status_entry now t \<noteq> Some (k, None)" for now k
    using t by (auto simp: status_entry_def)
  have run: "insert_tail E q sim t s = ?rest (snd (db_set E t ?s1))"
    using sim db_set_run(1) [OF entry] by (cases sim) (simp_all add: insert_tail_def bnd_apply)
  have keep: "keeps_keys view {transactionDetailsKey q} ?rest"
    by (auto simp: SendTransactionQueue_add_def Let_def intro!: keeps_bnd)
  show "fst (insert_tail E q sim t s) = Inr q"
    unfolding run by (simp add: SendTransactionQueue_add_def Let_def bnd_apply emit_apply reportUsage_def
        recordMetrics_def)
  show "stored (e_codec E) (view (store (snd (insert_tail E q sim t s)))) q = Some t"
    unfolding run using keeps_keysD(1) [OF keep, of _ "snd (db_set E t ?s1)"] db_set_run(2) [OF entry] t(2)
    by (intro stored_details) auto
  show "send_job q \<in> set (effects (snd (insert_tail E q sim t s)))"
    unfolding run by (simp add: SendTransactionQueue_add_def Let_def bnd_apply emit_apply reportUsage_def
        recordMetrics_def send_job_def)
qed

lemma insert_tail_refused:
  assumes "fst (doSimulateTransaction E t s) = Inr (Some m)" "m \<noteq> []"
  shows "fst (insert_tail E q True t s) =
      Inl (createCustomError (''Simulation failed: '' @ replace_newlines False m) 400 ''BAD_REQUEST'')"
    and "store (snd (insert_tail E q True t s)) = store s"
    and "effects (snd (insert_tail E q True t s)) = effects s"
  using assms quietD [OF quiet_doSimulate, of E t s] by (simp_all add: insert_tail_def bnd_apply)

lemma route_get_run:
  assumes "details_ok (e_codec E) (view (store s)) q" "stored (e_codec E) (view (store s)) q = Some t"
  shows "route_get E q s = (Inr t, snd (db_get E q s))"
  using db_get_run(1) [OF assms(1)] assms(2) by (simp add: route_get_def bnd_apply)

text \<open>Storing a transaction and anything that keeps its details leaves it in the store.\<close>

lemma db_set_then:
  assumes "\<And>now k. status_entry now t \<noteq> Some (k, None)"
    and "keeps_keys view {transactionDetailsKey (tx_queueId t)} rest"
  shows "stored (e_codec E) (view (store (snd (rest (snd (db_set E t s)))))) (tx_queueId t) = Some t"
    and "details_ok (e_codec E) (view (store (snd (rest (snd (db_set E t s)))))) (tx_queueId t)"
  using keeps_keysD(1) [OF assms(2), of _ "snd (db_set E t s)"] db_set_run(2) [OF assms(1)]
  by (auto simp: details_ok_def intro!: stored_details)

lemma cancel_queued_result:
  assumes "fst (cancel_queued E q t s) = Inr c"
  shows "tx_status c = Cancelled" "tx_queueId c = tx_queueId t" "tx_cancelledAt c \<noteq> None"
  using assms by (auto simp: cancel_queued_def dest!: bnd_Inr)

lemma keeps_cancel_report: "keeps_keys view K (cancel_reportUsageSuccess E t)"
  unfolding cancel_reportUsageSuccess_def by (auto intro!: keeps_bnd split: option.split)

lemma cancel_queued_stored:
  assumes ok: "details_ok (e_codec E) (view (store s)) q"
    and st: "stored (e_codec E) (view (store s)) q = Some t" "tx_queueId t = q"
    and tx: "tx_status t = Queued" "\<not> tx_isUserOp t"
    and run: "fst (cancelTransactionRoute E q s) = Inr x"
  defines "s' \<equiv> snd (cancelTransactionRoute E q s)"
  shows "\<exists>c. stored (e_codec E) (view (store s')) q = Some c \<and> tx_status c = Cancelled
    \<and> details_ok (e_codec E) (view (store s')) q"
proof -
  let ?s1 = "snd (db_get E q s)"
  obtain c where c: "fst (cancel_queued E q t ?s1) = Inr c"
    using run tx route_get_run [OF ok st(1)]
    by (cases "fst (cancel_queued E q t ?s1)") (auto simp: cancelTransactionRoute_def bnd_apply)
  note r = cancel_queued_result [OF c]
  have entry: "status_entry now c \<noteq> Some (k, None)" for now k
    using r by (auto simp: status_entry_def)
  let ?rest = "bnd (enqueueTransactionWebhook E c) (\<lambda>_. bnd (cancel_reportUsageSuccess E c) (\<lambda>_.
         ret (q, ''Transaction successfully cancelled.'',
              case tx_sentTransactionHashes c of None \<Rightarrow> None
              | Some hs \<Rightarrow> if hs = [] then None else Some (last hs))))"
  have "s' = snd (?rest (snd (db_set E c (snd (cancel_queued E q t ?s1)))))"
    using tx route_get_run [OF ok st(1)] c db_set_run(1) [OF entry]
    by (simp add: s'_def cancelTransactionRoute_def bnd_apply)
  moreover have "keeps_keys view {transactionDetailsKey (tx_queueId c)} ?rest"
    by (auto intro!: keeps_bnd keeps_cancel_report)
  ultimately show ?thesis using db_set_then [OF entry, of ?rest] r st(2) by auto
qed

lemma cancel_refused:
  assumes "details_ok (e_codec E) (view (store s)) q" "stored (e_codec E) (view (store s)) q = Some t"
    and "tx_isUserOp t \<or> tx_status t \<notin> {Queued, Sent}"
  shows "cancelTransactionRoute E q s = (Inl (createCustomError ''Transaction cannot be cancelled.'' 400
      ''TRANSACTION_CANNOT_BE_CANCELLED''), snd (db_get E q s))"
  using assms(3) by (auto simp: cancelTransactionRoute_def bnd_apply route_get_run [OF assms(1,2)])

text \<open>The removals that a retry makes.\<close>

definition removed :: "(string \<Rightarrow> string \<Rightarrow> (js_error + unit) option) \<Rightarrow> string \<Rightarrow> string \<Rightarrow> effect list" where
  "removed remove_job queue j = (if remove_job queue j = None then [] else [RemoveJob queue j])"

lemma remove_existing_run:
  assumes "\<And>queue j e. remove_job queue j \<noteq> Some (Inl e)"
  shows "remove_existing remove_job queue j s = (Inr (), s\<lparr>effects := effects s @ removed remove_job queue j\<rparr>)"
  using assms [of queue j]
  by (auto simp: remove_existing_def removed_def bnd_apply emit_apply split: option.split sum.split)

text \<open>A retry by hand: refused for a mined transaction, otherwise the send job is queued again.\<close>

lemma retry_failed_run:
  assumes ok: "details_ok (e_codec E) (view (store s)) q"
    and st: "stored (e_codec E) (view (store s)) q = Some t" "tx_queueId t = q"
    and tx: "tx_status t = Errored" "\<not> tx_isUserOp t"
    and cfg: "config_cache s = Some cfg" "chain_for E cfg (tx_chainId t) = Inr chain"
    and remove: "\<And>queue j e. remove_job queue j \<noteq> Some (Inl e)"
  shows "retryFailedRoute E remove_job q s =
    (case receipt_for E chain t of
       Some receipt \<Rightarrow> (Inl (cannot_retry
            (''Transaction cannot be retried because it has already been mined with hash: ''
             @ rc_transactionHash receipt)), snd (db_get E q s))
     | None \<Rightarrow> (Inr (''Transaction queued for retry with queueId: '' @ q),
         (snd (db_get E q s))\<lparr>effects := effects s
            @ removed remove_job ''transactions-1-send'' (SendTransactionQueue_jobId q 0)
            @ removed remove_job ''transactions-2-mine'' (MineTransactionQueue_jobId q)
            @ [send_job q]\<rparr>))"
proof -
  have "config_cache (snd (db_get E q s)) = Some cfg" using cfg(1) by (simp add: redis_do_apply)
  note chain = getChain_cached [OF this, of E "tx_chainId t"]
  show ?thesis
    using st(2) tx cfg(2)
    by (auto simp: retryFailedRoute_def bnd_apply route_get_run [OF ok st(1)] chain receipt_for_def
        remove_existing_run [OF remove] emit_apply SendTransactionQueue_add_def Let_def send_job_def
        db_get_run(3) [OF ok] split: option.split)
qed

text \<open>An errored transaction starts again when its job is the first one.\<close>

lemma handler_requeues:
  assumes ok: "details_ok (e_codec E) (view (store s)) q"
    and st: "stored (e_codec E) (view (store s)) q = Some t" "tx_queueId t = q" "tx_status t = Errored"
    and run: "fst (sendTransactionHandler E q 0 s) = Inr ()"
  shows "\<exists>t'. stored (e_codec E) (view (store (snd (sendTransactionHandler E q 0 s)))) q = Some t'
    \<and> (tx_status t' = Errored
      \<or> tx_status t' = Sent \<and> mine_job q \<in> set (effects (snd (sendTransactionHandler E q 0 s))))"
proof -
  let ?s1 = "snd (db_get E q s)"
  let ?t = "requeue (clock s) t"
  have t: "tx_status ?t = Queued" "tx_queueId ?t = q" using st by (simp_all add: requeue_def)
  have step: "sendTransactionHandler E q 0 s =
      bnd (send_dispatch E ?t 0) (\<lambda>r. case r of Some (Some result) \<Rightarrow> send_finish E ?t result | _ \<Rightarrow> ret ()) ?s1"
    using db_get_run [OF ok] st by (simp add: sendTransactionHandler_def bnd_apply new_Date_apply)
  then obtain x where x: "fst (send_dispatch E ?t 0 ?s1) = Inr x" using run by (auto dest!: bnd_Inr)
  obtain r where r: "x = Some (Some r)" "tx_status r \<in> {Sent, Errored}" "tx_queueId r = q"
    using send_dispatch_queued [OF t(1) x] t(2) by auto
  have final: "sendTransactionHandler E q 0 s = send_finish E ?t r (snd (send_dispatch E ?t 0 ?s1))"
    using step x r(1) by (simp add: bnd_apply)
  show ?thesis
    using send_finish_stores [OF r(2), of ?t "snd (send_dispatch E ?t 0 ?s1)"]
      send_finish_mines [of r ?t "snd (send_dispatch E ?t 0 ?s1)"] r run
    unfolding final by auto
qed

end

section \<open>Properties\<close>

definition sample_inserted :: inserted_transaction where
  "sample_inserted = (no_inserted 1 ''0xa'')\<lparr>tx_to := Some ''0xb'', tx_data := Some ''0x''\<rparr>"

lemma sample_insert_result:
  "\<exists>t. insert_result mem_env sample_inserted q now = Inr t"
  by (simp add: insert_result_def Let_def getChecksumAddress_def mem_env_def sample_inserted_def no_inserted_def)

text \<open>
  C7: an accepted transaction is in the store as queued, under its idempotency key or a fresh
  queue id, and its first send job is in the queue; inserting again under the same key answers
  the same id and neither changes the store nor adds a job.
\<close>

theorem insert_idempotent:
  assumes "engine E view" and "key = Some q" and "q \<noteq> []"
    and "view (store s) (transactionDetailsKey q) = None"
    and "insert_result E inserted q (clock s) = Inr t"
    and "\<forall>w. sim \<longrightarrow> fst (doSimulateTransaction E t (s\<lparr>store := w\<rparr>)) = Inr None"
    and "insertTransaction E inserted key sim s = (r, s1)"
    and "insertTransaction E inserted' key sim' s1 = (r', s2)"
  shows "r = Inr q \<and> stored (e_codec E) (view (store s1)) q = Some t \<and> tx_status t = Queued
    \<and> send_job q \<in> set (effects s1)
    \<and> r' = Inr q \<and> view (store s2) = view (store s1) \<and> effects s2 = effects s1"
proof -
  have q: "queue_id E key = q" "truthy key" "the key = q" using assms(2,3) by (simp_all add: queue_id_def)
  have t: "tx_status t = Queued" "tx_queueId t = q" using insert_result_queued [OF assms(5)] by simp_all
  have new: "(r, s1) = insert_tail E q sim t (engine.looked E key s)"
    using engine.insert_new [OF assms(1), of key s inserted t sim] assms(4,5,7) q by simp
  have sim: "sim \<longrightarrow> fst (doSimulateTransaction E t (engine.looked E key s)) = Inr None"
    using assms(6) engine.looked_store [OF assms(1), of key s] by metis
  note first = engine.insert_tail_stores [OF assms(1) t sim, folded new, simplified]
  have "view (store s1) (transactionDetailsKey q) \<noteq> None"
    using first(2) by (auto simp: stored_def mget_val_def split: option.splits)
  then have "insertTransaction E inserted' key sim' s1 = (Inr q, engine.looked E key s1)"
    using engine.insert_known [OF assms(1) q(2), of s1 inserted' sim'] q(3) by simp
  with assms(8) have "r' = Inr q" "s2 = engine.looked E key s1" by simp_all
  then show ?thesis using first t engine.looked_keeps [OF assms(1), of key s1] by simp
qed

theorem insert_idempotent_witness:
  "fst (insertTransaction mem_env sample_inserted (Some ''k'') False
      (snd (insertTransaction mem_env sample_inserted (Some ''k'') False (mem_world [])))) = Inr ''k''"
proof -
  obtain t where t: "insert_result mem_env sample_inserted ''k'' (clock (mem_world [])) = Inr t"
    using sample_insert_result by blast
  have empty: "mem_view (store (mem_world [])) (transactionDetailsKey ''k'') = None"
    by (simp add: mem_view_def)
  show ?thesis
    using insert_idempotent [where view = mem_view, OF mem_engine.engine_axioms refl _ empty t, of False
        "fst (insertTransaction mem_env sample_inserted (Some ''k'') False (mem_world []))"
        "snd (insertTransaction mem_env sample_inserted (Some ''k'') False (mem_world []))"]
    by (metis list.distinct(1) prod.collapse)
qed

text \<open>
  a transaction whose simulation fails is refused with status 400 and the message of the
  simulation on one line, and leaves no trace: no key is written and no job is added.
\<close>

theorem insert_simulation_refused:
  assumes "engine E view" and "q = (if truthy key then the key else e_randomUUID E)"
    and "truthy key \<longrightarrow> view (store s) (transactionDetailsKey (the key)) = None"
    and "insert_result E inserted q (clock s) = Inr t"
    and "\<forall>w. fst (doSimulateTransaction E t (s\<lparr>store := w\<rparr>)) = Inr (Some m)" and "m \<noteq> []"
    and "insertTransaction E inserted key True s = (r, s')"
  shows "r = Inl (JsObject (Some (''Simulation failed: '' @ replace_newlines False m))
      (Some ''BAD_REQUEST'') (Some 400))
    \<and> view (store s') = view (store s) \<and> effects s' = effects s"
proof -
  have q: "queue_id E key = q" using assms(2) by (simp add: queue_id_def)
  have "(r, s') = insert_tail E q True t (engine.looked E key s)"
    using engine.insert_new [OF assms(1,3), of inserted t True] assms(4,7) q by simp
  moreover have "fst (doSimulateTransaction E t (engine.looked E key s)) = Inr (Some m)"
    using assms(5) engine.looked_store [OF assms(1), of key s] by metis
  ultimately show ?thesis
    using engine.insert_tail_refused [OF assms(1) _ assms(6), of t "engine.looked E key s" q] engine.looked_keeps [OF assms(1), of key s]
    by (metis createCustomError_def fst_conv snd_conv)
qed

theorem insert_simulation_refused_witness:
  "fst (insertTransaction (mem_env\<lparr>e_simulate := (\<lambda>_ _. Inl (''TransactionError'', ''no''))\<rparr>)
      sample_inserted None True (mem_world_cached [])) =
   Inl (JsObject (Some ''Simulation failed: TransactionError: no'') (Some ''BAD_REQUEST'') (Some 400))"
proof -
  let ?E = "mem_env\<lparr>e_simulate := (\<lambda>_ _. Inl (''TransactionError'', ''no''))\<rparr>"
  let ?s = "mem_world_cached []"
  have E: "engine ?E mem_view"
    using mem_engine.engine_axioms by (simp add: engine_def)
  obtain t where t: "insert_result ?E sample_inserted ''uuid'' (clock ?s) = Inr t"
    "tx_chainId t = 1" "tx_data t = Some ''0x''" "tx_to t = Some ''0xb''" "tx_accountAddress t = None"
    by (simp add: insert_result_def Let_def getChecksumAddress_def mem_env_def sample_inserted_def
        no_inserted_def queued_of_def inserted_transaction.defs transaction.defs)
  have sim: "\<forall>w. fst (doSimulateTransaction ?E t (?s\<lparr>store := w\<rparr>)) = Inr (Some ''TransactionError: no'')"
    using t(2-5) by (simp add: doSimulateTransaction_def getChain_def getConfig_def bnd_apply mem_world_cached_def
        mem_world_def sample_config_def find_override_def mem_env_def Let_def getAccount_def)
  have one_line: "''Simulation failed: '' @ replace_newlines False ''TransactionError: no'' =
      ''Simulation failed: TransactionError: no''"
    by (simp add: is_newline_def)
  have uuid: "''uuid'' = (if truthy None then the None else e_randomUUID ?E)"
    by (simp add: mem_env_def)
  show ?thesis
    using insert_simulation_refused [where view = mem_view, OF E uuid _ t(1) sim,
        of "fst (insertTransaction ?E sample_inserted None True ?s)"
           "snd (insertTransaction ?E sample_inserted None True ?s)"]
    unfolding one_line by simp
qed

text \<open>
  C8: a cancelled transaction stays cancelled. After a queued EOA transaction was cancelled, the
  store holds it as cancelled, and a send job that was already running for it, whatever its
  resend count, writes nothing and submits nothing.
\<close>

theorem cancel_stops_send:
  assumes "engine E view" and "details_ok (e_codec E) (view (store s)) q"
    and "stored (e_codec E) (view (store s)) q = Some t" and "tx_queueId t = q"
    and "tx_status t = Queued" and "\<not> tx_isUserOp t"
    and "cancelTransactionRoute E q s = (Inr x, s1)"
    and "sendTransactionHandler E q k s1 = (r, s2)"
  shows "(\<exists>c. stored (e_codec E) (view (store s1)) q = Some c \<and> tx_status c = Cancelled)
    \<and> r = Inr () \<and> view (store s2) = view (store s1) \<and> effects s2 = effects s1"
proof -
  have eqs: "snd (cancelTransactionRoute E q s) = s1" "fst (cancelTransactionRoute E q s) = Inr x"
    "fst (sendTransactionHandler E q k s1) = r" "snd (sendTransactionHandler E q k s1) = s2"
    using assms(7,8) by simp_all
  obtain c where c: "stored (e_codec E) (view (store s1)) q = Some c" "tx_status c = Cancelled"
    "details_ok (e_codec E) (view (store s1)) q"
    using engine.cancel_queued_stored [OF assms(1-6) eqs(2)] unfolding eqs by blast
  then show ?thesis
    using engine.handler_idle [OF assms(1) c(3), of k] unfolding eqs by simp
qed

lemma sample_cancel_queued:
  "\<exists>c s'. cancel_queued mem_env ''q1'' sample_tx (mem_world_cached m) = (Inr c, s') \<and> config_cache s' = Some sample_config
     \<and> tx_sentAt c \<noteq> None \<and> tx_chainId c = 1 \<and> tx_status c = Cancelled \<and> tx_cancelledAt c \<noteq> None"
  by (simp add: cancel_queued_def bnd_apply getConfig_def sample_config_def upto_rec1
      SendTransactionQueue_remove_def emit_apply new_Date_apply getBlockNumberish_def getChain_def
      find_override_def mem_env_def settle_apply redis_do_apply mem_world_cached_def mem_world_def
      try_catch_apply sample_tx_def)

lemma sample_cancel:
  "\<exists>x. fst (cancelTransactionRoute mem_env ''q1'' (mem_world_cached (sample_store sample_tx))) = Inr x"
proof -
  let ?s = "mem_world_cached (sample_store sample_tx)"
  have t: "tx_status sample_tx = Queued" "\<not> tx_isUserOp sample_tx" by (simp_all add: sample_tx_def)
  have get: "route_get mem_env ''q1'' ?s = (Inr sample_tx, ?s)"
    using sample_db_get [of sample_tx] by (simp add: route_get_def bnd_apply redis_do_apply mem_world_cached_def mem_world_def)
  obtain c s' where c: "cancel_queued mem_env ''q1'' sample_tx ?s = (Inr c, s')" "tx_sentAt c \<noteq> None"
    "tx_status c = Cancelled" "tx_cancelledAt c \<noteq> None"
    using sample_cancel_queued by blast
  have entry: "status_entry now c \<noteq> Some (k, None)" for now k
    using c by (auto simp: status_entry_def)
  have report: "fst (cancel_reportUsageSuccess mem_env c s) = Inr ()" for s
  proof -
    obtain x where "fst (getChain mem_env (tx_chainId c) s) = Inr x" using mem_env_total by blast
    with c(2) show ?thesis
      by (auto simp: cancel_reportUsageSuccess_def reportUsage_def msSince_def io_simps)
  qed
  show ?thesis
    using t c(1) mem_engine.db_set_run(1) [OF entry]
    by (simp add: cancelTransactionRoute_def get bnd_apply report)
qed

theorem cancel_stops_send_witness:
  "effects (snd (sendTransactionHandler mem_env ''q1'' 0 (snd (cancelTransactionRoute mem_env ''q1''
      (mem_world_cached (sample_store sample_tx)))))) =
   effects (snd (cancelTransactionRoute mem_env ''q1'' (mem_world_cached (sample_store sample_tx))))"
proof -
  let ?s = "mem_world_cached (sample_store sample_tx)"
  let ?r = "cancelTransactionRoute mem_env ''q1'' ?s"
  have t: "tx_queueId sample_tx = ''q1''" "tx_status sample_tx = Queued" "\<not> tx_isUserOp sample_tx"
    by (simp_all add: sample_tx_def)
  have "\<exists>x. fst ?r = Inr x" by (rule sample_cancel)
  then obtain x where x: "?r = (Inr x, snd ?r)" by (metis prod.collapse)
  show ?thesis
    using cancel_stops_send [where view = mem_view, OF mem_engine.engine_axioms _ _ t(1-3) x,
        of 0 "fst (sendTransactionHandler mem_env ''q1'' 0 (snd ?r))"
           "snd (sendTransactionHandler mem_env ''q1'' 0 (snd ?r))"]
      sample_stored [of sample_tx] by simp
qed

text \<open>
  only an EOA transaction that is queued or sent can be cancelled. Any other one is refused
  with status 400, and nothing is written or sent.
\<close>

theorem cancel_guard:
  assumes "engine E view" and "details_ok (e_codec E) (view (store s)) q"
    and "stored (e_codec E) (view (store s)) q = Some t"
    and "tx_isUserOp t \<or> tx_status t \<notin> {Queued, Sent}"
    and "cancelTransactionRoute E q s = (r, s')"
  shows "r = Inl (JsObject (Some ''Transaction cannot be cancelled.'')
      (Some ''TRANSACTION_CANNOT_BE_CANCELLED'') (Some 400))
    \<and> view (store s') = view (store s) \<and> effects s' = effects s"
  using engine.cancel_refused [OF assms(1-4)] engine.db_get_run [OF assms(1,2)] assms(5)
  by (auto simp: createCustomError_def)

theorem cancel_guard_witness:
  "fst (cancelTransactionRoute mem_env ''q1'' (mem_world (sample_store (sample_tx\<lparr>tx_status := Mined\<rparr>)))) =
   Inl (JsObject (Some ''Transaction cannot be cancelled.'')
      (Some ''TRANSACTION_CANNOT_BE_CANCELLED'') (Some 400))"
proof -
  let ?t = "sample_tx\<lparr>tx_status := Mined\<rparr>"
  let ?r = "cancelTransactionRoute mem_env ''q1'' (mem_world (sample_store ?t))"
  show ?thesis
    using cancel_guard [where view = mem_view, OF mem_engine.engine_axioms,
        of "mem_world (sample_store ?t)" "''q1''" ?t "fst ?r" "snd ?r"] sample_stored [of ?t]
    by simp
qed

text \<open>
  C12: an errored transaction that is retried is not sent twice. If one of its hashes has a
  receipt the retry is refused and nothing changes; otherwise its send job is queued again,
  and the handler that runs the job leaves the transaction as errored, or as sent with a job
  in the mine queue.
\<close>

theorem retry_failed_progress:
  assumes "engine E view" and "details_ok (e_codec E) (view (store s)) q"
    and "stored (e_codec E) (view (store s)) q = Some t" and "tx_queueId t = q"
    and "tx_status t = Errored" and "\<not> tx_isUserOp t"
    and "config_cache s = Some cfg" and "chain_for E cfg (tx_chainId t) = Inr chain"
    and "\<forall>queue j e. remove_job queue j \<noteq> Some (Inl e)"
    and "retryFailedRoute E remove_job q s = (r, s1)"
    and "sendTransactionHandler E q 0 s1 = (r', s2)"
  shows "(receipt_for E chain t \<noteq> None \<longrightarrow>
        (\<exists>e. r = Inl e \<and> err_status e = Some 400) \<and> view (store s1) = view (store s) \<and> effects s1 = effects s)
    \<and> (receipt_for E chain t = None \<longrightarrow>
        (\<exists>m. r = Inr m) \<and> view (store s1) = view (store s) \<and> send_job q \<in> set (effects s1)
        \<and> (r' = Inr () \<longrightarrow> (\<exists>t'. stored (e_codec E) (view (store s2)) q = Some t'
            \<and> (tx_status t' = Errored \<or> tx_status t' = Sent \<and> mine_job q \<in> set (effects s2)))))"
proof -
  note run = engine.retry_failed_run [OF assms(1-8), of remove_job] and get = engine.db_get_run [OF assms(1,2)]
  have view: "view (store s1) = view (store s)"
    using run assms(9,10) get by (auto split: option.splits)
  have "details_ok (e_codec E) (view (store s1)) q" "stored (e_codec E) (view (store s1)) q = Some t"
    using assms(2,3) view by simp_all
  note again = engine.handler_requeues [OF assms(1) this assms(4,5)]
  show ?thesis
    using run assms(9,10,11) get again view
    by (auto simp: cannot_retry_def createCustomError_def split: option.splits)
qed

theorem retry_failed_progress_witness:
  "\<exists>e. fst (retryFailedRoute mem_env (\<lambda>_ _. None) ''q1''
      (mem_world_cached (sample_store (sent_tx\<lparr>tx_status := Errored\<rparr>)))) = Inl e \<and> err_status e = Some 400"
proof -
  let ?t = "sent_tx\<lparr>tx_status := Errored\<rparr>"
  let ?s = "mem_world_cached (sample_store ?t)"
  let ?r = "retryFailedRoute mem_env (\<lambda>_ _. None) ''q1'' ?s"
  let ?r' = "sendTransactionHandler mem_env ''q1'' 0 (snd ?r)"
  have rc: "receipt_for mem_env \<lparr>ch_id = 1, ch_rpc = ''http://rpc''\<rparr> ?t = Some sample_receipt"
    by (simp add: receipt_for_def mem_env_def)
  show ?thesis
    using retry_failed_progress [where view = mem_view, OF mem_engine.engine_axioms, of ?s "''q1''" ?t
        sample_config "\<lparr>ch_id = 1, ch_rpc = ''http://rpc''\<rparr>" "\<lambda>_ _. None" "fst ?r" "snd ?r" "fst ?r'" "snd ?r'"]
      sample_stored [of ?t] sample_chain rc
    by simp
qed

end
