(* ===== verification/Webhook_Worker.thy ===== *)
theory Webhook_Worker
  imports Send_Worker Tx_Schema
begin

text \<open>
  The delivery of webhooks: the request and its signature (\<open>src/utils/webhook.ts\<close>), the shown
  forms of event logs and receipts (\<open>src/server/schemas\<close>), and the worker that sends the jobs of
  the webhook queue (\<open>src/worker/tasks/sendWebhookWorker.ts\<close>). A request that cannot be made
  counts as an answer with status 500, and an answer 5xx makes the job fail so that it is retried.
\<close>

section \<open>Shown forms\<close>

record event_log_schema =
  es_chainId :: int
  es_contractAddress :: string
  es_blockNumber :: int
  es_transactionHash :: string
  es_topics :: "string list"
  es_data :: string
  es_eventName :: "string option"
  es_decodedLog :: "(string \<times> string \<times> string) list option"
  es_timestamp :: int
  es_transactionIndex :: int
  es_logIndex :: int

definition toEventLogSchema :: "event_log \<Rightarrow> event_log_schema" where
  "toEventLogSchema l = \<lparr>es_chainId = el_chainId l, es_contractAddress = el_contractAddress l,
     es_blockNumber = el_blockNumber l, es_transactionHash = el_transactionHash l,
     es_topics = map the (filter truthy [el_topic0 l, el_topic1 l, el_topic2 l, el_topic3 l]),
     es_data = el_data l, es_eventName = el_eventName l, es_decodedLog = el_decodedLog l,
     es_timestamp = el_timestamp l, es_transactionIndex = el_transactionIndex l,
     es_logIndex = el_logIndex l\<rparr>"

record receipt_schema =
  rs_chainId :: int
  rs_blockNumber :: int
  rs_contractAddress :: string
  rs_transactionHash :: string
  rs_blockHash :: string
  rs_timestamp :: int
  rs_data :: string
  rs_value :: string
  rs_to :: string
  rs_from :: string
  rs_transactionIndex :: int
  rs_gasUsed :: string
  rs_effectiveGasPrice :: string
  rs_status :: int

definition toTransactionReceiptSchema :: "receipt_log \<Rightarrow> receipt_schema" where
  "toTransactionReceiptSchema r = \<lparr>rs_chainId = rl_chainId r, rs_blockNumber = rl_blockNumber r,
     rs_contractAddress = rl_contractAddress r, rs_transactionHash = rl_transactionHash r,
     rs_blockHash = rl_blockHash r, rs_timestamp = rl_timestamp r, rs_data = rl_data r,
     rs_value = rl_value r, rs_to = rl_to r, rs_from = rl_from r,
     rs_transactionIndex = rl_transactionIndex r, rs_gasUsed = rl_gasUsed r,
     rs_effectiveGasPrice = rl_effectiveGasPrice r, rs_status = rl_status r\<rparr>"

section \<open>Requests\<close>

record balance_data =
  bd_walletAddress :: string
  bd_minimumBalance :: string
  bd_currentBalance :: string
  bd_chainId :: int
  bd_message :: string

text \<open>The body of a request that asks for authorization: the parts of the request, as text.\<close>

record request_data =
  rd_url :: string
  rd_method :: string
  rd_headers :: "(string \<times> string) list"
  rd_params :: "(string \<times> string) list"
  rd_query :: "(string \<times> string) list"
  rd_cookies :: "(string \<times> string) list"
  rd_body :: string

datatype webhook_body =
    EventLogBody event_log_schema
  | ReceiptBody receipt_schema
  | TransactionBody tx_schema
  | AuthBody request_data
  | BalanceBody balance_data

record webhook_response =
  wr_ok :: bool
  wr_status :: int
  wr_body :: string

text \<open>\<open>JSON.stringify\<close> of a body, HMAC with SHA-256 in hex, and \<open>fetch\<close> with the text of its answer.\<close>

record webhook_env =
  we_stringify :: "webhook_body \<Rightarrow> string"
  we_hmac :: "string \<Rightarrow> string \<Rightarrow> string"
  we_fetch :: "string \<Rightarrow> (string \<times> string) list \<Rightarrow> string \<Rightarrow> js_error + webhook_response"

definition generateSignature :: "webhook_env \<Rightarrow> webhook_body \<Rightarrow> string \<Rightarrow> string \<Rightarrow> string" where
  "generateSignature W body timestamp secret =
     we_hmac W secret (timestamp @ ''.'' @ we_stringify W body)"

definition createWebhookRequestHeaders ::
  "webhook_env \<Rightarrow> webhook \<Rightarrow> webhook_body \<Rightarrow> ('w world, (string \<times> string) list) io" where
  "createWebhookRequestHeaders W w body =
     (let headers = [(''Accept'', ''application/json''), (''Content-Type'', ''application/json'')]
      in if wh_secret w \<noteq> [] then
           bnd new_Date (\<lambda>now.
           let timestamp = show_int (now div 1000);
               signature = generateSignature W body timestamp (wh_secret w)
           in ret (headers @ [(''Authorization'', ''Bearer '' @ wh_secret w),
                    (''x-engine-signature'', signature), (''x-engine-timestamp'', timestamp)]))
         else ret headers)"

definition sendWebhookRequest ::
  "webhook_env \<Rightarrow> webhook \<Rightarrow> webhook_body \<Rightarrow> ('w world, webhook_response) io" where
  "sendWebhookRequest W w body =
     try_catch
       (bnd (createWebhookRequestHeaders W w body) (\<lambda>headers.
        bnd (emit (PostWebhook w headers (we_stringify W body))) (\<lambda>_.
        lift_res (we_fetch W (wh_url w) headers (we_stringify W body)))))
       (\<lambda>e. ret \<lparr>wr_ok = False, wr_status = 500, wr_body = show_error e\<rparr>)"

text \<open>
  The low balance notification; \<open>lastSentAt\<close> is the module's variable, and the answer is its new
  value. The requests are started without waiting for them; here they run in order. What
  \<open>sendWebhookRequest\<close> answers is an object, so the test of its success always holds.
\<close>

fun send_balance_requests :: "webhook_env \<Rightarrow> balance_data \<Rightarrow> int \<Rightarrow> webhook list \<Rightarrow> ('w world, int) io" where
  "send_balance_requests W data lastSentAt [] = ret lastSentAt"
| "send_balance_requests W data lastSentAt (config # rest) =
     (if wh_revokedAt config \<noteq> None then send_balance_requests W data lastSentAt rest
      else
        bnd (sendWebhookRequest W config (BalanceBody data)) (\<lambda>success.
        bnd new_Date (\<lambda>now. send_balance_requests W data now rest)))"

definition sendBalanceWebhook ::
  "'w env \<Rightarrow> webhook_env \<Rightarrow> int \<Rightarrow> balance_data \<Rightarrow> ('w world, int) io" where
  "sendBalanceWebhook E W lastSentAt data =
     try_catch
       (bnd new_Date (\<lambda>now.
        if now - lastSentAt < 30000 then ret lastSentAt
        else
          bnd (getWebhooksByEventType E BACKEND_WALLET_BALANCE True) (\<lambda>webhooks.
          send_balance_requests W data lastSentAt webhooks)))
       (\<lambda>_. ret lastSentAt)"

section \<open>The worker\<close>

definition retryable :: "webhook_response option \<Rightarrow> bool" where
  "retryable resp = (case resp of None \<Rightarrow> False | Some r \<Rightarrow> 500 \<le> wr_status r \<and> wr_status r \<le> 599)"

definition subscription_body :: "event_log option \<Rightarrow> receipt_log option \<Rightarrow> js_error + webhook_body" where
  "subscription_body eventLog transactionReceipt = (case eventLog of
       Some l \<Rightarrow> Inr (EventLogBody (toEventLogSchema l))
     | None \<Rightarrow> (case transactionReceipt of
         Some r \<Rightarrow> Inr (ReceiptBody (toTransactionReceiptSchema r))
       | None \<Rightarrow> Inl (js_Error
           ''Missing \"eventLog\" or \"transactionReceipt\" for CONTRACT_SUBSCRIPTION webhook.'')))"

text \<open>The request of a job; a transaction that is gone makes none and ends the job.\<close>

definition webhook_request ::
  "'w env \<Rightarrow> webhook_env \<Rightarrow> (string list \<Rightarrow> string) \<Rightarrow> webhook_data \<Rightarrow> webhook
   \<Rightarrow> ('w world, webhook_response option) io" where
  "webhook_request E W showArgs data w = (case data of
       SubscriptionEvent w0 eventLog transactionReceipt \<Rightarrow>
         bnd (lift_res (subscription_body eventLog transactionReceipt)) (\<lambda>body.
         bnd (sendWebhookRequest W w body) (\<lambda>resp. ret (Some resp)))
     | TxEvent ty queueId \<Rightarrow>
         if ty \<in> {SENT_TX, MINED_TX, ERRORED_TX, CANCELLED_TX} then
           bnd (db_get E queueId) (\<lambda>found.
           case found of
             None \<Rightarrow> ret None
           | Some t \<Rightarrow>
               bnd (lift_res (toTransactionSchema showArgs t)) (\<lambda>shown.
               bnd (sendWebhookRequest W w (TransactionBody shown)) (\<lambda>resp. ret (Some resp))))
         else ret None)"

definition sendWebhookHandler ::
  "'w env \<Rightarrow> webhook_env \<Rightarrow> (string list \<Rightarrow> string) \<Rightarrow> webhook_data \<Rightarrow> webhook \<Rightarrow> ('w world, unit) io" where
  "sendWebhookHandler E W showArgs data w =
     bnd (webhook_request E W showArgs data w) (\<lambda>resp.
     if retryable resp
     then throw (js_Error (''Received status '' @ show_int (wr_status (the resp)) @ '' from webhook ''
            @ wh_url w @ ''.''))
     else ret ())"

section \<open>Facts\<close>

text \<open>The headers at a time: a webhook with a secret signs the time and the body.\<close>

definition signed_headers :: "webhook_env \<Rightarrow> webhook \<Rightarrow> webhook_body \<Rightarrow> int \<Rightarrow> (string \<times> string) list" where
  "signed_headers W w body now =
     [(''Accept'', ''application/json''), (''Content-Type'', ''application/json'')] @
     (if wh_secret w = [] then []
      else [(''Authorization'', ''Bearer '' @ wh_secret w),
            (''x-engine-signature'',
               we_hmac W (wh_secret w) (show_int (now div 1000) @ ''.'' @ we_stringify W body)),
            (''x-engine-timestamp'', show_int (now div 1000))])"

definition webhook_answer :: "webhook_env \<Rightarrow> webhook \<Rightarrow> webhook_body \<Rightarrow> int \<Rightarrow> webhook_response" where
  "webhook_answer W w body now =
     (case we_fetch W (wh_url w) (signed_headers W w body now) (we_stringify W body) of
        Inr r \<Rightarrow> r | Inl e \<Rightarrow> \<lparr>wr_ok = False, wr_status = 500, wr_body = show_error e\<rparr>)"

definition post :: "webhook_env \<Rightarrow> webhook \<Rightarrow> webhook_body \<Rightarrow> int \<Rightarrow> effect" where
  "post W w body now = PostWebhook w (signed_headers W w body now) (we_stringify W body)"

lemma sendWebhookRequest_run:
  "sendWebhookRequest W w body s =
     (Inr (webhook_answer W w body (clock s)), s\<lparr>effects := effects s @ [post W w body (clock s)]\<rparr>)"
  by (simp add: sendWebhookRequest_def createWebhookRequestHeaders_def generateSignature_def Let_def
      io_simps webhook_answer_def signed_headers_def post_def split: sum.split)

text \<open>The jobs that announce a transaction, when the webhooks are read from the table.\<close>

definition webhook_job :: "webhooks_event_type \<Rightarrow> string \<Rightarrow> webhook \<Rightarrow> effect" where
  "webhook_job ty q w = AddJob ''send-webhook'' (webhook_job_name ty w) (WebhookJob (TxEvent ty q) w)
     \<lparr>jo_jobId = Some (getTransactionWebhookIdempotencyKey w ty q), jo_attempts = None, jo_delay = None\<rparr>"

lemma for_each_emit_run: "for_each xs (\<lambda>x. emit (f x)) s = (Inr (), s\<lparr>effects := effects s @ map f xs\<rparr>)"
  by (induction xs arbitrary: s) (simp_all add: bnd_apply emit_apply)

lemma event_string_inject [simp]: "event_string a = event_string b \<longleftrightarrow> a = b"
  by (cases a; cases b) simp_all

definition hooks_of :: "webhooks_event_type \<Rightarrow> webhook list \<Rightarrow> webhook list" where
  "hooks_of ty ws = filter (\<lambda>w. wh_eventType w = event_string ty) ws"

lemma enqueue_jobs_run:
  assumes "e_allWebhooks E = Inr ws"
    and "webhook_cache s (event_string ALL_TX) \<in> {None, Some (hooks_of ALL_TX ws)}"
    and "webhook_cache s (event_string ty) \<in> {None, Some (hooks_of ty ws)}"
  shows "fst (enqueueTransactionWebhookJobs E ty q s) = Inr ()"
    and "effects (snd (enqueueTransactionWebhookJobs E ty q s)) =
      effects s @ map (webhook_job ty q) (hooks_of ALL_TX ws @ hooks_of ty ws)"
proof -
  let ?s1 = "snd (getWebhooksByEventType E ALL_TX True s)"
  have get: "fst (getWebhooksByEventType E ty' True s') = Inr (hooks_of ty' ws)
      \<and> effects (snd (getWebhooksByEventType E ty' True s')) = effects s'"
    if "webhook_cache s' (event_string ty') \<in> {None, Some (hooks_of ty' ws)}" for s' ty'
    using that assms(1) by (auto simp: getWebhooksByEventType_def Let_def hooks_of_def)
  have "webhook_cache ?s1 (event_string ty) \<in> {None, Some (hooks_of ty ws)}"
    using assms by (auto simp: getWebhooksByEventType_def Let_def hooks_of_def simp del: event_string.simps
        split: if_splits)
  note g = get [OF assms(2)] get [OF this]
  show "fst (enqueueTransactionWebhookJobs E ty q s) = Inr ()"
    "effects (snd (enqueueTransactionWebhookJobs E ty q s)) =
      effects s @ map (webhook_job ty q) (hooks_of ALL_TX ws @ hooks_of ty ws)"
    using g by (simp_all add: enqueueTransactionWebhookJobs_def bnd_apply for_each_emit_run
        webhook_job_def [abs_def])
qed

text \<open>The body of the request of a job: nothing for a transaction that is gone.\<close>

definition job_body ::
  "'w env \<Rightarrow> (string list \<Rightarrow> string) \<Rightarrow> keyspace \<Rightarrow> webhook_data \<Rightarrow> js_error + webhook_body option" where
  "job_body E showArgs v data = (case data of
       SubscriptionEvent w0 l r \<Rightarrow> map_sum id Some (subscription_body l r)
     | TxEvent ty q \<Rightarrow>
         if ty \<in> {SENT_TX, MINED_TX, ERRORED_TX, CANCELLED_TX}
         then (case stored (e_codec E) v q of None \<Rightarrow> Inr None
               | Some t \<Rightarrow> map_sum id (Some \<circ> TransactionBody) (toTransactionSchema showArgs t))
         else Inr None)"

context engine
begin

lemma webhook_request_run:
  assumes "\<And>ty q. data = TxEvent ty q \<Longrightarrow> details_ok (e_codec E) (view (store s)) q"
    and "job_body E showArgs (view (store s)) data = Inr b"
  shows "fst (webhook_request E W showArgs data w s) = Inr (map_option (\<lambda>body. webhook_answer W w body (clock s)) b)"
    and "effects (snd (webhook_request E W showArgs data w s)) =
      effects s @ (case b of None \<Rightarrow> [] | Some body \<Rightarrow> [post W w body (clock s)])"
    and "view (store (snd (webhook_request E W showArgs data w s))) = view (store s)"
proof -
  have "fst (webhook_request E W showArgs data w s) = Inr (map_option (\<lambda>body. webhook_answer W w body (clock s)) b)
    \<and> effects (snd (webhook_request E W showArgs data w s)) =
      effects s @ (case b of None \<Rightarrow> [] | Some body \<Rightarrow> [post W w body (clock s)])
    \<and> view (store (snd (webhook_request E W showArgs data w s))) = view (store s)"
  proof (cases data)
    case (TxEvent ty q)
    note get = db_get_run [OF assms(1) [OF TxEvent]]
    show ?thesis
      using assms(2) get
      by (auto simp: TxEvent job_body_def webhook_request_def bnd_apply sendWebhookRequest_run
          split: if_splits option.splits sum.splits)
  next
    case (SubscriptionEvent w0 l r)
    then show ?thesis
      using assms(2)
      by (cases "subscription_body l r")
        (auto simp: job_body_def webhook_request_def bnd_apply sendWebhookRequest_run)
  qed
  then show "fst (webhook_request E W showArgs data w s) = Inr (map_option (\<lambda>body. webhook_answer W w body (clock s)) b)"
    "effects (snd (webhook_request E W showArgs data w s)) =
      effects s @ (case b of None \<Rightarrow> [] | Some body \<Rightarrow> [post W w body (clock s)])"
    "view (store (snd (webhook_request E W showArgs data w s))) = view (store s)"
    by auto
qed

end

section \<open>Properties\<close>

definition sample_hook :: webhook where
  "sample_hook = \<lparr>wh_id = 1, wh_url = ''https://h'', wh_eventType = ''sent_transaction'',
     wh_secret = ''s'', wh_revokedAt = None,
     wh_name = None, wh_createdAt = 0\<rparr>"

definition sample_balance :: balance_data where
  "sample_balance = \<lparr>bd_walletAddress = ''0xa'', bd_minimumBalance = ''1'', bd_currentBalance = ''0'',
     bd_chainId = 1, bd_message = []\<rparr>"

definition sample_webhook_env :: "int \<Rightarrow> webhook_env" where
  "sample_webhook_env status = \<lparr>we_stringify = (\<lambda>_. ''{}''), we_hmac = (\<lambda>secret payload. secret @ payload),
     we_fetch = (\<lambda>_ _ _. Inr \<lparr>wr_ok = False, wr_status = status, wr_body = []\<rparr>)\<rparr>"

text \<open>
  C20: one run of the webhook worker sends at most one request: the body of the event, signed
  (for a webhook with a secret) with the time and the body. The job fails, and stays to be
  retried, exactly when the answer is 5xx or the request could not be made; the store does not
  change.
\<close>

theorem webhook_delivery:
  assumes "engine E view"
    and "\<forall>ty q. data = TxEvent ty q \<longrightarrow> details_ok (e_codec E) (view (store s)) q"
    and "job_body E showArgs (view (store s)) data = Inr b"
    and "sendWebhookHandler E W showArgs data w s = (r, s')"
  shows "effects s' = effects s @ (case b of None \<Rightarrow> []
        | Some body \<Rightarrow> [PostWebhook w (signed_headers W w body (clock s)) (we_stringify W body)])
    \<and> view (store s') = view (store s)
    \<and> ((\<exists>e. r = Inl e) \<longleftrightarrow>
        (\<exists>body. b = Some body \<and>
          (case we_fetch W (wh_url w) (signed_headers W w body (clock s)) (we_stringify W body) of
             Inl e \<Rightarrow> True | Inr resp \<Rightarrow> 500 \<le> wr_status resp \<and> wr_status resp \<le> 599)))"
proof -
  note run = engine.webhook_request_run [OF assms(1) assms(2) [rule_format] assms(3), where W = W and w = w]
  show ?thesis
    using assms(4) run
    by (cases b) (auto simp: sendWebhookHandler_def bnd_apply retryable_def webhook_answer_def post_def
        split: sum.splits if_splits)
qed

theorem webhook_delivery_witness:
  "\<exists>e. fst (sendWebhookHandler mem_env (sample_webhook_env 503) concat (TxEvent SENT_TX ''q1'') sample_hook
      (mem_world (sample_store sample_tx))) = Inl e"
proof -
  let ?s = "mem_world (sample_store sample_tx)" and ?W = "sample_webhook_env 503"
  obtain d where d: "toTransactionSchema concat sample_tx = Inr d"
    by (simp add: toTransactionSchema_def sample_tx_def)
  have b: "job_body mem_env concat (mem_view (store ?s)) (TxEvent SENT_TX ''q1'') = Inr (Some (TransactionBody d))"
    using sample_stored [of sample_tx] d by (simp add: job_body_def)
  show ?thesis
    using webhook_delivery [where view = mem_view, OF mem_engine.engine_axioms _ b,
        of ?W sample_hook "fst (sendWebhookHandler mem_env ?W concat (TxEvent SENT_TX ''q1'') sample_hook ?s)"
           "snd (sendWebhookHandler mem_env ?W concat (TxEvent SENT_TX ''q1'') sample_hook ?s)"]
      sample_stored [of sample_tx]
    by (simp add: sample_webhook_env_def)
qed

text \<open>
  a change of a transaction is announced to exactly the webhooks of all transactions and of
  the event of its status, one job each under a key of its own url, event and queue id; a
  queued transaction is not announced.
\<close>

theorem webhook_fan_out:
  assumes "e_allWebhooks E = Inr ws" and "webhook_cache s = (\<lambda>_. None)"
    and "enqueueTransactionWebhook E t s = (r, s')"
  shows "r = Inr () \<and> effects s' = effects s @ (case status_event (tx_status t) of None \<Rightarrow> []
      | Some ty \<Rightarrow> map (\<lambda>w. AddJob ''send-webhook'' (event_string ty @ '':'' @ show_int (wh_id w))
          (WebhookJob (TxEvent ty (tx_queueId t)) w)
          \<lparr>jo_jobId = Some (wh_url w @ ''.'' @ event_string ty @ ''.'' @ tx_queueId t),
           jo_attempts = None, jo_delay = None\<rparr>)
        (filter (\<lambda>w. wh_eventType w = ''all_transactions'') ws
         @ filter (\<lambda>w. wh_eventType w = event_string ty) ws))"
proof (cases "status_event (tx_status t)")
  case None
  then show ?thesis using assms(3) by (simp add: enqueueTransactionWebhook_def)
next
  case (Some ty)
  then have ty: "ty \<in> {SENT_TX, MINED_TX, ERRORED_TX, CANCELLED_TX}"
    by (auto simp: status_event_def split: if_splits)
  then have "enqueueTransactionWebhook E t s = enqueueTransactionWebhookJobs E ty (tx_queueId t) s"
    by (simp add: enqueueTransactionWebhook_def enqueueWebhook_def Some)
  with assms(3) have "enqueueTransactionWebhookJobs E ty (tx_queueId t) s = (r, s')" by simp
  then show ?thesis
    using enqueue_jobs_run [OF assms(1), of s ty "tx_queueId t"] assms(2) Some
    by (simp add: hooks_of_def webhook_job_def [abs_def] webhook_job_name_def
        getTransactionWebhookIdempotencyKey_def)
qed

theorem webhook_fan_out_witness:
  "length (effects (snd (enqueueTransactionWebhook (mem_env\<lparr>e_allWebhooks := Inr [sample_hook]\<rparr>)
      (sample_tx\<lparr>tx_status := Sent\<rparr>) (mem_world [])))) = 1"
proof -
  let ?E = "mem_env\<lparr>e_allWebhooks := Inr [sample_hook]\<rparr>" and ?t = "sample_tx\<lparr>tx_status := Sent\<rparr>"
  have "webhook_cache (mem_world []) = (\<lambda>_. None)" "effects (mem_world []) = []"
    by (simp_all add: mem_world_def)
  then show ?thesis
    using webhook_fan_out [of ?E "[sample_hook]" "mem_world []" ?t
        "fst (enqueueTransactionWebhook ?E ?t (mem_world []))"
        "snd (enqueueTransactionWebhook ?E ?t (mem_world []))"]
    by (simp add: status_event_def sample_hook_def)
qed

text \<open>
  the balance notification is rate limited by the time of the last attempt, not of the
  last success: when it was due and a webhook is active, a request that failed moves the time too.
\<close>

theorem balance_webhook_failure_counts:
  assumes "e_allWebhooks E = Inr [w]" and "webhook_cache s = (\<lambda>_. None)"
    and "wh_eventType w = ''backend_wallet_balance''" and "wh_revokedAt w = None"
    and "30000 \<le> clock s - t0" and "\<forall>u h b. we_fetch W u h b = Inl e"
  shows "fst (sendBalanceWebhook E W t0 data s) = Inr (clock s)"
  using assms
  by (simp add: sendBalanceWebhook_def getWebhooksByEventType_def Let_def io_simps sendWebhookRequest_run)

theorem balance_webhook_failure_counts_witness:
  "fst (sendBalanceWebhook (mem_env\<lparr>e_allWebhooks :=
        Inr [sample_hook\<lparr>wh_eventType := ''backend_wallet_balance''\<rparr>]\<rparr>)
      ((sample_webhook_env 0)\<lparr>we_fetch := (\<lambda>_ _ _. Inl js_TypeError)\<rparr>) (- 30000) sample_balance (mem_world [])) = Inr 9000"
  using balance_webhook_failure_counts [of "mem_env\<lparr>e_allWebhooks :=
        Inr [sample_hook\<lparr>wh_eventType := ''backend_wallet_balance''\<rparr>]\<rparr>"
      "sample_hook\<lparr>wh_eventType := ''backend_wallet_balance''\<rparr>" "mem_world []" "- 30000"
      "(sample_webhook_env 0)\<lparr>we_fetch := (\<lambda>_ _ _. Inl js_TypeError)\<rparr>" js_TypeError sample_balance]
  by (simp add: sample_hook_def mem_world_def)

end
