(* ===== verification/Prisma_Table.thy ===== *)
theory Prisma_Table
  imports Engine_Prelude
begin

text \<open>
  The interface of a table of the database as the code uses it through Prisma: find a row by its
  unique key, create, update, upsert and delete a row, insert many rows with \<open>skipDuplicates\<close>,
  delete all rows that satisfy a condition, list rows, and list the first so many in an order. A
  table is a record of functions on a state \<open>'d\<close>; the locale says by a view of the state, a map
  from keys to rows, what each of them answers and changes. It is interpreted on association lists.
\<close>

record ('d, 'k, 'v) table =
  t_find :: "'k \<Rightarrow> ('d, 'v option) io"
  t_create :: "'k \<Rightarrow> 'v \<Rightarrow> ('d, 'v) io"
  t_update :: "'k \<Rightarrow> ('v \<Rightarrow> 'v) \<Rightarrow> ('d, 'v) io"
  t_upsert :: "'k \<Rightarrow> 'v \<Rightarrow> ('v \<Rightarrow> 'v) \<Rightarrow> ('d, 'v) io"
  t_delete :: "'k \<Rightarrow> ('d, 'v) io"
  t_many :: "('v \<Rightarrow> bool) \<Rightarrow> ('d, 'v list) io"
  t_page :: "('v \<Rightarrow> bool) \<Rightarrow> ('v \<Rightarrow> int list) \<Rightarrow> nat \<Rightarrow> ('d, 'v list) io"
  t_createMany :: "('k \<times> 'v) list \<Rightarrow> ('d, 'v list) io"
  t_deleteMany :: "('v \<Rightarrow> bool) \<Rightarrow> ('d, int) io"

text \<open>
  The errors of Prisma for a key that exists already and for a row that is missing, by their codes.
\<close>

definition unique_violation :: js_error where
  "unique_violation = JsObject (Some ''Unique constraint failed'') (Some ''P2002'') None"

definition record_missing :: js_error where
  "record_missing = JsObject (Some ''Record not found'') (Some ''P2025'') None"

text \<open>
  The rows that an insertion with \<open>skipDuplicates\<close> adds: those whose key is neither in the table
  nor among the earlier ones.
\<close>

fun fresh_rows :: "('k \<Rightarrow> 'v option) \<Rightarrow> ('k \<times> 'v) list \<Rightarrow> ('k \<times> 'v) list" where
  "fresh_rows m [] = []"
| "fresh_rows m ((k, v) # kvs) =
     (if m k = None then (k, v) # fresh_rows (m(k \<mapsto> v)) kvs else fresh_rows m kvs)"

lemma fresh_rows_absent: "(k, v) \<in> set (fresh_rows m kvs) \<Longrightarrow> m k = None \<and> (k, v) \<in> set kvs"
  by (induction m kvs rule: fresh_rows.induct) (auto split: if_splits)

lemma fresh_rows_present: "\<forall>k \<in> fst ` set kvs. m k \<noteq> None \<Longrightarrow> fresh_rows m kvs = []"
  by (induction m kvs rule: fresh_rows.induct) auto

lemma fresh_rows_distinct: "distinct (map fst (fresh_rows m kvs))"
  by (induction m kvs rule: fresh_rows.induct) (auto dest!: fresh_rows_absent simp del: fun_upd_apply, simp)

text \<open>After the insertion every key is there.\<close>

lemma fresh_rows_complete:
  "k \<in> fst ` set kvs \<Longrightarrow> (m ++ map_of (fresh_rows m kvs)) k \<noteq> None"
proof (induction m kvs rule: fresh_rows.induct)
  case (2 m k0 v kvs)
  then show ?case
  proof (cases "m k0 = None")
    case True
    have "map_of (fresh_rows (m(k0 \<mapsto> v)) kvs) k0 = None"
      using fresh_rows_absent [of k0 _ "m(k0 \<mapsto> v)" kvs] by (force simp: map_of_eq_None_iff)
    moreover have "k \<noteq> k0 \<Longrightarrow> (m ++ map_of (fresh_rows (m(k0 \<mapsto> v)) kvs)) k \<noteq> None"
      using 2(1) [OF True] 2(3) by (auto simp: map_add_def fun_upd_other simp del: fun_upd_apply split: option.splits)
    ultimately show ?thesis using True by (cases "k = k0", simp add: map_add_def fun_upd_same del: fun_upd_apply) (auto simp: map_add_def fun_upd_other simp del: fun_upd_apply split: option.splits)
  next
    case False
    then show ?thesis using 2 by (cases "k = k0") (auto simp: map_add_def split: option.splits)
  qed
qed simp

locale prisma_table =
  fixes T :: "('d, 'k, 'v) table" and rows :: "'d \<Rightarrow> 'k \<Rightarrow> 'v option"
  assumes law_find: "fst (t_find T k d) = Inr (rows d k)" "rows (snd (t_find T k d)) = rows d"
    and law_create: "fst (t_create T k v d) = (if rows d k = None then Inr v else Inl unique_violation)"
      "rows (snd (t_create T k v d)) = (if rows d k = None then (rows d)(k \<mapsto> v) else rows d)"
    and law_update: "fst (t_update T k f d) = (case rows d k of None \<Rightarrow> Inl record_missing | Some v \<Rightarrow> Inr (f v))"
      "rows (snd (t_update T k f d)) = (case rows d k of None \<Rightarrow> rows d | Some v \<Rightarrow> (rows d)(k \<mapsto> f v))"
    and law_upsert: "fst (t_upsert T k v f d) = Inr (case rows d k of None \<Rightarrow> v | Some x \<Rightarrow> f x)"
      "rows (snd (t_upsert T k v f d)) = (rows d)(k \<mapsto> case rows d k of None \<Rightarrow> v | Some x \<Rightarrow> f x)"
    and law_delete: "fst (t_delete T k d) = (case rows d k of None \<Rightarrow> Inl record_missing | Some v \<Rightarrow> Inr v)"
      "rows (snd (t_delete T k d)) = (rows d)(k := None)"
    and law_many: "\<exists>ks. distinct ks \<and> set ks = dom (rows d)
        \<and> fst (t_many T p d) = Inr (filter p (map (the \<circ> rows d) ks))"
      "rows (snd (t_many T p d)) = rows d"
    and law_page: "\<exists>ks. distinct ks \<and> set ks = dom (rows d)
        \<and> fst (t_page T p key n d) = Inr (take n (sort_key key (filter p (map (the \<circ> rows d) ks))))"
      "rows (snd (t_page T p key n d)) = rows d"
    and law_createMany: "fst (t_createMany T kvs d) = Inr (map snd (fresh_rows (rows d) kvs))"
      "rows (snd (t_createMany T kvs d)) = rows d ++ map_of (fresh_rows (rows d) kvs)"
    and law_deleteMany: "fst (t_deleteMany T p d) = Inr (int (card {k. \<exists>v. rows d k = Some v \<and> p v}))"
      "rows (snd (t_deleteMany T p d)) = (\<lambda>k. case rows d k of None \<Rightarrow> None | Some v \<Rightarrow> if p v then None else Some v)"
begin

lemmas laws = law_find law_create law_update law_upsert law_delete law_many(2) law_page(2)
  law_createMany law_deleteMany

lemma many_set: "\<exists>xs. fst (t_many T p d) = Inr xs \<and> set xs = {v \<in> ran (rows d). p v}"
proof -
  obtain ks where ks: "set ks = dom (rows d)" "fst (t_many T p d) = Inr (filter p (map (the \<circ> rows d) ks))"
    using law_many(1) by blast
  have "set (filter p (map (the \<circ> rows d) ks)) = {v \<in> ran (rows d). p v}"
    using ks(1) by (force simp: ran_def dom_def image_iff)
  with ks(2) show ?thesis by blast
qed

end

section \<open>Tables in memory\<close>

type_synonym ('k, 'v) mem_rows = "('k \<times> 'v) list"

fun put_row :: "'k \<Rightarrow> 'v \<Rightarrow> ('k, 'v) mem_rows \<Rightarrow> ('k, 'v) mem_rows" where
  "put_row k v [] = [(k, v)]"
| "put_row k v (r # rs) = (if fst r = k then (k, v) # rs else r # put_row k v rs)"

definition mem_table :: "(('k, 'v) mem_rows, 'k, 'v) table" where
  "mem_table = \<lparr>
     t_find = (\<lambda>k d. (Inr (map_of d k), d)),
     t_create = (\<lambda>k v d. if map_of d k = None then (Inr v, put_row k v d) else (Inl unique_violation, d)),
     t_update = (\<lambda>k f d. case map_of d k of None \<Rightarrow> (Inl record_missing, d)
       | Some v \<Rightarrow> (Inr (f v), put_row k (f v) d)),
     t_upsert = (\<lambda>k v f d. let x = (case map_of d k of None \<Rightarrow> v | Some y \<Rightarrow> f y) in (Inr x, put_row k x d)),
     t_delete = (\<lambda>k d. case map_of d k of None \<Rightarrow> (Inl record_missing, d)
       | Some v \<Rightarrow> (Inr v, filter (\<lambda>r. fst r \<noteq> k) d)),
     t_many = (\<lambda>p d. (Inr (filter p (map (\<lambda>k. the (map_of d k)) (remdups (map fst d)))), d)),
     t_page = (\<lambda>p key n d. (Inr (take n (sort_key key
       (filter p (map (\<lambda>k. the (map_of d k)) (remdups (map fst d)))))), d)),
     t_createMany = (\<lambda>kvs d. (Inr (map snd (fresh_rows (map_of d) kvs)),
       fresh_rows (map_of d) kvs @ d)),
     t_deleteMany = (\<lambda>p d. (Inr (int (length (filter (\<lambda>k. p (the (map_of d k))) (remdups (map fst d))))),
       filter (\<lambda>r. \<not> p (the (map_of d (fst r)))) d))\<rparr>"

lemma map_of_put_row [simp]: "map_of (put_row k v d) = (map_of d)(k \<mapsto> v)"
  by (induction d) (auto simp: fun_eq_iff)

lemma map_of_delete_row: "map_of (filter (\<lambda>r. fst r \<noteq> k) d) = (map_of d)(k := None)"
  by (induction d) (auto simp: fun_eq_iff)

lemma map_of_delete_rows:
  "map_of (filter (\<lambda>r. Q (fst r)) d) = (\<lambda>k. if Q k then map_of d k else None)"
  by (induction d) (auto simp: fun_eq_iff)

lemma count_rows:
  "length (filter (\<lambda>k. p (the (map_of d k))) (remdups (map fst d))) = card {k. \<exists>v. map_of d k = Some v \<and> p v}"
proof -
  have "{k. \<exists>v. map_of d k = Some v \<and> p v} = set (filter (\<lambda>k. p (the (map_of d k))) (remdups (map fst d)))"
    by (auto simp: map_of_eq_None_iff dest: map_of_SomeD)
      (metis domI domIff dom_map_of_conv_image_fst option.sel option.exhaust_sel imageI fst_conv weak_map_of_SomeI)+
  then show ?thesis by (simp add: distinct_card del: set_filter)
qed

interpretation mem_rows: prisma_table mem_table map_of
proof (unfold_locales, goal_cases)
  case (9 k d)
  then show ?case by (simp add: mem_table_def split: option.split)
next
  case (10 k d)
  then show ?case by (auto simp: mem_table_def map_of_delete_row split: option.split)
next
  case (11 d p)
  then show ?case
    by (intro exI [of _ "remdups (map fst d)"]) (auto simp: mem_table_def dom_map_of_conv_image_fst comp_def)
next
  case (13 d p key n)
  then show ?case
    by (intro exI [of _ "remdups (map fst d)"]) (auto simp: mem_table_def dom_map_of_conv_image_fst comp_def)
next
  case (17 p d)
  then show ?case by (simp add: mem_table_def count_rows)
next
  case (18 p d)
  then show ?case
    by (auto simp: mem_table_def map_of_delete_rows [where Q = "\<lambda>k. \<not> p (the (map_of d k))"] fun_eq_iff split: option.split)
qed (auto simp: mem_table_def Let_def split: option.split)

end
