(* ===== verification/Js_Text.thy ===== *)
theory Js_Text
  imports Engine_Prelude
begin

text \<open>
  More of the JavaScript library: \<open>trim\<close>, \<open>join\<close> with a separator of one character, and the list
  \<open>[...new Set(xs)]\<close> of the distinct elements in the order of their first occurrence. The main fact
  is what \<open>split\<close> makes of a joined list: every element split once more.
\<close>

definition js_trim :: "string \<Rightarrow> string" where
  "js_trim s = rev (dropWhile js_space (rev (dropWhile js_space s)))"

fun js_join :: "string \<Rightarrow> string list \<Rightarrow> string" where
  "js_join sep [] = []"
| "js_join sep [x] = x"
| "js_join sep (x # y # ys) = x @ sep @ js_join sep (y # ys)"

definition js_dedupe :: "'a list \<Rightarrow> 'a list" where
  "js_dedupe xs = rev (remdups (rev xs))"

lemma set_js_dedupe [simp]: "set (js_dedupe xs) = set xs"
  by (simp add: js_dedupe_def)

lemma distinct_js_dedupe [simp]: "distinct (js_dedupe xs)"
  by (simp add: js_dedupe_def)

lemma js_dedupe_Nil [simp]: "js_dedupe xs = [] \<longleftrightarrow> xs = []"
  by (simp add: js_dedupe_def)

lemma js_dedupe_distinct: "distinct xs \<Longrightarrow> js_dedupe xs = xs"
  by (simp add: js_dedupe_def distinct_remdups_id)

lemma dropWhile_none: "\<forall>c \<in> set s. \<not> P c \<Longrightarrow> dropWhile P s = s"
  by (cases s) auto

lemma js_trim_space_free: "\<forall>c \<in> set s. \<not> js_space c \<Longrightarrow> js_trim s = s"
  by (simp add: js_trim_def dropWhile_none)

text \<open>Splitting is the concatenation of the splits of the parts.\<close>

lemma js_split_join_step:
  "js_split c (x @ c # s) = js_split c x @ js_split c s"
proof (induction x)
  case (Cons a x)
  then show ?case by (cases "js_split c x") auto
qed simp

lemma js_split_join:
  "xs \<noteq> [] \<Longrightarrow> js_split c (js_join [c] xs) = concat (map (js_split c) xs)"
  by (induction "[c]" xs rule: js_join.induct) (auto simp: js_split_join_step)

lemma js_split_join_clean:
  assumes "xs \<noteq> []" "\<forall>x \<in> set xs. c \<notin> set x"
  shows "js_split c (js_join [c] xs) = xs"
proof -
  from assms(2) have "map (js_split c) xs = map (\<lambda>x. [x]) xs" by (simp add: js_split_none)
  then have "concat (map (js_split c) xs) = concat (map (\<lambda>x. [x]) xs)" by (simp only:)
  also have "\<dots> = xs" by (induction xs) auto
  finally show ?thesis by (simp add: js_split_join [OF assms(1)])
qed

lemma js_split_parts: "y \<in> set (js_split c s) \<Longrightarrow> c \<notin> set y"
proof (induction s arbitrary: y)
  case (Cons a s)
  then show ?case by (cases "js_split c s") (auto split: if_splits)
qed simp

lemma set_js_trim: "set (js_trim s) \<subseteq> set s"
  unfolding js_trim_def by (auto dest!: set_dropWhileD)

end
