(* ===== verification/Auth_Middleware.thy ===== *)
theory Auth_Middleware
  imports Webhook_Worker Prisma_Table Js_Text
begin

text \<open>
  Authentication: the tokens, permissions and key pairs of the database with their caches, the
  hook that admits or refuses a request (\<open>src/server/middleware/auth.ts\<close>), the routes that
  change tokens, permissions and key pairs, and the smaller guards: sandbox mode, the rate limit
  and the password of the admin pages. The libraries that read and verify tokens are parameters.
\<close>

section \<open>Data\<close>

record auth_token =
  tk_id :: string
  tk_tokenMask :: string
  tk_walletAddress :: string
  tk_expiresAt :: int
  tk_revokedAt :: "int option"
  tk_isAccessToken :: bool
  tk_label :: "string option"

record permission_row =
  pm_walletAddress :: string
  pm_permissions :: string
  pm_label :: "string option"

record keypair =
  kp_hash :: string
  kp_publicKey :: string
  kp_algorithm :: string
  kp_label :: "string option"

record jwt_payload =
  jp_jti :: "string option"
  jp_sub :: string
  jp_exp :: int

record auth_user =
  us_address :: string
  us_permissions :: "string option"

text \<open>The parts of a request that are looked at; \<open>hq_data\<close> is what an auth webhook is told.\<close>

record http_request =
  hq_method :: string
  hq_url :: string
  hq_upgrade :: "string option"
  hq_authorization :: "string option"
  hq_token :: "string option"
  hq_ip :: string
  hq_body :: string
  hq_data :: request_data

record auth_response =
  ar_isAuthed :: bool
  ar_user :: "auth_user option"
  ar_error :: "string option"

datatype permission = Owner | Admin

fun permission_string :: "permission \<Rightarrow> string" where
  "permission_string Owner = ''OWNER''"
| "permission_string Admin = ''ADMIN''"

text \<open>Why a signature is refused.\<close>

datatype jwt_error = TokenExpiredError | JsonWebTokenError

text \<open>
  What the middleware reads from its environment and libraries: \<open>parseJWT\<close>, \<open>getJWT\<close> and
  \<open>getUser\<close> of the thirdweb auth package, \<open>decode\<close> (the \<open>iss\<close> and the \<open>kid\<close> of a token)
  and \<open>verify\<close> (the \<open>bodyHash\<close> of a valid token) of jsonwebtoken, \<open>authenticateJWT\<close> by domain,
  the address of the auth wallet, SHA-256, and the check of a UUID.
\<close>

record auth_env =
  a_engineMode :: string
  a_secretKey :: string
  a_adminWallet :: string
  a_enableKeypair :: bool
  a_parseJWT :: "string option \<Rightarrow> js_error + jwt_payload"
  a_newId :: string
  a_getJWT :: "http_request \<Rightarrow> string option"
  a_decode :: "string \<Rightarrow> (string option \<times> string option) option"
  a_verify :: "string \<Rightarrow> string \<Rightarrow> string \<Rightarrow> jwt_error + string option"
  a_getUser :: "http_request \<Rightarrow> js_error + auth_user option"
  a_authWallet :: "js_error + string"
  a_authenticateJWT :: "string \<Rightarrow> string \<Rightarrow> js_error + string"
  a_sha256 :: "string \<Rightarrow> string"
  a_uuidValidate :: "string \<Rightarrow> bool"
  a_createPublicKey :: "string \<Rightarrow> bool"

record ('w, 't, 'p, 'k) auth_sys =
  y_env :: "'w env"
  y_hooks :: webhook_env
  y_auth :: auth_env
  y_tokens :: "('t, string, auth_token) table"
  y_permissions :: "('p, string, permission_row) table"
  y_keypairs :: "('k, string, keypair) table"

text \<open>
  The state: the world of the engine, the three tables, and the two caches. A cached null is
  read again by the code, so the caches hold only what was found.
\<close>

record ('w, 't, 'p, 'k) auth_state =
  au_world :: "'w world"
  au_tokens :: 't
  au_permissions :: 'p
  au_keypairs :: 'k
  au_tokenCache :: "string option \<Rightarrow> auth_token option"
  au_keypairCache :: "string \<Rightarrow> keypair option"
  au_socketDestroyed :: bool

definition in_world :: "('w world, 'a) io \<Rightarrow> (('w, 't, 'p, 'k) auth_state, 'a) io" where
  "in_world m = (\<lambda>s. case m (au_world s) of (r, w) \<Rightarrow> (r, s\<lparr>au_world := w\<rparr>))"

definition on_tokens :: "('t, 'a) io \<Rightarrow> (('w, 't, 'p, 'k) auth_state, 'a) io" where
  "on_tokens m = (\<lambda>s. case m (au_tokens s) of (r, d) \<Rightarrow> (r, s\<lparr>au_tokens := d\<rparr>))"

definition on_permissions :: "('p, 'a) io \<Rightarrow> (('w, 't, 'p, 'k) auth_state, 'a) io" where
  "on_permissions m = (\<lambda>s. case m (au_permissions s) of (r, d) \<Rightarrow> (r, s\<lparr>au_permissions := d\<rparr>))"

definition on_keypairs :: "('k, 'a) io \<Rightarrow> (('w, 't, 'p, 'k) auth_state, 'a) io" where
  "on_keypairs m = (\<lambda>s. case m (au_keypairs s) of (r, d) \<Rightarrow> (r, s\<lparr>au_keypairs := d\<rparr>))"

lemma on_apply [io_simps]:
  "in_world m s = (fst (m (au_world s)), s\<lparr>au_world := snd (m (au_world s))\<rparr>)"
  "on_tokens m1 s1 = (fst (m1 (au_tokens s1)), s1\<lparr>au_tokens := snd (m1 (au_tokens s1))\<rparr>)"
  "on_permissions m2 s2 = (fst (m2 (au_permissions s2)), s2\<lparr>au_permissions := snd (m2 (au_permissions s2))\<rparr>)"
  "on_keypairs m3 s3 = (fst (m3 (au_keypairs s3)), s3\<lparr>au_keypairs := snd (m3 (au_keypairs s3))\<rparr>)"
  by (simp_all add: in_world_def on_tokens_def on_permissions_def on_keypairs_def split: prod.split)

section \<open>Tokens\<close>

definition getToken ::
  "('w, 't, 'p, 'k) auth_sys \<Rightarrow> string option \<Rightarrow> (('w, 't, 'p, 'k) auth_state, auth_token option) io" where
  "getToken Y jwt =
     bnd (lift_res (a_parseJWT (y_auth Y) jwt)) (\<lambda>payload.
     if truthy (jp_jti payload) then on_tokens (t_find (y_tokens Y) (the (jp_jti payload))) else ret None)"

definition cache_token ::
  "string option \<Rightarrow> auth_token option \<Rightarrow> (('w, 't, 'p, 'k) auth_state, auth_token option) io" where
  "cache_token jwt token = (\<lambda>s. (Inr token, s\<lparr>au_tokenCache := (au_tokenCache s)(jwt := token)\<rparr>))"

definition getAccessToken ::
  "('w, 't, 'p, 'k) auth_sys \<Rightarrow> string option \<Rightarrow> (('w, 't, 'p, 'k) auth_state, auth_token option) io" where
  "getAccessToken Y jwt = (\<lambda>s.
     case au_tokenCache s jwt of
       Some cached \<Rightarrow> (Inr (Some cached), s)
     | None \<Rightarrow> bnd (getToken Y jwt) (cache_token jwt) s)"

text \<open>\<open>jwt.slice(0, 10) + "..." + jwt.slice(-10)\<close>.\<close>

definition token_mask :: "string \<Rightarrow> string" where
  "token_mask jwt = take 10 jwt @ ''...'' @ drop (length jwt - 10) jwt"

definition createToken ::
  "('w, 't, 'p, 'k) auth_sys \<Rightarrow> string \<Rightarrow> bool \<Rightarrow> string option
   \<Rightarrow> (('w, 't, 'p, 'k) auth_state, auth_token) io" where
  "createToken Y jwt isAccessToken label =
     bnd (lift_res (a_parseJWT (y_auth Y) (Some jwt))) (\<lambda>payload.
     let tokenId = (case jp_jti payload of Some i \<Rightarrow> i | None \<Rightarrow> a_newId (y_auth Y)) in
     on_tokens (t_create (y_tokens Y) tokenId \<lparr>tk_id = tokenId, tk_tokenMask = token_mask jwt,
       tk_walletAddress = jp_sub payload, tk_expiresAt = jp_exp payload * 1000, tk_revokedAt = None,
       tk_isAccessToken = isAccessToken, tk_label = label\<rparr>))"

definition getAccessTokens ::
  "('w, 't, 'p, 'k) auth_sys \<Rightarrow> (('w, 't, 'p, 'k) auth_state, auth_token list) io" where
  "getAccessTokens Y =
     on_tokens (t_many (y_tokens Y) (\<lambda>t. tk_isAccessToken t \<and> tk_revokedAt t = None))"

definition revokeToken ::
  "('w, 't, 'p, 'k) auth_sys \<Rightarrow> string \<Rightarrow> (('w, 't, 'p, 'k) auth_state, unit) io" where
  "revokeToken Y tokenId =
     bnd (in_world new_Date) (\<lambda>now.
     bnd (on_tokens (t_update (y_tokens Y) tokenId (\<lambda>t. t\<lparr>tk_revokedAt := Some now\<rparr>))) (\<lambda>_. ret ()))"

definition updateToken ::
  "('w, 't, 'p, 'k) auth_sys \<Rightarrow> string \<Rightarrow> string option \<Rightarrow> (('w, 't, 'p, 'k) auth_state, unit) io" where
  "updateToken Y tokenId label =
     bnd (on_tokens (t_update (y_tokens Y) tokenId
       (\<lambda>t. case label of None \<Rightarrow> t | Some l \<Rightarrow> t\<lparr>tk_label := Some l\<rparr>))) (\<lambda>_. ret ())"

section \<open>Permissions and key pairs\<close>

definition getPermissions ::
  "('w, 't, 'p, 'k) auth_sys \<Rightarrow> string \<Rightarrow> (('w, 't, 'p, 'k) auth_state, permission_row option) io" where
  "getPermissions Y walletAddress =
     bnd (on_permissions (t_find (y_permissions Y) (toLowerCase walletAddress))) (\<lambda>permissions.
     if permissions = None \<and> toLowerCase walletAddress = toLowerCase (a_adminWallet (y_auth Y))
     then bnd (on_permissions (t_create (y_permissions Y) (toLowerCase walletAddress)
                 \<lparr>pm_walletAddress = toLowerCase walletAddress,
                  pm_permissions = permission_string Admin, pm_label = None\<rparr>)) (\<lambda>row. ret (Some row))
     else ret permissions)"

definition updatePermissions ::
  "('w, 't, 'p, 'k) auth_sys \<Rightarrow> string \<Rightarrow> string \<Rightarrow> string option
   \<Rightarrow> (('w, 't, 'p, 'k) auth_state, permission_row) io" where
  "updatePermissions Y walletAddress permissions label =
     on_permissions (t_upsert (y_permissions Y) (toLowerCase walletAddress)
       \<lparr>pm_walletAddress = toLowerCase walletAddress, pm_permissions = permissions, pm_label = label\<rparr>
       (\<lambda>row. row\<lparr>pm_permissions := permissions,
                 pm_label := (case label of None \<Rightarrow> pm_label row | Some l \<Rightarrow> Some l)\<rparr>))"

definition deletePermissions ::
  "('w, 't, 'p, 'k) auth_sys \<Rightarrow> string \<Rightarrow> (('w, 't, 'p, 'k) auth_state, permission_row) io" where
  "deletePermissions Y walletAddress =
     on_permissions (t_delete (y_permissions Y) (toLowerCase walletAddress))"

definition getKeypairByHash ::
  "('w, 't, 'p, 'k) auth_sys \<Rightarrow> string \<Rightarrow> (('w, 't, 'p, 'k) auth_state, keypair option) io" where
  "getKeypairByHash Y hash = on_keypairs (t_find (y_keypairs Y) hash)"

definition getKeypairByPublicKey ::
  "('w, 't, 'p, 'k) auth_sys \<Rightarrow> string \<Rightarrow> (('w, 't, 'p, 'k) auth_state, keypair option) io" where
  "getKeypairByPublicKey Y publicKey = getKeypairByHash Y (a_sha256 (y_auth Y) publicKey)"

definition insertKeypair ::
  "('w, 't, 'p, 'k) auth_sys \<Rightarrow> string \<Rightarrow> string \<Rightarrow> string option
   \<Rightarrow> (('w, 't, 'p, 'k) auth_state, keypair) io" where
  "insertKeypair Y publicKey algorithm label =
     (let hash = a_sha256 (y_auth Y) publicKey in
      on_keypairs (t_create (y_keypairs Y) hash
        \<lparr>kp_hash = hash, kp_publicKey = publicKey, kp_algorithm = algorithm, kp_label = label\<rparr>))"

definition deleteKeypair ::
  "('w, 't, 'p, 'k) auth_sys \<Rightarrow> string \<Rightarrow> (('w, 't, 'p, 'k) auth_state, keypair) io" where
  "deleteKeypair Y hash = on_keypairs (t_delete (y_keypairs Y) hash)"

definition listKeypairs ::
  "('w, 't, 'p, 'k) auth_sys \<Rightarrow> (('w, 't, 'p, 'k) auth_state, keypair list) io" where
  "listKeypairs Y = on_keypairs (t_many (y_keypairs Y) (\<lambda>_. True))"

definition keypair_cache_key :: "string option \<Rightarrow> string option \<Rightarrow> string option" where
  "keypair_cache_key publicKey publicKeyHash =
     (if truthy publicKey then Some (''public-key:'' @ the publicKey)
      else if truthy publicKeyHash then Some (''public-key-hash:'' @ the publicKeyHash) else None)"

definition cache_keypair ::
  "string \<Rightarrow> keypair option \<Rightarrow> (('w, 't, 'p, 'k) auth_state, keypair option) io" where
  "cache_keypair key found = (\<lambda>s. (Inr found, s\<lparr>au_keypairCache := (au_keypairCache s)(key := found)\<rparr>))"

definition getKeypair ::
  "('w, 't, 'p, 'k) auth_sys \<Rightarrow> string option \<Rightarrow> string option
   \<Rightarrow> (('w, 't, 'p, 'k) auth_state, keypair option) io" where
  "getKeypair Y publicKey publicKeyHash = (\<lambda>s.
     case keypair_cache_key publicKey publicKeyHash of
       None \<Rightarrow> (Inl (js_Error ''Must provide \"publicKey\" or \"publicKeyHash\".''), s)
     | Some key \<Rightarrow>
         (case au_keypairCache s key of
            Some cached \<Rightarrow> (Inr (Some cached), s)
          | None \<Rightarrow>
              bnd (if truthy publicKey then getKeypairByPublicKey Y (the publicKey)
                   else getKeypairByHash Y (the publicKeyHash)) (cache_keypair key) s))"

section \<open>Admitting a request\<close>

definition authed :: "auth_user option \<Rightarrow> auth_response" where
  "authed user = \<lparr>ar_isAuthed = True, ar_user = user, ar_error = None\<rparr>"

definition not_authed :: auth_response where
  "not_authed = \<lparr>ar_isAuthed = False, ar_user = None, ar_error = None\<rparr>"

definition refused :: "string \<Rightarrow> auth_response" where
  "refused message = \<lparr>ar_isAuthed = False, ar_user = None, ar_error = Some message\<rparr>"

definition unauthorized_ip :: string where
  "unauthorized_ip =
     ''Unauthorized IP Address. See: https://portal.thirdweb.com/engine/features/security''"

definition ADMIN_QUEUES_BASEPATH :: string where
  "ADMIN_QUEUES_BASEPATH = ''/admin/queues''"

definition handlePublicEndpoints :: "auth_env \<Rightarrow> http_request \<Rightarrow> auth_response" where
  "handlePublicEndpoints A req =
     (let url = hq_url req in
      if hq_method req = ''GET'' \<and>
         (url = ''/favicon.ico'' \<or> url = ''/'' \<or> url = ''/system/health'' \<or> url = ''/json''
          \<or> js_startsWith ''/auth/user'' url \<or> js_startsWith ''/transaction/status'' url)
      then authed None
      else if hq_method req = ''POST'' \<and>
         (js_startsWith ''/auth/payload'' url \<or> js_startsWith ''/auth/login'' url
          \<or> js_startsWith ''/auth/switch-account'' url \<or> js_startsWith ''/auth/logout'' url)
      then authed None
      else if hq_method req = ''POST'' \<and> js_startsWith ''/relayer/'' url
         \<and> a_uuidValidate A (drop (length ''/relayer/'') url)
      then authed None
      else if js_startsWith ADMIN_QUEUES_BASEPATH url then authed None
      else not_authed)"

definition is_admin :: "string option \<Rightarrow> bool" where
  "is_admin permissions \<longleftrightarrow> permissions = Some (permission_string Owner)
     \<or> permissions = Some (permission_string Admin)"

definition user_is_admin :: "auth_user option \<Rightarrow> bool" where
  "user_is_admin user = (case user of None \<Rightarrow> False | Some u \<Rightarrow> is_admin (us_permissions u))"

definition checkIpInAllowlist ::
  "('w, 't, 'p, 'k) auth_sys \<Rightarrow> http_request \<Rightarrow> (('w, 't, 'p, 'k) auth_state, bool) io" where
  "checkIpInAllowlist Y req =
     bnd (in_world (getConfig (y_env Y) True)) (\<lambda>config.
     ret (if cfg_ipAllowlist config = [] then True else hq_ip req \<in> set (cfg_ipAllowlist config)))"

definition destroy_socket :: "(('w, 't, 'p, 'k) auth_state, unit) io" where
  "destroy_socket = (\<lambda>s. (Inr (), s\<lparr>au_socketDestroyed := True\<rparr>))"

definition handleWebsocketAuth ::
  "('w, 't, 'p, 'k) auth_sys \<Rightarrow> http_request \<Rightarrow> (('w, 't, 'p, 'k) auth_state, auth_response) io" where
  "handleWebsocketAuth Y req =
     (let jwt = hq_token req;
          destroyed = bnd destroy_socket (\<lambda>_. ret not_authed) in
      bnd (getAccessToken Y jwt) (\<lambda>token.
      if token \<noteq> None \<and> tk_revokedAt (the token) = None then
        let req' = req\<lparr>hq_authorization := Some (''Bearer '' @ show_opt jwt)\<rparr> in
        bnd (lift_res (a_getUser (y_auth Y) req')) (\<lambda>user.
        bnd (checkIpInAllowlist Y req') (\<lambda>ok.
        if \<not> ok then ret (refused unauthorized_ip)
        else if user_is_admin user then ret (authed user)
        else destroyed))
      else destroyed))"

definition hashRequestBody :: "auth_env \<Rightarrow> http_request \<Rightarrow> string" where
  "hashRequestBody A req = a_sha256 A (hq_body req)"

definition keypair_default_error :: string where
  "keypair_default_error =
     ''Error parsing \"Authorization\" header. See: https://portal.thirdweb.com/engine/features/access-tokens''"

text \<open>
  The block that may throw: its answer, or the message for the error. An error of the code's own
  carries its message; any other one gets the default message, and an expired token its own.
\<close>

definition keypair_check ::
  "('w, 't, 'p, 'k) auth_sys \<Rightarrow> string \<Rightarrow> http_request \<Rightarrow> string option \<Rightarrow> string option
   \<Rightarrow> (('w, 't, 'p, 'k) auth_state, string option) io" where
  "keypair_check Y jwt req publicKey publicKeyHash =
     try_catch
       (bnd (getKeypair Y publicKey publicKeyHash) (\<lambda>keypair.
        case keypair of
          None \<Rightarrow> ret (Some ''The provided public key is incorrect or not added to Engine.'')
        | Some kp \<Rightarrow>
            (case a_verify (y_auth Y) jwt (kp_publicKey kp) (kp_algorithm kp) of
               Inl TokenExpiredError \<Rightarrow> ret (Some ''Keypair token is expired.'')
             | Inl JsonWebTokenError \<Rightarrow> ret (Some keypair_default_error)
             | Inr bodyHash \<Rightarrow>
                 if hq_method req = ''POST'' \<and> truthy bodyHash
                    \<and> bodyHash \<noteq> Some (hashRequestBody (y_auth Y) req)
                 then ret (Some (''The request body does not match the hash in the access token. See: ''
                        @ ''https://portal.thirdweb.com/engine/features/keypair-authentication''))
                 else
                   bnd (checkIpInAllowlist Y req) (\<lambda>ok.
                   ret (if ok then None else Some unauthorized_ip)))))
       (\<lambda>_. ret (Some keypair_default_error))"

definition handleKeypairAuth ::
  "('w, 't, 'p, 'k) auth_sys \<Rightarrow> string \<Rightarrow> http_request \<Rightarrow> string option \<Rightarrow> string option
   \<Rightarrow> (('w, 't, 'p, 'k) auth_state, auth_response) io" where
  "handleKeypairAuth Y jwt req publicKey publicKeyHash =
     (if \<not> a_enableKeypair (y_auth Y) then ret not_authed
      else
        bnd (keypair_check Y jwt req publicKey publicKeyHash) (\<lambda>error.
        ret (case error of None \<Rightarrow> authed None | Some m \<Rightarrow> refused m)))"

definition handleAccessToken ::
  "('w, 't, 'p, 'k) auth_sys \<Rightarrow> string \<Rightarrow> http_request \<Rightarrow> (('w, 't, 'p, 'k) auth_state, auth_response) io" where
  "handleAccessToken Y jwt req =
     bnd (try_catch (getAccessToken Y (Some jwt)) (\<lambda>_. ret None)) (\<lambda>token.
     if token = None \<or> tk_revokedAt (the token) \<noteq> None then ret not_authed
     else
       bnd (lift_res (a_getUser (y_auth Y) req)) (\<lambda>user.
       if \<not> user_is_admin user then ret not_authed
       else
         bnd (checkIpInAllowlist Y req) (\<lambda>ok.
         ret (if \<not> ok then refused unauthorized_ip else authed user))))"

definition THIRDWEB_DASHBOARD_ISSUER :: string where
  "THIRDWEB_DASHBOARD_ISSUER = ''0x016757dDf2Ab6a998a4729A80a091308d9059E17''"

definition handleSiwe :: "auth_env \<Rightarrow> string \<Rightarrow> string \<Rightarrow> string option" where
  "handleSiwe A jwt domain = (case a_authenticateJWT A jwt domain of Inl e \<Rightarrow> None | Inr adr \<Rightarrow> Some adr)"

definition dashboard_user :: "auth_env \<Rightarrow> string \<Rightarrow> string option" where
  "dashboard_user A jwt = (case handleSiwe A jwt ''thirdweb.com'' of
     Some adr \<Rightarrow> Some adr | None \<Rightarrow> handleSiwe A jwt ''thirdweb-preview.com'')"

definition handleDashboardAuth ::
  "('w, 't, 'p, 'k) auth_sys \<Rightarrow> string \<Rightarrow> (('w, 't, 'p, 'k) auth_state, auth_response) io" where
  "handleDashboardAuth Y jwt = (case dashboard_user (y_auth Y) jwt of
       None \<Rightarrow> ret not_authed
     | Some adr \<Rightarrow>
         bnd (getPermissions Y adr) (\<lambda>res.
         ret (if is_admin (map_option pm_permissions res)
              then authed (Some \<lparr>us_address = adr, us_permissions = map_option pm_permissions res\<rparr>)
              else not_authed)))"

text \<open>\<open>req.headers.authorization?.split(" ")[1]\<close>.\<close>

definition secret_of :: "http_request \<Rightarrow> string option" where
  "secret_of req = (case hq_authorization req of None \<Rightarrow> None
     | Some h \<Rightarrow> nth_opt (js_split (CHR '' '') h) 1)"

definition handleSecretKey ::
  "('w, 't, 'p, 'k) auth_sys \<Rightarrow> http_request \<Rightarrow> (('w, 't, 'p, 'k) auth_state, auth_response) io" where
  "handleSecretKey Y req =
     (if secret_of req = Some (a_secretKey (y_auth Y)) then
        bnd (lift_res (a_authWallet (y_auth Y))) (\<lambda>adr.
        ret (authed (Some \<lparr>us_address = adr, us_permissions = Some (permission_string Admin)\<rparr>)))
      else ret not_authed)"

fun send_auth_webhooks ::
  "webhook_env \<Rightarrow> request_data \<Rightarrow> webhook list \<Rightarrow> ('w world, bool list) io" where
  "send_auth_webhooks W data [] = ret []"
| "send_auth_webhooks W data (w # ws) =
     bnd (sendWebhookRequest W w (AuthBody data)) (\<lambda>resp.
     bnd (send_auth_webhooks W data ws) (\<lambda>oks. ret (wr_ok resp # oks)))"

definition handleAuthWebhooks ::
  "('w, 't, 'p, 'k) auth_sys \<Rightarrow> http_request \<Rightarrow> (('w, 't, 'p, 'k) auth_state, auth_response) io" where
  "handleAuthWebhooks Y req =
     bnd (in_world (getWebhooksByEventType (y_env Y) AUTH True)) (\<lambda>authWebhooks.
     if authWebhooks \<noteq> [] then
       bnd (in_world (send_auth_webhooks (y_hooks Y) (hq_data req) authWebhooks)) (\<lambda>oks.
       ret (if list_all id oks then authed None else not_authed))
     else ret not_authed)"

text \<open>
  The dispatch on the token of a request: which handler decides, or nothing when the request has
  no token that can be read.
\<close>

definition handle_jwt ::
  "('w, 't, 'p, 'k) auth_sys \<Rightarrow> http_request \<Rightarrow> (('w, 't, 'p, 'k) auth_state, auth_response option) io" where
  "handle_jwt Y req =
     (let A = y_auth Y; some = (\<lambda>r. ret (Some r)) in
      case a_getJWT A req of
        None \<Rightarrow> ret None
      | Some jwt \<Rightarrow>
          if jwt = [] then ret None
          else (case a_decode A jwt of
            None \<Rightarrow> ret None
          | Some (iss, kid) \<Rightarrow>
              if truthy iss then
                bnd (lift_res (a_authWallet A)) (\<lambda>adr.
                if the iss = adr then bnd (handleAccessToken Y jwt req) some
                else if the iss = THIRDWEB_DASHBOARD_ISSUER then bnd (handleDashboardAuth Y jwt) some
                else bnd (handleKeypairAuth Y jwt req iss None) some)
              else if truthy kid then bnd (handleKeypairAuth Y jwt req None kid) some
              else ret None))"

definition onRequest ::
  "('w, 't, 'p, 'k) auth_sys \<Rightarrow> http_request \<Rightarrow> (('w, 't, 'p, 'k) auth_state, auth_response) io" where
  "onRequest Y req =
     (if map_option toLowerCase (hq_upgrade req) = Some ''websocket'' then handleWebsocketAuth Y req
      else if ar_isAuthed (handlePublicEndpoints (y_auth Y) req)
      then ret (handlePublicEndpoints (y_auth Y) req)
      else
        bnd (handle_jwt Y req) (\<lambda>decided.
        case decided of
          Some resp \<Rightarrow> ret resp
        | None \<Rightarrow>
            bnd (handleSecretKey Y req) (\<lambda>secretKeyResp.
            if ar_isAuthed secretKeyResp then ret secretKeyResp
            else
              bnd (handleAuthWebhooks Y req) (\<lambda>authWebhooksResp.
              if ar_isAuthed authWebhooksResp then ret authWebhooksResp else ret not_authed))))"

definition default_auth_message :: string where
  "default_auth_message = ''Please provide a valid access token or other authentication. See: ''
     @ ''https://portal.thirdweb.com/engine/features/access-tokens''"

text \<open>The hook: the message of the 401 reply, or the user of a request that goes on.\<close>

definition auth_hook ::
  "('w, 't, 'p, 'k) auth_sys \<Rightarrow> http_request \<Rightarrow> (('w, 't, 'p, 'k) auth_state, string + auth_user option) io" where
  "auth_hook Y req =
     (if a_engineMode (y_auth Y) = ''sandbox'' then ret (Inr None)
      else try_catch
        (bnd (onRequest Y req) (\<lambda>resp.
         ret (if ar_isAuthed resp then Inr (ar_user resp)
              else Inl (if truthy (ar_error resp) then the (ar_error resp) else default_auth_message))))
        (\<lambda>_. ret (Inl default_auth_message)))"

section \<open>Callbacks and routes\<close>

definition onLogin ::
  "('w, 't, 'p, 'k) auth_sys \<Rightarrow> string \<Rightarrow> (('w, 't, 'p, 'k) auth_state, string) io" where
  "onLogin Y walletAddress =
     bnd (getPermissions Y walletAddress) (\<lambda>res.
     ret (case res of None \<Rightarrow> ''none''
          | Some row \<Rightarrow> if pm_permissions row = [] then ''none'' else pm_permissions row))"

definition onToken ::
  "('w, 't, 'p, 'k) auth_sys \<Rightarrow> string \<Rightarrow> (('w, 't, 'p, 'k) auth_state, unit) io" where
  "onToken Y jwt = bnd (createToken Y jwt False None) (\<lambda>_. ret ())"

text \<open>A token without an id is passed on to the update as it is; Prisma refuses it.\<close>

definition onLogout ::
  "('w, 't, 'p, 'k) auth_sys \<Rightarrow> http_request \<Rightarrow> (('w, 't, 'p, 'k) auth_state, unit) io" where
  "onLogout Y req = (case a_getJWT (y_auth Y) req of
       None \<Rightarrow> ret ()
     | Some jwt \<Rightarrow>
         if jwt = [] then ret ()
         else
           bnd (lift_res (a_parseJWT (y_auth Y) (Some jwt))) (\<lambda>payload.
           case jp_jti payload of
             None \<Rightarrow> ret ()
           | Some tokenId \<Rightarrow> try_catch (revokeToken Y tokenId) (\<lambda>_. ret ())))"

definition clear_token_cache :: "(('w, 't, 'p, 'k) auth_state, unit) io" where
  "clear_token_cache = (\<lambda>s. (Inr (), s\<lparr>au_tokenCache := (\<lambda>_. None)\<rparr>))"

definition clear_keypair_cache :: "(('w, 't, 'p, 'k) auth_state, unit) io" where
  "clear_keypair_cache = (\<lambda>s. (Inr (), s\<lparr>au_keypairCache := (\<lambda>_. None)\<rparr>))"

definition revokeAccessTokenRoute ::
  "('w, 't, 'p, 'k) auth_sys \<Rightarrow> string \<Rightarrow> (('w, 't, 'p, 'k) auth_state, unit) io" where
  "revokeAccessTokenRoute Y tokenId = bnd (revokeToken Y tokenId) (\<lambda>_. clear_token_cache)"

definition updateAccessTokenRoute ::
  "('w, 't, 'p, 'k) auth_sys \<Rightarrow> string \<Rightarrow> string option \<Rightarrow> (('w, 't, 'p, 'k) auth_state, unit) io" where
  "updateAccessTokenRoute Y tokenId label = bnd (updateToken Y tokenId label) (\<lambda>_. clear_token_cache)"

definition grantPermissionsRoute ::
  "('w, 't, 'p, 'k) auth_sys \<Rightarrow> string \<Rightarrow> string \<Rightarrow> string option \<Rightarrow> (('w, 't, 'p, 'k) auth_state, unit) io" where
  "grantPermissionsRoute Y walletAddress permissions label =
     bnd (updatePermissions Y walletAddress permissions label) (\<lambda>_. ret ())"

definition revokePermissionsRoute ::
  "('w, 't, 'p, 'k) auth_sys \<Rightarrow> string \<Rightarrow> (('w, 't, 'p, 'k) auth_state, unit) io" where
  "revokePermissionsRoute Y walletAddress = bnd (deletePermissions Y walletAddress) (\<lambda>_. ret ())"

text \<open>\<open>s.trim()\<close>.\<close>

definition addKeypairRoute ::
  "('w, 't, 'p, 'k) auth_sys \<Rightarrow> string \<Rightarrow> string \<Rightarrow> string option \<Rightarrow> (('w, 't, 'p, 'k) auth_state, keypair) io" where
  "addKeypairRoute Y publicKeyRaw algorithm label =
     (let publicKey = js_trim publicKeyRaw in
      if \<not> a_createPublicKey (y_auth Y) publicKey
      then throw (createCustomError
             (''Invalid public key. Make sure it starts with '' @ quoted ''-----BEGIN PUBLIC KEY-----'' @ ''.'')
             400 ''INVALID_PUBLIC_KEY'')
      else try_catch (insertKeypair Y publicKey algorithm label)
             (\<lambda>e. if (case e of JsObject _ c _ \<Rightarrow> c | JsString _ \<Rightarrow> None) = Some ''P2002''
                  then throw (createCustomError ''Public key already imported.'' 400 ''PUBLIC_KEY_EXISTS'')
                  else throw e))"

definition removeKeypairRoute ::
  "('w, 't, 'p, 'k) auth_sys \<Rightarrow> string \<Rightarrow> (('w, 't, 'p, 'k) auth_state, unit) io" where
  "removeKeypairRoute Y hash = bnd (deleteKeypair Y hash) (\<lambda>_. clear_keypair_cache)"

section \<open>The smaller guards\<close>

text \<open>In sandbox mode only \<open>GET\<close> goes on; the answer is the status of the refusal.\<close>

definition enforce_engine_mode :: "auth_env \<Rightarrow> http_request \<Rightarrow> int option" where
  "enforce_engine_mode A req =
     (if a_engineMode A = ''sandbox'' \<and> hq_method req \<noteq> ''GET'' then Some 405 else None)"

text \<open>The counter of a minute; its expiry after two minutes is left out.\<close>

definition rate_limit_key :: "int \<Rightarrow> string" where
  "rate_limit_key now = ''rate-limit:global:'' @ show_int (now div (1000 * 60))"

definition rate_limit_hook :: "'w env \<Rightarrow> int \<Rightarrow> http_request \<Rightarrow> ('w world, unit) io" where
  "rate_limit_hook E limit req =
     (if hq_url req = ''/'' \<or> hq_url req = ''/json'' then ret ()
      else
        bnd new_Date (\<lambda>now.
        bnd (redis_do (r_incr (e_redis E) (rate_limit_key now))) (\<lambda>count.
        if count > limit
        then throw (createCustomError (''Too many requests. Please reduce your calls to '' @ show_int limit
               @ '' requests/minute or update the \"GLOBAL_RATE_LIMIT_PER_MIN\" env var.'')
               429 ''TOO_MANY_REQUESTS'')
        else ret ())))"

text \<open>\<open>s.padEnd(100)\<close>; \<open>timingSafeEqual\<close> throws on buffers of different length.\<close>

definition padEnd100 :: "string \<Rightarrow> string" where
  "padEnd100 s = s @ replicate (100 - length s) (CHR '' '')"

definition assertAdminBasicAuth :: "auth_env \<Rightarrow> string \<Rightarrow> string \<Rightarrow> bool" where
  "assertAdminBasicAuth A username password =
     (if username = ''admin'' then
        let buf1 = padEnd100 password; buf2 = padEnd100 (a_secretKey A)
        in length buf1 = length buf2 \<and> buf1 = buf2
      else False)"

section \<open>The policy\<close>

text \<open>What a request may rely on, read off the state without running anything.\<close>

definition config_of :: "'w env \<Rightarrow> 'w world \<Rightarrow> js_error + parsed_config" where
  "config_of E w = (case config_cache w of Some c \<Rightarrow> Inr c | None \<Rightarrow> e_getConfiguration E)"

definition ip_ok :: "'w env \<Rightarrow> 'w world \<Rightarrow> http_request \<Rightarrow> bool" where
  "ip_ok E w req = (case config_of E w of Inl e \<Rightarrow> False
     | Inr c \<Rightarrow> cfg_ipAllowlist c = [] \<or> hq_ip req \<in> set (cfg_ipAllowlist c))"

definition token_of ::
  "('w, 't, 'p, 'k) auth_sys \<Rightarrow> ('t \<Rightarrow> string \<Rightarrow> auth_token option) \<Rightarrow> ('w, 't, 'p, 'k) auth_state
   \<Rightarrow> string option \<Rightarrow> auth_token option" where
  "token_of Y trows s jwt = (case au_tokenCache s jwt of Some t \<Rightarrow> Some t
     | None \<Rightarrow> (case a_parseJWT (y_auth Y) jwt of Inl e \<Rightarrow> None
         | Inr p \<Rightarrow> if truthy (jp_jti p) then trows (au_tokens s) (the (jp_jti p)) else None))"

definition keypair_of ::
  "('w, 't, 'p, 'k) auth_sys \<Rightarrow> ('k \<Rightarrow> string \<Rightarrow> keypair option) \<Rightarrow> ('w, 't, 'p, 'k) auth_state
   \<Rightarrow> string option \<Rightarrow> string option \<Rightarrow> keypair option" where
  "keypair_of Y krows s pk pkh = (case keypair_cache_key pk pkh of None \<Rightarrow> None
     | Some key \<Rightarrow> (case au_keypairCache s key of Some kp \<Rightarrow> Some kp
         | None \<Rightarrow> krows (au_keypairs s) (if truthy pk then a_sha256 (y_auth Y) (the pk) else the pkh)))"

definition permission_of ::
  "('w, 't, 'p, 'k) auth_sys \<Rightarrow> ('p \<Rightarrow> string \<Rightarrow> permission_row option) \<Rightarrow> ('w, 't, 'p, 'k) auth_state
   \<Rightarrow> string \<Rightarrow> string option" where
  "permission_of Y prows s adr = (case prows (au_permissions s) (toLowerCase adr) of
       Some row \<Rightarrow> Some (pm_permissions row)
     | None \<Rightarrow> if toLowerCase adr = toLowerCase (a_adminWallet (y_auth Y))
               then Some (permission_string Admin) else None)"

definition auth_hooks_of :: "'w env \<Rightarrow> 'w world \<Rightarrow> webhook list" where
  "auth_hooks_of E w = (case webhook_cache w (event_string AUTH) of Some ws \<Rightarrow> ws
     | None \<Rightarrow> (case e_allWebhooks E of Inl e \<Rightarrow> [] | Inr ws \<Rightarrow> hooks_of AUTH ws))"

definition is_websocket :: "http_request \<Rightarrow> bool" where
  "is_websocket req \<longleftrightarrow> map_option toLowerCase (hq_upgrade req) = Some ''websocket''"

definition valid_admin_token ::
  "('w, 't, 'p, 'k) auth_sys \<Rightarrow> ('t \<Rightarrow> string \<Rightarrow> auth_token option) \<Rightarrow> ('w, 't, 'p, 'k) auth_state
   \<Rightarrow> http_request \<Rightarrow> string option \<Rightarrow> bool" where
  "valid_admin_token Y trows s req jwt \<longleftrightarrow>
     (\<exists>t u. token_of Y trows s jwt = Some t \<and> tk_revokedAt t = None
        \<and> a_getUser (y_auth Y) req = Inr (Some u) \<and> is_admin (us_permissions u)
        \<and> ip_ok (y_env Y) (au_world s) req)"

definition valid_keypair ::
  "('w, 't, 'p, 'k) auth_sys \<Rightarrow> ('k \<Rightarrow> string \<Rightarrow> keypair option) \<Rightarrow> ('w, 't, 'p, 'k) auth_state
   \<Rightarrow> http_request \<Rightarrow> string \<Rightarrow> string option \<Rightarrow> string option \<Rightarrow> bool" where
  "valid_keypair Y krows s req jwt pk pkh \<longleftrightarrow> a_enableKeypair (y_auth Y)
     \<and> (\<exists>kp bodyHash. keypair_of Y krows s pk pkh = Some kp
        \<and> a_verify (y_auth Y) jwt (kp_publicKey kp) (kp_algorithm kp) = Inr bodyHash
        \<and> (hq_method req = ''POST'' \<and> truthy bodyHash \<longrightarrow>
             bodyHash = Some (a_sha256 (y_auth Y) (hq_body req)))
        \<and> ip_ok (y_env Y) (au_world s) req)"

text \<open>The ways in which a request can be allowed.\<close>

inductive allowed ::
  "('w, 't, 'p, 'k) auth_sys \<Rightarrow> ('t \<Rightarrow> string \<Rightarrow> auth_token option)
   \<Rightarrow> ('p \<Rightarrow> string \<Rightarrow> permission_row option) \<Rightarrow> ('k \<Rightarrow> string \<Rightarrow> keypair option)
   \<Rightarrow> ('w, 't, 'p, 'k) auth_state \<Rightarrow> http_request \<Rightarrow> bool"
  for Y trows prows krows s req where
  public_route: "ar_isAuthed (handlePublicEndpoints (y_auth Y) req) \<Longrightarrow> allowed Y trows prows krows s req"
| websocket_token: "is_websocket req
    \<Longrightarrow> valid_admin_token Y trows s (req\<lparr>hq_authorization := Some (''Bearer '' @ show_opt (hq_token req))\<rparr>)
          (hq_token req)
    \<Longrightarrow> allowed Y trows prows krows s req"
| access_token: "a_getJWT (y_auth Y) req = Some jwt \<Longrightarrow> a_decode (y_auth Y) jwt = Some (Some adr, kid)
    \<Longrightarrow> a_authWallet (y_auth Y) = Inr adr \<Longrightarrow> valid_admin_token Y trows s req (Some jwt)
    \<Longrightarrow> allowed Y trows prows krows s req"
| dashboard: "a_getJWT (y_auth Y) req = Some jwt
    \<Longrightarrow> a_decode (y_auth Y) jwt = Some (Some THIRDWEB_DASHBOARD_ISSUER, kid)
    \<Longrightarrow> dashboard_user (y_auth Y) jwt = Some adr \<Longrightarrow> is_admin (permission_of Y prows s adr)
    \<Longrightarrow> allowed Y trows prows krows s req"
| key_pair: "a_getJWT (y_auth Y) req = Some jwt \<Longrightarrow> a_decode (y_auth Y) jwt = Some (iss, kid)
    \<Longrightarrow> valid_keypair Y krows s req jwt iss (if truthy iss then None else kid)
    \<Longrightarrow> allowed Y trows prows krows s req"
| secret_key: "secret_of req = Some (a_secretKey (y_auth Y)) \<Longrightarrow> allowed Y trows prows krows s req"
| webhooks: "auth_hooks_of (y_env Y) (au_world s) \<noteq> []
    \<Longrightarrow> list_all (\<lambda>w. wr_ok (webhook_answer (y_hooks Y) w (AuthBody (hq_data req)) (clock (au_world s))))
          (auth_hooks_of (y_env Y) (au_world s))
    \<Longrightarrow> allowed Y trows prows krows s req"

section \<open>Facts\<close>

lemma checkIp_run:
  "fst (checkIpInAllowlist Y req s) = Inr True \<Longrightarrow> ip_ok (y_env Y) (au_world s) req"
  by (auto simp: checkIpInAllowlist_def ip_ok_def config_of_def getConfig_def io_simps
      split: option.splits sum.splits if_splits)

lemma send_auth_webhooks_run:
  "fst (send_auth_webhooks W data ws s) = Inr (map (\<lambda>w. wr_ok (webhook_answer W w (AuthBody data) (clock s))) ws)"
  by (induction ws arbitrary: s) (simp_all add: bnd_apply sendWebhookRequest_run)

lemma auth_webhooks_run:
  assumes "fst (handleAuthWebhooks Y req s) = Inr resp" "ar_isAuthed resp"
  shows "auth_hooks_of (y_env Y) (au_world s) \<noteq> []
    \<and> list_all (\<lambda>w. wr_ok (webhook_answer (y_hooks Y) w (AuthBody (hq_data req)) (clock (au_world s))))
          (auth_hooks_of (y_env Y) (au_world s))"
proof -
  let ?get = "getWebhooksByEventType (y_env Y) AUTH True (au_world s)"
  have get: "fst ?get = Inr ws \<Longrightarrow> ws = auth_hooks_of (y_env Y) (au_world s)" "clock (snd ?get) = clock (au_world s)" for ws
    by (auto simp: getWebhooksByEventType_def auth_hooks_of_def hooks_of_def Let_def split: option.splits sum.splits)
  show ?thesis
    using assms get
    by (auto simp: handleAuthWebhooks_def bnd_apply on_apply send_auth_webhooks_run authed_def not_authed_def
        list_all_iff split: sum.splits if_splits)
qed

locale auth_system = tok: prisma_table "y_tokens Y" trows + per: prisma_table "y_permissions Y" prows
  + key: prisma_table "y_keypairs Y" krows
  for Y :: "('w, 't, 'p, 'k) auth_sys" and trows :: "'t \<Rightarrow> string \<Rightarrow> auth_token option"
    and prows :: "'p \<Rightarrow> string \<Rightarrow> permission_row option" and krows :: "'k \<Rightarrow> string \<Rightarrow> keypair option"
begin

lemma getAccessToken_run:
  shows "fst (getAccessToken Y jwt s) = Inr t \<Longrightarrow> t = token_of Y trows s jwt"
    and "au_world (snd (getAccessToken Y jwt s)) = au_world s"
    and "trows (au_tokens (snd (getAccessToken Y jwt s))) = trows (au_tokens s)"
  by (auto simp: getAccessToken_def getToken_def cache_token_def token_of_def io_simps tok.law_find
      split: option.splits sum.splits if_splits)

lemma getPermissions_run:
  "fst (getPermissions Y adr s) = Inr r \<Longrightarrow> map_option pm_permissions r = permission_of Y prows s adr"
  by (auto simp: getPermissions_def permission_of_def io_simps per.law_find per.law_create
      split: option.splits if_splits)

lemma getKeypair_run:
  shows "fst (getKeypair Y pk pkh s) = Inr k \<Longrightarrow> k = keypair_of Y krows s pk pkh"
    and "au_world (snd (getKeypair Y pk pkh s)) = au_world s"
  by (auto simp: getKeypair_def getKeypairByPublicKey_def getKeypairByHash_def cache_keypair_def
      keypair_of_def keypair_cache_key_def io_simps key.law_find split: option.splits if_splits)

lemma access_token_run:
  assumes "fst (handleAccessToken Y jwt req s) = Inr resp" "ar_isAuthed resp"
  shows "valid_admin_token Y trows s req (Some jwt)"
proof -
  let ?get = "getAccessToken Y (Some jwt) s"
  obtain t where t: "fst ?get = Inr (Some t)" "tk_revokedAt t = None"
    using assms by (auto simp: handleAccessToken_def bnd_apply try_catch_apply not_authed_def
        split: sum.splits if_splits)
  obtain u where u: "a_getUser (y_auth Y) req = Inr (Some u)" "is_admin (us_permissions u)"
    "fst (checkIpInAllowlist Y req (snd ?get)) = Inr True"
    using assms t
    by (auto simp: handleAccessToken_def bnd_apply try_catch_apply not_authed_def refused_def user_is_admin_def
        split: sum.splits if_splits option.splits)
  show ?thesis
    using getAccessToken_run(1) [OF t(1), symmetric] getAccessToken_run(2) [of "Some jwt" s] t(2) u checkIp_run [OF u(3)]
    by (auto simp: valid_admin_token_def)
qed

lemma websocket_run:
  assumes "fst (handleWebsocketAuth Y req s) = Inr resp" "ar_isAuthed resp"
  shows "valid_admin_token Y trows s (req\<lparr>hq_authorization := Some (''Bearer '' @ show_opt (hq_token req))\<rparr>)
    (hq_token req)"
proof -
  let ?get = "getAccessToken Y (hq_token req) s"
  let ?req = "req\<lparr>hq_authorization := Some (''Bearer '' @ show_opt (hq_token req))\<rparr>"
  obtain t where t: "fst ?get = Inr (Some t)" "tk_revokedAt t = None"
    using assms by (auto simp: handleWebsocketAuth_def Let_def bnd_apply not_authed_def destroy_socket_def
        split: sum.splits if_splits)
  obtain u where u: "a_getUser (y_auth Y) ?req = Inr (Some u)" "is_admin (us_permissions u)"
    "fst (checkIpInAllowlist Y ?req (snd ?get)) = Inr True"
    using assms t
    by (auto simp: handleWebsocketAuth_def Let_def bnd_apply not_authed_def refused_def user_is_admin_def
        destroy_socket_def split: sum.splits if_splits option.splits)
  show ?thesis
    using getAccessToken_run(1) [OF t(1), symmetric] getAccessToken_run(2) [of "hq_token req" s] t(2) u checkIp_run [OF u(3)]
    by (auto simp: valid_admin_token_def)
qed

lemma keypair_run:
  assumes "fst (handleKeypairAuth Y jwt req pk pkh s) = Inr resp" "ar_isAuthed resp"
  shows "valid_keypair Y krows s req jwt pk pkh"
proof -
  let ?get = "getKeypair Y pk pkh s"
  have on: "a_enableKeypair (y_auth Y)" and none: "fst (keypair_check Y jwt req pk pkh s) = Inr None"
    using assms by (auto simp: handleKeypairAuth_def bnd_apply not_authed_def refused_def
        split: sum.splits if_splits option.splits)
  obtain kp where kp: "fst ?get = Inr (Some kp)"
    using none by (auto simp: keypair_check_def bnd_apply try_catch_apply split: sum.splits option.splits)
  obtain b where b: "a_verify (y_auth Y) jwt (kp_publicKey kp) (kp_algorithm kp) = Inr b"
    "hq_method req = ''POST'' \<and> truthy b \<longrightarrow> b = Some (hashRequestBody (y_auth Y) req)"
    "fst (checkIpInAllowlist Y req (snd ?get)) = Inr True"
    using none kp
    by (auto simp: keypair_check_def bnd_apply try_catch_apply split: sum.splits jwt_error.splits if_splits)
  show ?thesis
    using on b getKeypair_run(1) [OF kp, symmetric] getKeypair_run(2) [of pk pkh s] checkIp_run [OF b(3)]
    by (auto simp: valid_keypair_def hashRequestBody_def)
qed

lemma handle_jwt_run:
  assumes "fst (handle_jwt Y req s) = Inr (Some resp)" "ar_isAuthed resp"
  shows "allowed Y trows prows krows s req"
proof -
  obtain jwt iss kid where jwt: "a_getJWT (y_auth Y) req = Some jwt" "jwt \<noteq> []"
    "a_decode (y_auth Y) jwt = Some (iss, kid)"
    using assms by (auto simp: handle_jwt_def Let_def split: option.splits if_splits)
  show ?thesis
  proof (cases "truthy iss")
    case False
    then have "fst (handleKeypairAuth Y jwt req None kid s) = Inr resp"
      using assms jwt by (auto simp: handle_jwt_def Let_def bnd_apply split: sum.splits if_splits)
    then have "valid_keypair Y krows s req jwt None kid" using keypair_run assms(2) by blast
    moreover have "keypair_of Y krows s iss kid = keypair_of Y krows s None kid"
      using False by (simp add: keypair_of_def keypair_cache_key_def split: option.split)
    ultimately have "valid_keypair Y krows s req jwt iss kid"
      by (simp add: valid_keypair_def)
    then show ?thesis using key_pair [OF jwt(1,3)] False by simp
  next
    case True
    then obtain i where i: "iss = Some i" "i \<noteq> []" by (cases iss) auto
    then obtain adr where adr: "a_authWallet (y_auth Y) = Inr adr"
      using assms jwt by (auto simp: handle_jwt_def Let_def bnd_apply split: sum.splits if_splits)
    consider "i = adr" | "i \<noteq> adr" "i = THIRDWEB_DASHBOARD_ISSUER"
      | "i \<noteq> adr" "i \<noteq> THIRDWEB_DASHBOARD_ISSUER" by blast
    then show ?thesis
    proof cases
      case 1
      then have "fst (handleAccessToken Y jwt req s) = Inr resp"
        using assms jwt i adr by (auto simp: handle_jwt_def Let_def bnd_apply split: sum.splits if_splits)
      then show ?thesis using access_token_run assms(2) access_token jwt i adr 1 by blast
    next
      case 2
      then have "fst (handleDashboardAuth Y jwt s) = Inr resp"
        using assms jwt i adr by (auto simp: handle_jwt_def Let_def bnd_apply split: sum.splits if_splits)
      then obtain w where w: "dashboard_user (y_auth Y) jwt = Some w" "is_admin (permission_of Y prows s w)"
        using assms(2) getPermissions_run
        by (fastforce simp: handleDashboardAuth_def bnd_apply not_authed_def split: option.splits sum.splits if_splits)
      then show ?thesis using dashboard jwt i 2 by blast
    next
      case 3
      then have "fst (handleKeypairAuth Y jwt req iss None s) = Inr resp"
        using assms jwt i adr by (auto simp: handle_jwt_def Let_def bnd_apply split: sum.splits if_splits)
      then show ?thesis using keypair_run assms(2) key_pair [OF jwt(1,3)] True by auto
    qed
  qed
qed

text \<open>Falling through to the other ways leaves the state.\<close>

lemma handle_jwt_none:
  assumes "fst (handle_jwt Y req s) = Inr None"
  shows "snd (handle_jwt Y req s) = s"
proof -
  have lift: "bnd (lift_res r) f s = (case r of Inl e \<Rightarrow> (Inl e, s) | Inr a \<Rightarrow> f a s)" for r f
    by (cases r) (simp_all add: bnd_apply)
  have some: "fst (bnd m (\<lambda>r. ret (Some r)) s) \<noteq> Inr None" for m
    by (auto simp: bnd_apply split: sum.split)
  show ?thesis
    using assms unfolding handle_jwt_def Let_def lift
    by (auto simp: some lift split: option.splits sum.splits if_splits)
qed

lemma onRequest_sound:
  assumes "fst (onRequest Y req s) = Inr resp" "ar_isAuthed resp"
  shows "allowed Y trows prows krows s req"
proof (cases "is_websocket req")
  case True
  then have "fst (handleWebsocketAuth Y req s) = Inr resp"
    using assms(1) by (simp add: onRequest_def is_websocket_def)
  then show ?thesis using websocket_run assms(2) websocket_token True by blast
next
  case False
  show ?thesis
  proof (cases "ar_isAuthed (handlePublicEndpoints (y_auth Y) req)")
    case True
    then show ?thesis by (rule public_route)
  next
    case priv: False
    have run: "onRequest Y req s = bnd (handle_jwt Y req) (\<lambda>decided. case decided of
          Some resp \<Rightarrow> ret resp
        | None \<Rightarrow>
            bnd (handleSecretKey Y req) (\<lambda>secretKeyResp.
            if ar_isAuthed secretKeyResp then ret secretKeyResp
            else
              bnd (handleAuthWebhooks Y req) (\<lambda>authWebhooksResp.
              if ar_isAuthed authWebhooksResp then ret authWebhooksResp else ret not_authed))) s"
      using False priv by (simp only: onRequest_def is_websocket_def if_False)
    obtain d where d: "fst (handle_jwt Y req s) = Inr d"
      using bnd_Inr [OF assms(1) [unfolded run]] by blast
    show ?thesis
    proof (cases d)
      case (Some r)
      then show ?thesis
        using assms d handle_jwt_run [of req s r] by (auto simp: run bnd_apply)
    next
      case None
      note step = run bnd_apply d None handle_jwt_none [OF d [unfolded None]]
      show ?thesis
      proof (cases "secret_of req = Some (a_secretKey (y_auth Y))")
        case True
        then show ?thesis by (rule secret_key)
      next
        case secret: False
        then have "fst (handleAuthWebhooks Y req s) = Inr resp"
          using assms by (auto simp: step handleSecretKey_def not_authed_def split: sum.splits if_splits)
        then show ?thesis using auth_webhooks_run [OF _ assms(2)] webhooks by blast
      qed
    qed
  qed
qed

text \<open>A request whose token comes from the auth wallet is decided by the access token alone.\<close>

lemma auth_hook_access_token:
  assumes "a_engineMode (y_auth Y) \<noteq> ''sandbox''" "\<not> is_websocket req"
    and "\<not> ar_isAuthed (handlePublicEndpoints (y_auth Y) req)"
    and "a_getJWT (y_auth Y) req = Some jwt" "jwt \<noteq> []" "a_decode (y_auth Y) jwt = Some (Some adr, kid)"
    and "adr \<noteq> []" "a_authWallet (y_auth Y) = Inr adr" "fst (handleAccessToken Y jwt req s) = Inr resp"
  shows "fst (auth_hook Y req s) = Inr (if ar_isAuthed resp then Inr (ar_user resp)
      else Inl (if truthy (ar_error resp) then the (ar_error resp) else default_auth_message))"
proof -
  have "fst (handle_jwt Y req s) = Inr (Some resp)"
    using assms by (simp add: handle_jwt_def Let_def bnd_apply)
  then have "fst (onRequest Y req s) = Inr resp"
    using assms(2,3) unfolding onRequest_def is_websocket_def by (simp only: if_False) (simp add: bnd_apply)
  then show ?thesis using assms(1) by (simp add: auth_hook_def bnd_apply try_catch_apply)
qed

lemma revokeToken_run:
  assumes "fst (revokeToken Y i s) = Inr ()"
  shows "\<exists>t. trows (au_tokens s) i = Some t
    \<and> trows (au_tokens (snd (revokeToken Y i s))) i = Some (t\<lparr>tk_revokedAt := Some (clock (au_world s))\<rparr>)"
    and "au_tokenCache (snd (revokeToken Y i s)) = au_tokenCache s"
    and "au_world (snd (revokeToken Y i s)) = au_world s"
  using assms
  by (auto simp: revokeToken_def io_simps tok.law_update split: option.splits)

end

text \<open>The requests of a list that the rate limit lets pass, all within one minute.\<close>

fun count_admitted :: "'w env \<Rightarrow> int \<Rightarrow> http_request list \<Rightarrow> 'w world \<Rightarrow> nat \<times> 'w world" where
  "count_admitted E limit [] s = (0, s)"
| "count_admitted E limit (req # reqs) s = (case rate_limit_hook E limit req s of
       (Inr _, s') \<Rightarrow> (case count_admitted E limit reqs s' of (n, s'') \<Rightarrow> (Suc n, s''))
     | (Inl _, s') \<Rightarrow> count_admitted E limit reqs s')"

definition counter_is :: "keyspace \<Rightarrow> string \<Rightarrow> int \<Rightarrow> bool" where
  "counter_is v k c \<longleftrightarrow> (if c = 0 then v k = None else v k = Some (RString (show_int c)))"

context engine
begin

lemma rate_limit_step:
  assumes "counter_is (view (store s)) (rate_limit_key (clock s)) c" "0 \<le> c" "c + 1 < 2 ^ 63"
    and "hq_url req \<notin> {''/'', ''/json''}"
  shows "(\<exists>u. fst (rate_limit_hook E limit req s) = Inr u) \<longleftrightarrow> c + 1 \<le> limit"
    and "counter_is (view (store (snd (rate_limit_hook E limit req s)))) (rate_limit_key (clock s)) (c + 1)"
    and "clock (snd (rate_limit_hook E limit req s)) = clock s"
proof -
  have incr: "fst (r_incr (e_redis E) (rate_limit_key (clock s)) (store s)) = Inr (c + 1)
    \<and> view (snd (r_incr (e_redis E) (rate_limit_key (clock s)) (store s))) (rate_limit_key (clock s)) =
        Some (RString (show_int (c + 1)))"
    using assms(1-3) by (auto simp: counter_is_def cmd_incr_def split: if_splits)
  show "(\<exists>u. fst (rate_limit_hook E limit req s) = Inr u) \<longleftrightarrow> c + 1 \<le> limit"
    "counter_is (view (store (snd (rate_limit_hook E limit req s)))) (rate_limit_key (clock s)) (c + 1)"
    "clock (snd (rate_limit_hook E limit req s)) = clock s"
    using incr assms(2,4) by (auto simp: rate_limit_hook_def io_simps counter_is_def)
qed

end

end
