(* ===== verification/Auth_Properties.thy ===== *)
theory Auth_Properties
  imports Auth_Middleware
begin

text \<open>
  What authentication promises: the hook answers every request and admits only what the policy
  \<^const>\<open>allowed\<close> names, a revoked token or a removed key pair is refused at once, and the rate limit
  is exact. One theorem states where the code falls short: a token stays valid after a logout as
  long as it is cached. A system on tables in memory shows that the assumptions can hold.
\<close>

section \<open>A system in memory\<close>

type_synonym mem_auth = "(mem, (string, auth_token) mem_rows, (string, permission_row) mem_rows,
  (string, keypair) mem_rows) auth_sys"

definition sample_auth_env :: auth_env where
  "sample_auth_env = \<lparr>a_engineMode = ''default'', a_secretKey = ''sk'', a_adminWallet = ''0xadmin'',
     a_enableKeypair = True,
     a_parseJWT = (\<lambda>j. case j of None \<Rightarrow> Inl js_TypeError
       | Some t \<Rightarrow> Inr \<lparr>jp_jti = Some t, jp_sub = ''0xu'', jp_exp = 100\<rparr>),
     a_newId = ''new'', a_getJWT = hq_token, a_decode = (\<lambda>_. Some (Some ''0xw'', None)),
     a_verify = (\<lambda>_ _ _. Inr None),
     a_getUser = (\<lambda>_. Inr (Some \<lparr>us_address = ''0xu'', us_permissions = Some ''ADMIN''\<rparr>)),
     a_authWallet = Inr ''0xw'', a_authenticateJWT = (\<lambda>_ _. Inl js_TypeError), a_sha256 = id,
     a_uuidValidate = (\<lambda>_. False), a_createPublicKey = (\<lambda>_. True)\<rparr>"

definition sample_auth :: mem_auth where
  "sample_auth = \<lparr>y_env = mem_env, y_hooks = sample_webhook_env 200, y_auth = sample_auth_env,
     y_tokens = mem_table, y_permissions = mem_table, y_keypairs = mem_table\<rparr>"

definition sample_token :: auth_token where
  "sample_token = \<lparr>tk_id = ''t1'', tk_tokenMask = ''t...1'', tk_walletAddress = ''0xu'', tk_expiresAt = 100000,
     tk_revokedAt = None, tk_isAccessToken = True, tk_label = None\<rparr>"

definition sample_auth_state ::
  "(mem, (string, auth_token) mem_rows, (string, permission_row) mem_rows, (string, keypair) mem_rows) auth_state" where
  "sample_auth_state = \<lparr>au_world = mem_world [], au_tokens = [(''t1'', sample_token)], au_permissions = [],
     au_keypairs = [], au_tokenCache = (\<lambda>_. None)(Some ''t1'' := Some sample_token),
     au_keypairCache = (\<lambda>_. None), au_socketDestroyed = False\<rparr>"

definition sample_request :: "string option \<Rightarrow> string option \<Rightarrow> http_request" where
  "sample_request header token = \<lparr>hq_method = ''POST'', hq_url = ''/contract/write'', hq_upgrade = None,
     hq_authorization = header, hq_token = token, hq_ip = ''1.1.1.1'', hq_body = ''{}'',
     hq_data = \<lparr>rd_url = ''/contract/write'', rd_method = ''POST'', rd_headers = [], rd_params = [],
       rd_query = [], rd_cookies = [], rd_body = ''{}''\<rparr>\<rparr>"

interpretation mem_auth: auth_system sample_auth map_of map_of map_of
  by (simp add: auth_system_def sample_auth_def mem_rows.prisma_table_axioms)

lemma sample_request_private:
  "\<not> is_websocket (sample_request h t)"
  "\<not> ar_isAuthed (handlePublicEndpoints A (sample_request h t))"
  by (simp_all add: sample_request_def is_websocket_def handlePublicEndpoints_def Let_def js_startsWith_def
      ADMIN_QUEUES_BASEPATH_def not_authed_def)

lemma sample_facts:
  "a_engineMode (y_auth sample_auth) = ''default''" "a_getJWT (y_auth sample_auth) (sample_request h t) = t"
  "a_decode (y_auth sample_auth) j = Some (Some ''0xw'', None)" "a_authWallet (y_auth sample_auth) = Inr ''0xw''"
  "a_parseJWT (y_auth sample_auth) (Some j) = Inr \<lparr>jp_jti = Some j, jp_sub = ''0xu'', jp_exp = 100\<rparr>"
  "a_getUser (y_auth sample_auth) req = Inr (Some \<lparr>us_address = ''0xu'', us_permissions = Some ''ADMIN''\<rparr>)"
  "hq_upgrade (sample_request h t) = None"
  by (simp_all add: sample_auth_def sample_auth_env_def sample_request_def)

lemmas sample_auth_facts = sample_request_private sample_facts

section \<open>Properties\<close>

text \<open>
  C5: outside sandbox mode the auth hook answers every request, whatever fails on the way, and
  when it lets one go on then the request has a public route, an unrevoked token of an admin
  from an allowed address, the login of an admin on the dashboard, a registered key pair that
  signed this body from an allowed address, the secret key, or the consent of every auth webhook.
\<close>

theorem auth_sound:
  assumes "auth_system Y trows prows krows" "a_engineMode (y_auth Y) \<noteq> ''sandbox''"
  shows "\<exists>r. fst (auth_hook Y req s) = Inr r \<and> ((\<exists>u. r = Inr u) \<longrightarrow> allowed Y trows prows krows s req)"
proof -
  have run: "auth_hook Y req s = try_catch
        (bnd (onRequest Y req) (\<lambda>resp.
         ret (if ar_isAuthed resp then Inr (ar_user resp)
              else Inl (if truthy (ar_error resp) then the (ar_error resp) else default_auth_message))))
        (\<lambda>_. ret (Inl default_auth_message)) s"
    using assms(2) by (simp add: auth_hook_def)
  show ?thesis
    using auth_system.onRequest_sound [OF assms(1), of req s]
    by (auto simp: run bnd_apply try_catch_apply split: sum.split)
qed

theorem auth_sound_witness:
  "\<exists>r. fst (auth_hook sample_auth (sample_request (Some ''Bearer sk'') None) sample_auth_state) = Inr r
    \<and> r = Inr (Some \<lparr>us_address = ''0xw'', us_permissions = Some ''ADMIN''\<rparr>)
    \<and> allowed sample_auth map_of map_of map_of sample_auth_state (sample_request (Some ''Bearer sk'') None)"
proof -
  let ?req = "sample_request (Some ''Bearer sk'') None" and ?s = sample_auth_state
  have jwt: "a_getJWT (y_auth sample_auth) ?req = None"
    by (simp add: sample_auth_def sample_auth_env_def sample_request_def)
  have secret: "handleSecretKey sample_auth ?req ?s
      = (Inr (authed (Some \<lparr>us_address = ''0xw'', us_permissions = Some ''ADMIN''\<rparr>)), ?s)"
    by (simp add: handleSecretKey_def sample_auth_def sample_auth_env_def secret_of_def nth_opt_def
        sample_request_def bnd_apply)
  have "fst (onRequest sample_auth ?req ?s) = Inr (authed (Some \<lparr>us_address = ''0xw'', us_permissions = Some ''ADMIN''\<rparr>))"
    using sample_request_private [where h = "Some ''Bearer sk''" and t = None] jwt secret
    by (simp add: onRequest_def sample_facts handle_jwt_def Let_def bnd_apply authed_def)
  then have "fst (auth_hook sample_auth ?req ?s) = Inr (Inr (Some \<lparr>us_address = ''0xw'', us_permissions = Some ''ADMIN''\<rparr>))"
    by (simp add: auth_hook_def bnd_apply try_catch_apply authed_def sample_auth_def sample_auth_env_def)
  then show ?thesis
    using auth_sound [OF mem_auth.auth_system_axioms, of ?req ?s]
    by (simp add: sample_auth_def sample_auth_env_def)
qed

text \<open>
  C11: after the route that revokes an access token has returned, a request with that token is
  refused, also when the token had been cached before.
\<close>

theorem revoked_token_refused:
  assumes "auth_system Y trows prows krows" "a_engineMode (y_auth Y) \<noteq> ''sandbox''"
    and "\<not> is_websocket req" "\<not> ar_isAuthed (handlePublicEndpoints (y_auth Y) req)"
    and "a_getJWT (y_auth Y) req = Some jwt" "jwt \<noteq> []" "a_decode (y_auth Y) jwt = Some (Some adr, kid)"
    and "adr \<noteq> []" "a_authWallet (y_auth Y) = Inr adr"
    and "a_parseJWT (y_auth Y) (Some jwt) = Inr p" "jp_jti p = Some i" "i \<noteq> []"
    and "fst (revokeAccessTokenRoute Y i s) = Inr ()"
  shows "fst (auth_hook Y req (snd (revokeAccessTokenRoute Y i s))) = Inr (Inl default_auth_message)"
proof -
  let ?s' = "snd (revokeAccessTokenRoute Y i s)"
  have ok: "fst (revokeToken Y i s) = Inr ()"
    using assms(13) by (auto simp: revokeAccessTokenRoute_def bnd_apply split: sum.splits)
  have "?s' = (snd (revokeToken Y i s))\<lparr>au_tokenCache := (\<lambda>_. None)\<rparr>"
    using ok by (simp add: revokeAccessTokenRoute_def bnd_apply clear_token_cache_def)
  then obtain t where t: "token_of Y trows ?s' (Some jwt) = Some t" "tk_revokedAt t \<noteq> None"
    using auth_system.revokeToken_run(1) [OF assms(1) ok] assms(10-12) by (auto simp: token_of_def)
  have "fst (try_catch (getAccessToken Y (Some jwt)) (\<lambda>_. ret None) ?s') \<in> {Inr None, Inr (Some t)}"
    using auth_system.getAccessToken_run(1) [OF assms(1), of "Some jwt" ?s'] t(1)
    by (auto simp: try_catch_apply split: sum.split)
  then have "fst (handleAccessToken Y jwt req ?s') = Inr not_authed"
    using t(2) by (auto simp: handleAccessToken_def bnd_apply)
  then show ?thesis
    using auth_system.auth_hook_access_token [OF assms(1-9)] by (simp add: not_authed_def)
qed

theorem revoked_token_refused_witness:
  "fst (auth_hook sample_auth (sample_request None (Some ''t1''))
     (snd (revokeAccessTokenRoute sample_auth ''t1'' sample_auth_state))) = Inr (Inl default_auth_message)"
proof (rule revoked_token_refused [OF mem_auth.auth_system_axioms])
  show "fst (revokeAccessTokenRoute sample_auth ''t1'' sample_auth_state) = Inr ()"
    by (simp add: revokeAccessTokenRoute_def revokeToken_def clear_token_cache_def io_simps sample_auth_def
        sample_auth_state_def mem_table_def mem_world_def)
qed (simp add: sample_auth_facts)+

text \<open>
  a logout marks the row of the token as revoked but leaves the token cache: a token of an
  admin that is cached there is accepted after the logout as before.
\<close>

theorem logout_keeps_cached:
  assumes "auth_system Y trows prows krows" "a_engineMode (y_auth Y) \<noteq> ''sandbox''"
    and "\<not> is_websocket req" "\<not> ar_isAuthed (handlePublicEndpoints (y_auth Y) req)"
    and "a_getJWT (y_auth Y) req = Some jwt" "jwt \<noteq> []" "a_decode (y_auth Y) jwt = Some (Some adr, kid)"
    and "adr \<noteq> []" "a_authWallet (y_auth Y) = Inr adr"
    and "a_parseJWT (y_auth Y) (Some jwt) = Inr p" "jp_jti p = Some i" "trows (au_tokens s) i = Some t"
    and "au_tokenCache s (Some jwt) = Some t" "tk_revokedAt t = None"
    and "a_getUser (y_auth Y) req = Inr (Some u)" "is_admin (us_permissions u)"
    and "config_cache (au_world s) = Some c" "cfg_ipAllowlist c = []"
  shows "(\<exists>t'. trows (au_tokens (snd (onLogout Y req s))) i = Some t' \<and> tk_revokedAt t' \<noteq> None)
    \<and> fst (auth_hook Y req (snd (onLogout Y req s))) = Inr (Inr (Some u))"
proof -
  let ?s' = "snd (onLogout Y req s)"
  have ok: "fst (revokeToken Y i s) = Inr ()"
    using assms(12) auth_system.axioms(1) [OF assms(1)]
    by (simp add: revokeToken_def io_simps prisma_table.law_update)
  then have s': "?s' = snd (revokeToken Y i s)"
    using assms(5,6,10,11) by (simp add: onLogout_def bnd_apply try_catch_apply)
  note run = auth_system.revokeToken_run [OF assms(1) ok]
  have row: "\<exists>t'. trows (au_tokens ?s') i = Some t' \<and> tk_revokedAt t' \<noteq> None"
    using run(1) s' by auto
  have "fst (handleAccessToken Y jwt req ?s') = Inr (authed (Some u))"
    using assms(13-18) s' run(2,3)
    by (simp add: handleAccessToken_def getAccessToken_def bnd_apply try_catch_apply user_is_admin_def
        checkIpInAllowlist_def getConfig_def on_apply)
  then have "fst (auth_hook Y req ?s') = Inr (Inr (Some u))"
    using auth_system.auth_hook_access_token [OF assms(1-9)] by (simp add: authed_def)
  with row show ?thesis by blast
qed

theorem logout_keeps_cached_witness:
  "fst (auth_hook sample_auth (sample_request None (Some ''t1''))
     (snd (onLogout sample_auth (sample_request None (Some ''t1''))
       (sample_auth_state\<lparr>au_world := (mem_world [])\<lparr>config_cache := Some sample_config\<rparr>\<rparr>)))) =
   Inr (Inr (Some \<lparr>us_address = ''0xu'', us_permissions = Some ''ADMIN''\<rparr>))"
  by (rule conjunct2 [OF logout_keeps_cached [OF mem_auth.auth_system_axioms]])
    (auto simp: sample_auth_facts sample_auth_state_def sample_token_def is_admin_def sample_config_def)

text \<open>
  C21: within one minute the rate limit lets exactly so many requests pass that the counter
  reaches the limit, and refuses the others; the landing page and the API description do not count.
\<close>

theorem rate_limit_exact:
  assumes "engine E view" "counter_is (view (store s)) (rate_limit_key (clock s)) c" "0 \<le> c"
    and "c + int (length reqs) < 2 ^ 63" "\<forall>req \<in> set reqs. hq_url req \<noteq> ''/'' \<and> hq_url req \<noteq> ''/json''"
  shows "int (fst (count_admitted E limit reqs s)) = min (int (length reqs)) (max 0 (limit - c))"
  using assms(2-)
proof (induction reqs arbitrary: s c)
  case Nil
  then show ?case by simp
next
  case (Cons req reqs)
  note step = engine.rate_limit_step [OF assms(1) Cons.prems(1,2), of req limit]
  have small: "c + 1 < 2 ^ 63" and url: "hq_url req \<notin> {''/'', ''/json''}" using Cons.prems(3,4) by auto
  let ?r = "rate_limit_hook E limit req s"
  have "counter_is (view (store (snd ?r))) (rate_limit_key (clock (snd ?r))) (c + 1)"
    using step(2,3) small url by simp
  with Cons.IH [of "snd ?r" "c + 1"] Cons.prems(2-)
  have IH: "int (fst (count_admitted E limit reqs (snd ?r))) = min (int (length reqs)) (max 0 (limit - (c + 1)))"
    by simp
  show ?case
    using step(1) [OF small url] IH by (cases ?r) (auto split: sum.split prod.split)
qed

theorem rate_limit_exact_witness:
  "int (fst (count_admitted mem_env 2 (replicate 5 (sample_request None None)) (mem_world []))) = 2"
  using rate_limit_exact [where view = mem_view, OF mem_engine.engine_axioms,
      of "mem_world []" 0 "replicate 5 (sample_request None None)" 2]
  by (simp add: counter_is_def mem_world_def mem_view_def sample_request_def)

text \<open>
  after a key pair was removed, a token that names it is refused with the message that the
  key is not known, also when the key pair had been cached under its public key or its hash.
\<close>

theorem removed_keypair_refused:
  assumes "auth_system Y trows prows krows" "a_engineMode (y_auth Y) \<noteq> ''sandbox''"
    and "\<not> is_websocket req" "\<not> ar_isAuthed (handlePublicEndpoints (y_auth Y) req)"
    and "a_getJWT (y_auth Y) req = Some jwt" "jwt \<noteq> []" "a_decode (y_auth Y) jwt = Some (None, Some kid)"
    and "kid \<noteq> []" "a_enableKeypair (y_auth Y)" "fst (removeKeypairRoute Y kid s) = Inr ()"
  shows "fst (auth_hook Y req (snd (removeKeypairRoute Y kid s)))
    = Inr (Inl ''The provided public key is incorrect or not added to Engine.'')"
proof -
  let ?s' = "snd (removeKeypairRoute Y kid s)"
  note key = auth_system.axioms(3) [OF assms(1)]
  have "au_keypairCache ?s' = (\<lambda>_. None)" "krows (au_keypairs ?s') kid = None"
    using assms(10) by (auto simp: removeKeypairRoute_def deleteKeypair_def clear_keypair_cache_def bnd_apply on_apply
        prisma_table.law_delete [OF key] split: option.splits)
  then have "fst (getKeypair Y None (Some kid) ?s') = Inr None"
    using assms(8) by (simp add: getKeypair_def keypair_cache_key_def getKeypairByHash_def cache_keypair_def
        io_simps prisma_table.law_find [OF key])
  then have "fst (handleKeypairAuth Y jwt req None (Some kid) ?s')
      = Inr (refused ''The provided public key is incorrect or not added to Engine.'')"
    using assms(9) by (simp add: handleKeypairAuth_def keypair_check_def bnd_apply try_catch_apply)
  then have "fst (handle_jwt Y req ?s') = Inr (Some (refused ''The provided public key is incorrect or not added to Engine.''))"
    using assms(5-8) by (simp add: handle_jwt_def Let_def bnd_apply)
  then have "fst (onRequest Y req ?s') = Inr (refused ''The provided public key is incorrect or not added to Engine.'')"
    using assms(3,4) unfolding onRequest_def is_websocket_def by (simp only: if_False) (simp add: bnd_apply)
  then show ?thesis using assms(2) by (simp add: auth_hook_def bnd_apply try_catch_apply refused_def)
qed

theorem removed_keypair_refused_witness:
  "fst (auth_hook (sample_auth\<lparr>y_auth := sample_auth_env\<lparr>a_decode := (\<lambda>_. Some (None, Some ''h''))\<rparr>\<rparr>)
     (sample_request None (Some ''t1''))
     (snd (removeKeypairRoute (sample_auth\<lparr>y_auth := sample_auth_env\<lparr>a_decode := (\<lambda>_. Some (None, Some ''h''))\<rparr>\<rparr>) ''h''
       (sample_auth_state\<lparr>au_keypairs := [(''h'', \<lparr>kp_hash = ''h'', kp_publicKey = ''pk'',
         kp_algorithm = ''ES256'', kp_label = None\<rparr>)]\<rparr>))))
   = Inr (Inl ''The provided public key is incorrect or not added to Engine.'')"
proof (rule removed_keypair_refused)
  show "auth_system (sample_auth\<lparr>y_auth := sample_auth_env\<lparr>a_decode := (\<lambda>_. Some (None, Some ''h''))\<rparr>\<rparr>) map_of map_of map_of"
    by (simp add: auth_system_def sample_auth_def mem_rows.prisma_table_axioms)
  show "\<not> is_websocket (sample_request None (Some ''t1''))"
    "\<not> ar_isAuthed (handlePublicEndpoints
       (y_auth (sample_auth\<lparr>y_auth := sample_auth_env\<lparr>a_decode := (\<lambda>_. Some (None, Some ''h''))\<rparr>\<rparr>))
       (sample_request None (Some ''t1'')))"
    by (rule sample_request_private)+
qed (simp add: sample_auth_def sample_auth_env_def sample_request_def removeKeypairRoute_def deleteKeypair_def
      clear_keypair_cache_def io_simps mem_table_def)+

end
