(* ===== verification/Contract_Tables.thy ===== *)
theory Contract_Tables
  imports Webhook_Worker Prisma_Table
begin

text \<open>
  The tables of the contract subscriptions and their queries: the blocks indexed so far
  (\<open>src/db/chainIndexers\<close>), the subscriptions (\<open>src/db/contractSubscriptions\<close>), the webhooks
  (\<open>src/db/webhooks\<close>), the event logs (\<open>src/db/contractEventLogs\<close>) and the receipts
  (\<open>src/db/contractTransactionReceipts\<close>). A \<open>where\<close> clause is a predicate on a row, an \<open>orderBy\<close>
  a list of numbers compared lexicographically.

  Reading event logs page by page with the cursor gives every log exactly once, in order. The
  same does not hold for receipts: the condition on the cursor skips the rest of a block.
\<close>

section \<open>Rows, tables and state\<close>

record subscription =
  su_id :: string
  su_chainId :: int
  su_contractAddress :: string
  su_webhookId :: "int option"
  su_processEventLogs :: bool
  su_filterEvents :: "string list"
  su_processTransactionReceipts :: bool
  su_filterFunctions :: "string list"
  su_createdAt :: int
  su_deletedAt :: "int option"

text \<open>
  The tables by their unique keys, as the schema of the database gives them; the row of a chain
  indexer is its last indexed block. The codec \<open>base-64\<close> and what the database generates (the
  next webhook id, a UUID and a secret) are parameters.
\<close>

record ('c, 's, 'l, 'r, 'h) contract_sys =
  x_indexers :: "('c, int, int) table"
  x_subs :: "('s, string, subscription) table"
  x_logs :: "('l, string \<times> int, event_log) table"
  x_receipts :: "('r, int \<times> string, receipt_log) table"
  x_hooks :: "('h, int, webhook) table"
  x_encode64 :: "string \<Rightarrow> string"
  x_decode64 :: "string \<Rightarrow> js_error + string"
  x_newWebhookId :: int
  x_newUuid :: string
  x_newSecret :: string

text \<open>
  A scheduled chain indexer, with the parameters of its task; a limit or an offset of
  \<^const>\<open>None\<close> is \<open>Infinity\<close>.
\<close>

record indexer_task =
  it_chainId :: int
  it_maxBlocksToIndex :: "int option"
  it_toBlockOffset :: "int option"
  it_schedule :: string

record ('w, 'c, 's, 'l, 'r, 'h) contract_state =
  xs_world :: "'w world"
  xs_indexers :: 'c
  xs_subs :: 's
  xs_logs :: 'l
  xs_receipts :: 'r
  xs_hooks :: 'h
  xs_registry :: "(int \<times> indexer_task) list"

definition at_world :: "('w world, 'a) io \<Rightarrow> (('w, 'c, 's, 'l, 'r, 'h) contract_state, 'a) io" where
  "at_world m = (\<lambda>s. case m (xs_world s) of (r, w) \<Rightarrow> (r, s\<lparr>xs_world := w\<rparr>))"

definition at_indexers :: "('c, 'a) io \<Rightarrow> (('w, 'c, 's, 'l, 'r, 'h) contract_state, 'a) io" where
  "at_indexers m = (\<lambda>s. case m (xs_indexers s) of (r, d) \<Rightarrow> (r, s\<lparr>xs_indexers := d\<rparr>))"

definition at_subs :: "('s, 'a) io \<Rightarrow> (('w, 'c, 's, 'l, 'r, 'h) contract_state, 'a) io" where
  "at_subs m = (\<lambda>s. case m (xs_subs s) of (r, d) \<Rightarrow> (r, s\<lparr>xs_subs := d\<rparr>))"

definition at_logs :: "('l, 'a) io \<Rightarrow> (('w, 'c, 's, 'l, 'r, 'h) contract_state, 'a) io" where
  "at_logs m = (\<lambda>s. case m (xs_logs s) of (r, d) \<Rightarrow> (r, s\<lparr>xs_logs := d\<rparr>))"

definition at_receipts :: "('r, 'a) io \<Rightarrow> (('w, 'c, 's, 'l, 'r, 'h) contract_state, 'a) io" where
  "at_receipts m = (\<lambda>s. case m (xs_receipts s) of (r, d) \<Rightarrow> (r, s\<lparr>xs_receipts := d\<rparr>))"

definition at_hooks :: "('h, 'a) io \<Rightarrow> (('w, 'c, 's, 'l, 'r, 'h) contract_state, 'a) io" where
  "at_hooks m = (\<lambda>s. case m (xs_hooks s) of (r, d) \<Rightarrow> (r, s\<lparr>xs_hooks := d\<rparr>))"

lemma at_apply [io_simps]:
  "at_world m0 s0 = (fst (m0 (xs_world s0)), s0\<lparr>xs_world := snd (m0 (xs_world s0))\<rparr>)"
  "at_indexers m1 s1 = (fst (m1 (xs_indexers s1)), s1\<lparr>xs_indexers := snd (m1 (xs_indexers s1))\<rparr>)"
  "at_subs m2 s2 = (fst (m2 (xs_subs s2)), s2\<lparr>xs_subs := snd (m2 (xs_subs s2))\<rparr>)"
  "at_logs m3 s3 = (fst (m3 (xs_logs s3)), s3\<lparr>xs_logs := snd (m3 (xs_logs s3))\<rparr>)"
  "at_receipts m4 s4 = (fst (m4 (xs_receipts s4)), s4\<lparr>xs_receipts := snd (m4 (xs_receipts s4))\<rparr>)"
  "at_hooks m5 s5 = (fst (m5 (xs_hooks s5)), s5\<lparr>xs_hooks := snd (m5 (xs_hooks s5))\<rparr>)"
  by (simp_all add: at_world_def at_indexers_def at_subs_def at_logs_def at_receipts_def at_hooks_def
      split: prod.split)

section \<open>Chain indexers and webhooks\<close>

definition getLastIndexedBlock ::
  "('c, 's, 'l, 'r, 'h) contract_sys \<Rightarrow> int \<Rightarrow> (('w, 'c, 's, 'l, 'r, 'h) contract_state, int option) io" where
  "getLastIndexedBlock X chainId = at_indexers (t_find (x_indexers X) chainId)"

text \<open>
  \<open>SELECT ... FOR UPDATE NOWAIT\<close>: fails when another transaction holds the row; the first row of
  an empty answer is undefined, which throws too.
\<close>

definition getBlockForIndexing ::
  "('c, 's, 'l, 'r, 'h) contract_sys \<Rightarrow> bool \<Rightarrow> int \<Rightarrow> (('w, 'c, 's, 'l, 'r, 'h) contract_state, int) io" where
  "getBlockForIndexing X rowLocked chainId =
     (if rowLocked then throw (js_Error ''could not obtain lock on row'')
      else
        bnd (at_indexers (t_find (x_indexers X) chainId)) (\<lambda>row.
        case row of None \<Rightarrow> throw js_TypeError | Some lastIndexedBlock \<Rightarrow> ret lastIndexedBlock))"

definition upsertChainIndexer ::
  "('c, 's, 'l, 'r, 'h) contract_sys \<Rightarrow> int \<Rightarrow> int \<Rightarrow> (('w, 'c, 's, 'l, 'r, 'h) contract_state, int) io" where
  "upsertChainIndexer X chainId currentBlockNumber =
     at_indexers (t_upsert (x_indexers X) chainId currentBlockNumber (\<lambda>_. currentBlockNumber))"

definition insertWebhook ::
  "('c, 's, 'l, 'r, 'h) contract_sys \<Rightarrow> string \<Rightarrow> string option \<Rightarrow> string
   \<Rightarrow> (('w, 'c, 's, 'l, 'r, 'h) contract_state, webhook) io" where
  "insertWebhook X url name eventType =
     bnd (at_world new_Date) (\<lambda>now.
     at_hooks (t_create (x_hooks X) (x_newWebhookId X) \<lparr>wh_id = x_newWebhookId X, wh_url = url,
       wh_eventType = eventType, wh_secret = x_newSecret X, wh_revokedAt = None, wh_name = name,
       wh_createdAt = now\<rparr>))"

definition getAllWebhooks ::
  "('c, 's, 'l, 'r, 'h) contract_sys \<Rightarrow> (('w, 'c, 's, 'l, 'r, 'h) contract_state, webhook list) io" where
  "getAllWebhooks X =
     bnd (at_hooks (t_many (x_hooks X) (\<lambda>w. wh_revokedAt w = None))) (\<lambda>ws. ret (sort_key wh_id ws))"

definition getWebhook ::
  "('c, 's, 'l, 'r, 'h) contract_sys \<Rightarrow> int \<Rightarrow> (('w, 'c, 's, 'l, 'r, 'h) contract_state, webhook option) io" where
  "getWebhook X i = at_hooks (t_find (x_hooks X) i)"

definition deleteWebhook ::
  "('c, 's, 'l, 'r, 'h) contract_sys \<Rightarrow> int \<Rightarrow> (('w, 'c, 's, 'l, 'r, 'h) contract_state, webhook) io" where
  "deleteWebhook X i =
     bnd (at_world new_Date) (\<lambda>now.
     at_hooks (t_update (x_hooks X) i (\<lambda>w. w\<lparr>wh_revokedAt := Some now\<rparr>)))"

section \<open>Subscriptions\<close>

definition createContractSubscription ::
  "('c, 's, 'l, 'r, 'h) contract_sys \<Rightarrow> int \<Rightarrow> string \<Rightarrow> int option \<Rightarrow> bool \<Rightarrow> string list \<Rightarrow> bool
   \<Rightarrow> string list \<Rightarrow> (('w, 'c, 's, 'l, 'r, 'h) contract_state, subscription) io" where
  "createContractSubscription X chainId contractAddress webhookId processEventLogs filterEvents
       processTransactionReceipts filterFunctions =
     bnd (at_world new_Date) (\<lambda>now.
     at_subs (t_create (x_subs X) (x_newUuid X) \<lparr>su_id = x_newUuid X, su_chainId = chainId,
       su_contractAddress = contractAddress, su_webhookId = webhookId,
       su_processEventLogs = processEventLogs, su_filterEvents = filterEvents,
       su_processTransactionReceipts = processTransactionReceipts, su_filterFunctions = filterFunctions,
       su_createdAt = now, su_deletedAt = None\<rparr>))"

definition deleteContractSubscription ::
  "('c, 's, 'l, 'r, 'h) contract_sys \<Rightarrow> string \<Rightarrow> (('w, 'c, 's, 'l, 'r, 'h) contract_state, subscription) io" where
  "deleteContractSubscription X i =
     bnd (at_world new_Date) (\<lambda>now.
     at_subs (t_update (x_subs X) i (\<lambda>c. c\<lparr>su_deletedAt := Some now\<rparr>)))"

definition isContractSubscribed ::
  "('c, 's, 'l, 'r, 'h) contract_sys \<Rightarrow> int \<Rightarrow> string \<Rightarrow> (('w, 'c, 's, 'l, 'r, 'h) contract_state, bool) io" where
  "isContractSubscribed X chainId contractAddress =
     bnd (at_subs (t_many (x_subs X)
       (\<lambda>c. su_chainId c = chainId \<and> su_contractAddress c = contractAddress \<and> su_deletedAt c = None)))
     (\<lambda>found. ret (found \<noteq> []))"

text \<open>\<open>include: { webhook: true }\<close>: every row with the webhook it refers to.\<close>

fun include_webhook ::
  "('c, 's, 'l, 'r, 'h) contract_sys \<Rightarrow> subscription list
   \<Rightarrow> (('w, 'c, 's, 'l, 'r, 'h) contract_state, (subscription \<times> webhook option) list) io" where
  "include_webhook X [] = ret []"
| "include_webhook X (c # cs) =
     bnd (case su_webhookId c of None \<Rightarrow> ret None | Some i \<Rightarrow> getWebhook X i) (\<lambda>w.
     bnd (include_webhook X cs) (\<lambda>rest. ret ((c, w) # rest)))"

definition getContractSubscriptionsByChainId ::
  "('c, 's, 'l, 'r, 'h) contract_sys \<Rightarrow> int
   \<Rightarrow> (('w, 'c, 's, 'l, 'r, 'h) contract_state, (subscription \<times> webhook option) list) io" where
  "getContractSubscriptionsByChainId X chainId =
     bnd (at_subs (t_many (x_subs X) (\<lambda>c. su_chainId c = chainId \<and> su_deletedAt c = None)))
     (include_webhook X)"

definition getAllContractSubscriptions ::
  "('c, 's, 'l, 'r, 'h) contract_sys
   \<Rightarrow> (('w, 'c, 's, 'l, 'r, 'h) contract_state, (subscription \<times> webhook option) list) io" where
  "getAllContractSubscriptions X =
     bnd (at_subs (t_many (x_subs X) (\<lambda>c. su_deletedAt c = None))) (include_webhook X)"

definition getContractSubscriptionsUniqueChainIds ::
  "('c, 's, 'l, 'r, 'h) contract_sys \<Rightarrow> (('w, 'c, 's, 'l, 'r, 'h) contract_state, int list) io" where
  "getContractSubscriptionsUniqueChainIds X =
     bnd (at_subs (t_many (x_subs X) (\<lambda>c. su_deletedAt c = None))) (\<lambda>cs.
     ret (remdups (map su_chainId cs)))"

section \<open>Event logs\<close>

text \<open>The database sets the time of creation.\<close>

definition bulkInsertContractEventLogs ::
  "('c, 's, 'l, 'r, 'h) contract_sys \<Rightarrow> event_log list
   \<Rightarrow> (('w, 'c, 's, 'l, 'r, 'h) contract_state, event_log list) io" where
  "bulkInsertContractEventLogs X logs =
     bnd (at_world new_Date) (\<lambda>now.
     at_logs (t_createMany (x_logs X)
       (map (\<lambda>l. ((el_transactionHash l, el_logIndex l), l\<lparr>el_createdAt := now\<rparr>)) logs)))"

definition deleteContractEventLogs ::
  "('c, 's, 'l, 'r, 'h) contract_sys \<Rightarrow> int \<Rightarrow> string \<Rightarrow> (('w, 'c, 's, 'l, 'r, 'h) contract_state, int) io" where
  "deleteContractEventLogs X chainId contractAddress =
     at_logs (t_deleteMany (x_logs X)
       (\<lambda>l. el_chainId l = chainId \<and> el_contractAddress l = contractAddress))"

text \<open>A list of conditions that is absent or empty restricts nothing.\<close>

definition topics_match :: "string list option \<Rightarrow> event_log \<Rightarrow> bool" where
  "topics_match topics l = (case topics of None \<Rightarrow> True
     | Some ts \<Rightarrow> ts = [] \<or> list_ex (\<lambda>t. el_topic0 l = Some t \<or> el_topic1 l = Some t
         \<or> el_topic2 l = Some t \<or> el_topic3 l = Some t) ts)"

definition address_in :: "string list option \<Rightarrow> string \<Rightarrow> bool" where
  "address_in contractAddresses a = (case contractAddresses of None \<Rightarrow> True
     | Some as \<Rightarrow> as = [] \<or> a \<in> set as)"

text \<open>An upper bound that is absent or 0 is falsy and bounds nothing.\<close>

definition upto :: "int option \<Rightarrow> int \<Rightarrow> bool" where
  "upto bound n = (case bound of None \<Rightarrow> True | Some b \<Rightarrow> b = 0 \<or> n \<le> b)"

definition getContractEventLogsByBlockAndTopics ::
  "('c, 's, 'l, 'r, 'h) contract_sys \<Rightarrow> int \<Rightarrow> string \<Rightarrow> int \<Rightarrow> int option \<Rightarrow> string list option
   \<Rightarrow> (('w, 'c, 's, 'l, 'r, 'h) contract_state, event_log list) io" where
  "getContractEventLogsByBlockAndTopics X chainId contractAddress fromBlock toBlock topics =
     at_logs (t_many (x_logs X) (\<lambda>l. el_chainId l = chainId \<and> el_contractAddress l = contractAddress
       \<and> el_blockNumber l \<ge> fromBlock \<and> upto toBlock (el_blockNumber l) \<and> topics_match topics l))"

definition getEventLogsByBlockTimestamp ::
  "('c, 's, 'l, 'r, 'h) contract_sys \<Rightarrow> int \<Rightarrow> int option \<Rightarrow> string list option \<Rightarrow> string list option
   \<Rightarrow> (('w, 'c, 's, 'l, 'r, 'h) contract_state, event_log list) io" where
  "getEventLogsByBlockTimestamp X fromBlockTimestamp toBlockTimestamp contractAddresses topics =
     at_logs (t_many (x_logs X) (\<lambda>l. el_timestamp l \<ge> fromBlockTimestamp
       \<and> upto toBlockTimestamp (el_timestamp l)
       \<and> address_in contractAddresses (el_contractAddress l) \<and> topics_match topics l))"

text \<open>\<open>_min\<close> and \<open>_max\<close> of the block numbers, null for no rows.\<close>

definition getContractEventLogsIndexedBlockRange ::
  "('c, 's, 'l, 'r, 'h) contract_sys \<Rightarrow> int \<Rightarrow> string
   \<Rightarrow> (('w, 'c, 's, 'l, 'r, 'h) contract_state, int option \<times> int option) io" where
  "getContractEventLogsIndexedBlockRange X chainId contractAddress =
     bnd (at_logs (t_many (x_logs X)
       (\<lambda>l. el_chainId l = chainId \<and> el_contractAddress l = contractAddress))) (\<lambda>ls.
     ret (if ls = [] then (None, None)
          else (Some (Min (set (map el_blockNumber ls))), Some (Max (set (map el_blockNumber ls))))))"

section \<open>Cursors\<close>

text \<open>
  The numbers of a cursor: the text split at the dashes, each part read by \<open>parseInt\<close>. A missing
  part or \<open>NaN\<close> fails the schema.
\<close>

definition cursor_numbers :: "nat \<Rightarrow> string \<Rightarrow> int list option" where
  "cursor_numbers n text =
     (let ps = map parseInt (js_split (CHR ''-'') text)
      in if n \<le> length ps \<and> list_all (\<lambda>p. p \<noteq> None) (take n ps) then Some (map the (take n ps)) else None)"

definition parse_cursor ::
  "('c, 's, 'l, 'r, 'h) contract_sys \<Rightarrow> nat \<Rightarrow> string option \<Rightarrow> js_error + int list option" where
  "parse_cursor X n cursor =
     (if truthy cursor then
        (case x_decode64 X (the cursor) of
           Inl e \<Rightarrow> Inl e
         | Inr text \<Rightarrow> (case cursor_numbers n text of
             None \<Rightarrow> Inl (js_Error ''Invalid cursor format'')
           | Some ns \<Rightarrow> Inr (Some ns)))
      else Inr None)"

fun join_dash :: "int list \<Rightarrow> string" where
  "join_dash [] = []"
| "join_dash [n] = show_int n"
| "join_dash (n # ns) = show_int n @ CHR ''-'' # join_dash ns"

definition log_key :: "event_log \<Rightarrow> int list" where
  "log_key l = [el_createdAt l, el_chainId l, el_blockNumber l, el_transactionIndex l, el_logIndex l]"

text \<open>The condition that a log comes after the cursor, as the clause spells it.\<close>

definition log_after :: "int list \<Rightarrow> event_log \<Rightarrow> bool" where
  "log_after c l =
     (el_createdAt l > c ! 0
      \<or> (el_createdAt l = c ! 0 \<and> el_chainId l > c ! 1)
      \<or> (el_createdAt l = c ! 0 \<and> el_chainId l = c ! 1 \<and> el_blockNumber l > c ! 2)
      \<or> (el_createdAt l = c ! 0 \<and> el_chainId l = c ! 1 \<and> el_blockNumber l = c ! 2
          \<and> el_transactionIndex l > c ! 3)
      \<or> (el_createdAt l = c ! 0 \<and> el_chainId l = c ! 1 \<and> el_blockNumber l = c ! 2
          \<and> el_transactionIndex l = c ! 3 \<and> el_logIndex l > c ! 4))"

definition log_where ::
  "int list option \<Rightarrow> string list option \<Rightarrow> string list option \<Rightarrow> int option \<Rightarrow> event_log \<Rightarrow> bool" where
  "log_where c contractAddresses topics maxCreatedAt l =
     (address_in contractAddresses (el_contractAddress l)
      \<and> (case c of None \<Rightarrow> True | Some ns \<Rightarrow> log_after ns l)
      \<and> (case maxCreatedAt of None \<Rightarrow> True | Some m \<Rightarrow> el_createdAt l \<le> m)
      \<and> topics_match topics l)"

definition getEventLogsByCursor ::
  "('c, 's, 'l, 'r, 'h) contract_sys \<Rightarrow> string option \<Rightarrow> nat option \<Rightarrow> string list option
   \<Rightarrow> string list option \<Rightarrow> int option
   \<Rightarrow> (('w, 'c, 's, 'l, 'r, 'h) contract_state, string option \<times> event_log list) io" where
  "getEventLogsByCursor X cursor limit contractAddresses topics maxCreatedAt =
     bnd (lift_res (parse_cursor X 5 cursor)) (\<lambda>cursorObj.
     bnd (at_logs (t_page (x_logs X) (log_where cursorObj contractAddresses topics maxCreatedAt) log_key
            (case limit of None \<Rightarrow> 100 | Some n \<Rightarrow> n))) (\<lambda>logs.
     ret (if logs = [] then cursor else Some (x_encode64 X (join_dash (log_key (last logs)))), logs)))"

section \<open>Receipts\<close>

definition bulkInsertContractTransactionReceipts ::
  "('c, 's, 'l, 'r, 'h) contract_sys \<Rightarrow> receipt_log list
   \<Rightarrow> (('w, 'c, 's, 'l, 'r, 'h) contract_state, receipt_log list) io" where
  "bulkInsertContractTransactionReceipts X receipts =
     bnd (at_world new_Date) (\<lambda>now.
     at_receipts (t_createMany (x_receipts X)
       (map (\<lambda>r. ((rl_chainId r, rl_transactionHash r), r\<lparr>rl_createdAt := now\<rparr>)) receipts)))"

definition deleteContractTransactionReceipts ::
  "('c, 's, 'l, 'r, 'h) contract_sys \<Rightarrow> int \<Rightarrow> string \<Rightarrow> (('w, 'c, 's, 'l, 'r, 'h) contract_state, int) io" where
  "deleteContractTransactionReceipts X chainId contractAddress =
     at_receipts (t_deleteMany (x_receipts X)
       (\<lambda>r. rl_chainId r = chainId \<and> rl_contractAddress r = contractAddress))"

definition getContractTransactionReceiptsByBlock ::
  "('c, 's, 'l, 'r, 'h) contract_sys \<Rightarrow> int \<Rightarrow> string \<Rightarrow> int \<Rightarrow> int option
   \<Rightarrow> (('w, 'c, 's, 'l, 'r, 'h) contract_state, receipt_log list) io" where
  "getContractTransactionReceiptsByBlock X chainId contractAddress fromBlock toBlock =
     at_receipts (t_many (x_receipts X) (\<lambda>r. rl_chainId r = chainId \<and> rl_contractAddress r = contractAddress
       \<and> rl_blockNumber r \<ge> fromBlock \<and> upto toBlock (rl_blockNumber r)))"

definition getTransactionReceiptsByBlockTimestamp ::
  "('c, 's, 'l, 'r, 'h) contract_sys \<Rightarrow> int \<Rightarrow> int option \<Rightarrow> string list option
   \<Rightarrow> (('w, 'c, 's, 'l, 'r, 'h) contract_state, receipt_log list) io" where
  "getTransactionReceiptsByBlockTimestamp X fromBlockTimestamp toBlockTimestamp contractAddresses =
     at_receipts (t_many (x_receipts X) (\<lambda>r. rl_timestamp r \<ge> fromBlockTimestamp
       \<and> upto toBlockTimestamp (rl_timestamp r) \<and> address_in contractAddresses (rl_contractAddress r)))"

definition receipt_key :: "receipt_log \<Rightarrow> int list" where
  "receipt_key r = [rl_createdAt r, rl_chainId r, rl_blockNumber r, rl_transactionIndex r]"

lemma length_receipt_key [simp]: "length (receipt_key r) = 4" "receipt_key r \<noteq> []"
  by (simp_all add: receipt_key_def)

lemma join_receipt_key [simp]: "join_dash (receipt_key r) \<noteq> []"
  by (simp add: receipt_key_def)

text \<open>The condition as the clause spells it: the last case asks for a later block again.\<close>

definition receipt_after :: "int list \<Rightarrow> receipt_log \<Rightarrow> bool" where
  "receipt_after c r =
     (rl_createdAt r > c ! 0
      \<or> (rl_createdAt r = c ! 0 \<and> rl_chainId r > c ! 1)
      \<or> (rl_createdAt r = c ! 0 \<and> rl_chainId r = c ! 1 \<and> rl_blockNumber r > c ! 2)
      \<or> (rl_createdAt r = c ! 0 \<and> rl_chainId r = c ! 1 \<and> rl_blockNumber r > c ! 2
          \<and> rl_transactionIndex r > c ! 3))"

definition receipt_where :: "int list option \<Rightarrow> string list option \<Rightarrow> int option \<Rightarrow> receipt_log \<Rightarrow> bool" where
  "receipt_where c contractAddresses maxCreatedAt r =
     (address_in contractAddresses (rl_contractAddress r)
      \<and> (case c of None \<Rightarrow> True | Some ns \<Rightarrow> receipt_after ns r)
      \<and> (case maxCreatedAt of None \<Rightarrow> True | Some m \<Rightarrow> rl_createdAt r \<le> m))"

definition getTransactionReceiptsByCursor ::
  "('c, 's, 'l, 'r, 'h) contract_sys \<Rightarrow> string option \<Rightarrow> nat option \<Rightarrow> string list option \<Rightarrow> int option
   \<Rightarrow> (('w, 'c, 's, 'l, 'r, 'h) contract_state, string option \<times> receipt_log list) io" where
  "getTransactionReceiptsByCursor X cursor limit contractAddresses maxCreatedAt =
     bnd (lift_res (parse_cursor X 4 cursor)) (\<lambda>cursorObj.
     bnd (at_receipts (t_page (x_receipts X) (receipt_where cursorObj contractAddresses maxCreatedAt)
            receipt_key (case limit of None \<Rightarrow> 100 | Some n \<Rightarrow> n))) (\<lambda>receipts.
     ret (if receipts = [] then cursor else Some (x_encode64 X (join_dash (receipt_key (last receipts)))),
          receipts)))"

section \<open>Reading page by page\<close>

text \<open>A client that passes on the cursor of every page and stops at the first empty one.\<close>

fun read_logs ::
  "('c, 's, 'l, 'r, 'h) contract_sys \<Rightarrow> nat \<Rightarrow> string list option \<Rightarrow> string list option \<Rightarrow> int option
   \<Rightarrow> nat \<Rightarrow> string option \<Rightarrow> (('w, 'c, 's, 'l, 'r, 'h) contract_state, event_log list) io" where
  "read_logs X n as ts mx 0 cursor = ret []"
| "read_logs X n as ts mx (Suc fuel) cursor =
     bnd (getEventLogsByCursor X cursor (Some n) as ts mx) (\<lambda>(next, logs).
     if logs = [] then ret [] else bnd (read_logs X n as ts mx fuel next) (\<lambda>rest. ret (logs @ rest)))"

lemma log_after_key: "length c = 5 \<Longrightarrow> log_after c l \<longleftrightarrow> c < log_key l"
  by (auto simp: log_after_def log_key_def length_Suc_conv numeral_eq_Suc)

lemma length_log_key [simp]: "length (log_key l) = 5" "log_key l \<noteq> []"
  by (simp_all add: log_key_def)

lemma split_join_dash:
  "ns \<noteq> [] \<Longrightarrow> list_all (\<lambda>n. 0 \<le> n) ns \<Longrightarrow> js_split (CHR ''-'') (join_dash ns) = map show_int ns"
proof (induction ns rule: join_dash.induct)
  case (2 n)
  then show ?case by (simp add: show_int_def js_simps)
next
  case (3 n m ns)
  then have "CHR ''-'' \<notin> set (show_int n)" by (simp add: show_int_def js_simps)
  with 3 show ?case by (simp add: js_split_append)
qed simp

lemma cursor_roundtrip:
  assumes "ns \<noteq> []" "list_all (\<lambda>n. 0 \<le> n) ns"
  shows "cursor_numbers (length ns) (join_dash ns) = Some ns"
  by (simp add: cursor_numbers_def split_join_dash [OF assms] comp_def list_all_length)

text \<open>A list is determined by its elements and a key that increases strictly.\<close>

lemma strict_key_unique:
  fixes key :: "'a \<Rightarrow> 'k :: linorder"
  assumes "sorted_wrt (<) (map key xs)" "sorted_wrt (<) (map key ys)" "set xs = set ys"
  shows "xs = ys"
proof -
  have "map key xs = map key ys"
    using strict_sorted_equal [OF assms(2,1)] assms(3) by simp
  moreover have "distinct (map key xs)"
    using assms(1) strict_sorted_iff by blast
  ultimately show ?thesis
    using assms(3) by (simp add: distinct_map map_inj_on)
qed

lemma strict_key_drop:
  assumes "sorted_wrt (<) (map key xs)" "0 < i" "i \<le> length xs"
  shows "set (drop i xs) = {v \<in> set xs. key (xs ! (i - 1)) < (key v :: 'k :: linorder)}"
proof -
  have less: "key (xs ! j) < key (xs ! k)" if "j < k" "k < length xs" for j k
    using assms(1) that by (simp add: sorted_wrt_iff_nth_less)
  have iff: "key (xs ! (i - 1)) < key (xs ! j) \<longleftrightarrow> i \<le> j" if "j < length xs" for j
    using less [of "i - 1" j] less [of j "i - 1"] that assms(2,3) by (cases "j = i - 1") force+
  show ?thesis
  proof (intro set_eqI iffI)
    fix v assume "v \<in> set (drop i xs)"
    then obtain j where "j < length xs - i" "v = xs ! (i + j)" by (auto simp: in_set_conv_nth)
    then show "v \<in> {v \<in> set xs. key (xs ! (i - 1)) < key v}" using iff by simp
  next
    fix v assume "v \<in> {v \<in> set xs. key (xs ! (i - 1)) < key v}"
    then obtain j where "j < length xs" "v = xs ! j" "i \<le> j" using iff by (auto simp: in_set_conv_nth)
    then show "v \<in> set (drop i xs)" by (auto simp: in_set_conv_nth intro!: exI [of _ "j - i"])
  qed
qed

context prisma_table
begin

text \<open>When no two rows have the same sort key, a page is the start of the ordered rows.\<close>

lemma page_run:
  assumes "inj_on (\<lambda>k. key (the (rows d k))) (dom (rows d))"
  shows "\<exists>L. fst (t_page T p key n d) = Inr (take n L) \<and> sorted_wrt (<) (map key L)
    \<and> set L = {v \<in> ran (rows d). p v}"
proof -
  obtain ks where ks: "distinct ks" "set ks = dom (rows d)"
    "fst (t_page T p key n d) = Inr (take n (sort_key key (filter p (map (the \<circ> rows d) ks))))"
    using law_page(1) by blast
  let ?vs = "filter p (map (the \<circ> rows d) ks)"
  have "distinct (map key (map (the \<circ> rows d) ks))"
    using ks(1,2) assms by (simp add: distinct_map comp_def)
  then have "distinct (map key ?vs)"
    by (rule distinct_map_filter)
  then have "sorted_wrt (<) (map key (sort_key key ?vs))"
    by (simp add: strict_sorted_iff distinct_map)
  moreover have "set ?vs = {v \<in> ran (rows d). p v}"
    using ks(2) by (force simp: ran_def dom_def image_iff)
  ultimately show ?thesis using ks(3) by (intro exI [of _ "sort_key key ?vs"]) (simp add: comp_def)
qed

end

text \<open>The database of the subscriptions, and the law of the base-64 codec.\<close>

locale contract_db = ind: prisma_table "x_indexers X" irows + sub: prisma_table "x_subs X" srows
  + logs: prisma_table "x_logs X" lrows + rec: prisma_table "x_receipts X" rrows
  + hook: prisma_table "x_hooks X" hrows
  for X :: "('c, 's, 'l, 'r, 'h) contract_sys" and irows :: "'c \<Rightarrow> int \<Rightarrow> int option"
    and srows :: "'s \<Rightarrow> string \<Rightarrow> subscription option"
    and lrows :: "'l \<Rightarrow> string \<times> int \<Rightarrow> event_log option"
    and rrows :: "'r \<Rightarrow> int \<times> string \<Rightarrow> receipt_log option"
    and hrows :: "'h \<Rightarrow> int \<Rightarrow> webhook option" +
  assumes base64: "x_decode64 X (x_encode64 X t) = Inr t" "t \<noteq> [] \<Longrightarrow> x_encode64 X t \<noteq> []"
begin

text \<open>The page that follows the first \<open>i\<close> logs of the ordered list.\<close>

lemma log_page_run:
  assumes inj: "inj_on (\<lambda>k. log_key (the (lrows (xs_logs s) k))) (dom (lrows (xs_logs s)))"
    and L: "sorted_wrt (<) (map log_key L)"
      "set L = {l \<in> ran (lrows (xs_logs s)). log_where None as ts mx l}"
    and nonneg: "\<forall>l \<in> set L. list_all (\<lambda>n. 0 \<le> n) (log_key l)"
    and cur: "cursor = (if i = 0 then None else Some (x_encode64 X (join_dash (log_key (L ! (i - 1))))))"
    and i: "i \<le> length L"
  shows "fst (getEventLogsByCursor X cursor (Some n) as ts mx s) =
      Inr (if take n (drop i L) = [] then cursor
           else Some (x_encode64 X (join_dash (log_key (last (take n (drop i L)))))), take n (drop i L))"
    and "lrows (xs_logs (snd (getEventLogsByCursor X cursor (Some n) as ts mx s))) = lrows (xs_logs s)"
proof -
  let ?c = "if i = 0 then None else Some (log_key (L ! (i - 1)))"
  have last: "list_all (\<lambda>n. 0 \<le> n) (log_key (L ! (i - 1)))" if "0 < i"
    using nonneg i that by simp
  have parse: "parse_cursor X 5 cursor = Inr ?c"
  proof (cases "i = 0")
    case False
    then have "cursor_numbers 5 (join_dash (log_key (L ! (i - 1)))) = Some (log_key (L ! (i - 1)))"
      using cursor_roundtrip [of "log_key (L ! (i - 1))"] last by simp
    moreover have "join_dash (log_key (L ! (i - 1))) \<noteq> []" by (simp add: log_key_def)
    ultimately show ?thesis using False cur base64 by (simp add: parse_cursor_def)
  qed (simp add: cur parse_cursor_def)
  have rest: "set (drop i L) = {l \<in> ran (lrows (xs_logs s)). log_where ?c as ts mx l}"
  proof (cases "i = 0")
    case False
    then show ?thesis
      using strict_key_drop [OF L(1), of i] i L(2) by (auto simp: log_where_def log_after_key)
  qed (simp add: L(2))
  obtain M where M: "fst (t_page (x_logs X) (log_where ?c as ts mx) log_key n (xs_logs s)) = Inr (take n M)"
    "sorted_wrt (<) (map log_key M)" "set M = {l \<in> ran (lrows (xs_logs s)). log_where ?c as ts mx l}"
    using logs.page_run [OF inj] by blast
  have "sorted_wrt (<) (map log_key (drop i L))"
    using L(1) by (simp add: sorted_wrt_drop flip: drop_map)
  then have "M = drop i L"
    by (rule strict_key_unique [OF M(2)]) (simp add: M(3) rest)
  then have page: "fst (t_page (x_logs X) (log_where ?c as ts mx) log_key n (xs_logs s)) = Inr (take n (drop i L))"
    using M(1) by simp
  show "fst (getEventLogsByCursor X cursor (Some n) as ts mx s) =
      Inr (if take n (drop i L) = [] then cursor
           else Some (x_encode64 X (join_dash (log_key (last (take n (drop i L)))))), take n (drop i L))"
    unfolding getEventLogsByCursor_def by (simp only: bnd_apply lift_res_apply parse) (simp add: bnd_apply at_apply page)
  show "lrows (xs_logs (snd (getEventLogsByCursor X cursor (Some n) as ts mx s))) = lrows (xs_logs s)"
    unfolding getEventLogsByCursor_def by (simp only: bnd_apply lift_res_apply parse) (simp add: bnd_apply at_apply page logs.laws)
qed

lemma read_logs_run:
  assumes inj: "inj_on (\<lambda>k. log_key (the (lrows (xs_logs s) k))) (dom (lrows (xs_logs s)))"
    and L: "sorted_wrt (<) (map log_key L)"
      "set L = {l \<in> ran (lrows (xs_logs s)). log_where None as ts mx l}"
    and nonneg: "\<forall>l \<in> set L. list_all (\<lambda>n. 0 \<le> n) (log_key l)"
    and cur: "cursor = (if i = 0 then None else Some (x_encode64 X (join_dash (log_key (L ! (i - 1))))))"
    and i: "i \<le> length L" "0 < n" "length L - i < fuel"
  shows "fst (read_logs X n as ts mx fuel cursor s) = Inr (drop i L)"
  using assms
proof (induction fuel arbitrary: i cursor s)
  case 0
  then show ?case by simp
next
  case (Suc fuel)
  let ?r = "getEventLogsByCursor X cursor (Some n) as ts mx s" and ?p = "take n (drop i L)"
  note page = log_page_run [OF Suc.prems(1-6), of n]
  show ?case
  proof (cases "?p = []")
    case True
    then show ?thesis using page Suc.prems(7) by (simp add: bnd_apply)
  next
    case False
    let ?j = "i + length ?p" and ?c = "Some (x_encode64 X (join_dash (log_key (last ?p))))"
    have "last ?p = L ! (?j - 1)" "?j \<le> length L" "0 < length ?p" "length L - ?j < fuel"
      using False Suc.prems(6-8) by (auto simp: last_conv_nth min_def)
    then have "fst (read_logs X n as ts mx fuel ?c (snd ?r)) = Inr (drop ?j L)"
      using Suc.prems(1-4,7) page(2) by (intro Suc.IH) auto
    moreover have "?p @ drop ?j L = drop i L"
      by (metis append_take_drop_id drop_drop add.commute length_take min.commute take_drop drop_take
          append_eq_conv_conj length_drop)
    ultimately show ?thesis using page(1) False by (simp add: bnd_apply)
  qed
qed

end

section \<open>A database in memory\<close>

type_synonym mem_contract_sys = "((int, int) mem_rows, (string, subscription) mem_rows,
  (string \<times> int, event_log) mem_rows, (int \<times> string, receipt_log) mem_rows, (int, webhook) mem_rows) contract_sys"

type_synonym mem_contract_state = "(mem, (int, int) mem_rows, (string, subscription) mem_rows,
  (string \<times> int, event_log) mem_rows, (int \<times> string, receipt_log) mem_rows, (int, webhook) mem_rows) contract_state"

definition mem_contracts :: mem_contract_sys where
  "mem_contracts = \<lparr>x_indexers = mem_table, x_subs = mem_table, x_logs = mem_table, x_receipts = mem_table,
     x_hooks = mem_table, x_encode64 = (\<lambda>t. CHR ''b'' # t), x_decode64 = (\<lambda>t. Inr (tl t)),
     x_newWebhookId = 7, x_newUuid = ''uuid'', x_newSecret = ''secret''\<rparr>"

interpretation mem_contract: contract_db mem_contracts map_of map_of map_of map_of map_of
  by (simp add: contract_db_def contract_db_axioms_def mem_contracts_def mem_rows.prisma_table_axioms)

definition sample_log :: "int \<Rightarrow> int \<Rightarrow> event_log" where
  "sample_log block index = \<lparr>el_chainId = 1, el_blockNumber = block, el_contractAddress = ''0xc'',
     el_transactionHash = ''0xh'', el_topic0 = None, el_topic1 = None, el_topic2 = None, el_topic3 = None,
     el_data = ''0x'', el_eventName = None, el_decodedLog = None, el_timestamp = 0,
     el_transactionIndex = 0, el_logIndex = index, el_createdAt = 5\<rparr>"

definition sample_receipt_log :: "string \<Rightarrow> int \<Rightarrow> receipt_log" where
  "sample_receipt_log hash index = \<lparr>rl_chainId = 1, rl_blockNumber = 10, rl_contractAddress = ''0xc'',
     rl_contractId = ''1:0xc'', rl_transactionHash = hash, rl_blockHash = ''0xb'', rl_timestamp = 0,
     rl_data = ''0x'', rl_functionName = None, rl_to = ''0xc'', rl_from = ''0xa'', rl_value = ''0'',
     rl_transactionIndex = index, rl_gasUsed = ''1'', rl_effectiveGasPrice = ''1'', rl_status = 1,
     rl_createdAt = 5\<rparr>"

definition sample_contract_state :: mem_contract_state where
  "sample_contract_state = \<lparr>xs_world = mem_world [], xs_indexers = [(1, 100)],
     xs_subs = [(''s1'', \<lparr>su_id = ''s1'', su_chainId = 1, su_contractAddress = ''0xc'', su_webhookId = Some 1,
       su_processEventLogs = True, su_filterEvents = [], su_processTransactionReceipts = True,
       su_filterFunctions = [], su_createdAt = 0, su_deletedAt = None\<rparr>)],
     xs_logs = [((''0xh'', 1), sample_log 3 1), ((''0xh'', 0), sample_log 2 0)],
     xs_receipts = [((1, ''0x1''), sample_receipt_log ''0x1'' 0), ((1, ''0x2''), sample_receipt_log ''0x2'' 1)],
     xs_hooks = [(1, sample_hook)], xs_registry = []\<rparr>"

section \<open>Properties\<close>

text \<open>
  C15: a client that follows the cursors of the event logs from the start gets, whatever the size
  of the pages, every stored log that matches its filters exactly once, in the order of creation,
  chain, block, transaction and log; it needs at most one request more than there are logs.
\<close>

theorem log_paging_complete:
  assumes "contract_db X irows srows lrows rrows hrows" "0 < n"
    and "inj_on (\<lambda>k. log_key (the (lrows (xs_logs s) k))) (dom (lrows (xs_logs s)))"
    and "\<forall>l \<in> ran (lrows (xs_logs s)). list_all (\<lambda>n. 0 \<le> n) (log_key l)"
    and "card {l \<in> ran (lrows (xs_logs s)). log_where None as ts mx l} < fuel"
  shows "\<exists>L. fst (read_logs X n as ts mx fuel None s) = Inr L \<and> sorted_wrt (<) (map log_key L)
    \<and> set L = {l \<in> ran (lrows (xs_logs s)). log_where None as ts mx l}"
proof -
  note logs = contract_db.axioms(3) [OF assms(1)]
  obtain L where L: "sorted_wrt (<) (map log_key L)"
    "set L = {l \<in> ran (lrows (xs_logs s)). log_where None as ts mx l}"
    using prisma_table.page_run [OF logs assms(3)] by blast
  have "distinct L" using L(1) by (simp add: strict_sorted_iff distinct_map)
  then have "length L < fuel" using assms(5) L(2) distinct_card by fastforce
  moreover have "\<forall>l \<in> set L. list_all (\<lambda>n. 0 \<le> n) (log_key l)" using assms(4) L(2) by blast
  ultimately have "fst (read_logs X n as ts mx fuel None s) = Inr L"
    using contract_db.read_logs_run [OF assms(1,3) L, of None 0 n fuel] assms(2) by simp
  with L show ?thesis by blast
qed

theorem log_paging_complete_witness:
  "fst (read_logs mem_contracts 1 None None None 3 None sample_contract_state) = Inr [sample_log 2 0, sample_log 3 1]"
proof -
  let ?s = sample_contract_state
  have dom: "dom (map_of (xs_logs ?s)) = {(''0xh'', 0), (''0xh'', 1)}"
    by (auto simp: sample_contract_state_def)
  have ran: "ran (map_of (xs_logs ?s)) = {sample_log 2 0, sample_log 3 1}"
    by (simp add: sample_contract_state_def ran_distinct insert_commute)
  have all: "{l \<in> ran (map_of (xs_logs ?s)). log_where None None None None l} = {sample_log 2 0, sample_log 3 1}"
    by (auto simp: ran log_where_def address_in_def topics_match_def)
  have "inj_on (\<lambda>k. log_key (the (map_of (xs_logs ?s) k))) (dom (map_of (xs_logs ?s)))"
    unfolding dom by (simp add: sample_contract_state_def sample_log_def log_key_def)
  moreover have "\<forall>l \<in> ran (map_of (xs_logs ?s)). list_all (\<lambda>n. 0 \<le> n) (log_key l)"
    by (simp add: ran sample_log_def log_key_def)
  moreover have "card {l \<in> ran (map_of (xs_logs ?s)). log_where None None None None l} < 3"
    unfolding all by (simp add: card_insert_if)
  ultimately obtain L where L: "fst (read_logs mem_contracts 1 None None None 3 None ?s) = Inr L"
    "sorted_wrt (<) (map log_key L)" "set L = {sample_log 2 0, sample_log 3 1}"
    using log_paging_complete [OF mem_contract.contract_db_axioms, of 1 ?s None None None 3] unfolding all by auto
  have "L = [sample_log 2 0, sample_log 3 1]"
    using L(2,3) by (intro strict_key_unique [of log_key]) (simp_all add: sample_log_def log_key_def)
  with L(1) show ?thesis by simp
qed

text \<open>
  the page of receipts that follows a page ending in \<open>r\<close> contains no receipt of the block of
  \<open>r\<close> that was stored at the same time, also when it comes after \<open>r\<close> in the order of the pages:
  a client that follows the cursors never sees it.
\<close>

theorem receipt_paging_skips_block:
  assumes "contract_db X irows srows lrows rrows hrows"
    and "list_all (\<lambda>n. 0 \<le> n) (receipt_key r)"
    and "rl_createdAt r' = rl_createdAt r" "rl_chainId r' = rl_chainId r" "rl_blockNumber r' = rl_blockNumber r"
  shows "\<exists>c rs. fst (getTransactionReceiptsByCursor X (Some (x_encode64 X (join_dash (receipt_key r)))) limit as mx s)
      = Inr (c, rs) \<and> r' \<notin> set rs"
proof -
  have "parse_cursor X 4 (Some (x_encode64 X (join_dash (receipt_key r)))) = Inr (Some (receipt_key r))"
    using cursor_roundtrip [of "receipt_key r"] assms(2) contract_db.base64 [OF assms(1)]
    by (simp add: parse_cursor_def)
  moreover obtain ks where ks: "fst (t_page (x_receipts X) (receipt_where (Some (receipt_key r)) as mx) receipt_key
      (case limit of None \<Rightarrow> 100 | Some n \<Rightarrow> n) (xs_receipts s)) =
      Inr (take (case limit of None \<Rightarrow> 100 | Some n \<Rightarrow> n) (sort_key receipt_key
        (filter (receipt_where (Some (receipt_key r)) as mx) (map (the \<circ> rrows (xs_receipts s)) ks))))"
    using prisma_table.law_page(1) [OF contract_db.axioms(4) [OF assms(1)]] by blast
  moreover have "\<not> receipt_where (Some (receipt_key r)) as mx r'"
    using assms(3-5) by (simp add: receipt_where_def receipt_after_def receipt_key_def)
  ultimately show ?thesis
    by (auto simp: getTransactionReceiptsByCursor_def bnd_apply at_apply dest: in_set_takeD)
qed

theorem receipt_paging_skips_block_witness:
  "receipt_key (sample_receipt_log ''0x1'' 0) < receipt_key (sample_receipt_log ''0x2'' 1)
   \<and> sample_receipt_log ''0x2'' 1 \<in> ran (map_of (xs_receipts sample_contract_state))
   \<and> (\<exists>c rs. fst (getTransactionReceiptsByCursor mem_contracts
         (Some (x_encode64 mem_contracts (join_dash (receipt_key (sample_receipt_log ''0x1'' 0))))) None None None
         sample_contract_state) = Inr (c, rs) \<and> sample_receipt_log ''0x2'' 1 \<notin> set rs)"
proof (intro conjI)
  show "\<exists>c rs. fst (getTransactionReceiptsByCursor mem_contracts
         (Some (x_encode64 mem_contracts (join_dash (receipt_key (sample_receipt_log ''0x1'' 0))))) None None None
         sample_contract_state) = Inr (c, rs) \<and> sample_receipt_log ''0x2'' 1 \<notin> set rs"
    by (rule receipt_paging_skips_block [OF mem_contract.contract_db_axioms])
      (simp_all add: sample_receipt_log_def receipt_key_def)
qed (simp_all add: sample_receipt_log_def receipt_key_def sample_contract_state_def ran_distinct)

end
