(* ===== verification/Chain_Indexer.thy ===== *)
theory Chain_Indexer
  imports Contract_Tables
begin

text \<open>
  The indexer of a chain: its task (\<open>src/worker/tasks/chainIndexer.ts\<close>), the registry of the
  scheduled tasks (\<open>src/worker/indexers/chainIndexerRegistry.ts\<close>,
  \<open>src/worker/tasks/manageChainIndexers.ts\<close>), the estimate of the block time and the two queues it
  feeds. The task reads the last indexed block, takes a bounded range up to the head of the chain,
  queues one job for the logs and one for the receipts of the range, and moves the block on.

  The blocks move on without a gap: whatever the RPC node answers and however the tasks of several
  chains alternate, every block between two positions is in a range that was queued.

  Times of blocks are rational numbers. A division by a block time of 0 gives \<open>Infinity\<close>, here
  \<^const>\<open>None\<close>. The callback of the schedule does nothing while its task still runs; here a task
  runs to its end.
\<close>

section \<open>The node and the environment\<close>

text \<open>
  The SDK of a chain and its provider: the block number, whether the data of a block is
  available, and the time of a block; the configured delay; and whether another transaction holds
  the row of a chain.
\<close>

record chain_node =
  n_getSdk :: "int \<Rightarrow> js_error + unit"
  n_blockNumber :: "int \<Rightarrow> js_error + int"
  n_hasBlock :: "int \<Rightarrow> int \<Rightarrow> js_error + bool"
  n_blockTimestamp :: "int \<Rightarrow> int \<Rightarrow> js_error + int"
  n_delaySeconds :: rat
  n_rowLocked :: "int \<Rightarrow> bool"

section \<open>Queues\<close>

definition requery_jobs :: "string \<Rightarrow> string \<Rightarrow> job_data \<Rightarrow> string list \<Rightarrow> ('w world, unit) io" where
  "requery_jobs queue jobName data requeryDelays =
     for_each [0..<length requeryDelays] (\<lambda>i.
       emit (AddJob queue jobName data \<lparr>jo_jobId = None,
         jo_attempts = Some (if i = length requeryDelays - 1 then 10 else 0),
         jo_delay = map_option (\<lambda>d. d * 1000) (parseInt (requeryDelays ! i))\<rparr>))"

definition ProcessEventsLogQueue_add ::
  "'w env \<Rightarrow> int \<Rightarrow> (string \<times> string list) list \<Rightarrow> int \<Rightarrow> int \<Rightarrow> ('w world, unit) io" where
  "ProcessEventsLogQueue_add E chainId filters fromBlock toBlock =
     (let data = EventLogsData chainId filters fromBlock toBlock;
          jobName = show_int chainId @ '':'' @ show_int fromBlock @ ''-'' @ show_int toBlock in
      bnd (getConfig E True) (\<lambda>config.
      bnd (emit (AddJob ''process-event-logs'' jobName data
             \<lparr>jo_jobId = None, jo_attempts = None, jo_delay = None\<rparr>)) (\<lambda>_.
      requery_jobs ''process-event-logs'' jobName data
        (js_split (CHR '','') (cfg_contractSubscriptionsRequeryDelaySeconds config)))))"

definition ProcessTransactionReceiptsQueue_add ::
  "'w env \<Rightarrow> int \<Rightarrow> (string \<times> string list) list \<Rightarrow> int \<Rightarrow> int \<Rightarrow> ('w world, unit) io" where
  "ProcessTransactionReceiptsQueue_add E chainId filters fromBlock toBlock =
     (let data = ReceiptsData chainId filters fromBlock toBlock;
          jobName = show_int chainId @ '':'' @ show_int fromBlock @ ''-'' @ show_int toBlock in
      bnd (getConfig E True) (\<lambda>config.
      bnd (emit (AddJob ''process-transaction-receipts'' jobName data
             \<lparr>jo_jobId = None, jo_attempts = None, jo_delay = None\<rparr>)) (\<lambda>_.
      requery_jobs ''process-transaction-receipts'' jobName data
        (js_split (CHR '','') (cfg_contractSubscriptionsRequeryDelaySeconds config)))))"

section \<open>The task\<close>

text \<open>\<open>Math.min(blockNumber - toBlockOffset, fromBlock + maxBlocksToIndex)\<close>; nothing for \<open>-Infinity\<close>.\<close>

definition to_block :: "int \<Rightarrow> int option \<Rightarrow> int option \<Rightarrow> int \<Rightarrow> int option" where
  "to_block fromBlock maxBlocksToIndex toBlockOffset blockNumber =
     (case toBlockOffset of None \<Rightarrow> None
      | Some offset \<Rightarrow> Some (case maxBlocksToIndex of None \<Rightarrow> blockNumber - offset
          | Some m \<Rightarrow> min (blockNumber - offset) (fromBlock + m)))"

definition event_filters :: "(subscription \<times> webhook option) list \<Rightarrow> (string \<times> string list) list" where
  "event_filters cs = map (\<lambda>(c, _). (su_contractAddress c, su_filterEvents c))
     (filter (\<lambda>(c, _). su_processEventLogs c) cs)"

definition receipt_filters :: "(subscription \<times> webhook option) list \<Rightarrow> (string \<times> string list) list" where
  "receipt_filters cs = map (\<lambda>(c, _). (su_contractAddress c, su_filterFunctions c))
     (filter (\<lambda>(c, _). su_processTransactionReceipts c) cs)"

text \<open>The range is queued and the last indexed block is moved on.\<close>

definition index_range ::
  "('c, 's, 'l, 'r, 'h) contract_sys \<Rightarrow> 'w env \<Rightarrow> int \<Rightarrow> int \<Rightarrow> int
   \<Rightarrow> (('w, 'c, 's, 'l, 'r, 'h) contract_state, unit) io" where
  "index_range X E chainId fromBlock toBlock =
     bnd (getContractSubscriptionsByChainId X chainId) (\<lambda>contractSubscriptions.
     let eventLogFilters = event_filters contractSubscriptions;
         transactionReceiptFilters = receipt_filters contractSubscriptions in
     bnd (if eventLogFilters \<noteq> []
          then at_world (ProcessEventsLogQueue_add E chainId eventLogFilters fromBlock toBlock) else ret ()) (\<lambda>_.
     bnd (if transactionReceiptFilters \<noteq> []
          then at_world (ProcessTransactionReceiptsQueue_add E chainId transactionReceiptFilters fromBlock toBlock)
          else ret ()) (\<lambda>_.
     try_catch (bnd (upsertChainIndexer X chainId toBlock) (\<lambda>_. ret ())) (\<lambda>_. ret ()))))"

definition chainIndexerTask ::
  "('c, 's, 'l, 'r, 'h) contract_sys \<Rightarrow> 'w env \<Rightarrow> chain_node \<Rightarrow> int \<Rightarrow> int option \<Rightarrow> int option
   \<Rightarrow> (('w, 'c, 's, 'l, 'r, 'h) contract_state, unit) io" where
  "chainIndexerTask X E N chainId maxBlocksToIndex toBlockOffset =
     try_catch
       (bnd (try_catch (bnd (getBlockForIndexing X (n_rowLocked N chainId) chainId) (\<lambda>b. ret (Some b)))
               (\<lambda>_. ret None)) (\<lambda>found.
        case found of
          None \<Rightarrow> ret ()
        | Some fromBlock \<Rightarrow>
            bnd (lift_res (n_getSdk N chainId)) (\<lambda>_.
            bnd (lift_res (n_blockNumber N chainId)) (\<lambda>blockNumber.
            case to_block fromBlock maxBlocksToIndex toBlockOffset blockNumber of
              None \<Rightarrow> ret ()
            | Some toBlock \<Rightarrow>
                if fromBlock \<ge> toBlock then ret ()
                else
                  bnd (lift_res (n_hasBlock N chainId toBlock)) (\<lambda>block.
                  if \<not> block then ret () else index_range X E chainId fromBlock toBlock)))))
       (\<lambda>_. ret ())"

section \<open>The registry\<close>

definition KNOWN_BLOCKTIME_SECONDS :: "int \<Rightarrow> rat option" where
  "KNOWN_BLOCKTIME_SECONDS chainId = (if chainId = 1 then Some 12 else if chainId = 137 then Some 2 else None)"

definition DEFAULT_BLOCKTIME_SECONDS :: rat where
  "DEFAULT_BLOCKTIME_SECONDS = 10"

definition BLOCKS_TO_ESTIMATE :: nat where
  "BLOCKS_TO_ESTIMATE = 100"

text \<open>The mean distance of neighbours in a list of times.\<close>

definition averageBlockTime :: "int list \<Rightarrow> rat" where
  "averageBlockTime ts =
     of_int (\<Sum>i\<leftarrow>[0..<length ts - 1]. ts ! i - ts ! (i + 1)) / of_nat (length ts - 1)"

definition getBlockTimeSeconds :: "chain_node \<Rightarrow> int \<Rightarrow> js_error + rat" where
  "getBlockTimeSeconds N chainId = (case KNOWN_BLOCKTIME_SECONDS chainId of
       Some t \<Rightarrow> Inr t
     | None \<Rightarrow> (case n_getSdk N chainId of
         Inl e \<Rightarrow> Inl e
       | Inr _ \<Rightarrow> (case n_blockNumber N chainId of
           Inl e \<Rightarrow> Inr DEFAULT_BLOCKTIME_SECONDS
         | Inr latest \<Rightarrow>
             (case map_res (n_blockTimestamp N chainId)
                (map (\<lambda>i. latest - int i - 1) [0..<BLOCKS_TO_ESTIMATE]) of
                Inl e \<Rightarrow> Inr DEFAULT_BLOCKTIME_SECONDS
              | Inr ts \<Rightarrow> Inr (averageBlockTime ts)))))"

text \<open>\<open>Math.round\<close> and \<open>Math.ceil\<close>.\<close>

definition js_round :: "rat \<Rightarrow> int" where
  "js_round x = \<lfloor>x + 1 / 2\<rfloor>"

definition blocksIn5Seconds :: "rat \<Rightarrow> int option" where
  "blocksIn5Seconds blockTimeSeconds =
     (if blockTimeSeconds = 0 then None else Some (js_round (1 / blockTimeSeconds * 5)))"

definition max_blocks :: "int \<Rightarrow> rat \<Rightarrow> int option" where
  "max_blocks configured blockTimeSeconds =
     map_option (\<lambda>b. max configured (b * 4)) (blocksIn5Seconds blockTimeSeconds)"

definition block_offset :: "rat \<Rightarrow> rat \<Rightarrow> int option" where
  "block_offset delaySeconds blockTimeSeconds =
     (if delaySeconds = 0 then Some 0
      else if blockTimeSeconds = 0 then None
      else Some \<lceil>delaySeconds / blockTimeSeconds\<rceil>)"

definition createScheduleSeconds :: "int \<Rightarrow> string" where
  "createScheduleSeconds seconds = ''*/'' @ show_int seconds @ '' * * * * *''"

text \<open>The registry is an object with numbers as keys, which are kept in their order.\<close>

definition addChainIndexer ::
  "'w env \<Rightarrow> chain_node \<Rightarrow> int \<Rightarrow> (('w, 'c, 's, 'l, 'r, 'h) contract_state, unit) io" where
  "addChainIndexer E N chainId = (\<lambda>s.
     if map_of (xs_registry s) chainId \<noteq> None then (Inr (), s)
     else
       bnd (at_world (getConfig E True)) (\<lambda>config.
       bnd (lift_res (getBlockTimeSeconds N chainId)) (\<lambda>blockTimeSeconds s'.
       (Inr (), s'\<lparr>xs_registry := insort_key fst (chainId,
          \<lparr>it_chainId = chainId, it_maxBlocksToIndex = max_blocks (cfg_maxBlocksToIndex config) blockTimeSeconds,
           it_toBlockOffset = block_offset (n_delaySeconds N) blockTimeSeconds,
           it_schedule = createScheduleSeconds (max (js_round blockTimeSeconds) 1)\<rparr>) (xs_registry s')\<rparr>))) s)"

definition removeChainIndexer :: "int \<Rightarrow> (('w, 'c, 's, 'l, 'r, 'h) contract_state, unit) io" where
  "removeChainIndexer chainId = (\<lambda>s. (Inr (), s\<lparr>xs_registry := filter (\<lambda>e. fst e \<noteq> chainId) (xs_registry s)\<rparr>))"

definition registered :: "(('w, 'c, 's, 'l, 'r, 'h) contract_state, int list) io" where
  "registered = (\<lambda>s. (Inr (map fst (xs_registry s)), s))"

definition manageChainIndexers ::
  "('c, 's, 'l, 'r, 'h) contract_sys \<Rightarrow> 'w env \<Rightarrow> chain_node
   \<Rightarrow> (('w, 'c, 's, 'l, 'r, 'h) contract_state, unit) io" where
  "manageChainIndexers X E N =
     bnd (getContractSubscriptionsUniqueChainIds X) (\<lambda>chainIdsToIndex.
     bnd (for_each chainIdsToIndex (\<lambda>chainId.
            bnd registered (\<lambda>keys. if chainId \<notin> set keys then addChainIndexer E N chainId else ret ()))) (\<lambda>_.
     bnd registered (\<lambda>keys.
     for_each keys (\<lambda>chainId.
       if chainId \<notin> set chainIdsToIndex then removeChainIndexer chainId else ret ()))))"

section \<open>Facts on one run\<close>

lemma try_catch_state: "m s = m' s' \<Longrightarrow> try_catch m h s = try_catch m' h s'"
  by (simp only: try_catch_apply)

lemma snd_try_catch_ret: "snd (try_catch m (\<lambda>_. ret a) s) = snd (m s)"
  by (simp add: try_catch_apply split: sum.split)

text \<open>The ranges of a chain for which a job is queued.\<close>

definition log_ranges :: "int \<Rightarrow> effect list \<Rightarrow> (int \<times> int) set" where
  "log_ranges c effs = {(f, t). \<exists>name filters opts.
     AddJob ''process-event-logs'' name (EventLogsData c filters f t) opts \<in> set effs}"

definition receipt_ranges :: "int \<Rightarrow> effect list \<Rightarrow> (int \<times> int) set" where
  "receipt_ranges c effs = {(f, t). \<exists>name filters opts.
     AddJob ''process-transaction-receipts'' name (ReceiptsData c filters f t) opts \<in> set effs}"

lemma ranges_append [simp]:
  "log_ranges c (xs @ ys) = log_ranges c xs \<union> log_ranges c ys"
  "receipt_ranges c (xs @ ys) = receipt_ranges c xs \<union> receipt_ranges c ys"
  by (auto simp: log_ranges_def receipt_ranges_def)

lemma getConfig_world:
  "\<exists>cc. snd (getConfig E b w) = w\<lparr>config_cache := cc\<rparr>"
  by (auto simp: getConfig_def split: option.splits sum.splits if_splits)
    (metis world.surjective world.update_convs(4))+

text \<open>Queuing a range only adds effects and fills the cache of the configuration.\<close>

lemma add_range_run:
  "\<exists>xs cc. snd (bnd (getConfig E True) (\<lambda>config. bnd (emit j) (\<lambda>_. requery_jobs q name data (g config))) w)
        = w\<lparr>config_cache := cc, effects := effects w @ xs\<rparr>
    \<and> (fst (bnd (getConfig E True) (\<lambda>config. bnd (emit j) (\<lambda>_. requery_jobs q name data (g config))) w) = Inr ()
        \<longrightarrow> j \<in> set xs)"
proof -
  obtain cc where cc: "snd (getConfig E True w) = w\<lparr>config_cache := cc\<rparr>" using getConfig_world by blast
  show ?thesis
  proof (cases "fst (getConfig E True w)")
    case (Inl e)
    then show ?thesis using cc by (intro exI [of _ "[]"] exI [of _ cc]) (simp add: bnd_apply)
  next
    case (Inr config)
    then have "snd (bnd (getConfig E True) (\<lambda>config. bnd (emit j) (\<lambda>_. requery_jobs q name data (g config))) w)
      = w\<lparr>config_cache := cc, effects := effects w @ (j # map (\<lambda>i. AddJob q name data \<lparr>jo_jobId = None,
         jo_attempts = Some (if i = length (g config) - 1 then 10 else 0),
         jo_delay = map_option (\<lambda>d. d * 1000) (parseInt (g config ! i))\<rparr>) [0..<length (g config)])\<rparr>"
      using cc by (simp add: bnd_apply emit_apply requery_jobs_def for_each_emit_run)
    then show ?thesis by (meson list.set_intros(1))
  qed
qed

lemma logs_add_run:
  obtains xs cc where "snd (ProcessEventsLogQueue_add E c fs f t w) = w\<lparr>config_cache := cc, effects := effects w @ xs\<rparr>"
    "fst (ProcessEventsLogQueue_add E c fs f t w) = Inr () \<longrightarrow> (f, t) \<in> log_ranges c xs"
proof -
  let ?name = "show_int c @ '':'' @ show_int f @ ''-'' @ show_int t" and ?data = "EventLogsData c fs f t"
  let ?j = "AddJob ''process-event-logs'' ?name ?data \<lparr>jo_jobId = None, jo_attempts = None, jo_delay = None\<rparr>"
  have "?j \<in> set xs \<Longrightarrow> (f, t) \<in> log_ranges c xs" for xs by (auto simp: log_ranges_def)
  then show ?thesis
    using add_range_run [of E ?j "''process-event-logs''" ?name ?data
        "\<lambda>config. js_split (CHR '','') (cfg_contractSubscriptionsRequeryDelaySeconds config)" w] that
    unfolding ProcessEventsLogQueue_add_def Let_def by blast
qed

lemma receipts_add_run:
  obtains xs cc where "snd (ProcessTransactionReceiptsQueue_add E c fs f t w) = w\<lparr>config_cache := cc, effects := effects w @ xs\<rparr>"
    "fst (ProcessTransactionReceiptsQueue_add E c fs f t w) = Inr () \<longrightarrow> (f, t) \<in> receipt_ranges c xs"
proof -
  let ?name = "show_int c @ '':'' @ show_int f @ ''-'' @ show_int t" and ?data = "ReceiptsData c fs f t"
  let ?j = "AddJob ''process-transaction-receipts'' ?name ?data \<lparr>jo_jobId = None, jo_attempts = None, jo_delay = None\<rparr>"
  have "?j \<in> set xs \<Longrightarrow> (f, t) \<in> receipt_ranges c xs" for xs by (auto simp: receipt_ranges_def)
  then show ?thesis
    using add_range_run [of E ?j "''process-transaction-receipts''" ?name ?data
        "\<lambda>config. js_split (CHR '','') (cfg_contractSubscriptionsRequeryDelaySeconds config)" w] that
    unfolding ProcessTransactionReceiptsQueue_add_def Let_def by blast
qed

text \<open>The subscriptions of a chain that are not deleted.\<close>

definition active_subs :: "('s \<Rightarrow> string \<Rightarrow> subscription option) \<Rightarrow> 's \<Rightarrow> int \<Rightarrow> subscription set" where
  "active_subs srows d c = {v \<in> ran (srows d). su_chainId v = c \<and> su_deletedAt v = None}"

context contract_db
begin

lemma include_webhook_run:
  obtains d where
    "include_webhook X cs s = (Inr (map (\<lambda>c. (c, Option.bind (su_webhookId c) (hrows (xs_hooks s)))) cs), s\<lparr>xs_hooks := d\<rparr>)"
    "hrows d = hrows (xs_hooks s)"
proof -
  have "\<exists>d. include_webhook X cs s = (Inr (map (\<lambda>c. (c, Option.bind (su_webhookId c) (hrows (xs_hooks s)))) cs),
      s\<lparr>xs_hooks := d\<rparr>) \<and> hrows d = hrows (xs_hooks s)"
  proof (induction cs arbitrary: s)
    case Nil
    show ?case by (rule exI [of _ "xs_hooks s"]) simp
  next
    case (Cons c cs)
    let ?get = "(case su_webhookId c of None \<Rightarrow> ret None | Some i \<Rightarrow> getWebhook X i) s"
    obtain d where d: "?get = (Inr (Option.bind (su_webhookId c) (hrows (xs_hooks s))), s\<lparr>xs_hooks := d\<rparr>)"
      "hrows d = hrows (xs_hooks s)"
    proof (cases "su_webhookId c")
      case None
      then show ?thesis using that [of "xs_hooks s"] by simp
    next
      case (Some i)
      then show ?thesis using that [of "snd (t_find (x_hooks X) i (xs_hooks s))"]
        by (simp add: getWebhook_def at_apply hook.law_find)
    qed
    then show ?case using Cons.IH [of "s\<lparr>xs_hooks := d\<rparr>"] by (force simp: bnd_apply)
  qed
  then show ?thesis using that by blast
qed

lemma subs_run:
  obtains cs ds dh where
    "getContractSubscriptionsByChainId X c s = (Inr cs, s\<lparr>xs_subs := ds, xs_hooks := dh\<rparr>)"
    "srows ds = srows (xs_subs s)" "hrows dh = hrows (xs_hooks s)"
    "fst ` set cs = active_subs srows (xs_subs s) c"
    "\<forall>(v, w) \<in> set cs. w = Option.bind (su_webhookId v) (hrows (xs_hooks s))"
proof -
  let ?many = "t_many (x_subs X) (\<lambda>v. su_chainId v = c \<and> su_deletedAt v = None) (xs_subs s)"
  obtain vs where vs: "fst ?many = Inr vs" "set vs = active_subs srows (xs_subs s) c"
    using sub.many_set unfolding active_subs_def by blast
  obtain dh where dh: "include_webhook X vs (s\<lparr>xs_subs := snd ?many\<rparr>) =
      (Inr (map (\<lambda>v. (v, Option.bind (su_webhookId v) (hrows (xs_hooks s)))) vs), s\<lparr>xs_subs := snd ?many, xs_hooks := dh\<rparr>)"
    "hrows dh = hrows (xs_hooks s)"
    using include_webhook_run [of vs "s\<lparr>xs_subs := snd ?many\<rparr>"] by auto
  show ?thesis
    using that [where ds = "snd ?many" and dh = dh] vs dh sub.law_many(2)
    by (simp add: getContractSubscriptionsByChainId_def bnd_apply at_apply image_image)
qed

text \<open>What a run of a task may do: nothing to the position, or move it over a queued range.\<close>

definition task_step ::
  "('w, 'c, 's, 'l, 'r, 'h) contract_state \<Rightarrow> ('w, 'c, 's, 'l, 'r, 'h) contract_state \<Rightarrow> int \<Rightarrow> bool" where
  "task_step s s' c \<longleftrightarrow> srows (xs_subs s') = srows (xs_subs s)
     \<and> (\<exists>xs. effects (xs_world s') = effects (xs_world s) @ xs)
     \<and> (\<forall>c'. c' \<noteq> c \<longrightarrow> irows (xs_indexers s') c' = irows (xs_indexers s) c')
     \<and> (irows (xs_indexers s') c = irows (xs_indexers s) c
        \<or> (\<exists>f t. irows (xs_indexers s) c = Some f \<and> irows (xs_indexers s') c = Some t \<and> f < t
            \<and> ((\<exists>v \<in> active_subs srows (xs_subs s) c. su_processEventLogs v)
                 \<longrightarrow> (f, t) \<in> log_ranges c (effects (xs_world s')))
            \<and> ((\<exists>v \<in> active_subs srows (xs_subs s) c. su_processTransactionReceipts v)
                 \<longrightarrow> (f, t) \<in> receipt_ranges c (effects (xs_world s')))))"

lemma task_step_idle: "srows (xs_subs s') = srows (xs_subs s) \<Longrightarrow> effects (xs_world s') = effects (xs_world s) @ xs
    \<Longrightarrow> irows (xs_indexers s') = irows (xs_indexers s) \<Longrightarrow> task_step s s' c"
  by (auto simp: task_step_def)

lemma task_step_start:
  "task_step s0 s' c \<Longrightarrow> irows (xs_indexers s0) = irows (xs_indexers s) \<Longrightarrow> xs_subs s0 = xs_subs s
    \<Longrightarrow> xs_world s0 = xs_world s \<Longrightarrow> task_step s s' c"
  by (simp only: task_step_def) blast

lemma index_range_run:
  fixes s :: "('w, 'c, 's, 'l, 'r, 'h) contract_state"
  assumes "irows (xs_indexers s) c = Some f" "f < t"
  shows "task_step s (snd (index_range X E c f t s)) c"
proof -
  obtain cs ds dh where subs: "getContractSubscriptionsByChainId X c s = (Inr cs, s\<lparr>xs_subs := ds, xs_hooks := dh\<rparr>)"
    "srows ds = srows (xs_subs s)" "fst ` set cs = active_subs srows (xs_subs s) c"
    by (rule subs_run)
  let ?s1 = "s\<lparr>xs_subs := ds, xs_hooks := dh\<rparr>"
  let ?q1 = "if event_filters cs \<noteq> [] then at_world (ProcessEventsLogQueue_add E c (event_filters cs) f t) else ret ()"
  let ?q2 = "if receipt_filters cs \<noteq> [] then at_world (ProcessTransactionReceiptsQueue_add E c (receipt_filters cs) f t)
    else ret ()"
  have ev: "event_filters cs \<noteq> [] \<longleftrightarrow> (\<exists>v \<in> active_subs srows (xs_subs s) c. su_processEventLogs v)"
    "receipt_filters cs \<noteq> [] \<longleftrightarrow> (\<exists>v \<in> active_subs srows (xs_subs s) c. su_processTransactionReceipts v)"
    unfolding subs(3) [symmetric] by (force simp: event_filters_def receipt_filters_def filter_empty_conv)+
  have q1: "\<exists>w xs. snd (?q1 s0) = s0\<lparr>xs_world := w\<rparr> \<and> effects w = effects (xs_world s0) @ xs
      \<and> (fst (?q1 s0) = Inr () \<and> event_filters cs \<noteq> [] \<longrightarrow> (f, t) \<in> log_ranges c xs)"
    for s0 :: "('w, 'c, 's, 'l, 'r, 'h) contract_state"
  proof (cases "event_filters cs = []")
    case True
    then show ?thesis by (auto intro: exI [of _ "xs_world s0"])
  next
    case False
    then show ?thesis by (rule_tac logs_add_run [of E c "event_filters cs" f t "xs_world s0"]) (auto simp: at_apply)
  qed
  have q2: "\<exists>w xs. snd (?q2 s0) = s0\<lparr>xs_world := w\<rparr> \<and> effects w = effects (xs_world s0) @ xs
      \<and> (fst (?q2 s0) = Inr () \<and> receipt_filters cs \<noteq> [] \<longrightarrow> (f, t) \<in> receipt_ranges c xs)"
    for s0 :: "('w, 'c, 's, 'l, 'r, 'h) contract_state"
  proof (cases "receipt_filters cs = []")
    case True
    then show ?thesis by (auto intro: exI [of _ "xs_world s0"])
  next
    case False
    then show ?thesis by (rule_tac receipts_add_run [of E c "receipt_filters cs" f t "xs_world s0"]) (auto simp: at_apply)
  qed
  obtain w1 xs1 where w1: "snd (?q1 ?s1) = ?s1\<lparr>xs_world := w1\<rparr>" "effects w1 = effects (xs_world s) @ xs1"
    "fst (?q1 ?s1) = Inr () \<and> event_filters cs \<noteq> [] \<longrightarrow> (f, t) \<in> log_ranges c xs1"
    using q1 [of ?s1] by auto
  obtain w2 xs2 where w2: "snd (?q2 (snd (?q1 ?s1))) = ?s1\<lparr>xs_world := w2\<rparr>"
    "effects w2 = effects (xs_world s) @ xs1 @ xs2"
    "fst (?q2 (snd (?q1 ?s1))) = Inr () \<and> receipt_filters cs \<noteq> [] \<longrightarrow> (f, t) \<in> receipt_ranges c xs2"
    using q2 [of "snd (?q1 ?s1)"] w1(1,2) by auto
  have run: "index_range X E c f t s = bnd ?q1 (\<lambda>_. bnd ?q2 (\<lambda>_.
      try_catch (bnd (upsertChainIndexer X c t) (\<lambda>_. ret ())) (\<lambda>_. ret ()))) ?s1"
    by (simp add: index_range_def bnd_apply subs(1) Let_def)
  consider e where "fst (?q1 ?s1) = Inl e" | e where "fst (?q1 ?s1) = Inr ()" "fst (?q2 (snd (?q1 ?s1))) = Inl e"
    | "fst (?q1 ?s1) = Inr ()" "fst (?q2 (snd (?q1 ?s1))) = Inr ()"
    by (cases "fst (?q1 ?s1)"; cases "fst (?q2 (snd (?q1 ?s1)))") auto
  then show ?thesis
  proof cases
    case 1
    then have "snd (index_range X E c f t s) = ?s1\<lparr>xs_world := w1\<rparr>" using w1(1) by (simp add: run bnd_apply)
    then show ?thesis by (intro task_step_idle) (simp_all add: subs(2) w1(2))
  next
    case 2
    then have "snd (index_range X E c f t s) = ?s1\<lparr>xs_world := w2\<rparr>"
      unfolding run by (simp only: bnd_apply [of ?q1] bnd_apply [of ?q2] sum.case snd_conv w2(1))
    then show ?thesis by (intro task_step_idle [of _ _ "xs1 @ xs2"]) (simp_all add: subs(2) w2(2))
  next
    case 3
    let ?u = "t_upsert (x_indexers X) c t (\<lambda>_. t) (xs_indexers s)"
    have "snd (index_range X E c f t s) = ?s1\<lparr>xs_world := w2, xs_indexers := snd ?u\<rparr>"
      unfolding run using 3
      by (simp only: bnd_apply [of ?q1] bnd_apply [of ?q2] sum.case w2(1))
        (simp add: try_catch_apply bnd_apply upsertChainIndexer_def at_apply ind.law_upsert)
    then show ?thesis
      using assms 3 w1(3) w2(2,3) ev by (simp add: task_step_def subs(2) ind.law_upsert split: option.split)
  qed
qed

lemma task_run:
  "fst (chainIndexerTask X E N c m off s) = Inr ()"
  "task_step s (snd (chainIndexerTask X E N c m off s)) c"
proof -
  let ?rest = "\<lambda>fromBlock. bnd (lift_res (n_getSdk N c)) (\<lambda>_.
     bnd (lift_res (n_blockNumber N c)) (\<lambda>blockNumber.
     case to_block fromBlock m off blockNumber of None \<Rightarrow> ret ()
     | Some toBlock \<Rightarrow> if fromBlock \<ge> toBlock then ret ()
         else bnd (lift_res (n_hasBlock N c toBlock)) (\<lambda>block.
           if \<not> block then ret () else index_range X E c fromBlock toBlock)))"
  let ?get = "t_find (x_indexers X) c (xs_indexers s)"
  let ?s0 = "if n_rowLocked N c then s else s\<lparr>xs_indexers := snd ?get\<rparr>"
  have "bnd (try_catch (bnd (getBlockForIndexing X (n_rowLocked N c) c) (\<lambda>b. ret (Some b))) (\<lambda>_. ret None)) k s
      = k (if n_rowLocked N c then None else irows (xs_indexers s) c) ?s0" for k
    by (simp add: getBlockForIndexing_def try_catch_apply bnd_apply at_apply ind.law_find split: option.split)
  then have run: "chainIndexerTask X E N c m off s =
      try_catch (case (if n_rowLocked N c then None else irows (xs_indexers s) c) of None \<Rightarrow> ret ()
        | Some f \<Rightarrow> ?rest f) (\<lambda>_. ret ()) ?s0"
    unfolding chainIndexerTask_def by (rule try_catch_state)
  show "fst (chainIndexerTask X E N c m off s) = Inr ()"
    by (simp add: run try_catch_apply split: sum.split)
  have idle: "task_step s ?s0 c"
    by (rule task_step_idle [where xs = "[]"]) (simp_all add: ind.law_find)
  show "task_step s (snd (chainIndexerTask X E N c m off s)) c"
  proof (cases "if n_rowLocked N c then None else irows (xs_indexers s) c")
    case None
    then show ?thesis using idle by (simp add: run try_catch_apply)
  next
    case (Some f)
    then have s0: "irows (xs_indexers ?s0) = irows (xs_indexers s)" "xs_subs ?s0 = xs_subs s" "xs_world ?s0 = xs_world s"
      "irows (xs_indexers ?s0) c = Some f"
      by (simp_all add: ind.law_find split: if_splits)
    have "task_step s (snd (?rest f ?s0)) c"
    proof (cases "\<exists>t. f < t \<and> snd (?rest f ?s0) = snd (index_range X E c f t ?s0)")
      case True
      then obtain t where "f < t" "snd (?rest f ?s0) = snd (index_range X E c f t ?s0)" by blast
      then show ?thesis using task_step_start [OF index_range_run [OF s0(4)] s0(1-3)] by simp
    next
      case False
      then have "snd (?rest f ?s0) = ?s0"
        by (auto simp: bnd_apply not_le split: sum.split option.split)
      then show ?thesis using idle by simp
    qed
    then show ?thesis by (simp only: run Some option.case snd_try_catch_ret)
  qed
qed

end

text \<open>Runs of the tasks of any chains, each with its own node and limits.\<close>

fun run_tasks ::
  "('c, 's, 'l, 'r, 'h) contract_sys \<Rightarrow> 'w env \<Rightarrow> (chain_node \<times> int \<times> int option \<times> int option) list
   \<Rightarrow> ('w, 'c, 's, 'l, 'r, 'h) contract_state \<Rightarrow> ('w, 'c, 's, 'l, 'r, 'h) contract_state" where
  "run_tasks X E [] s = s"
| "run_tasks X E ((N, c, m, off) # ts) s = run_tasks X E ts (snd (chainIndexerTask X E N c m off s))"

definition covered :: "(int \<times> int) set \<Rightarrow> int \<Rightarrow> int \<Rightarrow> bool" where
  "covered R b u \<longleftrightarrow> (\<forall>n. b < n \<and> n \<le> u \<longrightarrow> (\<exists>(f, t) \<in> R. f \<le> n \<and> n \<le> t))"

lemma covered_refl: "covered R b b"
  by (auto simp: covered_def)

lemma covered_mono: "covered R b u \<Longrightarrow> R \<subseteq> R' \<Longrightarrow> covered R' b u"
  unfolding covered_def by blast

lemma covered_extend: "covered R b f \<Longrightarrow> (f, t) \<in> R \<Longrightarrow> covered R b t"
  unfolding covered_def by (metis (no_types, lifting) case_prodI linorder_le_less_linear order_less_imp_le)

context contract_db
begin

lemma run_tasks_covers:
  assumes "irows (xs_indexers s) c = Some b"
  shows "\<exists>u. irows (xs_indexers (run_tasks X E ts s)) c = Some u \<and> b \<le> u
    \<and> ((\<exists>v \<in> active_subs srows (xs_subs s) c. su_processEventLogs v) \<longrightarrow>
         covered (log_ranges c (effects (xs_world (run_tasks X E ts s)))) b u)
    \<and> ((\<exists>v \<in> active_subs srows (xs_subs s) c. su_processTransactionReceipts v) \<longrightarrow>
         covered (receipt_ranges c (effects (xs_world (run_tasks X E ts s)))) b u)"
proof -
  let ?ev = "\<lambda>s. \<exists>v \<in> active_subs srows (xs_subs s) c. su_processEventLogs v"
  let ?rc = "\<lambda>s. \<exists>v \<in> active_subs srows (xs_subs s) c. su_processTransactionReceipts v"
  let ?inv = "\<lambda>s u. irows (xs_indexers s) c = Some u \<and> b \<le> u
    \<and> (?ev s \<longrightarrow> covered (log_ranges c (effects (xs_world s))) b u)
    \<and> (?rc s \<longrightarrow> covered (receipt_ranges c (effects (xs_world s))) b u)"
  have "\<exists>u. ?inv (run_tasks X E ts s) u \<and> ?ev (run_tasks X E ts s) = ?ev s \<and> ?rc (run_tasks X E ts s) = ?rc s"
    if "?inv s f" for f
    using that
  proof (induction ts arbitrary: s f)
    case (Cons p ts)
    obtain N c' m off where p: "p = (N, c', m, off)" by (cases p)
    let ?s' = "snd (chainIndexerTask X E N c' m off s)"
    have step: "task_step s ?s' c'" by (rule task_run)
    then obtain xs where xs: "effects (xs_world ?s') = effects (xs_world s) @ xs" "srows (xs_subs ?s') = srows (xs_subs s)"
      by (auto simp: task_step_def)
    have subs: "active_subs srows (xs_subs ?s') c = active_subs srows (xs_subs s) c"
      using xs(2) by (simp add: active_subs_def)
    have mono: "?ev s \<longrightarrow> covered (log_ranges c (effects (xs_world ?s'))) b f"
      "?rc s \<longrightarrow> covered (receipt_ranges c (effects (xs_world ?s'))) b f"
      using Cons.prems xs(1) by (auto intro: covered_mono)
    have "\<exists>f'. ?inv ?s' f'"
    proof (cases "irows (xs_indexers ?s') c = Some f")
      case True
      then show ?thesis using Cons.prems mono subs by auto
    next
      case False
      then have "c = c'" using step Cons.prems(1) by (auto simp: task_step_def)
      with False obtain t where t: "irows (xs_indexers ?s') c = Some t" "f < t"
        "?ev s \<longrightarrow> (f, t) \<in> log_ranges c (effects (xs_world ?s'))"
        "?rc s \<longrightarrow> (f, t) \<in> receipt_ranges c (effects (xs_world ?s'))"
        using step Cons.prems unfolding task_step_def by (metis option.inject)
      then show ?thesis using Cons.prems mono subs by (auto intro: covered_extend)
    qed
    then show ?case using Cons.IH [of ?s'] subs p by auto
  qed auto
  from this [of b] show ?thesis using assms covered_refl by (auto simp del: split_paired_Ex)
qed

end

text \<open>The loops over the registry.\<close>

lemma add_loop_run:
  assumes "fst (for_each ids (\<lambda>chainId.
      bnd registered (\<lambda>keys. if chainId \<notin> set keys then addChainIndexer E N chainId else ret ())) s) = Inr ()"
    (is "fst (for_each ids ?f s) = Inr ()")
  shows "fst ` set (xs_registry (snd (for_each ids ?f s))) = fst ` set (xs_registry s) \<union> set ids"
    and "set (xs_registry s) \<subseteq> set (xs_registry (snd (for_each ids ?f s)))"
proof -
  have "fst ` set (xs_registry (snd (for_each ids ?f s))) = fst ` set (xs_registry s) \<union> set ids
      \<and> set (xs_registry s) \<subseteq> set (xs_registry (snd (for_each ids ?f s)))"
    using assms
  proof (induction ids arbitrary: s)
    case (Cons i ids)
    have ok: "fst (?f i s) = Inr ()" "fst (for_each ids ?f (snd (?f i s))) = Inr ()"
      using Cons.prems by (auto simp: bnd_apply [of "?f i"] split: sum.splits)
    have "fst ` set (xs_registry (snd (?f i s))) = insert i (fst ` set (xs_registry s))
        \<and> set (xs_registry s) \<subseteq> set (xs_registry (snd (?f i s)))"
    proof (cases "i \<in> fst ` set (xs_registry s)")
      case True
      then show ?thesis by (auto simp: bnd_apply registered_def)
    next
      case False
      then show ?thesis
        using ok(1) by (auto simp: bnd_apply registered_def addChainIndexer_def map_of_eq_None_iff at_apply
            set_insort_key split: sum.splits)
    qed
    then show ?case using Cons.IH [OF ok(2)] ok(1) by (auto simp: bnd_apply [of "?f i"])
  qed simp
  then show "fst ` set (xs_registry (snd (for_each ids ?f s))) = fst ` set (xs_registry s) \<union> set ids"
    "set (xs_registry s) \<subseteq> set (xs_registry (snd (for_each ids ?f s)))" by auto
qed

lemma remove_loop_run:
  "xs_registry (snd (for_each keys (\<lambda>chainId. if chainId \<notin> ids then removeChainIndexer chainId else ret ()) s))
   = filter (\<lambda>e. fst e \<notin> set keys - ids) (xs_registry s)"
  by (induction keys arbitrary: s) (auto simp: bnd_apply removeChainIndexer_def intro!: filter_cong)

section \<open>Properties\<close>

text \<open>
  C13: however the tasks of the chains alternate and whatever the nodes answer, the last indexed
  block of a chain never goes back, and every block it has passed is in a range that was queued
  for the logs, and for the receipts, if a subscription of the chain asks for them.
\<close>

theorem indexer_no_gap:
  assumes "contract_db X irows srows lrows rrows hrows" "irows (xs_indexers s) c = Some b"
  shows "\<exists>u. irows (xs_indexers (run_tasks X E ts s)) c = Some u \<and> b \<le> u
    \<and> ((\<exists>v \<in> active_subs srows (xs_subs s) c. su_processEventLogs v) \<longrightarrow>
         covered (log_ranges c (effects (xs_world (run_tasks X E ts s)))) b u)
    \<and> ((\<exists>v \<in> active_subs srows (xs_subs s) c. su_processTransactionReceipts v) \<longrightarrow>
         covered (receipt_ranges c (effects (xs_world (run_tasks X E ts s)))) b u)"
  by (rule contract_db.run_tasks_covers [OF assms])

definition sample_node :: "int \<Rightarrow> chain_node" where
  "sample_node block = \<lparr>n_getSdk = (\<lambda>_. Inr ()), n_blockNumber = (\<lambda>_. Inr block), n_hasBlock = (\<lambda>_ _. Inr True),
     n_blockTimestamp = (\<lambda>_ n. Inr (2 * n)), n_delaySeconds = 0, n_rowLocked = (\<lambda>_. False)\<rparr>"

theorem indexer_no_gap_witness:
  "map_of (xs_indexers (run_tasks mem_contracts mem_env [(sample_node 110, 1, Some 25, Some 0)] sample_contract_state)) 1
     = Some 110
   \<and> covered (log_ranges 1 (effects (xs_world
       (run_tasks mem_contracts mem_env [(sample_node 110, 1, Some 25, Some 0)] sample_contract_state)))) 100 110"
proof -
  let ?ts = "[(sample_node 110, 1, Some 25, Some 0)]"
  have 1: "map_of (xs_indexers sample_contract_state) 1 = Some 100"
    by (simp add: sample_contract_state_def)
  have 2: "\<exists>v \<in> active_subs map_of (xs_subs sample_contract_state) 1. su_processEventLogs v"
    by (simp add: active_subs_def sample_contract_state_def ran_distinct)
  have 3: "map_of (xs_indexers (run_tasks mem_contracts mem_env ?ts sample_contract_state)) 1 = Some 110"
    by (simp add: chainIndexerTask_def getBlockForIndexing_def sample_node_def to_block_def index_range_def
        getContractSubscriptionsByChainId_def event_filters_def receipt_filters_def ProcessEventsLogQueue_add_def
        ProcessTransactionReceiptsQueue_add_def requery_jobs_def for_each_emit_run getConfig_def upsertChainIndexer_def
        getWebhook_def io_simps Let_def mem_contracts_def mem_table_def sample_contract_state_def mem_world_def
        mem_env_def sample_config_def)
  show ?thesis
    using indexer_no_gap [OF mem_contract.contract_db_axioms 1, of mem_env ?ts] 2 3 by (simp del: run_tasks.simps)
qed

text \<open>
  a run of the manager that returns leaves exactly the chains with a subscription registered,
  and does not touch the task of a chain that was registered and stays so.
\<close>

theorem manage_matches_subscriptions:
  assumes "contract_db X irows srows lrows rrows hrows" "fst (manageChainIndexers X E N s) = Inr ()"
  shows "fst ` set (xs_registry (snd (manageChainIndexers X E N s)))
      = {c. active_subs srows (xs_subs s) c \<noteq> {}}
    \<and> {e \<in> set (xs_registry s). active_subs srows (xs_subs s) (fst e) \<noteq> {}}
      \<subseteq> set (xs_registry (snd (manageChainIndexers X E N s)))"
proof -
  let ?many = "t_many (x_subs X) (\<lambda>c. su_deletedAt c = None) (xs_subs s)"
  obtain vs where vs: "fst ?many = Inr vs" "set vs = {v \<in> ran (srows (xs_subs s)). su_deletedAt v = None}"
    using prisma_table.many_set [OF contract_db.axioms(2) [OF assms(1)]] by blast
  let ?ids = "remdups (map su_chainId vs)" and ?s1 = "s\<lparr>xs_subs := snd ?many\<rparr>"
  let ?f = "\<lambda>chainId. bnd registered (\<lambda>keys. if chainId \<notin> set keys then addChainIndexer E N chainId else ret ())"
  let ?loop = "for_each ?ids ?f ?s1"
  have ids: "set ?ids = {c. active_subs srows (xs_subs s) c \<noteq> {}}"
    using vs(2) by (auto simp: active_subs_def)
  have run: "manageChainIndexers X E N s = bnd (for_each ?ids ?f) (\<lambda>_. bnd registered (\<lambda>keys. for_each keys (\<lambda>chainId.
       if chainId \<notin> set ?ids then removeChainIndexer chainId else ret ()))) ?s1"
    by (simp add: manageChainIndexers_def getContractSubscriptionsUniqueChainIds_def bnd_apply [of "at_subs _"]
        bnd_assoc bnd_ret_left at_apply vs(1))
  have ok: "fst ?loop = Inr ()"
    using bnd_Inr [OF assms(2) [unfolded run]] by auto
  then have "xs_registry (snd (manageChainIndexers X E N s)) =
      filter (\<lambda>e. fst e \<notin> fst ` set (xs_registry (snd ?loop)) - set ?ids) (xs_registry (snd ?loop))"
    unfolding run by (simp only: bnd_apply [of "for_each _ _"] sum.case) (simp add: bnd_apply registered_def remove_loop_run)
  then have kept: "set (xs_registry (snd (manageChainIndexers X E N s))) = {e \<in> set (xs_registry (snd ?loop)). fst e \<in> set ?ids}"
    by auto
  have img: "fst ` {e \<in> R. fst e \<in> I} = fst ` R \<inter> I" for R :: "(int \<times> indexer_task) set" and I by force
  have "fst ` set (xs_registry (snd (manageChainIndexers X E N s))) = set ?ids"
    unfolding kept img add_loop_run(1) [OF ok] by (rule Int_absorb1) (rule Un_upper2)
  moreover have "{e \<in> set (xs_registry s). fst e \<in> set ?ids} \<subseteq> set (xs_registry (snd (manageChainIndexers X E N s)))"
    unfolding kept using add_loop_run(2) [OF ok] by auto
  ultimately show ?thesis unfolding ids mem_Collect_eq by (rule conjI)
qed

theorem manage_matches_subscriptions_witness:
  "fst ` set (xs_registry (snd (manageChainIndexers mem_contracts mem_env (sample_node 110) sample_contract_state))) = {1}"
proof -
  have 1: "fst (manageChainIndexers mem_contracts mem_env (sample_node 110) sample_contract_state) = Inr ()"
    by (simp add: manageChainIndexers_def getContractSubscriptionsUniqueChainIds_def registered_def addChainIndexer_def
        removeChainIndexer_def getConfig_def getBlockTimeSeconds_def KNOWN_BLOCKTIME_SECONDS_def io_simps
        mem_contracts_def mem_table_def sample_contract_state_def mem_world_def mem_env_def)
  have "{c. active_subs map_of (xs_subs sample_contract_state) c \<noteq> {}} = {1}"
    by (auto simp: active_subs_def sample_contract_state_def ran_distinct)
  then show ?thesis
    using manage_matches_subscriptions [OF mem_contract.contract_db_axioms 1] by simp
qed

end
