(* ===== verification/Index_Workers.thy ===== *)
theory Index_Workers
  imports Chain_Indexer
begin

text \<open>
  The workers that process a range of blocks: \<open>src/worker/tasks/processEventLogsWorker.ts\<close> and
  \<open>src/worker/tasks/processTransactionReceiptsWorker.ts\<close>. Each reads what the subscribed
  contracts did in the range, stores the rows that are new, and queues a webhook job for every new
  row and every webhook subscribed to its contract. As only new rows are announced, a range may be
  processed again without a second announcement.

  The SDK and the RPC node are parameters. An address that is normalized is lowered; a contract is
  its address on the chain of the job. Calls that the code starts together run in order; the first
  failure is the result.
\<close>

section \<open>Data of the node\<close>

record abi_item =
  ab_name :: "string option"
  ab_inputs :: "(string option \<times> string) list"

text \<open>A decoded argument: null, an object or array by its values, or a value that prints itself.\<close>

datatype log_arg = ArgNull | ArgNode "log_arg list" | ArgLeaf string

record raw_log =
  lg_blockNumber :: int
  lg_address :: string
  lg_transactionHash :: string
  lg_topics :: "string list"
  lg_data :: string
  lg_eventName :: string
  lg_args :: "(string \<times> log_arg) list"
  lg_blockHash :: string
  lg_transactionIndex :: int
  lg_logIndex :: int

record raw_tx =
  rt_hash :: string
  rt_to :: "string option"
  rt_input :: string
  rt_value :: int

record raw_block =
  rb_timestamp :: int
  rb_transactions :: "raw_tx list"

record raw_receipt =
  rr_blockNumber :: int
  rr_blockHash :: string
  rr_transactionHash :: string
  rr_from :: string
  rr_transactionIndex :: int
  rr_gasUsed :: int
  rr_effectiveGasPrice :: "int option"
  rr_status :: string

record index_node =
  i_resolveAbi :: "chain_info \<Rightarrow> string \<Rightarrow> js_error + abi_item list"
  i_contractEvents :: "chain_info \<Rightarrow> string \<Rightarrow> int \<Rightarrow> int \<Rightarrow> abi_item list \<Rightarrow> js_error + raw_log list"
  i_blockByHash :: "chain_info \<Rightarrow> string \<Rightarrow> js_error + int"
  i_blockByNumber :: "chain_info \<Rightarrow> int \<Rightarrow> js_error + raw_block"
  i_transactionReceipt :: "chain_info \<Rightarrow> string \<Rightarrow> js_error + raw_receipt"
  i_decodeFunctionName :: "abi_item list \<Rightarrow> string \<Rightarrow> js_error + string"

section \<open>Event logs\<close>

text \<open>\<open>xs.join(",")\<close>.\<close>

fun join_comma :: "string list \<Rightarrow> string" where
  "join_comma [] = []"
| "join_comma [x] = x"
| "join_comma (x # xs) = x @ '','' @ join_comma xs"

fun logArgToString :: "log_arg \<Rightarrow> string" where
  "logArgToString ArgNull = []"
| "logArgToString (ArgNode args) = join_comma (map logArgToString args)"
| "logArgToString (ArgLeaf s) = s"

fun decoded_inputs ::
  "(string \<times> log_arg) list \<Rightarrow> (string option \<times> string) list \<Rightarrow> (string \<times> string \<times> string) list
   \<Rightarrow> (string \<times> string \<times> string) list" where
  "decoded_inputs logArgs [] res = res"
| "decoded_inputs logArgs ((name, type) # inputs) res =
     decoded_inputs logArgs inputs
       (if truthy name then
          (case map_of logArgs (the name) of
             None \<Rightarrow> res | Some arg \<Rightarrow> put_row (the name) (type, logArgToString arg) res)
        else res)"

definition formatDecodedLog ::
  "index_node \<Rightarrow> chain_info \<Rightarrow> string \<Rightarrow> string \<Rightarrow> (string \<times> log_arg) list
   \<Rightarrow> js_error + (string \<times> string \<times> string) list option" where
  "formatDecodedLog I chain contract eventName logArgs = (case i_resolveAbi I chain contract of
       Inl e \<Rightarrow> Inl e
     | Inr abi \<Rightarrow> (case find (\<lambda>a. ab_name a = Some eventName) abi of
         None \<Rightarrow> Inr None
       | Some eventSignature \<Rightarrow> Inr (Some (decoded_inputs logArgs (ab_inputs eventSignature) []))))"

text \<open>\<open>Array.from(new Set(xs))\<close>.\<close>

definition js_dedupe :: "'a list \<Rightarrow> 'a list" where
  "js_dedupe xs = rev (remdups (rev xs))"

definition getBlockTimestamps :: "index_node \<Rightarrow> int \<Rightarrow> chain_info \<Rightarrow> string list \<Rightarrow> (string \<times> int) list" where
  "getBlockTimestamps I now chain blockHashes =
     map (\<lambda>h. (h, case i_blockByHash I chain h of Inl e \<Rightarrow> now | Inr timestamp \<Rightarrow> timestamp * 1000))
       (js_dedupe blockHashes)"

text \<open>The logs of one filter; no events means all of them.\<close>

definition filter_logs ::
  "index_node \<Rightarrow> chain_info \<Rightarrow> int \<Rightarrow> int \<Rightarrow> string \<times> string list \<Rightarrow> js_error + raw_log list" where
  "filter_logs I chain fromBlock toBlock f = (case f of (address, names) \<Rightarrow>
     if names = [] then i_contractEvents I chain address fromBlock toBlock []
     else (case i_resolveAbi I chain address of
         Inl e \<Rightarrow> Inl e
       | Inr abi \<Rightarrow> i_contractEvents I chain address fromBlock toBlock
           (filter (\<lambda>a. case ab_name a of None \<Rightarrow> False | Some n \<Rightarrow> n \<in> set names) abi)))"

text \<open>The row of a log; a contract that no filter names is undefined, which throws.\<close>

definition log_row ::
  "index_node \<Rightarrow> chain_info \<Rightarrow> int \<Rightarrow> string list \<Rightarrow> (string \<times> int) list \<Rightarrow> raw_log \<Rightarrow> js_error + event_log" where
  "log_row I chain chainId addresses blockTimestamps l =
     (let contractAddress = toLowerCase (lg_address l) in
      if contractAddress \<notin> set addresses then Inl js_TypeError
      else (case formatDecodedLog I chain contractAddress (lg_eventName l) (lg_args l) of
          Inl e \<Rightarrow> Inl e
        | Inr decodedLog \<Rightarrow> Inr \<lparr>el_chainId = chainId, el_blockNumber = lg_blockNumber l,
            el_contractAddress = contractAddress, el_transactionHash = lg_transactionHash l,
            el_topic0 = nth_opt (lg_topics l) 0, el_topic1 = nth_opt (lg_topics l) 1,
            el_topic2 = nth_opt (lg_topics l) 2, el_topic3 = nth_opt (lg_topics l) 3,
            el_data = lg_data l, el_eventName = Some (lg_eventName l), el_decodedLog = decodedLog,
            el_timestamp = the (map_of blockTimestamps (lg_blockHash l)),
            el_transactionIndex = lg_transactionIndex l, el_logIndex = lg_logIndex l,
            el_createdAt = 0\<rparr>))"

definition getLogs ::
  "'w env \<Rightarrow> index_node \<Rightarrow> int \<Rightarrow> (string \<times> string list) list \<Rightarrow> int \<Rightarrow> int
   \<Rightarrow> ('w world, event_log list) io" where
  "getLogs E I chainId filters fromBlock toBlock =
     (if filters = [] then ret []
      else
        bnd (getChain E chainId) (\<lambda>chain.
        bnd (lift_res (map_res (filter_logs I chain fromBlock toBlock) filters)) (\<lambda>logs.
        bnd new_Date (\<lambda>now.
        let allLogs = concat logs;
            blockTimestamps = getBlockTimestamps I now chain (map lg_blockHash allLogs) in
        lift_res (map_res (log_row I chain chainId (map fst filters) blockTimestamps) allLogs)))))"

text \<open>The webhooks of a contract, in the order of the subscriptions.\<close>

definition getWebhooksByContractAddresses ::
  "('c, 's, 'l, 'r, 'h) contract_sys \<Rightarrow> int
   \<Rightarrow> (('w, 'c, 's, 'l, 'r, 'h) contract_state, string \<Rightarrow> webhook list) io" where
  "getWebhooksByContractAddresses X chainId =
     bnd (getContractSubscriptionsByChainId X chainId) (\<lambda>contractSubscriptions.
     ret (\<lambda>a. List.map_filter (\<lambda>(c, w). if su_contractAddress c = a then w else None) contractSubscriptions))"

definition processEventLogsHandler ::
  "('c, 's, 'l, 'r, 'h) contract_sys \<Rightarrow> 'w env \<Rightarrow> index_node \<Rightarrow> int \<Rightarrow> (string \<times> string list) list
   \<Rightarrow> int \<Rightarrow> int \<Rightarrow> (('w, 'c, 's, 'l, 'r, 'h) contract_state, unit) io" where
  "processEventLogsHandler X E I chainId filters fromBlock toBlock =
     bnd (at_world (getLogs E I chainId filters fromBlock toBlock)) (\<lambda>logs.
     if logs = [] then ret ()
     else
       bnd (bulkInsertContractEventLogs X logs) (\<lambda>insertedLogs.
       if insertedLogs = [] then ret ()
       else
         bnd (getWebhooksByContractAddresses X chainId) (\<lambda>webhooksByContractAddress.
         for_each insertedLogs (\<lambda>eventLog.
           for_each (webhooksByContractAddress (el_contractAddress eventLog)) (\<lambda>webhook.
             at_world (enqueueWebhook E (SubscriptionEvent webhook (Some eventLog) None)))))))"

section \<open>Receipts\<close>

definition getContractId :: "int \<Rightarrow> string \<Rightarrow> string" where
  "getContractId chainId contractAddress = show_int chainId @ '':'' @ contractAddress"

text \<open>
  The functions of interest for an address. A second filter of an address is added to the list of
  the first, and then the entry of the address is replaced: the last filter counts.
\<close>

fun address_config ::
  "(string \<times> string list) list \<Rightarrow> (string \<times> string list) list \<Rightarrow> (string \<times> string list) list" where
  "address_config [] cfg = cfg"
| "address_config ((address, functions) # filters) cfg =
     address_config filters (put_row address functions cfg)"

definition getFunctionName :: "index_node \<Rightarrow> chain_info \<Rightarrow> string \<Rightarrow> string \<Rightarrow> js_error + string" where
  "getFunctionName I chain contract data = (case i_resolveAbi I chain contract of
       Inl e \<Rightarrow> Inl e | Inr abi \<Rightarrow> i_decodeFunctionName I abi data)"

definition receipt_row ::
  "int \<Rightarrow> raw_block \<Rightarrow> raw_tx \<Rightarrow> string \<Rightarrow> string option \<Rightarrow> raw_receipt \<Rightarrow> receipt_log" where
  "receipt_row chainId block tx toAddress functionName receipt =
     \<lparr>rl_chainId = chainId, rl_blockNumber = rr_blockNumber receipt, rl_contractAddress = toAddress,
      rl_contractId = getContractId chainId toAddress,
      rl_transactionHash = toLowerCase (rr_transactionHash receipt),
      rl_blockHash = toLowerCase (rr_blockHash receipt), rl_timestamp = rb_timestamp block * 1000,
      rl_data = rt_input tx, rl_functionName = functionName, rl_to = toAddress,
      rl_from = toLowerCase (rr_from receipt), rl_value = show_int (rt_value tx),
      rl_transactionIndex = rr_transactionIndex receipt, rl_gasUsed = show_int (rr_gasUsed receipt),
      rl_effectiveGasPrice = (case rr_effectiveGasPrice receipt of None \<Rightarrow> [] | Some p \<Rightarrow> show_int p),
      rl_status = (if rr_status receipt = ''success'' then 1 else 0), rl_createdAt = 0\<rparr>"

text \<open>The row of a transaction, or nothing when it is not of interest.\<close>

definition tx_row ::
  "index_node \<Rightarrow> chain_info \<Rightarrow> int \<Rightarrow> (string \<times> string list) list \<Rightarrow> raw_block \<Rightarrow> raw_tx
   \<Rightarrow> js_error + receipt_log option" where
  "tx_row I chain chainId addressConfig block tx =
     (if \<not> truthy (rt_to tx) then Inr None
      else
        let toAddress = toLowerCase (the (rt_to tx)) in
        case map_of addressConfig toAddress of
          None \<Rightarrow> Inr None
        | Some functions \<Rightarrow>
            (case (if functions = [] then Inr None
                   else map_sum id Some (getFunctionName I chain toAddress (rt_input tx))) of
               Inl e \<Rightarrow> Inl e
             | Inr functionName \<Rightarrow>
                 if functions \<noteq> [] \<and> the functionName \<notin> set functions then Inr None
                 else (case i_transactionReceipt I chain (rt_hash tx) of
                     Inl e \<Rightarrow> Inl e
                   | Inr receipt \<Rightarrow> Inr (Some (receipt_row chainId block tx toAddress functionName receipt)))))"

definition getFormattedTransactionReceiptsFromBlock ::
  "index_node \<Rightarrow> chain_info \<Rightarrow> int \<Rightarrow> (string \<times> string list) list \<Rightarrow> int \<Rightarrow> js_error + receipt_log list" where
  "getFormattedTransactionReceiptsFromBlock I chain chainId addressConfig blockNumber =
     (case i_blockByNumber I chain blockNumber of
        Inl e \<Rightarrow> Inl e
      | Inr block \<Rightarrow>
          map_sum id (List.map_filter id) (map_res (tx_row I chain chainId addressConfig block) (rb_transactions block)))"

definition getFormattedTransactionReceipts ::
  "'w env \<Rightarrow> index_node \<Rightarrow> int \<Rightarrow> (string \<times> string list) list \<Rightarrow> int \<Rightarrow> int
   \<Rightarrow> ('w world, receipt_log list) io" where
  "getFormattedTransactionReceipts E I chainId filters fromBlock toBlock =
     (if filters = [] then ret []
      else
        bnd (getChain E chainId) (\<lambda>chain.
        lift_res (map_sum id concat
          (map_res (getFormattedTransactionReceiptsFromBlock I chain chainId (address_config filters []))
            [fromBlock..toBlock]))))"

definition processTransactionReceiptsHandler ::
  "('c, 's, 'l, 'r, 'h) contract_sys \<Rightarrow> 'w env \<Rightarrow> index_node \<Rightarrow> int \<Rightarrow> (string \<times> string list) list
   \<Rightarrow> int \<Rightarrow> int \<Rightarrow> (('w, 'c, 's, 'l, 'r, 'h) contract_state, unit) io" where
  "processTransactionReceiptsHandler X E I chainId filters fromBlock toBlock =
     bnd (at_world (getFormattedTransactionReceipts E I chainId filters fromBlock toBlock)) (\<lambda>receipts.
     if receipts = [] then ret ()
     else
       bnd (bulkInsertContractTransactionReceipts X receipts) (\<lambda>insertedReceipts.
       if insertedReceipts = [] then ret ()
       else
         bnd (getWebhooksByContractAddresses X chainId) (\<lambda>webhooksByContractAddress.
         for_each insertedReceipts (\<lambda>transactionReceipt.
           for_each (webhooksByContractAddress (rl_contractAddress transactionReceipt)) (\<lambda>webhook.
             at_world (enqueueWebhook E (SubscriptionEvent webhook None (Some transactionReceipt))))))))"

section \<open>Facts\<close>

text \<open>The job that announces a row to a webhook that is active and made for subscriptions.\<close>

definition subscription_jobs :: "webhook \<Rightarrow> event_log option \<Rightarrow> receipt_log option \<Rightarrow> effect list" where
  "subscription_jobs w l r =
     (case getContractSubscriptionWebhookIdempotencyKey w l r of Inl e \<Rightarrow> []
      | Inr key \<Rightarrow> if wh_revokedAt w = None \<and> wh_eventType w = event_string CONTRACT_SUBSCRIPTION
          then [AddJob ''send-webhook'' (webhook_job_name CONTRACT_SUBSCRIPTION w)
                 (WebhookJob (SubscriptionEvent w l r) w) \<lparr>jo_jobId = Some key, jo_attempts = None, jo_delay = None\<rparr>]
          else [])"

lemma enqueue_subscription_run:
  "l \<noteq> None \<or> r \<noteq> None \<Longrightarrow>
   enqueueWebhook E (SubscriptionEvent w l r) s = (Inr (), s\<lparr>effects := effects s @ subscription_jobs w l r\<rparr>)"
  by (auto simp: enqueueWebhook_def enqueueContractSubscriptionWebhook_def subscription_jobs_def bnd_apply emit_apply
      getContractSubscriptionWebhookIdempotencyKey_def split: option.split)

definition add_effects ::
  "effect list \<Rightarrow> ('w, 'c, 's, 'l, 'r, 'h) contract_state \<Rightarrow> ('w, 'c, 's, 'l, 'r, 'h) contract_state" where
  "add_effects xs s = s\<lparr>xs_world := (xs_world s)\<lparr>effects := effects (xs_world s) @ xs\<rparr>\<rparr>"

lemma add_effects_simps [simp]:
  "add_effects [] s = s" "add_effects ys (add_effects xs s) = add_effects (xs @ ys) s"
  "xs_logs (add_effects xs s) = xs_logs s" "xs_receipts (add_effects xs s) = xs_receipts s"
  "effects (xs_world (add_effects xs s)) = effects (xs_world s) @ xs"
  "config_cache (xs_world (add_effects xs s)) = config_cache (xs_world s)"
  by (simp_all add: add_effects_def)

lemma for_each_effects:
  assumes "\<And>x s. f x s = (Inr (), add_effects (g x) s)"
  shows "for_each xs f s = (Inr (), add_effects (concat (map g xs)) s)"
  by (induction xs arbitrary: s) (simp_all add: assms bnd_apply)

lemma announce_run:
  assumes "\<And>x. l x \<noteq> None \<or> r x \<noteq> None"
  shows "for_each xs (\<lambda>x. for_each (H x) (\<lambda>w. at_world (enqueueWebhook E (SubscriptionEvent w (l x) (r x))))) s =
    (Inr (), add_effects (concat (map (\<lambda>x. concat (map (\<lambda>w. subscription_jobs w (l x) (r x)) (H x))) xs)) s)"
  by (intro for_each_effects) (simp add: at_apply enqueue_subscription_run [OF assms] add_effects_def)

lemma set_announcements:
  "set (concat (map (\<lambda>l. concat (map (g l) (H l))) (map snd kvs)))
   = {j. \<exists>k l w. (k, l) \<in> set kvs \<and> w \<in> set (H l) \<and> j \<in> set (g l w)}"
  by force

lemma getChain_again:
  assumes "fst (getChain E c w) = Inr ch" "config_cache w' = config_cache (snd (getChain E c w))"
  shows "getChain E c w' = (Inr ch, w')"
  using assms by (auto simp: getChain_def getConfig_def bnd_apply split: option.splits sum.splits)

lemma getChain_world: "\<exists>cc. snd (getChain E c w) = w\<lparr>config_cache := cc\<rparr>"
  using getConfig_world [of E True w] by (auto simp: getChain_def bnd_apply split: sum.split option.split)

definition log_id :: "event_log \<Rightarrow> string \<times> int" where
  "log_id l = (el_transactionHash l, el_logIndex l)"

lemma log_rows_again:
  assumes "map_res (log_row I ch c as ts) ls = Inr rows"
  shows "\<exists>rows'. map_res (log_row I ch c as ts') ls = Inr rows' \<and> map log_id rows' = map log_id rows"
  using assms
proof (induction ls arbitrary: rows)
  case (Cons l ls)
  then obtain r rs where r: "log_row I ch c as ts l = Inr r" "map_res (log_row I ch c as ts) ls = Inr rs" "rows = r # rs"
    by (auto split: sum.splits)
  then obtain r' where "log_row I ch c as ts' l = Inr r'" "log_id r' = log_id r"
    by (auto simp: log_row_def log_id_def Let_def split: sum.splits if_splits)
  with Cons.IH [OF r(2)] r(3) show ?case by auto
qed simp

lemma snd_getLogs: "snd (getLogs E I c fs f t w) = (if fs = [] then w else snd (getChain E c w))"
  by (simp add: getLogs_def bnd_apply new_Date_apply Let_def split: sum.split)

text \<open>Reading the same range again, perhaps later, gives the same logs but for fallback times.\<close>

lemma getLogs_again:
  assumes "fst (getLogs E I c fs f t w) = Inr logs" "config_cache w' = config_cache (snd (getLogs E I c fs f t w))"
  shows "\<exists>logs'. fst (getLogs E I c fs f t w') = Inr logs' \<and> map log_id logs' = map log_id logs"
proof (cases "fs = []")
  case True
  then show ?thesis using assms by (auto simp: getLogs_def)
next
  case False
  obtain ch where ch: "fst (getChain E c w) = Inr ch"
    using assms(1) False by (auto simp: getLogs_def bnd_apply split: sum.splits)
  have "config_cache (snd (getLogs E I c fs f t w)) = config_cache (snd (getChain E c w))"
    using False by (simp add: snd_getLogs)
  with assms(2) have again: "getChain E c w' = (Inr ch, w')" using getChain_again [OF ch] by simp
  obtain ls where ls: "map_res (filter_logs I ch f t) fs = Inr ls"
    using assms(1) False ch by (auto simp: getLogs_def bnd_apply split: sum.splits)
  then have "map_res (log_row I ch c (map fst fs)
      (getBlockTimestamps I (clock (snd (getChain E c w))) ch (map lg_blockHash (concat ls)))) (concat ls) = Inr logs"
    using assms(1) False ch by (simp add: getLogs_def bnd_apply new_Date_apply Let_def)
  from log_rows_again [OF this] show ?thesis
    using False again ls by (simp add: getLogs_def bnd_apply new_Date_apply Let_def)
qed

text \<open>The webhooks that are to hear of a contract.\<close>

definition contract_hooks ::
  "('s \<Rightarrow> string \<Rightarrow> subscription option) \<Rightarrow> ('h \<Rightarrow> int \<Rightarrow> webhook option)
   \<Rightarrow> ('w, 'c, 's, 'l, 'r, 'h) contract_state \<Rightarrow> int \<Rightarrow> string \<Rightarrow> webhook set" where
  "contract_hooks srows hrows s c a = {w. \<exists>v \<in> active_subs srows (xs_subs s) c.
     su_contractAddress v = a \<and> Option.bind (su_webhookId v) (hrows (xs_hooks s)) = Some w}"

context contract_db
begin

lemma hooks_run:
  obtains H ds dh where
    "getWebhooksByContractAddresses X c s = (Inr H, s\<lparr>xs_subs := ds, xs_hooks := dh\<rparr>)"
    "\<forall>a. set (H a) = contract_hooks srows hrows s c a"
proof -
  obtain cs ds dh where cs: "getContractSubscriptionsByChainId X c s = (Inr cs, s\<lparr>xs_subs := ds, xs_hooks := dh\<rparr>)"
    "fst ` set cs = active_subs srows (xs_subs s) c"
    "\<forall>(v, w) \<in> set cs. w = Option.bind (su_webhookId v) (hrows (xs_hooks s))"
    by (rule subs_run [of c s])
  let ?H = "\<lambda>a. List.map_filter (\<lambda>(v, w). if su_contractAddress v = a then w else None) cs"
  have "set (?H a) = contract_hooks srows hrows s c a" for a
  proof (intro set_eqI iffI)
    fix w assume "w \<in> set (?H a)"
    then obtain v where "(v, Some w) \<in> set cs" "su_contractAddress v = a"
      by (auto simp: List.map_filter_def split: if_splits)
    then show "w \<in> contract_hooks srows hrows s c a"
      using cs(2,3) by (force simp: contract_hooks_def)
  next
    fix w assume "w \<in> contract_hooks srows hrows s c a"
    then obtain v x where "(v, x) \<in> set cs" "su_contractAddress v = a"
      "Option.bind (su_webhookId v) (hrows (xs_hooks s)) = Some w"
      unfolding contract_hooks_def cs(2) [symmetric] by auto
    then show "w \<in> set (?H a)"
      using cs(3) by (fastforce simp: List.map_filter_def image_iff)
  qed
  then show ?thesis
    using that [of ?H dh ds] cs(1) by (simp add: getWebhooksByContractAddresses_def bnd_apply)
qed

lemma event_logs_run:
  assumes "fst (getLogs E I c fs f t (xs_world s)) = Inr logs"
  defines "new \<equiv> fresh_rows (lrows (xs_logs s)) (map (\<lambda>l. (log_id l, l\<lparr>el_createdAt := clock (xs_world s)\<rparr>)) logs)"
  obtains H where
    "fst (processEventLogsHandler X E I c fs f t s) = Inr ()"
    "effects (xs_world (snd (processEventLogsHandler X E I c fs f t s))) = effects (xs_world s)
       @ concat (map (\<lambda>l. concat (map (\<lambda>w. subscription_jobs w (Some l) None) (H l))) (map snd new))"
    "\<forall>l \<in> snd ` set new. set (H l) = contract_hooks srows hrows s c (el_contractAddress l)"
    "lrows (xs_logs (snd (processEventLogsHandler X E I c fs f t s))) = lrows (xs_logs s) ++ map_of new"
    "config_cache (xs_world (snd (processEventLogsHandler X E I c fs f t s)))
       = config_cache (snd (getLogs E I c fs f t (xs_world s)))"
proof -
  let ?w = "snd (getLogs E I c fs f t (xs_world s))"
  let ?ins = "t_createMany (x_logs X) (map (\<lambda>l. ((el_transactionHash l, el_logIndex l), l\<lparr>el_createdAt := clock (xs_world s)\<rparr>)) logs)
    (xs_logs s)"
  let ?s2 = "s\<lparr>xs_world := ?w, xs_logs := snd ?ins\<rparr>"
  have w: "effects ?w = effects (xs_world s)" "clock ?w = clock (xs_world s)"
    using getChain_world [of E c "xs_world s"] by (auto simp: snd_getLogs)
  have ins: "fst ?ins = Inr (map snd new)" "lrows (snd ?ins) = lrows (xs_logs s) ++ map_of new"
    unfolding new_def log_id_def by (rule logs.law_createMany)+
  have run: "processEventLogsHandler X E I c fs f t s =
     (if logs = [] then (Inr (), s\<lparr>xs_world := ?w\<rparr>)
      else if new = [] then (Inr (), ?s2)
      else bnd (getWebhooksByContractAddresses X c) (\<lambda>H. for_each (map snd new) (\<lambda>l.
        for_each (H (el_contractAddress l)) (\<lambda>w. at_world (enqueueWebhook E (SubscriptionEvent w (Some l) None))))) ?s2)"
    using ins(1) w(2) by (simp add: processEventLogsHandler_def bulkInsertContractEventLogs_def bnd_apply [of "at_world _"]
        bnd_apply [of "bnd _ _"] bnd_apply [of "at_logs _"] at_apply new_Date_apply assms(1))
  consider "logs = []" | "logs \<noteq> []" "new = []" | "logs \<noteq> []" "new \<noteq> []" by blast
  then show ?thesis
  proof cases
    case 1
    then show ?thesis using that [of "\<lambda>_. []"] w run by (simp add: new_def)
  next
    case 2
    then show ?thesis using that [of "\<lambda>_. []"] w ins run by simp
  next
    case 3
    obtain H ds dh where H: "getWebhooksByContractAddresses X c ?s2 = (Inr H, ?s2\<lparr>xs_subs := ds, xs_hooks := dh\<rparr>)"
      "\<forall>a. set (H a) = contract_hooks srows hrows ?s2 c a"
      by (rule hooks_run [of c ?s2])
    have "processEventLogsHandler X E I c fs f t s = (Inr (), add_effects
       (concat (map (\<lambda>l. concat (map (\<lambda>w. subscription_jobs w (Some l) None) (H (el_contractAddress l)))) (map snd new)))
       (?s2\<lparr>xs_subs := ds, xs_hooks := dh\<rparr>))"
      using 3 run H(1) announce_run [where l = Some and r = "\<lambda>_. None" and E = E
          and xs = "map snd new" and H = "\<lambda>l. H (el_contractAddress l)"]
      by (simp add: bnd_apply del: map_map)
    then show ?thesis
      using that [of "\<lambda>l. H (el_contractAddress l)"] H(2) ins(2) w(1) by (simp add: contract_hooks_def del: map_map)
  qed
qed

end

section \<open>Properties\<close>


definition sample_index_node :: index_node where
  "sample_index_node = \<lparr>i_resolveAbi = (\<lambda>_ _. Inr []),
     i_contractEvents = (\<lambda>_ a f t _. Inr [\<lparr>lg_blockNumber = t, lg_address = a, lg_transactionHash = ''0xn'',
       lg_topics = [''0xt''], lg_data = ''0x'', lg_eventName = ''Transfer'', lg_args = [], lg_blockHash = ''0xb'',
       lg_transactionIndex = 0, lg_logIndex = 0\<rparr>]),
     i_blockByHash = (\<lambda>_ _. Inl js_TypeError),
     i_blockByNumber = (\<lambda>_ _. Inr \<lparr>rb_timestamp = 1, rb_transactions = []\<rparr>),
     i_transactionReceipt = (\<lambda>_ _. Inl js_TypeError), i_decodeFunctionName = (\<lambda>_ d. Inr d)\<rparr>"


text \<open>
  of several filters for one address only the last one counts for the receipts: a transaction
  that calls a function named by an earlier subscription, but not by the last one, is passed over.
\<close>

theorem receipt_filters_last_counts:
  assumes "rt_to tx = Some a" "a \<noteq> []" "functions \<noteq> []"
    and "getFunctionName I chain (toLowerCase a) (rt_input tx) = Inr name" "name \<notin> set functions"
  shows "tx_row I chain c (address_config (filters @ [(toLowerCase a, functions)]) []) block tx = Inr None"
proof -
  have snoc: "address_config (fs @ [(b, gs)]) cfg = put_row b gs (address_config fs cfg)" for fs cfg b gs
    by (induction fs cfg rule: address_config.induct) simp_all
  show ?thesis using assms by (simp add: tx_row_def Let_def snoc)
qed

theorem receipt_filters_last_counts_witness:
  "tx_row sample_index_node \<lparr>ch_id = 1, ch_rpc = ''r''\<rparr> 1
     (address_config ([(''0xc'', [''mint''])] @ [(toLowerCase ''0xc'', [''burn''])]) []) \<lparr>rb_timestamp = 1, rb_transactions = []\<rparr>
     \<lparr>rt_hash = ''0x1'', rt_to = Some ''0xc'', rt_input = ''mint'', rt_value = 0\<rparr> = Inr None"
  by (rule receipt_filters_last_counts [where name = "''mint''"])
    (simp_all add: getFunctionName_def sample_index_node_def)

end
