(* ===== verification/Contract_Routes.thy ===== *)
theory Contract_Routes
  imports Index_Workers
begin

text \<open>
  The routes of the contract subscriptions, of the stored logs and receipts, and of the webhooks
  (\<open>src/server/routes/contract\<close>, \<open>src/server/routes/webhooks\<close>) with the helpers
  \<open>getChainIdFromChain\<close> and \<open>isValidHttpUrl\<close>. A handler is a function of the parsed request; its
  answer is what the reply carries.
\<close>

section \<open>Helpers\<close>

text \<open>
  The list of chains by slug (its status and id), whether code is deployed at an address, and the
  protocol of a URL that can be parsed.
\<close>

record route_env =
  ro_chainBySlug :: "string \<Rightarrow> js_error + (string \<times> int)"
  ro_isContractDeployed :: "chain_info \<Rightarrow> string \<Rightarrow> js_error + bool"
  ro_urlProtocol :: "string \<Rightarrow> string option"

definition getChainIdFromChain :: "'w env \<Rightarrow> route_env \<Rightarrow> string \<Rightarrow> ('w world, int) io" where
  "getChainIdFromChain E RE input = (case parseInt input of
       Some chainId \<Rightarrow> bnd (getChain E chainId) (\<lambda>chain. ret (ch_id chain))
     | None \<Rightarrow> (case ro_chainBySlug RE (toLowerCase input) of
         Inl e \<Rightarrow> throw (badChainError input)
       | Inr (status, chainId) \<Rightarrow>
           if status \<noteq> ''deprecated'' then ret chainId else throw (badChainError input)))"

definition isValidHttpUrl :: "route_env \<Rightarrow> string \<Rightarrow> bool" where
  "isValidHttpUrl RE urlString =
     (ro_urlProtocol RE urlString = Some ''http:'' \<or> ro_urlProtocol RE urlString = Some ''https:'')"

record webhook_schema =
  ws_url :: string
  ws_name :: "string option"
  ws_secret :: string
  ws_eventType :: string
  ws_active :: bool
  ws_createdAt :: int
  ws_id :: int

definition toWebhookSchema :: "webhook \<Rightarrow> webhook_schema" where
  "toWebhookSchema w = \<lparr>ws_url = wh_url w, ws_name = wh_name w, ws_secret = wh_secret w,
     ws_eventType = wh_eventType w, ws_active = (wh_revokedAt w = None), ws_createdAt = wh_createdAt w,
     ws_id = wh_id w\<rparr>"

record subscription_schema =
  ss_id :: string
  ss_chainId :: int
  ss_contractAddress :: string
  ss_webhook :: "webhook_schema option"
  ss_processEventLogs :: bool
  ss_filterEvents :: "string list"
  ss_processTransactionReceipts :: bool
  ss_filterFunctions :: "string list"
  ss_createdAt :: int

definition toContractSubscriptionSchema :: "subscription \<times> webhook option \<Rightarrow> subscription_schema" where
  "toContractSubscriptionSchema cw = (case cw of (c, w) \<Rightarrow>
     \<lparr>ss_id = su_id c, ss_chainId = su_chainId c, ss_contractAddress = su_contractAddress c,
      ss_webhook = map_option toWebhookSchema w, ss_processEventLogs = su_processEventLogs c,
      ss_filterEvents = su_filterEvents c, ss_processTransactionReceipts = su_processTransactionReceipts c,
      ss_filterFunctions = su_filterFunctions c, ss_createdAt = su_createdAt c\<rparr>)"

section \<open>Webhooks\<close>

definition bad_webhook_url :: js_error where
  "bad_webhook_url = createCustomError
     (''Invalid webhook URL. Make sure it starts with '' @ quoted ''https://'' @ ''.'') 400 ''BAD_REQUEST''"

definition createWebhookRoute ::
  "('c, 's, 'l, 'r, 'h) contract_sys \<Rightarrow> route_env \<Rightarrow> string \<Rightarrow> string option \<Rightarrow> string
   \<Rightarrow> (('w, 'c, 's, 'l, 'r, 'h) contract_state, webhook_schema) io" where
  "createWebhookRoute X RE url name eventType =
     (if \<not> isValidHttpUrl RE url then throw bad_webhook_url
      else bnd (insertWebhook X url name eventType) (\<lambda>w. ret (toWebhookSchema w)))"

definition revokeWebhookRoute ::
  "('c, 's, 'l, 'r, 'h) contract_sys \<Rightarrow> int \<Rightarrow> (('w, 'c, 's, 'l, 'r, 'h) contract_state, unit) io" where
  "revokeWebhookRoute X i =
     bnd (getWebhook X i) (\<lambda>w.
     if w = None then throw (createCustomError ''Webhook not found.'' 400 ''BAD_REQUEST'')
     else bnd (deleteWebhook X i) (\<lambda>_. ret ()))"

definition getAllWebhooksRoute ::
  "('c, 's, 'l, 'r, 'h) contract_sys \<Rightarrow> (('w, 'c, 's, 'l, 'r, 'h) contract_state, webhook_schema list) io" where
  "getAllWebhooksRoute X = bnd (getAllWebhooks X) (\<lambda>ws. ret (map toWebhookSchema ws))"

section \<open>Subscriptions\<close>

record subscription_request =
  sr_chain :: string
  sr_contractAddress :: string
  sr_webhookUrl :: "string option"
  sr_processEventLogs :: bool
  sr_filterEvents :: "string list"
  sr_processTransactionReceipts :: bool
  sr_filterFunctions :: "string list"

text \<open>A chain that is not subscribed yet starts at its latest block; any failure is ignored.\<close>

definition start_indexing ::
  "('c, 's, 'l, 'r, 'h) contract_sys \<Rightarrow> chain_node \<Rightarrow> int \<Rightarrow> (('w, 'c, 's, 'l, 'r, 'h) contract_state, unit) io" where
  "start_indexing X N chainId =
     bnd (getContractSubscriptionsUniqueChainIds X) (\<lambda>subscribedChainIds.
     if chainId \<notin> set subscribedChainIds then
       try_catch
         (bnd (lift_res (n_getSdk N chainId)) (\<lambda>_.
          bnd (lift_res (n_blockNumber N chainId)) (\<lambda>currentBlockNumber.
          bnd (upsertChainIndexer X chainId currentBlockNumber) (\<lambda>_. ret ()))))
         (\<lambda>_. ret ())
     else ret ())"

definition subscription_webhook ::
  "('c, 's, 'l, 'r, 'h) contract_sys \<Rightarrow> route_env \<Rightarrow> string option
   \<Rightarrow> (('w, 'c, 's, 'l, 'r, 'h) contract_state, int option) io" where
  "subscription_webhook X RE webhookUrl =
     (if truthy webhookUrl then
        if \<not> isValidHttpUrl RE (the webhookUrl) then throw bad_webhook_url
        else
          bnd (insertWebhook X (the webhookUrl) (Some ''(Auto-generated)'') (event_string CONTRACT_SUBSCRIPTION))
            (\<lambda>w. ret (Some (wh_id w)))
      else ret None)"

text \<open>The part of the route after its checks.\<close>

definition subscribe_contract ::
  "('c, 's, 'l, 'r, 'h) contract_sys \<Rightarrow> chain_node \<Rightarrow> route_env \<Rightarrow> int \<Rightarrow> subscription_request
   \<Rightarrow> (('w, 'c, 's, 'l, 'r, 'h) contract_state, subscription_schema) io" where
  "subscribe_contract X N RE chainId req =
     bnd (start_indexing X N chainId) (\<lambda>_.
     bnd (subscription_webhook X RE (sr_webhookUrl req)) (\<lambda>webhookId.
     bnd (createContractSubscription X chainId (toLowerCase (sr_contractAddress req)) webhookId
            (sr_processEventLogs req) (sr_filterEvents req)
            (sr_processTransactionReceipts req) (sr_filterFunctions req)) (\<lambda>c.
     bnd (include_webhook X [c]) (\<lambda>cw. ret (toContractSubscriptionSchema (hd cw))))))"

definition addContractSubscription ::
  "('c, 's, 'l, 'r, 'h) contract_sys \<Rightarrow> 'w env \<Rightarrow> chain_node \<Rightarrow> route_env \<Rightarrow> subscription_request
   \<Rightarrow> (('w, 'c, 's, 'l, 'r, 'h) contract_state, subscription_schema) io" where
  "addContractSubscription X E N RE req =
     bnd (at_world (getChainIdFromChain E RE (sr_chain req))) (\<lambda>chainId.
     if \<not> sr_processEventLogs req \<and> \<not> sr_processTransactionReceipts req
     then throw (createCustomError ''Contract Subscriptions must parse event logs and/or receipts.'' 400 ''BAD_REQUEST'')
     else
       bnd (at_world (getChain E chainId)) (\<lambda>chain.
       bnd (lift_res (ro_isContractDeployed RE chain (sr_contractAddress req))) (\<lambda>isValid.
       if \<not> isValid then throw (createCustomError ''Invalid contract.'' 400 ''INVALID_CONTRACT'')
       else subscribe_contract X N RE chainId req)))"

definition removeContractSubscription ::
  "('c, 's, 'l, 'r, 'h) contract_sys \<Rightarrow> string \<Rightarrow> (('w, 'c, 's, 'l, 'r, 'h) contract_state, unit) io" where
  "removeContractSubscription X i =
     bnd (deleteContractSubscription X i) (\<lambda>c.
     case su_webhookId c of
       None \<Rightarrow> ret ()
     | Some w \<Rightarrow> if w = 0 then ret () else bnd (deleteWebhook X w) (\<lambda>_. ret ()))"

definition getContractSubscriptionsRoute ::
  "('c, 's, 'l, 'r, 'h) contract_sys \<Rightarrow> (('w, 'c, 's, 'l, 'r, 'h) contract_state, subscription_schema list) io" where
  "getContractSubscriptionsRoute X =
     bnd (getAllContractSubscriptions X) (\<lambda>cs. ret (map toContractSubscriptionSchema cs))"

definition getLatestBlockRoute ::
  "('c, 's, 'l, 'r, 'h) contract_sys \<Rightarrow> 'w env \<Rightarrow> route_env \<Rightarrow> string
   \<Rightarrow> (('w, 'c, 's, 'l, 'r, 'h) contract_state, int) io" where
  "getLatestBlockRoute X E RE chain =
     bnd (at_world (getChainIdFromChain E RE chain)) (\<lambda>chainId.
     bnd (getLastIndexedBlock X chainId) (\<lambda>lastBlock.
     ret (case lastBlock of None \<Rightarrow> 0 | Some b \<Rightarrow> b)))"

definition getContractIndexedBlockRangeRoute ::
  "('c, 's, 'l, 'r, 'h) contract_sys \<Rightarrow> 'w env \<Rightarrow> route_env \<Rightarrow> string \<Rightarrow> string
   \<Rightarrow> (('w, 'c, 's, 'l, 'r, 'h) contract_state, int \<times> int) io" where
  "getContractIndexedBlockRangeRoute X E RE chain contractAddress =
     (let standardizedContractAddress = toLowerCase contractAddress in
      bnd (at_world (getChainIdFromChain E RE chain)) (\<lambda>chainId.
      bnd (getContractEventLogsIndexedBlockRange X chainId standardizedContractAddress) (\<lambda>result.
      case result of
        (Some fromBlock, Some toBlock) \<Rightarrow>
          if fromBlock \<noteq> 0 \<and> toBlock \<noteq> 0 then ret (fromBlock, toBlock)
          else throw (createCustomError (''No logs found for chainId: '' @ show_int chainId @ '', contractAddress: ''
                 @ standardizedContractAddress) 404 ''LOG_NOT_FOUND'')
      | _ \<Rightarrow> throw (createCustomError (''No logs found for chainId: '' @ show_int chainId @ '', contractAddress: ''
                 @ standardizedContractAddress) 404 ''LOG_NOT_FOUND''))))"

section \<open>Logs and receipts\<close>

definition MAX_ALLOWED_QUERY_BLOCKS :: int where
  "MAX_ALLOWED_QUERY_BLOCKS = 100"

text \<open>The checks of a block range; an upper bound of 0 is falsy and is not checked.\<close>

definition check_block_range :: "int \<Rightarrow> int option \<Rightarrow> js_error option" where
  "check_block_range fromBlock toBlock = (case toBlock of
       None \<Rightarrow> None
     | Some t \<Rightarrow>
         if t = 0 then None
         else if t < fromBlock then Some (createCustomError ''toBlock cannot be less than fromBlock'' 400 ''BAD_REQUEST'')
         else if t - fromBlock > MAX_ALLOWED_QUERY_BLOCKS
         then Some (createCustomError (''cannot query more than '' @ show_int MAX_ALLOWED_QUERY_BLOCKS) 400 ''BAD_REQUEST'')
         else None)"

definition not_subscribed :: "string \<Rightarrow> js_error" where
  "not_subscribed url = createCustomError
     (''Contract is not subscribed to! To subscribe, please use '' @ url) 404 ''NOT_FOUND''"

definition getContractEventLogsRoute ::
  "('c, 's, 'l, 'r, 'h) contract_sys \<Rightarrow> 'w env \<Rightarrow> route_env \<Rightarrow> string \<Rightarrow> string \<Rightarrow> int \<Rightarrow> int option
   \<Rightarrow> string list option \<Rightarrow> (('w, 'c, 's, 'l, 'r, 'h) contract_state, event_log_schema list) io" where
  "getContractEventLogsRoute X E RE chain contractAddress fromBlock toBlock topics =
     (case check_block_range fromBlock toBlock of
        Some e \<Rightarrow> throw e
      | None \<Rightarrow>
          bnd (at_world (getChainIdFromChain E RE chain)) (\<lambda>chainId.
          bnd (isContractSubscribed X chainId (toLowerCase contractAddress)) (\<lambda>isSubscribed.
          if \<not> isSubscribed
          then throw (not_subscribed (''/contract/'' @ chain @ ''/'' @ contractAddress @ ''/events/subscribe''))
          else
            bnd (getContractEventLogsByBlockAndTopics X chainId (toLowerCase contractAddress) fromBlock toBlock topics)
              (\<lambda>ls. ret (map toEventLogSchema ls)))))"

definition getEventLogsRoute ::
  "('c, 's, 'l, 'r, 'h) contract_sys \<Rightarrow> string list option \<Rightarrow> string list option \<Rightarrow> int \<Rightarrow> int option
   \<Rightarrow> (('w, 'c, 's, 'l, 'r, 'h) contract_state, event_log_schema list) io" where
  "getEventLogsRoute X contractAddresses topics fromBlockTimestamp toBlockTimestamp =
     bnd (getEventLogsByBlockTimestamp X fromBlockTimestamp toBlockTimestamp
            (map_option (map toLowerCase) contractAddresses) topics)
       (\<lambda>ls. ret (map toEventLogSchema ls))"

text \<open>Pages lag behind the clock; the configuration is read from the database every time.\<close>

definition pageEventLogsRoute ::
  "('c, 's, 'l, 'r, 'h) contract_sys \<Rightarrow> 'w env \<Rightarrow> string option \<Rightarrow> nat option \<Rightarrow> string list option
   \<Rightarrow> string list option
   \<Rightarrow> (('w, 'c, 's, 'l, 'r, 'h) contract_state, string option \<times> event_log_schema list) io" where
  "pageEventLogsRoute X E cursor pageSize topics contractAddresses =
     bnd (lift_res (e_getConfiguration E)) (\<lambda>config.
     bnd (at_world new_Date) (\<lambda>now.
     bnd (getEventLogsByCursor X cursor pageSize (map_option (map toLowerCase) contractAddresses) topics
            (Some (now - cfg_cursorDelaySeconds config * 1000)))
       (\<lambda>(newCursor, ls). ret (newCursor, map toEventLogSchema ls))))"

definition getTransactionReceiptsRoute ::
  "('c, 's, 'l, 'r, 'h) contract_sys \<Rightarrow> 'w env \<Rightarrow> route_env \<Rightarrow> string \<Rightarrow> string \<Rightarrow> int \<Rightarrow> int option
   \<Rightarrow> (('w, 'c, 's, 'l, 'r, 'h) contract_state, receipt_schema list) io" where
  "getTransactionReceiptsRoute X E RE chain contractAddress fromBlock toBlock =
     (case check_block_range fromBlock toBlock of
        Some e \<Rightarrow> throw e
      | None \<Rightarrow>
          bnd (at_world (getChainIdFromChain E RE chain)) (\<lambda>chainId.
          bnd (isContractSubscribed X chainId (toLowerCase contractAddress)) (\<lambda>isSubscribed.
          if \<not> isSubscribed
          then throw (not_subscribed (''/contract/'' @ chain @ ''/'' @ contractAddress @ ''/subscribe''))
          else
            bnd (getContractTransactionReceiptsByBlock X chainId (toLowerCase contractAddress) fromBlock toBlock)
              (\<lambda>rs. ret (map toTransactionReceiptSchema rs)))))"

definition getTransactionReceiptsByTimestampRoute ::
  "('c, 's, 'l, 'r, 'h) contract_sys \<Rightarrow> string list option \<Rightarrow> int \<Rightarrow> int option
   \<Rightarrow> (('w, 'c, 's, 'l, 'r, 'h) contract_state, receipt_schema list) io" where
  "getTransactionReceiptsByTimestampRoute X contractAddresses fromBlockTimestamp toBlockTimestamp =
     bnd (getTransactionReceiptsByBlockTimestamp X fromBlockTimestamp toBlockTimestamp
            (map_option (map toLowerCase) contractAddresses))
       (\<lambda>rs. ret (map toTransactionReceiptSchema rs))"

definition pageTransactionReceiptsRoute ::
  "('c, 's, 'l, 'r, 'h) contract_sys \<Rightarrow> 'w env \<Rightarrow> string option \<Rightarrow> nat option \<Rightarrow> string list option
   \<Rightarrow> (('w, 'c, 's, 'l, 'r, 'h) contract_state, string option \<times> receipt_schema list) io" where
  "pageTransactionReceiptsRoute X E cursor pageSize contractAddresses =
     bnd (lift_res (e_getConfiguration E)) (\<lambda>config.
     bnd (at_world new_Date) (\<lambda>now.
     bnd (getTransactionReceiptsByCursor X cursor pageSize (map_option (map toLowerCase) contractAddresses)
            (Some (now - cfg_cursorDelaySeconds config * 1000)))
       (\<lambda>(newCursor, rs). ret (newCursor, map toTransactionReceiptSchema rs))))"

section \<open>Facts\<close>

lemma getChainId_world: "\<exists>cc. snd (getChainIdFromChain E RE ch w) = w\<lparr>config_cache := cc\<rparr>"
proof (cases "parseInt ch")
  case None
  then have "snd (getChainIdFromChain E RE ch w) = w" by (auto simp: getChainIdFromChain_def split: sum.split)
  then show ?thesis by (intro exI [of _ "config_cache w"]) simp
next
  case (Some c)
  then show ?thesis
    using getChain_world [of E c w] by (auto simp: getChainIdFromChain_def bnd_apply split: sum.split)
qed

definition start_block :: "chain_node \<Rightarrow> int \<Rightarrow> int option" where
  "start_block N c = (case n_getSdk N c of Inl e \<Rightarrow> None
     | Inr _ \<Rightarrow> (case n_blockNumber N c of Inl e \<Rightarrow> None | Inr b \<Rightarrow> Some b))"

definition auto_hook :: "('c, 's, 'l, 'r, 'h) contract_sys \<Rightarrow> string \<Rightarrow> int \<Rightarrow> webhook" where
  "auto_hook X url now = \<lparr>wh_id = x_newWebhookId X, wh_url = url, wh_eventType = event_string CONTRACT_SUBSCRIPTION,
     wh_secret = x_newSecret X, wh_revokedAt = None, wh_name = Some ''(Auto-generated)'', wh_createdAt = now\<rparr>"

definition new_subscription ::
  "('c, 's, 'l, 'r, 'h) contract_sys \<Rightarrow> int \<Rightarrow> subscription_request \<Rightarrow> int \<Rightarrow> subscription" where
  "new_subscription X c req now = \<lparr>su_id = x_newUuid X, su_chainId = c,
     su_contractAddress = toLowerCase (sr_contractAddress req),
     su_webhookId = (if truthy (sr_webhookUrl req) then Some (x_newWebhookId X) else None),
     su_processEventLogs = sr_processEventLogs req, su_filterEvents = sr_filterEvents req,
     su_processTransactionReceipts = sr_processTransactionReceipts req, su_filterFunctions = sr_filterFunctions req,
     su_createdAt = now, su_deletedAt = None\<rparr>"

lemma new_subscription_active:
  "srows d = m(k \<mapsto> new_subscription X c req now) \<Longrightarrow> new_subscription X c req now \<in> active_subs srows d c"
  by (auto simp: active_subs_def ran_def new_subscription_def)

context contract_db
begin

lemma start_run:
  obtains ds di where "start_indexing X N c s = (Inr (), s\<lparr>xs_subs := ds, xs_indexers := di\<rparr>)"
    "srows ds = srows (xs_subs s)"
    "irows di = (if active_subs srows (xs_subs s) c \<noteq> {} then irows (xs_indexers s)
       else case start_block N c of None \<Rightarrow> irows (xs_indexers s) | Some b \<Rightarrow> (irows (xs_indexers s))(c \<mapsto> b))"
proof -
  let ?many = "t_many (x_subs X) (\<lambda>c. su_deletedAt c = None) (xs_subs s)"
  obtain vs where vs: "fst ?many = Inr vs" "set vs = {v \<in> ran (srows (xs_subs s)). su_deletedAt v = None}"
    using sub.many_set by blast
  let ?s1 = "s\<lparr>xs_subs := snd ?many\<rparr>"
  let ?up = "bnd (lift_res (n_getSdk N c)) (\<lambda>_. bnd (lift_res (n_blockNumber N c)) (\<lambda>b.
          bnd (upsertChainIndexer X c b) (\<lambda>_. ret ())))"
  have active: "c \<notin> set (remdups (map su_chainId vs)) \<longleftrightarrow> active_subs srows (xs_subs s) c = {}"
    using vs(2) by (auto simp: active_subs_def)
  have run: "start_indexing X N c s = (if active_subs srows (xs_subs s) c = {}
      then try_catch ?up (\<lambda>_. ret ()) ?s1 else (Inr (), ?s1))"
    unfolding start_indexing_def getContractSubscriptionsUniqueChainIds_def bnd_assoc bnd_ret_left
    by (simp only: bnd_apply [of "at_subs _"] at_apply fst_conv snd_conv vs(1) sum.case active) simp
  let ?di = "case start_block N c of None \<Rightarrow> xs_indexers s
    | Some b \<Rightarrow> snd (t_upsert (x_indexers X) c b (\<lambda>_. b) (xs_indexers s))"
  have "try_catch ?up (\<lambda>_. ret ()) ?s1 = (Inr (), ?s1\<lparr>xs_indexers := ?di\<rparr>)"
    by (auto simp: try_catch_apply bnd_apply start_block_def upsertChainIndexer_def at_apply ind.law_upsert split: sum.split)
  then show ?thesis
    using that [of "if active_subs srows (xs_subs s) c = {} then ?di else xs_indexers s" "snd ?many"] run sub.law_many(2)
    by (auto simp: ind.law_upsert split: option.split)
qed

lemma webhook_run:
  assumes "fst (subscription_webhook X RE url s) = Inr wid"
  obtains dh where "subscription_webhook X RE url s = (Inr wid, s\<lparr>xs_hooks := dh\<rparr>)"
    "wid = (if truthy url then Some (x_newWebhookId X) else None)"
    "hrows dh = (if truthy url then (hrows (xs_hooks s))(x_newWebhookId X \<mapsto> auto_hook X (the url) (clock (xs_world s)))
       else hrows (xs_hooks s))"
proof (cases "truthy url")
  case False
  then show ?thesis using assms that [of "xs_hooks s"] by (simp add: subscription_webhook_def)
next
  case True
  let ?w = "auto_hook X (the url) (clock (xs_world s))"
  let ?c = "t_create (x_hooks X) (x_newWebhookId X) ?w (xs_hooks s)"
  have ins: "insertWebhook X (the url) (Some ''(Auto-generated)'') (event_string CONTRACT_SUBSCRIPTION) s
      = (fst ?c, s\<lparr>xs_hooks := snd ?c\<rparr>)"
    by (simp add: insertWebhook_def bnd_apply at_apply new_Date_apply auto_hook_def)
  have "hrows (xs_hooks s) (x_newWebhookId X) = None"
    using assms True ins by (auto simp: subscription_webhook_def bnd_apply hook.law_create split: if_splits)
  then show ?thesis
    using assms True ins that [of "snd ?c"]
    by (auto simp: subscription_webhook_def bnd_apply hook.law_create auto_hook_def split: if_splits)
qed

lemma create_run:
  assumes "fst (createContractSubscription X c a wid p1 f1 p2 f2 s) = Inr v"
  shows "v = \<lparr>su_id = x_newUuid X, su_chainId = c, su_contractAddress = a, su_webhookId = wid,
       su_processEventLogs = p1, su_filterEvents = f1, su_processTransactionReceipts = p2, su_filterFunctions = f2,
       su_createdAt = clock (xs_world s), su_deletedAt = None\<rparr>"
    and "\<exists>ds. snd (createContractSubscription X c a wid p1 f1 p2 f2 s) = s\<lparr>xs_subs := ds\<rparr>
       \<and> srows ds = (srows (xs_subs s))(x_newUuid X \<mapsto> v)"
  using assms by (auto simp: createContractSubscription_def bnd_apply at_apply new_Date_apply sub.law_create split: if_splits)

text \<open>What a successful subscription leaves behind.\<close>

lemma add_run:
  assumes "fst (addContractSubscription X E N RE req s) = Inr shown"
    and "fst (getChainIdFromChain E RE (sr_chain req) (xs_world s)) = Inr c"
  defines "now \<equiv> clock (xs_world s)" and "s' \<equiv> snd (addContractSubscription X E N RE req s)"
  shows "irows (xs_indexers s') = (if active_subs srows (xs_subs s) c \<noteq> {} then irows (xs_indexers s)
       else case start_block N c of None \<Rightarrow> irows (xs_indexers s) | Some b \<Rightarrow> (irows (xs_indexers s))(c \<mapsto> b))"
    and "srows (xs_subs s') = (srows (xs_subs s))(x_newUuid X \<mapsto> new_subscription X c req now)"
    and "hrows (xs_hooks s') = (if truthy (sr_webhookUrl req)
       then (hrows (xs_hooks s))(x_newWebhookId X \<mapsto> auto_hook X (the (sr_webhookUrl req)) now) else hrows (xs_hooks s))"
proof -
  let ?w1 = "snd (getChainIdFromChain E RE (sr_chain req) (xs_world s))"
  let ?w2 = "snd (getChain E c ?w1)" and ?s1 = "s\<lparr>xs_world := snd (getChain E c (snd (getChainIdFromChain E RE (sr_chain req) (xs_world s))))\<rparr>"
  have clock: "clock (xs_world ?s1) = now"
    using getChainId_world [of E RE "sr_chain req" "xs_world s"] getChain_world [of E c ?w1] by (auto simp: now_def)
  let ?k = "\<lambda>_::unit. bnd (subscription_webhook X RE (sr_webhookUrl req)) (\<lambda>webhookId.
         bnd (createContractSubscription X c (toLowerCase (sr_contractAddress req)) webhookId
                (sr_processEventLogs req) (sr_filterEvents req)
                (sr_processTransactionReceipts req) (sr_filterFunctions req)) (\<lambda>v.
         bnd (include_webhook X [v]) (\<lambda>cw. ret (toContractSubscriptionSchema (hd cw)))))"
  have "addContractSubscription X E N RE req s = subscribe_contract X N RE c req ?s1"
    using assms(1,2) by (auto simp: addContractSubscription_def bnd_apply at_apply split: sum.splits if_splits)
  then have run: "addContractSubscription X E N RE req s = bnd (start_indexing X N c) ?k ?s1"
    by (simp only: subscribe_contract_def)
  obtain ds di where start: "start_indexing X N c ?s1 = (Inr (), ?s1\<lparr>xs_subs := ds, xs_indexers := di\<rparr>)"
    "srows ds = srows (xs_subs ?s1)"
    "irows di = (if active_subs srows (xs_subs ?s1) c \<noteq> {} then irows (xs_indexers ?s1)
       else case start_block N c of None \<Rightarrow> irows (xs_indexers ?s1) | Some b \<Rightarrow> (irows (xs_indexers ?s1))(c \<mapsto> b))"
    by (rule start_run)
  let ?s2 = "?s1\<lparr>xs_subs := ds, xs_indexers := di\<rparr>"
  have run2: "addContractSubscription X E N RE req s = ?k () ?s2"
    unfolding run by (simp only: bnd_apply [of "start_indexing _ _ _"] start(1) fst_conv snd_conv sum.case)
  obtain wid where wid: "fst (subscription_webhook X RE (sr_webhookUrl req) ?s2) = Inr wid"
    using bnd_Inr [OF assms(1) [unfolded run2]] by blast
  obtain dh where hook: "subscription_webhook X RE (sr_webhookUrl req) ?s2 = (Inr wid, ?s2\<lparr>xs_hooks := dh\<rparr>)"
    "wid = (if truthy (sr_webhookUrl req) then Some (x_newWebhookId X) else None)"
    "hrows dh = (if truthy (sr_webhookUrl req)
       then (hrows (xs_hooks ?s2))(x_newWebhookId X \<mapsto> auto_hook X (the (sr_webhookUrl req)) (clock (xs_world ?s2)))
       else hrows (xs_hooks ?s2))"
    by (rule webhook_run [OF wid])
  let ?s3 = "?s2\<lparr>xs_hooks := dh\<rparr>"
  let ?create = "createContractSubscription X c (toLowerCase (sr_contractAddress req)) wid
      (sr_processEventLogs req) (sr_filterEvents req) (sr_processTransactionReceipts req) (sr_filterFunctions req)"
  have run3: "addContractSubscription X E N RE req s =
      bnd ?create (\<lambda>v. bnd (include_webhook X [v]) (\<lambda>cw. ret (toContractSubscriptionSchema (hd cw)))) ?s3"
    unfolding run2 by (simp only: bnd_apply [of "subscription_webhook _ _ _"] hook(1) fst_conv snd_conv sum.case)
  obtain v where v: "fst (?create ?s3) = Inr v" using bnd_Inr [OF assms(1) [unfolded run3]] by blast
  obtain ds' where ds': "snd (?create ?s3) = ?s3\<lparr>xs_subs := ds'\<rparr>" "srows ds' = (srows (xs_subs ?s3))(x_newUuid X \<mapsto> v)"
    using create_run(2) [OF v] by blast
  obtain dh' where dh': "include_webhook X [v] (?s3\<lparr>xs_subs := ds'\<rparr>) =
      (Inr (map (\<lambda>c. (c, Option.bind (su_webhookId c) (hrows (xs_hooks (?s3\<lparr>xs_subs := ds'\<rparr>))))) [v]),
       ?s3\<lparr>xs_subs := ds', xs_hooks := dh'\<rparr>)" "hrows dh' = hrows (xs_hooks (?s3\<lparr>xs_subs := ds'\<rparr>))"
    by (rule include_webhook_run)
  have s': "s' = ?s3\<lparr>xs_subs := ds', xs_hooks := dh'\<rparr>"
    unfolding s'_def run3
    by (simp only: bnd_apply [of ?create] v ds'(1) sum.case fst_conv snd_conv) (simp only: bnd_apply dh'(1) sum.case fst_conv snd_conv ret_apply)
  have v_eq: "v = new_subscription X c req now"
    using create_run(1) [OF v] clock hook(2) by (simp add: new_subscription_def)
  show "irows (xs_indexers s') = (if active_subs srows (xs_subs s) c \<noteq> {} then irows (xs_indexers s)
       else case start_block N c of None \<Rightarrow> irows (xs_indexers s) | Some b \<Rightarrow> (irows (xs_indexers s))(c \<mapsto> b))"
    using start(3) by (simp add: s' split: option.split)
  show "srows (xs_subs s') = (srows (xs_subs s))(x_newUuid X \<mapsto> new_subscription X c req now)"
    using ds'(2) start(2) by (simp add: s' v_eq)
  show "hrows (xs_hooks s') = (if truthy (sr_webhookUrl req)
       then (hrows (xs_hooks s))(x_newWebhookId X \<mapsto> auto_hook X (the (sr_webhookUrl req)) now) else hrows (xs_hooks s))"
    using dh'(2) hook(3) clock by (simp add: s')
qed

text \<open>A failed subscription does not touch the position of an indexed chain either.\<close>

lemma add_keeps_position:
  assumes "active_subs srows (xs_subs s) c \<noteq> {}"
  shows "irows (xs_indexers (snd (addContractSubscription X E N RE req s))) c = irows (xs_indexers s) c"
proof (cases "fst (getChainIdFromChain E RE (sr_chain req) (xs_world s))")
  case (Inl e)
  then show ?thesis by (simp add: addContractSubscription_def bnd_apply at_apply)
next
  case (Inr c')
  define s1 where "s1 = s\<lparr>xs_world := snd (getChain E c' (snd (getChainIdFromChain E RE (sr_chain req) (xs_world s))))\<rparr>"
  have hook: "xs_indexers (snd (subscription_webhook X RE url s0)) = xs_indexers s0" for url s0
    by (simp add: subscription_webhook_def insertWebhook_def bnd_apply at_apply new_Date_apply split: sum.split)
  have create: "xs_indexers (snd (createContractSubscription X i a wid p1 f1 p2 f2 s0)) = xs_indexers s0"
    for i a wid p1 f1 p2 f2 s0
    by (simp add: createContractSubscription_def bnd_apply at_apply new_Date_apply)
  have incl: "xs_indexers (snd (include_webhook X cs s0)) = xs_indexers s0" for cs s0
    by (rule include_webhook_run [of cs s0]) simp
  obtain ds di where start: "start_indexing X N c' s1 = (Inr (), s1\<lparr>xs_subs := ds, xs_indexers := di\<rparr>)"
    "irows di = (if active_subs srows (xs_subs s1) c' \<noteq> {} then irows (xs_indexers s1)
       else case start_block N c' of None \<Rightarrow> irows (xs_indexers s1) | Some b \<Rightarrow> (irows (xs_indexers s1))(c' \<mapsto> b))"
    by (rule start_run)
  have "irows di c = irows (xs_indexers s) c"
    using start(2) assms by (cases "c' = c") (auto simp: s1_def split: option.split)
  then have "irows (xs_indexers (snd (subscribe_contract X N RE c' req s1))) c = irows (xs_indexers s) c"
    by (simp add: subscribe_contract_def bnd_apply start(1) hook create incl del: include_webhook.simps split: sum.split)
  then show ?thesis
    using Inr by (auto simp: addContractSubscription_def bnd_apply at_apply s1_def split: sum.split)
qed

lemma run_tasks_unindexed:
  "irows (xs_indexers s) c = None \<Longrightarrow> irows (xs_indexers (run_tasks X E ts s)) c = None"
proof (induction ts arbitrary: s)
  case (Cons p ts)
  obtain N c' m off where p: "p = (N, c', m, off)" by (cases p)
  have "irows (xs_indexers (snd (chainIndexerTask X E N c' m off s))) c = None"
    using task_run(2) [of s E N c' m off] Cons.prems by (cases "c = c'") (auto simp: task_step_def)
  then show ?case using Cons.IH p by simp
qed simp

end

section \<open>Properties\<close>

text \<open>
  C22: a subscription that was added is active for the lowered address with the filters of the
  request; the webhook of the request is active and hears of the contract; and a chain without
  subscriptions starts to be indexed at its latest block, while one that had some stays where it is.
\<close>

theorem subscription_added:
  assumes "contract_db X irows srows lrows rrows hrows"
    and "fst (addContractSubscription X E N RE req s) = Inr shown"
    and "fst (getChainIdFromChain E RE (sr_chain req) (xs_world s)) = Inr c"
    and "n_getSdk N c = Inr ()" "n_blockNumber N c = Inr b"
    and "s' = snd (addContractSubscription X E N RE req s)"
  shows "(\<exists>v \<in> active_subs srows (xs_subs s') c. su_contractAddress v = toLowerCase (sr_contractAddress req)
       \<and> su_processEventLogs v = sr_processEventLogs req \<and> su_filterEvents v = sr_filterEvents req
       \<and> su_processTransactionReceipts v = sr_processTransactionReceipts req \<and> su_filterFunctions v = sr_filterFunctions req)
    \<and> (truthy (sr_webhookUrl req) \<longrightarrow>
         (\<exists>w \<in> contract_hooks srows hrows s' c (toLowerCase (sr_contractAddress req)).
            wh_url w = the (sr_webhookUrl req) \<and> (\<forall>l. subscription_jobs w (Some l) None \<noteq> [])))
    \<and> irows (xs_indexers s') c = (if active_subs srows (xs_subs s) c = {} then Some b else irows (xs_indexers s) c)"
proof -
  note run = contract_db.add_run [OF assms(1-3), folded assms(6)]
  let ?v = "new_subscription X c req (clock (xs_world s))"
  have v: "?v \<in> active_subs srows (xs_subs s') c"
    by (rule new_subscription_active [of srows, OF run(2)])
  have sub: "\<exists>v \<in> active_subs srows (xs_subs s') c. su_contractAddress v = toLowerCase (sr_contractAddress req)
       \<and> su_processEventLogs v = sr_processEventLogs req \<and> su_filterEvents v = sr_filterEvents req
       \<and> su_processTransactionReceipts v = sr_processTransactionReceipts req \<and> su_filterFunctions v = sr_filterFunctions req"
    by (rule bexI [OF _ v]) (simp add: new_subscription_def)
  let ?w = "auto_hook X (the (sr_webhookUrl req)) (clock (xs_world s))"
  have "?w \<in> contract_hooks srows hrows s' c (toLowerCase (sr_contractAddress req))" if "truthy (sr_webhookUrl req)"
    unfolding contract_hooks_def using v that run(3)
    by (auto simp: new_subscription_def intro!: bexI [of _ ?v])
  moreover have "wh_url ?w = the (sr_webhookUrl req) \<and> (\<forall>l. subscription_jobs ?w (Some l) None \<noteq> [])"
    by (simp add: subscription_jobs_def auto_hook_def getContractSubscriptionWebhookIdempotencyKey_def)
  moreover have "irows (xs_indexers s') c = (if active_subs srows (xs_subs s) c = {} then Some b else irows (xs_indexers s) c)"
    by (simp add: run(1) start_block_def assms(4,5))
  ultimately show ?thesis using sub by blast
qed

definition sample_route_env :: route_env where
  "sample_route_env = \<lparr>ro_chainBySlug = (\<lambda>_. Inl js_TypeError), ro_isContractDeployed = (\<lambda>_ _. Inr True),
     ro_urlProtocol = (\<lambda>_. Some ''https:'')\<rparr>"

definition sample_subscription_request :: subscription_request where
  "sample_subscription_request = \<lparr>sr_chain = ''5'', sr_contractAddress = ''0xD'', sr_webhookUrl = Some ''https://w'',
     sr_processEventLogs = True, sr_filterEvents = [], sr_processTransactionReceipts = False, sr_filterFunctions = []\<rparr>"

lemma sample_parse: "parseInt ''5'' = Some 5"
  by code_simp

lemma sample_chain_id:
  "fst (getChainIdFromChain mem_env sample_route_env (sr_chain sample_subscription_request) (xs_world sample_contract_state)) = Inr 5"
  by (simp add: getChainIdFromChain_def sample_subscription_request_def sample_parse getChain_def getConfig_def
      find_override_def sample_contract_state_def mem_world_def mem_env_def sample_config_def io_simps)

lemma sample_add:
  "\<exists>shown. fst (addContractSubscription mem_contracts mem_env N sample_route_env sample_subscription_request
     sample_contract_state) = Inr shown"
proof -
  let ?s = "sample_contract_state\<lparr>xs_world := (mem_world [])\<lparr>config_cache := Some sample_config\<rparr>\<rparr>"
  obtain ds di where start: "start_indexing mem_contracts N 5 ?s = (Inr (), ?s\<lparr>xs_subs := ds, xs_indexers := di\<rparr>)"
    "map_of ds = map_of (xs_subs ?s)"
    by (rule mem_contract.start_run [of N 5 ?s])
  have "map_of ds ''uuid'' = None" using start(2) by (simp add: sample_contract_state_def)
  then show ?thesis
    using start(1)
    by (simp add: addContractSubscription_def subscribe_contract_def getChainIdFromChain_def sample_subscription_request_def
        sample_parse getChain_def getConfig_def find_override_def sample_contract_state_def mem_world_def mem_env_def
        sample_config_def io_simps sample_route_env_def subscription_webhook_def isValidHttpUrl_def insertWebhook_def
        createContractSubscription_def getWebhook_def mem_contracts_def mem_table_def)
qed

theorem subscription_added_witness:
  "\<exists>w \<in> contract_hooks map_of map_of (snd (addContractSubscription mem_contracts mem_env (sample_node 110) sample_route_env
       sample_subscription_request sample_contract_state)) 5 (toLowerCase ''0xD''). wh_url w = ''https://w''"
proof -
  obtain shown where shown: "fst (addContractSubscription mem_contracts mem_env (sample_node 110) sample_route_env
      sample_subscription_request sample_contract_state) = Inr shown"
    using sample_add by blast
  have node: "n_getSdk (sample_node 110) 5 = Inr ()" "n_blockNumber (sample_node 110) 5 = Inr 110"
    by (simp_all add: sample_node_def)
  have req: "truthy (sr_webhookUrl sample_subscription_request)" "the (sr_webhookUrl sample_subscription_request) = ''https://w''"
    "sr_contractAddress sample_subscription_request = ''0xD''"
    by (simp_all add: sample_subscription_request_def)
  show ?thesis
    using subscription_added [OF mem_contract.contract_db_axioms shown sample_chain_id node refl] req by metis
qed

text \<open>
  when the latest block cannot be read while the first subscription of a chain is added, the
  request succeeds all the same; but the chain has no position then, so no run of any task ever
  indexes it, and no further subscription on it creates the position.
\<close>

theorem subscription_never_indexed:
  assumes "contract_db X irows srows lrows rrows hrows"
    and "fst (addContractSubscription X E N RE req s) = Inr shown"
    and "fst (getChainIdFromChain E RE (sr_chain req) (xs_world s)) = Inr c"
    and "n_blockNumber N c = Inl e" "irows (xs_indexers s) c = None"
    and "s' = snd (addContractSubscription X E N RE req s)"
  shows "active_subs srows (xs_subs s') c \<noteq> {}
    \<and> irows (xs_indexers (run_tasks X E ts s')) c = None
    \<and> irows (xs_indexers (snd (addContractSubscription X E' N' RE' req' s'))) c = None"
proof -
  note run = contract_db.add_run [OF assms(1-3), folded assms(6)]
  have "start_block N c = None" by (simp add: start_block_def assms(4) split: sum.split)
  then have none: "irows (xs_indexers s') c = None" by (simp add: run(1) assms(5))
  have active: "active_subs srows (xs_subs s') c \<noteq> {}"
    using new_subscription_active [of srows, OF run(2)] by blast
  show ?thesis
    using contract_db.run_tasks_unindexed [OF assms(1) none] contract_db.add_keeps_position [OF assms(1) active] active none
    by simp
qed

theorem subscription_never_indexed_witness:
  "\<exists>s'. active_subs map_of (xs_subs s') 5 \<noteq> {}
    \<and> map_of (xs_indexers (run_tasks mem_contracts mem_env [(sample_node 110, 5, Some 25, Some 0)] s')) 5 = None"
proof -
  let ?N = "(sample_node 110)\<lparr>n_blockNumber := (\<lambda>_. Inl js_TypeError)\<rparr>"
  obtain shown where shown: "fst (addContractSubscription mem_contracts mem_env ?N sample_route_env
      sample_subscription_request sample_contract_state) = Inr shown"
    using sample_add by blast
  have 1: "n_blockNumber ?N 5 = Inl js_TypeError" "map_of (xs_indexers sample_contract_state) 5 = None"
    by (simp_all add: sample_contract_state_def)
  show ?thesis
    using subscription_never_indexed [OF mem_contract.contract_db_axioms shown sample_chain_id 1 refl] by blast
qed

end
