(* ===== verification/Cors_Middleware.thy ===== *)
theory Cors_Middleware
  imports Engine_Support Js_Text
begin

text \<open>
  The CORS hook (\<open>src/server/middleware/cors\<close>): which origins the configuration allows, the headers
  of an answer, preflight requests, and the \<open>Vary\<close> header with its cache. Regular expressions are
  a parameter (which sources are accepted, and which strings match); the option of an origin that is
  a function is left out, since \<open>fastifyCors\<close> always replaces the option by a list.

  \<open>reply.header\<close> stores a value under the name in lower case, and an undefined value as the empty
  string.
\<close>

section \<open>The Vary header\<close>

definition js_slice :: "string \<Rightarrow> nat \<Rightarrow> nat \<Rightarrow> string" where
  "js_slice s i j = take (j - i) (drop i s)"

text \<open>The loop of \<open>parse\<close>: the index, the start of the current token and the tokens so far.\<close>

function vary_loop :: "string \<Rightarrow> nat \<Rightarrow> nat \<Rightarrow> string list \<Rightarrow> string list" where
  "vary_loop header i pos result =
     (if i < length header then
        (if header ! i = CHR '' '' then vary_loop header (i + 1) (i + 1) result
         else if header ! i = CHR '','' then
           vary_loop header (i + 1) (i + 1)
             (if pos \<noteq> i then result @ [js_slice header pos i] else result)
         else vary_loop header (i + 1) pos result)
      else (if pos \<noteq> i then result @ [js_slice header pos i] else result))"
  by pat_completeness auto

termination by (relation "measure (\<lambda>(header, i, pos, result). length header - i)") auto

declare vary_loop.simps [simp del]

definition parse_vary :: "string \<Rightarrow> string list" where
  "parse_vary header0 =
     (let header = toLowerCase (js_trim header0) in
      if length header = 0 then []
      else if CHR '','' \<notin> set header then [header]
      else vary_loop header 0 0 [])"

datatype header_value = HText string | HList "string list"

record cors_env =
  ce_accessControlAllowOrigin :: "string option"
  ce_validRegExp :: "string \<Rightarrow> bool"
  ce_test :: "string \<Rightarrow> string \<Rightarrow> bool"

record cors_request =
  cq_method :: string
  cq_origin :: "string option"
  cq_requestMethod :: "string option"
  cq_requestHeaders :: "string option"

text \<open>
  The state of one request: the headers, status and body of its reply, the calls of \<open>next\<close>, and the
  two caches of \<open>Vary\<close> values, by field name and header.
\<close>

record 'w cors_state =
  cs_world :: "'w world"
  cs_headers :: "string \<Rightarrow> header_value option"
  cs_status :: "int option"
  cs_sent :: "string option"
  cs_next :: "js_error option list"
  cs_preflightEnabled :: bool
  cs_varyCache :: "string \<Rightarrow> string \<Rightarrow> string option option"

definition set_header :: "string \<Rightarrow> header_value \<Rightarrow> ('w cors_state, unit) io" where
  "set_header name v = (\<lambda>s. (Inr (), s\<lparr>cs_headers := (cs_headers s)(toLowerCase name \<mapsto> v)\<rparr>))"

definition call_next :: "js_error option \<Rightarrow> ('w cors_state, unit) io" where
  "call_next e = (\<lambda>s. (Inr (), s\<lparr>cs_next := cs_next s @ [e]\<rparr>))"

definition send_reply :: "int \<Rightarrow> string \<Rightarrow> ('w cors_state, unit) io" where
  "send_reply code body = (\<lambda>s. (Inr (), s\<lparr>cs_status := Some code, cs_sent := Some body\<rparr>))"

text \<open>
  The new value of the header, null (\<^const>\<open>None\<close>) when the field is there already.
\<close>

definition vary_value :: "string \<Rightarrow> string \<Rightarrow> string option" where
  "vary_value fieldname header =
     (let vals = parse_vary header in
      if ''*'' \<in> set vals then Some ''*''
      else if toLowerCase fieldname \<notin> set vals then Some (header @ '', '' @ fieldname)
      else None)"

definition vary_fill :: "string \<Rightarrow> string \<Rightarrow> ('w cors_state, string option) io" where
  "vary_fill fieldname header = (\<lambda>s.
     case cs_varyCache s fieldname header of
       Some cached \<Rightarrow> (Inr cached, s)
     | None \<Rightarrow> (Inr (vary_value fieldname header),
         s\<lparr>cs_varyCache := (cs_varyCache s)(fieldname := (cs_varyCache s fieldname)(header \<mapsto> vary_value fieldname header))\<rparr>))"

definition addFieldnameToVary :: "string \<Rightarrow> ('w cors_state, unit) io" where
  "addFieldnameToVary fieldname = (\<lambda>s.
     case cs_headers s ''vary'' of
       None \<Rightarrow> set_header ''Vary'' (HText fieldname) s
     | Some v \<Rightarrow>
         (if v = HText [] then set_header ''Vary'' (HText fieldname) s
          else if v = HText ''*'' then (Inr (), s)
          else if fieldname = ''*'' then set_header ''Vary'' (HText ''*'') s
          else (let header = (case v of HText t \<Rightarrow> t | HList ts \<Rightarrow> js_join '', '' ts) in
                bnd (vary_fill fieldname header) (\<lambda>cached.
                  case cached of None \<Rightarrow> ret () | Some c \<Rightarrow> set_header ''Vary'' (HText c)) s)))"

definition addOriginToVaryHeader :: "('w cors_state, unit) io" where
  "addOriginToVaryHeader = addFieldnameToVary ''Origin''"

definition addAccessControlRequestHeadersToVaryHeader :: "('w cors_state, unit) io" where
  "addAccessControlRequestHeadersToVaryHeader = addFieldnameToVary ''Access-Control-Request-Headers''"

section \<open>Origins\<close>

datatype origin_option =
    OUndefined | OBool bool | OText string | ORegex string | OArr "origin_option list"

definition esc :: "string \<Rightarrow> string" where
  "esc s = CHR 0x5C # s"

text \<open>The source of the expression for the subdomains of a host, with its escaped characters.\<close>

definition subdomain_regex :: "string \<Rightarrow> string" where
  "subdomain_regex host =
     ''^https?:'' @ esc ''/'' @ esc ''/.*'' @ esc ''.'' @ host @ esc ''.com$''"

definition js_RegExp :: "cors_env \<Rightarrow> string \<Rightarrow> js_error + origin_option" where
  "js_RegExp C src = (if ce_validRegExp C src then Inr (ORegex src)
     else Inl (js_Error ''Invalid regular expression''))"

definition sanitizeOrigin :: "cors_env \<Rightarrow> string \<Rightarrow> js_error + origin_option" where
  "sanitizeOrigin C data =
     (if js_startsWith ''/'' data \<and> js_endsWith ''/'' data then js_RegExp C (butlast (tl data))
      else if js_startsWith ''*.'' data then js_RegExp C (''.*.'' @ drop 2 data)
      else if js_includes ''thirdweb-preview.com'' data
        then Inr (ORegex (subdomain_regex ''thirdweb-preview''))
      else if js_includes ''thirdweb-dev.com'' data
        then Inr (ORegex (subdomain_regex ''thirdweb-dev''))
      else if js_endsWith ''/'' data then Inr (OText (butlast data))
      else Inr (OText data))"

fun isRequestOriginAllowed :: "cors_env \<Rightarrow> string option \<Rightarrow> origin_option \<Rightarrow> bool" where
  "isRequestOriginAllowed C reqOrigin (OArr os) = list_ex (isRequestOriginAllowed C reqOrigin) os"
| "isRequestOriginAllowed C reqOrigin (OText s) = (reqOrigin = Some s)"
| "isRequestOriginAllowed C reqOrigin (ORegex r) =
     (if truthy reqOrigin then ce_test C r (the reqOrigin) else True)"
| "isRequestOriginAllowed C reqOrigin (OBool b) = b"
| "isRequestOriginAllowed C reqOrigin OUndefined = False"

definition getAccessControlAllowOriginHeader ::
  "cors_env \<Rightarrow> string option \<Rightarrow> origin_option \<Rightarrow> string option" where
  "getAccessControlAllowOriginHeader C reqOrigin originOption =
     (case originOption of
        OText s \<Rightarrow> Some s
      | _ \<Rightarrow> if isRequestOriginAllowed C reqOrigin originOption then reqOrigin else None)"

section \<open>Options and the hook\<close>

datatype cache_control = CNumber int | CText string | CNull

text \<open>An option that is absent is \<^const>\<open>None\<close>.\<close>

record cors_options =
  co_origin :: "origin_option option"
  co_credentials :: "bool option"
  co_exposedHeaders :: "header_value option"
  co_allowedHeaders :: "header_value option"
  co_methods :: "header_value option"
  co_maxAge :: "int option"
  co_cacheControl :: "cache_control option"
  co_preflightContinue :: "bool option"
  co_optionsSuccessStatus :: "int option"
  co_preflight :: "bool option"
  co_strictPreflight :: "bool option"

definition or_default :: "'a option \<Rightarrow> 'a \<Rightarrow> 'a option" where
  "or_default x d = (case x of None \<Rightarrow> Some d | Some y \<Rightarrow> Some y)"

definition normalizeCorsOptions :: "cors_options \<Rightarrow> cors_options" where
  "normalizeCorsOptions opts =
     \<lparr>co_origin = (case co_origin opts of
          Some (OArr os) \<Rightarrow> if OText ''*'' \<in> set os then Some (OText ''*'') else Some (OArr os)
        | x \<Rightarrow> or_default x (OText ''*'')),
      co_credentials = or_default (co_credentials opts) False,
      co_exposedHeaders = co_exposedHeaders opts,
      co_allowedHeaders = co_allowedHeaders opts,
      co_methods = or_default (co_methods opts) (HText ''GET,HEAD,PUT,PATCH,POST,DELETE''),
      co_maxAge = co_maxAge opts,
      co_cacheControl = (case co_cacheControl opts of
          Some (CNumber n) \<Rightarrow> Some (CText (''max-age='' @ show_int n))
        | Some (CText t) \<Rightarrow> Some (CText t)
        | _ \<Rightarrow> None),
      co_preflightContinue = or_default (co_preflightContinue opts) False,
      co_optionsSuccessStatus = or_default (co_optionsSuccessStatus opts) 204,
      co_preflight = or_default (co_preflight opts) True,
      co_strictPreflight = or_default (co_strictPreflight opts) True\<rparr>"

definition header_text :: "header_value option \<Rightarrow> string" where
  "header_text v = (case v of None \<Rightarrow> [] | Some (HText t) \<Rightarrow> t | Some (HList ts) \<Rightarrow> js_join '', '' ts)"

definition addCorsHeaders ::
  "cors_env \<Rightarrow> cors_request \<Rightarrow> origin_option \<Rightarrow> cors_options \<Rightarrow> ('w cors_state, unit) io" where
  "addCorsHeaders C req originOption corsOptions =
     (let origin = getAccessControlAllowOriginHeader C (cq_origin req) originOption in
      bnd (if truthy origin then set_header ''Access-Control-Allow-Origin'' (HText (the origin)) else ret ()) (\<lambda>_.
      bnd (if co_credentials corsOptions = Some True
           then set_header ''Access-Control-Allow-Credentials'' (HText ''true'') else ret ()) (\<lambda>_.
      set_header ''Access-Control-Expose-Headers'' (HText (header_text (co_exposedHeaders corsOptions))))))"

definition addPreflightHeaders :: "cors_request \<Rightarrow> cors_options \<Rightarrow> ('w cors_state, unit) io" where
  "addPreflightHeaders req corsOptions =
     bnd (set_header ''Access-Control-Allow-Methods'' (HText (header_text (co_methods corsOptions)))) (\<lambda>_.
     bnd (case co_allowedHeaders corsOptions of
            None \<Rightarrow> bnd addAccessControlRequestHeadersToVaryHeader (\<lambda>_.
              case cq_requestHeaders req of
                None \<Rightarrow> ret () | Some h \<Rightarrow> set_header ''Access-Control-Allow-Headers'' (HText h))
          | Some h \<Rightarrow> set_header ''Access-Control-Allow-Headers'' (HText (header_text (Some h)))) (\<lambda>_.
     bnd (set_header ''Access-Control-Max-Age''
            (HText (case co_maxAge corsOptions of None \<Rightarrow> ''undefined'' | Some n \<Rightarrow> show_int n))) (\<lambda>_.
     case co_cacheControl corsOptions of
       Some (CText t) \<Rightarrow> if t = [] then ret () else set_header ''Cache-Control'' (HText t)
     | _ \<Rightarrow> ret ())))"

definition enable_preflight :: "('w cors_state, unit) io" where
  "enable_preflight = (\<lambda>s. (Inr (), s\<lparr>cs_preflightEnabled := True\<rparr>))"

definition addCorsHeadersHandler ::
  "cors_env \<Rightarrow> cors_options \<Rightarrow> cors_request \<Rightarrow> ('w cors_state, unit) io" where
  "addCorsHeadersHandler C options req =
     bnd addOriginToVaryHeader (\<lambda>_.
     let resolved = (case co_origin options of None \<Rightarrow> OUndefined | Some x \<Rightarrow> x) in
     if resolved = OBool False then call_next None
     else if resolved = OUndefined \<or> resolved = OText []
       then call_next (Some (js_Error ''Invalid CORS origin option''))
     else bnd (addCorsHeaders C req resolved options) (\<lambda>_.
       if cq_method req = ''OPTIONS'' \<and> co_preflight options = Some True then
         if co_strictPreflight options = Some True \<and>
            (\<not> truthy (cq_origin req) \<or> \<not> truthy (cq_requestMethod req))
         then bnd (set_header ''Content-Type'' (HText ''text/plain'')) (\<lambda>_.
              send_reply 400 ''Invalid Preflight Request'')
         else bnd enable_preflight (\<lambda>_.
              bnd (addPreflightHeaders req options) (\<lambda>_.
              if co_preflightContinue options \<noteq> Some True
              then bnd (set_header ''Content-Length'' (HText ''0'')) (\<lambda>_.
                   send_reply (the (co_optionsSuccessStatus options)) [])
              else ret ()))
       else ret ()))"

definition in_cors :: "('w world, 'a) io \<Rightarrow> ('w cors_state, 'a) io" where
  "in_cors m = (\<lambda>s. case m (cs_world s) of (r, w) \<Rightarrow> (r, s\<lparr>cs_world := w\<rparr>))"

definition cors_origins :: "cors_env \<Rightarrow> parsed_config \<Rightarrow> string list" where
  "cors_origins C config =
     js_split CHR '','' (cfg_accessControlAllowOrigin config)
     @ (case ce_accessControlAllowOrigin C of None \<Rightarrow> [] | Some t \<Rightarrow> js_split CHR '','' t)"

definition fastifyCors ::
  "'w env \<Rightarrow> cors_env \<Rightarrow> cors_options \<Rightarrow> cors_request \<Rightarrow> ('w cors_state, unit) io" where
  "fastifyCors E C opts req =
     bnd (in_cors (getConfig E True)) (\<lambda>config.
     bnd (lift_res (map_res (sanitizeOrigin C) (cors_origins C config))) (\<lambda>origins.
     bnd (addCorsHeadersHandler C (normalizeCorsOptions (opts\<lparr>co_origin := Some (OArr origins)\<rparr>)) req) (\<lambda>_.
     call_next None)))"

definition no_options :: cors_options where
  "no_options = \<lparr>co_origin = None, co_credentials = None, co_exposedHeaders = None,
     co_allowedHeaders = None, co_methods = None, co_maxAge = None, co_cacheControl = None,
     co_preflightContinue = None, co_optionsSuccessStatus = None, co_preflight = None,
     co_strictPreflight = None\<rparr>"

definition withCors :: "'w env \<Rightarrow> cors_env \<Rightarrow> cors_request \<Rightarrow> ('w cors_state, unit) io" where
  "withCors E C req = fastifyCors E C (no_options\<lparr>co_credentials := Some True\<rparr>) req"

section \<open>Parsing the Vary header\<close>

text \<open>A token of a header: what follows the last space of a part between commas.\<close>

definition after_space :: "string \<Rightarrow> string" where
  "after_space part = rev (takeWhile (\<lambda>c. c \<noteq> CHR '' '') (rev part))"

definition vary_tokens :: "string \<Rightarrow> string list" where
  "vary_tokens header = filter (\<lambda>t. t \<noteq> []) (map after_space (js_split CHR '','' header))"

fun vary_scan :: "string \<Rightarrow> string \<Rightarrow> string list" where
  "vary_scan cur [] = (if cur = [] then [] else [cur])"
| "vary_scan cur (c # cs) =
     (if c = CHR '' '' then vary_scan [] cs
      else if c = CHR '','' then (if cur = [] then [] else [cur]) @ vary_scan [] cs
      else vary_scan (cur @ [c]) cs)"

lemma vary_loop_scan:
  assumes "pos \<le> length pre"
  shows "vary_loop (pre @ rest) (length pre) pos result = result @ vary_scan (drop pos pre) rest"
  using assms
proof (induction rest arbitrary: pre pos result)
  case Nil
  then show ?case by (subst vary_loop.simps) (auto simp: js_slice_def)
next
  case (Cons c rest)
  have slice: "js_slice (pre @ c # rest) pos (length pre) = drop pos pre"
    using Cons.prems by (simp add: js_slice_def)
  have step: "pos' \<le> Suc (length pre) \<Longrightarrow>
      vary_loop (pre @ c # rest) (Suc (length pre)) pos' r = r @ vary_scan (drop pos' (pre @ [c])) rest" for pos' r
    using Cons.IH [of pos' "pre @ [c]" r] by simp
  show ?case
    using Cons.prems step [of "Suc (length pre)"] step [of pos] slice
    by (subst vary_loop.simps) (auto simp: nth_append)
qed

lemma after_space_simps:
  "CHR '' '' \<notin> set s \<Longrightarrow> after_space s = s"
  "after_space (cur @ CHR '' '' # s) = after_space s"
proof -
  show "CHR '' '' \<notin> set s \<Longrightarrow> after_space s = s"
    unfolding after_space_def by (subst takeWhile_eq_all_conv [THEN iffD2]) auto
  show "after_space (cur @ CHR '' '' # s) = after_space s"
    by (simp add: after_space_def takeWhile_append) (rule impI, rule takeWhile_eq_all_conv [THEN iffD2, symmetric], simp)
qed

lemma js_split_prefix:
  "c \<notin> set x \<Longrightarrow> js_split c (x @ s) = (x @ hd (js_split c s)) # tl (js_split c s)"
  by (induction x) auto

lemma vary_scan_tokens:
  assumes "CHR '' '' \<notin> set cur" "CHR '','' \<notin> set cur"
  shows "vary_scan cur rest = vary_tokens (cur @ rest)"
  using assms
proof (induction rest arbitrary: cur)
  case Nil
  then show ?case by (simp add: vary_tokens_def js_split_none after_space_simps)
next
  case (Cons c rest)
  consider "c = CHR '' ''" | "c = CHR '',''" | "c \<noteq> CHR '' ''" "c \<noteq> CHR '',''" by blast
  then show ?case
  proof cases
    case 1
    have "js_split CHR '','' (cur @ CHR '' '' # rest)
        = (cur @ CHR '' '' # hd (js_split CHR '','' rest)) # tl (js_split CHR '','' rest)"
      using js_split_prefix [of "CHR '',''" "cur @ '' ''" rest] Cons.prems(2) by simp
    moreover have "js_split CHR '','' rest = hd (js_split CHR '','' rest) # tl (js_split CHR '','' rest)"
      by simp
    ultimately have "vary_tokens (cur @ CHR '' '' # rest) = vary_tokens rest"
      unfolding vary_tokens_def by (metis after_space_simps(2) list.map(2))
    then show ?thesis using 1 Cons.IH [of "[]"] by simp
  next
    case 2
    then show ?thesis using Cons.IH [of "[]"] Cons.prems
      by (auto simp: vary_tokens_def js_split_append after_space_simps)
  next
    case 3
    then show ?thesis using Cons.IH [of "cur @ [c]"] Cons.prems by simp
  qed
qed

lemma vary_loop_tokens: "vary_loop header 0 0 [] = vary_tokens header"
  using vary_loop_scan [of 0 "[]" header "[]"] vary_scan_tokens [of "[]" header] by simp

section \<open>The hook\<close>

lemma cors_apply [io_simps]:
  "set_header n v s = (Inr (), s\<lparr>cs_headers := (cs_headers s)(toLowerCase n \<mapsto> v)\<rparr>)"
  "call_next e s = (Inr (), s\<lparr>cs_next := cs_next s @ [e]\<rparr>)"
  "send_reply code body s = (Inr (), s\<lparr>cs_status := Some code, cs_sent := Some body\<rparr>)"
  "enable_preflight s = (Inr (), s\<lparr>cs_preflightEnabled := True\<rparr>)"
  "in_cors m s1 = (fst (m (cs_world s1)), s1\<lparr>cs_world := snd (m (cs_world s1))\<rparr>)"
  by (simp_all add: set_header_def call_next_def send_reply_def enable_preflight_def in_cors_def split: prod.split)

lemma lower_names [simp]:
  "toLowerCase ''Access-Control-Allow-Origin'' = ''access-control-allow-origin''"
  "toLowerCase ''Access-Control-Allow-Credentials'' = ''access-control-allow-credentials''"
  "toLowerCase ''Access-Control-Expose-Headers'' = ''access-control-expose-headers''"
  "toLowerCase ''Access-Control-Allow-Methods'' = ''access-control-allow-methods''"
  "toLowerCase ''Access-Control-Allow-Headers'' = ''access-control-allow-headers''"
  "toLowerCase ''Access-Control-Max-Age'' = ''access-control-max-age''"
  "toLowerCase ''Cache-Control'' = ''cache-control''"
  "toLowerCase ''Content-Type'' = ''content-type''"
  "toLowerCase ''Content-Length'' = ''content-length''"
  "toLowerCase ''Vary'' = ''vary''"
  by code_simp+

text \<open>Adding a field to \<open>Vary\<close> changes nothing but that header and the cache.\<close>

lemma vary_frame:
  "fst (addFieldnameToVary f s) = Inr ()"
  "n \<noteq> ''vary'' \<Longrightarrow> cs_headers (snd (addFieldnameToVary f s)) n = cs_headers s n"
  "cs_world (snd (addFieldnameToVary f s)) = cs_world s"
  "cs_next (snd (addFieldnameToVary f s)) = cs_next s"
  "cs_status (snd (addFieldnameToVary f s)) = cs_status s"
  "cs_sent (snd (addFieldnameToVary f s)) = cs_sent s"
  by (auto simp: addFieldnameToVary_def vary_fill_def bnd_apply io_simps Let_def split: option.split)

lemmas vary_frames = vary_frame [where f = "''Origin''", folded addOriginToVaryHeader_def]
  vary_frame [where f = "''Access-Control-Request-Headers''", folded addAccessControlRequestHeadersToVaryHeader_def]

text \<open>
  Parsing a \<open>Vary\<close> header of several fields, an index loop over the text, is the same as splitting
  it at its commas and taking of each part what follows its last space, the empty ones left out.
\<close>

theorem vary_parse_tokens:
  assumes "CHR '','' \<in> set (js_trim header)"
  shows "parse_vary header =
    filter (\<lambda>t. t \<noteq> []) (map after_space (js_split CHR '','' (toLowerCase (js_trim header))))"
proof -
  have "lower_char CHR '','' = CHR '',''" by (simp add: lower_char_def)
  then have "CHR '','' \<in> set (toLowerCase (js_trim header))"
    using assms by (metis toLowerCase_def image_eqI list.set_map)
  then show ?thesis
    using vary_loop_tokens [unfolded vary_tokens_def] by (auto simp: parse_vary_def Let_def)
qed

theorem vary_parse_tokens_witness:
  "parse_vary ''Accept, Origin'' = [''accept'', ''origin''] \<and> parse_vary ''Origin , Accept'' = [''accept'']"
proof -
  have trim: "js_trim ''Accept, Origin'' = ''Accept, Origin''" "js_trim ''Origin , Accept'' = ''Origin , Accept''"
    by (simp_all add: js_trim_def js_space_def)
  have lower: "toLowerCase ''Accept, Origin'' = ''accept, origin''" "toLowerCase ''Origin , Accept'' = ''origin , accept''"
    by code_simp+
  show ?thesis
    using vary_parse_tokens [of "''Accept, Origin''"] vary_parse_tokens [of "''Origin , Accept''"]
    by (simp add: trim lower after_space_def)
qed

section \<open>Which origins are admitted\<close>

text \<open>An entry of the allow list admits an origin.\<close>

definition entry_admits :: "cors_env \<Rightarrow> string option \<Rightarrow> string \<Rightarrow> bool" where
  "entry_admits C reqOrigin entry =
     (case sanitizeOrigin C entry of Inl _ \<Rightarrow> False | Inr x \<Rightarrow> isRequestOriginAllowed C reqOrigin x)"

definition entry_star :: "cors_env \<Rightarrow> string \<Rightarrow> bool" where
  "entry_star C entry = (sanitizeOrigin C entry = Inr (OText ''*''))"

lemma map_res_set: "map_res f xs = Inr ys \<Longrightarrow> set ys = {y. \<exists>x \<in> set xs. f x = Inr y}"
  by (induction xs arbitrary: ys) (auto split: sum.splits)

lemma map_res_all: "map_res f xs = Inr ys \<Longrightarrow> \<forall>x \<in> set xs. \<exists>y. f x = Inr y"
  by (induction xs arbitrary: ys) (auto split: sum.splits)

lemma origins_admit:
  assumes "map_res (sanitizeOrigin C) entries = Inr origins"
  shows "isRequestOriginAllowed C ro (OArr origins) \<longleftrightarrow> (\<exists>e \<in> set entries. entry_admits C ro e)"
    and "OText ''*'' \<in> set origins \<longleftrightarrow> (\<exists>e \<in> set entries. entry_star C e)"
proof -
  show "isRequestOriginAllowed C ro (OArr origins) \<longleftrightarrow> (\<exists>e \<in> set entries. entry_admits C ro e)"
  proof
    assume "isRequestOriginAllowed C ro (OArr origins)"
    then obtain e x where "e \<in> set entries" "sanitizeOrigin C e = Inr x" "isRequestOriginAllowed C ro x"
      using map_res_set [OF assms] by (auto simp: list_ex_iff)
    then show "\<exists>e \<in> set entries. entry_admits C ro e"
      by (intro bexI [of _ e]) (simp_all add: entry_admits_def)
  next
    assume "\<exists>e \<in> set entries. entry_admits C ro e"
    then show "isRequestOriginAllowed C ro (OArr origins)"
      using map_res_set [OF assms] by (force simp: entry_admits_def list_ex_iff split: sum.splits)
  qed
  show "OText ''*'' \<in> set origins \<longleftrightarrow> (\<exists>e \<in> set entries. entry_star C e)"
    using map_res_set [OF assms] by (auto simp: entry_star_def)
qed

definition expected_origin :: "cors_env \<Rightarrow> string list \<Rightarrow> string option \<Rightarrow> string option" where
  "expected_origin C entries reqOrigin =
     (if \<exists>e \<in> set entries. entry_star C e then Some ''*''
      else if truthy reqOrigin \<and> (\<exists>e \<in> set entries. entry_admits C reqOrigin e) then reqOrigin
      else None)"

definition resolved_origin :: "origin_option list \<Rightarrow> origin_option" where
  "resolved_origin origins = (if OText ''*'' \<in> set origins then OText ''*'' else OArr origins)"

lemma resolved_not [simp]:
  "resolved_origin os \<noteq> OBool b" "resolved_origin os \<noteq> OUndefined" "resolved_origin os \<noteq> OText []"
  by (simp_all add: resolved_origin_def)

lemma normalized [simp]:
  "co_origin (normalizeCorsOptions (opts\<lparr>co_origin := Some (OArr os)\<rparr>)) = Some (resolved_origin os)"
  by (simp add: normalizeCorsOptions_def resolved_origin_def)

text \<open>The origin that the reply names, if any.\<close>

definition named_origin :: "cors_env \<Rightarrow> string option \<Rightarrow> origin_option \<Rightarrow> string option" where
  "named_origin C ro x = (let o' = getAccessControlAllowOriginHeader C ro x in if truthy o' then o' else None)"

lemma named_resolved:
  assumes "map_res (sanitizeOrigin C) entries = Inr origins"
  shows "named_origin C ro (resolved_origin origins) = expected_origin C entries ro"
  using origins_admit(1) [OF assms, of ro] origins_admit(2) [OF assms]
  by (cases ro) (simp_all add: named_origin_def resolved_origin_def getAccessControlAllowOriginHeader_def
      expected_origin_def Let_def)

lemma addCorsHeaders_run:
  "fst (addCorsHeaders C req x opts s) = Inr ()"
  "cs_next (snd (addCorsHeaders C req x opts s)) = cs_next s"
  "cs_headers (snd (addCorsHeaders C req x opts s)) ''access-control-allow-origin'' =
     (case named_origin C (cq_origin req) x of
        None \<Rightarrow> cs_headers s ''access-control-allow-origin'' | Some t \<Rightarrow> Some (HText t))"
  "co_credentials opts = Some True \<Longrightarrow>
     cs_headers (snd (addCorsHeaders C req x opts s)) ''access-control-allow-credentials'' = Some (HText ''true'')"
  by (auto simp: addCorsHeaders_def named_origin_def Let_def bnd_apply io_simps truthy_def split: option.split)

definition untouched_by_preflight :: "string \<Rightarrow> bool" where
  "untouched_by_preflight n \<longleftrightarrow> n = ''access-control-allow-origin'' \<or> n = ''access-control-allow-credentials''"

lemma preflight_frame:
  "fst (addPreflightHeaders req opts s) = Inr ()"
  "cs_next (snd (addPreflightHeaders req opts s)) = cs_next s"
  "untouched_by_preflight n \<Longrightarrow> cs_headers (snd (addPreflightHeaders req opts s)) n = cs_headers s n"
proof -
  show "fst (addPreflightHeaders req opts s) = Inr ()" "cs_next (snd (addPreflightHeaders req opts s)) = cs_next s"
    by (simp_all add: addPreflightHeaders_def bnd_apply io_simps vary_frames split: option.split cache_control.split)
  assume "untouched_by_preflight n"
  then have "n \<noteq> ''vary'' \<and> n \<noteq> ''access-control-allow-methods'' \<and> n \<noteq> ''access-control-allow-headers''
      \<and> n \<noteq> ''access-control-max-age'' \<and> n \<noteq> ''cache-control''"
    unfolding untouched_by_preflight_def by (elim disjE) simp_all
  then show "cs_headers (snd (addPreflightHeaders req opts s)) n = cs_headers s n"
    by (simp add: addPreflightHeaders_def bnd_apply io_simps vary_frames split: option.split cache_control.split)
qed

lemma handler_run:
  fixes s :: "'w cors_state"
  assumes "co_origin opts = Some (resolved_origin origins)" "co_credentials opts = Some True"
    "run = addCorsHeadersHandler C opts req s"
  shows "fst run = Inr ()" "cs_next (snd run) = cs_next s"
    "cs_headers (snd run) ''access-control-allow-origin'' =
      (case named_origin C (cq_origin req) (resolved_origin origins) of
         None \<Rightarrow> cs_headers s ''access-control-allow-origin'' | Some t \<Rightarrow> Some (HText t))"
    "cs_headers (snd run) ''access-control-allow-credentials'' = Some (HText ''true'')"
  by (simp_all add: assms addCorsHeadersHandler_def Let_def bnd_apply io_simps vary_frames
        addCorsHeaders_run preflight_frame untouched_by_preflight_def split: option.split)

lemma withCors_run:
  assumes "getConfig E True (cs_world s) = (Inr config, w)"
    and "map_res (sanitizeOrigin C) (cors_origins C config) = Inr origins"
    and "opts = normalizeCorsOptions (no_options\<lparr>co_credentials := Some True, co_origin := Some (OArr origins)\<rparr>)"
  shows "withCors E C req s = (fst (call_next None (snd (addCorsHeadersHandler C opts req (s\<lparr>cs_world := w\<rparr>)))),
    snd (call_next None (snd (addCorsHeadersHandler C opts req (s\<lparr>cs_world := w\<rparr>)))))"
proof -
  have opts: "co_origin opts = Some (resolved_origin origins)" "co_credentials opts = Some True"
    by (simp_all add: assms(3) normalizeCorsOptions_def no_options_def resolved_origin_def or_default_def)
  show ?thesis
    using handler_run(1) [OF opts refl, of C req "s\<lparr>cs_world := w\<rparr>"]
    by (simp add: withCors_def fastifyCors_def bnd_apply io_simps assms(1,2) assms(3) [symmetric])
qed

lemma cors_origin_run:
  assumes "getConfig E True (cs_world s) = (Inr config, w)"
    and "map_res (sanitizeOrigin C) (cors_origins C config) = Inr origins"
    and "cs_headers s ''access-control-allow-origin'' = None"
  shows "fst (withCors E C req s) = Inr ()
    \<and> cs_headers (snd (withCors E C req s)) ''access-control-allow-origin'' =
        (case expected_origin C (cors_origins C config) (cq_origin req) of None \<Rightarrow> None | Some t \<Rightarrow> Some (HText t))
    \<and> cs_headers (snd (withCors E C req s)) ''access-control-allow-credentials'' = Some (HText ''true'')"
proof -
  let ?o = "normalizeCorsOptions (no_options\<lparr>co_credentials := Some True, co_origin := Some (OArr origins)\<rparr>)"
  have opts: "co_origin ?o = Some (resolved_origin origins)" "co_credentials ?o = Some True"
    by (simp_all add: normalizeCorsOptions_def no_options_def resolved_origin_def or_default_def)
  note h = handler_run [OF opts refl, of C req "s\<lparr>cs_world := w\<rparr>"]
  show ?thesis
    using h assms(3) named_resolved [OF assms(2), of "cq_origin req"]
    by (simp add: withCors_run [OF assms(1,2) refl] io_simps split: option.split)
qed


definition sample_cors :: cors_env where
  "sample_cors = \<lparr>ce_accessControlAllowOrigin = None, ce_validRegExp = (\<lambda>_. True), ce_test = (\<lambda>_ _. False)\<rparr>"

definition sample_cors_state :: "mem cors_state" where
  "sample_cors_state = \<lparr>cs_world = (mem_world [])\<lparr>config_cache := Some (sample_config\<lparr>cfg_accessControlAllowOrigin := ''https://a.b''\<rparr>)\<rparr>,
     cs_headers = (\<lambda>_. None), cs_status = None, cs_sent = None, cs_next = [], cs_preflightEnabled = False,
     cs_varyCache = (\<lambda>_ _. None)\<rparr>"

lemma sample_cors_facts:
  "getConfig mem_env True (cs_world sample_cors_state) =
     (Inr (sample_config\<lparr>cfg_accessControlAllowOrigin := ''https://a.b''\<rparr>), cs_world sample_cors_state)"
  "cors_origins sample_cors (sample_config\<lparr>cfg_accessControlAllowOrigin := ''https://a.b''\<rparr>) = [''https://a.b'']"
  "sanitizeOrigin sample_cors ''https://a.b'' = Inr (OText ''https://a.b'')"
  by (simp_all add: getConfig_def sample_cors_state_def cors_origins_def sample_cors_def sanitizeOrigin_def
      js_startsWith_def js_endsWith_def suffix_def)


text \<open>
  A preflight request with its two required headers gets the final reply 204 with an empty
  body, and still the hook calls \<open>next\<close> once afterwards, so that the request goes on through the
  later hooks and the route although its reply has been sent.
\<close>

theorem preflight_calls_next:
  assumes "getConfig E True (cs_world s) = (Inr config, w)"
    and "map_res (sanitizeOrigin C) (cors_origins C config) = Inr origins"
    and "cq_method req = ''OPTIONS''" "truthy (cq_origin req)" "truthy (cq_requestMethod req)"
  shows "cs_status (snd (withCors E C req s)) = Some 204
    \<and> cs_sent (snd (withCors E C req s)) = Some []
    \<and> cs_next (snd (withCors E C req s)) = cs_next s @ [None]"
proof -
  let ?o = "normalizeCorsOptions (no_options\<lparr>co_credentials := Some True, co_origin := Some (OArr origins)\<rparr>)"
  have opts: "co_origin ?o = Some (resolved_origin origins)" "co_credentials ?o = Some True"
    "co_preflight ?o = Some True" "co_strictPreflight ?o = Some True" "co_preflightContinue ?o = Some False"
    "co_optionsSuccessStatus ?o = Some 204"
    by (simp_all add: normalizeCorsOptions_def no_options_def resolved_origin_def or_default_def)
  note h = handler_run [OF opts(1,2) refl, of C req "s\<lparr>cs_world := w\<rparr>"]
  have "cs_status (snd (addCorsHeadersHandler C ?o req (s\<lparr>cs_world := w\<rparr>))) = Some 204
      \<and> cs_sent (snd (addCorsHeadersHandler C ?o req (s\<lparr>cs_world := w\<rparr>))) = Some []"
    by (simp add: addCorsHeadersHandler_def opts assms(3-) Let_def bnd_apply io_simps vary_frames
        addCorsHeaders_run preflight_frame)
  then show ?thesis
    using h(2) by (simp add: withCors_run [OF assms(1,2) refl] io_simps)
qed

theorem preflight_calls_next_witness:
  "cs_next (snd (withCors mem_env sample_cors \<lparr>cq_method = ''OPTIONS'', cq_origin = Some ''https://a.b'',
       cq_requestMethod = Some ''GET'', cq_requestHeaders = None\<rparr> sample_cors_state)) = [None]"
  using preflight_calls_next [OF sample_cors_facts(1), of sample_cors]
  by (simp add: sample_cors_facts) (simp add: sample_cors_state_def)

text \<open>
  An entry for the subdomains of a host, such as \<open>*.example.com\<close>, is turned into an expression
  that is neither anchored nor escaped. When the matcher finds it wherever any text, one more
  character and the host follow one another, the hook names a foreign origin that merely contains the
  host, and allows credentials to it.
\<close>

theorem wildcard_admits_foreign:
  assumes "getConfig E True (cs_world s) = (Inr config, w)"
    and "map_res (sanitizeOrigin C) (cors_origins C config) = Inr origins"
    and "''*.'' @ host \<in> set (cors_origins C config)"
    and "\<not> (\<exists>e \<in> set (cors_origins C config). entry_star C e)"
    and matcher: "\<forall>pre x post. CHR 0x0A \<notin> set (pre @ [x]) \<longrightarrow> ce_test C (''.*.'' @ host) (pre @ x # host @ post)"
    and "cq_origin req = Some (pre @ x # host @ post)" "CHR 0x0A \<notin> set (pre @ [x])"
    and "cs_headers s ''access-control-allow-origin'' = None"
  shows "cs_headers (snd (withCors E C req s)) ''access-control-allow-origin'' = Some (HText (pre @ x # host @ post))
    \<and> cs_headers (snd (withCors E C req s)) ''access-control-allow-credentials'' = Some (HText ''true'')"
proof -
  have san: "sanitizeOrigin C (''*.'' @ host) = js_RegExp C (''.*.'' @ host)"
    by (simp add: sanitizeOrigin_def js_startsWith_def)
  obtain y where "sanitizeOrigin C (''*.'' @ host) = Inr y"
    using map_res_all [OF assms(2)] assms(3) by blast
  then have "sanitizeOrigin C (''*.'' @ host) = Inr (ORegex (''.*.'' @ host))"
    unfolding san js_RegExp_def by (simp split: if_splits)
  moreover have "isRequestOriginAllowed C (cq_origin req) (ORegex (''.*.'' @ host))"
    using matcher assms(6,7) by simp
  ultimately have "entry_admits C (cq_origin req) (''*.'' @ host)"
    unfolding entry_admits_def by simp
  then have "expected_origin C (cors_origins C config) (cq_origin req) = cq_origin req"
    using assms(3,4,6) unfolding expected_origin_def by auto
  then show ?thesis
    using cors_origin_run [OF assms(1,2,8), of req] by (simp add: assms(6))
qed

definition wild_cors :: cors_env where
  "wild_cors = sample_cors\<lparr>ce_test := (\<lambda>r t. r = ''.*.a.b'' \<and> js_includes ''a.b'' (tl t))\<rparr>"

lemma js_includes_append: "js_includes p (xs @ p @ ys)"
proof (induction xs)
  case Nil
  have "prefix p s \<Longrightarrow> js_includes p s" for s by (cases s) auto
  then show ?case by simp
qed simp

definition wild_state :: "mem cors_state" where
  "wild_state = sample_cors_state\<lparr>cs_world :=
     (mem_world [])\<lparr>config_cache := Some (sample_config\<lparr>cfg_accessControlAllowOrigin := ''*.a.b''\<rparr>)\<rparr>\<rparr>"

theorem wildcard_admits_foreign_witness:
  "cs_headers (snd (withCors mem_env wild_cors \<lparr>cq_method = ''GET'', cq_origin = Some ''https://xa.b.evil'',
       cq_requestMethod = None, cq_requestHeaders = None\<rparr> wild_state)) ''access-control-allow-origin''
     = Some (HText ''https://xa.b.evil'')"
proof -
  let ?c = "sample_config\<lparr>cfg_accessControlAllowOrigin := ''*.a.b''\<rparr>"
  have cfg: "getConfig mem_env True (cs_world wild_state) = (Inr ?c, cs_world wild_state)"
    by (simp add: getConfig_def wild_state_def)
  have origins: "cors_origins wild_cors ?c = [''*.a.b'']"
    by (simp add: cors_origins_def wild_cors_def sample_cors_def)
  have san: "sanitizeOrigin wild_cors ''*.a.b'' = Inr (ORegex ''.*.a.b'')"
    by (simp add: sanitizeOrigin_def js_startsWith_def js_RegExp_def wild_cors_def sample_cors_def)
  have matcher: "ce_test wild_cors (''.*.'' @ ''a.b'') (pre @ x # ''a.b'' @ post)" for pre x post
    using js_includes_append [of "''a.b''" "tl (pre @ [x])" post]
    by (cases pre) (simp_all add: wild_cors_def sample_cors_def)
  have star: "\<not> entry_star wild_cors ''*.a.b''" by (simp add: entry_star_def san)
  have fresh: "cs_headers wild_state ''access-control-allow-origin'' = None"
    by (simp add: wild_state_def sample_cors_state_def)
  show ?thesis
    using wildcard_admits_foreign [OF cfg, of wild_cors "[ORegex ''.*.a.b'']" "''a.b''" _ "''https://''" "CHR ''x''" "''.evil''"]
      matcher fresh
    by (simp add: origins san star)
qed

end
