(* ===== verification/Engine_Config.thy ===== *)
theory Engine_Config
  imports Auth_Middleware Js_Text
begin

text \<open>
  The configuration of the engine: the row of the database (\<open>src/db/configuration\<close>), the parsed
  configuration and its cache, the wallet that signs tokens, the cron job that clears the caches,
  and the routes that read and change the configuration
  (\<open>src/server/routes/configuration\<close>). AES, the stored form of a list of chains
  (\<open>JSON.stringify\<close> and \<open>JSON.parse\<close>), the local wallet of the SDK and the cron parser are
  parameters. AES is taken as a function of the text and the password; its random salt only
  changes the stored text.
\<close>

section \<open>The row\<close>

record configuration_row =
  row_chainOverrides :: "string option"
  row_minTxsToProcess :: int
  row_maxTxsToProcess :: int
  row_minedTxListenerCronSchedule :: "string option"
  row_maxTxsToUpdate :: int
  row_retryTxListenerCronSchedule :: "string option"
  row_minEllapsedBlocksBeforeRetry :: int
  row_maxFeePerGasForRetries :: string
  row_maxPriorityFeePerGasForRetries :: string
  row_maxRetriesPerTx :: int
  row_indexerListenerCronSchedule :: "string option"
  row_maxBlocksToIndex :: int
  row_cursorDelaySeconds :: int
  row_contractSubscriptionsRetryDelaySeconds :: string
  row_awsAccessKeyId :: "string option"
  row_awsSecretAccessKey :: "string option"
  row_awsRegion :: "string option"
  row_gcpApplicationProjectId :: "string option"
  row_gcpKmsLocationId :: "string option"
  row_gcpKmsKeyRingId :: "string option"
  row_gcpApplicationCredentialEmail :: "string option"
  row_gcpApplicationCredentialPrivateKey :: "string option"
  row_authDomain :: string
  row_authWalletEncryptedJson :: string
  row_webhookUrl :: "string option"
  row_webhookAuthBearerToken :: "string option"
  row_minWalletBalance :: string
  row_accessControlAllowOrigin :: string
  row_ipAllowlist :: "string list"
  row_clearCacheCronSchedule :: string

text \<open>
  The data of an update is an object: a list of assignments of columns, an absent one unchanged.
\<close>

datatype column_update =
    SetChainOverrides "string option"
  | SetMinTxsToProcess int
  | SetMaxTxsToProcess int
  | SetMinedTxListenerCronSchedule "string option"
  | SetMaxTxsToUpdate int
  | SetRetryTxListenerCronSchedule "string option"
  | SetMinEllapsedBlocksBeforeRetry int
  | SetMaxFeePerGasForRetries string
  | SetMaxPriorityFeePerGasForRetries string
  | SetMaxRetriesPerTx int
  | SetIndexerListenerCronSchedule "string option"
  | SetMaxBlocksToIndex int
  | SetCursorDelaySeconds int
  | SetContractSubscriptionsRetryDelaySeconds string
  | SetAwsAccessKeyId "string option"
  | SetAwsSecretAccessKey "string option"
  | SetAwsRegion "string option"
  | SetGcpApplicationProjectId "string option"
  | SetGcpKmsLocationId "string option"
  | SetGcpKmsKeyRingId "string option"
  | SetGcpApplicationCredentialEmail "string option"
  | SetGcpApplicationCredentialPrivateKey "string option"
  | SetAuthDomain string
  | SetAuthWalletEncryptedJson string
  | SetWebhookUrl "string option"
  | SetWebhookAuthBearerToken "string option"
  | SetMinWalletBalance string
  | SetAccessControlAllowOrigin string
  | SetIpAllowlist "string list"
  | SetClearCacheCronSchedule string

fun apply_column :: "configuration_row \<Rightarrow> column_update \<Rightarrow> configuration_row" where
  "apply_column r (SetChainOverrides v) = r\<lparr>row_chainOverrides := v\<rparr>"
| "apply_column r (SetMinTxsToProcess v) = r\<lparr>row_minTxsToProcess := v\<rparr>"
| "apply_column r (SetMaxTxsToProcess v) = r\<lparr>row_maxTxsToProcess := v\<rparr>"
| "apply_column r (SetMinedTxListenerCronSchedule v) = r\<lparr>row_minedTxListenerCronSchedule := v\<rparr>"
| "apply_column r (SetMaxTxsToUpdate v) = r\<lparr>row_maxTxsToUpdate := v\<rparr>"
| "apply_column r (SetRetryTxListenerCronSchedule v) = r\<lparr>row_retryTxListenerCronSchedule := v\<rparr>"
| "apply_column r (SetMinEllapsedBlocksBeforeRetry v) = r\<lparr>row_minEllapsedBlocksBeforeRetry := v\<rparr>"
| "apply_column r (SetMaxFeePerGasForRetries v) = r\<lparr>row_maxFeePerGasForRetries := v\<rparr>"
| "apply_column r (SetMaxPriorityFeePerGasForRetries v) = r\<lparr>row_maxPriorityFeePerGasForRetries := v\<rparr>"
| "apply_column r (SetMaxRetriesPerTx v) = r\<lparr>row_maxRetriesPerTx := v\<rparr>"
| "apply_column r (SetIndexerListenerCronSchedule v) = r\<lparr>row_indexerListenerCronSchedule := v\<rparr>"
| "apply_column r (SetMaxBlocksToIndex v) = r\<lparr>row_maxBlocksToIndex := v\<rparr>"
| "apply_column r (SetCursorDelaySeconds v) = r\<lparr>row_cursorDelaySeconds := v\<rparr>"
| "apply_column r (SetContractSubscriptionsRetryDelaySeconds v) = r\<lparr>row_contractSubscriptionsRetryDelaySeconds := v\<rparr>"
| "apply_column r (SetAwsAccessKeyId v) = r\<lparr>row_awsAccessKeyId := v\<rparr>"
| "apply_column r (SetAwsSecretAccessKey v) = r\<lparr>row_awsSecretAccessKey := v\<rparr>"
| "apply_column r (SetAwsRegion v) = r\<lparr>row_awsRegion := v\<rparr>"
| "apply_column r (SetGcpApplicationProjectId v) = r\<lparr>row_gcpApplicationProjectId := v\<rparr>"
| "apply_column r (SetGcpKmsLocationId v) = r\<lparr>row_gcpKmsLocationId := v\<rparr>"
| "apply_column r (SetGcpKmsKeyRingId v) = r\<lparr>row_gcpKmsKeyRingId := v\<rparr>"
| "apply_column r (SetGcpApplicationCredentialEmail v) = r\<lparr>row_gcpApplicationCredentialEmail := v\<rparr>"
| "apply_column r (SetGcpApplicationCredentialPrivateKey v) = r\<lparr>row_gcpApplicationCredentialPrivateKey := v\<rparr>"
| "apply_column r (SetAuthDomain v) = r\<lparr>row_authDomain := v\<rparr>"
| "apply_column r (SetAuthWalletEncryptedJson v) = r\<lparr>row_authWalletEncryptedJson := v\<rparr>"
| "apply_column r (SetWebhookUrl v) = r\<lparr>row_webhookUrl := v\<rparr>"
| "apply_column r (SetWebhookAuthBearerToken v) = r\<lparr>row_webhookAuthBearerToken := v\<rparr>"
| "apply_column r (SetMinWalletBalance v) = r\<lparr>row_minWalletBalance := v\<rparr>"
| "apply_column r (SetAccessControlAllowOrigin v) = r\<lparr>row_accessControlAllowOrigin := v\<rparr>"
| "apply_column r (SetIpAllowlist v) = r\<lparr>row_ipAllowlist := v\<rparr>"
| "apply_column r (SetClearCacheCronSchedule v) = r\<lparr>row_clearCacheCronSchedule := v\<rparr>"

section \<open>Environment and state\<close>

text \<open>A chain as it is stored: every property may be missing.\<close>

record network =
  nw_chainId :: "int option"
  nw_name :: "string option"
  nw_rpc :: "string list option"
  nw_nativeCurrency :: "native_currency option"
  nw_testnet :: "bool option"
  nw_chain :: "string option"
  nw_shortName :: "string option"
  nw_slug :: "string option"

record config_env =
  k_ENCRYPTION_PASSWORD :: string
  k_THIRDWEB_API_SECRET_KEY :: string
  k_aesEncrypt :: "string \<Rightarrow> string \<Rightarrow> string"
  k_aesDecrypt :: "string \<Rightarrow> string \<Rightarrow> js_error + string"
  k_parseChains :: "string \<Rightarrow> js_error + network list"
  k_stringifyChains :: "network list \<Rightarrow> string"
  k_generateWallet :: "js_error + string"
  k_exportWallet :: "string \<Rightarrow> string \<Rightarrow> js_error + string"
  k_importWallet :: "string \<Rightarrow> string \<Rightarrow> js_error + string"
  k_cronParses :: "string \<Rightarrow> bool"

text \<open>The parsed configuration: the fields read elsewhere, and those only the routes read.\<close>

record full_config = parsed_config +
  fc_chainOverrides :: "string option"
  fc_minTxsToProcess :: int
  fc_maxTxsToProcess :: int
  fc_maxTxsToUpdate :: int
  fc_retryTxListenerCronSchedule :: "string option"
  fc_maxFeePerGasForRetries :: string
  fc_maxPriorityFeePerGasForRetries :: string
  fc_authWalletEncryptedJson :: string
  fc_webhookUrl :: "string option"
  fc_webhookAuthBearerToken :: "string option"
  fc_minWalletBalance :: string

text \<open>A wallet object before and after its key was imported.\<close>

datatype local_wallet = Blank | Imported string

text \<open>
  The state: the database row, the cached configuration (of which the world holds the part the rest
  of the engine reads), the auth wallet, the schedule of the running cron job, and the caches of the
  SDK and of wallets as their keys; the other caches are in the state of the authentication.
\<close>

record ('w, 't, 'p, 'k, 'c) config_state =
  cg_auth :: "('w, 't, 'p, 'k) auth_state"
  cg_rows :: 'c
  cg_config :: "full_config option"
  cg_authWallet :: "local_wallet option"
  cg_cron :: "string option"
  cg_sdkCache :: "string set"
  cg_walletsCache :: "string set"

record ('c) config_sys =
  cy_env :: config_env
  cy_rows :: "('c, string, configuration_row) table"

definition on_config :: "('c, 'a) io \<Rightarrow> (('w, 't, 'p, 'k, 'c) config_state, 'a) io" where
  "on_config m = (\<lambda>s. case m (cg_rows s) of (r, d) \<Rightarrow> (r, s\<lparr>cg_rows := d\<rparr>))"

definition store_config :: "full_config option \<Rightarrow> (('w, 't, 'p, 'k, 'c) config_state, unit) io" where
  "store_config c = (\<lambda>s. (Inr (), s\<lparr>cg_config := c,
     cg_auth := (cg_auth s)\<lparr>au_world := (au_world (cg_auth s))\<lparr>config_cache := map_option parsed_config.truncate c\<rparr>\<rparr>\<rparr>))"

lemma config_apply [io_simps]:
  "on_config m s = (fst (m (cg_rows s)), s\<lparr>cg_rows := snd (m (cg_rows s))\<rparr>)"
  "store_config c s1 = (Inr (), s1\<lparr>cg_config := c,
     cg_auth := (cg_auth s1)\<lparr>au_world := (au_world (cg_auth s1))\<lparr>config_cache := map_option parsed_config.truncate c\<rparr>\<rparr>\<rparr>)"
  by (simp_all add: on_config_def store_config_def split: prod.split)

section \<open>Reading and updating the row\<close>

definition encrypt :: "config_env \<Rightarrow> string \<Rightarrow> string" where
  "encrypt K data = k_aesEncrypt K data (k_ENCRYPTION_PASSWORD K)"

definition decrypt :: "config_env \<Rightarrow> string \<Rightarrow> string \<Rightarrow> js_error + string" where
  "decrypt K data password = k_aesDecrypt K data password"

fun encrypt_column :: "config_env \<Rightarrow> column_update \<Rightarrow> column_update" where
  "encrypt_column K (SetAwsSecretAccessKey (Some v)) = SetAwsSecretAccessKey (Some (encrypt K v))"
| "encrypt_column K (SetGcpApplicationCredentialPrivateKey (Some v)) =
     SetGcpApplicationCredentialPrivateKey (Some (encrypt K v))"
| "encrypt_column K c = c"

definition updateConfiguration ::
  "'c config_sys \<Rightarrow> column_update list \<Rightarrow> (('w, 't, 'p, 'k, 'c) config_state, configuration_row) io" where
  "updateConfiguration D data =
     on_config (t_update (cy_rows D) ''default''
       (\<lambda>r. foldl apply_column r (map (encrypt_column (cy_env D)) data)))"

text \<open>\<open>chain.rpc[0]\<close> fails without the list, and is undefined for an empty one.\<close>

definition parse_chain :: "network \<Rightarrow> js_error + chain_override" where
  "parse_chain chain =
     (case nw_rpc chain of
        None \<Rightarrow> Inl js_TypeError
      | Some rpc \<Rightarrow> Inr \<lparr>ov_id = nw_chainId chain, ov_name = nw_name chain, ov_rpc = nth_opt rpc 0,
          ov_nativeCurrency = nw_nativeCurrency chain,
          ov_testnet = (if nw_testnet chain = Some True then Some True else None)\<rparr>)"

definition parse_overrides :: "config_env \<Rightarrow> string option \<Rightarrow> chain_override list" where
  "parse_overrides K chainOverrides =
     (if truthy chainOverrides then
        (case k_parseChains K (the chainOverrides) of
           Inl _ \<Rightarrow> []
         | Inr nets \<Rightarrow> (case map_res parse_chain nets of Inl _ \<Rightarrow> [] | Inr cs \<Rightarrow> cs))
      else [])"

definition parsed_row :: "config_env \<Rightarrow> configuration_row \<Rightarrow> wallet_configuration \<Rightarrow> full_config" where
  "parsed_row K r wallet =
     \<lparr>cfg_minEllapsedBlocksBeforeRetry = row_minEllapsedBlocksBeforeRetry r,
      cfg_chainOverridesParsed = parse_overrides K (row_chainOverrides r),
      cfg_walletConfiguration = wallet,
      cfg_contractSubscriptionsRequeryDelaySeconds = row_contractSubscriptionsRetryDelaySeconds r,
      cfg_maxBlocksToIndex = row_maxBlocksToIndex r,
      cfg_cursorDelaySeconds = row_cursorDelaySeconds r,
      cfg_ipAllowlist = row_ipAllowlist r,
      cfg_accessControlAllowOrigin = row_accessControlAllowOrigin r,
      cfg_authDomain = row_authDomain r,
      cfg_indexerListenerCronSchedule = row_indexerListenerCronSchedule r,
      cfg_clearCacheCronSchedule = Some (row_clearCacheCronSchedule r),
      cfg_minedTxListenerCronSchedule = row_minedTxListenerCronSchedule r,
      cfg_maxRetriesPerTx = row_maxRetriesPerTx r,
      fc_chainOverrides = row_chainOverrides r,
      fc_minTxsToProcess = row_minTxsToProcess r,
      fc_maxTxsToProcess = row_maxTxsToProcess r,
      fc_maxTxsToUpdate = row_maxTxsToUpdate r,
      fc_retryTxListenerCronSchedule = row_retryTxListenerCronSchedule r,
      fc_maxFeePerGasForRetries = row_maxFeePerGasForRetries r,
      fc_maxPriorityFeePerGasForRetries = row_maxPriorityFeePerGasForRetries r,
      fc_authWalletEncryptedJson = row_authWalletEncryptedJson r,
      fc_webhookUrl = row_webhookUrl r,
      fc_webhookAuthBearerToken = row_webhookAuthBearerToken r,
      fc_minWalletBalance = row_minWalletBalance r\<rparr>"

text \<open>
  The secret of a key service: decrypted with the encryption password; the code then means to try
  the secret key when that failed, but tests the stored value, which is never empty here.
\<close>

definition decrypted_secret ::
  "'c config_sys \<Rightarrow> string option \<Rightarrow> (string \<Rightarrow> column_update)
   \<Rightarrow> (('w, 't, 'p, 'k, 'c) config_state, string) io" where
  "decrypted_secret D kept column =
     (let K = cy_env D in
      bnd (lift_res (decrypt K (the kept) (k_ENCRYPTION_PASSWORD K))) (\<lambda>secret.
      if \<not> truthy kept then
        bnd (lift_res (decrypt K (the kept) (k_THIRDWEB_API_SECRET_KEY K))) (\<lambda>secret'.
        if secret' \<noteq> [] then bnd (updateConfiguration D [column secret']) (\<lambda>_. ret secret')
        else ret secret')
      else ret secret))"

definition toParsedConfig ::
  "'c config_sys \<Rightarrow> configuration_row \<Rightarrow> (('w, 't, 'p, 'k, 'c) config_state, full_config) io" where
  "toParsedConfig D config =
     (if truthy (row_awsAccessKeyId config) \<and> truthy (row_awsSecretAccessKey config)
         \<and> truthy (row_awsRegion config) then
        bnd (decrypted_secret D (row_awsSecretAccessKey config) (\<lambda>v. SetAwsSecretAccessKey (Some v))) (\<lambda>secret.
        ret (parsed_row (cy_env D) config
          (WalletAwsKms (the (row_awsAccessKeyId config)) secret (the (row_awsRegion config)))))
      else if truthy (row_gcpApplicationProjectId config) \<and> truthy (row_gcpKmsLocationId config)
         \<and> truthy (row_gcpKmsKeyRingId config) \<and> truthy (row_gcpApplicationCredentialEmail config)
         \<and> truthy (row_gcpApplicationCredentialPrivateKey config) then
        bnd (decrypted_secret D (row_gcpApplicationCredentialPrivateKey config)
               (\<lambda>v. SetGcpApplicationCredentialPrivateKey (Some v))) (\<lambda>secret.
        ret (parsed_row (cy_env D) config
          (WalletGcpKms (the (row_gcpApplicationProjectId config)) (the (row_gcpKmsLocationId config))
            (the (row_gcpKmsKeyRingId config)) (the (row_gcpApplicationCredentialEmail config)) secret)))
      else ret (parsed_row (cy_env D) config WalletLocal))"

definition createAuthWalletEncryptedJson ::
  "config_env \<Rightarrow> js_error + string" where
  "createAuthWalletEncryptedJson K =
     (case k_generateWallet K of Inl e \<Rightarrow> Inl e
      | Inr wallet \<Rightarrow> k_exportWallet K wallet (k_ENCRYPTION_PASSWORD K))"

definition mandatoryAllowedCorsUrls :: "string list" where
  "mandatoryAllowedCorsUrls = [''https://thirdweb.com'', ''https://embed.ipfscdn.io'']"

text \<open>The first row, with the defaults of the code and of the table.\<close>

definition default_row :: "string \<Rightarrow> configuration_row" where
  "default_row json =
     \<lparr>row_chainOverrides = None, row_minTxsToProcess = 1, row_maxTxsToProcess = 30,
      row_minedTxListenerCronSchedule = Some ''*/5 * * * * *'', row_maxTxsToUpdate = 50,
      row_retryTxListenerCronSchedule = Some ''*/15 * * * * *'', row_minEllapsedBlocksBeforeRetry = 12,
      row_maxFeePerGasForRetries = ''10000000000000'', row_maxPriorityFeePerGasForRetries = ''10000000000000'',
      row_maxRetriesPerTx = 3, row_indexerListenerCronSchedule = Some ''*/5 * * * * *'',
      row_maxBlocksToIndex = 25, row_cursorDelaySeconds = 2, row_contractSubscriptionsRetryDelaySeconds = ''10'',
      row_awsAccessKeyId = None, row_awsSecretAccessKey = None, row_awsRegion = None,
      row_gcpApplicationProjectId = None, row_gcpKmsLocationId = None, row_gcpKmsKeyRingId = None,
      row_gcpApplicationCredentialEmail = None, row_gcpApplicationCredentialPrivateKey = None,
      row_authDomain = ''thirdweb.com'', row_authWalletEncryptedJson = json,
      row_webhookUrl = None, row_webhookAuthBearerToken = None,
      row_minWalletBalance = ''20000000000000000'',
      row_accessControlAllowOrigin = js_join '','' mandatoryAllowedCorsUrls,
      row_ipAllowlist = [], row_clearCacheCronSchedule = ''*/30 * * * * *''\<rparr>"

definition ensured_row :: "'c config_sys \<Rightarrow> (('w, 't, 'p, 'k, 'c) config_state, configuration_row) io" where
  "ensured_row D =
     bnd (on_config (t_find (cy_rows D) ''default'')) (\<lambda>found.
     case found of
       None \<Rightarrow>
         bnd (lift_res (createAuthWalletEncryptedJson (cy_env D))) (\<lambda>json.
         on_config (t_upsert (cy_rows D) ''default'' (default_row json) (\<lambda>r. r)))
     | Some config \<Rightarrow>
         if row_authDomain config = [] \<and> row_authWalletEncryptedJson config = [] then
           bnd (lift_res (createAuthWalletEncryptedJson (cy_env D))) (\<lambda>json.
           updateConfiguration D [SetAuthDomain ''thirdweb.com'', SetAuthWalletEncryptedJson json])
         else if row_accessControlAllowOrigin config = [] then
           updateConfiguration D [SetAccessControlAllowOrigin (js_join '','' mandatoryAllowedCorsUrls)]
         else if \<not> truthy (row_indexerListenerCronSchedule config) then
           updateConfiguration D [SetIndexerListenerCronSchedule (Some ''*/5 * * * * *'')]
         else ret config)"

definition getConfiguration :: "'c config_sys \<Rightarrow> (('w, 't, 'p, 'k, 'c) config_state, full_config) io" where
  "getConfiguration D = bnd (ensured_row D) (toParsedConfig D)"

text \<open>\<open>getConfig\<close> with the whole parsed configuration.\<close>

definition get_config :: "'c config_sys \<Rightarrow> bool \<Rightarrow> (('w, 't, 'p, 'k, 'c) config_state, full_config) io" where
  "get_config D retrieveFromCache = (\<lambda>s.
     case cg_config s of
       Some c \<Rightarrow> if retrieveFromCache then (Inr c, s)
         else bnd (getConfiguration D) (\<lambda>c'. bnd (store_config (Some c')) (\<lambda>_. ret c')) s
     | None \<Rightarrow> bnd (getConfiguration D) (\<lambda>c'. bnd (store_config (Some c')) (\<lambda>_. ret c')) s)"

end
