(* ===== verification/Config_Routes.thy ===== *)
theory Config_Routes
  imports Engine_Config
begin

text \<open>
  The routes of the configuration (\<open>src/server/routes/configuration\<close>), the check of cron
  expressions, the job and the function that clear the caches, and the auth wallet. A route returns
  the result of its reply. The body of a route that passes \<open>{ ...req.body }\<close> on is a list of
  assignments, since its schema does not forbid more properties than it names.
\<close>

section \<open>Cron expressions\<close>

definition invalid_cron :: "string \<Rightarrow> js_error" where
  "invalid_cron m = createCustomError m 400 ''BAD_REQUEST''"

text \<open>The number of an interval \<open>*/n\<close>, which may be NaN.\<close>

definition interval_value :: "string \<Rightarrow> js_num" where
  "interval_value field = parseInt_opt (nth_opt (js_split CHR ''/'' field) 1)"

definition out_of_range :: "js_num \<Rightarrow> int \<Rightarrow> int \<Rightarrow> bool" where
  "out_of_range v minValue maxValue = (case v of None \<Rightarrow> False | Some n \<Rightarrow> n < minValue \<or> n > maxValue)"

definition checkCronFieldInterval :: "string \<Rightarrow> int \<Rightarrow> int \<Rightarrow> string \<Rightarrow> js_error + unit" where
  "checkCronFieldInterval field minValue maxValue fieldName =
     (if js_startsWith ''*/'' field \<and> out_of_range (interval_value field) minValue maxValue
      then Inl (invalid_cron (''Invalid cron expression. '' @ fieldName @ '' must be between '' @ show_int minValue
        @ '' and '' @ show_int maxValue @ '' when using an interval.''))
      else Inr ())"

definition seconds_refused :: "string \<Rightarrow> bool" where
  "seconds_refused seconds \<longleftrightarrow>
     (js_startsWith ''*/'' seconds \<and> out_of_range (interval_value seconds) 10 59)
     \<or> seconds = ''*'' \<or> seconds = ''*/1''"

definition isValidCron :: "config_env \<Rightarrow> string \<Rightarrow> js_error + bool" where
  "isValidCron K input =
     (if \<not> k_cronParses K input
      then Inl (invalid_cron ''Invalid cron expression. Please check the cron expression.'')
      else (case js_split CHR '' '' input of
        [seconds, minutes, hours, dayOfMonth, month, dayOfWeek] \<Rightarrow>
          if seconds_refused seconds
          then Inl (invalid_cron (''Invalid cron expression. '' @
            (if js_startsWith ''*/'' seconds then ''Seconds must be between 10 and 59 when using an interval.''
             else ''Cannot run every second of every minute of every hour.'')))
          else (case checkCronFieldInterval minutes 0 59 ''Minutes'' of Inl e \<Rightarrow> Inl e | Inr _ \<Rightarrow>
               (case checkCronFieldInterval hours 0 23 ''Hours'' of Inl e \<Rightarrow> Inl e | Inr _ \<Rightarrow>
               (case checkCronFieldInterval dayOfMonth 1 31 ''Day of month'' of Inl e \<Rightarrow> Inl e | Inr _ \<Rightarrow>
               (case checkCronFieldInterval month 1 12 ''Month'' of Inl e \<Rightarrow> Inl e | Inr _ \<Rightarrow>
               (case checkCronFieldInterval dayOfWeek 0 7 ''Day of week'' of Inl e \<Rightarrow> Inl e | Inr _ \<Rightarrow>
               Inr True)))))
      | _ \<Rightarrow> Inl (invalid_cron ''Invalid cron expression. Please check the cron expression.'')))"

section \<open>Clearing the caches\<close>

definition clearCache :: "(('w, 't, 'p, 'k, 'c) config_state, unit) io" where
  "clearCache =
     bnd (store_config None) (\<lambda>_ s. (Inr (), s\<lparr>cg_sdkCache := {}, cg_walletsCache := {},
       cg_auth := (cg_auth s)\<lparr>au_world := (au_world (cg_auth s))\<lparr>webhook_cache := (\<lambda>_. None)\<rparr>,
         au_tokenCache := (\<lambda>_. None), au_keypairCache := (\<lambda>_. None)\<rparr>\<rparr>))"

text \<open>\<open>task.stop()\<close> and \<open>cron.schedule\<close>: afterwards the new schedule is the one that runs.\<close>

definition clearCacheCron :: "'c config_sys \<Rightarrow> (('w, 't, 'p, 'k, 'c) config_state, unit) io" where
  "clearCacheCron D =
     bnd (get_config D True) (\<lambda>config.
     if \<not> truthy (cfg_clearCacheCronSchedule config) then ret ()
     else (\<lambda>s. (Inr (), s\<lparr>cg_cron := cfg_clearCacheCronSchedule config\<rparr>)))"

section \<open>The auth wallet\<close>

definition set_auth_wallet :: "local_wallet option \<Rightarrow> (('w, 't, 'p, 'k, 'c) config_state, unit) io" where
  "set_auth_wallet w = (\<lambda>s. (Inr (), s\<lparr>cg_authWallet := w\<rparr>))"

definition import_auth_wallet ::
  "config_env \<Rightarrow> string \<Rightarrow> string \<Rightarrow> (('w, 't, 'p, 'k, 'c) config_state, string) io" where
  "import_auth_wallet K json password =
     bnd (lift_res (k_importWallet K json password)) (\<lambda>w.
     bnd (set_auth_wallet (Some (Imported w))) (\<lambda>_. ret w))"

definition load_auth_wallet :: "'c config_sys \<Rightarrow> (('w, 't, 'p, 'k, 'c) config_state, local_wallet) io" where
  "load_auth_wallet D =
     (let K = cy_env D in
      bnd (get_config D True) (\<lambda>config.
      bnd (set_auth_wallet (Some Blank)) (\<lambda>_.
      bnd (try_catch (import_auth_wallet K (fc_authWalletEncryptedJson config) (k_ENCRYPTION_PASSWORD K))
        (\<lambda>_. bnd (import_auth_wallet K (fc_authWalletEncryptedJson config) (k_THIRDWEB_API_SECRET_KEY K)) (\<lambda>w.
             bnd (lift_res (k_exportWallet K w (k_ENCRYPTION_PASSWORD K))) (\<lambda>encryptedJson.
             bnd (updateConfiguration D [SetAuthWalletEncryptedJson encryptedJson]) (\<lambda>_. ret w))))) (\<lambda>w.
      ret (Imported w)))))"

definition getAuthWallet :: "'c config_sys \<Rightarrow> (('w, 't, 'p, 'k, 'c) config_state, local_wallet) io" where
  "getAuthWallet D = (\<lambda>s. case cg_authWallet s of Some w \<Rightarrow> (Inr w, s) | None \<Rightarrow> load_auth_wallet D s)"

section \<open>Routes of single values\<close>

definition getAuthConfiguration :: "'c config_sys \<Rightarrow> (('w, 't, 'p, 'k, 'c) config_state, string) io" where
  "getAuthConfiguration D = bnd (get_config D True) (\<lambda>config. ret (cfg_authDomain config))"

definition updateAuthConfiguration :: "'c config_sys \<Rightarrow> string \<Rightarrow> (('w, 't, 'p, 'k, 'c) config_state, string) io" where
  "updateAuthConfiguration D domain =
     bnd (updateConfiguration D [SetAuthDomain domain]) (\<lambda>_.
     bnd (get_config D False) (\<lambda>config. ret (cfg_authDomain config)))"

definition getBackendWalletBalanceConfiguration ::
  "'c config_sys \<Rightarrow> (('w, 't, 'p, 'k, 'c) config_state, string) io" where
  "getBackendWalletBalanceConfiguration D = bnd (get_config D True) (\<lambda>config. ret (fc_minWalletBalance config))"

definition updateBackendWalletBalanceConfiguration ::
  "'c config_sys \<Rightarrow> column_update list \<Rightarrow> (('w, 't, 'p, 'k, 'c) config_state, string) io" where
  "updateBackendWalletBalanceConfiguration D body =
     bnd (updateConfiguration D body) (\<lambda>_.
     bnd (get_config D False) (\<lambda>config. ret (fc_minWalletBalance config)))"

definition getCacheConfiguration :: "'c config_sys \<Rightarrow> (('w, 't, 'p, 'k, 'c) config_state, string option) io" where
  "getCacheConfiguration D = bnd (get_config D True) (\<lambda>config. ret (cfg_clearCacheCronSchedule config))"

definition updateCacheConfiguration ::
  "'c config_sys \<Rightarrow> string \<Rightarrow> column_update list \<Rightarrow> (('w, 't, 'p, 'k, 'c) config_state, string option) io" where
  "updateCacheConfiguration D clearCacheCronSchedule others =
     bnd (lift_res (isValidCron (cy_env D) clearCacheCronSchedule)) (\<lambda>valid.
     if valid = False then throw (JsObject (Some ''Invalid cron expression'') None (Some 400))
     else bnd (updateConfiguration D (SetClearCacheCronSchedule clearCacheCronSchedule # others)) (\<lambda>_.
       bnd (get_config D False) (\<lambda>config.
       bnd (clearCacheCron D) (\<lambda>_. ret (cfg_clearCacheCronSchedule config)))))"

definition getContractSubscriptionsConfiguration ::
  "'c config_sys \<Rightarrow> (('w, 't, 'p, 'k, 'c) config_state, int \<times> string) io" where
  "getContractSubscriptionsConfiguration D =
     bnd (get_config D True) (\<lambda>config.
     ret (cfg_maxBlocksToIndex config, cfg_contractSubscriptionsRequeryDelaySeconds config))"

definition updateContractSubscriptionsConfiguration ::
  "'c config_sys \<Rightarrow> int option \<Rightarrow> string option \<Rightarrow> (('w, 't, 'p, 'k, 'c) config_state, int \<times> string) io" where
  "updateContractSubscriptionsConfiguration D maxBlocksToIndex delays =
     (if (maxBlocksToIndex = None \<or> maxBlocksToIndex = Some 0) \<and> \<not> truthy delays
      then throw (createCustomError ''At least one parameter is required'' 400 ''BAD_REQUEST'')
      else if truthy delays \<and> (\<exists>d \<in> set (js_split CHR '','' (the delays)). parseInt d = None)
      then throw (createCustomError
        ''At least one integer \"contractSubscriptionsRequeryDelaySeconds\" is required'' 400 ''BAD_REQUEST'')
      else bnd (updateConfiguration D
          ((case maxBlocksToIndex of None \<Rightarrow> [] | Some n \<Rightarrow> [SetMaxBlocksToIndex n])
           @ (case delays of None \<Rightarrow> [] | Some t \<Rightarrow> [SetContractSubscriptionsRetryDelaySeconds t]))) (\<lambda>_.
        bnd (get_config D False) (\<lambda>config.
        ret (cfg_maxBlocksToIndex config, cfg_contractSubscriptionsRequeryDelaySeconds config))))"

definition getIpAllowlist :: "'c config_sys \<Rightarrow> (('w, 't, 'p, 'k, 'c) config_state, string list) io" where
  "getIpAllowlist D = bnd (get_config D False) (\<lambda>config. ret (cfg_ipAllowlist config))"

definition setIpAllowlist :: "'c config_sys \<Rightarrow> string list \<Rightarrow> (('w, 't, 'p, 'k, 'c) config_state, string list) io" where
  "setIpAllowlist D ips =
     bnd (updateConfiguration D [SetIpAllowlist (js_dedupe (map js_trim ips))]) (\<lambda>_.
     bnd (get_config D False) (\<lambda>config. ret (cfg_ipAllowlist config)))"

text \<open>The reply of both routes of the transaction processing is the parsed configuration itself.\<close>

definition getTransactionConfiguration :: "'c config_sys \<Rightarrow> (('w, 't, 'p, 'k, 'c) config_state, full_config) io" where
  "getTransactionConfiguration D = get_config D True"

definition updateTransactionConfiguration ::
  "'c config_sys \<Rightarrow> column_update list \<Rightarrow> (('w, 't, 'p, 'k, 'c) config_state, full_config) io" where
  "updateTransactionConfiguration D body = bnd (updateConfiguration D body) (\<lambda>_. get_config D False)"

section \<open>Chains\<close>

definition stored_chains :: "config_env \<Rightarrow> full_config \<Rightarrow> js_error + network list" where
  "stored_chains K config =
     (if truthy (fc_chainOverrides config) then k_parseChains K (the (fc_chainOverrides config)) else Inr [])"

definition getChainsConfiguration :: "'c config_sys \<Rightarrow> (('w, 't, 'p, 'k, 'c) config_state, network list) io" where
  "getChainsConfiguration D = bnd (get_config D True) (\<lambda>config. lift_res (stored_chains (cy_env D) config))"

definition clear_sdk_cache :: "(('w, 't, 'p, 'k, 'c) config_state, unit) io" where
  "clear_sdk_cache = (\<lambda>s. (Inr (), s\<lparr>cg_sdkCache := {}\<rparr>))"

definition updateChainsConfiguration ::
  "'c config_sys \<Rightarrow> network list \<Rightarrow> (('w, 't, 'p, 'k, 'c) config_state, network list) io" where
  "updateChainsConfiguration D nets =
     bnd (updateConfiguration D [SetChainOverrides (Some (k_stringifyChains (cy_env D) nets))]) (\<lambda>_.
     bnd (get_config D False) (\<lambda>config.
     bnd (lift_res (stored_chains (cy_env D) config)) (\<lambda>result.
     bnd clear_sdk_cache (\<lambda>_. ret result))))"

section \<open>CORS\<close>

definition with_required :: "string list \<Rightarrow> string list" where
  "with_required urls = foldl (\<lambda>us url. if url \<in> set us then us else us @ [url]) urls mandatoryAllowedCorsUrls"

definition getCorsConfiguration :: "'c config_sys \<Rightarrow> (('w, 't, 'p, 'k, 'c) config_state, string list) io" where
  "getCorsConfiguration D =
     bnd (get_config D False) (\<lambda>config.
     ret (filter (\<lambda>url. url \<notin> set mandatoryAllowedCorsUrls) (js_split CHR '','' (cfg_accessControlAllowOrigin config))))"

definition store_origins :: "'c config_sys \<Rightarrow> string list \<Rightarrow> (('w, 't, 'p, 'k, 'c) config_state, string list) io" where
  "store_origins D urls =
     bnd (updateConfiguration D [SetAccessControlAllowOrigin (js_join '','' urls)]) (\<lambda>_.
     bnd (get_config D False) (\<lambda>config. ret (js_split CHR '','' (cfg_accessControlAllowOrigin config))))"

definition addUrlToCorsConfiguration ::
  "'c config_sys \<Rightarrow> string list \<Rightarrow> (('w, 't, 'p, 'k, 'c) config_state, string list) io" where
  "addUrlToCorsConfiguration D urlsToAdd =
     bnd (get_config D True) (\<lambda>oldConfig.
     store_origins D (js_dedupe (with_required (map js_trim urlsToAdd)
       @ js_split CHR '','' (cfg_accessControlAllowOrigin oldConfig))))"

definition removeUrlToCorsConfiguration ::
  "'c config_sys \<Rightarrow> string list \<Rightarrow> (('w, 't, 'p, 'k, 'c) config_state, string list) io" where
  "removeUrlToCorsConfiguration D urls =
     bnd (get_config D True) (\<lambda>currentConfig.
     let urlsToRemove = map js_trim urls in
     if \<exists>url \<in> set urlsToRemove. url \<in> set mandatoryAllowedCorsUrls
     then throw (createCustomError (''Cannot remove URLs: '' @ js_join '','' mandatoryAllowedCorsUrls) 400 ''BAD_REQUEST'')
     else store_origins D (js_dedupe (filter (\<lambda>url. url \<notin> set urlsToRemove)
       (map js_trim (js_split CHR '','' (cfg_accessControlAllowOrigin currentConfig))))))"

definition setUrlsToCorsConfiguration ::
  "'c config_sys \<Rightarrow> string list \<Rightarrow> (('w, 't, 'p, 'k, 'c) config_state, string list) io" where
  "setUrlsToCorsConfiguration D urls =
     store_origins D (js_dedupe (map js_trim urls @ mandatoryAllowedCorsUrls))"

section \<open>Wallets\<close>

definition getWalletsConfiguration :: "'c config_sys \<Rightarrow> (('w, 't, 'p, 'k, 'c) config_state, wallet_configuration) io" where
  "getWalletsConfiguration D = bnd (get_config D True) (\<lambda>config. ret (cfg_walletConfiguration config))"

definition no_aws :: "column_update list" where
  "no_aws = [SetAwsAccessKeyId None, SetAwsSecretAccessKey None, SetAwsRegion None]"

definition no_gcp :: "column_update list" where
  "no_gcp = [SetGcpApplicationProjectId None, SetGcpKmsLocationId None, SetGcpKmsKeyRingId None,
     SetGcpApplicationCredentialEmail None, SetGcpApplicationCredentialPrivateKey None]"

fun wallet_columns :: "wallet_configuration \<Rightarrow> js_error + column_update list" where
  "wallet_columns WalletLocal = Inr (no_aws @ no_gcp)"
| "wallet_columns (WalletAwsKms keyId secret region) =
     (if keyId = [] \<or> secret = [] \<or> region = []
      then Inl (createCustomError ''Please specify all AWS KMS configuration.'' 400 ''BAD_REQUEST'')
      else Inr ([SetAwsAccessKeyId (Some keyId), SetAwsSecretAccessKey (Some secret), SetAwsRegion (Some region)] @ no_gcp))"
| "wallet_columns (WalletGcpKms project location ring email secret) =
     (if project = [] \<or> location = [] \<or> ring = [] \<or> email = [] \<or> secret = []
      then Inl (createCustomError ''Please specify all GCP KMS configuration.'' 400 ''BAD_REQUEST'')
      else Inr (no_aws @ [SetGcpApplicationProjectId (Some project), SetGcpKmsLocationId (Some location),
        SetGcpKmsKeyRingId (Some ring), SetGcpApplicationCredentialEmail (Some email),
        SetGcpApplicationCredentialPrivateKey (Some secret)]))"

definition updateWalletsConfiguration ::
  "'c config_sys \<Rightarrow> wallet_configuration \<Rightarrow> (('w, 't, 'p, 'k, 'c) config_state, wallet_configuration) io" where
  "updateWalletsConfiguration D body =
     bnd (lift_res (wallet_columns body)) (\<lambda>columns.
     bnd (updateConfiguration D columns) (\<lambda>_.
     bnd (get_config D False) (\<lambda>config. ret (cfg_walletConfiguration config))))"

end
