(* ===== verification/Config_Properties.thy ===== *)
theory Config_Properties
  imports Config_Routes Auth_Properties
begin

text \<open>
  What the configuration keeps. Over a table with the laws of Prisma, reading the configuration is a
  function of the stored row; the wallet settings that a route stores are the ones read back; the
  required origins stay in the allow list under any sequence of routes; the check of cron
  expressions accepts exactly six fields within their ranges; and the defects: the fallback password
  that is never tried, the auth wallet that stays blank after a failure, and the override without an
  RPC URL that disables every override.
\<close>

section \<open>Reading the configuration\<close>

text \<open>The secret of a key service as it is read: only the encryption password is ever tried.\<close>

definition wallet_of :: "config_env \<Rightarrow> configuration_row \<Rightarrow> js_error + wallet_configuration" where
  "wallet_of K r =
     (if truthy (row_awsAccessKeyId r) \<and> truthy (row_awsSecretAccessKey r) \<and> truthy (row_awsRegion r) then
        (case decrypt K (the (row_awsSecretAccessKey r)) (k_ENCRYPTION_PASSWORD K) of Inl e \<Rightarrow> Inl e
         | Inr v \<Rightarrow> Inr (WalletAwsKms (the (row_awsAccessKeyId r)) v (the (row_awsRegion r))))
      else if truthy (row_gcpApplicationProjectId r) \<and> truthy (row_gcpKmsLocationId r)
         \<and> truthy (row_gcpKmsKeyRingId r) \<and> truthy (row_gcpApplicationCredentialEmail r)
         \<and> truthy (row_gcpApplicationCredentialPrivateKey r) then
        (case decrypt K (the (row_gcpApplicationCredentialPrivateKey r)) (k_ENCRYPTION_PASSWORD K) of Inl e \<Rightarrow> Inl e
         | Inr v \<Rightarrow> Inr (WalletGcpKms (the (row_gcpApplicationProjectId r)) (the (row_gcpKmsLocationId r))
            (the (row_gcpKmsKeyRingId r)) (the (row_gcpApplicationCredentialEmail r)) v))
      else Inr WalletLocal)"

definition parsed :: "config_env \<Rightarrow> configuration_row \<Rightarrow> js_error + full_config" where
  "parsed K r = (case wallet_of K r of Inl e \<Rightarrow> Inl e | Inr w \<Rightarrow> Inr (parsed_row K r w))"

lemma toParsedConfig_run: "toParsedConfig D r s = (parsed (cy_env D) r, s)"
  by (simp add: toParsedConfig_def parsed_def wallet_of_def decrypted_secret_def Let_def bnd_apply io_simps
      split: sum.split)

text \<open>A row in which nothing has to be filled in.\<close>

definition complete :: "configuration_row \<Rightarrow> bool" where
  "complete r \<longleftrightarrow> \<not> (row_authDomain r = [] \<and> row_authWalletEncryptedJson r = [])
     \<and> row_accessControlAllowOrigin r \<noteq> [] \<and> truthy (row_indexerListenerCronSchedule r)"

locale config_db = prisma_table "cy_rows D" rows
  for D :: "'c config_sys" and rows :: "'c \<Rightarrow> string \<Rightarrow> configuration_row option"
begin

lemma update_run:
  "fst (updateConfiguration D data s) = (case rows (cg_rows s) ''default'' of None \<Rightarrow> Inl record_missing
     | Some r \<Rightarrow> Inr (foldl apply_column r (map (encrypt_column (cy_env D)) data)))"
  "rows (cg_rows (snd (updateConfiguration D data s))) = (case rows (cg_rows s) ''default'' of None \<Rightarrow> rows (cg_rows s)
     | Some r \<Rightarrow> (rows (cg_rows s))(''default'' \<mapsto> foldl apply_column r (map (encrypt_column (cy_env D)) data)))"
  "\<exists>d. snd (updateConfiguration D data s) = s\<lparr>cg_rows := d\<rparr>"
  by (auto simp: updateConfiguration_def io_simps laws)

lemma refresh_run:
  assumes "rows (cg_rows s) ''default'' = Some r" "complete r"
  shows "fst (get_config D False s) = parsed (cy_env D) r"
    and "rows (cg_rows (snd (get_config D False s))) = rows (cg_rows s)"
    and "parsed (cy_env D) r = Inr c \<Longrightarrow> cg_config (snd (get_config D False s)) = Some c
      \<and> config_cache (au_world (cg_auth (snd (get_config D False s)))) = Some (parsed_config.truncate c)"
  using assms
  by (auto simp: get_config_def getConfiguration_def ensured_row_def complete_def bnd_apply io_simps laws
      toParsedConfig_run split: option.split sum.split)

end

section \<open>Routes as operations\<close>

text \<open>
  The named properties of the two bodies that are passed on as they are. A body with other
  properties than these is outside of the schema, though the code does not refuse it.
\<close>

fun transaction_property :: "column_update \<Rightarrow> bool" where
  "transaction_property (SetMinTxsToProcess _) = True"
| "transaction_property (SetMaxTxsToProcess _) = True"
| "transaction_property (SetMinedTxListenerCronSchedule _) = True"
| "transaction_property (SetMaxTxsToUpdate _) = True"
| "transaction_property (SetRetryTxListenerCronSchedule _) = True"
| "transaction_property (SetMinEllapsedBlocksBeforeRetry _) = True"
| "transaction_property (SetMaxFeePerGasForRetries _) = True"
| "transaction_property (SetMaxPriorityFeePerGasForRetries _) = True"
| "transaction_property (SetMaxRetriesPerTx _) = True"
| "transaction_property _ = False"

datatype config_op =
    OpGet bool | OpClearCache | OpCron | OpAuthWallet
  | OpAuthDomain string | OpBalance string | OpCache string
  | OpSubscriptions "int option" "string option" | OpIpAllowlist "string list"
  | OpTransactions "column_update list" | OpChains "network list"
  | OpAddCors "string list" | OpRemoveCors "string list" | OpSetCors "string list"
  | OpWallets wallet_configuration

fun run_op :: "'c config_sys \<Rightarrow> config_op \<Rightarrow> ('w, 't, 'p, 'k, 'c) config_state \<Rightarrow> ('w, 't, 'p, 'k, 'c) config_state" where
  "run_op D (OpGet b) s = snd (get_config D b s)"
| "run_op D OpClearCache s = snd (clearCache s)"
| "run_op D OpCron s = snd (clearCacheCron D s)"
| "run_op D OpAuthWallet s = snd (getAuthWallet D s)"
| "run_op D (OpAuthDomain v) s = snd (updateAuthConfiguration D v s)"
| "run_op D (OpBalance v) s = snd (updateBackendWalletBalanceConfiguration D [SetMinWalletBalance v] s)"
| "run_op D (OpCache v) s = snd (updateCacheConfiguration D v [] s)"
| "run_op D (OpSubscriptions n v) s = snd (updateContractSubscriptionsConfiguration D n v s)"
| "run_op D (OpIpAllowlist v) s = snd (setIpAllowlist D v s)"
| "run_op D (OpTransactions v) s = snd (updateTransactionConfiguration D v s)"
| "run_op D (OpChains v) s = snd (updateChainsConfiguration D v s)"
| "run_op D (OpAddCors v) s = snd (addUrlToCorsConfiguration D v s)"
| "run_op D (OpRemoveCors v) s = snd (removeUrlToCorsConfiguration D v s)"
| "run_op D (OpSetCors v) s = snd (setUrlsToCorsConfiguration D v s)"
| "run_op D (OpWallets v) s = snd (updateWalletsConfiguration D v s)"

fun op_conforms :: "config_op \<Rightarrow> bool" where
  "op_conforms (OpTransactions v) = list_all transaction_property v"
| "op_conforms _ = True"

text \<open>The states that operations reach from an empty database and an empty cache.\<close>

inductive config_reach ::
  "'c config_sys \<Rightarrow> ('c \<Rightarrow> string \<Rightarrow> configuration_row option) \<Rightarrow> ('w, 't, 'p, 'k, 'c) config_state \<Rightarrow> bool"
  for D rows where
  start: "rows (cg_rows s) ''default'' = None \<Longrightarrow> cg_config s = None \<Longrightarrow> config_reach D rows s"
| step: "config_reach D rows s \<Longrightarrow> op_conforms p \<Longrightarrow> config_reach D rows (run_op D p s)"

section \<open>Invariants of the row\<close>

text \<open>
  An invariant is a predicate on the allow list and on the columns of the key services. It is
  kept when the default row has it and each update keeps it; the lemma per operation is the same
  for every such predicate.
\<close>

definition keeps_required :: "string \<Rightarrow> bool" where
  "keeps_required origins \<longleftrightarrow> set mandatoryAllowedCorsUrls \<subseteq> set (js_split CHR '','' origins)"

text \<open>The columns of a key service are all null or all set, and at most one service is set.\<close>

definition aws_columns :: "configuration_row \<Rightarrow> string option list" where
  "aws_columns r = [row_awsAccessKeyId r, row_awsSecretAccessKey r, row_awsRegion r]"

definition gcp_columns :: "configuration_row \<Rightarrow> string option list" where
  "gcp_columns r = [row_gcpApplicationProjectId r, row_gcpKmsLocationId r, row_gcpKmsKeyRingId r,
     row_gcpApplicationCredentialEmail r, row_gcpApplicationCredentialPrivateKey r]"

definition all_null :: "string option list \<Rightarrow> bool" where
  "all_null vs = list_all (\<lambda>v. v = None) vs"

definition all_set :: "string option list \<Rightarrow> bool" where
  "all_set vs = list_all (\<lambda>v. v \<noteq> None) vs"

definition wallet_typed :: "configuration_row \<Rightarrow> bool" where
  "wallet_typed r \<longleftrightarrow> (all_null (aws_columns r) \<and> all_null (gcp_columns r))
     \<or> (all_set (aws_columns r) \<and> all_null (gcp_columns r))
     \<or> (all_null (aws_columns r) \<and> all_set (gcp_columns r))"

definition row_ok :: "configuration_row \<Rightarrow> bool" where
  "row_ok r \<longleftrightarrow> keeps_required (row_accessControlAllowOrigin r) \<and> wallet_typed r"

text \<open>A column that no part of the invariant looks at.\<close>

fun plain_column :: "column_update \<Rightarrow> bool" where
  "plain_column (SetAccessControlAllowOrigin _) = False"
| "plain_column (SetAwsAccessKeyId _) = False"
| "plain_column (SetAwsSecretAccessKey _) = False"
| "plain_column (SetAwsRegion _) = False"
| "plain_column (SetGcpApplicationProjectId _) = False"
| "plain_column (SetGcpKmsLocationId _) = False"
| "plain_column (SetGcpKmsKeyRingId _) = False"
| "plain_column (SetGcpApplicationCredentialEmail _) = False"
| "plain_column (SetGcpApplicationCredentialPrivateKey _) = False"
| "plain_column _ = True"

lemma plain_encrypt: "plain_column c \<Longrightarrow> encrypt_column K c = c"
  by (cases c) simp_all

lemma plain_view:
  "plain_column c \<Longrightarrow> row_accessControlAllowOrigin (apply_column r c) = row_accessControlAllowOrigin r"
  "plain_column c \<Longrightarrow> aws_columns (apply_column r c) = aws_columns r"
  "plain_column c \<Longrightarrow> gcp_columns (apply_column r c) = gcp_columns r"
  by (cases c; simp add: aws_columns_def gcp_columns_def)+

lemma plain_keeps: "plain_column c \<Longrightarrow> row_ok (apply_column r (encrypt_column K c)) = row_ok r"
  by (simp add: plain_encrypt row_ok_def wallet_typed_def plain_view)

lemma plain_list_keeps:
  "list_all plain_column cs \<Longrightarrow> row_ok (foldl apply_column r (map (encrypt_column K) cs)) = row_ok r"
  by (induction cs arbitrary: r) (simp_all add: plain_keeps)

lemma transaction_plain: "transaction_property c \<Longrightarrow> plain_column c"
  by (cases c) simp_all

lemma origin_keeps:
  "row_ok r \<Longrightarrow> keeps_required v \<Longrightarrow> row_ok (apply_column r (encrypt_column K (SetAccessControlAllowOrigin v)))"
  by (simp add: row_ok_def wallet_typed_def aws_columns_def gcp_columns_def)

text \<open>What the columns of a wallet become.\<close>

fun aws_after :: "config_env \<Rightarrow> wallet_configuration \<Rightarrow> string option list" where
  "aws_after K (WalletAwsKms a b c) = [Some a, Some (encrypt K b), Some c]"
| "aws_after K _ = [None, None, None]"

fun gcp_after :: "config_env \<Rightarrow> wallet_configuration \<Rightarrow> string option list" where
  "gcp_after K (WalletGcpKms a b c d e) = [Some a, Some b, Some c, Some d, Some (encrypt K e)]"
| "gcp_after K _ = [None, None, None, None, None]"

lemma wallet_columns_after:
  assumes "wallet_columns w = Inr cs" "r' = foldl apply_column r (map (encrypt_column K) cs)"
  shows "aws_columns r' = aws_after K w" "gcp_columns r' = gcp_after K w"
    "row_accessControlAllowOrigin r' = row_accessControlAllowOrigin r"
proof -
  have "aws_columns r' = aws_after K w \<and> gcp_columns r' = gcp_after K w
      \<and> row_accessControlAllowOrigin r' = row_accessControlAllowOrigin r"
  proof (cases w)
    case WalletLocal
    then have "cs = no_aws @ no_gcp" using assms(1) by simp
    then show ?thesis
      unfolding assms(2) by (simp add: WalletLocal no_aws_def no_gcp_def aws_columns_def gcp_columns_def)
  next
    case (WalletAwsKms a b c)
    then have "cs = [SetAwsAccessKeyId (Some a), SetAwsSecretAccessKey (Some b), SetAwsRegion (Some c)] @ no_gcp"
      using assms(1) by (simp split: if_splits)
    then show ?thesis
      unfolding assms(2) by (simp add: WalletAwsKms no_gcp_def aws_columns_def gcp_columns_def)
  next
    case (WalletGcpKms a b c d e)
    then have "cs = no_aws @ [SetGcpApplicationProjectId (Some a), SetGcpKmsLocationId (Some b),
        SetGcpKmsKeyRingId (Some c), SetGcpApplicationCredentialEmail (Some d),
        SetGcpApplicationCredentialPrivateKey (Some e)]"
      using assms(1) by (simp split: if_splits)
    then show ?thesis
      unfolding assms(2) by (simp add: WalletGcpKms no_aws_def aws_columns_def gcp_columns_def)
  qed
  then show "aws_columns r' = aws_after K w" "gcp_columns r' = gcp_after K w"
    "row_accessControlAllowOrigin r' = row_accessControlAllowOrigin r" by simp_all
qed

lemma wallet_columns_keep:
  assumes "wallet_columns w = Inr cs" "row_ok r"
  shows "row_ok (foldl apply_column r (map (encrypt_column K) cs))"
  using assms(2) wallet_columns_after [OF assms(1) refl, of r K]
  by (cases w) (simp_all add: row_ok_def wallet_typed_def all_null_def all_set_def)

lemma required_split:
  "keeps_required (js_join '','' urls)" if "urls \<noteq> []" "set mandatoryAllowedCorsUrls \<subseteq> set urls"
proof -
  have single: "url \<in> set mandatoryAllowedCorsUrls \<Longrightarrow> js_split CHR '','' url = [url]" for url
    by (rule js_split_none) (auto simp: mandatoryAllowedCorsUrls_def)
  show ?thesis
    unfolding keeps_required_def js_split_join [OF that(1)]
    using that(2) single by (auto 0 3)
qed

lemma default_ok: "row_ok (default_row json)"
  using required_split [of mandatoryAllowedCorsUrls]
  by (simp add: row_ok_def wallet_typed_def aws_columns_def gcp_columns_def all_null_def default_row_def)
    (simp add: mandatoryAllowedCorsUrls_def)

lemma set_with_required: "set (with_required urls) = set urls \<union> set mandatoryAllowedCorsUrls"
  by (auto simp: with_required_def mandatoryAllowedCorsUrls_def)

section \<open>Every operation keeps the invariant\<close>

definition config_inv ::
  "('c \<Rightarrow> string \<Rightarrow> configuration_row option) \<Rightarrow> ('w, 't, 'p, 'k, 'c) config_state \<Rightarrow> bool" where
  "config_inv rows s \<longleftrightarrow> (\<forall>r. rows (cg_rows s) ''default'' = Some r \<longrightarrow> row_ok r)
     \<and> (\<forall>c. cg_config s = Some c \<longrightarrow> keeps_required (cfg_accessControlAllowOrigin c))"

text \<open>A computation keeps the invariant, and its result satisfies a condition.\<close>

definition keeps ::
  "('c \<Rightarrow> string \<Rightarrow> configuration_row option) \<Rightarrow> (('w, 't, 'p, 'k, 'c) config_state, 'a) io \<Rightarrow> ('a \<Rightarrow> bool) \<Rightarrow> bool" where
  "keeps rows m Q \<longleftrightarrow> (\<forall>s. config_inv rows s \<longrightarrow>
     config_inv rows (snd (m s)) \<and> (\<forall>a. fst (m s) = Inr a \<longrightarrow> Q a))"

lemma inv_bnd:
  "keeps rows m Q \<Longrightarrow> (\<And>a. Q a \<Longrightarrow> keeps rows (f a) R) \<Longrightarrow> keeps rows (bnd m f) R"
  unfolding keeps_def by (auto simp: bnd_apply split: sum.splits)

lemma inv_basic:
  "Q a \<Longrightarrow> keeps rows (ret a) Q" "keeps rows (throw e) Q" "keeps rows (lift_res x) (\<lambda>a. x = Inr a)"
  unfolding keeps_def by simp_all

lemma inv_try:
  "keeps rows m Q \<Longrightarrow> (\<And>e. keeps rows (h e) Q) \<Longrightarrow> keeps rows (try_catch m h) Q"
  unfolding keeps_def by (auto simp: try_catch_apply split: sum.splits)

lemma inv_imp: "keeps rows m Q \<Longrightarrow> (\<And>a. Q a \<Longrightarrow> R a) \<Longrightarrow> keeps rows m R"
  unfolding keeps_def by auto

lemma inv_view:
  "(\<And>s. cg_rows (snd (m s)) = cg_rows s \<and> (cg_config (snd (m s)) = cg_config s \<or> cg_config (snd (m s)) = None))
     \<Longrightarrow> keeps rows m (\<lambda>_. True)"
  unfolding keeps_def config_inv_def by (metis option.distinct(1))

lemma inv_cases: "(\<And>s. keeps rows (\<lambda>_. m s s) Q) \<Longrightarrow> keeps rows (\<lambda>s. m s s) Q"
  unfolding keeps_def by blast

definition good_config :: "full_config \<Rightarrow> bool" where
  "good_config c \<longleftrightarrow> keeps_required (cfg_accessControlAllowOrigin c)"

context config_db begin

lemma keeps_update:
  assumes "\<And>r. row_ok r \<Longrightarrow> row_ok (foldl apply_column r (map (encrypt_column (cy_env D)) data))"
  shows "keeps rows (updateConfiguration D data) row_ok"
  unfolding keeps_def config_inv_def
proof (intro allI impI)
  fix s :: "('w, 't, 'p, 'k, 'c) config_state"
  assume *: "(\<forall>r. rows (cg_rows s) ''default'' = Some r \<longrightarrow> row_ok r)
     \<and> (\<forall>c. cg_config s = Some c \<longrightarrow> keeps_required (cfg_accessControlAllowOrigin c))"
  obtain d where d: "snd (updateConfiguration D data s) = s\<lparr>cg_rows := d\<rparr>" using update_run(3) by blast
  show "((\<forall>r. rows (cg_rows (snd (updateConfiguration D data s))) ''default'' = Some r \<longrightarrow> row_ok r)
      \<and> (\<forall>c. cg_config (snd (updateConfiguration D data s)) = Some c \<longrightarrow> keeps_required (cfg_accessControlAllowOrigin c)))
      \<and> (\<forall>a. fst (updateConfiguration D data s) = Inr a \<longrightarrow> row_ok a)"
    using * assms update_run(1) [of data s] update_run(2) [of data s] d
    by (auto split: option.splits)
qed

lemma keeps_plain: "list_all plain_column data \<Longrightarrow> keeps rows (updateConfiguration D data) row_ok"
  by (rule keeps_update) (simp add: plain_list_keeps)

lemma keeps_set_origins:
  "keeps_required v \<Longrightarrow> keeps rows (updateConfiguration D [SetAccessControlAllowOrigin v]) row_ok"
  by (rule keeps_update) (simp add: origin_keeps del: encrypt_column.simps)

lemma keeps_find: "keeps rows (on_config (t_find (cy_rows D) ''default'')) (\<lambda>x. \<forall>r. x = Some r \<longrightarrow> row_ok r)"
  unfolding keeps_def config_inv_def by (simp add: io_simps laws)

lemma keeps_default: "keeps rows (on_config (t_upsert (cy_rows D) ''default'' (default_row json) (\<lambda>r. r))) row_ok"
  unfolding keeps_def config_inv_def by (auto simp: io_simps laws default_ok split: option.split)

lemma keeps_required_default: "keeps_required (js_join '','' mandatoryAllowedCorsUrls)"
  by (rule required_split) (simp_all add: mandatoryAllowedCorsUrls_def)

lemma keeps_ensured: "keeps rows (ensured_row D) row_ok"
  unfolding ensured_row_def
proof (rule inv_bnd [OF keeps_find])
  fix found :: "configuration_row option"
  assume *: "\<forall>r. found = Some r \<longrightarrow> row_ok r"
  show "keeps rows (case found of
      None \<Rightarrow> bnd (lift_res (createAuthWalletEncryptedJson (cy_env D))) (\<lambda>json.
         on_config (t_upsert (cy_rows D) ''default'' (default_row json) (\<lambda>r. r)))
     | Some config \<Rightarrow>
         if row_authDomain config = [] \<and> row_authWalletEncryptedJson config = [] then
           bnd (lift_res (createAuthWalletEncryptedJson (cy_env D))) (\<lambda>json.
           updateConfiguration D [SetAuthDomain ''thirdweb.com'', SetAuthWalletEncryptedJson json])
         else if row_accessControlAllowOrigin config = [] then
           updateConfiguration D [SetAccessControlAllowOrigin (js_join '','' mandatoryAllowedCorsUrls)]
         else if \<not> truthy (row_indexerListenerCronSchedule config) then
           updateConfiguration D [SetIndexerListenerCronSchedule (Some ''*/5 * * * * *'')]
         else ret config) row_ok"
    using *
    by (auto intro!: inv_bnd [OF inv_basic(3)] keeps_default keeps_plain inv_basic(1)
        keeps_set_origins keeps_required_default split: option.split)
qed

lemma keeps_parse: "row_ok r \<Longrightarrow> keeps rows (toParsedConfig D r) good_config"
  unfolding keeps_def toParsedConfig_run
  by (auto simp: parsed_def parsed_row_def good_config_def row_ok_def split: sum.splits)

lemma keeps_getConfiguration: "keeps rows (getConfiguration D) good_config"
  unfolding getConfiguration_def by (rule inv_bnd [OF keeps_ensured keeps_parse])

lemma keeps_store: "good_config c \<Longrightarrow> keeps rows (store_config (Some c)) (\<lambda>_. True)"
  unfolding keeps_def config_inv_def good_config_def by (simp add: io_simps)

lemma keeps_get_config: "keeps rows (get_config D b) good_config"
proof -
  have fresh: "keeps rows (bnd (getConfiguration D) (\<lambda>c'. bnd (store_config (Some c')) (\<lambda>_. ret c'))) good_config"
    by (intro inv_bnd [OF keeps_getConfiguration] inv_bnd [OF keeps_store] inv_basic(1))
  show ?thesis
    unfolding keeps_def get_config_def
  proof (intro allI impI)
    fix s :: "('w, 't, 'p, 'k, 'c) config_state"
    assume inv: "config_inv rows s"
    then show "config_inv rows (snd ((case cg_config s of
        Some c \<Rightarrow> if b then (Inr c, s) else bnd (getConfiguration D) (\<lambda>c'. bnd (store_config (Some c')) (\<lambda>_. ret c')) s
      | None \<Rightarrow> bnd (getConfiguration D) (\<lambda>c'. bnd (store_config (Some c')) (\<lambda>_. ret c')) s)))
      \<and> (\<forall>a. fst ((case cg_config s of
        Some c \<Rightarrow> if b then (Inr c, s) else bnd (getConfiguration D) (\<lambda>c'. bnd (store_config (Some c')) (\<lambda>_. ret c')) s
      | None \<Rightarrow> bnd (getConfiguration D) (\<lambda>c'. bnd (store_config (Some c')) (\<lambda>_. ret c')) s)) = Inr a \<longrightarrow> good_config a)"
      using fresh [unfolded keeps_def, rule_format, OF inv]
      by (auto simp: config_inv_def good_config_def split: option.split)
  qed
qed

end

context config_db begin

lemma keeps_any: "keeps rows m Q \<Longrightarrow> keeps rows m (\<lambda>_. True)"
  by (erule inv_imp) simp

lemma keeps_clearCache: "keeps rows clearCache (\<lambda>_. True)"
  by (rule inv_view) (simp add: clearCache_def bnd_apply io_simps)

lemma keeps_cron: "keeps rows (clearCacheCron D) (\<lambda>_. True)"
  unfolding clearCacheCron_def
  by (rule inv_bnd [OF keeps_get_config]) (auto intro: inv_basic(1) inv_view)

lemma keeps_set_wallet: "keeps rows (set_auth_wallet w) (\<lambda>_. True)"
  by (rule inv_view) (simp add: set_auth_wallet_def)

lemma keeps_import: "keeps rows (import_auth_wallet K json pw) (\<lambda>_. True)"
  unfolding import_auth_wallet_def
  by (intro inv_bnd [OF inv_basic(3)] inv_bnd [OF keeps_set_wallet] inv_basic(1) TrueI)

lemma keeps_load: "keeps rows (load_auth_wallet D) (\<lambda>_. True)"
  unfolding load_auth_wallet_def Let_def
  by (intro inv_bnd [OF keeps_get_config] inv_bnd [OF keeps_set_wallet]
      inv_bnd [OF inv_try [where Q = "\<lambda>_. True"]] keeps_import
      inv_bnd [OF keeps_import] inv_bnd [OF inv_basic(3)] inv_bnd [OF keeps_plain] inv_basic(1) TrueI)
    simp_all

lemma keeps_auth_wallet: "keeps rows (getAuthWallet D) (\<lambda>_. True)"
  using keeps_load unfolding keeps_def getAuthWallet_def by (auto split: option.split)

text \<open>The routes that write an allow list.\<close>

lemma keeps_store_origins:
  "urls \<noteq> [] \<Longrightarrow> set mandatoryAllowedCorsUrls \<subseteq> set urls \<Longrightarrow> keeps rows (store_origins D urls) (\<lambda>_. True)"
  unfolding store_origins_def
  by (intro inv_bnd [OF keeps_set_origins] inv_bnd [OF keeps_get_config] inv_basic(1) TrueI required_split)

lemma required_trim: "url \<in> set mandatoryAllowedCorsUrls \<Longrightarrow> js_trim url = url"
  by (rule js_trim_space_free) (auto simp: mandatoryAllowedCorsUrls_def js_space_def)

lemma keeps_add_cors: "keeps rows (addUrlToCorsConfiguration D urls) (\<lambda>_. True)"
  unfolding addUrlToCorsConfiguration_def
  by (rule inv_bnd [OF keeps_get_config], rule keeps_store_origins) (auto simp: set_with_required)

lemma keeps_set_cors: "keeps rows (setUrlsToCorsConfiguration D urls) (\<lambda>_. True)"
  unfolding setUrlsToCorsConfiguration_def
  by (rule keeps_store_origins) (auto simp: mandatoryAllowedCorsUrls_def)

lemma keeps_remove_cors: "keeps rows (removeUrlToCorsConfiguration D urls) (\<lambda>_. True)"
  unfolding removeUrlToCorsConfiguration_def
proof (rule inv_bnd [OF keeps_get_config])
  fix c assume "good_config c"
  then have had: "set mandatoryAllowedCorsUrls
      \<subseteq> set (map js_trim (js_split CHR '','' (cfg_accessControlAllowOrigin c)))"
    using required_trim unfolding good_config_def keeps_required_def by force
  let ?left = "js_dedupe (filter (\<lambda>url. url \<notin> set (map js_trim urls))
    (map js_trim (js_split CHR '','' (cfg_accessControlAllowOrigin c))))"
  have ok: "set mandatoryAllowedCorsUrls \<subseteq> set ?left \<and> ?left \<noteq> []"
    if "\<not> (\<exists>url \<in> set (map js_trim urls). url \<in> set mandatoryAllowedCorsUrls)"
  proof -
    have "set mandatoryAllowedCorsUrls \<subseteq> set ?left"
      unfolding set_js_dedupe set_filter using had that by blast
    moreover have "mandatoryAllowedCorsUrls \<noteq> []" by (simp add: mandatoryAllowedCorsUrls_def)
    ultimately show ?thesis by (metis empty_set set_empty subset_empty)
  qed
  show "keeps rows (let urlsToRemove = map js_trim urls in
     if \<exists>url \<in> set urlsToRemove. url \<in> set mandatoryAllowedCorsUrls
     then throw (createCustomError (''Cannot remove URLs: '' @ js_join '','' mandatoryAllowedCorsUrls) 400 ''BAD_REQUEST'')
     else store_origins D (js_dedupe (filter (\<lambda>url. url \<notin> set urlsToRemove)
       (map js_trim (js_split CHR '','' (cfg_accessControlAllowOrigin c)))))) (\<lambda>_. True)"
    unfolding Let_def
    by (cases "\<exists>url \<in> set (map js_trim urls). url \<in> set mandatoryAllowedCorsUrls")
      (simp_all only: if_True if_False simp_thms inv_basic(2) keeps_store_origins [OF conjunct2 [OF ok] conjunct1 [OF ok]])
qed

lemma keeps_wallets: "keeps rows (updateWalletsConfiguration D w) (\<lambda>_. True)"
  unfolding updateWalletsConfiguration_def
  by (rule inv_bnd [OF inv_basic(3)], rule inv_bnd [OF keeps_update])
    (auto intro: wallet_columns_keep inv_bnd [OF keeps_get_config] inv_basic(1))

lemma keeps_refresh:
  "list_all plain_column data \<Longrightarrow> (\<And>c. good_config c \<Longrightarrow> keeps rows (f c) (\<lambda>_. True)) \<Longrightarrow>
     keeps rows (bnd (updateConfiguration D data) (\<lambda>_. bnd (get_config D False) f)) (\<lambda>_. True)"
  by (intro inv_bnd [OF keeps_plain] inv_bnd [OF keeps_get_config])

lemma keeps_chains: "keeps rows (updateChainsConfiguration D nets) (\<lambda>_. True)"
  unfolding updateChainsConfiguration_def
  by (rule keeps_refresh)
    (auto intro!: inv_bnd [OF inv_basic(3)] inv_bnd [OF inv_view] inv_basic(1) simp: clear_sdk_cache_def)

lemma keeps_cache: "keeps rows (updateCacheConfiguration D v []) (\<lambda>_. True)"
  unfolding updateCacheConfiguration_def
  by (rule inv_bnd [OF inv_basic(3)])
    (auto intro!: keeps_refresh inv_bnd [OF keeps_cron] inv_basic(1,2))

lemma keeps_subscriptions: "keeps rows (updateContractSubscriptionsConfiguration D n v) (\<lambda>_. True)"
  unfolding updateContractSubscriptionsConfiguration_def
  by (auto intro!: keeps_refresh inv_basic(1,2) split: option.split)

lemma keeps_transactions: "list_all transaction_property v \<Longrightarrow> keeps rows (updateTransactionConfiguration D v) (\<lambda>_. True)"
  unfolding updateTransactionConfiguration_def
  by (rule inv_bnd [OF keeps_plain keeps_any [OF keeps_get_config]])
    (auto intro: transaction_plain simp: list_all_iff)

lemma op_keeps:
  fixes s :: "('w, 't, 'p, 'k, 'c) config_state"
  assumes "config_inv rows s" "op_conforms p"
  shows "config_inv rows (run_op D p s)"
proof -
  have run: "keeps rows m (\<lambda>_. True) \<Longrightarrow> config_inv rows (snd (m s))" for m :: "(('w, 't, 'p, 'k, 'c) config_state, 'x) io"
    using assms(1) unfolding keeps_def by blast
  show ?thesis
    using assms(2)
    by (cases p) (auto intro!: run keeps_any [OF keeps_get_config] keeps_clearCache keeps_cron keeps_auth_wallet
        keeps_cache keeps_subscriptions keeps_transactions keeps_chains keeps_add_cors keeps_remove_cors
        keeps_set_cors keeps_wallets keeps_refresh inv_basic(1)
        simp: updateAuthConfiguration_def updateBackendWalletBalanceConfiguration_def setIpAllowlist_def)
qed

lemma reach_inv: "config_reach D rows s \<Longrightarrow> config_inv rows s"
proof (induction rule: config_reach.induct)
  case (start s)
  then show ?case by (simp add: config_inv_def)
next
  case (step s p)
  then show ?case by (intro op_keeps)
qed

end

text \<open>A row stays, whatever is read or stored.\<close>

definition row_stays ::
  "('c \<Rightarrow> string \<Rightarrow> configuration_row option) \<Rightarrow> (('w, 't, 'p, 'k, 'c) config_state, 'a) io \<Rightarrow> bool" where
  "row_stays rows m \<longleftrightarrow> (\<forall>s. rows (cg_rows s) ''default'' \<noteq> None \<longrightarrow> rows (cg_rows (snd (m s))) ''default'' \<noteq> None)"

lemma stays_bnd: "row_stays rows m \<Longrightarrow> (\<And>a. row_stays rows (f a)) \<Longrightarrow> row_stays rows (bnd m f)"
  unfolding row_stays_def by (simp add: bnd_apply split: sum.split)

lemma stays_basic: "row_stays rows (ret a)" "row_stays rows (lift_res x)" "row_stays rows (store_config c)"
  unfolding row_stays_def by (simp_all add: io_simps)

context config_db begin

lemma stays_update: "row_stays rows (updateConfiguration D data)"
  unfolding row_stays_def by (auto simp: update_run(2))

lemma stays_find: "row_stays rows (on_config (t_find (cy_rows D) k))"
  unfolding row_stays_def by (simp add: io_simps laws)

lemma stays_upsert: "row_stays rows (on_config (t_upsert (cy_rows D) k v f))"
  unfolding row_stays_def by (simp add: io_simps laws)

lemma stays_parse: "row_stays rows (toParsedConfig D r)"
  unfolding row_stays_def by (simp add: toParsedConfig_run)

lemma stays_ensured: "row_stays rows (ensured_row D)"
  unfolding ensured_row_def
  by (rule stays_bnd [OF stays_find])
    (auto intro!: stays_bnd [OF stays_basic(2)] stays_upsert stays_update stays_basic split: option.split)

lemma get_config_rows:
  fixes s :: "('w, 't, 'p, 'k, 'c) config_state"
  assumes "rows (cg_rows s) ''default'' \<noteq> None"
  shows "rows (cg_rows (snd (get_config D b s))) ''default'' \<noteq> None"
proof -
  have "row_stays rows (bnd (getConfiguration D :: (('w, 't, 'p, 'k, 'c) config_state, full_config) io) (\<lambda>c. bnd (store_config (Some c)) (\<lambda>_. ret c)))"
    unfolding getConfiguration_def by (intro stays_bnd stays_ensured stays_parse stays_basic)
  with assms show ?thesis
    unfolding row_stays_def get_config_def by (simp split: option.split del: not_None_eq)
qed

lemma wallets_row:
  assumes "rows (cg_rows s) ''default'' = Some r"
  shows "\<exists>r'. rows (cg_rows (run_op D (OpWallets w) s)) ''default'' = Some r'"
proof -
  have "rows (cg_rows (snd (updateConfiguration D cs s))) ''default'' \<noteq> None" for cs
    using assms by (simp add: update_run(2))
  then have "rows (cg_rows (snd (get_config D False (snd (updateConfiguration D cs s))))) ''default'' \<noteq> None" for cs
    by (rule get_config_rows)
  then show ?thesis
    using assms by (auto simp: updateWalletsConfiguration_def bnd_apply update_run(1) split: sum.split)
qed

end

section \<open>One update and the refreshed configuration\<close>

definition refreshed ::
  "'c config_sys \<Rightarrow> column_update list \<Rightarrow> ('w, 't, 'p, 'k, 'c) config_state \<Rightarrow> ('w, 't, 'p, 'k, 'c) config_state" where
  "refreshed D data s = snd (get_config D False (snd (updateConfiguration D data s)))"

lemma parsed_fields:
  "parsed K r = Inr c \<Longrightarrow> cfg_ipAllowlist c = row_ipAllowlist r"
  "parsed K r = Inr c \<Longrightarrow> cfg_accessControlAllowOrigin c = row_accessControlAllowOrigin r"
  "parsed K r = Inr c \<Longrightarrow> cfg_chainOverridesParsed c = parse_overrides K (row_chainOverrides r)"
  "parsed K r = Inr c \<Longrightarrow> fc_chainOverrides c = row_chainOverrides r"
  "parsed K r = Inr c \<Longrightarrow> wallet_of K r = Inr (cfg_walletConfiguration c)"
  by (auto simp: parsed_def parsed_row_def split: sum.splits)

lemma truncate_allowlist: "cfg_ipAllowlist (parsed_config.truncate c) = cfg_ipAllowlist c"
  by (simp add: parsed_config.truncate_def)

lemma complete_plain:
  assumes "complete r"
  shows "complete (r\<lparr>row_ipAllowlist := v\<rparr>)" "complete (r\<lparr>row_chainOverrides := v'\<rparr>)"
    "o' \<noteq> [] \<Longrightarrow> complete (r\<lparr>row_accessControlAllowOrigin := o'\<rparr>)"
  using assms by (simp_all add: complete_def)

context config_db begin

lemma update_refresh:
  assumes "rows (cg_rows s) ''default'' = Some r"
    and "r' = foldl apply_column r (map (encrypt_column (cy_env D)) data)" "complete r'"
  shows "bnd (updateConfiguration D data) (\<lambda>_. bnd (get_config D False) f) s
      = (case parsed (cy_env D) r' of Inl e \<Rightarrow> (Inl e, refreshed D data s) | Inr c \<Rightarrow> f c (refreshed D data s))"
    and "rows (cg_rows (refreshed D data s)) ''default'' = Some r'"
    and "parsed (cy_env D) r' = Inr c \<Longrightarrow> cg_config (refreshed D data s) = Some c
      \<and> config_cache (au_world (cg_auth (refreshed D data s))) = Some (parsed_config.truncate c)"
proof -
  have row: "rows (cg_rows (snd (updateConfiguration D data s))) ''default'' = Some r'"
    using assms(1,2) by (simp add: update_run(2))
  note refresh = refresh_run [OF row assms(3)]
  show "bnd (updateConfiguration D data) (\<lambda>_. bnd (get_config D False) f) s
      = (case parsed (cy_env D) r' of Inl e \<Rightarrow> (Inl e, refreshed D data s) | Inr c \<Rightarrow> f c (refreshed D data s))"
    using assms(1) refresh(1) by (simp add: bnd_apply update_run(1) refreshed_def split: sum.split)
  show "rows (cg_rows (refreshed D data s)) ''default'' = Some r'" using refresh(2) row by (simp add: refreshed_def)
  show "parsed (cy_env D) r' = Inr c \<Longrightarrow> cg_config (refreshed D data s) = Some c
      \<and> config_cache (au_world (cg_auth (refreshed D data s))) = Some (parsed_config.truncate c)"
    using refresh(3) [of c] by (simp add: refreshed_def)
qed

lemma ip_run:
  assumes "rows (cg_rows s) ''default'' = Some r" "complete r"
  shows "setIpAllowlist D ips s = (case parsed (cy_env D) (r\<lparr>row_ipAllowlist := js_dedupe (map js_trim ips)\<rparr>) of
        Inl e \<Rightarrow> (Inl e, refreshed D [SetIpAllowlist (js_dedupe (map js_trim ips))] s)
      | Inr c \<Rightarrow> (Inr (js_dedupe (map js_trim ips)), refreshed D [SetIpAllowlist (js_dedupe (map js_trim ips))] s))"
    and "parsed (cy_env D) (r\<lparr>row_ipAllowlist := js_dedupe (map js_trim ips)\<rparr>) = Inr c \<Longrightarrow>
      config_cache (au_world (cg_auth (refreshed D [SetIpAllowlist (js_dedupe (map js_trim ips))] s)))
        = Some (parsed_config.truncate c) \<and> cfg_ipAllowlist c = js_dedupe (map js_trim ips)"
proof -
  let ?d = "[SetIpAllowlist (js_dedupe (map js_trim ips))]" and ?r = "r\<lparr>row_ipAllowlist := js_dedupe (map js_trim ips)\<rparr>"
  have r: "?r = foldl apply_column r (map (encrypt_column (cy_env D)) ?d)" by simp
  note run = update_refresh [OF assms(1) r complete_plain(1) [OF assms(2)]]
  show "setIpAllowlist D ips s = (case parsed (cy_env D) ?r of Inl e \<Rightarrow> (Inl e, refreshed D ?d s)
      | Inr c \<Rightarrow> (Inr (js_dedupe (map js_trim ips)), refreshed D ?d s))"
    unfolding setIpAllowlist_def run(1) by (auto dest: parsed_fields(1) split: sum.split)
  show "parsed (cy_env D) ?r = Inr c \<Longrightarrow> config_cache (au_world (cg_auth (refreshed D ?d s)))
        = Some (parsed_config.truncate c) \<and> cfg_ipAllowlist c = js_dedupe (map js_trim ips)"
    using run(3) [of c] parsed_fields(1) [of "cy_env D" ?r c] by simp
qed

lemma settings_run:
  assumes "rows (cg_rows s) ''default'' = Some r" "complete r" "o' \<noteq> []"
  shows "fst (updateTransactionConfiguration D [SetAccessControlAllowOrigin o'] s)
    = parsed (cy_env D) (r\<lparr>row_accessControlAllowOrigin := o'\<rparr>)"
proof -
  let ?r = "r\<lparr>row_accessControlAllowOrigin := o'\<rparr>"
  have r: "?r = foldl apply_column r (map (encrypt_column (cy_env D)) [SetAccessControlAllowOrigin o'])" by simp
  have "updateTransactionConfiguration D [SetAccessControlAllowOrigin o'] s
      = bnd (updateConfiguration D [SetAccessControlAllowOrigin o']) (\<lambda>_. bnd (get_config D False) ret) s"
    by (simp add: updateTransactionConfiguration_def bnd_apply split: sum.split)
      (metis prod.collapse)
  then show ?thesis
    using update_refresh(1) [OF assms(1) r complete_plain(3) [OF assms(2,3)], of ret] by (simp split: sum.split)
qed

lemma chains_run:
  fixes nets :: "network list"
  defines "v \<equiv> Some (k_stringifyChains (cy_env D) nets)"
  assumes "rows (cg_rows s) ''default'' = Some r" "complete r"
    and "k_stringifyChains (cy_env D) nets \<noteq> []"
    and "k_parseChains (cy_env D) (k_stringifyChains (cy_env D) nets) = Inr nets"
  shows "fst (updateChainsConfiguration D nets s) =
      (case parsed (cy_env D) (r\<lparr>row_chainOverrides := v\<rparr>) of Inl e \<Rightarrow> Inl e | Inr c \<Rightarrow> Inr nets)"
    and "parsed (cy_env D) (r\<lparr>row_chainOverrides := v\<rparr>) = Inr c \<Longrightarrow>
      cg_config (snd (updateChainsConfiguration D nets s)) = Some c
      \<and> cfg_chainOverridesParsed c = (case map_res parse_chain nets of Inl _ \<Rightarrow> [] | Inr cs \<Rightarrow> cs)"
proof -
  let ?r = "r\<lparr>row_chainOverrides := v\<rparr>"
  have r: "?r = foldl apply_column r (map (encrypt_column (cy_env D)) [SetChainOverrides v])" by simp
  note run = update_refresh [OF assms(2) r complete_plain(2) [OF assms(3)]]
  have chains: "parsed (cy_env D) ?r = Inr c \<Longrightarrow> stored_chains (cy_env D) c = Inr nets" for c
    using parsed_fields(4) [of "cy_env D" ?r c] assms(4,5) by (simp add: stored_chains_def v_def)
  have step: "updateChainsConfiguration D nets s = (case parsed (cy_env D) ?r of
      Inl e \<Rightarrow> (Inl e, refreshed D [SetChainOverrides v] s)
    | Inr c \<Rightarrow> bnd (lift_res (stored_chains (cy_env D) c)) (\<lambda>result.
        bnd clear_sdk_cache (\<lambda>_. ret result)) (refreshed D [SetChainOverrides v] s))"
    unfolding updateChainsConfiguration_def v_def [symmetric] by (rule run(1))
  show "fst (updateChainsConfiguration D nets s) =
      (case parsed (cy_env D) ?r of Inl e \<Rightarrow> Inl e | Inr c \<Rightarrow> Inr nets)"
    unfolding step by (simp add: chains bnd_apply clear_sdk_cache_def split: sum.split)
  show "parsed (cy_env D) ?r = Inr c \<Longrightarrow> cg_config (snd (updateChainsConfiguration D nets s)) = Some c
      \<and> cfg_chainOverridesParsed c = (case map_res parse_chain nets of Inl _ \<Rightarrow> [] | Inr cs \<Rightarrow> cs)"
    unfolding step using run(3) [of c] chains [of c] parsed_fields(3) [of "cy_env D" ?r c] assms(4,5)
    by (simp add: bnd_apply clear_sdk_cache_def parse_overrides_def v_def)
qed

lemma wallet_complete:
  assumes "wallet_columns w = Inr cs" "complete r"
  shows "complete (foldl apply_column r (map (encrypt_column K) cs))"
  using assms by (cases w) (auto simp: no_aws_def no_gcp_def complete_def split: if_splits)

end

text \<open>What is read back from the columns of a wallet.\<close>

lemma wallet_of_after:
  assumes "aws_columns r = aws_after K w" "gcp_columns r = gcp_after K w" "wallet_columns w = Inr cs"
    and "\<forall>v. decrypt K (encrypt K v) (k_ENCRYPTION_PASSWORD K) = Inr v \<and> encrypt K v \<noteq> []"
  shows "wallet_of K r = Inr w"
  using assms by (cases w) (auto simp: wallet_of_def aws_columns_def gcp_columns_def split: if_splits)

context config_db begin

lemma wallets_run:
  assumes "rows (cg_rows s) ''default'' = Some r" "complete r" "wallet_columns w = Inr cs"
    and "\<forall>v. decrypt (cy_env D) (encrypt (cy_env D) v) (k_ENCRYPTION_PASSWORD (cy_env D)) = Inr v
      \<and> encrypt (cy_env D) v \<noteq> []"
  shows "fst (updateWalletsConfiguration D w s) = Inr w
    \<and> fst (getWalletsConfiguration D (snd (updateWalletsConfiguration D w s))) = Inr w
    \<and> (\<exists>r'. rows (cg_rows (snd (updateWalletsConfiguration D w s))) ''default'' = Some r'
        \<and> aws_columns r' = aws_after (cy_env D) w \<and> gcp_columns r' = gcp_after (cy_env D) w)"
proof -
  let ?r = "foldl apply_column r (map (encrypt_column (cy_env D)) cs)"
  note after = wallet_columns_after [OF assms(3) refl, of r "cy_env D"]
  have wallet: "wallet_of (cy_env D) ?r = Inr w"
    by (rule wallet_of_after [OF after(1,2) assms(3,4)])
  then have parsed: "parsed (cy_env D) ?r = Inr (parsed_row (cy_env D) ?r w)" by (simp add: parsed_def)
  note run = update_refresh [OF assms(1) refl wallet_complete [OF assms(3,2)]]
  have step: "updateWalletsConfiguration D w s = (Inr w, refreshed D cs s)"
    unfolding updateWalletsConfiguration_def assms(3)
    using run(1) [of "\<lambda>config. ret (cfg_walletConfiguration config)"] parsed
    by (simp add: bnd_apply [where m = "lift_res _"] parsed_row_def)
  show ?thesis
    using run(2) run(3) [OF parsed] after
    by (simp add: step getWalletsConfiguration_def get_config_def bnd_apply parsed_row_def)
qed

end

lemma map_res_Inl: "x \<in> set xs \<Longrightarrow> f x = Inl e \<Longrightarrow> \<exists>e'. map_res f xs = Inl e'"
  by (induction xs) (auto split: sum.split)

lemma digit_char_mark: "d < 10 \<Longrightarrow> digit_char d \<noteq> CHR '' ''" "d < 10 \<Longrightarrow> digit_char d \<noteq> CHR ''/''"
proof -
  assume "d < 10"
  then have "(of_char (digit_char d) :: nat) = 48 + d" by (simp add: digit_char_def)
  then show "digit_char d \<noteq> CHR '' ''" "digit_char d \<noteq> CHR ''/''" by auto
qed

lemma show_int_no_space: "CHR '' '' \<notin> set (show_int n)" "CHR ''/'' \<notin> set (show_int n)"
proof -
  have "CHR '' '' \<notin> set (show_nat k)" "CHR ''/'' \<notin> set (show_nat k)" for k
    using show_nat_digits digit_char_mark by fastforce+
  then show "CHR '' '' \<notin> set (show_int n)" "CHR ''/'' \<notin> set (show_int n)"
    by (simp_all add: show_int_def)
qed

section \<open>Sample configuration\<close>

definition sample_config_env :: config_env where
  "sample_config_env = \<lparr>k_ENCRYPTION_PASSWORD = ''pw'', k_THIRDWEB_API_SECRET_KEY = ''sk'',
     k_aesEncrypt = (\<lambda>v p. p @ CHR '':'' # v),
     k_aesDecrypt = (\<lambda>v p. if prefix (p @ '':'') v then Inr (drop (Suc (length p)) v) else Inl (js_Error ''Malformed UTF-8 data'')),
     k_parseChains = (\<lambda>_. Inr []), k_stringifyChains = (\<lambda>_. ''[]''), k_generateWallet = Inr ''key'',
     k_exportWallet = (\<lambda>w p. Inr (w @ p)), k_importWallet = (\<lambda>j p. Inl (js_Error ''invalid password'')),
     k_cronParses = (\<lambda>_. True)\<rparr>"

definition sample_config_sys :: "((string, configuration_row) mem_rows) config_sys" where
  "sample_config_sys = \<lparr>cy_env = sample_config_env, cy_rows = mem_table\<rparr>"

definition sample_config_state ::
  "(string, configuration_row) mem_rows \<Rightarrow> (mem, (string, auth_token) mem_rows, (string, permission_row) mem_rows,
    (string, keypair) mem_rows, (string, configuration_row) mem_rows) config_state" where
  "sample_config_state d = \<lparr>cg_auth = \<lparr>au_world = mem_world [], au_tokens = [], au_permissions = [],
     au_keypairs = [], au_tokenCache = (\<lambda>_. None), au_keypairCache = (\<lambda>_. None), au_socketDestroyed = False\<rparr>,
     cg_rows = d, cg_config = None, cg_authWallet = None, cg_cron = None, cg_sdkCache = {}, cg_walletsCache = {}\<rparr>"

interpretation mem_config: config_db sample_config_sys map_of
  by (simp add: config_db_def sample_config_sys_def mem_rows.prisma_table_axioms)

definition sample_row :: configuration_row where
  "sample_row = default_row ''json''"

definition stored_config :: "(mem, (string, auth_token) mem_rows, (string, permission_row) mem_rows,
    (string, keypair) mem_rows, (string, configuration_row) mem_rows) config_state" where
  "stored_config = sample_config_state [(''default'', sample_row)]"

lemma stored_config_row: "map_of (cg_rows stored_config) ''default'' = Some sample_row" "complete sample_row"
  by (simp_all add: stored_config_def sample_config_state_def sample_row_def default_row_def complete_def
      mandatoryAllowedCorsUrls_def)

text \<open>Reading the configuration of an empty database, the first step of every run.\<close>

lemma sample_reach:
  "config_reach sample_config_sys map_of (run_op sample_config_sys (OpGet True) (sample_config_state []))"
  by (rule config_reach.step [OF config_reach.start]) (simp_all add: sample_config_state_def)

lemma sample_first_row:
  "map_of (cg_rows (run_op sample_config_sys (OpGet True) (sample_config_state []))) ''default''
     = Some (default_row ''keypw'')"
proof -
  have "fst (ensured_row sample_config_sys (sample_config_state [])) = Inr (default_row ''keypw'')"
    "map_of (cg_rows (snd (ensured_row sample_config_sys (sample_config_state [])))) = [''default'' \<mapsto> default_row ''keypw'']"
    by (simp_all add: ensured_row_def bnd_apply io_simps sample_config_sys_def sample_config_env_def mem_table_def
        sample_config_state_def createAuthWalletEncryptedJson_def Let_def)
  then show ?thesis
    by (simp add: get_config_def getConfiguration_def bnd_apply io_simps toParsedConfig_run sample_config_state_def
        split: sum.split)
qed

section \<open>Properties\<close>







text \<open>
  The list of addresses that the route stores decides the very next request: the check of the
  authentication admits an address exactly when the trimmed list is empty or contains it, without
  waiting for a cache to expire.
\<close>

theorem ip_allowlist_effective:
  assumes "prisma_table (cy_rows D) rows"
    and "rows (cg_rows s) ''default'' = Some r" "complete r"
    and "fst (setIpAllowlist D ips s) = Inr answer"
  shows "answer = js_dedupe (map js_trim ips)
    \<and> fst (checkIpInAllowlist Y req (cg_auth (snd (setIpAllowlist D ips s))))
        = Inr (ips = [] \<or> hq_ip req \<in> js_trim ` set ips)"
proof -
  note run = config_db.ip_run [OF config_db.intro [OF assms(1)] assms(2,3), of ips]
  obtain c where "parsed (cy_env D) (r\<lparr>row_ipAllowlist := js_dedupe (map js_trim ips)\<rparr>) = Inr c"
    using run(1) assms(4) by (auto split: sum.splits)
  with run assms(4) show ?thesis
    by (auto simp: checkIpInAllowlist_def bnd_apply io_simps getConfig_def truncate_allowlist)
qed

theorem ip_allowlist_effective_witness:
  "fst (checkIpInAllowlist sample_auth (sample_request None None)
     (cg_auth (snd (setIpAllowlist sample_config_sys ['' 1.1.1.1 ''] stored_config)))) = Inr True
   \<and> fst (checkIpInAllowlist sample_auth (sample_request None None)
     (cg_auth (snd (setIpAllowlist sample_config_sys [''8.8.8.8''] stored_config)))) = Inr False"
proof -
  have laws: "prisma_table (cy_rows sample_config_sys) map_of"
    by (simp add: sample_config_sys_def mem_rows.prisma_table_axioms)
  have ok: "fst (setIpAllowlist sample_config_sys ips stored_config) = Inr (js_dedupe (map js_trim ips))" for ips
    using mem_config.ip_run(1) [OF stored_config_row, of ips]
    by (simp add: parsed_def wallet_of_def sample_row_def default_row_def)
  show ?thesis
    using ip_allowlist_effective [OF laws stored_config_row ok, where Y = sample_auth and req = "sample_request None None"]
    by (simp add: sample_request_def js_trim_def js_space_def)
qed

text \<open>
  When neither password opens the stored auth wallet, the first request for it fails, but the
  blank wallet object was already kept: the second request answers with it, without an error.
\<close>

theorem auth_wallet_blank:
  assumes "cg_authWallet s = None" "cg_config s = Some c"
    and "k_importWallet (cy_env D) (fc_authWalletEncryptedJson c) (k_ENCRYPTION_PASSWORD (cy_env D)) = Inl e"
    and "k_importWallet (cy_env D) (fc_authWalletEncryptedJson c) (k_THIRDWEB_API_SECRET_KEY (cy_env D)) = Inl e'"
  shows "fst (getAuthWallet D s) = Inl e' \<and> fst (getAuthWallet D (snd (getAuthWallet D s))) = Inr Blank"
  using assms
  by (simp add: getAuthWallet_def load_auth_wallet_def get_config_def bnd_apply try_catch_apply Let_def
      set_auth_wallet_def import_auth_wallet_def)

theorem auth_wallet_blank_witness:
  "fst (getAuthWallet sample_config_sys (snd (getAuthWallet sample_config_sys
     (sample_config_state []\<lparr>cg_config := Some (parsed_row sample_config_env sample_row WalletLocal)\<rparr>)))) = Inr Blank"
  using auth_wallet_blank [where D = sample_config_sys and c = "parsed_row sample_config_env sample_row WalletLocal"
      and s = "sample_config_state []\<lparr>cg_config := Some (parsed_row sample_config_env sample_row WalletLocal)\<rparr>"
      and e = "js_Error ''invalid password''" and e' = "js_Error ''invalid password''"]
  by (simp add: sample_config_sys_def sample_config_env_def sample_config_state_def)

text \<open>
  A stored secret that the encryption password does not open is not tried with the secret key:
  reading the configuration fails although the secret key would open it, and the row is unchanged.
\<close>

theorem fallback_password_never_tried:
  assumes "prisma_table (cy_rows D) rows"
    and "rows (cg_rows s) ''default'' = Some r" "complete r"
    and "truthy (row_awsAccessKeyId r)" "truthy (row_awsSecretAccessKey r)" "truthy (row_awsRegion r)"
    and "k_aesDecrypt (cy_env D) (the (row_awsSecretAccessKey r)) (k_ENCRYPTION_PASSWORD (cy_env D)) = Inl e"
    and "k_aesDecrypt (cy_env D) (the (row_awsSecretAccessKey r)) (k_THIRDWEB_API_SECRET_KEY (cy_env D)) = Inr secret"
  shows "fst (get_config D False s) = Inl e \<and> rows (cg_rows (snd (get_config D False s))) = rows (cg_rows s)"
  using config_db.refresh_run(1,2) [OF config_db.intro [OF assms(1)] assms(2,3)] assms(4-7)
  by (simp add: parsed_def wallet_of_def decrypt_def)

definition legacy_row :: configuration_row where
  "legacy_row = sample_row\<lparr>row_awsAccessKeyId := Some ''a'', row_awsSecretAccessKey := Some ''sk:b'', row_awsRegion := Some ''c''\<rparr>"

theorem fallback_password_never_tried_witness:
  "fst (get_config sample_config_sys False (sample_config_state [(''default'', legacy_row)]))
     = Inl (js_Error ''Malformed UTF-8 data'')"
proof -
  have laws: "prisma_table (cy_rows sample_config_sys) map_of"
    by (simp add: sample_config_sys_def mem_rows.prisma_table_axioms)
  have "complete legacy_row"
    using stored_config_row(2) by (simp add: complete_def legacy_row_def)
  then show ?thesis
    using fallback_password_never_tried [OF laws, of "sample_config_state [(''default'', legacy_row)]" legacy_row]
    by (simp add: sample_config_sys_def sample_config_env_def sample_config_state_def legacy_row_def)
qed

text \<open>
  One chain override without its list of RPC URLs, which the schema of the route admits, makes the
  parsed configuration drop every override, while the route answers with the list as it was given.
\<close>

theorem override_without_rpc:
  assumes "prisma_table (cy_rows D) rows"
    and "rows (cg_rows s) ''default'' = Some r" "complete r"
    and "k_stringifyChains (cy_env D) nets \<noteq> []"
    and "k_parseChains (cy_env D) (k_stringifyChains (cy_env D) nets) = Inr nets"
    and "\<exists>n \<in> set nets. nw_rpc n = None" "fst (updateChainsConfiguration D nets s) = Inr answer"
  shows "answer = nets \<and> (\<exists>c. cg_config (snd (updateChainsConfiguration D nets s)) = Some c
    \<and> cfg_chainOverridesParsed c = [])"
proof -
  note run = config_db.chains_run [OF config_db.intro [OF assms(1)] assms(2-5)]
  obtain c where c: "parsed (cy_env D) (r\<lparr>row_chainOverrides := Some (k_stringifyChains (cy_env D) nets)\<rparr>) = Inr c"
    using run(1) assms(7) by (auto split: sum.splits)
  have "\<exists>e. map_res parse_chain nets = Inl e"
    using assms(6) map_res_Inl [of _ nets parse_chain] by (fastforce simp: parse_chain_def)
  then show ?thesis
    using run(1) run(2) [OF c] c assms(7) by auto
qed

definition bare_network :: network where
  "bare_network = \<lparr>nw_chainId = Some 7, nw_name = None, nw_rpc = None, nw_nativeCurrency = None, nw_testnet = None,
     nw_chain = None, nw_shortName = None, nw_slug = None\<rparr>"

theorem override_without_rpc_witness:
  "\<exists>c. cg_config (snd (updateChainsConfiguration
     (sample_config_sys\<lparr>cy_env := sample_config_env\<lparr>k_parseChains := (\<lambda>_. Inr [bare_network])\<rparr>\<rparr>)
     [bare_network] stored_config)) = Some c \<and> cfg_chainOverridesParsed c = []"
proof -
  let ?D = "sample_config_sys\<lparr>cy_env := sample_config_env\<lparr>k_parseChains := (\<lambda>_. Inr [bare_network])\<rparr>\<rparr>"
  have laws: "prisma_table (cy_rows ?D) map_of"
    by (simp add: sample_config_sys_def mem_rows.prisma_table_axioms)
  have "fst (updateChainsConfiguration ?D [bare_network] stored_config) = Inr [bare_network]"
    using config_db.chains_run(1) [OF config_db.intro [OF laws] stored_config_row, of "[bare_network]"]
    by (simp add: sample_config_env_def parsed_def wallet_of_def sample_row_def default_row_def)
  then show ?thesis
    using override_without_rpc [OF laws stored_config_row, of "[bare_network]" "[bare_network]"]
    by (simp add: sample_config_env_def bare_network_def)
qed

text \<open>
  The body of the transaction settings is stored as it is: a property of another column, here
  the allow list of origins, replaces that column and loses the origins the engine needs.
\<close>

theorem settings_body_any_column:
  assumes "prisma_table (cy_rows D) rows" "rows (cg_rows s) ''default'' = Some r" "complete r"
    and "fst (updateTransactionConfiguration D [SetAccessControlAllowOrigin ''x''] s) = Inr c"
  shows "cfg_accessControlAllowOrigin c = ''x'' \<and> \<not> keeps_required (cfg_accessControlAllowOrigin c)"
proof -
  have "parsed (cy_env D) (r\<lparr>row_accessControlAllowOrigin := ''x''\<rparr>) = Inr c"
    using config_db.settings_run [OF config_db.intro [OF assms(1)] assms(2,3), of "''x''"] assms(4) by simp
  then show ?thesis
    using parsed_fields(2) by (fastforce simp: keeps_required_def mandatoryAllowedCorsUrls_def)
qed

theorem settings_body_any_column_witness:
  "\<exists>c. fst (updateTransactionConfiguration sample_config_sys [SetAccessControlAllowOrigin ''x''] stored_config) = Inr c
     \<and> cfg_accessControlAllowOrigin c = ''x''"
proof -
  have laws: "prisma_table (cy_rows sample_config_sys) map_of"
    by (simp add: sample_config_sys_def mem_rows.prisma_table_axioms)
  obtain c where c: "fst (updateTransactionConfiguration sample_config_sys [SetAccessControlAllowOrigin ''x''] stored_config) = Inr c"
    using mem_config.settings_run [OF stored_config_row, of "''x''"]
    by (simp add: parsed_def wallet_of_def sample_row_def default_row_def)
  then show ?thesis
    using settings_body_any_column [OF laws stored_config_row c] by blast
qed


section \<open>Cron expressions\<close>

text \<open>
  An interval of seconds, with every other field a star, is accepted exactly from 10 to 59, for
  every integer, provided the cron parser accepts the expression; but the plain range of all
  seconds, which runs as often as the refused star, is accepted.
\<close>

theorem cron_seconds_exact:
  assumes "\<forall>t. k_cronParses K t"
  shows "(isValidCron K (''*/'' @ show_int n @ '' * * * * *'') = Inr True \<longleftrightarrow> 10 \<le> n \<and> n \<le> 59)
    \<and> isValidCron K ''0-59 * * * * *'' = Inr True
    \<and> (\<exists>e. isValidCron K ''* * * * * *'' = Inl e)"
proof -
  have no_space: "CHR '' '' \<notin> set (show_int n)" "CHR ''/'' \<notin> set (show_int n)"
    by (rule show_int_no_space)+
  have "js_split CHR '' '' ((''*/'' @ show_int n) @ CHR '' '' # ''* * * * *'')
      = (''*/'' @ show_int n) # js_split CHR '' '' ''* * * * *''"
    by (rule js_split_append) (use no_space in auto)
  then have fields: "js_split CHR '' '' (''*/'' @ show_int n @ '' * * * * *'')
      = [''*/'' @ show_int n, ''*'', ''*'', ''*'', ''*'', ''*'']" by simp
  have secs: "interval_value (''*/'' @ show_int n) = Some n"
    using js_split_append [of "CHR ''/''" "''*''" "show_int n"] no_space(2)
    by (simp add: interval_value_def js_split_none nth_opt_def)
  have "show_int 1 = ''1''" by code_simp
  then have one: "show_int n = ''1'' \<longleftrightarrow> n = 1" by (metis show_int_inject)
  have star: "checkCronFieldInterval ''*'' lo hi name = Inr ()" for lo hi name
    by (simp add: checkCronFieldInterval_def js_startsWith_def)
  have "seconds_refused (''*/'' @ show_int n) \<longleftrightarrow> n < 10 \<or> n > 59"
    unfolding seconds_refused_def secs using one by (auto simp: js_startsWith_def out_of_range_def)
  moreover have "\<not> seconds_refused ''0-59''" "seconds_refused ''*''"
    by (simp_all add: seconds_refused_def js_startsWith_def)
  ultimately show ?thesis
    using assms fields by (auto simp: isValidCron_def star)
qed

theorem cron_seconds_exact_witness:
  "isValidCron sample_config_env (''*/'' @ show_int 30 @ '' * * * * *'') = Inr True"
  using cron_seconds_exact [of sample_config_env 30] by (simp add: sample_config_env_def)

end
