(* ===== verification/Js_Value.thy ===== *)
theory Js_Value
  imports Tx_Schema Js_Text
begin

text \<open>
  The values that the routes pass between the request, the SDK and the reply, and the operations of
  the language on them. An expression is a value or the error its evaluation throws; the operations
  evaluate from left to right and stop at the first error. Numbers are the integers of the
  language (no fractions, and none so large that it prints with an exponent). \<open>JBig\<close> is a \<open>BigNumber\<close>
  object, \<open>JBigInt\<close> a \<open>bigint\<close>; a date is its time in milliseconds, \<^const>\<open>None\<close> when invalid.
\<close>

section \<open>Values\<close>

datatype js_val =
    JUndefined
  | JNull
  | JBool bool
  | JNum js_num
  | JStr string
  | JBig int
  | JBigInt int
  | JDate js_num
  | JList "js_val list"
  | JObj "(string \<times> js_val) list"

type_synonym js_expr = "js_error + js_val"

fun js_truthy :: "js_val \<Rightarrow> bool" where
  "js_truthy JUndefined = False"
| "js_truthy JNull = False"
| "js_truthy (JBool b) = b"
| "js_truthy (JNum n) = (n \<noteq> None \<and> n \<noteq> Some 0)"
| "js_truthy (JStr s) = (s \<noteq> [])"
| "js_truthy (JBigInt n) = (n \<noteq> 0)"
| "js_truthy v = True"

fun js_nullish :: "js_val \<Rightarrow> bool" where
  "js_nullish JUndefined = True"
| "js_nullish JNull = True"
| "js_nullish v = False"

text \<open>A property of an object: the value of the first entry, \<open>undefined\<close> when there is none.\<close>

fun jprop :: "js_val \<Rightarrow> string \<Rightarrow> js_val" where
  "jprop (JObj fs) k = (case map_of fs k of None \<Rightarrow> JUndefined | Some v \<Rightarrow> v)"
| "jprop v k = JUndefined"

text \<open>Setting a property keeps its place among the others.\<close>

fun put_field :: "'k \<Rightarrow> 'a \<Rightarrow> ('k \<times> 'a) list \<Rightarrow> ('k \<times> 'a) list" where
  "put_field k v [] = [(k, v)]"
| "put_field k v ((k', v') # fs) = (if k' = k then (k, v) # fs else (k', v') # put_field k v fs)"

definition put_fields :: "('k \<times> 'a) list \<Rightarrow> ('k \<times> 'a) list \<Rightarrow> ('k \<times> 'a) list" where
  "put_fields = fold (\<lambda>(k, v). put_field k v)"

text \<open>What \<open>{...v}\<close> copies: the entries of an object, nothing of \<open>undefined\<close> or a number.\<close>

fun entries :: "js_val \<Rightarrow> (string \<times> js_val) list" where
  "entries (JObj fs) = fs"
| "entries v = []"

text \<open>\<open>k in v\<close>, and \<open>v.k = x\<close>.\<close>

definition js_has :: "js_val \<Rightarrow> string \<Rightarrow> bool" where
  "js_has v k = (map_of (entries v) k \<noteq> None)"

definition js_set :: "js_val \<Rightarrow> string \<Rightarrow> js_val \<Rightarrow> js_val" where
  "js_set v k x = JObj (put_field k x (entries v))"

text \<open>An element of an array that is taken apart, \<open>undefined\<close> past the end.\<close>

fun js_nth :: "js_val \<Rightarrow> nat \<Rightarrow> js_error + js_val" where
  "js_nth (JList vs) i = Inr (case nth_opt vs i of None \<Rightarrow> JUndefined | Some v \<Rightarrow> v)"
| "js_nth v i = Inl js_TypeError"

section \<open>Expressions\<close>

definition js_bind :: "js_expr \<Rightarrow> (js_val \<Rightarrow> js_expr) \<Rightarrow> js_expr" where
  "js_bind e f = (case e of Inl x \<Rightarrow> Inl x | Inr v \<Rightarrow> f v)"

text \<open>\<open>e.k\<close>, and \<open>e?.k\<close> whose whole chain is \<open>undefined\<close> when \<open>e\<close> is.\<close>

definition js_dot :: "js_expr \<Rightarrow> string \<Rightarrow> js_expr" where
  "js_dot e k = js_bind e (\<lambda>v. if js_nullish v then Inl js_TypeError else Inr (jprop v k))"

definition js_chain :: "js_expr \<Rightarrow> (js_expr \<Rightarrow> js_expr) \<Rightarrow> js_expr" where
  "js_chain e f = js_bind e (\<lambda>v. if js_nullish v then Inr JUndefined else f (Inr v))"

text \<open>\<open>e.toString()\<close>; no caller prints an array or a date.\<close>

fun js_toStr :: "js_val \<Rightarrow> js_expr" where
  "js_toStr (JBool b) = Inr (JStr (if b then ''true'' else ''false''))"
| "js_toStr (JNum n) = Inr (JStr (show_num n))"
| "js_toStr (JStr s) = Inr (JStr s)"
| "js_toStr (JBig n) = Inr (JStr (show_int n))"
| "js_toStr (JBigInt n) = Inr (JStr (show_int n))"
| "js_toStr (JObj fs) = Inr (JStr ''[object Object]'')"
| "js_toStr v = Inl js_TypeError"

definition js_toString :: "js_expr \<Rightarrow> js_expr" where
  "js_toString e = js_bind e js_toStr"

definition js_toISOString :: "js_expr \<Rightarrow> js_expr" where
  "js_toISOString e = js_bind e (\<lambda>v. case v of
       JDate (Some t) \<Rightarrow> Inr (JStr (toISOString t))
     | JDate None \<Rightarrow> Inl (js_Error ''Invalid time value'')
     | _ \<Rightarrow> Inl js_TypeError)"

definition js_toLowerCase :: "js_expr \<Rightarrow> js_expr" where
  "js_toLowerCase e = js_bind e (\<lambda>v. case v of JStr s \<Rightarrow> Inr (JStr (toLowerCase s)) | _ \<Rightarrow> Inl js_TypeError)"

definition js_getTime :: "js_expr \<Rightarrow> js_expr" where
  "js_getTime e = js_bind e (\<lambda>v. case v of JDate t \<Rightarrow> Inr (JNum t) | _ \<Rightarrow> Inl js_TypeError)"

text \<open>\<open>b.toNumber()\<close> of a \<open>BigNumber\<close>.\<close>

definition js_toNumber :: "js_expr \<Rightarrow> js_expr" where
  "js_toNumber e = js_bind e (\<lambda>v. case v of
       JBig n \<Rightarrow> if abs n < 2 ^ 53 then Inr (JNum (Some n)) else Inl (JsObject (Some ''overflow'') (Some ''NUMERIC_FAULT'') None)
     | _ \<Rightarrow> Inl js_TypeError)"

definition js_cond :: "js_expr \<Rightarrow> js_expr \<Rightarrow> js_expr \<Rightarrow> js_expr" where
  "js_cond c a b = js_bind c (\<lambda>v. if js_truthy v then a else b)"

definition js_or :: "js_expr \<Rightarrow> js_expr \<Rightarrow> js_expr" where
  "js_or a b = js_bind a (\<lambda>v. if js_truthy v then Inr v else b)"

definition js_coalesce :: "js_expr \<Rightarrow> js_expr \<Rightarrow> js_expr" where
  "js_coalesce a b = js_bind a (\<lambda>v. if js_nullish v then b else Inr v)"

text \<open>The properties of an object literal, one after the other, a later one in place of an earlier.\<close>

definition js_field :: "string \<Rightarrow> js_expr \<Rightarrow> js_error + (string \<times> js_val) list" where
  "js_field k e = (case e of Inl x \<Rightarrow> Inl x | Inr v \<Rightarrow> Inr [(k, v)])"

definition js_spread :: "js_expr \<Rightarrow> js_error + (string \<times> js_val) list" where
  "js_spread e = (case e of Inl x \<Rightarrow> Inl x | Inr v \<Rightarrow> Inr (entries v))"

fun js_fields ::
  "(string \<times> js_val) list \<Rightarrow> (js_error + (string \<times> js_val) list) list \<Rightarrow> js_expr" where
  "js_fields acc [] = Inr (JObj acc)"
| "js_fields acc (Inl x # ps) = Inl x"
| "js_fields acc (Inr fs # ps) = js_fields (put_fields fs acc) ps"

definition js_obj :: "(js_error + (string \<times> js_val) list) list \<Rightarrow> js_expr" where
  "js_obj = js_fields []"

definition js_arr :: "js_expr list \<Rightarrow> js_expr" where
  "js_arr es = (case map_res (\<lambda>e. e) es of Inl x \<Rightarrow> Inl x | Inr vs \<Rightarrow> Inr (JList vs))"

text \<open>\<open>e.map(f)\<close>.\<close>

definition js_map :: "(js_val \<Rightarrow> js_expr) \<Rightarrow> js_expr \<Rightarrow> js_expr" where
  "js_map f e = js_bind e (\<lambda>v. case v of
       JList vs \<Rightarrow> (case map_res f vs of Inl x \<Rightarrow> Inl x | Inr us \<Rightarrow> Inr (JList us))
     | _ \<Rightarrow> Inl js_TypeError)"

text \<open>
  \<open>Number(v)\<close> and the number \<open>Number.parseInt(v)\<close> starts from. A string converts when it is blank or,
  between white space, a decimal integer with an optional sign; other strings give \<open>NaN\<close>, hexadecimal
  numbers and fractions included, which no caller passes.
\<close>

definition decimal :: "string \<Rightarrow> bool" where
  "decimal s \<longleftrightarrow> s \<noteq> [] \<and> (\<forall>c \<in> set s. digit_value 10 c \<noteq> None)"

definition number_of :: "string \<Rightarrow> js_num" where
  "number_of s = (let t = js_trim s in
     if t = [] then Some 0
     else if decimal t \<or> (hd t \<in> {CHR ''-'', CHR ''+''} \<and> decimal (tl t)) then parseInt t
     else None)"

fun js_number :: "js_val \<Rightarrow> js_num" where
  "js_number JUndefined = None"
| "js_number JNull = Some 0"
| "js_number (JBool b) = Some (if b then 1 else 0)"
| "js_number (JNum n) = n"
| "js_number (JStr s) = number_of s"
| "js_number (JBig n) = Some n"
| "js_number (JBigInt n) = Some n"
| "js_number (JDate t) = t"
| "js_number v = None"

fun js_parseInt :: "js_val \<Rightarrow> js_num" where
  "js_parseInt (JStr s) = parseInt s"
| "js_parseInt (JNum n) = n"
| "js_parseInt (JBig n) = Some n"
| "js_parseInt (JBigInt n) = Some n"
| "js_parseInt v = None"

section \<open>Reading typed values\<close>

text \<open>
  A validated string property is a string or \<open>undefined\<close>; where the code interpolates it, an absent
  one prints as such.
\<close>

fun js_text :: "js_val \<Rightarrow> string" where
  "js_text (JStr s) = s"
| "js_text (JBool b) = (if b then ''true'' else ''false'')"
| "js_text (JNum n) = show_num n"
| "js_text (JBig n) = show_int n"
| "js_text (JBigInt n) = show_int n"
| "js_text JNull = ''null''"
| "js_text JUndefined = ''undefined''"
| "js_text v = ''[object Object]''"

fun js_opt :: "js_val \<Rightarrow> string option" where
  "js_opt (JStr s) = Some s"
| "js_opt v = None"

fun of_opt :: "string option \<Rightarrow> js_val" where
  "of_opt None = JUndefined"
| "of_opt (Some s) = JStr s"

section \<open>Facts\<close>

lemma js_opt_of_opt [simp]: "js_opt (of_opt x) = x"
  by (cases x) auto

lemma js_bind_simps [simp]:
  "js_bind (Inr v) f = f v" "js_bind (Inl x) f = Inl x"
  by (simp_all add: js_bind_def)

lemma js_field_simps [simp]:
  "js_field k (Inr v) = Inr [(k, v)]" "js_field k (Inl x) = Inl x"
  "js_spread (Inr v) = Inr (entries v)" "js_spread (Inl x) = Inl x"
  by (simp_all add: js_field_def js_spread_def)

lemma map_of_put_field: "map_of (put_field k v fs) = (map_of fs)(k \<mapsto> v)"
  by (induction fs) auto

lemma map_of_put_fields: "map_of (put_fields gs fs) k = map_of (rev gs @ fs) k"
  unfolding put_fields_def
  by (induction gs arbitrary: fs) (auto simp: map_of_put_field map_add_def split: option.splits prod.splits)

lemma js_obj_field: "js_obj [js_field k e] = js_bind e (\<lambda>v. Inr (JObj [(k, v)]))"
  by (cases e) (auto simp: js_obj_def put_fields_def)

lemma prop_put_field: "jprop (JObj (put_field k v fs)) k' = (if k' = k then v else jprop (JObj fs) k')"
  by (simp add: map_of_put_field)

end
