(* ===== verification/Route_Schema.thy ===== *)
theory Route_Schema
  imports Js_Value
begin

text \<open>
  The schemas with which the routes describe their requests and replies, and the routes themselves. A
  schema is the JSON schema that TypeBox builds, without descriptions, examples and the formats of
  strings. The validator is
  Ajv; \<open>conforms\<close> is the part of JSON Schema the routes use, and the locale \<open>validator\<close> the laws the
  development relies on.
\<close>

named_theorems schema_defs "the schemas of the routes"
named_theorems route_defs "the routes"
named_theorems handler_defs "the handlers"

section \<open>Schemas\<close>

text \<open>The entries of an object schema: name, whether it is required, and schema.\<close>

datatype schema =
    SAny
  | SNull
  | SString
  | SPattern string
  | SNumber
  | SInteger
  | SBoolean
  | SDate
  | SLiteral js_val
  | SArray schema
  | STuple "schema list"
  | SUnion "schema list"
  | SAll "schema list"
  | SRecord schema
  | SObject "(string \<times> bool \<times> schema) list"
  | SDefault js_val schema
  | SRange "int option" "int option" schema
  | SMinLength nat schema

type_synonym schema_fields = "(string \<times> bool \<times> schema) list"

text \<open>
  \<open>S.properties\<close>, one of them, \<open>Type.Omit\<close> and \<open>Type.Partial\<close>. A later property of the same name
  takes the place of an earlier one. The properties of a union or an intersection are those of its parts.
\<close>

fun properties :: "schema \<Rightarrow> schema_fields" where
  "properties (SObject fs) = fs"
| "properties (SDefault d s) = properties s"
| "properties (SUnion ss) = concat (map properties ss)"
| "properties (SAll ss) = concat (map properties ss)"
| "properties s = []"

definition schema_prop :: "schema \<Rightarrow> string \<Rightarrow> schema" where
  "schema_prop s k = (case map_of (rev (properties s)) k of None \<Rightarrow> SAny | Some (r, t) \<Rightarrow> t)"

definition schema_omit :: "schema \<Rightarrow> string list \<Rightarrow> schema" where
  "schema_omit s ks = SObject (filter (\<lambda>(k, _). k \<notin> set ks) (properties s))"

definition schema_partial :: "schema \<Rightarrow> schema" where
  "schema_partial s = SObject (map (\<lambda>(k, r, t). (k, False, t)) (properties s))"

definition field_names :: "schema option \<Rightarrow> string list" where
  "field_names s = (case s of None \<Rightarrow> [] | Some t \<Rightarrow> map fst (properties t))"

text \<open>
  A request and a route. \<open>rt_response\<close> maps a status to the schema of its body.
\<close>

record request =
  hq_params :: js_val
  hq_query :: js_val
  hq_body :: js_val
  hq_headers :: js_val

record route =
  rt_method :: string
  rt_url :: string
  rt_operationId :: string
  rt_tags :: "string list"
  rt_hidden :: bool
  rt_params :: "schema option"
  rt_querystring :: "schema option"
  rt_body :: "schema option"
  rt_headers :: "schema option"
  rt_response :: "(int \<times> schema) list"

section \<open>Validation\<close>

text \<open>
  Whether a value conforms to a schema; \<open>m\<close> is the matcher of regular expressions. A default stands
  for an absent value before validation.
\<close>

function conforms :: "(string \<Rightarrow> string \<Rightarrow> bool) \<Rightarrow> schema \<Rightarrow> js_val \<Rightarrow> bool" where
  "conforms m SAny v = True"
| "conforms m SNull v = (v = JNull)"
| "conforms m SString v = (case v of JStr s \<Rightarrow> True | _ \<Rightarrow> False)"
| "conforms m (SPattern p) v = (case v of JStr s \<Rightarrow> m p s | _ \<Rightarrow> False)"
| "conforms m SNumber v = (case v of JNum n \<Rightarrow> n \<noteq> None | _ \<Rightarrow> False)"
| "conforms m SInteger v = (case v of JNum n \<Rightarrow> n \<noteq> None | _ \<Rightarrow> False)"
| "conforms m SBoolean v = (case v of JBool b \<Rightarrow> True | _ \<Rightarrow> False)"
| "conforms m SDate v = (case v of JDate t \<Rightarrow> True | _ \<Rightarrow> False)"
| "conforms m (SLiteral l) v = (v = l)"
| "conforms m (SArray s) v = (case v of JList vs \<Rightarrow> (\<forall>x \<in> set vs. conforms m s x) | _ \<Rightarrow> False)"
| "conforms m (STuple ss) v = (case v of JList vs \<Rightarrow> length vs = length ss
     \<and> (\<forall>p \<in> set (zip ss vs). conforms m (fst p) (snd p)) | _ \<Rightarrow> False)"
| "conforms m (SUnion ss) v = (\<exists>s \<in> set ss. conforms m s v)"
| "conforms m (SAll ss) v = (\<forall>s \<in> set ss. conforms m s v)"
| "conforms m (SRecord s) v = (case v of JObj fs \<Rightarrow> (\<forall>p \<in> set fs. conforms m s (snd p)) | _ \<Rightarrow> False)"
| "conforms m (SObject fs) v = (case v of JObj vs \<Rightarrow>
     (\<forall>f \<in> set fs. case map_of vs (fst f) of None \<Rightarrow> \<not> fst (snd f) | Some x \<Rightarrow> conforms m (snd (snd f)) x)
   | _ \<Rightarrow> False)"
| "conforms m (SDefault d s) v = conforms m s v"
| "conforms m (SRange lo hi s) v = (conforms m s v \<and> (case v of
     JNum (Some n) \<Rightarrow> (case lo of None \<Rightarrow> True | Some l \<Rightarrow> l \<le> n) \<and> (case hi of None \<Rightarrow> True | Some h \<Rightarrow> n \<le> h) | _ \<Rightarrow> True))"
| "conforms m (SMinLength k s) v = (conforms m s v \<and> (case v of JStr t \<Rightarrow> k \<le> length t | _ \<Rightarrow> True))"
  by pat_completeness auto
termination
  by (relation "measure (\<lambda>(m, s, v). size s)")
    (auto simp: less_Suc_eq_le dest!: set_zip_leftD intro: size_list_estimation' trans_le_add1 le_SucI
      simp: size_list_estimation)

end
