(* ===== verification/Sdk_Access.thy ===== *)
theory Sdk_Access
  imports Contract_Routes Tx_Routes Route_Schema
begin

text \<open>
  How the routes reach a contract: the wallets and SDK instances and their caches
  (\<open>getWallet\<close>, \<open>getSmartWallet\<close>, \<open>getSdk\<close>, \<open>getContract\<close>, \<open>getContractV5\<close>), the address helpers, the
  formatters of replies, and the way to the queue. The thirdweb SDK is a parameter: SDK instances,
  contracts and wallets are opaque, a call of a contract answers with a value or an error, and a
  prepared transaction is what \<open>queueTx\<close> reads of it.
\<close>

section \<open>Environment and state\<close>

type_synonym sdk = string
type_synonym sdk_contract = string

record sdk_env =
  v_newSdk :: "int \<Rightarrow> sdk"
  v_sdkFromWallet :: "evm_wallet \<Rightarrow> int \<Rightarrow> js_error + sdk"
  v_getContract :: "sdk \<Rightarrow> string \<Rightarrow> js_error + sdk_contract"
  v_getContractFromAbi :: "sdk \<Rightarrow> string \<Rightarrow> js_val \<Rightarrow> js_error + sdk_contract"
  v_contractV5 :: "chain_info \<Rightarrow> string \<Rightarrow> js_val \<Rightarrow> sdk_contract"
  v_abi :: "sdk_contract \<Rightarrow> js_val"
  v_extensionNames :: "js_val \<Rightarrow> js_error + js_val"
  v_call :: "sdk_contract \<Rightarrow> string list \<Rightarrow> js_val list \<Rightarrow> js_error + js_val"
  v_prepare :: "sdk_contract \<Rightarrow> string list \<Rightarrow> js_val list \<Rightarrow> js_error + sdk_tx"
  v_prepareDeploy :: "sdk \<Rightarrow> string \<Rightarrow> js_val list \<Rightarrow> js_error + sdk_tx"
  v_simulateDeploy :: "sdk_tx \<Rightarrow> js_error + js_val"
  v_callV5 :: "string \<Rightarrow> sdk_contract \<Rightarrow> js_val \<Rightarrow> js_error + js_val"
  v_encodeV5 :: "string \<Rightarrow> sdk_contract \<Rightarrow> js_val \<Rightarrow> js_error + string"
  v_smartWallet :: "int \<Rightarrow> string \<Rightarrow> evm_wallet \<Rightarrow> string \<Rightarrow> js_error + evm_wallet"
  v_isAddress :: "js_val \<Rightarrow> bool"
  v_parseDate :: "string \<Rightarrow> js_num"
  v_bigNumber :: "string \<Rightarrow> js_error + int"
  v_resolveMethod :: "js_val \<Rightarrow> sdk_contract \<Rightarrow> js_error + js_val"
  v_generateMint :: "sdk_contract \<Rightarrow> account \<Rightarrow> js_val \<Rightarrow> js_error + js_val"
  v_upload :: "js_val \<Rightarrow> js_error + js_val"
  v_randomHex :: string
  v_MintRequest721 :: js_val
  v_prebuiltTypes :: "string list"

record 'w sdk_sys =
  ys_env :: "'w env"
  ys_route :: route_env
  ys_sdk :: sdk_env

record 'w sdk_state =
  sk_world :: "'w world"
  sk_sdks :: "string \<Rightarrow> sdk option"
  sk_wallets :: "string \<Rightarrow> evm_wallet option"

type_synonym 'w handler = "'w sdk_sys \<Rightarrow> request \<Rightarrow> ('w sdk_state, js_val) io"

definition at_w :: "('w world, 'a) io \<Rightarrow> ('w sdk_state, 'a) io" where
  "at_w m = (\<lambda>s. case m (sk_world s) of (r, w) \<Rightarrow> (r, s\<lparr>sk_world := w\<rparr>))"

lemma at_w_apply [io_simps]:
  "at_w m s = (fst (m (sk_world s)), s\<lparr>sk_world := snd (m (sk_world s))\<rparr>)"
  by (cases "m (sk_world s)") (simp add: at_w_def)

text \<open>A cached value, or the one that is built and then cached.\<close>

definition sdk_cached :: "string \<Rightarrow> ('w sdk_state, sdk) io \<Rightarrow> ('w sdk_state, sdk) io" where
  "sdk_cached cacheKey build = (\<lambda>s. case sk_sdks s cacheKey of
       Some cached \<Rightarrow> (Inr cached, s)
     | None \<Rightarrow> bnd build (\<lambda>sdk s. (Inr sdk, s\<lparr>sk_sdks := (sk_sdks s)(cacheKey \<mapsto> sdk)\<rparr>)) s)"

definition wallet_cached :: "string \<Rightarrow> ('w sdk_state, evm_wallet) io \<Rightarrow> ('w sdk_state, evm_wallet) io" where
  "wallet_cached cacheKey build = (\<lambda>s. case sk_wallets s cacheKey of
       Some cached \<Rightarrow> (Inr cached, s)
     | None \<Rightarrow> bnd build (\<lambda>w s. (Inr w, s\<lparr>sk_wallets := (sk_wallets s)(cacheKey \<mapsto> w)\<rparr>)) s)"

section \<open>Wallets and SDK instances\<close>

text \<open>
  The metadata of a chain is looked up before an instance is made; \<open>!chain\<close> cannot hold of the
  object it answers.
\<close>

definition chain_metadata :: "'w sdk_sys \<Rightarrow> int \<Rightarrow> ('w sdk_state, unit) io" where
  "chain_metadata V chainId =
     bnd (at_w (getChain (ys_env V) chainId)) (\<lambda>chainV5.
     bnd (lift_res (e_chainMetadata (ys_env V) chainV5)) (\<lambda>_. ret ()))"

text \<open>\<open>getSdk\<close> without a wallet.\<close>

definition readonly_sdk :: "'w sdk_sys \<Rightarrow> int \<Rightarrow> ('w sdk_state, sdk) io" where
  "readonly_sdk V chainId = sdk_cached (show_int chainId)
     (bnd (chain_metadata V chainId) (\<lambda>_. ret (v_newSdk (ys_sdk V) chainId)))"

definition invalid_contract :: "js_error \<Rightarrow> js_error" where
  "invalid_contract e = createCustomError (''Contract metadata could not be resolved: '' @ show_error e)
     400 ''INVALID_CONTRACT''"

text \<open>
  \<open>getContract\<close> on an instance: a contract of a given ABI is returned without awaiting it, so its
  failure is not caught.
\<close>

definition resolve_contract :: "'w sdk_sys \<Rightarrow> sdk \<Rightarrow> string \<Rightarrow> js_val \<Rightarrow> ('w sdk_state, sdk_contract) io" where
  "resolve_contract V sdk contractAddress abi =
     (if js_truthy abi then lift_res (v_getContractFromAbi (ys_sdk V) sdk contractAddress abi)
      else try_catch (lift_res (v_getContract (ys_sdk V) sdk contractAddress)) (\<lambda>e. throw (invalid_contract e)))"

definition factory_key :: "string \<Rightarrow> string" where
  "factory_key accountAddress = ''account-factory:'' @ toLowerCase accountAddress"

definition getSmartWallet ::
  "'w sdk_sys \<Rightarrow> int \<Rightarrow> evm_wallet \<Rightarrow> string \<Rightarrow> ('w sdk_state, evm_wallet) io" where
  "getSmartWallet V chainId backendWallet accountAddress =
     bnd (try_catch
            (bnd (at_w (redis_do (r_get (e_redis (ys_env V)) (factory_key accountAddress)))) (\<lambda>found.
             ret (if truthy found then the found else [])))
            (\<lambda>_. ret [])) (\<lambda>cachedFactory.
     bnd (if cachedFactory \<noteq> [] then ret (JStr cachedFactory)
          else try_catch
            (bnd (readonly_sdk V chainId) (\<lambda>sdk.
             bnd (resolve_contract V sdk accountAddress JUndefined) (\<lambda>contract.
             lift_res (v_call (ys_sdk V) contract [''factory''] []))))
            (\<lambda>_. throw (js_Error (''Failed to find factory address for account '' @ quoted accountAddress
               @ '' on chain '' @ quoted (show_int chainId))))) (\<lambda>factoryAddress.
     lift_res (v_smartWallet (ys_sdk V) chainId (js_text factoryAddress) backendWallet accountAddress)))"

definition backend_wallet :: "'w env \<Rightarrow> int \<Rightarrow> string \<Rightarrow> wallet_details \<Rightarrow> js_error + evm_wallet" where
  "backend_wallet E chainId walletAddress d =
     (if wd_type d = ''aws-kms'' then e_awsKmsWallet E (wd_awsKmsKeyId d)
      else if wd_type d = ''gcp-kms'' then e_gcpKmsWallet E (wd_gcpKmsKeyId d) (wd_gcpKmsKeyVersionId d)
      else if wd_type d = ''local'' then e_localWallet E chainId walletAddress
      else Inl (js_Error (''Wallet with address '' @ walletAddress @ '' was configured with unknown wallet type ''
             @ wd_type d)))"

definition getWallet :: "'w sdk_sys \<Rightarrow> int \<Rightarrow> string \<Rightarrow> string option \<Rightarrow> ('w sdk_state, evm_wallet) io" where
  "getWallet V chainId walletAddress accountAddress =
     wallet_cached (getAccountCacheKey chainId walletAddress accountAddress)
       (bnd (at_w (getWalletDetails (ys_env V) walletAddress)) (\<lambda>walletDetails.
        case walletDetails of
          None \<Rightarrow> throw (js_Error (''No configured wallet found with address '' @ walletAddress))
        | Some d \<Rightarrow>
            bnd (lift_res (backend_wallet (ys_env V) chainId walletAddress d)) (\<lambda>wallet.
            if truthy accountAddress then getSmartWallet V chainId wallet (the accountAddress)
            else ret wallet)))"

definition getSdk :: "'w sdk_sys \<Rightarrow> int \<Rightarrow> js_val \<Rightarrow> js_val \<Rightarrow> ('w sdk_state, sdk) io" where
  "getSdk V chainId walletAddress accountAddress =
     (if \<not> js_truthy walletAddress then readonly_sdk V chainId
      else sdk_cached (getAccountCacheKey chainId (js_text walletAddress) (js_opt accountAddress))
        (bnd (chain_metadata V chainId) (\<lambda>_.
         bnd (getWallet V chainId (js_text walletAddress) (js_opt accountAddress)) (\<lambda>wallet.
         lift_res (v_sdkFromWallet (ys_sdk V) wallet chainId)))))"

definition getContract ::
  "'w sdk_sys \<Rightarrow> int \<Rightarrow> js_val \<Rightarrow> js_val \<Rightarrow> js_val \<Rightarrow> js_val \<Rightarrow> ('w sdk_state, sdk_contract) io" where
  "getContract V chainId contractAddress walletAddress accountAddress abi =
     bnd (getSdk V chainId walletAddress accountAddress) (\<lambda>sdk.
     resolve_contract V sdk (js_text contractAddress) abi)"

definition getContractV5 ::
  "'w sdk_sys \<Rightarrow> int \<Rightarrow> js_val \<Rightarrow> js_val \<Rightarrow> ('w sdk_state, sdk_contract) io" where
  "getContractV5 V chainId contractAddress abi =
     bnd (at_w (getChain (ys_env V) chainId)) (\<lambda>definedChain.
     ret (v_contractV5 (ys_sdk V) definedChain (js_text contractAddress) abi))"

section \<open>Helpers of the handlers\<close>

definition chainIdFrom :: "'w sdk_sys \<Rightarrow> js_val \<Rightarrow> ('w sdk_state, int) io" where
  "chainIdFrom V chain = at_w (getChainIdFromChain (ys_env V) (ys_route V) (js_text chain))"

definition sdk_call :: "'w sdk_sys \<Rightarrow> sdk_contract \<Rightarrow> string list \<Rightarrow> js_val list \<Rightarrow> ('w sdk_state, js_val) io" where
  "sdk_call V contract path args = lift_res (v_call (ys_sdk V) contract path args)"

definition prepare :: "'w sdk_sys \<Rightarrow> sdk_contract \<Rightarrow> string list \<Rightarrow> js_val list \<Rightarrow> ('w sdk_state, sdk_tx) io" where
  "prepare V contract path args = lift_res (v_prepare (ys_sdk V) contract path args)"

definition prepare_deploy :: "'w sdk_sys \<Rightarrow> sdk \<Rightarrow> string \<Rightarrow> js_val list \<Rightarrow> ('w sdk_state, sdk_tx) io" where
  "prepare_deploy V sdk method args = lift_res (v_prepareDeploy (ys_sdk V) sdk method args)"

definition simulate_deploy :: "'w sdk_sys \<Rightarrow> sdk_tx \<Rightarrow> ('w sdk_state, js_val) io" where
  "simulate_deploy V tx = lift_res (v_simulateDeploy (ys_sdk V) tx)"

definition maybeAddress :: "'w sdk_sys \<Rightarrow> js_val \<Rightarrow> string \<Rightarrow> js_error + string option" where
  "maybeAddress V adr variableName =
     (if \<not> js_truthy adr then Inr None
      else (case e_getAddress (ys_env V) (js_text adr) of
          Inl e \<Rightarrow> Inl (badAddressError variableName)
        | Inr a \<Rightarrow> Inr (Some a)))"

definition requiredAddress :: "'w sdk_sys \<Rightarrow> js_val \<Rightarrow> string \<Rightarrow> js_error + string" where
  "requiredAddress V adr variableName = (case maybeAddress V adr variableName of
       Inl e \<Rightarrow> Inl e
     | Inr parsedAddress \<Rightarrow>
         if truthy parsedAddress then Inr (the parsedAddress) else Inl (badAddressError variableName))"

text \<open>The overrides of a request, all absent when there are none.\<close>

definition overrides_of :: "js_val \<Rightarrow> tx_overrides" where
  "overrides_of v = \<lparr>ov_gas = js_opt (jprop v ''gas''), ov_maxFeePerGas = js_opt (jprop v ''maxFeePerGas''),
     ov_maxPriorityFeePerGas = js_opt (jprop v ''maxPriorityFeePerGas''), ov_value = js_opt (jprop v ''value'')\<rparr>"

definition queue_tx ::
  "'w sdk_sys \<Rightarrow> sdk_tx \<Rightarrow> int \<Rightarrow> string \<Rightarrow> js_val \<Rightarrow> js_val \<Rightarrow> js_val \<Rightarrow> js_val \<Rightarrow> js_val
   \<Rightarrow> ('w sdk_state, string) io" where
  "queue_tx V tx chainId extension deployedContractAddress deployedContractType simulateTx idempotencyKey txOverrides =
     at_w (queueTx (ys_env V) tx chainId extension (js_opt deployedContractAddress) (js_opt deployedContractType)
       (js_truthy simulateTx) (js_opt idempotencyKey) (overrides_of txOverrides) None)"

text \<open>The end of a route of the v5 SDK: the addresses are parsed, then \<open>queueTransaction\<close> runs.\<close>

definition queue_v5 ::
  "'w sdk_sys \<Rightarrow> js_error + string \<Rightarrow> int \<Rightarrow> js_val \<Rightarrow> js_val \<Rightarrow> js_val \<Rightarrow> js_val \<Rightarrow> js_val \<Rightarrow> js_val \<Rightarrow> js_val
   \<Rightarrow> ('w sdk_state, string) io" where
  "queue_v5 V encoded chainId fromAddress contractAddress accountAddress accountFactoryAddress txOverrides
     idempotencyKey simulateTx =
     bnd (lift_res (requiredAddress V fromAddress ''x-backend-wallet-address'')) (\<lambda>adr.
     bnd (lift_res (maybeAddress V contractAddress ''to'')) (\<lambda>to.
     bnd (lift_res (maybeAddress V accountAddress ''x-account-address'')) (\<lambda>account.
     bnd (lift_res (maybeAddress V accountFactoryAddress ''x-account-factory-address'')) (\<lambda>factory.
     at_w (queueTransaction (ys_env V) encoded chainId adr to account factory (overrides_of txOverrides)
             (js_opt idempotencyKey) (js_truthy simulateTx))))))"

section \<open>Dates and numbers\<close>

text \<open>
  \<open>new Date(e)\<close>: a time is in range up to a hundred million days around the epoch.
\<close>

definition time_clip :: "js_num \<Rightarrow> js_num" where
  "time_clip t = (case t of None \<Rightarrow> None | Some n \<Rightarrow> if abs n \<le> 8640000000000000 then Some n else None)"

definition js_Date :: "'w sdk_sys \<Rightarrow> js_expr \<Rightarrow> js_expr" where
  "js_Date V e = js_bind e (\<lambda>v. Inr (JDate (case v of
       JStr s \<Rightarrow> v_parseDate (ys_sdk V) s
     | JDate t \<Rightarrow> t
     | JObj fs \<Rightarrow> None
     | JList vs \<Rightarrow> None
     | _ \<Rightarrow> time_clip (js_number v))))"

definition js_Number :: "js_expr \<Rightarrow> js_expr" where
  "js_Number e = js_bind e (\<lambda>v. Inr (JNum (js_number v)))"

definition js_parseInteger :: "js_expr \<Rightarrow> js_expr" where
  "js_parseInteger e = js_bind e (\<lambda>v. Inr (JNum (js_parseInt v)))"

definition js_times :: "js_expr \<Rightarrow> js_expr \<Rightarrow> js_expr" where
  "js_times a b = js_bind a (\<lambda>x. js_bind b (\<lambda>y. Inr (JNum (case (js_number x, js_number y) of
       (Some m, Some n) \<Rightarrow> Some (m * n) | _ \<Rightarrow> None))))"

definition js_same :: "js_expr \<Rightarrow> js_expr \<Rightarrow> js_expr" where
  "js_same a b = js_bind a (\<lambda>x. js_bind b (\<lambda>y. Inr (JBool (x = y))))"

definition js_not :: "js_expr \<Rightarrow> js_expr" where
  "js_not e = js_bind e (\<lambda>v. Inr (JBool (\<not> js_truthy v)))"

definition js_BigInt :: "'w sdk_sys \<Rightarrow> js_expr \<Rightarrow> js_expr" where
  "js_BigInt V e = js_bind e (\<lambda>v. case v of
       JStr s \<Rightarrow> (case e_BigInt (ys_env V) s of Inl x \<Rightarrow> Inl x | Inr n \<Rightarrow> Inr (JBigInt n))
     | JNum (Some n) \<Rightarrow> Inr (JBigInt n)
     | JBig n \<Rightarrow> Inr (JBigInt n)
     | JBigInt n \<Rightarrow> Inr (JBigInt n)
     | JBool b \<Rightarrow> Inr (JBigInt (if b then 1 else 0))
     | JNum None \<Rightarrow> Inl (js_Error ''RangeError'')
     | _ \<Rightarrow> Inl js_TypeError)"

text \<open>\<open>maybeBigInt(v)\<close> of a value of a request.\<close>

definition js_maybeBigInt :: "'w sdk_sys \<Rightarrow> js_val \<Rightarrow> js_expr" where
  "js_maybeBigInt V v = (if js_truthy v then js_BigInt V (Inr v) else Inr JUndefined)"

text \<open>\<open>BigNumber.from(e)\<close>; a number outside the safe range is refused.\<close>

definition js_BigNumber :: "'w sdk_sys \<Rightarrow> js_expr \<Rightarrow> js_expr" where
  "js_BigNumber V e = js_bind e (\<lambda>v. case v of
       JStr s \<Rightarrow> (case v_bigNumber (ys_sdk V) s of Inl x \<Rightarrow> Inl x | Inr n \<Rightarrow> Inr (JBig n))
     | JNum (Some n) \<Rightarrow> if abs n < 2 ^ 53 - 1 then Inr (JBig n)
         else Inl (JsObject (Some ''overflow'') (Some ''NUMERIC_FAULT'') None)
     | JBig n \<Rightarrow> Inr (JBig n)
     | JBigInt n \<Rightarrow> Inr (JBig n)
     | _ \<Rightarrow> Inl (JsObject (Some ''invalid BigNumber value'') (Some ''INVALID_ARGUMENT'') None))"

definition js_eqNumber :: "js_expr \<Rightarrow> int \<Rightarrow> js_expr" where
  "js_eqNumber e n = js_bind e (\<lambda>v. case v of JBig m \<Rightarrow> Inr (JBool (m = n)) | _ \<Rightarrow> Inl js_TypeError)"

text \<open>
  \<open>isUnixEpochTimestamp\<close>: the year is that of the local time zone, taken to be UTC.
\<close>

definition epoch_year_end :: int where
  "epoch_year_end = 365 * 24 * 60 * 60 * 1000"

definition isUnixEpochTimestamp :: "'w sdk_sys \<Rightarrow> js_expr \<Rightarrow> js_expr" where
  "isUnixEpochTimestamp V timestamp = js_bind (js_Date V timestamp) (\<lambda>d. case d of
       JDate (Some t) \<Rightarrow> Inr (JBool (0 \<le> t \<and> t < epoch_year_end))
     | _ \<Rightarrow> Inr (JBool False))"

text \<open>The properties of an object but those named: \<open>const { a, b, ...rest } = v\<close>.\<close>

fun js_rest :: "js_val \<Rightarrow> string list \<Rightarrow> js_val" where
  "js_rest (JObj fs) ks = JObj (filter (\<lambda>(k, _). k \<notin> set ks) fs)"
| "js_rest v ks = JObj []"

section \<open>Payloads to sign\<close>

text \<open>
  The checks of the mint times (\<open>server/utils/validator.ts\<close>): a time that converts to a number is that
  number of milliseconds, another one is parsed; what is falsy is dropped.
\<close>

definition numeric_or_same :: "js_val \<Rightarrow> js_val" where
  "numeric_or_same v = (case js_number v of None \<Rightarrow> v | Some n \<Rightarrow> JNum (Some n))"

definition timestampValidator :: "'w sdk_sys \<Rightarrow> js_val \<Rightarrow> bool" where
  "timestampValidator V v =
     (v = JUndefined
      \<or> (case js_Date V (Inr (numeric_or_same v)) of Inr (JDate (Some t)) \<Rightarrow> t > 0 | _ \<Rightarrow> False))"

definition mint_date :: "'w sdk_sys \<Rightarrow> js_val \<Rightarrow> js_expr" where
  "mint_date V v = (let t = numeric_or_same v in
     if js_truthy t then js_Date V (Inr t) else Inr JUndefined)"

definition checkAndReturnERC20SignaturePayload :: "'w sdk_sys \<Rightarrow> js_val \<Rightarrow> js_expr" where
  "checkAndReturnERC20SignaturePayload V payload =
     (let mintStartTime = jprop payload ''mintStartTime''; mintEndTime = jprop payload ''mintEndTime'' in
      if \<not> timestampValidator V mintStartTime then Inl (customDateTimestampError ''mintStartTime'')
      else if \<not> timestampValidator V mintEndTime then Inl (customDateTimestampError ''mintEndTime'')
      else js_bind (mint_date V mintEndTime) (\<lambda>endTime.
           js_bind (mint_date V mintStartTime) (\<lambda>startTime.
           Inr (js_set (js_set payload ''mintEndTime'' endTime) ''mintStartTime'' startTime))))"

text \<open>The function for NFTs has the same body.\<close>

definition checkAndReturnNFTSignaturePayload :: "'w sdk_sys \<Rightarrow> js_val \<Rightarrow> js_expr" where
  "checkAndReturnNFTSignaturePayload V payload = checkAndReturnERC20SignaturePayload V payload"

section \<open>Formatting replies\<close>

definition formatDirectListingV3Result :: "js_expr \<Rightarrow> js_expr" where
  "formatDirectListingV3Result listing = js_obj [js_spread listing,
     js_field ''currencyValuePerToken'' (js_obj [js_spread (js_dot listing ''currencyValuePerToken''),
       js_field ''value'' (js_toString (js_dot (js_dot listing ''currencyValuePerToken'') ''value''))])]"

definition formatEnglishAuctionResult :: "js_expr \<Rightarrow> js_expr" where
  "formatEnglishAuctionResult listing = js_obj [js_spread listing,
     js_field ''minimumBidCurrencyValue'' (js_obj [js_spread (js_dot listing ''minimumBidCurrencyValue''),
       js_field ''value'' (js_toString (js_dot (js_dot listing ''minimumBidCurrencyValue'') ''value''))]),
     js_field ''buyoutCurrencyValue'' (js_obj [js_spread (js_dot listing ''buyoutCurrencyValue''),
       js_field ''value'' (js_toString (js_dot (js_dot listing ''buyoutCurrencyValue'') ''value''))])]"

definition formatOffersV3Result :: "js_expr \<Rightarrow> js_expr" where
  "formatOffersV3Result offer = js_obj [js_spread offer,
     js_field ''currencyValue'' (js_obj [js_spread (js_dot offer ''currencyValue''),
       js_field ''value'' (js_toString (js_dot (js_dot offer ''currencyValue'') ''value''))])]"

text \<open>\<open>bigNumberReplacer\<close>: a \<open>BigNumber\<close>, or an object that is one in JSON, becomes a string.\<close>

definition bigNumberReplacer :: "'w sdk_sys \<Rightarrow> js_expr \<Rightarrow> js_expr" where
  "bigNumberReplacer V e = js_bind e (\<lambda>v. case v of
       JBig n \<Rightarrow> Inr (JStr (show_int n))
     | JObj fs \<Rightarrow>
         if jprop v ''type'' = JStr ''BigNumber'' \<and> map_of fs ''hex'' \<noteq> None
         then js_toString (js_BigNumber V (Inr (jprop v ''hex'')))
         else Inr v
     | _ \<Rightarrow> Inr v)"

end
