(* ===== verification/Relayer_Routes.thy ===== *)
theory Relayer_Routes
  imports Sdk_Access Prisma_Table
begin

text \<open>
  The relayers (\<open>src/server/routes/relayer\<close>, \<open>src/db/relayer\<close>, \<open>src/constants/relayer.ts\<close>): a relayer
  is a row with a chain, a backend wallet and optional lists of allowed contracts and forwarders, kept as
  JSON texts; the routes create, update, delete and list them, and one relays a signed
  meta-transaction of three kinds. Splitting and joining signatures is a parameter. A reply of the relay
  is its status and body; the replies of the other routes are those of status 200.
\<close>

section \<open>Lists of strings as JSON\<close>

text \<open>
  \<open>JSON.stringify\<close> of a list of strings, and the part of \<open>JSON.parse\<close> that reads such texts; any
  other text is taken to be malformed. Only the routes below write these columns.
\<close>

definition hex_char :: "nat \<Rightarrow> char" where
  "hex_char d = char_of (if d < 10 then 48 + d else 87 + d)"

definition json_char :: "char \<Rightarrow> string" where
  "json_char c = (let n = (of_char c :: nat) in
     if n = 34 \<or> n = 92 then [CHR 0x5C, c]
     else if n = 8 then [CHR 0x5C, CHR ''b'']
     else if n = 9 then [CHR 0x5C, CHR ''t'']
     else if n = 10 then [CHR 0x5C, CHR ''n'']
     else if n = 12 then [CHR 0x5C, CHR ''f'']
     else if n = 13 then [CHR 0x5C, CHR ''r'']
     else if n < 32 then [CHR 0x5C, CHR ''u'', CHR ''0'', CHR ''0'', hex_char (n div 16), hex_char (n mod 16)]
     else [c])"

definition json_string :: "string \<Rightarrow> string" where
  "json_string s = CHR 0x22 # concat (map json_char s) @ [CHR 0x22]"

definition json_strings :: "string list \<Rightarrow> string" where
  "json_strings xs = CHR ''['' # js_join '','' (map json_string xs) @ '']''"

text \<open>The character of an escape and what follows it.\<close>

definition json_escape :: "string \<Rightarrow> (char \<times> string) option" where
  "json_escape s = (case s of
       [] \<Rightarrow> None
     | c # cs \<Rightarrow>
         if c = CHR ''u''
         then if 4 \<le> length cs \<and> (\<forall>x \<in> set (take 4 cs). digit_value 16 x \<noteq> None)
              then Some (char_of (digits_value 16 (take 4 cs)), drop 4 cs) else None
         else map_option (\<lambda>x. (x, cs)) (map_of [(CHR 0x22, CHR 0x22), (CHR 0x5C, CHR 0x5C), (CHR ''/'', CHR ''/''),
           (CHR ''b'', CHR 0x08), (CHR ''t'', CHR 0x09), (CHR ''n'', CHR 0x0A), (CHR ''f'', CHR 0x0C), (CHR ''r'', CHR 0x0D)] c))"

text \<open>The characters up to the closing quote, and what follows it.\<close>

function read_string :: "string \<Rightarrow> (string \<times> string) option" where
  "read_string [] = None"
| "read_string (c # cs) =
     (if c = CHR 0x22 then Some ([], cs)
      else if c = CHR 0x5C
      then (case json_escape cs of None \<Rightarrow> None | Some (x, r) \<Rightarrow> map_option (\<lambda>(s, t). (x # s, t)) (read_string r))
      else map_option (\<lambda>(s, t). (c # s, t)) (read_string cs))"
  by pat_completeness auto
termination
  by (relation "measure length") (auto simp: json_escape_def split: list.splits if_splits)

text \<open>The strings after the opening bracket; \<open>n\<close> bounds their number.\<close>

fun read_strings :: "nat \<Rightarrow> string \<Rightarrow> string list option" where
  "read_strings 0 s = None"
| "read_strings (Suc n) s = (case s of
       [] \<Rightarrow> None
     | c # cs \<Rightarrow>
         if c \<noteq> CHR 0x22 then None
         else (case read_string cs of
             None \<Rightarrow> None
           | Some (x, r) \<Rightarrow>
               if r = '']'' then Some [x]
               else if prefix '','' r then map_option ((#) x) (read_strings n (tl r)) else None))"

definition parse_strings :: "string \<Rightarrow> js_error + string list" where
  "parse_strings s =
     (if s = ''[]'' then Inr []
      else if \<not> prefix ''['' s then Inl (js_Error ''Unexpected token in JSON'')
      else case read_strings (length s) (tl s) of
          None \<Rightarrow> Inl (js_Error ''Unexpected token in JSON'') | Some xs \<Rightarrow> Inr xs)"

lemma hex_digit: "d < 16 \<Longrightarrow> digit_value 16 (hex_char d) = Some d"
  by (auto simp: digit_value_def hex_char_def)

lemma json_escape_char:
  "json_char c = [c] \<and> c \<noteq> CHR 0x22 \<and> c \<noteq> CHR 0x5C
   \<or> (\<exists>r. json_char c = CHR 0x5C # r \<and> (\<forall>t. json_escape (r @ t) = Some (c, t)))"
proof -
  define n where "n = (of_char c :: nat)"
  have c: "c = char_of n" by (simp add: n_def)
  have zero: "digit_value 16 (CHR ''0'') = Some 0" by (simp add: digit_value_def)
  consider "n \<in> {34, 92, 8, 9, 10, 12, 13}" | "n < 32" "n \<notin> {8, 9, 10, 12, 13}" | "32 \<le> n" "n \<notin> {34, 92}" by force
  then show ?thesis
  proof cases
    case 1
    have "c = d \<longleftrightarrow> n = of_char d" for d by (simp add: n_def of_char_eq_iff)
    with 1 have "c \<in> {CHR 0x22, CHR 0x5C, CHR 0x08, CHR 0x09, CHR 0x0A, CHR 0x0C, CHR 0x0D}"
      by (simp only: insert_iff empty_iff) simp
    then show ?thesis by (elim insertE emptyE) (simp_all add: json_char_def json_escape_def)
  next
    case 2
    then have "json_char c = [CHR 0x5C, CHR ''u'', CHR ''0'', CHR ''0'', hex_char (n div 16), hex_char (n mod 16)]"
      by (auto simp: json_char_def n_def [symmetric] Let_def)
    moreover have "json_escape ([CHR ''u'', CHR ''0'', CHR ''0'', hex_char (n div 16), hex_char (n mod 16)] @ t) = Some (c, t)" for t
      using 2(1) by (simp add: json_escape_def zero hex_digit digits_value_def c)
    ultimately show ?thesis by auto
  next
    case 3
    then show ?thesis by (auto simp: json_char_def n_def)
  qed
qed

lemma read_json_string: "read_string (concat (map json_char s) @ CHR 0x22 # t) = Some (s, t)"
proof (induction s)
  case (Cons c s)
  then show ?case using json_escape_char [of c] by auto
qed simp

lemma read_json_strings:
  "xs \<noteq> [] \<Longrightarrow> length xs \<le> n \<Longrightarrow> read_strings n (js_join '','' (map json_string xs) @ '']'') = Some xs"
proof (induction xs arbitrary: n)
  case (Cons x xs)
  then obtain m where n: "n = Suc m" by (cases n) auto
  show ?case
  proof (cases xs)
    case Nil
    then show ?thesis by (simp add: n json_string_def read_json_string)
  next
    case (Cons y ys)
    then show ?thesis using Cons.IH [of m] Cons.prems
      by (simp add: n json_string_def read_json_string)
  qed
qed simp

lemma length_json_strings: "length xs \<le> length (json_strings xs)"
proof -
  have "length xs \<le> length (js_join '','' (map json_string xs))"
    by (induction xs rule: induct_list012) (auto simp: json_string_def)
  then show ?thesis by (simp add: json_strings_def)
qed

text \<open>What is written is read back.\<close>

lemma parse_json_strings: "parse_strings (json_strings xs) = Inr xs"
proof (cases "xs = []")
  case False
  then obtain y ys where xs: "xs = y # ys" by (cases xs) auto
  have "json_strings xs \<noteq> ''[]''" by (cases ys) (simp_all add: xs json_strings_def json_string_def)
  moreover have "read_strings (length (json_strings xs)) (tl (json_strings xs)) = Some xs"
    using read_json_strings [OF False length_json_strings] by (simp add: json_strings_def)
  ultimately show ?thesis by (simp add: parse_strings_def) (simp add: json_strings_def)
qed (simp add: json_strings_def parse_strings_def)

section \<open>ABIs\<close>

definition ForwarderAbi :: js_val where
  "ForwarderAbi =
    JList [JObj [(''inputs'', JList []), (''stateMutability'', JStr ''nonpayable''), (''type'', JStr
     ''constructor'')], JObj [(''inputs'', JList [JObj [(''components'', JList [JObj [(''internalType'',
     JStr ''address''), (''name'', JStr ''from''), (''type'', JStr ''address'')], JObj [(''internalType'',
     JStr ''address''), (''name'', JStr ''to''), (''type'', JStr ''address'')], JObj [(''internalType'',
     JStr ''uint256''), (''name'', JStr ''value''), (''type'', JStr ''uint256'')], JObj [(''internalType'',
     JStr ''uint256''), (''name'', JStr ''gas''), (''type'', JStr ''uint256'')], JObj [(''internalType'',
     JStr ''uint256''), (''name'', JStr ''nonce''), (''type'', JStr ''uint256'')], JObj [(''internalType'',
     JStr ''bytes''), (''name'', JStr ''data''), (''type'', JStr ''bytes'')]]), (''internalType'', JStr
     ''struct MinimalForwarder.ForwardRequest''), (''name'', JStr ''req''), (''type'', JStr ''tuple'')],
     JObj [(''internalType'', JStr ''bytes''), (''name'', JStr ''signature''), (''type'', JStr
     ''bytes'')]]), (''name'', JStr ''execute''), (''outputs'', JList [JObj [(''internalType'', JStr
     ''bool''), (''name'', JStr ''''), (''type'', JStr ''bool'')], JObj [(''internalType'', JStr ''bytes''),
     (''name'', JStr ''''), (''type'', JStr ''bytes'')]]), (''stateMutability'', JStr ''payable''),
     (''type'', JStr ''function'')], JObj [(''inputs'', JList [JObj [(''internalType'', JStr ''address''),
     (''name'', JStr ''from''), (''type'', JStr ''address'')]]), (''name'', JStr ''getNonce''),
     (''outputs'', JList [JObj [(''internalType'', JStr ''uint256''), (''name'', JStr ''''), (''type'', JStr
     ''uint256'')]]), (''stateMutability'', JStr ''view''), (''type'', JStr ''function'')], JObj
     [(''inputs'', JList [JObj [(''components'', JList [JObj [(''internalType'', JStr ''address''),
     (''name'', JStr ''from''), (''type'', JStr ''address'')], JObj [(''internalType'', JStr ''address''),
     (''name'', JStr ''to''), (''type'', JStr ''address'')], JObj [(''internalType'', JStr ''uint256''),
     (''name'', JStr ''value''), (''type'', JStr ''uint256'')], JObj [(''internalType'', JStr ''uint256''),
     (''name'', JStr ''gas''), (''type'', JStr ''uint256'')], JObj [(''internalType'', JStr ''uint256''),
     (''name'', JStr ''nonce''), (''type'', JStr ''uint256'')], JObj [(''internalType'', JStr ''bytes''),
     (''name'', JStr ''data''), (''type'', JStr ''bytes'')]]), (''internalType'', JStr ''struct
     MinimalForwarder.ForwardRequest''), (''name'', JStr ''req''), (''type'', JStr ''tuple'')], JObj
     [(''internalType'', JStr ''bytes''), (''name'', JStr ''signature''), (''type'', JStr ''bytes'')]]),
     (''name'', JStr ''verify''), (''outputs'', JList [JObj [(''internalType'', JStr ''bool''), (''name'',
     JStr ''''), (''type'', JStr ''bool'')]]), (''stateMutability'', JStr ''view''), (''type'', JStr
     ''function'')]]"

definition ForwarderAbiEIP712ChainlessDomain :: js_val where
  "ForwarderAbiEIP712ChainlessDomain =
    JList [JObj [(''inputs'', JList []), (''stateMutability'', JStr ''nonpayable''), (''type'', JStr
     ''constructor'')], JObj [(''inputs'', JList [JObj [(''components'', JList [JObj [(''internalType'',
     JStr ''address''), (''name'', JStr ''from''), (''type'', JStr ''address'')], JObj [(''internalType'',
     JStr ''address''), (''name'', JStr ''to''), (''type'', JStr ''address'')], JObj [(''internalType'',
     JStr ''uint256''), (''name'', JStr ''value''), (''type'', JStr ''uint256'')], JObj [(''internalType'',
     JStr ''uint256''), (''name'', JStr ''gas''), (''type'', JStr ''uint256'')], JObj [(''internalType'',
     JStr ''uint256''), (''name'', JStr ''nonce''), (''type'', JStr ''uint256'')], JObj [(''internalType'',
     JStr ''bytes''), (''name'', JStr ''data''), (''type'', JStr ''bytes'')], JObj [(''internalType'', JStr
     ''uint256''), (''name'', JStr ''chainid''), (''type'', JStr ''uint256'')]]), (''internalType'', JStr
     ''struct ForwarderChainlessDomain.ForwardRequest''), (''name'', JStr ''req''), (''type'', JStr
     ''tuple'')], JObj [(''internalType'', JStr ''bytes''), (''name'', JStr ''signature''), (''type'', JStr
     ''bytes'')]]), (''name'', JStr ''execute''), (''outputs'', JList [JObj [(''internalType'', JStr
     ''bool''), (''name'', JStr ''''), (''type'', JStr ''bool'')], JObj [(''internalType'', JStr ''bytes''),
     (''name'', JStr ''''), (''type'', JStr ''bytes'')]]), (''stateMutability'', JStr ''payable''),
     (''type'', JStr ''function'')], JObj [(''inputs'', JList [JObj [(''internalType'', JStr ''address''),
     (''name'', JStr ''from''), (''type'', JStr ''address'')]]), (''name'', JStr ''getNonce''),
     (''outputs'', JList [JObj [(''internalType'', JStr ''uint256''), (''name'', JStr ''''), (''type'', JStr
     ''uint256'')]]), (''stateMutability'', JStr ''view''), (''type'', JStr ''function'')], JObj
     [(''inputs'', JList [JObj [(''components'', JList [JObj [(''internalType'', JStr ''address''),
     (''name'', JStr ''from''), (''type'', JStr ''address'')], JObj [(''internalType'', JStr ''address''),
     (''name'', JStr ''to''), (''type'', JStr ''address'')], JObj [(''internalType'', JStr ''uint256''),
     (''name'', JStr ''value''), (''type'', JStr ''uint256'')], JObj [(''internalType'', JStr ''uint256''),
     (''name'', JStr ''gas''), (''type'', JStr ''uint256'')], JObj [(''internalType'', JStr ''uint256''),
     (''name'', JStr ''nonce''), (''type'', JStr ''uint256'')], JObj [(''internalType'', JStr ''bytes''),
     (''name'', JStr ''data''), (''type'', JStr ''bytes'')], JObj [(''internalType'', JStr ''uint256''),
     (''name'', JStr ''chainid''), (''type'', JStr ''uint256'')]]), (''internalType'', JStr ''struct
     ForwarderChainlessDomain.ForwardRequest''), (''name'', JStr ''req''), (''type'', JStr ''tuple'')], JObj
     [(''internalType'', JStr ''bytes''), (''name'', JStr ''signature''), (''type'', JStr ''bytes'')]]),
     (''name'', JStr ''verify''), (''outputs'', JList [JObj [(''internalType'', JStr ''bool''), (''name'',
     JStr ''''), (''type'', JStr ''bool'')]]), (''stateMutability'', JStr ''view''), (''type'', JStr
     ''function'')]]"

definition ERC2771ContextAbi :: js_val where
  "ERC2771ContextAbi =
    JList [JObj [(''inputs'', JList [JObj [(''internalType'', JStr ''address[]''), (''name'', JStr
     ''trustedForwarder''), (''type'', JStr ''address[]'')]]), (''stateMutability'', JStr ''nonpayable''),
     (''type'', JStr ''constructor'')], JObj [(''inputs'', JList [JObj [(''internalType'', JStr
     ''address''), (''name'', JStr ''forwarder''), (''type'', JStr ''address'')]]), (''name'', JStr
     ''isTrustedForwarder''), (''outputs'', JList [JObj [(''internalType'', JStr ''bool''), (''name'', JStr
     ''''), (''type'', JStr ''bool'')]]), (''stateMutability'', JStr ''view''), (''type'', JStr
     ''function'')]]"

definition ERC20PermitAbi :: js_val where
  "ERC20PermitAbi =
    JList [JObj [(''inputs'', JList [JObj [(''internalType'', JStr ''address''), (''name'', JStr ''owner''),
     (''type'', JStr ''address'')], JObj [(''internalType'', JStr ''address''), (''name'', JStr
     ''spender''), (''type'', JStr ''address'')], JObj [(''internalType'', JStr ''uint256''), (''name'',
     JStr ''value''), (''type'', JStr ''uint256'')], JObj [(''internalType'', JStr ''uint256''), (''name'',
     JStr ''deadline''), (''type'', JStr ''uint256'')], JObj [(''internalType'', JStr ''uint8''), (''name'',
     JStr ''v''), (''type'', JStr ''uint8'')], JObj [(''internalType'', JStr ''bytes32''), (''name'', JStr
     ''r''), (''type'', JStr ''bytes32'')], JObj [(''internalType'', JStr ''bytes32''), (''name'', JStr
     ''s''), (''type'', JStr ''bytes32'')]]), (''name'', JStr ''permit''), (''outputs'', JList []),
     (''stateMutability'', JStr ''nonpayable''), (''type'', JStr ''function'')]]"

definition NativeMetaTransaction :: js_val where
  "NativeMetaTransaction =
    JList [JObj [(''inputs'', JList [JObj [(''internalType'', JStr ''address''), (''name'', JStr
     ''userAddress''), (''type'', JStr ''address'')], JObj [(''internalType'', JStr ''bytes''), (''name'',
     JStr ''functionSignature''), (''type'', JStr ''bytes'')], JObj [(''internalType'', JStr ''bytes32''),
     (''name'', JStr ''sigR''), (''type'', JStr ''bytes32'')], JObj [(''internalType'', JStr ''bytes32''),
     (''name'', JStr ''sigS''), (''type'', JStr ''bytes32'')], JObj [(''internalType'', JStr ''uint8''),
     (''name'', JStr ''sigV''), (''type'', JStr ''uint8'')]]), (''name'', JStr ''executeMetaTransaction''),
     (''outputs'', JList [JObj [(''internalType'', JStr ''bytes''), (''name'', JStr ''''), (''type'', JStr
     ''bytes'')]]), (''stateMutability'', JStr ''payable''), (''type'', JStr ''function'')]]"

section \<open>State\<close>

record relayer_row =
  rr_id :: string
  rr_name :: "string option"
  rr_chainId :: string
  rr_backendWalletAddress :: string
  rr_allowedContracts :: "string option"
  rr_allowedForwarders :: "string option"

record ('w, 'd) relay_state =
  rl_sdk :: "'w sdk_state"
  rl_rows :: 'd

record 'd relay_env =
  rl_relayers :: "('d, string, relayer_row) table"
  rl_splitSignature :: "string \<Rightarrow> js_error + (js_val \<times> js_val \<times> js_val)"
  rl_joinSignature :: "js_val \<times> js_val \<times> js_val \<Rightarrow> js_error + string"

definition on_sdk :: "('w sdk_state, 'a) io \<Rightarrow> (('w, 'd) relay_state, 'a) io" where
  "on_sdk m = (\<lambda>s. case m (rl_sdk s) of (r, w) \<Rightarrow> (r, s\<lparr>rl_sdk := w\<rparr>))"

definition on_relayers :: "('d, 'a) io \<Rightarrow> (('w, 'd) relay_state, 'a) io" where
  "on_relayers m = (\<lambda>s. case m (rl_rows s) of (r, d) \<Rightarrow> (r, s\<lparr>rl_rows := d\<rparr>))"

lemma on_sdk_apply [io_simps]: "on_sdk m s = (fst (m (rl_sdk s)), s\<lparr>rl_sdk := snd (m (rl_sdk s))\<rparr>)"
  by (cases "m (rl_sdk s)") (simp add: on_sdk_def)

lemma on_relayers_apply [io_simps]:
  "on_relayers m s = (fst (m (rl_rows s)), s\<lparr>rl_rows := snd (m (rl_rows s))\<rparr>)"
  by (cases "m (rl_rows s)") (simp add: on_relayers_def)

section \<open>Relayers\<close>

text \<open>
  \<open>getRelayerById\<close>: the contracts are parsed, the forwarders stay the text of the column. The chain is
  the text of an integer; one that is not has no chain.
\<close>

record relayer =
  ry_chainId :: int
  ry_backendWalletAddress :: string
  ry_allowedContracts :: "string list option"
  ry_allowedForwarders :: "string option"

definition parse_relayer :: "relayer_row \<Rightarrow> js_error + relayer" where
  "parse_relayer r =
     (case (if truthy (rr_allowedContracts r)
            then (case parse_strings (the (rr_allowedContracts r)) of
                Inl e \<Rightarrow> Inl e | Inr xs \<Rightarrow> Inr (Some (map toLowerCase xs)))
            else Inr None) of
        Inl e \<Rightarrow> Inl e
      | Inr contracts \<Rightarrow>
          (case parseInt (rr_chainId r) of
             None \<Rightarrow> Inl (badChainError (rr_chainId r))
           | Some n \<Rightarrow> Inr \<lparr>ry_chainId = n, ry_backendWalletAddress = rr_backendWalletAddress r,
               ry_allowedContracts = contracts, ry_allowedForwarders = rr_allowedForwarders r\<rparr>))"

definition getRelayerById :: "'d relay_env \<Rightarrow> string \<Rightarrow> (('w, 'd) relay_state, relayer option) io" where
  "getRelayerById R relayerId =
     bnd (on_relayers (t_find (rl_relayers R) relayerId)) (\<lambda>relayer.
     case relayer of None \<Rightarrow> ret None
     | Some r \<Rightarrow> bnd (lift_res (parse_relayer r)) (\<lambda>y. ret (Some y)))"

text \<open>The list columns: absent lists are \<open>null\<close>, others are written in lower case.\<close>

fun js_strings :: "js_val \<Rightarrow> string list" where
  "js_strings (JList vs) = map js_text vs"
| "js_strings v = []"

definition allow_list :: "js_val \<Rightarrow> string option" where
  "allow_list v = (if js_truthy v then Some (json_strings (map toLowerCase (js_strings v))) else None)"

definition createRelayer ::
  "'w sdk_sys \<Rightarrow> 'd relay_env \<Rightarrow> string \<Rightarrow> request \<Rightarrow> (('w, 'd) relay_state, js_val) io" where
  "createRelayer V R uuid q =
     (let body = hq_body q in
      bnd (on_sdk (chainIdFrom V (jprop body ''chain''))) (\<lambda>chainId.
      bnd (on_relayers (t_create (rl_relayers R) uuid
            \<lparr>rr_id = uuid, rr_name = js_opt (jprop body ''name''), rr_chainId = show_int chainId,
             rr_backendWalletAddress = js_text (jprop body ''backendWalletAddress''),
             rr_allowedContracts = allow_list (jprop body ''allowedContracts''),
             rr_allowedForwarders = allow_list (jprop body ''allowedForwarders'')\<rparr>)) (\<lambda>relayer.
      ret (JObj [(''result'', JObj [(''relayerId'', JStr (rr_id relayer))])]))))"

text \<open>A column that gets \<open>undefined\<close> is left as it is; the lists are always written.\<close>

definition update_relayer :: "int option \<Rightarrow> js_val \<Rightarrow> relayer_row \<Rightarrow> relayer_row" where
  "update_relayer chainId body r =
     r\<lparr>rr_name := (case js_opt (jprop body ''name'') of None \<Rightarrow> rr_name r | Some n \<Rightarrow> Some n),
       rr_chainId := (case chainId of None \<Rightarrow> rr_chainId r | Some n \<Rightarrow> show_int n),
       rr_backendWalletAddress := (case js_opt (jprop body ''backendWalletAddress'') of
           None \<Rightarrow> rr_backendWalletAddress r | Some a \<Rightarrow> a),
       rr_allowedContracts := allow_list (jprop body ''allowedContracts''),
       rr_allowedForwarders := allow_list (jprop body ''allowedForwarders'')\<rparr>"

definition updateRelayer ::
  "'w sdk_sys \<Rightarrow> 'd relay_env \<Rightarrow> request \<Rightarrow> (('w, 'd) relay_state, js_val) io" where
  "updateRelayer V R q =
     (let body = hq_body q; chain = jprop body ''chain'' in
      bnd (if js_truthy chain then bnd (on_sdk (chainIdFrom V chain)) (\<lambda>n. ret (Some n)) else ret None) (\<lambda>chainId.
      bnd (on_relayers (t_update (rl_relayers R) (js_text (jprop body ''id'')) (update_relayer chainId body))) (\<lambda>_.
      ret (JObj [(''result'', JObj [(''success'', JBool True)])]))))"

definition revokeRelayer :: "'d relay_env \<Rightarrow> request \<Rightarrow> (('w, 'd) relay_state, js_val) io" where
  "revokeRelayer R q =
     bnd (on_relayers (t_delete (rl_relayers R) (js_text (jprop (hq_body q) ''id'')))) (\<lambda>_.
     ret (JObj [(''result'', JObj [(''success'', JBool True)])]))"

definition shown_list :: "string option \<Rightarrow> js_expr" where
  "shown_list c = (if truthy c then (case parse_strings (the c) of
       Inl e \<Rightarrow> Inl e | Inr xs \<Rightarrow> Inr (JList (map JStr xs))) else Inr JNull)"

definition null_or :: "string option \<Rightarrow> js_val" where
  "null_or c = (case c of None \<Rightarrow> JNull | Some x \<Rightarrow> JStr x)"

definition show_relayer :: "relayer_row \<Rightarrow> js_expr" where
  "show_relayer r = js_obj [js_field ''id'' (Inr (JStr (rr_id r))), js_field ''name'' (Inr (null_or (rr_name r))),
     js_field ''chainId'' (Inr (JStr (rr_chainId r))),
     js_field ''backendWalletAddress'' (Inr (JStr (rr_backendWalletAddress r))),
     js_field ''allowedContracts'' (shown_list (rr_allowedContracts r)),
     js_field ''allowedForwarders'' (shown_list (rr_allowedForwarders r))]"

definition getAllRelayers :: "'d relay_env \<Rightarrow> (('w, 'd) relay_state, js_val) io" where
  "getAllRelayers R =
     bnd (on_relayers (t_many (rl_relayers R) (\<lambda>_. True))) (\<lambda>relayers.
     lift_res (js_obj [js_field ''result'' (js_arr (map show_relayer relayers))]))"

section \<open>Relaying\<close>

definition relay_refused :: "string \<Rightarrow> int \<times> js_val" where
  "relay_refused message = (400, JObj [(''error'', JObj [(''message'', JStr message)])])"

definition relay_queued :: "string \<Rightarrow> int \<times> js_val" where
  "relay_queued queueId = (200, JObj [(''result'', JObj [(''queueId'', JStr queueId)])])"

text \<open>The tests of the allow lists; that of the forwarders is one on the text.\<close>

definition contract_refused :: "relayer \<Rightarrow> string \<Rightarrow> bool" where
  "contract_refused relayer to = (case ry_allowedContracts relayer of
       None \<Rightarrow> False | Some cs \<Rightarrow> toLowerCase to \<notin> set cs)"

definition forwarder_refused :: "relayer \<Rightarrow> string \<Rightarrow> bool" where
  "forwarder_refused relayer forwarder \<longleftrightarrow> truthy (ry_allowedForwarders relayer)
     \<and> \<not> js_includes (toLowerCase forwarder) (the (ry_allowedForwarders relayer))"

definition unauthorized_contract :: "string \<Rightarrow> int \<times> js_val" where
  "unauthorized_contract to = relay_refused (''Requesting to relay transaction to unauthorized contract '' @ to @ ''.'')"

definition relay_queue ::
  "'w sdk_sys \<Rightarrow> relayer \<Rightarrow> sdk_tx \<Rightarrow> ('w sdk_state, int \<times> js_val) io" where
  "relay_queue V relayer tx =
     bnd (queue_tx V tx (ry_chainId relayer) ''relayer'' JUndefined JUndefined JUndefined JUndefined JUndefined) (\<lambda>queueId.
     ret (relay_queued queueId))"

definition relay_meta ::
  "'w sdk_sys \<Rightarrow> 'd relay_env \<Rightarrow> relayer \<Rightarrow> sdk \<Rightarrow> js_val \<Rightarrow> js_val \<Rightarrow> ('w sdk_state, int \<times> js_val) io" where
  "relay_meta V R relayer sdk req signature =
     (let to = js_text (jprop req ''to'') in
      bnd (lift_res (rl_splitSignature R (js_text signature))) (\<lambda>(v, r, s).
      if contract_refused relayer to then ret (unauthorized_contract to)
      else bnd (lift_res (v_getContractFromAbi (ys_sdk V) sdk (toLowerCase to) NativeMetaTransaction)) (\<lambda>target.
        bnd (prepare V target [''executeMetaTransaction''] [jprop req ''from'', jprop req ''data'', r, s, v]) (\<lambda>tx.
        relay_queue V relayer tx))))"

definition relay_permit ::
  "'w sdk_sys \<Rightarrow> 'd relay_env \<Rightarrow> relayer \<Rightarrow> sdk \<Rightarrow> js_val \<Rightarrow> js_val \<Rightarrow> ('w sdk_state, int \<times> js_val) io" where
  "relay_permit V R relayer sdk req signature =
     (let to = js_text (jprop req ''to'') in
      bnd (lift_res (rl_splitSignature R (js_text signature))) (\<lambda>(v, r, s).
      if contract_refused relayer to then ret (unauthorized_contract to)
      else bnd (lift_res (v_getContractFromAbi (ys_sdk V) sdk (toLowerCase to) ERC20PermitAbi)) (\<lambda>target.
        bnd (prepare V target [''permit''] [jprop req ''owner'', jprop req ''spender'', jprop req ''value'',
              jprop req ''deadline'', v, r, s]) (\<lambda>tx.
        relay_queue V relayer tx))))"

definition relay_forward ::
  "'w sdk_sys \<Rightarrow> 'd relay_env \<Rightarrow> relayer \<Rightarrow> sdk \<Rightarrow> js_val \<Rightarrow> js_val \<Rightarrow> js_val
   \<Rightarrow> ('w sdk_state, int \<times> js_val) io" where
  "relay_forward V R relayer sdk req signature forwarderAddress =
     (let to = js_text (jprop req ''to''); address = js_text forwarderAddress;
          forwarderAbi = (if js_truthy (jprop req ''chainid'') then ForwarderAbiEIP712ChainlessDomain else ForwarderAbi) in
      if forwarder_refused relayer address
      then ret (relay_refused (''Requesting to relay transaction with unauthorized forwarder '' @ address @ ''.''))
      else if contract_refused relayer to then ret (unauthorized_contract to)
      else if jprop req ''value'' \<noteq> JStr ''0''
      then ret (relay_refused (''Requesting to relay transaction with non-zero value '' @ js_text (jprop req ''value'') @ ''.''))
      else
        bnd (lift_res (v_getContractFromAbi (ys_sdk V) sdk (toLowerCase to) ERC2771ContextAbi)) (\<lambda>target.
        bnd (sdk_call V target [''isTrustedForwarder''] [forwarderAddress]) (\<lambda>isTrustedForwarder.
        if \<not> js_truthy isTrustedForwarder
        then ret (relay_refused (''Requesting to relay transaction with untrusted forwarder '' @ address @ ''.''))
        else
          bnd (lift_res (v_getContractFromAbi (ys_sdk V) sdk address forwarderAbi)) (\<lambda>forwarder.
          bnd (lift_res (rl_splitSignature R (js_text signature))) (\<lambda>parts.
          bnd (lift_res (rl_joinSignature R parts)) (\<lambda>fixedSignature.
          bnd (sdk_call V forwarder [''verify''] [req, JStr fixedSignature]) (\<lambda>valid.
          if \<not> js_truthy valid then ret (relay_refused ''Verification failed with provided message and signature'')
          else
            bnd (prepare V forwarder [''execute''] [req, JStr fixedSignature]) (\<lambda>tx.
            relay_queue V relayer tx))))))))"

text \<open>What a relayer does with the body of a request, and the route.\<close>

definition relay_as ::
  "'w sdk_sys \<Rightarrow> 'd relay_env \<Rightarrow> relayer \<Rightarrow> js_val \<Rightarrow> ('w sdk_state, int \<times> js_val) io" where
  "relay_as V R relayer body =
     (let req = jprop body ''request''; signature = jprop body ''signature'' in
      bnd (getSdk V (ry_chainId relayer) (JStr (ry_backendWalletAddress relayer)) JUndefined) (\<lambda>sdk.
      if jprop body ''type'' = JStr ''execute-meta-transaction'' then relay_meta V R relayer sdk req signature
      else if jprop body ''type'' = JStr ''permit'' then relay_permit V R relayer sdk req signature
      else relay_forward V R relayer sdk req signature (jprop body ''forwarderAddress'')))"

definition relayTransaction ::
  "'w sdk_sys \<Rightarrow> 'd relay_env \<Rightarrow> request \<Rightarrow> (('w, 'd) relay_state, int \<times> js_val) io" where
  "relayTransaction V R q =
     (let relayerId = js_text (jprop (hq_params q) ''relayerId'') in
      bnd (getRelayerById R relayerId) (\<lambda>found.
      case found of
        None \<Rightarrow> ret (relay_refused (''No relayer found with id '' @ quoted relayerId))
      | Some relayer \<Rightarrow> on_sdk (relay_as V R relayer (hq_body q))))"

end
