(* ===== verification/Handler_Logic.thy ===== *)
theory Handler_Logic
  imports Sdk_Access
begin

text \<open>
  What the properties of the handlers rest on: computations that leave the outside alone, the part
  of a request a schema declares, and the logic of requests whose idempotency key is known.
\<close>

section \<open>Handlers that only read\<close>

text \<open>A computation that at most fills caches.\<close>

definition sk_quiet :: "('w sdk_state, 'a) io \<Rightarrow> bool" where
  "sk_quiet m \<longleftrightarrow> (\<forall>s. store (sk_world (snd (m s))) = store (sk_world s)
     \<and> effects (sk_world (snd (m s))) = effects (sk_world s) \<and> clock (sk_world (snd (m s))) = clock (sk_world s))"

named_theorems sk_quiet_intros "computations that only read"

lemma sk_quietD:
  assumes "sk_quiet m"
  shows "store (sk_world (snd (m s))) = store (sk_world s)"
    "effects (sk_world (snd (m s))) = effects (sk_world s)" "clock (sk_world (snd (m s))) = clock (sk_world s)"
  using assms by (simp_all add: sk_quiet_def)

lemma sk_quiet_basic [sk_quiet_intros]: "sk_quiet (ret a)" "sk_quiet (throw e)" "sk_quiet (lift_res r)"
  unfolding sk_quiet_def by simp_all

lemma sk_quiet_bnd [sk_quiet_intros]: "sk_quiet m \<Longrightarrow> (\<And>a. sk_quiet (f a)) \<Longrightarrow> sk_quiet (bnd m f)"
  unfolding sk_quiet_def by (simp add: bnd_apply split: sum.split)

lemma sk_quiet_try [sk_quiet_intros]:
  "sk_quiet m \<Longrightarrow> (\<And>e. sk_quiet (h e)) \<Longrightarrow> sk_quiet (try_catch m h)"
  unfolding sk_quiet_def by (simp add: try_catch_apply split: sum.split)

lemma sk_quiet_if [sk_quiet_intros]:
  "(c \<Longrightarrow> sk_quiet a) \<Longrightarrow> (\<not> c \<Longrightarrow> sk_quiet b) \<Longrightarrow> sk_quiet (if c then a else b)"
  by simp

lemma sk_quiet_world [sk_quiet_intros]: "quiet m \<Longrightarrow> sk_quiet (at_w m)"
  unfolding sk_quiet_def quiet_def by (simp add: at_w_apply)

lemma sk_quiet_cached [sk_quiet_intros]:
  "sk_quiet m \<Longrightarrow> sk_quiet (sdk_cached k m)" "sk_quiet w \<Longrightarrow> sk_quiet (wallet_cached k w)"
  unfolding sk_quiet_def sdk_cached_def wallet_cached_def
  by (auto simp: bnd_apply split: option.split sum.split)

lemma quiet_getChainId [simp, intro!]: "quiet (getChainIdFromChain E RE c)"
  unfolding getChainIdFromChain_def by (auto split: option.split sum.split)

lemma sk_quiet_readonly [sk_quiet_intros]: "sk_quiet (readonly_sdk V c)"
  unfolding readonly_sdk_def chain_metadata_def by (intro sk_quiet_intros quiet_getChain)

lemma sk_quiet_resolve [sk_quiet_intros]: "sk_quiet (resolve_contract V sdk a abi)"
  unfolding resolve_contract_def by (intro sk_quiet_intros)

lemma sk_quiet_getContract [sk_quiet_intros]: "sk_quiet (getContract V c a JUndefined JUndefined abi)"
  unfolding getContract_def getSdk_def js_truthy.simps if_True not_False_eq_True by (intro sk_quiet_intros)

lemma sk_quiet_chainIdFrom [sk_quiet_intros]: "sk_quiet (chainIdFrom V c)"
  unfolding chainIdFrom_def by (intro sk_quiet_intros quiet_getChainId)

lemma sk_quiet_sdk_call [sk_quiet_intros]: "sk_quiet (sdk_call V contract path args)"
  unfolding sdk_call_def by (intro sk_quiet_intros)

lemma sk_quiet_let [sk_quiet_intros]: "(\<And>x. sk_quiet (f x)) \<Longrightarrow> sk_quiet (Let a f)"
  by (simp add: Let_def)

section \<open>The declared part of a request\<close>

definition same_fields :: "schema option \<Rightarrow> js_val \<Rightarrow> js_val \<Rightarrow> bool" where
  "same_fields s v v' = (\<forall>k \<in> set (field_names s). map_of (entries v) k = map_of (entries v') k)"

definition agree :: "route \<Rightarrow> request \<Rightarrow> request \<Rightarrow> bool" where
  "agree r q q' \<longleftrightarrow> same_fields (rt_params r) (hq_params q) (hq_params q')
     \<and> same_fields (rt_querystring r) (hq_query q) (hq_query q')
     \<and> same_fields (rt_body r) (hq_body q) (hq_body q')
     \<and> same_fields (rt_headers r) (hq_headers q) (hq_headers q')"

definition reads_declared :: "route \<times> 'w handler \<Rightarrow> bool" where
  "reads_declared rh \<longleftrightarrow> (\<forall>V q q'. agree (fst rh) q q' \<longrightarrow> snd rh V q = snd rh V q')"

lemma jprop_entries: "jprop v k = (case map_of (entries v) k of None \<Rightarrow> JUndefined | Some x \<Rightarrow> x)"
  by (cases v) auto

lemma jprop_rest: "jprop (js_rest v ks) k = (if k \<in> set ks then JUndefined else jprop v k)"
proof -
  have "map_of (filter (\<lambda>(k, _). k \<notin> set ks) fs) k = (if k \<in> set ks then None else map_of fs k)" for fs :: "(string \<times> js_val) list"
    by (induction fs) auto
  then show ?thesis by (cases v) auto
qed

lemma js_dot_rest: "js_dot (Inr (js_rest v ks)) k = Inr (if k \<in> set ks then JUndefined else jprop v k)"
proof -
  have "\<not> js_nullish (js_rest v ks)" by (cases v) auto
  then show ?thesis by (simp add: js_dot_def jprop_rest)
qed

section \<open>Requests that are repeated\<close>

text \<open>
  A transaction is stored under the key \<open>k\<close>, and \<open>es\<close> holds the effects so far and what is stored. A
  computation replays \<open>k\<close> when it keeps both and, where it answers, its answer satisfies \<open>Q\<close>.
\<close>

definition known_key ::
  "('w \<Rightarrow> keyspace) \<Rightarrow> string \<Rightarrow> effect list \<times> rval \<Rightarrow> 'w sdk_state \<Rightarrow> bool" where
  "known_key view k es s \<longleftrightarrow>
     view (store (sk_world s)) (transactionDetailsKey k) = Some (snd es) \<and> effects (sk_world s) = fst es"

definition replays ::
  "('w \<Rightarrow> keyspace) \<Rightarrow> string \<Rightarrow> ('w sdk_state, 'a) io \<Rightarrow> ('a \<Rightarrow> bool) \<Rightarrow> bool" where
  "replays view k m Q \<longleftrightarrow> (\<forall>es s. known_key view k es s \<longrightarrow>
     known_key view k es (snd (m s)) \<and> (\<forall>v. fst (m s) = Inr v \<longrightarrow> Q v))"

named_theorems replay_intros "computations that replay a key"

lemma replaysI:
  assumes "\<And>es s. known_key view k es s \<Longrightarrow> known_key view k es (snd (m s))"
    and "\<And>es s v. known_key view k es s \<Longrightarrow> fst (m s) = Inr v \<Longrightarrow> Q v"
  shows "replays view k m Q"
  using assms unfolding replays_def by blast

lemma replaysD:
  assumes "replays view k m Q" "known_key view k es s"
  shows "known_key view k es (snd (m s))" "fst (m s) = Inr v \<Longrightarrow> Q v"
  using assms unfolding replays_def by blast+

lemma replays_seq:
  assumes "replays view k m R" "\<And>a. R a \<Longrightarrow> replays view k (f a) Q"
  shows "replays view k (bnd m f) Q"
proof (rule replaysI)
  fix es s assume s: "known_key view k es s"
  note m = replaysD [OF assms(1) s]
  show "known_key view k es (snd (bnd m f s))"
  proof (cases "fst (m s)")
    case (Inr a)
    then show ?thesis using m replaysD(1) [OF assms(2) m(1)] by (simp add: bnd_apply)
  qed (simp add: bnd_apply m(1))
  fix v assume v: "fst (bnd m f s) = Inr v"
  then obtain a where "fst (m s) = Inr a" "fst (f a (snd (m s))) = Inr v"
    by (auto simp: bnd_apply split: sum.splits)
  then show "Q v" using m replaysD(2) [OF assms(2) m(1)] by simp
qed

lemma replays_bnd [replay_intros]:
  "replays view k m (\<lambda>_. True) \<Longrightarrow> (\<And>a. replays view k (f a) Q) \<Longrightarrow> replays view k (bnd m f) Q"
  by (rule replays_seq)

text \<open>Where the answer is the key.\<close>

lemma replays_key:
  "replays view k m (\<lambda>a. a = k) \<Longrightarrow> replays view k (f k) Q \<Longrightarrow> replays view k (bnd m f) Q"
  by (erule replays_seq) simp

lemma replays_weaken: "replays view k m Q \<Longrightarrow> (\<And>a. Q a \<Longrightarrow> R a) \<Longrightarrow> replays view k m R"
  unfolding replays_def by blast

lemma replays_basic [replay_intros]:
  "Q a \<Longrightarrow> replays view k (ret a) Q" "replays view k (throw e) Q" "replays view k (lift_res r) (\<lambda>_. True)"
  unfolding replays_def by simp_all

lemma replays_try [replay_intros]:
  assumes "replays view k m Q" "\<And>e. replays view k (h e) Q"
  shows "replays view k (try_catch m h) Q"
proof (rule replaysI)
  fix es s assume s: "known_key view k es s"
  note m = replaysD [OF assms(1) s]
  show "known_key view k es (snd (try_catch m h s))"
    using m(1) replaysD(1) [OF assms(2) m(1)] by (cases "fst (m s)") (simp_all add: try_catch_apply)
  show "Q v" if "fst (try_catch m h s) = Inr v" for v
    using that m(2) replaysD(2) [OF assms(2) m(1)] by (cases "fst (m s)") (simp_all add: try_catch_apply)
qed

lemma replays_if [replay_intros]:
  "(c \<Longrightarrow> replays view k a Q) \<Longrightarrow> (\<not> c \<Longrightarrow> replays view k b Q) \<Longrightarrow> replays view k (if c then a else b) Q"
  by simp

lemma replays_let [replay_intros]: "(\<And>x. replays view k (f x) Q) \<Longrightarrow> replays view k (Let a f) Q"
  by (simp add: Let_def)

lemma replays_quiet: "sk_quiet m \<Longrightarrow> replays view k m (\<lambda>_. True)"
  unfolding replays_def known_key_def by (simp add: sk_quietD)

lemma replays_cached [replay_intros]:
  assumes "replays view k m (\<lambda>_. True)"
  shows "replays view k (sdk_cached key m) (\<lambda>_. True)"
  using assms unfolding replays_def sdk_cached_def known_key_def
  by (auto simp: bnd_apply split: option.split sum.split)

lemma replays_wallet_cached [replay_intros]:
  assumes "replays view k m (\<lambda>_. True)"
  shows "replays view k (wallet_cached key m) (\<lambda>_. True)"
  using assms unfolding replays_def wallet_cached_def known_key_def
  by (auto simp: bnd_apply split: option.split sum.split)

lemma replays_reads [replay_intros]:
  "replays view k (chainIdFrom V c) (\<lambda>_. True)" "replays view k (sdk_call V ct path args) (\<lambda>_. True)"
  "replays view k (prepare V ct path args) (\<lambda>_. True)" "replays view k (prepare_deploy V sdk f args) (\<lambda>_. True)"
  "replays view k (simulate_deploy V tx) (\<lambda>_. True)" "replays view k (getContractV5 V n a abi) (\<lambda>_. True)"
  "replays view k (readonly_sdk V n) (\<lambda>_. True)" "replays view k (resolve_contract V sdk ad abi) (\<lambda>_. True)"
  "replays view k (chain_metadata V n) (\<lambda>_. True)" "replays view k (at_w (getWalletDetails E wa)) (\<lambda>_. True)"
  "replays view k (at_w (override_amount E x)) (\<lambda>_. True)"
  unfolding prepare_def prepare_deploy_def simulate_deploy_def getContractV5_def chain_metadata_def
    getWalletDetails_def override_amount_def
  by (intro replays_quiet sk_quiet_intros quiet_getChain quiet_basic)+

lemma factory_key_other [simp]: "transactionDetailsKey k \<noteq> factory_key a" "factory_key a \<noteq> transactionDetailsKey k"
  by (simp_all add: transactionDetailsKey_def factory_key_def)

context engine
begin

lemma replays_redis:
  "replays view k (at_w (redis_do (r_get (e_redis E) key))) (\<lambda>_. True)"
  "replays view k (at_w (redis_do (r_set (e_redis E) (factory_key a) v))) (\<lambda>_. True)"
  unfolding replays_def known_key_def by (auto simp: at_w_apply io_simps)

lemma replays_getWallet:
  fixes V :: "'w sdk_sys"
  assumes "ys_env V = E"
  shows "replays view k (getWallet V c a acc) (\<lambda>_. True)"
  unfolding getWallet_def getSmartWallet_def assms
  by (intro replay_intros replays_redis | split option.split | intro conjI allI impI | simp)+

lemma replays_getSdk:
  fixes V :: "'w sdk_sys"
  assumes "ys_env V = E"
  shows "replays view k (getSdk V c a acc) (\<lambda>_. True)"
  unfolding getSdk_def by (intro replay_intros replays_getWallet assms)

lemma replays_getContract:
  fixes V :: "'w sdk_sys"
  assumes "ys_env V = E"
  shows "replays view k (getContract V c ad a acc abi) (\<lambda>_. True)"
  unfolding getContract_def by (intro replay_intros replays_getSdk assms)

lemma replays_insert:
  assumes "k \<noteq> []"
  shows "replays view k (at_w (insertTransaction E inserted (Some k) sim)) (\<lambda>a. a = k)"
  using assms unfolding replays_def known_key_def
  by (auto simp: at_w_apply insert_known looked_keeps)

lemma replays_lift: "replays view k (at_w (lift_res r)) (\<lambda>_. True)"
  unfolding replays_def known_key_def by (simp add: at_w_apply)

lemma at_w_bnd: "at_w (bnd m f) = bnd (at_w m) (\<lambda>a. at_w (f a))"
  by (rule ext) (auto simp: at_w_apply bnd_apply split: sum.split)

lemma replays_queueTx:
  assumes "k \<noteq> []"
  shows "replays view k (at_w (queueTx E tx c ext da dt sim (Some k) ov fac)) (\<lambda>a. a = k)"
  unfolding queueTx_def override_amount_def at_w_bnd Let_def if_distrib [of at_w]
  by (intro replays_bnd replays_lift replays_if replays_insert assms)

lemma replays_queueTransaction:
  assumes "k \<noteq> []"
  shows "replays view k (at_w (queueTransaction E ed c fa ta aa af ov (Some k) sim)) (\<lambda>a. a = k)"
proof -
  have "replays view k (at_w (case ed of Inl e \<Rightarrow> throw (createCustomError (show_error e) 400 ''BAD_REQUEST'')
      | Inr d \<Rightarrow> ret d)) (\<lambda>_. True)"
    unfolding replays_def known_key_def by (simp add: at_w_apply split: sum.split)
  then show ?thesis
    unfolding queueTransaction_def override_amount_def at_w_bnd Let_def
    by (intro replays_bnd replays_lift replays_insert assms)
qed

lemma replays_queue:
  fixes V :: "'w sdk_sys"
  assumes "ys_env V = E" "k \<noteq> []"
  shows "replays view k (queue_tx V tx c ext da dt sim (JStr k) ov) (\<lambda>a. a = k)"
    and "replays view k (queue_v5 V ed c fa ca aa af ov (JStr k) sim) (\<lambda>a. a = k)"
  unfolding queue_tx_def queue_v5_def assms(1) js_opt.simps
  by (intro replay_intros replays_queueTx replays_queueTransaction assms(2))+

end

end
