(* ===== verification/Shared_Schemas.thy ===== *)
theory Shared_Schemas
  imports Route_Schema
begin

text \<open>
  The schemas that several routes share (\<open>src/server/schemas\<close>), under their names in the source, one section
  for each file. \<open>Type.Enum\<close> of two literals, as the compiler type of a deployment has it, enumerates the
  properties of the first and takes the second as options.
\<close>

section \<open>account/index.ts\<close>

definition AddressSchema :: schema where [schema_defs]:
  "AddressSchema =
     SPattern ''^0x[a-fA-F0-9]{40}$''"

definition sessionSchema :: schema where [schema_defs]:
  "sessionSchema =
     SObject [(''signerAddress'', True, AddressSchema), (''startDate'', True, SString),
     (''expirationDate'', True, SString), (''nativeTokenLimitPerTransaction'', True, SString),
     (''approvedCallTargets'', True, SArray SString)]"

section \<open>address.ts\<close>

definition TransactionHashSchema :: schema where [schema_defs]:
  "TransactionHashSchema =
     SPattern ''^0x[a-fA-F0-9]{64}$''"

section \<open>auth/index.ts\<close>

definition permissionsSchema :: schema where [schema_defs]:
  "permissionsSchema =
     SUnion [SLiteral (JStr ''ADMIN''), SLiteral (JStr ''OWNER'')]"

section \<open>chain/index.ts\<close>

definition chainRequestQuerystringSchema :: schema where [schema_defs]:
  "chainRequestQuerystringSchema =
     SObject [(''chain'', True, SString)]"

definition chainResponseSchema :: schema where [schema_defs]:
  "chainResponseSchema =
     schema_partial (SObject [(''name'', True, SString), (''chain'', True, SString), (''rpc'', True,
     SArray SString), (''nativeCurrency'', True, SObject [(''name'', True, SString), (''symbol'', True,
     SString), (''decimals'', True, SNumber)]), (''shortName'', True, SString), (''chainId'', True,
     SNumber), (''testnet'', True, SBoolean), (''slug'', True, SString)])"

section \<open>claimConditions/index.ts\<close>

definition claimConditionInputSchema :: schema where [schema_defs]:
  "claimConditionInputSchema =
     SObject [(''maxClaimableSupply'', False, SUnion [SString, SNumber]), (''startTime'', False,
     SUnion [SString, SNumber]), (''price'', False, SUnion [SNumber, SString]), (''currencyAddress'',
     False, AddressSchema), (''maxClaimablePerWallet'', False, SUnion [SNumber, SString]),
     (''waitInSeconds'', False, SUnion [SNumber, SString]), (''merkleRootHash'', False, SUnion [SString,
     SArray SNumber]), (''metadata'', False, SObject [(''name'', False, SString)]), (''snapshot'',
     False, SUnion [SArray SString, SArray (SObject [(''price'', False, SUnion [SString, SNumber]),
     (''currencyAddress'', False, AddressSchema), (''address'', True, AddressSchema), (''maxClaimable'',
     False, SUnion [SString, SNumber])]), SNull])]"

definition sanitizedClaimConditionInputSchema :: schema where [schema_defs]:
  "sanitizedClaimConditionInputSchema =
     SObject (properties claimConditionInputSchema @ [(''startTime'', False, SUnion [SDate, SNumber])])"

definition currencyValueSchema :: schema where [schema_defs]:
  "currencyValueSchema =
     SObject [(''name'', True, SString), (''symbol'', True, SString), (''decimals'', True, SNumber),
     (''value'', True, SString), (''displayValue'', True, SString)]"

definition claimConditionOutputSchema :: schema where [schema_defs]:
  "claimConditionOutputSchema =
     SObject [(''maxClaimableSupply'', False, SUnion [SString, SNumber]), (''startTime'', True,
     SString), (''price'', False, SUnion [SNumber, SString]), (''currencyAddress'', False,
     AddressSchema), (''maxClaimablePerWallet'', False, SUnion [SNumber, SString]), (''waitInSeconds'',
     False, SUnion [SNumber, SString]), (''merkleRootHash'', True, SUnion [SString, SArray SNumber]),
     (''availableSupply'', True, SString), (''currentMintSupply'', True, SString),
     (''currencyMetadata'', True, currencyValueSchema), (''metadata'', False, SObject [(''name'', False,
     SString)]), (''snapshot'', False, SUnion [SNull, SArray SString, SArray (SObject [(''price'',
     False, SUnion [SString, SNumber]), (''currencyAddress'', False, AddressSchema), (''address'', True,
     AddressSchema), (''maxClaimable'', False, SUnion [SString, SNumber])])])]"

definition claimerProofSchema :: schema where [schema_defs]:
  "claimerProofSchema =
     SUnion [SNull, SObject [(''price'', False, SString), (''currencyAddress'', False, AddressSchema),
     (''address'', True, AddressSchema), (''maxClaimable'', True, SString), (''proof'', True,
     SArray SString)]]"

definition setBatchSantiziedClaimConditionsRequestSchema :: schema where [schema_defs]:
  "setBatchSantiziedClaimConditionsRequestSchema =
     SObject [(''claimConditionsForToken'', True, SArray (SObject [(''tokenId'', True, SUnion [SString,
     SNumber]), (''claimConditions'', True, SArray sanitizedClaimConditionInputSchema)])),
     (''resetClaimEligibilityForAll'', False, SBoolean)]"

section \<open>contract/index.ts\<close>

definition readRequestQuerySchema :: schema where [schema_defs]:
  "readRequestQuerySchema =
     SObject [(''functionName'', True, SString), (''args'', False, SString)]"

definition abiTypeSchema :: schema where [schema_defs]:
  "abiTypeSchema =
     SObject [(''type'', False, SString), (''name'', False, SString), (''internalType'', False,
     SString), (''stateMutability'', False, SString), (''components'', False,
     SArray (SObject [(''type'', False, SString), (''name'', False, SString), (''internalType'', False,
     SString)]))]"

definition abiFunctionSchema :: schema where [schema_defs]:
  "abiFunctionSchema =
     SObject [(''name'', True, SString), (''inputs'', True, SArray abiTypeSchema), (''outputs'', True,
     SArray abiTypeSchema), (''comment'', False, SString), (''signature'', True, SString),
     (''stateMutability'', True, SString)]"

definition abiEventSchema :: schema where [schema_defs]:
  "abiEventSchema =
     SObject [(''name'', True, SString), (''inputs'', True, SArray abiTypeSchema), (''outputs'', True,
     SArray abiTypeSchema), (''comment'', False, SString)]"

definition abiSchema :: schema where [schema_defs]:
  "abiSchema =
     SObject [(''type'', True, SString), (''name'', False, SString), (''inputs'', False,
     SArray abiTypeSchema), (''outputs'', False, SArray abiTypeSchema), (''stateMutability'', False,
     SString)]"

definition contractEventSchema :: schema where [schema_defs]:
  "contractEventSchema =
     SRecord SAny"

definition rolesResponseSchema :: schema where [schema_defs]:
  "rolesResponseSchema =
     SObject [(''admin'', True, SArray SString), (''transfer'', True, SArray SString), (''minter'',
     True, SArray SString), (''pauser'', True, SArray SString), (''lister'', True, SArray SString),
     (''asset'', True, SArray SString), (''unwrap'', True, SArray SString), (''factory'', True,
     SArray SString), (''signer'', True, SArray SString)]"

definition eventsQuerystringSchema :: schema where [schema_defs]:
  "eventsQuerystringSchema =
     SObject [(''fromBlock'', False, SDefault (JStr ''0'') (SUnion [SNumber, SString])), (''toBlock'',
     False, SDefault (JStr ''latest'') (SUnion [SDefault (JNum (Some 0)) SNumber,
     SDefault (JStr ''0'') SString])), (''order'', False,
     SDefault (JStr ''desc'') (SUnion [SLiteral (JStr ''asc''), SLiteral (JStr ''desc'')]))]"

definition royaltySchema :: schema where [schema_defs]:
  "royaltySchema =
     SObject [(''seller_fee_basis_points'', True, SNumber), (''fee_recipient'', True, SString)]"

definition contractDeployBasicSchema :: schema where [schema_defs]:
  "contractDeployBasicSchema =
     SObject [(''version'', False, SString), (''forceDirectDeploy'', False, SBoolean),
     (''saltForProxyDeploy'', False, SString), (''compilerOptions'', False, SObject [(''compilerType'',
     True, SAll [SLiteral (JStr ''zksolc''), SUnion [SLiteral (JStr ''solc''),
     SLiteral (JStr ''string'')]]), (''compilerVersion'', False, SString), (''evmVersion'', False,
     SString)])]"

section \<open>contractSubscription.ts\<close>

definition WebhookSchema :: schema where [schema_defs]:
  "WebhookSchema =
     SObject [(''url'', True, SString), (''name'', True, SUnion [SString, SNull]), (''secret'', False,
     SString), (''eventType'', True, SString), (''active'', True, SBoolean), (''createdAt'', True,
     SString), (''id'', True, SNumber)]"

definition contractSubscriptionSchema :: schema where [schema_defs]:
  "contractSubscriptionSchema =
     SObject [(''id'', True, SString), (''chainId'', True, SNumber), (''contractAddress'', True,
     AddressSchema), (''webhook'', False, WebhookSchema), (''processEventLogs'', True, SBoolean),
     (''filterEvents'', True, SArray SString), (''processTransactionReceipts'', True, SBoolean),
     (''filterFunctions'', True, SArray SString), (''createdAt'', True, SString)]"

section \<open>erc20/index.ts\<close>

definition erc20MetadataSchema :: schema where [schema_defs]:
  "erc20MetadataSchema =
     SObject [(''name'', True, SString), (''symbol'', True, SString), (''decimals'', True, SString),
     (''value'', True, SString), (''displayValue'', True, SString)]"

definition signature20InputSchema :: schema where [schema_defs]:
  "signature20InputSchema =
     SObject [(''to'', True, SString), (''quantity'', True, SString), (''primarySaleRecipient'', False,
     SString), (''uid'', False, SString), (''currencyAddress'', False, SString), (''price'', False,
     SString), (''mintStartTime'', False, SUnion [SString, SNumber]), (''mintEndTime'', False,
     SUnion [SString, SNumber])]"

definition signature20OutputSchema :: schema where [schema_defs]:
  "signature20OutputSchema =
     SObject [(''to'', True, SString), (''quantity'', True, SString), (''primarySaleRecipient'', True,
     SString), (''uid'', True, SString), (''currencyAddress'', True, AddressSchema), (''price'', True,
     SString), (''mintStartTime'', True, SNumber), (''mintEndTime'', True, SNumber)]"

section \<open>eventLog.ts\<close>

definition eventLogSchema :: schema where [schema_defs]:
  "eventLogSchema =
     SObject [(''chainId'', True, SNumber), (''contractAddress'', True, AddressSchema),
     (''blockNumber'', True, SNumber), (''transactionHash'', True, TransactionHashSchema), (''topics'',
     True, SArray SString), (''data'', True, SString), (''eventName'', False, SString), (''decodedLog'',
     True, SAny), (''timestamp'', True, SNumber), (''transactionIndex'', True, SNumber), (''logIndex'',
     True, SNumber)]"

section \<open>httpHeaders/thirdwebSdkVersion.ts\<close>

definition thirdwebSdkVersionSchema :: schema where [schema_defs]:
  "thirdwebSdkVersionSchema =
     SObject [(''x-thirdweb-sdk-version'', False, SString)]"

section \<open>keypairs.ts\<close>

definition KeypairAlgorithmSchema :: schema where [schema_defs]:
  "KeypairAlgorithmSchema =
     SUnion (map (\<lambda>a. SLiteral (JStr a)) [''RS256'', ''RS384'', ''RS512'', ''ES256'', ''ES384'',
     ''ES512'', ''PS256'', ''PS384'', ''PS512''])"

definition KeypairSchema :: schema where [schema_defs]:
  "KeypairSchema =
     SObject [(''hash'', True, SString), (''publicKey'', True, SString), (''algorithm'', True, SString),
     (''label'', False, SString), (''createdAt'', True, SString), (''updatedAt'', True, SString)]"

section \<open>marketplaceV3/directListing/index.ts\<close>

definition directListingV3InputSchema :: schema where [schema_defs]:
  "directListingV3InputSchema =
     SObject [(''assetContractAddress'', True, AddressSchema), (''tokenId'', True, SString),
     (''currencyContractAddress'', False, SString), (''quantity'', False, SString), (''pricePerToken'',
     True, SString), (''isReservedListing'', False, SBoolean), (''startTimestamp'', False, SNumber),
     (''endTimestamp'', False, SNumber)]"

definition nftMetadataSchema :: schema where [schema_defs]:
  "nftMetadataSchema =
     SObject [(''id'', True, SString), (''uri'', True, SString), (''name'', False, SUnion [SString,
     SNumber, SNull]), (''description'', False, SUnion [SString, SNull]), (''image'', False,
     SUnion [SString, SNull]), (''external_url'', False, SUnion [SString, SNull]), (''animation_url'',
     False, SUnion [SString, SNull]), (''properties'', False, SAny), (''attributes'', False, SAny)]"

definition directListingV3OutputSchema :: schema where [schema_defs]:
  "directListingV3OutputSchema =
     SObject [(''assetContractAddress'', True, AddressSchema), (''tokenId'', True, SString),
     (''currencyContractAddress'', False, SString), (''quantity'', False, SString), (''pricePerToken'',
     True, SString), (''isReservedListing'', False, SBoolean), (''id'', True, SString),
     (''currencyValuePerToken'', False, currencyValueSchema), (''asset'', False, nftMetadataSchema),
     (''status'', False, SUnion [SLiteral (JNum (Some 0)), SLiteral (JNum (Some 1)),
     SLiteral (JNum (Some 2)), SLiteral (JNum (Some 3)), SLiteral (JNum (Some 4)),
     SLiteral (JNum (Some 5))]), (''startTimeInSeconds'', False, SNumber), (''endTimeInSeconds'', False,
     SNumber)]"

section \<open>marketplaceV3/englishAuction/index.ts\<close>

definition auctionCurrencyValueSchema :: schema where [schema_defs]:
  "auctionCurrencyValueSchema =
     SObject [(''name'', False, SString), (''symbol'', False, SString), (''decimals'', False, SNumber),
     (''value'', False, SString), (''displayValue'', False, SString)]"

definition englishAuctionInputSchema :: schema where [schema_defs]:
  "englishAuctionInputSchema =
     SObject [(''assetContractAddress'', True, AddressSchema), (''tokenId'', True, SString),
     (''currencyContractAddress'', False, SString), (''quantity'', False, SString), (''startTimestamp'',
     False, SNumber), (''endTimestamp'', False, SNumber), (''buyoutBidAmount'', True, SString),
     (''minimumBidAmount'', True, SString), (''bidBufferBps'', False, SString),
     (''timeBufferInSeconds'', False, SString)]"

definition englishAuctionOutputSchema :: schema where [schema_defs]:
  "englishAuctionOutputSchema =
     SObject [(''assetContractAddress'', True, AddressSchema), (''tokenId'', True, SString),
     (''currencyContractAddress'', False, SString), (''quantity'', False, SString), (''id'', True,
     SString), (''minimumBidAmount'', False, SString), (''buyoutBidAmount'', True, SString),
     (''buyoutCurrencyValue'', True, auctionCurrencyValueSchema), (''timeBufferInSeconds'', True,
     SNumber), (''bidBufferBps'', True, SNumber), (''startTimeInSeconds'', True, SNumber),
     (''endTimeInSeconds'', True, SNumber), (''asset'', False, nftMetadataSchema), (''status'', False,
     SUnion [SLiteral (JNum (Some 0)), SLiteral (JNum (Some 1)), SLiteral (JNum (Some 2)),
     SLiteral (JNum (Some 3)), SLiteral (JNum (Some 4)), SLiteral (JNum (Some 5))])]"

definition bidSchema :: schema where [schema_defs]:
  "bidSchema =
     SObject [(''auctionId'', False, SString), (''bidderAddress'', False, SString),
     (''currencyContractAddress'', False, SString), (''bidAmount'', False, SString),
     (''bidAmountCurrencyValue'', False, auctionCurrencyValueSchema)]"

section \<open>marketplaceV3/offer/index.ts\<close>

definition OfferV3InputSchema :: schema where [schema_defs]:
  "OfferV3InputSchema =
     SObject [(''assetContractAddress'', True, AddressSchema), (''tokenId'', True, SString),
     (''currencyContractAddress'', False, SString), (''quantity'', False, SString), (''totalPrice'',
     True, SString), (''endTimestamp'', False, SNumber)]"

definition OfferV3OutputSchema :: schema where [schema_defs]:
  "OfferV3OutputSchema =
     SObject [(''assetContractAddress'', True, AddressSchema), (''tokenId'', True, SString),
     (''currencyContractAddress'', False, SString), (''quantity'', False, SString), (''id'', True,
     SString), (''offerorAddress'', True, AddressSchema), (''currencyValue'', False,
     currencyValueSchema), (''totalPrice'', True, SString), (''asset'', False, nftMetadataSchema),
     (''endTimeInSeconds'', False, SNumber), (''status'', False, SUnion [SLiteral (JNum (Some 0)),
     SLiteral (JNum (Some 1)), SLiteral (JNum (Some 2)), SLiteral (JNum (Some 3)),
     SLiteral (JNum (Some 4)), SLiteral (JNum (Some 5))])]"

section \<open>nft/index.ts\<close>

definition nftInputSchema :: schema where [schema_defs]:
  "nftInputSchema =
     schema_partial (SObject [(''name'', True, SString), (''description'', True, SString), (''image'',
     True, SString), (''animation_url'', True, SString), (''external_url'', True, SString),
     (''background_color'', True, SString), (''properties'', True, SAny), (''attributes'', True,
     SArray (SObject [(''trait_type'', True, SString), (''value'', True, SString)]))])"

definition nftMetadataInputSchema :: schema where [schema_defs]:
  "nftMetadataInputSchema =
     SObject [(''name'', False, SUnion [SString, SNumber, SNull]), (''description'', False,
     SUnion [SString, SNull]), (''image'', False, SUnion [SString, SNull]), (''external_url'', False,
     SUnion [SString, SNull]), (''animation_url'', False, SUnion [SString, SNull]), (''properties'',
     False, SAny), (''attributes'', False, SAny), (''background_color'', False, SUnion [SString,
     SNull])]"

definition nftOrInputSchema :: schema where [schema_defs]:
  "nftOrInputSchema =
     SUnion [nftMetadataInputSchema, SString]"

definition nftAndSupplySchema :: schema where [schema_defs]:
  "nftAndSupplySchema =
     SObject [(''metadata'', True, nftOrInputSchema), (''supply'', True, SString)]"

definition nftSchema :: schema where [schema_defs]:
  "nftSchema =
     SObject [(''metadata'', True, nftMetadataSchema), (''owner'', True, SString), (''type'', True,
     SUnion [SLiteral (JStr ''ERC1155''), SLiteral (JStr ''ERC721''), SLiteral (JStr ''metaplex'')]),
     (''supply'', True, SString), (''quantityOwned'', False, SString)]"

definition signature721InputSchema :: schema where [schema_defs]:
  "signature721InputSchema =
     SObject [(''to'', True, SString), (''royaltyRecipient'', False, SString), (''quantity'', False,
     SString), (''royaltyBps'', False, SNumber), (''primarySaleRecipient'', False, SString), (''uid'',
     False, SString), (''metadata'', True, SUnion [nftMetadataInputSchema, SString]),
     (''currencyAddress'', False, SString), (''price'', False, SString), (''mintStartTime'', False,
     SUnion [SString, SNumber]), (''mintEndTime'', False, SUnion [SString, SNumber])]"

definition signature721OutputSchema :: schema where [schema_defs]:
  "signature721OutputSchema =
     SObject [(''uri'', True, SString), (''to'', True, SString), (''royaltyRecipient'', True, SString),
     (''quantity'', True, SString), (''royaltyBps'', True, SString), (''primarySaleRecipient'', True,
     SString), (''uid'', True, SString), (''metadata'', True, SUnion [nftMetadataInputSchema, SString]),
     (''currencyAddress'', True, AddressSchema), (''price'', False, SString), (''mintStartTime'', True,
     SNumber), (''mintEndTime'', True, SNumber)]"

definition signature1155InputSchema :: schema where [schema_defs]:
  "signature1155InputSchema =
     SObject [(''to'', True, SString), (''quantity'', True, SString), (''metadata'', True,
     SUnion [nftMetadataInputSchema, SString]), (''royaltyRecipient'', False, SString), (''royaltyBps'',
     False, SNumber), (''primarySaleRecipient'', False, SString), (''uid'', False, SString),
     (''currencyAddress'', False, SString), (''price'', False, SString), (''mintStartTime'', False,
     SUnion [SString, SNumber]), (''mintEndTime'', False, SUnion [SString, SNumber])]"

definition signature1155OutputSchema :: schema where [schema_defs]:
  "signature1155OutputSchema =
     SObject [(''uri'', True, SString), (''tokenId'', True, SString), (''to'', True, SString),
     (''royaltyRecipient'', True, SString), (''quantity'', True, SString), (''royaltyBps'', True,
     SString), (''primarySaleRecipient'', True, SString), (''uid'', True, SString), (''metadata'', True,
     SUnion [nftMetadataInputSchema, SString]), (''currencyAddress'', True, AddressSchema), (''price'',
     True, SDefault (JStr ''0'') SString), (''mintStartTime'', True, SNumber), (''mintEndTime'', True,
     SNumber)]"

section \<open>nft/v5.ts\<close>

definition signature721InputSchemaV5 :: schema where [schema_defs]:
  "signature721InputSchemaV5 =
     SObject [(''metadata'', True, SUnion [SString, nftInputSchema]), (''to'', True, AddressSchema),
     (''price'', False, SString), (''priceInWei'', False, SString), (''currency'', False,
     AddressSchema), (''primarySaleRecipient'', False, AddressSchema), (''royaltyRecipient'', False,
     AddressSchema), (''royaltyBps'', False, SInteger), (''validityStartTimestamp'', False, SInteger),
     (''validityEndTimestamp'', False, SInteger), (''uid'', False, SString)]"

definition signature721OutputSchemaV5 :: schema where [schema_defs]:
  "signature721OutputSchemaV5 =
     SObject [(''uri'', True, SString), (''to'', True, SString), (''price'', True, SString),
     (''currency'', True, AddressSchema), (''primarySaleRecipient'', True, SString),
     (''royaltyRecipient'', True, SString), (''royaltyBps'', True, SString),
     (''validityStartTimestamp'', True, SInteger), (''validityEndTimestamp'', True, SInteger), (''uid'',
     True, SString)]"

section \<open>number.ts\<close>

definition TokenAmountStringSchema :: schema where [schema_defs]:
  "TokenAmountStringSchema =
     SPattern (''^'' @ [CHR 0x5C] @ ''d+('' @ [CHR 0x5C] @ ''.'' @ [CHR 0x5C] @ ''d+)?$'')"

definition WeiAmountStringSchema :: schema where [schema_defs]:
  "WeiAmountStringSchema =
     SPattern (''^'' @ [CHR 0x5C] @ ''d+$'')"

section \<open>pagination.ts\<close>

definition PaginationSchema :: schema where [schema_defs]:
  "PaginationSchema =
     SObject [(''page'', True, SDefault (JNum (Some 1)) (SRange (Some 1) None SInteger)), (''limit'',
     True, SDefault (JNum (Some 100)) SInteger)]"

section \<open>prebuilts/index.ts\<close>

definition commonContractSchema :: schema where [schema_defs]:
  "commonContractSchema =
     SObject [(''name'', True, SString), (''description'', False, SString), (''image'', False, SString),
     (''external_link'', False, SString), (''app_uri'', False, SString), (''defaultAdmin'', False,
     SString)]"

definition splitRecipientInputSchema :: schema where [schema_defs]:
  "splitRecipientInputSchema =
     SObject [(''address'', True, AddressSchema), (''sharesBps'', True,
     SRange (Some 1) (Some 10000) SNumber)]"

definition percentSchema :: schema where [schema_defs]:
  "percentSchema =
     SDefault (JNum (Some 0)) (SRange (Some 0) (Some 100) SNumber)"

definition commonRoyaltySchema :: schema where [schema_defs]:
  "commonRoyaltySchema =
     SObject [(''seller_fee_basis_points'', True,
     SDefault (JNum (Some 0)) (SRange (Some 0) (Some 10000) SNumber)), (''fee_recipient'', True,
     SString)]"

definition merkleSchema :: schema where [schema_defs]:
  "merkleSchema =
     SObject [(''merkle'', False, SRecord SString)]"

definition commonSymbolSchema :: schema where [schema_defs]:
  "commonSymbolSchema =
     SObject [(''symbol'', True, SDefault (JStr '''') SString)]"

definition voteSettingsInputSchema :: schema where [schema_defs]:
  "voteSettingsInputSchema =
     SObject [(''voting_delay_in_blocks'', True,
     SDefault (JNum (Some 0)) (SRange (Some 0) None SNumber)), (''voting_period_in_blocks'', True,
     SDefault (JNum (Some 1)) (SRange (Some 1) None SNumber)), (''voting_token_address'', True,
     AddressSchema), (''voting_quorum_fraction'', True, percentSchema), (''proposal_token_threshold'',
     True, SDefault (JStr ''0'') SString)]"

definition commonPrimarySaleSchema :: schema where [schema_defs]:
  "commonPrimarySaleSchema =
     SObject [(''primary_sale_recipient'', False, SString)]"

definition commonPlatformFeeSchema :: schema where [schema_defs]:
  "commonPlatformFeeSchema =
     SObject [(''platform_fee_basis_points'', True,
     SDefault (JNum (Some 0)) (SRange (Some 0) (Some 10000) SNumber)), (''platform_fee_recipient'',
     True, SString)]"

definition commonTrustedForwarderSchema :: schema where [schema_defs]:
  "commonTrustedForwarderSchema =
     SObject [(''trusted_forwarders'', True, SDefault (JList []) (SArray SString))]"

definition prebuiltDeployContractParamSchema :: schema where [schema_defs]:
  "prebuiltDeployContractParamSchema =
     SObject [(''chain'', True, SString)]"

definition prebuiltDeployResponseSchema :: schema where [schema_defs]:
  "prebuiltDeployResponseSchema =
     SObject [(''result'', True, SObject [(''queueId'', False, SString), (''deployedAddress'', False,
     AddressSchema)])]"

section \<open>sharedApiSchemas.ts\<close>

definition baseReplyErrorSchema :: schema where [schema_defs]:
  "baseReplyErrorSchema =
     SObject [(''message'', False, SString), (''reason'', False, SAny), (''code'', False, SString),
     (''stack'', False, SString), (''statusCode'', False, SNumber)]"

definition contractParamSchema :: schema where [schema_defs]:
  "contractParamSchema =
     SObject [(''chain'', True, SString), (''contractAddress'', True, AddressSchema)]"

definition requestQuerystringSchema :: schema where [schema_defs]:
  "requestQuerystringSchema =
     SObject [(''simulateTx'', False, SDefault (JBool False) SBoolean)]"

definition prebuiltDeployParamSchema :: schema where [schema_defs]:
  "prebuiltDeployParamSchema =
     SObject [(''chain'', True, SString), (''contractType'', True, SString)]"

definition publishedDeployParamSchema :: schema where [schema_defs]:
  "publishedDeployParamSchema =
     SObject [(''chain'', True, SString), (''publisher'', True, SString), (''contractName'', True,
     SString)]"

definition replyBodySchema :: schema where [schema_defs]:
  "replyBodySchema =
     SObject [(''result'', False, SUnion [SNumber, SString, SObject [], SArray SAny, SBoolean,
     STuple [SAny, SAny]])]"

definition replyErrorBodySchema :: schema where [schema_defs]:
  "replyErrorBodySchema =
     SObject [(''error'', False, baseReplyErrorSchema)]"

definition transactionWritesResponseSchema :: schema where [schema_defs]:
  "transactionWritesResponseSchema =
     SObject [(''result'', True, SObject [(''queueId'', True, SString)])]"

definition simulateResponseSchema :: schema where [schema_defs]:
  "simulateResponseSchema =
     SObject [(''result'', True, SObject [(''success'', True, SBoolean)])]"

definition erc20ContractParamSchema :: schema where [schema_defs]:
  "erc20ContractParamSchema =
     SObject [(''chain'', True, SString), (''contractAddress'', True, AddressSchema)]"

definition erc1155ContractParamSchema :: schema where [schema_defs]:
  "erc1155ContractParamSchema =
     SObject [(''chain'', True, SString), (''contractAddress'', True, AddressSchema)]"

definition erc721ContractParamSchema :: schema where [schema_defs]:
  "erc721ContractParamSchema =
     SObject [(''chain'', True, SString), (''contractAddress'', True, AddressSchema)]"

definition marketplaceV3ContractParamSchema :: schema where [schema_defs]:
  "marketplaceV3ContractParamSchema =
     SObject [(''chain'', True, SString), (''contractAddress'', True, AddressSchema)]"

definition marketplaceFilterSchema :: schema where [schema_defs]:
  "marketplaceFilterSchema =
     SObject [(''count'', False, SNumber), (''offeror'', False, SString), (''seller'', False, SString),
     (''start'', False, SNumber), (''tokenContract'', False, SString), (''tokenId'', False, SString)]"

definition walletDetailsSchema :: schema where [schema_defs]:
  "walletDetailsSchema =
     SObject [(''address'', True, AddressSchema), (''type'', True, SString), (''label'', True,
     SUnion [SString, SNull]), (''awsKmsKeyId'', True, SUnion [SString, SNull]), (''awsKmsArn'', True,
     SUnion [SString, SNull]), (''gcpKmsKeyId'', True, SUnion [SString, SNull]), (''gcpKmsKeyRingId'',
     True, SUnion [SString, SNull]), (''gcpKmsLocationId'', True, SUnion [SString, SNull]),
     (''gcpKmsKeyVersionId'', True, SUnion [SString, SNull]), (''gcpKmsResourcePath'', True,
     SUnion [SString, SNull])]"

definition contractSubscriptionConfigurationSchema :: schema where [schema_defs]:
  "contractSubscriptionConfigurationSchema =
     SObject [(''maxBlocksToIndex'', True, SNumber), (''contractSubscriptionsRequeryDelaySeconds'',
     True, SString)]"

text \<open>The replies all routes share, by status: the descriptions and examples are left out.\<close>

definition standardResponseSchema :: "(int \<times> schema) list" where
  "standardResponseSchema = [(200, replyBodySchema), (400, replyErrorBodySchema), (404, replyErrorBodySchema),
     (500, replyErrorBodySchema)]"

section \<open>transaction/index.ts\<close>

definition TransactionSchema :: schema where [schema_defs]:
  "TransactionSchema =
     SObject [(''queueId'', True, SUnion [SString, SNull]), (''status'', True,
     SUnion [SLiteral (JStr ''queued''), SLiteral (JStr ''sent''), SLiteral (JStr ''mined''),
     SLiteral (JStr ''errored''), SLiteral (JStr ''cancelled'')]), (''chainId'', True, SUnion [SString,
     SNull]), (''fromAddress'', True, SUnion [SString, SNull]), (''toAddress'', True, SUnion [SString,
     SNull]), (''data'', True, SUnion [SString, SNull]), (''extension'', True, SUnion [SString, SNull]),
     (''value'', True, SUnion [SString, SNull]), (''nonce'', True, SUnion [SNumber, SString, SNull]),
     (''gasLimit'', True, SUnion [SString, SNull]), (''gasPrice'', True, SUnion [SString, SNull]),
     (''maxFeePerGas'', True, SUnion [SString, SNull]), (''maxPriorityFeePerGas'', True,
     SUnion [SString, SNull]), (''transactionType'', True, SUnion [SNumber, SNull]),
     (''transactionHash'', True, SUnion [TransactionHashSchema, SNull]), (''queuedAt'', True,
     SUnion [SString, SNull]), (''sentAt'', True, SUnion [SString, SNull]), (''minedAt'', True,
     SUnion [SString, SNull]), (''cancelledAt'', True, SUnion [SString, SNull]),
     (''deployedContractAddress'', True, SUnion [SString, SNull]), (''deployedContractType'', True,
     SUnion [SString, SNull]), (''errorMessage'', True, SUnion [SString, SNull]),
     (''sentAtBlockNumber'', True, SUnion [SNumber, SNull]), (''blockNumber'', True, SUnion [SNumber,
     SNull]), (''retryCount'', True, SNumber), (''retryGasValues'', True, SUnion [SBoolean, SNull]),
     (''retryMaxFeePerGas'', True, SUnion [SString, SNull]), (''retryMaxPriorityFeePerGas'', True,
     SUnion [SString, SNull]), (''signerAddress'', True, SUnion [AddressSchema, SNull]),
     (''accountAddress'', True, SUnion [AddressSchema, SNull]), (''target'', True,
     SUnion [AddressSchema, SNull]), (''sender'', True, SUnion [AddressSchema, SNull]), (''initCode'',
     True, SUnion [SString, SNull]), (''callData'', True, SUnion [SString, SNull]), (''callGasLimit'',
     True, SUnion [SString, SNull]), (''verificationGasLimit'', True, SUnion [SString, SNull]),
     (''preVerificationGas'', True, SUnion [SString, SNull]), (''paymasterAndData'', True,
     SUnion [SString, SNull]), (''userOpHash'', True, SUnion [TransactionHashSchema, SNull]),
     (''functionName'', True, SUnion [SString, SNull]), (''functionArgs'', True, SUnion [SString,
     SNull]), (''onChainTxStatus'', True, SUnion [SNumber, SNull]), (''onchainStatus'', True,
     SUnion [SLiteral (JStr ''success''), SLiteral (JStr ''reverted''), SNull]), (''effectiveGasPrice'',
     True, SUnion [SString, SNull]), (''cumulativeGasUsed'', True, SUnion [SString, SNull])]"

section \<open>transactionReceipt.ts\<close>

definition transactionReceiptSchema :: schema where [schema_defs]:
  "transactionReceiptSchema =
     SObject [(''chainId'', True, SNumber), (''blockNumber'', True, SNumber), (''contractAddress'',
     True, AddressSchema), (''transactionHash'', True, TransactionHashSchema), (''blockHash'', True,
     SString), (''timestamp'', True, SNumber), (''data'', True, SString), (''value'', True, SString),
     (''to'', True, SString), (''from'', True, SString), (''transactionIndex'', True, SNumber),
     (''gasUsed'', True, SString), (''effectiveGasPrice'', True, SString), (''status'', True, SNumber)]"

section \<open>txOverrides.ts\<close>

definition txOverridesSchema :: schema where [schema_defs]:
  "txOverridesSchema =
     SObject [(''txOverrides'', False, SObject [(''gas'', False, SString), (''maxFeePerGas'', False,
     SString), (''maxPriorityFeePerGas'', False, SString)])]"

definition txOverridesWithValueSchema :: schema where [schema_defs]:
  "txOverridesWithValueSchema =
     SObject ([(''txOverrides'', False,
     SObject (properties (schema_prop txOverridesSchema ''txOverrides'') @ [(''value'', False,
     SString)]))])"

section \<open>wallet/index.ts\<close>

definition walletHeaderSchema :: schema where [schema_defs]:
  "walletHeaderSchema =
     SObject [(''x-backend-wallet-address'', True, AddressSchema), (''x-idempotency-key'', False,
     SString)]"

definition walletWithAAHeaderSchema :: schema where [schema_defs]:
  "walletWithAAHeaderSchema =
     SObject (properties walletHeaderSchema @ [(''x-account-address'', False, AddressSchema),
     (''x-account-factory-address'', False, AddressSchema)])"

definition walletChainParamSchema :: schema where [schema_defs]:
  "walletChainParamSchema =
     SObject [(''chain'', True, SString)]"

definition walletWithAddressParamSchema :: schema where [schema_defs]:
  "walletWithAddressParamSchema =
     SObject (properties walletChainParamSchema @ [(''walletAddress'', True, AddressSchema)])"

end
