(* ===== verification/Account_Routes.thy ===== *)
theory Account_Routes
  imports Sdk_Access Shared_Schemas
begin

text \<open>
  The routes of smart accounts and account factories. Every route is the record of its
  \<open>fastify.route\<close> call with the schemas of its file, and its handler.
\<close>

section \<open>contract/extensions/account/read/getAllAdmins.ts\<close>

definition getAllAdmins_responseBodySchema :: schema where [schema_defs]:
  "getAllAdmins_responseBodySchema =
     SObject [(''result'', True, SArray SString)]"

definition getAllAdmins_route :: route where [route_defs]:
  "getAllAdmins_route = \<lparr>rt_method = ''GET'',
     rt_url = ''/contract/:chain/:contractAddress/account/admins/get-all'',
     rt_operationId = ''getAllAdmins'',
     rt_tags = [''Account''],
     rt_hidden = False,
     rt_params = Some contractParamSchema,
     rt_querystring = None,
     rt_body = None,
     rt_headers = None,
     rt_response = put_fields [(200, getAllAdmins_responseBodySchema)] standardResponseSchema\<rparr>"

definition getAllAdmins :: "'w handler" where [handler_defs]:
  "getAllAdmins V q =
    (let chain = jprop (hq_params q) ''chain'';
         contractAddress = jprop (hq_params q) ''contractAddress'' in
     bnd (chainIdFrom V chain) (\<lambda>chainId.
     bnd (getContract V chainId contractAddress JUndefined JUndefined JUndefined) (\<lambda>contract.
     bnd (sdk_call V contract [''account'', ''getAllAdmins''] []) (\<lambda>accountAddresses.
     ret (JObj [(''result'', accountAddresses)])))))"

section \<open>contract/extensions/account/read/getAllSessions.ts\<close>

definition getAllSessions_responseBodySchema :: schema where [schema_defs]:
  "getAllSessions_responseBodySchema =
     SObject [(''result'', True, SArray sessionSchema)]"

definition getAllSessions_route :: route where [route_defs]:
  "getAllSessions_route = \<lparr>rt_method = ''GET'',
     rt_url = ''/contract/:chain/:contractAddress/account/sessions/get-all'',
     rt_operationId = ''getAllSessions'',
     rt_tags = [''Account''],
     rt_hidden = False,
     rt_params = Some contractParamSchema,
     rt_querystring = None,
     rt_body = None,
     rt_headers = None,
     rt_response = put_fields [(200, getAllSessions_responseBodySchema)] standardResponseSchema\<rparr>"

definition getAllSessions :: "'w handler" where [handler_defs]:
  "getAllSessions V q =
    (let chain = jprop (hq_params q) ''chain'';
         contractAddress = jprop (hq_params q) ''contractAddress'' in
     bnd (chainIdFrom V chain) (\<lambda>chainId.
     bnd (getContract V chainId contractAddress JUndefined JUndefined JUndefined) (\<lambda>contract.
     bnd (sdk_call V contract [''account'', ''getAllSigners''] []) (\<lambda>sessions.
     lift_res (js_obj [js_field ''result'' (js_map (\<lambda>session. js_obj [js_field ''signerAddress''
         (js_dot (Inr session) ''signer''),
         js_field ''startDate'' (js_toISOString (js_dot (js_dot (Inr session) ''permissions'') ''startDate'')),
         js_field ''expirationDate'' (js_toISOString (js_dot
         (js_dot (Inr session) ''permissions'') ''expirationDate'')),
         js_field ''nativeTokenLimitPerTransaction'' (js_toString (js_dot
         (js_dot (Inr session) ''permissions'') ''nativeTokenLimitPerTransaction'')),
         js_field ''approvedCallTargets'' (js_dot
         (js_dot (Inr session) ''permissions'') ''approvedCallTargets'')]) (Inr sessions))])))))"

section \<open>contract/extensions/account/write/grantAdmin.ts\<close>

definition grantAdmin_requestBodySchema :: schema where [schema_defs]:
  "grantAdmin_requestBodySchema =
     SObject ([(''signerAddress'', True, AddressSchema)] @ properties txOverridesWithValueSchema)"

definition grantAdmin_route :: route where [route_defs]:
  "grantAdmin_route = \<lparr>rt_method = ''POST'',
     rt_url = ''/contract/:chain/:contractAddress/account/admins/grant'',
     rt_operationId = ''grantAccountAdmin'',
     rt_tags = [''Account''],
     rt_hidden = False,
     rt_params = Some contractParamSchema,
     rt_querystring = Some requestQuerystringSchema,
     rt_body = Some grantAdmin_requestBodySchema,
     rt_headers = Some walletWithAAHeaderSchema,
     rt_response = put_fields [(200, transactionWritesResponseSchema)] standardResponseSchema\<rparr>"

definition grantAdmin :: "'w handler" where [handler_defs]:
  "grantAdmin V q =
    (let chain = jprop (hq_params q) ''chain'';
         contractAddress = jprop (hq_params q) ''contractAddress'';
         simulateTx = jprop (hq_query q) ''simulateTx'';
         signerAddress = jprop (hq_body q) ''signerAddress'';
         txOverrides = jprop (hq_body q) ''txOverrides'';
         walletAddress = jprop (hq_headers q) ''x-backend-wallet-address'';
         idempotencyKey = jprop (hq_headers q) ''x-idempotency-key'';
         accountAddress = jprop (hq_headers q) ''x-account-address'' in
     bnd (chainIdFrom V chain) (\<lambda>chainId.
     bnd (getContract V chainId contractAddress walletAddress accountAddress JUndefined) (\<lambda>contract.
     bnd (prepare V contract [''account'', ''grantAdminPermissions''] [signerAddress]) (\<lambda>tx.
     bnd (queue_tx V tx chainId ''account'' JUndefined JUndefined simulateTx idempotencyKey txOverrides) (\<lambda>queueId.
     ret (JObj [(''result'', JObj [(''queueId'', JStr queueId)])]))))))"

section \<open>contract/extensions/account/write/grantSession.ts\<close>

definition grantSession_requestBodySchema :: schema where [schema_defs]:
  "grantSession_requestBodySchema =
     SObject (properties sessionSchema @ properties txOverridesWithValueSchema)"

definition grantSession_route :: route where [route_defs]:
  "grantSession_route = \<lparr>rt_method = ''POST'',
     rt_url = ''/contract/:chain/:contractAddress/account/sessions/create'',
     rt_operationId = ''grantAccountSession'',
     rt_tags = [''Account''],
     rt_hidden = False,
     rt_params = Some contractParamSchema,
     rt_querystring = Some requestQuerystringSchema,
     rt_body = Some grantSession_requestBodySchema,
     rt_headers = Some walletWithAAHeaderSchema,
     rt_response = put_fields [(200, transactionWritesResponseSchema)] standardResponseSchema\<rparr>"

definition grantSession :: "'w handler" where [handler_defs]:
  "grantSession V q =
    (let chain = jprop (hq_params q) ''chain'';
         contractAddress = jprop (hq_params q) ''contractAddress'';
         simulateTx = jprop (hq_query q) ''simulateTx'';
         signerAddress = jprop (hq_body q) ''signerAddress'';
         txOverrides = jprop (hq_body q) ''txOverrides'';
         permissions = js_rest (hq_body q) [''signerAddress'', ''txOverrides''];
         walletAddress = jprop (hq_headers q) ''x-backend-wallet-address'';
         idempotencyKey = jprop (hq_headers q) ''x-idempotency-key'';
         accountAddress = jprop (hq_headers q) ''x-account-address'' in
     bnd (chainIdFrom V chain) (\<lambda>chainId.
     bnd (getContract V chainId contractAddress walletAddress accountAddress JUndefined) (\<lambda>contract.
     bnd (lift_res (js_obj [js_field ''startDate'' (js_Date V (js_dot (Inr permissions) ''startDate'')),
         js_field ''expirationDate'' (js_Date V (js_dot (Inr permissions) ''expirationDate'')),
         js_field ''approvedCallTargets'' (js_dot (Inr permissions) ''approvedCallTargets''),
         js_field ''nativeTokenLimitPerTransaction''
         (js_dot (Inr permissions) ''nativeTokenLimitPerTransaction'')])) (\<lambda>v1.
     bnd (prepare V contract [''account'', ''grantPermissions''] [signerAddress, v1]) (\<lambda>tx.
     bnd (queue_tx V tx chainId ''account'' JUndefined JUndefined simulateTx idempotencyKey txOverrides) (\<lambda>queueId.
     ret (JObj [(''result'', JObj [(''queueId'', JStr queueId)])])))))))"

section \<open>contract/extensions/account/write/revokeAdmin.ts\<close>

definition revokeAdmin_requestBodySchema :: schema where [schema_defs]:
  "revokeAdmin_requestBodySchema =
     SObject ([(''walletAddress'', True, AddressSchema)] @ properties txOverridesWithValueSchema)"

definition revokeAdmin_route :: route where [route_defs]:
  "revokeAdmin_route = \<lparr>rt_method = ''POST'',
     rt_url = ''/contract/:chain/:contractAddress/account/admins/revoke'',
     rt_operationId = ''revokeAccountAdmin'',
     rt_tags = [''Account''],
     rt_hidden = False,
     rt_params = Some contractParamSchema,
     rt_querystring = Some requestQuerystringSchema,
     rt_body = Some revokeAdmin_requestBodySchema,
     rt_headers = Some walletWithAAHeaderSchema,
     rt_response = put_fields [(200, transactionWritesResponseSchema)] standardResponseSchema\<rparr>"

definition revokeAdmin :: "'w handler" where [handler_defs]:
  "revokeAdmin V q =
    (let chain = jprop (hq_params q) ''chain'';
         contractAddress = jprop (hq_params q) ''contractAddress'';
         simulateTx = jprop (hq_query q) ''simulateTx'';
         walletAddress = jprop (hq_body q) ''walletAddress'';
         txOverrides = jprop (hq_body q) ''txOverrides'';
         backendWalletAddress = jprop (hq_headers q) ''x-backend-wallet-address'';
         idempotencyKey = jprop (hq_headers q) ''x-idempotency-key'';
         accountAddress = jprop (hq_headers q) ''x-account-address'' in
     bnd (chainIdFrom V chain) (\<lambda>chainId.
     bnd (getContract V chainId contractAddress backendWalletAddress accountAddress JUndefined) (\<lambda>contract.
     bnd (prepare V contract [''account'', ''revokeAdminPermissions''] [walletAddress]) (\<lambda>tx.
     bnd (queue_tx V tx chainId ''account'' JUndefined JUndefined simulateTx idempotencyKey txOverrides) (\<lambda>queueId.
     ret (JObj [(''result'', JObj [(''queueId'', JStr queueId)])]))))))"

section \<open>contract/extensions/account/write/revokeSession.ts\<close>

definition revokeSession_requestBodySchema :: schema where [schema_defs]:
  "revokeSession_requestBodySchema =
     SObject ([(''walletAddress'', True, AddressSchema)] @ properties txOverridesWithValueSchema)"

definition revokeSession_route :: route where [route_defs]:
  "revokeSession_route = \<lparr>rt_method = ''POST'',
     rt_url = ''/contract/:chain/:contractAddress/account/sessions/revoke'',
     rt_operationId = ''revokeAccountSession'',
     rt_tags = [''Account''],
     rt_hidden = False,
     rt_params = Some contractParamSchema,
     rt_querystring = Some requestQuerystringSchema,
     rt_body = Some revokeSession_requestBodySchema,
     rt_headers = Some walletWithAAHeaderSchema,
     rt_response = put_fields [(200, transactionWritesResponseSchema)] standardResponseSchema\<rparr>"

definition revokeSession :: "'w handler" where [handler_defs]:
  "revokeSession V q =
    (let chain = jprop (hq_params q) ''chain'';
         contractAddress = jprop (hq_params q) ''contractAddress'';
         simulateTx = jprop (hq_query q) ''simulateTx'';
         walletAddress = jprop (hq_body q) ''walletAddress'';
         txOverrides = jprop (hq_body q) ''txOverrides'';
         backendWalletAddress = jprop (hq_headers q) ''x-backend-wallet-address'';
         accountAddress = jprop (hq_headers q) ''x-account-address'';
         idempotencyKey = jprop (hq_headers q) ''x-idempotency-key'' in
     bnd (chainIdFrom V chain) (\<lambda>chainId.
     bnd (getContract V chainId contractAddress backendWalletAddress accountAddress JUndefined) (\<lambda>contract.
     bnd (prepare V contract [''account'', ''revokeAccess''] [walletAddress]) (\<lambda>tx.
     bnd (queue_tx V tx chainId ''account'' JUndefined JUndefined simulateTx idempotencyKey txOverrides) (\<lambda>queueId.
     ret (JObj [(''result'', JObj [(''queueId'', JStr queueId)])]))))))"

section \<open>contract/extensions/account/write/updateSession.ts\<close>

definition updateSession_requestBodySchema :: schema where [schema_defs]:
  "updateSession_requestBodySchema =
     SObject ([(''signerAddress'', True, AddressSchema), (''approvedCallTargets'', True,
     SArray AddressSchema), (''startDate'', False, SString), (''expirationDate'', False, SString),
     (''nativeTokenLimitPerTransaction'', False, SString)] @ properties txOverridesWithValueSchema)"

definition updateSession_route :: route where [route_defs]:
  "updateSession_route = \<lparr>rt_method = ''POST'',
     rt_url = ''/contract/:chain/:contractAddress/account/sessions/update'',
     rt_operationId = ''updateAccountSession'',
     rt_tags = [''Account''],
     rt_hidden = False,
     rt_params = Some contractParamSchema,
     rt_querystring = Some requestQuerystringSchema,
     rt_body = Some updateSession_requestBodySchema,
     rt_headers = Some walletWithAAHeaderSchema,
     rt_response = put_fields [(200, transactionWritesResponseSchema)] standardResponseSchema\<rparr>"

definition updateSession :: "'w handler" where [handler_defs]:
  "updateSession V q =
    (let chain = jprop (hq_params q) ''chain'';
         contractAddress = jprop (hq_params q) ''contractAddress'';
         signerAddress = jprop (hq_body q) ''signerAddress'';
         txOverrides = jprop (hq_body q) ''txOverrides'';
         permissions = js_rest (hq_body q) [''signerAddress'', ''txOverrides''];
         simulateTx = jprop (hq_query q) ''simulateTx'';
         walletAddress = jprop (hq_headers q) ''x-backend-wallet-address'';
         accountAddress = jprop (hq_headers q) ''x-account-address'';
         idempotencyKey = jprop (hq_headers q) ''x-idempotency-key'' in
     bnd (chainIdFrom V chain) (\<lambda>chainId.
     bnd (getContract V chainId contractAddress walletAddress accountAddress JUndefined) (\<lambda>contract.
     bnd (lift_res (js_obj [js_field ''startDate'' (js_cond (js_dot (Inr permissions) ''startDate'')
         (js_Date V (js_dot (Inr permissions) ''startDate'')) (Inr JUndefined)), js_field ''expirationDate''
         (js_cond (js_dot (Inr permissions) ''expirationDate'') (js_Date V
         (js_dot (Inr permissions) ''expirationDate'')) (Inr JUndefined)),
         js_field ''approvedCallTargets'' (js_dot (Inr permissions) ''approvedCallTargets''),
         js_field ''nativeTokenLimitPerTransaction''
         (js_dot (Inr permissions) ''nativeTokenLimitPerTransaction'')])) (\<lambda>v1.
     bnd (prepare V contract [''account'', ''updatePermissions''] [signerAddress, v1]) (\<lambda>tx.
     bnd (queue_tx V tx chainId ''account'' JUndefined JUndefined simulateTx idempotencyKey txOverrides) (\<lambda>queueId.
     ret (JObj [(''result'', JObj [(''queueId'', JStr queueId)])])))))))"

section \<open>contract/extensions/accountFactory/read/getAllAccounts.ts\<close>

definition getAllAccounts_responseBodySchema :: schema where [schema_defs]:
  "getAllAccounts_responseBodySchema =
     SObject [(''result'', True, SArray SString)]"

definition getAllAccounts_route :: route where [route_defs]:
  "getAllAccounts_route = \<lparr>rt_method = ''GET'',
     rt_url = ''/contract/:chain/:contractAddress/account-factory/get-all-accounts'',
     rt_operationId = ''getAllAccounts'',
     rt_tags = [''Account Factory''],
     rt_hidden = False,
     rt_params = Some contractParamSchema,
     rt_querystring = None,
     rt_body = None,
     rt_headers = None,
     rt_response = put_fields [(200, getAllAccounts_responseBodySchema)] standardResponseSchema\<rparr>"

definition getAllAccounts :: "'w handler" where [handler_defs]:
  "getAllAccounts V q =
    (let chain = jprop (hq_params q) ''chain'';
         contractAddress = jprop (hq_params q) ''contractAddress'' in
     bnd (chainIdFrom V chain) (\<lambda>chainId.
     bnd (getContract V chainId contractAddress JUndefined JUndefined JUndefined) (\<lambda>contract.
     bnd (sdk_call V contract [''accountFactory'', ''getAllAccounts''] []) (\<lambda>accountAddresses.
     ret (JObj [(''result'', accountAddresses)])))))"

section \<open>contract/extensions/accountFactory/read/getAssociatedAccounts.ts\<close>

definition getAssociatedAccounts_responseBodySchema :: schema where [schema_defs]:
  "getAssociatedAccounts_responseBodySchema =
     SObject [(''result'', True, SArray SString)]"

definition getAssociatedAccounts_QuerySchema :: schema where [schema_defs]:
  "getAssociatedAccounts_QuerySchema =
     SObject [(''signerAddress'', True, AddressSchema)]"

definition getAssociatedAccounts_route :: route where [route_defs]:
  "getAssociatedAccounts_route = \<lparr>rt_method = ''GET'',
     rt_url = ''/contract/:chain/:contractAddress/account-factory/get-associated-accounts'',
     rt_operationId = ''getAssociatedAccounts'',
     rt_tags = [''Account Factory''],
     rt_hidden = False,
     rt_params = Some contractParamSchema,
     rt_querystring = Some getAssociatedAccounts_QuerySchema,
     rt_body = None,
     rt_headers = None,
     rt_response = put_fields [(200, getAssociatedAccounts_responseBodySchema)] standardResponseSchema\<rparr>"

definition getAssociatedAccounts :: "'w handler" where [handler_defs]:
  "getAssociatedAccounts V q =
    (let chain = jprop (hq_params q) ''chain'';
         contractAddress = jprop (hq_params q) ''contractAddress'';
         signerAddress = jprop (hq_query q) ''signerAddress'' in
     bnd (chainIdFrom V chain) (\<lambda>chainId.
     bnd (getContract V chainId contractAddress JUndefined JUndefined JUndefined) (\<lambda>contract.
     bnd (sdk_call V contract [''accountFactory'',
         ''getAssociatedAccounts''] [signerAddress]) (\<lambda>accountAddresses.
     ret (JObj [(''result'', accountAddresses)])))))"

section \<open>contract/extensions/accountFactory/read/isAccountDeployed.ts\<close>

definition isAccountDeployed_responseBodySchema :: schema where [schema_defs]:
  "isAccountDeployed_responseBodySchema =
     SObject [(''result'', True, SBoolean)]"

definition isAccountDeployed_QuerySchema :: schema where [schema_defs]:
  "isAccountDeployed_QuerySchema =
     SObject [(''adminAddress'', True, AddressSchema), (''extraData'', False, SString)]"

definition isAccountDeployed_route :: route where [route_defs]:
  "isAccountDeployed_route = \<lparr>rt_method = ''GET'',
     rt_url = ''/contract/:chain/:contractAddress/account-factory/is-account-deployed'',
     rt_operationId = ''isAccountDeployed'',
     rt_tags = [''Account Factory''],
     rt_hidden = False,
     rt_params = Some contractParamSchema,
     rt_querystring = Some isAccountDeployed_QuerySchema,
     rt_body = None,
     rt_headers = None,
     rt_response = put_fields [(200, isAccountDeployed_responseBodySchema)] standardResponseSchema\<rparr>"

definition isAccountDeployed :: "'w handler" where [handler_defs]:
  "isAccountDeployed V q =
    (let chain = jprop (hq_params q) ''chain'';
         contractAddress = jprop (hq_params q) ''contractAddress'';
         adminAddress = jprop (hq_query q) ''adminAddress'';
         extraData = jprop (hq_query q) ''extraData'' in
     bnd (chainIdFrom V chain) (\<lambda>chainId.
     bnd (getContract V chainId contractAddress JUndefined JUndefined JUndefined) (\<lambda>contract.
     bnd (sdk_call V contract [''accountFactory'', ''isAccountDeployed''] [adminAddress,
         extraData]) (\<lambda>isDeployed.
     ret (JObj [(''result'', isDeployed)])))))"

section \<open>contract/extensions/accountFactory/read/predictAccountAddress.ts\<close>

definition predictAccountAddress_responseBodySchema :: schema where [schema_defs]:
  "predictAccountAddress_responseBodySchema =
     SObject [(''result'', True, SString)]"

definition predictAccountAddress_QuerySchema :: schema where [schema_defs]:
  "predictAccountAddress_QuerySchema =
     SObject [(''adminAddress'', True, AddressSchema), (''extraData'', False, SString)]"

definition predictAccountAddress_route :: route where [route_defs]:
  "predictAccountAddress_route = \<lparr>rt_method = ''GET'',
     rt_url = ''/contract/:chain/:contractAddress/account-factory/predict-account-address'',
     rt_operationId = ''predictAccountAddress'',
     rt_tags = [''Account Factory''],
     rt_hidden = False,
     rt_params = Some contractParamSchema,
     rt_querystring = Some predictAccountAddress_QuerySchema,
     rt_body = None,
     rt_headers = None,
     rt_response = put_fields [(200, predictAccountAddress_responseBodySchema)] standardResponseSchema\<rparr>"

definition predictAccountAddress :: "'w handler" where [handler_defs]:
  "predictAccountAddress V q =
    (let chain = jprop (hq_params q) ''chain'';
         contractAddress = jprop (hq_params q) ''contractAddress'';
         adminAddress = jprop (hq_query q) ''adminAddress'';
         extraData = jprop (hq_query q) ''extraData'' in
     bnd (chainIdFrom V chain) (\<lambda>chainId.
     bnd (getContract V chainId contractAddress JUndefined JUndefined JUndefined) (\<lambda>contract.
     bnd (sdk_call V contract [''accountFactory'', ''predictAccountAddress''] [adminAddress,
         extraData]) (\<lambda>accountAddress.
     ret (JObj [(''result'', accountAddress)])))))"

section \<open>contract/extensions/accountFactory/write/createAccount.ts\<close>

definition createAccount_requestBodySchema :: schema where [schema_defs]:
  "createAccount_requestBodySchema =
     SObject ([(''adminAddress'', True, AddressSchema), (''extraData'', False, SString)]
     @ properties txOverridesWithValueSchema)"

definition createAccount_route :: route where [route_defs]:
  "createAccount_route = \<lparr>rt_method = ''POST'',
     rt_url = ''/contract/:chain/:contractAddress/account-factory/create-account'',
     rt_operationId = ''createAccount'',
     rt_tags = [''Account Factory''],
     rt_hidden = False,
     rt_params = Some contractParamSchema,
     rt_querystring = Some requestQuerystringSchema,
     rt_body = Some createAccount_requestBodySchema,
     rt_headers = Some walletWithAAHeaderSchema,
     rt_response = put_fields [(200, prebuiltDeployResponseSchema)] standardResponseSchema\<rparr>"

text \<open>The factory of the predicted address is remembered for seven days (the expiry is left out).\<close>

definition createAccount :: "'w handler" where [handler_defs]:
  "createAccount V q =
     (let chain = jprop (hq_params q) ''chain'';
         contractAddress = jprop (hq_params q) ''contractAddress'';
         simulateTx = jprop (hq_query q) ''simulateTx'';
         adminAddress = jprop (hq_body q) ''adminAddress'';
         extraData = jprop (hq_body q) ''extraData'';
         txOverrides = jprop (hq_body q) ''txOverrides'';
         walletAddress = jprop (hq_headers q) ''x-backend-wallet-address'';
         accountAddress = jprop (hq_headers q) ''x-account-address'';
         idempotencyKey = jprop (hq_headers q) ''x-idempotency-key'' in
      bnd (chainIdFrom V chain) (\<lambda>chainId.
      bnd (getContract V chainId contractAddress walletAddress accountAddress JUndefined) (\<lambda>contract.
      bnd (prepare V contract [''accountFactory'', ''createAccount''] [adminAddress, extraData]) (\<lambda>tx.
      bnd (sdk_call V contract [''accountFactory'', ''predictAccountAddress''] [adminAddress, extraData])
        (\<lambda>deployedAddress.
      bnd (queue_tx V tx chainId ''account-factory'' deployedAddress (JStr ''account'') simulateTx idempotencyKey
             txOverrides) (\<lambda>queueId.
      bnd (lift_res (js_toLowerCase (Inr deployedAddress))) (\<lambda>_.
      bnd (at_w (redis_do (r_set (e_redis (ys_env V)) (factory_key (js_text deployedAddress))
             (js_text contractAddress)))) (\<lambda>_.
      ret (JObj [(''result'', JObj [(''queueId'', JStr queueId), (''deployedAddress'', deployedAddress)])])))))))))"

section \<open>Lists\<close>

text \<open>The routes with their handlers, and the routes in the order in which they are registered.\<close>

definition account_reads :: "(route \<times> 'w handler) list" where
  "account_reads =
     [(getAllAdmins_route, getAllAdmins), (getAllSessions_route, getAllSessions), (getAllAccounts_route,
         getAllAccounts), (getAssociatedAccounts_route, getAssociatedAccounts), (isAccountDeployed_route,
         isAccountDeployed), (predictAccountAddress_route, predictAccountAddress)]"

definition account_writes :: "(route \<times> 'w handler) list" where
  "account_writes =
     [(grantAdmin_route, grantAdmin), (grantSession_route, grantSession), (revokeAdmin_route, revokeAdmin),
         (revokeSession_route, revokeSession), (updateSession_route, updateSession), (createAccount_route,
         createAccount)]"

definition accountFactoryRoutes :: "route list" where
  "accountFactoryRoutes =
     [getAllAccounts_route, getAssociatedAccounts_route, isAccountDeployed_route,
         predictAccountAddress_route, createAccount_route]"

definition accountRoutes :: "route list" where
  "accountRoutes =
     [getAllAdmins_route, getAllSessions_route, grantAdmin_route, revokeAdmin_route, grantSession_route,
         revokeSession_route, updateSession_route]"


end
