(* ===== verification/Erc20_Routes.thy ===== *)
theory Erc20_Routes
  imports Sdk_Access Shared_Schemas
begin

text \<open>
  The routes of ERC-20 tokens. Every route is the record of its \<open>fastify.route\<close> call
  with the schemas of its file, and its handler.
\<close>

section \<open>contract/extensions/erc20/read/allowanceOf.ts\<close>

definition erc20AllowanceOf_responseSchema :: schema where [schema_defs]:
  "erc20AllowanceOf_responseSchema =
     SObject [(''result'', True, erc20MetadataSchema)]"

definition erc20AllowanceOf_querystringSchema :: schema where [schema_defs]:
  "erc20AllowanceOf_querystringSchema =
     SObject [(''ownerWallet'', True, SString), (''spenderWallet'', True, SString)]"

definition erc20AllowanceOf_route :: route where [route_defs]:
  "erc20AllowanceOf_route = \<lparr>rt_method = ''GET'',
     rt_url = ''/contract/:chain/:contractAddress/erc20/allowance-of'',
     rt_operationId = ''erc20-allowanceOf'',
     rt_tags = [''ERC20''],
     rt_hidden = False,
     rt_params = Some erc20ContractParamSchema,
     rt_querystring = Some erc20AllowanceOf_querystringSchema,
     rt_body = None,
     rt_headers = None,
     rt_response = put_fields [(200, erc20AllowanceOf_responseSchema)] standardResponseSchema\<rparr>"

definition erc20AllowanceOf :: "'w handler" where [handler_defs]:
  "erc20AllowanceOf V q =
    (let chain = jprop (hq_params q) ''chain'';
         contractAddress = jprop (hq_params q) ''contractAddress'';
         spenderWallet = jprop (hq_query q) ''spenderWallet'';
         ownerWallet = jprop (hq_query q) ''ownerWallet'' in
     bnd (chainIdFrom V chain) (\<lambda>chainId.
     bnd (getContract V chainId contractAddress JUndefined JUndefined JUndefined) (\<lambda>contract.
     bnd (lift_res (js_cond (Inr ownerWallet) (Inr ownerWallet) (Inr (JStr '''')))) (\<lambda>v1.
     bnd (lift_res (js_cond (Inr spenderWallet) (Inr spenderWallet) (Inr (JStr '''')))) (\<lambda>v2.
     bnd (sdk_call V contract [''erc20'', ''allowanceOf''] [v1, v2]) (\<lambda>returnData.
     lift_res (js_obj [js_field ''result'' (js_obj [js_field ''name'' (js_dot (Inr returnData) ''name''),
         js_field ''symbol'' (js_dot (Inr returnData) ''symbol''),
         js_field ''decimals'' (js_toString (js_dot (Inr returnData) ''decimals'')),
         js_field ''displayValue'' (js_dot (Inr returnData) ''displayValue''),
         js_field ''value'' (js_toString (js_dot (Inr returnData) ''value''))])])))))))"

section \<open>contract/extensions/erc20/read/balanceOf.ts\<close>

definition erc20BalanceOf_responseSchema :: schema where [schema_defs]:
  "erc20BalanceOf_responseSchema =
     SObject [(''result'', True, erc20MetadataSchema)]"

definition erc20BalanceOf_querystringSchema :: schema where [schema_defs]:
  "erc20BalanceOf_querystringSchema =
     SObject [(''wallet_address'', True, AddressSchema)]"

definition erc20BalanceOf_route :: route where [route_defs]:
  "erc20BalanceOf_route = \<lparr>rt_method = ''GET'',
     rt_url = ''/contract/:chain/:contractAddress/erc20/balance-of'',
     rt_operationId = ''erc20-balanceOf'',
     rt_tags = [''ERC20''],
     rt_hidden = False,
     rt_params = Some erc20ContractParamSchema,
     rt_querystring = Some erc20BalanceOf_querystringSchema,
     rt_body = None,
     rt_headers = None,
     rt_response = put_fields [(200, erc20BalanceOf_responseSchema)] standardResponseSchema\<rparr>"

definition erc20BalanceOf :: "'w handler" where [handler_defs]:
  "erc20BalanceOf V q =
    (let chain = jprop (hq_params q) ''chain'';
         contractAddress = jprop (hq_params q) ''contractAddress'';
         wallet_address = jprop (hq_query q) ''wallet_address'' in
     bnd (chainIdFrom V chain) (\<lambda>chainId.
     bnd (getContract V chainId contractAddress JUndefined JUndefined JUndefined) (\<lambda>contract.
     bnd (sdk_call V contract [''erc20'', ''balanceOf''] [wallet_address]) (\<lambda>returnData.
     lift_res (js_obj [js_field ''result'' (js_obj [js_field ''name'' (js_dot (Inr returnData) ''name''),
         js_field ''symbol'' (js_dot (Inr returnData) ''symbol''),
         js_field ''decimals'' (js_toString (js_dot (Inr returnData) ''decimals'')),
         js_field ''displayValue'' (js_dot (Inr returnData) ''displayValue''),
         js_field ''value'' (js_toString (js_dot (Inr returnData) ''value''))])])))))"

section \<open>contract/extensions/erc20/read/canClaim.ts\<close>

definition erc20CanClaim_responseSchema :: schema where [schema_defs]:
  "erc20CanClaim_responseSchema =
     SObject [(''result'', True, SBoolean)]"

definition erc20CanClaim_requestQueryString :: schema where [schema_defs]:
  "erc20CanClaim_requestQueryString =
     SObject [(''quantity'', True, SString), (''addressToCheck'', False, SString)]"

definition erc20CanClaim_route :: route where [route_defs]:
  "erc20CanClaim_route = \<lparr>rt_method = ''GET'',
     rt_url = ''/contract/:chain/:contractAddress/erc20/claim-conditions/can-claim'',
     rt_operationId = ''erc20-canClaim'',
     rt_tags = [''ERC20''],
     rt_hidden = False,
     rt_params = Some contractParamSchema,
     rt_querystring = Some erc20CanClaim_requestQueryString,
     rt_body = None,
     rt_headers = None,
     rt_response = put_fields [(200, erc20CanClaim_responseSchema)] standardResponseSchema\<rparr>"

definition erc20CanClaim :: "'w handler" where [handler_defs]:
  "erc20CanClaim V q =
    (let chain = jprop (hq_params q) ''chain'';
         contractAddress = jprop (hq_params q) ''contractAddress'';
         quantity = jprop (hq_query q) ''quantity'';
         addressToCheck = jprop (hq_query q) ''addressToCheck'' in
     bnd (chainIdFrom V chain) (\<lambda>chainId.
     bnd (getContract V chainId contractAddress JUndefined JUndefined JUndefined) (\<lambda>contract.
     bnd (sdk_call V contract [''erc20'', ''claimConditions'', ''canClaim''] [quantity,
         addressToCheck]) (\<lambda>returnData.
     ret (JObj [(''result'', returnData)])))))"

section \<open>contract/extensions/erc20/read/get.ts\<close>

definition erc20GetMetadata_responseSchema :: schema where [schema_defs]:
  "erc20GetMetadata_responseSchema =
     SObject [(''result'', True, SObject [(''name'', True, SString), (''symbol'', True, SString),
     (''decimals'', True, SString)])]"

definition erc20GetMetadata_route :: route where [route_defs]:
  "erc20GetMetadata_route = \<lparr>rt_method = ''GET'',
     rt_url = ''/contract/:chain/:contractAddress/erc20/get'',
     rt_operationId = ''erc20-get'',
     rt_tags = [''ERC20''],
     rt_hidden = False,
     rt_params = Some erc20ContractParamSchema,
     rt_querystring = None,
     rt_body = None,
     rt_headers = None,
     rt_response = put_fields [(200, erc20GetMetadata_responseSchema)] standardResponseSchema\<rparr>"

definition erc20GetMetadata :: "'w handler" where [handler_defs]:
  "erc20GetMetadata V q =
    (let chain = jprop (hq_params q) ''chain'';
         contractAddress = jprop (hq_params q) ''contractAddress'' in
     bnd (chainIdFrom V chain) (\<lambda>chainId.
     bnd (getContract V chainId contractAddress JUndefined JUndefined JUndefined) (\<lambda>contract.
     bnd (sdk_call V contract [''erc20'', ''get''] []) (\<lambda>returnData.
     lift_res (js_obj [js_field ''result'' (js_obj [js_field ''symbol''
         (js_dot (Inr returnData) ''symbol''), js_field ''name'' (js_dot (Inr returnData) ''name''),
         js_field ''decimals'' (js_dot (Inr returnData) ''decimals'')])])))))"

section \<open>contract/extensions/erc20/read/getActiveClaimConditions.ts\<close>

definition erc20GetActiveClaimConditions_responseSchema :: schema where [schema_defs]:
  "erc20GetActiveClaimConditions_responseSchema =
     SObject [(''result'', True, claimConditionOutputSchema)]"

definition erc20GetActiveClaimConditions_requestQueryString :: schema where [schema_defs]:
  "erc20GetActiveClaimConditions_requestQueryString =
     SObject [(''withAllowList'', False, SBoolean)]"

definition erc20GetActiveClaimConditions_route :: route where [route_defs]:
  "erc20GetActiveClaimConditions_route = \<lparr>rt_method = ''GET'',
     rt_url = ''/contract/:chain/:contractAddress/erc20/claim-conditions/get-active'',
     rt_operationId = ''erc20-getActiveClaimConditions'',
     rt_tags = [''ERC20''],
     rt_hidden = False,
     rt_params = Some contractParamSchema,
     rt_querystring = Some erc20GetActiveClaimConditions_requestQueryString,
     rt_body = None,
     rt_headers = None,
     rt_response = put_fields [(200, erc20GetActiveClaimConditions_responseSchema)] standardResponseSchema\<rparr>"

definition erc20GetActiveClaimConditions :: "'w handler" where [handler_defs]:
  "erc20GetActiveClaimConditions V q =
    (let chain = jprop (hq_params q) ''chain'';
         contractAddress = jprop (hq_params q) ''contractAddress'';
         withAllowList = jprop (hq_query q) ''withAllowList'' in
     bnd (chainIdFrom V chain) (\<lambda>chainId.
     bnd (getContract V chainId contractAddress JUndefined JUndefined JUndefined) (\<lambda>contract.
     bnd (sdk_call V contract [''erc20'', ''claimConditions'', ''getActive''] [JObj [(''withAllowList'',
         withAllowList)]]) (\<lambda>returnData.
     lift_res (js_obj [js_field ''result'' (js_obj [js_spread (Inr returnData),
         js_field ''price'' (js_toString (js_dot (Inr returnData) ''price'')),
         js_field ''waitInSeconds'' (js_toString (js_dot (Inr returnData) ''waitInSeconds'')),
         js_field ''currencyMetadata'' (js_obj [js_spread (js_dot (Inr returnData) ''currencyMetadata''),
         js_field ''value'' (js_toString (js_dot (js_dot (Inr returnData) ''currencyMetadata'') ''value''))]),
         js_field ''startTime'' (js_toISOString (js_dot (Inr returnData) ''startTime''))])])))))"

section \<open>contract/extensions/erc20/read/getAllClaimConditions.ts\<close>

definition erc20GetAllClaimConditions_responseSchema :: schema where [schema_defs]:
  "erc20GetAllClaimConditions_responseSchema =
     SObject [(''result'', True, SArray claimConditionOutputSchema)]"

definition erc20GetAllClaimConditions_requestQueryString :: schema where [schema_defs]:
  "erc20GetAllClaimConditions_requestQueryString =
     SObject [(''withAllowList'', False, SBoolean)]"

definition erc20GetAllClaimConditions_route :: route where [route_defs]:
  "erc20GetAllClaimConditions_route = \<lparr>rt_method = ''GET'',
     rt_url = ''/contract/:chain/:contractAddress/erc20/claim-conditions/get-all'',
     rt_operationId = ''erc20-getAllClaimConditions'',
     rt_tags = [''ERC20''],
     rt_hidden = False,
     rt_params = Some contractParamSchema,
     rt_querystring = Some erc20GetAllClaimConditions_requestQueryString,
     rt_body = None,
     rt_headers = None,
     rt_response = put_fields [(200, erc20GetAllClaimConditions_responseSchema)] standardResponseSchema\<rparr>"

definition erc20GetAllClaimConditions :: "'w handler" where [handler_defs]:
  "erc20GetAllClaimConditions V q =
    (let chain = jprop (hq_params q) ''chain'';
         contractAddress = jprop (hq_params q) ''contractAddress'';
         withAllowList = jprop (hq_query q) ''withAllowList'' in
     bnd (chainIdFrom V chain) (\<lambda>chainId.
     bnd (getContract V chainId contractAddress JUndefined JUndefined JUndefined) (\<lambda>contract.
     bnd (sdk_call V contract [''erc20'', ''claimConditions'', ''getAll''] [JObj [(''withAllowList'',
         withAllowList)]]) (\<lambda>returnData.
     bnd (lift_res (js_map (\<lambda>item. js_obj [js_spread (Inr item),
         js_field ''price'' (js_toString (js_dot (Inr item) ''price'')),
         js_field ''waitInSeconds'' (js_toString (js_dot (Inr item) ''waitInSeconds'')),
         js_field ''currencyMetadata'' (js_obj [js_spread (js_dot (Inr item) ''currencyMetadata''),
         js_field ''value'' (js_toString (js_dot (js_dot (Inr item) ''currencyMetadata'') ''value''))]),
         js_field ''startTime'' (js_toISOString
         (js_dot (Inr item) ''startTime''))]) (Inr returnData))) (\<lambda>sanitizedReturnData.
     ret (JObj [(''result'', sanitizedReturnData)]))))))"

section \<open>contract/extensions/erc20/read/getClaimIneligibilityReasons.ts\<close>

definition erc20GetClaimIneligibilityReasons_responseSchema :: schema where [schema_defs]:
  "erc20GetClaimIneligibilityReasons_responseSchema =
     SObject [(''result'', True, SArray (SUnion [SString, SString]))]"

definition erc20GetClaimIneligibilityReasons_requestQueryString :: schema where [schema_defs]:
  "erc20GetClaimIneligibilityReasons_requestQueryString =
     SObject [(''quantity'', True, SString), (''addressToCheck'', False, SString)]"

definition erc20GetClaimIneligibilityReasons_route :: route where [route_defs]:
  "erc20GetClaimIneligibilityReasons_route = \<lparr>rt_method = ''GET'',
     rt_url = ''/contract/:chain/:contractAddress/erc20/claim-conditions/get-claim-ineligibility-reasons'',
     rt_operationId = ''erc20-claimConditionsGetClaimIneligibilityReasons'',
     rt_tags = [''ERC20''],
     rt_hidden = False,
     rt_params = Some contractParamSchema,
     rt_querystring = Some erc20GetClaimIneligibilityReasons_requestQueryString,
     rt_body = None,
     rt_headers = None,
     rt_response = put_fields [(200,
         erc20GetClaimIneligibilityReasons_responseSchema)] standardResponseSchema\<rparr>"

definition erc20GetClaimIneligibilityReasons :: "'w handler" where [handler_defs]:
  "erc20GetClaimIneligibilityReasons V q =
    (let chain = jprop (hq_params q) ''chain'';
         contractAddress = jprop (hq_params q) ''contractAddress'';
         quantity = jprop (hq_query q) ''quantity'';
         addressToCheck = jprop (hq_query q) ''addressToCheck'' in
     bnd (chainIdFrom V chain) (\<lambda>chainId.
     bnd (getContract V chainId contractAddress JUndefined JUndefined JUndefined) (\<lambda>contract.
     bnd (sdk_call V contract [''erc20'', ''claimConditions'', ''getClaimIneligibilityReasons''] [quantity,
         addressToCheck]) (\<lambda>returnData.
     ret (JObj [(''result'', returnData)])))))"

section \<open>contract/extensions/erc20/read/getClaimerProofs.ts\<close>

definition erc20GetClaimerProofs_responseSchema :: schema where [schema_defs]:
  "erc20GetClaimerProofs_responseSchema =
     SObject [(''result'', True, claimerProofSchema)]"

definition erc20GetClaimerProofs_requestQueryString :: schema where [schema_defs]:
  "erc20GetClaimerProofs_requestQueryString =
     SObject [(''walletAddress'', True, AddressSchema)]"

definition erc20GetClaimerProofs_route :: route where [route_defs]:
  "erc20GetClaimerProofs_route = \<lparr>rt_method = ''POST'',
     rt_url = ''/contract/:chain/:contractAddress/erc20/claim-conditions/get-claimer-proofs'',
     rt_operationId = ''erc20-claimConditionsGetClaimerProofs'',
     rt_tags = [''ERC20''],
     rt_hidden = False,
     rt_params = Some contractParamSchema,
     rt_querystring = Some erc20GetClaimerProofs_requestQueryString,
     rt_body = None,
     rt_headers = None,
     rt_response = put_fields [(200, erc20GetClaimerProofs_responseSchema)] standardResponseSchema\<rparr>"

definition erc20GetClaimerProofs :: "'w handler" where [handler_defs]:
  "erc20GetClaimerProofs V q =
    (let chain = jprop (hq_params q) ''chain'';
         contractAddress = jprop (hq_params q) ''contractAddress'';
         walletAddress = jprop (hq_query q) ''walletAddress'' in
     bnd (chainIdFrom V chain) (\<lambda>chainId.
     bnd (getContract V chainId contractAddress JUndefined JUndefined JUndefined) (\<lambda>contract.
     bnd (sdk_call V contract [''erc20'', ''claimConditions'',
         ''getClaimerProofs''] [walletAddress]) (\<lambda>returnData.
     ret (JObj [(''result'', returnData)])))))"

section \<open>contract/extensions/erc20/read/signatureGenerate.ts\<close>

definition erc20SignatureGenerate_responseSchemaV4 :: schema where [schema_defs]:
  "erc20SignatureGenerate_responseSchemaV4 =
     SObject [(''payload'', True, signature20OutputSchema), (''signature'', True, SString)]"

definition erc20SignatureGenerate_responseSchemaV5 :: schema where [schema_defs]:
  "erc20SignatureGenerate_responseSchemaV5 =
     SObject [(''payload'', True, SObject [(''to'', True, SString), (''primarySaleRecipient'', True,
     SString), (''quantity'', True, SString), (''price'', True, SString), (''currency'', True, SString),
     (''validityStartTimestamp'', True, SInteger), (''validityEndTimestamp'', True, SInteger), (''uid'',
     True, SString)]), (''signature'', True, SString)]"

definition erc20SignatureGenerate_responseSchema :: schema where [schema_defs]:
  "erc20SignatureGenerate_responseSchema =
     SObject [(''result'', True, SUnion [erc20SignatureGenerate_responseSchemaV4,
     erc20SignatureGenerate_responseSchemaV5])]"

definition erc20SignatureGenerate_requestBodySchemaV5 :: schema where [schema_defs]:
  "erc20SignatureGenerate_requestBodySchemaV5 =
     SAll [SObject [(''to'', True, SString), (''primarySaleRecipient'', False, SString), (''price'',
     False, SString), (''priceInWei'', False, SString), (''currency'', False, SString),
     (''validityStartTimestamp'', True, SInteger), (''validityEndTimestamp'', False, SInteger),
     (''uid'', False, SString)], SUnion [SObject [(''quantity'', True, SString)],
     SObject [(''quantityWei'', True, SString)]]]"

definition erc20SignatureGenerate_requestBodySchema :: schema where [schema_defs]:
  "erc20SignatureGenerate_requestBodySchema =
     SUnion [signature20InputSchema, erc20SignatureGenerate_requestBodySchemaV5]"

definition erc20SignatureGenerate_route :: route where [route_defs]:
  "erc20SignatureGenerate_route = \<lparr>rt_method = ''POST'',
     rt_url = ''/contract/:chain/:contractAddress/erc20/signature/generate'',
     rt_operationId = ''erc20-signatureGenerate'',
     rt_tags = [''ERC20''],
     rt_hidden = False,
     rt_params = Some erc20ContractParamSchema,
     rt_querystring = None,
     rt_body = Some erc20SignatureGenerate_requestBodySchema,
     rt_headers = Some (schema_partial (SObject (properties walletWithAAHeaderSchema @
         properties thirdwebSdkVersionSchema))),
     rt_response = put_fields [(200, erc20SignatureGenerate_responseSchema)] standardResponseSchema\<rparr>"

text \<open>With the v5 SDK.\<close>

definition erc20SignatureGenerate_v5 :: "'w sdk_sys \<Rightarrow> request \<Rightarrow> int \<Rightarrow> ('w sdk_state, js_val) io" where [handler_defs]:
  "erc20SignatureGenerate_v5 V q chainId =
     (let contractAddress = jprop (hq_params q) ''contractAddress'';
         to = jprop (hq_body q) ''to'';
         primarySaleRecipient = jprop (hq_body q) ''primarySaleRecipient'';
         price = jprop (hq_body q) ''price'';
         priceInWei = jprop (hq_body q) ''priceInWei'';
         currency = jprop (hq_body q) ''currency'';
         validityStartTimestamp = jprop (hq_body q) ''validityStartTimestamp'';
         validityEndTimestamp = jprop (hq_body q) ''validityEndTimestamp'';
         uid = jprop (hq_body q) ''uid'';
         walletAddress = jprop (hq_headers q) ''x-backend-wallet-address'';
         accountAddress = jprop (hq_headers q) ''x-account-address'' in
      bnd (if js_has (hq_body q) ''quantity'' then ret [(''quantity'', jprop (hq_body q) ''quantity'')]
           else if js_has (hq_body q) ''quantityWei''
           then bnd (lift_res (js_BigInt V (Inr (jprop (hq_body q) ''quantityWei'')))) (\<lambda>n. ret [(''quantityWei'', n)])
           else throw (createCustomError (''Missing '' @ [CHR 0x22] @ ''quantity'' @ [CHR 0x22] @ '' or '' @ [CHR 0x22] @ ''quantityWei''
                  @ [CHR 0x22] @ ''.'') 400 ''MISSING_PARAMETERS'')) (\<lambda>input.
      bnd (getContractV5 V chainId contractAddress JUndefined) (\<lambda>contract.
      bnd (at_w (getAccount (ys_env V) chainId (js_text walletAddress) (js_opt accountAddress))) (\<lambda>account.
      bnd (lift_res (js_obj [js_field ''to'' (Inr to),
             js_field ''primarySaleRecipient'' (Inr primarySaleRecipient),
             js_field ''price'' (Inr price),
             js_field ''priceInWei'' (js_maybeBigInt V priceInWei),
             js_field ''currency'' (Inr currency),
             js_field ''validityStartTimestamp'' (js_Date V (js_times (Inr validityStartTimestamp) (Inr (JNum (Some 1000))))),
             js_field ''validityEndTimestamp'' (js_cond (Inr validityEndTimestamp) (js_Date V (js_times (Inr validityEndTimestamp) (Inr (JNum (Some 1000))))) (Inr JUndefined)),
             js_field ''uid'' (Inr uid),
             js_spread (Inr (JObj input))])) (\<lambda>mintRequest.
      bnd (lift_res (v_generateMint (ys_sdk V) contract account mintRequest)) (\<lambda>signed.
      let payload = jprop signed ''payload'' in
      lift_res (js_obj [js_field ''result'' (js_obj [js_field ''payload'' (js_obj [js_spread (Inr payload),
               js_field ''quantity'' (js_toString (js_dot (Inr payload) ''quantity'')),
               js_field ''price'' (js_toString (js_dot (Inr payload) ''price'')),
               js_field ''validityStartTimestamp'' (js_Number (js_dot (Inr payload) ''validityStartTimestamp'')),
               js_field ''validityEndTimestamp'' (js_Number (js_dot (Inr payload) ''validityEndTimestamp''))]),
             js_field ''signature'' (Inr (jprop signed ''signature''))])])))))))"

definition erc20SignatureGenerate :: "'w handler" where [handler_defs]:
  "erc20SignatureGenerate V q =
     (let chain = jprop (hq_params q) ''chain'';
         contractAddress = jprop (hq_params q) ''contractAddress'';
         to = jprop (hq_body q) ''to'';
         currencyAddress = jprop (hq_body q) ''currencyAddress'';
         mintEndTime = jprop (hq_body q) ''mintEndTime'';
         mintStartTime = jprop (hq_body q) ''mintStartTime'';
         price = jprop (hq_body q) ''price'';
         primarySaleRecipient = jprop (hq_body q) ''primarySaleRecipient'';
         quantity = jprop (hq_body q) ''quantity'';
         uid = jprop (hq_body q) ''uid'';
         walletAddress = jprop (hq_headers q) ''x-backend-wallet-address'';
         accountAddress = jprop (hq_headers q) ''x-account-address'';
         sdkVersion = jprop (hq_headers q) ''x-thirdweb-sdk-version'' in
      bnd (chainIdFrom V chain) (\<lambda>chainId.
      if sdkVersion = JStr ''5'' then erc20SignatureGenerate_v5 V q chainId
      else
        bnd (getContract V chainId contractAddress walletAddress accountAddress JUndefined) (\<lambda>contract.
        bnd (lift_res (checkAndReturnERC20SignaturePayload V (JObj [(''to'', to), (''currencyAddress'', currencyAddress), (''mintEndTime'', mintEndTime), (''mintStartTime'', mintStartTime), (''price'', if price = JUndefined then JStr ''0'' else price), (''primarySaleRecipient'', primarySaleRecipient), (''quantity'', quantity), (''uid'', uid)]))) (\<lambda>payload.
        bnd (sdk_call V contract [''erc20'', ''signature'', ''generate''] [payload]) (\<lambda>signedPayload.
        lift_res (js_obj [js_field ''result'' (js_obj [js_spread (Inr signedPayload),
               js_field ''payload'' (js_obj [js_spread (js_dot (Inr signedPayload) ''payload''),
               js_field ''quantity'' (js_toString (js_dot (js_dot (Inr signedPayload) ''payload'') ''quantity'')),
               js_field ''mintStartTime'' (js_toNumber (js_dot (js_dot (Inr signedPayload) ''payload'') ''mintStartTime'')),
               js_field ''mintEndTime'' (js_toNumber (js_dot (js_dot (Inr signedPayload) ''payload'') ''mintEndTime''))])])]))))))"

section \<open>contract/extensions/erc20/read/totalSupply.ts\<close>

definition erc20TotalSupply_responseSchema :: schema where [schema_defs]:
  "erc20TotalSupply_responseSchema =
     SObject [(''result'', True, erc20MetadataSchema)]"

definition erc20TotalSupply_route :: route where [route_defs]:
  "erc20TotalSupply_route = \<lparr>rt_method = ''GET'',
     rt_url = ''/contract/:chain/:contractAddress/erc20/total-supply'',
     rt_operationId = ''erc20-totalSupply'',
     rt_tags = [''ERC20''],
     rt_hidden = False,
     rt_params = Some erc20ContractParamSchema,
     rt_querystring = None,
     rt_body = None,
     rt_headers = None,
     rt_response = put_fields [(200, erc20TotalSupply_responseSchema)] standardResponseSchema\<rparr>"

definition erc20TotalSupply :: "'w handler" where [handler_defs]:
  "erc20TotalSupply V q =
    (let chain = jprop (hq_params q) ''chain'';
         contractAddress = jprop (hq_params q) ''contractAddress'' in
     bnd (chainIdFrom V chain) (\<lambda>chainId.
     bnd (getContract V chainId contractAddress JUndefined JUndefined JUndefined) (\<lambda>contract.
     bnd (sdk_call V contract [''erc20'', ''totalSupply''] []) (\<lambda>returnData.
     lift_res (js_obj [js_field ''result'' (js_obj [js_field ''value'' (js_toString
         (js_dot (Inr returnData) ''value'')), js_field ''symbol'' (js_dot (Inr returnData) ''symbol''),
         js_field ''name'' (js_dot (Inr returnData) ''name''),
         js_field ''decimals'' (js_toString (js_dot (Inr returnData) ''decimals'')),
         js_field ''displayValue'' (js_dot (Inr returnData) ''displayValue'')])])))))"

section \<open>contract/extensions/erc20/write/burn.ts\<close>

definition erc20burn_requestBodySchema :: schema where [schema_defs]:
  "erc20burn_requestBodySchema =
     SObject ([(''amount'', True, SString)] @ properties txOverridesWithValueSchema)"

definition erc20burn_route :: route where [route_defs]:
  "erc20burn_route = \<lparr>rt_method = ''POST'',
     rt_url = ''/contract/:chain/:contractAddress/erc20/burn'',
     rt_operationId = ''erc20-burn'',
     rt_tags = [''ERC20''],
     rt_hidden = False,
     rt_params = Some erc20ContractParamSchema,
     rt_querystring = Some requestQuerystringSchema,
     rt_body = Some erc20burn_requestBodySchema,
     rt_headers = Some walletWithAAHeaderSchema,
     rt_response = put_fields [(200, transactionWritesResponseSchema)] standardResponseSchema\<rparr>"

definition erc20burn :: "'w handler" where [handler_defs]:
  "erc20burn V q =
    (let chain = jprop (hq_params q) ''chain'';
         contractAddress = jprop (hq_params q) ''contractAddress'';
         simulateTx = jprop (hq_query q) ''simulateTx'';
         amount = jprop (hq_body q) ''amount'';
         txOverrides = jprop (hq_body q) ''txOverrides'';
         walletAddress = jprop (hq_headers q) ''x-backend-wallet-address'';
         accountAddress = jprop (hq_headers q) ''x-account-address'';
         idempotencyKey = jprop (hq_headers q) ''x-idempotency-key'' in
     bnd (chainIdFrom V chain) (\<lambda>chainId.
     bnd (getContract V chainId contractAddress walletAddress accountAddress JUndefined) (\<lambda>contract.
     bnd (prepare V contract [''erc20'', ''burn''] [amount]) (\<lambda>tx.
     bnd (queue_tx V tx chainId ''erc20'' JUndefined JUndefined simulateTx idempotencyKey txOverrides) (\<lambda>queueId.
     ret (JObj [(''result'', JObj [(''queueId'', JStr queueId)])]))))))"

section \<open>contract/extensions/erc20/write/burnFrom.ts\<close>

definition erc20burnFrom_requestBodySchema :: schema where [schema_defs]:
  "erc20burnFrom_requestBodySchema =
     SObject ([(''holderAddress'', True, AddressSchema), (''amount'', True, SString)]
     @ properties txOverridesWithValueSchema)"

definition erc20burnFrom_route :: route where [route_defs]:
  "erc20burnFrom_route = \<lparr>rt_method = ''POST'',
     rt_url = ''/contract/:chain/:contractAddress/erc20/burn-from'',
     rt_operationId = ''erc20-burnFrom'',
     rt_tags = [''ERC20''],
     rt_hidden = False,
     rt_params = Some erc20ContractParamSchema,
     rt_querystring = Some requestQuerystringSchema,
     rt_body = Some erc20burnFrom_requestBodySchema,
     rt_headers = Some walletWithAAHeaderSchema,
     rt_response = put_fields [(200, transactionWritesResponseSchema)] standardResponseSchema\<rparr>"

definition erc20burnFrom :: "'w handler" where [handler_defs]:
  "erc20burnFrom V q =
    (let chain = jprop (hq_params q) ''chain'';
         contractAddress = jprop (hq_params q) ''contractAddress'';
         simulateTx = jprop (hq_query q) ''simulateTx'';
         holderAddress = jprop (hq_body q) ''holderAddress'';
         amount = jprop (hq_body q) ''amount'';
         txOverrides = jprop (hq_body q) ''txOverrides'';
         walletAddress = jprop (hq_headers q) ''x-backend-wallet-address'';
         accountAddress = jprop (hq_headers q) ''x-account-address'';
         idempotencyKey = jprop (hq_headers q) ''x-idempotency-key'' in
     bnd (chainIdFrom V chain) (\<lambda>chainId.
     bnd (getContract V chainId contractAddress walletAddress accountAddress JUndefined) (\<lambda>contract.
     bnd (prepare V contract [''erc20'', ''burnFrom''] [holderAddress, amount]) (\<lambda>tx.
     bnd (queue_tx V tx chainId ''erc20'' JUndefined JUndefined simulateTx idempotencyKey txOverrides) (\<lambda>queueId.
     ret (JObj [(''result'', JObj [(''queueId'', JStr queueId)])]))))))"

section \<open>contract/extensions/erc20/write/claimTo.ts\<close>

definition erc20claimTo_requestBodySchema :: schema where [schema_defs]:
  "erc20claimTo_requestBodySchema =
     SObject ([(''recipient'', True, SString), (''amount'', True, SString)]
     @ properties txOverridesWithValueSchema)"

definition erc20claimTo_route :: route where [route_defs]:
  "erc20claimTo_route = \<lparr>rt_method = ''POST'',
     rt_url = ''/contract/:chain/:contractAddress/erc20/claim-to'',
     rt_operationId = ''erc20-claimTo'',
     rt_tags = [''ERC20''],
     rt_hidden = False,
     rt_params = Some erc20ContractParamSchema,
     rt_querystring = Some requestQuerystringSchema,
     rt_body = Some erc20claimTo_requestBodySchema,
     rt_headers = Some walletWithAAHeaderSchema,
     rt_response = put_fields [(200, transactionWritesResponseSchema)] standardResponseSchema\<rparr>"

definition erc20claimTo :: "'w handler" where [handler_defs]:
  "erc20claimTo V q =
     (let chain = jprop (hq_params q) ''chain'';
         contractAddress = jprop (hq_params q) ''contractAddress'';
         simulateTx = jprop (hq_query q) ''simulateTx'';
         recipient = jprop (hq_body q) ''recipient'';
         amount = jprop (hq_body q) ''amount'';
         txOverrides = jprop (hq_body q) ''txOverrides'';
         fromAddress = jprop (hq_headers q) ''x-backend-wallet-address'';
         accountAddress = jprop (hq_headers q) ''x-account-address'';
         idempotencyKey = jprop (hq_headers q) ''x-idempotency-key'';
         accountFactoryAddress = jprop (hq_headers q) ''x-account-factory-address'' in
      bnd (chainIdFrom V chain) (\<lambda>chainId.
      bnd (getContractV5 V chainId contractAddress JUndefined) (\<lambda>contract.
      bnd (lift_res (js_obj [js_field ''from'' (Inr fromAddress), js_field ''to'' (Inr recipient), js_field ''quantity'' (Inr amount)])) (\<lambda>options.
      bnd (queue_v5 V (v_encodeV5 (ys_sdk V) ''claimTo'' contract options) chainId fromAddress contractAddress
             accountAddress accountFactoryAddress txOverrides idempotencyKey simulateTx) (\<lambda>queueId.
      ret (JObj [(''result'', JObj [(''queueId'', JStr queueId)])]))))))"

section \<open>contract/extensions/erc20/write/mintBatchTo.ts\<close>

definition erc20mintBatchTo_requestBodySchema :: schema where [schema_defs]:
  "erc20mintBatchTo_requestBodySchema =
     SObject ([(''data'', True, SArray (SObject [(''toAddress'', True, AddressSchema), (''amount'',
     True, SString)]))] @ properties txOverridesWithValueSchema)"

definition erc20mintBatchTo_route :: route where [route_defs]:
  "erc20mintBatchTo_route = \<lparr>rt_method = ''POST'',
     rt_url = ''/contract/:chain/:contractAddress/erc20/mint-batch-to'',
     rt_operationId = ''erc20-mintBatchTo'',
     rt_tags = [''ERC20''],
     rt_hidden = False,
     rt_params = Some erc20ContractParamSchema,
     rt_querystring = Some requestQuerystringSchema,
     rt_body = Some erc20mintBatchTo_requestBodySchema,
     rt_headers = Some walletWithAAHeaderSchema,
     rt_response = put_fields [(200, transactionWritesResponseSchema)] standardResponseSchema\<rparr>"

definition erc20mintBatchTo :: "'w handler" where [handler_defs]:
  "erc20mintBatchTo V q =
    (let chain = jprop (hq_params q) ''chain'';
         contractAddress = jprop (hq_params q) ''contractAddress'';
         simulateTx = jprop (hq_query q) ''simulateTx'';
         data = jprop (hq_body q) ''data'';
         txOverrides = jprop (hq_body q) ''txOverrides'';
         walletAddress = jprop (hq_headers q) ''x-backend-wallet-address'';
         accountAddress = jprop (hq_headers q) ''x-account-address'';
         idempotencyKey = jprop (hq_headers q) ''x-idempotency-key'' in
     bnd (chainIdFrom V chain) (\<lambda>chainId.
     bnd (getContract V chainId contractAddress walletAddress accountAddress JUndefined) (\<lambda>contract.
     bnd (prepare V contract [''erc20'', ''mintBatchTo''] [data]) (\<lambda>tx.
     bnd (queue_tx V tx chainId ''erc20'' JUndefined JUndefined simulateTx idempotencyKey txOverrides) (\<lambda>queueId.
     ret (JObj [(''result'', JObj [(''queueId'', JStr queueId)])]))))))"

section \<open>contract/extensions/erc20/write/mintTo.ts\<close>

definition erc20mintTo_requestBodySchema :: schema where [schema_defs]:
  "erc20mintTo_requestBodySchema =
     SObject ([(''toAddress'', True, AddressSchema), (''amount'', True, SString)]
     @ properties txOverridesWithValueSchema)"

definition erc20mintTo_route :: route where [route_defs]:
  "erc20mintTo_route = \<lparr>rt_method = ''POST'',
     rt_url = ''/contract/:chain/:contractAddress/erc20/mint-to'',
     rt_operationId = ''erc20-mintTo'',
     rt_tags = [''ERC20''],
     rt_hidden = False,
     rt_params = Some erc20ContractParamSchema,
     rt_querystring = Some requestQuerystringSchema,
     rt_body = Some erc20mintTo_requestBodySchema,
     rt_headers = Some walletWithAAHeaderSchema,
     rt_response = put_fields [(200, transactionWritesResponseSchema)] standardResponseSchema\<rparr>"

definition erc20mintTo :: "'w handler" where [handler_defs]:
  "erc20mintTo V q =
    (let chain = jprop (hq_params q) ''chain'';
         contractAddress = jprop (hq_params q) ''contractAddress'';
         simulateTx = jprop (hq_query q) ''simulateTx'';
         toAddress = jprop (hq_body q) ''toAddress'';
         amount = jprop (hq_body q) ''amount'';
         txOverrides = jprop (hq_body q) ''txOverrides'';
         walletAddress = jprop (hq_headers q) ''x-backend-wallet-address'';
         accountAddress = jprop (hq_headers q) ''x-account-address'';
         idempotencyKey = jprop (hq_headers q) ''x-idempotency-key'' in
     bnd (chainIdFrom V chain) (\<lambda>chainId.
     bnd (getContract V chainId contractAddress walletAddress accountAddress JUndefined) (\<lambda>contract.
     bnd (prepare V contract [''erc20'', ''mintTo''] [toAddress, amount]) (\<lambda>tx.
     bnd (queue_tx V tx chainId ''erc20'' JUndefined JUndefined simulateTx idempotencyKey txOverrides) (\<lambda>queueId.
     ret (JObj [(''result'', JObj [(''queueId'', JStr queueId)])]))))))"

section \<open>contract/extensions/erc20/write/setAllowance.ts\<close>

definition erc20SetAlowance_requestBodySchema :: schema where [schema_defs]:
  "erc20SetAlowance_requestBodySchema =
     SObject ([(''spenderAddress'', True, AddressSchema), (''amount'', True, SString)]
     @ properties txOverridesWithValueSchema)"

definition erc20SetAlowance_route :: route where [route_defs]:
  "erc20SetAlowance_route = \<lparr>rt_method = ''POST'',
     rt_url = ''/contract/:chain/:contractAddress/erc20/set-allowance'',
     rt_operationId = ''erc20-setAllowance'',
     rt_tags = [''ERC20''],
     rt_hidden = False,
     rt_params = Some erc20ContractParamSchema,
     rt_querystring = Some requestQuerystringSchema,
     rt_body = Some erc20SetAlowance_requestBodySchema,
     rt_headers = Some walletWithAAHeaderSchema,
     rt_response = put_fields [(200, transactionWritesResponseSchema)] standardResponseSchema\<rparr>"

definition erc20SetAlowance :: "'w handler" where [handler_defs]:
  "erc20SetAlowance V q =
    (let chain = jprop (hq_params q) ''chain'';
         contractAddress = jprop (hq_params q) ''contractAddress'';
         simulateTx = jprop (hq_query q) ''simulateTx'';
         spenderAddress = jprop (hq_body q) ''spenderAddress'';
         amount = jprop (hq_body q) ''amount'';
         txOverrides = jprop (hq_body q) ''txOverrides'';
         walletAddress = jprop (hq_headers q) ''x-backend-wallet-address'';
         accountAddress = jprop (hq_headers q) ''x-account-address'';
         idempotencyKey = jprop (hq_headers q) ''x-idempotency-key'' in
     bnd (chainIdFrom V chain) (\<lambda>chainId.
     bnd (getContract V chainId contractAddress walletAddress accountAddress JUndefined) (\<lambda>contract.
     bnd (prepare V contract [''erc20'', ''setAllowance''] [spenderAddress, amount]) (\<lambda>tx.
     bnd (queue_tx V tx chainId ''erc20'' JUndefined JUndefined simulateTx idempotencyKey txOverrides) (\<lambda>queueId.
     ret (JObj [(''result'', JObj [(''queueId'', JStr queueId)])]))))))"

section \<open>contract/extensions/erc20/write/setClaimConditions.ts\<close>

definition erc20SetClaimConditions_requestBodySchema :: schema where [schema_defs]:
  "erc20SetClaimConditions_requestBodySchema =
     SObject ([(''claimConditionInputs'', True, SArray claimConditionInputSchema),
     (''resetClaimEligibilityForAll'', False, SBoolean)] @ properties txOverridesWithValueSchema)"

definition erc20SetClaimConditions_route :: route where [route_defs]:
  "erc20SetClaimConditions_route = \<lparr>rt_method = ''POST'',
     rt_url = ''/contract/:chain/:contractAddress/erc20/claim-conditions/set'',
     rt_operationId = ''erc20-setClaimConditions'',
     rt_tags = [''ERC20''],
     rt_hidden = False,
     rt_params = Some contractParamSchema,
     rt_querystring = Some requestQuerystringSchema,
     rt_body = Some erc20SetClaimConditions_requestBodySchema,
     rt_headers = Some walletWithAAHeaderSchema,
     rt_response = put_fields [(200, transactionWritesResponseSchema)] standardResponseSchema\<rparr>"

definition erc20SetClaimConditions :: "'w handler" where [handler_defs]:
  "erc20SetClaimConditions V q =
    (let chain = jprop (hq_params q) ''chain'';
         contractAddress = jprop (hq_params q) ''contractAddress'';
         simulateTx = jprop (hq_query q) ''simulateTx'';
         claimConditionInputs = jprop (hq_body q) ''claimConditionInputs'';
         resetClaimEligibilityForAll = jprop (hq_body q) ''resetClaimEligibilityForAll'';
         txOverrides = jprop (hq_body q) ''txOverrides'';
         walletAddress = jprop (hq_headers q) ''x-backend-wallet-address'';
         accountAddress = jprop (hq_headers q) ''x-account-address'';
         idempotencyKey = jprop (hq_headers q) ''x-idempotency-key'' in
     bnd (chainIdFrom V chain) (\<lambda>chainId.
     bnd (getContract V chainId contractAddress walletAddress accountAddress JUndefined) (\<lambda>contract.
     bnd (lift_res (js_map (\<lambda>item. js_obj [js_spread (Inr item), js_field ''startTime'' (js_cond
         (js_dot (Inr item) ''startTime'') (js_cond (isUnixEpochTimestamp V (js_parseInteger (js_toString
         (js_dot (Inr item) ''startTime'')))) (js_Date V (js_times (js_parseInteger (js_toString
         (js_dot (Inr item) ''startTime''))) (Inr (JNum (Some 1000))))) (js_Date V
         (js_dot (Inr item) ''startTime''))) (Inr JUndefined))]) (Inr claimConditionInputs))) (\<lambda>sanitizedClaimConditionInputs.
     bnd (prepare V contract [''erc20'', ''claimConditions'', ''set''] [sanitizedClaimConditionInputs,
         resetClaimEligibilityForAll]) (\<lambda>tx.
     bnd (queue_tx V tx chainId ''erc20'' JUndefined JUndefined simulateTx idempotencyKey txOverrides) (\<lambda>queueId.
     ret (JObj [(''result'', JObj [(''queueId'', JStr queueId)])])))))))"

section \<open>contract/extensions/erc20/write/signatureMint.ts\<close>

definition erc20SignatureMint_requestBodySchema :: schema where [schema_defs]:
  "erc20SignatureMint_requestBodySchema =
     SObject ([(''payload'', True, signature20OutputSchema), (''signature'', True, SString)]
     @ properties txOverridesWithValueSchema)"

definition erc20SignatureMint_route :: route where [route_defs]:
  "erc20SignatureMint_route = \<lparr>rt_method = ''POST'',
     rt_url = ''/contract/:chain/:contractAddress/erc20/signature/mint'',
     rt_operationId = ''erc20-signatureMint'',
     rt_tags = [''ERC20''],
     rt_hidden = False,
     rt_params = Some contractParamSchema,
     rt_querystring = Some requestQuerystringSchema,
     rt_body = Some erc20SignatureMint_requestBodySchema,
     rt_headers = Some walletWithAAHeaderSchema,
     rt_response = put_fields [(200, transactionWritesResponseSchema)] standardResponseSchema\<rparr>"

definition erc20SignatureMint :: "'w handler" where [handler_defs]:
  "erc20SignatureMint V q =
    (let chain = jprop (hq_params q) ''chain'';
         contractAddress = jprop (hq_params q) ''contractAddress'';
         simulateTx = jprop (hq_query q) ''simulateTx'';
         payload = jprop (hq_body q) ''payload'';
         signature = jprop (hq_body q) ''signature'';
         txOverrides = jprop (hq_body q) ''txOverrides'';
         walletAddress = jprop (hq_headers q) ''x-backend-wallet-address'';
         accountAddress = jprop (hq_headers q) ''x-account-address'';
         idempotencyKey = jprop (hq_headers q) ''x-idempotency-key'' in
     bnd (chainIdFrom V chain) (\<lambda>chainId.
     bnd (getContract V chainId contractAddress walletAddress accountAddress JUndefined) (\<lambda>contract.
     bnd (lift_res (js_obj [js_field ''payload'' (js_obj [js_spread (Inr payload),
         js_field ''quantity'' (js_toString (js_BigNumber V (js_dot (Inr payload) ''quantity''))),
         js_field ''mintStartTime'' (js_BigNumber V (js_dot (Inr payload) ''mintStartTime'')),
         js_field ''mintEndTime'' (js_BigNumber V (js_dot (Inr payload) ''mintEndTime''))]),
         js_field ''signature'' (Inr signature)])) (\<lambda>signedPayload.
     bnd (prepare V contract [''erc20'', ''signature'', ''mint''] [signedPayload]) (\<lambda>tx.
     bnd (queue_tx V tx chainId ''erc20'' JUndefined JUndefined simulateTx idempotencyKey txOverrides) (\<lambda>queueId.
     ret (JObj [(''result'', JObj [(''queueId'', JStr queueId)])])))))))"

section \<open>contract/extensions/erc20/write/transfer.ts\<close>

definition erc20Transfer_requestBodySchema :: schema where [schema_defs]:
  "erc20Transfer_requestBodySchema =
     SObject ([(''toAddress'', True, AddressSchema), (''amount'', True, SString)]
     @ properties txOverridesWithValueSchema)"

definition erc20Transfer_route :: route where [route_defs]:
  "erc20Transfer_route = \<lparr>rt_method = ''POST'',
     rt_url = ''/contract/:chain/:contractAddress/erc20/transfer'',
     rt_operationId = ''erc20-erc20-transfer'',
     rt_tags = [''ERC20''],
     rt_hidden = False,
     rt_params = Some erc20ContractParamSchema,
     rt_querystring = Some requestQuerystringSchema,
     rt_body = Some erc20Transfer_requestBodySchema,
     rt_headers = Some walletWithAAHeaderSchema,
     rt_response = put_fields [(200, transactionWritesResponseSchema)] standardResponseSchema\<rparr>"

definition erc20Transfer :: "'w handler" where [handler_defs]:
  "erc20Transfer V q =
    (let chain = jprop (hq_params q) ''chain'';
         contractAddress = jprop (hq_params q) ''contractAddress'';
         simulateTx = jprop (hq_query q) ''simulateTx'';
         toAddress = jprop (hq_body q) ''toAddress'';
         amount = jprop (hq_body q) ''amount'';
         txOverrides = jprop (hq_body q) ''txOverrides'';
         walletAddress = jprop (hq_headers q) ''x-backend-wallet-address'';
         accountAddress = jprop (hq_headers q) ''x-account-address'';
         idempotencyKey = jprop (hq_headers q) ''x-idempotency-key'' in
     bnd (chainIdFrom V chain) (\<lambda>chainId.
     bnd (getContract V chainId contractAddress walletAddress accountAddress JUndefined) (\<lambda>contract.
     bnd (prepare V contract [''erc20'', ''transfer''] [toAddress, amount]) (\<lambda>tx.
     bnd (queue_tx V tx chainId ''erc20'' JUndefined JUndefined simulateTx idempotencyKey txOverrides) (\<lambda>queueId.
     ret (JObj [(''result'', JObj [(''queueId'', JStr queueId)])]))))))"

section \<open>contract/extensions/erc20/write/transferFrom.ts\<close>

definition erc20TransferFrom_requestBodySchema :: schema where [schema_defs]:
  "erc20TransferFrom_requestBodySchema =
     SObject ([(''fromAddress'', True, AddressSchema), (''toAddress'', True, AddressSchema),
     (''amount'', True, SString)] @ properties txOverridesWithValueSchema)"

definition erc20TransferFrom_route :: route where [route_defs]:
  "erc20TransferFrom_route = \<lparr>rt_method = ''POST'',
     rt_url = ''/contract/:chain/:contractAddress/erc20/transfer-from'',
     rt_operationId = ''erc20-transferFrom'',
     rt_tags = [''ERC20''],
     rt_hidden = False,
     rt_params = Some erc20ContractParamSchema,
     rt_querystring = Some requestQuerystringSchema,
     rt_body = Some erc20TransferFrom_requestBodySchema,
     rt_headers = Some walletWithAAHeaderSchema,
     rt_response = put_fields [(200, transactionWritesResponseSchema)] standardResponseSchema\<rparr>"

definition erc20TransferFrom :: "'w handler" where [handler_defs]:
  "erc20TransferFrom V q =
    (let chain = jprop (hq_params q) ''chain'';
         contractAddress = jprop (hq_params q) ''contractAddress'';
         simulateTx = jprop (hq_query q) ''simulateTx'';
         fromAddress = jprop (hq_body q) ''fromAddress'';
         toAddress = jprop (hq_body q) ''toAddress'';
         amount = jprop (hq_body q) ''amount'';
         txOverrides = jprop (hq_body q) ''txOverrides'';
         walletAddress = jprop (hq_headers q) ''x-backend-wallet-address'';
         accountAddress = jprop (hq_headers q) ''x-account-address'';
         idempotencyKey = jprop (hq_headers q) ''x-idempotency-key'' in
     bnd (chainIdFrom V chain) (\<lambda>chainId.
     bnd (getContract V chainId contractAddress walletAddress accountAddress JUndefined) (\<lambda>contract.
     bnd (prepare V contract [''erc20'', ''transferFrom''] [fromAddress, toAddress, amount]) (\<lambda>tx.
     bnd (queue_tx V tx chainId ''erc20'' JUndefined JUndefined simulateTx idempotencyKey txOverrides) (\<lambda>queueId.
     ret (JObj [(''result'', JObj [(''queueId'', JStr queueId)])]))))))"

section \<open>contract/extensions/erc20/write/updateClaimConditions.ts\<close>

definition erc20UpdateClaimConditions_requestBodySchema :: schema where [schema_defs]:
  "erc20UpdateClaimConditions_requestBodySchema =
     SObject ([(''claimConditionInput'', True, claimConditionInputSchema), (''index'', True, SNumber)]
     @ properties txOverridesWithValueSchema)"

definition erc20UpdateClaimConditions_route :: route where [route_defs]:
  "erc20UpdateClaimConditions_route = \<lparr>rt_method = ''POST'',
     rt_url = ''/contract/:chain/:contractAddress/erc20/claim-conditions/update'',
     rt_operationId = ''erc20-updateClaimConditions'',
     rt_tags = [''ERC20''],
     rt_hidden = False,
     rt_params = Some contractParamSchema,
     rt_querystring = Some requestQuerystringSchema,
     rt_body = Some erc20UpdateClaimConditions_requestBodySchema,
     rt_headers = Some walletWithAAHeaderSchema,
     rt_response = put_fields [(200, transactionWritesResponseSchema)] standardResponseSchema\<rparr>"

definition erc20UpdateClaimConditions :: "'w handler" where [handler_defs]:
  "erc20UpdateClaimConditions V q =
    (let chain = jprop (hq_params q) ''chain'';
         contractAddress = jprop (hq_params q) ''contractAddress'';
         simulateTx = jprop (hq_query q) ''simulateTx'';
         claimConditionInput = jprop (hq_body q) ''claimConditionInput'';
         index = jprop (hq_body q) ''index'';
         txOverrides = jprop (hq_body q) ''txOverrides'';
         walletAddress = jprop (hq_headers q) ''x-backend-wallet-address'';
         accountAddress = jprop (hq_headers q) ''x-account-address'';
         idempotencyKey = jprop (hq_headers q) ''x-idempotency-key'' in
     bnd (chainIdFrom V chain) (\<lambda>chainId.
     bnd (getContract V chainId contractAddress walletAddress accountAddress JUndefined) (\<lambda>contract.
     bnd (lift_res (js_obj [js_spread (Inr claimConditionInput), js_field ''startTime'' (js_cond
         (js_dot (Inr claimConditionInput) ''startTime'') (js_cond (isUnixEpochTimestamp V (js_parseInteger
         (js_toString (js_dot (Inr claimConditionInput) ''startTime'')))) (js_Date V (js_times
         (js_parseInteger (js_toString
         (js_dot (Inr claimConditionInput) ''startTime''))) (Inr (JNum (Some 1000))))) (js_Date V
         (js_dot (Inr claimConditionInput) ''startTime''))) (Inr JUndefined))])) (\<lambda>sanitizedClaimConditionInput.
     bnd (prepare V contract [''erc20'', ''claimConditions'', ''update''] [index,
         sanitizedClaimConditionInput]) (\<lambda>tx.
     bnd (queue_tx V tx chainId ''erc20'' JUndefined JUndefined simulateTx idempotencyKey txOverrides) (\<lambda>queueId.
     ret (JObj [(''result'', JObj [(''queueId'', JStr queueId)])])))))))"

section \<open>Lists\<close>

text \<open>The routes with their handlers, and the routes in the order in which they are registered.\<close>

definition erc20_reads :: "(route \<times> 'w handler) list" where
  "erc20_reads =
     [(erc20AllowanceOf_route, erc20AllowanceOf), (erc20BalanceOf_route, erc20BalanceOf),
         (erc20CanClaim_route, erc20CanClaim), (erc20GetMetadata_route, erc20GetMetadata),
         (erc20GetActiveClaimConditions_route, erc20GetActiveClaimConditions),
         (erc20GetAllClaimConditions_route, erc20GetAllClaimConditions),
         (erc20GetClaimIneligibilityReasons_route, erc20GetClaimIneligibilityReasons),
         (erc20GetClaimerProofs_route, erc20GetClaimerProofs), (erc20TotalSupply_route, erc20TotalSupply)]"

definition erc20_signs :: "(route \<times> 'w handler) list" where
  "erc20_signs =
     [(erc20SignatureGenerate_route, erc20SignatureGenerate)]"

definition erc20_writes :: "(route \<times> 'w handler) list" where
  "erc20_writes =
     [(erc20burn_route, erc20burn), (erc20burnFrom_route, erc20burnFrom), (erc20claimTo_route,
         erc20claimTo), (erc20mintBatchTo_route, erc20mintBatchTo), (erc20mintTo_route, erc20mintTo),
         (erc20SetAlowance_route, erc20SetAlowance), (erc20SetClaimConditions_route,
         erc20SetClaimConditions), (erc20SignatureMint_route, erc20SignatureMint), (erc20Transfer_route,
         erc20Transfer), (erc20TransferFrom_route, erc20TransferFrom), (erc20UpdateClaimConditions_route,
         erc20UpdateClaimConditions)]"

definition erc20Routes :: "route list" where
  "erc20Routes =
     [erc20AllowanceOf_route, erc20BalanceOf_route, erc20GetMetadata_route, erc20TotalSupply_route,
         erc20SignatureGenerate_route, erc20CanClaim_route, erc20GetActiveClaimConditions_route,
         erc20GetAllClaimConditions_route, erc20GetClaimIneligibilityReasons_route,
         erc20GetClaimerProofs_route, erc20SetAlowance_route, erc20Transfer_route, erc20TransferFrom_route,
         erc20burn_route, erc20burnFrom_route, erc20claimTo_route, erc20mintBatchTo_route,
         erc20mintTo_route, erc20SignatureMint_route, erc20SetClaimConditions_route,
         erc20UpdateClaimConditions_route]"


end
