(* ===== verification/Erc721_Routes.thy ===== *)
theory Erc721_Routes
  imports Sdk_Access Shared_Schemas
begin

text \<open>
  The routes of ERC-721 tokens. Every route is the record of its \<open>fastify.route\<close> call
  with the schemas of its file, and its handler.
\<close>

section \<open>contract/extensions/erc721/read/balanceOf.ts\<close>

definition erc721BalanceOf_responseSchema :: schema where [schema_defs]:
  "erc721BalanceOf_responseSchema =
     SObject [(''result'', False, SString)]"

definition erc721BalanceOf_querystringSchema :: schema where [schema_defs]:
  "erc721BalanceOf_querystringSchema =
     SObject [(''walletAddress'', True, AddressSchema)]"

definition erc721BalanceOf_route :: route where [route_defs]:
  "erc721BalanceOf_route = \<lparr>rt_method = ''GET'',
     rt_url = ''/contract/:chain/:contractAddress/erc721/balance-of'',
     rt_operationId = ''erc721-balanceOf'',
     rt_tags = [''ERC721''],
     rt_hidden = False,
     rt_params = Some erc721ContractParamSchema,
     rt_querystring = Some erc721BalanceOf_querystringSchema,
     rt_body = None,
     rt_headers = None,
     rt_response = put_fields [(200, erc721BalanceOf_responseSchema)] standardResponseSchema\<rparr>"

definition erc721BalanceOf :: "'w handler" where [handler_defs]:
  "erc721BalanceOf V q =
    (let chain = jprop (hq_params q) ''chain'';
         contractAddress = jprop (hq_params q) ''contractAddress'';
         walletAddress = jprop (hq_query q) ''walletAddress'' in
     bnd (chainIdFrom V chain) (\<lambda>chainId.
     bnd (getContract V chainId contractAddress JUndefined JUndefined JUndefined) (\<lambda>contract.
     bnd (sdk_call V contract [''erc721'', ''balanceOf''] [walletAddress]) (\<lambda>returnData.
     lift_res (js_obj [js_field ''result'' (js_toString (Inr returnData))])))))"

section \<open>contract/extensions/erc721/read/canClaim.ts\<close>

definition erc721CanClaim_responseSchema :: schema where [schema_defs]:
  "erc721CanClaim_responseSchema =
     SObject [(''result'', True, SBoolean)]"

definition erc721CanClaim_requestQueryString :: schema where [schema_defs]:
  "erc721CanClaim_requestQueryString =
     SObject [(''quantity'', True, SString), (''addressToCheck'', False, SString)]"

definition erc721CanClaim_route :: route where [route_defs]:
  "erc721CanClaim_route = \<lparr>rt_method = ''GET'',
     rt_url = ''/contract/:chain/:contractAddress/erc721/claim-conditions/can-claim'',
     rt_operationId = ''erc721-canClaim'',
     rt_tags = [''ERC721''],
     rt_hidden = False,
     rt_params = Some contractParamSchema,
     rt_querystring = Some erc721CanClaim_requestQueryString,
     rt_body = None,
     rt_headers = None,
     rt_response = put_fields [(200, erc721CanClaim_responseSchema)] standardResponseSchema\<rparr>"

definition erc721CanClaim :: "'w handler" where [handler_defs]:
  "erc721CanClaim V q =
    (let chain = jprop (hq_params q) ''chain'';
         contractAddress = jprop (hq_params q) ''contractAddress'';
         quantity = jprop (hq_query q) ''quantity'';
         addressToCheck = jprop (hq_query q) ''addressToCheck'' in
     bnd (chainIdFrom V chain) (\<lambda>chainId.
     bnd (getContract V chainId contractAddress JUndefined JUndefined JUndefined) (\<lambda>contract.
     bnd (sdk_call V contract [''erc721'', ''claimConditions'', ''canClaim''] [quantity,
         addressToCheck]) (\<lambda>returnData.
     ret (JObj [(''result'', returnData)])))))"

section \<open>contract/extensions/erc721/read/get.ts\<close>

definition erc721Get_responseSchema :: schema where [schema_defs]:
  "erc721Get_responseSchema =
     SObject [(''result'', True, nftSchema)]"

definition erc721Get_querystringSchema :: schema where [schema_defs]:
  "erc721Get_querystringSchema =
     SObject [(''tokenId'', True, SString)]"

definition erc721Get_route :: route where [route_defs]:
  "erc721Get_route = \<lparr>rt_method = ''GET'',
     rt_url = ''/contract/:chain/:contractAddress/erc721/get'',
     rt_operationId = ''erc721-get'',
     rt_tags = [''ERC721''],
     rt_hidden = False,
     rt_params = Some contractParamSchema,
     rt_querystring = Some erc721Get_querystringSchema,
     rt_body = None,
     rt_headers = None,
     rt_response = put_fields [(200, erc721Get_responseSchema)] standardResponseSchema\<rparr>"

definition erc721Get :: "'w handler" where [handler_defs]:
  "erc721Get V q =
    (let chain = jprop (hq_params q) ''chain'';
         contractAddress = jprop (hq_params q) ''contractAddress'';
         tokenId = jprop (hq_query q) ''tokenId'' in
     bnd (chainIdFrom V chain) (\<lambda>chainId.
     bnd (getContract V chainId contractAddress JUndefined JUndefined JUndefined) (\<lambda>contract.
     bnd (sdk_call V contract [''erc721'', ''get''] [tokenId]) (\<lambda>result.
     ret (JObj [(''result'', result)])))))"

section \<open>contract/extensions/erc721/read/getActiveClaimConditions.ts\<close>

definition erc721GetActiveClaimConditions_responseSchema :: schema where [schema_defs]:
  "erc721GetActiveClaimConditions_responseSchema =
     SObject [(''result'', True, claimConditionOutputSchema)]"

definition erc721GetActiveClaimConditions_requestQueryString :: schema where [schema_defs]:
  "erc721GetActiveClaimConditions_requestQueryString =
     SObject [(''withAllowList'', False, SBoolean)]"

definition erc721GetActiveClaimConditions_route :: route where [route_defs]:
  "erc721GetActiveClaimConditions_route = \<lparr>rt_method = ''GET'',
     rt_url = ''/contract/:chain/:contractAddress/erc721/claim-conditions/get-active'',
     rt_operationId = ''erc721-getActiveClaimConditions'',
     rt_tags = [''ERC721''],
     rt_hidden = False,
     rt_params = Some contractParamSchema,
     rt_querystring = Some erc721GetActiveClaimConditions_requestQueryString,
     rt_body = None,
     rt_headers = None,
     rt_response = put_fields [(200, erc721GetActiveClaimConditions_responseSchema)] standardResponseSchema\<rparr>"

definition erc721GetActiveClaimConditions :: "'w handler" where [handler_defs]:
  "erc721GetActiveClaimConditions V q =
    (let chain = jprop (hq_params q) ''chain'';
         contractAddress = jprop (hq_params q) ''contractAddress'';
         withAllowList = jprop (hq_query q) ''withAllowList'' in
     bnd (chainIdFrom V chain) (\<lambda>chainId.
     bnd (getContract V chainId contractAddress JUndefined JUndefined JUndefined) (\<lambda>contract.
     bnd (sdk_call V contract [''erc721'', ''claimConditions'', ''getActive''] [JObj [(''withAllowList'',
         withAllowList)]]) (\<lambda>returnData.
     lift_res (js_obj [js_field ''result'' (js_obj [js_spread (Inr returnData),
         js_field ''price'' (js_toString (js_dot (Inr returnData) ''price'')),
         js_field ''waitInSeconds'' (js_toString (js_dot (Inr returnData) ''waitInSeconds'')),
         js_field ''currencyMetadata'' (js_obj [js_spread (js_dot (Inr returnData) ''currencyMetadata''),
         js_field ''value'' (js_toString (js_dot (js_dot (Inr returnData) ''currencyMetadata'') ''value''))]),
         js_field ''startTime'' (js_toISOString (js_dot (Inr returnData) ''startTime''))])])))))"

section \<open>contract/extensions/erc721/read/getAll.ts\<close>

definition erc721GetAll_responseSchema :: schema where [schema_defs]:
  "erc721GetAll_responseSchema =
     SObject [(''result'', True, SArray nftSchema)]"

definition erc721GetAll_querystringSchema :: schema where [schema_defs]:
  "erc721GetAll_querystringSchema =
     SObject [(''start'', False, SNumber), (''count'', False, SNumber)]"

definition erc721GetAll_route :: route where [route_defs]:
  "erc721GetAll_route = \<lparr>rt_method = ''GET'',
     rt_url = ''/contract/:chain/:contractAddress/erc721/get-all'',
     rt_operationId = ''erc721-getAll'',
     rt_tags = [''ERC721''],
     rt_hidden = False,
     rt_params = Some contractParamSchema,
     rt_querystring = Some erc721GetAll_querystringSchema,
     rt_body = None,
     rt_headers = None,
     rt_response = put_fields [(200, erc721GetAll_responseSchema)] standardResponseSchema\<rparr>"

definition erc721GetAll :: "'w handler" where [handler_defs]:
  "erc721GetAll V q =
    (let chain = jprop (hq_params q) ''chain'';
         contractAddress = jprop (hq_params q) ''contractAddress'';
         start = jprop (hq_query q) ''start'';
         count = jprop (hq_query q) ''count'' in
     bnd (chainIdFrom V chain) (\<lambda>chainId.
     bnd (getContract V chainId contractAddress JUndefined JUndefined JUndefined) (\<lambda>contract.
     bnd (sdk_call V contract [''erc721'', ''getAll''] [JObj [(''start'', start), (''count'',
         count)]]) (\<lambda>result.
     ret (JObj [(''result'', result)])))))"

section \<open>contract/extensions/erc721/read/getAllClaimConditions.ts\<close>

definition erc721GetAllClaimConditions_responseSchema :: schema where [schema_defs]:
  "erc721GetAllClaimConditions_responseSchema =
     SObject [(''result'', True, SArray claimConditionOutputSchema)]"

definition erc721GetAllClaimConditions_requestQueryString :: schema where [schema_defs]:
  "erc721GetAllClaimConditions_requestQueryString =
     SObject [(''withAllowList'', False, SBoolean)]"

definition erc721GetAllClaimConditions_route :: route where [route_defs]:
  "erc721GetAllClaimConditions_route = \<lparr>rt_method = ''GET'',
     rt_url = ''/contract/:chain/:contractAddress/erc721/claim-conditions/get-all'',
     rt_operationId = ''erc721-getAllClaimConditions'',
     rt_tags = [''ERC721''],
     rt_hidden = False,
     rt_params = Some contractParamSchema,
     rt_querystring = Some erc721GetAllClaimConditions_requestQueryString,
     rt_body = None,
     rt_headers = None,
     rt_response = put_fields [(200, erc721GetAllClaimConditions_responseSchema)] standardResponseSchema\<rparr>"

definition erc721GetAllClaimConditions :: "'w handler" where [handler_defs]:
  "erc721GetAllClaimConditions V q =
    (let chain = jprop (hq_params q) ''chain'';
         contractAddress = jprop (hq_params q) ''contractAddress'';
         withAllowList = jprop (hq_query q) ''withAllowList'' in
     bnd (chainIdFrom V chain) (\<lambda>chainId.
     bnd (getContract V chainId contractAddress JUndefined JUndefined JUndefined) (\<lambda>contract.
     bnd (sdk_call V contract [''erc721'', ''claimConditions'', ''getAll''] [JObj [(''withAllowList'',
         withAllowList)]]) (\<lambda>returnData.
     bnd (lift_res (js_map (\<lambda>item. js_obj [js_spread (Inr item),
         js_field ''price'' (js_toString (js_dot (Inr item) ''price'')),
         js_field ''waitInSeconds'' (js_toString (js_dot (Inr item) ''waitInSeconds'')),
         js_field ''currencyMetadata'' (js_obj [js_spread (js_dot (Inr item) ''currencyMetadata''),
         js_field ''value'' (js_toString (js_dot (js_dot (Inr item) ''currencyMetadata'') ''value''))]),
         js_field ''startTime'' (js_toISOString
         (js_dot (Inr item) ''startTime''))]) (Inr returnData))) (\<lambda>sanitizedReturnData.
     ret (JObj [(''result'', sanitizedReturnData)]))))))"

section \<open>contract/extensions/erc721/read/getClaimIneligibilityReasons.ts\<close>

definition erc721GetClaimIneligibilityReasons_responseSchema :: schema where [schema_defs]:
  "erc721GetClaimIneligibilityReasons_responseSchema =
     SObject [(''result'', True, SArray (SUnion [SString, SString]))]"

definition erc721GetClaimIneligibilityReasons_requestQueryString :: schema where [schema_defs]:
  "erc721GetClaimIneligibilityReasons_requestQueryString =
     SObject [(''quantity'', True, SString), (''addressToCheck'', False, SString)]"

definition erc721GetClaimIneligibilityReasons_route :: route where [route_defs]:
  "erc721GetClaimIneligibilityReasons_route = \<lparr>rt_method = ''GET'',
     rt_url = ''/contract/:chain/:contractAddress/erc721/claim-conditions/get-claim-ineligibility-reasons'',
     rt_operationId = ''erc721-getClaimIneligibilityReasons'',
     rt_tags = [''ERC721''],
     rt_hidden = False,
     rt_params = Some contractParamSchema,
     rt_querystring = Some erc721GetClaimIneligibilityReasons_requestQueryString,
     rt_body = None,
     rt_headers = None,
     rt_response = put_fields [(200,
         erc721GetClaimIneligibilityReasons_responseSchema)] standardResponseSchema\<rparr>"

definition erc721GetClaimIneligibilityReasons :: "'w handler" where [handler_defs]:
  "erc721GetClaimIneligibilityReasons V q =
    (let chain = jprop (hq_params q) ''chain'';
         contractAddress = jprop (hq_params q) ''contractAddress'';
         quantity = jprop (hq_query q) ''quantity'';
         addressToCheck = jprop (hq_query q) ''addressToCheck'' in
     bnd (chainIdFrom V chain) (\<lambda>chainId.
     bnd (getContract V chainId contractAddress JUndefined JUndefined JUndefined) (\<lambda>contract.
     bnd (sdk_call V contract [''erc721'', ''claimConditions'', ''getClaimIneligibilityReasons''] [quantity,
         addressToCheck]) (\<lambda>returnData.
     ret (JObj [(''result'', returnData)])))))"

section \<open>contract/extensions/erc721/read/getClaimerProofs.ts\<close>

definition erc721GetClaimerProofs_responseSchema :: schema where [schema_defs]:
  "erc721GetClaimerProofs_responseSchema =
     SObject [(''result'', True, claimerProofSchema)]"

definition erc721GetClaimerProofs_requestQueryString :: schema where [schema_defs]:
  "erc721GetClaimerProofs_requestQueryString =
     SObject [(''walletAddress'', True, AddressSchema)]"

definition erc721GetClaimerProofs_route :: route where [route_defs]:
  "erc721GetClaimerProofs_route = \<lparr>rt_method = ''GET'',
     rt_url = ''/contract/:chain/:contractAddress/erc721/claim-conditions/get-claimer-proofs'',
     rt_operationId = ''erc721-getClaimerProofs'',
     rt_tags = [''ERC721''],
     rt_hidden = False,
     rt_params = Some contractParamSchema,
     rt_querystring = Some erc721GetClaimerProofs_requestQueryString,
     rt_body = None,
     rt_headers = None,
     rt_response = put_fields [(200, erc721GetClaimerProofs_responseSchema)] standardResponseSchema\<rparr>"

definition erc721GetClaimerProofs :: "'w handler" where [handler_defs]:
  "erc721GetClaimerProofs V q =
    (let chain = jprop (hq_params q) ''chain'';
         contractAddress = jprop (hq_params q) ''contractAddress'';
         walletAddress = jprop (hq_query q) ''walletAddress'' in
     bnd (chainIdFrom V chain) (\<lambda>chainId.
     bnd (getContract V chainId contractAddress JUndefined JUndefined JUndefined) (\<lambda>contract.
     bnd (sdk_call V contract [''erc721'', ''claimConditions'',
         ''getClaimerProofs''] [walletAddress]) (\<lambda>returnData.
     ret (JObj [(''result'', returnData)])))))"

section \<open>contract/extensions/erc721/read/getOwned.ts\<close>

definition erc721GetOwned_responseSchema :: schema where [schema_defs]:
  "erc721GetOwned_responseSchema =
     SObject [(''result'', True, SArray nftSchema)]"

definition erc721GetOwned_querystringSchema :: schema where [schema_defs]:
  "erc721GetOwned_querystringSchema =
     SObject [(''walletAddress'', True, AddressSchema)]"

definition erc721GetOwned_route :: route where [route_defs]:
  "erc721GetOwned_route = \<lparr>rt_method = ''GET'',
     rt_url = ''/contract/:chain/:contractAddress/erc721/get-owned'',
     rt_operationId = ''erc721-getOwned'',
     rt_tags = [''ERC721''],
     rt_hidden = False,
     rt_params = Some contractParamSchema,
     rt_querystring = Some erc721GetOwned_querystringSchema,
     rt_body = None,
     rt_headers = None,
     rt_response = put_fields [(200, erc721GetOwned_responseSchema)] standardResponseSchema\<rparr>"

definition erc721GetOwned :: "'w handler" where [handler_defs]:
  "erc721GetOwned V q =
    (let chain = jprop (hq_params q) ''chain'';
         contractAddress = jprop (hq_params q) ''contractAddress'';
         walletAddress = jprop (hq_query q) ''walletAddress'' in
     bnd (chainIdFrom V chain) (\<lambda>chainId.
     bnd (getContract V chainId contractAddress JUndefined JUndefined JUndefined) (\<lambda>contract.
     bnd (sdk_call V contract [''erc721'', ''balanceOf''] [walletAddress]) (\<lambda>balance.
     bnd (lift_res (js_eqNumber (Inr balance) 0)) (\<lambda>c. if js_truthy c then ret (JObj [(''result'',
         JList [])]) else
     bnd (sdk_call V contract [''erc721'', ''getOwned''] [walletAddress]) (\<lambda>result.
     ret (JObj [(''result'', result)])))))))"

section \<open>contract/extensions/erc721/read/isApproved.ts\<close>

definition erc721IsApproved_responseSchema :: schema where [schema_defs]:
  "erc721IsApproved_responseSchema =
     SObject [(''result'', False, SBoolean)]"

definition erc721IsApproved_querystringSchema :: schema where [schema_defs]:
  "erc721IsApproved_querystringSchema =
     SObject [(''ownerWallet'', True, SString), (''operator'', True, SString)]"

definition erc721IsApproved_route :: route where [route_defs]:
  "erc721IsApproved_route = \<lparr>rt_method = ''GET'',
     rt_url = ''/contract/:chain/:contractAddress/erc721/is-approved'',
     rt_operationId = ''erc721-isApproved'',
     rt_tags = [''ERC721''],
     rt_hidden = False,
     rt_params = Some contractParamSchema,
     rt_querystring = Some erc721IsApproved_querystringSchema,
     rt_body = None,
     rt_headers = None,
     rt_response = put_fields [(200, erc721IsApproved_responseSchema)] standardResponseSchema\<rparr>"

definition erc721IsApproved :: "'w handler" where [handler_defs]:
  "erc721IsApproved V q =
    (let chain = jprop (hq_params q) ''chain'';
         contractAddress = jprop (hq_params q) ''contractAddress'';
         ownerWallet = jprop (hq_query q) ''ownerWallet'';
         operator = jprop (hq_query q) ''operator'' in
     bnd (chainIdFrom V chain) (\<lambda>chainId.
     bnd (getContract V chainId contractAddress JUndefined JUndefined JUndefined) (\<lambda>contract.
     bnd (sdk_call V contract [''erc721'', ''isApproved''] [ownerWallet, operator]) (\<lambda>returnData.
     ret (JObj [(''result'', returnData)])))))"

section \<open>contract/extensions/erc721/read/signatureGenerate.ts\<close>

definition erc721SignatureGenerate_responseSchemaV4 :: schema where [schema_defs]:
  "erc721SignatureGenerate_responseSchemaV4 =
     SObject [(''payload'', True, signature721OutputSchema), (''signature'', True, SString)]"

definition erc721SignatureGenerate_responseSchemaV5 :: schema where [schema_defs]:
  "erc721SignatureGenerate_responseSchemaV5 =
     SObject [(''payload'', True, signature721OutputSchemaV5), (''signature'', True, SString)]"

definition erc721SignatureGenerate_responseSchema :: schema where [schema_defs]:
  "erc721SignatureGenerate_responseSchema =
     SObject [(''result'', True, SUnion [erc721SignatureGenerate_responseSchemaV4,
     erc721SignatureGenerate_responseSchemaV5])]"

definition erc721SignatureGenerate_requestBodySchema :: schema where [schema_defs]:
  "erc721SignatureGenerate_requestBodySchema =
     SUnion [signature721InputSchema, signature721InputSchemaV5]"

definition erc721SignatureGenerate_route :: route where [route_defs]:
  "erc721SignatureGenerate_route = \<lparr>rt_method = ''POST'',
     rt_url = ''/contract/:chain/:contractAddress/erc721/signature/generate'',
     rt_operationId = ''erc721-signatureGenerate'',
     rt_tags = [''ERC721''],
     rt_hidden = False,
     rt_params = Some erc721ContractParamSchema,
     rt_querystring = None,
     rt_body = Some erc721SignatureGenerate_requestBodySchema,
     rt_headers = Some (schema_partial (SObject (properties walletWithAAHeaderSchema @
         properties thirdwebSdkVersionSchema))),
     rt_response = put_fields [(200, erc721SignatureGenerate_responseSchema)] standardResponseSchema\<rparr>"

text \<open>With the v5 SDK.\<close>

definition erc721SignatureGenerate_v5 :: "'w sdk_sys \<Rightarrow> request \<Rightarrow> int \<Rightarrow> ('w sdk_state, js_val) io" where [handler_defs]:
  "erc721SignatureGenerate_v5 V q chainId =
     (let contractAddress = jprop (hq_params q) ''contractAddress'';
         to = jprop (hq_body q) ''to'';
         metadata = jprop (hq_body q) ''metadata'';
         royaltyRecipient = jprop (hq_body q) ''royaltyRecipient'';
         royaltyBps = jprop (hq_body q) ''royaltyBps'';
         primarySaleRecipient = jprop (hq_body q) ''primarySaleRecipient'';
         price = jprop (hq_body q) ''price'';
         priceInWei = jprop (hq_body q) ''priceInWei'';
         currency = jprop (hq_body q) ''currency'';
         validityStartTimestamp = jprop (hq_body q) ''validityStartTimestamp'';
         validityEndTimestamp = jprop (hq_body q) ''validityEndTimestamp'';
         uid = jprop (hq_body q) ''uid'';
         walletAddress = jprop (hq_headers q) ''x-backend-wallet-address'';
         accountAddress = jprop (hq_headers q) ''x-account-address'' in
      bnd (getContractV5 V chainId contractAddress JUndefined) (\<lambda>contract.
      bnd (at_w (getAccount (ys_env V) chainId (js_text walletAddress) (js_opt accountAddress))) (\<lambda>account.
      bnd (lift_res (js_obj [js_field ''to'' (Inr to),
             js_field ''metadata'' (Inr metadata),
             js_field ''royaltyRecipient'' (Inr royaltyRecipient),
             js_field ''royaltyBps'' (Inr royaltyBps),
             js_field ''primarySaleRecipient'' (Inr primarySaleRecipient),
             js_field ''price'' (Inr price),
             js_field ''priceInWei'' (js_maybeBigInt V priceInWei),
             js_field ''currency'' (Inr currency),
             js_field ''validityStartTimestamp'' (js_cond (Inr validityStartTimestamp) (js_Date V (js_times (Inr validityStartTimestamp) (Inr (JNum (Some 1000))))) (Inr JUndefined)),
             js_field ''validityEndTimestamp'' (js_cond (Inr validityEndTimestamp) (js_Date V (js_times (Inr validityEndTimestamp) (Inr (JNum (Some 1000))))) (Inr JUndefined)),
             js_field ''uid'' (Inr uid)])) (\<lambda>mintRequest.
      bnd (lift_res (v_generateMint (ys_sdk V) contract account mintRequest)) (\<lambda>signed.
      let payload = jprop signed ''payload'' in
      lift_res (js_obj [js_field ''result'' (js_obj [js_field ''payload'' (js_obj [js_spread (Inr payload),
               js_field ''royaltyBps'' (js_toString (js_dot (Inr payload) ''royaltyBps'')),
               js_field ''price'' (js_toString (js_dot (Inr payload) ''price'')),
               js_field ''validityStartTimestamp'' (js_Number (js_dot (Inr payload) ''validityStartTimestamp'')),
               js_field ''validityEndTimestamp'' (js_Number (js_dot (Inr payload) ''validityEndTimestamp''))]),
             js_field ''signature'' (Inr (jprop signed ''signature''))])]))))))"

definition erc721SignatureGenerate :: "'w handler" where [handler_defs]:
  "erc721SignatureGenerate V q =
     (let chain = jprop (hq_params q) ''chain'';
         contractAddress = jprop (hq_params q) ''contractAddress'';
         to = jprop (hq_body q) ''to'';
         currencyAddress = jprop (hq_body q) ''currencyAddress'';
         metadata = jprop (hq_body q) ''metadata'';
         mintEndTime = jprop (hq_body q) ''mintEndTime'';
         mintStartTime = jprop (hq_body q) ''mintStartTime'';
         price = jprop (hq_body q) ''price'';
         primarySaleRecipient = jprop (hq_body q) ''primarySaleRecipient'';
         quantity = jprop (hq_body q) ''quantity'';
         royaltyBps = jprop (hq_body q) ''royaltyBps'';
         royaltyRecipient = jprop (hq_body q) ''royaltyRecipient'';
         uid = jprop (hq_body q) ''uid'';
         walletAddress = jprop (hq_headers q) ''x-backend-wallet-address'';
         accountAddress = jprop (hq_headers q) ''x-account-address'';
         sdkVersion = jprop (hq_headers q) ''x-thirdweb-sdk-version'' in
      bnd (chainIdFrom V chain) (\<lambda>chainId.
      if sdkVersion = JStr ''5'' then erc721SignatureGenerate_v5 V q chainId
      else
        bnd (getContract V chainId contractAddress walletAddress accountAddress JUndefined) (\<lambda>contract.
        bnd (lift_res (checkAndReturnNFTSignaturePayload V (JObj [(''to'', to), (''currencyAddress'', currencyAddress), (''metadata'', metadata), (''mintEndTime'', mintEndTime), (''mintStartTime'', mintStartTime), (''price'', if price = JUndefined then JStr ''0'' else price), (''primarySaleRecipient'', primarySaleRecipient), (''quantity'', quantity), (''royaltyBps'', royaltyBps), (''royaltyRecipient'', royaltyRecipient), (''uid'', uid)]))) (\<lambda>payload.
        bnd (sdk_call V contract [''erc721'', ''signature'', ''generate''] [payload]) (\<lambda>signedPayload.
        lift_res (js_obj [js_field ''result'' (js_obj [js_spread (Inr signedPayload),
               js_field ''payload'' (js_obj [js_spread (js_dot (Inr signedPayload) ''payload''),
               js_field ''quantity'' (js_toString (js_dot (js_dot (Inr signedPayload) ''payload'') ''quantity'')),
               js_field ''royaltyBps'' (js_toString (js_dot (js_dot (Inr signedPayload) ''payload'') ''royaltyBps'')),
               js_field ''mintStartTime'' (js_toNumber (js_dot (js_dot (Inr signedPayload) ''payload'') ''mintStartTime'')),
               js_field ''mintEndTime'' (js_toNumber (js_dot (js_dot (Inr signedPayload) ''payload'') ''mintEndTime''))])])]))))))"

section \<open>contract/extensions/erc721/read/signaturePrepare.ts\<close>

definition erc721SignaturePrepare_responseSchema :: schema where [schema_defs]:
  "erc721SignaturePrepare_responseSchema =
     SObject [(''result'', True, SObject [(''mintPayload'', True, signature721OutputSchemaV5),
     (''typedDataPayload'', True, SObject [(''domain'', True, SObject [(''name'', True, SString),
     (''version'', True, SString), (''chainId'', True, SNumber), (''verifyingContract'', True,
     SString)]), (''types'', True, SObject [(''EIP712Domain'', True, SArray (SObject [(''name'', True,
     SString), (''type'', True, SString)])), (''MintRequest'', True, SArray (SObject [(''name'', True,
     SString), (''type'', True, SString)]))]), (''message'', True, signature721OutputSchemaV5),
     (''primaryType'', True, SLiteral (JStr ''MintRequest''))])])]"

definition erc721SignaturePrepare_route :: route where [route_defs]:
  "erc721SignaturePrepare_route = \<lparr>rt_method = ''POST'',
     rt_url = ''/contract/:chain/:contractAddress/erc721/signature/prepare'',
     rt_operationId = ''erc721-signaturePrepare'',
     rt_tags = [''ERC721''],
     rt_hidden = False,
     rt_params = Some erc721ContractParamSchema,
     rt_querystring = None,
     rt_body = Some signature721InputSchemaV5,
     rt_headers = None,
     rt_response = put_fields [(200, erc721SignaturePrepare_responseSchema)] standardResponseSchema\<rparr>"

text \<open>
  Seconds since the epoch of a date, and the payload to sign; \<open>now\<close> is the time of the clock. The
  upload of the metadata and the random identifier are parameters.
\<close>

definition dateToSeconds :: "js_val \<Rightarrow> js_expr" where
  "dateToSeconds d = (case d of JDate (Some t) \<Rightarrow> Inr (JBigInt (t div 1000))
     | JDate None \<Rightarrow> Inl (js_Error ''RangeError'') | _ \<Rightarrow> Inl js_TypeError)"

definition tenYearsFromNow :: "int \<Rightarrow> js_val" where
  "tenYearsFromNow now = JDate (Some (now + 1000 * 60 * 60 * 24 * 365 * 10))"

definition mint_uri :: "'w sdk_sys \<Rightarrow> js_val \<Rightarrow> js_expr" where
  "mint_uri V metadata =
     (if js_truthy metadata then
        (case metadata of JObj fs \<Rightarrow> v_upload (ys_sdk V) metadata | JList vs \<Rightarrow> v_upload (ys_sdk V) metadata
         | _ \<Rightarrow> Inr metadata)
      else Inr (JStr []))"

definition generateMintSignaturePayload :: "'w sdk_sys \<Rightarrow> int \<Rightarrow> js_val \<Rightarrow> js_expr" where
  "generateMintSignaturePayload V now mintRequest =
     (let f = jprop mintRequest;
          currency = (if js_truthy (f ''currency'') then f ''currency'' else JStr ZERO_ADDRESS);
          price = (if js_truthy (f ''priceInWei'') then f ''priceInWei''
                   else if js_truthy (f ''price'') then f ''price'' else JBigInt 0);
          uid = (if js_truthy (f ''uid'') then f ''uid'' else JStr (v_randomHex (ys_sdk V)));
          startTime = (if js_truthy (f ''validityStartTimestamp'') then f ''validityStartTimestamp'' else JDate (Some 0));
          endTime = (if js_truthy (f ''validityEndTimestamp'') then f ''validityEndTimestamp'' else tenYearsFromNow now) in
      js_bind (mint_uri V (f ''metadata'')) (\<lambda>uri.
      js_obj [js_field ''uri'' (Inr uri), js_field ''currency'' (Inr currency), js_field ''uid'' (Inr uid),
        js_field ''price'' (Inr price), js_field ''to'' (Inr (f ''to'')),
        js_field ''royaltyRecipient'' (Inr (f ''royaltyRecipient'')), js_field ''royaltyBps'' (Inr (f ''royaltyBps'')),
        js_field ''primarySaleRecipient'' (Inr (f ''primarySaleRecipient'')),
        js_field ''validityStartTimestamp'' (dateToSeconds startTime),
        js_field ''validityEndTimestamp'' (dateToSeconds endTime)]))"

definition v5_call :: "'w sdk_sys \<Rightarrow> string \<Rightarrow> sdk_contract \<Rightarrow> ('w sdk_state, js_val) io" where
  "v5_call V method contract = lift_res (v_callV5 (ys_sdk V) method contract (JObj []))"

text \<open>The defaults of the contract for what the request leaves out.\<close>

definition default_royalty ::
  "'w sdk_sys \<Rightarrow> sdk_contract \<Rightarrow> js_val \<Rightarrow> js_val \<Rightarrow> ('w sdk_state, js_val \<times> js_val) io" where
  "default_royalty V contract recipient bps =
     (if \<not> js_truthy recipient \<or> \<not> js_truthy bps then
        try_catch
          (bnd (v5_call V ''getDefaultRoyaltyInfo'' contract) (\<lambda>info.
           bnd (lift_res (js_nth info 0)) (\<lambda>defaultRecipient.
           bnd (lift_res (js_nth info 1)) (\<lambda>defaultBps.
           ret (if js_nullish recipient then defaultRecipient else recipient,
                if js_nullish bps then defaultBps else bps)))))
          (\<lambda>_. throw (createCustomError ''Could not get default royalty info.'' 400 ''DEFAULT_ROYALTY_INFO''))
      else ret (recipient, bps))"

definition default_recipient :: "'w sdk_sys \<Rightarrow> sdk_contract \<Rightarrow> js_val \<Rightarrow> ('w sdk_state, js_val) io" where
  "default_recipient V contract recipient =
     (if \<not> js_truthy recipient then
        try_catch (v5_call V ''getDefaultPrimarySaleRecipient'' contract)
          (\<lambda>_. throw (createCustomError ''Could not get default primary sale recipient.'' 400
             ''DEFAULT_PRIMARY_SALE_RECIPIENT''))
      else ret recipient)"

definition EIP712Domain :: js_val where
  "EIP712Domain = JList (map (\<lambda>(n, t). JObj [(''name'', JStr n), (''type'', JStr t)])
     [(''name'', ''string''), (''version'', ''string''), (''chainId'', ''uint256''), (''verifyingContract'', ''address'')])"

definition typed_data :: "'w sdk_sys \<Rightarrow> int \<Rightarrow> js_val \<Rightarrow> js_val \<Rightarrow> js_val" where
  "typed_data V chainId contractAddress message = JObj
     [(''domain'', JObj [(''name'', JStr ''TokenERC721''), (''version'', JStr ''1''), (''chainId'', JNum (Some chainId)),
        (''verifyingContract'', contractAddress)]),
      (''types'', JObj [(''EIP712Domain'', EIP712Domain), (''MintRequest'', v_MintRequest721 (ys_sdk V))]),
      (''message'', message), (''primaryType'', JStr ''MintRequest'')]"

definition erc721SignaturePrepare :: "'w handler" where [handler_defs]:
  "erc721SignaturePrepare V q =
     (let chain = jprop (hq_params q) ''chain'';
         contractAddress = jprop (hq_params q) ''contractAddress'';
         metadata = jprop (hq_body q) ''metadata'';
         to = jprop (hq_body q) ''to'';
         price = jprop (hq_body q) ''price'';
         priceInWei = jprop (hq_body q) ''priceInWei'';
         currency = jprop (hq_body q) ''currency'';
         validityStartTimestamp = jprop (hq_body q) ''validityStartTimestamp'';
         validityEndTimestamp = jprop (hq_body q) ''validityEndTimestamp'';
         uid = jprop (hq_body q) ''uid'' in
      bnd (chainIdFrom V chain) (\<lambda>chainId.
      bnd (at_w (getChain (ys_env V) chainId)) (\<lambda>definedChain.
      let contract = v_contractV5 (ys_sdk V) definedChain (js_text contractAddress) JUndefined in
      bnd (default_royalty V contract (jprop (hq_body q) ''royaltyRecipient'') (jprop (hq_body q) ''royaltyBps''))
        (\<lambda>(royaltyRecipient, royaltyBps).
      bnd (default_recipient V contract (jprop (hq_body q) ''primarySaleRecipient'')) (\<lambda>primarySaleRecipient.
      bnd (lift_res (js_obj [js_field ''metadata'' (Inr metadata), js_field ''to'' (Inr to),
             js_field ''price'' (Inr price), js_field ''priceInWei'' (js_maybeBigInt V priceInWei),
             js_field ''currency'' (Inr currency), js_field ''primarySaleRecipient'' (Inr primarySaleRecipient),
             js_field ''royaltyRecipient'' (Inr royaltyRecipient), js_field ''royaltyBps'' (Inr royaltyBps),
             js_field ''validityStartTimestamp'' (js_cond (Inr validityStartTimestamp) (js_Date V (js_times (Inr validityStartTimestamp) (Inr (JNum (Some 1000))))) (Inr JUndefined)),
             js_field ''validityEndTimestamp'' (js_cond (Inr validityEndTimestamp) (js_Date V (js_times (Inr validityEndTimestamp) (Inr (JNum (Some 1000))))) (Inr JUndefined)),
             js_field ''uid'' (Inr uid)])) (\<lambda>mintRequest.
      bnd (at_w new_Date) (\<lambda>now.
      bnd (lift_res (generateMintSignaturePayload V now mintRequest)) (\<lambda>mintPayload.
      bnd (lift_res (js_obj [js_spread (Inr mintPayload),
             js_field ''price'' (js_toString (js_dot (Inr mintPayload) ''price'')),
             js_field ''royaltyBps'' (js_toString (js_dot (Inr mintPayload) ''royaltyBps'')),
             js_field ''validityStartTimestamp'' (js_Number (js_dot (Inr mintPayload) ''validityStartTimestamp'')),
             js_field ''validityEndTimestamp'' (js_Number (js_dot (Inr mintPayload) ''validityEndTimestamp''))]))
        (\<lambda>sanitizedMintPayload.
      ret (JObj [(''result'', JObj [(''mintPayload'', sanitizedMintPayload),
        (''typedDataPayload'', typed_data V (ch_id definedChain) contractAddress sanitizedMintPayload)])]))))))))))"

section \<open>contract/extensions/erc721/read/totalClaimedSupply.ts\<close>

definition erc721TotalClaimedSupply_responseSchema :: schema where [schema_defs]:
  "erc721TotalClaimedSupply_responseSchema =
     SObject [(''result'', False, SString)]"

definition erc721TotalClaimedSupply_route :: route where [route_defs]:
  "erc721TotalClaimedSupply_route = \<lparr>rt_method = ''GET'',
     rt_url = ''/contract/:chain/:contractAddress/erc721/total-claimed-supply'',
     rt_operationId = ''erc721-totalClaimedSupply'',
     rt_tags = [''ERC721''],
     rt_hidden = False,
     rt_params = Some contractParamSchema,
     rt_querystring = None,
     rt_body = None,
     rt_headers = None,
     rt_response = put_fields [(200, erc721TotalClaimedSupply_responseSchema)] standardResponseSchema\<rparr>"

definition erc721TotalClaimedSupply :: "'w handler" where [handler_defs]:
  "erc721TotalClaimedSupply V q =
    (let chain = jprop (hq_params q) ''chain'';
         contractAddress = jprop (hq_params q) ''contractAddress'' in
     bnd (chainIdFrom V chain) (\<lambda>chainId.
     bnd (getContract V chainId contractAddress JUndefined JUndefined JUndefined) (\<lambda>contract.
     bnd (sdk_call V contract [''erc721'', ''totalClaimedSupply''] []) (\<lambda>returnData.
     lift_res (js_obj [js_field ''result'' (js_toString (Inr returnData))])))))"

section \<open>contract/extensions/erc721/read/totalCount.ts\<close>

definition erc721TotalCount_responseSchema :: schema where [schema_defs]:
  "erc721TotalCount_responseSchema =
     SObject [(''result'', False, SString)]"

definition erc721TotalCount_route :: route where [route_defs]:
  "erc721TotalCount_route = \<lparr>rt_method = ''GET'',
     rt_url = ''/contract/:chain/:contractAddress/erc721/total-count'',
     rt_operationId = ''erc721-totalCount'',
     rt_tags = [''ERC721''],
     rt_hidden = False,
     rt_params = Some contractParamSchema,
     rt_querystring = None,
     rt_body = None,
     rt_headers = None,
     rt_response = put_fields [(200, erc721TotalCount_responseSchema)] standardResponseSchema\<rparr>"

definition erc721TotalCount :: "'w handler" where [handler_defs]:
  "erc721TotalCount V q =
    (let chain = jprop (hq_params q) ''chain'';
         contractAddress = jprop (hq_params q) ''contractAddress'' in
     bnd (chainIdFrom V chain) (\<lambda>chainId.
     bnd (getContract V chainId contractAddress JUndefined JUndefined JUndefined) (\<lambda>contract.
     bnd (sdk_call V contract [''erc721'', ''totalCount''] []) (\<lambda>returnData.
     lift_res (js_obj [js_field ''result'' (js_toString (Inr returnData))])))))"

section \<open>contract/extensions/erc721/read/totalUnclaimedSupply.ts\<close>

definition erc721TotalUnclaimedSupply_responseSchema :: schema where [schema_defs]:
  "erc721TotalUnclaimedSupply_responseSchema =
     SObject [(''result'', False, SString)]"

definition erc721TotalUnclaimedSupply_route :: route where [route_defs]:
  "erc721TotalUnclaimedSupply_route = \<lparr>rt_method = ''GET'',
     rt_url = ''/contract/:chain/:contractAddress/erc721/total-unclaimed-supply'',
     rt_operationId = ''erc721-totalUnclaimedSupply'',
     rt_tags = [''ERC721''],
     rt_hidden = False,
     rt_params = Some contractParamSchema,
     rt_querystring = None,
     rt_body = None,
     rt_headers = None,
     rt_response = put_fields [(200, erc721TotalUnclaimedSupply_responseSchema)] standardResponseSchema\<rparr>"

definition erc721TotalUnclaimedSupply :: "'w handler" where [handler_defs]:
  "erc721TotalUnclaimedSupply V q =
    (let chain = jprop (hq_params q) ''chain'';
         contractAddress = jprop (hq_params q) ''contractAddress'' in
     bnd (chainIdFrom V chain) (\<lambda>chainId.
     bnd (getContract V chainId contractAddress JUndefined JUndefined JUndefined) (\<lambda>contract.
     bnd (sdk_call V contract [''erc721'', ''totalUnclaimedSupply''] []) (\<lambda>returnData.
     lift_res (js_obj [js_field ''result'' (js_toString (Inr returnData))])))))"

section \<open>contract/extensions/erc721/write/burn.ts\<close>

definition erc721burn_requestBodySchema :: schema where [schema_defs]:
  "erc721burn_requestBodySchema =
     SObject ([(''tokenId'', True, SString)] @ properties txOverridesWithValueSchema)"

definition erc721burn_route :: route where [route_defs]:
  "erc721burn_route = \<lparr>rt_method = ''POST'',
     rt_url = ''/contract/:chain/:contractAddress/erc721/burn'',
     rt_operationId = ''erc721-burn'',
     rt_tags = [''ERC721''],
     rt_hidden = False,
     rt_params = Some contractParamSchema,
     rt_querystring = Some requestQuerystringSchema,
     rt_body = Some erc721burn_requestBodySchema,
     rt_headers = Some walletWithAAHeaderSchema,
     rt_response = put_fields [(200, transactionWritesResponseSchema)] standardResponseSchema\<rparr>"

definition erc721burn :: "'w handler" where [handler_defs]:
  "erc721burn V q =
    (let chain = jprop (hq_params q) ''chain'';
         contractAddress = jprop (hq_params q) ''contractAddress'';
         simulateTx = jprop (hq_query q) ''simulateTx'';
         tokenId = jprop (hq_body q) ''tokenId'';
         txOverrides = jprop (hq_body q) ''txOverrides'';
         walletAddress = jprop (hq_headers q) ''x-backend-wallet-address'';
         accountAddress = jprop (hq_headers q) ''x-account-address'';
         idempotencyKey = jprop (hq_headers q) ''x-idempotency-key'' in
     bnd (chainIdFrom V chain) (\<lambda>chainId.
     bnd (getContract V chainId contractAddress walletAddress accountAddress JUndefined) (\<lambda>contract.
     bnd (prepare V contract [''erc721'', ''burn''] [tokenId]) (\<lambda>tx.
     bnd (queue_tx V tx chainId ''erc721'' JUndefined JUndefined simulateTx idempotencyKey txOverrides) (\<lambda>queueId.
     ret (JObj [(''result'', JObj [(''queueId'', JStr queueId)])]))))))"

section \<open>contract/extensions/erc721/write/claimTo.ts\<close>

definition erc721claimTo_requestBodySchema :: schema where [schema_defs]:
  "erc721claimTo_requestBodySchema =
     SObject ([(''receiver'', True, AddressSchema), (''quantity'', True, SString)]
     @ properties txOverridesWithValueSchema)"

definition erc721claimTo_route :: route where [route_defs]:
  "erc721claimTo_route = \<lparr>rt_method = ''POST'',
     rt_url = ''/contract/:chain/:contractAddress/erc721/claim-to'',
     rt_operationId = ''erc721-claimTo'',
     rt_tags = [''ERC721''],
     rt_hidden = False,
     rt_params = Some contractParamSchema,
     rt_querystring = Some requestQuerystringSchema,
     rt_body = Some erc721claimTo_requestBodySchema,
     rt_headers = Some walletWithAAHeaderSchema,
     rt_response = put_fields [(200, transactionWritesResponseSchema)] standardResponseSchema\<rparr>"

definition erc721claimTo :: "'w handler" where [handler_defs]:
  "erc721claimTo V q =
     (let chain = jprop (hq_params q) ''chain'';
         contractAddress = jprop (hq_params q) ''contractAddress'';
         simulateTx = jprop (hq_query q) ''simulateTx'';
         receiver = jprop (hq_body q) ''receiver'';
         quantity = jprop (hq_body q) ''quantity'';
         txOverrides = jprop (hq_body q) ''txOverrides'';
         fromAddress = jprop (hq_headers q) ''x-backend-wallet-address'';
         accountAddress = jprop (hq_headers q) ''x-account-address'';
         idempotencyKey = jprop (hq_headers q) ''x-idempotency-key'';
         accountFactoryAddress = jprop (hq_headers q) ''x-account-factory-address'' in
      bnd (chainIdFrom V chain) (\<lambda>chainId.
      bnd (getContractV5 V chainId contractAddress JUndefined) (\<lambda>contract.
      bnd (lift_res (js_obj [js_field ''from'' (Inr fromAddress), js_field ''to'' (Inr receiver), js_field ''quantity'' (js_BigInt V (Inr quantity))])) (\<lambda>options.
      bnd (queue_v5 V (v_encodeV5 (ys_sdk V) ''claimTo'' contract options) chainId fromAddress contractAddress
             accountAddress accountFactoryAddress txOverrides idempotencyKey simulateTx) (\<lambda>queueId.
      ret (JObj [(''result'', JObj [(''queueId'', JStr queueId)])]))))))"

section \<open>contract/extensions/erc721/write/lazyMint.ts\<close>

definition erc721lazyMint_requestBodySchema :: schema where [schema_defs]:
  "erc721lazyMint_requestBodySchema =
     SObject ([(''metadatas'', True, SArray nftOrInputSchema)] @ properties txOverridesWithValueSchema)"

definition erc721lazyMint_route :: route where [route_defs]:
  "erc721lazyMint_route = \<lparr>rt_method = ''POST'',
     rt_url = ''/contract/:chain/:contractAddress/erc721/lazy-mint'',
     rt_operationId = ''erc721-lazyMint'',
     rt_tags = [''ERC721''],
     rt_hidden = False,
     rt_params = Some contractParamSchema,
     rt_querystring = Some requestQuerystringSchema,
     rt_body = Some erc721lazyMint_requestBodySchema,
     rt_headers = Some walletWithAAHeaderSchema,
     rt_response = put_fields [(200, transactionWritesResponseSchema)] standardResponseSchema\<rparr>"

definition erc721lazyMint :: "'w handler" where [handler_defs]:
  "erc721lazyMint V q =
    (let chain = jprop (hq_params q) ''chain'';
         contractAddress = jprop (hq_params q) ''contractAddress'';
         simulateTx = jprop (hq_query q) ''simulateTx'';
         metadatas = jprop (hq_body q) ''metadatas'';
         txOverrides = jprop (hq_body q) ''txOverrides'';
         walletAddress = jprop (hq_headers q) ''x-backend-wallet-address'';
         accountAddress = jprop (hq_headers q) ''x-account-address'';
         idempotencyKey = jprop (hq_headers q) ''x-idempotency-key'' in
     bnd (chainIdFrom V chain) (\<lambda>chainId.
     bnd (getContract V chainId contractAddress walletAddress accountAddress JUndefined) (\<lambda>contract.
     bnd (prepare V contract [''erc721'', ''lazyMint''] [metadatas]) (\<lambda>tx.
     bnd (queue_tx V tx chainId ''erc721'' JUndefined JUndefined simulateTx idempotencyKey txOverrides) (\<lambda>queueId.
     ret (JObj [(''result'', JObj [(''queueId'', JStr queueId)])]))))))"

section \<open>contract/extensions/erc721/write/mintBatchTo.ts\<close>

definition erc721mintBatchTo_requestBodySchema :: schema where [schema_defs]:
  "erc721mintBatchTo_requestBodySchema =
     SObject ([(''receiver'', True, AddressSchema), (''metadatas'', True, SArray nftOrInputSchema)]
     @ properties txOverridesWithValueSchema)"

definition erc721mintBatchTo_route :: route where [route_defs]:
  "erc721mintBatchTo_route = \<lparr>rt_method = ''POST'',
     rt_url = ''/contract/:chain/:contractAddress/erc721/mint-batch-to'',
     rt_operationId = ''erc721-mintBatchTo'',
     rt_tags = [''ERC721''],
     rt_hidden = False,
     rt_params = Some contractParamSchema,
     rt_querystring = Some requestQuerystringSchema,
     rt_body = Some erc721mintBatchTo_requestBodySchema,
     rt_headers = Some walletWithAAHeaderSchema,
     rt_response = put_fields [(200, transactionWritesResponseSchema)] standardResponseSchema\<rparr>"

definition erc721mintBatchTo :: "'w handler" where [handler_defs]:
  "erc721mintBatchTo V q =
    (let chain = jprop (hq_params q) ''chain'';
         contractAddress = jprop (hq_params q) ''contractAddress'';
         simulateTx = jprop (hq_query q) ''simulateTx'';
         receiver = jprop (hq_body q) ''receiver'';
         metadatas = jprop (hq_body q) ''metadatas'';
         txOverrides = jprop (hq_body q) ''txOverrides'';
         walletAddress = jprop (hq_headers q) ''x-backend-wallet-address'';
         accountAddress = jprop (hq_headers q) ''x-account-address'';
         idempotencyKey = jprop (hq_headers q) ''x-idempotency-key'' in
     bnd (chainIdFrom V chain) (\<lambda>chainId.
     bnd (getContract V chainId contractAddress walletAddress accountAddress JUndefined) (\<lambda>contract.
     bnd (prepare V contract [''erc721'', ''mintBatchTo''] [receiver, metadatas]) (\<lambda>tx.
     bnd (queue_tx V tx chainId ''erc721'' JUndefined JUndefined simulateTx idempotencyKey txOverrides) (\<lambda>queueId.
     ret (JObj [(''result'', JObj [(''queueId'', JStr queueId)])]))))))"

section \<open>contract/extensions/erc721/write/mintTo.ts\<close>

definition erc721mintTo_requestBodySchema :: schema where [schema_defs]:
  "erc721mintTo_requestBodySchema =
     SObject ([(''receiver'', True, AddressSchema), (''metadata'', True, nftOrInputSchema)]
     @ properties txOverridesWithValueSchema)"

definition erc721mintTo_route :: route where [route_defs]:
  "erc721mintTo_route = \<lparr>rt_method = ''POST'',
     rt_url = ''/contract/:chain/:contractAddress/erc721/mint-to'',
     rt_operationId = ''erc721-mintTo'',
     rt_tags = [''ERC721''],
     rt_hidden = False,
     rt_params = Some contractParamSchema,
     rt_querystring = Some requestQuerystringSchema,
     rt_body = Some erc721mintTo_requestBodySchema,
     rt_headers = Some walletWithAAHeaderSchema,
     rt_response = put_fields [(200, transactionWritesResponseSchema)] standardResponseSchema\<rparr>"

definition erc721mintTo :: "'w handler" where [handler_defs]:
  "erc721mintTo V q =
    (let chain = jprop (hq_params q) ''chain'';
         contractAddress = jprop (hq_params q) ''contractAddress'';
         simulateTx = jprop (hq_query q) ''simulateTx'';
         receiver = jprop (hq_body q) ''receiver'';
         metadata = jprop (hq_body q) ''metadata'';
         txOverrides = jprop (hq_body q) ''txOverrides'';
         walletAddress = jprop (hq_headers q) ''x-backend-wallet-address'';
         accountAddress = jprop (hq_headers q) ''x-account-address'';
         idempotencyKey = jprop (hq_headers q) ''x-idempotency-key'' in
     bnd (chainIdFrom V chain) (\<lambda>chainId.
     bnd (getContract V chainId contractAddress walletAddress accountAddress JUndefined) (\<lambda>contract.
     bnd (prepare V contract [''erc721'', ''mintTo''] [receiver, metadata]) (\<lambda>tx.
     bnd (queue_tx V tx chainId ''erc721'' JUndefined JUndefined simulateTx idempotencyKey txOverrides) (\<lambda>queueId.
     ret (JObj [(''result'', JObj [(''queueId'', JStr queueId)])]))))))"

section \<open>contract/extensions/erc721/write/setApprovalForAll.ts\<close>

definition erc721SetApprovalForAll_requestBodySchema :: schema where [schema_defs]:
  "erc721SetApprovalForAll_requestBodySchema =
     SObject ([(''operator'', True, SString), (''approved'', True, SBoolean)]
     @ properties txOverridesWithValueSchema)"

definition erc721SetApprovalForAll_route :: route where [route_defs]:
  "erc721SetApprovalForAll_route = \<lparr>rt_method = ''POST'',
     rt_url = ''/contract/:chain/:contractAddress/erc721/set-approval-for-all'',
     rt_operationId = ''erc721-setApprovalForAll'',
     rt_tags = [''ERC721''],
     rt_hidden = False,
     rt_params = Some contractParamSchema,
     rt_querystring = Some requestQuerystringSchema,
     rt_body = Some erc721SetApprovalForAll_requestBodySchema,
     rt_headers = Some walletWithAAHeaderSchema,
     rt_response = put_fields [(200, transactionWritesResponseSchema)] standardResponseSchema\<rparr>"

definition erc721SetApprovalForAll :: "'w handler" where [handler_defs]:
  "erc721SetApprovalForAll V q =
    (let chain = jprop (hq_params q) ''chain'';
         contractAddress = jprop (hq_params q) ''contractAddress'';
         simulateTx = jprop (hq_query q) ''simulateTx'';
         operator = jprop (hq_body q) ''operator'';
         approved = jprop (hq_body q) ''approved'';
         txOverrides = jprop (hq_body q) ''txOverrides'';
         walletAddress = jprop (hq_headers q) ''x-backend-wallet-address'';
         accountAddress = jprop (hq_headers q) ''x-account-address'';
         idempotencyKey = jprop (hq_headers q) ''x-idempotency-key'' in
     bnd (chainIdFrom V chain) (\<lambda>chainId.
     bnd (getContract V chainId contractAddress walletAddress accountAddress JUndefined) (\<lambda>contract.
     bnd (prepare V contract [''erc721'', ''setApprovalForAll''] [operator, approved]) (\<lambda>tx.
     bnd (queue_tx V tx chainId ''erc721'' JUndefined JUndefined simulateTx idempotencyKey txOverrides) (\<lambda>queueId.
     ret (JObj [(''result'', JObj [(''queueId'', JStr queueId)])]))))))"

section \<open>contract/extensions/erc721/write/setApprovalForToken.ts\<close>

definition erc721SetApprovalForToken_requestBodySchema :: schema where [schema_defs]:
  "erc721SetApprovalForToken_requestBodySchema =
     SObject ([(''operator'', True, SString), (''tokenId'', True, SString)]
     @ properties txOverridesWithValueSchema)"

definition erc721SetApprovalForToken_route :: route where [route_defs]:
  "erc721SetApprovalForToken_route = \<lparr>rt_method = ''POST'',
     rt_url = ''/contract/:chain/:contractAddress/erc721/set-approval-for-token'',
     rt_operationId = ''erc721-setApprovalForToken'',
     rt_tags = [''ERC721''],
     rt_hidden = False,
     rt_params = Some contractParamSchema,
     rt_querystring = Some requestQuerystringSchema,
     rt_body = Some erc721SetApprovalForToken_requestBodySchema,
     rt_headers = Some walletWithAAHeaderSchema,
     rt_response = put_fields [(200, transactionWritesResponseSchema)] standardResponseSchema\<rparr>"

definition erc721SetApprovalForToken :: "'w handler" where [handler_defs]:
  "erc721SetApprovalForToken V q =
    (let chain = jprop (hq_params q) ''chain'';
         contractAddress = jprop (hq_params q) ''contractAddress'';
         simulateTx = jprop (hq_query q) ''simulateTx'';
         operator = jprop (hq_body q) ''operator'';
         tokenId = jprop (hq_body q) ''tokenId'';
         txOverrides = jprop (hq_body q) ''txOverrides'';
         walletAddress = jprop (hq_headers q) ''x-backend-wallet-address'';
         accountAddress = jprop (hq_headers q) ''x-account-address'';
         idempotencyKey = jprop (hq_headers q) ''x-idempotency-key'' in
     bnd (chainIdFrom V chain) (\<lambda>chainId.
     bnd (getContract V chainId contractAddress walletAddress accountAddress JUndefined) (\<lambda>contract.
     bnd (prepare V contract [''erc721'', ''setApprovalForToken''] [operator, tokenId]) (\<lambda>tx.
     bnd (queue_tx V tx chainId ''erc721'' JUndefined JUndefined simulateTx idempotencyKey txOverrides) (\<lambda>queueId.
     ret (JObj [(''result'', JObj [(''queueId'', JStr queueId)])]))))))"

section \<open>contract/extensions/erc721/write/setClaimConditions.ts\<close>

definition erc721SetClaimConditions_requestBodySchema :: schema where [schema_defs]:
  "erc721SetClaimConditions_requestBodySchema =
     SObject ([(''claimConditionInputs'', True, SArray claimConditionInputSchema),
     (''resetClaimEligibilityForAll'', False, SBoolean)] @ properties txOverridesWithValueSchema)"

definition erc721SetClaimConditions_route :: route where [route_defs]:
  "erc721SetClaimConditions_route = \<lparr>rt_method = ''POST'',
     rt_url = ''/contract/:chain/:contractAddress/erc721/claim-conditions/set'',
     rt_operationId = ''erc721-setClaimConditions'',
     rt_tags = [''ERC721''],
     rt_hidden = False,
     rt_params = Some contractParamSchema,
     rt_querystring = Some requestQuerystringSchema,
     rt_body = Some erc721SetClaimConditions_requestBodySchema,
     rt_headers = Some walletWithAAHeaderSchema,
     rt_response = put_fields [(200, transactionWritesResponseSchema)] standardResponseSchema\<rparr>"

definition erc721SetClaimConditions :: "'w handler" where [handler_defs]:
  "erc721SetClaimConditions V q =
    (let chain = jprop (hq_params q) ''chain'';
         contractAddress = jprop (hq_params q) ''contractAddress'';
         simulateTx = jprop (hq_query q) ''simulateTx'';
         claimConditionInputs = jprop (hq_body q) ''claimConditionInputs'';
         resetClaimEligibilityForAll = jprop (hq_body q) ''resetClaimEligibilityForAll'';
         txOverrides = jprop (hq_body q) ''txOverrides'';
         walletAddress = jprop (hq_headers q) ''x-backend-wallet-address'';
         accountAddress = jprop (hq_headers q) ''x-account-address'';
         idempotencyKey = jprop (hq_headers q) ''x-idempotency-key'' in
     bnd (chainIdFrom V chain) (\<lambda>chainId.
     bnd (getContract V chainId contractAddress walletAddress accountAddress JUndefined) (\<lambda>contract.
     bnd (lift_res (js_map (\<lambda>item. js_obj [js_spread (Inr item), js_field ''startTime'' (js_cond
         (js_dot (Inr item) ''startTime'') (js_cond (isUnixEpochTimestamp V (js_parseInteger (js_toString
         (js_dot (Inr item) ''startTime'')))) (js_Date V (js_times (js_parseInteger (js_toString
         (js_dot (Inr item) ''startTime''))) (Inr (JNum (Some 1000))))) (js_Date V
         (js_dot (Inr item) ''startTime''))) (Inr JUndefined))]) (Inr claimConditionInputs))) (\<lambda>sanitizedClaimConditionInputs.
     bnd (prepare V contract [''erc721'', ''claimConditions'', ''set''] [sanitizedClaimConditionInputs,
         resetClaimEligibilityForAll]) (\<lambda>tx.
     bnd (queue_tx V tx chainId ''erc721'' JUndefined JUndefined simulateTx idempotencyKey txOverrides) (\<lambda>queueId.
     ret (JObj [(''result'', JObj [(''queueId'', JStr queueId)])])))))))"

section \<open>contract/extensions/erc721/write/signatureMint.ts\<close>

definition erc721SignatureMint_requestBodySchema :: schema where [schema_defs]:
  "erc721SignatureMint_requestBodySchema =
     SObject ([(''payload'', True, SUnion [signature721OutputSchema, signature721OutputSchemaV5]),
     (''signature'', True, SString)] @ properties txOverridesWithValueSchema)"

definition erc721SignatureMint_route :: route where [route_defs]:
  "erc721SignatureMint_route = \<lparr>rt_method = ''POST'',
     rt_url = ''/contract/:chain/:contractAddress/erc721/signature/mint'',
     rt_operationId = ''erc721-signatureMint'',
     rt_tags = [''ERC721''],
     rt_hidden = False,
     rt_params = Some contractParamSchema,
     rt_querystring = Some requestQuerystringSchema,
     rt_body = Some erc721SignatureMint_requestBodySchema,
     rt_headers = Some walletWithAAHeaderSchema,
     rt_response = put_fields [(200, transactionWritesResponseSchema)] standardResponseSchema\<rparr>"

text \<open>With the v5 SDK the transaction is inserted directly; \<open>payload\<close> is the payload of the request.\<close>

definition erc721SignatureMint_v5 ::
  "'w sdk_sys \<Rightarrow> request \<Rightarrow> int \<Rightarrow> js_val \<Rightarrow> ('w sdk_state, string) io" where [handler_defs]:
  "erc721SignatureMint_v5 V q chainId payload =
     (let contractAddress = jprop (hq_params q) ''contractAddress'';
         simulateTx = jprop (hq_query q) ''simulateTx'';
         fromAddress = jprop (hq_headers q) ''x-backend-wallet-address'';
         accountAddress = jprop (hq_headers q) ''x-account-address'';
         idempotencyKey = jprop (hq_headers q) ''x-idempotency-key'';
         txOverrides = overrides_of (jprop (hq_body q) ''txOverrides'') in
      bnd (getContractV5 V chainId contractAddress JUndefined) (\<lambda>contract.
      bnd (lift_res (js_obj [js_field ''payload'' (js_obj [js_field ''uri'' (js_dot (Inr payload) ''uri''),
             js_field ''to'' (js_dot (Inr payload) ''to''),
             js_field ''price'' (js_BigInt V (js_dot (Inr payload) ''price'')),
             js_field ''currency'' (js_dot (Inr payload) ''currency''),
             js_field ''primarySaleRecipient'' (js_dot (Inr payload) ''primarySaleRecipient''),
             js_field ''royaltyRecipient'' (js_dot (Inr payload) ''royaltyRecipient''),
             js_field ''royaltyBps'' (js_BigInt V (js_dot (Inr payload) ''royaltyBps'')),
             js_field ''validityStartTimestamp'' (js_BigInt V (js_dot (Inr payload) ''validityStartTimestamp'')),
             js_field ''validityEndTimestamp'' (js_BigInt V (js_dot (Inr payload) ''validityEndTimestamp'')),
             js_field ''uid'' (js_dot (Inr payload) ''uid'')]),
           js_field ''signature'' (Inr (jprop (hq_body q) ''signature''))])) (\<lambda>options.
      bnd (lift_res (v_encodeV5 (ys_sdk V) ''mintWithSignature'' contract options)) (\<lambda>data.
      bnd (at_w (override_amount (ys_env V) (ov_value txOverrides))) (\<lambda>amount.
      bnd (at_w (override_amount (ys_env V) (ov_gas txOverrides))) (\<lambda>gas.
      bnd (at_w (override_amount (ys_env V) (ov_maxFeePerGas txOverrides))) (\<lambda>maxFee.
      bnd (at_w (override_amount (ys_env V) (ov_maxPriorityFeePerGas txOverrides))) (\<lambda>maxPriority.
      let insertedTransaction = (no_inserted chainId (js_text fromAddress))\<lparr>tx_to := js_opt contractAddress,
            tx_data := Some data, tx_value := amount, tx_gas := gas, tx_maxFeePerGas := maxFee,
            tx_maxPriorityFeePerGas := maxPriority\<rparr> in
      at_w (insertTransaction (ys_env V)
        (if js_truthy accountAddress
         then insertedTransaction\<lparr>tx_isUserOp := True, tx_accountAddress := js_opt accountAddress,
                tx_signerAddress := js_opt fromAddress, tx_target := js_opt contractAddress\<rparr>
         else insertedTransaction\<lparr>tx_isUserOp := False\<rparr>)
        (js_opt idempotencyKey) (js_truthy simulateTx))))))))))"

definition erc721SignatureMint :: "'w handler" where [handler_defs]:
  "erc721SignatureMint V q =
     (let chain = jprop (hq_params q) ''chain'';
         contractAddress = jprop (hq_params q) ''contractAddress'';
         simulateTx = jprop (hq_query q) ''simulateTx'';
         payload = jprop (hq_body q) ''payload'';
         signature = jprop (hq_body q) ''signature'';
         txOverrides = jprop (hq_body q) ''txOverrides'';
         fromAddress = jprop (hq_headers q) ''x-backend-wallet-address'';
         accountAddress = jprop (hq_headers q) ''x-account-address'';
         idempotencyKey = jprop (hq_headers q) ''x-idempotency-key'';
         sdkVersion = jprop (hq_headers q) ''x-thirdweb-sdk-version'' in
      bnd (chainIdFrom V chain) (\<lambda>chainId.
      bnd (if sdkVersion = JStr ''5'' then erc721SignatureMint_v5 V q chainId payload
           else
             bnd (getContract V chainId contractAddress fromAddress accountAddress JUndefined) (\<lambda>contract.
             bnd (lift_res (js_obj [js_field ''payload'' (js_obj [js_spread (Inr payload),
                    js_field ''price'' (js_coalesce (js_dot (Inr payload) ''price'') (Inr (JStr ''0''))),
                    js_field ''royaltyBps'' (js_BigNumber V (js_dot (Inr payload) ''royaltyBps'')),
                    js_field ''quantity'' (js_BigNumber V (js_dot (Inr payload) ''quantity'')),
                    js_field ''mintStartTime'' (js_BigNumber V (js_dot (Inr payload) ''mintStartTime'')),
                    js_field ''mintEndTime'' (js_BigNumber V (js_dot (Inr payload) ''mintEndTime''))]),
                  js_field ''signature'' (Inr signature)])) (\<lambda>signedPayload.
             bnd (prepare V contract [''erc721'', ''signature'', ''mint''] [signedPayload]) (\<lambda>tx.
             queue_tx V tx chainId ''erc721'' JUndefined JUndefined simulateTx idempotencyKey txOverrides))))
        (\<lambda>queueId.
      ret (JObj [(''result'', JObj [(''queueId'', JStr queueId)])]))))"

section \<open>contract/extensions/erc721/write/transfer.ts\<close>

definition erc721transfer_requestBodySchema :: schema where [schema_defs]:
  "erc721transfer_requestBodySchema =
     SObject ([(''to'', True, SString), (''tokenId'', True, SString)]
     @ properties txOverridesWithValueSchema)"

definition erc721transfer_route :: route where [route_defs]:
  "erc721transfer_route = \<lparr>rt_method = ''POST'',
     rt_url = ''/contract/:chain/:contractAddress/erc721/transfer'',
     rt_operationId = ''erc721-transfer'',
     rt_tags = [''ERC721''],
     rt_hidden = False,
     rt_params = Some contractParamSchema,
     rt_querystring = Some requestQuerystringSchema,
     rt_body = Some erc721transfer_requestBodySchema,
     rt_headers = Some walletWithAAHeaderSchema,
     rt_response = put_fields [(200, transactionWritesResponseSchema)] standardResponseSchema\<rparr>"

definition erc721transfer :: "'w handler" where [handler_defs]:
  "erc721transfer V q =
    (let chain = jprop (hq_params q) ''chain'';
         contractAddress = jprop (hq_params q) ''contractAddress'';
         simulateTx = jprop (hq_query q) ''simulateTx'';
         to = jprop (hq_body q) ''to'';
         tokenId = jprop (hq_body q) ''tokenId'';
         txOverrides = jprop (hq_body q) ''txOverrides'';
         walletAddress = jprop (hq_headers q) ''x-backend-wallet-address'';
         accountAddress = jprop (hq_headers q) ''x-account-address'';
         idempotencyKey = jprop (hq_headers q) ''x-idempotency-key'' in
     bnd (chainIdFrom V chain) (\<lambda>chainId.
     bnd (getContract V chainId contractAddress walletAddress accountAddress JUndefined) (\<lambda>contract.
     bnd (prepare V contract [''erc721'', ''transfer''] [to, tokenId]) (\<lambda>tx.
     bnd (queue_tx V tx chainId ''erc721'' JUndefined JUndefined simulateTx idempotencyKey txOverrides) (\<lambda>queueId.
     ret (JObj [(''result'', JObj [(''queueId'', JStr queueId)])]))))))"

section \<open>contract/extensions/erc721/write/transferFrom.ts\<close>

definition erc721transferFrom_requestBodySchema :: schema where [schema_defs]:
  "erc721transferFrom_requestBodySchema =
     SObject ([(''from'', True, SString), (''to'', True, SString), (''tokenId'', True, SString)]
     @ properties txOverridesWithValueSchema)"

definition erc721transferFrom_route :: route where [route_defs]:
  "erc721transferFrom_route = \<lparr>rt_method = ''POST'',
     rt_url = ''/contract/:chain/:contractAddress/erc721/transfer-from'',
     rt_operationId = ''erc721-transferFrom'',
     rt_tags = [''ERC721''],
     rt_hidden = False,
     rt_params = Some contractParamSchema,
     rt_querystring = Some requestQuerystringSchema,
     rt_body = Some erc721transferFrom_requestBodySchema,
     rt_headers = Some walletWithAAHeaderSchema,
     rt_response = put_fields [(200, transactionWritesResponseSchema)] standardResponseSchema\<rparr>"

definition erc721transferFrom :: "'w handler" where [handler_defs]:
  "erc721transferFrom V q =
    (let chain = jprop (hq_params q) ''chain'';
         contractAddress = jprop (hq_params q) ''contractAddress'';
         simulateTx = jprop (hq_query q) ''simulateTx'';
         from = jprop (hq_body q) ''from'';
         to = jprop (hq_body q) ''to'';
         tokenId = jprop (hq_body q) ''tokenId'';
         txOverrides = jprop (hq_body q) ''txOverrides'';
         walletAddress = jprop (hq_headers q) ''x-backend-wallet-address'';
         accountAddress = jprop (hq_headers q) ''x-account-address'';
         idempotencyKey = jprop (hq_headers q) ''x-idempotency-key'' in
     bnd (chainIdFrom V chain) (\<lambda>chainId.
     bnd (getContract V chainId contractAddress walletAddress accountAddress JUndefined) (\<lambda>contract.
     bnd (prepare V contract [''erc721'', ''transferFrom''] [from, to, tokenId]) (\<lambda>tx.
     bnd (queue_tx V tx chainId ''erc721'' JUndefined JUndefined simulateTx idempotencyKey txOverrides) (\<lambda>queueId.
     ret (JObj [(''result'', JObj [(''queueId'', JStr queueId)])]))))))"

section \<open>contract/extensions/erc721/write/updateClaimConditions.ts\<close>

definition erc721UpdateClaimConditions_requestBodySchema :: schema where [schema_defs]:
  "erc721UpdateClaimConditions_requestBodySchema =
     SObject ([(''claimConditionInput'', True, claimConditionInputSchema), (''index'', True, SNumber)]
     @ properties txOverridesWithValueSchema)"

definition erc721UpdateClaimConditions_route :: route where [route_defs]:
  "erc721UpdateClaimConditions_route = \<lparr>rt_method = ''POST'',
     rt_url = ''/contract/:chain/:contractAddress/erc721/claim-conditions/update'',
     rt_operationId = ''erc721-updateClaimConditions'',
     rt_tags = [''ERC721''],
     rt_hidden = False,
     rt_params = Some contractParamSchema,
     rt_querystring = Some requestQuerystringSchema,
     rt_body = Some erc721UpdateClaimConditions_requestBodySchema,
     rt_headers = Some walletWithAAHeaderSchema,
     rt_response = put_fields [(200, transactionWritesResponseSchema)] standardResponseSchema\<rparr>"

definition erc721UpdateClaimConditions :: "'w handler" where [handler_defs]:
  "erc721UpdateClaimConditions V q =
    (let chain = jprop (hq_params q) ''chain'';
         contractAddress = jprop (hq_params q) ''contractAddress'';
         simulateTx = jprop (hq_query q) ''simulateTx'';
         claimConditionInput = jprop (hq_body q) ''claimConditionInput'';
         index = jprop (hq_body q) ''index'';
         txOverrides = jprop (hq_body q) ''txOverrides'';
         walletAddress = jprop (hq_headers q) ''x-backend-wallet-address'';
         accountAddress = jprop (hq_headers q) ''x-account-address'';
         idempotencyKey = jprop (hq_headers q) ''x-idempotency-key'' in
     bnd (chainIdFrom V chain) (\<lambda>chainId.
     bnd (getContract V chainId contractAddress walletAddress accountAddress JUndefined) (\<lambda>contract.
     bnd (lift_res (js_obj [js_spread (Inr claimConditionInput), js_field ''startTime'' (js_cond
         (js_dot (Inr claimConditionInput) ''startTime'') (js_cond (isUnixEpochTimestamp V (js_parseInteger
         (js_toString (js_dot (Inr claimConditionInput) ''startTime'')))) (js_Date V (js_times
         (js_parseInteger (js_toString
         (js_dot (Inr claimConditionInput) ''startTime''))) (Inr (JNum (Some 1000))))) (js_Date V
         (js_dot (Inr claimConditionInput) ''startTime''))) (Inr JUndefined))])) (\<lambda>sanitizedClaimConditionInput.
     bnd (prepare V contract [''erc721'', ''claimConditions'', ''update''] [index,
         sanitizedClaimConditionInput]) (\<lambda>tx.
     bnd (queue_tx V tx chainId ''erc721'' JUndefined JUndefined simulateTx idempotencyKey txOverrides) (\<lambda>queueId.
     ret (JObj [(''result'', JObj [(''queueId'', JStr queueId)])])))))))"

section \<open>contract/extensions/erc721/write/updateTokenMetadata.ts\<close>

definition erc721UpdateTokenMetadata_requestBodySchema :: schema where [schema_defs]:
  "erc721UpdateTokenMetadata_requestBodySchema =
     SObject ([(''tokenId'', True, SString), (''metadata'', True, nftMetadataInputSchema)]
     @ properties txOverridesWithValueSchema)"

definition erc721UpdateTokenMetadata_route :: route where [route_defs]:
  "erc721UpdateTokenMetadata_route = \<lparr>rt_method = ''POST'',
     rt_url = ''/contract/:chain/:contractAddress/erc721/token/update'',
     rt_operationId = ''erc721-updateTokenMetadata'',
     rt_tags = [''ERC721''],
     rt_hidden = False,
     rt_params = Some contractParamSchema,
     rt_querystring = Some requestQuerystringSchema,
     rt_body = Some erc721UpdateTokenMetadata_requestBodySchema,
     rt_headers = Some walletWithAAHeaderSchema,
     rt_response = put_fields [(200, transactionWritesResponseSchema)] standardResponseSchema\<rparr>"

definition erc721UpdateTokenMetadata :: "'w handler" where [handler_defs]:
  "erc721UpdateTokenMetadata V q =
    (let chain = jprop (hq_params q) ''chain'';
         contractAddress = jprop (hq_params q) ''contractAddress'';
         simulateTx = jprop (hq_query q) ''simulateTx'';
         tokenId = jprop (hq_body q) ''tokenId'';
         metadata = jprop (hq_body q) ''metadata'';
         txOverrides = jprop (hq_body q) ''txOverrides'';
         walletAddress = jprop (hq_headers q) ''x-backend-wallet-address'';
         accountAddress = jprop (hq_headers q) ''x-account-address'';
         idempotencyKey = jprop (hq_headers q) ''x-idempotency-key'' in
     bnd (chainIdFrom V chain) (\<lambda>chainId.
     bnd (getContract V chainId contractAddress walletAddress accountAddress JUndefined) (\<lambda>contract.
     bnd (prepare V contract [''erc721'', ''updateMetadata''] [tokenId, metadata]) (\<lambda>tx.
     bnd (queue_tx V tx chainId ''erc721'' JUndefined JUndefined simulateTx idempotencyKey txOverrides) (\<lambda>queueId.
     ret (JObj [(''result'', JObj [(''queueId'', JStr queueId)])]))))))"

section \<open>Lists\<close>

text \<open>The routes with their handlers, and the routes in the order in which they are registered.\<close>

definition erc721_reads :: "(route \<times> 'w handler) list" where
  "erc721_reads =
     [(erc721BalanceOf_route, erc721BalanceOf), (erc721CanClaim_route, erc721CanClaim), (erc721Get_route,
         erc721Get), (erc721GetActiveClaimConditions_route, erc721GetActiveClaimConditions),
         (erc721GetAll_route, erc721GetAll), (erc721GetAllClaimConditions_route,
         erc721GetAllClaimConditions), (erc721GetClaimIneligibilityReasons_route,
         erc721GetClaimIneligibilityReasons), (erc721GetClaimerProofs_route, erc721GetClaimerProofs),
         (erc721GetOwned_route, erc721GetOwned), (erc721IsApproved_route, erc721IsApproved),
         (erc721TotalClaimedSupply_route, erc721TotalClaimedSupply), (erc721TotalCount_route,
         erc721TotalCount), (erc721TotalUnclaimedSupply_route, erc721TotalUnclaimedSupply)]"

definition erc721_signs :: "(route \<times> 'w handler) list" where
  "erc721_signs =
     [(erc721SignatureGenerate_route, erc721SignatureGenerate), (erc721SignaturePrepare_route,
         erc721SignaturePrepare)]"

definition erc721_writes :: "(route \<times> 'w handler) list" where
  "erc721_writes =
     [(erc721burn_route, erc721burn), (erc721claimTo_route, erc721claimTo), (erc721lazyMint_route,
         erc721lazyMint), (erc721mintBatchTo_route, erc721mintBatchTo), (erc721mintTo_route, erc721mintTo),
         (erc721SetApprovalForAll_route, erc721SetApprovalForAll), (erc721SetApprovalForToken_route,
         erc721SetApprovalForToken), (erc721SetClaimConditions_route, erc721SetClaimConditions),
         (erc721SignatureMint_route, erc721SignatureMint), (erc721transfer_route, erc721transfer),
         (erc721transferFrom_route, erc721transferFrom), (erc721UpdateClaimConditions_route,
         erc721UpdateClaimConditions), (erc721UpdateTokenMetadata_route, erc721UpdateTokenMetadata)]"

definition erc721Routes :: "route list" where
  "erc721Routes =
     [erc721Get_route, erc721GetAll_route, erc721GetOwned_route, erc721BalanceOf_route,
         erc721IsApproved_route, erc721TotalCount_route, erc721TotalClaimedSupply_route,
         erc721TotalUnclaimedSupply_route, erc721CanClaim_route, erc721GetActiveClaimConditions_route,
         erc721GetAllClaimConditions_route, erc721GetClaimIneligibilityReasons_route,
         erc721GetClaimerProofs_route, erc721SetApprovalForAll_route, erc721SetApprovalForToken_route,
         erc721transfer_route, erc721transferFrom_route, erc721mintTo_route, erc721mintBatchTo_route,
         erc721burn_route, erc721lazyMint_route, erc721claimTo_route, erc721SignatureGenerate_route,
         erc721SignatureMint_route, erc721SetClaimConditions_route, erc721UpdateClaimConditions_route,
         erc721SignaturePrepare_route, erc721UpdateTokenMetadata_route]"


end
