(* ===== verification/Erc1155_Routes.thy ===== *)
theory Erc1155_Routes
  imports Sdk_Access Shared_Schemas
begin

text \<open>
  The routes of ERC-1155 tokens. Every route is the record of its \<open>fastify.route\<close> call
  with the schemas of its file, and its handler.
\<close>

section \<open>contract/extensions/erc1155/read/balanceOf.ts\<close>

definition erc1155BalanceOf_responseSchema :: schema where [schema_defs]:
  "erc1155BalanceOf_responseSchema =
     SObject [(''result'', False, SString)]"

definition erc1155BalanceOf_querystringSchema :: schema where [schema_defs]:
  "erc1155BalanceOf_querystringSchema =
     SObject [(''walletAddress'', True, AddressSchema), (''tokenId'', True, SString)]"

definition erc1155BalanceOf_route :: route where [route_defs]:
  "erc1155BalanceOf_route = \<lparr>rt_method = ''GET'',
     rt_url = ''/contract/:chain/:contractAddress/erc1155/balance-of'',
     rt_operationId = ''erc1155-balanceOf'',
     rt_tags = [''ERC1155''],
     rt_hidden = False,
     rt_params = Some erc1155ContractParamSchema,
     rt_querystring = Some erc1155BalanceOf_querystringSchema,
     rt_body = None,
     rt_headers = None,
     rt_response = put_fields [(200, erc1155BalanceOf_responseSchema)] standardResponseSchema\<rparr>"

definition erc1155BalanceOf :: "'w handler" where [handler_defs]:
  "erc1155BalanceOf V q =
    (let chain = jprop (hq_params q) ''chain'';
         contractAddress = jprop (hq_params q) ''contractAddress'';
         walletAddress = jprop (hq_query q) ''walletAddress'';
         tokenId = jprop (hq_query q) ''tokenId'' in
     bnd (chainIdFrom V chain) (\<lambda>chainId.
     bnd (getContract V chainId contractAddress JUndefined JUndefined JUndefined) (\<lambda>contract.
     bnd (sdk_call V contract [''erc1155'', ''balanceOf''] [walletAddress, tokenId]) (\<lambda>returnData.
     lift_res (js_obj [js_field ''result'' (js_toString (Inr returnData))])))))"

section \<open>contract/extensions/erc1155/read/canClaim.ts\<close>

definition erc1155CanClaim_responseSchema :: schema where [schema_defs]:
  "erc1155CanClaim_responseSchema =
     SObject [(''result'', True, SBoolean)]"

definition erc1155CanClaim_requestQueryString :: schema where [schema_defs]:
  "erc1155CanClaim_requestQueryString =
     SObject [(''quantity'', True, SString), (''tokenId'', True, SString), (''addressToCheck'', False,
     SString)]"

definition erc1155CanClaim_route :: route where [route_defs]:
  "erc1155CanClaim_route = \<lparr>rt_method = ''GET'',
     rt_url = ''/contract/:chain/:contractAddress/erc1155/claim-conditions/can-claim'',
     rt_operationId = ''erc1155-canClaim'',
     rt_tags = [''ERC1155''],
     rt_hidden = False,
     rt_params = Some contractParamSchema,
     rt_querystring = Some erc1155CanClaim_requestQueryString,
     rt_body = None,
     rt_headers = None,
     rt_response = put_fields [(200, erc1155CanClaim_responseSchema)] standardResponseSchema\<rparr>"

definition erc1155CanClaim :: "'w handler" where [handler_defs]:
  "erc1155CanClaim V q =
    (let chain = jprop (hq_params q) ''chain'';
         contractAddress = jprop (hq_params q) ''contractAddress'';
         quantity = jprop (hq_query q) ''quantity'';
         tokenId = jprop (hq_query q) ''tokenId'';
         addressToCheck = jprop (hq_query q) ''addressToCheck'' in
     bnd (chainIdFrom V chain) (\<lambda>chainId.
     bnd (getContract V chainId contractAddress JUndefined JUndefined JUndefined) (\<lambda>contract.
     bnd (sdk_call V contract [''erc1155'', ''claimConditions'', ''canClaim''] [quantity, tokenId,
         addressToCheck]) (\<lambda>returnData.
     ret (JObj [(''result'', returnData)])))))"

section \<open>contract/extensions/erc1155/read/get.ts\<close>

definition erc1155Get_responseSchema :: schema where [schema_defs]:
  "erc1155Get_responseSchema =
     SObject [(''result'', True, nftSchema)]"

definition erc1155Get_querystringSchema :: schema where [schema_defs]:
  "erc1155Get_querystringSchema =
     SObject [(''tokenId'', True, SString)]"

definition erc1155Get_route :: route where [route_defs]:
  "erc1155Get_route = \<lparr>rt_method = ''GET'',
     rt_url = ''/contract/:chain/:contractAddress/erc1155/get'',
     rt_operationId = ''erc1155-get'',
     rt_tags = [''ERC1155''],
     rt_hidden = False,
     rt_params = Some erc1155ContractParamSchema,
     rt_querystring = Some erc1155Get_querystringSchema,
     rt_body = None,
     rt_headers = None,
     rt_response = put_fields [(200, erc1155Get_responseSchema)] standardResponseSchema\<rparr>"

definition erc1155Get :: "'w handler" where [handler_defs]:
  "erc1155Get V q =
    (let chain = jprop (hq_params q) ''chain'';
         contractAddress = jprop (hq_params q) ''contractAddress'';
         tokenId = jprop (hq_query q) ''tokenId'' in
     bnd (chainIdFrom V chain) (\<lambda>chainId.
     bnd (getContract V chainId contractAddress JUndefined JUndefined JUndefined) (\<lambda>contract.
     bnd (sdk_call V contract [''erc1155'', ''get''] [tokenId]) (\<lambda>result.
     ret (JObj [(''result'', result)])))))"

section \<open>contract/extensions/erc1155/read/getActiveClaimConditions.ts\<close>

definition erc1155GetActiveClaimConditions_responseSchema :: schema where [schema_defs]:
  "erc1155GetActiveClaimConditions_responseSchema =
     SObject [(''result'', True, claimConditionOutputSchema)]"

definition erc1155GetActiveClaimConditions_requestQueryString :: schema where [schema_defs]:
  "erc1155GetActiveClaimConditions_requestQueryString =
     SObject [(''tokenId'', True, SUnion [SString, SNumber]), (''withAllowList'', False, SBoolean)]"

definition erc1155GetActiveClaimConditions_route :: route where [route_defs]:
  "erc1155GetActiveClaimConditions_route = \<lparr>rt_method = ''GET'',
     rt_url = ''/contract/:chain/:contractAddress/erc1155/claim-conditions/get-active'',
     rt_operationId = ''erc1155-getActiveClaimConditions'',
     rt_tags = [''ERC1155''],
     rt_hidden = False,
     rt_params = Some contractParamSchema,
     rt_querystring = Some erc1155GetActiveClaimConditions_requestQueryString,
     rt_body = None,
     rt_headers = None,
     rt_response = put_fields [(200, erc1155GetActiveClaimConditions_responseSchema)] standardResponseSchema\<rparr>"

definition erc1155GetActiveClaimConditions :: "'w handler" where [handler_defs]:
  "erc1155GetActiveClaimConditions V q =
    (let chain = jprop (hq_params q) ''chain'';
         contractAddress = jprop (hq_params q) ''contractAddress'';
         tokenId = jprop (hq_query q) ''tokenId'';
         withAllowList = jprop (hq_query q) ''withAllowList'' in
     bnd (chainIdFrom V chain) (\<lambda>chainId.
     bnd (getContract V chainId contractAddress JUndefined JUndefined JUndefined) (\<lambda>contract.
     bnd (sdk_call V contract [''erc1155'', ''claimConditions'', ''getActive''] [tokenId,
         JObj [(''withAllowList'', withAllowList)]]) (\<lambda>returnData.
     lift_res (js_obj [js_field ''result'' (js_obj [js_spread (Inr returnData),
         js_field ''price'' (js_toString (js_dot (Inr returnData) ''price'')),
         js_field ''waitInSeconds'' (js_toString (js_dot (Inr returnData) ''waitInSeconds'')),
         js_field ''currencyMetadata'' (js_obj [js_spread (js_dot (Inr returnData) ''currencyMetadata''),
         js_field ''value'' (js_toString (js_dot (js_dot (Inr returnData) ''currencyMetadata'') ''value''))]),
         js_field ''startTime'' (js_toISOString (js_dot (Inr returnData) ''startTime''))])])))))"

section \<open>contract/extensions/erc1155/read/getAll.ts\<close>

definition erc1155GetAll_responseSchema :: schema where [schema_defs]:
  "erc1155GetAll_responseSchema =
     SObject [(''result'', True, SArray nftSchema)]"

definition erc1155GetAll_querystringSchema :: schema where [schema_defs]:
  "erc1155GetAll_querystringSchema =
     SObject [(''start'', False, SNumber), (''count'', False, SNumber)]"

definition erc1155GetAll_route :: route where [route_defs]:
  "erc1155GetAll_route = \<lparr>rt_method = ''GET'',
     rt_url = ''/contract/:chain/:contractAddress/erc1155/get-all'',
     rt_operationId = ''erc1155-getAll'',
     rt_tags = [''ERC1155''],
     rt_hidden = False,
     rt_params = Some erc1155ContractParamSchema,
     rt_querystring = Some erc1155GetAll_querystringSchema,
     rt_body = None,
     rt_headers = None,
     rt_response = put_fields [(200, erc1155GetAll_responseSchema)] standardResponseSchema\<rparr>"

definition erc1155GetAll :: "'w handler" where [handler_defs]:
  "erc1155GetAll V q =
    (let chain = jprop (hq_params q) ''chain'';
         contractAddress = jprop (hq_params q) ''contractAddress'';
         start = jprop (hq_query q) ''start'';
         count = jprop (hq_query q) ''count'' in
     bnd (chainIdFrom V chain) (\<lambda>chainId.
     bnd (getContract V chainId contractAddress JUndefined JUndefined JUndefined) (\<lambda>contract.
     bnd (sdk_call V contract [''erc1155'', ''getAll''] [JObj [(''start'', start), (''count'',
         count)]]) (\<lambda>result.
     ret (JObj [(''result'', result)])))))"

section \<open>contract/extensions/erc1155/read/getAllClaimConditions.ts\<close>

definition erc1155GetAllClaimConditions_responseSchema :: schema where [schema_defs]:
  "erc1155GetAllClaimConditions_responseSchema =
     SObject [(''result'', True, SArray claimConditionOutputSchema)]"

definition erc1155GetAllClaimConditions_requestQueryString :: schema where [schema_defs]:
  "erc1155GetAllClaimConditions_requestQueryString =
     SObject [(''tokenId'', True, SUnion [SString, SNumber]), (''withAllowList'', False, SBoolean)]"

definition erc1155GetAllClaimConditions_route :: route where [route_defs]:
  "erc1155GetAllClaimConditions_route = \<lparr>rt_method = ''GET'',
     rt_url = ''/contract/:chain/:contractAddress/erc1155/claim-conditions/get-all'',
     rt_operationId = ''erc1155-getAllClaimConditions'',
     rt_tags = [''ERC1155''],
     rt_hidden = False,
     rt_params = Some contractParamSchema,
     rt_querystring = Some erc1155GetAllClaimConditions_requestQueryString,
     rt_body = None,
     rt_headers = None,
     rt_response = put_fields [(200, erc1155GetAllClaimConditions_responseSchema)] standardResponseSchema\<rparr>"

definition erc1155GetAllClaimConditions :: "'w handler" where [handler_defs]:
  "erc1155GetAllClaimConditions V q =
    (let chain = jprop (hq_params q) ''chain'';
         contractAddress = jprop (hq_params q) ''contractAddress'';
         tokenId = jprop (hq_query q) ''tokenId'';
         withAllowList = jprop (hq_query q) ''withAllowList'' in
     bnd (chainIdFrom V chain) (\<lambda>chainId.
     bnd (getContract V chainId contractAddress JUndefined JUndefined JUndefined) (\<lambda>contract.
     bnd (sdk_call V contract [''erc1155'', ''claimConditions'', ''getAll''] [tokenId,
         JObj [(''withAllowList'', withAllowList)]]) (\<lambda>returnData.
     bnd (lift_res (js_map (\<lambda>item. js_obj [js_spread (Inr item),
         js_field ''price'' (js_toString (js_dot (Inr item) ''price'')),
         js_field ''waitInSeconds'' (js_toString (js_dot (Inr item) ''waitInSeconds'')),
         js_field ''currencyMetadata'' (js_obj [js_spread (js_dot (Inr item) ''currencyMetadata''),
         js_field ''value'' (js_toString (js_dot (js_dot (Inr item) ''currencyMetadata'') ''value''))]),
         js_field ''startTime'' (js_toISOString
         (js_dot (Inr item) ''startTime''))]) (Inr returnData))) (\<lambda>sanitizedReturnData.
     ret (JObj [(''result'', sanitizedReturnData)]))))))"

section \<open>contract/extensions/erc1155/read/getClaimIneligibilityReasons.ts\<close>

definition erc1155GetClaimIneligibilityReasons_responseSchema :: schema where [schema_defs]:
  "erc1155GetClaimIneligibilityReasons_responseSchema =
     SObject [(''result'', True, SArray (SUnion [SString, SString]))]"

definition erc1155GetClaimIneligibilityReasons_requestQueryString :: schema where [schema_defs]:
  "erc1155GetClaimIneligibilityReasons_requestQueryString =
     SObject [(''tokenId'', True, SUnion [SString, SNumber]), (''quantity'', True, SString),
     (''addressToCheck'', False, SString)]"

definition erc1155GetClaimIneligibilityReasons_route :: route where [route_defs]:
  "erc1155GetClaimIneligibilityReasons_route = \<lparr>rt_method = ''POST'',
     rt_url = ''/contract/:chain/:contractAddress/erc1155/claim-conditions/get-claim-ineligibility-reasons'',
     rt_operationId = ''erc1155-getClaimIneligibilityReasons'',
     rt_tags = [''ERC1155''],
     rt_hidden = False,
     rt_params = Some contractParamSchema,
     rt_querystring = Some erc1155GetClaimIneligibilityReasons_requestQueryString,
     rt_body = None,
     rt_headers = None,
     rt_response = put_fields [(200,
         erc1155GetClaimIneligibilityReasons_responseSchema)] standardResponseSchema\<rparr>"

definition erc1155GetClaimIneligibilityReasons :: "'w handler" where [handler_defs]:
  "erc1155GetClaimIneligibilityReasons V q =
    (let chain = jprop (hq_params q) ''chain'';
         contractAddress = jprop (hq_params q) ''contractAddress'';
         quantity = jprop (hq_query q) ''quantity'';
         tokenId = jprop (hq_query q) ''tokenId'';
         addressToCheck = jprop (hq_query q) ''addressToCheck'' in
     bnd (chainIdFrom V chain) (\<lambda>chainId.
     bnd (getContract V chainId contractAddress JUndefined JUndefined JUndefined) (\<lambda>contract.
     bnd (sdk_call V contract [''erc1155'', ''claimConditions'', ''getClaimIneligibilityReasons''] [tokenId,
         quantity, addressToCheck]) (\<lambda>returnData.
     ret (JObj [(''result'', returnData)])))))"

section \<open>contract/extensions/erc1155/read/getClaimerProofs.ts\<close>

definition erc1155GetClaimerProofs_responseSchema :: schema where [schema_defs]:
  "erc1155GetClaimerProofs_responseSchema =
     SObject [(''result'', True, claimerProofSchema)]"

definition erc1155GetClaimerProofs_requestQueryString :: schema where [schema_defs]:
  "erc1155GetClaimerProofs_requestQueryString =
     SObject [(''tokenId'', True, SUnion [SString, SNumber]), (''walletAddress'', True, AddressSchema)]"

definition erc1155GetClaimerProofs_route :: route where [route_defs]:
  "erc1155GetClaimerProofs_route = \<lparr>rt_method = ''GET'',
     rt_url = ''/contract/:chain/:contractAddress/erc1155/claim-conditions/get-claimer-proofs'',
     rt_operationId = ''erc1155-getClaimerProofs'',
     rt_tags = [''ERC1155''],
     rt_hidden = False,
     rt_params = Some contractParamSchema,
     rt_querystring = Some erc1155GetClaimerProofs_requestQueryString,
     rt_body = None,
     rt_headers = None,
     rt_response = put_fields [(200, erc1155GetClaimerProofs_responseSchema)] standardResponseSchema\<rparr>"

definition erc1155GetClaimerProofs :: "'w handler" where [handler_defs]:
  "erc1155GetClaimerProofs V q =
    (let chain = jprop (hq_params q) ''chain'';
         contractAddress = jprop (hq_params q) ''contractAddress'';
         tokenId = jprop (hq_query q) ''tokenId'';
         walletAddress = jprop (hq_query q) ''walletAddress'' in
     bnd (chainIdFrom V chain) (\<lambda>chainId.
     bnd (getContract V chainId contractAddress JUndefined JUndefined JUndefined) (\<lambda>contract.
     bnd (sdk_call V contract [''erc1155'', ''claimConditions'', ''getClaimerProofs''] [tokenId,
         walletAddress]) (\<lambda>returnData.
     ret (JObj [(''result'', returnData)])))))"

section \<open>contract/extensions/erc1155/read/getOwned.ts\<close>

definition erc1155GetOwned_responseSchema :: schema where [schema_defs]:
  "erc1155GetOwned_responseSchema =
     SObject [(''result'', True, SArray nftSchema)]"

definition erc1155GetOwned_querystringSchema :: schema where [schema_defs]:
  "erc1155GetOwned_querystringSchema =
     SObject [(''walletAddress'', True, AddressSchema)]"

definition erc1155GetOwned_route :: route where [route_defs]:
  "erc1155GetOwned_route = \<lparr>rt_method = ''GET'',
     rt_url = ''/contract/:chain/:contractAddress/erc1155/get-owned'',
     rt_operationId = ''erc1155-getOwned'',
     rt_tags = [''ERC1155''],
     rt_hidden = False,
     rt_params = Some erc1155ContractParamSchema,
     rt_querystring = Some erc1155GetOwned_querystringSchema,
     rt_body = None,
     rt_headers = None,
     rt_response = put_fields [(200, erc1155GetOwned_responseSchema)] standardResponseSchema\<rparr>"

definition erc1155GetOwned :: "'w handler" where [handler_defs]:
  "erc1155GetOwned V q =
    (let chain = jprop (hq_params q) ''chain'';
         contractAddress = jprop (hq_params q) ''contractAddress'';
         walletAddress = jprop (hq_query q) ''walletAddress'' in
     bnd (chainIdFrom V chain) (\<lambda>chainId.
     bnd (getContract V chainId contractAddress JUndefined JUndefined JUndefined) (\<lambda>contract.
     bnd (sdk_call V contract [''erc1155'', ''getOwned''] [walletAddress]) (\<lambda>result.
     ret (JObj [(''result'', result)])))))"

section \<open>contract/extensions/erc1155/read/isApproved.ts\<close>

definition erc1155IsApproved_responseSchema :: schema where [schema_defs]:
  "erc1155IsApproved_responseSchema =
     SObject [(''result'', False, SBoolean)]"

definition erc1155IsApproved_querystringSchema :: schema where [schema_defs]:
  "erc1155IsApproved_querystringSchema =
     SObject [(''ownerWallet'', True, SString), (''operator'', True, SString)]"

definition erc1155IsApproved_route :: route where [route_defs]:
  "erc1155IsApproved_route = \<lparr>rt_method = ''GET'',
     rt_url = ''/contract/:chain/:contractAddress/erc1155/is-approved'',
     rt_operationId = ''erc1155-isApproved'',
     rt_tags = [''ERC1155''],
     rt_hidden = False,
     rt_params = Some erc1155ContractParamSchema,
     rt_querystring = Some erc1155IsApproved_querystringSchema,
     rt_body = None,
     rt_headers = None,
     rt_response = put_fields [(200, erc1155IsApproved_responseSchema)] standardResponseSchema\<rparr>"

definition erc1155IsApproved :: "'w handler" where [handler_defs]:
  "erc1155IsApproved V q =
    (let chain = jprop (hq_params q) ''chain'';
         contractAddress = jprop (hq_params q) ''contractAddress'';
         ownerWallet = jprop (hq_query q) ''ownerWallet'';
         operator = jprop (hq_query q) ''operator'' in
     bnd (chainIdFrom V chain) (\<lambda>chainId.
     bnd (getContract V chainId contractAddress JUndefined JUndefined JUndefined) (\<lambda>contract.
     bnd (sdk_call V contract [''erc1155'', ''isApproved''] [ownerWallet, operator]) (\<lambda>returnData.
     ret (JObj [(''result'', returnData)])))))"

section \<open>contract/extensions/erc1155/read/signatureGenerate.ts\<close>

definition erc1155SignatureGenerate_responseSchemaV4 :: schema where [schema_defs]:
  "erc1155SignatureGenerate_responseSchemaV4 =
     SObject [(''payload'', True, signature1155OutputSchema), (''signature'', True, SString)]"

definition erc1155SignatureGenerate_responseSchemaV5 :: schema where [schema_defs]:
  "erc1155SignatureGenerate_responseSchemaV5 =
     SObject [(''payload'', True, SObject [(''to'', True, SString), (''royaltyRecipient'', True,
     SString), (''royaltyBps'', True, SString), (''primarySaleRecipient'', True, SString), (''tokenId'',
     True, SString), (''uri'', True, SString), (''quantity'', True, SString), (''pricePerToken'', True,
     SString), (''currency'', True, SString), (''validityStartTimestamp'', True, SInteger),
     (''validityEndTimestamp'', True, SInteger), (''uid'', True, SString)]), (''signature'', True,
     SString)]"

definition erc1155SignatureGenerate_responseSchema :: schema where [schema_defs]:
  "erc1155SignatureGenerate_responseSchema =
     SObject [(''result'', True, SUnion [erc1155SignatureGenerate_responseSchemaV4,
     erc1155SignatureGenerate_responseSchemaV5])]"

definition erc1155SignatureGenerate_requestBodySchemaV5 :: schema where [schema_defs]:
  "erc1155SignatureGenerate_requestBodySchemaV5 =
     SAll [SObject [(''contractType'', False, SUnion [SLiteral (JStr ''TokenERC1155''),
     SLiteral (JStr ''SignatureMintERC1155'')]), (''to'', True, SString), (''quantity'', True, SString),
     (''royaltyRecipient'', False, SString), (''royaltyBps'', False, SNumber),
     (''primarySaleRecipient'', False, SString), (''pricePerToken'', False, SString),
     (''pricePerTokenWei'', False, SString), (''currency'', False, SString),
     (''validityStartTimestamp'', True, SInteger), (''validityEndTimestamp'', False, SInteger),
     (''uid'', False, SString)], SUnion [SObject [(''metadata'', True, SUnion [nftInputSchema,
     SString])], SObject [(''tokenId'', True, SString)]]]"

definition erc1155SignatureGenerate_requestBodySchema :: schema where [schema_defs]:
  "erc1155SignatureGenerate_requestBodySchema =
     SUnion [signature1155InputSchema, erc1155SignatureGenerate_requestBodySchemaV5]"

definition erc1155SignatureGenerate_route :: route where [route_defs]:
  "erc1155SignatureGenerate_route = \<lparr>rt_method = ''POST'',
     rt_url = ''/contract/:chain/:contractAddress/erc1155/signature/generate'',
     rt_operationId = ''erc1155-signatureGenerate'',
     rt_tags = [''ERC1155''],
     rt_hidden = False,
     rt_params = Some erc1155ContractParamSchema,
     rt_querystring = None,
     rt_body = Some erc1155SignatureGenerate_requestBodySchema,
     rt_headers = Some (schema_partial (SObject (properties walletWithAAHeaderSchema @
         properties thirdwebSdkVersionSchema))),
     rt_response = put_fields [(200, erc1155SignatureGenerate_responseSchema)] standardResponseSchema\<rparr>"

text \<open>With the v5 SDK.\<close>

definition erc1155SignatureGenerate_v5 :: "'w sdk_sys \<Rightarrow> request \<Rightarrow> int \<Rightarrow> ('w sdk_state, js_val) io" where [handler_defs]:
  "erc1155SignatureGenerate_v5 V q chainId =
     (let contractAddress = jprop (hq_params q) ''contractAddress'';
         contractType = jprop (hq_body q) ''contractType'';
         to = jprop (hq_body q) ''to'';
         quantity = jprop (hq_body q) ''quantity'';
         royaltyRecipient = jprop (hq_body q) ''royaltyRecipient'';
         royaltyBps = jprop (hq_body q) ''royaltyBps'';
         primarySaleRecipient = jprop (hq_body q) ''primarySaleRecipient'';
         pricePerToken = jprop (hq_body q) ''pricePerToken'';
         pricePerTokenWei = jprop (hq_body q) ''pricePerTokenWei'';
         currency = jprop (hq_body q) ''currency'';
         validityStartTimestamp = jprop (hq_body q) ''validityStartTimestamp'';
         validityEndTimestamp = jprop (hq_body q) ''validityEndTimestamp'';
         uid = jprop (hq_body q) ''uid'';
         walletAddress = jprop (hq_headers q) ''x-backend-wallet-address'';
         accountAddress = jprop (hq_headers q) ''x-account-address'' in
      bnd (if js_has (hq_body q) ''metadata'' then ret [(''metadata'', jprop (hq_body q) ''metadata'')]
           else if js_has (hq_body q) ''tokenId''
           then bnd (lift_res (js_BigInt V (Inr (jprop (hq_body q) ''tokenId'')))) (\<lambda>n. ret [(''tokenId'', n)])
           else throw (createCustomError (''Missing '' @ [CHR 0x22] @ ''metadata'' @ [CHR 0x22] @ '' or '' @ [CHR 0x22] @ ''tokenId''
                  @ [CHR 0x22] @ ''.'') 400 ''MISSING_PARAMETERS'')) (\<lambda>input.
      bnd (getContractV5 V chainId contractAddress JUndefined) (\<lambda>contract.
      bnd (at_w (getAccount (ys_env V) chainId (js_text walletAddress) (js_opt accountAddress))) (\<lambda>account.
      bnd (lift_res (js_obj [js_field ''to'' (Inr to),
             js_field ''quantity'' (js_BigInt V (Inr quantity)),
             js_field ''royaltyRecipient'' (Inr royaltyRecipient),
             js_field ''royaltyBps'' (Inr royaltyBps),
             js_field ''primarySaleRecipient'' (Inr primarySaleRecipient),
             js_field ''pricePerToken'' (Inr pricePerToken),
             js_field ''pricePerTokenWei'' (js_maybeBigInt V pricePerTokenWei),
             js_field ''currency'' (Inr currency),
             js_field ''validityStartTimestamp'' (js_Date V (js_times (Inr validityStartTimestamp) (Inr (JNum (Some 1000))))),
             js_field ''validityEndTimestamp'' (js_cond (Inr validityEndTimestamp) (js_Date V (js_times (Inr validityEndTimestamp) (Inr (JNum (Some 1000))))) (Inr JUndefined)),
             js_field ''uid'' (Inr uid),
             js_spread (Inr (JObj input))])) (\<lambda>mintRequest.
      bnd (lift_res (v_generateMint (ys_sdk V) contract account (js_set mintRequest ''contractType'' contractType))) (\<lambda>signed.
      let payload = jprop signed ''payload'' in
      lift_res (js_obj [js_field ''result'' (js_obj [js_field ''payload'' (js_obj [js_spread (Inr payload),
               js_field ''royaltyBps'' (js_toString (js_dot (Inr payload) ''royaltyBps'')),
               js_field ''tokenId'' (js_toString (js_dot (Inr payload) ''tokenId'')),
               js_field ''quantity'' (js_toString (js_dot (Inr payload) ''quantity'')),
               js_field ''pricePerToken'' (js_toString (js_dot (Inr payload) ''pricePerToken'')),
               js_field ''validityStartTimestamp'' (js_Number (js_dot (Inr payload) ''validityStartTimestamp'')),
               js_field ''validityEndTimestamp'' (js_Number (js_dot (Inr payload) ''validityEndTimestamp''))]),
             js_field ''signature'' (Inr (jprop signed ''signature''))])])))))))"

definition erc1155SignatureGenerate :: "'w handler" where [handler_defs]:
  "erc1155SignatureGenerate V q =
     (let chain = jprop (hq_params q) ''chain'';
         contractAddress = jprop (hq_params q) ''contractAddress'';
         to = jprop (hq_body q) ''to'';
         currencyAddress = jprop (hq_body q) ''currencyAddress'';
         metadata = jprop (hq_body q) ''metadata'';
         mintEndTime = jprop (hq_body q) ''mintEndTime'';
         mintStartTime = jprop (hq_body q) ''mintStartTime'';
         price = jprop (hq_body q) ''price'';
         primarySaleRecipient = jprop (hq_body q) ''primarySaleRecipient'';
         quantity = jprop (hq_body q) ''quantity'';
         royaltyBps = jprop (hq_body q) ''royaltyBps'';
         royaltyRecipient = jprop (hq_body q) ''royaltyRecipient'';
         uid = jprop (hq_body q) ''uid'';
         walletAddress = jprop (hq_headers q) ''x-backend-wallet-address'';
         accountAddress = jprop (hq_headers q) ''x-account-address'';
         sdkVersion = jprop (hq_headers q) ''x-thirdweb-sdk-version'' in
      bnd (chainIdFrom V chain) (\<lambda>chainId.
      if sdkVersion = JStr ''5'' then erc1155SignatureGenerate_v5 V q chainId
      else
        bnd (getContract V chainId contractAddress walletAddress accountAddress JUndefined) (\<lambda>contract.
        bnd (lift_res (checkAndReturnNFTSignaturePayload V (JObj [(''to'', to), (''currencyAddress'', currencyAddress), (''metadata'', metadata), (''mintEndTime'', mintEndTime), (''mintStartTime'', mintStartTime), (''price'', if price = JUndefined then JStr ''0'' else price), (''primarySaleRecipient'', primarySaleRecipient), (''quantity'', quantity), (''royaltyBps'', royaltyBps), (''royaltyRecipient'', royaltyRecipient), (''uid'', uid)]))) (\<lambda>payload.
        bnd (sdk_call V contract [''erc1155'', ''signature'', ''generate''] [payload]) (\<lambda>signedPayload.
        lift_res (js_obj [js_field ''result'' (js_obj [js_spread (Inr signedPayload),
               js_field ''payload'' (js_obj [js_spread (js_dot (Inr signedPayload) ''payload''),
               js_field ''quantity'' (js_toString (js_dot (js_dot (Inr signedPayload) ''payload'') ''quantity'')),
               js_field ''royaltyBps'' (js_toString (js_dot (js_dot (Inr signedPayload) ''payload'') ''royaltyBps'')),
               js_field ''mintStartTime'' (js_toNumber (js_dot (js_dot (Inr signedPayload) ''payload'') ''mintStartTime'')),
               js_field ''mintEndTime'' (js_toNumber (js_dot (js_dot (Inr signedPayload) ''payload'') ''mintEndTime'')),
               js_field ''tokenId'' (js_toString (js_dot (js_dot (Inr signedPayload) ''payload'') ''tokenId''))])])]))))))"

section \<open>contract/extensions/erc1155/read/totalCount.ts\<close>

definition erc1155TotalCount_responseSchema :: schema where [schema_defs]:
  "erc1155TotalCount_responseSchema =
     SObject [(''result'', False, SString)]"

definition erc1155TotalCount_route :: route where [route_defs]:
  "erc1155TotalCount_route = \<lparr>rt_method = ''GET'',
     rt_url = ''/contract/:chain/:contractAddress/erc1155/total-count'',
     rt_operationId = ''erc1155-totalCount'',
     rt_tags = [''ERC1155''],
     rt_hidden = False,
     rt_params = Some erc1155ContractParamSchema,
     rt_querystring = None,
     rt_body = None,
     rt_headers = None,
     rt_response = put_fields [(200, erc1155TotalCount_responseSchema)] standardResponseSchema\<rparr>"

definition erc1155TotalCount :: "'w handler" where [handler_defs]:
  "erc1155TotalCount V q =
    (let chain = jprop (hq_params q) ''chain'';
         contractAddress = jprop (hq_params q) ''contractAddress'' in
     bnd (chainIdFrom V chain) (\<lambda>chainId.
     bnd (getContract V chainId contractAddress JUndefined JUndefined JUndefined) (\<lambda>contract.
     bnd (sdk_call V contract [''erc1155'', ''totalCount''] []) (\<lambda>returnData.
     lift_res (js_obj [js_field ''result'' (js_toString (Inr returnData))])))))"

section \<open>contract/extensions/erc1155/read/totalSupply.ts\<close>

definition erc1155TotalSupply_responseSchema :: schema where [schema_defs]:
  "erc1155TotalSupply_responseSchema =
     SObject [(''result'', False, SString)]"

definition erc1155TotalSupply_querystringSchema :: schema where [schema_defs]:
  "erc1155TotalSupply_querystringSchema =
     SObject [(''tokenId'', True, SString)]"

definition erc1155TotalSupply_route :: route where [route_defs]:
  "erc1155TotalSupply_route = \<lparr>rt_method = ''GET'',
     rt_url = ''/contract/:chain/:contractAddress/erc1155/total-supply'',
     rt_operationId = ''erc1155-totalSupply'',
     rt_tags = [''ERC1155''],
     rt_hidden = False,
     rt_params = Some erc1155ContractParamSchema,
     rt_querystring = Some erc1155TotalSupply_querystringSchema,
     rt_body = None,
     rt_headers = None,
     rt_response = put_fields [(200, erc1155TotalSupply_responseSchema)] standardResponseSchema\<rparr>"

definition erc1155TotalSupply :: "'w handler" where [handler_defs]:
  "erc1155TotalSupply V q =
    (let chain = jprop (hq_params q) ''chain'';
         contractAddress = jprop (hq_params q) ''contractAddress'';
         tokenId = jprop (hq_query q) ''tokenId'' in
     bnd (chainIdFrom V chain) (\<lambda>chainId.
     bnd (getContract V chainId contractAddress JUndefined JUndefined JUndefined) (\<lambda>contract.
     bnd (sdk_call V contract [''erc1155'', ''totalSupply''] [tokenId]) (\<lambda>returnData.
     lift_res (js_obj [js_field ''result'' (js_toString (Inr returnData))])))))"

section \<open>contract/extensions/erc1155/write/airdrop.ts\<close>

definition erc1155airdrop_requestBodySchema :: schema where [schema_defs]:
  "erc1155airdrop_requestBodySchema =
     SObject ([(''tokenId'', True, SString), (''addresses'', True, SArray (SObject [(''address'', True,
     AddressSchema), (''quantity'', True, SDefault (JStr ''1'') SString)]))]
     @ properties txOverridesWithValueSchema)"

definition erc1155airdrop_route :: route where [route_defs]:
  "erc1155airdrop_route = \<lparr>rt_method = ''POST'',
     rt_url = ''/contract/:chain/:contractAddress/erc1155/airdrop'',
     rt_operationId = ''erc1155-airdrop'',
     rt_tags = [''ERC1155''],
     rt_hidden = False,
     rt_params = Some erc1155ContractParamSchema,
     rt_querystring = Some requestQuerystringSchema,
     rt_body = Some erc1155airdrop_requestBodySchema,
     rt_headers = Some walletWithAAHeaderSchema,
     rt_response = put_fields [(200, transactionWritesResponseSchema)] standardResponseSchema\<rparr>"

definition erc1155airdrop :: "'w handler" where [handler_defs]:
  "erc1155airdrop V q =
    (let chain = jprop (hq_params q) ''chain'';
         contractAddress = jprop (hq_params q) ''contractAddress'';
         simulateTx = jprop (hq_query q) ''simulateTx'';
         tokenId = jprop (hq_body q) ''tokenId'';
         addresses = jprop (hq_body q) ''addresses'';
         txOverrides = jprop (hq_body q) ''txOverrides'';
         walletAddress = jprop (hq_headers q) ''x-backend-wallet-address'';
         accountAddress = jprop (hq_headers q) ''x-account-address'';
         idempotencyKey = jprop (hq_headers q) ''x-idempotency-key'' in
     bnd (chainIdFrom V chain) (\<lambda>chainId.
     bnd (getContract V chainId contractAddress walletAddress accountAddress JUndefined) (\<lambda>contract.
     bnd (prepare V contract [''erc1155'', ''airdrop''] [tokenId, addresses]) (\<lambda>tx.
     bnd (queue_tx V tx chainId ''erc1155'' JUndefined JUndefined simulateTx idempotencyKey txOverrides) (\<lambda>queueId.
     ret (JObj [(''result'', JObj [(''queueId'', JStr queueId)])]))))))"

section \<open>contract/extensions/erc1155/write/burn.ts\<close>

definition erc1155burn_requestBodySchema :: schema where [schema_defs]:
  "erc1155burn_requestBodySchema =
     SObject ([(''tokenId'', True, SString), (''amount'', True, SString)]
     @ properties txOverridesWithValueSchema)"

definition erc1155burn_route :: route where [route_defs]:
  "erc1155burn_route = \<lparr>rt_method = ''POST'',
     rt_url = ''/contract/:chain/:contractAddress/erc1155/burn'',
     rt_operationId = ''erc1155-burn'',
     rt_tags = [''ERC1155''],
     rt_hidden = False,
     rt_params = Some erc1155ContractParamSchema,
     rt_querystring = Some requestQuerystringSchema,
     rt_body = Some erc1155burn_requestBodySchema,
     rt_headers = Some walletWithAAHeaderSchema,
     rt_response = put_fields [(200, transactionWritesResponseSchema)] standardResponseSchema\<rparr>"

definition erc1155burn :: "'w handler" where [handler_defs]:
  "erc1155burn V q =
    (let chain = jprop (hq_params q) ''chain'';
         contractAddress = jprop (hq_params q) ''contractAddress'';
         simulateTx = jprop (hq_query q) ''simulateTx'';
         tokenId = jprop (hq_body q) ''tokenId'';
         amount = jprop (hq_body q) ''amount'';
         txOverrides = jprop (hq_body q) ''txOverrides'';
         walletAddress = jprop (hq_headers q) ''x-backend-wallet-address'';
         accountAddress = jprop (hq_headers q) ''x-account-address'';
         idempotencyKey = jprop (hq_headers q) ''x-idempotency-key'' in
     bnd (chainIdFrom V chain) (\<lambda>chainId.
     bnd (getContract V chainId contractAddress walletAddress accountAddress JUndefined) (\<lambda>contract.
     bnd (prepare V contract [''erc1155'', ''burn''] [tokenId, amount]) (\<lambda>tx.
     bnd (queue_tx V tx chainId ''erc1155'' JUndefined JUndefined simulateTx idempotencyKey txOverrides) (\<lambda>queueId.
     ret (JObj [(''result'', JObj [(''queueId'', JStr queueId)])]))))))"

section \<open>contract/extensions/erc1155/write/burnBatch.ts\<close>

definition erc1155burnBatch_requestBodySchema :: schema where [schema_defs]:
  "erc1155burnBatch_requestBodySchema =
     SObject ([(''tokenIds'', True, SArray SString), (''amounts'', True, SArray SString)]
     @ properties txOverridesWithValueSchema)"

definition erc1155burnBatch_route :: route where [route_defs]:
  "erc1155burnBatch_route = \<lparr>rt_method = ''POST'',
     rt_url = ''/contract/:chain/:contractAddress/erc1155/burn-batch'',
     rt_operationId = ''erc1155-burnBatch'',
     rt_tags = [''ERC1155''],
     rt_hidden = False,
     rt_params = Some erc1155ContractParamSchema,
     rt_querystring = Some requestQuerystringSchema,
     rt_body = Some erc1155burnBatch_requestBodySchema,
     rt_headers = Some walletWithAAHeaderSchema,
     rt_response = put_fields [(200, transactionWritesResponseSchema)] standardResponseSchema\<rparr>"

definition erc1155burnBatch :: "'w handler" where [handler_defs]:
  "erc1155burnBatch V q =
    (let chain = jprop (hq_params q) ''chain'';
         contractAddress = jprop (hq_params q) ''contractAddress'';
         simulateTx = jprop (hq_query q) ''simulateTx'';
         tokenIds = jprop (hq_body q) ''tokenIds'';
         amounts = jprop (hq_body q) ''amounts'';
         txOverrides = jprop (hq_body q) ''txOverrides'';
         walletAddress = jprop (hq_headers q) ''x-backend-wallet-address'';
         accountAddress = jprop (hq_headers q) ''x-account-address'';
         idempotencyKey = jprop (hq_headers q) ''x-idempotency-key'' in
     bnd (chainIdFrom V chain) (\<lambda>chainId.
     bnd (getContract V chainId contractAddress walletAddress accountAddress JUndefined) (\<lambda>contract.
     bnd (prepare V contract [''erc1155'', ''burnBatch''] [tokenIds, amounts]) (\<lambda>tx.
     bnd (queue_tx V tx chainId ''erc1155'' JUndefined JUndefined simulateTx idempotencyKey txOverrides) (\<lambda>queueId.
     ret (JObj [(''result'', JObj [(''queueId'', JStr queueId)])]))))))"

section \<open>contract/extensions/erc1155/write/claimTo.ts\<close>

definition erc1155claimTo_requestBodySchema :: schema where [schema_defs]:
  "erc1155claimTo_requestBodySchema =
     SObject ([(''receiver'', True, AddressSchema), (''tokenId'', True, SString), (''quantity'', True,
     SString)] @ properties txOverridesWithValueSchema)"

definition erc1155claimTo_route :: route where [route_defs]:
  "erc1155claimTo_route = \<lparr>rt_method = ''POST'',
     rt_url = ''/contract/:chain/:contractAddress/erc1155/claim-to'',
     rt_operationId = ''erc1155-claimTo'',
     rt_tags = [''ERC1155''],
     rt_hidden = False,
     rt_params = Some erc1155ContractParamSchema,
     rt_querystring = Some requestQuerystringSchema,
     rt_body = Some erc1155claimTo_requestBodySchema,
     rt_headers = Some walletWithAAHeaderSchema,
     rt_response = put_fields [(200, transactionWritesResponseSchema)] standardResponseSchema\<rparr>"

definition erc1155claimTo :: "'w handler" where [handler_defs]:
  "erc1155claimTo V q =
     (let chain = jprop (hq_params q) ''chain'';
         contractAddress = jprop (hq_params q) ''contractAddress'';
         simulateTx = jprop (hq_query q) ''simulateTx'';
         receiver = jprop (hq_body q) ''receiver'';
         tokenId = jprop (hq_body q) ''tokenId'';
         quantity = jprop (hq_body q) ''quantity'';
         txOverrides = jprop (hq_body q) ''txOverrides'';
         fromAddress = jprop (hq_headers q) ''x-backend-wallet-address'';
         accountAddress = jprop (hq_headers q) ''x-account-address'';
         idempotencyKey = jprop (hq_headers q) ''x-idempotency-key'';
         accountFactoryAddress = jprop (hq_headers q) ''x-account-factory-address'' in
      bnd (chainIdFrom V chain) (\<lambda>chainId.
      bnd (getContractV5 V chainId contractAddress JUndefined) (\<lambda>contract.
      bnd (lift_res (js_obj [js_field ''from'' (Inr fromAddress), js_field ''to'' (Inr receiver), js_field ''quantity'' (js_BigInt V (Inr quantity)), js_field ''tokenId'' (js_BigInt V (Inr tokenId))])) (\<lambda>options.
      bnd (queue_v5 V (v_encodeV5 (ys_sdk V) ''claimTo'' contract options) chainId fromAddress contractAddress
             accountAddress accountFactoryAddress txOverrides idempotencyKey simulateTx) (\<lambda>queueId.
      ret (JObj [(''result'', JObj [(''queueId'', JStr queueId)])]))))))"

section \<open>contract/extensions/erc1155/write/lazyMint.ts\<close>

definition erc1155lazyMint_requestBodySchema :: schema where [schema_defs]:
  "erc1155lazyMint_requestBodySchema =
     SObject ([(''metadatas'', True, SArray nftOrInputSchema)] @ properties txOverridesWithValueSchema)"

definition erc1155lazyMint_route :: route where [route_defs]:
  "erc1155lazyMint_route = \<lparr>rt_method = ''POST'',
     rt_url = ''/contract/:chain/:contractAddress/erc1155/lazy-mint'',
     rt_operationId = ''erc1155-lazyMint'',
     rt_tags = [''ERC1155''],
     rt_hidden = False,
     rt_params = Some erc1155ContractParamSchema,
     rt_querystring = Some requestQuerystringSchema,
     rt_body = Some erc1155lazyMint_requestBodySchema,
     rt_headers = Some walletWithAAHeaderSchema,
     rt_response = put_fields [(200, transactionWritesResponseSchema)] standardResponseSchema\<rparr>"

definition erc1155lazyMint :: "'w handler" where [handler_defs]:
  "erc1155lazyMint V q =
    (let chain = jprop (hq_params q) ''chain'';
         contractAddress = jprop (hq_params q) ''contractAddress'';
         simulateTx = jprop (hq_query q) ''simulateTx'';
         metadatas = jprop (hq_body q) ''metadatas'';
         txOverrides = jprop (hq_body q) ''txOverrides'';
         walletAddress = jprop (hq_headers q) ''x-backend-wallet-address'';
         accountAddress = jprop (hq_headers q) ''x-account-address'';
         idempotencyKey = jprop (hq_headers q) ''x-idempotency-key'' in
     bnd (chainIdFrom V chain) (\<lambda>chainId.
     bnd (getContract V chainId contractAddress walletAddress accountAddress JUndefined) (\<lambda>contract.
     bnd (prepare V contract [''erc1155'', ''lazyMint''] [metadatas]) (\<lambda>tx.
     bnd (queue_tx V tx chainId ''erc1155'' JUndefined JUndefined simulateTx idempotencyKey txOverrides) (\<lambda>queueId.
     ret (JObj [(''result'', JObj [(''queueId'', JStr queueId)])]))))))"

section \<open>contract/extensions/erc1155/write/mintAdditionalSupplyTo.ts\<close>

definition erc1155mintAdditionalSupplyTo_requestBodySchema :: schema where [schema_defs]:
  "erc1155mintAdditionalSupplyTo_requestBodySchema =
     SObject ([(''receiver'', True, AddressSchema), (''tokenId'', True, SString), (''additionalSupply'',
     True, SString)] @ properties txOverridesWithValueSchema)"

definition erc1155mintAdditionalSupplyTo_route :: route where [route_defs]:
  "erc1155mintAdditionalSupplyTo_route = \<lparr>rt_method = ''POST'',
     rt_url = ''/contract/:chain/:contractAddress/erc1155/mint-additional-supply-to'',
     rt_operationId = ''erc1155-mintAdditionalSupplyTo'',
     rt_tags = [''ERC1155''],
     rt_hidden = False,
     rt_params = Some erc1155ContractParamSchema,
     rt_querystring = Some requestQuerystringSchema,
     rt_body = Some erc1155mintAdditionalSupplyTo_requestBodySchema,
     rt_headers = Some walletWithAAHeaderSchema,
     rt_response = put_fields [(200, transactionWritesResponseSchema)] standardResponseSchema\<rparr>"

definition erc1155mintAdditionalSupplyTo :: "'w handler" where [handler_defs]:
  "erc1155mintAdditionalSupplyTo V q =
    (let chain = jprop (hq_params q) ''chain'';
         contractAddress = jprop (hq_params q) ''contractAddress'';
         simulateTx = jprop (hq_query q) ''simulateTx'';
         receiver = jprop (hq_body q) ''receiver'';
         additionalSupply = jprop (hq_body q) ''additionalSupply'';
         tokenId = jprop (hq_body q) ''tokenId'';
         txOverrides = jprop (hq_body q) ''txOverrides'';
         walletAddress = jprop (hq_headers q) ''x-backend-wallet-address'';
         accountAddress = jprop (hq_headers q) ''x-account-address'';
         idempotencyKey = jprop (hq_headers q) ''x-idempotency-key'' in
     bnd (chainIdFrom V chain) (\<lambda>chainId.
     bnd (getContract V chainId contractAddress walletAddress accountAddress JUndefined) (\<lambda>contract.
     bnd (prepare V contract [''erc1155'', ''mintAdditionalSupplyTo''] [receiver, tokenId,
         additionalSupply]) (\<lambda>tx.
     bnd (queue_tx V tx chainId ''erc1155'' JUndefined JUndefined simulateTx idempotencyKey txOverrides) (\<lambda>queueId.
     ret (JObj [(''result'', JObj [(''queueId'', JStr queueId)])]))))))"

section \<open>contract/extensions/erc1155/write/mintBatchTo.ts\<close>

definition erc1155mintBatchTo_requestBodySchema :: schema where [schema_defs]:
  "erc1155mintBatchTo_requestBodySchema =
     SObject ([(''receiver'', True, AddressSchema), (''metadataWithSupply'', True,
     SArray nftAndSupplySchema)] @ properties txOverridesWithValueSchema)"

definition erc1155mintBatchTo_route :: route where [route_defs]:
  "erc1155mintBatchTo_route = \<lparr>rt_method = ''POST'',
     rt_url = ''/contract/:chain/:contractAddress/erc1155/mint-batch-to'',
     rt_operationId = ''erc1155-mintBatchTo'',
     rt_tags = [''ERC1155''],
     rt_hidden = False,
     rt_params = Some erc1155ContractParamSchema,
     rt_querystring = Some requestQuerystringSchema,
     rt_body = Some erc1155mintBatchTo_requestBodySchema,
     rt_headers = Some walletWithAAHeaderSchema,
     rt_response = put_fields [(200, transactionWritesResponseSchema)] standardResponseSchema\<rparr>"

definition erc1155mintBatchTo :: "'w handler" where [handler_defs]:
  "erc1155mintBatchTo V q =
    (let chain = jprop (hq_params q) ''chain'';
         contractAddress = jprop (hq_params q) ''contractAddress'';
         simulateTx = jprop (hq_query q) ''simulateTx'';
         receiver = jprop (hq_body q) ''receiver'';
         metadataWithSupply = jprop (hq_body q) ''metadataWithSupply'';
         txOverrides = jprop (hq_body q) ''txOverrides'';
         walletAddress = jprop (hq_headers q) ''x-backend-wallet-address'';
         accountAddress = jprop (hq_headers q) ''x-account-address'';
         idempotencyKey = jprop (hq_headers q) ''x-idempotency-key'' in
     bnd (chainIdFrom V chain) (\<lambda>chainId.
     bnd (getContract V chainId contractAddress walletAddress accountAddress JUndefined) (\<lambda>contract.
     bnd (prepare V contract [''erc1155'', ''mintBatchTo''] [receiver, metadataWithSupply]) (\<lambda>tx.
     bnd (queue_tx V tx chainId ''erc1155'' JUndefined JUndefined simulateTx idempotencyKey txOverrides) (\<lambda>queueId.
     ret (JObj [(''result'', JObj [(''queueId'', JStr queueId)])]))))))"

section \<open>contract/extensions/erc1155/write/mintTo.ts\<close>

definition erc1155mintTo_requestBodySchema :: schema where [schema_defs]:
  "erc1155mintTo_requestBodySchema =
     SObject ([(''receiver'', True, AddressSchema), (''metadataWithSupply'', True, nftAndSupplySchema)]
     @ properties txOverridesWithValueSchema)"

definition erc1155mintTo_route :: route where [route_defs]:
  "erc1155mintTo_route = \<lparr>rt_method = ''POST'',
     rt_url = ''/contract/:chain/:contractAddress/erc1155/mint-to'',
     rt_operationId = ''erc1155-mintTo'',
     rt_tags = [''ERC1155''],
     rt_hidden = False,
     rt_params = Some erc1155ContractParamSchema,
     rt_querystring = Some requestQuerystringSchema,
     rt_body = Some erc1155mintTo_requestBodySchema,
     rt_headers = Some walletWithAAHeaderSchema,
     rt_response = put_fields [(200, transactionWritesResponseSchema)] standardResponseSchema\<rparr>"

definition erc1155mintTo :: "'w handler" where [handler_defs]:
  "erc1155mintTo V q =
    (let chain = jprop (hq_params q) ''chain'';
         contractAddress = jprop (hq_params q) ''contractAddress'';
         simulateTx = jprop (hq_query q) ''simulateTx'';
         receiver = jprop (hq_body q) ''receiver'';
         metadataWithSupply = jprop (hq_body q) ''metadataWithSupply'';
         txOverrides = jprop (hq_body q) ''txOverrides'';
         walletAddress = jprop (hq_headers q) ''x-backend-wallet-address'';
         accountAddress = jprop (hq_headers q) ''x-account-address'';
         idempotencyKey = jprop (hq_headers q) ''x-idempotency-key'' in
     bnd (chainIdFrom V chain) (\<lambda>chainId.
     bnd (getContract V chainId contractAddress walletAddress accountAddress JUndefined) (\<lambda>contract.
     bnd (prepare V contract [''erc1155'', ''mintTo''] [receiver, metadataWithSupply]) (\<lambda>tx.
     bnd (queue_tx V tx chainId ''erc1155'' JUndefined JUndefined simulateTx idempotencyKey txOverrides) (\<lambda>queueId.
     ret (JObj [(''result'', JObj [(''queueId'', JStr queueId)])]))))))"

section \<open>contract/extensions/erc1155/write/setApprovalForAll.ts\<close>

definition erc1155SetApprovalForAll_requestBodySchema :: schema where [schema_defs]:
  "erc1155SetApprovalForAll_requestBodySchema =
     SObject ([(''operator'', True, SString), (''approved'', True, SBoolean)]
     @ properties txOverridesWithValueSchema)"

definition erc1155SetApprovalForAll_route :: route where [route_defs]:
  "erc1155SetApprovalForAll_route = \<lparr>rt_method = ''POST'',
     rt_url = ''/contract/:chain/:contractAddress/erc1155/set-approval-for-all'',
     rt_operationId = ''erc1155-setApprovalForAll'',
     rt_tags = [''ERC1155''],
     rt_hidden = False,
     rt_params = Some erc1155ContractParamSchema,
     rt_querystring = Some requestQuerystringSchema,
     rt_body = Some erc1155SetApprovalForAll_requestBodySchema,
     rt_headers = Some walletWithAAHeaderSchema,
     rt_response = put_fields [(200, transactionWritesResponseSchema)] standardResponseSchema\<rparr>"

definition erc1155SetApprovalForAll :: "'w handler" where [handler_defs]:
  "erc1155SetApprovalForAll V q =
    (let chain = jprop (hq_params q) ''chain'';
         contractAddress = jprop (hq_params q) ''contractAddress'';
         simulateTx = jprop (hq_query q) ''simulateTx'';
         operator = jprop (hq_body q) ''operator'';
         approved = jprop (hq_body q) ''approved'';
         txOverrides = jprop (hq_body q) ''txOverrides'';
         walletAddress = jprop (hq_headers q) ''x-backend-wallet-address'';
         accountAddress = jprop (hq_headers q) ''x-account-address'';
         idempotencyKey = jprop (hq_headers q) ''x-idempotency-key'' in
     bnd (chainIdFrom V chain) (\<lambda>chainId.
     bnd (getContract V chainId contractAddress walletAddress accountAddress JUndefined) (\<lambda>contract.
     bnd (prepare V contract [''erc1155'', ''setApprovalForAll''] [operator, approved]) (\<lambda>tx.
     bnd (queue_tx V tx chainId ''erc1155'' JUndefined JUndefined simulateTx idempotencyKey txOverrides) (\<lambda>queueId.
     ret (JObj [(''result'', JObj [(''queueId'', JStr queueId)])]))))))"

section \<open>contract/extensions/erc1155/write/setBatchClaimConditions.ts\<close>

definition erc1155SetBatchClaimConditions_requestBodySchema :: schema where [schema_defs]:
  "erc1155SetBatchClaimConditions_requestBodySchema =
     SObject ([(''claimConditionsForToken'', True, SArray (SObject [(''tokenId'', True, SUnion [SString,
     SNumber]), (''claimConditions'', True, SArray claimConditionInputSchema)])),
     (''resetClaimEligibilityForAll'', False, SBoolean)] @ properties txOverridesWithValueSchema)"

definition erc1155SetBatchClaimConditions_route :: route where [route_defs]:
  "erc1155SetBatchClaimConditions_route = \<lparr>rt_method = ''POST'',
     rt_url = ''/contract/:chain/:contractAddress/erc1155/claim-conditions/set-batch'',
     rt_operationId = ''erc1155-claimConditionsUpdate'',
     rt_tags = [''ERC1155''],
     rt_hidden = False,
     rt_params = Some contractParamSchema,
     rt_querystring = Some requestQuerystringSchema,
     rt_body = Some erc1155SetBatchClaimConditions_requestBodySchema,
     rt_headers = Some walletWithAAHeaderSchema,
     rt_response = put_fields [(200, transactionWritesResponseSchema)] standardResponseSchema\<rparr>"

definition erc1155SetBatchClaimConditions :: "'w handler" where [handler_defs]:
  "erc1155SetBatchClaimConditions V q =
    (let chain = jprop (hq_params q) ''chain'';
         contractAddress = jprop (hq_params q) ''contractAddress'';
         simulateTx = jprop (hq_query q) ''simulateTx'';
         claimConditionsForToken = jprop (hq_body q) ''claimConditionsForToken'';
         resetClaimEligibilityForAll = jprop (hq_body q) ''resetClaimEligibilityForAll'';
         txOverrides = jprop (hq_body q) ''txOverrides'';
         walletAddress = jprop (hq_headers q) ''x-backend-wallet-address'';
         accountAddress = jprop (hq_headers q) ''x-account-address'';
         idempotencyKey = jprop (hq_headers q) ''x-idempotency-key'' in
     bnd (chainIdFrom V chain) (\<lambda>chainId.
     bnd (getContract V chainId contractAddress walletAddress accountAddress JUndefined) (\<lambda>contract.
     bnd (lift_res (js_obj [js_field ''claimConditionsForToken''
         (js_map (\<lambda>item. js_obj [js_field ''tokenId'' (js_dot (Inr item) ''tokenId''),
         js_field ''claimConditions'' (js_map (\<lambda>condition. js_obj [js_spread (Inr condition),
         js_field ''startTime'' (js_cond (js_dot (Inr condition) ''startTime'')
         (js_cond (isUnixEpochTimestamp V (js_parseInteger (js_toString
         (js_dot (Inr condition) ''startTime'')))) (js_Date V (js_times (js_parseInteger (js_toString
         (js_dot (Inr condition) ''startTime''))) (Inr (JNum (Some 1000))))) (js_Date V
         (js_dot (Inr condition) ''startTime''))) (Inr JUndefined))])
         (js_dot (Inr item) ''claimConditions''))]) (Inr claimConditionsForToken)),
         js_field ''resetClaimEligibilityForAll'' (Inr resetClaimEligibilityForAll)])) (\<lambda>sanitizedClaimConditionInputs.
     bnd (lift_res (js_dot (Inr sanitizedClaimConditionInputs) ''claimConditionsForToken'')) (\<lambda>v1.
     bnd (prepare V contract [''erc1155'', ''claimConditions'', ''setBatch''] [v1,
         resetClaimEligibilityForAll]) (\<lambda>tx.
     bnd (queue_tx V tx chainId ''erc1155'' JUndefined JUndefined simulateTx idempotencyKey txOverrides) (\<lambda>queueId.
     ret (JObj [(''result'', JObj [(''queueId'', JStr queueId)])]))))))))"

section \<open>contract/extensions/erc1155/write/setClaimConditions.ts\<close>

definition erc1155SetClaimCondition_requestBodySchema :: schema where [schema_defs]:
  "erc1155SetClaimCondition_requestBodySchema =
     SObject ([(''tokenId'', True, SUnion [SString, SNumber]), (''claimConditionInputs'', True,
     SArray claimConditionInputSchema), (''resetClaimEligibilityForAll'', False, SBoolean)]
     @ properties txOverridesWithValueSchema)"

definition erc1155SetClaimCondition_route :: route where [route_defs]:
  "erc1155SetClaimCondition_route = \<lparr>rt_method = ''POST'',
     rt_url = ''/contract/:chain/:contractAddress/erc1155/claim-conditions/set'',
     rt_operationId = ''erc1155-setClaimConditions'',
     rt_tags = [''ERC1155''],
     rt_hidden = False,
     rt_params = Some contractParamSchema,
     rt_querystring = Some requestQuerystringSchema,
     rt_body = Some erc1155SetClaimCondition_requestBodySchema,
     rt_headers = Some walletWithAAHeaderSchema,
     rt_response = put_fields [(200, transactionWritesResponseSchema)] standardResponseSchema\<rparr>"

definition erc1155SetClaimCondition :: "'w handler" where [handler_defs]:
  "erc1155SetClaimCondition V q =
    (let chain = jprop (hq_params q) ''chain'';
         contractAddress = jprop (hq_params q) ''contractAddress'';
         simulateTx = jprop (hq_query q) ''simulateTx'';
         tokenId = jprop (hq_body q) ''tokenId'';
         claimConditionInputs = jprop (hq_body q) ''claimConditionInputs'';
         resetClaimEligibilityForAll = jprop (hq_body q) ''resetClaimEligibilityForAll'';
         txOverrides = jprop (hq_body q) ''txOverrides'';
         walletAddress = jprop (hq_headers q) ''x-backend-wallet-address'';
         accountAddress = jprop (hq_headers q) ''x-account-address'';
         idempotencyKey = jprop (hq_headers q) ''x-idempotency-key'' in
     bnd (chainIdFrom V chain) (\<lambda>chainId.
     bnd (getContract V chainId contractAddress walletAddress accountAddress JUndefined) (\<lambda>contract.
     bnd (lift_res (js_map (\<lambda>item. js_obj [js_spread (Inr item), js_field ''startTime'' (js_cond
         (js_dot (Inr item) ''startTime'') (js_cond (isUnixEpochTimestamp V (js_parseInteger (js_toString
         (js_dot (Inr item) ''startTime'')))) (js_Date V (js_times (js_parseInteger (js_toString
         (js_dot (Inr item) ''startTime''))) (Inr (JNum (Some 1000))))) (js_Date V
         (js_dot (Inr item) ''startTime''))) (Inr JUndefined))]) (Inr claimConditionInputs))) (\<lambda>sanitizedClaimConditionInputs.
     bnd (prepare V contract [''erc1155'', ''claimConditions'', ''set''] [tokenId,
         sanitizedClaimConditionInputs, resetClaimEligibilityForAll]) (\<lambda>tx.
     bnd (queue_tx V tx chainId ''erc1155'' JUndefined JUndefined simulateTx idempotencyKey txOverrides) (\<lambda>queueId.
     ret (JObj [(''result'', JObj [(''queueId'', JStr queueId)])])))))))"

section \<open>contract/extensions/erc1155/write/signatureMint.ts\<close>

definition erc1155SignatureMint_requestBodySchema :: schema where [schema_defs]:
  "erc1155SignatureMint_requestBodySchema =
     SObject ([(''payload'', True, signature1155OutputSchema), (''signature'', True, SString)]
     @ properties txOverridesWithValueSchema)"

definition erc1155SignatureMint_route :: route where [route_defs]:
  "erc1155SignatureMint_route = \<lparr>rt_method = ''POST'',
     rt_url = ''/contract/:chain/:contractAddress/erc1155/signature/mint'',
     rt_operationId = ''erc1155-signatureMint'',
     rt_tags = [''ERC1155''],
     rt_hidden = False,
     rt_params = Some contractParamSchema,
     rt_querystring = Some requestQuerystringSchema,
     rt_body = Some erc1155SignatureMint_requestBodySchema,
     rt_headers = Some walletWithAAHeaderSchema,
     rt_response = put_fields [(200, transactionWritesResponseSchema)] standardResponseSchema\<rparr>"

definition erc1155SignatureMint :: "'w handler" where [handler_defs]:
  "erc1155SignatureMint V q =
    (let chain = jprop (hq_params q) ''chain'';
         contractAddress = jprop (hq_params q) ''contractAddress'';
         simulateTx = jprop (hq_query q) ''simulateTx'';
         payload = jprop (hq_body q) ''payload'';
         signature = jprop (hq_body q) ''signature'';
         txOverrides = jprop (hq_body q) ''txOverrides'';
         walletAddress = jprop (hq_headers q) ''x-backend-wallet-address'';
         accountAddress = jprop (hq_headers q) ''x-account-address'';
         idempotencyKey = jprop (hq_headers q) ''x-idempotency-key'' in
     bnd (chainIdFrom V chain) (\<lambda>chainId.
     bnd (getContract V chainId contractAddress walletAddress accountAddress JUndefined) (\<lambda>contract.
     bnd (lift_res (js_obj [js_field ''payload'' (js_obj [js_spread (Inr payload),
         js_field ''royaltyBps'' (js_BigNumber V (js_dot (Inr payload) ''royaltyBps'')),
         js_field ''quantity'' (js_BigNumber V (js_dot (Inr payload) ''quantity'')),
         js_field ''mintStartTime'' (js_BigNumber V (js_dot (Inr payload) ''mintStartTime'')),
         js_field ''mintEndTime'' (js_BigNumber V (js_dot (Inr payload) ''mintEndTime'')),
         js_field ''tokenId'' (js_BigNumber V (js_dot (Inr payload) ''tokenId''))]),
         js_field ''signature'' (Inr signature)])) (\<lambda>signedPayload.
     bnd (prepare V contract [''erc1155'', ''signature'', ''mint''] [signedPayload]) (\<lambda>tx.
     bnd (queue_tx V tx chainId ''erc1155'' JUndefined JUndefined simulateTx idempotencyKey txOverrides) (\<lambda>queueId.
     ret (JObj [(''result'', JObj [(''queueId'', JStr queueId)])])))))))"

section \<open>contract/extensions/erc1155/write/transfer.ts\<close>

definition erc1155transfer_requestBodySchema :: schema where [schema_defs]:
  "erc1155transfer_requestBodySchema =
     SObject ([(''to'', True, SString), (''tokenId'', True, SString), (''amount'', True, SString)]
     @ properties txOverridesWithValueSchema)"

definition erc1155transfer_route :: route where [route_defs]:
  "erc1155transfer_route = \<lparr>rt_method = ''POST'',
     rt_url = ''/contract/:chain/:contractAddress/erc1155/transfer'',
     rt_operationId = ''erc1155-transfer'',
     rt_tags = [''ERC1155''],
     rt_hidden = False,
     rt_params = Some erc1155ContractParamSchema,
     rt_querystring = Some requestQuerystringSchema,
     rt_body = Some erc1155transfer_requestBodySchema,
     rt_headers = Some walletWithAAHeaderSchema,
     rt_response = put_fields [(200, transactionWritesResponseSchema)] standardResponseSchema\<rparr>"

definition erc1155transfer :: "'w handler" where [handler_defs]:
  "erc1155transfer V q =
    (let chain = jprop (hq_params q) ''chain'';
         contractAddress = jprop (hq_params q) ''contractAddress'';
         simulateTx = jprop (hq_query q) ''simulateTx'';
         to = jprop (hq_body q) ''to'';
         tokenId = jprop (hq_body q) ''tokenId'';
         amount = jprop (hq_body q) ''amount'';
         txOverrides = jprop (hq_body q) ''txOverrides'';
         walletAddress = jprop (hq_headers q) ''x-backend-wallet-address'';
         accountAddress = jprop (hq_headers q) ''x-account-address'';
         idempotencyKey = jprop (hq_headers q) ''x-idempotency-key'' in
     bnd (chainIdFrom V chain) (\<lambda>chainId.
     bnd (getContract V chainId contractAddress walletAddress accountAddress JUndefined) (\<lambda>contract.
     bnd (prepare V contract [''erc1155'', ''transfer''] [to, tokenId, amount]) (\<lambda>tx.
     bnd (queue_tx V tx chainId ''erc1155'' JUndefined JUndefined simulateTx idempotencyKey txOverrides) (\<lambda>queueId.
     ret (JObj [(''result'', JObj [(''queueId'', JStr queueId)])]))))))"

section \<open>contract/extensions/erc1155/write/transferFrom.ts\<close>

definition erc1155transferFrom_requestBodySchema :: schema where [schema_defs]:
  "erc1155transferFrom_requestBodySchema =
     SObject ([(''from'', True, SString), (''to'', True, SString), (''tokenId'', True, SString),
     (''amount'', True, SString)] @ properties txOverridesWithValueSchema)"

definition erc1155transferFrom_route :: route where [route_defs]:
  "erc1155transferFrom_route = \<lparr>rt_method = ''POST'',
     rt_url = ''/contract/:chain/:contractAddress/erc1155/transfer-from'',
     rt_operationId = ''erc1155-transferFrom'',
     rt_tags = [''ERC1155''],
     rt_hidden = False,
     rt_params = Some erc1155ContractParamSchema,
     rt_querystring = Some requestQuerystringSchema,
     rt_body = Some erc1155transferFrom_requestBodySchema,
     rt_headers = Some walletWithAAHeaderSchema,
     rt_response = put_fields [(200, transactionWritesResponseSchema)] standardResponseSchema\<rparr>"

definition erc1155transferFrom :: "'w handler" where [handler_defs]:
  "erc1155transferFrom V q =
    (let chain = jprop (hq_params q) ''chain'';
         contractAddress = jprop (hq_params q) ''contractAddress'';
         simulateTx = jprop (hq_query q) ''simulateTx'';
         from = jprop (hq_body q) ''from'';
         to = jprop (hq_body q) ''to'';
         tokenId = jprop (hq_body q) ''tokenId'';
         amount = jprop (hq_body q) ''amount'';
         txOverrides = jprop (hq_body q) ''txOverrides'';
         walletAddress = jprop (hq_headers q) ''x-backend-wallet-address'';
         accountAddress = jprop (hq_headers q) ''x-account-address'';
         idempotencyKey = jprop (hq_headers q) ''x-idempotency-key'' in
     bnd (chainIdFrom V chain) (\<lambda>chainId.
     bnd (getContract V chainId contractAddress walletAddress accountAddress JUndefined) (\<lambda>contract.
     bnd (prepare V contract [''erc1155'', ''transferFrom''] [from, to, tokenId, amount]) (\<lambda>tx.
     bnd (queue_tx V tx chainId ''erc1155'' JUndefined JUndefined simulateTx idempotencyKey txOverrides) (\<lambda>queueId.
     ret (JObj [(''result'', JObj [(''queueId'', JStr queueId)])]))))))"

section \<open>contract/extensions/erc1155/write/updateClaimConditions.ts\<close>

definition erc1155UpdateClaimConditions_requestBodySchema :: schema where [schema_defs]:
  "erc1155UpdateClaimConditions_requestBodySchema =
     SObject ([(''tokenId'', True, SUnion [SString, SNumber]), (''claimConditionInput'', True,
     claimConditionInputSchema), (''index'', True, SNumber)] @ properties txOverridesWithValueSchema)"

definition erc1155UpdateClaimConditions_route :: route where [route_defs]:
  "erc1155UpdateClaimConditions_route = \<lparr>rt_method = ''POST'',
     rt_url = ''/contract/:chain/:contractAddress/erc1155/claim-conditions/update'',
     rt_operationId = ''erc1155-updateClaimConditions'',
     rt_tags = [''ERC1155''],
     rt_hidden = False,
     rt_params = Some contractParamSchema,
     rt_querystring = Some requestQuerystringSchema,
     rt_body = Some erc1155UpdateClaimConditions_requestBodySchema,
     rt_headers = Some walletWithAAHeaderSchema,
     rt_response = put_fields [(200, transactionWritesResponseSchema)] standardResponseSchema\<rparr>"

definition erc1155UpdateClaimConditions :: "'w handler" where [handler_defs]:
  "erc1155UpdateClaimConditions V q =
    (let chain = jprop (hq_params q) ''chain'';
         contractAddress = jprop (hq_params q) ''contractAddress'';
         simulateTx = jprop (hq_query q) ''simulateTx'';
         tokenId = jprop (hq_body q) ''tokenId'';
         claimConditionInput = jprop (hq_body q) ''claimConditionInput'';
         index = jprop (hq_body q) ''index'';
         txOverrides = jprop (hq_body q) ''txOverrides'';
         walletAddress = jprop (hq_headers q) ''x-backend-wallet-address'';
         accountAddress = jprop (hq_headers q) ''x-account-address'';
         idempotencyKey = jprop (hq_headers q) ''x-idempotency-key'' in
     bnd (chainIdFrom V chain) (\<lambda>chainId.
     bnd (getContract V chainId contractAddress walletAddress accountAddress JUndefined) (\<lambda>contract.
     bnd (lift_res (js_obj [js_spread (Inr claimConditionInput), js_field ''startTime'' (js_cond
         (js_dot (Inr claimConditionInput) ''startTime'') (js_cond (isUnixEpochTimestamp V (js_parseInteger
         (js_toString (js_dot (Inr claimConditionInput) ''startTime'')))) (js_Date V (js_times
         (js_parseInteger (js_toString
         (js_dot (Inr claimConditionInput) ''startTime''))) (Inr (JNum (Some 1000))))) (js_Date V
         (js_dot (Inr claimConditionInput) ''startTime''))) (Inr JUndefined))])) (\<lambda>sanitizedClaimConditionInput.
     bnd (prepare V contract [''erc1155'', ''claimConditions'', ''update''] [tokenId, index,
         sanitizedClaimConditionInput]) (\<lambda>tx.
     bnd (queue_tx V tx chainId ''erc1155'' JUndefined JUndefined simulateTx idempotencyKey txOverrides) (\<lambda>queueId.
     ret (JObj [(''result'', JObj [(''queueId'', JStr queueId)])])))))))"

section \<open>contract/extensions/erc1155/write/updateTokenMetadata.ts\<close>

definition erc1155UpdateTokenMetadata_requestBodySchema :: schema where [schema_defs]:
  "erc1155UpdateTokenMetadata_requestBodySchema =
     SObject ([(''tokenId'', True, SString), (''metadata'', True, nftMetadataInputSchema)]
     @ properties txOverridesWithValueSchema)"

definition erc1155UpdateTokenMetadata_route :: route where [route_defs]:
  "erc1155UpdateTokenMetadata_route = \<lparr>rt_method = ''POST'',
     rt_url = ''/contract/:chain/:contractAddress/erc1155/token/update'',
     rt_operationId = ''erc1155-updateTokenMetadata'',
     rt_tags = [''ERC1155''],
     rt_hidden = False,
     rt_params = Some contractParamSchema,
     rt_querystring = Some requestQuerystringSchema,
     rt_body = Some erc1155UpdateTokenMetadata_requestBodySchema,
     rt_headers = Some walletWithAAHeaderSchema,
     rt_response = put_fields [(200, transactionWritesResponseSchema)] standardResponseSchema\<rparr>"

definition erc1155UpdateTokenMetadata :: "'w handler" where [handler_defs]:
  "erc1155UpdateTokenMetadata V q =
    (let chain = jprop (hq_params q) ''chain'';
         contractAddress = jprop (hq_params q) ''contractAddress'';
         simulateTx = jprop (hq_query q) ''simulateTx'';
         tokenId = jprop (hq_body q) ''tokenId'';
         metadata = jprop (hq_body q) ''metadata'';
         txOverrides = jprop (hq_body q) ''txOverrides'';
         walletAddress = jprop (hq_headers q) ''x-backend-wallet-address'';
         accountAddress = jprop (hq_headers q) ''x-account-address'';
         idempotencyKey = jprop (hq_headers q) ''x-idempotency-key'' in
     bnd (chainIdFrom V chain) (\<lambda>chainId.
     bnd (getContract V chainId contractAddress walletAddress accountAddress JUndefined) (\<lambda>contract.
     bnd (prepare V contract [''erc1155'', ''updateMetadata''] [tokenId, metadata]) (\<lambda>tx.
     bnd (queue_tx V tx chainId ''erc1155'' JUndefined JUndefined simulateTx idempotencyKey txOverrides) (\<lambda>queueId.
     ret (JObj [(''result'', JObj [(''queueId'', JStr queueId)])]))))))"

section \<open>Lists\<close>

text \<open>The routes with their handlers, and the routes in the order in which they are registered.\<close>

definition erc1155_reads :: "(route \<times> 'w handler) list" where
  "erc1155_reads =
     [(erc1155BalanceOf_route, erc1155BalanceOf), (erc1155CanClaim_route, erc1155CanClaim),
         (erc1155Get_route, erc1155Get), (erc1155GetActiveClaimConditions_route,
         erc1155GetActiveClaimConditions), (erc1155GetAll_route, erc1155GetAll),
         (erc1155GetAllClaimConditions_route, erc1155GetAllClaimConditions),
         (erc1155GetClaimIneligibilityReasons_route, erc1155GetClaimIneligibilityReasons),
         (erc1155GetClaimerProofs_route, erc1155GetClaimerProofs), (erc1155GetOwned_route, erc1155GetOwned),
         (erc1155IsApproved_route, erc1155IsApproved), (erc1155TotalCount_route, erc1155TotalCount),
         (erc1155TotalSupply_route, erc1155TotalSupply)]"

definition erc1155_signs :: "(route \<times> 'w handler) list" where
  "erc1155_signs =
     [(erc1155SignatureGenerate_route, erc1155SignatureGenerate)]"

definition erc1155_writes :: "(route \<times> 'w handler) list" where
  "erc1155_writes =
     [(erc1155airdrop_route, erc1155airdrop), (erc1155burn_route, erc1155burn), (erc1155burnBatch_route,
         erc1155burnBatch), (erc1155claimTo_route, erc1155claimTo), (erc1155lazyMint_route,
         erc1155lazyMint), (erc1155mintAdditionalSupplyTo_route, erc1155mintAdditionalSupplyTo),
         (erc1155mintBatchTo_route, erc1155mintBatchTo), (erc1155mintTo_route, erc1155mintTo),
         (erc1155SetApprovalForAll_route, erc1155SetApprovalForAll), (erc1155SetBatchClaimConditions_route,
         erc1155SetBatchClaimConditions), (erc1155SetClaimCondition_route, erc1155SetClaimCondition),
         (erc1155SignatureMint_route, erc1155SignatureMint), (erc1155transfer_route, erc1155transfer),
         (erc1155transferFrom_route, erc1155transferFrom), (erc1155UpdateClaimConditions_route,
         erc1155UpdateClaimConditions), (erc1155UpdateTokenMetadata_route, erc1155UpdateTokenMetadata)]"

definition erc1155Routes :: "route list" where
  "erc1155Routes =
     [erc1155Get_route, erc1155GetAll_route, erc1155GetOwned_route, erc1155BalanceOf_route,
         erc1155IsApproved_route, erc1155TotalCount_route, erc1155TotalSupply_route,
         erc1155SignatureGenerate_route, erc1155CanClaim_route, erc1155GetActiveClaimConditions_route,
         erc1155GetAllClaimConditions_route, erc1155GetClaimerProofs_route,
         erc1155GetClaimIneligibilityReasons_route, erc1155airdrop_route, erc1155burn_route,
         erc1155burnBatch_route, erc1155claimTo_route, erc1155lazyMint_route,
         erc1155mintAdditionalSupplyTo_route, erc1155mintBatchTo_route, erc1155mintTo_route,
         erc1155SetApprovalForAll_route, erc1155transfer_route, erc1155transferFrom_route,
         erc1155SignatureMint_route, erc1155SetClaimCondition_route, erc1155SetBatchClaimConditions_route,
         erc1155UpdateClaimConditions_route, erc1155UpdateTokenMetadata_route]"


end
