(* ===== verification/Marketplace_Routes.thy ===== *)
theory Marketplace_Routes
  imports Sdk_Access Shared_Schemas
begin

text \<open>
  The routes of the marketplace: direct listings, english auctions and offers. Every route is the
  record of its \<open>fastify.route\<close> call with the schemas of its file, and its handler.
\<close>

section \<open>contract/extensions/marketplaceV3/directListings/read/getAll.ts\<close>

definition directListingsGetAll_responseSchema :: schema where [schema_defs]:
  "directListingsGetAll_responseSchema =
     SObject [(''result'', True, SArray directListingV3OutputSchema)]"

definition directListingsGetAll_requestQuerySchema :: schema where [schema_defs]:
  "directListingsGetAll_requestQuerySchema =
     schema_omit marketplaceFilterSchema [''offeror'']"

definition directListingsGetAll_route :: route where [route_defs]:
  "directListingsGetAll_route = \<lparr>rt_method = ''GET'',
     rt_url = ''/marketplace/:chain/:contractAddress/direct-listings/get-all'',
     rt_operationId = ''getAllDirectListings'',
     rt_tags = [''Marketplace-DirectListings''],
     rt_hidden = False,
     rt_params = Some marketplaceV3ContractParamSchema,
     rt_querystring = Some directListingsGetAll_requestQuerySchema,
     rt_body = None,
     rt_headers = None,
     rt_response = put_fields [(200, directListingsGetAll_responseSchema)] standardResponseSchema\<rparr>"

definition directListingsGetAll :: "'w handler" where [handler_defs]:
  "directListingsGetAll V q =
    (let chain = jprop (hq_params q) ''chain'';
         contractAddress = jprop (hq_params q) ''contractAddress'';
         start = jprop (hq_query q) ''start'';
         count = jprop (hq_query q) ''count'';
         seller = jprop (hq_query q) ''seller'';
         tokenContract = jprop (hq_query q) ''tokenContract'';
         tokenId = jprop (hq_query q) ''tokenId'' in
     bnd (chainIdFrom V chain) (\<lambda>chainId.
     bnd (getContract V chainId contractAddress JUndefined JUndefined JUndefined) (\<lambda>contract.
     bnd (sdk_call V contract [''directListings'', ''getAll''] [JObj [(''start'', start), (''count'',
         count), (''tokenContract'', tokenContract), (''tokenId'', tokenId), (''seller'',
         seller)]]) (\<lambda>result.
     bnd (lift_res
         (js_map (\<lambda>data. formatDirectListingV3Result (Inr data)) (Inr result))) (\<lambda>finalResult.
     ret (JObj [(''result'', finalResult)]))))))"

section \<open>contract/extensions/marketplaceV3/directListings/read/getAllValid.ts\<close>

definition directListingsGetAllValid_responseSchema :: schema where [schema_defs]:
  "directListingsGetAllValid_responseSchema =
     SObject [(''result'', True, SArray directListingV3OutputSchema)]"

definition directListingsGetAllValid_requestQuerySchema :: schema where [schema_defs]:
  "directListingsGetAllValid_requestQuerySchema =
     schema_omit marketplaceFilterSchema [''offeror'']"

definition directListingsGetAllValid_route :: route where [route_defs]:
  "directListingsGetAllValid_route = \<lparr>rt_method = ''GET'',
     rt_url = ''/marketplace/:chain/:contractAddress/direct-listings/get-all-valid'',
     rt_operationId = ''getAllValidDirectListings'',
     rt_tags = [''Marketplace-DirectListings''],
     rt_hidden = False,
     rt_params = Some marketplaceV3ContractParamSchema,
     rt_querystring = Some directListingsGetAllValid_requestQuerySchema,
     rt_body = None,
     rt_headers = None,
     rt_response = put_fields [(200, directListingsGetAllValid_responseSchema)] standardResponseSchema\<rparr>"

definition directListingsGetAllValid :: "'w handler" where [handler_defs]:
  "directListingsGetAllValid V q =
    (let chain = jprop (hq_params q) ''chain'';
         contractAddress = jprop (hq_params q) ''contractAddress'';
         start = jprop (hq_query q) ''start'';
         count = jprop (hq_query q) ''count'';
         seller = jprop (hq_query q) ''seller'';
         tokenContract = jprop (hq_query q) ''tokenContract'';
         tokenId = jprop (hq_query q) ''tokenId'' in
     bnd (chainIdFrom V chain) (\<lambda>chainId.
     bnd (getContract V chainId contractAddress JUndefined JUndefined JUndefined) (\<lambda>contract.
     bnd (sdk_call V contract [''directListings'', ''getAllValid''] [JObj [(''start'', start), (''count'',
         count), (''tokenContract'', tokenContract), (''tokenId'', tokenId), (''seller'',
         seller)]]) (\<lambda>result.
     bnd (lift_res
         (js_map (\<lambda>data. formatDirectListingV3Result (Inr data)) (Inr result))) (\<lambda>finalResult.
     ret (JObj [(''result'', finalResult)]))))))"

section \<open>contract/extensions/marketplaceV3/directListings/read/getListing.ts\<close>

definition directListingsGetListing_responseSchema :: schema where [schema_defs]:
  "directListingsGetListing_responseSchema =
     SObject [(''result'', True, directListingV3OutputSchema)]"

definition directListingsGetListing_requestQuerySchema :: schema where [schema_defs]:
  "directListingsGetListing_requestQuerySchema =
     SObject [(''listingId'', True, SString)]"

definition directListingsGetListing_route :: route where [route_defs]:
  "directListingsGetListing_route = \<lparr>rt_method = ''GET'',
     rt_url = ''/marketplace/:chain/:contractAddress/direct-listings/get-listing'',
     rt_operationId = ''getDirectListing'',
     rt_tags = [''Marketplace-DirectListings''],
     rt_hidden = False,
     rt_params = Some marketplaceV3ContractParamSchema,
     rt_querystring = Some directListingsGetListing_requestQuerySchema,
     rt_body = None,
     rt_headers = None,
     rt_response = put_fields [(200, directListingsGetListing_responseSchema)] standardResponseSchema\<rparr>"

definition directListingsGetListing :: "'w handler" where [handler_defs]:
  "directListingsGetListing V q =
    (let chain = jprop (hq_params q) ''chain'';
         contractAddress = jprop (hq_params q) ''contractAddress'';
         listingId = jprop (hq_query q) ''listingId'' in
     bnd (chainIdFrom V chain) (\<lambda>chainId.
     bnd (getContract V chainId contractAddress JUndefined JUndefined JUndefined) (\<lambda>contract.
     bnd (sdk_call V contract [''directListings'', ''getListing''] [listingId]) (\<lambda>result.
     lift_res (js_obj [js_field ''result'' (formatDirectListingV3Result (Inr result))])))))"

section \<open>contract/extensions/marketplaceV3/directListings/read/getTotalCount.ts\<close>

definition directListingsGetTotalCount_responseSchema :: schema where [schema_defs]:
  "directListingsGetTotalCount_responseSchema =
     SObject [(''result'', True, SString)]"

definition directListingsGetTotalCount_route :: route where [route_defs]:
  "directListingsGetTotalCount_route = \<lparr>rt_method = ''GET'',
     rt_url = ''/marketplace/:chain/:contractAddress/direct-listings/get-total-count'',
     rt_operationId = ''getDirectListingsTotalCount'',
     rt_tags = [''Marketplace-DirectListings''],
     rt_hidden = False,
     rt_params = Some marketplaceV3ContractParamSchema,
     rt_querystring = None,
     rt_body = None,
     rt_headers = None,
     rt_response = put_fields [(200, directListingsGetTotalCount_responseSchema)] standardResponseSchema\<rparr>"

definition directListingsGetTotalCount :: "'w handler" where [handler_defs]:
  "directListingsGetTotalCount V q =
    (let chain = jprop (hq_params q) ''chain'';
         contractAddress = jprop (hq_params q) ''contractAddress'' in
     bnd (chainIdFrom V chain) (\<lambda>chainId.
     bnd (getContract V chainId contractAddress JUndefined JUndefined JUndefined) (\<lambda>contract.
     bnd (sdk_call V contract [''directListings'', ''getTotalCount''] []) (\<lambda>result.
     lift_res (js_obj [js_field ''result'' (js_toString (Inr result))])))))"

section \<open>contract/extensions/marketplaceV3/directListings/read/isBuyerApprovedForListing.ts\<close>

definition directListingsIsBuyerApprovedForListing_responseSchema :: schema where [schema_defs]:
  "directListingsIsBuyerApprovedForListing_responseSchema =
     SObject [(''result'', True, SBoolean)]"

definition directListingsIsBuyerApprovedForListing_requestQuerySchema :: schema where [schema_defs]:
  "directListingsIsBuyerApprovedForListing_requestQuerySchema =
     SObject [(''listingId'', True, SString), (''walletAddress'', True, AddressSchema)]"

definition directListingsIsBuyerApprovedForListing_route :: route where [route_defs]:
  "directListingsIsBuyerApprovedForListing_route = \<lparr>rt_method = ''GET'',
     rt_url = ''/marketplace/:chain/:contractAddress/direct-listings/is-buyer-approved-for-listing'',
     rt_operationId = ''isBuyerApprovedForDirectListings'',
     rt_tags = [''Marketplace-DirectListings''],
     rt_hidden = False,
     rt_params = Some marketplaceV3ContractParamSchema,
     rt_querystring = Some directListingsIsBuyerApprovedForListing_requestQuerySchema,
     rt_body = None,
     rt_headers = None,
     rt_response = put_fields [(200,
         directListingsIsBuyerApprovedForListing_responseSchema)] standardResponseSchema\<rparr>"

definition directListingsIsBuyerApprovedForListing :: "'w handler" where [handler_defs]:
  "directListingsIsBuyerApprovedForListing V q =
    (let chain = jprop (hq_params q) ''chain'';
         contractAddress = jprop (hq_params q) ''contractAddress'';
         listingId = jprop (hq_query q) ''listingId'';
         walletAddress = jprop (hq_query q) ''walletAddress'' in
     bnd (chainIdFrom V chain) (\<lambda>chainId.
     bnd (getContract V chainId contractAddress JUndefined JUndefined JUndefined) (\<lambda>contract.
     bnd (sdk_call V contract [''directListings'', ''isBuyerApprovedForListing''] [listingId,
         walletAddress]) (\<lambda>result.
     ret (JObj [(''result'', result)])))))"

section \<open>contract/extensions/marketplaceV3/directListings/read/isCurrencyApprovedForListing.ts\<close>

definition directListingsIsCurrencyApprovedForListing_responseSchema :: schema where [schema_defs]:
  "directListingsIsCurrencyApprovedForListing_responseSchema =
     SObject [(''result'', True, SBoolean)]"

definition directListingsIsCurrencyApprovedForListing_requestQuerySchema :: schema where [schema_defs]:
  "directListingsIsCurrencyApprovedForListing_requestQuerySchema =
     SObject [(''listingId'', True, SString), (''currencyContractAddress'', True, AddressSchema)]"

definition directListingsIsCurrencyApprovedForListing_route :: route where [route_defs]:
  "directListingsIsCurrencyApprovedForListing_route = \<lparr>rt_method = ''GET'',
     rt_url = ''/marketplace/:chain/:contractAddress/direct-listings/is-currency-approved-for-listing'',
     rt_operationId = ''isCurrencyApprovedForDirectListings'',
     rt_tags = [''Marketplace-DirectListings''],
     rt_hidden = False,
     rt_params = Some marketplaceV3ContractParamSchema,
     rt_querystring = Some directListingsIsCurrencyApprovedForListing_requestQuerySchema,
     rt_body = None,
     rt_headers = None,
     rt_response = put_fields [(200,
         directListingsIsCurrencyApprovedForListing_responseSchema)] standardResponseSchema\<rparr>"

definition directListingsIsCurrencyApprovedForListing :: "'w handler" where [handler_defs]:
  "directListingsIsCurrencyApprovedForListing V q =
    (let chain = jprop (hq_params q) ''chain'';
         contractAddress = jprop (hq_params q) ''contractAddress'';
         listingId = jprop (hq_query q) ''listingId'';
         currencyContractAddress = jprop (hq_query q) ''currencyContractAddress'' in
     bnd (chainIdFrom V chain) (\<lambda>chainId.
     bnd (getContract V chainId contractAddress JUndefined JUndefined JUndefined) (\<lambda>contract.
     bnd (sdk_call V contract [''directListings'', ''isCurrencyApprovedForListing''] [listingId,
         currencyContractAddress]) (\<lambda>result.
     ret (JObj [(''result'', result)])))))"

section \<open>contract/extensions/marketplaceV3/directListings/write/approveBuyerForReservedListing.ts\<close>

definition directListingsApproveBuyerForReservedListing_requestBodySchema :: schema where [schema_defs]:
  "directListingsApproveBuyerForReservedListing_requestBodySchema =
     SObject ([(''listingId'', True, SString), (''buyer'', True, SString)]
     @ properties txOverridesWithValueSchema)"

definition directListingsApproveBuyerForReservedListing_route :: route where [route_defs]:
  "directListingsApproveBuyerForReservedListing_route = \<lparr>rt_method = ''POST'',
     rt_url = ''/marketplace/:chain/:contractAddress/direct-listings/approve-buyer-for-reserved-listing'',
     rt_operationId = ''approveBuyerForReservedListing'',
     rt_tags = [''Marketplace-DirectListings''],
     rt_hidden = False,
     rt_params = Some marketplaceV3ContractParamSchema,
     rt_querystring = Some requestQuerystringSchema,
     rt_body = Some directListingsApproveBuyerForReservedListing_requestBodySchema,
     rt_headers = Some walletWithAAHeaderSchema,
     rt_response = put_fields [(200, transactionWritesResponseSchema)] standardResponseSchema\<rparr>"

definition directListingsApproveBuyerForReservedListing :: "'w handler" where [handler_defs]:
  "directListingsApproveBuyerForReservedListing V q =
    (let chain = jprop (hq_params q) ''chain'';
         contractAddress = jprop (hq_params q) ''contractAddress'';
         simulateTx = jprop (hq_query q) ''simulateTx'';
         listingId = jprop (hq_body q) ''listingId'';
         buyer = jprop (hq_body q) ''buyer'';
         txOverrides = jprop (hq_body q) ''txOverrides'';
         walletAddress = jprop (hq_headers q) ''x-backend-wallet-address'';
         accountAddress = jprop (hq_headers q) ''x-account-address'';
         idempotencyKey = jprop (hq_headers q) ''x-idempotency-key'' in
     bnd (chainIdFrom V chain) (\<lambda>chainId.
     bnd (getContract V chainId contractAddress walletAddress accountAddress JUndefined) (\<lambda>contract.
     bnd (prepare V contract [''directListings'', ''approveBuyerForReservedListing''] [listingId,
         buyer]) (\<lambda>tx.
     bnd (queue_tx V tx chainId ''marketplace-v3-direct-listings'' JUndefined JUndefined simulateTx idempotencyKey txOverrides) (\<lambda>queueId.
     ret (JObj [(''result'', JObj [(''queueId'', JStr queueId)])]))))))"

section \<open>contract/extensions/marketplaceV3/directListings/write/buyFromListing.ts\<close>

definition directListingsBuyFromListing_requestBodySchema :: schema where [schema_defs]:
  "directListingsBuyFromListing_requestBodySchema =
     SObject ([(''listingId'', True, SString), (''quantity'', True, SString), (''buyer'', True,
     SString)] @ properties txOverridesWithValueSchema)"

definition directListingsBuyFromListing_route :: route where [route_defs]:
  "directListingsBuyFromListing_route = \<lparr>rt_method = ''POST'',
     rt_url = ''/marketplace/:chain/:contractAddress/direct-listings/buy-from-listing'',
     rt_operationId = ''buyFromDirectListing'',
     rt_tags = [''Marketplace-DirectListings''],
     rt_hidden = False,
     rt_params = Some marketplaceV3ContractParamSchema,
     rt_querystring = Some requestQuerystringSchema,
     rt_body = Some directListingsBuyFromListing_requestBodySchema,
     rt_headers = Some walletWithAAHeaderSchema,
     rt_response = put_fields [(200, transactionWritesResponseSchema)] standardResponseSchema\<rparr>"

definition directListingsBuyFromListing :: "'w handler" where [handler_defs]:
  "directListingsBuyFromListing V q =
    (let chain = jprop (hq_params q) ''chain'';
         contractAddress = jprop (hq_params q) ''contractAddress'';
         simulateTx = jprop (hq_query q) ''simulateTx'';
         listingId = jprop (hq_body q) ''listingId'';
         quantity = jprop (hq_body q) ''quantity'';
         buyer = jprop (hq_body q) ''buyer'';
         txOverrides = jprop (hq_body q) ''txOverrides'';
         walletAddress = jprop (hq_headers q) ''x-backend-wallet-address'';
         accountAddress = jprop (hq_headers q) ''x-account-address'';
         idempotencyKey = jprop (hq_headers q) ''x-idempotency-key'' in
     bnd (chainIdFrom V chain) (\<lambda>chainId.
     bnd (getContract V chainId contractAddress walletAddress accountAddress JUndefined) (\<lambda>contract.
     bnd (prepare V contract [''directListings'', ''buyFromListing''] [listingId, quantity,
         buyer]) (\<lambda>tx.
     bnd (queue_tx V tx chainId ''marketplace-v3-direct-listings'' JUndefined JUndefined simulateTx idempotencyKey txOverrides) (\<lambda>queueId.
     ret (JObj [(''result'', JObj [(''queueId'', JStr queueId)])]))))))"

section \<open>contract/extensions/marketplaceV3/directListings/write/cancelListing.ts\<close>

definition directListingsCancelListing_requestBodySchema :: schema where [schema_defs]:
  "directListingsCancelListing_requestBodySchema =
     SObject ([(''listingId'', True, SString)] @ properties txOverridesWithValueSchema)"

definition directListingsCancelListing_route :: route where [route_defs]:
  "directListingsCancelListing_route = \<lparr>rt_method = ''POST'',
     rt_url = ''/marketplace/:chain/:contractAddress/direct-listings/cancel-listing'',
     rt_operationId = ''cancelDirectListing'',
     rt_tags = [''Marketplace-DirectListings''],
     rt_hidden = False,
     rt_params = Some marketplaceV3ContractParamSchema,
     rt_querystring = Some requestQuerystringSchema,
     rt_body = Some directListingsCancelListing_requestBodySchema,
     rt_headers = Some walletWithAAHeaderSchema,
     rt_response = put_fields [(200, transactionWritesResponseSchema)] standardResponseSchema\<rparr>"

definition directListingsCancelListing :: "'w handler" where [handler_defs]:
  "directListingsCancelListing V q =
    (let chain = jprop (hq_params q) ''chain'';
         contractAddress = jprop (hq_params q) ''contractAddress'';
         simulateTx = jprop (hq_query q) ''simulateTx'';
         listingId = jprop (hq_body q) ''listingId'';
         txOverrides = jprop (hq_body q) ''txOverrides'';
         walletAddress = jprop (hq_headers q) ''x-backend-wallet-address'';
         accountAddress = jprop (hq_headers q) ''x-account-address'';
         idempotencyKey = jprop (hq_headers q) ''x-idempotency-key'' in
     bnd (chainIdFrom V chain) (\<lambda>chainId.
     bnd (getContract V chainId contractAddress walletAddress accountAddress JUndefined) (\<lambda>contract.
     bnd (prepare V contract [''directListings'', ''cancelListing''] [listingId]) (\<lambda>tx.
     bnd (queue_tx V tx chainId ''marketplace-v3-direct-listings'' JUndefined JUndefined simulateTx idempotencyKey txOverrides) (\<lambda>queueId.
     ret (JObj [(''result'', JObj [(''queueId'', JStr queueId)])]))))))"

section \<open>contract/extensions/marketplaceV3/directListings/write/createListing.ts\<close>

definition directListingsCreateListing_requestBodySchema :: schema where [schema_defs]:
  "directListingsCreateListing_requestBodySchema =
     SObject (properties directListingV3InputSchema @ properties txOverridesWithValueSchema)"

definition directListingsCreateListing_route :: route where [route_defs]:
  "directListingsCreateListing_route = \<lparr>rt_method = ''POST'',
     rt_url = ''/marketplace/:chain/:contractAddress/direct-listings/create-listing'',
     rt_operationId = ''createDirectListing'',
     rt_tags = [''Marketplace-DirectListings''],
     rt_hidden = False,
     rt_params = Some marketplaceV3ContractParamSchema,
     rt_querystring = Some requestQuerystringSchema,
     rt_body = Some directListingsCreateListing_requestBodySchema,
     rt_headers = Some walletWithAAHeaderSchema,
     rt_response = put_fields [(200, transactionWritesResponseSchema)] standardResponseSchema\<rparr>"

definition directListingsCreateListing :: "'w handler" where [handler_defs]:
  "directListingsCreateListing V q =
    (let chain = jprop (hq_params q) ''chain'';
         contractAddress = jprop (hq_params q) ''contractAddress'';
         simulateTx = jprop (hq_query q) ''simulateTx'';
         assetContractAddress = jprop (hq_body q) ''assetContractAddress'';
         tokenId = jprop (hq_body q) ''tokenId'';
         pricePerToken = jprop (hq_body q) ''pricePerToken'';
         currencyContractAddress = jprop (hq_body q) ''currencyContractAddress'';
         isReservedListing = jprop (hq_body q) ''isReservedListing'';
         quantity = jprop (hq_body q) ''quantity'';
         startTimestamp = jprop (hq_body q) ''startTimestamp'';
         endTimestamp = jprop (hq_body q) ''endTimestamp'';
         txOverrides = jprop (hq_body q) ''txOverrides'';
         walletAddress = jprop (hq_headers q) ''x-backend-wallet-address'';
         accountAddress = jprop (hq_headers q) ''x-account-address'';
         idempotencyKey = jprop (hq_headers q) ''x-idempotency-key'' in
     bnd (chainIdFrom V chain) (\<lambda>chainId.
     bnd (getContract V chainId contractAddress walletAddress accountAddress JUndefined) (\<lambda>contract.
     bnd (prepare V contract [''directListings'', ''createListing''] [JObj [(''assetContractAddress'',
         assetContractAddress), (''tokenId'', tokenId), (''pricePerToken'', pricePerToken),
         (''currencyContractAddress'', currencyContractAddress), (''isReservedListing'', isReservedListing),
         (''quantity'', quantity), (''startTimestamp'', startTimestamp), (''endTimestamp'',
         endTimestamp)]]) (\<lambda>tx.
     bnd (queue_tx V tx chainId ''marketplace-v3-direct-listings'' JUndefined JUndefined simulateTx idempotencyKey txOverrides) (\<lambda>queueId.
     ret (JObj [(''result'', JObj [(''queueId'', JStr queueId)])]))))))"

section \<open>contract/extensions/marketplaceV3/directListings/write/revokeBuyerApprovalForReservedListing.ts\<close>

definition directListingsRevokeBuyerApprovalForReservedListing_requestBodySchema :: schema where [schema_defs]:
  "directListingsRevokeBuyerApprovalForReservedListing_requestBodySchema =
     SObject ([(''listingId'', True, SString), (''buyerAddress'', True, AddressSchema)]
     @ properties txOverridesWithValueSchema)"

definition directListingsRevokeBuyerApprovalForReservedListing_route :: route where [route_defs]:
  "directListingsRevokeBuyerApprovalForReservedListing_route = \<lparr>rt_method = ''POST'',
     rt_url = ''/marketplace/:chain/:contractAddress/direct-listings/revoke-buyer-approval-for-reserved-listing'',
     rt_operationId = ''revokeBuyerApprovalForReservedListing'',
     rt_tags = [''Marketplace-DirectListings''],
     rt_hidden = False,
     rt_params = Some marketplaceV3ContractParamSchema,
     rt_querystring = Some requestQuerystringSchema,
     rt_body = Some directListingsRevokeBuyerApprovalForReservedListing_requestBodySchema,
     rt_headers = Some walletWithAAHeaderSchema,
     rt_response = put_fields [(200, transactionWritesResponseSchema)] standardResponseSchema\<rparr>"

definition directListingsRevokeBuyerApprovalForReservedListing :: "'w handler" where [handler_defs]:
  "directListingsRevokeBuyerApprovalForReservedListing V q =
    (let chain = jprop (hq_params q) ''chain'';
         contractAddress = jprop (hq_params q) ''contractAddress'';
         simulateTx = jprop (hq_query q) ''simulateTx'';
         listingId = jprop (hq_body q) ''listingId'';
         buyerAddress = jprop (hq_body q) ''buyerAddress'';
         txOverrides = jprop (hq_body q) ''txOverrides'';
         walletAddress = jprop (hq_headers q) ''x-backend-wallet-address'';
         accountAddress = jprop (hq_headers q) ''x-account-address'';
         idempotencyKey = jprop (hq_headers q) ''x-idempotency-key'' in
     bnd (chainIdFrom V chain) (\<lambda>chainId.
     bnd (getContract V chainId contractAddress walletAddress accountAddress JUndefined) (\<lambda>contract.
     bnd (prepare V contract [''directListings'', ''revokeBuyerApprovalForReservedListing''] [listingId,
         buyerAddress]) (\<lambda>tx.
     bnd (queue_tx V tx chainId ''marketplace-v3-direct-listings'' JUndefined JUndefined simulateTx idempotencyKey txOverrides) (\<lambda>queueId.
     ret (JObj [(''result'', JObj [(''queueId'', JStr queueId)])]))))))"

section \<open>contract/extensions/marketplaceV3/directListings/write/revokeCurrencyApprovalForListing.ts\<close>

definition directListingsRevokeCurrencyApprovalForListing_requestBodySchema :: schema where [schema_defs]:
  "directListingsRevokeCurrencyApprovalForListing_requestBodySchema =
     SObject ([(''listingId'', True, SString), (''currencyContractAddress'', True, AddressSchema)]
     @ properties txOverridesWithValueSchema)"

definition directListingsRevokeCurrencyApprovalForListing_route :: route where [route_defs]:
  "directListingsRevokeCurrencyApprovalForListing_route = \<lparr>rt_method = ''POST'',
     rt_url = ''/marketplace/:chain/:contractAddress/direct-listings/revoke-currency-approval-for-listing'',
     rt_operationId = ''revokeCurrencyApprovalForListing'',
     rt_tags = [''Marketplace-DirectListings''],
     rt_hidden = False,
     rt_params = Some marketplaceV3ContractParamSchema,
     rt_querystring = Some requestQuerystringSchema,
     rt_body = Some directListingsRevokeCurrencyApprovalForListing_requestBodySchema,
     rt_headers = Some walletWithAAHeaderSchema,
     rt_response = put_fields [(200, transactionWritesResponseSchema)] standardResponseSchema\<rparr>"

definition directListingsRevokeCurrencyApprovalForListing :: "'w handler" where [handler_defs]:
  "directListingsRevokeCurrencyApprovalForListing V q =
    (let chain = jprop (hq_params q) ''chain'';
         contractAddress = jprop (hq_params q) ''contractAddress'';
         simulateTx = jprop (hq_query q) ''simulateTx'';
         listingId = jprop (hq_body q) ''listingId'';
         currencyContractAddress = jprop (hq_body q) ''currencyContractAddress'';
         txOverrides = jprop (hq_body q) ''txOverrides'';
         walletAddress = jprop (hq_headers q) ''x-backend-wallet-address'';
         accountAddress = jprop (hq_headers q) ''x-account-address'';
         idempotencyKey = jprop (hq_headers q) ''x-idempotency-key'' in
     bnd (chainIdFrom V chain) (\<lambda>chainId.
     bnd (getContract V chainId contractAddress walletAddress accountAddress JUndefined) (\<lambda>contract.
     bnd (prepare V contract [''directListings'', ''revokeCurrencyApprovalForListing''] [listingId,
         currencyContractAddress]) (\<lambda>tx.
     bnd (queue_tx V tx chainId ''marketplace-v3-direct-listings'' JUndefined JUndefined simulateTx idempotencyKey txOverrides) (\<lambda>queueId.
     ret (JObj [(''result'', JObj [(''queueId'', JStr queueId)])]))))))"

section \<open>contract/extensions/marketplaceV3/directListings/write/updateListing.ts\<close>

definition directListingsUpdateListing_requestBodySchema :: schema where [schema_defs]:
  "directListingsUpdateListing_requestBodySchema =
     SObject ([(''listingId'', True, SString)] @ properties directListingV3InputSchema
     @ properties txOverridesWithValueSchema)"

definition directListingsUpdateListing_route :: route where [route_defs]:
  "directListingsUpdateListing_route = \<lparr>rt_method = ''POST'',
     rt_url = ''/marketplace/:chain/:contractAddress/direct-listings/update-listing'',
     rt_operationId = ''updateDirectListing'',
     rt_tags = [''Marketplace-DirectListings''],
     rt_hidden = False,
     rt_params = Some marketplaceV3ContractParamSchema,
     rt_querystring = Some requestQuerystringSchema,
     rt_body = Some directListingsUpdateListing_requestBodySchema,
     rt_headers = Some walletWithAAHeaderSchema,
     rt_response = put_fields [(200, transactionWritesResponseSchema)] standardResponseSchema\<rparr>"

definition directListingsUpdateListing :: "'w handler" where [handler_defs]:
  "directListingsUpdateListing V q =
    (let chain = jprop (hq_params q) ''chain'';
         contractAddress = jprop (hq_params q) ''contractAddress'';
         simulateTx = jprop (hq_query q) ''simulateTx'';
         listingId = jprop (hq_body q) ''listingId'';
         assetContractAddress = jprop (hq_body q) ''assetContractAddress'';
         tokenId = jprop (hq_body q) ''tokenId'';
         pricePerToken = jprop (hq_body q) ''pricePerToken'';
         currencyContractAddress = jprop (hq_body q) ''currencyContractAddress'';
         isReservedListing = jprop (hq_body q) ''isReservedListing'';
         quantity = jprop (hq_body q) ''quantity'';
         startTimestamp = jprop (hq_body q) ''startTimestamp'';
         endTimestamp = jprop (hq_body q) ''endTimestamp'';
         txOverrides = jprop (hq_body q) ''txOverrides'';
         walletAddress = jprop (hq_headers q) ''x-backend-wallet-address'';
         accountAddress = jprop (hq_headers q) ''x-account-address'';
         idempotencyKey = jprop (hq_headers q) ''x-idempotency-key'' in
     bnd (chainIdFrom V chain) (\<lambda>chainId.
     bnd (getContract V chainId contractAddress walletAddress accountAddress JUndefined) (\<lambda>contract.
     bnd (prepare V contract [''directListings'', ''updateListing''] [listingId,
         JObj [(''assetContractAddress'', assetContractAddress), (''tokenId'', tokenId), (''pricePerToken'',
         pricePerToken), (''currencyContractAddress'', currencyContractAddress), (''isReservedListing'',
         isReservedListing), (''quantity'', quantity), (''startTimestamp'', startTimestamp),
         (''endTimestamp'', endTimestamp)]]) (\<lambda>tx.
     bnd (queue_tx V tx chainId ''marketplace-v3-direct-listings'' JUndefined JUndefined simulateTx idempotencyKey txOverrides) (\<lambda>queueId.
     ret (JObj [(''result'', JObj [(''queueId'', JStr queueId)])]))))))"

section \<open>contract/extensions/marketplaceV3/englishAuctions/read/getAll.ts\<close>

definition englishAuctionsGetAll_responseSchema :: schema where [schema_defs]:
  "englishAuctionsGetAll_responseSchema =
     SObject [(''result'', True, SArray englishAuctionOutputSchema)]"

definition englishAuctionsGetAll_requestQuerySchema :: schema where [schema_defs]:
  "englishAuctionsGetAll_requestQuerySchema =
     schema_omit marketplaceFilterSchema [''offeror'']"

definition englishAuctionsGetAll_route :: route where [route_defs]:
  "englishAuctionsGetAll_route = \<lparr>rt_method = ''GET'',
     rt_url = ''/marketplace/:chain/:contractAddress/english-auctions/get-all'',
     rt_operationId = ''getAllEnglishAuctions'',
     rt_tags = [''Marketplace-EnglishAuctions''],
     rt_hidden = False,
     rt_params = Some marketplaceV3ContractParamSchema,
     rt_querystring = Some englishAuctionsGetAll_requestQuerySchema,
     rt_body = None,
     rt_headers = None,
     rt_response = put_fields [(200, englishAuctionsGetAll_responseSchema)] standardResponseSchema\<rparr>"

definition englishAuctionsGetAll :: "'w handler" where [handler_defs]:
  "englishAuctionsGetAll V q =
    (let chain = jprop (hq_params q) ''chain'';
         contractAddress = jprop (hq_params q) ''contractAddress'';
         start = jprop (hq_query q) ''start'';
         count = jprop (hq_query q) ''count'';
         seller = jprop (hq_query q) ''seller'';
         tokenContract = jprop (hq_query q) ''tokenContract'';
         tokenId = jprop (hq_query q) ''tokenId'' in
     bnd (chainIdFrom V chain) (\<lambda>chainId.
     bnd (getContract V chainId contractAddress JUndefined JUndefined JUndefined) (\<lambda>contract.
     bnd (sdk_call V contract [''englishAuctions'', ''getAll''] [JObj [(''start'', start), (''count'',
         count), (''tokenContract'', tokenContract), (''tokenId'', tokenId), (''seller'',
         seller)]]) (\<lambda>result.
     bnd (lift_res
         (js_map (\<lambda>data. formatEnglishAuctionResult (Inr data)) (Inr result))) (\<lambda>finalResult.
     ret (JObj [(''result'', finalResult)]))))))"

section \<open>contract/extensions/marketplaceV3/englishAuctions/read/getAllValid.ts\<close>

definition englishAuctionsGetAllValid_responseSchema :: schema where [schema_defs]:
  "englishAuctionsGetAllValid_responseSchema =
     SObject [(''result'', True, SArray englishAuctionOutputSchema)]"

definition englishAuctionsGetAllValid_requestQuerySchema :: schema where [schema_defs]:
  "englishAuctionsGetAllValid_requestQuerySchema =
     schema_omit marketplaceFilterSchema [''offeror'']"

definition englishAuctionsGetAllValid_route :: route where [route_defs]:
  "englishAuctionsGetAllValid_route = \<lparr>rt_method = ''GET'',
     rt_url = ''/marketplace/:chain/:contractAddress/english-auctions/get-all-valid'',
     rt_operationId = ''getAllValidEnglishAuctions'',
     rt_tags = [''Marketplace-EnglishAuctions''],
     rt_hidden = False,
     rt_params = Some marketplaceV3ContractParamSchema,
     rt_querystring = Some englishAuctionsGetAllValid_requestQuerySchema,
     rt_body = None,
     rt_headers = None,
     rt_response = put_fields [(200, englishAuctionsGetAllValid_responseSchema)] standardResponseSchema\<rparr>"

definition englishAuctionsGetAllValid :: "'w handler" where [handler_defs]:
  "englishAuctionsGetAllValid V q =
    (let chain = jprop (hq_params q) ''chain'';
         contractAddress = jprop (hq_params q) ''contractAddress'';
         start = jprop (hq_query q) ''start'';
         count = jprop (hq_query q) ''count'';
         seller = jprop (hq_query q) ''seller'';
         tokenContract = jprop (hq_query q) ''tokenContract'';
         tokenId = jprop (hq_query q) ''tokenId'' in
     bnd (chainIdFrom V chain) (\<lambda>chainId.
     bnd (getContract V chainId contractAddress JUndefined JUndefined JUndefined) (\<lambda>contract.
     bnd (sdk_call V contract [''englishAuctions'', ''getAllValid''] [JObj [(''start'', start), (''count'',
         count), (''tokenContract'', tokenContract), (''tokenId'', tokenId), (''seller'',
         seller)]]) (\<lambda>result.
     bnd (lift_res
         (js_map (\<lambda>data. formatEnglishAuctionResult (Inr data)) (Inr result))) (\<lambda>finalResult.
     ret (JObj [(''result'', finalResult)]))))))"

section \<open>contract/extensions/marketplaceV3/englishAuctions/read/getAuction.ts\<close>

definition englishAuctionsGetAuction_responseSchema :: schema where [schema_defs]:
  "englishAuctionsGetAuction_responseSchema =
     SObject [(''result'', True, englishAuctionOutputSchema)]"

definition englishAuctionsGetAuction_requestQuerySchema :: schema where [schema_defs]:
  "englishAuctionsGetAuction_requestQuerySchema =
     SObject [(''listingId'', True, SString)]"

definition englishAuctionsGetAuction_route :: route where [route_defs]:
  "englishAuctionsGetAuction_route = \<lparr>rt_method = ''GET'',
     rt_url = ''/marketplace/:chain/:contractAddress/english-auctions/get-auction'',
     rt_operationId = ''getEnglishAuction'',
     rt_tags = [''Marketplace-EnglishAuctions''],
     rt_hidden = False,
     rt_params = Some marketplaceV3ContractParamSchema,
     rt_querystring = Some englishAuctionsGetAuction_requestQuerySchema,
     rt_body = None,
     rt_headers = None,
     rt_response = put_fields [(200, englishAuctionsGetAuction_responseSchema)] standardResponseSchema\<rparr>"

definition englishAuctionsGetAuction :: "'w handler" where [handler_defs]:
  "englishAuctionsGetAuction V q =
    (let chain = jprop (hq_params q) ''chain'';
         contractAddress = jprop (hq_params q) ''contractAddress'';
         listingId = jprop (hq_query q) ''listingId'' in
     bnd (chainIdFrom V chain) (\<lambda>chainId.
     bnd (getContract V chainId contractAddress JUndefined JUndefined JUndefined) (\<lambda>contract.
     bnd (sdk_call V contract [''englishAuctions'', ''getAuction''] [listingId]) (\<lambda>result.
     lift_res (js_obj [js_field ''result'' (formatEnglishAuctionResult (Inr result))])))))"

section \<open>contract/extensions/marketplaceV3/englishAuctions/read/getBidBufferBps.ts\<close>

definition englishAuctionsGetBidBufferBps_responseSchema :: schema where [schema_defs]:
  "englishAuctionsGetBidBufferBps_responseSchema =
     SObject [(''result'', True, SNumber)]"

definition englishAuctionsGetBidBufferBps_requestQuerySchema :: schema where [schema_defs]:
  "englishAuctionsGetBidBufferBps_requestQuerySchema =
     SObject [(''listingId'', True, SString)]"

definition englishAuctionsGetBidBufferBps_route :: route where [route_defs]:
  "englishAuctionsGetBidBufferBps_route = \<lparr>rt_method = ''GET'',
     rt_url = ''/marketplace/:chain/:contractAddress/english-auctions/get-bid-buffer-bps'',
     rt_operationId = ''getEnglishAuctionsBidBufferBps'',
     rt_tags = [''Marketplace-EnglishAuctions''],
     rt_hidden = False,
     rt_params = Some marketplaceV3ContractParamSchema,
     rt_querystring = Some englishAuctionsGetBidBufferBps_requestQuerySchema,
     rt_body = None,
     rt_headers = None,
     rt_response = put_fields [(200, englishAuctionsGetBidBufferBps_responseSchema)] standardResponseSchema\<rparr>"

definition englishAuctionsGetBidBufferBps :: "'w handler" where [handler_defs]:
  "englishAuctionsGetBidBufferBps V q =
    (let chain = jprop (hq_params q) ''chain'';
         contractAddress = jprop (hq_params q) ''contractAddress'';
         listingId = jprop (hq_query q) ''listingId'' in
     bnd (chainIdFrom V chain) (\<lambda>chainId.
     bnd (getContract V chainId contractAddress JUndefined JUndefined JUndefined) (\<lambda>contract.
     bnd (sdk_call V contract [''englishAuctions'', ''getBidBufferBps''] [listingId]) (\<lambda>result.
     ret (JObj [(''result'', result)])))))"

section \<open>contract/extensions/marketplaceV3/englishAuctions/read/getMinimumNextBid.ts\<close>

definition englishAuctionsGetMinimumNextBid_responseSchema :: schema where [schema_defs]:
  "englishAuctionsGetMinimumNextBid_responseSchema =
     SObject [(''result'', True, currencyValueSchema)]"

definition englishAuctionsGetMinimumNextBid_requestQuerySchema :: schema where [schema_defs]:
  "englishAuctionsGetMinimumNextBid_requestQuerySchema =
     SObject [(''listingId'', True, SString)]"

definition englishAuctionsGetMinimumNextBid_route :: route where [route_defs]:
  "englishAuctionsGetMinimumNextBid_route = \<lparr>rt_method = ''GET'',
     rt_url = ''/marketplace/:chain/:contractAddress/english-auctions/get-minimum-next-bid'',
     rt_operationId = ''getEnglishAuctionsMinimumNextBid'',
     rt_tags = [''Marketplace-EnglishAuctions''],
     rt_hidden = False,
     rt_params = Some marketplaceV3ContractParamSchema,
     rt_querystring = Some englishAuctionsGetMinimumNextBid_requestQuerySchema,
     rt_body = None,
     rt_headers = None,
     rt_response = put_fields [(200,
         englishAuctionsGetMinimumNextBid_responseSchema)] standardResponseSchema\<rparr>"

definition englishAuctionsGetMinimumNextBid :: "'w handler" where [handler_defs]:
  "englishAuctionsGetMinimumNextBid V q =
    (let chain = jprop (hq_params q) ''chain'';
         contractAddress = jprop (hq_params q) ''contractAddress'';
         listingId = jprop (hq_query q) ''listingId'' in
     bnd (chainIdFrom V chain) (\<lambda>chainId.
     bnd (getContract V chainId contractAddress JUndefined JUndefined JUndefined) (\<lambda>contract.
     bnd (sdk_call V contract [''englishAuctions'', ''getMinimumNextBid''] [listingId]) (\<lambda>result.
     lift_res (js_obj [js_field ''result'' (js_obj [js_spread (Inr result),
         js_field ''value'' (js_toString (js_dot (Inr result) ''value''))])])))))"

section \<open>contract/extensions/marketplaceV3/englishAuctions/read/getTotalCount.ts\<close>

definition englishAuctionsGetTotalCount_responseSchema :: schema where [schema_defs]:
  "englishAuctionsGetTotalCount_responseSchema =
     SObject [(''result'', True, SString)]"

definition englishAuctionsGetTotalCount_route :: route where [route_defs]:
  "englishAuctionsGetTotalCount_route = \<lparr>rt_method = ''GET'',
     rt_url = ''/marketplace/:chain/:contractAddress/english-auctions/get-total-count'',
     rt_operationId = ''getEnglishAuctionsTotalCount'',
     rt_tags = [''Marketplace-EnglishAuctions''],
     rt_hidden = False,
     rt_params = Some marketplaceV3ContractParamSchema,
     rt_querystring = None,
     rt_body = None,
     rt_headers = None,
     rt_response = put_fields [(200, englishAuctionsGetTotalCount_responseSchema)] standardResponseSchema\<rparr>"

definition englishAuctionsGetTotalCount :: "'w handler" where [handler_defs]:
  "englishAuctionsGetTotalCount V q =
    (let chain = jprop (hq_params q) ''chain'';
         contractAddress = jprop (hq_params q) ''contractAddress'' in
     bnd (chainIdFrom V chain) (\<lambda>chainId.
     bnd (getContract V chainId contractAddress JUndefined JUndefined JUndefined) (\<lambda>contract.
     bnd (sdk_call V contract [''englishAuctions'', ''getTotalCount''] []) (\<lambda>result.
     lift_res (js_obj [js_field ''result'' (js_toString (Inr result))])))))"

section \<open>contract/extensions/marketplaceV3/englishAuctions/read/getWinner.ts\<close>

definition englishAuctionsGetWinner_responseSchema :: schema where [schema_defs]:
  "englishAuctionsGetWinner_responseSchema =
     SObject [(''result'', True, SString)]"

definition englishAuctionsGetWinner_requestQuerySchema :: schema where [schema_defs]:
  "englishAuctionsGetWinner_requestQuerySchema =
     SObject [(''listingId'', True, SString)]"

definition englishAuctionsGetWinner_route :: route where [route_defs]:
  "englishAuctionsGetWinner_route = \<lparr>rt_method = ''GET'',
     rt_url = ''/marketplace/:chain/:contractAddress/english-auctions/get-winner'',
     rt_operationId = ''getEnglishAuctionsWinner'',
     rt_tags = [''Marketplace-EnglishAuctions''],
     rt_hidden = False,
     rt_params = Some marketplaceV3ContractParamSchema,
     rt_querystring = Some englishAuctionsGetWinner_requestQuerySchema,
     rt_body = None,
     rt_headers = None,
     rt_response = put_fields [(200, englishAuctionsGetWinner_responseSchema)] standardResponseSchema\<rparr>"

definition englishAuctionsGetWinner :: "'w handler" where [handler_defs]:
  "englishAuctionsGetWinner V q =
    (let chain = jprop (hq_params q) ''chain'';
         contractAddress = jprop (hq_params q) ''contractAddress'';
         listingId = jprop (hq_query q) ''listingId'' in
     bnd (chainIdFrom V chain) (\<lambda>chainId.
     bnd (getContract V chainId contractAddress JUndefined JUndefined JUndefined) (\<lambda>contract.
     bnd (sdk_call V contract [''englishAuctions'', ''getWinner''] [listingId]) (\<lambda>result.
     ret (JObj [(''result'', result)])))))"

section \<open>contract/extensions/marketplaceV3/englishAuctions/read/getWinningBid.ts\<close>

definition englishAuctionsGetWinningBid_responseSchema :: schema where [schema_defs]:
  "englishAuctionsGetWinningBid_responseSchema =
     SObject [(''result'', False, bidSchema)]"

definition englishAuctionsGetWinningBid_requestQuerySchema :: schema where [schema_defs]:
  "englishAuctionsGetWinningBid_requestQuerySchema =
     SObject [(''listingId'', True, SString)]"

definition englishAuctionsGetWinningBid_route :: route where [route_defs]:
  "englishAuctionsGetWinningBid_route = \<lparr>rt_method = ''GET'',
     rt_url = ''/marketplace/:chain/:contractAddress/english-auctions/get-winning-bid'',
     rt_operationId = ''getEnglishAuctionsWinningBid'',
     rt_tags = [''Marketplace-EnglishAuctions''],
     rt_hidden = False,
     rt_params = Some marketplaceV3ContractParamSchema,
     rt_querystring = Some englishAuctionsGetWinningBid_requestQuerySchema,
     rt_body = None,
     rt_headers = None,
     rt_response = put_fields [(200, englishAuctionsGetWinningBid_responseSchema)] standardResponseSchema\<rparr>"

definition englishAuctionsGetWinningBid :: "'w handler" where [handler_defs]:
  "englishAuctionsGetWinningBid V q =
    (let chain = jprop (hq_params q) ''chain'';
         contractAddress = jprop (hq_params q) ''contractAddress'';
         listingId = jprop (hq_query q) ''listingId'' in
     bnd (chainIdFrom V chain) (\<lambda>chainId.
     bnd (getContract V chainId contractAddress JUndefined JUndefined JUndefined) (\<lambda>contract.
     bnd (sdk_call V contract [''englishAuctions'', ''getWinningBid''] [listingId]) (\<lambda>result.
     lift_res (js_obj [js_field ''result'' (js_obj [js_spread (Inr result),
         js_field ''bidAmountCurrencyValue'' (js_obj [js_spread
         (js_chain (Inr result) (\<lambda>c7. js_dot c7 ''bidAmountCurrencyValue'')), js_field ''value''
         (js_chain (Inr result) (\<lambda>c8. js_toString (js_dot
         (js_dot c8 ''bidAmountCurrencyValue'') ''value'')))])])])))))"

section \<open>contract/extensions/marketplaceV3/englishAuctions/read/isWinningBid.ts\<close>

definition englishAuctionsIsWinningBid_responseSchema :: schema where [schema_defs]:
  "englishAuctionsIsWinningBid_responseSchema =
     SObject [(''result'', True, SBoolean)]"

definition englishAuctionsIsWinningBid_requestQuerySchema :: schema where [schema_defs]:
  "englishAuctionsIsWinningBid_requestQuerySchema =
     SObject [(''listingId'', True, SString), (''bidAmount'', True, SString)]"

definition englishAuctionsIsWinningBid_route :: route where [route_defs]:
  "englishAuctionsIsWinningBid_route = \<lparr>rt_method = ''GET'',
     rt_url = ''/marketplace/:chain/:contractAddress/english-auctions/is-winning-bid'',
     rt_operationId = ''isEnglishAuctionsWinningBid'',
     rt_tags = [''Marketplace-EnglishAuctions''],
     rt_hidden = False,
     rt_params = Some marketplaceV3ContractParamSchema,
     rt_querystring = Some englishAuctionsIsWinningBid_requestQuerySchema,
     rt_body = None,
     rt_headers = None,
     rt_response = put_fields [(200, englishAuctionsIsWinningBid_responseSchema)] standardResponseSchema\<rparr>"

definition englishAuctionsIsWinningBid :: "'w handler" where [handler_defs]:
  "englishAuctionsIsWinningBid V q =
    (let chain = jprop (hq_params q) ''chain'';
         contractAddress = jprop (hq_params q) ''contractAddress'';
         listingId = jprop (hq_query q) ''listingId'';
         bidAmount = jprop (hq_query q) ''bidAmount'' in
     bnd (chainIdFrom V chain) (\<lambda>chainId.
     bnd (getContract V chainId contractAddress JUndefined JUndefined JUndefined) (\<lambda>contract.
     bnd (sdk_call V contract [''englishAuctions'', ''isWinningBid''] [listingId,
         bidAmount]) (\<lambda>result.
     ret (JObj [(''result'', result)])))))"

section \<open>contract/extensions/marketplaceV3/englishAuctions/write/buyoutAuction.ts\<close>

definition englishAuctionsBuyoutAuction_requestBodySchema :: schema where [schema_defs]:
  "englishAuctionsBuyoutAuction_requestBodySchema =
     SObject [(''listingId'', True, SString)]"

definition englishAuctionsBuyoutAuction_route :: route where [route_defs]:
  "englishAuctionsBuyoutAuction_route = \<lparr>rt_method = ''POST'',
     rt_url = ''/marketplace/:chain/:contractAddress/english-auctions/buyout-auction'',
     rt_operationId = ''buyoutEnglishAuction'',
     rt_tags = [''Marketplace-EnglishAuctions''],
     rt_hidden = False,
     rt_params = Some marketplaceV3ContractParamSchema,
     rt_querystring = Some requestQuerystringSchema,
     rt_body = Some englishAuctionsBuyoutAuction_requestBodySchema,
     rt_headers = None,
     rt_response = put_fields [(200, transactionWritesResponseSchema)] standardResponseSchema\<rparr>"

definition englishAuctionsBuyoutAuction :: "'w handler" where [handler_defs]:
  "englishAuctionsBuyoutAuction V q =
    (let chain = jprop (hq_params q) ''chain'';
         contractAddress = jprop (hq_params q) ''contractAddress'';
         simulateTx = jprop (hq_query q) ''simulateTx'';
         listingId = jprop (hq_body q) ''listingId'';
         walletAddress = jprop (hq_headers q) ''x-backend-wallet-address'';
         accountAddress = jprop (hq_headers q) ''x-account-address'' in
     bnd (chainIdFrom V chain) (\<lambda>chainId.
     bnd (getContract V chainId contractAddress walletAddress accountAddress JUndefined) (\<lambda>contract.
     bnd (prepare V contract [''englishAuctions'', ''buyoutAuction''] [listingId]) (\<lambda>tx.
     bnd (queue_tx V tx chainId ''marketplace-v3-english-auctions'' JUndefined JUndefined simulateTx JUndefined JUndefined) (\<lambda>queueId.
     ret (JObj [(''result'', JObj [(''queueId'', JStr queueId)])]))))))"

section \<open>contract/extensions/marketplaceV3/englishAuctions/write/cancelAuction.ts\<close>

definition englishAuctionsCancelAuction_requestBodySchema :: schema where [schema_defs]:
  "englishAuctionsCancelAuction_requestBodySchema =
     SObject [(''listingId'', True, SString)]"

definition englishAuctionsCancelAuction_route :: route where [route_defs]:
  "englishAuctionsCancelAuction_route = \<lparr>rt_method = ''POST'',
     rt_url = ''/marketplace/:chain/:contractAddress/english-auctions/cancel-auction'',
     rt_operationId = ''cancelEnglishAuction'',
     rt_tags = [''Marketplace-EnglishAuctions''],
     rt_hidden = False,
     rt_params = Some marketplaceV3ContractParamSchema,
     rt_querystring = Some requestQuerystringSchema,
     rt_body = Some englishAuctionsCancelAuction_requestBodySchema,
     rt_headers = None,
     rt_response = put_fields [(200, transactionWritesResponseSchema)] standardResponseSchema\<rparr>"

definition englishAuctionsCancelAuction :: "'w handler" where [handler_defs]:
  "englishAuctionsCancelAuction V q =
    (let chain = jprop (hq_params q) ''chain'';
         contractAddress = jprop (hq_params q) ''contractAddress'';
         simulateTx = jprop (hq_query q) ''simulateTx'';
         listingId = jprop (hq_body q) ''listingId'';
         walletAddress = jprop (hq_headers q) ''x-backend-wallet-address'';
         accountAddress = jprop (hq_headers q) ''x-account-address'' in
     bnd (chainIdFrom V chain) (\<lambda>chainId.
     bnd (getContract V chainId contractAddress walletAddress accountAddress JUndefined) (\<lambda>contract.
     bnd (prepare V contract [''englishAuctions'', ''cancelAuction''] [listingId]) (\<lambda>tx.
     bnd (queue_tx V tx chainId ''marketplace-v3-english-auctions'' JUndefined JUndefined simulateTx JUndefined JUndefined) (\<lambda>queueId.
     ret (JObj [(''result'', JObj [(''queueId'', JStr queueId)])]))))))"

section \<open>contract/extensions/marketplaceV3/englishAuctions/write/closeAuctionForBidder.ts\<close>

definition englishAuctionsCloseAuctionForBidder_requestBodySchema :: schema where [schema_defs]:
  "englishAuctionsCloseAuctionForBidder_requestBodySchema =
     SObject [(''listingId'', True, SString)]"

definition englishAuctionsCloseAuctionForBidder_route :: route where [route_defs]:
  "englishAuctionsCloseAuctionForBidder_route = \<lparr>rt_method = ''POST'',
     rt_url = ''/marketplace/:chain/:contractAddress/english-auctions/close-auction-for-bidder'',
     rt_operationId = ''closeEnglishAuctionForBidder'',
     rt_tags = [''Marketplace-EnglishAuctions''],
     rt_hidden = False,
     rt_params = Some marketplaceV3ContractParamSchema,
     rt_querystring = Some requestQuerystringSchema,
     rt_body = Some englishAuctionsCloseAuctionForBidder_requestBodySchema,
     rt_headers = None,
     rt_response = put_fields [(200, transactionWritesResponseSchema)] standardResponseSchema\<rparr>"

definition englishAuctionsCloseAuctionForBidder :: "'w handler" where [handler_defs]:
  "englishAuctionsCloseAuctionForBidder V q =
    (let chain = jprop (hq_params q) ''chain'';
         contractAddress = jprop (hq_params q) ''contractAddress'';
         simulateTx = jprop (hq_query q) ''simulateTx'';
         listingId = jprop (hq_body q) ''listingId'';
         walletAddress = jprop (hq_headers q) ''x-backend-wallet-address'';
         accountAddress = jprop (hq_headers q) ''x-account-address'' in
     bnd (chainIdFrom V chain) (\<lambda>chainId.
     bnd (getContract V chainId contractAddress walletAddress accountAddress JUndefined) (\<lambda>contract.
     bnd (prepare V contract [''englishAuctions'', ''closeAuctionForBidder''] [listingId]) (\<lambda>tx.
     bnd (queue_tx V tx chainId ''marketplace-v3-english-auctions'' JUndefined JUndefined simulateTx JUndefined JUndefined) (\<lambda>queueId.
     ret (JObj [(''result'', JObj [(''queueId'', JStr queueId)])]))))))"

section \<open>contract/extensions/marketplaceV3/englishAuctions/write/closeAuctionForSeller.ts\<close>

definition englishAuctionsCloseAuctionForSeller_requestBodySchema :: schema where [schema_defs]:
  "englishAuctionsCloseAuctionForSeller_requestBodySchema =
     SObject [(''listingId'', True, SString)]"

definition englishAuctionsCloseAuctionForSeller_route :: route where [route_defs]:
  "englishAuctionsCloseAuctionForSeller_route = \<lparr>rt_method = ''POST'',
     rt_url = ''/marketplace/:chain/:contractAddress/english-auctions/close-auction-for-seller'',
     rt_operationId = ''closeEnglishAuctionForSeller'',
     rt_tags = [''Marketplace-EnglishAuctions''],
     rt_hidden = False,
     rt_params = Some marketplaceV3ContractParamSchema,
     rt_querystring = Some requestQuerystringSchema,
     rt_body = Some englishAuctionsCloseAuctionForSeller_requestBodySchema,
     rt_headers = None,
     rt_response = put_fields [(200, transactionWritesResponseSchema)] standardResponseSchema\<rparr>"

definition englishAuctionsCloseAuctionForSeller :: "'w handler" where [handler_defs]:
  "englishAuctionsCloseAuctionForSeller V q =
    (let chain = jprop (hq_params q) ''chain'';
         contractAddress = jprop (hq_params q) ''contractAddress'';
         simulateTx = jprop (hq_query q) ''simulateTx'';
         listingId = jprop (hq_body q) ''listingId'';
         walletAddress = jprop (hq_headers q) ''x-backend-wallet-address'';
         accountAddress = jprop (hq_headers q) ''x-account-address'' in
     bnd (chainIdFrom V chain) (\<lambda>chainId.
     bnd (getContract V chainId contractAddress walletAddress accountAddress JUndefined) (\<lambda>contract.
     bnd (prepare V contract [''englishAuctions'', ''closeAuctionForSeller''] [listingId]) (\<lambda>tx.
     bnd (queue_tx V tx chainId ''marketplace-v3-english-auctions'' JUndefined JUndefined simulateTx JUndefined JUndefined) (\<lambda>queueId.
     ret (JObj [(''result'', JObj [(''queueId'', JStr queueId)])]))))))"

section \<open>contract/extensions/marketplaceV3/englishAuctions/write/createAuction.ts\<close>

definition englishAuctionsCreateAuction_route :: route where [route_defs]:
  "englishAuctionsCreateAuction_route = \<lparr>rt_method = ''POST'',
     rt_url = ''/marketplace/:chain/:contractAddress/english-auctions/create-auction'',
     rt_operationId = ''createEnglishAuction'',
     rt_tags = [''Marketplace-EnglishAuctions''],
     rt_hidden = False,
     rt_params = Some marketplaceV3ContractParamSchema,
     rt_querystring = Some requestQuerystringSchema,
     rt_body = Some englishAuctionInputSchema,
     rt_headers = None,
     rt_response = put_fields [(200, transactionWritesResponseSchema)] standardResponseSchema\<rparr>"

definition englishAuctionsCreateAuction :: "'w handler" where [handler_defs]:
  "englishAuctionsCreateAuction V q =
    (let chain = jprop (hq_params q) ''chain'';
         contractAddress = jprop (hq_params q) ''contractAddress'';
         simulateTx = jprop (hq_query q) ''simulateTx'';
         assetContractAddress = jprop (hq_body q) ''assetContractAddress'';
         tokenId = jprop (hq_body q) ''tokenId'';
         buyoutBidAmount = jprop (hq_body q) ''buyoutBidAmount'';
         minimumBidAmount = jprop (hq_body q) ''minimumBidAmount'';
         currencyContractAddress = jprop (hq_body q) ''currencyContractAddress'';
         quantity = jprop (hq_body q) ''quantity'';
         startTimestamp = jprop (hq_body q) ''startTimestamp'';
         endTimestamp = jprop (hq_body q) ''endTimestamp'';
         bidBufferBps = jprop (hq_body q) ''bidBufferBps'';
         timeBufferInSeconds = jprop (hq_body q) ''timeBufferInSeconds'';
         walletAddress = jprop (hq_headers q) ''x-backend-wallet-address'';
         accountAddress = jprop (hq_headers q) ''x-account-address'' in
     bnd (chainIdFrom V chain) (\<lambda>chainId.
     bnd (getContract V chainId contractAddress walletAddress accountAddress JUndefined) (\<lambda>contract.
     bnd (prepare V contract [''englishAuctions'', ''createAuction''] [JObj [(''assetContractAddress'',
         assetContractAddress), (''tokenId'', tokenId), (''buyoutBidAmount'', buyoutBidAmount),
         (''minimumBidAmount'', minimumBidAmount), (''currencyContractAddress'', currencyContractAddress),
         (''quantity'', quantity), (''startTimestamp'', startTimestamp), (''endTimestamp'', endTimestamp),
         (''bidBufferBps'', bidBufferBps), (''timeBufferInSeconds'', timeBufferInSeconds)]]) (\<lambda>tx.
     bnd (queue_tx V tx chainId ''marketplace-v3-english-auctions'' JUndefined JUndefined simulateTx JUndefined JUndefined) (\<lambda>queueId.
     ret (JObj [(''result'', JObj [(''queueId'', JStr queueId)])]))))))"

section \<open>contract/extensions/marketplaceV3/englishAuctions/write/executeSale.ts\<close>

definition englishAuctionsExecuteSale_requestBodySchema :: schema where [schema_defs]:
  "englishAuctionsExecuteSale_requestBodySchema =
     SObject [(''listingId'', True, SString)]"

definition englishAuctionsExecuteSale_route :: route where [route_defs]:
  "englishAuctionsExecuteSale_route = \<lparr>rt_method = ''POST'',
     rt_url = ''/marketplace/:chain/:contractAddress/english-auctions/execute-sale'',
     rt_operationId = ''executeEnglishAuctionSale'',
     rt_tags = [''Marketplace-EnglishAuctions''],
     rt_hidden = False,
     rt_params = Some marketplaceV3ContractParamSchema,
     rt_querystring = Some requestQuerystringSchema,
     rt_body = Some englishAuctionsExecuteSale_requestBodySchema,
     rt_headers = None,
     rt_response = put_fields [(200, transactionWritesResponseSchema)] standardResponseSchema\<rparr>"

definition englishAuctionsExecuteSale :: "'w handler" where [handler_defs]:
  "englishAuctionsExecuteSale V q =
    (let chain = jprop (hq_params q) ''chain'';
         contractAddress = jprop (hq_params q) ''contractAddress'';
         simulateTx = jprop (hq_query q) ''simulateTx'';
         listingId = jprop (hq_body q) ''listingId'';
         walletAddress = jprop (hq_headers q) ''x-backend-wallet-address'';
         accountAddress = jprop (hq_headers q) ''x-account-address'' in
     bnd (chainIdFrom V chain) (\<lambda>chainId.
     bnd (getContract V chainId contractAddress walletAddress accountAddress JUndefined) (\<lambda>contract.
     bnd (prepare V contract [''englishAuctions'', ''executeSale''] [listingId]) (\<lambda>tx.
     bnd (queue_tx V tx chainId ''marketplace-v3-english-auctions'' JUndefined JUndefined simulateTx JUndefined JUndefined) (\<lambda>queueId.
     ret (JObj [(''result'', JObj [(''queueId'', JStr queueId)])]))))))"

section \<open>contract/extensions/marketplaceV3/englishAuctions/write/makeBid.ts\<close>

definition englishAuctionsMakeBid_requestBodySchema :: schema where [schema_defs]:
  "englishAuctionsMakeBid_requestBodySchema =
     SObject [(''listingId'', True, SString), (''bidAmount'', True, SString)]"

definition englishAuctionsMakeBid_route :: route where [route_defs]:
  "englishAuctionsMakeBid_route = \<lparr>rt_method = ''POST'',
     rt_url = ''/marketplace/:chain/:contractAddress/english-auctions/make-bid'',
     rt_operationId = ''makeEnglishAuctionBid'',
     rt_tags = [''Marketplace-EnglishAuctions''],
     rt_hidden = False,
     rt_params = Some marketplaceV3ContractParamSchema,
     rt_querystring = Some requestQuerystringSchema,
     rt_body = Some englishAuctionsMakeBid_requestBodySchema,
     rt_headers = None,
     rt_response = put_fields [(200, transactionWritesResponseSchema)] standardResponseSchema\<rparr>"

definition englishAuctionsMakeBid :: "'w handler" where [handler_defs]:
  "englishAuctionsMakeBid V q =
    (let chain = jprop (hq_params q) ''chain'';
         contractAddress = jprop (hq_params q) ''contractAddress'';
         simulateTx = jprop (hq_query q) ''simulateTx'';
         listingId = jprop (hq_body q) ''listingId'';
         bidAmount = jprop (hq_body q) ''bidAmount'';
         walletAddress = jprop (hq_headers q) ''x-backend-wallet-address'';
         accountAddress = jprop (hq_headers q) ''x-account-address'' in
     bnd (chainIdFrom V chain) (\<lambda>chainId.
     bnd (getContract V chainId contractAddress walletAddress accountAddress JUndefined) (\<lambda>contract.
     bnd (prepare V contract [''englishAuctions'', ''makeBid''] [listingId, bidAmount]) (\<lambda>tx.
     bnd (queue_tx V tx chainId ''marketplace-v3-english-auctions'' JUndefined JUndefined simulateTx JUndefined JUndefined) (\<lambda>queueId.
     ret (JObj [(''result'', JObj [(''queueId'', JStr queueId)])]))))))"

section \<open>contract/extensions/marketplaceV3/offers/read/getAll.ts\<close>

definition offersGetAll_responseSchema :: schema where [schema_defs]:
  "offersGetAll_responseSchema =
     SObject [(''result'', True, SArray OfferV3OutputSchema)]"

definition offersGetAll_requestQuerySchema :: schema where [schema_defs]:
  "offersGetAll_requestQuerySchema =
     schema_omit marketplaceFilterSchema [''seller'']"

definition offersGetAll_route :: route where [route_defs]:
  "offersGetAll_route = \<lparr>rt_method = ''GET'',
     rt_url = ''/marketplace/:chain/:contractAddress/offers/get-all'',
     rt_operationId = ''getAllMarketplaceOffers'',
     rt_tags = [''Marketplace-Offers''],
     rt_hidden = False,
     rt_params = Some marketplaceV3ContractParamSchema,
     rt_querystring = Some offersGetAll_requestQuerySchema,
     rt_body = None,
     rt_headers = None,
     rt_response = put_fields [(200, offersGetAll_responseSchema)] standardResponseSchema\<rparr>"

definition offersGetAll :: "'w handler" where [handler_defs]:
  "offersGetAll V q =
    (let chain = jprop (hq_params q) ''chain'';
         contractAddress = jprop (hq_params q) ''contractAddress'';
         start = jprop (hq_query q) ''start'';
         count = jprop (hq_query q) ''count'';
         offeror = jprop (hq_query q) ''offeror'';
         tokenContract = jprop (hq_query q) ''tokenContract'';
         tokenId = jprop (hq_query q) ''tokenId'' in
     bnd (chainIdFrom V chain) (\<lambda>chainId.
     bnd (getContract V chainId contractAddress JUndefined JUndefined JUndefined) (\<lambda>contract.
     bnd (sdk_call V contract [''offers'', ''getAll''] [JObj [(''start'', start), (''count'', count),
         (''tokenContract'', tokenContract), (''tokenId'', tokenId), (''offeror'',
         offeror)]]) (\<lambda>result.
     bnd (lift_res
         (js_map (\<lambda>data. formatOffersV3Result (Inr data)) (Inr result))) (\<lambda>finalResult.
     ret (JObj [(''result'', finalResult)]))))))"

section \<open>contract/extensions/marketplaceV3/offers/read/getAllValid.ts\<close>

definition offersGetAllValid_responseSchema :: schema where [schema_defs]:
  "offersGetAllValid_responseSchema =
     SObject [(''result'', True, SArray OfferV3OutputSchema)]"

definition offersGetAllValid_requestQuerySchema :: schema where [schema_defs]:
  "offersGetAllValid_requestQuerySchema =
     schema_omit marketplaceFilterSchema [''seller'']"

definition offersGetAllValid_route :: route where [route_defs]:
  "offersGetAllValid_route = \<lparr>rt_method = ''GET'',
     rt_url = ''/marketplace/:chain/:contractAddress/offers/get-all-valid'',
     rt_operationId = ''getAllValidMarketplaceOffers'',
     rt_tags = [''Marketplace-Offers''],
     rt_hidden = False,
     rt_params = Some marketplaceV3ContractParamSchema,
     rt_querystring = Some offersGetAllValid_requestQuerySchema,
     rt_body = None,
     rt_headers = None,
     rt_response = put_fields [(200, offersGetAllValid_responseSchema)] standardResponseSchema\<rparr>"

definition offersGetAllValid :: "'w handler" where [handler_defs]:
  "offersGetAllValid V q =
    (let chain = jprop (hq_params q) ''chain'';
         contractAddress = jprop (hq_params q) ''contractAddress'';
         start = jprop (hq_query q) ''start'';
         count = jprop (hq_query q) ''count'';
         offeror = jprop (hq_query q) ''offeror'';
         tokenContract = jprop (hq_query q) ''tokenContract'';
         tokenId = jprop (hq_query q) ''tokenId'' in
     bnd (chainIdFrom V chain) (\<lambda>chainId.
     bnd (getContract V chainId contractAddress JUndefined JUndefined JUndefined) (\<lambda>contract.
     bnd (sdk_call V contract [''offers'', ''getAllValid''] [JObj [(''start'', start), (''count'', count),
         (''tokenContract'', tokenContract), (''tokenId'', tokenId), (''offeror'',
         offeror)]]) (\<lambda>result.
     bnd (lift_res
         (js_map (\<lambda>data. formatOffersV3Result (Inr data)) (Inr result))) (\<lambda>finalResult.
     ret (JObj [(''result'', finalResult)]))))))"

section \<open>contract/extensions/marketplaceV3/offers/read/getOffer.ts\<close>

definition offersGetOffer_responseSchema :: schema where [schema_defs]:
  "offersGetOffer_responseSchema =
     SObject [(''result'', True, OfferV3OutputSchema)]"

definition offersGetOffer_requestQuerySchema :: schema where [schema_defs]:
  "offersGetOffer_requestQuerySchema =
     SObject [(''offerId'', True, SString)]"

definition offersGetOffer_route :: route where [route_defs]:
  "offersGetOffer_route = \<lparr>rt_method = ''GET'',
     rt_url = ''/marketplace/:chain/:contractAddress/offers/get-offer'',
     rt_operationId = ''getMarketplaceOffer'',
     rt_tags = [''Marketplace-Offers''],
     rt_hidden = False,
     rt_params = Some marketplaceV3ContractParamSchema,
     rt_querystring = Some offersGetOffer_requestQuerySchema,
     rt_body = None,
     rt_headers = None,
     rt_response = put_fields [(200, offersGetOffer_responseSchema)] standardResponseSchema\<rparr>"

definition offersGetOffer :: "'w handler" where [handler_defs]:
  "offersGetOffer V q =
    (let chain = jprop (hq_params q) ''chain'';
         contractAddress = jprop (hq_params q) ''contractAddress'';
         offerId = jprop (hq_query q) ''offerId'' in
     bnd (chainIdFrom V chain) (\<lambda>chainId.
     bnd (getContract V chainId contractAddress JUndefined JUndefined JUndefined) (\<lambda>contract.
     bnd (sdk_call V contract [''offers'', ''getOffer''] [offerId]) (\<lambda>result.
     lift_res (js_obj [js_field ''result'' (formatOffersV3Result (Inr result))])))))"

section \<open>contract/extensions/marketplaceV3/offers/read/getTotalCount.ts\<close>

definition offersGetTotalCount_responseSchema :: schema where [schema_defs]:
  "offersGetTotalCount_responseSchema =
     SObject [(''result'', True, SString)]"

definition offersGetTotalCount_route :: route where [route_defs]:
  "offersGetTotalCount_route = \<lparr>rt_method = ''GET'',
     rt_url = ''/marketplace/:chain/:contractAddress/offers/get-total-count'',
     rt_operationId = ''getMarketplaceOffersTotalCount'',
     rt_tags = [''Marketplace-Offers''],
     rt_hidden = False,
     rt_params = Some marketplaceV3ContractParamSchema,
     rt_querystring = None,
     rt_body = None,
     rt_headers = None,
     rt_response = put_fields [(200, offersGetTotalCount_responseSchema)] standardResponseSchema\<rparr>"

definition offersGetTotalCount :: "'w handler" where [handler_defs]:
  "offersGetTotalCount V q =
    (let chain = jprop (hq_params q) ''chain'';
         contractAddress = jprop (hq_params q) ''contractAddress'' in
     bnd (chainIdFrom V chain) (\<lambda>chainId.
     bnd (getContract V chainId contractAddress JUndefined JUndefined JUndefined) (\<lambda>contract.
     bnd (sdk_call V contract [''englishAuctions'', ''getTotalCount''] []) (\<lambda>result.
     lift_res (js_obj [js_field ''result'' (js_toString (Inr result))])))))"

section \<open>contract/extensions/marketplaceV3/offers/write/acceptOffer.ts\<close>

definition offersAcceptOffer_requestBodySchema :: schema where [schema_defs]:
  "offersAcceptOffer_requestBodySchema =
     SObject ([(''offerId'', True, SString)] @ properties txOverridesWithValueSchema)"

definition offersAcceptOffer_route :: route where [route_defs]:
  "offersAcceptOffer_route = \<lparr>rt_method = ''POST'',
     rt_url = ''/marketplace/:chain/:contractAddress/offers/accept-offer'',
     rt_operationId = ''acceptMarketplaceOffer'',
     rt_tags = [''Marketplace-Offers''],
     rt_hidden = False,
     rt_params = Some marketplaceV3ContractParamSchema,
     rt_querystring = Some requestQuerystringSchema,
     rt_body = Some offersAcceptOffer_requestBodySchema,
     rt_headers = Some walletWithAAHeaderSchema,
     rt_response = put_fields [(200, transactionWritesResponseSchema)] standardResponseSchema\<rparr>"

definition offersAcceptOffer :: "'w handler" where [handler_defs]:
  "offersAcceptOffer V q =
    (let chain = jprop (hq_params q) ''chain'';
         contractAddress = jprop (hq_params q) ''contractAddress'';
         simulateTx = jprop (hq_query q) ''simulateTx'';
         offerId = jprop (hq_body q) ''offerId'';
         txOverrides = jprop (hq_body q) ''txOverrides'';
         walletAddress = jprop (hq_headers q) ''x-backend-wallet-address'';
         accountAddress = jprop (hq_headers q) ''x-account-address'';
         idempotencyKey = jprop (hq_headers q) ''x-idempotency-key'' in
     bnd (chainIdFrom V chain) (\<lambda>chainId.
     bnd (getContract V chainId contractAddress walletAddress accountAddress JUndefined) (\<lambda>contract.
     bnd (prepare V contract [''offers'', ''acceptOffer''] [offerId]) (\<lambda>tx.
     bnd (queue_tx V tx chainId ''marketplace-v3-offers'' JUndefined JUndefined simulateTx idempotencyKey txOverrides) (\<lambda>queueId.
     ret (JObj [(''result'', JObj [(''queueId'', JStr queueId)])]))))))"

section \<open>contract/extensions/marketplaceV3/offers/write/cancelOffer.ts\<close>

definition offersCancelOffer_requestBodySchema :: schema where [schema_defs]:
  "offersCancelOffer_requestBodySchema =
     SObject ([(''offerId'', True, SString)] @ properties txOverridesWithValueSchema)"

definition offersCancelOffer_route :: route where [route_defs]:
  "offersCancelOffer_route = \<lparr>rt_method = ''POST'',
     rt_url = ''/marketplace/:chain/:contractAddress/offers/cancel-offer'',
     rt_operationId = ''cancelMarketplaceOffer'',
     rt_tags = [''Marketplace-Offers''],
     rt_hidden = False,
     rt_params = Some marketplaceV3ContractParamSchema,
     rt_querystring = Some requestQuerystringSchema,
     rt_body = Some offersCancelOffer_requestBodySchema,
     rt_headers = Some walletWithAAHeaderSchema,
     rt_response = put_fields [(200, transactionWritesResponseSchema)] standardResponseSchema\<rparr>"

definition offersCancelOffer :: "'w handler" where [handler_defs]:
  "offersCancelOffer V q =
    (let chain = jprop (hq_params q) ''chain'';
         contractAddress = jprop (hq_params q) ''contractAddress'';
         simulateTx = jprop (hq_query q) ''simulateTx'';
         offerId = jprop (hq_body q) ''offerId'';
         txOverrides = jprop (hq_body q) ''txOverrides'';
         walletAddress = jprop (hq_headers q) ''x-backend-wallet-address'';
         accountAddress = jprop (hq_headers q) ''x-account-address'';
         idempotencyKey = jprop (hq_headers q) ''x-idempotency-key'' in
     bnd (chainIdFrom V chain) (\<lambda>chainId.
     bnd (getContract V chainId contractAddress walletAddress accountAddress JUndefined) (\<lambda>contract.
     bnd (prepare V contract [''offers'', ''cancelOffer''] [offerId]) (\<lambda>tx.
     bnd (queue_tx V tx chainId ''marketplace-v3-offers'' JUndefined JUndefined simulateTx idempotencyKey txOverrides) (\<lambda>queueId.
     ret (JObj [(''result'', JObj [(''queueId'', JStr queueId)])]))))))"

section \<open>contract/extensions/marketplaceV3/offers/write/makeOffer.ts\<close>

definition offersMakeOffer_requestBodySchema :: schema where [schema_defs]:
  "offersMakeOffer_requestBodySchema =
     SObject (properties OfferV3InputSchema @ properties txOverridesWithValueSchema)"

definition offersMakeOffer_route :: route where [route_defs]:
  "offersMakeOffer_route = \<lparr>rt_method = ''POST'',
     rt_url = ''/marketplace/:chain/:contractAddress/offers/make-offer'',
     rt_operationId = ''makeMarketplaceOffer'',
     rt_tags = [''Marketplace-Offers''],
     rt_hidden = False,
     rt_params = Some marketplaceV3ContractParamSchema,
     rt_querystring = Some requestQuerystringSchema,
     rt_body = Some offersMakeOffer_requestBodySchema,
     rt_headers = Some walletWithAAHeaderSchema,
     rt_response = put_fields [(200, transactionWritesResponseSchema)] standardResponseSchema\<rparr>"

definition offersMakeOffer :: "'w handler" where [handler_defs]:
  "offersMakeOffer V q =
    (let chain = jprop (hq_params q) ''chain'';
         contractAddress = jprop (hq_params q) ''contractAddress'';
         simulateTx = jprop (hq_query q) ''simulateTx'';
         assetContractAddress = jprop (hq_body q) ''assetContractAddress'';
         tokenId = jprop (hq_body q) ''tokenId'';
         totalPrice = jprop (hq_body q) ''totalPrice'';
         currencyContractAddress = jprop (hq_body q) ''currencyContractAddress'';
         endTimestamp = jprop (hq_body q) ''endTimestamp'';
         quantity = jprop (hq_body q) ''quantity'';
         txOverrides = jprop (hq_body q) ''txOverrides'';
         walletAddress = jprop (hq_headers q) ''x-backend-wallet-address'';
         accountAddress = jprop (hq_headers q) ''x-account-address'';
         idempotencyKey = jprop (hq_headers q) ''x-idempotency-key'' in
     bnd (chainIdFrom V chain) (\<lambda>chainId.
     bnd (getContract V chainId contractAddress walletAddress accountAddress JUndefined) (\<lambda>contract.
     bnd (prepare V contract [''offers'', ''makeOffer''] [JObj [(''assetContractAddress'',
         assetContractAddress), (''tokenId'', tokenId), (''totalPrice'', totalPrice),
         (''currencyContractAddress'', currencyContractAddress), (''endTimestamp'', endTimestamp),
         (''quantity'', quantity)]]) (\<lambda>tx.
     bnd (queue_tx V tx chainId ''marketplace-v3-offers'' JUndefined JUndefined simulateTx idempotencyKey txOverrides) (\<lambda>queueId.
     ret (JObj [(''result'', JObj [(''queueId'', JStr queueId)])]))))))"

section \<open>Lists\<close>

text \<open>The routes with their handlers, and the routes in the order in which they are registered.\<close>

definition marketplace_reads :: "(route \<times> 'w handler) list" where
  "marketplace_reads =
     [(directListingsGetAll_route, directListingsGetAll), (directListingsGetAllValid_route,
         directListingsGetAllValid), (directListingsGetListing_route, directListingsGetListing),
         (directListingsGetTotalCount_route, directListingsGetTotalCount),
         (directListingsIsBuyerApprovedForListing_route, directListingsIsBuyerApprovedForListing),
         (directListingsIsCurrencyApprovedForListing_route, directListingsIsCurrencyApprovedForListing),
         (englishAuctionsGetAll_route, englishAuctionsGetAll), (englishAuctionsGetAllValid_route,
         englishAuctionsGetAllValid), (englishAuctionsGetAuction_route, englishAuctionsGetAuction),
         (englishAuctionsGetBidBufferBps_route, englishAuctionsGetBidBufferBps),
         (englishAuctionsGetMinimumNextBid_route, englishAuctionsGetMinimumNextBid),
         (englishAuctionsGetTotalCount_route, englishAuctionsGetTotalCount),
         (englishAuctionsGetWinner_route, englishAuctionsGetWinner), (englishAuctionsGetWinningBid_route,
         englishAuctionsGetWinningBid), (englishAuctionsIsWinningBid_route, englishAuctionsIsWinningBid),
         (offersGetAll_route, offersGetAll), (offersGetAllValid_route, offersGetAllValid),
         (offersGetOffer_route, offersGetOffer), (offersGetTotalCount_route, offersGetTotalCount)]"

definition marketplace_writes :: "(route \<times> 'w handler) list" where
  "marketplace_writes =
     [(directListingsApproveBuyerForReservedListing_route, directListingsApproveBuyerForReservedListing),
         (directListingsBuyFromListing_route, directListingsBuyFromListing),
         (directListingsCancelListing_route, directListingsCancelListing),
         (directListingsCreateListing_route, directListingsCreateListing),
         (directListingsRevokeBuyerApprovalForReservedListing_route,
         directListingsRevokeBuyerApprovalForReservedListing),
         (directListingsRevokeCurrencyApprovalForListing_route,
         directListingsRevokeCurrencyApprovalForListing), (directListingsUpdateListing_route,
         directListingsUpdateListing), (offersAcceptOffer_route, offersAcceptOffer),
         (offersCancelOffer_route, offersCancelOffer), (offersMakeOffer_route, offersMakeOffer)]"

definition marketplace_auctions :: "(route \<times> 'w handler) list" where
  "marketplace_auctions =
     [(englishAuctionsBuyoutAuction_route, englishAuctionsBuyoutAuction),
         (englishAuctionsCancelAuction_route, englishAuctionsCancelAuction),
         (englishAuctionsCloseAuctionForBidder_route, englishAuctionsCloseAuctionForBidder),
         (englishAuctionsCloseAuctionForSeller_route, englishAuctionsCloseAuctionForSeller),
         (englishAuctionsCreateAuction_route, englishAuctionsCreateAuction),
         (englishAuctionsExecuteSale_route, englishAuctionsExecuteSale), (englishAuctionsMakeBid_route,
         englishAuctionsMakeBid)]"

definition marketplaceV3Routes :: "route list" where
  "marketplaceV3Routes =
     [directListingsGetAll_route, directListingsGetAllValid_route, directListingsGetListing_route,
         directListingsIsBuyerApprovedForListing_route, directListingsIsCurrencyApprovedForListing_route,
         directListingsGetTotalCount_route, englishAuctionsGetAll_route, englishAuctionsGetAllValid_route,
         englishAuctionsGetAuction_route, englishAuctionsGetBidBufferBps_route,
         englishAuctionsGetMinimumNextBid_route, englishAuctionsGetWinningBid_route,
         englishAuctionsGetTotalCount_route, englishAuctionsIsWinningBid_route,
         englishAuctionsGetWinner_route, offersGetAll_route, offersGetAllValid_route, offersGetOffer_route,
         offersGetTotalCount_route, directListingsCreateListing_route, directListingsUpdateListing_route,
         directListingsBuyFromListing_route, directListingsApproveBuyerForReservedListing_route,
         directListingsRevokeBuyerApprovalForReservedListing_route,
         directListingsRevokeCurrencyApprovalForListing_route, directListingsCancelListing_route,
         englishAuctionsBuyoutAuction_route, englishAuctionsCancelAuction_route,
         englishAuctionsCreateAuction_route, englishAuctionsCloseAuctionForBidder_route,
         englishAuctionsCloseAuctionForSeller_route, englishAuctionsExecuteSale_route,
         englishAuctionsMakeBid_route, offersMakeOffer_route, offersCancelOffer_route,
         offersAcceptOffer_route]"


end
