(* ===== verification/Contract_Api_Routes.thy ===== *)
theory Contract_Api_Routes
  imports Sdk_Access Shared_Schemas
begin

text \<open>
  The routes of any contract: metadata, events, roles, royalties, reading and writing. Every route
  is the record of its \<open>fastify.route\<close> call with the schemas of its file, and its
  handler.
\<close>

section \<open>contract/events/getAllEvents.ts\<close>

definition getAllEvents_responseSchema :: schema where [schema_defs]:
  "getAllEvents_responseSchema =
     SObject [(''result'', True, SArray contractEventSchema)]"

definition getAllEvents_querySringSchema :: schema where [schema_defs]:
  "getAllEvents_querySringSchema =
     eventsQuerystringSchema"

definition getAllEvents_route :: route where [route_defs]:
  "getAllEvents_route = \<lparr>rt_method = ''GET'',
     rt_url = ''/contract/:chain/:contractAddress/events/get-all'',
     rt_operationId = ''getAllEvents'',
     rt_tags = [''Contract-Events''],
     rt_hidden = False,
     rt_params = Some contractParamSchema,
     rt_querystring = Some getAllEvents_querySringSchema,
     rt_body = None,
     rt_headers = None,
     rt_response = put_fields [(200, getAllEvents_responseSchema)] standardResponseSchema\<rparr>"

definition getAllEvents :: "'w handler" where [handler_defs]:
  "getAllEvents V q =
    (let chain = jprop (hq_params q) ''chain'';
         contractAddress = jprop (hq_params q) ''contractAddress'';
         fromBlock = jprop (hq_query q) ''fromBlock'';
         toBlock = jprop (hq_query q) ''toBlock'';
         order = jprop (hq_query q) ''order'' in
     bnd (chainIdFrom V chain) (\<lambda>chainId.
     bnd (getContract V chainId contractAddress JUndefined JUndefined JUndefined) (\<lambda>contract.
     bnd (sdk_call V contract [''events'', ''getAllEvents''] [JObj [(''fromBlock'', fromBlock),
         (''toBlock'', toBlock), (''order'', order)]]) (\<lambda>returnData.
     ret (JObj [(''result'', returnData)])))))"

section \<open>contract/events/getEvents.ts\<close>

definition getEvents_responseSchema :: schema where [schema_defs]:
  "getEvents_responseSchema =
     SObject [(''result'', True, SArray contractEventSchema)]"

definition getEvents_requestBodyParams :: schema where [schema_defs]:
  "getEvents_requestBodyParams =
     SObject ([(''eventName'', True, SString)] @ properties eventsQuerystringSchema @ [(''filters'',
     False, SObject [])])"

definition getEvents_route :: route where [route_defs]:
  "getEvents_route = \<lparr>rt_method = ''POST'',
     rt_url = ''/contract/:chain/:contractAddress/events/get'',
     rt_operationId = ''getEvents'',
     rt_tags = [''Contract-Events''],
     rt_hidden = False,
     rt_params = Some contractParamSchema,
     rt_querystring = None,
     rt_body = Some getEvents_requestBodyParams,
     rt_headers = None,
     rt_response = put_fields [(200, getEvents_responseSchema)] standardResponseSchema\<rparr>"

definition getEvents :: "'w handler" where [handler_defs]:
  "getEvents V q =
    (let chain = jprop (hq_params q) ''chain'';
         contractAddress = jprop (hq_params q) ''contractAddress'';
         fromBlock = jprop (hq_body q) ''fromBlock'';
         toBlock = jprop (hq_body q) ''toBlock'';
         order = jprop (hq_body q) ''order'';
         eventName = jprop (hq_body q) ''eventName'';
         filters = jprop (hq_body q) ''filters'' in
     bnd (chainIdFrom V chain) (\<lambda>chainId.
     bnd (getContract V chainId contractAddress JUndefined JUndefined JUndefined) (\<lambda>contract.
     bnd (sdk_call V contract [''events'', ''getEvents''] [eventName, JObj [(''fromBlock'', fromBlock),
         (''toBlock'', toBlock), (''order'', order), (''filters'', filters)]]) (\<lambda>returnData.
     ret (JObj [(''result'', returnData)])))))"

section \<open>contract/metadata/abi.ts\<close>

definition getABI_responseSchema :: schema where [schema_defs]:
  "getABI_responseSchema =
     SObject [(''result'', True, SArray abiSchema)]"

definition getABI_route :: route where [route_defs]:
  "getABI_route = \<lparr>rt_method = ''GET'',
     rt_url = ''/contract/:chain/:contractAddress/metadata/abi'',
     rt_operationId = ''getAbi'',
     rt_tags = [''Contract-Metadata''],
     rt_hidden = False,
     rt_params = Some contractParamSchema,
     rt_querystring = None,
     rt_body = None,
     rt_headers = None,
     rt_response = put_fields [(200, getABI_responseSchema)] standardResponseSchema\<rparr>"

definition getABI :: "'w handler" where [handler_defs]:
  "getABI V q =
    (let chain = jprop (hq_params q) ''chain'';
         contractAddress = jprop (hq_params q) ''contractAddress'' in
     bnd (chainIdFrom V chain) (\<lambda>chainId.
     bnd (getContract V chainId contractAddress JUndefined JUndefined JUndefined) (\<lambda>contract.
     let returnData = v_abi (ys_sdk V) contract in
     ret (JObj [(''result'', returnData)]))))"

section \<open>contract/metadata/events.ts\<close>

definition extractEvents_responseSchema :: schema where [schema_defs]:
  "extractEvents_responseSchema =
     SObject [(''result'', True, SArray abiEventSchema)]"

definition extractEvents_route :: route where [route_defs]:
  "extractEvents_route = \<lparr>rt_method = ''GET'',
     rt_url = ''/contract/:chain/:contractAddress/metadata/events'',
     rt_operationId = ''getContractEvents'',
     rt_tags = [''Contract-Metadata''],
     rt_hidden = False,
     rt_params = Some contractParamSchema,
     rt_querystring = None,
     rt_body = None,
     rt_headers = None,
     rt_response = put_fields [(200, extractEvents_responseSchema)] standardResponseSchema\<rparr>"

definition extractEvents :: "'w handler" where [handler_defs]:
  "extractEvents V q =
    (let chain = jprop (hq_params q) ''chain'';
         contractAddress = jprop (hq_params q) ''contractAddress'' in
     bnd (chainIdFrom V chain) (\<lambda>chainId.
     bnd (getContract V chainId contractAddress JUndefined JUndefined JUndefined) (\<lambda>contract.
     bnd (sdk_call V contract [''publishedMetadata'', ''extractEvents''] []) (\<lambda>returnData.
     ret (JObj [(''result'', returnData)])))))"

section \<open>contract/metadata/extensions.ts\<close>

definition getContractExtensions_responseSchema :: schema where [schema_defs]:
  "getContractExtensions_responseSchema =
     SObject [(''result'', True, SArray SString)]"

definition getContractExtensions_route :: route where [route_defs]:
  "getContractExtensions_route = \<lparr>rt_method = ''GET'',
     rt_url = ''/contract/:chain/:contractAddress/metadata/extensions'',
     rt_operationId = ''getExtensions'',
     rt_tags = [''Contract-Metadata''],
     rt_hidden = False,
     rt_params = Some contractParamSchema,
     rt_querystring = None,
     rt_body = None,
     rt_headers = None,
     rt_response = put_fields [(200, getContractExtensions_responseSchema)] standardResponseSchema\<rparr>"

definition getContractExtensions :: "'w handler" where [handler_defs]:
  "getContractExtensions V q =
    (let chain = jprop (hq_params q) ''chain'';
         contractAddress = jprop (hq_params q) ''contractAddress'' in
     bnd (chainIdFrom V chain) (\<lambda>chainId.
     bnd (getContract V chainId contractAddress JUndefined JUndefined JUndefined) (\<lambda>contract.
     bnd (lift_res (v_extensionNames (ys_sdk V) (v_abi (ys_sdk V) contract))) (\<lambda>returnData.
     ret (JObj [(''result'', returnData)])))))"

section \<open>contract/metadata/functions.ts\<close>

definition extractFunctions_responseSchema :: schema where [schema_defs]:
  "extractFunctions_responseSchema =
     SObject [(''result'', True, SArray abiFunctionSchema)]"

definition extractFunctions_route :: route where [route_defs]:
  "extractFunctions_route = \<lparr>rt_method = ''GET'',
     rt_url = ''/contract/:chain/:contractAddress/metadata/functions'',
     rt_operationId = ''getFunctions'',
     rt_tags = [''Contract-Metadata''],
     rt_hidden = False,
     rt_params = Some contractParamSchema,
     rt_querystring = None,
     rt_body = None,
     rt_headers = None,
     rt_response = put_fields [(200, extractFunctions_responseSchema)] standardResponseSchema\<rparr>"

definition extractFunctions :: "'w handler" where [handler_defs]:
  "extractFunctions V q =
    (let chain = jprop (hq_params q) ''chain'';
         contractAddress = jprop (hq_params q) ''contractAddress'' in
     bnd (chainIdFrom V chain) (\<lambda>chainId.
     bnd (getContract V chainId contractAddress JUndefined JUndefined JUndefined) (\<lambda>contract.
     bnd (sdk_call V contract [''publishedMetadata'', ''extractFunctions''] []) (\<lambda>returnData.
     ret (JObj [(''result'', returnData)])))))"

section \<open>contract/read/read.ts\<close>

definition readContract_responseSchema :: schema where [schema_defs]:
  "readContract_responseSchema =
     SObject [(''result'', True, SAny)]"

definition readContract_route :: route where [route_defs]:
  "readContract_route = \<lparr>rt_method = ''GET'',
     rt_url = ''/contract/:chain/:contractAddress/read'',
     rt_operationId = ''read'',
     rt_tags = [''Contract''],
     rt_hidden = False,
     rt_params = Some contractParamSchema,
     rt_querystring = Some readRequestQuerySchema,
     rt_body = None,
     rt_headers = None,
     rt_response = put_fields [(200, readContract_responseSchema)] standardResponseSchema\<rparr>"

text \<open>The arguments are one string, split at commas; \<open>true\<close> and \<open>false\<close> become booleans.\<close>

definition parse_arg :: "string \<Rightarrow> js_val" where
  "parse_arg arg = (if arg = ''true'' then JBool True else if arg = ''false'' then JBool False else JStr arg)"

definition parsedArgs :: "js_val \<Rightarrow> js_val list" where
  "parsedArgs args = (case js_opt args of None \<Rightarrow> [] | Some s \<Rightarrow> map parse_arg (js_split (CHR '','') s))"

definition readContract :: "'w handler" where [handler_defs]:
  "readContract V q =
     (let chain = jprop (hq_params q) ''chain'';
         contractAddress = jprop (hq_params q) ''contractAddress'';
         functionName = jprop (hq_query q) ''functionName'';
         args = jprop (hq_query q) ''args'' in
      bnd (chainIdFrom V chain) (\<lambda>chainId.
      bnd (getContract V chainId contractAddress JUndefined JUndefined JUndefined) (\<lambda>contract.
      bnd (lift_res (v_call (ys_sdk V) contract [js_text functionName] (parsedArgs args))) (\<lambda>returnData.
      lift_res (js_obj [js_field ''result'' (bigNumberReplacer V (Inr returnData))])))))"

section \<open>contract/roles/read/get.ts\<close>

definition getRoles_responseSchema :: schema where [schema_defs]:
  "getRoles_responseSchema =
     SObject [(''result'', True, SArray SString)]"

definition getRoles_querystringSchema :: schema where [schema_defs]:
  "getRoles_querystringSchema =
     SObject [(''role'', True, SString)]"

definition getRoles_route :: route where [route_defs]:
  "getRoles_route = \<lparr>rt_method = ''GET'',
     rt_url = ''/contract/:chain/:contractAddress/roles/get'',
     rt_operationId = ''getContractRole'',
     rt_tags = [''Contract-Roles''],
     rt_hidden = False,
     rt_params = Some contractParamSchema,
     rt_querystring = Some getRoles_querystringSchema,
     rt_body = None,
     rt_headers = None,
     rt_response = put_fields [(200, getRoles_responseSchema)] standardResponseSchema\<rparr>"

definition getRoles :: "'w handler" where [handler_defs]:
  "getRoles V q =
    (let chain = jprop (hq_params q) ''chain'';
         contractAddress = jprop (hq_params q) ''contractAddress'';
         role = jprop (hq_query q) ''role'' in
     bnd (chainIdFrom V chain) (\<lambda>chainId.
     bnd (getContract V chainId contractAddress JUndefined JUndefined JUndefined) (\<lambda>contract.
     bnd (sdk_call V contract [''roles'', ''get''] [role]) (\<lambda>returnData.
     ret (JObj [(''result'', returnData)])))))"

section \<open>contract/roles/read/getAll.ts\<close>

definition getAllRoles_responseSchema :: schema where [schema_defs]:
  "getAllRoles_responseSchema =
     SObject [(''result'', True, rolesResponseSchema)]"

definition getAllRoles_route :: route where [route_defs]:
  "getAllRoles_route = \<lparr>rt_method = ''GET'',
     rt_url = ''/contract/:chain/:contractAddress/roles/get-all'',
     rt_operationId = ''listContractRoles'',
     rt_tags = [''Contract-Roles''],
     rt_hidden = False,
     rt_params = Some contractParamSchema,
     rt_querystring = None,
     rt_body = None,
     rt_headers = None,
     rt_response = put_fields [(200, getAllRoles_responseSchema)] standardResponseSchema\<rparr>"

definition getAllRoles :: "'w handler" where [handler_defs]:
  "getAllRoles V q =
    (let chain = jprop (hq_params q) ''chain'';
         contractAddress = jprop (hq_params q) ''contractAddress'' in
     bnd (chainIdFrom V chain) (\<lambda>chainId.
     bnd (getContract V chainId contractAddress JUndefined JUndefined JUndefined) (\<lambda>contract.
     bnd (sdk_call V contract [''roles'', ''getAll''] []) (\<lambda>returnData.
     ret (JObj [(''result'', returnData)])))))"

section \<open>contract/roles/write/grant.ts\<close>

definition grantRole_requestBodySchema :: schema where [schema_defs]:
  "grantRole_requestBodySchema =
     SObject ([(''role'', True, SString), (''address'', True, AddressSchema)]
     @ properties txOverridesWithValueSchema)"

definition grantRole_route :: route where [route_defs]:
  "grantRole_route = \<lparr>rt_method = ''POST'',
     rt_url = ''/contract/:chain/:contractAddress/roles/grant'',
     rt_operationId = ''grantContractRole'',
     rt_tags = [''Contract-Roles''],
     rt_hidden = False,
     rt_params = Some contractParamSchema,
     rt_querystring = Some requestQuerystringSchema,
     rt_body = Some grantRole_requestBodySchema,
     rt_headers = Some walletWithAAHeaderSchema,
     rt_response = put_fields [(200, transactionWritesResponseSchema)] standardResponseSchema\<rparr>"

definition grantRole :: "'w handler" where [handler_defs]:
  "grantRole V q =
    (let chain = jprop (hq_params q) ''chain'';
         contractAddress = jprop (hq_params q) ''contractAddress'';
         simulateTx = jprop (hq_query q) ''simulateTx'';
         role = jprop (hq_body q) ''role'';
         address = jprop (hq_body q) ''address'';
         txOverrides = jprop (hq_body q) ''txOverrides'';
         walletAddress = jprop (hq_headers q) ''x-backend-wallet-address'';
         accountAddress = jprop (hq_headers q) ''x-account-address'';
         idempotencyKey = jprop (hq_headers q) ''x-idempotency-key'' in
     bnd (chainIdFrom V chain) (\<lambda>chainId.
     bnd (getContract V chainId contractAddress walletAddress accountAddress JUndefined) (\<lambda>contract.
     bnd (prepare V contract [''roles'', ''grant''] [role, address]) (\<lambda>tx.
     bnd (queue_tx V tx chainId ''roles'' JUndefined JUndefined simulateTx idempotencyKey txOverrides) (\<lambda>queueId.
     ret (JObj [(''result'', JObj [(''queueId'', JStr queueId)])]))))))"

section \<open>contract/roles/write/revoke.ts\<close>

definition revokeRole_requestBodySchema :: schema where [schema_defs]:
  "revokeRole_requestBodySchema =
     SObject ([(''role'', True, SString), (''address'', True, AddressSchema)]
     @ properties txOverridesWithValueSchema)"

definition revokeRole_route :: route where [route_defs]:
  "revokeRole_route = \<lparr>rt_method = ''POST'',
     rt_url = ''/contract/:chain/:contractAddress/roles/revoke'',
     rt_operationId = ''revokeContractRole'',
     rt_tags = [''Contract-Roles''],
     rt_hidden = False,
     rt_params = Some contractParamSchema,
     rt_querystring = Some requestQuerystringSchema,
     rt_body = Some revokeRole_requestBodySchema,
     rt_headers = Some walletWithAAHeaderSchema,
     rt_response = put_fields [(200, transactionWritesResponseSchema)] standardResponseSchema\<rparr>"

definition revokeRole :: "'w handler" where [handler_defs]:
  "revokeRole V q =
    (let chain = jprop (hq_params q) ''chain'';
         contractAddress = jprop (hq_params q) ''contractAddress'';
         simulateTx = jprop (hq_query q) ''simulateTx'';
         role = jprop (hq_body q) ''role'';
         address = jprop (hq_body q) ''address'';
         txOverrides = jprop (hq_body q) ''txOverrides'';
         walletAddress = jprop (hq_headers q) ''x-backend-wallet-address'';
         accountAddress = jprop (hq_headers q) ''x-account-address'';
         idempotencyKey = jprop (hq_headers q) ''x-idempotency-key'' in
     bnd (chainIdFrom V chain) (\<lambda>chainId.
     bnd (getContract V chainId contractAddress walletAddress accountAddress JUndefined) (\<lambda>contract.
     bnd (prepare V contract [''roles'', ''revoke''] [role, address]) (\<lambda>tx.
     bnd (queue_tx V tx chainId ''roles'' JUndefined JUndefined simulateTx idempotencyKey txOverrides) (\<lambda>queueId.
     ret (JObj [(''result'', JObj [(''queueId'', JStr queueId)])]))))))"

section \<open>contract/royalties/read/getDefaultRoyaltyInfo.ts\<close>

definition getDefaultRoyaltyInfo_responseSchema :: schema where [schema_defs]:
  "getDefaultRoyaltyInfo_responseSchema =
     SObject [(''result'', True, royaltySchema)]"

definition getDefaultRoyaltyInfo_route :: route where [route_defs]:
  "getDefaultRoyaltyInfo_route = \<lparr>rt_method = ''GET'',
     rt_url = ''/contract/:chain/:contractAddress/royalties/get-default-royalty-info'',
     rt_operationId = ''getDefaultRoyaltyInfo'',
     rt_tags = [''Contract-Royalties''],
     rt_hidden = False,
     rt_params = Some contractParamSchema,
     rt_querystring = None,
     rt_body = None,
     rt_headers = None,
     rt_response = put_fields [(200, getDefaultRoyaltyInfo_responseSchema)] standardResponseSchema\<rparr>"

definition getDefaultRoyaltyInfo :: "'w handler" where [handler_defs]:
  "getDefaultRoyaltyInfo V q =
    (let chain = jprop (hq_params q) ''chain'';
         contractAddress = jprop (hq_params q) ''contractAddress'' in
     bnd (chainIdFrom V chain) (\<lambda>chainId.
     bnd (getContract V chainId contractAddress JUndefined JUndefined JUndefined) (\<lambda>contract.
     bnd (sdk_call V contract [''royalties'', ''getDefaultRoyaltyInfo''] []) (\<lambda>returnData.
     ret (JObj [(''result'', returnData)])))))"

section \<open>contract/royalties/read/getTokenRoyaltyInfo.ts\<close>

definition getTokenRoyaltyInfo_responseSchema :: schema where [schema_defs]:
  "getTokenRoyaltyInfo_responseSchema =
     SObject [(''result'', True, royaltySchema)]"

definition getTokenRoyaltyInfo_requestSchema :: schema where [schema_defs]:
  "getTokenRoyaltyInfo_requestSchema =
     SObject ([(''tokenId'', True, SString)] @ properties contractParamSchema)"

definition getTokenRoyaltyInfo_route :: route where [route_defs]:
  "getTokenRoyaltyInfo_route = \<lparr>rt_method = ''GET'',
     rt_url = ''/contract/:chain/:contractAddress/royalties/get-token-royalty-info/:tokenId'',
     rt_operationId = ''getTokenRoyaltyInfo'',
     rt_tags = [''Contract-Royalties''],
     rt_hidden = False,
     rt_params = Some getTokenRoyaltyInfo_requestSchema,
     rt_querystring = None,
     rt_body = None,
     rt_headers = None,
     rt_response = put_fields [(200, getTokenRoyaltyInfo_responseSchema)] standardResponseSchema\<rparr>"

definition getTokenRoyaltyInfo :: "'w handler" where [handler_defs]:
  "getTokenRoyaltyInfo V q =
    (let chain = jprop (hq_params q) ''chain'';
         contractAddress = jprop (hq_params q) ''contractAddress'';
         tokenId = jprop (hq_params q) ''tokenId'' in
     bnd (chainIdFrom V chain) (\<lambda>chainId.
     bnd (getContract V chainId contractAddress JUndefined JUndefined JUndefined) (\<lambda>contract.
     bnd (sdk_call V contract [''royalties'', ''getTokenRoyaltyInfo''] [tokenId]) (\<lambda>returnData.
     ret (JObj [(''result'', returnData)])))))"

section \<open>contract/royalties/write/setDefaultRoyaltyInfo.ts\<close>

definition setDefaultRoyaltyInfo_requestBodySchema :: schema where [schema_defs]:
  "setDefaultRoyaltyInfo_requestBodySchema =
     SObject (properties royaltySchema @ properties txOverridesWithValueSchema)"

definition setDefaultRoyaltyInfo_route :: route where [route_defs]:
  "setDefaultRoyaltyInfo_route = \<lparr>rt_method = ''POST'',
     rt_url = ''/contract/:chain/:contractAddress/royalties/set-default-royalty-info'',
     rt_operationId = ''setDefaultRoyaltyInfo'',
     rt_tags = [''Contract-Royalties''],
     rt_hidden = False,
     rt_params = Some contractParamSchema,
     rt_querystring = Some requestQuerystringSchema,
     rt_body = Some setDefaultRoyaltyInfo_requestBodySchema,
     rt_headers = Some walletWithAAHeaderSchema,
     rt_response = put_fields [(200, transactionWritesResponseSchema)] standardResponseSchema\<rparr>"

definition setDefaultRoyaltyInfo :: "'w handler" where [handler_defs]:
  "setDefaultRoyaltyInfo V q =
    (let chain = jprop (hq_params q) ''chain'';
         contractAddress = jprop (hq_params q) ''contractAddress'';
         simulateTx = jprop (hq_query q) ''simulateTx'';
         seller_fee_basis_points = jprop (hq_body q) ''seller_fee_basis_points'';
         fee_recipient = jprop (hq_body q) ''fee_recipient'';
         txOverrides = jprop (hq_body q) ''txOverrides'';
         walletAddress = jprop (hq_headers q) ''x-backend-wallet-address'';
         accountAddress = jprop (hq_headers q) ''x-account-address'';
         idempotencyKey = jprop (hq_headers q) ''x-idempotency-key'' in
     bnd (chainIdFrom V chain) (\<lambda>chainId.
     bnd (getContract V chainId contractAddress walletAddress accountAddress JUndefined) (\<lambda>contract.
     bnd (prepare V contract [''royalties'', ''setDefaultRoyaltyInfo''] [JObj [(''seller_fee_basis_points'',
         seller_fee_basis_points), (''fee_recipient'', fee_recipient)]]) (\<lambda>tx.
     bnd (queue_tx V tx chainId ''none'' JUndefined JUndefined simulateTx idempotencyKey txOverrides) (\<lambda>queueId.
     ret (JObj [(''result'', JObj [(''queueId'', JStr queueId)])]))))))"

section \<open>contract/royalties/write/setTokenRoyaltyInfo.ts\<close>

definition setTokenRoyaltyInfo_requestBodySchema :: schema where [schema_defs]:
  "setTokenRoyaltyInfo_requestBodySchema =
     SObject (properties royaltySchema @ [(''token_id'', True, SString)]
     @ properties txOverridesWithValueSchema)"

definition setTokenRoyaltyInfo_route :: route where [route_defs]:
  "setTokenRoyaltyInfo_route = \<lparr>rt_method = ''POST'',
     rt_url = ''/contract/:chain/:contractAddress/royalties/set-token-royalty-info'',
     rt_operationId = ''setTokenRoyaltyInfo'',
     rt_tags = [''Contract-Royalties''],
     rt_hidden = False,
     rt_params = Some contractParamSchema,
     rt_querystring = Some requestQuerystringSchema,
     rt_body = Some setTokenRoyaltyInfo_requestBodySchema,
     rt_headers = Some walletWithAAHeaderSchema,
     rt_response = put_fields [(200, transactionWritesResponseSchema)] standardResponseSchema\<rparr>"

definition setTokenRoyaltyInfo :: "'w handler" where [handler_defs]:
  "setTokenRoyaltyInfo V q =
    (let chain = jprop (hq_params q) ''chain'';
         contractAddress = jprop (hq_params q) ''contractAddress'';
         simulateTx = jprop (hq_query q) ''simulateTx'';
         seller_fee_basis_points = jprop (hq_body q) ''seller_fee_basis_points'';
         fee_recipient = jprop (hq_body q) ''fee_recipient'';
         token_id = jprop (hq_body q) ''token_id'';
         txOverrides = jprop (hq_body q) ''txOverrides'';
         walletAddress = jprop (hq_headers q) ''x-backend-wallet-address'';
         accountAddress = jprop (hq_headers q) ''x-account-address'';
         idempotencyKey = jprop (hq_headers q) ''x-idempotency-key'' in
     bnd (chainIdFrom V chain) (\<lambda>chainId.
     bnd (getContract V chainId contractAddress walletAddress accountAddress JUndefined) (\<lambda>contract.
     bnd (prepare V contract [''royalties'', ''setTokenRoyaltyInfo''] [token_id,
         JObj [(''seller_fee_basis_points'', seller_fee_basis_points), (''fee_recipient'',
         fee_recipient)]]) (\<lambda>tx.
     bnd (queue_tx V tx chainId ''none'' JUndefined JUndefined simulateTx idempotencyKey txOverrides) (\<lambda>queueId.
     ret (JObj [(''result'', JObj [(''queueId'', JStr queueId)])]))))))"

section \<open>contract/write/write.ts\<close>

definition writeToContract_writeRequestBodySchema :: schema where [schema_defs]:
  "writeToContract_writeRequestBodySchema =
     SObject ([(''functionName'', True, SString), (''args'', True, SArray SAny)]
     @ properties txOverridesWithValueSchema @ [(''abi'', False, SArray abiSchema)])"

definition writeToContract_route :: route where [route_defs]:
  "writeToContract_route = \<lparr>rt_method = ''POST'',
     rt_url = ''/contract/:chain/:contractAddress/write'',
     rt_operationId = ''write'',
     rt_tags = [''Contract''],
     rt_hidden = False,
     rt_params = Some contractParamSchema,
     rt_querystring = Some requestQuerystringSchema,
     rt_body = Some writeToContract_writeRequestBodySchema,
     rt_headers = Some walletWithAAHeaderSchema,
     rt_response = [(200, transactionWritesResponseSchema)]\<rparr>"

text \<open>A failure to resolve the method is a bad request.\<close>

definition writeToContract :: "'w handler" where [handler_defs]:
  "writeToContract V q =
     (let chain = jprop (hq_params q) ''chain'';
         contractAddress = jprop (hq_params q) ''contractAddress'';
         simulateTx = jprop (hq_query q) ''simulateTx'';
         functionName = jprop (hq_body q) ''functionName'';
         args = jprop (hq_body q) ''args'';
         txOverrides = jprop (hq_body q) ''txOverrides'';
         abi = jprop (hq_body q) ''abi'';
         fromAddress = jprop (hq_headers q) ''x-backend-wallet-address'';
         accountAddress = jprop (hq_headers q) ''x-account-address'';
         idempotencyKey = jprop (hq_headers q) ''x-idempotency-key'';
         accountFactoryAddress = jprop (hq_headers q) ''x-account-factory-address'' in
      bnd (chainIdFrom V chain) (\<lambda>chainId.
      bnd (getContractV5 V chainId contractAddress abi) (\<lambda>contract.
      bnd (try_catch (lift_res (v_resolveMethod (ys_sdk V) functionName contract))
             (\<lambda>e. throw (createCustomError (show_error e) 400 ''BAD_REQUEST''))) (\<lambda>fn.
      bnd (lift_res (js_obj [js_field ''method'' (Inr fn), js_field ''params'' (Inr args),
             js_field ''gas'' (js_maybeBigInt V (jprop txOverrides ''gas'')),
             js_field ''value'' (js_maybeBigInt V (jprop txOverrides ''value'')),
             js_field ''maxFeePerGas'' (js_maybeBigInt V (jprop txOverrides ''maxFeePerGas'')),
             js_field ''maxPriorityFeePerGas'' (js_maybeBigInt V (jprop txOverrides ''maxPriorityFeePerGas''))]))
        (\<lambda>options.
      bnd (queue_v5 V (v_encodeV5 (ys_sdk V) ''prepareContractCall'' contract options) chainId fromAddress
             contractAddress accountAddress accountFactoryAddress txOverrides idempotencyKey simulateTx) (\<lambda>queueId.
      ret (JObj [(''result'', JObj [(''queueId'', JStr queueId)])])))))))"

section \<open>Lists\<close>

text \<open>The routes with their handlers, and the routes in the order in which they are registered.\<close>

definition contract_api_reads :: "(route \<times> 'w handler) list" where
  "contract_api_reads =
     [(getAllEvents_route, getAllEvents), (getEvents_route, getEvents), (getABI_route, getABI),
         (extractEvents_route, extractEvents), (getContractExtensions_route, getContractExtensions),
         (extractFunctions_route, extractFunctions), (readContract_route, readContract), (getRoles_route,
         getRoles), (getAllRoles_route, getAllRoles), (getDefaultRoyaltyInfo_route, getDefaultRoyaltyInfo),
         (getTokenRoyaltyInfo_route, getTokenRoyaltyInfo)]"

definition contract_api_writes :: "(route \<times> 'w handler) list" where
  "contract_api_writes =
     [(grantRole_route, grantRole), (revokeRole_route, revokeRole), (setDefaultRoyaltyInfo_route,
         setDefaultRoyaltyInfo), (setTokenRoyaltyInfo_route, setTokenRoyaltyInfo), (writeToContract_route,
         writeToContract)]"


end
