(* ===== verification/Deploy_Routes.thy ===== *)
theory Deploy_Routes
  imports Sdk_Access Shared_Schemas
begin

text \<open>
  The routes that deploy contracts. Every route is the record of its \<open>fastify.route\<close>
  call with the schemas of its file, and its handler.
\<close>

section \<open>deploy/contractTypes.ts\<close>

definition contractTypes_responseBodySchema :: schema where [schema_defs]:
  "contractTypes_responseBodySchema =
     SObject [(''result'', True, SArray SString)]"

definition contractTypes_route :: route where [route_defs]:
  "contractTypes_route = \<lparr>rt_method = ''GET'',
     rt_url = ''/deploy/contract-types'',
     rt_operationId = ''contractTypes'',
     rt_tags = [''Deploy''],
     rt_hidden = False,
     rt_params = None,
     rt_querystring = None,
     rt_body = None,
     rt_headers = None,
     rt_response = put_fields [(200, contractTypes_responseBodySchema)] standardResponseSchema\<rparr>"

definition contractTypes :: "'w handler" where [handler_defs]:
  "contractTypes V q = ret (JObj [(''result'', JList (map JStr (v_prebuiltTypes (ys_sdk V))))])"

section \<open>deploy/prebuilt.ts\<close>

definition deployPrebuilt_responseSchema :: schema where [schema_defs]:
  "deployPrebuilt_responseSchema =
     SObject [(''queueId'', False, SString), (''deployedAddress'', False, AddressSchema)]"

definition deployPrebuilt_requestBodySchema :: schema where [schema_defs]:
  "deployPrebuilt_requestBodySchema =
     SObject ([(''contractMetadata'', True, SAny)] @ properties contractDeployBasicSchema
     @ properties txOverridesWithValueSchema)"

definition deployPrebuilt_route :: route where [route_defs]:
  "deployPrebuilt_route = \<lparr>rt_method = ''POST'',
     rt_url = ''/deploy/:chain/:contractType'',
     rt_operationId = ''deployPrebuilt'',
     rt_tags = [''Deploy''],
     rt_hidden = True,
     rt_params = Some prebuiltDeployParamSchema,
     rt_querystring = None,
     rt_body = Some deployPrebuilt_requestBodySchema,
     rt_headers = Some walletWithAAHeaderSchema,
     rt_response = put_fields [(200, deployPrebuilt_responseSchema)] standardResponseSchema\<rparr>"

definition deployPrebuilt :: "'w handler" where [handler_defs]:
  "deployPrebuilt V q =
    (let chain = jprop (hq_params q) ''chain'';
         contractType = jprop (hq_params q) ''contractType'';
         contractMetadata = jprop (hq_body q) ''contractMetadata'';
         version = jprop (hq_body q) ''version'';
         txOverrides = jprop (hq_body q) ''txOverrides'';
         saltForProxyDeploy = jprop (hq_body q) ''saltForProxyDeploy'';
         forceDirectDeploy = jprop (hq_body q) ''forceDirectDeploy'';
         compilerOptions = jprop (hq_body q) ''compilerOptions'' in
     bnd (chainIdFrom V chain) (\<lambda>chainId.
     let walletAddress = jprop (hq_headers q) ''x-backend-wallet-address'';
         accountAddress = jprop (hq_headers q) ''x-account-address'';
         idempotencyKey = jprop (hq_headers q) ''x-idempotency-key'' in
     bnd (getSdk V chainId walletAddress accountAddress) (\<lambda>sdk.
     bnd (prepare_deploy V sdk ''deployBuiltInContract'' [contractType, contractMetadata, version,
         JObj [(''saltForProxyDeploy'', saltForProxyDeploy), (''forceDirectDeploy'', forceDirectDeploy),
         (''compilerOptions'', compilerOptions)]]) (\<lambda>tx.
     bnd (simulate_deploy V tx) (\<lambda>deployedAddress.
     bnd (queue_tx V tx chainId ''deploy-prebuilt'' JUndefined JUndefined JUndefined idempotencyKey txOverrides) (\<lambda>queueId.
     ret (JObj [(''deployedAddress'', deployedAddress), (''queueId'', JStr queueId)])))))))"

section \<open>deploy/prebuilts/edition.ts\<close>

definition deployPrebuiltEdition_requestBodySchema :: schema where [schema_defs]:
  "deployPrebuiltEdition_requestBodySchema =
     SObject ([(''contractMetadata'', True, SObject (properties commonContractSchema
     @ properties commonRoyaltySchema @ properties commonSymbolSchema
     @ properties commonPlatformFeeSchema @ properties commonPrimarySaleSchema
     @ properties commonTrustedForwarderSchema))] @ properties contractDeployBasicSchema
     @ properties txOverridesWithValueSchema)"

definition deployPrebuiltEdition_route :: route where [route_defs]:
  "deployPrebuiltEdition_route = \<lparr>rt_method = ''POST'',
     rt_url = ''/deploy/:chain/prebuilts/edition'',
     rt_operationId = ''deployEdition'',
     rt_tags = [''Deploy''],
     rt_hidden = False,
     rt_params = Some prebuiltDeployContractParamSchema,
     rt_querystring = None,
     rt_body = Some deployPrebuiltEdition_requestBodySchema,
     rt_headers = Some walletWithAAHeaderSchema,
     rt_response = put_fields [(200, prebuiltDeployResponseSchema)] standardResponseSchema\<rparr>"

definition deployPrebuiltEdition :: "'w handler" where [handler_defs]:
  "deployPrebuiltEdition V q =
    (let chain = jprop (hq_params q) ''chain'';
         contractMetadata = jprop (hq_body q) ''contractMetadata'';
         version = jprop (hq_body q) ''version'';
         txOverrides = jprop (hq_body q) ''txOverrides'';
         saltForProxyDeploy = jprop (hq_body q) ''saltForProxyDeploy'';
         forceDirectDeploy = jprop (hq_body q) ''forceDirectDeploy'';
         compilerOptions = jprop (hq_body q) ''compilerOptions'' in
     bnd (chainIdFrom V chain) (\<lambda>chainId.
     let walletAddress = jprop (hq_headers q) ''x-backend-wallet-address'';
         accountAddress = jprop (hq_headers q) ''x-account-address'';
         idempotencyKey = jprop (hq_headers q) ''x-idempotency-key'' in
     bnd (getSdk V chainId walletAddress accountAddress) (\<lambda>sdk.
     bnd (prepare_deploy V sdk ''deployBuiltInContract'' [JStr ''edition'', contractMetadata, version,
         JObj [(''saltForProxyDeploy'', saltForProxyDeploy), (''forceDirectDeploy'', forceDirectDeploy),
         (''compilerOptions'', compilerOptions)]]) (\<lambda>tx.
     bnd (simulate_deploy V tx) (\<lambda>deployedAddress.
     bnd (queue_tx V tx chainId ''deploy-prebuilt'' deployedAddress (JStr ''edition'') JUndefined idempotencyKey txOverrides) (\<lambda>queueId.
     ret (JObj [(''result'', JObj [(''deployedAddress'', deployedAddress), (''queueId'',
         JStr queueId)])])))))))"

section \<open>deploy/prebuilts/editionDrop.ts\<close>

definition deployPrebuiltEditionDrop_requestBodySchema :: schema where [schema_defs]:
  "deployPrebuiltEditionDrop_requestBodySchema =
     SObject ([(''contractMetadata'', True, SObject (properties commonContractSchema
     @ properties commonRoyaltySchema @ properties merkleSchema @ properties commonSymbolSchema
     @ properties commonPlatformFeeSchema @ properties commonPrimarySaleSchema
     @ properties commonTrustedForwarderSchema))] @ properties contractDeployBasicSchema
     @ properties txOverridesWithValueSchema)"

definition deployPrebuiltEditionDrop_route :: route where [route_defs]:
  "deployPrebuiltEditionDrop_route = \<lparr>rt_method = ''POST'',
     rt_url = ''/deploy/:chain/prebuilts/edition-drop'',
     rt_operationId = ''deployEditionDrop'',
     rt_tags = [''Deploy''],
     rt_hidden = False,
     rt_params = Some prebuiltDeployContractParamSchema,
     rt_querystring = None,
     rt_body = Some deployPrebuiltEditionDrop_requestBodySchema,
     rt_headers = Some walletWithAAHeaderSchema,
     rt_response = put_fields [(200, prebuiltDeployResponseSchema)] standardResponseSchema\<rparr>"

definition deployPrebuiltEditionDrop :: "'w handler" where [handler_defs]:
  "deployPrebuiltEditionDrop V q =
    (let chain = jprop (hq_params q) ''chain'';
         contractMetadata = jprop (hq_body q) ''contractMetadata'';
         version = jprop (hq_body q) ''version'';
         txOverrides = jprop (hq_body q) ''txOverrides'';
         saltForProxyDeploy = jprop (hq_body q) ''saltForProxyDeploy'';
         forceDirectDeploy = jprop (hq_body q) ''forceDirectDeploy'';
         compilerOptions = jprop (hq_body q) ''compilerOptions'' in
     bnd (chainIdFrom V chain) (\<lambda>chainId.
     let walletAddress = jprop (hq_headers q) ''x-backend-wallet-address'';
         accountAddress = jprop (hq_headers q) ''x-account-address'';
         idempotencyKey = jprop (hq_headers q) ''x-idempotency-key'' in
     bnd (getSdk V chainId walletAddress accountAddress) (\<lambda>sdk.
     bnd (prepare_deploy V sdk ''deployBuiltInContract'' [JStr ''edition-drop'', contractMetadata, version,
         JObj [(''saltForProxyDeploy'', saltForProxyDeploy), (''forceDirectDeploy'', forceDirectDeploy),
         (''compilerOptions'', compilerOptions)]]) (\<lambda>tx.
     bnd (simulate_deploy V tx) (\<lambda>deployedAddress.
     bnd (queue_tx V tx chainId ''deploy-prebuilt'' deployedAddress (JStr ''edition-drop'') JUndefined idempotencyKey txOverrides) (\<lambda>queueId.
     ret (JObj [(''result'', JObj [(''deployedAddress'', deployedAddress), (''queueId'',
         JStr queueId)])])))))))"

section \<open>deploy/prebuilts/marketplaceV3.ts\<close>

definition deployPrebuiltMarketplaceV3_requestBodySchema :: schema where [schema_defs]:
  "deployPrebuiltMarketplaceV3_requestBodySchema =
     SObject ([(''contractMetadata'', True, SObject (properties commonContractSchema
     @ properties commonPlatformFeeSchema @ properties commonTrustedForwarderSchema))]
     @ properties contractDeployBasicSchema @ properties txOverridesWithValueSchema)"

definition deployPrebuiltMarketplaceV3_route :: route where [route_defs]:
  "deployPrebuiltMarketplaceV3_route = \<lparr>rt_method = ''POST'',
     rt_url = ''/deploy/:chain/prebuilts/marketplace-v3'',
     rt_operationId = ''deployMarketplaceV3'',
     rt_tags = [''Deploy''],
     rt_hidden = False,
     rt_params = Some prebuiltDeployContractParamSchema,
     rt_querystring = None,
     rt_body = Some deployPrebuiltMarketplaceV3_requestBodySchema,
     rt_headers = Some walletWithAAHeaderSchema,
     rt_response = put_fields [(200, prebuiltDeployResponseSchema)] standardResponseSchema\<rparr>"

definition deployPrebuiltMarketplaceV3 :: "'w handler" where [handler_defs]:
  "deployPrebuiltMarketplaceV3 V q =
    (let chain = jprop (hq_params q) ''chain'';
         contractMetadata = jprop (hq_body q) ''contractMetadata'';
         version = jprop (hq_body q) ''version'';
         txOverrides = jprop (hq_body q) ''txOverrides'';
         saltForProxyDeploy = jprop (hq_body q) ''saltForProxyDeploy'';
         forceDirectDeploy = jprop (hq_body q) ''forceDirectDeploy'';
         compilerOptions = jprop (hq_body q) ''compilerOptions'' in
     bnd (chainIdFrom V chain) (\<lambda>chainId.
     let walletAddress = jprop (hq_headers q) ''x-backend-wallet-address'';
         accountAddress = jprop (hq_headers q) ''x-account-address'';
         idempotencyKey = jprop (hq_headers q) ''x-idempotency-key'' in
     bnd (getSdk V chainId walletAddress accountAddress) (\<lambda>sdk.
     bnd (prepare_deploy V sdk ''deployBuiltInContract'' [JStr ''marketplace-v3'', contractMetadata,
         version, JObj [(''saltForProxyDeploy'', saltForProxyDeploy), (''forceDirectDeploy'',
         forceDirectDeploy), (''compilerOptions'', compilerOptions)]]) (\<lambda>tx.
     bnd (simulate_deploy V tx) (\<lambda>deployedAddress.
     bnd (queue_tx V tx chainId ''deploy-prebuilt'' deployedAddress (JStr ''marketplace-v3'') JUndefined idempotencyKey txOverrides) (\<lambda>queueId.
     ret (JObj [(''result'', JObj [(''deployedAddress'', deployedAddress), (''queueId'',
         JStr queueId)])])))))))"

section \<open>deploy/prebuilts/multiwrap.ts\<close>

definition deployPrebuiltMultiwrap_requestBodySchema :: schema where [schema_defs]:
  "deployPrebuiltMultiwrap_requestBodySchema =
     SObject ([(''contractMetadata'', True, SObject (properties commonContractSchema
     @ properties commonRoyaltySchema @ properties commonSymbolSchema
     @ properties commonTrustedForwarderSchema))] @ properties contractDeployBasicSchema
     @ properties txOverridesWithValueSchema)"

definition deployPrebuiltMultiwrap_route :: route where [route_defs]:
  "deployPrebuiltMultiwrap_route = \<lparr>rt_method = ''POST'',
     rt_url = ''/deploy/:chain/prebuilts/multiwrap'',
     rt_operationId = ''deployMultiwrap'',
     rt_tags = [''Deploy''],
     rt_hidden = False,
     rt_params = Some prebuiltDeployContractParamSchema,
     rt_querystring = None,
     rt_body = Some deployPrebuiltMultiwrap_requestBodySchema,
     rt_headers = Some walletWithAAHeaderSchema,
     rt_response = put_fields [(200, prebuiltDeployResponseSchema)] standardResponseSchema\<rparr>"

definition deployPrebuiltMultiwrap :: "'w handler" where [handler_defs]:
  "deployPrebuiltMultiwrap V q =
    (let chain = jprop (hq_params q) ''chain'';
         contractMetadata = jprop (hq_body q) ''contractMetadata'';
         version = jprop (hq_body q) ''version'';
         txOverrides = jprop (hq_body q) ''txOverrides'';
         saltForProxyDeploy = jprop (hq_body q) ''saltForProxyDeploy'';
         forceDirectDeploy = jprop (hq_body q) ''forceDirectDeploy'';
         compilerOptions = jprop (hq_body q) ''compilerOptions'' in
     bnd (chainIdFrom V chain) (\<lambda>chainId.
     let walletAddress = jprop (hq_headers q) ''x-backend-wallet-address'';
         accountAddress = jprop (hq_headers q) ''x-account-address'';
         idempotencyKey = jprop (hq_headers q) ''x-idempotency-key'' in
     bnd (getSdk V chainId walletAddress accountAddress) (\<lambda>sdk.
     bnd (prepare_deploy V sdk ''deployBuiltInContract'' [JStr ''multiwrap'', contractMetadata, version,
         JObj [(''saltForProxyDeploy'', saltForProxyDeploy), (''forceDirectDeploy'', forceDirectDeploy),
         (''compilerOptions'', compilerOptions)]]) (\<lambda>tx.
     bnd (simulate_deploy V tx) (\<lambda>deployedAddress.
     bnd (queue_tx V tx chainId ''deploy-prebuilt'' deployedAddress (JStr ''multiwrap'') JUndefined idempotencyKey txOverrides) (\<lambda>queueId.
     ret (JObj [(''result'', JObj [(''deployedAddress'', deployedAddress), (''queueId'',
         JStr queueId)])])))))))"

section \<open>deploy/prebuilts/nftCollection.ts\<close>

definition deployPrebuiltNFTCollection_requestBodySchema :: schema where [schema_defs]:
  "deployPrebuiltNFTCollection_requestBodySchema =
     SObject ([(''contractMetadata'', True, SObject (properties commonContractSchema
     @ properties commonRoyaltySchema @ properties commonSymbolSchema
     @ properties commonPlatformFeeSchema @ properties commonPrimarySaleSchema
     @ properties commonTrustedForwarderSchema))] @ properties contractDeployBasicSchema
     @ properties txOverridesWithValueSchema)"

definition deployPrebuiltNFTCollection_route :: route where [route_defs]:
  "deployPrebuiltNFTCollection_route = \<lparr>rt_method = ''POST'',
     rt_url = ''/deploy/:chain/prebuilts/nft-collection'',
     rt_operationId = ''deployNFTCollection'',
     rt_tags = [''Deploy''],
     rt_hidden = False,
     rt_params = Some prebuiltDeployContractParamSchema,
     rt_querystring = None,
     rt_body = Some deployPrebuiltNFTCollection_requestBodySchema,
     rt_headers = Some walletWithAAHeaderSchema,
     rt_response = put_fields [(200, prebuiltDeployResponseSchema)] standardResponseSchema\<rparr>"

definition deployPrebuiltNFTCollection :: "'w handler" where [handler_defs]:
  "deployPrebuiltNFTCollection V q =
    (let chain = jprop (hq_params q) ''chain'';
         contractMetadata = jprop (hq_body q) ''contractMetadata'';
         version = jprop (hq_body q) ''version'';
         txOverrides = jprop (hq_body q) ''txOverrides'';
         saltForProxyDeploy = jprop (hq_body q) ''saltForProxyDeploy'';
         forceDirectDeploy = jprop (hq_body q) ''forceDirectDeploy'';
         compilerOptions = jprop (hq_body q) ''compilerOptions'' in
     bnd (chainIdFrom V chain) (\<lambda>chainId.
     let walletAddress = jprop (hq_headers q) ''x-backend-wallet-address'';
         accountAddress = jprop (hq_headers q) ''x-account-address'';
         idempotencyKey = jprop (hq_headers q) ''x-idempotency-key'' in
     bnd (getSdk V chainId walletAddress accountAddress) (\<lambda>sdk.
     bnd (prepare_deploy V sdk ''deployBuiltInContract'' [JStr ''nft-collection'', contractMetadata,
         version, JObj [(''saltForProxyDeploy'', saltForProxyDeploy), (''forceDirectDeploy'',
         forceDirectDeploy), (''compilerOptions'', compilerOptions)]]) (\<lambda>tx.
     bnd (simulate_deploy V tx) (\<lambda>deployedAddress.
     bnd (queue_tx V tx chainId ''deploy-prebuilt'' deployedAddress (JStr ''nft-collection'') JUndefined idempotencyKey txOverrides) (\<lambda>queueId.
     ret (JObj [(''result'', JObj [(''deployedAddress'', deployedAddress), (''queueId'',
         JStr queueId)])])))))))"

section \<open>deploy/prebuilts/nftDrop.ts\<close>

definition deployPrebuiltNFTDrop_requestBodySchema :: schema where [schema_defs]:
  "deployPrebuiltNFTDrop_requestBodySchema =
     SObject ([(''contractMetadata'', True, SObject (properties commonContractSchema
     @ properties commonRoyaltySchema @ properties merkleSchema @ properties commonSymbolSchema
     @ properties commonPlatformFeeSchema @ properties commonPrimarySaleSchema
     @ properties commonTrustedForwarderSchema))] @ properties contractDeployBasicSchema
     @ properties txOverridesWithValueSchema)"

definition deployPrebuiltNFTDrop_route :: route where [route_defs]:
  "deployPrebuiltNFTDrop_route = \<lparr>rt_method = ''POST'',
     rt_url = ''/deploy/:chain/prebuilts/nft-drop'',
     rt_operationId = ''deployNFTDrop'',
     rt_tags = [''Deploy''],
     rt_hidden = False,
     rt_params = Some prebuiltDeployContractParamSchema,
     rt_querystring = None,
     rt_body = Some deployPrebuiltNFTDrop_requestBodySchema,
     rt_headers = Some walletWithAAHeaderSchema,
     rt_response = put_fields [(200, prebuiltDeployResponseSchema)] standardResponseSchema\<rparr>"

definition deployPrebuiltNFTDrop :: "'w handler" where [handler_defs]:
  "deployPrebuiltNFTDrop V q =
    (let chain = jprop (hq_params q) ''chain'';
         contractMetadata = jprop (hq_body q) ''contractMetadata'';
         version = jprop (hq_body q) ''version'';
         txOverrides = jprop (hq_body q) ''txOverrides'';
         saltForProxyDeploy = jprop (hq_body q) ''saltForProxyDeploy'';
         forceDirectDeploy = jprop (hq_body q) ''forceDirectDeploy'';
         compilerOptions = jprop (hq_body q) ''compilerOptions'' in
     bnd (chainIdFrom V chain) (\<lambda>chainId.
     let walletAddress = jprop (hq_headers q) ''x-backend-wallet-address'';
         accountAddress = jprop (hq_headers q) ''x-account-address'';
         idempotencyKey = jprop (hq_headers q) ''x-idempotency-key'' in
     bnd (getSdk V chainId walletAddress accountAddress) (\<lambda>sdk.
     bnd (prepare_deploy V sdk ''deployBuiltInContract'' [JStr ''nft-drop'', contractMetadata, version,
         JObj [(''saltForProxyDeploy'', saltForProxyDeploy), (''forceDirectDeploy'', forceDirectDeploy),
         (''compilerOptions'', compilerOptions)]]) (\<lambda>tx.
     bnd (simulate_deploy V tx) (\<lambda>deployedAddress.
     bnd (queue_tx V tx chainId ''deploy-prebuilt'' deployedAddress (JStr ''nft-drop'') JUndefined idempotencyKey txOverrides) (\<lambda>queueId.
     ret (JObj [(''result'', JObj [(''deployedAddress'', deployedAddress), (''queueId'',
         JStr queueId)])])))))))"

section \<open>deploy/prebuilts/pack.ts\<close>

definition deployPrebuiltPack_requestBodySchema :: schema where [schema_defs]:
  "deployPrebuiltPack_requestBodySchema =
     SObject ([(''contractMetadata'', True, SObject (properties commonContractSchema
     @ properties commonRoyaltySchema @ properties commonSymbolSchema
     @ properties commonPlatformFeeSchema @ properties commonTrustedForwarderSchema))]
     @ properties contractDeployBasicSchema @ properties txOverridesWithValueSchema)"

definition deployPrebuiltPack_route :: route where [route_defs]:
  "deployPrebuiltPack_route = \<lparr>rt_method = ''POST'',
     rt_url = ''/deploy/:chain/prebuilts/pack'',
     rt_operationId = ''deployPack'',
     rt_tags = [''Deploy''],
     rt_hidden = False,
     rt_params = Some prebuiltDeployContractParamSchema,
     rt_querystring = None,
     rt_body = Some deployPrebuiltPack_requestBodySchema,
     rt_headers = Some walletWithAAHeaderSchema,
     rt_response = put_fields [(200, prebuiltDeployResponseSchema)] standardResponseSchema\<rparr>"

definition deployPrebuiltPack :: "'w handler" where [handler_defs]:
  "deployPrebuiltPack V q =
    (let chain = jprop (hq_params q) ''chain'';
         contractMetadata = jprop (hq_body q) ''contractMetadata'';
         version = jprop (hq_body q) ''version'';
         txOverrides = jprop (hq_body q) ''txOverrides'';
         saltForProxyDeploy = jprop (hq_body q) ''saltForProxyDeploy'';
         forceDirectDeploy = jprop (hq_body q) ''forceDirectDeploy'';
         compilerOptions = jprop (hq_body q) ''compilerOptions'' in
     bnd (chainIdFrom V chain) (\<lambda>chainId.
     let walletAddress = jprop (hq_headers q) ''x-backend-wallet-address'';
         accountAddress = jprop (hq_headers q) ''x-account-address'';
         idempotencyKey = jprop (hq_headers q) ''x-idempotency-key'' in
     bnd (getSdk V chainId walletAddress accountAddress) (\<lambda>sdk.
     bnd (prepare_deploy V sdk ''deployBuiltInContract'' [JStr ''pack'', contractMetadata, version,
         JObj [(''saltForProxyDeploy'', saltForProxyDeploy), (''forceDirectDeploy'', forceDirectDeploy),
         (''compilerOptions'', compilerOptions)]]) (\<lambda>tx.
     bnd (simulate_deploy V tx) (\<lambda>deployedAddress.
     bnd (queue_tx V tx chainId ''deploy-prebuilt'' deployedAddress (JStr ''pack'') JUndefined idempotencyKey txOverrides) (\<lambda>queueId.
     ret (JObj [(''result'', JObj [(''deployedAddress'', deployedAddress), (''queueId'',
         JStr queueId)])])))))))"

section \<open>deploy/prebuilts/signatureDrop.ts\<close>

definition deployPrebuiltSignatureDrop_requestBodySchema :: schema where [schema_defs]:
  "deployPrebuiltSignatureDrop_requestBodySchema =
     SObject ([(''contractMetadata'', True, SObject (properties commonContractSchema
     @ properties commonRoyaltySchema @ properties merkleSchema @ properties commonSymbolSchema
     @ properties commonPlatformFeeSchema @ properties commonPrimarySaleSchema
     @ properties commonTrustedForwarderSchema))] @ properties contractDeployBasicSchema
     @ properties txOverridesWithValueSchema)"

definition deployPrebuiltSignatureDrop_route :: route where [route_defs]:
  "deployPrebuiltSignatureDrop_route = \<lparr>rt_method = ''POST'',
     rt_url = ''/deploy/:chain/prebuilts/signature-drop'',
     rt_operationId = ''deploySignatureDrop'',
     rt_tags = [''Deploy''],
     rt_hidden = False,
     rt_params = Some prebuiltDeployContractParamSchema,
     rt_querystring = None,
     rt_body = Some deployPrebuiltSignatureDrop_requestBodySchema,
     rt_headers = Some walletWithAAHeaderSchema,
     rt_response = put_fields [(200, prebuiltDeployResponseSchema)] standardResponseSchema\<rparr>"

definition deployPrebuiltSignatureDrop :: "'w handler" where [handler_defs]:
  "deployPrebuiltSignatureDrop V q =
    (let chain = jprop (hq_params q) ''chain'';
         contractMetadata = jprop (hq_body q) ''contractMetadata'';
         version = jprop (hq_body q) ''version'';
         txOverrides = jprop (hq_body q) ''txOverrides'';
         saltForProxyDeploy = jprop (hq_body q) ''saltForProxyDeploy'';
         forceDirectDeploy = jprop (hq_body q) ''forceDirectDeploy'';
         compilerOptions = jprop (hq_body q) ''compilerOptions'' in
     bnd (chainIdFrom V chain) (\<lambda>chainId.
     let walletAddress = jprop (hq_headers q) ''x-backend-wallet-address'';
         accountAddress = jprop (hq_headers q) ''x-account-address'';
         idempotencyKey = jprop (hq_headers q) ''x-idempotency-key'' in
     bnd (getSdk V chainId walletAddress accountAddress) (\<lambda>sdk.
     bnd (prepare_deploy V sdk ''deployBuiltInContract'' [JStr ''signature-drop'', contractMetadata,
         version, JObj [(''saltForProxyDeploy'', saltForProxyDeploy), (''forceDirectDeploy'',
         forceDirectDeploy), (''compilerOptions'', compilerOptions)]]) (\<lambda>tx.
     bnd (simulate_deploy V tx) (\<lambda>deployedAddress.
     bnd (queue_tx V tx chainId ''deploy-prebuilt'' deployedAddress (JStr ''signature-drop'') JUndefined idempotencyKey txOverrides) (\<lambda>queueId.
     ret (JObj [(''result'', JObj [(''deployedAddress'', deployedAddress), (''queueId'',
         JStr queueId)])])))))))"

section \<open>deploy/prebuilts/split.ts\<close>

definition deployPrebuiltSplit_requestBodySchema :: schema where [schema_defs]:
  "deployPrebuiltSplit_requestBodySchema =
     SObject ([(''contractMetadata'', True, SObject (properties commonContractSchema @ [(''recipients'',
     True, SArray splitRecipientInputSchema)] @ properties commonTrustedForwarderSchema))]
     @ properties contractDeployBasicSchema @ properties txOverridesWithValueSchema)"

definition deployPrebuiltSplit_route :: route where [route_defs]:
  "deployPrebuiltSplit_route = \<lparr>rt_method = ''POST'',
     rt_url = ''/deploy/:chain/prebuilts/split'',
     rt_operationId = ''deploySplit'',
     rt_tags = [''Deploy''],
     rt_hidden = False,
     rt_params = Some prebuiltDeployContractParamSchema,
     rt_querystring = None,
     rt_body = Some deployPrebuiltSplit_requestBodySchema,
     rt_headers = Some walletWithAAHeaderSchema,
     rt_response = put_fields [(200, prebuiltDeployResponseSchema)] standardResponseSchema\<rparr>"

definition deployPrebuiltSplit :: "'w handler" where [handler_defs]:
  "deployPrebuiltSplit V q =
    (let chain = jprop (hq_params q) ''chain'';
         contractMetadata = jprop (hq_body q) ''contractMetadata'';
         version = jprop (hq_body q) ''version'';
         txOverrides = jprop (hq_body q) ''txOverrides'';
         saltForProxyDeploy = jprop (hq_body q) ''saltForProxyDeploy'';
         forceDirectDeploy = jprop (hq_body q) ''forceDirectDeploy'';
         compilerOptions = jprop (hq_body q) ''compilerOptions'' in
     bnd (chainIdFrom V chain) (\<lambda>chainId.
     let walletAddress = jprop (hq_headers q) ''x-backend-wallet-address'';
         accountAddress = jprop (hq_headers q) ''x-account-address'';
         idempotencyKey = jprop (hq_headers q) ''x-idempotency-key'' in
     bnd (getSdk V chainId walletAddress accountAddress) (\<lambda>sdk.
     bnd (prepare_deploy V sdk ''deployBuiltInContract'' [JStr ''split'', contractMetadata, version,
         JObj [(''saltForProxyDeploy'', saltForProxyDeploy), (''forceDirectDeploy'', forceDirectDeploy),
         (''compilerOptions'', compilerOptions)]]) (\<lambda>tx.
     bnd (simulate_deploy V tx) (\<lambda>deployedAddress.
     bnd (queue_tx V tx chainId ''deploy-prebuilt'' deployedAddress (JStr ''split'') JUndefined idempotencyKey txOverrides) (\<lambda>queueId.
     ret (JObj [(''result'', JObj [(''deployedAddress'', deployedAddress), (''queueId'',
         JStr queueId)])])))))))"

section \<open>deploy/prebuilts/token.ts\<close>

definition deployPrebuiltToken_requestBodySchema :: schema where [schema_defs]:
  "deployPrebuiltToken_requestBodySchema =
     SObject ([(''contractMetadata'', True, SObject (properties commonContractSchema
     @ properties commonSymbolSchema @ properties commonPlatformFeeSchema
     @ properties commonPrimarySaleSchema @ properties commonTrustedForwarderSchema))]
     @ properties contractDeployBasicSchema @ properties txOverridesWithValueSchema)"

definition deployPrebuiltToken_route :: route where [route_defs]:
  "deployPrebuiltToken_route = \<lparr>rt_method = ''POST'',
     rt_url = ''/deploy/:chain/prebuilts/token'',
     rt_operationId = ''deployToken'',
     rt_tags = [''Deploy''],
     rt_hidden = False,
     rt_params = Some prebuiltDeployContractParamSchema,
     rt_querystring = None,
     rt_body = Some deployPrebuiltToken_requestBodySchema,
     rt_headers = Some walletWithAAHeaderSchema,
     rt_response = put_fields [(200, prebuiltDeployResponseSchema)] standardResponseSchema\<rparr>"

definition deployPrebuiltToken :: "'w handler" where [handler_defs]:
  "deployPrebuiltToken V q =
    (let chain = jprop (hq_params q) ''chain'';
         contractMetadata = jprop (hq_body q) ''contractMetadata'';
         version = jprop (hq_body q) ''version'';
         txOverrides = jprop (hq_body q) ''txOverrides'';
         saltForProxyDeploy = jprop (hq_body q) ''saltForProxyDeploy'';
         forceDirectDeploy = jprop (hq_body q) ''forceDirectDeploy'';
         compilerOptions = jprop (hq_body q) ''compilerOptions'' in
     bnd (chainIdFrom V chain) (\<lambda>chainId.
     let walletAddress = jprop (hq_headers q) ''x-backend-wallet-address'';
         accountAddress = jprop (hq_headers q) ''x-account-address'';
         idempotencyKey = jprop (hq_headers q) ''x-idempotency-key'' in
     bnd (getSdk V chainId walletAddress accountAddress) (\<lambda>sdk.
     bnd (prepare_deploy V sdk ''deployBuiltInContract'' [JStr ''token'', contractMetadata, version,
         JObj [(''saltForProxyDeploy'', saltForProxyDeploy), (''forceDirectDeploy'', forceDirectDeploy),
         (''compilerOptions'', compilerOptions)]]) (\<lambda>tx.
     bnd (simulate_deploy V tx) (\<lambda>deployedAddress.
     bnd (queue_tx V tx chainId ''deploy-prebuilt'' deployedAddress (JStr ''token'') JUndefined idempotencyKey txOverrides) (\<lambda>queueId.
     ret (JObj [(''result'', JObj [(''deployedAddress'', deployedAddress), (''queueId'',
         JStr queueId)])])))))))"

section \<open>deploy/prebuilts/tokenDrop.ts\<close>

definition deployPrebuiltTokenDrop_requestBodySchema :: schema where [schema_defs]:
  "deployPrebuiltTokenDrop_requestBodySchema =
     SObject ([(''contractMetadata'', True, SObject (properties commonContractSchema
     @ properties merkleSchema @ properties commonSymbolSchema @ properties commonPlatformFeeSchema
     @ properties commonPrimarySaleSchema @ properties commonTrustedForwarderSchema))]
     @ properties contractDeployBasicSchema @ properties txOverridesWithValueSchema)"

definition deployPrebuiltTokenDrop_route :: route where [route_defs]:
  "deployPrebuiltTokenDrop_route = \<lparr>rt_method = ''POST'',
     rt_url = ''/deploy/:chain/prebuilts/token-drop'',
     rt_operationId = ''deployTokenDrop'',
     rt_tags = [''Deploy''],
     rt_hidden = False,
     rt_params = Some prebuiltDeployContractParamSchema,
     rt_querystring = None,
     rt_body = Some deployPrebuiltTokenDrop_requestBodySchema,
     rt_headers = Some walletWithAAHeaderSchema,
     rt_response = put_fields [(200, prebuiltDeployResponseSchema)] standardResponseSchema\<rparr>"

definition deployPrebuiltTokenDrop :: "'w handler" where [handler_defs]:
  "deployPrebuiltTokenDrop V q =
    (let chain = jprop (hq_params q) ''chain'';
         contractMetadata = jprop (hq_body q) ''contractMetadata'';
         version = jprop (hq_body q) ''version'';
         txOverrides = jprop (hq_body q) ''txOverrides'';
         saltForProxyDeploy = jprop (hq_body q) ''saltForProxyDeploy'';
         forceDirectDeploy = jprop (hq_body q) ''forceDirectDeploy'';
         compilerOptions = jprop (hq_body q) ''compilerOptions'' in
     bnd (chainIdFrom V chain) (\<lambda>chainId.
     let walletAddress = jprop (hq_headers q) ''x-backend-wallet-address'';
         accountAddress = jprop (hq_headers q) ''x-account-address'';
         idempotencyKey = jprop (hq_headers q) ''x-idempotency-key'' in
     bnd (getSdk V chainId walletAddress accountAddress) (\<lambda>sdk.
     bnd (prepare_deploy V sdk ''deployBuiltInContract'' [JStr ''token-drop'', contractMetadata, version,
         JObj [(''saltForProxyDeploy'', saltForProxyDeploy), (''forceDirectDeploy'', forceDirectDeploy),
         (''compilerOptions'', compilerOptions)]]) (\<lambda>tx.
     bnd (simulate_deploy V tx) (\<lambda>deployedAddress.
     bnd (queue_tx V tx chainId ''deploy-prebuilt'' deployedAddress (JStr ''token-drop'') JUndefined idempotencyKey txOverrides) (\<lambda>queueId.
     ret (JObj [(''result'', JObj [(''deployedAddress'', deployedAddress), (''queueId'',
         JStr queueId)])])))))))"

section \<open>deploy/prebuilts/vote.ts\<close>

definition deployPrebuiltVote_requestBodySchema :: schema where [schema_defs]:
  "deployPrebuiltVote_requestBodySchema =
     SObject ([(''contractMetadata'', True, SObject (properties commonContractSchema
     @ properties voteSettingsInputSchema @ properties commonTrustedForwarderSchema))]
     @ properties contractDeployBasicSchema @ properties txOverridesWithValueSchema)"

definition deployPrebuiltVote_route :: route where [route_defs]:
  "deployPrebuiltVote_route = \<lparr>rt_method = ''POST'',
     rt_url = ''/deploy/:chain/prebuilts/vote'',
     rt_operationId = ''deployVote'',
     rt_tags = [''Deploy''],
     rt_hidden = False,
     rt_params = Some prebuiltDeployContractParamSchema,
     rt_querystring = None,
     rt_body = Some deployPrebuiltVote_requestBodySchema,
     rt_headers = Some walletWithAAHeaderSchema,
     rt_response = put_fields [(200, prebuiltDeployResponseSchema)] standardResponseSchema\<rparr>"

definition deployPrebuiltVote :: "'w handler" where [handler_defs]:
  "deployPrebuiltVote V q =
    (let chain = jprop (hq_params q) ''chain'';
         contractMetadata = jprop (hq_body q) ''contractMetadata'';
         version = jprop (hq_body q) ''version'';
         txOverrides = jprop (hq_body q) ''txOverrides'';
         saltForProxyDeploy = jprop (hq_body q) ''saltForProxyDeploy'';
         forceDirectDeploy = jprop (hq_body q) ''forceDirectDeploy'';
         compilerOptions = jprop (hq_body q) ''compilerOptions'' in
     bnd (chainIdFrom V chain) (\<lambda>chainId.
     let walletAddress = jprop (hq_headers q) ''x-backend-wallet-address'';
         accountAddress = jprop (hq_headers q) ''x-account-address'';
         idempotencyKey = jprop (hq_headers q) ''x-idempotency-key'' in
     bnd (getSdk V chainId walletAddress accountAddress) (\<lambda>sdk.
     bnd (prepare_deploy V sdk ''deployBuiltInContract'' [JStr ''vote'', contractMetadata, version,
         JObj [(''saltForProxyDeploy'', saltForProxyDeploy), (''forceDirectDeploy'', forceDirectDeploy),
         (''compilerOptions'', compilerOptions)]]) (\<lambda>tx.
     bnd (simulate_deploy V tx) (\<lambda>deployedAddress.
     bnd (queue_tx V tx chainId ''deploy-prebuilt'' deployedAddress (JStr ''vote'') JUndefined idempotencyKey txOverrides) (\<lambda>queueId.
     ret (JObj [(''result'', JObj [(''deployedAddress'', deployedAddress), (''queueId'',
         JStr queueId)])])))))))"

section \<open>deploy/published.ts\<close>

definition deployPublished_responseSchema :: schema where [schema_defs]:
  "deployPublished_responseSchema =
     SObject [(''queueId'', False, SString), (''deployedAddress'', False, SString), (''message'', False,
     SString)]"

definition deployPublished_requestBodySchema :: schema where [schema_defs]:
  "deployPublished_requestBodySchema =
     SObject (properties contractDeployBasicSchema @ [(''constructorParams'', True, SArray SAny)]
     @ properties txOverridesWithValueSchema)"

definition deployPublished_route :: route where [route_defs]:
  "deployPublished_route = \<lparr>rt_method = ''POST'',
     rt_url = ''/deploy/:chain/:publisher/:contractName'',
     rt_operationId = ''deployPublished'',
     rt_tags = [''Deploy''],
     rt_hidden = False,
     rt_params = Some publishedDeployParamSchema,
     rt_querystring = None,
     rt_body = Some deployPublished_requestBodySchema,
     rt_headers = Some walletWithAAHeaderSchema,
     rt_response = put_fields [(200, deployPublished_responseSchema)] standardResponseSchema\<rparr>"

definition status_message :: "string \<Rightarrow> string" where
  "status_message queueId = ''To retrieve the deployed contract address, use the endpoint '' @ quoted
     (''/transaction/status/'' @ queueId) @ '' and check the value of the '' @ quoted ''deployedContractAddress''
     @ '' field''"

definition deployPublished :: "'w handler" where [handler_defs]:
  "deployPublished V q =
     (let chain = jprop (hq_params q) ''chain'';
         publisher = jprop (hq_params q) ''publisher'';
         contractName = jprop (hq_params q) ''contractName'';
         constructorParams = jprop (hq_body q) ''constructorParams'';
         version = jprop (hq_body q) ''version'';
         txOverrides = jprop (hq_body q) ''txOverrides'';
         saltForProxyDeploy = jprop (hq_body q) ''saltForProxyDeploy'';
         forceDirectDeploy = jprop (hq_body q) ''forceDirectDeploy'';
         compilerOptions = jprop (hq_body q) ''compilerOptions'';
         walletAddress = jprop (hq_headers q) ''x-backend-wallet-address'';
         accountAddress = jprop (hq_headers q) ''x-account-address'';
         idempotencyKey = jprop (hq_headers q) ''x-idempotency-key'' in
      bnd (chainIdFrom V chain) (\<lambda>chainId.
      bnd (getSdk V chainId walletAddress accountAddress) (\<lambda>sdk.
      bnd (prepare_deploy V sdk ''deployPublishedContract'' [publisher, contractName, constructorParams, version,
             JObj [(''saltForProxyDeploy'', saltForProxyDeploy), (''forceDirectDeploy'', forceDirectDeploy),
               (''compilerOptions'', compilerOptions)]]) (\<lambda>tx.
      bnd (simulate_deploy V tx) (\<lambda>simulated.
      let deployedAddress = (if v_isAddress (ys_sdk V) simulated then simulated else JUndefined) in
      bnd (queue_tx V tx chainId ''deploy-published'' deployedAddress contractName JUndefined idempotencyKey
             txOverrides) (\<lambda>queueId.
      ret (JObj [(''deployedAddress'', deployedAddress), (''queueId'', JStr queueId),
        (''message'', if \<not> js_truthy deployedAddress then JStr (status_message queueId) else JUndefined)])))))))"

section \<open>Lists\<close>

text \<open>The routes with their handlers, and the routes in the order in which they are registered.\<close>

definition deploy_reads :: "(route \<times> 'w handler) list" where
  "deploy_reads =
     [(contractTypes_route, contractTypes)]"

definition deploy_writes :: "(route \<times> 'w handler) list" where
  "deploy_writes =
     [(deployPrebuilt_route, deployPrebuilt), (deployPrebuiltEdition_route, deployPrebuiltEdition),
         (deployPrebuiltEditionDrop_route, deployPrebuiltEditionDrop), (deployPrebuiltMarketplaceV3_route,
         deployPrebuiltMarketplaceV3), (deployPrebuiltMultiwrap_route, deployPrebuiltMultiwrap),
         (deployPrebuiltNFTCollection_route, deployPrebuiltNFTCollection), (deployPrebuiltNFTDrop_route,
         deployPrebuiltNFTDrop), (deployPrebuiltPack_route, deployPrebuiltPack),
         (deployPrebuiltSignatureDrop_route, deployPrebuiltSignatureDrop), (deployPrebuiltSplit_route,
         deployPrebuiltSplit), (deployPrebuiltToken_route, deployPrebuiltToken),
         (deployPrebuiltTokenDrop_route, deployPrebuiltTokenDrop), (deployPrebuiltVote_route,
         deployPrebuiltVote), (deployPublished_route, deployPublished)]"

definition prebuiltsRoutes :: "route list" where
  "prebuiltsRoutes =
     [deployPrebuiltEdition_route, deployPrebuiltEditionDrop_route, deployPrebuiltMarketplaceV3_route,
         deployPrebuiltMultiwrap_route, deployPrebuiltNFTCollection_route, deployPrebuiltNFTDrop_route,
         deployPrebuiltPack_route, deployPrebuiltSignatureDrop_route, deployPrebuiltSplit_route,
         deployPrebuiltToken_route, deployPrebuiltTokenDrop_route, deployPrebuiltVote_route,
         deployPrebuilt_route, deployPublished_route, contractTypes_route]"


end
