(* ===== verification/Service_Routes.thy ===== *)
theory Service_Routes
  imports Shared_Schemas
begin

text \<open>
  The routes of the engine itself: backend wallets, configuration, access, transactions,
  subscriptions, webhooks and the system. Their handlers, where they are modelled, are in the
  theories of their components.
\<close>

section \<open>admin/nonces.ts\<close>

definition getNonceDetailsRoute_responseBodySchema :: schema where [schema_defs]:
  "getNonceDetailsRoute_responseBodySchema =
     SObject [(''result'', True, SArray (SObject [(''walletAddress'', True, AddressSchema),
     (''chainId'', True, SNumber), (''onchainNonce'', True, SInteger), (''lastUsedNonce'', True,
     SInteger), (''sentNonces'', True, SArray SInteger), (''recycledNonces'', True, SArray SInteger)]))]"

definition getNonceDetailsRoute_walletWithAddressQuerySchema :: schema where [schema_defs]:
  "getNonceDetailsRoute_walletWithAddressQuerySchema =
     schema_partial walletWithAddressParamSchema"

definition getNonceDetailsRoute_route :: route where [route_defs]:
  "getNonceDetailsRoute_route = \<lparr>rt_method = ''GET'',
     rt_url = ''/admin/nonces'',
     rt_operationId = ''nonceDetails'',
     rt_tags = [''Admin''],
     rt_hidden = True,
     rt_params = None,
     rt_querystring = Some getNonceDetailsRoute_walletWithAddressQuerySchema,
     rt_body = None,
     rt_headers = None,
     rt_response = put_fields [(200, getNonceDetailsRoute_responseBodySchema)] standardResponseSchema\<rparr>"

section \<open>admin/transaction.ts\<close>

definition getTransactionDetails_jobSchema :: schema where [schema_defs]:
  "getTransactionDetails_jobSchema =
     SObject [(''queue'', True, SString), (''jobId'', True, SString), (''timestamp'', True, SString),
     (''processedOn'', False, SString), (''finishedOn'', False, SString), (''lines'', True,
     SArray SString)]"

definition getTransactionDetails_responseBodySchema :: schema where [schema_defs]:
  "getTransactionDetails_responseBodySchema =
     SObject [(''result'', True, SObject [(''raw'', True, SAny), (''jobs'', True,
     SArray getTransactionDetails_jobSchema)])]"

definition getTransactionDetails_requestSchema :: schema where [schema_defs]:
  "getTransactionDetails_requestSchema =
     SObject [(''queueId'', True, SString)]"

definition getTransactionDetails_route :: route where [route_defs]:
  "getTransactionDetails_route = \<lparr>rt_method = ''GET'',
     rt_url = ''/admin/transaction-details/:queueId'',
     rt_operationId = ''transactionDetails'',
     rt_tags = [''Admin''],
     rt_hidden = True,
     rt_params = Some getTransactionDetails_requestSchema,
     rt_querystring = None,
     rt_body = None,
     rt_headers = None,
     rt_response = put_fields [(200, getTransactionDetails_responseBodySchema)] standardResponseSchema\<rparr>"

section \<open>auth/access-tokens/create.ts\<close>

definition getAllAccessTokens_AccessTokenSchema :: schema where [schema_defs]:
  "getAllAccessTokens_AccessTokenSchema =
     SObject [(''id'', True, SString), (''tokenMask'', True, SString), (''walletAddress'', True,
     AddressSchema), (''createdAt'', True, SString), (''expiresAt'', True, SString), (''label'', True,
     SUnion [SString, SNull])]"

definition createAccessToken_responseBodySchema :: schema where [schema_defs]:
  "createAccessToken_responseBodySchema =
     SObject ([(''result'', True, SObject (properties getAllAccessTokens_AccessTokenSchema
     @ [(''accessToken'', True, SString)]))])"

definition createAccessToken_requestBodySchema :: schema where [schema_defs]:
  "createAccessToken_requestBodySchema =
     SObject [(''label'', False, SString)]"

definition createAccessToken_route :: route where [route_defs]:
  "createAccessToken_route = \<lparr>rt_method = ''POST'',
     rt_url = ''/auth/access-tokens/create'',
     rt_operationId = ''createAccessToken'',
     rt_tags = [''Access Tokens''],
     rt_hidden = False,
     rt_params = None,
     rt_querystring = None,
     rt_body = Some createAccessToken_requestBodySchema,
     rt_headers = None,
     rt_response = put_fields [(200, createAccessToken_responseBodySchema)] standardResponseSchema\<rparr>"

section \<open>auth/access-tokens/getAll.ts\<close>

definition getAllAccessTokens_responseBodySchema :: schema where [schema_defs]:
  "getAllAccessTokens_responseBodySchema =
     SObject [(''result'', True, SArray getAllAccessTokens_AccessTokenSchema)]"

definition getAllAccessTokens_route :: route where [route_defs]:
  "getAllAccessTokens_route = \<lparr>rt_method = ''GET'',
     rt_url = ''/auth/access-tokens/get-all'',
     rt_operationId = ''listAccessTokens'',
     rt_tags = [''Access Tokens''],
     rt_hidden = False,
     rt_params = None,
     rt_querystring = None,
     rt_body = None,
     rt_headers = None,
     rt_response = put_fields [(200, getAllAccessTokens_responseBodySchema)] standardResponseSchema\<rparr>"

section \<open>auth/access-tokens/revoke.ts\<close>

definition revokeAccessToken_responseBodySchema :: schema where [schema_defs]:
  "revokeAccessToken_responseBodySchema =
     SObject [(''result'', True, SObject [(''success'', True, SBoolean)])]"

definition revokeAccessToken_requestBodySchema :: schema where [schema_defs]:
  "revokeAccessToken_requestBodySchema =
     SObject [(''id'', True, SString)]"

definition revokeAccessToken_route :: route where [route_defs]:
  "revokeAccessToken_route = \<lparr>rt_method = ''POST'',
     rt_url = ''/auth/access-tokens/revoke'',
     rt_operationId = ''revokeAccessTokens'',
     rt_tags = [''Access Tokens''],
     rt_hidden = False,
     rt_params = None,
     rt_querystring = None,
     rt_body = Some revokeAccessToken_requestBodySchema,
     rt_headers = None,
     rt_response = put_fields [(200, revokeAccessToken_responseBodySchema)] standardResponseSchema\<rparr>"

section \<open>auth/access-tokens/update.ts\<close>

definition updateAccessToken_responseBodySchema :: schema where [schema_defs]:
  "updateAccessToken_responseBodySchema =
     SObject [(''result'', True, SObject [(''success'', True, SBoolean)])]"

definition updateAccessToken_requestBodySchema :: schema where [schema_defs]:
  "updateAccessToken_requestBodySchema =
     SObject [(''id'', True, SString), (''label'', False, SString)]"

definition updateAccessToken_route :: route where [route_defs]:
  "updateAccessToken_route = \<lparr>rt_method = ''POST'',
     rt_url = ''/auth/access-tokens/update'',
     rt_operationId = ''updateAccessTokens'',
     rt_tags = [''Access Tokens''],
     rt_hidden = False,
     rt_params = None,
     rt_querystring = None,
     rt_body = Some updateAccessToken_requestBodySchema,
     rt_headers = None,
     rt_response = put_fields [(200, updateAccessToken_responseBodySchema)] standardResponseSchema\<rparr>"

section \<open>auth/keypair/add.ts\<close>

definition addKeypair_responseBodySchema :: schema where [schema_defs]:
  "addKeypair_responseBodySchema =
     SObject [(''result'', True, SObject [(''keypair'', True, KeypairSchema)])]"

definition addKeypair_requestBodySchema :: schema where [schema_defs]:
  "addKeypair_requestBodySchema =
     SObject [(''publicKey'', True, SString), (''algorithm'', True, KeypairAlgorithmSchema), (''label'',
     False, SString)]"

definition addKeypair_route :: route where [route_defs]:
  "addKeypair_route = \<lparr>rt_method = ''POST'',
     rt_url = ''/auth/keypair/add'',
     rt_operationId = ''add'',
     rt_tags = [''Keypair''],
     rt_hidden = False,
     rt_params = None,
     rt_querystring = None,
     rt_body = Some addKeypair_requestBodySchema,
     rt_headers = None,
     rt_response = put_fields [(200, addKeypair_responseBodySchema)] standardResponseSchema\<rparr>"

section \<open>auth/keypair/list.ts\<close>

definition listPublicKeys_responseBodySchema :: schema where [schema_defs]:
  "listPublicKeys_responseBodySchema =
     SObject [(''result'', True, SArray KeypairSchema)]"

definition listPublicKeys_route :: route where [route_defs]:
  "listPublicKeys_route = \<lparr>rt_method = ''GET'',
     rt_url = ''/auth/keypair/get-all'',
     rt_operationId = ''list'',
     rt_tags = [''Keypair''],
     rt_hidden = False,
     rt_params = None,
     rt_querystring = None,
     rt_body = None,
     rt_headers = None,
     rt_response = put_fields [(200, listPublicKeys_responseBodySchema)] standardResponseSchema\<rparr>"

section \<open>auth/keypair/remove.ts\<close>

definition removePublicKey_responseBodySchema :: schema where [schema_defs]:
  "removePublicKey_responseBodySchema =
     SObject [(''result'', True, SObject [(''success'', True, SBoolean)])]"

definition removePublicKey_requestBodySchema :: schema where [schema_defs]:
  "removePublicKey_requestBodySchema =
     SObject [(''hash'', True, SString)]"

definition removePublicKey_route :: route where [route_defs]:
  "removePublicKey_route = \<lparr>rt_method = ''POST'',
     rt_url = ''/auth/keypair/remove'',
     rt_operationId = ''remove'',
     rt_tags = [''Keypair''],
     rt_hidden = False,
     rt_params = None,
     rt_querystring = None,
     rt_body = Some removePublicKey_requestBodySchema,
     rt_headers = None,
     rt_response = put_fields [(200, removePublicKey_responseBodySchema)] standardResponseSchema\<rparr>"

section \<open>auth/permissions/getAll.ts\<close>

definition getAllPermissions_responseBodySchema :: schema where [schema_defs]:
  "getAllPermissions_responseBodySchema =
     SObject [(''result'', True, SArray (SObject [(''walletAddress'', True, AddressSchema),
     (''permissions'', True, SString), (''label'', True, SUnion [SString, SNull])]))]"

definition getAllPermissions_route :: route where [route_defs]:
  "getAllPermissions_route = \<lparr>rt_method = ''GET'',
     rt_url = ''/auth/permissions/get-all'',
     rt_operationId = ''listAdmins'',
     rt_tags = [''Permissions''],
     rt_hidden = False,
     rt_params = None,
     rt_querystring = None,
     rt_body = None,
     rt_headers = None,
     rt_response = put_fields [(200, getAllPermissions_responseBodySchema)] standardResponseSchema\<rparr>"

section \<open>auth/permissions/grant.ts\<close>

definition grantPermissions_responseBodySchema :: schema where [schema_defs]:
  "grantPermissions_responseBodySchema =
     SObject [(''result'', True, SObject [(''success'', True, SBoolean)])]"

definition grantPermissions_requestBodySchema :: schema where [schema_defs]:
  "grantPermissions_requestBodySchema =
     SObject [(''walletAddress'', True, AddressSchema), (''permissions'', True, permissionsSchema),
     (''label'', False, SString)]"

definition grantPermissions_route :: route where [route_defs]:
  "grantPermissions_route = \<lparr>rt_method = ''POST'',
     rt_url = ''/auth/permissions/grant'',
     rt_operationId = ''grantAdmin'',
     rt_tags = [''Permissions''],
     rt_hidden = False,
     rt_params = None,
     rt_querystring = None,
     rt_body = Some grantPermissions_requestBodySchema,
     rt_headers = None,
     rt_response = put_fields [(200, grantPermissions_responseBodySchema)] standardResponseSchema\<rparr>"

section \<open>auth/permissions/revoke.ts\<close>

definition revokePermissions_responseBodySchema :: schema where [schema_defs]:
  "revokePermissions_responseBodySchema =
     SObject [(''result'', True, SObject [(''success'', True, SBoolean)])]"

definition revokePermissions_requestBodySchema :: schema where [schema_defs]:
  "revokePermissions_requestBodySchema =
     SObject [(''walletAddress'', True, AddressSchema)]"

definition revokePermissions_route :: route where [route_defs]:
  "revokePermissions_route = \<lparr>rt_method = ''POST'',
     rt_url = ''/auth/permissions/revoke'',
     rt_operationId = ''revokeAdmin'',
     rt_tags = [''Permissions''],
     rt_hidden = False,
     rt_params = None,
     rt_querystring = None,
     rt_body = Some revokePermissions_requestBodySchema,
     rt_headers = None,
     rt_response = put_fields [(200, revokePermissions_responseBodySchema)] standardResponseSchema\<rparr>"

section \<open>backend-wallet/create.ts\<close>

definition createBackendWallet_responseSchema :: schema where [schema_defs]:
  "createBackendWallet_responseSchema =
     SObject [(''result'', True, SObject [(''walletAddress'', True, AddressSchema), (''status'', True,
     SString)])]"

definition createBackendWallet_requestBodySchema :: schema where [schema_defs]:
  "createBackendWallet_requestBodySchema =
     SObject [(''label'', False, SString)]"

definition createBackendWallet_route :: route where [route_defs]:
  "createBackendWallet_route = \<lparr>rt_method = ''POST'',
     rt_url = ''/backend-wallet/create'',
     rt_operationId = ''create'',
     rt_tags = [''Backend Wallet''],
     rt_hidden = False,
     rt_params = None,
     rt_querystring = None,
     rt_body = Some createBackendWallet_requestBodySchema,
     rt_headers = None,
     rt_response = put_fields [(200, createBackendWallet_responseSchema)] standardResponseSchema\<rparr>"

section \<open>backend-wallet/getAll.ts\<close>

definition getAll_responseSchema :: schema where [schema_defs]:
  "getAll_responseSchema =
     SObject [(''result'', True, SArray walletDetailsSchema)]"

definition getAll_QuerySchema :: schema where [schema_defs]:
  "getAll_QuerySchema =
     SObject [(''page'', True, SDefault (JStr ''1'') SNumber), (''limit'', True,
     SDefault (JStr ''10'') SNumber)]"

definition getAll_route :: route where [route_defs]:
  "getAll_route = \<lparr>rt_method = ''GET'',
     rt_url = ''/backend-wallet/get-all'',
     rt_operationId = ''getAll'',
     rt_tags = [''Backend Wallet''],
     rt_hidden = False,
     rt_params = None,
     rt_querystring = Some getAll_QuerySchema,
     rt_body = None,
     rt_headers = None,
     rt_response = put_fields [(200, getAll_responseSchema)] standardResponseSchema\<rparr>"

section \<open>backend-wallet/getBalance.ts\<close>

definition getBalance_responseSchema :: schema where [schema_defs]:
  "getBalance_responseSchema =
     SObject ([(''result'', True, SObject ([(''walletAddress'', True, AddressSchema)]
     @ properties currencyValueSchema))])"

definition getBalance_route :: route where [route_defs]:
  "getBalance_route = \<lparr>rt_method = ''GET'',
     rt_url = ''/backend-wallet/:chain/:walletAddress/get-balance'',
     rt_operationId = ''getBalance'',
     rt_tags = [''Backend Wallet''],
     rt_hidden = False,
     rt_params = Some walletWithAddressParamSchema,
     rt_querystring = None,
     rt_body = None,
     rt_headers = None,
     rt_response = put_fields [(200, getBalance_responseSchema)] standardResponseSchema\<rparr>"

section \<open>backend-wallet/getNonce.ts\<close>

definition getBackendWalletNonce_responseSchema :: schema where [schema_defs]:
  "getBackendWalletNonce_responseSchema =
     SObject [(''result'', True, SObject [(''nonce'', True, SNumber)])]"

definition getBackendWalletNonce_route :: route where [route_defs]:
  "getBackendWalletNonce_route = \<lparr>rt_method = ''GET'',
     rt_url = ''/backend-wallet/:chain/:walletAddress/get-nonce'',
     rt_operationId = ''getNonce'',
     rt_tags = [''Backend Wallet''],
     rt_hidden = False,
     rt_params = Some walletWithAddressParamSchema,
     rt_querystring = None,
     rt_body = None,
     rt_headers = None,
     rt_response = put_fields [(200, getBackendWalletNonce_responseSchema)] standardResponseSchema\<rparr>"

section \<open>backend-wallet/getTransactions.ts\<close>

definition getTransactionsForBackendWallet_responseBodySchema :: schema where [schema_defs]:
  "getTransactionsForBackendWallet_responseBodySchema =
     SObject [(''result'', True, SObject [(''transactions'', True, SArray TransactionSchema)])]"

definition getTransactionsForBackendWallet_requestQuerySchema :: schema where [schema_defs]:
  "getTransactionsForBackendWallet_requestQuerySchema =
     SObject (properties PaginationSchema @ [(''status'', True,
     SDefault (JStr ''queued'') (SUnion [SLiteral (JStr ''queued''), SLiteral (JStr ''mined''),
     SLiteral (JStr ''cancelled''), SLiteral (JStr ''errored'')]))])"

definition getTransactionsForBackendWallet_route :: route where [route_defs]:
  "getTransactionsForBackendWallet_route = \<lparr>rt_method = ''GET'',
     rt_url = ''/backend-wallet/:chain/:walletAddress/get-all-transactions'',
     rt_operationId = ''getTransactionsForBackendWallet'',
     rt_tags = [''Backend Wallet''],
     rt_hidden = False,
     rt_params = Some walletWithAddressParamSchema,
     rt_querystring = Some getTransactionsForBackendWallet_requestQuerySchema,
     rt_body = None,
     rt_headers = None,
     rt_response = put_fields [(200,
         getTransactionsForBackendWallet_responseBodySchema)] standardResponseSchema\<rparr>"

section \<open>backend-wallet/getTransactionsByNonce.ts\<close>

definition getTransactionsForBackendWalletByNonce_responseBodySchema :: schema where [schema_defs]:
  "getTransactionsForBackendWalletByNonce_responseBodySchema =
     SObject [(''result'', True, SArray (SObject [(''nonce'', True, SNumber), (''transaction'', True,
     SUnion [TransactionSchema, SString])]))]"

definition getTransactionsForBackendWalletByNonce_requestQuerySchema :: schema where [schema_defs]:
  "getTransactionsForBackendWalletByNonce_requestQuerySchema =
     SObject [(''fromNonce'', True, SRange (Some 0) None SInteger), (''toNonce'', False,
     SRange (Some 0) None SInteger)]"

definition getTransactionsForBackendWalletByNonce_route :: route where [route_defs]:
  "getTransactionsForBackendWalletByNonce_route = \<lparr>rt_method = ''GET'',
     rt_url = ''/backend-wallet/:chain/:walletAddress/get-transactions-by-nonce'',
     rt_operationId = ''getTransactionsForBackendWalletByNonce'',
     rt_tags = [''Backend Wallet''],
     rt_hidden = False,
     rt_params = Some walletWithAddressParamSchema,
     rt_querystring = Some getTransactionsForBackendWalletByNonce_requestQuerySchema,
     rt_body = None,
     rt_headers = None,
     rt_response = put_fields [(200,
         getTransactionsForBackendWalletByNonce_responseBodySchema)] standardResponseSchema\<rparr>"

section \<open>backend-wallet/import.ts\<close>

definition importBackendWallet_ResponseSchema :: schema where [schema_defs]:
  "importBackendWallet_ResponseSchema =
     SObject [(''result'', True, SObject [(''walletAddress'', True, AddressSchema), (''status'', True,
     SString)])]"

definition importBackendWallet_RequestBodySchema :: schema where [schema_defs]:
  "importBackendWallet_RequestBodySchema =
     SUnion [SObject [(''awsKmsKeyId'', True, SString), (''awsKmsArn'', True, SString)],
     SObject [(''gcpKmsKeyId'', True, SString), (''gcpKmsKeyVersionId'', True, SString)],
     SUnion [SObject [(''privateKey'', True, SString)], SObject [(''mnemonic'', True, SString)],
     SObject [(''encryptedJson'', True, SString), (''password'', True, SString)]]]"

definition importBackendWallet_route :: route where [route_defs]:
  "importBackendWallet_route = \<lparr>rt_method = ''POST'',
     rt_url = ''/backend-wallet/import'',
     rt_operationId = ''import'',
     rt_tags = [''Backend Wallet''],
     rt_hidden = False,
     rt_params = None,
     rt_querystring = None,
     rt_body = Some importBackendWallet_RequestBodySchema,
     rt_headers = None,
     rt_response = put_fields [(200, importBackendWallet_ResponseSchema)] standardResponseSchema\<rparr>"

section \<open>backend-wallet/remove.ts\<close>

definition removeBackendWallet_responseSchema :: schema where [schema_defs]:
  "removeBackendWallet_responseSchema =
     SObject [(''result'', True, SObject [(''status'', True, SString)])]"

definition removeBackendWallet_requestParamSchema :: schema where [schema_defs]:
  "removeBackendWallet_requestParamSchema =
     SObject [(''walletAddress'', True, AddressSchema)]"

definition removeBackendWallet_route :: route where [route_defs]:
  "removeBackendWallet_route = \<lparr>rt_method = ''DELETE'',
     rt_url = ''/backend-wallet/:walletAddress'',
     rt_operationId = ''removeBackendWallet'',
     rt_tags = [''Backend Wallet''],
     rt_hidden = False,
     rt_params = Some removeBackendWallet_requestParamSchema,
     rt_querystring = None,
     rt_body = None,
     rt_headers = None,
     rt_response = put_fields [(200, removeBackendWallet_responseSchema)] standardResponseSchema\<rparr>"

section \<open>backend-wallet/resetNonces.ts\<close>

definition resetBackendWalletNonces_responseSchema :: schema where [schema_defs]:
  "resetBackendWalletNonces_responseSchema =
     SObject [(''result'', True, SObject [(''status'', True, SString)])]"

definition resetBackendWalletNonces_route :: route where [route_defs]:
  "resetBackendWalletNonces_route = \<lparr>rt_method = ''POST'',
     rt_url = ''/backend-wallet/reset-nonces'',
     rt_operationId = ''resetNonces'',
     rt_tags = [''Backend Wallet''],
     rt_hidden = False,
     rt_params = None,
     rt_querystring = None,
     rt_body = None,
     rt_headers = None,
     rt_response = put_fields [(200, resetBackendWalletNonces_responseSchema)] standardResponseSchema\<rparr>"

section \<open>backend-wallet/sendTransaction.ts\<close>

definition sendTransaction_requestBodySchema :: schema where [schema_defs]:
  "sendTransaction_requestBodySchema =
     SObject ([(''toAddress'', False, AddressSchema), (''data'', True, SString), (''value'', True,
     SString)] @ properties txOverridesSchema)"

definition sendTransaction_route :: route where [route_defs]:
  "sendTransaction_route = \<lparr>rt_method = ''POST'',
     rt_url = ''/backend-wallet/:chain/send-transaction'',
     rt_operationId = ''sendTransaction'',
     rt_tags = [''Backend Wallet''],
     rt_hidden = False,
     rt_params = Some walletChainParamSchema,
     rt_querystring = Some requestQuerystringSchema,
     rt_body = Some sendTransaction_requestBodySchema,
     rt_headers = Some walletWithAAHeaderSchema,
     rt_response = put_fields [(200, transactionWritesResponseSchema)] standardResponseSchema\<rparr>"

section \<open>backend-wallet/sendTransactionBatch.ts\<close>

definition sendTransactionBatch_responseBodySchema :: schema where [schema_defs]:
  "sendTransactionBatch_responseBodySchema =
     SObject [(''result'', True, SObject [(''queueIds'', True, SArray SString)])]"

definition sendTransactionBatch_requestBodySchema :: schema where [schema_defs]:
  "sendTransactionBatch_requestBodySchema =
     SArray (SObject ([(''toAddress'', False, AddressSchema), (''data'', True, SString), (''value'',
     True, SString)] @ properties txOverridesWithValueSchema))"

definition sendTransactionBatch_route :: route where [route_defs]:
  "sendTransactionBatch_route = \<lparr>rt_method = ''POST'',
     rt_url = ''/backend-wallet/:chain/send-transaction-batch'',
     rt_operationId = ''sendTransactionBatch'',
     rt_tags = [''Backend Wallet''],
     rt_hidden = False,
     rt_params = Some walletChainParamSchema,
     rt_querystring = None,
     rt_body = Some sendTransactionBatch_requestBodySchema,
     rt_headers = Some walletHeaderSchema,
     rt_response = put_fields [(200, sendTransactionBatch_responseBodySchema)] standardResponseSchema\<rparr>"

section \<open>backend-wallet/signMessage.ts\<close>

definition signMessage_responseBodySchema :: schema where [schema_defs]:
  "signMessage_responseBodySchema =
     SObject [(''result'', True, SString)]"

definition signMessage_requestBodySchema :: schema where [schema_defs]:
  "signMessage_requestBodySchema =
     SObject [(''message'', True, SString), (''isBytes'', False, SBoolean)]"

definition signMessage_route :: route where [route_defs]:
  "signMessage_route = \<lparr>rt_method = ''POST'',
     rt_url = ''/backend-wallet/sign-message'',
     rt_operationId = ''signMessage'',
     rt_tags = [''Backend Wallet''],
     rt_hidden = False,
     rt_params = None,
     rt_querystring = None,
     rt_body = Some signMessage_requestBodySchema,
     rt_headers = Some walletHeaderSchema,
     rt_response = put_fields [(200, signMessage_responseBodySchema)] standardResponseSchema\<rparr>"

section \<open>backend-wallet/signTransaction.ts\<close>

definition signTransaction_responseBodySchema :: schema where [schema_defs]:
  "signTransaction_responseBodySchema =
     SObject [(''result'', True, SString)]"

definition signTransaction_requestBodySchema :: schema where [schema_defs]:
  "signTransaction_requestBodySchema =
     SObject [(''transaction'', True, SObject [(''to'', False, SString), (''from'', False, SString),
     (''nonce'', False, SString), (''gasLimit'', False, SString), (''gasPrice'', False, SString),
     (''data'', False, SString), (''value'', False, SString), (''chainId'', False, SNumber), (''type'',
     False, SNumber), (''accessList'', False, SAny), (''maxFeePerGas'', False, SString),
     (''maxPriorityFeePerGas'', False, SString), (''customData'', False, SRecord SAny),
     (''ccipReadEnabled'', False, SBoolean)])]"

definition signTransaction_route :: route where [route_defs]:
  "signTransaction_route = \<lparr>rt_method = ''POST'',
     rt_url = ''/backend-wallet/sign-transaction'',
     rt_operationId = ''signTransaction'',
     rt_tags = [''Backend Wallet''],
     rt_hidden = False,
     rt_params = None,
     rt_querystring = None,
     rt_body = Some signTransaction_requestBodySchema,
     rt_headers = Some walletHeaderSchema,
     rt_response = put_fields [(200, signTransaction_responseBodySchema)] standardResponseSchema\<rparr>"

section \<open>backend-wallet/signTypedData.ts\<close>

definition signTypedData_responseBodySchema :: schema where [schema_defs]:
  "signTypedData_responseBodySchema =
     SObject [(''result'', True, SString)]"

definition signTypedData_requestBodySchema :: schema where [schema_defs]:
  "signTypedData_requestBodySchema =
     SObject [(''domain'', True, SObject []), (''types'', True, SObject []), (''value'', True,
     SObject [])]"

definition signTypedData_route :: route where [route_defs]:
  "signTypedData_route = \<lparr>rt_method = ''POST'',
     rt_url = ''/backend-wallet/sign-typed-data'',
     rt_operationId = ''signTypedData'',
     rt_tags = [''Backend Wallet''],
     rt_hidden = False,
     rt_params = None,
     rt_querystring = None,
     rt_body = Some signTypedData_requestBodySchema,
     rt_headers = Some walletHeaderSchema,
     rt_response = put_fields [(200, signTypedData_responseBodySchema)] standardResponseSchema\<rparr>"

section \<open>backend-wallet/simulateTransaction.ts\<close>

definition simulateTransaction_FunctionArgumentSchema :: schema where [schema_defs]:
  "simulateTransaction_FunctionArgumentSchema =
     SUnion [SString, SNumber, SBoolean, SArray SAny, SObject []]"

definition simulateTransaction_simulateRequestBodySchema :: schema where [schema_defs]:
  "simulateTransaction_simulateRequestBodySchema =
     SObject [(''toAddress'', True, AddressSchema), (''value'', False, SString), (''functionName'',
     False, SString), (''args'', False, SArray simulateTransaction_FunctionArgumentSchema), (''data'',
     False, SString)]"

definition simulateTransaction_route :: route where [route_defs]:
  "simulateTransaction_route = \<lparr>rt_method = ''POST'',
     rt_url = ''/backend-wallet/:chain/simulate-transaction'',
     rt_operationId = ''simulateTransaction'',
     rt_tags = [''Backend Wallet''],
     rt_hidden = False,
     rt_params = Some walletChainParamSchema,
     rt_querystring = None,
     rt_body = Some simulateTransaction_simulateRequestBodySchema,
     rt_headers = Some walletWithAAHeaderSchema,
     rt_response = put_fields [(200, simulateResponseSchema)] standardResponseSchema\<rparr>"

section \<open>backend-wallet/transfer.ts\<close>

definition transfer_requestSchema :: schema where [schema_defs]:
  "transfer_requestSchema =
     schema_omit walletWithAddressParamSchema [''walletAddress'']"

definition transfer_requestBodySchema :: schema where [schema_defs]:
  "transfer_requestBodySchema =
     SObject ([(''to'', True, AddressSchema), (''currencyAddress'', False, AddressSchema), (''amount'',
     True, TokenAmountStringSchema)] @ properties txOverridesWithValueSchema)"

definition transfer_route :: route where [route_defs]:
  "transfer_route = \<lparr>rt_method = ''POST'',
     rt_url = ''/backend-wallet/:chain/transfer'',
     rt_operationId = ''transfer'',
     rt_tags = [''Backend Wallet''],
     rt_hidden = False,
     rt_params = Some transfer_requestSchema,
     rt_querystring = Some requestQuerystringSchema,
     rt_body = Some transfer_requestBodySchema,
     rt_headers = Some walletHeaderSchema,
     rt_response = put_fields [(200, transactionWritesResponseSchema)] standardResponseSchema\<rparr>"

section \<open>backend-wallet/update.ts\<close>

definition updateBackendWallet_responseSchema :: schema where [schema_defs]:
  "updateBackendWallet_responseSchema =
     SObject [(''result'', True, SObject [(''walletAddress'', True, AddressSchema), (''status'', True,
     SString)])]"

definition updateBackendWallet_requestBodySchema :: schema where [schema_defs]:
  "updateBackendWallet_requestBodySchema =
     SObject [(''walletAddress'', True, AddressSchema), (''label'', False, SString)]"

definition updateBackendWallet_route :: route where [route_defs]:
  "updateBackendWallet_route = \<lparr>rt_method = ''POST'',
     rt_url = ''/backend-wallet/update'',
     rt_operationId = ''update'',
     rt_tags = [''Backend Wallet''],
     rt_hidden = False,
     rt_params = None,
     rt_querystring = None,
     rt_body = Some updateBackendWallet_requestBodySchema,
     rt_headers = None,
     rt_response = put_fields [(200, updateBackendWallet_responseSchema)] standardResponseSchema\<rparr>"

section \<open>backend-wallet/withdraw.ts\<close>

definition withdraw_responseBodySchema :: schema where [schema_defs]:
  "withdraw_responseBodySchema =
     SObject [(''result'', True, SObject [(''transactionHash'', True, TransactionHashSchema),
     (''amount'', True, TokenAmountStringSchema)])]"

definition withdraw_ParamsSchema :: schema where [schema_defs]:
  "withdraw_ParamsSchema =
     schema_omit walletWithAddressParamSchema [''walletAddress'']"

definition withdraw_requestBodySchema :: schema where [schema_defs]:
  "withdraw_requestBodySchema =
     SObject ([(''toAddress'', True, AddressSchema)] @ properties txOverridesSchema)"

definition withdraw_route :: route where [route_defs]:
  "withdraw_route = \<lparr>rt_method = ''POST'',
     rt_url = ''/backend-wallet/:chain/withdraw'',
     rt_operationId = ''withdraw'',
     rt_tags = [''Backend Wallet''],
     rt_hidden = False,
     rt_params = Some withdraw_ParamsSchema,
     rt_querystring = Some requestQuerystringSchema,
     rt_body = Some withdraw_requestBodySchema,
     rt_headers = Some walletHeaderSchema,
     rt_response = put_fields [(200, withdraw_responseBodySchema)] standardResponseSchema\<rparr>"

section \<open>chain/get.ts\<close>

definition getChainData_responseSchema :: schema where [schema_defs]:
  "getChainData_responseSchema =
     SObject [(''result'', True, chainResponseSchema)]"

definition getChainData_route :: route where [route_defs]:
  "getChainData_route = \<lparr>rt_method = ''GET'',
     rt_url = ''/chain/get'',
     rt_operationId = ''getChain'',
     rt_tags = [''Chain''],
     rt_hidden = False,
     rt_params = None,
     rt_querystring = Some chainRequestQuerystringSchema,
     rt_body = None,
     rt_headers = None,
     rt_response = put_fields [(200, getChainData_responseSchema)] standardResponseSchema\<rparr>"

section \<open>chain/getAll.ts\<close>

definition getAllChainData_responseSchema :: schema where [schema_defs]:
  "getAllChainData_responseSchema =
     SObject [(''result'', True, SArray chainResponseSchema)]"

definition getAllChainData_route :: route where [route_defs]:
  "getAllChainData_route = \<lparr>rt_method = ''GET'',
     rt_url = ''/chain/get-all'',
     rt_operationId = ''listChains'',
     rt_tags = [''Chain''],
     rt_hidden = False,
     rt_params = None,
     rt_querystring = None,
     rt_body = None,
     rt_headers = None,
     rt_response = put_fields [(200, getAllChainData_responseSchema)] standardResponseSchema\<rparr>"

section \<open>configuration/auth/get.ts\<close>

definition getAuthConfiguration_responseBodySchema :: schema where [schema_defs]:
  "getAuthConfiguration_responseBodySchema =
     SObject [(''result'', True, SObject [(''domain'', True, SString)])]"

definition getAuthConfiguration_route :: route where [route_defs]:
  "getAuthConfiguration_route = \<lparr>rt_method = ''GET'',
     rt_url = ''/configuration/auth'',
     rt_operationId = ''getAuthConfiguration'',
     rt_tags = [''Configuration''],
     rt_hidden = False,
     rt_params = None,
     rt_querystring = None,
     rt_body = None,
     rt_headers = None,
     rt_response = put_fields [(200, getAuthConfiguration_responseBodySchema)] standardResponseSchema\<rparr>"

section \<open>configuration/auth/update.ts\<close>

definition updateAuthConfiguration_requestBodySchema :: schema where [schema_defs]:
  "updateAuthConfiguration_requestBodySchema =
     SObject [(''domain'', True, SString)]"

definition updateAuthConfiguration_route :: route where [route_defs]:
  "updateAuthConfiguration_route = \<lparr>rt_method = ''POST'',
     rt_url = ''/configuration/auth'',
     rt_operationId = ''updateAuthConfiguration'',
     rt_tags = [''Configuration''],
     rt_hidden = False,
     rt_params = None,
     rt_querystring = None,
     rt_body = Some updateAuthConfiguration_requestBodySchema,
     rt_headers = None,
     rt_response = put_fields [(200, getAuthConfiguration_responseBodySchema)] standardResponseSchema\<rparr>"

section \<open>configuration/backend-wallet-balance/get.ts\<close>

definition getBackendWalletBalanceConfiguration_responseBodySchema :: schema where [schema_defs]:
  "getBackendWalletBalanceConfiguration_responseBodySchema =
     SObject [(''result'', True, SObject [(''minWalletBalance'', True, SString)])]"

definition getBackendWalletBalanceConfiguration_route :: route where [route_defs]:
  "getBackendWalletBalanceConfiguration_route = \<lparr>rt_method = ''GET'',
     rt_url = ''/configuration/backend-wallet-balance'',
     rt_operationId = ''getBackendWalletBalanceConfiguration'',
     rt_tags = [''Configuration''],
     rt_hidden = False,
     rt_params = None,
     rt_querystring = None,
     rt_body = None,
     rt_headers = None,
     rt_response = put_fields [(200,
         getBackendWalletBalanceConfiguration_responseBodySchema)] standardResponseSchema\<rparr>"

section \<open>configuration/backend-wallet-balance/update.ts\<close>

definition updateBackendWalletBalanceConfiguration_requestBodySchema :: schema where [schema_defs]:
  "updateBackendWalletBalanceConfiguration_requestBodySchema =
     schema_partial (SObject [(''minWalletBalance'', True, SString)])"

definition updateBackendWalletBalanceConfiguration_route :: route where [route_defs]:
  "updateBackendWalletBalanceConfiguration_route = \<lparr>rt_method = ''POST'',
     rt_url = ''/configuration/backend-wallet-balance'',
     rt_operationId = ''updateBackendWalletBalanceConfiguration'',
     rt_tags = [''Configuration''],
     rt_hidden = False,
     rt_params = None,
     rt_querystring = None,
     rt_body = Some updateBackendWalletBalanceConfiguration_requestBodySchema,
     rt_headers = None,
     rt_response = put_fields [(200,
         getBackendWalletBalanceConfiguration_responseBodySchema)] standardResponseSchema\<rparr>"

section \<open>configuration/cache/get.ts\<close>

definition getCacheConfiguration_responseBodySchema :: schema where [schema_defs]:
  "getCacheConfiguration_responseBodySchema =
     SObject [(''result'', True, SObject [(''clearCacheCronSchedule'', True, SString)])]"

definition getCacheConfiguration_route :: route where [route_defs]:
  "getCacheConfiguration_route = \<lparr>rt_method = ''GET'',
     rt_url = ''/configuration/cache'',
     rt_operationId = ''getCacheConfiguration'',
     rt_tags = [''Configuration''],
     rt_hidden = False,
     rt_params = None,
     rt_querystring = None,
     rt_body = None,
     rt_headers = None,
     rt_response = put_fields [(200, getCacheConfiguration_responseBodySchema)] standardResponseSchema\<rparr>"

section \<open>configuration/cache/update.ts\<close>

definition updateCacheConfiguration_requestBodySchema :: schema where [schema_defs]:
  "updateCacheConfiguration_requestBodySchema =
     SObject [(''clearCacheCronSchedule'', True,
     SDefault (JStr ''*/30 * * * * *'') (SMinLength 11 SString))]"

definition updateCacheConfiguration_route :: route where [route_defs]:
  "updateCacheConfiguration_route = \<lparr>rt_method = ''POST'',
     rt_url = ''/configuration/cache'',
     rt_operationId = ''updateCacheConfiguration'',
     rt_tags = [''Configuration''],
     rt_hidden = False,
     rt_params = None,
     rt_querystring = None,
     rt_body = Some updateCacheConfiguration_requestBodySchema,
     rt_headers = None,
     rt_response = put_fields [(200, getCacheConfiguration_responseBodySchema)] standardResponseSchema\<rparr>"

section \<open>configuration/chains/get.ts\<close>

definition getChainsConfiguration_responseBodySchema :: schema where [schema_defs]:
  "getChainsConfiguration_responseBodySchema =
     SObject [(''result'', True, SArray chainResponseSchema)]"

definition getChainsConfiguration_route :: route where [route_defs]:
  "getChainsConfiguration_route = \<lparr>rt_method = ''GET'',
     rt_url = ''/configuration/chains'',
     rt_operationId = ''getChainsConfiguration'',
     rt_tags = [''Configuration''],
     rt_hidden = False,
     rt_params = None,
     rt_querystring = None,
     rt_body = None,
     rt_headers = None,
     rt_response = put_fields [(200, getChainsConfiguration_responseBodySchema)] standardResponseSchema\<rparr>"

section \<open>configuration/chains/update.ts\<close>

definition updateChainsConfiguration_requestBodySchema :: schema where [schema_defs]:
  "updateChainsConfiguration_requestBodySchema =
     SObject [(''chainOverrides'', True, SArray chainResponseSchema)]"

definition updateChainsConfiguration_route :: route where [route_defs]:
  "updateChainsConfiguration_route = \<lparr>rt_method = ''POST'',
     rt_url = ''/configuration/chains'',
     rt_operationId = ''updateChainsConfiguration'',
     rt_tags = [''Configuration''],
     rt_hidden = False,
     rt_params = None,
     rt_querystring = None,
     rt_body = Some updateChainsConfiguration_requestBodySchema,
     rt_headers = None,
     rt_response = put_fields [(200, getChainsConfiguration_responseBodySchema)] standardResponseSchema\<rparr>"

section \<open>configuration/contract-subscriptions/get.ts\<close>

definition getContractSubscriptionsConfiguration_responseSchema :: schema where [schema_defs]:
  "getContractSubscriptionsConfiguration_responseSchema =
     SObject [(''result'', True, contractSubscriptionConfigurationSchema)]"

definition getContractSubscriptionsConfiguration_route :: route where [route_defs]:
  "getContractSubscriptionsConfiguration_route = \<lparr>rt_method = ''GET'',
     rt_url = ''/configuration/contract-subscriptions'',
     rt_operationId = ''getContractSubscriptionsConfiguration'',
     rt_tags = [''Configuration''],
     rt_hidden = False,
     rt_params = None,
     rt_querystring = None,
     rt_body = None,
     rt_headers = None,
     rt_response = put_fields [(200,
         getContractSubscriptionsConfiguration_responseSchema)] standardResponseSchema\<rparr>"

section \<open>configuration/contract-subscriptions/update.ts\<close>

definition updateContractSubscriptionsConfiguration_responseSchema :: schema where [schema_defs]:
  "updateContractSubscriptionsConfiguration_responseSchema =
     SObject [(''result'', True, contractSubscriptionConfigurationSchema)]"

definition updateContractSubscriptionsConfiguration_requestBodySchema :: schema where [schema_defs]:
  "updateContractSubscriptionsConfiguration_requestBodySchema =
     SObject [(''maxBlocksToIndex'', False, SRange (Some 1) (Some 25) SNumber),
     (''contractSubscriptionsRequeryDelaySeconds'', False, SString)]"

definition updateContractSubscriptionsConfiguration_route :: route where [route_defs]:
  "updateContractSubscriptionsConfiguration_route = \<lparr>rt_method = ''POST'',
     rt_url = ''/configuration/contract-subscriptions'',
     rt_operationId = ''updateContractSubscriptionsConfiguration'',
     rt_tags = [''Configuration''],
     rt_hidden = False,
     rt_params = None,
     rt_querystring = None,
     rt_body = Some updateContractSubscriptionsConfiguration_requestBodySchema,
     rt_headers = None,
     rt_response = put_fields [(200,
         updateContractSubscriptionsConfiguration_responseSchema)] standardResponseSchema\<rparr>"

section \<open>configuration/cors/add.ts\<close>

definition getCorsConfiguration_responseBodySchema :: schema where [schema_defs]:
  "getCorsConfiguration_responseBodySchema =
     SObject [(''result'', True, SArray SString)]"

definition addUrlToCorsConfiguration_requestBodySchema :: schema where [schema_defs]:
  "addUrlToCorsConfiguration_requestBodySchema =
     SObject [(''urlsToAdd'', True, SArray (SMinLength 1 SString))]"

definition addUrlToCorsConfiguration_route :: route where [route_defs]:
  "addUrlToCorsConfiguration_route = \<lparr>rt_method = ''POST'',
     rt_url = ''/configuration/cors'',
     rt_operationId = ''addUrlToCorsConfiguration'',
     rt_tags = [''Configuration''],
     rt_hidden = False,
     rt_params = None,
     rt_querystring = None,
     rt_body = Some addUrlToCorsConfiguration_requestBodySchema,
     rt_headers = None,
     rt_response = put_fields [(200, getCorsConfiguration_responseBodySchema)] standardResponseSchema\<rparr>"

section \<open>configuration/cors/get.ts\<close>

definition getCorsConfiguration_route :: route where [route_defs]:
  "getCorsConfiguration_route = \<lparr>rt_method = ''GET'',
     rt_url = ''/configuration/cors'',
     rt_operationId = ''getCorsConfiguration'',
     rt_tags = [''Configuration''],
     rt_hidden = False,
     rt_params = None,
     rt_querystring = None,
     rt_body = None,
     rt_headers = None,
     rt_response = put_fields [(200, getCorsConfiguration_responseBodySchema)] standardResponseSchema\<rparr>"

section \<open>configuration/cors/remove.ts\<close>

definition removeUrlToCorsConfiguration_requestBodySchema :: schema where [schema_defs]:
  "removeUrlToCorsConfiguration_requestBodySchema =
     SObject [(''urlsToRemove'', True, SArray SString)]"

definition removeUrlToCorsConfiguration_route :: route where [route_defs]:
  "removeUrlToCorsConfiguration_route = \<lparr>rt_method = ''DELETE'',
     rt_url = ''/configuration/cors'',
     rt_operationId = ''removeUrlToCorsConfiguration'',
     rt_tags = [''Configuration''],
     rt_hidden = False,
     rt_params = None,
     rt_querystring = None,
     rt_body = Some removeUrlToCorsConfiguration_requestBodySchema,
     rt_headers = None,
     rt_response = put_fields [(200, getCorsConfiguration_responseBodySchema)] standardResponseSchema\<rparr>"

section \<open>configuration/cors/set.ts\<close>

definition setUrlsToCorsConfiguration_requestBodySchema :: schema where [schema_defs]:
  "setUrlsToCorsConfiguration_requestBodySchema =
     SObject [(''urls'', True, SArray (SMinLength 1 SString))]"

definition setUrlsToCorsConfiguration_route :: route where [route_defs]:
  "setUrlsToCorsConfiguration_route = \<lparr>rt_method = ''PUT'',
     rt_url = ''/configuration/cors'',
     rt_operationId = ''setUrlsToCorsConfiguration'',
     rt_tags = [''Configuration''],
     rt_hidden = False,
     rt_params = None,
     rt_querystring = None,
     rt_body = Some setUrlsToCorsConfiguration_requestBodySchema,
     rt_headers = None,
     rt_response = put_fields [(200, getCorsConfiguration_responseBodySchema)] standardResponseSchema\<rparr>"

section \<open>configuration/ip/get.ts\<close>

definition getIpAllowlist_responseBodySchema :: schema where [schema_defs]:
  "getIpAllowlist_responseBodySchema =
     SObject [(''result'', True, SArray SString)]"

definition getIpAllowlist_route :: route where [route_defs]:
  "getIpAllowlist_route = \<lparr>rt_method = ''GET'',
     rt_url = ''/configuration/ip-allowlist'',
     rt_operationId = ''getIpAllowlist'',
     rt_tags = [''Configuration''],
     rt_hidden = False,
     rt_params = None,
     rt_querystring = None,
     rt_body = None,
     rt_headers = None,
     rt_response = put_fields [(200, getIpAllowlist_responseBodySchema)] standardResponseSchema\<rparr>"

section \<open>configuration/ip/set.ts\<close>

definition setIpAllowlist_requestBodySchema :: schema where [schema_defs]:
  "setIpAllowlist_requestBodySchema =
     SObject [(''ips'', True, SArray (SMinLength 7 SString))]"

definition setIpAllowlist_route :: route where [route_defs]:
  "setIpAllowlist_route = \<lparr>rt_method = ''PUT'',
     rt_url = ''/configuration/ip-allowlist'',
     rt_operationId = ''setIpAllowlist'',
     rt_tags = [''Configuration''],
     rt_hidden = False,
     rt_params = None,
     rt_querystring = None,
     rt_body = Some setIpAllowlist_requestBodySchema,
     rt_headers = None,
     rt_response = put_fields [(200, getIpAllowlist_responseBodySchema)] standardResponseSchema\<rparr>"

section \<open>configuration/transactions/get.ts\<close>

definition getTransactionConfiguration_responseBodySchema :: schema where [schema_defs]:
  "getTransactionConfiguration_responseBodySchema =
     SObject [(''result'', True, SObject [(''minTxsToProcess'', True, SNumber), (''maxTxsToProcess'',
     True, SNumber), (''minedTxListenerCronSchedule'', True, SUnion [SString, SNull]),
     (''maxTxsToUpdate'', True, SNumber), (''retryTxListenerCronSchedule'', True, SUnion [SString,
     SNull]), (''minEllapsedBlocksBeforeRetry'', True, SNumber), (''maxFeePerGasForRetries'', True,
     SString), (''maxPriorityFeePerGasForRetries'', True, SString), (''maxRetriesPerTx'', True,
     SNumber), (''clearCacheCronSchedule'', True, SUnion [SString, SNull])])]"

definition getTransactionConfiguration_route :: route where [route_defs]:
  "getTransactionConfiguration_route = \<lparr>rt_method = ''GET'',
     rt_url = ''/configuration/transactions'',
     rt_operationId = ''getTransactionConfiguration'',
     rt_tags = [''Configuration''],
     rt_hidden = False,
     rt_params = None,
     rt_querystring = None,
     rt_body = None,
     rt_headers = None,
     rt_response = put_fields [(200, getTransactionConfiguration_responseBodySchema)] standardResponseSchema\<rparr>"

section \<open>configuration/transactions/update.ts\<close>

definition updateTransactionConfiguration_responseBodySchema :: schema where [schema_defs]:
  "updateTransactionConfiguration_responseBodySchema =
     SObject [(''result'', True, SObject [(''minTxsToProcess'', True, SNumber), (''maxTxsToProcess'',
     True, SNumber), (''minedTxListenerCronSchedule'', True, SUnion [SString, SNull]),
     (''maxTxsToUpdate'', True, SNumber), (''retryTxListenerCronSchedule'', True, SUnion [SString,
     SNull]), (''minEllapsedBlocksBeforeRetry'', True, SNumber), (''maxFeePerGasForRetries'', True,
     SString), (''maxPriorityFeePerGasForRetries'', True, SString), (''maxRetriesPerTx'', True,
     SNumber)])]"

definition updateTransactionConfiguration_requestBodySchema :: schema where [schema_defs]:
  "updateTransactionConfiguration_requestBodySchema =
     schema_partial (SObject [(''minTxsToProcess'', True, SNumber), (''maxTxsToProcess'', True,
     SNumber), (''minedTxListenerCronSchedule'', True, SUnion [SString, SNull]), (''maxTxsToUpdate'',
     True, SNumber), (''retryTxListenerCronSchedule'', True, SUnion [SString, SNull]),
     (''minEllapsedBlocksBeforeRetry'', True, SNumber), (''maxFeePerGasForRetries'', True, SString),
     (''maxPriorityFeePerGasForRetries'', True, SString), (''maxRetriesPerTx'', True, SNumber)])"

definition updateTransactionConfiguration_route :: route where [route_defs]:
  "updateTransactionConfiguration_route = \<lparr>rt_method = ''POST'',
     rt_url = ''/configuration/transactions'',
     rt_operationId = ''updateTransactionConfiguration'',
     rt_tags = [''Configuration''],
     rt_hidden = False,
     rt_params = None,
     rt_querystring = None,
     rt_body = Some updateTransactionConfiguration_requestBodySchema,
     rt_headers = None,
     rt_response = put_fields [(200,
         updateTransactionConfiguration_responseBodySchema)] standardResponseSchema\<rparr>"

section \<open>configuration/wallets/get.ts\<close>

definition getWalletsConfiguration_responseBodySchema :: schema where [schema_defs]:
  "getWalletsConfiguration_responseBodySchema =
     SObject [(''result'', True, SUnion [SObject [(''type'', True, SLiteral (JStr ''local''))],
     SObject [(''type'', True, SLiteral (JStr ''aws-kms'')), (''awsAccessKeyId'', True, SString),
     (''awsRegion'', True, SString)], SObject [(''type'', True, SLiteral (JStr ''gcp-kms'')),
     (''gcpApplicationProjectId'', True, SString), (''gcpKmsLocationId'', True, SString),
     (''gcpKmsKeyRingId'', True, SString), (''gcpApplicationCredentialEmail'', True, SString)]])]"

definition getWalletsConfiguration_route :: route where [route_defs]:
  "getWalletsConfiguration_route = \<lparr>rt_method = ''GET'',
     rt_url = ''/configuration/wallets'',
     rt_operationId = ''getWalletsConfiguration'',
     rt_tags = [''Configuration''],
     rt_hidden = False,
     rt_params = None,
     rt_querystring = None,
     rt_body = None,
     rt_headers = None,
     rt_response = put_fields [(200, getWalletsConfiguration_responseBodySchema)] standardResponseSchema\<rparr>"

section \<open>configuration/wallets/update.ts\<close>

definition updateWalletsConfiguration_requestBodySchema :: schema where [schema_defs]:
  "updateWalletsConfiguration_requestBodySchema =
     SUnion [SObject [(''type'', True, SLiteral (JStr ''local''))], SObject [(''type'', True,
     SLiteral (JStr ''aws-kms'')), (''awsAccessKeyId'', True, SString), (''awsSecretAccessKey'', True,
     SString), (''awsRegion'', True, SString)], SObject [(''type'', True, SLiteral (JStr ''gcp-kms'')),
     (''gcpApplicationProjectId'', True, SString), (''gcpKmsLocationId'', True, SString),
     (''gcpKmsKeyRingId'', True, SString), (''gcpApplicationCredentialEmail'', True, SString),
     (''gcpApplicationCredentialPrivateKey'', True, SString)]]"

definition updateWalletsConfiguration_route :: route where [route_defs]:
  "updateWalletsConfiguration_route = \<lparr>rt_method = ''POST'',
     rt_url = ''/configuration/wallets'',
     rt_operationId = ''updateWalletsConfiguration'',
     rt_tags = [''Configuration''],
     rt_hidden = False,
     rt_params = None,
     rt_querystring = None,
     rt_body = Some updateWalletsConfiguration_requestBodySchema,
     rt_headers = None,
     rt_response = put_fields [(200, getWalletsConfiguration_responseBodySchema)] standardResponseSchema\<rparr>"

section \<open>contract/events/getContractEventLogs.ts\<close>

definition getContractEventLogs_responseSchema :: schema where [schema_defs]:
  "getContractEventLogs_responseSchema =
     SObject [(''result'', True, SObject [(''logs'', True, SArray (SObject [(''chainId'', True,
     SNumber), (''contractAddress'', True, AddressSchema), (''blockNumber'', True, SNumber),
     (''transactionHash'', True, TransactionHashSchema), (''topics'', True, SArray SString), (''data'',
     True, SString), (''eventName'', False, SString), (''decodedLog'', True, SAny), (''timestamp'',
     True, SNumber), (''transactionIndex'', True, SNumber), (''logIndex'', True, SNumber)])),
     (''status'', True, SString)])]"

definition getContractEventLogs_requestQuerySchema :: schema where [schema_defs]:
  "getContractEventLogs_requestQuerySchema =
     SObject [(''fromBlock'', True, SNumber), (''toBlock'', False, SNumber), (''topics'', False,
     SArray SString)]"

definition getContractEventLogs_route :: route where [route_defs]:
  "getContractEventLogs_route = \<lparr>rt_method = ''GET'',
     rt_url = ''/contract/:chain/:contractAddress/events/get-logs'',
     rt_operationId = ''getContractEventLogs'',
     rt_tags = [''Contract-Events''],
     rt_hidden = True,
     rt_params = Some contractParamSchema,
     rt_querystring = Some getContractEventLogs_requestQuerySchema,
     rt_body = None,
     rt_headers = None,
     rt_response = put_fields [(200, getContractEventLogs_responseSchema)] standardResponseSchema\<rparr>"

section \<open>contract/events/getEventLogsByTimestamp.ts\<close>

definition getEventLogs_responseSchema :: schema where [schema_defs]:
  "getEventLogs_responseSchema =
     SObject [(''result'', True, SObject [(''logs'', True, SArray eventLogSchema), (''status'', True,
     SString)])]"

definition getEventLogs_requestQuerySchema :: schema where [schema_defs]:
  "getEventLogs_requestQuerySchema =
     SObject [(''contractAddresses'', False, SArray AddressSchema), (''topics'', False, SArray SString),
     (''fromBlockTimestamp'', True, SNumber), (''toBlockTimestamp'', False, SNumber)]"

definition getEventLogs_route :: route where [route_defs]:
  "getEventLogs_route = \<lparr>rt_method = ''GET'',
     rt_url = ''/contract/events/get-logs'',
     rt_operationId = ''getEventLogs'',
     rt_tags = [''Contract-Events''],
     rt_hidden = True,
     rt_params = None,
     rt_querystring = Some getEventLogs_requestQuerySchema,
     rt_body = None,
     rt_headers = None,
     rt_response = put_fields [(200, getEventLogs_responseSchema)] standardResponseSchema\<rparr>"

section \<open>contract/events/paginateEventLogs.ts\<close>

definition pageEventLogs_responseSchema :: schema where [schema_defs]:
  "pageEventLogs_responseSchema =
     SObject [(''result'', True, SObject [(''cursor'', False, SString), (''logs'', True,
     SArray eventLogSchema), (''status'', True, SString)])]"

definition pageEventLogs_requestQuerySchema :: schema where [schema_defs]:
  "pageEventLogs_requestQuerySchema =
     SObject [(''cursor'', False, SString), (''pageSize'', False, SNumber), (''topics'', False,
     SArray SString), (''contractAddresses'', False, SArray AddressSchema)]"

definition pageEventLogs_route :: route where [route_defs]:
  "pageEventLogs_route = \<lparr>rt_method = ''GET'',
     rt_url = ''/contract/events/paginate-logs'',
     rt_operationId = ''pageEventLogs'',
     rt_tags = [''Contract-Events''],
     rt_hidden = True,
     rt_params = None,
     rt_querystring = Some pageEventLogs_requestQuerySchema,
     rt_body = None,
     rt_headers = None,
     rt_response = put_fields [(200, pageEventLogs_responseSchema)] standardResponseSchema\<rparr>"

section \<open>contract/subscriptions/addContractSubscription.ts\<close>

definition addContractSubscription_responseSchema :: schema where [schema_defs]:
  "addContractSubscription_responseSchema =
     SObject [(''result'', True, contractSubscriptionSchema)]"

definition addContractSubscription_bodySchema :: schema where [schema_defs]:
  "addContractSubscription_bodySchema =
     SObject [(''chain'', True, SString), (''contractAddress'', True, AddressSchema), (''webhookUrl'',
     False, SString), (''processEventLogs'', True, SBoolean), (''filterEvents'', False, SArray SString),
     (''processTransactionReceipts'', True, SBoolean), (''filterFunctions'', False, SArray SString)]"

definition addContractSubscription_route :: route where [route_defs]:
  "addContractSubscription_route = \<lparr>rt_method = ''POST'',
     rt_url = ''/contract-subscriptions/add'',
     rt_operationId = ''addContractSubscription'',
     rt_tags = [''Contract-Subscriptions''],
     rt_hidden = False,
     rt_params = None,
     rt_querystring = None,
     rt_body = Some addContractSubscription_bodySchema,
     rt_headers = None,
     rt_response = put_fields [(200, addContractSubscription_responseSchema)] standardResponseSchema\<rparr>"

section \<open>contract/subscriptions/getContractIndexedBlockRange.ts\<close>

definition getContractIndexedBlockRange_responseSchema :: schema where [schema_defs]:
  "getContractIndexedBlockRange_responseSchema =
     SObject [(''result'', True, SObject [(''chain'', True, SString), (''contractAddress'', True,
     AddressSchema), (''fromBlock'', True, SNumber), (''toBlock'', True, SNumber), (''status'', True,
     SString)])]"

definition getContractIndexedBlockRange_route :: route where [route_defs]:
  "getContractIndexedBlockRange_route = \<lparr>rt_method = ''GET'',
     rt_url = ''/contract/:chain/:contractAddress/subscriptions/get-indexed-blocks'',
     rt_operationId = ''getContractIndexedBlockRange'',
     rt_tags = [''Contract-Subscriptions''],
     rt_hidden = False,
     rt_params = Some contractParamSchema,
     rt_querystring = None,
     rt_body = None,
     rt_headers = None,
     rt_response = put_fields [(200, getContractIndexedBlockRange_responseSchema)] standardResponseSchema\<rparr>"

section \<open>contract/subscriptions/getContractSubscriptions.ts\<close>

definition getContractSubscriptions_responseSchema :: schema where [schema_defs]:
  "getContractSubscriptions_responseSchema =
     SObject [(''result'', True, SArray contractSubscriptionSchema)]"

definition getContractSubscriptions_route :: route where [route_defs]:
  "getContractSubscriptions_route = \<lparr>rt_method = ''GET'',
     rt_url = ''/contract-subscriptions/get-all'',
     rt_operationId = ''getContractSubscriptions'',
     rt_tags = [''Contract-Subscriptions''],
     rt_hidden = False,
     rt_params = None,
     rt_querystring = None,
     rt_body = None,
     rt_headers = None,
     rt_response = put_fields [(200, getContractSubscriptions_responseSchema)] standardResponseSchema\<rparr>"

section \<open>contract/subscriptions/getLatestBlock.ts\<close>

definition getLatestBlock_responseSchema :: schema where [schema_defs]:
  "getLatestBlock_responseSchema =
     SObject [(''result'', True, SObject [(''lastBlock'', True, SNumber), (''status'', True, SString)])]"

definition getLatestBlock_route :: route where [route_defs]:
  "getLatestBlock_route = \<lparr>rt_method = ''GET'',
     rt_url = ''/contract-subscriptions/last-block'',
     rt_operationId = ''getLatestBlock'',
     rt_tags = [''Contract-Subscriptions''],
     rt_hidden = False,
     rt_params = None,
     rt_querystring = Some chainRequestQuerystringSchema,
     rt_body = None,
     rt_headers = None,
     rt_response = put_fields [(200, getLatestBlock_responseSchema)] standardResponseSchema\<rparr>"

section \<open>contract/subscriptions/removeContractSubscription.ts\<close>

definition removeContractSubscription_responseSchema :: schema where [schema_defs]:
  "removeContractSubscription_responseSchema =
     SObject [(''result'', True, SObject [(''status'', True, SString)])]"

definition removeContractSubscription_bodySchema :: schema where [schema_defs]:
  "removeContractSubscription_bodySchema =
     SObject [(''contractSubscriptionId'', True, SString)]"

definition removeContractSubscription_route :: route where [route_defs]:
  "removeContractSubscription_route = \<lparr>rt_method = ''POST'',
     rt_url = ''/contract-subscriptions/remove'',
     rt_operationId = ''removeContractSubscription'',
     rt_tags = [''Contract-Subscriptions''],
     rt_hidden = False,
     rt_params = None,
     rt_querystring = None,
     rt_body = Some removeContractSubscription_bodySchema,
     rt_headers = None,
     rt_response = put_fields [(200, removeContractSubscription_responseSchema)] standardResponseSchema\<rparr>"

section \<open>contract/transactions/getTransactionReceipts.ts\<close>

definition getContractTransactionReceipts_responseSchema :: schema where [schema_defs]:
  "getContractTransactionReceipts_responseSchema =
     SObject [(''result'', True, SObject [(''receipts'', True, SArray transactionReceiptSchema),
     (''status'', True, SString)])]"

definition getContractTransactionReceipts_requestQuerySchema :: schema where [schema_defs]:
  "getContractTransactionReceipts_requestQuerySchema =
     SObject [(''fromBlock'', True, SNumber), (''toBlock'', False, SNumber)]"

definition getContractTransactionReceipts_route :: route where [route_defs]:
  "getContractTransactionReceipts_route = \<lparr>rt_method = ''GET'',
     rt_url = ''/contract/:chain/:contractAddress/transactions/get-receipts'',
     rt_operationId = ''getContractTransactionReceipts'',
     rt_tags = [''Contract-Transactions''],
     rt_hidden = True,
     rt_params = Some contractParamSchema,
     rt_querystring = Some getContractTransactionReceipts_requestQuerySchema,
     rt_body = None,
     rt_headers = None,
     rt_response = put_fields [(200, getContractTransactionReceipts_responseSchema)] standardResponseSchema\<rparr>"

section \<open>contract/transactions/getTransactionReceiptsByTimestamp.ts\<close>

definition getContractTransactionReceiptsByTimestamp_responseSchema :: schema where [schema_defs]:
  "getContractTransactionReceiptsByTimestamp_responseSchema =
     SObject [(''result'', True, SObject [(''receipts'', True, SArray transactionReceiptSchema),
     (''status'', True, SString)])]"

definition getContractTransactionReceiptsByTimestamp_requestQuerySchema :: schema where [schema_defs]:
  "getContractTransactionReceiptsByTimestamp_requestQuerySchema =
     SObject [(''contractAddresses'', False, SArray AddressSchema), (''fromBlockTimestamp'', True,
     SNumber), (''toBlockTimestamp'', False, SNumber)]"

definition getContractTransactionReceiptsByTimestamp_route :: route where [route_defs]:
  "getContractTransactionReceiptsByTimestamp_route = \<lparr>rt_method = ''GET'',
     rt_url = ''/contract/transactions/get-receipts'',
     rt_operationId = ''getContractTransactionReceiptsByTimestamp'',
     rt_tags = [''Contract-Transactions''],
     rt_hidden = True,
     rt_params = None,
     rt_querystring = Some getContractTransactionReceiptsByTimestamp_requestQuerySchema,
     rt_body = None,
     rt_headers = None,
     rt_response = put_fields [(200,
         getContractTransactionReceiptsByTimestamp_responseSchema)] standardResponseSchema\<rparr>"

section \<open>contract/transactions/paginateTransactionReceipts.ts\<close>

definition pageTransactionReceipts_responseSchema :: schema where [schema_defs]:
  "pageTransactionReceipts_responseSchema =
     SObject [(''result'', True, SObject [(''cursor'', False, SString), (''receipts'', True,
     SArray transactionReceiptSchema), (''status'', True, SString)])]"

definition pageTransactionReceipts_requestQuerySchema :: schema where [schema_defs]:
  "pageTransactionReceipts_requestQuerySchema =
     SObject [(''cursor'', False, SString), (''pageSize'', False, SNumber), (''contractAddresses'',
     False, SArray AddressSchema)]"

definition pageTransactionReceipts_route :: route where [route_defs]:
  "pageTransactionReceipts_route = \<lparr>rt_method = ''GET'',
     rt_url = ''/contract/transactions/paginate-receipts'',
     rt_operationId = ''pageTransactionReceipts'',
     rt_tags = [''Contract-Transactions''],
     rt_hidden = True,
     rt_params = None,
     rt_querystring = Some pageTransactionReceipts_requestQuerySchema,
     rt_body = None,
     rt_headers = None,
     rt_response = put_fields [(200, pageTransactionReceipts_responseSchema)] standardResponseSchema\<rparr>"

section \<open>home.ts\<close>

definition home_responseBodySchema :: schema where [schema_defs]:
  "home_responseBodySchema =
     SObject [(''message'', True, SString)]"

definition home_route :: route where [route_defs]:
  "home_route = \<lparr>rt_method = ''GET'',
     rt_url = ''/'',
     rt_operationId = ''home'',
     rt_tags = [''System''],
     rt_hidden = True,
     rt_params = None,
     rt_querystring = None,
     rt_body = None,
     rt_headers = None,
     rt_response = [(200, home_responseBodySchema)]\<rparr>"

section \<open>relayer/create.ts\<close>

definition createRelayer_responseBodySchema :: schema where [schema_defs]:
  "createRelayer_responseBodySchema =
     SObject [(''result'', True, SObject [(''relayerId'', True, SString)])]"

definition createRelayer_requestBodySchema :: schema where [schema_defs]:
  "createRelayer_requestBodySchema =
     SObject [(''name'', False, SString), (''chain'', True, SString), (''backendWalletAddress'', True,
     AddressSchema), (''allowedContracts'', False, SArray AddressSchema), (''allowedForwarders'', False,
     SArray AddressSchema)]"

definition createRelayer_route :: route where [route_defs]:
  "createRelayer_route = \<lparr>rt_method = ''POST'',
     rt_url = ''/relayer/create'',
     rt_operationId = ''createRelayer'',
     rt_tags = [''Relayer''],
     rt_hidden = False,
     rt_params = None,
     rt_querystring = None,
     rt_body = Some createRelayer_requestBodySchema,
     rt_headers = None,
     rt_response = put_fields [(200, createRelayer_responseBodySchema)] standardResponseSchema\<rparr>"

section \<open>relayer/getAll.ts\<close>

definition getAllRelayers_responseBodySchema :: schema where [schema_defs]:
  "getAllRelayers_responseBodySchema =
     SObject [(''result'', True, SArray (SObject [(''id'', True, SString), (''name'', True,
     SUnion [SString, SNull]), (''chainId'', True, SString), (''backendWalletAddress'', True,
     AddressSchema), (''allowedContracts'', True, SUnion [SArray SString, SNull]),
     (''allowedForwarders'', True, SUnion [SArray SString, SNull])]))]"

definition getAllRelayers_route :: route where [route_defs]:
  "getAllRelayers_route = \<lparr>rt_method = ''GET'',
     rt_url = ''/relayer/get-all'',
     rt_operationId = ''listRelayers'',
     rt_tags = [''Relayer''],
     rt_hidden = False,
     rt_params = None,
     rt_querystring = None,
     rt_body = None,
     rt_headers = None,
     rt_response = put_fields [(200, getAllRelayers_responseBodySchema)] standardResponseSchema\<rparr>"

section \<open>relayer/index.ts\<close>

definition relayTransaction_ParamsSchema :: schema where [schema_defs]:
  "relayTransaction_ParamsSchema =
     SObject [(''relayerId'', True, SString)]"

definition relayTransaction_requestBodySchema :: schema where [schema_defs]:
  "relayTransaction_requestBodySchema =
     SUnion [SObject [(''type'', True, SLiteral (JStr ''forward'')), (''request'', True,
     SObject [(''from'', True, SString), (''to'', True, SString), (''value'', True, SString), (''gas'',
     True, SString), (''nonce'', True, SString), (''data'', True, SString), (''chainid'', False,
     SString)]), (''signature'', True, SString), (''forwarderAddress'', True, AddressSchema)],
     SObject [(''type'', True, SLiteral (JStr ''permit'')), (''request'', True, SObject [(''to'', True,
     SString), (''owner'', True, SString), (''spender'', True, SString), (''value'', True, SString),
     (''nonce'', True, SString), (''deadline'', True, SString)]), (''signature'', True, SString)],
     SObject [(''type'', True, SLiteral (JStr ''execute-meta-transaction'')), (''request'', True,
     SObject [(''from'', True, SString), (''to'', True, SString), (''data'', True, SString)]),
     (''signature'', True, SString)]]"

definition relayTransaction_route :: route where [route_defs]:
  "relayTransaction_route = \<lparr>rt_method = ''POST'',
     rt_url = ''/relayer/:relayerId'',
     rt_operationId = ''relay'',
     rt_tags = [''Relayer''],
     rt_hidden = False,
     rt_params = Some relayTransaction_ParamsSchema,
     rt_querystring = None,
     rt_body = Some relayTransaction_requestBodySchema,
     rt_headers = None,
     rt_response = put_fields [(200, transactionWritesResponseSchema)] standardResponseSchema\<rparr>"

section \<open>relayer/revoke.ts\<close>

definition revokeRelayer_responseBodySchema :: schema where [schema_defs]:
  "revokeRelayer_responseBodySchema =
     SObject [(''result'', True, SObject [(''success'', True, SBoolean)])]"

definition revokeRelayer_requestBodySchema :: schema where [schema_defs]:
  "revokeRelayer_requestBodySchema =
     SObject [(''id'', True, SString)]"

definition revokeRelayer_route :: route where [route_defs]:
  "revokeRelayer_route = \<lparr>rt_method = ''POST'',
     rt_url = ''/relayer/revoke'',
     rt_operationId = ''revokeRelayer'',
     rt_tags = [''Relayer''],
     rt_hidden = False,
     rt_params = None,
     rt_querystring = None,
     rt_body = Some revokeRelayer_requestBodySchema,
     rt_headers = None,
     rt_response = put_fields [(200, revokeRelayer_responseBodySchema)] standardResponseSchema\<rparr>"

section \<open>relayer/update.ts\<close>

definition updateRelayer_responseBodySchema :: schema where [schema_defs]:
  "updateRelayer_responseBodySchema =
     SObject [(''result'', True, SObject [(''success'', True, SBoolean)])]"

definition updateRelayer_requestBodySchema :: schema where [schema_defs]:
  "updateRelayer_requestBodySchema =
     SObject [(''id'', True, SString), (''name'', False, SString), (''chain'', False, SString),
     (''backendWalletAddress'', False, AddressSchema), (''allowedContracts'', False, SArray SString),
     (''allowedForwarders'', False, SArray SString)]"

definition updateRelayer_route :: route where [route_defs]:
  "updateRelayer_route = \<lparr>rt_method = ''POST'',
     rt_url = ''/relayer/update'',
     rt_operationId = ''updateRelayer'',
     rt_tags = [''Relayer''],
     rt_hidden = False,
     rt_params = None,
     rt_querystring = None,
     rt_body = Some updateRelayer_requestBodySchema,
     rt_headers = None,
     rt_response = put_fields [(200, updateRelayer_responseBodySchema)] standardResponseSchema\<rparr>"

section \<open>system/health.ts\<close>

definition healthCheck_ReplySchemaOk :: schema where [schema_defs]:
  "healthCheck_ReplySchemaOk =
     SObject [(''status'', True, SString), (''engineVersion'', False, SString), (''engineTier'', False,
     SString), (''features'', True, SArray (SUnion [SLiteral (JStr ''KEYPAIR_AUTH''),
     SLiteral (JStr ''CONTRACT_SUBSCRIPTIONS''), SLiteral (JStr ''IP_ALLOWLIST'')]))]"

definition healthCheck_ReplySchemaError :: schema where [schema_defs]:
  "healthCheck_ReplySchemaError =
     SObject [(''error'', True, SString)]"

definition healthCheck_route :: route where [route_defs]:
  "healthCheck_route = \<lparr>rt_method = ''GET'',
     rt_url = ''/system/health'',
     rt_operationId = ''checkHealth'',
     rt_tags = [''System''],
     rt_hidden = True,
     rt_params = None,
     rt_querystring = None,
     rt_body = None,
     rt_headers = None,
     rt_response = [(200, healthCheck_ReplySchemaOk), (503, healthCheck_ReplySchemaError)]\<rparr>"

section \<open>system/queue.ts\<close>

definition queueStatus_responseBodySchema :: schema where [schema_defs]:
  "queueStatus_responseBodySchema =
     SObject [(''result'', True, SObject [(''queued'', True, SNumber), (''pending'', True, SNumber),
     (''latency'', True, SObject [(''msToSend'', True, SObject [(''p50'', True, SNumber), (''p90'',
     True, SNumber)]), (''msToMine'', True, SObject [(''p50'', True, SNumber), (''p90'', True,
     SNumber)])])])]"

definition queueStatus_route :: route where [route_defs]:
  "queueStatus_route = \<lparr>rt_method = ''GET'',
     rt_url = ''/system/queue'',
     rt_operationId = ''queueStatus'',
     rt_tags = [''System''],
     rt_hidden = True,
     rt_params = None,
     rt_querystring = None,
     rt_body = None,
     rt_headers = None,
     rt_response = put_fields [(200, queueStatus_responseBodySchema)] standardResponseSchema\<rparr>"

section \<open>transaction/blockchain/getLogs.ts\<close>

definition getTransactionLogs_LogSchema :: schema where [schema_defs]:
  "getTransactionLogs_LogSchema =
     SObject [(''address'', True, AddressSchema), (''topics'', True, SArray SString), (''data'', True,
     SString), (''blockNumber'', True, SString), (''transactionHash'', True, TransactionHashSchema),
     (''transactionIndex'', True, SNumber), (''blockHash'', True, SString), (''logIndex'', True,
     SNumber), (''removed'', True, SBoolean)]"

definition getTransactionLogs_ParsedLogSchema :: schema where [schema_defs]:
  "getTransactionLogs_ParsedLogSchema =
     SObject (properties getTransactionLogs_LogSchema @ [(''eventName'', True, SString), (''args'',
     True, SAny)])"

definition getTransactionLogs_responseBodySchema :: schema where [schema_defs]:
  "getTransactionLogs_responseBodySchema =
     SObject [(''result'', True, SUnion [SArray getTransactionLogs_ParsedLogSchema,
     SArray getTransactionLogs_LogSchema])]"

definition getTransactionLogs_requestQuerystringSchema :: schema where [schema_defs]:
  "getTransactionLogs_requestQuerystringSchema =
     SObject [(''chain'', True, SString), (''queueId'', False, SString), (''transactionHash'', False,
     TransactionHashSchema), (''parseLogs'', False, SBoolean)]"

definition getTransactionLogs_route :: route where [route_defs]:
  "getTransactionLogs_route = \<lparr>rt_method = ''GET'',
     rt_url = ''/transaction/logs'',
     rt_operationId = ''getTransactionLogs'',
     rt_tags = [''Transaction''],
     rt_hidden = False,
     rt_params = None,
     rt_querystring = Some getTransactionLogs_requestQuerystringSchema,
     rt_body = None,
     rt_headers = None,
     rt_response = put_fields [(200, getTransactionLogs_responseBodySchema)] standardResponseSchema\<rparr>"

section \<open>transaction/blockchain/getReceipt.ts\<close>

definition getTransactionReceipt_responseBodySchema :: schema where [schema_defs]:
  "getTransactionReceipt_responseBodySchema =
     SObject [(''result'', True, SUnion [schema_partial (SObject [(''to'', True, SString), (''from'',
     True, SString), (''contractAddress'', True, SUnion [AddressSchema, SNull]), (''transactionIndex'',
     True, SNumber), (''root'', True, SString), (''gasUsed'', True, SString), (''logsBloom'', True,
     SString), (''blockHash'', True, SString), (''transactionHash'', True, TransactionHashSchema),
     (''logs'', True, SArray SAny), (''blockNumber'', True, SNumber), (''confirmations'', True,
     SNumber), (''cumulativeGasUsed'', True, SString), (''effectiveGasPrice'', True, SString),
     (''byzantium'', True, SBoolean), (''type'', True, SNumber), (''status'', True, SNumber)]), SNull])]"

definition getTransactionReceipt_requestSchema :: schema where [schema_defs]:
  "getTransactionReceipt_requestSchema =
     SObject [(''transactionHash'', True, TransactionHashSchema), (''chain'', True, SString)]"

definition getTransactionReceipt_route :: route where [route_defs]:
  "getTransactionReceipt_route = \<lparr>rt_method = ''GET'',
     rt_url = ''/transaction/:chain/tx-hash/:transactionHash'',
     rt_operationId = ''getTransactionReceipt'',
     rt_tags = [''Transaction''],
     rt_hidden = False,
     rt_params = Some getTransactionReceipt_requestSchema,
     rt_querystring = None,
     rt_body = None,
     rt_headers = None,
     rt_response = put_fields [(200, getTransactionReceipt_responseBodySchema)] standardResponseSchema\<rparr>"

section \<open>transaction/blockchain/getUserOpReceipt.ts\<close>

definition getUserOpReceipt_responseBodySchema :: schema where [schema_defs]:
  "getUserOpReceipt_responseBodySchema =
     SObject [(''result'', True, SAny)]"

definition getUserOpReceipt_requestSchema :: schema where [schema_defs]:
  "getUserOpReceipt_requestSchema =
     SObject [(''userOpHash'', True, TransactionHashSchema), (''chain'', True, SString)]"

definition getUserOpReceipt_route :: route where [route_defs]:
  "getUserOpReceipt_route = \<lparr>rt_method = ''GET'',
     rt_url = ''/transaction/:chain/userop-hash/:userOpHash'',
     rt_operationId = ''useropHashReceipt'',
     rt_tags = [''Transaction''],
     rt_hidden = False,
     rt_params = Some getUserOpReceipt_requestSchema,
     rt_querystring = None,
     rt_body = None,
     rt_headers = None,
     rt_response = put_fields [(200, getUserOpReceipt_responseBodySchema)] standardResponseSchema\<rparr>"

section \<open>transaction/blockchain/sendSignedTx.ts\<close>

definition sendSignedTransaction_responseBodySchema :: schema where [schema_defs]:
  "sendSignedTransaction_responseBodySchema =
     SObject [(''result'', True, SObject [(''transactionHash'', True, TransactionHashSchema)])]"

definition sendSignedTransaction_requestBodySchema :: schema where [schema_defs]:
  "sendSignedTransaction_requestBodySchema =
     SObject [(''signedTransaction'', True, SString)]"

definition sendSignedTransaction_route :: route where [route_defs]:
  "sendSignedTransaction_route = \<lparr>rt_method = ''POST'',
     rt_url = ''/transaction/:chain/send-signed-transaction'',
     rt_operationId = ''sendRawTransaction'',
     rt_tags = [''Transaction''],
     rt_hidden = False,
     rt_params = Some walletChainParamSchema,
     rt_querystring = None,
     rt_body = Some sendSignedTransaction_requestBodySchema,
     rt_headers = None,
     rt_response = put_fields [(200, sendSignedTransaction_responseBodySchema)] standardResponseSchema\<rparr>"

section \<open>transaction/blockchain/sendSignedUserOp.ts\<close>

definition sendSignedUserOp_responseBodySchema :: schema where [schema_defs]:
  "sendSignedUserOp_responseBodySchema =
     SUnion [SObject [(''result'', True, SObject [(''userOpHash'', True, TransactionHashSchema)])],
     SObject [(''error'', True, SObject [(''message'', True, SString)])]]"

definition sendSignedUserOp_requestBodySchema :: schema where [schema_defs]:
  "sendSignedUserOp_requestBodySchema =
     SObject [(''signedUserOp'', True, SAny)]"

definition sendSignedUserOp_route :: route where [route_defs]:
  "sendSignedUserOp_route = \<lparr>rt_method = ''POST'',
     rt_url = ''/transaction/:chain/send-signed-user-op'',
     rt_operationId = ''sendSignedUserOp'',
     rt_tags = [''Transaction''],
     rt_hidden = False,
     rt_params = Some walletChainParamSchema,
     rt_querystring = None,
     rt_body = Some sendSignedUserOp_requestBodySchema,
     rt_headers = None,
     rt_response = put_fields [(200, sendSignedUserOp_responseBodySchema)] standardResponseSchema\<rparr>"

section \<open>transaction/cancel.ts\<close>

definition cancelTransaction_responseBodySchema :: schema where [schema_defs]:
  "cancelTransaction_responseBodySchema =
     SObject [(''result'', True, SObject [(''queueId'', True, SString), (''status'', True, SString),
     (''message'', True, SString), (''transactionHash'', False, TransactionHashSchema)])]"

definition cancelTransaction_requestBodySchema :: schema where [schema_defs]:
  "cancelTransaction_requestBodySchema =
     SObject [(''queueId'', True, SString)]"

definition cancelTransaction_route :: route where [route_defs]:
  "cancelTransaction_route = \<lparr>rt_method = ''POST'',
     rt_url = ''/transaction/cancel'',
     rt_operationId = ''cancel'',
     rt_tags = [''Transaction''],
     rt_hidden = False,
     rt_params = None,
     rt_querystring = None,
     rt_body = Some cancelTransaction_requestBodySchema,
     rt_headers = None,
     rt_response = put_fields [(200, cancelTransaction_responseBodySchema)] standardResponseSchema\<rparr>"

section \<open>transaction/getAll.ts\<close>

definition getAllTransactions_responseBodySchema :: schema where [schema_defs]:
  "getAllTransactions_responseBodySchema =
     SObject [(''result'', True, SObject [(''transactions'', True, SArray TransactionSchema),
     (''totalCount'', True, SNumber)])]"

definition getAllTransactions_requestQuerySchema :: schema where [schema_defs]:
  "getAllTransactions_requestQuerySchema =
     SObject (properties PaginationSchema @ [(''status'', True,
     SDefault (JStr ''queued'') (SUnion [SLiteral (JStr ''queued''), SLiteral (JStr ''mined''),
     SLiteral (JStr ''cancelled''), SLiteral (JStr ''errored'')]))])"

definition getAllTransactions_route :: route where [route_defs]:
  "getAllTransactions_route = \<lparr>rt_method = ''GET'',
     rt_url = ''/transaction/get-all'',
     rt_operationId = ''listTransactions'',
     rt_tags = [''Transaction''],
     rt_hidden = False,
     rt_params = None,
     rt_querystring = Some getAllTransactions_requestQuerySchema,
     rt_body = None,
     rt_headers = None,
     rt_response = put_fields [(200, getAllTransactions_responseBodySchema)] standardResponseSchema\<rparr>"

section \<open>transaction/getAllDeployedContracts.ts\<close>

definition getAllDeployedContracts_responseBodySchema :: schema where [schema_defs]:
  "getAllDeployedContracts_responseBodySchema =
     SObject [(''result'', True, SObject [(''transactions'', True, SArray TransactionSchema),
     (''totalCount'', True, SNumber)])]"

definition getAllDeployedContracts_requestQuerySchema :: schema where [schema_defs]:
  "getAllDeployedContracts_requestQuerySchema =
     SObject [(''page'', True, SDefault (JNum (Some 1)) (SRange (Some 1) None SInteger)), (''limit'',
     True, SDefault (JNum (Some 10)) (SRange (Some 1) None SInteger))]"

definition getAllDeployedContracts_route :: route where [route_defs]:
  "getAllDeployedContracts_route = \<lparr>rt_method = ''GET'',
     rt_url = ''/transaction/get-all-deployed-contracts'',
     rt_operationId = ''getAllDeployedContracts'',
     rt_tags = [''Transaction''],
     rt_hidden = False,
     rt_params = None,
     rt_querystring = Some getAllDeployedContracts_requestQuerySchema,
     rt_body = None,
     rt_headers = None,
     rt_response = put_fields [(200, getAllDeployedContracts_responseBodySchema)] standardResponseSchema\<rparr>"

section \<open>transaction/retry-failed.ts\<close>

definition retryFailedTransaction_responseBodySchema :: schema where [schema_defs]:
  "retryFailedTransaction_responseBodySchema =
     SObject [(''result'', True, SObject [(''message'', True, SString), (''status'', True, SString)])]"

definition retryFailedTransaction_requestBodySchema :: schema where [schema_defs]:
  "retryFailedTransaction_requestBodySchema =
     SObject [(''queueId'', True, SString)]"

definition retryFailedTransaction_route :: route where [route_defs]:
  "retryFailedTransaction_route = \<lparr>rt_method = ''POST'',
     rt_url = ''/transaction/retry-failed'',
     rt_operationId = ''retryFailed'',
     rt_tags = [''Transaction''],
     rt_hidden = False,
     rt_params = None,
     rt_querystring = None,
     rt_body = Some retryFailedTransaction_requestBodySchema,
     rt_headers = None,
     rt_response = put_fields [(200, retryFailedTransaction_responseBodySchema)] standardResponseSchema\<rparr>"

section \<open>transaction/retry.ts\<close>

definition retryTransaction_responseBodySchema :: schema where [schema_defs]:
  "retryTransaction_responseBodySchema =
     SObject [(''result'', True, SObject [(''message'', True, SString), (''status'', True, SString)])]"

definition retryTransaction_requestBodySchema :: schema where [schema_defs]:
  "retryTransaction_requestBodySchema =
     SObject [(''queueId'', True, SString), (''maxFeePerGas'', True, SString),
     (''maxPriorityFeePerGas'', True, SString)]"

definition retryTransaction_route :: route where [route_defs]:
  "retryTransaction_route = \<lparr>rt_method = ''POST'',
     rt_url = ''/transaction/retry'',
     rt_operationId = ''retry'',
     rt_tags = [''Transaction''],
     rt_hidden = True,
     rt_params = None,
     rt_querystring = None,
     rt_body = Some retryTransaction_requestBodySchema,
     rt_headers = None,
     rt_response = put_fields [(200, retryTransaction_responseBodySchema)] standardResponseSchema\<rparr>"

section \<open>transaction/status.ts\<close>

definition checkTxStatus_responseBodySchema :: schema where [schema_defs]:
  "checkTxStatus_responseBodySchema =
     SObject [(''result'', True, TransactionSchema)]"

definition checkTxStatus_requestSchema :: schema where [schema_defs]:
  "checkTxStatus_requestSchema =
     SObject [(''queueId'', True, SString)]"

definition checkTxStatus_route :: route where [route_defs]:
  "checkTxStatus_route = \<lparr>rt_method = ''GET'',
     rt_url = ''/transaction/status/:queueId'',
     rt_operationId = ''status'',
     rt_tags = [''Transaction''],
     rt_hidden = False,
     rt_params = Some checkTxStatus_requestSchema,
     rt_querystring = None,
     rt_body = None,
     rt_headers = None,
     rt_response = put_fields [(200, checkTxStatus_responseBodySchema)] standardResponseSchema\<rparr>"

section \<open>transaction/syncRetry.ts\<close>

definition syncRetryTransaction_responseBodySchema :: schema where [schema_defs]:
  "syncRetryTransaction_responseBodySchema =
     SObject [(''result'', True, SObject [(''transactionHash'', True, TransactionHashSchema)])]"

definition syncRetryTransaction_requestBodySchema :: schema where [schema_defs]:
  "syncRetryTransaction_requestBodySchema =
     SObject [(''queueId'', True, SString), (''maxFeePerGas'', False, SString),
     (''maxPriorityFeePerGas'', False, SString)]"

definition syncRetryTransaction_route :: route where [route_defs]:
  "syncRetryTransaction_route = \<lparr>rt_method = ''POST'',
     rt_url = ''/transaction/sync-retry'',
     rt_operationId = ''syncRetry'',
     rt_tags = [''Transaction''],
     rt_hidden = False,
     rt_params = None,
     rt_querystring = None,
     rt_body = Some syncRetryTransaction_requestBodySchema,
     rt_headers = None,
     rt_response = put_fields [(200, syncRetryTransaction_responseBodySchema)] standardResponseSchema\<rparr>"

section \<open>webhooks/create.ts\<close>

definition createWebhook_responseBodySchema :: schema where [schema_defs]:
  "createWebhook_responseBodySchema =
     SObject [(''result'', True, WebhookSchema)]"

definition createWebhook_requestBodySchema :: schema where [schema_defs]:
  "createWebhook_requestBodySchema =
     SObject [(''url'', True, SString), (''name'', False, SMinLength 3 SString), (''eventType'', True,
     SUnion [SLiteral (JStr ''queued_transaction''), SLiteral (JStr ''sent_transaction''),
     SLiteral (JStr ''mined_transaction''), SLiteral (JStr ''errored_transaction''),
     SLiteral (JStr ''cancelled_transaction''), SLiteral (JStr ''all_transactions''),
     SLiteral (JStr ''backend_wallet_balance''), SLiteral (JStr ''auth''),
     SLiteral (JStr ''contract_subscription'')])]"

definition createWebhook_route :: route where [route_defs]:
  "createWebhook_route = \<lparr>rt_method = ''POST'',
     rt_url = ''/webhooks/create'',
     rt_operationId = ''createWebhook'',
     rt_tags = [''Webhooks''],
     rt_hidden = False,
     rt_params = None,
     rt_querystring = None,
     rt_body = Some createWebhook_requestBodySchema,
     rt_headers = None,
     rt_response = put_fields [(200, createWebhook_responseBodySchema)] standardResponseSchema\<rparr>"

section \<open>webhooks/events.ts\<close>

definition getWebhooksEventTypes_responseBodySchema :: schema where [schema_defs]:
  "getWebhooksEventTypes_responseBodySchema =
     SObject [(''result'', True, SArray (SUnion [SLiteral (JStr ''queued_transaction''),
     SLiteral (JStr ''sent_transaction''), SLiteral (JStr ''mined_transaction''),
     SLiteral (JStr ''errored_transaction''), SLiteral (JStr ''cancelled_transaction''),
     SLiteral (JStr ''all_transactions''), SLiteral (JStr ''backend_wallet_balance''),
     SLiteral (JStr ''auth''), SLiteral (JStr ''contract_subscription'')]))]"

definition getWebhooksEventTypes_route :: route where [route_defs]:
  "getWebhooksEventTypes_route = \<lparr>rt_method = ''GET'',
     rt_url = ''/webhooks/event-types'',
     rt_operationId = ''getEventTypes'',
     rt_tags = [''Webhooks''],
     rt_hidden = False,
     rt_params = None,
     rt_querystring = None,
     rt_body = None,
     rt_headers = None,
     rt_response = put_fields [(200, getWebhooksEventTypes_responseBodySchema)] standardResponseSchema\<rparr>"

section \<open>webhooks/getAll.ts\<close>

definition getAllWebhooksData_responseBodySchema :: schema where [schema_defs]:
  "getAllWebhooksData_responseBodySchema =
     SObject [(''result'', True, SArray WebhookSchema)]"

definition getAllWebhooksData_route :: route where [route_defs]:
  "getAllWebhooksData_route = \<lparr>rt_method = ''GET'',
     rt_url = ''/webhooks/get-all'',
     rt_operationId = ''listWebhooks'',
     rt_tags = [''Webhooks''],
     rt_hidden = False,
     rt_params = None,
     rt_querystring = None,
     rt_body = None,
     rt_headers = None,
     rt_response = put_fields [(200, getAllWebhooksData_responseBodySchema)] standardResponseSchema\<rparr>"

section \<open>webhooks/revoke.ts\<close>

definition revokeWebhook_responseBodySchema :: schema where [schema_defs]:
  "revokeWebhook_responseBodySchema =
     SObject [(''result'', True, SObject [(''success'', True, SBoolean)])]"

definition revokeWebhook_requestBodySchema :: schema where [schema_defs]:
  "revokeWebhook_requestBodySchema =
     SObject [(''id'', True, SNumber)]"

definition revokeWebhook_route :: route where [route_defs]:
  "revokeWebhook_route = \<lparr>rt_method = ''POST'',
     rt_url = ''/webhooks/revoke'',
     rt_operationId = ''revoke'',
     rt_tags = [''Webhooks''],
     rt_hidden = False,
     rt_params = None,
     rt_querystring = None,
     rt_body = Some revokeWebhook_requestBodySchema,
     rt_headers = None,
     rt_response = put_fields [(200, revokeWebhook_responseBodySchema)] standardResponseSchema\<rparr>"


end
