(* ===== verification/Route_Table.thy ===== *)
theory Route_Table
  imports Account_Routes Erc20_Routes Erc721_Routes Erc1155_Routes Marketplace_Routes Contract_Api_Routes
    Deploy_Routes Service_Routes
begin

text \<open>
  The routing table of the server (\<open>src/server/routes/index.ts\<close>): the routes in the order in which
  \<open>withRoutes\<close> registers them, and the handlers of the contract routes by what they do.
\<close>

definition withRoutes :: "route list" where
  "withRoutes =
     [createBackendWallet_route, removeBackendWallet_route, importBackendWallet_route,
         updateBackendWallet_route, getBalance_route, getAll_route, transfer_route, withdraw_route,
         sendTransaction_route, sendTransactionBatch_route, signTransaction_route, signMessage_route,
         signTypedData_route, getTransactionsForBackendWallet_route,
         getTransactionsForBackendWalletByNonce_route, resetBackendWalletNonces_route,
         getBackendWalletNonce_route, simulateTransaction_route, getWalletsConfiguration_route,
         updateWalletsConfiguration_route, getChainsConfiguration_route, updateChainsConfiguration_route,
         getTransactionConfiguration_route, updateTransactionConfiguration_route,
         getAuthConfiguration_route, updateAuthConfiguration_route,
         getBackendWalletBalanceConfiguration_route, updateBackendWalletBalanceConfiguration_route,
         getCorsConfiguration_route, addUrlToCorsConfiguration_route, removeUrlToCorsConfiguration_route,
         setUrlsToCorsConfiguration_route, getCacheConfiguration_route, updateCacheConfiguration_route,
         getContractSubscriptionsConfiguration_route, updateContractSubscriptionsConfiguration_route,
         getIpAllowlist_route, setIpAllowlist_route, getAllWebhooksData_route, createWebhook_route,
         revokeWebhook_route, getWebhooksEventTypes_route, getAllPermissions_route, grantPermissions_route,
         revokePermissions_route, getAllAccessTokens_route, createAccessToken_route,
         revokeAccessToken_route, updateAccessToken_route, listPublicKeys_route, addKeypair_route,
         removePublicKey_route, getChainData_route, getAllChainData_route, getAllRelayers_route,
         createRelayer_route, revokeRelayer_route, updateRelayer_route, relayTransaction_route,
         readContract_route, writeToContract_route, getAllEvents_route, getEvents_route, getABI_route,
         extractEvents_route, getContractExtensions_route, extractFunctions_route, getRoles_route,
         getAllRoles_route, grantRole_route, revokeRole_route, getDefaultRoyaltyInfo_route,
         getTokenRoyaltyInfo_route, setDefaultRoyaltyInfo_route, setTokenRoyaltyInfo_route]
     @ prebuiltsRoutes
     @ [getAllTransactions_route, checkTxStatus_route, getAllDeployedContracts_route, retryTransaction_route,
         syncRetryTransaction_route, retryFailedTransaction_route, cancelTransaction_route,
         sendSignedTransaction_route, sendSignedUserOp_route, getTransactionReceipt_route,
         getUserOpReceipt_route, getTransactionLogs_route]
     @ accountFactoryRoutes
     @ accountRoutes
     @ erc20Routes
     @ erc721Routes
     @ erc1155Routes
     @ marketplaceV3Routes
     @ [home_route, healthCheck_route, queueStatus_route, getContractSubscriptions_route,
         addContractSubscription_route, removeContractSubscription_route,
         getContractIndexedBlockRange_route, getLatestBlock_route, getContractTransactionReceipts_route,
         getContractTransactionReceiptsByTimestamp_route, pageTransactionReceipts_route,
         getContractEventLogs_route, getEventLogs_route, pageEventLogs_route, getTransactionDetails_route,
         getNonceDetailsRoute_route]"

text \<open>
  The handlers that read a contract, those that sign a payload, those that queue a transaction, and those of
  the english auctions, which queue one too.
\<close>

definition contract_reads :: "(route \<times> 'w handler) list" where
  "contract_reads = account_reads @ erc20_reads @ erc721_reads @ erc1155_reads @ marketplace_reads @ contract_api_reads @ deploy_reads"

definition contract_signs :: "(route \<times> 'w handler) list" where
  "contract_signs = erc20_signs @ erc721_signs @ erc1155_signs"

definition contract_writes :: "(route \<times> 'w handler) list" where
  "contract_writes = account_writes @ erc20_writes @ erc721_writes @ erc1155_writes @ marketplace_writes @ contract_api_writes @ deploy_writes"

definition contract_auctions :: "(route \<times> 'w handler) list" where
  "contract_auctions = marketplace_auctions"


end
