(* ===== verification/Wallet_Routes.thy ===== *)
theory Wallet_Routes
  imports Sdk_Access Service_Routes Prisma_Table
begin

text \<open>
  The backend wallets: the table of their details (\<open>src/db/wallets\<close>), the wallets kept in it, in AWS
  KMS and in GCP KMS (\<open>src/server/utils/wallets\<close>, \<open>src/server/utils/storage\<close>), and the routes of
  \<open>src/server/routes/backend-wallet\<close>. Keys, signatures, the key services and the encryption of local
  wallets are parameters. \<open>getWallet\<close> and \<open>getAccount\<close> run against the table; the configuration that the wallets of a
  key service read on the way is the cached or the stored one, and that it is cached then is left out there.
\<close>

section \<open>State\<close>

record wallet_row =
  wr_type :: string
  wr_label :: "string option"
  wr_encryptedJson :: "string option"
  wr_awsKmsKeyId :: "string option"
  wr_awsKmsArn :: "string option"
  wr_gcpKmsKeyRingId :: "string option"
  wr_gcpKmsKeyId :: "string option"
  wr_gcpKmsKeyVersionId :: "string option"
  wr_gcpKmsLocationId :: "string option"
  wr_gcpKmsResourcePath :: "string option"

definition no_wallet_row :: "string \<Rightarrow> string option \<Rightarrow> wallet_row" where
  "no_wallet_row kind label = \<lparr>wr_type = kind, wr_label = label, wr_encryptedJson = None, wr_awsKmsKeyId = None,
     wr_awsKmsArn = None, wr_gcpKmsKeyRingId = None, wr_gcpKmsKeyId = None, wr_gcpKmsKeyVersionId = None,
     wr_gcpKmsLocationId = None, wr_gcpKmsResourcePath = None\<rparr>"

text \<open>How a local wallet is imported.\<close>

datatype local_import =
    ImportPrivateKey string
  | ImportMnemonic string
  | ImportEncryptedJson string string

record 'd wallet_env =
  wv_wallets :: "('d, string, wallet_row) table"
  wv_ENCRYPTION_PASSWORD :: string
  wv_THIRDWEB_API_SECRET_KEY :: string
  wv_getAddress :: "evm_wallet \<Rightarrow> js_error + string"
  wv_newAwsWallet :: "string \<Rightarrow> string \<Rightarrow> string \<Rightarrow> string option \<Rightarrow> evm_wallet"
  wv_newGcpWallet :: "wallet_configuration \<Rightarrow> string option \<Rightarrow> string option \<Rightarrow> evm_wallet"
  wv_awsCreateKey :: "string \<Rightarrow> string \<Rightarrow> string \<Rightarrow> js_error + (string \<times> string)"
  wv_gcpCreateKey :: "wallet_configuration \<Rightarrow> string \<Rightarrow> js_error + string"
  wv_generateKey :: "js_error + evm_wallet"
  wv_importKey :: "local_import \<Rightarrow> js_error + evm_wallet"
  wv_encryptWallet :: "evm_wallet \<Rightarrow> string \<Rightarrow> js_error + string"
  wv_loadWallet :: "string option \<Rightarrow> string \<Rightarrow> js_error + evm_wallet"
  wv_loadAccount :: "string \<Rightarrow> string \<Rightarrow> js_error + account"
  wv_homeFile :: "string \<Rightarrow> string option"
  wv_getBalance :: "sdk \<Rightarrow> js_val \<Rightarrow> js_error + js_val"
  wv_arrayify :: "js_val \<Rightarrow> js_error + js_val"
  wv_signMessage :: "signer \<Rightarrow> js_val \<Rightarrow> js_error + js_val"
  wv_signTransaction :: "signer \<Rightarrow> js_val \<Rightarrow> js_error + js_val"
  wv_signTypedData :: "signer \<Rightarrow> js_val \<Rightarrow> js_val \<Rightarrow> js_val \<Rightarrow> js_error + js_val"
  wv_NATIVE_TOKEN_ADDRESS :: string
  wv_toWei :: "string \<Rightarrow> js_error + int"
  wv_toTokens :: "int \<Rightarrow> string"
  wv_walletBalance :: "chain_info \<Rightarrow> string \<Rightarrow> js_error + int"
  wv_uuids :: "nat \<Rightarrow> string"

record ('w, 'd) wallet_state =
  wl_sdk :: "'w sdk_state"
  wl_rows :: 'd

definition on_wallets :: "('d, 'a) io \<Rightarrow> (('w, 'd) wallet_state, 'a) io" where
  "on_wallets m = (\<lambda>s. case m (wl_rows s) of (r, d) \<Rightarrow> (r, s\<lparr>wl_rows := d\<rparr>))"

definition wallet_world :: "('w world, 'a) io \<Rightarrow> (('w, 'd) wallet_state, 'a) io" where
  "wallet_world m = (\<lambda>s. case at_w m (wl_sdk s) of (r, k) \<Rightarrow> (r, s\<lparr>wl_sdk := k\<rparr>))"

lemma on_wallets_apply [io_simps]: "on_wallets m s = (fst (m (wl_rows s)), s\<lparr>wl_rows := snd (m (wl_rows s))\<rparr>)"
  by (cases "m (wl_rows s)") (simp add: on_wallets_def)

lemma wallet_world_apply [io_simps]:
  "wallet_world m s = (fst (m (sk_world (wl_sdk s))), s\<lparr>wl_sdk := (wl_sdk s)\<lparr>sk_world := snd (m (sk_world (wl_sdk s)))\<rparr>\<rparr>)"
  by (simp add: wallet_world_def at_w_apply)

section \<open>The table of details\<close>

definition createWalletDetails :: "'d wallet_env \<Rightarrow> string \<Rightarrow> wallet_row \<Rightarrow> (('w, 'd) wallet_state, wallet_row) io" where
  "createWalletDetails W address walletDetails =
     bnd (on_wallets (t_find (wv_wallets W) (toLowerCase address))) (\<lambda>wallet.
     case wallet of
       Some _ \<Rightarrow> throw (js_Error (''Wallet with address '' @ address @ '' has already been added!''))
     | None \<Rightarrow> on_wallets (t_create (wv_wallets W) (toLowerCase address) walletDetails))"

definition deleteWalletDetails :: "'d wallet_env \<Rightarrow> string \<Rightarrow> (('w, 'd) wallet_state, wallet_row) io" where
  "deleteWalletDetails W walletAddress = on_wallets (t_delete (wv_wallets W) (toLowerCase walletAddress))"

text \<open>A label that is absent stays as it is.\<close>

definition updateWalletDetails :: "'d wallet_env \<Rightarrow> string \<Rightarrow> string option \<Rightarrow> (('w, 'd) wallet_state, unit) io" where
  "updateWalletDetails W address label =
     bnd (on_wallets (t_update (wv_wallets W) (toLowerCase address)
       (\<lambda>r. case label of None \<Rightarrow> r | Some l \<Rightarrow> r\<lparr>wr_label := Some l\<rparr>))) (\<lambda>_. ret ())"

definition getAllWallets :: "'d wallet_env \<Rightarrow> int \<Rightarrow> int \<Rightarrow> (('w, 'd) wallet_state, wallet_row list) io" where
  "getAllWallets W page limit =
     bnd (on_wallets (t_many (wv_wallets W) (\<lambda>_. True))) (\<lambda>wallets.
     ret (take (nat limit) (drop (nat ((page - 1) * limit)) wallets)))"

section \<open>Local wallets\<close>

text \<open>
  \<open>LocalFileStorage\<close>: the encrypted wallet is in the row of the address; a file of the old format is
  moved there. The upsert is on address and type, so that a row of another type makes it fail.
\<close>

definition storage_setItem :: "'d wallet_env \<Rightarrow> string \<Rightarrow> string option \<Rightarrow> string \<Rightarrow> (('w, 'd) wallet_state, unit) io" where
  "storage_setItem W walletAddress label val =
     (let address = toLowerCase walletAddress in
      bnd (on_wallets (t_find (wv_wallets W) address)) (\<lambda>found.
      if (case found of None \<Rightarrow> False | Some r \<Rightarrow> wr_type r \<noteq> ''local'') then throw unique_violation
      else bnd (on_wallets (t_upsert (wv_wallets W) address
          ((no_wallet_row ''local'' label)\<lparr>wr_encryptedJson := Some val\<rparr>)
          (\<lambda>r. r\<lparr>wr_encryptedJson := Some val, wr_label := (case label of None \<Rightarrow> wr_label r | Some l \<Rightarrow> Some l)\<rparr>)))
        (\<lambda>_. ret ())))"

definition storage_getItem :: "'d wallet_env \<Rightarrow> string \<Rightarrow> (('w, 'd) wallet_state, string option) io" where
  "storage_getItem W walletAddress =
     (let address = toLowerCase walletAddress in
      bnd (on_wallets (t_find (wv_wallets W) address)) (\<lambda>walletDetails.
      let encryptedJson = (case walletDetails of None \<Rightarrow> None | Some r \<Rightarrow> wr_encryptedJson r) in
      if truthy encryptedJson then ret encryptedJson
      else (case wv_homeFile W address of
          None \<Rightarrow> ret None
        | Some json \<Rightarrow> bnd (storage_setItem W walletAddress None json) (\<lambda>_. ret (Some json)))))"

text \<open>\<open>wallet.save\<close> and \<open>wallet.load\<close> with the storage of an address.\<close>

definition save_wallet :: "'d wallet_env \<Rightarrow> evm_wallet \<Rightarrow> string \<Rightarrow> string option \<Rightarrow> (('w, 'd) wallet_state, unit) io" where
  "save_wallet W wallet walletAddress label =
     bnd (lift_res (wv_encryptWallet W wallet (wv_ENCRYPTION_PASSWORD W))) (\<lambda>json.
     storage_setItem W walletAddress label json)"

definition load_wallet :: "'d wallet_env \<Rightarrow> string \<Rightarrow> string \<Rightarrow> (('w, 'd) wallet_state, evm_wallet) io" where
  "load_wallet W walletAddress password =
     bnd (storage_getItem W walletAddress) (\<lambda>json. lift_res (wv_loadWallet W json password))"

definition getLocalWallet ::
  "'w sdk_sys \<Rightarrow> 'd wallet_env \<Rightarrow> int \<Rightarrow> string \<Rightarrow> (('w, 'd) wallet_state, evm_wallet) io" where
  "getLocalWallet V W chainId walletAddress =
     bnd (wallet_world (getChain (ys_env V) chainId)) (\<lambda>chainV5.
     bnd (lift_res (e_chainMetadata (ys_env V) chainV5)) (\<lambda>_.
     try_catch (load_wallet W walletAddress (wv_ENCRYPTION_PASSWORD W)) (\<lambda>_.
       bnd (load_wallet W walletAddress (wv_THIRDWEB_API_SECRET_KEY W)) (\<lambda>wallet.
       bnd (on_wallets (t_find (wv_wallets W) (toLowerCase walletAddress))) (\<lambda>walletDetails.
       case walletDetails of
         None \<Rightarrow> throw (js_Error (''Wallet details not found for wallet address '' @ walletAddress))
       | Some r \<Rightarrow> bnd (save_wallet W wallet walletAddress (wr_label r)) (\<lambda>_. ret wallet))))))"

definition getLocalWalletAccount :: "'d wallet_env \<Rightarrow> string \<Rightarrow> (('w, 'd) wallet_state, account) io" where
  "getLocalWalletAccount W walletAddress =
     bnd (storage_getItem W walletAddress) (\<lambda>json.
     if \<not> truthy json then throw (js_Error (''Wallet not found for address '' @ walletAddress))
     else lift_res (wv_loadAccount W (the json) (wv_ENCRYPTION_PASSWORD W)))"

definition createLocalWallet :: "'w sdk_sys \<Rightarrow> 'd wallet_env \<Rightarrow> string option \<Rightarrow> (('w, 'd) wallet_state, string) io" where
  "createLocalWallet V W label =
     bnd (wallet_world (getConfig (ys_env V) True)) (\<lambda>config.
     if cfg_walletConfiguration config \<noteq> WalletLocal
     then throw (js_Error ''Server was not configured for local wallet creation.'')
     else
       bnd (lift_res (wv_generateKey W)) (\<lambda>wallet.
       bnd (lift_res (wv_getAddress W wallet)) (\<lambda>walletAddress.
       bnd (save_wallet W wallet walletAddress label) (\<lambda>_. ret walletAddress))))"

definition importLocalWallet :: "'d wallet_env \<Rightarrow> local_import \<Rightarrow> string option \<Rightarrow> (('w, 'd) wallet_state, string) io" where
  "importLocalWallet W options label =
     bnd (lift_res (wv_importKey W options)) (\<lambda>wallet.
     bnd (lift_res (wv_getAddress W wallet)) (\<lambda>walletAddress.
     bnd (save_wallet W wallet walletAddress label) (\<lambda>_. ret walletAddress)))"

section \<open>Wallets of the key services\<close>

definition getAwsKmsWallet :: "'w sdk_sys \<Rightarrow> 'd wallet_env \<Rightarrow> string option \<Rightarrow> (('w, 'd) wallet_state, evm_wallet) io" where
  "getAwsKmsWallet V W awsKmsKeyId =
     bnd (wallet_world (getConfig (ys_env V) True)) (\<lambda>config.
     case cfg_walletConfiguration config of
       WalletAwsKms accessKeyId secretAccessKey region \<Rightarrow> ret (wv_newAwsWallet W region accessKeyId secretAccessKey awsKmsKeyId)
     | _ \<Rightarrow> throw (js_Error ''Server was not configured for AWS KMS wallets.''))"

definition getGcpKmsWallet ::
  "'w sdk_sys \<Rightarrow> 'd wallet_env \<Rightarrow> string option \<Rightarrow> string option \<Rightarrow> (('w, 'd) wallet_state, evm_wallet) io" where
  "getGcpKmsWallet V W gcpKmsKeyId gcpKmsKeyVersionId =
     bnd (wallet_world (getConfig (ys_env V) True)) (\<lambda>config.
     case cfg_walletConfiguration config of
       WalletGcpKms projectId locationId keyRingId email privateKey \<Rightarrow>
         ret (wv_newGcpWallet W (cfg_walletConfiguration config) gcpKmsKeyId gcpKmsKeyVersionId)
     | _ \<Rightarrow> throw (js_Error ''Server was not configured for GCP KMS.''))"

definition importAwsKmsWallet ::
  "'w sdk_sys \<Rightarrow> 'd wallet_env \<Rightarrow> string \<Rightarrow> string \<Rightarrow> string option \<Rightarrow> (('w, 'd) wallet_state, string) io" where
  "importAwsKmsWallet V W awsKmsKeyId awsKmsArn label =
     bnd (wallet_world (getConfig (ys_env V) True)) (\<lambda>config.
     case cfg_walletConfiguration config of
       WalletAwsKms accessKeyId secretAccessKey region \<Rightarrow>
         bnd (getAwsKmsWallet V W (Some awsKmsKeyId)) (\<lambda>wallet.
         bnd (lift_res (wv_getAddress W wallet)) (\<lambda>walletAddress.
         bnd (createWalletDetails W walletAddress
               ((no_wallet_row ''aws-kms'' label)\<lparr>wr_awsKmsArn := Some awsKmsArn, wr_awsKmsKeyId := Some awsKmsKeyId\<rparr>)) (\<lambda>_.
         ret walletAddress)))
     | _ \<Rightarrow> throw (js_Error ''Server was not configured for AWS KMS wallet creation''))"

definition createAwsKmsWallet :: "'w sdk_sys \<Rightarrow> 'd wallet_env \<Rightarrow> string option \<Rightarrow> (('w, 'd) wallet_state, string) io" where
  "createAwsKmsWallet V W label =
     bnd (wallet_world (getConfig (ys_env V) True)) (\<lambda>config.
     case cfg_walletConfiguration config of
       WalletAwsKms accessKeyId secretAccessKey region \<Rightarrow>
         bnd (lift_res (wv_awsCreateKey W region accessKeyId secretAccessKey)) (\<lambda>(awsKmsArn, awsKmsKeyId).
         importAwsKmsWallet V W awsKmsKeyId awsKmsArn label)
     | _ \<Rightarrow> throw (js_Error ''Server was not configured for AWS KMS wallet creation''))"

definition gcp_row :: "string option \<Rightarrow> string \<Rightarrow> string \<Rightarrow> string \<Rightarrow> string \<Rightarrow> string \<Rightarrow> wallet_row" where
  "gcp_row label keyId ring location version path =
     (no_wallet_row ''gcp-kms'' label)\<lparr>wr_gcpKmsKeyId := Some keyId, wr_gcpKmsKeyRingId := Some ring,
       wr_gcpKmsLocationId := Some location, wr_gcpKmsKeyVersionId := Some version, wr_gcpKmsResourcePath := Some path\<rparr>"

definition importGcpKmsWallet ::
  "'w sdk_sys \<Rightarrow> 'd wallet_env \<Rightarrow> string \<Rightarrow> string \<Rightarrow> string option \<Rightarrow> (('w, 'd) wallet_state, string) io" where
  "importGcpKmsWallet V W gcpKmsKeyId gcpKmsKeyVersionId label =
     bnd (wallet_world (getConfig (ys_env V) True)) (\<lambda>config.
     case cfg_walletConfiguration config of
       WalletGcpKms projectId locationId keyRingId email privateKey \<Rightarrow>
         let gcpKmsResourcePath = ''projects/'' @ projectId @ ''/locations/'' @ locationId @ ''/keyRings/'' @ keyRingId
               @ ''/cryptoKeys/'' @ gcpKmsKeyId @ ''/cryptoKeysVersion/'' @ gcpKmsKeyVersionId in
         bnd (getGcpKmsWallet V W (Some gcpKmsKeyId) (Some gcpKmsKeyVersionId)) (\<lambda>wallet.
         bnd (lift_res (wv_getAddress W wallet)) (\<lambda>walletAddress.
         bnd (createWalletDetails W walletAddress
               (gcp_row label gcpKmsKeyId keyRingId locationId gcpKmsKeyVersionId gcpKmsResourcePath)) (\<lambda>_.
         ret walletAddress)))
     | _ \<Rightarrow> throw (js_Error ''Server was not configured for GCP KMS wallet creation''))"

definition createGcpKmsWallet :: "'w sdk_sys \<Rightarrow> 'd wallet_env \<Rightarrow> string option \<Rightarrow> (('w, 'd) wallet_state, string) io" where
  "createGcpKmsWallet V W label =
     bnd (wallet_world (getConfig (ys_env V) True)) (\<lambda>config.
     case cfg_walletConfiguration config of
       WalletGcpKms projectId locationId keyRingId email privateKey \<Rightarrow>
         bnd (wallet_world new_Date) (\<lambda>now.
         let cryptoKeyId = ''ec-web3api-'' @ show_int now in
         bnd (lift_res (wv_gcpCreateKey W (cfg_walletConfiguration config) cryptoKeyId)) (\<lambda>name.
         bnd (getGcpKmsWallet V W (Some cryptoKeyId) (Some ''1'')) (\<lambda>wallet.
         bnd (lift_res (wv_getAddress W wallet)) (\<lambda>walletAddress.
         bnd (createWalletDetails W walletAddress
               (gcp_row label cryptoKeyId keyRingId locationId ''1'' (name @ ''/cryptoKeysVersion/1''))) (\<lambda>_.
         ret walletAddress)))))
     | _ \<Rightarrow> throw (js_Error ''Server was not configured for GCP KMS wallet creation''))"

section \<open>Wallets of requests\<close>

text \<open>
  The details and the wallets of the environment are those of the table at the time.
\<close>

definition details_of :: "string \<Rightarrow> wallet_row \<Rightarrow> wallet_details" where
  "details_of address r = \<lparr>wd_address = address, wd_type = wr_type r, wd_awsKmsKeyId = wr_awsKmsKeyId r,
     wd_gcpKmsKeyId = wr_gcpKmsKeyId r, wd_gcpKmsKeyVersionId = wr_gcpKmsKeyVersionId r\<rparr>"

definition wallet_sys :: "'w sdk_sys \<Rightarrow> 'd wallet_env \<Rightarrow> ('w, 'd) wallet_state \<Rightarrow> 'w sdk_sys" where
  "wallet_sys V W s = V\<lparr>ys_env := (ys_env V)\<lparr>
     e_walletDetails := (\<lambda>a. case fst (t_find (wv_wallets W) a (wl_rows s)) of
        Inl e \<Rightarrow> Inl e | Inr row \<Rightarrow> Inr (map_option (details_of a) row)),
     e_awsKmsWallet := (\<lambda>keyId. fst (getAwsKmsWallet V W keyId s)),
     e_gcpKmsWallet := (\<lambda>keyId version. fst (getGcpKmsWallet V W keyId version s)),
     e_localWallet := (\<lambda>chainId a. fst (getLocalWallet V W chainId a s)),
     e_localAccount := (\<lambda>a. fst (getLocalWalletAccount W a s))\<rparr>\<rparr>"

definition with_sdk ::
  "'w sdk_sys \<Rightarrow> 'd wallet_env \<Rightarrow> ('w sdk_sys \<Rightarrow> ('w sdk_state, 'a) io) \<Rightarrow> (('w, 'd) wallet_state, 'a) io" where
  "with_sdk V W m = (\<lambda>s. case m (wallet_sys V W s) (wl_sdk s) of (r, k) \<Rightarrow> (r, s\<lparr>wl_sdk := k\<rparr>))"

lemma with_sdk_apply [io_simps]:
  "with_sdk V W m s = (fst (m (wallet_sys V W s) (wl_sdk s)), s\<lparr>wl_sdk := snd (m (wallet_sys V W s) (wl_sdk s))\<rparr>)"
  by (cases "m (wallet_sys V W s) (wl_sdk s)") (simp add: with_sdk_def)

section \<open>Routes of the table\<close>

definition wallet_added :: "string \<Rightarrow> js_val" where
  "wallet_added walletAddress = JObj [(''result'', JObj [(''walletAddress'', JStr walletAddress), (''status'', JStr ''success'')])]"

definition createBackendWallet ::
  "'w sdk_sys \<Rightarrow> 'd wallet_env \<Rightarrow> request \<Rightarrow> (('w, 'd) wallet_state, js_val) io" where
  "createBackendWallet V W q =
     (let label = js_opt (jprop (hq_body q) ''label'') in
      bnd (wallet_world (getConfig (ys_env V) True)) (\<lambda>config.
      bnd (case cfg_walletConfiguration config of
             WalletLocal \<Rightarrow> createLocalWallet V W label
           | WalletAwsKms a b c \<Rightarrow> createAwsKmsWallet V W label
           | WalletGcpKms a b c d e \<Rightarrow> createGcpKmsWallet V W label) (\<lambda>walletAddress.
      ret (wallet_added walletAddress))))"

definition missing_parameters :: "string \<Rightarrow> js_error" where
  "missing_parameters message = createCustomError message 400 ''MISSING_PARAMETERS''"

definition importBackendWallet ::
  "'w sdk_sys \<Rightarrow> 'd wallet_env \<Rightarrow> request \<Rightarrow> (('w, 'd) wallet_state, js_val) io" where
  "importBackendWallet V W q =
     (let body = hq_body q; field = (\<lambda>k. js_text (jprop body k)); given = (\<lambda>k. js_truthy (jprop body k)) in
      bnd (wallet_world (getConfig (ys_env V) True)) (\<lambda>config.
      bnd (case cfg_walletConfiguration config of
             WalletLocal \<Rightarrow>
               if given ''privateKey'' then importLocalWallet W (ImportPrivateKey (field ''privateKey'')) None
               else if given ''mnemonic'' then importLocalWallet W (ImportMnemonic (field ''mnemonic'')) None
               else if given ''encryptedJson'' \<and> given ''password''
               then importLocalWallet W (ImportEncryptedJson (field ''encryptedJson'') (field ''password'')) None
               else throw (missing_parameters
                 ''Please provide either 'privateKey', 'mnemonic', or 'encryptedJson' & 'password' to import a wallet.'')
           | WalletAwsKms a b c \<Rightarrow>
               if \<not> (given ''awsKmsArn'' \<and> given ''awsKmsKeyId'')
               then throw (missing_parameters ''Please provide 'awsKmsArn' and 'awsKmsKeyId' to import a wallet.'')
               else importAwsKmsWallet V W (field ''awsKmsKeyId'') (field ''awsKmsArn'') None
           | WalletGcpKms a b c d e \<Rightarrow>
               if \<not> (given ''gcpKmsKeyId'' \<and> given ''gcpKmsKeyVersionId'')
               then throw (missing_parameters ''Please provide 'gcpKmsKeyId' and 'gcpKmsKeyVersionId' to import a wallet.'')
               else importGcpKmsWallet V W (field ''gcpKmsKeyId'') (field ''gcpKmsKeyVersionId'') None) (\<lambda>walletAddress.
      ret (wallet_added walletAddress))))"

definition removeBackendWallet :: "'d wallet_env \<Rightarrow> request \<Rightarrow> (('w, 'd) wallet_state, js_val) io" where
  "removeBackendWallet W q =
     bnd (deleteWalletDetails W (js_text (jprop (hq_params q) ''walletAddress''))) (\<lambda>_.
     ret (JObj [(''result'', JObj [(''status'', JStr ''success'')])]))"

definition updateBackendWallet :: "'d wallet_env \<Rightarrow> request \<Rightarrow> (('w, 'd) wallet_state, js_val) io" where
  "updateBackendWallet W q =
     (let walletAddress = jprop (hq_body q) ''walletAddress'' in
      bnd (updateWalletDetails W (js_text walletAddress) (js_opt (jprop (hq_body q) ''label''))) (\<lambda>_.
      ret (JObj [(''result'', JObj [(''walletAddress'', walletAddress), (''status'', JStr ''success'')])])))"

definition getAllBackendWallets :: "'d wallet_env \<Rightarrow> int \<Rightarrow> int \<Rightarrow> (('w, 'd) wallet_state, wallet_row list) io" where
  "getAllBackendWallets W page limit = getAllWallets W page limit"

section \<open>Balances and signatures\<close>

definition getBalance :: "'d wallet_env \<Rightarrow> 'w handler" where
  "getBalance W V q =
     (let walletAddress = jprop (hq_params q) ''walletAddress'' in
      bnd (chainIdFrom V (jprop (hq_params q) ''chain'')) (\<lambda>chainId.
      bnd (getSdk V chainId JUndefined JUndefined) (\<lambda>sdk.
      bnd (lift_res (wv_getBalance W sdk walletAddress)) (\<lambda>balanceData.
      lift_res (js_obj [js_field ''result'' (js_obj [js_field ''walletAddress'' (Inr walletAddress),
        js_spread (Inr balanceData), js_field ''value'' (js_toString (js_dot (Inr balanceData) ''value''))])])))))"

text \<open>The signer of the wallet that the header names.\<close>

definition header_signer :: "'w sdk_sys \<Rightarrow> request \<Rightarrow> ('w sdk_state, signer) io" where
  "header_signer V q =
     bnd (getWallet V 1 (js_text (jprop (hq_headers q) ''x-backend-wallet-address'')) None) (\<lambda>wallet.
     lift_res (e_getSigner (ys_env V) wallet))"

definition signed_reply :: "js_val \<Rightarrow> js_val" where
  "signed_reply v = JObj [(''result'', v)]"

definition signMessage :: "'d wallet_env \<Rightarrow> 'w handler" where
  "signMessage W V q =
     (let message = jprop (hq_body q) ''message''; isBytes = jprop (hq_body q) ''isBytes'' in
      bnd (header_signer V q) (\<lambda>signer.
      bnd (if js_truthy isBytes then bnd (lift_res (wv_arrayify W message)) (\<lambda>b. lift_res (wv_signMessage W signer b))
           else lift_res (wv_signMessage W signer message)) (\<lambda>signedMessage.
      ret (signed_reply signedMessage))))"

definition signTransaction :: "'d wallet_env \<Rightarrow> 'w handler" where
  "signTransaction W V q =
     bnd (header_signer V q) (\<lambda>signer.
     bnd (lift_res (wv_signTransaction W signer (jprop (hq_body q) ''transaction''))) (\<lambda>signedMessage.
     ret (signed_reply signedMessage)))"

definition signTypedData :: "'d wallet_env \<Rightarrow> 'w handler" where
  "signTypedData W V q =
     bnd (header_signer V q) (\<lambda>signer.
     bnd (lift_res (wv_signTypedData W signer (jprop (hq_body q) ''domain'') (jprop (hq_body q) ''types'')
           (jprop (hq_body q) ''value''))) (\<lambda>result.
     ret (signed_reply result)))"

section \<open>Transactions of a wallet\<close>

definition amount_of :: "'w sdk_sys \<Rightarrow> js_val \<Rightarrow> string \<Rightarrow> ('w sdk_state, int option) io" where
  "amount_of V overrides k = at_w (override_amount (ys_env V) (js_opt (jprop overrides k)))"

definition queue_reply :: "string \<Rightarrow> js_val" where
  "queue_reply queueId = JObj [(''result'', JObj [(''queueId'', JStr queueId)])]"

text \<open>The raw transaction of a body, without the fields of a user operation.\<close>

definition raw_transaction ::
  "'w sdk_sys \<Rightarrow> int \<Rightarrow> js_val \<Rightarrow> js_val \<Rightarrow> (inserted_transaction \<Rightarrow> ('w sdk_state, inserted_transaction) io)
   \<Rightarrow> ('w sdk_state, inserted_transaction) io" where
  "raw_transaction V chainId fromAddress body user_op =
     (let txOverrides = jprop body ''txOverrides'' in
      bnd (at_w (lift_res (e_BigInt (ys_env V) (js_text (jprop body ''value''))))) (\<lambda>amount.
      bnd (user_op ((no_inserted chainId (js_text fromAddress))\<lparr>tx_to := js_opt (jprop body ''toAddress''),
            tx_data := js_opt (jprop body ''data''), tx_value := Some amount\<rparr>)) (\<lambda>inserted.
      bnd (amount_of V txOverrides ''gas'') (\<lambda>gas.
      bnd (amount_of V txOverrides ''maxFeePerGas'') (\<lambda>maxFee.
      bnd (amount_of V txOverrides ''maxPriorityFeePerGas'') (\<lambda>maxPriority.
      ret (inserted\<lparr>tx_gas := gas, tx_maxFeePerGas := maxFee, tx_maxPriorityFeePerGas := maxPriority\<rparr>)))))))"

definition sendTransactionRoute :: "'w handler" where
  "sendTransactionRoute V q =
     (let headers = hq_headers q; fromAddress = jprop headers ''x-backend-wallet-address'';
          accountAddress = jprop headers ''x-account-address'';
          idempotencyKey = jprop headers ''x-idempotency-key'' in
      bnd (chainIdFrom V (jprop (hq_params q) ''chain'')) (\<lambda>chainId.
      bnd (raw_transaction V chainId fromAddress (hq_body q) (\<lambda>inserted.
        if js_truthy accountAddress
        then bnd (lift_res (maybeAddress V (jprop headers ''x-account-factory-address'') ''x-account-factory-address'')) (\<lambda>factory.
          ret (inserted\<lparr>tx_isUserOp := True, tx_accountAddress := js_opt accountAddress,
            tx_signerAddress := js_opt fromAddress, tx_target := tx_to inserted, tx_accountFactoryAddress := factory\<rparr>))
        else ret inserted)) (\<lambda>inserted.
      bnd (at_w (insertTransaction (ys_env V) inserted (js_opt idempotencyKey) (js_truthy (jprop (hq_query q) ''simulateTx'')))) (\<lambda>queueId.
      ret (queue_reply queueId)))))"

text \<open>
  The batch goes through the requests in order; every insertion draws a fresh queue id, the next of the
  supply.
\<close>

definition fresh_id :: "'w sdk_sys \<Rightarrow> string \<Rightarrow> 'w sdk_sys" where
  "fresh_id V uuid = V\<lparr>ys_env := (ys_env V)\<lparr>e_randomUUID := uuid\<rparr>\<rparr>"

fun send_batch ::
  "'w sdk_sys \<Rightarrow> (nat \<Rightarrow> string) \<Rightarrow> nat \<Rightarrow> int \<Rightarrow> js_val \<Rightarrow> js_val list \<Rightarrow> string list \<Rightarrow> ('w sdk_state, string list) io" where
  "send_batch V uuids i chainId fromAddress [] queueIds = ret queueIds"
| "send_batch V uuids i chainId fromAddress (r # rs) queueIds =
     bnd (raw_transaction V chainId fromAddress r ret) (\<lambda>inserted.
     bnd (at_w (insertTransaction (ys_env (fresh_id V (uuids i))) inserted None False)) (\<lambda>queueId.
     send_batch V uuids (Suc i) chainId fromAddress rs (queueIds @ [queueId])))"

fun list_elements :: "js_val \<Rightarrow> js_val list" where
  "list_elements (JList vs) = vs"
| "list_elements v = []"

definition sendTransactionBatch :: "'d wallet_env \<Rightarrow> 'w handler" where
  "sendTransactionBatch W V q =
     bnd (chainIdFrom V (jprop (hq_params q) ''chain'')) (\<lambda>chainId.
     bnd (send_batch V (wv_uuids W) 0 chainId (jprop (hq_headers q) ''x-backend-wallet-address'')
           (list_elements (hq_body q)) []) (\<lambda>queueIds.
     ret (JObj [(''result'', JObj [(''queueIds'', JList (map JStr queueIds))])])))"

definition transfer :: "'d wallet_env \<Rightarrow> 'w handler" where
  "transfer W V q =
     (let body = hq_body q; to = jprop body ''to''; amount = jprop body ''amount'';
          givenCurrency = (if jprop body ''currencyAddress'' = JUndefined then ZERO_ADDRESS else js_text (jprop body ''currencyAddress''));
          txOverrides = jprop body ''txOverrides'';
          walletAddress = js_text (jprop (hq_headers q) ''x-backend-wallet-address'');
          idempotencyKey = jprop (hq_headers q) ''x-idempotency-key'';
          shouldSimulate = js_truthy (jprop (hq_query q) ''simulateTx'');
          currencyAddress = (case normalizeAddress (Some givenCurrency) of None \<Rightarrow> [] | Some a \<Rightarrow> a) in
      bnd (chainIdFrom V (jprop (hq_params q) ''chain'')) (\<lambda>chainId.
      bnd (amount_of V txOverrides ''gas'') (\<lambda>gas.
      bnd (amount_of V txOverrides ''maxFeePerGas'') (\<lambda>maxFee.
      bnd (amount_of V txOverrides ''maxPriorityFeePerGas'') (\<lambda>maxPriority.
      let base = (no_inserted chainId walletAddress)\<lparr>tx_functionName := Some ''transfer'', tx_gas := gas,
            tx_maxFeePerGas := maxFee, tx_maxPriorityFeePerGas := maxPriority\<rparr> in
      bnd (if currencyAddress = ZERO_ADDRESS \<or> currencyAddress = wv_NATIVE_TOKEN_ADDRESS W
           then bnd (lift_res (wv_toWei W (js_text amount))) (\<lambda>wei.
             ret (base\<lparr>tx_to := js_opt to, tx_data := Some ''0x'', tx_value := Some wei, tx_extension := Some ''none''\<rparr>))
           else
             bnd (getContractV5 V chainId (JStr currencyAddress) JUndefined) (\<lambda>contract.
             bnd (at_w (getChain (ys_env V) chainId)) (\<lambda>chainInfo.
             bnd (lift_res (ro_isContractDeployed (ys_route V) chainInfo currencyAddress)) (\<lambda>isValid.
             if \<not> isValid then throw (createCustomError ''Invalid currency contract.'' 400 ''INVALID_CONTRACT'')
             else
               bnd (lift_res (v_encodeV5 (ys_sdk V) ''erc20.transfer'' contract (JObj [(''to'', to), (''amount'', amount)]))) (\<lambda>data.
               ret (base\<lparr>tx_to := Some currencyAddress, tx_data := Some data, tx_value := Some 0, tx_extension := Some ''erc20'',
                 tx_functionArgs := Some [js_text to, js_text amount, currencyAddress]\<rparr>)))))) (\<lambda>inserted.
      bnd (at_w (insertTransaction (ys_env V) inserted (js_opt idempotencyKey) shouldSimulate)) (\<lambda>queueId.
      ret (queue_reply queueId))))))))"

section \<open>Withdrawing\<close>

text \<open>
  What is left of the balance after the fee of the transfer. Zero counts as no gas price.
\<close>

definition withdraw_value :: "int \<Rightarrow> serializable_tx \<Rightarrow> js_error + int" where
  "withdraw_value balanceWei populated =
     (let gasPrice = nullish (stx_maxFeePerGas populated) (stx_gasPrice populated) in
      case gasPrice of
        None \<Rightarrow> Inl (js_Error ''Unable to estimate gas price for withdraw request.'')
      | Some p \<Rightarrow>
          if p = 0 then Inl (js_Error ''Unable to estimate gas price for withdraw request.'')
          else (case stx_gas populated of None \<Rightarrow> Inl js_TypeError | Some g \<Rightarrow> Inr (balanceWei - g * p)))"

definition getWithdrawValue ::
  "'w sdk_sys \<Rightarrow> 'd wallet_env \<Rightarrow> int \<Rightarrow> string \<Rightarrow> serializable_tx \<Rightarrow> ('w sdk_state, int) io" where
  "getWithdrawValue V W chainId adr populated =
     bnd (at_w (getChain (ys_env V) chainId)) (\<lambda>chainInfo.
     bnd (lift_res (wv_walletBalance W chainInfo adr)) (\<lambda>balanceWei.
     lift_res (withdraw_value balanceWei populated)))"

definition insufficient_funds :: "string option \<times> string \<Rightarrow> string \<Rightarrow> js_error" where
  "insufficient_funds metadata adr = createCustomError (''Insufficient '' @ show_opt (fst metadata) @ '' on '' @ snd metadata
     @ '' in '' @ adr @ ''. Try again when network gas fees are lower. See: https://portal.thirdweb.com/engine/troubleshooting'')
     400 ''INSUFFICIENT_FUNDS''"

text \<open>\<open>account.sendTransaction\<close> goes to the node directly.\<close>

definition withdraw :: "'d wallet_env \<Rightarrow> 'w handler" where
  "withdraw W V q =
     (let E = ys_env V; txOverrides = jprop (hq_body q) ''txOverrides'' in
      bnd (chainIdFrom V (jprop (hq_params q) ''chain'')) (\<lambda>chainId.
      bnd (at_w (getChain E chainId)) (\<lambda>chainInfo.
      bnd (lift_res (getChecksumAddress (e_checksumAddress E) (js_opt (jprop (hq_headers q) ''x-backend-wallet-address'')))) (\<lambda>adr'.
      let adr = (case adr' of None \<Rightarrow> [] | Some a \<Rightarrow> a) in
      bnd (amount_of V txOverrides ''gas'') (\<lambda>gas.
      bnd (amount_of V txOverrides ''maxFeePerGas'') (\<lambda>maxFee.
      bnd (amount_of V txOverrides ''maxPriorityFeePerGas'') (\<lambda>maxPriority.
      bnd (lift_res (e_toSerializable E chainInfo adr' \<lparr>rq_to = js_opt (jprop (hq_body q) ''toAddress''), rq_data = Some ''0x'',
            rq_value = Some 1, rq_gas = gas, rq_gasPrice = None, rq_maxFeePerGas = maxFee,
            rq_maxPriorityFeePerGas = maxPriority, rq_nonce = None\<rparr>)) (\<lambda>populated.
      bnd (getWithdrawValue V W chainId adr populated) (\<lambda>amount.
      bnd (at_w (getAccount E chainId adr None)) (\<lambda>acc.
      bnd (try_catch (at_w (send_rpc E acc (populated\<lparr>stx_value := Some amount\<rparr>))) (\<lambda>e.
             bnd (lift_res (e_chainMetadata E chainInfo)) (\<lambda>metadata. throw (insufficient_funds metadata adr)))) (\<lambda>transactionHash.
      ret (JObj [(''result'', JObj [(''transactionHash'', JStr transactionHash), (''amount'', JStr (wv_toTokens W amount))])]))))))))))))"

section \<open>Simulating\<close>

definition simulateTransaction :: "'w handler" where
  "simulateTransaction V q =
     (let body = hq_body q; toAddress = js_opt (jprop body ''toAddress'');
          walletAddress = jprop (hq_headers q) ''x-backend-wallet-address'';
          accountAddress = jprop (hq_headers q) ''x-account-address'' in
      bnd (chainIdFrom V (jprop (hq_params q) ''chain'')) (\<lambda>chainId.
      bnd (at_w new_Date) (\<lambda>now.
      bnd (if js_truthy (jprop body ''value'') then at_w (lift_res (e_BigInt (ys_env V) (js_text (jprop body ''value''))))
           else ret 0) (\<lambda>amount.
      let base = (no_inserted chainId (js_text walletAddress))\<lparr>tx_to := toAddress,
            tx_functionName := js_opt (jprop body ''functionName''), tx_data := js_opt (jprop body ''data''),
            tx_functionArgs := (case jprop body ''args'' of JList vs \<Rightarrow> Some (map js_text vs) | _ \<Rightarrow> None),
            tx_value := Some amount\<rparr>;
          inserted = (if js_truthy accountAddress
            then base\<lparr>tx_isUserOp := True, tx_accountAddress := js_opt accountAddress, tx_target := toAddress,
              tx_signerAddress := js_opt walletAddress\<rparr>
            else base) in
      bnd (at_w (doSimulateTransaction (ys_env V) (queued_of inserted (e_randomUUID (ys_env V)) now))) (\<lambda>simulateError.
      if truthy simulateError then throw (createCustomError (the simulateError) 400 ''FAILED_SIMULATION'')
      else ret (JObj [(''result'', JObj [(''success'', JBool True)])]))))))"

section \<open>Nonces and transactions of a wallet\<close>

definition getBackendWalletNonce :: "'w sdk_sys \<Rightarrow> request \<Rightarrow> ('w sdk_state, js_num) io" where
  "getBackendWalletNonce V q =
     bnd (chainIdFrom V (jprop (hq_params q) ''chain'')) (\<lambda>chainId.
     at_w (redis_do (inspectNonce (e_redis (ys_env V)) chainId (js_text (jprop (hq_params q) ''walletAddress'')))))"

definition token :: "string list \<Rightarrow> nat \<Rightarrow> string" where
  "token ts i = (case nth_opt ts i of None \<Rightarrow> ''undefined'' | Some t \<Rightarrow> t)"

definition reset_used_wallets :: "'w env \<Rightarrow> ('w world, (js_num \<times> string) list) io" where
  "reset_used_wallets E =
     bnd (redis_do (r_keys (e_redis E) ''nonce:*:*'')) (\<lambda>keys.
     lift_res (map_res (\<lambda>key. let tokens = js_split (CHR '':'') key in
       case e_getAddress E (token tokens 2) of Inl e \<Rightarrow> Inl e | Inr a \<Rightarrow> Inr (parseInt (token tokens 1), a)) keys))"

text \<open>The failure of one wallet does not stop the others.\<close>

fun resync_all :: "'w env \<Rightarrow> (js_num \<times> string) list \<Rightarrow> ('w world, unit) io" where
  "resync_all E [] = ret ()"
| "resync_all E ((c, a) # ws) =
     bnd (try_catch (case c of None \<Rightarrow> throw js_TypeError
            | Some chainId \<Rightarrow> redis_do (syncLatestNonceFromOnchain (e_redis E) (e_transactionCount E) chainId a))
          (\<lambda>_. ret ())) (\<lambda>_. resync_all E ws)"

definition resetBackendWalletNonces :: "'w env \<Rightarrow> ('w world, string) io" where
  "resetBackendWalletNonces E =
     bnd (reset_used_wallets E) (\<lambda>backendWallets.
     bnd (redis_do (deleteAllNonces (e_redis E))) (\<lambda>_.
     bnd (resync_all E backendWallets) (\<lambda>_. ret ''success'')))"

definition getTransactionsForBackendWallet ::
  "'w sdk_sys \<Rightarrow> (string list \<Rightarrow> string) \<Rightarrow> string \<Rightarrow> string \<Rightarrow> tx_status \<Rightarrow> int \<Rightarrow> int \<Rightarrow> ('w sdk_state, tx_schema list) io" where
  "getTransactionsForBackendWallet V showArgs chain walletAddress status page limit =
     bnd (chainIdFrom V (JStr chain)) (\<lambda>chainId.
     bnd (lift_res (e_getAddress (ys_env V) walletAddress)) (\<lambda>adr.
     bnd (at_w (redis_do (getTransactionListByStatus (e_redis (ys_env V)) (e_codec (ys_env V)) (e_batchSize (ys_env V))
            status page limit))) (\<lambda>(transactions, totalCount).
     lift_res (map_res (toTransactionSchema showArgs)
       (filter (\<lambda>t. tx_chainId t = chainId \<and> tx_from t = adr) transactions)))))"

definition getTransactionsForBackendWalletByNonce ::
  "'w sdk_sys \<Rightarrow> (string list \<Rightarrow> string) \<Rightarrow> string \<Rightarrow> string \<Rightarrow> int \<Rightarrow> int option
   \<Rightarrow> ('w sdk_state, (js_num \<times> (tx_schema + string)) list) io" where
  "getTransactionsForBackendWalletByNonce V showArgs chain walletAddress fromNonce toNonce =
     (let R = e_redis (ys_env V) in
      bnd (chainIdFrom V (JStr chain)) (\<lambda>chainId.
      let adr = (case normalizeAddress (Some walletAddress) of None \<Rightarrow> [] | Some a \<Rightarrow> a) in
      bnd (at_w (redis_do (getNonceMap R chainId adr fromNonce toNonce))) (\<lambda>nonceMap.
      bnd (at_w (redis_do (TransactionDB_bulkGet R (e_codec (ys_env V)) (e_batchSize (ys_env V)) (map snd nonceMap)))) (\<lambda>transactions.
      let transactionsMap = map_of (rev (map (\<lambda>t. (tx_queueId t, t)) transactions)) in
      lift_res (map_res (\<lambda>(nonce, queueId). case transactionsMap queueId of
          None \<Rightarrow> Inr (nonce, Inr queueId)
        | Some t \<Rightarrow> (case toTransactionSchema showArgs t of Inl e \<Rightarrow> Inl e | Inr r \<Rightarrow> Inr (nonce, Inl r))) nonceMap)))))"

section \<open>Lists\<close>

definition wallet_writes :: "'d wallet_env \<Rightarrow> (route \<times> 'w handler) list" where
  "wallet_writes W = [(sendTransaction_route, sendTransactionRoute), (transfer_route, transfer W)]"

definition wallet_signs :: "'d wallet_env \<Rightarrow> (route \<times> 'w handler) list" where
  "wallet_signs W = [(getBalance_route, getBalance W), (signMessage_route, signMessage W),
     (signTransaction_route, signTransaction W), (signTypedData_route, signTypedData W),
     (simulateTransaction_route, simulateTransaction), (withdraw_route, withdraw W)]"

end
