(* ===== verification/Sdk_Properties.thy ===== *)
theory Sdk_Properties
  imports Handler_Logic Route_Table Wallet_Routes
begin

text \<open>
  What holds of the contract routes: handlers depend on the declared part of a request alone, readers
  leave the outside alone, and a request whose idempotency key is known queues nothing.
\<close>

section \<open>Declared fields\<close>

lemmas declared_simps = reads_declared_def agree_def same_fields_def field_names_def route_defs handler_defs
  schema_defs jprop_entries js_has_def schema_partial_def schema_omit_def js_dot_rest

text \<open>
  The route that mints with a signature reads a header no schema declares, and the auctions declare no
  headers at all.
\<close>

definition undeclared :: "route \<times> 'w handler \<Rightarrow> bool" where
  "undeclared rh \<longleftrightarrow> rt_operationId (fst rh) = ''erc721-signatureMint''"

lemma account_declared: "list_all reads_declared account_reads" "list_all reads_declared account_writes"
  by (simp_all add: account_reads_def account_writes_def declared_simps undeclared_def Let_def cong: if_cong)

lemma erc20_declared: "list_all reads_declared erc20_reads" "list_all reads_declared erc20_signs" "list_all reads_declared erc20_writes"
  by (simp_all add: erc20_reads_def erc20_signs_def erc20_writes_def declared_simps undeclared_def Let_def cong: if_cong)

lemma erc721_declared: "list_all reads_declared erc721_reads" "list_all reads_declared erc721_signs" "list_all (\<lambda>rh. undeclared rh \<or> reads_declared rh) erc721_writes"
  by (simp_all add: erc721_reads_def erc721_signs_def erc721_writes_def declared_simps undeclared_def Let_def cong: if_cong)

lemma erc1155_declared: "list_all reads_declared erc1155_reads" "list_all reads_declared erc1155_signs" "list_all reads_declared erc1155_writes"
  by (simp_all add: erc1155_reads_def erc1155_signs_def erc1155_writes_def declared_simps undeclared_def Let_def cong: if_cong)

lemma marketplace_declared: "list_all reads_declared marketplace_reads" "list_all reads_declared marketplace_writes"
  by (simp_all add: marketplace_reads_def marketplace_writes_def declared_simps undeclared_def Let_def cong: if_cong)

lemma contract_api_declared: "list_all reads_declared contract_api_reads" "list_all reads_declared contract_api_writes"
  by (simp_all add: contract_api_reads_def contract_api_writes_def declared_simps undeclared_def Let_def cong: if_cong)

lemma deploy_declared: "list_all reads_declared deploy_reads" "list_all reads_declared deploy_writes"
  by (simp_all add: deploy_reads_def deploy_writes_def declared_simps undeclared_def Let_def cong: if_cong)

lemma wallet_declared: "list_all reads_declared (wallet_writes W)" "list_all reads_declared (wallet_signs W)"
  by (simp_all add: wallet_writes_def wallet_signs_def declared_simps Let_def getBalance_def signMessage_def signTransaction_def
     signTypedData_def simulateTransaction_def withdraw_def sendTransactionRoute_def transfer_def raw_transaction_def header_signer_def
     cong: if_cong)

section \<open>Readers\<close>

lemma account_quiet: "list_all (\<lambda>rh. \<forall>V q. sk_quiet (snd rh V q)) account_reads"
  unfolding account_reads_def list.pred_inject snd_conv handler_defs
  by (intro conjI allI sk_quiet_intros list.pred_inject(1))

lemma erc20_quiet: "list_all (\<lambda>rh. \<forall>V q. sk_quiet (snd rh V q)) erc20_reads"
  unfolding erc20_reads_def list.pred_inject snd_conv handler_defs
  by (intro conjI allI sk_quiet_intros list.pred_inject(1))

lemma erc721_quiet: "list_all (\<lambda>rh. \<forall>V q. sk_quiet (snd rh V q)) erc721_reads"
  unfolding erc721_reads_def list.pred_inject snd_conv handler_defs
  by (intro conjI allI sk_quiet_intros list.pred_inject(1))

lemma erc1155_quiet: "list_all (\<lambda>rh. \<forall>V q. sk_quiet (snd rh V q)) erc1155_reads"
  unfolding erc1155_reads_def list.pred_inject snd_conv handler_defs
  by (intro conjI allI sk_quiet_intros list.pred_inject(1))

lemma marketplace_quiet: "list_all (\<lambda>rh. \<forall>V q. sk_quiet (snd rh V q)) marketplace_reads"
  unfolding marketplace_reads_def list.pred_inject snd_conv handler_defs
  by (intro conjI allI sk_quiet_intros list.pred_inject(1))

lemma contract_api_quiet: "list_all (\<lambda>rh. \<forall>V q. sk_quiet (snd rh V q)) contract_api_reads"
  unfolding contract_api_reads_def list.pred_inject snd_conv handler_defs
  by (intro conjI allI sk_quiet_intros list.pred_inject(1))

lemma deploy_quiet: "list_all (\<lambda>rh. \<forall>V q. sk_quiet (snd rh V q)) deploy_reads"
  unfolding deploy_reads_def list.pred_inject snd_conv handler_defs
  by (intro conjI allI sk_quiet_intros list.pred_inject(1))

section \<open>Repeated writes\<close>

definition replays_header :: "('w \<Rightarrow> keyspace) \<Rightarrow> 'w env \<Rightarrow> route \<times> 'w handler \<Rightarrow> bool" where
  "replays_header view E rh \<longleftrightarrow> (\<forall>V q k. ys_env V = E \<longrightarrow> k \<noteq> [] \<longrightarrow>
     jprop (hq_headers q) ''x-idempotency-key'' = JStr k \<longrightarrow>
     replays view k (snd rh V q) (\<lambda>v. jprop v ''queueId'' = JStr k \<or> jprop (jprop v ''result'') ''queueId'' = JStr k))"

context engine
begin

lemmas replay_rules =
  replays_key [OF replays_queue(1)] replays_key [OF replays_queue(2)] replays_key [OF replays_insert] replays_let
  replay_intros replays_getContract replays_getSdk replays_redis replays_queue replays_insert

lemma account_replays: "list_all (replays_header view E) account_writes"
  unfolding account_writes_def list.pred_inject replays_header_def snd_conv handler_defs Let_def
  by (intro conjI allI impI list.pred_inject(1); simp only:; (intro replay_rules; simp)?)

lemma erc20_replays: "list_all (replays_header view E) erc20_writes"
  unfolding erc20_writes_def list.pred_inject replays_header_def snd_conv handler_defs Let_def
  by (intro conjI allI impI list.pred_inject(1); simp only:; (intro replay_rules; simp)?)

lemma mint_v5_replays:
  fixes V :: "'w sdk_sys"
  assumes "ys_env V = E" "k \<noteq> []" "jprop (hq_headers q) ''x-idempotency-key'' = JStr k"
  shows "replays view k (erc721SignatureMint_v5 V q c payload) (\<lambda>a. a = k)"
  unfolding erc721SignatureMint_v5_def Let_def assms(1,3) js_opt.simps
  by (intro replays_bnd replay_intros replays_insert assms(2))

lemma mint_replays: "replays_header view E (erc721SignatureMint_route, erc721SignatureMint)"
  unfolding replays_header_def snd_conv erc721SignatureMint_def Let_def
  by (intro allI impI; simp only:)
    (intro replays_bnd [of _ _ "chainIdFrom V c" for V c] replays_reads replays_key replays_if mint_v5_replays
      replays_bnd [of _ _ "getContract V c ad a acc abi" for V c ad a acc abi] replays_getContract
      replays_bnd [of _ _ "lift_res r" for r] replays_bnd [of _ _ "prepare V ct f x" for V ct f x]
      replays_basic(3) replays_queue replays_basic(1); simp)

lemma erc721_replays: "list_all (replays_header view E) erc721_writes"
  unfolding erc721_writes_def list.pred_inject
  by (intro conjI list.pred_inject(1) mint_replays;
      unfold replays_header_def snd_conv handler_defs Let_def; intro allI impI; simp only:; (intro replay_rules; simp)?)

lemma erc1155_replays: "list_all (replays_header view E) erc1155_writes"
  unfolding erc1155_writes_def list.pred_inject replays_header_def snd_conv handler_defs Let_def
  by (intro conjI allI impI list.pred_inject(1); simp only:; (intro replay_rules; simp)?)

lemma marketplace_replays: "list_all (replays_header view E) marketplace_writes"
  unfolding marketplace_writes_def list.pred_inject replays_header_def snd_conv handler_defs Let_def
  by (intro conjI allI impI list.pred_inject(1); simp only:; (intro replay_rules; simp)?)

lemma contract_api_replays: "list_all (replays_header view E) contract_api_writes"
  unfolding contract_api_writes_def list.pred_inject replays_header_def snd_conv handler_defs Let_def
  by (intro conjI allI impI list.pred_inject(1); simp only:; (intro replay_rules; simp)?)

lemma deploy_replays: "list_all (replays_header view E) deploy_writes"
  unfolding deploy_writes_def list.pred_inject replays_header_def snd_conv handler_defs Let_def
  by (intro conjI allI impI list.pred_inject(1); simp only:; (intro replay_rules; simp)?)

lemma replays_amount: "replays view k (amount_of V ov f) (\<lambda>_. True)"
  unfolding amount_of_def by (intro replay_intros)

lemma replays_raw:
  assumes "\<And>x. replays view k (f x) (\<lambda>_. True)"
  shows "replays view k (raw_transaction V c a b f) (\<lambda>_. True)"
  unfolding raw_transaction_def Let_def
  by (intro replays_bnd replays_lift replays_amount assms replays_basic(1) TrueI)

lemma wallet_replays: "list_all (replays_header view E) (wallet_writes W)"
  unfolding wallet_writes_def list.pred_inject replays_header_def snd_conv sendTransactionRoute_def transfer_def Let_def
  by (intro conjI allI impI list.pred_inject(1); simp only: js_opt.simps;
      (intro replays_key [OF replays_insert] replays_raw replays_amount replay_intros replays_lift replays_quiet
        sk_quiet_intros quiet_getChain; simp add: queue_reply_def)?)

end

section \<open>The auctions\<close>

lemma jprop_set: "k \<noteq> x \<Longrightarrow> jprop (js_set v x y) k = jprop v k"
  by (simp add: js_set_def map_of_put_field jprop_entries)

lemma auctions_deaf:
  "list_all (\<lambda>rh. rt_headers (fst rh) = None \<and> (\<forall>V q key.
     snd rh V (q\<lparr>hq_headers := js_set (hq_headers q) ''x-idempotency-key'' key\<rparr>) = snd rh V q)) marketplace_auctions"
  by (simp add: marketplace_auctions_def route_defs handler_defs jprop_set)

section \<open>A sample system\<close>

definition sample_tx :: sdk_tx where
  "sample_tx = \<lparr>sx_method = ''transfer'', sx_encoded = Inr ''0x'', sx_value = ''0'', sx_args = [], sx_isUserOp = False,
     sx_originalSigner = Inr ''0xa'', sx_signerAddress = Inr ''0xa'', sx_target = ''0xb''\<rparr>"

definition sample_sdk :: sdk_env where
  "sample_sdk = \<lparr>v_newSdk = show_int, v_sdkFromWallet = (\<lambda>w c. Inr (show_int c @ w)), v_getContract = (\<lambda>s a. Inr (s @ a)),
     v_getContractFromAbi = (\<lambda>s a abi. Inr (s @ a)), v_contractV5 = (\<lambda>c a abi. a), v_abi = (\<lambda>_. JList []),
     v_extensionNames = Inr, v_call = (\<lambda>_ _ _. Inr (JNum (Some 0))), v_prepare = (\<lambda>_ _ _. Inr sample_tx),
     v_prepareDeploy = (\<lambda>_ _ _. Inr sample_tx), v_simulateDeploy = (\<lambda>_. Inr (JStr ''0xc'')),
     v_callV5 = (\<lambda>_ _ _. Inr JNull), v_encodeV5 = (\<lambda>_ _ _. Inr ''0x''), v_smartWallet = (\<lambda>_ _ w _. Inr w),
     v_isAddress = (\<lambda>_. True), v_parseDate = (\<lambda>_. None), v_bigNumber = (\<lambda>_. Inr 0),
     v_resolveMethod = (\<lambda>_ _. Inr JNull), v_generateMint = (\<lambda>_ _ _. Inr JNull), v_upload = Inr,
     v_randomHex = ''00'', v_MintRequest721 = JNull, v_prebuiltTypes = []\<rparr>"

definition sample_sys :: "mem sdk_sys" where
  "sample_sys = \<lparr>ys_env = mem_env, ys_route = \<lparr>ro_chainBySlug = (\<lambda>_. Inl js_TypeError),
     ro_isContractDeployed = (\<lambda>_ _. Inr True), ro_urlProtocol = (\<lambda>_. None)\<rparr>, ys_sdk = sample_sdk\<rparr>"

definition sample_state :: "mem \<Rightarrow> mem sdk_state" where
  "sample_state m = \<lparr>sk_world = mem_world m, sk_sdks = (\<lambda>_. None), sk_wallets = (\<lambda>_. None)\<rparr>"

definition sample_transfer :: "js_val \<Rightarrow> request" where
  "sample_transfer x = \<lparr>hq_params = JObj [(''chain'', JStr ''1''), (''contractAddress'', JStr ''0xc'')], hq_query = JObj [],
     hq_body = JObj [(''toAddress'', JStr ''0xd''), (''amount'', JStr ''1''), (''note'', x)],
     hq_headers = JObj [(''x-backend-wallet-address'', JStr ''0xa''), (''x-idempotency-key'', JStr ''k'')]\<rparr>"

definition sample_wallet_env :: "(string, wallet_row) mem_rows wallet_env" where
  "sample_wallet_env = \<lparr>wv_wallets = mem_table, wv_ENCRYPTION_PASSWORD = ''p'', wv_THIRDWEB_API_SECRET_KEY = ''k'',
     wv_getAddress = Inr, wv_newAwsWallet = (\<lambda>r a s keyId. case keyId of None \<Rightarrow> r | Some k \<Rightarrow> k), wv_newGcpWallet = (\<lambda>c k v. ''0xe''),
     wv_awsCreateKey = (\<lambda>r a s. Inr (''arn'', ''0xAb'')), wv_gcpCreateKey = (\<lambda>c k. Inr k), wv_generateKey = Inr ''0xE0'',
     wv_importKey = (\<lambda>_. Inr ''0xE1''), wv_encryptWallet = (\<lambda>w p. Inr (w @ p)), wv_loadWallet = (\<lambda>j p. Inr (the j)),
     wv_loadAccount = (\<lambda>j p. Inr j), wv_homeFile = (\<lambda>_. None), wv_getBalance = (\<lambda>_ _. Inr (JObj [(''value'', JBig 0)])),
     wv_arrayify = Inr, wv_signMessage = (\<lambda>g m. Inr (JStr g)), wv_signTransaction = (\<lambda>g t. Inr (JStr g)),
     wv_signTypedData = (\<lambda>g d t v. Inr (JStr g)), wv_NATIVE_TOKEN_ADDRESS = ''0xee'', wv_toWei = (\<lambda>_. Inr 1),
     wv_toTokens = show_int, wv_walletBalance = (\<lambda>_ _. Inr 1000000), wv_uuids = show_nat\<rparr>"

lemma checksum_plain: "getChecksumAddress Inr v = Inr (if truthy v then v else None)"
  by (cases v) (simp_all add: getChecksumAddress_def)

section \<open>Properties\<close>



text \<open>
  C28: a handler that reads a contract changes neither the store nor the queues, whatever the SDK answers.
\<close>

theorem readers_change_nothing:
  assumes "rh \<in> set contract_reads" and "snd rh V q s = (r, s')"
  shows "store (sk_world s') = store (sk_world s) \<and> effects (sk_world s') = effects (sk_world s)"
proof -
  have "sk_quiet (snd rh V q)"
    using assms(1) account_quiet erc20_quiet erc721_quiet erc1155_quiet marketplace_quiet contract_api_quiet deploy_quiet
    by (auto simp: contract_reads_def list_all_iff)
  from sk_quietD [OF this, of s] assms(2) show ?thesis by simp
qed

theorem readers_change_nothing_witness:
  "effects (sk_world (snd (erc20BalanceOf sample_sys (sample_transfer JNull) (sample_state [])))) = []"
  using readers_change_nothing [of "(erc20BalanceOf_route, erc20BalanceOf)" sample_sys "sample_transfer JNull"
      "sample_state []" "fst (erc20BalanceOf sample_sys (sample_transfer JNull) (sample_state []))"
      "snd (erc20BalanceOf sample_sys (sample_transfer JNull) (sample_state []))"]
  by (simp add: contract_reads_def erc20_reads_def sample_state_def mem_world_def)



text \<open>
  C30: the seven routes of the english auctions declare no headers and do not read the idempotency key: a
  request with any key, or with none, is handled alike.
\<close>

theorem auctions_ignore_key:
  assumes "rh \<in> set contract_auctions"
  shows "rt_headers (fst rh) = None \<and>
    snd rh V (q\<lparr>hq_headers := js_set (hq_headers q) ''x-idempotency-key'' key\<rparr>) = snd rh V q"
proof -
  have "rh \<in> set marketplace_auctions" using assms by (simp only: contract_auctions_def)
  then show ?thesis using auctions_deaf unfolding list_all_iff by blast
qed

theorem auctions_ignore_key_witness:
  "englishAuctionsMakeBid sample_sys ((sample_transfer JNull)\<lparr>hq_headers := js_set (JObj []) ''x-idempotency-key'' (JStr ''k'')\<rparr>)
   = englishAuctionsMakeBid sample_sys ((sample_transfer JNull)\<lparr>hq_headers := JObj []\<rparr>)"
  using auctions_ignore_key [of "(englishAuctionsMakeBid_route, englishAuctionsMakeBid)" sample_sys
      "(sample_transfer JNull)\<lparr>hq_headers := JObj []\<rparr>" "JStr ''k''"]
  by (simp add: contract_auctions_def marketplace_auctions_def)

end
