(* ===== verification/Relayer_Properties.thy ===== *)
theory Relayer_Properties
  imports Relayer_Routes Sdk_Properties
begin

text \<open>
  What holds of the relayers: a meta-transaction is queued only under the policy of its relayer, the lists
  of a created relayer restrict it, an update without lists lifts the restrictions, and the test on
  the text of the forwarders is exact for addresses.
\<close>

section \<open>Refused requests\<close>

lemma sk_quiet_option: "sk_quiet a \<Longrightarrow> (\<And>x. sk_quiet (f x)) \<Longrightarrow> sk_quiet (case v of None \<Rightarrow> a | Some x \<Rightarrow> f x)"
  by (cases v) auto

lemma sk_quiet_getWallet: "sk_quiet (getWallet V c a None)"
  unfolding getWallet_def getWalletDetails_def
  by (intro sk_quiet_intros sk_quiet_option quiet_basic; simp)

lemma sk_quiet_getSdk: "sk_quiet (getSdk V c w JUndefined)"
  unfolding getSdk_def chain_metadata_def js_opt.simps
  by (intro sk_quiet_intros sk_quiet_getWallet quiet_getChain)

lemma sk_quiet_lift_bnd: "(\<And>a. r = Inr a \<Longrightarrow> sk_quiet (f a)) \<Longrightarrow> sk_quiet (bnd (lift_res r) f)"
  unfolding sk_quiet_def by (cases r) (auto simp: bnd_apply)

lemma meta_refused: "contract_refused relayer (js_text (jprop req ''to'')) \<Longrightarrow> sk_quiet (relay_meta V R relayer sdk req sg)"
  unfolding relay_meta_def Let_def by (rule sk_quiet_lift_bnd) (auto intro: sk_quiet_intros)

lemma permit_refused: "contract_refused relayer (js_text (jprop req ''to'')) \<Longrightarrow> sk_quiet (relay_permit V R relayer sdk req sg)"
  unfolding relay_permit_def Let_def by (rule sk_quiet_lift_bnd) (auto intro: sk_quiet_intros)

text \<open>
  What has to hold of a forwarded request: the forwarder is trusted by the target and verifies the
  signature.
\<close>

definition forward_verified ::
  "'w sdk_sys \<Rightarrow> 'd relay_env \<Rightarrow> js_val \<Rightarrow> js_val \<Rightarrow> js_val \<Rightarrow> bool" where
  "forward_verified V R req signature forwarder \<longleftrightarrow> (\<exists>target t f abi sdk parts fixedSignature v.
     v_getContractFromAbi (ys_sdk V) sdk (toLowerCase (js_text (jprop req ''to''))) ERC2771ContextAbi = Inr target
     \<and> v_call (ys_sdk V) target [''isTrustedForwarder''] [forwarder] = Inr t \<and> js_truthy t
     \<and> v_getContractFromAbi (ys_sdk V) sdk (js_text forwarder) abi = Inr f
     \<and> rl_splitSignature R (js_text signature) = Inr parts \<and> rl_joinSignature R parts = Inr fixedSignature
     \<and> v_call (ys_sdk V) f [''verify''] [req, JStr fixedSignature] = Inr v \<and> js_truthy v)"

definition forward_allowed :: "relayer \<Rightarrow> js_val \<Rightarrow> js_val \<Rightarrow> bool" where
  "forward_allowed relayer req forwarder \<longleftrightarrow> \<not> forwarder_refused relayer (js_text forwarder)
     \<and> jprop req ''value'' = JStr ''0''"

lemma forward_refused:
  assumes "contract_refused relayer (js_text (jprop req ''to'')) \<or> \<not> forward_allowed relayer req fw
    \<or> \<not> forward_verified V R req sg fw"
  shows "sk_quiet (relay_forward V R relayer sdk req sg fw)"
  unfolding relay_forward_def Let_def sdk_call_def
  apply (intro sk_quiet_if sk_quiet_lift_bnd sk_quiet_basic)
  using assms unfolding forward_allowed_def forward_verified_def by blast

text \<open>What a relay that queues something satisfies.\<close>

definition relay_policy :: "'w sdk_sys \<Rightarrow> 'd relay_env \<Rightarrow> relayer \<Rightarrow> js_val \<Rightarrow> bool" where
  "relay_policy V R relayer body \<longleftrightarrow>
     \<not> contract_refused relayer (js_text (jprop (jprop body ''request'') ''to''))
     \<and> (jprop body ''type'' \<notin> {JStr ''execute-meta-transaction'', JStr ''permit''} \<longrightarrow>
          forward_allowed relayer (jprop body ''request'') (jprop body ''forwarderAddress'')
          \<and> forward_verified V R (jprop body ''request'') (jprop body ''signature'') (jprop body ''forwarderAddress''))"

definition outside_changed :: "('w, 'd) relay_state \<Rightarrow> ('w, 'd) relay_state \<Rightarrow> bool" where
  "outside_changed s s' \<longleftrightarrow> store (sk_world (rl_sdk s')) \<noteq> store (sk_world (rl_sdk s))
     \<or> effects (sk_world (rl_sdk s')) \<noteq> effects (sk_world (rl_sdk s))"

definition relayer_of :: "('d \<Rightarrow> string \<Rightarrow> relayer_row option) \<Rightarrow> 'd \<Rightarrow> string \<Rightarrow> relayer option" where
  "relayer_of rows d i = (case rows d i of None \<Rightarrow> None | Some r \<Rightarrow> (case parse_relayer r of Inl e \<Rightarrow> None | Inr y \<Rightarrow> Some y))"

lemma getRelayerById_apply:
  assumes "prisma_table (rl_relayers R) rows"
  shows "fst (getRelayerById R i s) = (case rows (rl_rows s) i of None \<Rightarrow> Inr None | Some r \<Rightarrow> map_sum id Some (parse_relayer r))"
    "rl_sdk (snd (getRelayerById R i s)) = rl_sdk s" "rows (rl_rows (snd (getRelayerById R i s))) = rows (rl_rows s)"
  by (auto simp: getRelayerById_def bnd_apply on_relayers_apply prisma_table.law_find [OF assms]
      split: option.split sum.split)

lemma policy_missing: "\<not> relay_policy V R relayer body \<Longrightarrow> sk_quiet (relay_as V R relayer body)"
  unfolding relay_as_def Let_def
  by (intro sk_quiet_bnd sk_quiet_getSdk sk_quiet_if meta_refused permit_refused forward_refused)
    (auto simp: relay_policy_def)

lemma relayTransaction_state:
  assumes "prisma_table (rl_relayers R) rows" and "relayTransaction V R q s = (r, s')"
  shows "rl_sdk s' = (case relayer_of rows (rl_rows s) (js_text (jprop (hq_params q) ''relayerId'')) of
    None \<Rightarrow> rl_sdk s | Some relayer \<Rightarrow> snd (relay_as V R relayer (hq_body q) (rl_sdk s)))"
proof -
  have "s' = snd (relayTransaction V R q s)" using assms(2) by simp
  then show ?thesis
    using getRelayerById_apply [OF assms(1), of "js_text (jprop (hq_params q) ''relayerId'')" s]
    by (simp add: relayTransaction_def Let_def bnd_apply on_sdk_apply relayer_of_def split: option.split sum.split)
qed

section \<open>Rows\<close>

lemma allow_list_strings:
  "allow_list (JList (map JStr cs)) = Some (json_strings (map toLowerCase cs))"
  by (simp add: allow_list_def o_def)

lemma json_strings_some [simp]: "json_strings xs \<noteq> []"
  by (simp add: json_strings_def)

lemma created_row:
  assumes "prisma_table (rl_relayers R) rows" and "createRelayer V R uuid q s = (Inr v, s')"
  shows "\<exists>n. rows (rl_rows s') uuid = Some \<lparr>rr_id = uuid, rr_name = js_opt (jprop (hq_body q) ''name''),
    rr_chainId = show_int n, rr_backendWalletAddress = js_text (jprop (hq_body q) ''backendWalletAddress''),
    rr_allowedContracts = allow_list (jprop (hq_body q) ''allowedContracts''),
    rr_allowedForwarders = allow_list (jprop (hq_body q) ''allowedForwarders'')\<rparr>"
  using assms(2) unfolding createRelayer_def Let_def
  by (auto simp: bnd_apply on_sdk_apply on_relayers_apply prisma_table.law_create [OF assms(1)]
      split: sum.splits if_splits)

lemma updated_row:
  assumes "prisma_table (rl_relayers R) rows" and "updateRelayer V R q s = (Inr v, s')"
    and "jprop (hq_body q) ''id'' = JStr i"
  shows "\<exists>c row. rows (rl_rows s') i = Some (update_relayer c (hq_body q) row)"
  using assms(2,3) unfolding updateRelayer_def Let_def
  by (auto simp: bnd_apply on_sdk_apply on_relayers_apply prisma_table.law_update [OF assms(1)]
      split: sum.splits if_splits option.splits) blast+

section \<open>The test of the forwarders\<close>

text \<open>Addresses as \<open>AddressSchema\<close> describes them, without their prefix.\<close>

definition address_char :: "char \<Rightarrow> bool" where
  "address_char c \<longleftrightarrow> digit_value 16 c \<noteq> None \<or> c = CHR ''x''"

definition eth_address :: "string \<Rightarrow> bool" where
  "eth_address a \<longleftrightarrow> length a = 42 \<and> list_all address_char a"

lemma js_includes_sublist: "js_includes p s = sublist p s"
  by (induction s) (auto simp: sublist_Cons_right)

lemma js_includes_split:
  assumes "q \<notin> set p" "p \<noteq> []"
  shows "js_includes p (a @ q # b) \<longleftrightarrow> js_includes p a \<or> js_includes p b"
proof
  assume "js_includes p (a @ q # b)"
  then consider "sublist p a" | "sublist p (q # b)" | x y where "p = x @ y" "suffix x a" "prefix y (q # b)"
    unfolding js_includes_sublist sublist_append by blast
  then show "js_includes p a \<or> js_includes p b"
  proof cases
    case 2
    with assms show ?thesis by (auto simp: js_includes_sublist sublist_Cons_right prefix_Cons)
  next
    case 3
    with assms have "y = []" by (auto simp: prefix_Cons)
    with 3 show ?thesis by (auto simp: js_includes_sublist)
  qed (simp add: js_includes_sublist)
next
  assume "js_includes p a \<or> js_includes p b"
  then show "js_includes p (a @ q # b)"
    by (auto simp: js_includes_sublist sublist_append sublist_Cons_right)
qed

lemma sublist_same: "sublist a x \<Longrightarrow> length a = length x \<Longrightarrow> a = x"
  by (auto simp: sublist_def)

lemma address_json: "list_all address_char a \<Longrightarrow> concat (map json_char a) = a"
  by (induction a) (auto simp: address_char_def json_char_def digit_value_def Let_def split: if_splits)

lemma lower_address_char: "address_char c \<Longrightarrow> address_char (lower_char c)"
  by (auto simp: address_char_def lower_char_def digit_value_def Let_def take_bit_nat_eq_self split: if_splits)

lemma lower_address: "eth_address a \<Longrightarrow> eth_address (toLowerCase a)"
  by (auto simp: eth_address_def toLowerCase_def list_all_iff lower_address_char)

text \<open>An address is part of the text exactly when it is one of its strings.\<close>

lemma includes_addresses:
  assumes "eth_address a" "\<forall>x \<in> set xs. eth_address x" "xs \<noteq> []" "length p < 42"
  shows "js_includes a (p @ js_join '','' (map json_string xs) @ '']'') \<longleftrightarrow> a \<in> set xs"
  using assms(2-)
proof (induction xs arbitrary: p)
  case (Cons x xs)
  have a: "CHR 0x22 \<notin> set a" "a \<noteq> []" "length a = 42"
    using assms(1) by (auto simp: eth_address_def list_all_iff address_char_def digit_value_def)
  have short: "\<not> js_includes a t" if "length t < 42" for t
    using that a(3) sublist_length_le [of a t] by (auto simp: js_includes_sublist)
  have same: "js_includes a x \<longleftrightarrow> a = x" "json_string x = CHR 0x22 # x @ [CHR 0x22]"
    using Cons.prems(1) a(3) address_json [of x] sublist_same [of a x]
    by (auto simp: js_includes_sublist eth_address_def json_string_def)
  show ?case
  proof (cases xs)
    case Nil
    then show ?thesis using short [OF Cons.prems(3)] short [of "'']''"] by (simp add: same js_includes_split [OF a(1,2)])
  next
    case (Cons y ys)
    have "js_includes a ('','' @ js_join '','' (map json_string xs) @ '']'') \<longleftrightarrow> a \<in> set xs"
      using Cons Cons.prems by (intro Cons.IH) auto
    then show ?thesis using short [OF Cons.prems(3)] by (simp add: Cons same js_includes_split [OF a(1,2)])
  qed
qed simp

lemma includes_json_strings:
  "eth_address a \<Longrightarrow> \<forall>x \<in> set xs. eth_address x \<Longrightarrow> js_includes a (json_strings xs) \<longleftrightarrow> a \<in> set xs"
  using includes_addresses [of a xs "''[''"]
  by (cases "xs = []") (auto simp: json_strings_def js_includes_sublist eth_address_def dest: sublist_length_le)

section \<open>A sample relayer\<close>

definition relay_sys :: "mem sdk_sys" where
  "relay_sys = sample_sys\<lparr>ys_env := mem_env\<lparr>e_walletDetails := (\<lambda>a. Inr (Some \<lparr>wd_address = a, wd_type = ''local'',
     wd_awsKmsKeyId = None, wd_gcpKmsKeyId = None, wd_gcpKmsKeyVersionId = None\<rparr>))\<rparr>\<rparr>"

definition sample_relay_env :: "(string, relayer_row) mem_rows relay_env" where
  "sample_relay_env = \<lparr>rl_relayers = mem_table,
     rl_splitSignature = (\<lambda>_. Inr (JNum (Some 27), JStr ''0x1'', JStr ''0x2'')), rl_joinSignature = (\<lambda>_. Inr ''0x12'')\<rparr>"

definition sample_relay_state :: "(mem, (string, relayer_row) mem_rows) relay_state" where
  "sample_relay_state = \<lparr>rl_sdk = sample_state [], rl_rows = []\<rparr>"

definition sample_address :: string where
  "sample_address = ''0x1111111111111111111111111111111111111111''"

definition sample_create :: request where
  "sample_create = \<lparr>hq_params = JUndefined, hq_query = JUndefined, hq_body = JObj [(''chain'', JStr ''1''),
     (''backendWalletAddress'', JStr ''0xa''), (''allowedContracts'', JList (map JStr [sample_address]))],
     hq_headers = JUndefined\<rparr>"

definition sample_meta :: request where
  "sample_meta = \<lparr>hq_params = JObj [(''relayerId'', JStr ''r'')], hq_query = JUndefined,
     hq_body = JObj [(''type'', JStr ''permit''), (''request'', JObj [(''to'', JStr sample_address)]), (''signature'', JStr ''0x12'')],
     hq_headers = JUndefined\<rparr>"

definition created_state :: "(mem, (string, relayer_row) mem_rows) relay_state" where
  "created_state = snd (createRelayer relay_sys sample_relay_env ''r'' sample_create sample_relay_state)"

lemma parse_one: "parseInt ''1'' = Some 1"
  by code_simp

lemma created_value:
  "fst (createRelayer relay_sys sample_relay_env ''r'' sample_create sample_relay_state)
   = Inr (JObj [(''result'', JObj [(''relayerId'', JStr ''r'')])])"
  by (simp add: createRelayer_def sample_create_def chainIdFrom_def getChainIdFromChain_def bnd_apply io_simps
     relay_sys_def sample_sys_def Let_def parse_one sample_relay_env_def sample_relay_state_def sample_state_def mem_world_def
     getChain_def getConfig_def mem_env_def sample_config_def find_override_def mem_table_def)

lemma created_row_value:
  "rl_rows created_state = [(''r'', \<lparr>rr_id = ''r'', rr_name = None, rr_chainId = show_int 1, rr_backendWalletAddress = ''0xa'',
     rr_allowedContracts = Some (json_strings [toLowerCase sample_address]), rr_allowedForwarders = None\<rparr>)]"
  "accounts_cache (sk_world (rl_sdk created_state)) = (\<lambda>_. Some ''0xa'')" "sk_sdks (rl_sdk created_state) = (\<lambda>_. None)"
  "sk_wallets (rl_sdk created_state) = (\<lambda>_. None)" "store (sk_world (rl_sdk created_state)) = []"
  "effects (sk_world (rl_sdk created_state)) = []" "config_cache (sk_world (rl_sdk created_state)) = Some sample_config"
  by (simp_all add: created_state_def createRelayer_def sample_create_def chainIdFrom_def getChainIdFromChain_def bnd_apply io_simps
     relay_sys_def sample_sys_def Let_def parse_one sample_relay_env_def sample_relay_state_def sample_state_def mem_world_def
     getChain_def getConfig_def mem_env_def sample_config_def find_override_def mem_table_def allow_list_def)

interpretation relay_engine: engine "ys_env relay_sys" mem_view
  by (simp add: relay_sys_def engine_def mem_env_def mem_db.transaction_db_axioms)

lemma sample_insert: "send_job ''uuid'' \<in> set (effects (snd (insertTransaction (ys_env relay_sys) inserted None False w)))"
proof -
  obtain t where t: "insert_result (ys_env relay_sys) inserted ''uuid'' (clock w) = Inr t"
    by (simp add: insert_result_def checksum_plain relay_sys_def mem_env_def Let_def split: option.split)
  have q: "queue_id (ys_env relay_sys) None = ''uuid''" by (simp add: queue_id_def relay_sys_def mem_env_def)
  show ?thesis
    using relay_engine.insert_new [of None w inserted t False] relay_engine.insert_tail_stores(3) [of t "''uuid''" False]
      insert_result_queued [OF t] t q by simp
qed

lemma relay_queue_effects: "send_job ''uuid'' \<in> set (effects (sk_world (snd (relay_queue relay_sys relayer sample_tx s))))"
proof -
  have "e_BigInt (ys_env relay_sys) ''0'' = Inr 0" by (simp add: relay_sys_def mem_env_def)
  then show ?thesis using sample_insert
    by (simp add: relay_queue_def queue_tx_def bnd_apply at_w_apply queueTx_def sample_tx_def override_amount_def overrides_of_def
       maybeBigInt_def Let_def nullish_def split: sum.split)
qed

lemma sample_relayed: "send_job ''uuid'' \<in> set (effects (sk_world (rl_sdk (snd (relayTransaction relay_sys sample_relay_env sample_meta created_state)))))"
proof -
  have id: "js_text (jprop (hq_params sample_meta) ''relayerId'') = ''r''" by (simp add: sample_meta_def)
  obtain relayer where r: "relayer_of map_of (rl_rows created_state) ''r'' = Some relayer"
    "relayer = \<lparr>ry_chainId = 1, ry_backendWalletAddress = ''0xa'', ry_allowedContracts = Some [toLowerCase sample_address],
       ry_allowedForwarders = None\<rparr>"
    by (simp add: relayer_of_def created_row_value parse_relayer_def parse_json_strings toLowerCase_idem)
  have "rl_relayers sample_relay_env = mem_table" by (simp add: sample_relay_env_def)
  then have table: "prisma_table (rl_relayers sample_relay_env) map_of" using mem_rows.prisma_table_axioms by simp
  have "rl_sdk (snd (relayTransaction relay_sys sample_relay_env sample_meta created_state))
      = snd (relay_as relay_sys sample_relay_env relayer (hq_body sample_meta) (rl_sdk created_state))"
    using relayTransaction_state [OF table, of relay_sys sample_meta created_state] r(1) id by (simp add: prod_eq_iff)
  moreover have "send_job ''uuid'' \<in> set (effects (sk_world (snd (relay_as relay_sys sample_relay_env relayer (hq_body sample_meta) s))))"
    if "s = rl_sdk created_state" for s
    using relay_queue_effects [of relayer]
    by (simp add: that r(2) contract_refused_def sample_relay_env_def relay_sys_def sample_sys_def sample_sdk_def prepare_def
      getChain_def getConfig_def mem_env_def sample_config_def find_override_def backend_wallet_def relay_as_def relay_permit_def sample_meta_def Let_def bnd_apply getSdk_def sdk_cached_def created_row_value
      chain_metadata_def at_w_apply getWallet_def wallet_cached_def getWalletDetails_def)
  ultimately show ?thesis by simp
qed

lemma sample_table: "prisma_table (rl_relayers sample_relay_env) map_of"
proof -
  have "rl_relayers sample_relay_env = mem_table" by (simp add: sample_relay_env_def)
  then show ?thesis using mem_rows.prisma_table_axioms by simp
qed

lemma sample_changed: "outside_changed created_state (snd (relayTransaction relay_sys sample_relay_env sample_meta created_state))"
  using sample_relayed by (auto simp: outside_changed_def created_row_value)

section \<open>Properties\<close>

lemma relay_needs_policy:
  assumes "prisma_table (rl_relayers R) rows" and "relayTransaction V R q s = (r, s')" and "outside_changed s s'"
  shows "\<exists>relayer. relayer_of rows (rl_rows s) (js_text (jprop (hq_params q) ''relayerId'')) = Some relayer
    \<and> relay_policy V R relayer (hq_body q)"
proof (cases "relayer_of rows (rl_rows s) (js_text (jprop (hq_params q) ''relayerId''))")
  case None
  then show ?thesis using relayTransaction_state [OF assms(1,2)] assms(3) by (simp add: outside_changed_def)
next
  case (Some relayer)
  then have "rl_sdk s' = snd (relay_as V R relayer (hq_body q) (rl_sdk s))"
    using relayTransaction_state [OF assms(1,2)] by simp
  then have "relay_policy V R relayer (hq_body q)"
    using assms(3) sk_quietD [OF policy_missing, of V R relayer "hq_body q" "rl_sdk s"]
    by (auto simp: outside_changed_def)
  then show ?thesis using Some by blast
qed

text \<open>
  C14: a relay that changes the store or adds a job belongs to a stored relayer and satisfies its policy:
  the target is an allowed contract, and a forwarded request names an allowed forwarder, has no
  value, and is trusted by the target and verified by the forwarder.
\<close>

theorem relay_authorised:
  assumes "prisma_table (rl_relayers R) rows" and "relayTransaction V R q s = (r, s')" and "outside_changed s s'"
  shows "\<exists>relayer. relayer_of rows (rl_rows s) (js_text (jprop (hq_params q) ''relayerId'')) = Some relayer
    \<and> relay_policy V R relayer (hq_body q)"
  by (rule relay_needs_policy [OF assms])

theorem relay_authorised_witness:
  "\<exists>relayer. relayer_of map_of (rl_rows created_state) ''r'' = Some relayer
    \<and> relay_policy relay_sys sample_relay_env relayer (hq_body sample_meta)"
  using relay_authorised [OF sample_table _ sample_changed, of relay_sys sample_meta
      "fst (relayTransaction relay_sys sample_relay_env sample_meta created_state)"]
  by (simp add: sample_meta_def)

text \<open>
  C31: a relayer created with a list of contracts relays to these alone: what it queues next targets one
  of them, up to case.
\<close>

theorem created_relayer_restricts:
  assumes "prisma_table (rl_relayers R) rows" and "createRelayer V R uuid q s0 = (Inr v, s)"
    and "jprop (hq_body q) ''allowedContracts'' = JList (map JStr cs)"
    and "jprop (hq_params q') ''relayerId'' = JStr uuid"
    and "relayTransaction V R q' s = (r, s')" and "outside_changed s s'"
  shows "toLowerCase (js_text (jprop (jprop (hq_body q') ''request'') ''to'')) \<in> set (map toLowerCase cs)"
proof -
  obtain n where "rows (rl_rows s) uuid = Some \<lparr>rr_id = uuid, rr_name = js_opt (jprop (hq_body q) ''name''),
    rr_chainId = show_int n, rr_backendWalletAddress = js_text (jprop (hq_body q) ''backendWalletAddress''),
    rr_allowedContracts = Some (json_strings (map toLowerCase cs)),
    rr_allowedForwarders = allow_list (jprop (hq_body q) ''allowedForwarders'')\<rparr>"
    using created_row [OF assms(1,2)] assms(3) allow_list_strings [of cs] by auto
  moreover obtain relayer where relayer: "relayer_of rows (rl_rows s) uuid = Some relayer"
      "relay_policy V R relayer (hq_body q')"
    using relay_needs_policy [OF assms(1,5,6)] assms(4) by auto
  ultimately have "ry_allowedContracts relayer = Some (map toLowerCase cs)"
    by (auto simp: relayer_of_def parse_relayer_def parse_json_strings toLowerCase_idem)
  then show ?thesis using relayer(2) by (simp add: relay_policy_def contract_refused_def)
qed

theorem created_relayer_restricts_witness:
  "toLowerCase sample_address \<in> set (map toLowerCase [sample_address])"
  using created_relayer_restricts [OF sample_table, of relay_sys "''r''" sample_create sample_relay_state
      "JObj [(''result'', JObj [(''relayerId'', JStr ''r'')])]" created_state "[sample_address]" sample_meta
      "fst (relayTransaction relay_sys sample_relay_env sample_meta created_state)"
      "snd (relayTransaction relay_sys sample_relay_env sample_meta created_state)"]
    created_value sample_changed
  by (simp add: created_state_def [symmetric] prod_eq_iff sample_create_def sample_meta_def)

text \<open>
  an update that names no lists lifts the restrictions of the relayer, whatever they were.
\<close>

theorem update_lifts_restrictions:
  assumes "prisma_table (rl_relayers R) rows" and "updateRelayer V R q s = (Inr v, s')"
    and "jprop (hq_body q) ''id'' = JStr i"
    and "jprop (hq_body q) ''allowedContracts'' = JUndefined" and "jprop (hq_body q) ''allowedForwarders'' = JUndefined"
    and "relayer_of rows (rl_rows s') i = Some relayer"
  shows "\<not> contract_refused relayer to \<and> \<not> forwarder_refused relayer forwarder"
proof -
  obtain c row where "rows (rl_rows s') i = Some (update_relayer c (hq_body q) row)"
    using updated_row [OF assms(1-3)] by blast
  then have "ry_allowedContracts relayer = None" "ry_allowedForwarders relayer = None"
    using assms(4-6)
    by (auto simp: relayer_of_def parse_relayer_def update_relayer_def allow_list_def split: sum.splits option.splits)
  then show ?thesis by (simp add: contract_refused_def forwarder_refused_def)
qed

text \<open>The restricted relayer of the sample, renamed.\<close>

definition sample_rename :: request where
  "sample_rename = \<lparr>hq_params = JUndefined, hq_query = JUndefined,
     hq_body = JObj [(''id'', JStr ''r''), (''name'', JStr ''n'')], hq_headers = JUndefined\<rparr>"

theorem update_lifts_restrictions_witness:
  "\<exists>before after. relayer_of map_of (rl_rows created_state) ''r'' = Some before \<and> contract_refused before ''0xd''
    \<and> relayer_of map_of (rl_rows (snd (updateRelayer relay_sys sample_relay_env sample_rename created_state))) ''r'' = Some after
    \<and> \<not> contract_refused after ''0xd''"
proof -
  let ?s = "snd (updateRelayer relay_sys sample_relay_env sample_rename created_state)"
  obtain v where v: "updateRelayer relay_sys sample_relay_env sample_rename created_state = (Inr v, ?s)"
    and rows: "map_of (rl_rows ?s) ''r'' = Some \<lparr>rr_id = ''r'', rr_name = Some ''n'', rr_chainId = show_int 1,
      rr_backendWalletAddress = ''0xa'', rr_allowedContracts = None, rr_allowedForwarders = None\<rparr>"
    by (simp add: Let_def updateRelayer_def sample_rename_def sample_relay_env_def bnd_apply io_simps created_row_value mem_table_def
        update_relayer_def allow_list_def)
  obtain after where after: "relayer_of map_of (rl_rows ?s) ''r'' = Some after"
    by (simp add: relayer_of_def rows parse_relayer_def)
  have "\<not> contract_refused after ''0xd''"
    using update_lifts_restrictions [OF sample_table v, of "''r''" after "''0xd''"] after by (simp add: sample_rename_def)
  moreover have "toLowerCase ''0xd'' \<noteq> toLowerCase sample_address" by (simp add: sample_address_def toLowerCase_def)
  ultimately show ?thesis using after
    by (auto simp: relayer_of_def created_row_value parse_relayer_def parse_json_strings contract_refused_def toLowerCase_idem)
qed

text \<open>
  C32: for lists of addresses the test for an allowed forwarder, which looks for a substring of the stored
  text, is membership up to case.
\<close>

theorem forwarder_test_exact:
  assumes "eth_address f" and "\<forall>x \<in> set fs. eth_address x"
    and "ry_allowedForwarders relayer = allow_list (JList (map JStr fs))"
  shows "forwarder_refused relayer f \<longleftrightarrow> toLowerCase f \<notin> set (map toLowerCase fs)"
  using includes_json_strings [of "toLowerCase f" "map toLowerCase fs"] assms lower_address
  by (simp add: forwarder_refused_def allow_list_strings)

theorem forwarder_test_exact_witness:
  "\<not> forwarder_refused \<lparr>ry_chainId = 1, ry_backendWalletAddress = ''0xa'', ry_allowedContracts = None,
     ry_allowedForwarders = allow_list (JList (map JStr [sample_address]))\<rparr> sample_address"
proof -
  have "eth_address sample_address" by (simp add: eth_address_def sample_address_def address_char_def digit_value_def)
  then show ?thesis
    using forwarder_test_exact [of sample_address "[sample_address]"
        "\<lparr>ry_chainId = 1, ry_backendWalletAddress = ''0xa'', ry_allowedContracts = None,
          ry_allowedForwarders = allow_list (JList (map JStr [sample_address]))\<rparr>"] by simp
qed

end
