(* ===== verification/Wallet_Properties.thy ===== *)
theory Wallet_Properties
  imports Wallet_Routes Sdk_Properties
begin

text \<open>
  What holds of the backend wallets: the rows of the table fit their type, a created wallet is found and
  signs, a removed one still signs from the cache, a batch is queued in order up to its first bad
  request, and a withdrawal sends the balance less the fee past the nonces of the engine.
\<close>

section \<open>Rows\<close>

text \<open>The columns that the type of a wallet needs.\<close>

definition wallet_row_ok :: "wallet_row \<Rightarrow> bool" where
  "wallet_row_ok r \<longleftrightarrow>
     (wr_type r = ''local'' \<and> wr_encryptedJson r \<noteq> None)
     \<or> (wr_type r = ''aws-kms'' \<and> wr_awsKmsKeyId r \<noteq> None \<and> wr_awsKmsArn r \<noteq> None)
     \<or> (wr_type r = ''gcp-kms'' \<and> wr_gcpKmsKeyId r \<noteq> None \<and> wr_gcpKmsKeyRingId r \<noteq> None
          \<and> wr_gcpKmsLocationId r \<noteq> None \<and> wr_gcpKmsKeyVersionId r \<noteq> None \<and> wr_gcpKmsResourcePath r \<noteq> None)"

definition wallets_ok :: "(string \<Rightarrow> wallet_row option) \<Rightarrow> bool" where
  "wallets_ok m \<longleftrightarrow> (\<forall>a r. m a = Some r \<longrightarrow> wallet_row_ok r \<and> toLowerCase a = a)"

text \<open>A computation that keeps the rows in order.\<close>

definition keeps_wallets :: "('d \<Rightarrow> string \<Rightarrow> wallet_row option) \<Rightarrow> (('w, 'd) wallet_state, 'a) io \<Rightarrow> bool" where
  "keeps_wallets rows m \<longleftrightarrow> (\<forall>s. wallets_ok (rows (wl_rows s)) \<longrightarrow> wallets_ok (rows (wl_rows (snd (m s)))))"

named_theorems keeps_wallets_intros "computations that keep the wallet rows in order"

lemma keeps_wallets_basic [keeps_wallets_intros]:
  "keeps_wallets rows (ret a)" "keeps_wallets rows (throw e)" "keeps_wallets rows (lift_res r)"
  "keeps_wallets rows (wallet_world m)" "keeps_wallets rows (with_sdk V W n)"
  by (simp_all add: keeps_wallets_def wallet_world_apply with_sdk_apply)

lemma keeps_wallets_bnd [keeps_wallets_intros]:
  "keeps_wallets rows m \<Longrightarrow> (\<And>a. keeps_wallets rows (f a)) \<Longrightarrow> keeps_wallets rows (bnd m f)"
  unfolding keeps_wallets_def by (simp add: bnd_apply split: sum.split)

lemma keeps_wallets_try [keeps_wallets_intros]:
  "keeps_wallets rows m \<Longrightarrow> (\<And>e. keeps_wallets rows (h e)) \<Longrightarrow> keeps_wallets rows (try_catch m h)"
  unfolding keeps_wallets_def by (simp add: try_catch_apply split: sum.split)

lemma keeps_wallets_if [keeps_wallets_intros]:
  "keeps_wallets rows a \<Longrightarrow> keeps_wallets rows b \<Longrightarrow> keeps_wallets rows (if c then a else b)"
  by simp

lemma keeps_wallets_let [keeps_wallets_intros]: "(\<And>x. keeps_wallets rows (f x)) \<Longrightarrow> keeps_wallets rows (Let a f)"
  by (simp add: Let_def)

lemma keeps_wallets_option [keeps_wallets_intros]:
  "keeps_wallets rows a \<Longrightarrow> (\<And>x. keeps_wallets rows (f x)) \<Longrightarrow> keeps_wallets rows (case v of None \<Rightarrow> a | Some x \<Rightarrow> f x)"
  by (cases v) auto

lemma keeps_wallets_config [keeps_wallets_intros]:
  "keeps_wallets rows l \<Longrightarrow> (\<And>a b c. keeps_wallets rows (f a b c)) \<Longrightarrow> (\<And>a b c d e. keeps_wallets rows (g a b c d e)) \<Longrightarrow>
   keeps_wallets rows (case cfg of WalletLocal \<Rightarrow> l | WalletAwsKms a b c \<Rightarrow> f a b c | WalletGcpKms a b c d e \<Rightarrow> g a b c d e)"
  by (cases cfg) auto

lemma keeps_wallets_pair [keeps_wallets_intros]:
  "(\<And>x y. keeps_wallets rows (f x y)) \<Longrightarrow> keeps_wallets rows (case p of (x, y) \<Rightarrow> f x y)"
  by (cases p) auto

lemma keeps_wallets_find [keeps_wallets_intros]:
  "prisma_table (wv_wallets W) rows \<Longrightarrow> keeps_wallets rows (on_wallets (t_find (wv_wallets W) k))"
  "prisma_table (wv_wallets W) rows \<Longrightarrow> keeps_wallets rows (on_wallets (t_many (wv_wallets W) p))"
  by (simp_all add: keeps_wallets_def on_wallets_apply prisma_table.law_find prisma_table.law_many(2))

lemma keeps_wallets_create [keeps_wallets_intros]:
  assumes "prisma_table (wv_wallets W) rows" "wallet_row_ok r"
  shows "keeps_wallets rows (createWalletDetails W a r)"
  using assms(2) unfolding createWalletDetails_def keeps_wallets_def
  by (auto simp: bnd_apply on_wallets_apply prisma_table.law_find [OF assms(1)] prisma_table.law_create [OF assms(1)]
      wallets_ok_def toLowerCase_idem split: option.split sum.split)

lemma keeps_wallets_delete [keeps_wallets_intros]:
  assumes "prisma_table (wv_wallets W) rows"
  shows "keeps_wallets rows (deleteWalletDetails W a)"
  unfolding deleteWalletDetails_def keeps_wallets_def
  by (auto simp: on_wallets_apply prisma_table.law_delete [OF assms] wallets_ok_def)

lemma keeps_wallets_update [keeps_wallets_intros]:
  assumes "prisma_table (wv_wallets W) rows"
  shows "keeps_wallets rows (updateWalletDetails W a l)"
  unfolding updateWalletDetails_def keeps_wallets_def
  by (auto simp: bnd_apply on_wallets_apply prisma_table.law_update [OF assms] wallets_ok_def wallet_row_ok_def
      split: option.split sum.split)

lemma keeps_wallets_setItem [keeps_wallets_intros]:
  assumes "prisma_table (wv_wallets W) rows"
  shows "keeps_wallets rows (storage_setItem W a l v)"
  unfolding storage_setItem_def keeps_wallets_def Let_def
  by (auto simp: bnd_apply on_wallets_apply prisma_table.law_find [OF assms] prisma_table.law_upsert [OF assms] wallets_ok_def
      wallet_row_ok_def no_wallet_row_def toLowerCase_idem split: option.split sum.split if_splits)

lemma keeps_wallets_storage [keeps_wallets_intros]:
  assumes "prisma_table (wv_wallets W) rows"
  shows "keeps_wallets rows (storage_getItem W a)" "keeps_wallets rows (save_wallet W w a l)"
    "keeps_wallets rows (load_wallet W a pw)"
  unfolding storage_getItem_def save_wallet_def load_wallet_def by (intro keeps_wallets_intros assms)+

lemma keeps_wallets_kms [keeps_wallets_intros]:
  "keeps_wallets rows (getAwsKmsWallet V W k)" "keeps_wallets rows (getGcpKmsWallet V W g v)"
  unfolding getAwsKmsWallet_def getGcpKmsWallet_def by (intro keeps_wallets_intros)+

lemma keeps_wallets_made [keeps_wallets_intros]:
  assumes "prisma_table (wv_wallets W) rows"
  shows "keeps_wallets rows (getLocalWallet V W c a)" "keeps_wallets rows (createLocalWallet V W l)"
    "keeps_wallets rows (importLocalWallet W i l)" "keeps_wallets rows (importAwsKmsWallet V W k n l)"
    "keeps_wallets rows (importGcpKmsWallet V W k v l)" "keeps_wallets rows (createGcpKmsWallet V W l)"
  unfolding getLocalWallet_def createLocalWallet_def importLocalWallet_def importAwsKmsWallet_def importGcpKmsWallet_def
    createGcpKmsWallet_def
  by (intro keeps_wallets_intros assms; simp add: wallet_row_ok_def no_wallet_row_def gcp_row_def)+

lemma keeps_wallets_aws [keeps_wallets_intros]:
  assumes "prisma_table (wv_wallets W) rows"
  shows "keeps_wallets rows (createAwsKmsWallet V W l)"
  unfolding createAwsKmsWallet_def by (intro keeps_wallets_intros keeps_wallets_made assms)

text \<open>The requests that reach the table, and the use of a local wallet, which may move or encrypt it anew.\<close>

datatype wallet_op =
    OpCreateWallet request
  | OpImportWallet request
  | OpRemoveWallet request
  | OpUpdateWallet request
  | OpUseLocal int string

fun run_wallet_op :: "'w sdk_sys \<Rightarrow> 'd wallet_env \<Rightarrow> wallet_op \<Rightarrow> (('w, 'd) wallet_state, unit) io" where
  "run_wallet_op V W (OpCreateWallet q) = bnd (createBackendWallet V W q) (\<lambda>_. ret ())"
| "run_wallet_op V W (OpImportWallet q) = bnd (importBackendWallet V W q) (\<lambda>_. ret ())"
| "run_wallet_op V W (OpRemoveWallet q) = bnd (removeBackendWallet W q) (\<lambda>_. ret ())"
| "run_wallet_op V W (OpUpdateWallet q) = bnd (updateBackendWallet W q) (\<lambda>_. ret ())"
| "run_wallet_op V W (OpUseLocal c a) = bnd (getLocalWallet V W c a) (\<lambda>_. ret ())"

definition run_wallet_ops :: "'w sdk_sys \<Rightarrow> 'd wallet_env \<Rightarrow> wallet_op list \<Rightarrow> ('w, 'd) wallet_state \<Rightarrow> ('w, 'd) wallet_state" where
  "run_wallet_ops V W os s = fold (\<lambda>op s. snd (run_wallet_op V W op s)) os s"

lemma keeps_wallets_op: "prisma_table (wv_wallets W) rows \<Longrightarrow> keeps_wallets rows (run_wallet_op V W op)"
  by (cases op; simp only: run_wallet_op.simps createBackendWallet_def importBackendWallet_def removeBackendWallet_def
      updateBackendWallet_def; intro keeps_wallets_intros)

lemma run_wallet_ops_keeps:
  assumes "prisma_table (wv_wallets W) rows" "wallets_ok (rows (wl_rows s))"
  shows "wallets_ok (rows (wl_rows (run_wallet_ops V W os s)))"
  using assms(2) keeps_wallets_op [OF assms(1)]
  unfolding run_wallet_ops_def keeps_wallets_def by (induction os arbitrary: s) auto

section \<open>Created wallets\<close>

text \<open>\<open>getWallet\<close> reads the table under the address in lower case.\<close>

lemma getWallet_table:
  assumes "prisma_table (wv_wallets W) rows"
    and "sk_wallets (wl_sdk s) (getAccountCacheKey c a None) = None"
    and "rows (wl_rows s) (toLowerCase a) = Some r" "wr_type r = ''aws-kms''"
  shows "fst (with_sdk V W (\<lambda>V. getWallet V c a None) s) = fst (getAwsKmsWallet V W (wr_awsKmsKeyId r) s)"
  using assms(2-)
  by (simp add: with_sdk_apply getWallet_def wallet_cached_def bnd_apply at_w_apply getWalletDetails_def wallet_sys_def
      prisma_table.law_find [OF assms(1)] details_of_def backend_wallet_def split: sum.split)

text \<open>What the creation in AWS KMS leaves.\<close>

lemma createBackendWallet_aws:
  assumes "prisma_table (wv_wallets W) rows" and "config_cache (sk_world (wl_sdk s)) = Some cfg"
    and "cfg_walletConfiguration cfg = WalletAwsKms accessKeyId secretAccessKey region"
    and "wv_awsCreateKey W region accessKeyId secretAccessKey = Inr (arn, keyId)"
    and "createBackendWallet V W q s = (Inr v, s')"
  shows "\<exists>a r. v = wallet_added a \<and> rows (wl_rows s') (toLowerCase a) = Some r \<and> wr_type r = ''aws-kms''
    \<and> wr_awsKmsKeyId r = Some keyId \<and> wl_sdk s' = wl_sdk s"
proof -
  have config: "wallet_world (getConfig E True) s = (Inr cfg, s)" for E
    using assms(2) by (simp add: wallet_world_apply getConfig_def)
  have import_run: "createBackendWallet V W q s = bnd (importAwsKmsWallet V W keyId arn (js_opt (jprop (hq_body q) ''label'')))
      (\<lambda>a. ret (wallet_added a)) s"
    using assms(3,4) by (simp add: createBackendWallet_def createAwsKmsWallet_def Let_def bnd_apply config split: sum.split)
  show ?thesis
    using assms(5) unfolding import_run importAwsKmsWallet_def getAwsKmsWallet_def createWalletDetails_def
    by (auto simp: bnd_apply config assms(3) on_wallets_apply prisma_table.law_find [OF assms(1)]
        prisma_table.law_create [OF assms(1)] no_wallet_row_def split: sum.splits option.splits if_splits)
qed

section \<open>Batches\<close>

text \<open>A request of a batch as an answer that leaves the state.\<close>

definition batch_item :: "'w sdk_sys \<Rightarrow> int \<Rightarrow> js_val \<Rightarrow> js_val \<Rightarrow> js_error + inserted_transaction" where
  "batch_item V c a r =
     (let ov = jprop r ''txOverrides''; amount = (\<lambda>k. maybeBigInt (js_opt (jprop ov k)) (e_BigInt (ys_env V))) in
      case e_BigInt (ys_env V) (js_text (jprop r ''value'')) of Inl e \<Rightarrow> Inl e | Inr n \<Rightarrow>
      (case amount ''gas'' of Inl e \<Rightarrow> Inl e | Inr gas \<Rightarrow>
      (case amount ''maxFeePerGas'' of Inl e \<Rightarrow> Inl e | Inr maxFee \<Rightarrow>
      (case amount ''maxPriorityFeePerGas'' of Inl e \<Rightarrow> Inl e | Inr maxPriority \<Rightarrow>
        Inr ((no_inserted c (js_text a))\<lparr>tx_to := js_opt (jprop r ''toAddress''), tx_data := js_opt (jprop r ''data''),
          tx_value := Some n, tx_gas := gas, tx_maxFeePerGas := maxFee, tx_maxPriorityFeePerGas := maxPriority\<rparr>)))))"

lemma raw_item: "raw_transaction V c a r ret s = (batch_item V c a r, s)"
  by (simp add: raw_transaction_def batch_item_def Let_def amount_of_def override_amount_def bnd_apply at_w_apply
      split: sum.split)

definition batch_insert :: "'w sdk_sys \<Rightarrow> string \<Rightarrow> inserted_transaction \<Rightarrow> ('w sdk_state, string) io" where
  "batch_insert V uuid inserted = at_w (insertTransaction (ys_env (fresh_id V uuid)) inserted None False)"

lemma send_batch_step:
  "send_batch V uuids i c a (r # rs) acc s = (case batch_item V c a r of Inl e \<Rightarrow> (Inl e, s)
     | Inr inserted \<Rightarrow> bnd (batch_insert V (uuids i) inserted) (\<lambda>q. send_batch V uuids (Suc i) c a rs (acc @ [q])) s)"
  by (simp add: bnd_apply [of _ _ s] raw_item batch_insert_def split: sum.split del: send_batch.simps(1)
    add: send_batch.simps(2))

lemma send_batch_error:
  assumes "send_batch V uuids i c a rs acc s = (Inr out, s1)" and "batch_item V c a r = Inl e"
  shows "send_batch V uuids i c a (rs @ r # rest) acc s = (Inl e, s1)"
  using assms(1)
proof (induction rs arbitrary: i acc s)
  case (Cons x rs)
  then show ?case unfolding append_Cons send_batch_step by (auto simp: bnd_apply split: sum.splits)
qed (simp add: send_batch_step assms(2) del: send_batch.simps(2))

lemma appends_if: "appends a \<Longrightarrow> appends b \<Longrightarrow> appends (if c then a else b)"
  by simp

lemma appends_quiet: "appends (ret a)" "appends (throw e)" "appends new_Date" "appends (checksum E x)"
  "appends (doSimulateTransaction E t)"
  by (auto simp: checksum_def intro!: quiet_appends)

lemma appends_insert: "appends (insertTransaction E inserted key sim)"
  unfolding insertTransaction_def Let_def db_set_def SendTransactionQueue_add_def
  by (intro appends_bnd appends_if appends_basic appends_reports appends_quiet)

lemma insert_result_answer:
  assumes "fst (insertTransaction E inserted None False s) = Inr q"
  shows "\<exists>t. insert_result E inserted (e_randomUUID E) (clock s) = Inr t"
  using assms
  by (auto simp: insertTransaction_def insert_result_def checksum_def bnd_apply new_Date_apply Let_def split: sum.splits)

context engine
begin

lemma insert_answers:
  assumes "fst (insertTransaction E inserted None False s) = Inr q"
  shows "q = e_randomUUID E" "send_job q \<in> set (effects (snd (insertTransaction E inserted None False s)))"
proof -
  obtain t where t: "insert_result E inserted (queue_id E None) (clock s) = Inr t"
    using insert_result_answer [OF assms] by (auto simp: queue_id_def)
  have run: "insertTransaction E inserted None False s = insert_tail E (queue_id E None) False t s"
    using insert_new [OF _ t] by (simp add: looked_def)
  note queued = insert_tail_stores [OF insert_result_queued(1,2) [OF t], of False s]
  have q: "q = queue_id E None" using assms queued(1) by (simp add: run)
  then show "q = e_randomUUID E" by (simp add: queue_id_def)
  show "send_job q \<in> set (effects (snd (insertTransaction E inserted None False s)))" using queued(3) by (simp add: run q)
qed

end

lemma engine_fresh: "engine (ys_env V) view \<Longrightarrow> engine (ys_env (fresh_id V u)) view"
  by (simp add: engine_def fresh_id_def)

lemma batch_insert_answers:
  assumes "engine (ys_env V) view" "fst (batch_insert V u inserted s) = Inr q"
  shows "q = u" "send_job q \<in> set (effects (sk_world (snd (batch_insert V u inserted s))))"
  using engine.insert_answers [OF engine_fresh [OF assms(1)], of u inserted "sk_world s" q] assms(2)
  by (auto simp: batch_insert_def at_w_apply fresh_id_def)

lemma send_batch_answers:
  assumes "engine (ys_env V) view" "send_batch V uuids i c a rs acc s = (Inr out, s')"
  shows "out = acc @ map uuids [i..<i + length rs] \<and> (\<forall>j \<in> {i..<i + length rs}. send_job (uuids j) \<in> set (effects (sk_world s')))
    \<and> set (effects (sk_world s)) \<subseteq> set (effects (sk_world s'))"
  using assms(2)
proof (induction rs arbitrary: i acc s)
  case (Cons r rs)
  then obtain inserted where item: "batch_item V c a r = Inr inserted"
    by (cases "batch_item V c a r") (simp_all add: send_batch_step del: send_batch.simps)
  obtain q where q: "fst (batch_insert V (uuids i) inserted s) = Inr q"
    using Cons.prems item by (cases "fst (batch_insert V (uuids i) inserted s)")
      (simp_all add: send_batch_step bnd_apply del: send_batch.simps)
  let ?s1 = "snd (batch_insert V (uuids i) inserted s)"
  note ans = batch_insert_answers [OF assms(1) q]
  have rest: "send_batch V uuids (Suc i) c a rs (acc @ [q]) ?s1 = (Inr out, s')"
    using Cons.prems item q by (simp add: send_batch_step bnd_apply del: send_batch.simps)
  have more: "set (effects (sk_world s)) \<subseteq> set (effects (sk_world ?s1))"
    using appendsD [OF appends_insert] by (simp add: batch_insert_def at_w_apply)
  have range: "{i..<i + length (r # rs)} = insert i {Suc i..<Suc i + length rs}" "[i..<i + length (r # rs)] = i # [Suc i..<Suc i + length rs]"
    using upt_rec [of i "i + length (r # rs)"] by auto
  show ?case using Cons.IH [OF rest] ans more unfolding range by auto
qed simp

section \<open>Withdrawals\<close>

lemma amount_state: "snd (amount_of V ov k s) = s"
  by (simp add: amount_of_def override_amount_def at_w_apply)

lemma sk_quiet_world_step: "sk_quiet m \<Longrightarrow> fst (m s) = Inr a \<Longrightarrow> effects (sk_world (snd (m s))) = effects (sk_world s)
    \<and> store (sk_world (snd (m s))) = store (sk_world s)"
  using sk_quietD by blast

text \<open>Up to the call of the node a withdrawal only reads.\<close>

definition withdrawal_of ::
  "'d wallet_env \<Rightarrow> 'w sdk_sys \<Rightarrow> request \<Rightarrow> ('w sdk_state, chain_info \<times> string \<times> account \<times> serializable_tx \<times> int) io" where
  "withdrawal_of W V q =
     (let E = ys_env V; txOverrides = jprop (hq_body q) ''txOverrides'' in
      bnd (chainIdFrom V (jprop (hq_params q) ''chain'')) (\<lambda>chainId.
      bnd (at_w (getChain E chainId)) (\<lambda>chainInfo.
      bnd (lift_res (getChecksumAddress (e_checksumAddress E) (js_opt (jprop (hq_headers q) ''x-backend-wallet-address'')))) (\<lambda>adr'.
      let adr = (case adr' of None \<Rightarrow> [] | Some a \<Rightarrow> a) in
      bnd (amount_of V txOverrides ''gas'') (\<lambda>gas.
      bnd (amount_of V txOverrides ''maxFeePerGas'') (\<lambda>maxFee.
      bnd (amount_of V txOverrides ''maxPriorityFeePerGas'') (\<lambda>maxPriority.
      bnd (lift_res (e_toSerializable E chainInfo adr' \<lparr>rq_to = js_opt (jprop (hq_body q) ''toAddress''), rq_data = Some ''0x'',
            rq_value = Some 1, rq_gas = gas, rq_gasPrice = None, rq_maxFeePerGas = maxFee,
            rq_maxPriorityFeePerGas = maxPriority, rq_nonce = None\<rparr>)) (\<lambda>populated.
      bnd (getWithdrawValue V W chainId adr populated) (\<lambda>amount.
      bnd (at_w (getAccount E chainId adr None)) (\<lambda>acc.
      ret (chainInfo, adr, acc, populated, amount)))))))))))"

lemma sk_quiet_withdrawal: "sk_quiet (withdrawal_of W V q)"
  unfolding withdrawal_of_def Let_def amount_of_def override_amount_def getWithdrawValue_def
  by (intro sk_quiet_intros quiet_getChain quiet_getAccount quiet_basic)

lemma withdraw_run:
  "withdraw W V q = bnd (withdrawal_of W V q) (\<lambda>(chainInfo, adr, acc, populated, amount).
     bnd (try_catch (at_w (send_rpc (ys_env V) acc (populated\<lparr>stx_value := Some amount\<rparr>))) (\<lambda>e.
             bnd (lift_res (e_chainMetadata (ys_env V) chainInfo)) (\<lambda>metadata. throw (insufficient_funds metadata adr)))) (\<lambda>transactionHash.
     ret (JObj [(''result'', JObj [(''transactionHash'', JStr transactionHash), (''amount'', JStr (wv_toTokens W amount))])])))"
  unfolding withdraw_def withdrawal_of_def Let_def bnd_assoc by (simp add: bnd_def ret_def)

lemma withdrawal_value:
  assumes "fst (withdrawal_of W V q s) = Inr (chainInfo, adr, acc, populated, amount)"
  shows "\<exists>c balance. wv_walletBalance W c adr = Inr balance \<and> withdraw_value balance populated = Inr amount"
  using assms unfolding withdrawal_of_def Let_def
  by (auto simp: bnd_apply getWithdrawValue_def at_w_apply amount_of_def override_amount_def lift_res_def
      split: sum.splits)

lemma withdraw_value_balance:
  "withdraw_value balance populated = Inr n \<Longrightarrow> \<exists>g p. stx_gas populated = Some g
    \<and> nullish (stx_maxFeePerGas populated) (stx_gasPrice populated) = Some p \<and> p \<noteq> 0 \<and> n + g * p = balance"
  by (auto simp: withdraw_value_def Let_def split: option.splits if_splits)

section \<open>Properties\<close>


text \<open>A wallet with a balance of 1000000 that pays 21000 times 10.\<close>

definition sample_withdraw :: request where
  "sample_withdraw = \<lparr>hq_params = JObj [(''chain'', JStr ''1'')], hq_query = JUndefined,
     hq_body = JObj [(''toAddress'', JStr ''0xd'')], hq_headers = JObj [(''x-backend-wallet-address'', JStr ''0xa'')]\<rparr>"

lemma parse_chain_one: "parseInt ''1'' = Some 1"
  by code_simp

lemma sample_withdraw_answers:
  "\<exists>v. fst (withdraw sample_wallet_env sample_sys sample_withdraw (sample_state [])) = Inr v"
  by (simp add: withdraw_def sample_withdraw_def chainIdFrom_def getChainIdFromChain_def parse_chain_one bnd_apply at_w_apply
     Let_def getChain_def getConfig_def sample_sys_def mem_env_def sample_config_def find_override_def sample_state_def mem_world_def
     getChecksumAddress_def amount_of_def override_amount_def maybeBigInt_def getWithdrawValue_def withdraw_value_def sample_stx_def
     sample_wallet_env_def nullish_def getAccount_def try_catch_apply send_rpc_def emit_apply)


text \<open>
  C33: under any sequence of requests that create, import, change, use or remove wallets, every row of the
  table has the columns its type needs, and its address is in lower case.
\<close>

theorem wallet_rows_typed:
  assumes "prisma_table (wv_wallets W) rows" and "rows (wl_rows s) = (\<lambda>_. None)"
    and "rows (wl_rows (run_wallet_ops V W os s)) a = Some r"
  shows "wallet_row_ok r \<and> toLowerCase a = a"
  using run_wallet_ops_keeps [OF assms(1), of s V os] assms(2,3) by (simp add: wallets_ok_def)

text \<open>An engine with wallets in AWS KMS, and one wallet created there.\<close>

definition aws_state :: "(mem, (string, wallet_row) mem_rows) wallet_state" where
  "aws_state = \<lparr>wl_sdk = (sample_state [])\<lparr>sk_world := (mem_world [])\<lparr>config_cache :=
     Some (sample_config\<lparr>cfg_walletConfiguration := WalletAwsKms ''id'' ''secret'' ''region''\<rparr>)\<rparr>\<rparr>, wl_rows = []\<rparr>"

definition sample_label :: request where
  "sample_label = \<lparr>hq_params = JUndefined, hq_query = JUndefined, hq_body = JObj [(''label'', JStr ''l'')], hq_headers = JUndefined\<rparr>"

lemma sample_wallet_table: "wv_wallets sample_wallet_env = mem_table"
  by (simp add: sample_wallet_env_def)

lemma sample_wallets: "prisma_table (wv_wallets sample_wallet_env) map_of"
  using mem_rows.prisma_table_axioms by (simp add: sample_wallet_table)

lemma sample_lower: "toLowerCase ''0xAb'' = ''0xab''" "toLowerCase ''0xAB'' = ''0xab''"
proof -
  have "char_of (97 :: nat) = CHR ''a''" "char_of (98 :: nat) = CHR ''b''" by (simp_all add: char_of_eq_iff)
  then show "toLowerCase ''0xAb'' = ''0xab''" "toLowerCase ''0xAB'' = ''0xab''" by (simp_all add: toLowerCase_def lower_char_def)
qed

lemma sample_created:
  "createBackendWallet sample_sys sample_wallet_env sample_label aws_state
   = (Inr (wallet_added ''0xAb''), aws_state\<lparr>wl_rows := [(''0xab'', (no_wallet_row ''aws-kms'' (Some ''l''))
        \<lparr>wr_awsKmsArn := Some ''arn'', wr_awsKmsKeyId := Some ''0xAb''\<rparr>)]\<rparr>)"
  by (simp add: createBackendWallet_def createAwsKmsWallet_def importAwsKmsWallet_def getAwsKmsWallet_def createWalletDetails_def
     Let_def bnd_apply wallet_world_apply on_wallets_apply aws_state_def sample_label_def getConfig_def sample_wallet_env_def mem_table_def
     sample_lower sample_state_def mem_world_def)

theorem wallet_rows_typed_witness:
  "wallet_row_ok ((no_wallet_row ''aws-kms'' (Some ''l''))\<lparr>wr_awsKmsArn := Some ''arn'', wr_awsKmsKeyId := Some ''0xAb''\<rparr>)"
  using wallet_rows_typed [OF sample_wallets, of aws_state sample_sys "[OpCreateWallet sample_label]" "''0xab''"]
  by (simp add: run_wallet_ops_def bnd_apply sample_created) (simp add: aws_state_def)

text \<open>
  C34: a wallet that is created in AWS KMS is found under every spelling of its address, and then signs
  with the key that was created for it.
\<close>

theorem created_wallet_usable:
  assumes "prisma_table (wv_wallets W) rows" and "config_cache (sk_world (wl_sdk s)) = Some cfg"
    and "cfg_walletConfiguration cfg = WalletAwsKms accessKeyId secretAccessKey region"
    and "wv_awsCreateKey W region accessKeyId secretAccessKey = Inr (arn, keyId)"
    and "createBackendWallet V W q s = (Inr v, s')"
    and "toLowerCase a = toLowerCase (js_text (jprop (jprop v ''result'') ''walletAddress''))"
    and "sk_wallets (wl_sdk s) (getAccountCacheKey c a None) = None"
  shows "fst (with_sdk V W (\<lambda>V. getWallet V c a None) s') = Inr (wv_newAwsWallet W region accessKeyId secretAccessKey (Some keyId))"
proof -
  obtain b r where r: "v = wallet_added b" "rows (wl_rows s') (toLowerCase b) = Some r" "wr_type r = ''aws-kms''"
    "wr_awsKmsKeyId r = Some keyId" "wl_sdk s' = wl_sdk s"
    using createBackendWallet_aws [OF assms(1-5)] by blast
  have low: "toLowerCase a = toLowerCase b" using assms(6) r(1) by (simp add: wallet_added_def)
  have "fst (with_sdk V W (\<lambda>V. getWallet V c a None) s') = fst (getAwsKmsWallet V W (Some keyId) s')"
    using getWallet_table [OF assms(1), of s' c a r V] assms(7) r low by simp
  also have "\<dots> = Inr (wv_newAwsWallet W region accessKeyId secretAccessKey (Some keyId))"
    using assms(2,3) r(5) by (simp add: getAwsKmsWallet_def bnd_apply wallet_world_apply getConfig_def)
  finally show ?thesis .
qed

theorem created_wallet_usable_witness:
  "fst (with_sdk sample_sys sample_wallet_env (\<lambda>V. getWallet V 1 ''0xAB'' None)
     (snd (createBackendWallet sample_sys sample_wallet_env sample_label aws_state))) = Inr ''0xAb''"
proof -
  let ?cfg = "sample_config\<lparr>cfg_walletConfiguration := WalletAwsKms ''id'' ''secret'' ''region''\<rparr>"
  have config: "config_cache (sk_world (wl_sdk aws_state)) = Some ?cfg"
      "cfg_walletConfiguration ?cfg = WalletAwsKms ''id'' ''secret'' ''region''"
    by (simp_all add: aws_state_def)
  have key: "wv_awsCreateKey sample_wallet_env ''region'' ''id'' ''secret'' = Inr (''arn'', ''0xAb'')"
      "wv_newAwsWallet sample_wallet_env ''region'' ''id'' ''secret'' (Some ''0xAb'') = ''0xAb''"
    by (simp_all add: sample_wallet_env_def)
  have adr: "toLowerCase ''0xAB'' = toLowerCase (js_text (jprop (jprop (wallet_added ''0xAb'') ''result'') ''walletAddress''))"
    by (simp add: wallet_added_def sample_lower)
  have "sk_wallets (wl_sdk aws_state) k = None" for k by (simp add: aws_state_def sample_state_def)
  then show ?thesis
    using created_wallet_usable [OF sample_wallets config key(1) sample_created adr] by (simp add: key(2) sample_created)
qed

text \<open>
  C35: a wallet that is in the cache still signs after the route that removes it has answered, although
  its row is gone.
\<close>

theorem removed_wallet_signs:
  assumes "prisma_table (wv_wallets W) rows" and "removeBackendWallet W q0 s = (Inr v, s')"
    and "jprop (hq_params q0) ''walletAddress'' = JStr a" and "jprop (hq_headers q) ''x-backend-wallet-address'' = JStr a"
    and "sk_wallets (wl_sdk s) (getAccountCacheKey 1 a None) = Some wallet"
    and "e_getSigner (ys_env V) wallet = Inr signer" and "jprop (hq_body q) ''isBytes'' = JUndefined"
  shows "rows (wl_rows s') (toLowerCase a) = None
    \<and> fst (with_sdk V W (\<lambda>V. signMessage W V q) s')
       = map_sum id signed_reply (wv_signMessage W signer (jprop (hq_body q) ''message''))"
proof -
  have s': "s' = s\<lparr>wl_rows := snd (t_delete (wv_wallets W) (toLowerCase a) (wl_rows s))\<rparr>"
    using assms(2,3) by (auto simp: removeBackendWallet_def deleteWalletDetails_def bnd_apply on_wallets_apply split: sum.splits)
  then have "rows (wl_rows s') (toLowerCase a) = None" by (simp add: prisma_table.law_delete [OF assms(1)])
  moreover have "sk_wallets (wl_sdk s') (getAccountCacheKey 1 a None) = Some wallet" using assms(5) s' by simp
  ultimately show ?thesis using assms(4,6,7)
    by (simp add: with_sdk_apply signMessage_def header_signer_def getWallet_def wallet_cached_def bnd_apply Let_def wallet_sys_def
        split: sum.split)
qed

definition sample_remove :: request where
  "sample_remove = \<lparr>hq_params = JObj [(''walletAddress'', JStr ''0xAb'')], hq_query = JUndefined,
     hq_body = JObj [(''message'', JStr ''m'')], hq_headers = JObj [(''x-backend-wallet-address'', JStr ''0xAb'')]\<rparr>"

text \<open>The wallet created above, once it has signed.\<close>

definition cached_state :: "(mem, (string, wallet_row) mem_rows) wallet_state" where
  "cached_state = (let s = snd (createBackendWallet sample_sys sample_wallet_env sample_label aws_state) in
     s\<lparr>wl_sdk := (wl_sdk s)\<lparr>sk_wallets := [getAccountCacheKey 1 ''0xAb'' None \<mapsto> ''w'']\<rparr>\<rparr>)"

theorem removed_wallet_signs_witness:
  "fst (with_sdk sample_sys sample_wallet_env (\<lambda>V. signMessage sample_wallet_env V sample_remove)
     (snd (removeBackendWallet sample_wallet_env sample_remove cached_state))) = Inr (signed_reply (JStr ''w''))"
proof -
  let ?r = "removeBackendWallet sample_wallet_env sample_remove cached_state"
  have "fst ?r = Inr (JObj [(''result'', JObj [(''status'', JStr ''success'')])])"
    by (simp add: removeBackendWallet_def deleteWalletDetails_def bnd_apply on_wallets_apply sample_remove_def cached_state_def
        sample_created sample_lower Let_def sample_wallet_table mem_table_def)
  then obtain v where r: "?r = (Inr v, snd ?r)" by (auto simp: prod_eq_iff)
  have cached: "sk_wallets (wl_sdk cached_state) (getAccountCacheKey 1 ''0xAb'' None) = Some ''w''"
    by (simp add: cached_state_def Let_def)
  have env: "e_getSigner (ys_env sample_sys) ''w'' = Inr ''w''" "wv_signMessage sample_wallet_env ''w'' m = Inr (JStr ''w'')" for m
    by (simp_all add: sample_sys_def mem_env_def sample_wallet_env_def)
  show ?thesis
    using removed_wallet_signs [OF sample_wallets r _ _ cached env(1), of sample_remove] by (simp add: env(2)) (simp add: sample_remove_def)
qed


definition sample_raw :: js_val where
  "sample_raw = JObj [(''toAddress'', JStr ''0xd''), (''data'', JStr ''0x''), (''value'', JStr ''0'')]"

lemma sample_batch_insert: "fst (batch_insert sample_sys u inserted s) = Inr u"
proof -
  have env: "engine (ys_env sample_sys) mem_view" using mem_engine.engine_axioms by (simp add: sample_sys_def)
  let ?E = "ys_env (fresh_id sample_sys u)"
  have q: "queue_id ?E None = u" by (simp add: queue_id_def fresh_id_def sample_sys_def)
  obtain t where t: "insert_result ?E inserted u (clock (sk_world s)) = Inr t"
    by (simp add: insert_result_def checksum_plain fresh_id_def sample_sys_def mem_env_def Let_def split: option.split)
  show ?thesis
    using engine.insert_new [OF engine_fresh [OF env], of None "sk_world s" u inserted t False]
      engine.insert_tail_stores(1) [OF engine_fresh [OF env], of t u False u] insert_result_queued [OF t] t
    by (simp add: batch_insert_def at_w_apply q)
qed


end
