(* ===== verification/Chain_Routes.thy ===== *)
theory Chain_Routes
  imports Sdk_Access
begin

text \<open>
  The routes on chains, receipts and logs of transactions, signed transactions, the health of the system and the
  queues, and the lists of webhooks and deployed contracts (\<open>src/server/routes/chain\<close>,
  \<open>src/server/routes/transaction/blockchain\<close>, \<open>src/server/routes/system\<close>, \<open>src/server/routes/home.ts\<close>,
  \<open>src/server/routes/webhooks\<close>), with the helpers of \<open>src/utils/math.ts\<close> and \<open>src/utils/sdk.ts\<close>. The
  answers of a node and of the bundler, the parsing of logs and the counters of the queues are parameters.
\<close>

section \<open>Environment\<close>

text \<open>
  A receipt as the SDK answers it: \<open>cr_json\<close> is what \<open>JSON.parse(stringify(receipt))\<close> makes of it.
\<close>

record chain_receipt =
  cr_json :: js_val
  cr_to :: "string option"
  cr_logs :: js_val
  cr_gasUsed :: int
  cr_cumulativeGasUsed :: int
  cr_effectiveGasPrice :: int
  cr_blockNumber :: int
  cr_type :: string
  cr_status :: string

text \<open>The reply of the bundler: its status, its text, and its body as JSON.\<close>

record bundler_reply =
  br_status :: int
  br_text :: "js_error + string"
  br_json :: "js_error + js_val"

record chain_env =
  cn_receipt :: "chain_info \<Rightarrow> string \<Rightarrow> js_error + chain_receipt option"
  cn_toHex :: "int \<Rightarrow> string"
  cn_resolveAbi :: "sdk_contract \<Rightarrow> js_error + js_val list"
  cn_parseLogs :: "js_val list \<Rightarrow> js_val \<Rightarrow> js_error + js_val"
  cn_serialize :: "js_val \<Rightarrow> js_val"
  cn_isHex :: "string \<Rightarrow> bool"
  cn_sendRaw :: "chain_info \<Rightarrow> string \<Rightarrow> js_error + string"
  cn_bundler :: "int \<Rightarrow> string \<Rightarrow> js_val list \<Rightarrow> js_error + bundler_reply"
  cn_decodeUserOp :: "string \<Rightarrow> js_error + js_val"
  cn_fetchChains :: "js_error + js_val list option"
  cn_chainData :: "chain_info \<Rightarrow> js_error + js_val"
  cn_findFirstWallet :: "js_error + unit"
  cn_ping :: "js_error + unit"
  cn_ENGINE_VERSION :: "string option"
  cn_ENGINE_TIER :: "string option"
  cn_ENABLE_KEYPAIR_AUTH :: bool
  cn_sendQueueWaiting :: int
  cn_mineQueueWaiting :: int

section \<open>Helpers\<close>

definition toTransactionStatus :: "string \<Rightarrow> int" where
  "toTransactionStatus status = (if status = ''success'' then 1 else 0)"

definition toTransactionType :: "string \<Rightarrow> js_error + int" where
  "toTransactionType kind =
     (if kind = ''legacy'' then Inr 0
      else if kind = ''eip1559'' then Inr 1
      else if kind = ''eip2930'' then Inr 2
      else if kind = ''eip4844'' then Inr 3
      else if kind = ''eip7702'' then Inr 4
      else Inl (js_Error (''Unexpected transaction type '' @ kind)))"

text \<open>
  \<open>getPercentile\<close>: the index is rounded down. The source computes it in floating point, which agrees for
  the two percentiles in use.
\<close>

definition getPercentile :: "int list \<Rightarrow> nat \<Rightarrow> int" where
  "getPercentile arr percentile = (if arr = [] then 0 else sort arr ! (percentile * (length arr - 1) div 100))"

section \<open>Chains\<close>

text \<open>\<open>{ ...chain, rpc: [...chain.rpc] }\<close>; spreading what is not a list throws.\<close>

definition copy_chain :: "js_val \<Rightarrow> js_expr" where
  "copy_chain chain = js_obj [js_spread (Inr chain), js_field ''rpc'' (js_map Inr (js_dot (Inr chain) ''rpc''))]"

definition getChainData :: "chain_env \<Rightarrow> 'w handler" where
  "getChainData N V q =
     bnd (chainIdFrom V (jprop (hq_query q) ''chain'')) (\<lambda>chainId.
     bnd (at_w (getChain (ys_env V) chainId)) (\<lambda>chainV5.
     bnd (lift_res (cn_chainData N chainV5)) (\<lambda>chainMetadata.
     lift_res (js_obj [js_field ''result'' (copy_chain chainMetadata)]))))"

text \<open>A chain of the configuration; \<open>[...chain.rpc]\<close> of a string is the list of its characters.\<close>

definition override_chain :: "chain_override \<Rightarrow> js_val" where
  "override_chain c = JObj [(''chainId'', case ov_id c of None \<Rightarrow> JUndefined | Some n \<Rightarrow> JNum (Some n)),
     (''name'', JStr (case ov_name c of None \<Rightarrow> [] | Some n \<Rightarrow> n)),
     (''rpc'', JList (map (\<lambda>x. JStr [x]) (case ov_rpc c of None \<Rightarrow> [] | Some r \<Rightarrow> r))),
     (''nativeCurrency'', case ov_nativeCurrency c of
        None \<Rightarrow> JObj [(''name'', JStr ''Ether''), (''symbol'', JStr ''ETH''), (''decimals'', JNum (Some 18))]
      | Some n \<Rightarrow> JObj [(''name'', JStr (nc_name n)), (''symbol'', JStr (nc_symbol n)), (''decimals'', JNum (Some (nc_decimals n)))]),
     (''testnet'', JBool (case ov_testnet c of None \<Rightarrow> False | Some t \<Rightarrow> t)), (''chain'', JStr []), (''shortName'', JStr []),
     (''slug'', JStr [])]"

definition getAllChainData :: "chain_env \<Rightarrow> 'w handler" where
  "getAllChainData N V q =
     bnd (lift_res (cn_fetchChains N)) (\<lambda>fetched.
     bnd (at_w (getConfig (ys_env V) True)) (\<lambda>config.
     let overrides = cfg_chainOverridesParsed config;
         allChains = (case fetched of None \<Rightarrow> [] | Some cs \<Rightarrow> cs) @ map override_chain overrides in
     bnd (lift_res (if \<exists>c \<in> set overrides. ov_rpc c = None then Inl js_TypeError else Inr ())) (\<lambda>_.
     lift_res (js_obj [js_field ''result'' (js_arr (map copy_chain allChains))]))))"

section \<open>The system\<close>

definition home :: js_val where
  "home = JObj [(''message'', JStr
     ''Engine is set up successfully. Manage your Engine from https://thirdweb.com/dashboard/engine.'')]"

definition isDatabaseReachable :: "chain_env \<Rightarrow> bool" where
  "isDatabaseReachable N = (case cn_findFirstWallet N of Inl e \<Rightarrow> False | Inr _ \<Rightarrow> True)"

definition isRedisReachable :: "chain_env \<Rightarrow> bool" where
  "isRedisReachable N = (case cn_ping N of Inl e \<Rightarrow> False | Inr _ \<Rightarrow> True)"

text \<open>The client of Redis always exists, so that contract subscriptions are always a feature.\<close>

definition getFeatures :: "chain_env \<Rightarrow> string list" where
  "getFeatures N = [''IP_ALLOWLIST''] @ (if cn_ENABLE_KEYPAIR_AUTH N then [''KEYPAIR_AUTH''] else []) @ [''CONTRACT_SUBSCRIPTIONS'']"

definition healthCheck :: "chain_env \<Rightarrow> js_error + js_val" where
  "healthCheck N =
     (if \<not> isDatabaseReachable N then Inl (createCustomError ''The database is unreachable.'' 503 ''FAILED_HEALTHCHECK'')
      else if \<not> isRedisReachable N then Inl (createCustomError ''Redis is unreachable.'' 503 ''FAILED_HEALTHCHECK'')
      else Inr (JObj [(''status'', JStr ''OK''), (''engineVersion'', of_opt (cn_ENGINE_VERSION N)),
        (''engineTier'', JStr (case cn_ENGINE_TIER N of None \<Rightarrow> ''SELF_HOSTED'' | Some t \<Rightarrow> t)),
        (''features'', JList (map JStr (getFeatures N)))]))"

definition latency :: "int list \<Rightarrow> js_val" where
  "latency ms = JObj [(''p50'', JNum (Some (getPercentile ms 50))), (''p90'', JNum (Some (getPercentile ms 90)))]"

text \<open>The time from the queue to sending and to mining; a missing time throws.\<close>

definition queue_times :: "transaction \<Rightarrow> js_error + (int \<times> int)" where
  "queue_times t = (case (tx_sentAt t, tx_minedAt t) of
       (Some sentAt, Some minedAt) \<Rightarrow> Inr (sentAt - tx_queuedAt t, minedAt - tx_queuedAt t)
     | _ \<Rightarrow> Inl js_TypeError)"

definition queueStatus :: "chain_env \<Rightarrow> 'w sdk_sys \<Rightarrow> ('w sdk_state, js_val) io" where
  "queueStatus N V =
     (let E = ys_env V in
      bnd (at_w (redis_do (getTransactionListByStatus (e_redis E) (e_codec E) (e_batchSize E) Mined 1 1000))) (\<lambda>(minedTransactions, totalCount).
      bnd (lift_res (map_res queue_times minedTransactions)) (\<lambda>times.
      ret (JObj [(''result'', JObj [(''queued'', JNum (Some (cn_sendQueueWaiting N))), (''pending'', JNum (Some (cn_mineQueueWaiting N))),
        (''latency'', JObj [(''msToSend'', latency (map fst times)), (''msToMine'', latency (map snd times))])])]))))"

section \<open>Receipts and logs\<close>

definition not_mined :: "string \<Rightarrow> js_error" where
  "not_mined message = createCustomError message 400 ''TRANSACTION_NOT_MINED''"

text \<open>A receipt that is \<open>null\<close> is not tested for and throws when its fields are read.\<close>

definition getTransactionReceipt :: "chain_env \<Rightarrow> 'w handler" where
  "getTransactionReceipt N V q =
     bnd (chainIdFrom V (jprop (hq_params q) ''chain'')) (\<lambda>chainId.
     bnd (at_w (getChain (ys_env V) chainId)) (\<lambda>chain.
     bnd (try_catch (lift_res (cn_receipt N chain (js_text (jprop (hq_params q) ''transactionHash''))))
            (\<lambda>_. throw (not_mined ''Transaction is not mined.''))) (\<lambda>receipt.
     case receipt of
       None \<Rightarrow> throw js_TypeError
     | Some r \<Rightarrow> lift_res (js_obj [js_field ''result'' (js_obj [js_spread (Inr (cr_json r)),
         js_field ''gasUsed'' (Inr (JStr (cn_toHex N (cr_gasUsed r)))),
         js_field ''cumulativeGasUsed'' (Inr (JStr (cn_toHex N (cr_cumulativeGasUsed r)))),
         js_field ''effectiveGasPrice'' (Inr (JStr (cn_toHex N (cr_effectiveGasPrice r)))),
         js_field ''blockNumber'' (Inr (JNum (Some (cr_blockNumber r)))),
         js_field ''type'' (map_sum id (\<lambda>n. JNum (Some n)) (toTransactionType (cr_type r))),
         js_field ''status'' (Inr (JNum (Some (toTransactionStatus (cr_status r)))))])]))))"

text \<open>The hash of a request for logs: of a mined transaction of the queue, or the one that is given.\<close>

definition logs_hash :: "'w sdk_sys \<Rightarrow> js_val \<Rightarrow> js_val \<Rightarrow> ('w sdk_state, string option) io" where
  "logs_hash V queueId transactionHash =
     (if js_truthy queueId then
        bnd (at_w (db_get (ys_env V) (js_text queueId))) (\<lambda>transaction.
        ret (case transaction of None \<Rightarrow> None
           | Some t \<Rightarrow> if tx_status t = Mined then tx_transactionHash t else None))
      else ret (js_opt transactionHash))"

definition is_event :: "js_val \<Rightarrow> bool" where
  "is_event item \<longleftrightarrow> jprop item ''type'' = JStr ''event''"

definition getTransactionLogs :: "chain_env \<Rightarrow> 'w handler" where
  "getTransactionLogs N V q =
     (let queueId = jprop (hq_query q) ''queueId''; transactionHash = jprop (hq_query q) ''transactionHash'';
          parseLogs = (jprop (hq_query q) ''parseLogs'' = JUndefined \<or> js_truthy (jprop (hq_query q) ''parseLogs'')) in
      bnd (chainIdFrom V (jprop (hq_query q) ''chain'')) (\<lambda>chainId.
      bnd (at_w (getChain (ys_env V) chainId)) (\<lambda>chain.
      if \<not> js_truthy queueId \<and> \<not> js_truthy transactionHash
      then throw (createCustomError ''Either a queue ID or transaction hash must be provided.'' 400 ''MISSING_TRANSACTION_ID'')
      else
        bnd (logs_hash V queueId transactionHash) (\<lambda>hash.
        if \<not> truthy hash then throw (not_mined ''Could not find transaction, or transaction is not mined.'')
        else
          bnd (lift_res (cn_receipt N chain (the hash))) (\<lambda>receipt.
          case receipt of
            None \<Rightarrow> throw (not_mined ''Cannot get logs for a transaction that is not mined.'')
          | Some r \<Rightarrow>
              if \<not> parseLogs then ret (JObj [(''result'', cn_serialize N (cr_logs r))])
              else if \<not> truthy (cr_to r)
              then throw (createCustomError ''Transaction logs are only supported for contract calls.'' 400 ''TRANSACTION_LOGS_UNAVAILABLE'')
              else
                bnd (lift_res (cn_resolveAbi N (v_contractV5 (ys_sdk V) chain (the (cr_to r)) JUndefined))) (\<lambda>abi.
                let eventSignatures = filter is_event abi in
                if eventSignatures = []
                then throw (createCustomError ''No events found in contract or could not resolve contract ABI'' 400 ''NO_EVENTS_FOUND'')
                else
                  bnd (lift_res (cn_parseLogs N eventSignatures (cr_logs r))) (\<lambda>parsedLogs.
                  ret (JObj [(''result'', cn_serialize N parsedLogs)]))))))))"

text \<open>Whatever fails after the chain is known ends in one error of status 500.\<close>

definition getUserOpReceipt :: "chain_env \<Rightarrow> 'w handler" where
  "getUserOpReceipt N V q =
     bnd (chainIdFrom V (jprop (hq_params q) ''chain'')) (\<lambda>chainId.
     try_catch
       (bnd (lift_res (cn_bundler N chainId ''eth_getUserOperationReceipt'' [jprop (hq_params q) ''userOpHash''])) (\<lambda>resp.
        if \<not> (200 \<le> br_status resp \<and> br_status resp < 300)
        then bnd (lift_res (br_text resp)) (\<lambda>text.
          throw (JsString (''Unexpected status '' @ show_int (br_status resp) @ '' - '' @ text)))
        else bnd (lift_res (br_json resp)) (\<lambda>json. lift_res (js_obj [js_field ''result'' (js_dot (Inr json) ''result'')]))))
       (\<lambda>_. throw (createCustomError ''Unable to get receipt.'' 500 ''UserOpReceiptError'')))"

section \<open>Signed transactions\<close>

definition sendSignedTransaction :: "chain_env \<Rightarrow> 'w handler" where
  "sendSignedTransaction N V q =
     (let signedTransaction = js_text (jprop (hq_body q) ''signedTransaction'') in
      bnd (chainIdFrom V (jprop (hq_params q) ''chain'')) (\<lambda>chainId.
      if \<not> cn_isHex N signedTransaction
      then throw (createCustomError ''SignedTransaction is not a valid hex string.'' 400 ''SendSignedTxError'')
      else
        bnd (at_w (getChain (ys_env V) chainId)) (\<lambda>chain.
        bnd (lift_res (cn_sendRaw N chain signedTransaction)) (\<lambda>transactionHash.
        ret (JObj [(''result'', JObj [(''transactionHash'', JStr transactionHash)])])))))"

definition ENTRY_POINT :: string where
  "ENTRY_POINT = ''0x5FF137D4b0FDCD49DcA30c7CF57E578a026d2789''"

definition message_reply :: "string \<Rightarrow> int \<times> js_val" where
  "message_reply message = (400, JObj [(''error'', JObj [(''message'', JStr message)])])"

text \<open>\<open>x.message || x\<close> in a template, for an error of the decoder and for one of the bundler.\<close>

definition error_message_or :: "js_error \<Rightarrow> string" where
  "error_message_or e = (case err_message_of e of None \<Rightarrow> show_error e | Some m \<Rightarrow> if m = [] then show_error e else m)"

definition val_message_or :: "js_val \<Rightarrow> string" where
  "val_message_or v = (if js_truthy (jprop v ''message'') then js_text (jprop v ''message'') else js_text v)"

text \<open>The status and the body of the reply.\<close>

definition sendSignedUserOp :: "chain_env \<Rightarrow> 'w sdk_sys \<Rightarrow> request \<Rightarrow> ('w sdk_state, int \<times> js_val) io" where
  "sendSignedUserOp N V q =
     bnd (chainIdFrom V (jprop (hq_params q) ''chain'')) (\<lambda>chainId.
     case (case jprop (hq_body q) ''signedUserOp'' of JStr s \<Rightarrow> cn_decodeUserOp N s | v \<Rightarrow> Inr v) of
       Inl err \<Rightarrow> ret (message_reply (''Invalid signed user operation. - '' @ error_message_or err))
     | Inr userOp \<Rightarrow>
         bnd (lift_res (cn_bundler N chainId ''eth_sendUserOperation'' [userOp, JStr ENTRY_POINT])) (\<lambda>userOpRes.
         bnd (lift_res (br_json userOpRes)) (\<lambda>json.
         bnd (lift_res (js_dot (Inr json) ''error'')) (\<lambda>error.
         if js_truthy error then ret (message_reply (''Failed to send - '' @ val_message_or error))
         else ret (200, JObj [(''result'', JObj [(''userOpHash'', jprop json ''result'')])])))))"

section \<open>Lists\<close>

definition getAllDeployedContracts ::
  "'w sdk_sys \<Rightarrow> (string list \<Rightarrow> string) \<Rightarrow> int \<Rightarrow> int \<Rightarrow> ('w sdk_state, tx_schema list) io" where
  "getAllDeployedContracts V showArgs page limit =
     (let E = ys_env V in
      bnd (at_w (redis_do (getTransactionListByStatus (e_redis E) (e_codec E) (e_batchSize E) Queued page limit))) (\<lambda>(transactions, totalCount).
      lift_res (map_res (toTransactionSchema showArgs) (filter (\<lambda>t. truthy (tx_deployedContractAddress t)) transactions))))"

definition getWebhooksEventTypes :: "string list" where
  "getWebhooksEventTypes = map event_string [QUEUED_TX, SENT_TX, MINED_TX, ERRORED_TX, CANCELLED_TX, ALL_TX,
     BACKEND_WALLET_BALANCE, AUTH, CONTRACT_SUBSCRIPTION]"

definition getAllWebhooksData :: "'w env \<Rightarrow> js_error + webhook_schema list" where
  "getAllWebhooksData E = map_sum id (map toWebhookSchema) (e_allWebhooks E)"

section \<open>Percentiles\<close>

lemma percentile_index: "n > 0 \<Longrightarrow> p \<le> 100 \<Longrightarrow> p * (n - 1) div 100 < (n :: nat)"
proof -
  assume "n > 0" "p \<le> 100"
  then have "p * (n - 1) div 100 \<le> 100 * (n - 1) div 100" by (intro div_le_mono mult_right_mono) auto
  then show ?thesis using \<open>n > 0\<close> by simp
qed

lemma sorted_below: "sorted xs \<Longrightarrow> i < length xs \<Longrightarrow> Suc i \<le> length (filter (\<lambda>x. x \<le> xs ! i) xs)"
proof -
  assume s: "sorted xs" and i: "i < length xs"
  have "filter (\<lambda>x. x \<le> xs ! i) (take (Suc i) xs) = take (Suc i) xs"
    using s i by (auto simp: in_set_conv_nth sorted_iff_nth_mono intro!: filter_True)
  then have "length (take (Suc i) xs) \<le> length (filter (\<lambda>x. x \<le> xs ! i) xs)"
    by (metis append_take_drop_id filter_append length_append le_add1)
  then show ?thesis using i by simp
qed

text \<open>
  the percentile of a list is one of its elements, and at least that share of the list, rounded down
  as the source does, is not above it.
\<close>

theorem percentile_bounds:
  assumes "arr \<noteq> []" and "p \<le> 100"
  shows "getPercentile arr p \<in> set arr
    \<and> Suc (p * (length arr - 1) div 100) \<le> length (filter (\<lambda>x. x \<le> getPercentile arr p) arr)"
proof -
  let ?i = "p * (length arr - 1) div 100"
  have i: "?i < length (sort arr)" using percentile_index [of "length arr" p] assms by simp
  have "filter P (sort arr) = sort (filter P arr)" for P :: "int \<Rightarrow> bool"
    by (rule filter_sort)
  then have "length (filter P arr) = length (filter P (sort arr))" for P :: "int \<Rightarrow> bool" by simp
  then show ?thesis using sorted_below [of "sort arr" ?i] i nth_mem [OF i] assms(1)
    by (simp add: getPercentile_def)
qed

theorem percentile_bounds_witness:
  "getPercentile [30, 10, 20] 90 = 20 \<and> getPercentile [30, 10, 20] 90 \<in> set [30, 10, 20]"
  using percentile_bounds [of "[30, 10, 20]" 90] by (simp add: getPercentile_def)

end
