(* ===== verification/Migration_Worker.thy ===== *)
theory Migration_Worker
  imports Tx_Routes Engine_Config Prisma_Table
begin

text \<open>
  The worker that moves transactions of the old table in Postgres to Redis
  (\<open>src/worker/tasks/migratePostgresTransactionsWorker.ts\<close>): the rows that were sent and the rows that
  are queued are read in two database transactions, stored with \<open>TransactionDB.set\<close>, put into the queue of
  the mine or the send worker, and marked as cancelled in the table. A row that cannot be converted is
  logged and stays. The rows that another host has locked are not in the table of a run.
\<close>

section \<open>The table and its rows\<close>

text \<open>The columns the worker reads or writes; the chain id is the number its text is read as.\<close>

record old_row =
  ow_id :: string
  ow_idempotencyKey :: string
  ow_chainId :: int
  ow_data :: "string option"
  ow_value :: "string option"
  ow_gasLimit :: "string option"
  ow_nonce :: "int option"
  ow_maxFeePerGas :: "string option"
  ow_maxPriorityFeePerGas :: "string option"
  ow_fromAddress :: "string option"
  ow_toAddress :: "string option"
  ow_gasPrice :: "string option"
  ow_transactionHash :: "string option"
  ow_signerAddress :: "string option"
  ow_accountAddress :: "string option"
  ow_target :: "string option"
  ow_sender :: "string option"
  ow_userOpHash :: "string option"
  ow_functionName :: "string option"
  ow_functionArgs :: "string option"
  ow_extension :: "string option"
  ow_deployedContractAddress :: "string option"
  ow_deployedContractType :: "string option"
  ow_queuedAt :: int
  ow_sentAt :: "int option"
  ow_minedAt :: "int option"
  ow_cancelledAt :: "int option"
  ow_errorMessage :: "string option"
  ow_sentAtBlockNumber :: "int option"

text \<open>The table with \<open>updateMany\<close>, and the answer of \<open>getConfig\<close>.\<close>

record 'd migration_env =
  mv_rows :: "('d, string, old_row) table"
  mv_updateMany :: "(old_row \<Rightarrow> bool) \<Rightarrow> (old_row \<Rightarrow> old_row) \<Rightarrow> ('d, int) io"
  mv_getConfig :: "js_error + full_config"

record ('w, 'd) migration_state =
  mg_world :: "'w world"
  mg_rows :: 'd

definition on_world :: "('w world, 'a) io \<Rightarrow> (('w, 'd) migration_state, 'a) io" where
  "on_world m = (\<lambda>s. case m (mg_world s) of (r, w) \<Rightarrow> (r, s\<lparr>mg_world := w\<rparr>))"

definition on_rows :: "('d, 'a) io \<Rightarrow> (('w, 'd) migration_state, 'a) io" where
  "on_rows m = (\<lambda>s. case m (mg_rows s) of (r, d) \<Rightarrow> (r, s\<lparr>mg_rows := d\<rparr>))"

lemma on_world_apply [io_simps]: "on_world m s = (fst (m (mg_world s)), s\<lparr>mg_world := snd (m (mg_world s))\<rparr>)"
  by (simp add: on_world_def split: prod.split)

lemma on_rows_apply [io_simps]: "on_rows m s = (fst (m (mg_rows s)), s\<lparr>mg_rows := snd (m (mg_rows s))\<rparr>)"
  by (simp add: on_rows_def split: prod.split)

text \<open>\<open>prisma.$transaction\<close>: what throws leaves the table as it was; Redis and the queues keep what was done.\<close>

definition in_transaction :: "(('w, 'd) migration_state, 'a) io \<Rightarrow> (('w, 'd) migration_state, 'a) io" where
  "in_transaction m = (\<lambda>s. case m s of (Inl e, s') \<Rightarrow> (Inl e, s'\<lparr>mg_rows := mg_rows s\<rparr>) | (Inr a, s') \<Rightarrow> (Inr a, s'))"

locale old_table = prisma_table "mv_rows M" rows
  for M :: "'d migration_env" and rows :: "'d \<Rightarrow> string \<Rightarrow> old_row option" +
  assumes law_updateMany: "fst (mv_updateMany M p f d) = Inr (int (card {k. \<exists>v. rows d k = Some v \<and> p v}))"
    "rows (snd (mv_updateMany M p f d)) = (\<lambda>k. map_option (\<lambda>v. if p v then f v else v) (rows d k))"

section \<open>Converting a row\<close>

definition row_amount :: "'w env \<Rightarrow> string option \<Rightarrow> js_error + int option" where
  "row_amount E val = maybeBigInt val (e_BigInt E)"

definition toQueuedTransaction :: "'w env \<Rightarrow> old_row \<Rightarrow> js_error + transaction" where
  "toQueuedTransaction E row =
     (if \<not> truthy (ow_fromAddress row) then Inl js_AssertionError
      else if \<not> truthy (ow_data row) then Inl js_AssertionError
      else
        (case (if truthy (ow_value row) then e_BigInt E (the (ow_value row)) else Inr 0) of Inl e \<Rightarrow> Inl e | Inr amount \<Rightarrow>
        (case row_amount E (ow_gasLimit row) of Inl e \<Rightarrow> Inl e | Inr gas \<Rightarrow>
        (case row_amount E (ow_gasPrice row) of Inl e \<Rightarrow> Inl e | Inr gasPrice \<Rightarrow>
        (case row_amount E (ow_maxFeePerGas row) of Inl e \<Rightarrow> Inl e | Inr maxFee \<Rightarrow>
        (case row_amount E (ow_maxPriorityFeePerGas row) of Inl e \<Rightarrow> Inl e | Inr maxPriority \<Rightarrow>
        Inr (queued_of
          ((no_inserted (ow_chainId row) (toLowerCase (the (ow_fromAddress row))))\<lparr>
             tx_isUserOp := truthy (ow_accountAddress row), tx_to := normalizeAddress (ow_toAddress row),
             tx_value := Some amount, tx_data := ow_data row, tx_functionName := ow_functionName row,
             tx_functionArgs := map_option (js_split (CHR '','')) (ow_functionArgs row),
             tx_gas := gas, tx_gasPrice := gasPrice, tx_maxFeePerGas := maxFee, tx_maxPriorityFeePerGas := maxPriority,
             tx_deployedContractAddress := normalizeAddress (ow_deployedContractAddress row),
             tx_deployedContractType := ow_deployedContractType row, tx_extension := ow_extension row,
             tx_signerAddress := normalizeAddress (ow_signerAddress row),
             tx_accountAddress := normalizeAddress (ow_accountAddress row),
             tx_target := normalizeAddress (ow_target row), tx_sender := normalizeAddress (ow_sender row)\<rparr>)
          (ow_idempotencyKey row) (ow_queuedAt row))))))))"

text \<open>The assertions on numbers fail for 0 as well as for \<open>null\<close>.\<close>

definition truthy_number :: "int option \<Rightarrow> bool" where
  "truthy_number n \<longleftrightarrow> n \<noteq> None \<and> n \<noteq> Some 0"

definition toSentTransaction :: "'w env \<Rightarrow> old_row \<Rightarrow> js_error + transaction" where
  "toSentTransaction E row =
     (if ow_sentAt row = None then Inl js_AssertionError
      else if \<not> truthy_number (ow_sentAtBlockNumber row) then Inl js_AssertionError
      else
        (case toQueuedTransaction E row of Inl e \<Rightarrow> Inl e | Inr queued \<Rightarrow>
         let sent = queued\<lparr>tx_status := Sent, tx_sentAt := ow_sentAt row, tx_sentAtBlock := ow_sentAtBlockNumber row\<rparr> in
         if tx_isUserOp queued
         then (if \<not> truthy (ow_userOpHash row) then Inl js_AssertionError
               else Inr (sent\<lparr>tx_nonce := Some (StrNonce []), tx_userOpHash := ow_userOpHash row\<rparr>))
         else if \<not> truthy (ow_transactionHash row) then Inl js_AssertionError
         else if \<not> truthy_number (ow_nonce row) then Inl js_AssertionError
         else Inr (sent\<lparr>tx_nonce := Some (NumNonce (ow_nonce row)),
                tx_sentTransactionHashes := Some [the (ow_transactionHash row)]\<rparr>)))"

section \<open>The runs\<close>

definition unfinished :: "old_row \<Rightarrow> bool" where
  "unfinished row \<longleftrightarrow> ow_minedAt row = None \<and> ow_cancelledAt row = None \<and> ow_errorMessage row = None"

definition negative_limit :: js_error where
  "negative_limit = JsObject (Some ''LIMIT must not be negative'') (Some ''P2010'') None"

text \<open>The order by nonce has the rows without one at the end.\<close>

definition nonce_order :: "old_row \<Rightarrow> int list" where
  "nonce_order row = (case ow_nonce row of None \<Rightarrow> [1] | Some n \<Rightarrow> [0, n])"

definition select_rows :: "'d migration_env \<Rightarrow> (old_row \<Rightarrow> bool) \<Rightarrow> (old_row \<Rightarrow> int list) \<Rightarrow> int \<Rightarrow> (('w, 'd) migration_state, old_row list) io" where
  "select_rows M p order limit =
     (if limit < 0 then throw negative_limit else on_rows (t_page (mv_rows M) p order (nat limit)))"

definition getSentPostgresTransactions :: "'d migration_env \<Rightarrow> (('w, 'd) migration_state, old_row list) io" where
  "getSentPostgresTransactions M =
     bnd (lift_res (mv_getConfig M)) (\<lambda>config.
     select_rows M (\<lambda>row. ow_sentAt row \<noteq> None \<and> unfinished row) nonce_order (fc_maxTxsToUpdate config))"

definition getQueuedPostgresTransactions :: "'d migration_env \<Rightarrow> (('w, 'd) migration_state, old_row list) io" where
  "getQueuedPostgresTransactions M =
     bnd (lift_res (mv_getConfig M)) (\<lambda>config.
     select_rows M (\<lambda>row. ow_sentAt row = None \<and> unfinished row) (\<lambda>row. [ow_queuedAt row]) (fc_maxTxsToProcess config))"

definition cancelPostgresTransactions :: "'d migration_env \<Rightarrow> string list \<Rightarrow> (('w, 'd) migration_state, unit) io" where
  "cancelPostgresTransactions M queueIds =
     (if queueIds = [] then ret ()
      else
        bnd (on_world new_Date) (\<lambda>cancelledAt.
        bnd (on_rows (mv_updateMany M (\<lambda>row. ow_id row \<in> set queueIds) (\<lambda>row. row\<lparr>ow_cancelledAt := Some cancelledAt\<rparr>)))
          (\<lambda>_. ret ())))"

text \<open>The loop over the rows, with the ids that are to be cancelled.\<close>

fun migrate_rows ::
  "'w env \<Rightarrow> (old_row \<Rightarrow> js_error + transaction) \<Rightarrow> (transaction \<Rightarrow> ('w world, unit) io) \<Rightarrow> old_row list
   \<Rightarrow> ('w world, string list) io" where
  "migrate_rows E convert add [] = ret []"
| "migrate_rows E convert add (row # rows) =
     bnd (try_catch
            (bnd (lift_res (convert row)) (\<lambda>t. bnd (db_set E t) (\<lambda>_. bnd (add t) (\<lambda>_. ret [ow_id row]))))
            (\<lambda>_. ret [])) (\<lambda>migrated.
     bnd (migrate_rows E convert add rows) (\<lambda>toCancel. ret (migrated @ toCancel)))"

definition migrateSent :: "'w env \<Rightarrow> 'd migration_env \<Rightarrow> (('w, 'd) migration_state, unit) io" where
  "migrateSent E M = in_transaction
     (bnd (getSentPostgresTransactions M) (\<lambda>sentTransactionRows.
      bnd (on_world (migrate_rows E (toSentTransaction E) (\<lambda>t. MineTransactionQueue_add (tx_queueId t)) sentTransactionRows)) (\<lambda>toCancel.
      cancelPostgresTransactions M toCancel)))"

definition migrateQueued :: "'w env \<Rightarrow> 'd migration_env \<Rightarrow> (('w, 'd) migration_state, unit) io" where
  "migrateQueued E M = in_transaction
     (bnd (getQueuedPostgresTransactions M) (\<lambda>queuedTransactionRows.
      bnd (on_world (migrate_rows E (toQueuedTransaction E) (\<lambda>t. SendTransactionQueue_add (tx_queueId t) 0) queuedTransactionRows)) (\<lambda>toCancel.
      cancelPostgresTransactions M toCancel)))"

definition migrateHandler :: "'w env \<Rightarrow> 'd migration_env \<Rightarrow> (('w, 'd) migration_state, unit) io" where
  "migrateHandler E M = bnd (migrateSent E M) (\<lambda>_. migrateQueued E M)"

section \<open>One loop\<close>

definition converted :: "(old_row \<Rightarrow> js_error + transaction) \<Rightarrow> old_row list \<Rightarrow> old_row list" where
  "converted convert rs = filter (\<lambda>r. \<not> isl (convert r)) rs"

text \<open>A conversion gives a queued or sent transaction under the idempotency key of the row.\<close>

definition converts :: "(old_row \<Rightarrow> js_error + transaction) \<Rightarrow> bool" where
  "converts convert \<longleftrightarrow> (\<forall>r t. convert r = Inr t \<longrightarrow> tx_status t \<in> {Queued, Sent} \<and> tx_queueId t = ow_idempotencyKey r)"

lemma queued_of_fields: "tx_status (queued_of i q now) = Queued" "tx_queueId (queued_of i q now) = q"
  by (cases i, simp add: queued_of_def inserted_transaction.defs transaction.defs)+

lemma queued_of_user_op: "tx_isUserOp (queued_of i q now) = tx_isUserOp i"
  by (cases i, simp add: queued_of_def inserted_transaction.defs transaction.defs)

lemma queued_converts: "toQueuedTransaction E r = Inr t \<Longrightarrow> tx_status t = Queued \<and> tx_queueId t = ow_idempotencyKey r"
  by (auto simp: toQueuedTransaction_def queued_of_fields split: if_splits sum.splits)

lemma converts_both: "converts (toQueuedTransaction E)" "converts (toSentTransaction E)"
  by (auto simp: converts_def toSentTransaction_def Let_def dest: queued_converts split: if_splits sum.splits)

lemma converted_simps [simp]:
  "converted convert [] = []"
  "convert r = Inl e \<Longrightarrow> converted convert (r # rs) = converted convert rs"
  "convert r = Inr t \<Longrightarrow> converted convert (r # rs) = r # converted convert rs"
  by (simp_all add: converted_def)

lemma set_converted: "r \<in> set (converted convert rs) \<longleftrightarrow> r \<in> set rs \<and> (\<exists>t. convert r = Inr t)"
  by (cases "convert r") (auto simp: converted_def)

text \<open>Adding a job is one effect.\<close>

definition adds :: "(string \<Rightarrow> effect) \<Rightarrow> (transaction \<Rightarrow> ('w world, unit) io) \<Rightarrow> bool" where
  "adds job add \<longleftrightarrow> (\<forall>t w. add t w = (Inr (), w\<lparr>effects := effects w @ [job (tx_queueId t)]\<rparr>))"

lemma adds_both:
  "adds send_job (\<lambda>t. SendTransactionQueue_add (tx_queueId t) 0)" "adds mine_job (\<lambda>t. MineTransactionQueue_add (tx_queueId t))"
  by (simp_all add: adds_def SendTransactionQueue_add_def MineTransactionQueue_add_def Let_def emit_apply send_job_def mine_job_def
      MineTransactionQueue_jobId_def MineTransactionQueue_attempts_def SendTransactionQueue_jobId_def)

context engine
begin

lemma migrate_row_step:
  assumes "converts convert" and "adds job add"
  shows "convert r = Inl e \<Longrightarrow> migrate_rows E convert add (r # rs) w = migrate_rows E convert add rs w"
    and "convert r = Inr t \<Longrightarrow> \<exists>w'. migrate_rows E convert add (r # rs) w
        = map_prod (map_sum id ((#) (ow_id r))) id (migrate_rows E convert add rs w')
      \<and> clock w' = clock w \<and> effects w' = effects w @ [job (ow_idempotencyKey r)]
      \<and> view (store w') (transactionDetailsKey (ow_idempotencyKey r)) = Some (RString (stringify (e_codec E) t))
      \<and> (\<forall>q. q \<notin> reserved_ids \<and> q \<noteq> ow_idempotencyKey r \<longrightarrow>
          view (store w') (transactionDetailsKey q) = view (store w) (transactionDetailsKey q))"
proof -
  show "convert r = Inl e \<Longrightarrow> migrate_rows E convert add (r # rs) w = migrate_rows E convert add rs w"
    by (simp add: bnd_apply try_catch_apply lift_res_apply prod_eq_iff split: sum.splits)
  have adds_apply: "add t w = (Inr (), w\<lparr>effects := effects w @ [job (tx_queueId t)]\<rparr>)" for t w
    using assms(2) by (simp add: adds_def)
  assume t: "convert r = Inr t"
  then have st: "tx_status t \<in> {Queued, Sent}" and q: "tx_queueId t = ow_idempotencyKey r"
    using assms(1) by (auto simp: converts_def)
  have entry: "status_entry now t \<noteq> Some (k, None)" for now k using st by (auto simp: status_entry_def)
  let ?w = "snd (db_set E t w)"
  let ?w' = "?w\<lparr>effects := effects ?w @ [job (tx_queueId t)]\<rparr>"
  have "migrate_rows E convert add (r # rs) w = map_prod (map_sum id ((#) (ow_id r))) id (migrate_rows E convert add rs ?w')"
    using db_set_run(1) [OF entry, where s = w] t
    by (simp add: bnd_apply try_catch_apply lift_res_apply adds_apply prod_eq_iff split: sum.splits)
  moreover have "clock ?w' = clock w" by (simp add: db_set_def io_simps)
  moreover have "q' \<notin> reserved_ids \<Longrightarrow> transactionDetailsKey q' \<noteq> status_key (tx_status t)" for q'
    using details_key_not_list [of q'] by (auto simp: status_key_def list_keys_def split: if_splits)
  ultimately show "\<exists>w'. migrate_rows E convert add (r # rs) w
        = map_prod (map_sum id ((#) (ow_id r))) id (migrate_rows E convert add rs w')
      \<and> clock w' = clock w \<and> effects w' = effects w @ [job (ow_idempotencyKey r)]
      \<and> view (store w') (transactionDetailsKey (ow_idempotencyKey r)) = Some (RString (stringify (e_codec E) t))
      \<and> (\<forall>q. q \<notin> reserved_ids \<and> q \<noteq> ow_idempotencyKey r \<longrightarrow>
          view (store w') (transactionDetailsKey q) = view (store w) (transactionDetailsKey q))"
    using db_set_run(2-4) [OF entry, where s = w] q by (intro exI [of _ ?w']) auto
qed

lemma migrate_rows_run:
  assumes "converts convert" and "adds job add"
  shows "fst (migrate_rows E convert add rs w) = Inr (map ow_id (converted convert rs))
    \<and> clock (snd (migrate_rows E convert add rs w)) = clock w
    \<and> effects (snd (migrate_rows E convert add rs w)) = effects w @ map (job \<circ> ow_idempotencyKey) (converted convert rs)
    \<and> (\<forall>q. q \<notin> reserved_ids \<and> q \<notin> ow_idempotencyKey ` set (converted convert rs) \<longrightarrow>
        view (store (snd (migrate_rows E convert add rs w))) (transactionDetailsKey q) = view (store w) (transactionDetailsKey q))"
proof (induction rs arbitrary: w)
  case (Cons r rs)
  show ?case
  proof (cases "convert r")
    case (Inl e)
    then show ?thesis using Cons.IH [of w] migrate_row_step(1) [OF assms Inl] by simp
  next
    case (Inr t)
    then show ?thesis using migrate_row_step(2) [OF assms Inr, of rs w] Cons.IH by fastforce
  qed
qed simp

lemma migrate_rows_stored:
  assumes "converts convert" and "adds job add"
    and "distinct (map ow_idempotencyKey rs)" and "r \<in> set rs" and "convert r = Inr t" and "ow_idempotencyKey r \<notin> reserved_ids"
  shows "stored (e_codec E) (view (store (snd (migrate_rows E convert add rs w)))) (ow_idempotencyKey r) = Some t"
  using assms(3,4)
proof (induction rs arbitrary: w)
  case (Cons x rs)
  show ?case
  proof (cases "convert x")
    case (Inl e)
    then show ?thesis using Cons assms(5) migrate_row_step(1) [OF assms(1,2) Inl] by auto
  next
    case (Inr u)
    obtain w' where w': "migrate_rows E convert add (x # rs) w
        = map_prod (map_sum id ((#) (ow_id x))) id (migrate_rows E convert add rs w')"
      "view (store w') (transactionDetailsKey (ow_idempotencyKey x)) = Some (RString (stringify (e_codec E) u))"
      using migrate_row_step(2) [OF assms(1,2) Inr, of rs w] by blast
    show ?thesis
    proof (cases "x = r")
      case True
      then have "ow_idempotencyKey r \<notin> ow_idempotencyKey ` set (converted convert rs)"
        using Cons.prems by (auto simp: set_converted)
      then have "view (store (snd (migrate_rows E convert add rs w'))) (transactionDetailsKey (ow_idempotencyKey r))
          = Some (RString (stringify (e_codec E) t))"
        using migrate_rows_run [OF assms(1,2), of rs w'] w'(2) True Inr assms(5,6) by simp
      then show ?thesis using w'(1) stored_details(1) by simp
    next
      case False
      then show ?thesis using Cons w'(1) by auto
    qed
  qed
qed simp

end

section \<open>One database transaction\<close>

text \<open>
  Rows are found under their ids, no two have the same idempotency key, and no key is the name of a list
  of the store.
\<close>

definition old_keys :: "(string \<Rightarrow> old_row option) \<Rightarrow> bool" where
  "old_keys m \<longleftrightarrow> (\<forall>i r. m i = Some r \<longrightarrow> ow_id r = i \<and> ow_idempotencyKey r \<notin> reserved_ids)
     \<and> (\<forall>i j r r'. m i = Some r \<longrightarrow> m j = Some r' \<longrightarrow> ow_idempotencyKey r = ow_idempotencyKey r' \<longrightarrow> i = j)"

text \<open>The table after the rows of some ids were marked as cancelled.\<close>

definition mark :: "int \<Rightarrow> string set \<Rightarrow> (string \<Rightarrow> old_row option) \<Rightarrow> string \<Rightarrow> old_row option" where
  "mark now ids m = (\<lambda>i. map_option (\<lambda>r. if ow_id r \<in> ids then r\<lparr>ow_cancelledAt := Some now\<rparr> else r) (m i))"

lemma mark_empty [simp]: "mark now {} m = m"
  by (simp add: mark_def option.map_ident)

lemma mark_apply: "old_keys m \<Longrightarrow> m i = Some r \<Longrightarrow>
    mark now ids m i = Some (if i \<in> ids then r\<lparr>ow_cancelledAt := Some now\<rparr> else r)"
  by (auto simp: mark_def old_keys_def)

lemma old_keysD:
  assumes "old_keys m" and "m i = Some r"
  shows "ow_id r = i" and "ow_idempotencyKey r \<notin> reserved_ids"
    and "m j = Some r' \<Longrightarrow> ow_idempotencyKey r = ow_idempotencyKey r' \<Longrightarrow> i = j"
  using assms unfolding old_keys_def by blast+

lemma mark_Some:
  "mark now ids m i = Some r \<Longrightarrow> \<exists>x. m i = Some x \<and> ow_id r = ow_id x \<and> ow_idempotencyKey r = ow_idempotencyKey x"
  by (auto simp: mark_def)

lemma mark_keys:
  assumes "old_keys m"
  shows "old_keys (mark now ids m)"
  unfolding old_keys_def
proof (intro conjI allI impI)
  fix i r assume "mark now ids m i = Some r"
  then obtain x where x: "m i = Some x" "ow_id r = ow_id x" "ow_idempotencyKey r = ow_idempotencyKey x"
    using mark_Some by blast
  show "ow_id r = i" "ow_idempotencyKey r \<notin> reserved_ids" using old_keysD(1,2) [OF assms x(1)] x(2,3) by simp_all
  fix j r' assume "mark now ids m j = Some r'" and key: "ow_idempotencyKey r = ow_idempotencyKey r'"
  then obtain y where "m j = Some y" "ow_idempotencyKey r' = ow_idempotencyKey y" using mark_Some by blast
  then show "i = j" using old_keysD(3) [OF assms x(1)] x(3) key by simp
qed

text \<open>What a selection gives: rows of the table that satisfy the condition, all of them if the limit allows.\<close>

definition selects :: "(string \<Rightarrow> old_row option) \<Rightarrow> (old_row \<Rightarrow> bool) \<Rightarrow> int \<Rightarrow> old_row list \<Rightarrow> bool" where
  "selects m p limit xs \<longleftrightarrow> distinct xs \<and> (\<forall>r \<in> set xs. m (ow_id r) = Some r \<and> p r)
     \<and> (int (card {i. \<exists>r. m i = Some r \<and> p r}) \<le> limit \<longrightarrow> (\<forall>i r. m i = Some r \<longrightarrow> p r \<longrightarrow> r \<in> set xs))"

lemma same_row: "m i = Some r \<Longrightarrow> m j = Some r' \<Longrightarrow> i = j \<Longrightarrow> r = r'"
  by simp

lemma selectsD:
  assumes "selects m p limit xs"
  shows "distinct xs" and "r \<in> set xs \<Longrightarrow> m (ow_id r) = Some r" and "r \<in> set xs \<Longrightarrow> p r"
    and "int (card {i. \<exists>r. m i = Some r \<and> p r}) \<le> limit \<Longrightarrow> m i = Some r \<Longrightarrow> p r \<Longrightarrow> r \<in> set xs"
proof -
  note parts = assms [unfolded selects_def]
  note d = conjunct1 [OF parts] and m = conjunct1 [OF conjunct2 [OF parts]] and all = conjunct2 [OF conjunct2 [OF parts]]
  show "distinct xs" by (rule d)
  show "r \<in> set xs \<Longrightarrow> m (ow_id r) = Some r" "r \<in> set xs \<Longrightarrow> p r"
    by (rule conjunct1 [OF bspec [OF m]], assumption) (rule conjunct2 [OF bspec [OF m]], assumption)
  show "int (card {i. \<exists>r. m i = Some r \<and> p r}) \<le> limit \<Longrightarrow> m i = Some r \<Longrightarrow> p r \<Longrightarrow> r \<in> set xs"
    by (rule all [rule_format])
qed

lemma selects_keys:
  assumes "old_keys m" and "selects m p limit xs"
  shows "distinct (map ow_idempotencyKey xs)"
  unfolding distinct_map
proof (intro conjI inj_onI)
  show "distinct xs" using assms(2) by (rule selectsD(1))
  fix r r' assume "r \<in> set xs" "r' \<in> set xs" and key: "ow_idempotencyKey r = ow_idempotencyKey r'"
  then have m: "m (ow_id r) = Some r" "m (ow_id r') = Some r'" using selectsD(2) [OF assms(2)] by simp_all
  show "r = r'" by (rule same_row [of m, OF m old_keysD(3) [OF assms(1) m key]])
qed

lemma bnd_lift_Inr: "bnd (lift_res (Inr a)) f = f a"
  by (rule ext) (simp add: bnd_apply lift_res_apply)

locale migration = engine E view + old_table M rows
  for E :: "'w env" and view :: "'w \<Rightarrow> keyspace" and M :: "'d migration_env" and rows :: "'d \<Rightarrow> string \<Rightarrow> old_row option"
begin

lemma select_rows_run:
  assumes "old_keys (rows (mg_rows s))" and "0 \<le> limit"
  shows "\<exists>xs. fst (select_rows M p order limit s) = Inr xs \<and> selects (rows (mg_rows s)) p limit xs
    \<and> mg_world (snd (select_rows M p order limit s)) = mg_world s
    \<and> rows (mg_rows (snd (select_rows M p order limit s))) = rows (mg_rows s)"
proof -
  let ?m = "rows (mg_rows s)"
  obtain ks where ks: "distinct ks" "set ks = dom ?m"
    and page: "fst (t_page (mv_rows M) p order (nat limit) (mg_rows s))
      = Inr (take (nat limit) (sort_key order (filter p (map (the \<circ> ?m) ks))))"
    using law_page(1) by blast
  let ?ys = "filter p (map (the \<circ> ?m) ks)" and ?xs = "take (nat limit) (sort_key order (filter p (map (the \<circ> ?m) ks)))"
  have id: "i \<in> dom ?m \<Longrightarrow> ow_id (the (?m i)) = i" for i using assms(1) by (auto simp: old_keys_def)
  then have "inj_on (the \<circ> ?m) (dom ?m)" by (intro inj_onI) (metis comp_apply)
  then have ys: "distinct ?ys" using ks by (simp add: distinct_map)
  have set: "set ?ys = {r. ?m (ow_id r) = Some r \<and> p r}" using ks(2) id by (force simp: dom_def)
  have "card {i. \<exists>r. ?m i = Some r \<and> p r} = card (ow_id ` set ?ys)"
    unfolding set by (rule arg_cong [where f = card]) (use assms(1) in \<open>auto simp: old_keys_def image_iff\<close>)
  also have "\<dots> = card (set ?ys)"
  proof (rule card_image, rule inj_onI)
    fix r r' assume "r \<in> set ?ys" "r' \<in> set ?ys" "ow_id r = ow_id r'"
    then have "Some r = Some r'" unfolding set by (metis (mono_tags, lifting) mem_Collect_eq)
    then show "r = r'" by simp
  qed
  also have "\<dots> = length ?ys" using ys by (rule distinct_card)
  finally have n: "card {i. \<exists>r. ?m i = Some r \<and> p r} = length ?ys" .
  have "selects ?m p limit ?xs"
    unfolding selects_def n
  proof (intro conjI impI ballI allI)
    show "distinct ?xs" using ys by (simp add: distinct_take)
    fix r assume "r \<in> set ?xs"
    then have "r \<in> set ?ys" by (metis in_set_takeD set_sort)
    then show "?m (ow_id r) = Some r" "p r" unfolding set by simp_all
  next
    fix i r assume "int (length ?ys) \<le> limit" and r: "?m i = Some r" "p r"
    then have "?xs = sort_key order ?ys" by simp
    moreover have "r \<in> set ?ys" unfolding set using r assms(1) by (auto simp: old_keys_def)
    ultimately show "r \<in> set ?xs" by simp
  qed
  then show ?thesis using page law_page(2) assms(2) by (simp add: select_rows_def io_simps)
qed

lemma phase_run:
  assumes keys: "old_keys (rows (mg_rows s))" and "0 \<le> limit" and c: "converts convert" and a: "adds job add"
  shows "\<exists>xs s'. in_transaction (bnd (select_rows M p order limit) (\<lambda>xs.
        bnd (on_world (migrate_rows E convert add xs)) (cancelPostgresTransactions M))) s = (Inr (), s')
    \<and> selects (rows (mg_rows s)) p limit xs
    \<and> rows (mg_rows s') = mark (clock (mg_world s)) (ow_id ` set (converted convert xs)) (rows (mg_rows s))
    \<and> mg_world s' = snd (migrate_rows E convert add xs (mg_world s))"
proof -
  obtain xs where xs: "fst (select_rows M p order limit s) = Inr xs" "selects (rows (mg_rows s)) p limit xs"
      "mg_world (snd (select_rows M p order limit s)) = mg_world s"
      "rows (mg_rows (snd (select_rows M p order limit s))) = rows (mg_rows s)"
    using select_rows_run [OF keys assms(2)] by blast
  note run = migrate_rows_run [OF c a, of xs "mg_world s"]
  let ?s = "snd (select_rows M p order limit s)"
  let ?w = "snd (migrate_rows E convert add xs (mg_world s))"
  let ?body = "bnd (select_rows M p order limit) (\<lambda>xs.
        bnd (on_world (migrate_rows E convert add xs)) (cancelPostgresTransactions M))"
  have body: "?body s = cancelPostgresTransactions M (map ow_id (converted convert xs)) (?s\<lparr>mg_world := ?w\<rparr>)"
    using xs run by (simp add: bnd_apply on_world_apply)
  have "fst (?body s) = Inr () \<and> mg_world (snd (?body s)) = ?w
    \<and> rows (mg_rows (snd (?body s))) = mark (clock (mg_world s)) (ow_id ` set (converted convert xs)) (rows (mg_rows s))"
    unfolding body cancelPostgresTransactions_def
    using run xs(4) law_updateMany
    by (auto simp: bnd_apply io_simps mark_def option.map_ident)
  then show ?thesis using xs(2)
    by (cases "?body s") (auto simp: in_transaction_def intro!: exI [of _ xs])
qed

text \<open>A run that answers has read the configuration, with limits that the database accepts.\<close>

lemma migration_config:
  assumes "migrateHandler E M s = (Inr (), s')"
  obtains config where "mv_getConfig M = Inr config" "0 \<le> fc_maxTxsToUpdate config" "0 \<le> fc_maxTxsToProcess config"
proof (cases "mv_getConfig M")
  case (Inl e)
  then show ?thesis using assms
    by (simp add: migrateHandler_def migrateSent_def getSentPostgresTransactions_def bnd_apply lift_res_apply in_transaction_def)
next
  case (Inr config)
  have "fst (migrateSent E M s) = Inr ()"
    using assms by (auto simp: migrateHandler_def bnd_apply split: sum.splits)
  then have "0 \<le> fc_maxTxsToUpdate config"
    using Inr by (auto simp: migrateSent_def getSentPostgresTransactions_def select_rows_def bnd_apply lift_res_apply
        in_transaction_def split: if_splits)
  moreover have "fst (migrateQueued E M (snd (migrateSent E M s))) = Inr ()"
    using assms by (auto simp: migrateHandler_def bnd_apply split: sum.splits)
  then have "0 \<le> fc_maxTxsToProcess config"
    using Inr by (auto simp: migrateQueued_def getQueuedPostgresTransactions_def select_rows_def bnd_apply lift_res_apply
        in_transaction_def split: if_splits)
  ultimately show ?thesis using Inr that by blast
qed

end

section \<open>A run\<close>

definition old_transaction :: "'w env \<Rightarrow> old_row \<Rightarrow> js_error + transaction" where
  "old_transaction E r = (if ow_sentAt r = None then toQueuedTransaction E r else toSentTransaction E r)"

definition old_job :: "old_row \<Rightarrow> effect" where
  "old_job r = (if ow_sentAt r = None then send_job (ow_idempotencyKey r) else mine_job (ow_idempotencyKey r))"

text \<open>The row is a transaction in the store, with a job in the queue of its worker.\<close>

definition moved :: "'w env \<Rightarrow> ('w \<Rightarrow> keyspace) \<Rightarrow> 'w world \<Rightarrow> old_row \<Rightarrow> bool" where
  "moved E view w r \<longleftrightarrow> (\<exists>t. old_transaction E r = Inr t
     \<and> stored (e_codec E) (view (store w)) (ow_idempotencyKey r) = Some t) \<and> old_job r \<in> set (effects w)"

abbreviation sent_row :: "old_row \<Rightarrow> bool" where
  "sent_row r \<equiv> ow_sentAt r \<noteq> None \<and> unfinished r"

abbreviation queued_row :: "old_row \<Rightarrow> bool" where
  "queued_row r \<equiv> ow_sentAt r = None \<and> unfinished r"

lemma unmarked:
  assumes "old_keys m" and "mark now ids m i = Some y" and "unfinished y"
  shows "m i = Some y" and "i \<notin> ids"
proof -
  obtain x where x: "m i = Some x" using assms(2) by (auto simp: mark_def)
  have y: "y = (if i \<in> ids then x\<lparr>ow_cancelledAt := Some now\<rparr> else x)"
    using assms(2) unfolding mark_apply [OF assms(1) x] by (rule option.inject [THEN iffD1, THEN sym])
  show out: "i \<notin> ids" using assms(3) y by (auto simp: unfinished_def)
  show "m i = Some y" using x y out by simp
qed

text \<open>
  What a run at a time does to the rows of a table: it cancels and moves those of a set, which are unfinished;
  the set has every row that can be converted when the limits allow.
\<close>

definition run_moves ::
  "'w env \<Rightarrow> ('w \<Rightarrow> keyspace) \<Rightarrow> full_config \<Rightarrow> int \<Rightarrow> (string \<Rightarrow> old_row option) \<Rightarrow> (string \<Rightarrow> old_row option) \<Rightarrow> 'w world
   \<Rightarrow> old_row set \<Rightarrow> bool" where
  "run_moves E view config now m m' w' C \<longleftrightarrow>
     (\<forall>i r. m i = Some r \<longrightarrow> m' i = Some (if r \<in> C then r\<lparr>ow_cancelledAt := Some now\<rparr> else r))
     \<and> (\<forall>r \<in> C. unfinished r \<and> moved E view w' r)
     \<and> (int (card {i. \<exists>r. m i = Some r \<and> sent_row r}) \<le> fc_maxTxsToUpdate config \<longrightarrow>
        int (card {i. \<exists>r. m i = Some r \<and> queued_row r}) \<le> fc_maxTxsToProcess config \<longrightarrow>
        (\<forall>i r t. m i = Some r \<longrightarrow> unfinished r \<longrightarrow> old_transaction E r = Inr t \<longrightarrow> r \<in> C))"

lemma run_movesD:
  assumes "run_moves E view config now m m' w' C" and "m i = Some r"
  shows "m' i = Some (if r \<in> C then r\<lparr>ow_cancelledAt := Some now\<rparr> else r)"
    and "r \<in> C \<Longrightarrow> unfinished r" and "r \<in> C \<Longrightarrow> moved E view w' r"
    and "int (card {i. \<exists>r. m i = Some r \<and> sent_row r}) \<le> fc_maxTxsToUpdate config \<Longrightarrow>
      int (card {i. \<exists>r. m i = Some r \<and> queued_row r}) \<le> fc_maxTxsToProcess config \<Longrightarrow>
      unfinished r \<Longrightarrow> old_transaction E r = Inr t \<Longrightarrow> r \<in> C"
proof -
  note parts = assms(1) [unfolded run_moves_def]
  show "m' i = Some (if r \<in> C then r\<lparr>ow_cancelledAt := Some now\<rparr> else r)"
    by (rule conjunct1 [OF parts, rule_format, OF assms(2)])
  show "r \<in> C \<Longrightarrow> unfinished r" "r \<in> C \<Longrightarrow> moved E view w' r"
    using bspec [OF conjunct1 [OF conjunct2 [OF parts]], of r] by simp_all
  show "int (card {i. \<exists>r. m i = Some r \<and> sent_row r}) \<le> fc_maxTxsToUpdate config \<Longrightarrow>
      int (card {i. \<exists>r. m i = Some r \<and> queued_row r}) \<le> fc_maxTxsToProcess config \<Longrightarrow>
      unfinished r \<Longrightarrow> old_transaction E r = Inr t \<Longrightarrow> r \<in> C"
    by (rule conjunct2 [OF conjunct2 [OF parts], rule_format, OF _ _ assms(2)])
qed

lemma ids_member:
  assumes "old_keys m" and "m i = Some r" and "\<And>x. x \<in> S \<Longrightarrow> m (ow_id x) = Some x"
  shows "i \<in> ow_id ` S \<longleftrightarrow> r \<in> S"
proof
  assume "i \<in> ow_id ` S"
  then obtain x where x: "x \<in> S" "i = ow_id x" by (elim imageE)
  show "r \<in> S" unfolding same_row [of m, OF assms(2) assms(3) [OF x(1)] x(2)] by (rule x(1))
next
  assume "r \<in> S"
  then have "ow_id r \<in> ow_id ` S" by (rule imageI)
  then show "i \<in> ow_id ` S" unfolding old_keysD(1) [OF assms(1,2)] .
qed

text \<open>Marking rows that were sent leaves those that are queued.\<close>

lemma mark_queued:
  assumes "old_keys m" and "\<And>x. x \<in> S \<Longrightarrow> m (ow_id x) = Some x" and "\<And>x. x \<in> S \<Longrightarrow> sent_row x"
  shows "mark now (ow_id ` S) m j = Some y \<and> queued_row y \<longleftrightarrow> m j = Some y \<and> queued_row y"
proof
  assume "mark now (ow_id ` S) m j = Some y \<and> queued_row y"
  then show "m j = Some y \<and> queued_row y" using unmarked(1) [OF assms(1), of now "ow_id ` S" j y] by simp
next
  assume y: "m j = Some y \<and> queued_row y"
  then have "y \<notin> S" using assms(3) [of y] by auto
  then show "mark now (ow_id ` S) m j = Some y \<and> queued_row y"
    using y mark_apply [OF assms(1), of j y now "ow_id ` S"] ids_member [OF assms(1) conjunct1 [OF y] assms(2), of S] by simp
qed

context migration
begin

lemma phases_run:
  assumes keys: "old_keys (rows (mg_rows s))" and "mv_getConfig M = Inr config"
    and "0 \<le> fc_maxTxsToUpdate config" and "0 \<le> fc_maxTxsToProcess config"
  shows "\<exists>xs ys m w s'. migrateHandler E M s = (Inr (), s')
    \<and> selects (rows (mg_rows s)) sent_row (fc_maxTxsToUpdate config) xs
    \<and> m = mark (clock (mg_world s)) (ow_id ` set (converted (toSentTransaction E) xs)) (rows (mg_rows s))
    \<and> w = snd (migrate_rows E (toSentTransaction E) (\<lambda>t. MineTransactionQueue_add (tx_queueId t)) xs (mg_world s))
    \<and> selects m queued_row (fc_maxTxsToProcess config) ys
    \<and> rows (mg_rows s') = mark (clock (mg_world s)) (ow_id ` set (converted (toQueuedTransaction E) ys)) m
    \<and> mg_world s' = snd (migrate_rows E (toQueuedTransaction E) (\<lambda>t. SendTransactionQueue_add (tx_queueId t) 0) ys w)"
proof -
  obtain xs s1 where one: "migrateSent E M s = (Inr (), s1)" "selects (rows (mg_rows s)) sent_row (fc_maxTxsToUpdate config) xs"
      "rows (mg_rows s1) = mark (clock (mg_world s)) (ow_id ` set (converted (toSentTransaction E) xs)) (rows (mg_rows s))"
      "mg_world s1 = snd (migrate_rows E (toSentTransaction E) (\<lambda>t. MineTransactionQueue_add (tx_queueId t)) xs (mg_world s))"
    using phase_run [OF keys assms(3) converts_both(2) [of E] adds_both(2), of sent_row nonce_order] assms(2)
    by (auto simp: migrateSent_def getSentPostgresTransactions_def bnd_assoc bnd_lift_Inr)
  have "old_keys (rows (mg_rows s1))" unfolding one(3) by (rule mark_keys [OF keys])
  then obtain ys s2 where two: "migrateQueued E M s1 = (Inr (), s2)"
      "selects (rows (mg_rows s1)) queued_row (fc_maxTxsToProcess config) ys"
      "rows (mg_rows s2) = mark (clock (mg_world s1)) (ow_id ` set (converted (toQueuedTransaction E) ys)) (rows (mg_rows s1))"
      "mg_world s2 = snd (migrate_rows E (toQueuedTransaction E) (\<lambda>t. SendTransactionQueue_add (tx_queueId t) 0) ys (mg_world s1))"
    using phase_run [OF _ assms(4) converts_both(1) [of E] adds_both(1), of s1 queued_row "\<lambda>row. [ow_queuedAt row]"] assms(2)
    by (auto simp: migrateQueued_def getQueuedPostgresTransactions_def bnd_assoc bnd_lift_Inr)
  have "clock (mg_world s1) = clock (mg_world s)"
    using migrate_rows_run [OF converts_both(2) [of E] adds_both(2), of xs "mg_world s"] unfolding one(4) by simp
  then show ?thesis using one two
    by (intro exI [of _ xs] exI [of _ ys] exI conjI) (simp_all add: migrateHandler_def bnd_apply)
qed

lemma migration_run:
  assumes keys: "old_keys (rows (mg_rows s))" and config: "mv_getConfig M = Inr config"
    "0 \<le> fc_maxTxsToUpdate config" "0 \<le> fc_maxTxsToProcess config"
  shows "\<exists>C s'. migrateHandler E M s = (Inr (), s')
    \<and> run_moves E view config (clock (mg_world s)) (rows (mg_rows s)) (rows (mg_rows s')) (mg_world s') C"
proof -
  let ?m = "rows (mg_rows s)" and ?now = "clock (mg_world s)"
  let ?sent = "toSentTransaction E" and ?queued = "toQueuedTransaction E"
  let ?mine = "\<lambda>t. MineTransactionQueue_add (tx_queueId t)" and ?send = "\<lambda>t. SendTransactionQueue_add (tx_queueId t) 0"
  obtain xs ys m w s' where run: "migrateHandler E M s = (Inr (), s')"
    and xs: "selects ?m sent_row (fc_maxTxsToUpdate config) xs"
    and m: "m = mark ?now (ow_id ` set (converted ?sent xs)) ?m"
    and w: "w = snd (migrate_rows E ?sent ?mine xs (mg_world s))"
    and ys: "selects m queued_row (fc_maxTxsToProcess config) ys"
    and m': "rows (mg_rows s') = mark ?now (ow_id ` set (converted ?queued ys)) m"
    and w': "mg_world s' = snd (migrate_rows E ?queued ?send ys w)"
    using phases_run [OF assms] by (elim exE conjE) (rule that)
  let ?A = "set (converted ?sent xs)" and ?B = "set (converted ?queued ys)"
  note one = migrate_rows_run [OF converts_both(2) [of E] adds_both(2), of xs "mg_world s", folded w]
  note two = migrate_rows_run [OF converts_both(1) [of E] adds_both(1), of ys w, folded w']
  have mkeys: "old_keys m" unfolding m by (rule mark_keys [OF keys])
  have A: "?m (ow_id r) = Some r" "sent_row r" "r \<in> set xs" "\<exists>t. ?sent r = Inr t" if "r \<in> ?A" for r
    using that selectsD(2,3) [OF xs, of r] unfolding set_converted by simp_all
  have B: "?m (ow_id r) = Some r" "queued_row r" "r \<in> set ys" "\<exists>t. ?queued r = Inr t" if "r \<in> ?B" for r
  proof -
    show r: "queued_row r" "r \<in> set ys" "\<exists>t. ?queued r = Inr t"
      using that selectsD(3) [OF ys, of r] unfolding set_converted by simp_all
    show "?m (ow_id r) = Some r" using unmarked(1) [OF keys selectsD(2) [OF ys r(2), unfolded m]] r(1) by simp
  qed
  have "rows (mg_rows s') i = Some (if r \<in> ?A \<union> ?B then r\<lparr>ow_cancelledAt := Some ?now\<rparr> else r)" if r: "?m i = Some r" for i r
  proof -
    have "m i = Some (if r \<in> ?A then r\<lparr>ow_cancelledAt := Some ?now\<rparr> else r)"
      using mark_apply [OF keys r, of ?now "ow_id ` ?A"] ids_member [OF keys r A(1)] unfolding m by simp
    from mark_apply [OF mkeys this, of ?now "ow_id ` ?B"] show ?thesis
      using ids_member [OF keys r B(1)] unfolding m' by simp
  qed
  moreover have "unfinished r \<and> moved E view (mg_world s') r" if "r \<in> ?A \<union> ?B" for r
  proof (cases "r \<in> ?A")
    case True
    then obtain t where t: "?sent r = Inr t" using A(4) by blast
    note id = old_keysD [OF keys A(1) [OF True]]
    have "stored (e_codec E) (view (store w)) (ow_idempotencyKey r) = Some t"
      unfolding w by (rule migrate_rows_stored [OF converts_both(2) adds_both(2) selects_keys [OF keys xs] A(3) [OF True] t id(2)])
    moreover have "ow_idempotencyKey r \<notin> ow_idempotencyKey ` ?B"
    proof
      assume "ow_idempotencyKey r \<in> ow_idempotencyKey ` ?B"
      then obtain y where y: "y \<in> ?B" "ow_idempotencyKey r = ow_idempotencyKey y" by blast
      have "r = y"
        by (rule same_row [of ?m, OF A(1) [OF True] B(1) [OF y(1)] id(3) [OF B(1) [OF y(1)] y(2)]])
      then show False using A(2) [OF True] B(2) [OF y(1)] by simp
    qed
    ultimately have "stored (e_codec E) (view (store (mg_world s'))) (ow_idempotencyKey r) = Some t"
      using two id(2) by (simp add: stored_def)
    moreover have "mine_job (ow_idempotencyKey r) \<in> set (effects (mg_world s'))" using one two True by simp
    ultimately show ?thesis using A(2) [OF True] t by (auto simp: moved_def old_transaction_def old_job_def)
  next
    case False
    then have r: "r \<in> ?B" using that by simp
    then obtain t where t: "?queued r = Inr t" using B(4) by blast
    have "stored (e_codec E) (view (store (mg_world s'))) (ow_idempotencyKey r) = Some t"
      unfolding w' by (rule migrate_rows_stored [OF converts_both(1) adds_both(1) selects_keys [OF mkeys ys] B(3) [OF r] t
            old_keysD(2) [OF keys B(1) [OF r]]])
    moreover have "send_job (ow_idempotencyKey r) \<in> set (effects (mg_world s'))" using two r by simp
    ultimately show ?thesis using B(2) [OF r] t by (auto simp: moved_def old_transaction_def old_job_def)
  qed
  moreover have "r \<in> ?A \<union> ?B" if few: "int (card {i. \<exists>r. ?m i = Some r \<and> sent_row r}) \<le> fc_maxTxsToUpdate config"
      "int (card {i. \<exists>r. ?m i = Some r \<and> queued_row r}) \<le> fc_maxTxsToProcess config"
    and r: "?m i = Some r" "unfinished r" "old_transaction E r = Inr t" for i r t
  proof (cases "ow_sentAt r = None")
    case False
    then have "r \<in> set xs" using selectsD(4) [OF xs few(1) r(1)] r(2) by simp
    then show ?thesis using r(3) False by (simp add: set_converted old_transaction_def)
  next
    case True
    have q: "m j = Some y \<and> queued_row y \<longleftrightarrow> ?m j = Some y \<and> queued_row y" for j y
      unfolding m by (rule mark_queued [OF keys]) (erule A)+
    have "r \<in> set ys"
      by (rule selectsD(4) [OF ys]) (use few(2) r(1,2) True q [of i r] in \<open>simp_all add: q\<close>)
    then show ?thesis using r(3) True by (simp add: set_converted old_transaction_def)
  qed
  ultimately have "run_moves E view config ?now ?m (rows (mg_rows s')) (mg_world s') (?A \<union> ?B)"
    unfolding run_moves_def by blast
  then show ?thesis using run by (intro exI [of _ "?A \<union> ?B"] exI [of _ s']) simp
qed

lemma migration_row:
  assumes keys: "old_keys (rows (mg_rows s))" and run: "migrateHandler E M s = (Inr (), s')" and r: "rows (mg_rows s) i = Some r"
  shows "rows (mg_rows s') i = Some r
    \<or> unfinished r \<and> moved E view (mg_world s') r
      \<and> rows (mg_rows s') i = Some (r\<lparr>ow_cancelledAt := Some (clock (mg_world s))\<rparr>)"
proof -
  obtain config where config: "mv_getConfig M = Inr config" "0 \<le> fc_maxTxsToUpdate config" "0 \<le> fc_maxTxsToProcess config"
    by (rule migration_config [OF run])
  obtain C where C: "run_moves E view config (clock (mg_world s)) (rows (mg_rows s)) (rows (mg_rows s')) (mg_world s') C"
    using migration_run [OF keys config] run by auto
  note eff = run_movesD [OF C r]
  show ?thesis
  proof (cases "r \<in> C")
    case True
    then show ?thesis using eff(1) eff(2,3) [OF True] by (intro disjI2 conjI) simp_all
  next
    case False
    then show ?thesis using eff(1) by (intro disjI1) simp
  qed
qed

end

section \<open>The table in memory\<close>

definition mem_updateMany :: "(old_row \<Rightarrow> bool) \<Rightarrow> (old_row \<Rightarrow> old_row) \<Rightarrow> ((string, old_row) mem_rows, int) io" where
  "mem_updateMany p f d = (Inr (int (length (filter (\<lambda>k. p (the (map_of d k))) (remdups (map fst d))))),
     map (\<lambda>(k, v). (k, if p v then f v else v)) d)"

definition sample_limits :: full_config where
  "sample_limits = parsed_config.extend sample_config (full_config.fields None 1 30 50 None [] [] [] None None [])"

definition mem_migration :: "(string, old_row) mem_rows migration_env" where
  "mem_migration = \<lparr>mv_rows = mem_table, mv_updateMany = mem_updateMany, mv_getConfig = Inr sample_limits\<rparr>"

interpretation mem_old: migration mem_env mem_view mem_migration map_of
proof -
  have "old_table mem_migration map_of"
    by (simp add: old_table_def old_table_axioms_def mem_migration_def mem_rows.prisma_table_axioms mem_updateMany_def
        map_of_map count_rows comp_def)
  then show "migration mem_env mem_view mem_migration map_of"
    by (simp add: migration_def mem_engine.engine_axioms)
qed

lemma sample_limits_simps: "fc_maxTxsToUpdate sample_limits = 50" "fc_maxTxsToProcess sample_limits = 30"
  by (simp_all add: sample_limits_def parsed_config.defs full_config.defs sample_config_def)

text \<open>A transaction that is queued, and one that was sent with the nonce 0.\<close>

definition sample_old :: old_row where
  "sample_old = \<lparr>ow_id = ''a'', ow_idempotencyKey = ''k'', ow_chainId = 1, ow_data = Some ''0x'', ow_value = None,
     ow_gasLimit = None, ow_nonce = None, ow_maxFeePerGas = None, ow_maxPriorityFeePerGas = None,
     ow_fromAddress = Some ''0xA'', ow_toAddress = Some ''0xB'', ow_gasPrice = None, ow_transactionHash = None,
     ow_signerAddress = None, ow_accountAddress = None, ow_target = None, ow_sender = None, ow_userOpHash = None,
     ow_functionName = None, ow_functionArgs = None, ow_extension = None, ow_deployedContractAddress = None,
     ow_deployedContractType = None, ow_queuedAt = 7, ow_sentAt = None, ow_minedAt = None, ow_cancelledAt = None,
     ow_errorMessage = None, ow_sentAtBlockNumber = None\<rparr>"

definition sample_first :: old_row where
  "sample_first = sample_old\<lparr>ow_id := ''b'', ow_idempotencyKey := ''l'', ow_nonce := Some 0, ow_transactionHash := Some ''0xh'',
     ow_sentAt := Some 8, ow_sentAtBlockNumber := Some 5\<rparr>"

definition sample_old_state :: "(mem, (string, old_row) mem_rows) migration_state" where
  "sample_old_state = \<lparr>mg_world = mem_world [], mg_rows = [(''a'', sample_old), (''b'', sample_first)]\<rparr>"

lemma sample_rows:
  "map_of (mg_rows sample_old_state) = [''a'' \<mapsto> sample_old, ''b'' \<mapsto> sample_first]"
  by (auto simp: sample_old_state_def)

lemma sample_old_keys: "old_keys (map_of (mg_rows sample_old_state))"
  by (simp add: sample_rows old_keys_def reserved_ids_def sample_first_def sample_old_def)

lemma sample_few: "card {i. \<exists>r. map_of (mg_rows sample_old_state) i = Some r \<and> p r} \<le> 2"
proof -
  have "{i. \<exists>r. map_of (mg_rows sample_old_state) i = Some r \<and> p r} \<subseteq> {''a'', ''b''}"
    by (auto simp: sample_rows split: if_splits)
  from card_mono [OF _ this] show ?thesis by simp
qed

lemma sample_old_run:
  obtains s' where "migrateHandler mem_env mem_migration sample_old_state = (Inr (), s')"
  using mem_old.migration_run [OF sample_old_keys, of sample_limits]
  by (auto simp: mem_migration_def sample_limits_simps)

section \<open>Properties\<close>

lemma queued_user_op: "toQueuedTransaction E r = Inr t \<Longrightarrow> tx_isUserOp t = truthy (ow_accountAddress r)"
  by (auto simp: toQueuedTransaction_def queued_of_user_op split: if_splits sum.splits)

lemma zero_refused:
  assumes "\<not> truthy (ow_accountAddress r)" and "ow_nonce r = Some 0"
  shows "toSentTransaction E r \<noteq> Inr t"
  using assms by (auto simp: toSentTransaction_def Let_def truthy_number_def dest: queued_user_op split: sum.splits)

text \<open>
  C38: a run changes a row of the old table only by marking it as cancelled, and only when the row was
  unfinished and its transaction is in the store with a job in the queue of its worker.
\<close>

theorem migration_moves:
  assumes "engine E view" and "old_table M rows" and "old_keys (rows (mg_rows s))"
    and "migrateHandler E M s = (Inr (), s')" and "rows (mg_rows s) i = Some r"
  shows "rows (mg_rows s') i = Some r
    \<or> unfinished r \<and> moved E view (mg_world s') r
      \<and> rows (mg_rows s') i = Some (r\<lparr>ow_cancelledAt := Some (clock (mg_world s))\<rparr>)"
proof -
  have m: "migration E view M rows" using assms(1,2) by (simp add: migration_def)
  show ?thesis by (rule migration.migration_row [OF m assms(3-5)])
qed

theorem migration_moves_witness:
  "\<exists>s'. migrateHandler mem_env mem_migration sample_old_state = (Inr (), s')
    \<and> (map_of (mg_rows s') ''a'' = Some sample_old \<or> moved mem_env mem_view (mg_world s') sample_old)"
proof -
  obtain s' where run: "migrateHandler mem_env mem_migration sample_old_state = (Inr (), s')" by (rule sample_old_run)
  show ?thesis
    using run migration_moves [OF mem_engine.engine_axioms mem_old.old_table_axioms sample_old_keys run, of "''a''" sample_old]
    by (auto simp: sample_rows)
qed

text \<open>
  C39: when the limits of the configuration are not below the numbers of rows, a run moves every unfinished row
  that can be converted.
\<close>

theorem migration_complete:
  assumes "engine E view" and "old_table M rows" and "old_keys (rows (mg_rows s))" and "mv_getConfig M = Inr config"
    and "int (card {i. \<exists>r. rows (mg_rows s) i = Some r \<and> ow_sentAt r \<noteq> None \<and> unfinished r}) \<le> fc_maxTxsToUpdate config"
    and "int (card {i. \<exists>r. rows (mg_rows s) i = Some r \<and> ow_sentAt r = None \<and> unfinished r}) \<le> fc_maxTxsToProcess config"
    and "rows (mg_rows s) i = Some r" and "unfinished r" and "old_transaction E r = Inr t"
  shows "\<exists>s'. migrateHandler E M s = (Inr (), s') \<and> moved E view (mg_world s') r
    \<and> rows (mg_rows s') i = Some (r\<lparr>ow_cancelledAt := Some (clock (mg_world s))\<rparr>)"
proof -
  have m: "migration E view M rows" using assms(1,2) by (simp add: migration_def)
  have "0 \<le> fc_maxTxsToUpdate config" "0 \<le> fc_maxTxsToProcess config" using assms(5,6) by linarith+
  from migration.migration_run [OF m assms(3,4) this] obtain C s' where run: "migrateHandler E M s = (Inr (), s')"
    and C: "run_moves E view config (clock (mg_world s)) (rows (mg_rows s)) (rows (mg_rows s')) (mg_world s') C"
    by (elim exE conjE) (rule that)
  note eff = run_movesD [OF C assms(7)]
  have "r \<in> C" by (rule eff(4) [OF assms(5,6,8,9)])
  then show ?thesis using run eff(1,3) by (intro exI [of _ s']) simp
qed

theorem migration_complete_witness:
  "\<exists>s'. migrateHandler mem_env mem_migration sample_old_state = (Inr (), s') \<and> moved mem_env mem_view (mg_world s') sample_old
    \<and> map_of (mg_rows s') ''a'' = Some (sample_old\<lparr>ow_cancelledAt := Some 9000\<rparr>)"
proof -
  obtain t where t: "old_transaction mem_env sample_old = Inr t"
    by (simp add: old_transaction_def toQueuedTransaction_def sample_old_def row_amount_def maybeBigInt_def)
  have few: "int (card {i. \<exists>r. map_of (mg_rows sample_old_state) i = Some r \<and> p r}) \<le> 30" for p
    using sample_few [of p] by linarith
  have config: "mv_getConfig mem_migration = Inr sample_limits" by (simp add: mem_migration_def)
  have row: "map_of (mg_rows sample_old_state) ''a'' = Some sample_old" by (simp add: sample_rows)
  have un: "unfinished sample_old" by (simp add: unfinished_def sample_old_def)
  from few have more: "int (card {i. \<exists>r. map_of (mg_rows sample_old_state) i = Some r \<and> p r}) \<le> 50" for p
    by (rule order_trans) simp
  show ?thesis
    using migration_complete [OF mem_engine.engine_axioms mem_old.old_table_axioms sample_old_keys config
        more [folded sample_limits_simps(1)] few [folded sample_limits_simps(2)] row un t]
    by (simp add: sample_old_state_def mem_world_def)
qed

text \<open>
  C40: a transaction that was sent with the nonce 0 is never moved: the assertion on the nonce fails, and its row
  stays as it is in every run.
\<close>

theorem nonce_zero_never_migrated:
  assumes "engine E view" and "old_table M rows" and "old_keys (rows (mg_rows s))"
    and "migrateHandler E M s = (Inr (), s')" and "rows (mg_rows s) i = Some r"
    and "ow_sentAt r \<noteq> None" and "\<not> truthy (ow_accountAddress r)" and "ow_nonce r = Some 0"
  shows "rows (mg_rows s') i = Some r"
proof -
  have m: "migration E view M rows" using assms(1,2) by (simp add: migration_def)
  have "old_transaction E r = toSentTransaction E r" unfolding old_transaction_def by (rule if_not_P [OF assms(6)])
  then have "\<not> moved E view (mg_world s') r" using zero_refused [OF assms(7,8), of E] by (simp add: moved_def)
  then show ?thesis using migration.migration_row [OF m assms(3-5)] by blast
qed

theorem nonce_zero_never_migrated_witness:
  "\<exists>s'. migrateHandler mem_env mem_migration sample_old_state = (Inr (), s') \<and> map_of (mg_rows s') ''b'' = Some sample_first"
proof -
  obtain s' where run: "migrateHandler mem_env mem_migration sample_old_state = (Inr (), s')" by (rule sample_old_run)
  show ?thesis
    using run nonce_zero_never_migrated [OF mem_engine.engine_axioms mem_old.old_table_axioms sample_old_keys run,
        of "''b''" sample_first]
    by (simp add: sample_rows) (simp add: sample_first_def sample_old_def)
qed

end
