(* ===== verification/Spec2Isabelle.thy ===== *)
theory Spec2Isabelle
  imports Tx_Routes Mine_Worker Nonce_Workers Auth_Properties Contract_Routes Cors_Middleware Config_Properties Relayer_Properties Wallet_Properties Chain_Routes Migration_Worker
begin

text \<open>
  Verification of the transaction engine of \<open>src/src\<close>: a server that takes blockchain
  transactions over HTTP, keeps them in Redis, and workers that submit them with a nonce of the
  backend wallet, watch for their receipts, send them again, and clean up. Its configuration, wallets,
  permissions, subscriptions and relayers are in Postgres.

  \<^bold>\<open>The program.\<close> A request passes the hooks of the server (CORS, rate limit, engine mode,
  authentication) and reaches the handler of a route (\<open>server/routes\<close>). A route on a contract gets the
  contract from the caches of the SDK and either reads it or ends in \<open>insertTransaction\<close>, which stores a queued
  transaction and adds a job to the send queue. The send worker takes a nonce
  (\<open>db/wallets/walletNonce.ts\<close>), hands the transaction to the RPC node, stores it as sent and adds a
  job to the mine queue. The mine worker looks for a receipt of any hash that was sent; until it
  finds one it fails, is retried with a growing delay, and from time to time queues another
  submission with the same nonce and doubled fees. Every change of status adds jobs to the webhook
  queue. Beside them run workers that cancel recycled nonces, resync nonces with the chain, check the health of
  the nonces, prune old transactions, and move transactions of the old database to Redis; and the
  indexers of chains, which hand ranges of blocks to the two workers that store event logs and receipts of
  subscribed contracts.

  \<^bold>\<open>The theories.\<close>

    \<^item> \<open>Engine_Prelude\<close>: JavaScript strings and numbers, thrown values, and the monad of an
      \<open>async\<close> function (state of the world to a result and the next state; an error keeps the state).
      \<open>Js_Text\<close>: trimming, splitting and joining; \<open>Js_Value\<close>: objects, lists and the evaluation order of
      object literals.
    \<^item> \<open>Redis_Server\<close>, \<open>Prisma_Table\<close>: the two stores. A server and a table are records of functions on a
      state; the locales \<open>redis_server\<close> and \<open>prisma_table\<close> state by a view of the state what each
      command answers and changes. They are interpreted on a server and on tables in memory.
    \<^item> \<open>Wallet_Nonce\<close>: \<open>db/wallets/walletNonce.ts\<close> and \<open>nonceMap.ts\<close>, with the abstract nonce
      pool they implement: the counter, the recycled and the sent nonces of a wallet.
    \<^item> \<open>Transaction_Types\<close>, \<open>Transaction_DB\<close>: \<open>utils/transaction/types.ts\<close> and
      \<open>db/transactions/db.ts\<close>; the stored form is a codec with a round-trip law (locale
      \<open>transaction_codec\<close>), and \<open>transaction_db\<close> joins both locales.
    \<^item> \<open>Engine_World\<close>, \<open>Engine_Support\<close>: the world of the workers (store, caches, clock, effects
      in order), the environment (RPC node, SDK, wallets, tables), and the helpers they share:
      errors, configuration, chains, accounts, simulation, queues, webhooks, usage. The locale
      \<open>engine\<close> is \<open>transaction_db\<close> on an environment.
    \<^item> \<open>Send_Worker\<close>, \<open>Mine_Worker\<close>, \<open>Nonce_Workers\<close>, \<open>Webhook_Worker\<close>, \<open>Migration_Worker\<close>: the workers of
      \<open>worker/tasks\<close>, their failure listeners, and the nonce details of the admin route.
    \<^item> \<open>Tx_Schema\<close>, \<open>Tx_Routes\<close>: the shown form of a transaction, the websocket subscriptions, and
      the routes that insert, cancel, retry and show transactions.
    \<^item> \<open>Auth_Middleware\<close>, \<open>Auth_Properties\<close>: \<open>server/middleware/auth.ts\<close> with the hooks of engine mode, rate
      limit and admin password, tokens, permissions and key pairs, and the routes that change them.
    \<^item> \<open>Cors_Middleware\<close>: \<open>server/middleware/cors\<close>. \<open>Engine_Config\<close>, \<open>Config_Routes\<close>,
      \<open>Config_Properties\<close>: the row of the configuration, its parsed form and cache, and the routes that change it.
    \<^item> \<open>Contract_Tables\<close>, \<open>Chain_Indexer\<close>, \<open>Index_Workers\<close>, \<open>Contract_Routes\<close>: the tables of contract
      subscriptions, logs and receipts with their cursors, the indexers and their manager, the two
      workers, and the routes of subscriptions, logs, receipts and webhooks.
    \<^item> \<open>Route_Schema\<close>, \<open>Shared_Schemas\<close>, \<open>Service_Routes\<close>, \<open>Route_Table\<close>: the schemas of the requests and
      replies as values, a validator as a locale, the routes of the engine, and the table of all routes.
    \<^item> \<open>Sdk_Access\<close>: wallets, SDK instances and contracts with their caches; the thirdweb SDK is a record of
      functions. \<open>Account_Routes\<close>, \<open>Erc20_Routes\<close>, \<open>Erc721_Routes\<close>, \<open>Erc1155_Routes\<close>, \<open>Marketplace_Routes\<close>,
      \<open>Contract_Api_Routes\<close>, \<open>Deploy_Routes\<close>: each route of \<open>server/routes/contract\<close> and
      \<open>server/routes/deploy\<close> as its schemas and its handler. \<open>Handler_Logic\<close>, \<open>Sdk_Properties\<close>: a small logic of
      handlers (quiet, reads only, repeatable), and what holds of all of them.
    \<^item> \<open>Relayer_Routes\<close>, \<open>Relayer_Properties\<close>: the relayers with the JSON of their columns. \<open>Wallet_Routes\<close>,
      \<open>Wallet_Properties\<close>: the table of wallet details, the encrypted storage of local wallets, and the routes of
      the backend wallets. \<open>Chain_Routes\<close>: chains, receipts, health and queue status.

  A definition has the name of the function of the source where it can. A handler takes the
  environment and the parsed request and answers the body of its 200 reply, or the error that the error handler turns
  into a reply; an early reply of another status is a pair of status and body.

  \<^bold>\<open>What is shown.\<close> The nonce operations refine the abstract pool, and no history of
  operations hands out a nonce that is in flight as long as the counter is at least 1; whatever the RPC
  node answers, a submission loses no nonce; a queued transaction ends as errored or as sent with
  a mine job; a receipt makes it mined and frees its nonce; a timeout recycles the nonce; an
  insertion is idempotent; a cancelled transaction is not sent; the store gives back what was
  stored. A request that the authentication lets pass has a reason to; a revoked token is refused at once; the rate limit
  is exact. The indexer leaves no gap whatever the nodes answer; following the cursors of the logs
  ends and shows every log; a log is announced once. The origins a reply names are those of the
  configuration; the required origins stay under every change; the columns of the key services
  keep their types. The handlers of all contract routes read nothing but what their schemas declare
  (with one exception that the theorem names), those that read a contract change nothing, and those that queue a
  transaction queue nothing for a known idempotency key. A relay obeys the allow lists of its relayer; the rows of
  the wallets keep the columns of their type; a created wallet can sign. A migration run moves a transaction of the
  old database only when its row can be converted, and within its limits all such. Where the code does not do what it means to, a
  theorem states what it does: the nonce 0 that is handed out twice and that is never migrated, the wallet that signs after it was
  removed, the english auctions that ignore the idempotency key, and others.

  \<^bold>\<open>Bounds.\<close> Redis integers are kept in 64 bits: \<open>INCR\<close> fails on overflow, and properties that
  need it assume the counter below \<open>2 ^ 63\<close>. JavaScript numbers that hold nonces, chain ids and
  times are mathematical integers, with \<open>NaN\<close> as a value of its own; they are exact below 53 bits.
  No fuel is used: every loop of the code runs over a list or to a bound, and the definitions are
  total. The client that pages through logs is a recursion whose termination is one of the properties.

  \<^bold>\<open>What is not modelled.\<close> BullMQ (a job added is an effect; the handlers are run by the theorems),
  Fastify's routing and the content of Ajv's string formats, the thirdweb SDK, RPC nodes and key management
  services (parameters that may answer anything), the SQL of Postgres beyond the interface of a table, node-cron, logging,
  tracing, metrics registries (\<open>utils/prometheus.ts\<close>), the OpenAPI pages, the listeners of database
  notifications (\<open>worker/listeners\<close>, \<open>server/listeners\<close>), the route that issues an access token, the parsing of the environment
  (\<open>utils/env.ts\<close>) and the wiring of \<open>index.ts\<close> and \<open>server/index.ts\<close>. One run of a handler is one sequence
  of commands; commands of different handlers do not interleave within a run, save in the indexer, whose
  property is over all interleavings of its tasks.
\<close>

end
